(* ===== verification/Prelude.thy ===== *)
theory Prelude
  imports Complex_Main "HOL-Library.List_Lexorder" "HOL-Library.Sublist"
begin

section \<open>Prelude: Python text, exceptions, results and store operations\<close>

text \<open>
  What every component of the model shares.

  \<^item> Python text is a list of Unicode code points, \<open>pstr\<close>; \<open>lit\<close> turns an
    Isabelle literal into one, and the simplifier compares literals without unfolding it.
  \<^item> Python exceptions are values of \<open>exn\<close>, one constructor per class the code raises.
    Messages are not modelled.
  \<^item> A function that may raise returns \<open>exn + 'a\<close>, sequenced with \<open>rbind\<close> and
    \<open>require\<close>.
  \<^item> A method that reads or writes the database is an \<open>op\<close>: it takes the state and
    returns a result together with the state it leaves behind, also when it raises.
  \<^item> The locale \<open>step_relation\<close> is the contract of a fact that holds between the states
    before and after an operation (an invariant kept, a log extended): it is reflexive and
    transitive, and \<open>keeps\<close> then composes along the operation combinators.
\<close>

subsection \<open>Text\<close>

type_synonym pstr = "nat list"

definition lit :: "string \<Rightarrow> pstr" where
  "lit s = map of_char s"

lemma lit_eq_iff [simp]: "lit s = lit t \<longleftrightarrow> s = t"
  by (simp add: lit_def inj_map_eq_map inj_def)

lemma lit_append: "lit (s @ t) = lit s @ lit t"
  by (simp add: lit_def)

lemma lit_eq_Nil [simp]: "lit s = [] \<longleftrightarrow> s = []" "[] = lit s \<longleftrightarrow> s = []"
  by (auto simp: lit_def)

lemma length_lit [simp]: "length (lit s) = length s"
  by (simp add: lit_def)

lemma lit_Nil [simp]: "lit [] = []"
  by (simp add: lit_def)

lemma lit_Cons: "lit (c # s) = of_char c # lit s"
  by (simp add: lit_def)

lemma lit_mem_image: "lit s \<in> lit ` A \<longleftrightarrow> s \<in> A"
  by (auto simp: image_iff)

lemma lit_in_set_map: "lit s \<in> set (map lit xs) \<longleftrightarrow> s \<in> set xs"
  by (auto simp: image_iff)

subsection \<open>Exceptions\<close>

datatype exn =
    ValueError
  | TypeError
  | KeyError
  | AttributeError
  | PermissionError
  | RuntimeError
  | OverflowError
  | UnicodeEncodeError
  | IntegrityError
  | DuplicateEventError pstr
  | PayloadMismatchError
  | EvidenceIntegrityError
  | EventPayloadIntegrityError
  | AnchorExportError
  | TraversalBudgetExceeded
  | ResolutionInputError
  | UnregisteredKeyError
  | WebhookError
  | WebhookPayloadError
  | ProcessorProjectionCompatibilityError
  | ResumeTaskScopeError

text \<open>What an \<open>except (TypeError, ValueError, OverflowError, RecursionError)\<close> clause
  catches, with the subclasses of \<open>ValueError\<close> that the code raises.\<close>

definition value_like :: "exn \<Rightarrow> bool" where
  "value_like e \<longleftrightarrow> e \<in> {ValueError, TypeError, OverflowError, UnicodeEncodeError, ResolutionInputError,
     ProcessorProjectionCompatibilityError, ResumeTaskScopeError}"

subsection \<open>Results\<close>

definition rbind :: "'e + 'a \<Rightarrow> ('a \<Rightarrow> 'e + 'b) \<Rightarrow> 'e + 'b" where
  "rbind m f = (case m of Inl e \<Rightarrow> Inl e | Inr x \<Rightarrow> f x)"

definition require :: "bool \<Rightarrow> exn \<Rightarrow> exn + 'b \<Rightarrow> exn + 'b" where
  "require c e k = (if c then k else Inl e)"

lemma rbind_simps [simp]:
  "rbind (Inl e) f = Inl e" "rbind (Inr x) f = f x"
  by (simp_all add: rbind_def)

lemma rbind_eq_Inr [simp]: "rbind m f = Inr y \<longleftrightarrow> (\<exists>x. m = Inr x \<and> f x = Inr y)"
  by (cases m) auto

lemma rbind_eq_Inl: "rbind m f = Inl e \<longleftrightarrow> m = Inl e \<or> (\<exists>x. m = Inr x \<and> f x = Inl e)"
  by (cases m) auto

lemma require_simps [simp]:
  "require True e k = k" "require False e k = Inl e"
  by (simp_all add: require_def)

lemma require_eq_Inr [simp]: "require c e k = Inr y \<longleftrightarrow> c \<and> k = Inr y"
  by (simp add: require_def)

lemma require_eq_Inl: "require c e k = Inl e' \<longleftrightarrow> (\<not> c \<and> e' = e) \<or> (c \<and> k = Inl e')"
  by (auto simp: require_def)

text \<open>\<open>[f(x) for x in xs]\<close> where \<open>f\<close> may raise: the first exception wins.\<close>

fun rmap :: "('a \<Rightarrow> 'e + 'b) \<Rightarrow> 'a list \<Rightarrow> 'e + 'b list" where
  "rmap f [] = Inr []"
| "rmap f (x # xs) = rbind (f x) (\<lambda>y. rbind (rmap f xs) (\<lambda>ys. Inr (y # ys)))"

lemma rmap_cong [fundef_cong]:
  assumes "xs = ys" and "\<And>x. x \<in> set ys \<Longrightarrow> f x = g x"
  shows "rmap f xs = rmap g ys"
  unfolding assms(1) using assms(2) by (induction ys) auto

lemma rmap_eq_Inr: "rmap f xs = Inr ys \<longleftrightarrow> list_all2 (\<lambda>x y. f x = Inr y) xs ys"
  by (induction xs arbitrary: ys) (auto simp: list_all2_Cons1)

lemma length_rmap: "rmap f xs = Inr ys \<Longrightarrow> length ys = length xs"
  by (auto simp: rmap_eq_Inr dest: list_all2_lengthD)

lemma rmap_mem: "rmap f xs = Inr ys \<Longrightarrow> x \<in> set xs \<Longrightarrow> \<exists>y. f x = Inr y"
  by (induction xs arbitrary: ys) auto

lemma rmap_all_Inr: "(\<And>x. x \<in> set xs \<Longrightarrow> f x = Inr (g x)) \<Longrightarrow> rmap f xs = Inr (map g xs)"
  by (induction xs) auto

text \<open>A sequence of checks: the first that fails raises.\<close>

definition guard :: "bool \<Rightarrow> exn \<Rightarrow> exn + unit" where
  "guard c e = (if c then Inr () else Inl e)"

fun checks :: "(exn + unit) list \<Rightarrow> exn + unit" where
  "checks [] = Inr ()"
| "checks (c # cs) = rbind c (\<lambda>_. checks cs)"

lemma guard_simps [simp]: "guard True e = Inr ()" "guard False e = Inl e"
  by (simp_all add: guard_def)

lemma guard_eq_Inr [simp]: "guard c e = Inr u \<longleftrightarrow> c"
  by (simp add: guard_def)

lemma guard_eq_Inl: "guard c e = Inl e' \<longleftrightarrow> \<not> c \<and> e' = e"
  by (auto simp: guard_def)

lemma checks_eq_Inr: "checks cs = Inr u \<longleftrightarrow> (\<forall>c \<in> set cs. c = Inr ())"
  by (induction cs) auto

text \<open>\<open>try: ... except E: ...\<close> around a computation without state.\<close>

definition rcatch :: "exn + 'a \<Rightarrow> (exn \<Rightarrow> bool) \<Rightarrow> (exn \<Rightarrow> exn + 'a) \<Rightarrow> exn + 'a" where
  "rcatch m p h = (case m of Inl e \<Rightarrow> if p e then h e else Inl e | Inr x \<Rightarrow> Inr x)"

lemma rcatch_simps [simp]:
  "rcatch (Inr x) p h = Inr x"
  "p e \<Longrightarrow> rcatch (Inl e) p h = h e"
  "\<not> p e \<Longrightarrow> rcatch (Inl e) p h = Inl e"
  by (simp_all add: rcatch_def)

subsection \<open>Operations on the database state\<close>

type_synonym ('s, 'a) op = "'s \<Rightarrow> (exn + 'a) \<times> 's"

definition ret :: "'a \<Rightarrow> ('s, 'a) op" where
  "ret x = (\<lambda>s. (Inr x, s))"

definition fail :: "exn \<Rightarrow> ('s, 'a) op" where
  "fail e = (\<lambda>s. (Inl e, s))"

definition bnd :: "('s, 'a) op \<Rightarrow> ('a \<Rightarrow> ('s, 'b) op) \<Rightarrow> ('s, 'b) op" where
  "bnd m k = (\<lambda>s. case m s of (Inl e, t) \<Rightarrow> (Inl e, t) | (Inr x, t) \<Rightarrow> k x t)"

definition rd :: "('s \<Rightarrow> 'a) \<Rightarrow> ('s, 'a) op" where
  "rd f = (\<lambda>s. (Inr (f s), s))"

definition wr :: "('s \<Rightarrow> 's) \<Rightarrow> ('s, unit) op" where
  "wr f = (\<lambda>s. (Inr (), f s))"

definition lift :: "exn + 'a \<Rightarrow> ('s, 'a) op" where
  "lift r = (\<lambda>s. (r, s))"

definition chk :: "bool \<Rightarrow> exn \<Rightarrow> ('s, unit) op" where
  "chk c e = (\<lambda>s. (if c then Inr () else Inl e, s))"

definition catch :: "('s, 'a) op \<Rightarrow> (exn \<Rightarrow> bool) \<Rightarrow> (exn \<Rightarrow> ('s, 'a) op) \<Rightarrow> ('s, 'a) op" where
  "catch m p h = (\<lambda>s. case m s of
     (Inl e, t) \<Rightarrow> if p e then h e t else (Inl e, t) | (Inr x, t) \<Rightarrow> (Inr x, t))"

fun for_each :: "'a list \<Rightarrow> ('a \<Rightarrow> ('s, unit) op) \<Rightarrow> ('s, unit) op" where
  "for_each [] f = ret ()"
| "for_each (x # xs) f = bnd (f x) (\<lambda>_. for_each xs f)"

fun map_each :: "'a list \<Rightarrow> ('a \<Rightarrow> ('s, 'b) op) \<Rightarrow> ('s, 'b list) op" where
  "map_each [] f = ret []"
| "map_each (x # xs) f = bnd (f x) (\<lambda>y. bnd (map_each xs f) (\<lambda>ys. ret (y # ys)))"

named_theorems op_simps \<open>how the operation combinators run\<close>

lemma ret_run [op_simps]: "ret x s = (Inr x, s)"
  by (simp add: ret_def)

lemma fail_run [op_simps]: "fail e s = (Inl e, s)"
  by (simp add: fail_def)

lemma rd_run [op_simps]: "rd f s = (Inr (f s), s)"
  by (simp add: rd_def)

lemma wr_run [op_simps]: "wr f s = (Inr (), f s)"
  by (simp add: wr_def)

lemma lift_run [op_simps]: "lift r s = (r, s)"
  by (simp add: lift_def)

lemma chk_run [op_simps]: "chk c e s = (if c then Inr () else Inl e, s)"
  by (simp add: chk_def)

lemma bnd_run_Inl [op_simps]: "m s = (Inl e, t) \<Longrightarrow> bnd m k s = (Inl e, t)"
  by (simp add: bnd_def)

lemma bnd_run_Inr [op_simps]: "m s = (Inr x, t) \<Longrightarrow> bnd m k s = k x t"
  by (simp add: bnd_def)

lemma bnd_rd [op_simps]: "bnd (rd f) k s = k (f s) s"
  by (simp add: bnd_def rd_def)

lemma bnd_wr [op_simps]: "bnd (wr f) k s = k () (f s)"
  by (simp add: bnd_def wr_def)

lemma bnd_ret [op_simps]: "bnd (ret x) k s = k x s"
  by (simp add: bnd_def ret_def)

lemma bnd_fail [op_simps]: "bnd (fail e) k s = (Inl e, s)"
  by (simp add: bnd_def fail_def)

lemma bnd_lift [op_simps]:
  "bnd (lift r) k s = (case r of Inl e \<Rightarrow> (Inl e, s) | Inr x \<Rightarrow> k x s)"
  by (simp add: bnd_def lift_def split: sum.split)

lemma bnd_chk [op_simps]: "bnd (chk c e) k s = (if c then k () s else (Inl e, s))"
  by (simp add: bnd_def chk_def)

lemma bnd_eq_Inr: "bnd m k s = (Inr y, u) \<longleftrightarrow> (\<exists>x t. m s = (Inr x, t) \<and> k x t = (Inr y, u))"
  by (auto simp: bnd_def split: prod.splits sum.splits)

lemma bnd_eq_Inl:
  "bnd m k s = (Inl e, u) \<longleftrightarrow> m s = (Inl e, u) \<or> (\<exists>x t. m s = (Inr x, t) \<and> k x t = (Inl e, u))"
  by (auto simp: bnd_def split: prod.splits sum.splits)

lemma bnd_assoc: "bnd (bnd m k) l = bnd m (\<lambda>x. bnd (k x) l)"
  by (auto simp: bnd_def fun_eq_iff split: prod.splits sum.splits)

text \<open>The unconditional ones, to run an operation step by step.\<close>

lemmas run_simps = ret_run fail_run rd_run wr_run lift_run chk_run
  bnd_rd bnd_wr bnd_ret bnd_fail bnd_lift bnd_chk bnd_assoc

subsection \<open>Facts that an operation keeps\<close>

definition keeps :: "('s \<Rightarrow> 's \<Rightarrow> bool) \<Rightarrow> ('s, 'a) op \<Rightarrow> bool" where
  "keeps R m \<longleftrightarrow> (\<forall>s. R s (snd (m s)))"

lemma keepsI: "(\<And>s. R s (snd (m s))) \<Longrightarrow> keeps R m"
  by (simp add: keeps_def)

lemma keepsD: "keeps R m \<Longrightarrow> m s = (r, t) \<Longrightarrow> R s t"
  unfolding keeps_def by (metis snd_conv)

named_theorems keeps_intros \<open>operations and combinators that keep a step relation\<close>

lemma keeps_bnd_rd [keeps_intros]:
  "(\<And>x. keeps R (k x)) \<Longrightarrow> keeps R (bnd (rd f) k)"
  by (simp add: keeps_def bnd_def rd_def)

lemma keeps_bnd_ret: "keeps R (k x) \<Longrightarrow> keeps R (bnd (ret x) k)"
  by (simp add: keeps_def bnd_def ret_def)

lemma keeps_if [keeps_intros]:
  "(c \<Longrightarrow> keeps R m) \<Longrightarrow> (\<not> c \<Longrightarrow> keeps R n) \<Longrightarrow> keeps R (if c then m else n)"
  by simp

lemma keeps_case_option [keeps_intros]:
  "keeps R m \<Longrightarrow> (\<And>x. keeps R (f x)) \<Longrightarrow> keeps R (case v of None \<Rightarrow> m | Some x \<Rightarrow> f x)"
  by (simp split: option.split)

lemma keeps_case_sum [keeps_intros]:
  "(\<And>x. keeps R (f x)) \<Longrightarrow> (\<And>x. keeps R (g x)) \<Longrightarrow> keeps R (case v of Inl x \<Rightarrow> f x | Inr x \<Rightarrow> g x)"
  by (simp split: sum.split)

lemma keeps_case_prod [keeps_intros]:
  "(\<And>x y. keeps R (f x y)) \<Longrightarrow> keeps R (case v of (x, y) \<Rightarrow> f x y)"
  by (simp split: prod.split)

lemma keeps_Let [keeps_intros]:
  "(\<And>x. keeps R (f x)) \<Longrightarrow> keeps R (let x = v in f x)"
  by (simp add: Let_def)

locale step_relation =
  fixes R :: "'s \<Rightarrow> 's \<Rightarrow> bool"
  assumes R_refl: "R s s"
    and R_trans: "R s t \<Longrightarrow> R t u \<Longrightarrow> R s u"
begin

lemma keeps_ret [keeps_intros]: "keeps R (ret x)"
  by (simp add: keeps_def ret_def R_refl)

lemma keeps_fail [keeps_intros]: "keeps R (fail e)"
  by (simp add: keeps_def fail_def R_refl)

lemma keeps_rd [keeps_intros]: "keeps R (rd f)"
  by (simp add: keeps_def rd_def R_refl)

lemma keeps_lift [keeps_intros]: "keeps R (lift r)"
  by (simp add: keeps_def lift_def R_refl)

lemma keeps_chk [keeps_intros]: "keeps R (chk c e)"
  by (simp add: keeps_def chk_def R_refl)

lemma keeps_wr: "(\<And>s. R s (f s)) \<Longrightarrow> keeps R (wr f)"
  by (simp add: keeps_def wr_def)

lemma keeps_bnd [keeps_intros]:
  assumes "keeps R m" and "\<And>x. keeps R (k x)"
  shows "keeps R (bnd m k)"
proof (rule keepsI)
  fix s
  obtain r t where mt: "m s = (r, t)" by fastforce
  have st: "R s t" using assms(1) mt by (rule keepsD)
  show "R s (snd (bnd m k s))"
  proof (cases r)
    case (Inl e)
    then show ?thesis using st mt by (simp add: bnd_def)
  next
    case (Inr x)
    obtain q u where ku: "k x t = (q, u)" by fastforce
    have "R t u" using assms(2) ku by (rule keepsD)
    then have "R s u" by (rule R_trans [OF st])
    then show ?thesis using Inr mt ku by (simp add: bnd_def)
  qed
qed

lemma keeps_catch [keeps_intros]:
  assumes "keeps R m" and "\<And>e. keeps R (h e)"
  shows "keeps R (catch m p h)"
proof (rule keepsI)
  fix s
  obtain r t where mt: "m s = (r, t)" by fastforce
  have st: "R s t" using assms(1) mt by (rule keepsD)
  show "R s (snd (catch m p h s))"
  proof (cases r)
    case (Inl e)
    obtain q u where hu: "h e t = (q, u)" by fastforce
    have "R t u" using assms(2) hu by (rule keepsD)
    then have "R s u" by (rule R_trans [OF st])
    then show ?thesis using Inl st mt hu by (simp add: catch_def)
  next
    case (Inr x)
    then show ?thesis using st mt by (simp add: catch_def)
  qed
qed

lemma keeps_for_each [keeps_intros]: "(\<And>x. keeps R (f x)) \<Longrightarrow> keeps R (for_each xs f)"
  by (induction xs) (simp_all add: keeps_ret keeps_bnd)

lemma keeps_map_each [keeps_intros]: "(\<And>x. keeps R (f x)) \<Longrightarrow> keeps R (map_each xs f)"
  by (induction xs) (simp_all add: keeps_ret keeps_bnd)

end

text \<open>The commonest step relation: an invariant, carried from the state before to the one
  after.\<close>

definition kept :: "('s \<Rightarrow> bool) \<Rightarrow> 's \<Rightarrow> 's \<Rightarrow> bool" where
  "kept P s t \<longleftrightarrow> (P s \<longrightarrow> P t)"

interpretation kept: step_relation "kept P" for P
  by unfold_locales (auto simp: kept_def)

text \<open>And the relation of an operation that only reads.\<close>

interpretation same: step_relation "(=)"
  by unfold_locales auto

lemma keeps_eqD: "keeps (=) m \<Longrightarrow> snd (m s) = s"
  by (simp add: keeps_def)

subsection \<open>Lists\<close>

text \<open>\<open>sorted(set(xs))\<close> on strings, which Python compares by code points.\<close>

definition sorted_set :: "pstr list \<Rightarrow> pstr list" where
  "sorted_set xs = sort (remdups xs)"

lemma sorted_wrt_snoc: "sorted_wrt P (xs @ [x]) \<longleftrightarrow> sorted_wrt P xs \<and> (\<forall>y \<in> set xs. P y x)"
  by (simp add: sorted_wrt_append)

lemma filter_eq_singleton_unique:
  assumes "filter P xs = [x]" and "y \<in> set xs" and "P y"
  shows "y = x"
proof -
  have "y \<in> set (filter P xs)" using assms(2,3) by simp
  then show ?thesis using assms(1) by simp
qed

end
