(* ===== verification/Binary64.thy ===== *)
theory Binary64
  imports Prelude
begin

section \<open>Python floats: IEEE-754 binary64 over the rationals\<close>

text \<open>
  The part of Python's \<open>float\<close> that the engine uses: construction from an integer,
  multiplication, comparison, \<open>round(x, 4)\<close> and \<open>repr\<close>. A finite float is the
  rational number it denotes, \<open>Fin r\<close>, and every operation rounds its exact result
  with \<open>rnd64\<close> (round to nearest, ties to even, 53 significand bits, gradual
  underflow). The two zeros are one value: nothing in the code tells them apart.
\<close>

subsection \<open>Powers of two and of ten\<close>

definition two_pow :: "int \<Rightarrow> rat" where
  "two_pow e = (if 0 \<le> e then 2 ^ nat e else 1 / 2 ^ nat (- e))"

definition ten_pow :: "int \<Rightarrow> rat" where
  "ten_pow e = (if 0 \<le> e then 10 ^ nat e else 1 / 10 ^ nat (- e))"

fun bitlen :: "nat \<Rightarrow> nat" where
  "bitlen n = (if n = 0 then 0 else Suc (bitlen (n div 2)))"

declare bitlen.simps [simp del]

text \<open>The binary exponent of a positive rational: \<open>2 ^ e \<le> r < 2 ^ (e + 1)\<close>.\<close>

definition ilog2 :: "rat \<Rightarrow> int" where
  "ilog2 r = (let (p, q) = quotient_of r; e = int (bitlen (nat p)) - int (bitlen (nat q))
     in if two_pow e \<le> r then e else e - 1)"

subsection \<open>Rounding\<close>

definition round_half_even :: "rat \<Rightarrow> int" where
  "round_half_even r = (let f = \<lfloor>r\<rfloor>; d = r - of_int f
     in if d < 1/2 then f else if 1/2 < d then f + 1 else if even f then f else f + 1)"

definition rnd64 :: "rat \<Rightarrow> rat" where
  "rnd64 r = (if r = 0 then 0
     else let u = two_pow (max (ilog2 \<bar>r\<bar>) (- 1022) - 52)
          in of_int (round_half_even (r / u)) * u)"

text \<open>The rationals that are binary64 numbers.\<close>

definition is_binary64 :: "rat \<Rightarrow> bool" where
  "is_binary64 r \<longleftrightarrow> rnd64 r = r \<and> \<bar>r\<bar> < two_pow 1024"

datatype pyfloat = Fin rat | PInf | NInf | NaN

definition fl :: "rat \<Rightarrow> pyfloat" where
  "fl r = (let v = rnd64 r in
     if two_pow 1024 \<le> v then PInf else if v \<le> - two_pow 1024 then NInf else Fin v)"

text \<open>\<open>math.isfinite\<close>\<close>

fun isfinite :: "pyfloat \<Rightarrow> bool" where
  "isfinite (Fin r) = True"
| "isfinite _ = False"

text \<open>The product of two finite floats, as the rational it denotes.\<close>

definition fmul :: "rat \<Rightarrow> rat \<Rightarrow> rat" where
  "fmul x y = rnd64 (x * y)"

text \<open>\<open>round(x, 4)\<close>: the correctly rounded decimal, read back as a float.\<close>

definition round4 :: "rat \<Rightarrow> rat" where
  "round4 x = rnd64 (of_int (round_half_even (x * 10000)) / 10000)"

subsection \<open>Facts about the binary exponent\<close>

lemma two_pow_pos [simp]: "0 < two_pow e"
  by (simp add: two_pow_def)

lemma two_pow_nonneg [simp]: "0 \<le> two_pow e"
  by (simp add: less_imp_le)

lemma two_pow_0 [simp]: "two_pow 0 = 1"
  by (simp add: two_pow_def)

lemma two_pow_diff: "two_pow (int a - int b) = 2 ^ a / 2 ^ b"
proof (cases "b \<le> a")
  case True
  then have "two_pow (int a - int b) = 2 ^ (a - b)"
    by (simp add: two_pow_def flip: of_nat_diff)
  with True show ?thesis by (simp add: power_diff)
next
  case False
  then have "two_pow (int a - int b) = 1 / 2 ^ (b - a)"
    by (simp add: two_pow_def nat_diff_distrib' flip: of_nat_diff)
  with False show ?thesis by (simp add: power_diff)
qed

lemma int_as_diff: "\<exists>a b. e = int a - int b"
  by (metis add_diff_cancel_right' diff_zero int_diff_cases)

lemma two_pow_add: "two_pow (a + b) = two_pow a * two_pow b"
proof -
  obtain a1 a2 b1 b2 where ab: "a = int a1 - int a2" "b = int b1 - int b2"
    using int_as_diff by meson
  have "a + b = int (a1 + b1) - int (a2 + b2)" using ab by simp
  then have "two_pow (a + b) = 2 ^ (a1 + b1) / 2 ^ (a2 + b2)" by (metis two_pow_diff)
  with ab show ?thesis by (simp add: two_pow_diff power_add)
qed

lemma two_pow_mono: "a \<le> b \<Longrightarrow> two_pow a \<le> two_pow b"
proof -
  assume "a \<le> b"
  then have "two_pow b = two_pow a * two_pow (b - a)" by (simp flip: two_pow_add)
  moreover have "1 \<le> two_pow (b - a)" using \<open>a \<le> b\<close> by (simp add: two_pow_def)
  ultimately show ?thesis by simp
qed

lemma two_pow_less_iff: "two_pow a < two_pow b \<longleftrightarrow> a < b"
proof
  assume "two_pow a < two_pow b"
  then show "a < b" using two_pow_mono [of b a] by linarith
next
  assume "a < b"
  have "two_pow (a + 1) \<le> two_pow b" using \<open>a < b\<close> by (intro two_pow_mono) simp
  moreover have "two_pow a < two_pow (a + 1)" by (simp add: two_pow_add) (simp add: two_pow_def)
  ultimately show "two_pow a < two_pow b" by simp
qed

lemma bitlen_bounds: "0 < n \<Longrightarrow> 2 ^ (bitlen n - 1) \<le> n \<and> n < 2 ^ bitlen n \<and> 0 < bitlen n"
proof (induction n rule: bitlen.induct)
  case (1 n)
  show ?case
  proof (cases "n = 1")
    case True
    then show ?thesis by (simp add: bitlen.simps)
  next
    case False
    with "1.prems" have half: "0 < n div 2" by simp
    define b where "b = bitlen (n div 2)"
    have IH: "2 ^ (b - 1) \<le> n div 2" "n div 2 < 2 ^ b" "0 < b"
      using "1.IH" "1.prems" half by (auto simp: b_def)
    have eq: "bitlen n = Suc b" using "1.prems" by (simp add: bitlen.simps [of n] b_def)
    have pow: "(2::nat) ^ b = 2 * 2 ^ (b - 1)" using IH(3) by (cases b) simp_all
    have "n < 2 ^ Suc b" using IH(2) by simp
    moreover have "2 ^ b \<le> n" using IH(1) by (simp add: pow)
    ultimately show ?thesis by (simp add: eq)
  qed
qed

lemma bitlen_rat:
  assumes "0 < p"
  shows "2 ^ (bitlen (nat p) - 1) \<le> (of_int p :: rat) \<and> (of_int p :: rat) < 2 ^ bitlen (nat p)"
proof -
  define n where "n = nat p"
  have p: "(of_int p :: rat) = of_nat n" using assms by (simp add: n_def)
  have "2 ^ (bitlen n - 1) \<le> n" "n < 2 ^ bitlen n"
    using bitlen_bounds [of n] assms by (auto simp: n_def)
  then have "of_nat (2 ^ (bitlen n - 1)) \<le> (of_nat n :: rat)" "(of_nat n :: rat) < of_nat (2 ^ bitlen n)"
    by (simp_all only: of_nat_le_iff of_nat_less_iff)
  then show ?thesis unfolding p by (simp add: n_def)
qed

lemma ilog2_bounds:
  assumes "0 < r"
  shows "two_pow (ilog2 r) \<le> r" and "r < two_pow (ilog2 r + 1)"
proof -
  obtain p q where pq: "quotient_of r = (p, q)" by fastforce
  have q: "0 < q" using pq by (rule quotient_of_denom_pos)
  have r: "r = of_int p / of_int q" using pq by (rule quotient_of_div)
  then have p: "0 < p" using assms q by (simp add: zero_less_divide_iff)
  define a b where "a = bitlen (nat p)" and "b = bitlen (nat q)"
  define e where "e = int a - int b"
  have ab: "0 < a" "0 < b"
    using bitlen_bounds p q by (auto simp: a_def b_def)
  have ar: "2 ^ (a - 1) \<le> (of_int p :: rat)" "(of_int p :: rat) < 2 ^ a"
    using bitlen_rat [OF p] by (auto simp: a_def)
  have br: "2 ^ (b - 1) \<le> (of_int q :: rat)" "(of_int q :: rat) < 2 ^ b"
    using bitlen_rat [OF q] by (auto simp: b_def)
  have qr: "(0::rat) < of_int q" "(0::rat) < of_int p" using p q by simp_all
  have ae: "(2::rat) ^ a = 2 * 2 ^ (a - 1)" "(2::rat) ^ b = 2 * 2 ^ (b - 1)"
    using ab by (simp_all flip: power_Suc)
  have "r < 2 ^ a / 2 ^ (b - 1)"
    unfolding r using ar br qr by (intro frac_less) (auto simp: less_imp_le)
  then have hi: "r < two_pow (e + 1)"
    using ae(2) by (simp add: two_pow_add e_def two_pow_diff) (simp add: two_pow_def field_simps)
  have "2 ^ (a - 1) / 2 ^ b \<le> r"
    unfolding r using ar br qr by (intro frac_le) (auto simp: less_imp_le)
  then have lo: "two_pow (e - 1) \<le> r"
    using ae(1) two_pow_add [of e "-1"]
    by (simp add: e_def two_pow_diff) (simp add: two_pow_def field_simps)
  have il: "ilog2 r = (if two_pow e \<le> r then e else e - 1)"
    by (simp add: ilog2_def pq e_def a_def b_def)
  show "two_pow (ilog2 r) \<le> r" using lo by (simp add: il)
  show "r < two_pow (ilog2 r + 1)" using hi by (simp add: il)
qed

lemma ilog2_nonpos: "0 < r \<Longrightarrow> r \<le> 1 \<Longrightarrow> ilog2 r \<le> 0"
  using ilog2_bounds(1) [of r] two_pow_less_iff [of 0 "ilog2 r"] by fastforce

subsection \<open>Rounding stays in the unit interval\<close>

lemma round_half_even_le: "r \<le> of_int n \<Longrightarrow> round_half_even r \<le> n"
proof -
  assume r: "r \<le> of_int n"
  then have f: "\<lfloor>r\<rfloor> \<le> n" by (simp add: floor_le_iff) 
  show ?thesis
  proof (cases "\<lfloor>r\<rfloor> = n")
    case True
    with r have "r = of_int n" using of_int_floor_le [of r] by simp
    then show ?thesis by (simp add: round_half_even_def)
  next
    case False
    with f have "\<lfloor>r\<rfloor> + 1 \<le> n" by simp
    then show ?thesis by (simp add: round_half_even_def Let_def)
  qed
qed

lemma round_half_even_nonneg: "0 \<le> r \<Longrightarrow> 0 \<le> round_half_even r"
  by (simp add: round_half_even_def Let_def)

lemma rnd64_nonneg: "0 \<le> r \<Longrightarrow> 0 \<le> rnd64 r"
  by (simp add: rnd64_def Let_def round_half_even_nonneg)

lemma rnd64_le_1:
  assumes "0 \<le> r" and "r \<le> 1"
  shows "rnd64 r \<le> 1"
proof (cases "r = 0")
  case True
  then show ?thesis by (simp add: rnd64_def)
next
  case False
  define e where "e = max (ilog2 r) (- 1022) - 52"
  have "ilog2 r \<le> 0" using False assms by (intro ilog2_nonpos) auto
  then have e: "e \<le> 0" by (simp add: e_def)
  define N :: int where "N = 2 ^ nat (- e)"
  have N: "of_int N * two_pow e = 1" using e by (auto simp: N_def two_pow_def)
  have pos: "0 < two_pow e" by simp
  have "r / two_pow e \<le> of_int N"
    using assms(2) N pos by (simp add: pos_divide_le_eq)
  then have "round_half_even (r / two_pow e) \<le> N" by (rule round_half_even_le)
  then have "of_int (round_half_even (r / two_pow e)) * two_pow e \<le> of_int N * two_pow e"
    by (intro mult_right_mono) auto
  also have "\<dots> = 1" by (rule N)
  finally have "of_int (round_half_even (r / two_pow e)) * two_pow e \<le> 1" .
  moreover have "rnd64 r = of_int (round_half_even (r / two_pow e)) * two_pow e"
    using False assms(1) by (simp add: rnd64_def e_def Let_def)
  ultimately show ?thesis by simp
qed

lemma rnd64_0 [simp]: "rnd64 0 = 0"
  by (simp add: rnd64_def)

lemma fmul_unit: "0 \<le> x \<Longrightarrow> x \<le> 1 \<Longrightarrow> 0 \<le> y \<Longrightarrow> y \<le> 1 \<Longrightarrow> 0 \<le> fmul x y \<and> fmul x y \<le> 1"
  by (simp add: fmul_def rnd64_nonneg rnd64_le_1 mult_le_one)

subsection \<open>Integers, signs and the grid\<close>

lemma round_half_even_of_int [simp]: "round_half_even (of_int n) = n"
  by (simp add: round_half_even_def Let_def)

lemma round_half_even_uminus: "round_half_even (- r) = - round_half_even r"
proof (cases "r \<in> \<int>")
  case True
  then obtain n where "r = of_int n" by (auto elim: Ints_cases)
  then show ?thesis using round_half_even_of_int [of "- n"] by simp
next
  case False
  then have c: "\<lfloor>- r\<rfloor> = - \<lfloor>r\<rfloor> - 1" by (simp add: floor_minus ceiling_altdef Ints_def)  (metis Ints_of_int False)
  show ?thesis
    unfolding round_half_even_def Let_def c by (auto simp: algebra_simps)
qed

lemma rnd64_uminus: "rnd64 (- r) = - rnd64 r"
  by (simp add: rnd64_def Let_def round_half_even_uminus)

lemma rnd64_grid: "\<exists>n e. rnd64 r = of_int n * two_pow e \<and> - 1074 \<le> e"
proof (cases "r = 0")
  case True
  then show ?thesis by (intro exI [of _ 0]) (auto simp: rnd64_def)
next
  case False
  then show ?thesis unfolding rnd64_def Let_def
    by (intro exI [of _ "round_half_even (r / two_pow (max (ilog2 \<bar>r\<bar>) (- 1022) - 52))"]
        exI [of _ "max (ilog2 \<bar>r\<bar>) (- 1022) - 52"]) auto
qed

lemma two_pow_of_nat: "two_pow (int n) = 2 ^ n"
  by (simp add: two_pow_def)

lemma rnd64_int:
  assumes "0 < n" and "n < 2 ^ 53"
  shows "rnd64 (of_int n) = of_int n"
proof -
  let ?r = "of_int n :: rat"
  define e where "e = max (ilog2 ?r) (- 1022) - 52"
  have r: "0 < ?r" using assms by simp
  have "two_pow (ilog2 ?r) \<le> ?r" by (rule ilog2_bounds [OF r])
  also have "of_int n < (of_int (2 ^ 53) :: rat)" using assms by (simp only: of_int_less_iff)
  also have "\<dots> = two_pow 53" by (simp add: two_pow_def)
  finally have "ilog2 ?r < 53" by (simp add: two_pow_less_iff)
  then have e: "e \<le> 0" by (simp add: e_def)
  have "?r / two_pow e = of_int (n * 2 ^ nat (- e))"
    using e by (auto simp: two_pow_def)
  then have "rnd64 ?r = of_int (n * 2 ^ nat (- e)) * two_pow e"
    using r unfolding rnd64_def by (simp add: e_def [symmetric] Let_def del: of_int_mult of_int_power)
  also have "\<dots> = ?r" using e by (auto simp: two_pow_def)
  finally show ?thesis .
qed

lemma rnd64_ge_2_53:
  assumes "2 ^ 53 \<le> r"
  shows "2 ^ 53 \<le> rnd64 r"
proof -
  define e where "e = max (ilog2 r) (- 1022) - 52"
  have r: "0 < r" using assms by (rule less_le_trans [rotated]) simp
  have "two_pow 53 \<le> r" using assms by (simp add: two_pow_def)
  then have "53 < ilog2 r + 1" using ilog2_bounds(2) [OF r] two_pow_less_iff [of 53] by fastforce
  then have e: "e = ilog2 r - 52" "1 \<le> e" by (auto simp: e_def)
  have "two_pow (ilog2 r) = 2 ^ 52 * two_pow e"
    using two_pow_add [of 52 e] by (simp add: e two_pow_def)
  then have "of_int (2 ^ 52) \<le> r / two_pow e"
    using ilog2_bounds(1) [OF r] by (simp add: pos_le_divide_eq)
  then have "2 ^ 52 \<le> \<lfloor>r / two_pow e\<rfloor>" by (simp only: le_floor_iff)
  then have "2 ^ 52 \<le> round_half_even (r / two_pow e)" by (simp add: round_half_even_def Let_def)
  then have "(of_int (2 ^ 52) :: rat) \<le> of_int (round_half_even (r / two_pow e))" by (simp only: of_int_le_iff)
  moreover have "2 \<le> two_pow e" using e two_pow_mono [of 1 e] by (simp add: two_pow_def)
  ultimately have "of_int (2 ^ 52) * 2 \<le> of_int (round_half_even (r / two_pow e)) * two_pow e"
    by (intro mult_mono) auto
  then show ?thesis using r by (simp add: rnd64_def Let_def e_def [symmetric])
qed

lemma floor_rat_numeral [simp]: "\<lfloor>(numeral a :: rat) / numeral b\<rfloor> = numeral a div numeral b"
  by (metis floor_divide_of_int_eq of_int_numeral)

lemma fl_rnd64: "rnd64 v = r \<Longrightarrow> \<bar>r\<bar> < two_pow 1024 \<Longrightarrow> fl v = Fin r"
  by (auto simp: fl_def Let_def)
lemma ilog2_eqI: "two_pow e \<le> r \<Longrightarrow> r < two_pow (e + 1) \<Longrightarrow> ilog2 r = e"
proof -
  assume a: "two_pow e \<le> r" "r < two_pow (e + 1)"
  then have r: "0 < r" by (rule_tac less_le_trans [OF two_pow_pos])
  have "two_pow e < two_pow (ilog2 r + 1)" "two_pow (ilog2 r) < two_pow (e + 1)"
    using a ilog2_bounds [OF r] by auto
  then show ?thesis by (simp add: two_pow_less_iff)
qed

lemma rnd64_at:
  assumes "two_pow e \<le> r" and "r < two_pow (e + 1)" and "- 1022 \<le> e"
  shows "rnd64 r = of_int (round_half_even (r / two_pow (e - 52))) * two_pow (e - 52)"
proof -
  have "0 < r" using assms(1) by (rule less_le_trans [OF two_pow_pos])
  then show ?thesis using ilog2_eqI [OF assms(1,2)] assms(3) by (simp add: rnd64_def Let_def max_def)
qed

subsection \<open>Rounding is monotone\<close>

lemma round_half_even_ge: "of_int n \<le> r \<Longrightarrow> n \<le> round_half_even r"
  using round_half_even_le [of "- r" "- n"] by (simp add: round_half_even_uminus)

lemma round_half_even_mono:
  assumes "x \<le> y"
  shows "round_half_even x \<le> round_half_even y"
proof (cases "\<lfloor>x\<rfloor> = \<lfloor>y\<rfloor>")
  case True
  then show ?thesis using assms by (auto simp: round_half_even_def Let_def)
next
  case False
  then have "\<lfloor>x\<rfloor> + 1 \<le> \<lfloor>y\<rfloor>" using floor_mono [OF assms] by simp
  moreover have "round_half_even x \<le> \<lfloor>x\<rfloor> + 1" by (rule round_half_even_le) linarith
  moreover have "\<lfloor>y\<rfloor> \<le> round_half_even y" by (rule round_half_even_ge) simp
  ultimately show ?thesis by linarith
qed

lemma rnd64_mono:
  assumes "0 \<le> x" and "x \<le> y"
  shows "rnd64 x \<le> rnd64 y"
proof (cases "x = 0")
  case True
  then show ?thesis using assms rnd64_nonneg by simp
next
  case False
  then have x: "0 < x" and y: "0 < y" using assms by auto
  define a b where "a = max (ilog2 x) (- 1022) - 52" and "b = max (ilog2 y) (- 1022) - 52"
  have rx: "rnd64 x = of_int (round_half_even (x / two_pow a)) * two_pow a"
    and ry: "rnd64 y = of_int (round_half_even (y / two_pow b)) * two_pow b"
    using x y by (simp_all add: rnd64_def Let_def a_def b_def)
  have bx: "two_pow (ilog2 x) \<le> x \<and> x < two_pow (ilog2 x + 1)" and "by": "two_pow (ilog2 y) \<le> y \<and> y < two_pow (ilog2 y + 1)"
    using ilog2_bounds x y by auto
  have "two_pow (ilog2 x) < two_pow (ilog2 y + 1)" using bx "by" assms(2) by linarith
  then have le: "ilog2 x \<le> ilog2 y" by (simp add: two_pow_less_iff)
  show ?thesis
  proof (cases "a = b")
    case True
    have "x / two_pow a \<le> y / two_pow a" using assms(2) by (simp add: divide_right_mono)
    then show ?thesis using round_half_even_mono by (simp add: rx ry True [symmetric])
  next
    case False
    then have ab: "a + 53 \<le> ilog2 y" "b = ilog2 y - 52" using le by (auto simp: a_def b_def max_def split: if_splits)
    have p53: "two_pow 53 = of_int (2 ^ 53)" by (simp add: two_pow_def)
    have p52: "two_pow 52 = of_int (2 ^ 52)" by (simp add: two_pow_def)
    have "x < two_pow (a + 53)"
      using bx two_pow_mono [of "ilog2 x + 1" "a + 53"] by (simp add: a_def)
    then have "x / two_pow a \<le> of_int (2 ^ 53)"
      using two_pow_pos [of a] p53 by (simp add: two_pow_add pos_divide_le_eq mult.commute)
    then have "round_half_even (x / two_pow a) \<le> 2 ^ 53" by (rule round_half_even_le)
    then have "rnd64 x \<le> two_pow 53 * two_pow a"
      unfolding rx p53 by (intro mult_right_mono) (simp_all only: of_int_le_iff two_pow_nonneg)
    also have "\<dots> \<le> two_pow (ilog2 y)" using two_pow_mono ab(1) by (simp flip: two_pow_add add: add.commute)
    also have "\<dots> = of_int (2 ^ 52) * two_pow b" using p52 two_pow_add [of 52 b] ab(2) by simp
    also have "\<dots> \<le> rnd64 y"
    proof -
      have "of_int (2 ^ 52) \<le> y / two_pow b"
        using "by" two_pow_pos [of b] two_pow_add [of 52 b] p52 ab(2) by (simp add: pos_le_divide_eq)
      then have "2 ^ 52 \<le> round_half_even (y / two_pow b)" by (rule round_half_even_ge)
      then show ?thesis unfolding ry by (intro mult_right_mono) (simp_all only: of_int_le_iff two_pow_nonneg)
    qed
    finally show ?thesis .
  qed
qed

lemma fmul_mono: "0 \<le> x \<Longrightarrow> x \<le> y \<Longrightarrow> 0 \<le> z \<Longrightarrow> fmul x z \<le> fmul y z"
  by (simp add: fmul_def rnd64_mono mult_right_mono)

lemma fmul_nonneg: "0 \<le> x \<Longrightarrow> 0 \<le> y \<Longrightarrow> 0 \<le> fmul x y"
  by (simp add: fmul_def rnd64_nonneg)

end
