(* ===== verification/PyVal.thy ===== *)
theory PyVal
  imports Binary64
begin

section \<open>Python values\<close>

text \<open>
  The objects that validators receive before their type is known, and the JSON documents
  the engine stores. A \<open>dict\<close> keeps its insertion order, as Python's does; lookup and
  update act on the first entry with the key, and the documents of the model never hold a
  key twice. \<open>PObject\<close> is any other object (a set, an instance, a function).
\<close>

datatype pyval =
    PNone
  | PBool bool
  | PInt int
  | PFloat pyfloat
  | PStr pstr
  | PBytes "nat list"
  | PList "pyval list"
  | PTuple "pyval list"
  | PDict "(pyval \<times> pyval) list"
  | PObject

text \<open>A string literal of the source as a value, the value of a nullable text column, and
  back.\<close>

abbreviation pkey :: "string \<Rightarrow> pyval" where
  "pkey s \<equiv> PStr (lit s)"

fun opt_val :: "pstr option \<Rightarrow> pyval" where
  "opt_val None = PNone"
| "opt_val (Some s) = PStr s"

fun opt_text :: "pyval \<Rightarrow> pstr option" where
  "opt_text (PStr s) = Some s"
| "opt_text _ = None"

fun text_of :: "pyval \<Rightarrow> pstr" where
  "text_of (PStr s) = s"
| "text_of _ = []"

lemma opt_text_val [simp]: "opt_text (opt_val x) = x"
  by (cases x) auto

lemma opt_val_eq_iff [simp]: "opt_val x = opt_val y \<longleftrightarrow> x = y"
  by (cases x; cases y) auto

lemma opt_val_PNone [simp]: "opt_val x = PNone \<longleftrightarrow> x = None"
  by (cases x) auto

text \<open>\<open>isinstance(v, str)\<close> and the like, on the value.\<close>

fun is_str :: "pyval \<Rightarrow> bool" where
  "is_str (PStr s) = True"
| "is_str _ = False"

fun is_dict :: "pyval \<Rightarrow> bool" where
  "is_dict (PDict d) = True"
| "is_dict _ = False"

text \<open>\<open>v is None or isinstance(v, str)\<close>, and \<open>isinstance(v, str) and v\<close>.\<close>

fun text_or_none :: "pyval \<Rightarrow> bool" where
  "text_or_none PNone = True"
| "text_or_none (PStr s) = True"
| "text_or_none _ = False"

fun nonempty_string :: "pyval \<Rightarrow> bool" where
  "nonempty_string (PStr s) = (s \<noteq> [])"
| "nonempty_string _ = False"

lemma is_strE: "is_str v \<Longrightarrow> (\<And>s. v = PStr s \<Longrightarrow> P) \<Longrightarrow> P"
  by (cases v) auto

lemma is_dictE: "is_dict v \<Longrightarrow> (\<And>d. v = PDict d \<Longrightarrow> P) \<Longrightarrow> P"
  by (cases v) auto

text \<open>What \<open>hash(v)\<close> accepts: not a list or dict, nor a tuple that holds one.\<close>

fun py_hashable :: "pyval \<Rightarrow> bool" where
  "py_hashable (PTuple vs) = list_all py_hashable vs"
| "py_hashable (PList vs) = False"
| "py_hashable (PDict d) = False"
| "py_hashable _ = True"

text \<open>The truth value of a string, list or dict in an \<open>if\<close>.\<close>

fun truthy :: "pyval \<Rightarrow> bool" where
  "truthy PNone = False"
| "truthy (PBool b) = b"
| "truthy (PInt i) = (i \<noteq> 0)"
| "truthy (PFloat x) = (x \<noteq> Fin 0)"
| "truthy (PStr s) = (s \<noteq> [])"
| "truthy (PBytes s) = (s \<noteq> [])"
| "truthy (PList s) = (s \<noteq> [])"
| "truthy (PTuple s) = (s \<noteq> [])"
| "truthy (PDict s) = (s \<noteq> [])"
| "truthy PObject = True"

text \<open>
  A number as the rational it denotes: \<open>None\<close> for anything that is not an \<open>int\<close> or a
  finite \<open>float\<close>. A \<open>bool\<close> is an \<open>int\<close> in Python, and every check that uses this
  refuses it first, as the code does with \<open>isinstance(value, bool)\<close>.
\<close>

fun number :: "pyval \<Rightarrow> rat option" where
  "number (PInt i) = Some (of_int i)"
| "number (PFloat (Fin r)) = Some r"
| "number _ = None"

text \<open>\<open>not isinstance(v, bool) and isinstance(v, (int, float)) and isfinite(v) and 0 <= v <= 1\<close>\<close>

definition unit_number :: "pyval \<Rightarrow> bool" where
  "unit_number v = (case number v of None \<Rightarrow> False | Some r \<Rightarrow> 0 \<le> r \<and> r \<le> 1)"

text \<open>What a check of that form raises for anything else: \<open>math.isfinite\<close> does not return for
  an \<open>int\<close> that is too large for a float.\<close>

definition unit_refusal :: "pyval \<Rightarrow> exn" where
  "unit_refusal v = (case v of
     PInt n \<Rightarrow> (case fl (of_int n) of Fin r \<Rightarrow> ValueError | _ \<Rightarrow> OverflowError)
   | _ \<Rightarrow> ValueError)"

text \<open>\<open>x == y\<close> on the scalars compared here: numbers by value, a bool being a number.\<close>

fun scalar_number :: "pyval \<Rightarrow> rat option" where
  "scalar_number (PBool b) = Some (if b then 1 else 0)"
| "scalar_number v = number v"

definition py_eq :: "pyval \<Rightarrow> pyval \<Rightarrow> bool" where
  "py_eq x y \<longleftrightarrow> x = y \<or> (scalar_number x \<noteq> None \<and> scalar_number x = scalar_number y)"

subsection \<open>Dictionaries\<close>

type_synonym pydict = "(pyval \<times> pyval) list"

definition dget :: "pydict \<Rightarrow> pstr \<Rightarrow> pyval option" where
  "dget d k = map_of d (PStr k)"

text \<open>\<open>d.get(k)\<close>: an absent key reads as \<open>None\<close>.\<close>

lemma dget_Nil [simp]: "dget [] s = None"
  by (simp add: dget_def)

lemma dget_Cons [simp]: "dget ((k, v) # d) s = (if k = PStr s then Some v else dget d s)"
  by (simp add: dget_def)

definition dget_none :: "pydict \<Rightarrow> pstr \<Rightarrow> pyval" where
  "dget_none d k = (case dget d k of None \<Rightarrow> PNone | Some v \<Rightarrow> v)"

fun dset :: "pydict \<Rightarrow> pyval \<Rightarrow> pyval \<Rightarrow> pydict" where
  "dset [] k v = [(k, v)]"
| "dset ((k', v') # d) k v = (if k' = k then (k, v) # d else (k', v') # dset d k v)"

text \<open>\<open>d.update(e)\<close>\<close>

definition dupdate :: "pydict \<Rightarrow> pydict \<Rightarrow> pydict" where
  "dupdate d e = foldl (\<lambda>d (k, v). dset d k v) d e"

lemma map_of_dset: "map_of (dset d k v) = (map_of d)(k \<mapsto> v)"
  by (induction d) (auto simp: fun_eq_iff)

lemma map_of_dupdate_aux: "map_of (foldl (\<lambda>d (k, v). dset d k v) d e) = map_of d ++ map_of (rev e)"
  by (induction e arbitrary: d) (auto simp: map_of_dset map_add_def fun_eq_iff split: option.splits)

lemma map_of_rev_distinct: "distinct (map fst e) \<Longrightarrow> map_of (rev e) = map_of e"
  by (metis distinct_rev map_of_inject_set rev_map set_rev)

lemma map_of_dupdate: "distinct (map fst e) \<Longrightarrow> map_of (dupdate d e) = map_of d ++ map_of e"
  by (simp add: dupdate_def map_of_dupdate_aux map_of_rev_distinct)

lemma dget_dupdate:
  "distinct (map fst e) \<Longrightarrow>
   dget (dupdate d e) k = (case dget e k of None \<Rightarrow> dget d k | Some v \<Rightarrow> Some v)"
  by (simp add: dget_def map_of_dupdate map_add_def split: option.split)

lemma keys_dset: "fst ` set (dset d k v) = insert k (fst ` set d)"
  by (induction d k v rule: dset.induct) (simp_all add: insert_commute)

lemma distinct_dset: "distinct (map fst d) \<Longrightarrow> distinct (map fst (dset d k v))"
proof (induction d)
  case (Cons a d)
  obtain k' v' where a: "a = (k', v')" by fastforce
  have "k' \<notin> fst ` set (dset d k v)" if "k' \<noteq> k"
    using that Cons.prems a by (simp add: keys_dset)
  then show ?case using Cons a by auto
qed simp

lemma distinct_dupdate: "distinct (map fst d) \<Longrightarrow> distinct (map fst (dupdate d e))"
  unfolding dupdate_def
  by (induction e arbitrary: d) (auto simp: distinct_dset)

text \<open>Documents of the model: string keys, each once.\<close>

definition wf_dict :: "pydict \<Rightarrow> bool" where
  "wf_dict d \<longleftrightarrow> distinct (map fst d) \<and> (\<forall>k \<in> set (map fst d). is_str k)"

end
