(* ===== verification/Core_Text.thy ===== *)
theory Core_Text
  imports PyVal
begin

section \<open>core.py: identifiers and display text\<close>

text \<open>
  The validators of \<open>core.py\<close> that guard every public entry point: path-segment
  identifiers, display text, repository names, and the I-JSON restriction on strings.
  Each returns its argument or raises, as the code does.
\<close>

definition is_digit :: "nat \<Rightarrow> bool" where
  "is_digit c \<longleftrightarrow> 48 \<le> c \<and> c \<le> 57"

definition is_alpha :: "nat \<Rightarrow> bool" where
  "is_alpha c \<longleftrightarrow> (65 \<le> c \<and> c \<le> 90) \<or> (97 \<le> c \<and> c \<le> 122)"

definition PUBLIC_IDENTIFIER_MAX_LENGTH :: nat where
  "PUBLIC_IDENTIFIER_MAX_LENGTH = 128"

definition PROJECT_NAME_MAX_LENGTH :: nat where
  "PROJECT_NAME_MAX_LENGTH = 256"

definition REPOSITORY_COMPONENT_MAX_LENGTH :: nat where
  "REPOSITORY_COMPONENT_MAX_LENGTH = 100"

definition REPOSITORY_NAME_MAX_LENGTH :: nat where
  "REPOSITORY_NAME_MAX_LENGTH = REPOSITORY_COMPONENT_MAX_LENGTH * 2 + 1"

text \<open>\<open>[A-Za-z0-9][A-Za-z0-9._~-]{0,127}\<close>, matched against the whole string.\<close>

definition unreserved :: "nat \<Rightarrow> bool" where
  "unreserved c \<longleftrightarrow> is_alpha c \<or> is_digit c \<or> c \<in> {46, 95, 126, 45}"

definition PUBLIC_IDENTIFIER :: "pstr \<Rightarrow> bool" where
  "PUBLIC_IDENTIFIER s = (case s of [] \<Rightarrow> False
     | c # cs \<Rightarrow> (is_alpha c \<or> is_digit c) \<and> list_all unreserved cs
         \<and> length cs \<le> PUBLIC_IDENTIFIER_MAX_LENGTH - 1)"

fun is_public_identifier :: "pyval \<Rightarrow> bool" where
  "is_public_identifier (PStr s) = PUBLIC_IDENTIFIER s"
| "is_public_identifier _ = False"

fun validate_public_identifier :: "pyval \<Rightarrow> exn + pstr" where
  "validate_public_identifier (PStr s) =
     (if is_public_identifier (PStr s) then Inr s else Inl ValueError)"
| "validate_public_identifier _ = Inl ValueError"

subsection \<open>I-JSON strings\<close>

definition non_ijson :: "nat \<Rightarrow> bool" where
  "non_ijson c \<longleftrightarrow> (0xD800 \<le> c \<and> c \<le> 0xDFFF) \<or> (0xFDD0 \<le> c \<and> c \<le> 0xFDEF)
     \<or> c mod 0x10000 = 0xFFFE \<or> c mod 0x10000 = 0xFFFF"

fun validate_i_json_string :: "pstr \<Rightarrow> exn + unit" where
  "validate_i_json_string [] = Inr ()"
| "validate_i_json_string (c # cs) = (if non_ijson c then Inl ValueError else validate_i_json_string cs)"

lemma validate_i_json_string_iff:
  "validate_i_json_string s = Inr u \<longleftrightarrow> (\<forall>c \<in> set s. \<not> non_ijson c)"
  by (induction s) auto

lemma validate_i_json_string_Inl:
  "validate_i_json_string s = Inl e \<longleftrightarrow> e = ValueError \<and> (\<exists>c \<in> set s. non_ijson c)"
  by (induction s) auto

subsection \<open>Display text\<close>

definition UNSAFE_HUMAN_CONTROLS :: "nat list" where
  "UNSAFE_HUMAN_CONTROLS = [0x061C, 0x200E, 0x200F] @ [0x202A..<0x202F] @ [0x2066..<0x206A]"

definition unsafe_char :: "nat \<Rightarrow> bool" where
  "unsafe_char c \<longleftrightarrow> c < 0x20 \<or> (0x7F \<le> c \<and> c \<le> 0x9F) \<or> c \<in> set UNSAFE_HUMAN_CONTROLS"

fun refuse_unsafe :: "pstr \<Rightarrow> exn + unit" where
  "refuse_unsafe [] = Inr ()"
| "refuse_unsafe (c # cs) = (if unsafe_char c then Inl ValueError else refuse_unsafe cs)"

fun validate_human_text :: "nat \<Rightarrow> pyval \<Rightarrow> exn + pstr" where
  "validate_human_text max_length (PStr s) =
     require (s \<noteq> [] \<and> length s \<le> max_length) ValueError
       (rbind (validate_i_json_string s) (\<lambda>_. rbind (refuse_unsafe s) (\<lambda>_. Inr s)))"
| "validate_human_text max_length _ = Inl ValueError"

lemma refuse_unsafe_iff: "refuse_unsafe s = Inr u \<longleftrightarrow> (\<forall>c \<in> set s. \<not> unsafe_char c)"
  by (induction s) auto

lemma validate_human_text_iff:
  "validate_human_text n v = Inr t \<longleftrightarrow>
     v = PStr t \<and> t \<noteq> [] \<and> length t \<le> n \<and> (\<forall>c \<in> set t. \<not> non_ijson c \<and> \<not> unsafe_char c)"
  by (cases v) (auto simp: validate_i_json_string_iff refuse_unsafe_iff)

lemma validate_human_text_raises:
  "validate_human_text n v = Inl e \<Longrightarrow> e = ValueError"
proof (cases v)
  case (PStr s)
  have "refuse_unsafe s = Inl e' \<Longrightarrow> e' = ValueError" for e' by (induction s) (auto split: if_splits)
  moreover assume "validate_human_text n v = Inl e"
  ultimately show ?thesis
    using PStr by (auto simp: require_eq_Inl rbind_eq_Inl validate_i_json_string_Inl)
qed auto

subsection \<open>Repository names\<close>

definition repository_char :: "nat \<Rightarrow> bool" where
  "repository_char c \<longleftrightarrow> is_alpha c \<or> is_digit c \<or> c \<in> {95, 46, 45}"

definition repository_component :: "pstr \<Rightarrow> bool" where
  "repository_component s \<longleftrightarrow> s \<noteq> [] \<and> length s \<le> REPOSITORY_COMPONENT_MAX_LENGTH \<and> list_all repository_char s"

text \<open>\<open>value.split(c, 1)\<close>: what is before and after the first \<open>c\<close>.\<close>

fun split_first :: "nat \<Rightarrow> pstr \<Rightarrow> (pstr \<times> pstr) option" where
  "split_first c [] = None"
| "split_first c (x # xs) = (if x = c then Some ([], xs)
     else map_option (\<lambda>(a, b). (x # a, b)) (split_first c xs))"

definition dot_segment :: "pstr \<Rightarrow> bool" where
  "dot_segment s \<longleftrightarrow> s = [46] \<or> s = [46, 46]"

definition REPOSITORY_NAME :: "pstr \<Rightarrow> bool" where
  "REPOSITORY_NAME s = (case split_first 47 s of None \<Rightarrow> False
     | Some (a, b) \<Rightarrow> repository_component a \<and> repository_component b)"

fun validate_repository_name :: "bool \<Rightarrow> pyval \<Rightarrow> exn + pstr option" where
  "validate_repository_name optional PNone = (if optional then Inr None else Inl ValueError)"
| "validate_repository_name optional (PStr s) =
     require (length s \<le> REPOSITORY_NAME_MAX_LENGTH \<and> REPOSITORY_NAME s) ValueError
       (case split_first 47 s of None \<Rightarrow> Inl ValueError
        | Some (a, b) \<Rightarrow> require (\<not> (dot_segment a \<or> dot_segment b)) ValueError (Inr (Some s)))"
| "validate_repository_name optional _ = Inl ValueError"

lemma split_first_Some:
  "split_first c s = Some (a, b) \<longleftrightarrow> s = a @ c # b \<and> c \<notin> set a"
proof (induction s arbitrary: a)
  case (Cons x xs)
  show ?case
  proof (cases a)
    case Nil
    then show ?thesis by auto
  next
    case (Cons y ys)
    then show ?thesis using Cons.IH [of ys] by (auto split: option.splits)
  qed
qed simp

lemma repository_component_no_slash: "repository_component s \<Longrightarrow> 47 \<notin> set s"
  by (auto simp: repository_component_def list_all_iff repository_char_def is_alpha_def is_digit_def)

subsection \<open>Facts about identifiers\<close>

lemma PUBLIC_IDENTIFIER_chars:
  "PUBLIC_IDENTIFIER s \<Longrightarrow> c \<in> set s \<Longrightarrow> unreserved c"
  by (auto simp: PUBLIC_IDENTIFIER_def list_all_iff unreserved_def split: list.splits)

lemma PUBLIC_IDENTIFIER_nonempty: "PUBLIC_IDENTIFIER s \<Longrightarrow> s \<noteq> []"
  by (auto simp: PUBLIC_IDENTIFIER_def)

lemma validate_public_identifier_iff:
  "validate_public_identifier v = Inr s \<longleftrightarrow> v = PStr s \<and> PUBLIC_IDENTIFIER s"
  by (cases v) auto

lemma validate_public_identifier_PStr [simp]:
  "validate_public_identifier (PStr s) = (if PUBLIC_IDENTIFIER s then Inr s else Inl ValueError)"
  by simp

declare validate_public_identifier.simps [simp del]

lemma PUBLIC_IDENTIFIER_lit:
  "PUBLIC_IDENTIFIER (lit s) = (case s of [] \<Rightarrow> False
     | c # cs \<Rightarrow> (is_alpha (of_char c) \<or> is_digit (of_char c)) \<and> list_all (\<lambda>c. unreserved (of_char c)) cs
         \<and> length cs \<le> 127)"
  by (cases s) (auto simp: PUBLIC_IDENTIFIER_def lit_def list_all_iff PUBLIC_IDENTIFIER_MAX_LENGTH_def)

end
