(* ===== verification/Core_Time.thy ===== *)
theory Core_Time
  imports Core_Text
begin

section \<open>core.py: timestamps\<close>

text \<open>
  Timestamps are text everywhere in the engine, and are compared in two ways: as text by
  the SQL queries, and as instants by \<open>parse_ts\<close>. This theory models both, with the part
  of \<open>datetime\<close> that core.py uses. \<open>fromisoformat\<close> is modelled for the calendar layout
  \<open>YYYY-MM-DD\<close> with an optional time and offset; the basic and week-date layouts that
  Python 3.11 also reads are refused here.
\<close>

subsection \<open>The calendar\<close>

record datetime =
  year :: nat
  month :: nat
  day :: nat
  hour :: nat
  minute :: nat
  second :: nat
  micro :: nat

definition is_leap :: "nat \<Rightarrow> bool" where
  "is_leap y \<longleftrightarrow> 4 dvd y \<and> (\<not> 100 dvd y \<or> 400 dvd y)"

definition days_in_month :: "nat \<Rightarrow> nat \<Rightarrow> nat" where
  "days_in_month y m = (if m = 2 then (if is_leap y then 29 else 28)
     else if m \<in> {4, 6, 9, 11} then 30 else 31)"

definition valid_date :: "nat \<Rightarrow> nat \<Rightarrow> nat \<Rightarrow> bool" where
  "valid_date y m d \<longleftrightarrow> 1 \<le> y \<and> y \<le> 9999 \<and> 1 \<le> m \<and> m \<le> 12 \<and> 1 \<le> d \<and> d \<le> days_in_month y m"

definition valid_datetime :: "datetime \<Rightarrow> bool" where
  "valid_datetime t \<longleftrightarrow> valid_date (year t) (month t) (day t)
     \<and> hour t \<le> 23 \<and> minute t \<le> 59 \<and> second t \<le> 59 \<and> micro t \<le> 999999"

text \<open>The fields in the order Python compares them.\<close>

definition time_fields :: "datetime \<Rightarrow> nat list" where
  "time_fields t = [year t, month t, day t, hour t, minute t, second t, micro t]"

text \<open>\<open>t + timedelta(microseconds=1)\<close>: carry through the fields; past the year 9999 it raises.\<close>

definition add_microsecond :: "datetime \<Rightarrow> exn + datetime" where
  "add_microsecond t =
     (if micro t < 999999 then Inr (t\<lparr>micro := micro t + 1\<rparr>)
      else if second t < 59 then Inr (t\<lparr>micro := 0, second := second t + 1\<rparr>)
      else if minute t < 59 then Inr (t\<lparr>micro := 0, second := 0, minute := minute t + 1\<rparr>)
      else if hour t < 23 then Inr (t\<lparr>micro := 0, second := 0, minute := 0, hour := hour t + 1\<rparr>)
      else if day t < days_in_month (year t) (month t) then
        Inr (t\<lparr>micro := 0, second := 0, minute := 0, hour := 0, day := day t + 1\<rparr>)
      else if month t < 12 then
        Inr (t\<lparr>micro := 0, second := 0, minute := 0, hour := 0, day := 1, month := month t + 1\<rparr>)
      else if year t < 9999 then
        Inr (t\<lparr>micro := 0, second := 0, minute := 0, hour := 0, day := 1, month := 1, year := year t + 1\<rparr>)
      else Inl OverflowError)"

lemma days_in_month_bounds: "1 \<le> days_in_month y m" "days_in_month y m \<le> 31"
  by (simp_all add: days_in_month_def)

lemma add_microsecond_valid:
  "valid_datetime t \<Longrightarrow> add_microsecond t = Inr u \<Longrightarrow> valid_datetime u"
  using days_in_month_bounds
  by (simp add: add_microsecond_def valid_datetime_def valid_date_def split: if_splits) force+

lemma add_microsecond_less: "add_microsecond t = Inr u \<Longrightarrow> time_fields t < time_fields u"
  by (auto simp: add_microsecond_def time_fields_def split: if_splits)

lemma add_microsecond_year: "add_microsecond t = Inr u \<Longrightarrow> 1000 \<le> year t \<Longrightarrow> 1000 \<le> year u"
  by (auto simp: add_microsecond_def split: if_splits)

subsection \<open>Decimal fields\<close>

text \<open>A number in decimal, and padded to a width with zeros.\<close>

fun decimal :: "nat \<Rightarrow> pstr" where
  "decimal n = (if n < 10 then [48 + n] else decimal (n div 10) @ [48 + n mod 10])"

declare decimal.simps [simp del]

fun padded :: "nat \<Rightarrow> nat \<Rightarrow> pstr" where
  "padded 0 n = []"
| "padded (Suc w) n = padded w (n div 10) @ [48 + n mod 10]"

fun digits_value :: "pstr \<Rightarrow> nat" where
  "digits_value ds = foldl (\<lambda>v c. v * 10 + (c - 48)) 0 ds"

declare digits_value.simps [simp del]

lemma length_padded [simp]: "length (padded w n) = w"
  by (induction w arbitrary: n) auto

lemma digits_value_snoc [simp]: "digits_value (ds @ [c]) = digits_value ds * 10 + (c - 48)"
  by (simp add: digits_value.simps)

lemma digits_value_Nil [simp]: "digits_value [] = 0"
  by (simp add: digits_value.simps)

lemma digits_value_padded: "digits_value (padded w n) = n mod 10 ^ w"
proof (induction w arbitrary: n)
  case (Suc w)
  have "n mod 10 ^ Suc w = (n div 10) mod 10 ^ w * 10 + n mod 10"
    by (metis add.commute mod_mult2_eq mult.commute power_Suc)
  then show ?case using Suc by simp
qed simp

lemma digits_padded: "list_all is_digit (padded w n)"
  by (induction w arbitrary: n) (auto simp: is_digit_def)

lemma is_digit_48: "n < 10 \<Longrightarrow> is_digit (48 + n)"
  by (simp add: is_digit_def)

lemma digits_decimal: "list_all is_digit (decimal n)"
proof (induction n rule: decimal.induct)
  case (1 n)
  then show ?case
    by (subst decimal.simps) (auto simp: is_digit_48)
qed

lemma digits_value_decimal: "digits_value (decimal n) = n"
proof (induction n rule: decimal.induct)
  case (1 n)
  show ?case
  proof (cases "n < 10")
    case True
    then show ?thesis by (subst decimal.simps) (simp add: digits_value.simps)
  next
    case False
    then show ?thesis using 1 by (subst decimal.simps) simp
  qed
qed

lemma decimal_padded: "10 ^ w \<le> n \<Longrightarrow> n < 10 ^ Suc w \<Longrightarrow> decimal n = padded (Suc w) n"
proof (induction w arbitrary: n)
  case 0
  then show ?case by (simp add: decimal.simps)
next
  case (Suc w)
  have "10 ^ w \<le> n div 10" "n div 10 < 10 ^ Suc w"
    using Suc.prems by (simp_all add: less_eq_div_iff_mult_less_eq div_less_iff_less_mult)
  then have "decimal (n div 10) = padded (Suc w) (n div 10)" by (rule Suc.IH)
  moreover have "\<not> n < 10"
  proof -
    have "(10::nat) \<le> 10 ^ Suc w" by simp
    then show ?thesis using Suc.prems(1) by linarith
  qed
  ultimately show ?case by (subst decimal.simps) simp
qed

text \<open>Text of one length compares as its first difference does.\<close>

lemma less_append_same_length:
  fixes xs ys us vs :: "nat list"
  assumes "length xs = length ys"
  shows "xs @ us < ys @ vs \<longleftrightarrow> xs < ys \<or> (xs = ys \<and> us < vs)"
  using assms by (induction xs ys rule: list_induct2) auto

lemma less_by_digit:
  "(a::nat) < b \<longleftrightarrow> a div 10 < b div 10 \<or> (a div 10 = b div 10 \<and> a mod 10 < b mod 10)"
proof -
  have "a = a div 10 * 10 + a mod 10" "b = b div 10 * 10 + b mod 10" by simp_all
  moreover have "a mod 10 < 10" "b mod 10 < 10" by simp_all
  ultimately show ?thesis by linarith
qed

lemma padded_less_iff: "a < 10 ^ w \<Longrightarrow> b < 10 ^ w \<Longrightarrow> padded w a < padded w b \<longleftrightarrow> a < b"
proof (induction w arbitrary: a b)
  case (Suc w)
  have ab: "a div 10 < 10 ^ w" "b div 10 < 10 ^ w"
    using Suc.prems by (simp_all add: div_less_iff_less_mult)
  have eq: "padded w (a div 10) = padded w (b div 10) \<longleftrightarrow> a div 10 = b div 10"
    using digits_value_padded [of w "a div 10"] digits_value_padded [of w "b div 10"] ab
    by (metis mod_less)
  show ?case
    unfolding less_by_digit [of a b]
    by (simp add: less_append_same_length Suc.IH [OF ab] eq)
qed simp

lemma padded_eq_iff: "a < 10 ^ w \<Longrightarrow> b < 10 ^ w \<Longrightarrow> padded w a = padded w b \<longleftrightarrow> a = b"
  by (metis digits_value_padded mod_less)

subsection \<open>Printing\<close>

text \<open>\<open>strftime("%Y-%m-%dT%H:%M:%S.%fZ")\<close>. The C library's \<open>%Y\<close> does not pad the year.\<close>

definition strftime :: "datetime \<Rightarrow> pstr" where
  "strftime t = decimal (year t) @ [45] @ padded 2 (month t) @ [45] @ padded 2 (day t) @ [84]
     @ padded 2 (hour t) @ [58] @ padded 2 (minute t) @ [58] @ padded 2 (second t) @ [46]
     @ padded 6 (micro t) @ [90]"

text \<open>For four-digit years the text order is the order of the fields.\<close>

lemma valid_datetime_bounds:
  "valid_datetime t \<Longrightarrow> year t < 10000 \<and> month t < 100 \<and> day t < 100 \<and> hour t < 100
     \<and> minute t < 100 \<and> second t < 100 \<and> micro t < 1000000"
  using days_in_month_bounds(2) [of "year t" "month t"]
  by (simp add: valid_datetime_def valid_date_def)

lemma decimal_year: "1000 \<le> y \<Longrightarrow> y < 10000 \<Longrightarrow> decimal y = padded 4 y"
proof -
  assume "1000 \<le> y" "y < 10000"
  then have "10 ^ 3 \<le> y" "y < 10 ^ Suc 3" by simp_all
  then have "decimal y = padded (Suc 3) y" by (rule decimal_padded)
  then show "decimal y = padded 4 y" by (simp only: Suc_numeral semiring_norm)
qed

lemma strftime_less_iff:
  assumes "valid_datetime t" "valid_datetime u" "1000 \<le> year t" "1000 \<le> year u"
  shows "strftime t < strftime u \<longleftrightarrow> time_fields t < time_fields u"
proof -
  have y: "decimal (year t) = padded 4 (year t)" "decimal (year u) = padded 4 (year u)"
    using assms valid_datetime_bounds by (auto intro: decimal_year)
  have b: "year t < 10 ^ 4" "month t < 10 ^ 2" "day t < 10 ^ 2" "hour t < 10 ^ 2" "minute t < 10 ^ 2"
    "second t < 10 ^ 2" "micro t < 10 ^ 6" "year u < 10 ^ 4" "month u < 10 ^ 2" "day u < 10 ^ 2"
    "hour u < 10 ^ 2" "minute u < 10 ^ 2" "second u < 10 ^ 2" "micro u < 10 ^ 6"
    using valid_datetime_bounds assms by fastforce+
  note cmp = less_append_same_length padded_less_iff padded_eq_iff
  show ?thesis
    unfolding strftime_def y time_fields_def
    by (simp only: cmp b length_padded append_Cons append_Nil Cons_less_Cons less_irrefl simp_thms
        list.inject)
qed

lemma time_fields_inject: "time_fields t = time_fields u \<Longrightarrow> t = (u :: datetime)"
  by (simp add: time_fields_def)


subsection \<open>Instants\<close>

text \<open>Days before a year and a month, and the ordinal of a date, as in \<open>datetime\<close>.\<close>

definition days_before_year :: "nat \<Rightarrow> int" where
  "days_before_year y = (let n = int y - 1 in n * 365 + n div 4 - n div 100 + n div 400)"

definition days_before_month :: "nat \<Rightarrow> nat \<Rightarrow> int" where
  "days_before_month y m = (\<Sum>k \<leftarrow> [1..<m]. int (days_in_month y k))"

definition ymd2ord :: "nat \<Rightarrow> nat \<Rightarrow> nat \<Rightarrow> int" where
  "ymd2ord y m d = days_before_year y + days_before_month y m + int d"

text \<open>Microseconds on the UTC time line; an aware time compares by it.\<close>

definition instant :: "datetime \<Rightarrow> int" where
  "instant t = (((ymd2ord (year t) (month t) (day t) * 24 + int (hour t)) * 60 + int (minute t)) * 60
     + int (second t)) * 1000000 + int (micro t)"

subsection \<open>Reading ISO 8601 text\<close>

text \<open>A run of decimal digits of a fixed length.\<close>

definition int_field :: "nat \<Rightarrow> pstr \<Rightarrow> nat option" where
  "int_field n s = (if n \<le> length s \<and> list_all is_digit (take n s) then Some (digits_value (take n s)) else None)"

text \<open>\<open>HH[:?MM[:?SS[{.,}fff[fff]]]]\<close>\<close>

definition parse_fraction :: "pstr \<Rightarrow> nat option" where
  "parse_fraction s = (case s of
     [] \<Rightarrow> Some 0
   | c # r \<Rightarrow>
       if c \<in> {46, 44} \<and> r \<noteq> [] \<and> list_all is_digit r
       then Some (digits_value (take 6 r) * 10 ^ (6 - length (take 6 r))) else None)"

definition parse_hms :: "pstr \<Rightarrow> (nat \<times> nat \<times> nat \<times> nat) option" where
  "parse_hms s = (case int_field 2 s of None \<Rightarrow> None | Some hh \<Rightarrow>
     let r1 = drop 2 s; sep = (r1 \<noteq> [] \<and> hd r1 = 58) in
     if r1 = [] then Some (hh, 0, 0, 0)
     else let r1' = (if sep then tl r1 else r1) in
     (case int_field 2 r1' of None \<Rightarrow> None | Some mm \<Rightarrow>
        let r2 = drop 2 r1' in
        if r2 = [] then Some (hh, mm, 0, 0)
        else if sep \<and> hd r2 \<noteq> 58 then None
        else let r2' = (if sep then tl r2 else r2) in
        (case int_field 2 r2' of None \<Rightarrow> None | Some ss \<Rightarrow>
           map_option (\<lambda>us. (hh, mm, ss, us)) (parse_fraction (drop 2 r2')))))"

text \<open>The UTC offset in microseconds after the time: \<open>None\<close> for none; it must stay
  strictly within a day.\<close>

definition parse_offset :: "pstr \<Rightarrow> (int option) option" where
  "parse_offset z = (case z of
     [] \<Rightarrow> Some None
   | c # r \<Rightarrow>
       if c = 90 then (if r = [] then Some (Some 0) else None)
       else if length r \<in> {0, 1, 3} then None
       else (case parse_hms r of None \<Rightarrow> None | Some (hh, mm, ss, us) \<Rightarrow>
          let td = ((int hh * 60 + int mm) * 60 + int ss) * 1000000 + int us in
          if td < 86400000000 then Some (Some (if c = 45 then - td else td)) else None))"

definition parse_time :: "pstr \<Rightarrow> ((nat \<times> nat \<times> nat \<times> nat) \<times> int option) option" where
  "parse_time s = (case parse_hms (takeWhile (\<lambda>c. c \<notin> {43, 45, 90}) s) of None \<Rightarrow> None
     | Some hms \<Rightarrow> map_option (\<lambda>off. (hms, off)) (parse_offset (dropWhile (\<lambda>c. c \<notin> {43, 45, 90}) s)))"

definition fromisoformat :: "pstr \<Rightarrow> exn + datetime \<times> int option" where
  "fromisoformat s = (case (int_field 4 s, int_field 2 (drop 5 s), int_field 2 (drop 8 s)) of
     (Some y, Some m, Some d) \<Rightarrow>
       require (s ! 4 = 45 \<and> s ! 7 = 45) ValueError
       (case (if length s \<le> 11 then Some ((0, 0, 0, 0), None) else parse_time (drop 11 s)) of
          None \<Rightarrow> Inl ValueError
        | Some ((hh, mm, ss, us), off) \<Rightarrow>
            let t = \<lparr>year = y, month = m, day = d, hour = hh, minute = mm, second = ss, micro = us\<rparr>
            in require (valid_datetime t) ValueError (Inr (t, off)))
   | _ \<Rightarrow> Inl ValueError)"

text \<open>\<open>parse_ts\<close>: the instant that the text names; a time without an offset is UTC.\<close>

definition parse_ts :: "pstr \<Rightarrow> exn + int" where
  "parse_ts ts =
     (let ts' = (if ts \<noteq> [] \<and> last ts = 90 then butlast ts @ lit ''+00:00'' else ts)
      in rbind (fromisoformat ts') (\<lambda>(t, off).
           Inr (instant t - (case off of None \<Rightarrow> 0 | Some o' \<Rightarrow> o'))))"

text \<open>\<open>_CANONICAL_UTC_TIMESTAMP\<close> and \<open>_RFC3339_TIMESTAMP\<close>, as shapes of the text.\<close>

definition digits_at :: "pstr \<Rightarrow> nat list \<Rightarrow> bool" where
  "digits_at s is = list_all (\<lambda>i. is_digit (s ! i)) is"

definition CANONICAL_UTC_TIMESTAMP :: "pstr \<Rightarrow> bool" where
  "CANONICAL_UTC_TIMESTAMP s \<longleftrightarrow> length s = 27
     \<and> digits_at s [0, 1, 2, 3, 5, 6, 8, 9, 11, 12, 14, 15, 17, 18, 20, 21, 22, 23, 24, 25]
     \<and> s ! 4 = 45 \<and> s ! 7 = 45 \<and> s ! 10 = 84 \<and> s ! 13 = 58 \<and> s ! 16 = 58 \<and> s ! 19 = 46 \<and> s ! 26 = 90"

definition rfc3339_zone :: "pstr \<Rightarrow> bool" where
  "rfc3339_zone z \<longleftrightarrow> z = [90] \<or> z = [122]
     \<or> (length z = 6 \<and> z ! 0 \<in> {43, 45} \<and> z ! 3 = 58 \<and> digits_at z [1, 2, 4, 5])"

definition RFC3339_TIMESTAMP :: "pstr \<Rightarrow> bool" where
  "RFC3339_TIMESTAMP s \<longleftrightarrow> 19 < length s
     \<and> digits_at s [0, 1, 2, 3, 5, 6, 8, 9, 11, 12, 14, 15, 17, 18]
     \<and> s ! 4 = 45 \<and> s ! 7 = 45 \<and> s ! 10 \<in> {84, 116} \<and> s ! 13 = 58 \<and> s ! 16 = 58
     \<and> (let r = drop 19 s in
        if hd r = 46 then takeWhile is_digit (tl r) \<noteq> [] \<and> rfc3339_zone (dropWhile is_digit (tl r))
        else rfc3339_zone r)"

fun is_canonical_utc_timestamp :: "pyval \<Rightarrow> bool" where
  "is_canonical_utc_timestamp (PStr s) = (CANONICAL_UTC_TIMESTAMP s \<and>
     (case fromisoformat (butlast s @ lit ''+00:00'') of
        Inl e \<Rightarrow> False | Inr (t, off) \<Rightarrow> strftime t = s))"
| "is_canonical_utc_timestamp _ = False"

fun is_rfc3339_datetime :: "pyval \<Rightarrow> bool" where
  "is_rfc3339_datetime (PStr s) = (RFC3339_TIMESTAMP s \<and>
     (let n = take 10 s @ [84] @ drop 11 s;
          n' = (if last n = 122 then butlast n @ [90] else n)
      in \<not> isl (parse_ts n')))"
| "is_rfc3339_datetime _ = False"

subsection \<open>What strftime writes is canonical\<close>

lemma int_field_padded: "n < 10 ^ w \<Longrightarrow> int_field w (padded w n @ r) = Some n"
  by (simp add: int_field_def digits_padded digits_value_padded)

lemma drop_padded [simp]: "drop w (padded w n @ r) = r" "drop (Suc w) (padded w n @ c # r) = r"
  by simp_all

definition time_text :: "datetime \<Rightarrow> pstr" where
  "time_text t = padded 2 (hour t) @ 58 # padded 2 (minute t) @ 58 # padded 2 (second t) @ 46 # padded 6 (micro t)"

lemma digits_not_sep: "list_all is_digit s \<Longrightarrow> c \<in> set s \<Longrightarrow> c \<noteq> 43 \<and> c \<noteq> 45 \<and> c \<noteq> 90 \<and> c \<noteq> 58"
  by (auto simp: list_all_iff is_digit_def)

lemma time_text_chars: "c \<in> set (time_text t) \<Longrightarrow> c \<notin> {43, 45, 90}"
  using digits_not_sep [OF digits_padded] by (auto simp: time_text_def)

lemma parse_hms_time_text:
  assumes "valid_datetime t"
  shows "parse_hms (time_text t) = Some (hour t, minute t, second t, micro t)"
proof -
  have b: "hour t < 10 ^ 2" "minute t < 10 ^ 2" "second t < 10 ^ 2" "micro t < 10 ^ 6"
    using valid_datetime_bounds [OF assms] by simp_all
  note i = int_field_padded [OF b(1)] int_field_padded [OF b(2)] int_field_padded [OF b(3)]
  have ne: "padded 6 (micro t) \<noteq> []" using length_padded [of 6 "micro t"] by (metis list.size(3) zero_neq_numeral)
  have "parse_fraction (46 # padded 6 (micro t)) = Some (micro t)"
    using ne b(4) by (simp add: parse_fraction_def digits_padded digits_value_padded)
  then show ?thesis by (simp add: parse_hms_def time_text_def i)
qed

lemma parse_time_text:
  assumes "valid_datetime t"
  shows "parse_time (time_text t @ lit ''+00:00'') = Some ((hour t, minute t, second t, micro t), Some 0)"
proof -
  have tw: "takeWhile (\<lambda>c. c \<notin> {43, 45, 90}) (time_text t @ 43 # r) = time_text t"
    "dropWhile (\<lambda>c. c \<notin> {43, 45, 90}) (time_text t @ 43 # r) = 43 # r" for r
    using time_text_chars [of _ t] by (auto simp: takeWhile_append dropWhile_append)
  have z: "lit ''+00:00'' = 43 # [48, 48, 58, 48, 48]" by (simp add: lit_Cons)
  have "parse_offset (43 # [48, 48, 58, 48, 48]) = Some (Some 0)"
    by (simp add: parse_offset_def parse_hms_def int_field_def is_digit_def digits_value.simps)
  then show ?thesis unfolding parse_time_def z tw parse_hms_time_text [OF assms] by simp
qed

lemma strftime_parts:
  assumes "valid_datetime t" "1000 \<le> year t"
  shows "strftime t = padded 4 (year t) @ 45 # padded 2 (month t) @ 45 # padded 2 (day t) @ 84 # time_text t @ [90]"
  using assms valid_datetime_bounds [OF assms(1)] by (simp add: strftime_def time_text_def decimal_year)

lemma fromisoformat_parts:
  assumes "valid_datetime t"
  shows "fromisoformat (padded 4 (year t) @ 45 # padded 2 (month t) @ 45 # padded 2 (day t) @ 84 # time_text t @ lit ''+00:00'')
    = Inr (t, Some 0)"
proof -
  have b: "year t < 10 ^ 4" "month t < 10 ^ 2" "day t < 10 ^ 2"
    using valid_datetime_bounds [OF assms] by simp_all
  let ?s = "padded 4 (year t) @ 45 # padded 2 (month t) @ 45 # padded 2 (day t) @ 84 # time_text t @ lit ''+00:00''"
  have d5: "drop 5 ?s = padded 2 (month t) @ 45 # padded 2 (day t) @ 84 # time_text t @ lit ''+00:00''" by simp
  have d8: "drop 8 ?s = padded 2 (day t) @ 84 # time_text t @ lit ''+00:00''" by simp
  have d11: "drop 11 ?s = time_text t @ lit ''+00:00''" by simp
  have n: "?s ! 4 = 45" "?s ! 7 = 45" by (simp_all add: nth_append)
  have "11 < length ?s" by simp
  then show ?thesis
    unfolding fromisoformat_def d5 d8 d11 n parse_time_text [OF assms]
      int_field_padded [OF b(1)] int_field_padded [OF b(2)] int_field_padded [OF b(3)]
    using assms by (cases t) (simp add: Let_def)
qed

lemma digits_at_padded: "i < w \<Longrightarrow> is_digit (padded w n ! i)"
  using digits_padded [of w n] by (simp add: list_all_length)

lemma strftime_canonical:
  assumes "valid_datetime t" "1000 \<le> year t"
  shows "is_canonical_utc_timestamp (PStr (strftime t))"
proof -
  have "butlast (strftime t) @ lit ''+00:00''
      = padded 4 (year t) @ 45 # padded 2 (month t) @ 45 # padded 2 (day t) @ 84 # time_text t @ lit ''+00:00''"
    unfolding strftime_parts [OF assms] by (simp add: butlast_append)
  then have "fromisoformat (butlast (strftime t) @ lit ''+00:00'') = Inr (t, Some 0)"
    using fromisoformat_parts [OF assms(1)] by simp
  moreover have "CANONICAL_UTC_TIMESTAMP (strftime t)"
    unfolding strftime_parts [OF assms] time_text_def CANONICAL_UTC_TIMESTAMP_def digits_at_def
    by (simp add: nth_append nth_Cons' digits_at_padded)
  ultimately show ?thesis by simp
qed

end
