(* ===== verification/Core_Jcs.thy ===== *)
theory Core_Jcs
  imports Core_Time
begin

section \<open>core.py: RFC 8785 canonical JSON\<close>

text \<open>
  \<open>canonical_json\<close> and its helpers. Values of the model are finite trees, so the code's
  check for circular containers has no counterpart, and the paths it carries for messages
  are left out.
\<close>

subsection \<open>Strings\<close>

definition JCS_SHORT_ESCAPES :: "(nat \<times> pstr) list" where
  "JCS_SHORT_ESCAPES =
     [(8, [92, 98]), (9, [92, 116]), (10, [92, 110]), (12, [92, 102]), (13, [92, 114]),
      (34, [92, 34]), (92, [92, 92])]"

definition hex4 :: "nat \<Rightarrow> pstr" where
  "hex4 c = (let h = (\<lambda>n. if n < 10 then 48 + n else 87 + n)
     in [h (c div 4096 mod 16), h (c div 256 mod 16), h (c div 16 mod 16), h (c mod 16)])"

definition jcs_char :: "nat \<Rightarrow> pstr" where
  "jcs_char c = (case map_of JCS_SHORT_ESCAPES c of Some e \<Rightarrow> e
     | None \<Rightarrow> if c \<le> 0x1F then [92, 117] @ hex4 c else [c])"

definition jcs_string :: "pstr \<Rightarrow> exn + pstr" where
  "jcs_string s = rbind (validate_i_json_string s) (\<lambda>_. Inr ([34] @ concat (map jcs_char s) @ [34]))"

subsection \<open>repr of a float\<close>

text \<open>
  The shortest decimal that reads back as the number, nearest to it among those, ties to
  even: its digits as a number, and a power of ten. Seventeen digits always suffice for a
  binary64 number; after them the exact expansion stands in, so that the search is total.
\<close>

definition ilog10 :: "rat \<Rightarrow> int" where
  "ilog10 r = (let (p, q) = quotient_of r;
       e = int (length (decimal (nat p))) - int (length (decimal (nat q)))
     in if ten_pow e \<le> r then e else e - 1)"

definition digits_candidate :: "nat \<Rightarrow> rat \<Rightarrow> (nat \<times> int) option" where
  "digits_candidate n r =
     (let x = ilog10 r - int n + 1; u = ten_pow x; f = \<lfloor>r / u\<rfloor>; d = r / u - of_int f;
          lo = (rnd64 (of_int f * u) = r); hi = (rnd64 (of_int (f + 1) * u) = r)
      in if lo \<and> (\<not> hi \<or> d < 1/2 \<or> (d = 1/2 \<and> even f)) then Some (nat f, x)
         else if hi then Some (nat (f + 1), x) else None)"

definition exact_digits :: "rat \<Rightarrow> nat \<times> int" where
  "exact_digits r = (nat \<lfloor>r * 2 ^ 1074\<rfloor> * 5 ^ 1074, - 1074)"

fun shortest_from :: "nat \<Rightarrow> nat \<Rightarrow> rat \<Rightarrow> nat \<times> int" where
  "shortest_from 0 n r = exact_digits r"
| "shortest_from (Suc k) n r = (case digits_candidate n r of Some p \<Rightarrow> p | None \<Rightarrow> shortest_from k (Suc n) r)"

fun strip_zeros :: "nat \<times> int \<Rightarrow> nat \<times> int" where
  "strip_zeros (d, x) = (if d \<noteq> 0 \<and> d mod 10 = 0 then strip_zeros (d div 10, x + 1) else (d, x))"

declare strip_zeros.simps [simp del]

definition shortest :: "rat \<Rightarrow> nat \<times> int" where
  "shortest r = strip_zeros (shortest_from 17 1 r)"

text \<open>\<open>repr\<close> of a positive float with these digits: fixed notation for a decimal point
  position from -3 to 16, otherwise an exponent of at least two digits.\<close>

definition signed_exponent :: "int \<Rightarrow> pstr" where
  "signed_exponent e = (if e < 0 then 45 else 43) # (if \<bar>e\<bar> < 10 then [48] else []) @ decimal (nat \<bar>e\<bar>)"

definition zeros :: "int \<Rightarrow> pstr" where
  "zeros n = replicate (nat n) 48"

definition repr_digits :: "pstr \<Rightarrow> int \<Rightarrow> pstr" where
  "repr_digits ds pt =
     (if -4 < pt \<and> pt \<le> 16 then
        if pt \<le> 0 then [48, 46] @ zeros (- pt) @ ds
        else if int (length ds) \<le> pt then ds @ zeros (pt - int (length ds)) @ [46, 48]
        else take (nat pt) ds @ [46] @ drop (nat pt) ds
      else (if length ds = 1 then ds else take 1 ds @ [46] @ drop 1 ds) @ [101] @ signed_exponent (pt - 1))"

definition float_repr :: "rat \<Rightarrow> pstr" where
  "float_repr r = (let (d, x) = shortest r; ds = decimal d in repr_digits ds (x + int (length ds)))"

subsection \<open>Numbers\<close>

text \<open>\<open>int(text)\<close> on a signed run of digits.\<close>

definition int_of_text :: "pstr \<Rightarrow> int" where
  "int_of_text s = (case s of [] \<Rightarrow> 0
     | c # r \<Rightarrow> if c = 45 then - int (digits_value r) else if c = 43 then int (digits_value r)
         else int (digits_value s))"

definition str_of_int :: "int \<Rightarrow> pstr" where
  "str_of_int n = (if n < 0 then [45] else []) @ decimal (nat \<bar>n\<bar>)"

text \<open>The respelling of \<open>repr\<close>'s text that \<open>_jcs_number\<close> does.\<close>

definition jcs_body :: "pstr \<Rightarrow> pstr" where
  "jcs_body text =
     (let (mantissa, ex) = (case split_first 101 text of Some (m, e) \<Rightarrow> (m, int_of_text e) | None \<Rightarrow> (text, 0));
          (whole, fraction) = (case split_first 46 mantissa of Some (w, f) \<Rightarrow> (w, f) | None \<Rightarrow> (mantissa, []));
          digits0 = whole @ fraction;
          digits1 = dropWhile (\<lambda>c. c = 48) digits0;
          leading_zeroes = int (length digits0) - int (length digits1);
          pt = int (length whole) + ex - leading_zeroes;
          digits = rev (dropWhile (\<lambda>c. c = 48) (rev digits1))
      in if 0 < pt \<and> pt \<le> 21 then
           if int (length digits) \<le> pt then digits @ zeros (pt - int (length digits))
           else take (nat pt) digits @ [46] @ drop (nat pt) digits
         else if -6 < pt \<and> pt \<le> 0 then [48, 46] @ zeros (- pt) @ digits
         else take 1 digits @ (if 1 < length digits then [46] @ drop 1 digits else [])
           @ [101] @ (if 0 \<le> pt - 1 then [43] else []) @ str_of_int (pt - 1))"

definition jcs_finite :: "rat \<Rightarrow> pstr" where
  "jcs_finite r = (if r = 0 then [48] else (if r < 0 then [45] else []) @ jcs_body (float_repr \<bar>r\<bar>))"

fun jcs_number :: "pyval \<Rightarrow> exn + pstr" where
  "jcs_number (PInt n) = (case fl (of_int n) of
     Fin r \<Rightarrow> require (\<lfloor>r\<rfloor> = n) ValueError (Inr (jcs_finite r))
   | _ \<Rightarrow> Inl ValueError)"
| "jcs_number (PFloat (Fin r)) = Inr (jcs_finite r)"
| "jcs_number _ = Inl ValueError"

subsection \<open>Objects in UTF-16 order\<close>

definition utf16_units :: "nat \<Rightarrow> nat list" where
  "utf16_units c = (if c < 0x10000 then [c]
     else [0xD800 + (c - 0x10000) div 0x400, 0xDC00 + (c - 0x10000) mod 0x400])"

definition utf16_sort_key :: "pstr \<Rightarrow> nat list" where
  "utf16_sort_key s = concat (map (\<lambda>u. [u div 256, u mod 256]) (concat (map utf16_units s)))"

fun key_text :: "pyval \<Rightarrow> pstr" where
  "key_text (PStr s) = s"
| "key_text _ = []"

definition sort_members :: "(pyval \<times> 'b) list \<Rightarrow> (pyval \<times> 'b) list" where
  "sort_members d = sort_key (\<lambda>(k, v). utf16_sort_key (key_text k)) d"

lemma set_sort_members [simp]: "set (sort_members d) = set d"
  by (simp add: sort_members_def)

fun check_keys :: "pyval list \<Rightarrow> exn + unit" where
  "check_keys [] = Inr ()"
| "check_keys (PStr s # ks) = rbind (validate_i_json_string s) (\<lambda>_. check_keys ks)"
| "check_keys (_ # ks) = Inl TypeError"

text \<open>\<open>sep.join(parts)\<close>\<close>

fun join :: "pstr \<Rightarrow> pstr list \<Rightarrow> pstr" where
  "join sep [] = []"
| "join sep [x] = x"
| "join sep (x # y # xs) = x @ sep @ join sep (y # xs)"

function render_jcs :: "pyval \<Rightarrow> exn + pstr" where
  "render_jcs PNone = Inr (lit ''null'')"
| "render_jcs (PBool b) = Inr (if b then lit ''true'' else lit ''false'')"
| "render_jcs (PStr s) = jcs_string s"
| "render_jcs (PInt n) = jcs_number (PInt n)"
| "render_jcs (PFloat x) = jcs_number (PFloat x)"
| "render_jcs (PList xs) = rbind (rmap render_jcs xs) (\<lambda>ts. Inr ([91] @ join [44] ts @ [93]))"
| "render_jcs (PTuple xs) = rbind (rmap render_jcs xs) (\<lambda>ts. Inr ([91] @ join [44] ts @ [93]))"
| "render_jcs (PDict d) =
     rbind (check_keys (map fst d)) (\<lambda>_.
     rbind (rmap (\<lambda>(k, v). rbind (jcs_string (key_text k)) (\<lambda>ek. rbind (render_jcs v) (\<lambda>ev.
              Inr (ek @ [58] @ ev)))) (sort_members d))
       (\<lambda>ms. Inr ([123] @ join [44] ms @ [125])))"
| "render_jcs (PBytes b) = Inl TypeError"
| "render_jcs PObject = Inl TypeError"
  by pat_completeness auto
termination
  by (relation "measure size")
    (auto simp: less_Suc_eq_le elim!: size_list_estimation')

definition canonical_json :: "pyval \<Rightarrow> exn + pstr" where
  "canonical_json v = render_jcs v"

subsection \<open>Validation of parsed JSON\<close>

function validate_i_json :: "pyval \<Rightarrow> exn + unit" where
  "validate_i_json PNone = Inr ()"
| "validate_i_json (PBool b) = Inr ()"
| "validate_i_json (PStr s) = validate_i_json_string s"
| "validate_i_json (PInt n) = rbind (jcs_number (PInt n)) (\<lambda>_. Inr ())"
| "validate_i_json (PFloat x) = rbind (jcs_number (PFloat x)) (\<lambda>_. Inr ())"
| "validate_i_json (PList xs) = rbind (rmap validate_i_json xs) (\<lambda>_. Inr ())"
| "validate_i_json (PDict d) =
     rbind (rmap (\<lambda>(k, v). rbind (validate_i_json_string (key_text k)) (\<lambda>_. validate_i_json v)) d) (\<lambda>_. Inr ())"
| "validate_i_json (PTuple xs) = Inl TypeError"
| "validate_i_json (PBytes b) = Inl TypeError"
| "validate_i_json PObject = Inl TypeError"
  by pat_completeness auto
termination
  by (relation "measure size")
    (auto simp: less_Suc_eq_le elim!: size_list_estimation')

text \<open>\<open>_unique_object\<close>: the parser's hook that builds an object from its members.\<close>

fun unique_object :: "pydict \<Rightarrow> pydict \<Rightarrow> exn + pydict" where
  "unique_object acc [] = Inr acc"
| "unique_object acc ((k, v) # ps) =
     (if k \<in> fst ` set acc then Inl ValueError else unique_object (acc @ [(k, v)]) ps)"

end
