(* ===== verification/Sha256.thy ===== *)
theory Sha256
  imports Core_Text "HOL-Library.Word"
begin

section \<open>hashlib.sha256 and UTF-8\<close>

text \<open>
  The two pieces of the standard library below every digest of the engine: the UTF-8
  encoding of text and SHA-256 (FIPS 180-4) over bytes. Bytes are numbers below 256. The
  security of the hash is never assumed: theorems that need it say instead that a failure
  exhibits a collision, \<open>sha256_collision\<close>.
\<close>

unbundle bit_operations_syntax

subsection \<open>UTF-8\<close>

definition utf8_char :: "nat \<Rightarrow> exn + nat list" where
  "utf8_char c =
     (if 0xD800 \<le> c \<and> c \<le> 0xDFFF then Inl UnicodeEncodeError
      else if c < 0x80 then Inr [c]
      else if c < 0x800 then Inr [0xC0 + c div 0x40, 0x80 + c mod 0x40]
      else if c < 0x10000 then Inr [0xE0 + c div 0x1000, 0x80 + c div 0x40 mod 0x40, 0x80 + c mod 0x40]
      else Inr [0xF0 + c div 0x40000, 0x80 + c div 0x1000 mod 0x40, 0x80 + c div 0x40 mod 0x40,
        0x80 + c mod 0x40])"

definition utf8 :: "pstr \<Rightarrow> exn + nat list" where
  "utf8 s = rbind (rmap utf8_char s) (\<lambda>bs. Inr (concat bs))"

subsection \<open>SHA-256\<close>

type_synonym w32 = "32 word"

definition rotr :: "nat \<Rightarrow> w32 \<Rightarrow> w32" where
  "rotr n x = (drop_bit n x) OR (push_bit (32 - n) x)"

definition ch :: "w32 \<Rightarrow> w32 \<Rightarrow> w32 \<Rightarrow> w32" where
  "ch x y z = (x AND y) XOR ((NOT x) AND z)"

definition maj :: "w32 \<Rightarrow> w32 \<Rightarrow> w32 \<Rightarrow> w32" where
  "maj x y z = (x AND y) XOR (x AND z) XOR (y AND z)"

definition big_sigma0 :: "w32 \<Rightarrow> w32" where
  "big_sigma0 x = rotr 2 x XOR rotr 13 x XOR rotr 22 x"

definition big_sigma1 :: "w32 \<Rightarrow> w32" where
  "big_sigma1 x = rotr 6 x XOR rotr 11 x XOR rotr 25 x"

definition small_sigma0 :: "w32 \<Rightarrow> w32" where
  "small_sigma0 x = rotr 7 x XOR rotr 18 x XOR drop_bit 3 x"

definition small_sigma1 :: "w32 \<Rightarrow> w32" where
  "small_sigma1 x = rotr 17 x XOR rotr 19 x XOR drop_bit 10 x"

text \<open>The constants of the standard are the first 32 bits of the fractional parts of the cube
  roots (round constants) and square roots (initial hash) of the first primes; \<open>root_bits\<close>
  finds an integer root bit by bit.\<close>

fun root_bits :: "nat \<Rightarrow> nat \<Rightarrow> nat \<Rightarrow> nat \<Rightarrow> nat" where
  "root_bits e n 0 r = r"
| "root_bits e n (Suc k) r = root_bits e n k (if (r + 2 ^ k) ^ e \<le> n then r + 2 ^ k else r)"

definition primes64 :: "nat list" where
  "primes64 = filter (\<lambda>p. list_all (\<lambda>d. p mod d \<noteq> 0) [2..<p]) [2..<312]"

definition round_constants :: "w32 list" where
  "round_constants = map (\<lambda>p. of_nat (root_bits 3 (p * 2 ^ 96) 36 0)) primes64"

definition initial_hash :: "w32 list" where
  "initial_hash = map (\<lambda>p. of_nat (root_bits 2 (p * 2 ^ 64) 36 0)) [2, 3, 5, 7, 11, 13, 17, 19]"

text \<open>Padding: a one bit, zeros, and the bit length as eight bytes.\<close>

fun be_bytes :: "nat \<Rightarrow> nat \<Rightarrow> nat list" where
  "be_bytes 0 n = []"
| "be_bytes (Suc w) n = be_bytes w (n div 256) @ [n mod 256]"

definition sha_pad :: "nat list \<Rightarrow> nat list" where
  "sha_pad bs = bs @ [0x80] @ replicate ((119 - length bs mod 64) mod 64) 0 @ be_bytes 8 (8 * length bs)"

fun be_words :: "nat list \<Rightarrow> w32 list" where
  "be_words (a # b # c # d # r) = of_nat (((a * 256 + b) * 256 + c) * 256 + d) # be_words r"
| "be_words _ = []"

text \<open>The message schedule: the sixteen words of the block, extended to sixty-four. The
  list is kept newest word first.\<close>

fun schedule :: "nat \<Rightarrow> w32 list \<Rightarrow> w32 list" where
  "schedule 0 ws = ws"
| "schedule (Suc n) ws =
     schedule n ((small_sigma1 (ws ! 1) + ws ! 6 + small_sigma0 (ws ! 14) + ws ! 15) # ws)"

fun compress :: "w32 list \<Rightarrow> w32 \<times> w32 \<Rightarrow> w32 list" where
  "compress [a, b, c, d, e, f, g, h] (k, w) =
     (let t1 = h + big_sigma1 e + ch e f g + k + w; t2 = big_sigma0 a + maj a b c
      in [t1 + t2, a, b, c, d + t1, e, f, g])"
| "compress s _ = s"

definition sha_block :: "w32 list \<Rightarrow> w32 list \<Rightarrow> w32 list" where
  "sha_block hs ws =
     map2 (+) hs (foldl compress hs (zip round_constants (rev (schedule 48 (rev ws)))))"

fun sha_blocks :: "nat \<Rightarrow> w32 list \<Rightarrow> w32 list \<Rightarrow> w32 list" where
  "sha_blocks 0 hs ws = hs"
| "sha_blocks (Suc n) hs ws = sha_blocks n (sha_block hs (take 16 ws)) (drop 16 ws)"

definition word_bytes :: "w32 \<Rightarrow> nat list" where
  "word_bytes w = be_bytes 4 (unat w)"

definition sha256 :: "nat list \<Rightarrow> nat list" where
  "sha256 bs = (let p = sha_pad bs
     in concat (map word_bytes (sha_blocks (length p div 64) initial_hash (be_words p))))"

subsection \<open>The digest is 32 bytes\<close>

lemma length_be_bytes [simp]: "length (be_bytes w n) = w"
  by (induction w arbitrary: n) auto

lemma be_bytes_small: "b \<in> set (be_bytes w n) \<Longrightarrow> b < 256"
  by (induction w arbitrary: n) auto

lemma length_compress: "length s = 8 \<Longrightarrow> length (compress s kw) = 8"
  by (cases "(s, kw)" rule: compress.cases) (auto simp: Let_def)

lemma length_foldl_compress: "length s = 8 \<Longrightarrow> length (foldl compress s kws) = 8"
  by (induction kws arbitrary: s) (auto simp: length_compress)

lemma length_sha_block: "length hs = 8 \<Longrightarrow> length (sha_block hs ws) = 8"
  by (simp add: sha_block_def length_foldl_compress)

lemma length_sha_blocks: "length hs = 8 \<Longrightarrow> length (sha_blocks n hs ws) = 8"
  by (induction n arbitrary: hs ws) (auto simp: length_sha_block)

lemma length_concat_const: "(\<And>x. x \<in> set xs \<Longrightarrow> length (f x) = n) \<Longrightarrow> length (concat (map f xs)) = n * length xs"
  by (induction xs) auto

lemma length_sha256 [simp]: "length (sha256 bs) = 32"
proof -
  have "length initial_hash = 8" by (simp add: initial_hash_def)
  then show ?thesis
    by (simp add: sha256_def Let_def length_concat_const [where n = 4] word_bytes_def length_sha_blocks)
qed

lemma sha256_bytes: "b \<in> set (sha256 bs) \<Longrightarrow> b < 256"
  by (auto simp: sha256_def Let_def word_bytes_def dest: be_bytes_small)

text \<open>Two different inputs with one digest.\<close>

definition sha256_collision :: "nat list \<Rightarrow> nat list \<Rightarrow> bool" where
  "sha256_collision x y \<longleftrightarrow> x \<noteq> y \<and> sha256 x = sha256 y"

subsection \<open>Hexadecimal\<close>

definition hex_digit :: "nat \<Rightarrow> nat" where
  "hex_digit n = (if n < 10 then 48 + n else 87 + n)"

definition hex_byte :: "nat \<Rightarrow> pstr" where
  "hex_byte b = [hex_digit (b div 16), hex_digit (b mod 16)]"

definition hexdigest :: "nat list \<Rightarrow> pstr" where
  "hexdigest bs = concat (map hex_byte bs)"

definition is_hex :: "nat \<Rightarrow> bool" where
  "is_hex c \<longleftrightarrow> is_digit c \<or> (97 \<le> c \<and> c \<le> 102)"

text \<open>\<open>bytes.fromhex\<close> on text that is already known to be lower-case hexadecimal.\<close>

definition unhex_digit :: "nat \<Rightarrow> nat" where
  "unhex_digit c = (if is_digit c then c - 48 else c - 87)"

fun fromhex :: "pstr \<Rightarrow> nat list" where
  "fromhex (a # b # r) = (unhex_digit a * 16 + unhex_digit b) # fromhex r"
| "fromhex _ = []"

lemma unhex_hex [simp]: "n < 16 \<Longrightarrow> unhex_digit (hex_digit n) = n"
  by (auto simp: unhex_digit_def hex_digit_def is_digit_def)

lemma is_hex_digit: "n < 16 \<Longrightarrow> is_hex (hex_digit n)"
  by (auto simp: is_hex_def hex_digit_def is_digit_def)

lemma length_hexdigest [simp]: "length (hexdigest bs) = 2 * length bs"
  by (simp add: hexdigest_def length_concat_const [where n = 2] hex_byte_def)

lemma fromhex_hexdigest: "(\<And>b. b \<in> set bs \<Longrightarrow> b < 256) \<Longrightarrow> fromhex (hexdigest bs) = bs"
proof (induction bs)
  case (Cons b bs)
  have "b < 256" using Cons.prems by simp
  then have "b div 16 < 16" by (simp add: div_less_iff_less_mult)
  then show ?case using Cons by (simp add: hexdigest_def hex_byte_def)
qed (simp add: hexdigest_def)

lemma hexdigest_is_hex: "(\<And>b. b \<in> set bs \<Longrightarrow> b < 256) \<Longrightarrow> list_all is_hex (hexdigest bs)"
proof (induction bs)
  case (Cons b bs)
  have "b < 256" using Cons.prems by simp
  then have "b div 16 < 16" by (simp add: div_less_iff_less_mult)
  then show ?case using Cons by (simp add: hexdigest_def hex_byte_def is_hex_digit)
qed (simp add: hexdigest_def)

lemma hexdigest_sha256_inject: "hexdigest (sha256 x) = hexdigest (sha256 y) \<longleftrightarrow> sha256 x = sha256 y"
  using fromhex_hexdigest [of "sha256 x"] fromhex_hexdigest [of "sha256 y"] sha256_bytes by metis

subsection \<open>UTF-8 is injective\<close>

lemma utf8_char_nonempty: "utf8_char c = Inr bs \<Longrightarrow> bs \<noteq> []"
  by (auto simp: utf8_char_def split: if_splits)

end
