(* ===== verification/Core_Loads.thy ===== *)
theory Core_Loads
  imports Core_Sign
begin

section \<open>core.py: strict_json_loads\<close>

text \<open>
  The parser of stored JSON: \<open>json.loads\<close> with the code's hooks, as \<open>strict_json_loads\<close>
  calls it, then the I-JSON validation of the result. The parser is the one of Python's
  \<open>json\<close> module: the four white-space characters, strict strings (no raw control
  character), the escapes with surrogate pairs joined, \<open>int\<close> for a number without fraction
  and exponent and \<open>float\<close> otherwise, and the three constants \<open>NaN\<close>, \<open>Infinity\<close>,
  \<open>-Infinity\<close>, which the hook refuses.

  A value is parsed with fuel, one unit for each value, list item and object member on the
  way down. Twice the length of the text is enough, since an item or member starts with a
  character of its own; running out of it would be the \<open>RecursionError\<close> that the code turns
  into a \<open>ValueError\<close>.
\<close>

definition is_ws :: "nat \<Rightarrow> bool" where
  "is_ws c \<longleftrightarrow> c = 32 \<or> c = 9 \<or> c = 10 \<or> c = 13"

definition skip_ws :: "pstr \<Rightarrow> pstr" where
  "skip_ws s = dropWhile is_ws s"

text \<open>The rest of the text after a given character.\<close>

definition expect :: "nat \<Rightarrow> pstr \<Rightarrow> pstr option" where
  "expect c s = (case s of [] \<Rightarrow> None | x # r \<Rightarrow> if x = c then Some r else None)"

subsection \<open>Strings\<close>

definition unhex :: "nat \<Rightarrow> nat option" where
  "unhex c = (if is_digit c then Some (c - 48) else if 97 \<le> c \<and> c \<le> 102 then Some (c - 87)
     else if 65 \<le> c \<and> c \<le> 70 then Some (c - 55) else None)"

definition hex4_value :: "nat \<Rightarrow> nat \<Rightarrow> nat \<Rightarrow> nat \<Rightarrow> nat option" where
  "hex4_value a b c d = (case (unhex a, unhex b, unhex c, unhex d) of
     (Some w, Some x, Some y, Some z) \<Rightarrow> Some (((w * 16 + x) * 16 + y) * 16 + z) | _ \<Rightarrow> None)"

text \<open>The character that an escape stands for, and what follows it.\<close>

definition short_escape :: "nat \<Rightarrow> nat option" where
  "short_escape c = map_of [(34, 34), (92, 92), (47, 47), (98, 8), (102, 12), (110, 10), (114, 13), (116, 9)] c"

definition low_surrogate :: "pstr \<Rightarrow> (nat \<times> pstr) option" where
  "low_surrogate s = (case s of
     e # l # a # b # c # d # r \<Rightarrow> if e = 92 \<and> l = 117 then (case hex4_value a b c d of
         Some u \<Rightarrow> if 0xDC00 \<le> u \<and> u \<le> 0xDFFF then Some (u, r) else None | None \<Rightarrow> None)
       else None
   | _ \<Rightarrow> None)"

definition scan_unicode :: "pstr \<Rightarrow> (nat \<times> pstr) option" where
  "scan_unicode s = (case s of
     a # b # c # d # r \<Rightarrow> (case hex4_value a b c d of
         None \<Rightarrow> None
       | Some u \<Rightarrow> if 0xD800 \<le> u \<and> u \<le> 0xDBFF then
             (case low_surrogate r of
                Some (v, r') \<Rightarrow> Some (0x10000 + (u - 0xD800) * 0x400 + (v - 0xDC00), r')
              | None \<Rightarrow> Some (u, r))
           else Some (u, r))
   | _ \<Rightarrow> None)"

definition scan_escape :: "pstr \<Rightarrow> (nat \<times> pstr) option" where
  "scan_escape s = (case s of
     [] \<Rightarrow> None
   | c # r \<Rightarrow> if c = 117 then scan_unicode r
       else (case short_escape c of Some x \<Rightarrow> Some (x, r) | None \<Rightarrow> None))"

text \<open>The text after the opening quote: the string, and what follows the closing quote.\<close>

fun scan_string :: "nat \<Rightarrow> pstr \<Rightarrow> (pstr \<times> pstr) option" where
  "scan_string 0 s = None"
| "scan_string (Suc n) s = (case s of
     [] \<Rightarrow> None
   | c # r \<Rightarrow>
       if c = 34 then Some ([], r)
       else if c = 92 then (case scan_escape r of None \<Rightarrow> None
           | Some (x, r') \<Rightarrow> (case scan_string n r' of None \<Rightarrow> None | Some (t, q) \<Rightarrow> Some (x # t, q)))
       else if c \<le> 0x1F then None
       else (case scan_string n r of None \<Rightarrow> None | Some (t, q) \<Rightarrow> Some (c # t, q)))"

subsection \<open>Numbers\<close>

definition digit_run :: "pstr \<Rightarrow> pstr" where
  "digit_run s = takeWhile is_digit s"

definition after_digits :: "pstr \<Rightarrow> pstr" where
  "after_digits s = dropWhile is_digit s"

text \<open>\<open>-?(0|[1-9][0-9]*)\<close>, \<open>(.[0-9]+)?\<close>, \<open>([eE][-+]?[0-9]+)?\<close>\<close>

definition scan_whole :: "pstr \<Rightarrow> (pstr \<times> pstr) option" where
  "scan_whole s = (case s of [] \<Rightarrow> None
     | c # r \<Rightarrow> if c = 48 then Some ([48], r) else if is_digit c then Some (digit_run s, after_digits s) else None)"

definition scan_fraction :: "pstr \<Rightarrow> (pstr \<times> pstr) option" where
  "scan_fraction s = (case expect 46 s of None \<Rightarrow> None
     | Some r \<Rightarrow> if digit_run r = [] then None else Some (digit_run r, after_digits r))"

definition scan_exponent :: "pstr \<Rightarrow> (int \<times> pstr) option" where
  "scan_exponent s = (case s of
     [] \<Rightarrow> None
   | c # r \<Rightarrow> if c \<noteq> 101 \<and> c \<noteq> 69 then None
       else let (neg, t) = (case expect 45 r of Some t \<Rightarrow> (True, t)
                | None \<Rightarrow> (case expect 43 r of Some t \<Rightarrow> (False, t) | None \<Rightarrow> (False, r)))
         in if digit_run t = [] then None
            else let n = int (digits_value (digit_run t)) in Some (if neg then - n else n, after_digits t))"

definition scan_unsigned :: "bool \<Rightarrow> pstr \<Rightarrow> (pyval \<times> pstr) option" where
  "scan_unsigned neg t = (case scan_whole t of None \<Rightarrow> None
      | Some (w, r) \<Rightarrow>
          (let (f, r1) = (case scan_fraction r of Some (f, r1) \<Rightarrow> (Some f, r1) | None \<Rightarrow> (None, r));
               (e, r2) = (case scan_exponent r1 of Some (e, r2) \<Rightarrow> (Some e, r2) | None \<Rightarrow> (None, r1))
           in if f = None \<and> e = None then
                Some (PInt (if neg then - int (digits_value w) else int (digits_value w)), r2)
              else
                (let ff = (case f of Some x \<Rightarrow> x | None \<Rightarrow> []); ee = (case e of Some x \<Rightarrow> x | None \<Rightarrow> 0);
                     v = of_nat (digits_value (w @ ff)) * ten_pow (ee - int (length ff))
                 in Some (PFloat (fl (if neg then - v else v)), r2))))"

definition scan_number :: "pstr \<Rightarrow> (pyval \<times> pstr) option" where
  "scan_number s = (case expect 45 s of Some t \<Rightarrow> scan_unsigned True t | None \<Rightarrow> scan_unsigned False s)"

subsection \<open>Values\<close>

definition strip_prefix :: "pstr \<Rightarrow> pstr \<Rightarrow> pstr option" where
  "strip_prefix p s = (if take (length p) s = p then Some (drop (length p) s) else None)"

text \<open>A value, the items of a list after the bracket or a comma, and the members of an
  object after the brace or a comma, the opening quote first.\<close>

fun scan_value :: "nat \<Rightarrow> pstr \<Rightarrow> exn + pyval \<times> pstr"
and scan_items :: "nat \<Rightarrow> pstr \<Rightarrow> exn + pyval list \<times> pstr"
and scan_members :: "nat \<Rightarrow> pstr \<Rightarrow> exn + pydict \<times> pstr" where
  "scan_value 0 s = Inl ValueError"
| "scan_value (Suc n) s = (case s of
     [] \<Rightarrow> Inl ValueError
   | c # r \<Rightarrow>
       if c = 34 then (case scan_string (length s) r of Some (t, q) \<Rightarrow> Inr (PStr t, q) | None \<Rightarrow> Inl ValueError)
       else if c = 123 then
         (case expect 125 (skip_ws r) of
            Some q \<Rightarrow> Inr (PDict [], q)
          | None \<Rightarrow> rbind (scan_members n (skip_ws r)) (\<lambda>(ps, q).
              rbind (unique_object [] ps) (\<lambda>d. Inr (PDict d, q))))
       else if c = 91 then
         (case expect 93 (skip_ws r) of
            Some q \<Rightarrow> Inr (PList [], q)
          | None \<Rightarrow> rbind (scan_items n (skip_ws r)) (\<lambda>(xs, q). Inr (PList xs, q)))
       else (case strip_prefix (lit ''null'') s of Some q \<Rightarrow> Inr (PNone, q)
       | None \<Rightarrow> (case strip_prefix (lit ''true'') s of Some q \<Rightarrow> Inr (PBool True, q)
       | None \<Rightarrow> (case strip_prefix (lit ''false'') s of Some q \<Rightarrow> Inr (PBool False, q)
       | None \<Rightarrow> (case scan_number s of Some (v, q) \<Rightarrow> Inr (v, q) | None \<Rightarrow> Inl ValueError)))))"
| "scan_items 0 s = Inl ValueError"
| "scan_items (Suc n) s = rbind (scan_value n s) (\<lambda>(x, r).
     case expect 93 (skip_ws r) of Some q \<Rightarrow> Inr ([x], q)
     | None \<Rightarrow> (case expect 44 (skip_ws r) of
         Some q \<Rightarrow> rbind (scan_items n (skip_ws q)) (\<lambda>(xs, q'). Inr (x # xs, q'))
       | None \<Rightarrow> Inl ValueError))"
| "scan_members 0 s = Inl ValueError"
| "scan_members (Suc n) s = (case expect 34 s of None \<Rightarrow> Inl ValueError
   | Some r \<Rightarrow> (case scan_string (length s) r of None \<Rightarrow> Inl ValueError
     | Some (k, r1) \<Rightarrow> (case expect 58 (skip_ws r1) of None \<Rightarrow> Inl ValueError
       | Some r2 \<Rightarrow> rbind (scan_value n (skip_ws r2)) (\<lambda>(v, r3).
           case expect 125 (skip_ws r3) of Some q \<Rightarrow> Inr ([(PStr k, v)], q)
           | None \<Rightarrow> (case expect 44 (skip_ws r3) of
               Some q \<Rightarrow> rbind (scan_members n (skip_ws q)) (\<lambda>(ps, q'). Inr ((PStr k, v) # ps, q'))
             | None \<Rightarrow> Inl ValueError)))))"

text \<open>\<open>json.loads\<close> on text: white space around one value. \<open>NaN\<close> and the infinities reach
  \<open>_reject_json_constant\<close>, which raises \<open>ValueError\<close> as the parser does for any other
  text that starts no value.\<close>

definition json_loads :: "pstr \<Rightarrow> exn + pyval" where
  "json_loads s = rbind (scan_value (Suc (2 * length s)) (skip_ws s)) (\<lambda>(v, r).
     if skip_ws r = [] then Inr v else Inl ValueError)"

subsection \<open>UTF-8 decoding\<close>

definition cont_byte :: "nat \<Rightarrow> bool" where
  "cont_byte b \<longleftrightarrow> 0x80 \<le> b \<and> b < 0xC0"

text \<open>\<open>bytes.decode("utf-8", errors="strict")\<close>: no overlong form, no surrogate, nothing
  past U+10FFFF.\<close>

fun utf8_decode :: "nat list \<Rightarrow> exn + pstr" where
  "utf8_decode [] = Inr []"
| "utf8_decode (a # r) =
     (if a < 0x80 then rbind (utf8_decode r) (\<lambda>s. Inr (a # s))
      else if 0xC2 \<le> a \<and> a < 0xE0 then (case r of
          b # q \<Rightarrow> if cont_byte b then rbind (utf8_decode q) (\<lambda>s. Inr (((a - 0xC0) * 0x40 + (b - 0x80)) # s))
            else Inl ValueError
        | _ \<Rightarrow> Inl ValueError)
      else if 0xE0 \<le> a \<and> a < 0xF0 then (case r of
          b # c # q \<Rightarrow>
            (let u = ((a - 0xE0) * 0x40 + (b - 0x80)) * 0x40 + (c - 0x80) in
             if cont_byte b \<and> cont_byte c \<and> 0x800 \<le> u \<and> \<not> (0xD800 \<le> u \<and> u \<le> 0xDFFF)
             then rbind (utf8_decode q) (\<lambda>s. Inr (u # s)) else Inl ValueError)
        | _ \<Rightarrow> Inl ValueError)
      else if 0xF0 \<le> a \<and> a < 0xF5 then (case r of
          b # c # d # q \<Rightarrow>
            (let u = (((a - 0xF0) * 0x40 + (b - 0x80)) * 0x40 + (c - 0x80)) * 0x40 + (d - 0x80) in
             if cont_byte b \<and> cont_byte c \<and> cont_byte d \<and> 0x10000 \<le> u \<and> u \<le> 0x10FFFF
             then rbind (utf8_decode q) (\<lambda>s. Inr (u # s)) else Inl ValueError)
        | _ \<Rightarrow> Inl ValueError)
      else Inl ValueError)"

text \<open>The function itself; anything but text and bytes is a \<open>TypeError\<close> of \<open>json.loads\<close>.\<close>

definition strict_json_text :: "pstr \<Rightarrow> exn + pyval" where
  "strict_json_text s = (if take 1 s = [0xFEFF] then Inl ValueError
     else rbind (json_loads s) (\<lambda>v. rbind (validate_i_json v) (\<lambda>_. Inr v)))"

fun strict_json_loads :: "pyval \<Rightarrow> exn + pyval" where
  "strict_json_loads (PStr s) = strict_json_text s"
| "strict_json_loads (PBytes b) = rbind (utf8_decode b) strict_json_text"
| "strict_json_loads _ = Inl TypeError"

end
