(* ===== verification/Db.thy ===== *)
theory Db
  imports Core_Time
begin

section \<open>The environment and database transactions\<close>

text \<open>
  Every operation of the engine runs against a database and an environment: the host clock
  that \<open>utcnow\<close> samples, the module-level floor it keeps, and the random tokens
  that \<open>new_id\<close> draws. The clock and the tokens are given: \<open>wall\<close> and \<open>tokens\<close> list
  what they will return, whatever that is.

  The database tables of the components extend \<open>env\<close>, so that an operation of one
  component runs unchanged on the state of another that calls it. A transaction restores
  the tables when its body raises, and never the environment: a rolled-back write has
  still consumed its timestamps and identifiers. \<open>depth\<close> is the store's
  \<open>_transaction_depth\<close>: a nested transaction is a savepoint, which rolls back to where it
  was opened, and a write scope joins the transaction it finds open.
\<close>

record env =
  last_utcnow :: "datetime option"
  wall :: "nat \<Rightarrow> datetime"
  ticks :: nat
  tokens :: "nat \<Rightarrow> pstr"
  drawn :: nat
  depth :: nat

subsection \<open>core.py: utcnow and new_id\<close>

text \<open>The timestamp \<open>utcnow\<close> decides on: the sample, or one microsecond past the last one
  handed out when the clock has not advanced.\<close>

definition floor_sample :: "datetime option \<Rightarrow> datetime \<Rightarrow> exn + datetime" where
  "floor_sample latest sampled = (case latest of None \<Rightarrow> Inr sampled
     | Some l \<Rightarrow> if time_fields sampled \<le> time_fields l then add_microsecond l else Inr sampled)"

definition utcnow :: "('z env_scheme, pstr) op" where
  "utcnow = (\<lambda>s. case floor_sample (last_utcnow s) (wall s (ticks s)) of
       Inl e \<Rightarrow> (Inl e, s\<lparr>ticks := Suc (ticks s)\<rparr>)
     | Inr t \<Rightarrow> (Inr (strftime t), s\<lparr>ticks := Suc (ticks s), last_utcnow := Some t\<rparr>))"

definition ID_PREFIXES :: "(pstr \<times> pstr) list" where
  "ID_PREFIXES = map (\<lambda>(k, p). (lit k, lit p))
     [(''tenant'', ''ten''), (''project'', ''prj''), (''event'', ''evt''), (''artifact'', ''art''),
      (''claim'', ''clm''), (''assumption'', ''asm''), (''requirement'', ''req''),
      (''constraint'', ''cst''), (''decision'', ''dec''), (''plan'', ''pln''), (''task'', ''tsk''),
      (''action'', ''act''), (''evidence'', ''evd''), (''verification'', ''ver''),
      (''session'', ''ses''), (''outcome'', ''out''), (''skill'', ''skl''), (''evaluation'', ''evl''),
      (''invalidation'', ''inv''), (''packet'', ''rsp''), (''capsule'', ''cap''), (''proof'', ''prf''),
      (''checkpoint'', ''ckp''), (''grant'', ''grt''), (''replay'', ''rpl''), (''failure'', ''flr''),
      (''node'', ''nod''), (''edge'', ''edg'')]"

definition id_prefix :: "pstr \<Rightarrow> pstr" where
  "id_prefix kind = (case map_of ID_PREFIXES kind of Some p \<Rightarrow> p | None \<Rightarrow> take 3 kind)"

definition draw_token :: "('z env_scheme, pstr) op" where
  "draw_token = (\<lambda>s. (Inr (tokens s (drawn s)), s\<lparr>drawn := Suc (drawn s)\<rparr>))"

definition new_id :: "pstr \<Rightarrow> ('z env_scheme, pstr) op" where
  "new_id kind = bnd draw_token (\<lambda>tok.
     lift (validate_public_identifier (PStr (id_prefix kind @ [95] @ tok))))"

subsection \<open>store.py: transactions and write scopes\<close>

abbreviation tables :: "'z env_scheme \<Rightarrow> 'z" where
  "tables s \<equiv> env.more s"

definition enter :: "'z env_scheme \<Rightarrow> 'z env_scheme" where
  "enter s = s\<lparr>depth := Suc (depth s)\<rparr>"

definition leave :: "'z env_scheme \<Rightarrow> 'z env_scheme \<Rightarrow> 'z env_scheme" where
  "leave s t = t\<lparr>depth := depth s\<rparr>"

text \<open>The tables and the depth of the state \<open>s\<close> with the rest of the environment of the
  later state \<open>t\<close>.\<close>

definition rollback :: "'z env_scheme \<Rightarrow> 'z env_scheme \<Rightarrow> 'z env_scheme" where
  "rollback s t = s\<lparr>last_utcnow := last_utcnow t, wall := wall t, ticks := ticks t,
     tokens := tokens t, drawn := drawn t\<rparr>"

text \<open>A unit that SQLite commits or rolls back as a whole, at the same depth.\<close>

definition atomic :: "('z env_scheme, 'a) op \<Rightarrow> ('z env_scheme, 'a) op" where
  "atomic m = (\<lambda>s. case m s of (Inl e, t) \<Rightarrow> (Inl e, rollback s t) | (Inr x, t) \<Rightarrow> (Inr x, t))"

definition transaction :: "('z env_scheme, 'a) op \<Rightarrow> ('z env_scheme, 'a) op" where
  "transaction m = (\<lambda>s. case m (enter s) of
     (Inl e, t) \<Rightarrow> (Inl e, rollback s t) | (Inr x, t) \<Rightarrow> (Inr x, leave s t))"

definition write_scope :: "('z env_scheme, 'a) op \<Rightarrow> ('z env_scheme, 'a) op" where
  "write_scope m = (\<lambda>s. if depth s = 0 then atomic m s else m s)"

lemma tables_moves [simp]:
  "tables (enter s) = tables s" "tables (leave s t) = tables t" "tables (rollback s t) = tables s"
  by (simp_all add: enter_def leave_def rollback_def)

lemma rollback_env [simp]:
  "last_utcnow (rollback s t) = last_utcnow t" "wall (rollback s t) = wall t"
  "ticks (rollback s t) = ticks t" "tokens (rollback s t) = tokens t"
  "drawn (rollback s t) = drawn t" "depth (rollback s t) = depth s"
  by (simp_all add: rollback_def)

lemma enter_env [simp]:
  "last_utcnow (enter s) = last_utcnow s" "wall (enter s) = wall s" "ticks (enter s) = ticks s"
  "tokens (enter s) = tokens s" "drawn (enter s) = drawn s" "depth (enter s) = Suc (depth s)"
  "last_utcnow (leave s t) = last_utcnow t" "wall (leave s t) = wall t" "ticks (leave s t) = ticks t"
  "tokens (leave s t) = tokens t" "drawn (leave s t) = drawn t" "depth (leave s t) = depth s"
  by (simp_all add: enter_def leave_def)

lemma rollback_refl [simp]: "rollback s s = s"
  by (simp add: rollback_def)

lemma atomic_eq_Inr: "atomic m s = (Inr x, t) \<longleftrightarrow> m s = (Inr x, t)"
  by (auto simp: atomic_def split: prod.splits sum.splits)

lemma atomic_eq_Inl: "atomic m s = (Inl e, t) \<longleftrightarrow> (\<exists>u. m s = (Inl e, u) \<and> t = rollback s u)"
  by (auto simp: atomic_def split: prod.splits sum.splits)

lemma transaction_eq_Inr:
  "transaction m s = (Inr x, t) \<longleftrightarrow> (\<exists>u. m (enter s) = (Inr x, u) \<and> t = leave s u)"
  by (auto simp: transaction_def split: prod.splits sum.splits)

lemma transaction_eq_Inl:
  "transaction m s = (Inl e, t) \<longleftrightarrow> (\<exists>u. m (enter s) = (Inl e, u) \<and> t = rollback s u)"
  by (auto simp: transaction_def split: prod.splits sum.splits)

lemma transaction_run [op_simps]:
  "m (enter s) = (Inr x, t) \<Longrightarrow> transaction m s = (Inr x, leave s t)"
  "m (enter s) = (Inl e, t) \<Longrightarrow> transaction m s = (Inl e, rollback s t)"
  by (simp_all add: transaction_def)

lemma atomic_run [op_simps]:
  "m s = (Inr x, t) \<Longrightarrow> atomic m s = (Inr x, t)"
  "m s = (Inl e, t) \<Longrightarrow> atomic m s = (Inl e, rollback s t)"
  by (simp_all add: atomic_def)

lemma transaction_atomic: "transaction m s = (Inl e, t) \<Longrightarrow> tables t = tables s"
  by (auto simp: transaction_eq_Inl)

lemma atomic_atomic: "atomic m s = (Inl e, t) \<Longrightarrow> tables t = tables s"
  by (auto simp: atomic_eq_Inl)

subsection \<open>Relations between the states of an operation\<close>

text \<open>
  A relation on states that survives what every component does around its own writes: a
  reading of the clock, a drawn token, a transaction that commits and one that rolls back.
  The laws are stated on states, so a relation may look at the clock.
\<close>

locale db_relation = step_relation R for R :: "'z env_scheme \<Rightarrow> 'z env_scheme \<Rightarrow> bool" +
  assumes R_utcnow: "R s (snd (utcnow s))"
    and R_token: "R s (snd (draw_token s))"
    and R_leave: "R (enter s) t \<Longrightarrow> R s (leave s t)"
    and R_abort: "R (enter s) t \<Longrightarrow> R s (rollback s t)"
    and R_rollback: "R s t \<Longrightarrow> R s (rollback s t)"
begin

lemma keeps_utcnow [keeps_intros]: "keeps R utcnow"
  by (simp add: keeps_def R_utcnow)

lemma keeps_draw_token [keeps_intros]: "keeps R draw_token"
  by (simp add: keeps_def R_token)

lemma keeps_new_id [keeps_intros]: "keeps R (new_id k)"
  unfolding new_id_def by (intro keeps_intros)

lemma keeps_atomic [keeps_intros]:
  assumes "keeps R m"
  shows "keeps R (atomic m)"
proof (rule keepsI)
  fix s
  obtain r t where mt: "m s = (r, t)" by fastforce
  show "R s (snd (atomic m s))"
    using keepsD [OF assms mt] mt
    by (cases r) (auto simp: atomic_def intro: R_rollback)
qed

lemma keeps_transaction [keeps_intros]:
  assumes "keeps R m"
  shows "keeps R (transaction m)"
proof (rule keepsI)
  fix s
  obtain r t where mt: "m (enter s) = (r, t)" by fastforce
  show "R s (snd (transaction m s))"
    using keepsD [OF assms mt] mt
    by (cases r) (auto simp: transaction_def intro: R_leave R_abort)
qed

lemma keeps_write_scope [keeps_intros]:
  assumes "keeps R m"
  shows "keeps R (write_scope m)"
  using assms keeps_atomic [OF assms] by (simp add: keeps_def write_scope_def)

end

lemma tables_utcnow [simp]: "tables (snd (utcnow s)) = tables s"
  by (simp add: utcnow_def split: sum.split)

lemma tables_draw_token [simp]: "tables (snd (draw_token s)) = tables s"
  by (simp add: draw_token_def)

lemma tables_new_id [simp]: "tables (snd (new_id k s)) = tables s"
  by (simp add: new_id_def bnd_def draw_token_def lift_def)

lemma new_id_run:
  "new_id k s = (validate_public_identifier (PStr (id_prefix k @ [95] @ tokens s (drawn s))),
     s\<lparr>drawn := Suc (drawn s)\<rparr>)"
  by (simp add: new_id_def draw_token_def bnd_def lift_def)

lemma bnd_new_id:
  "bnd (new_id k) f s = (case validate_public_identifier (PStr (id_prefix k @ [95] @ tokens s (drawn s))) of
     Inl e \<Rightarrow> (Inl e, s\<lparr>drawn := Suc (drawn s)\<rparr>) | Inr x \<Rightarrow> f x (s\<lparr>drawn := Suc (drawn s)\<rparr>))"
  by (simp add: bnd_def new_id_run split: sum.split)

lemma utcnow_run:
  assumes "utcnow s = (r, t)"
  obtains l where "t = s\<lparr>ticks := Suc (ticks s), last_utcnow := l\<rparr>"
proof (cases "floor_sample (last_utcnow s) (wall s (ticks s))")
  case (Inl e)
  then have "t = s\<lparr>ticks := Suc (ticks s), last_utcnow := last_utcnow s\<rparr>"
    using assms by (cases s) (auto simp: utcnow_def)
  then show thesis by (rule that)
next
  case (Inr u)
  then have "t = s\<lparr>ticks := Suc (ticks s), last_utcnow := Some u\<rparr>"
    using assms by (simp add: utcnow_def)
  then show thesis by (rule that)
qed

lemma utcnow_tables: "utcnow s = (r, t) \<Longrightarrow> tables t = tables s"
  by (metis snd_conv tables_utcnow)

lemma new_id_tables: "new_id k s = (r, t) \<Longrightarrow> tables t = tables s"
  by (metis snd_conv tables_new_id)

text \<open>
  The commonest case: a relation that looks at the tables only. \<open>R_env\<close> says that it does
  not see the environment, and all laws above follow, since clock, tokens and rollback
  change nothing else.
\<close>

locale tables_relation = step_relation R for R :: "'z env_scheme \<Rightarrow> 'z env_scheme \<Rightarrow> bool" +
  assumes R_env: "tables s = tables t \<Longrightarrow> R s t"
begin

lemma R_env_after: "R s t \<Longrightarrow> tables u = tables t \<Longrightarrow> R s u"
  using R_env R_trans by metis

lemma R_enter: "R (enter s) t \<Longrightarrow> R s t"
  using R_env [of s "enter s"] R_trans by simp

end

sublocale tables_relation \<subseteq> db_relation
  by unfold_locales (auto simp: R_env intro: R_env_after [OF R_enter])

text \<open>The relation of a read: the tables are the same.\<close>

definition same_tables :: "'z env_scheme \<Rightarrow> 'z env_scheme \<Rightarrow> bool" where
  "same_tables s t \<longleftrightarrow> tables s = tables t"

interpretation same_tables: tables_relation same_tables
  by unfold_locales (auto simp: same_tables_def)

text \<open>The relation of an operation that takes timestamps: the clock floor never retreats
  and the host's readings are the ones given.\<close>

definition floor_le :: "'z env_scheme \<Rightarrow> 'z env_scheme \<Rightarrow> bool" where
  "floor_le s t \<longleftrightarrow> wall t = wall s \<and> tokens t = tokens s \<and> ticks s \<le> ticks t \<and> drawn s \<le> drawn t
     \<and> (case last_utcnow s of None \<Rightarrow> True
        | Some l \<Rightarrow> (\<exists>u. last_utcnow t = Some u \<and> time_fields l \<le> time_fields u))"

interpretation floor_le: step_relation floor_le
  by unfold_locales (fastforce simp: floor_le_def split: option.splits)+

lemma floor_sample_less:
  "floor_sample latest x = Inr t \<Longrightarrow> latest = Some l \<Longrightarrow> time_fields l < time_fields t"
  by (auto simp: floor_sample_def not_le add_microsecond_less split: if_splits)

lemma keeps_floor_utcnow: "keeps floor_le utcnow"
  by (rule keepsI)
    (auto simp: utcnow_def floor_le_def dest: floor_sample_less split: sum.split option.split)

lemma utcnow_floor: "utcnow s = (Inr ts, t) \<Longrightarrow> \<exists>d. last_utcnow t = Some d \<and> ts = strftime d"
  by (auto simp: utcnow_def split: sum.splits)

lemma utcnow_after:
  assumes "utcnow s = (Inr ts, t)" and "last_utcnow s = Some l" and "last_utcnow t = Some d"
  shows "time_fields l < time_fields d"
  using assms by (auto simp: utcnow_def dest: floor_sample_less split: sum.splits)

text \<open>A clock that shows only real calendar times, in years that \<open>strftime\<close> writes with
  four digits.\<close>

definition sane_clock :: "'z env_scheme \<Rightarrow> bool" where
  "sane_clock s \<longleftrightarrow> (\<forall>n. valid_datetime (wall s n) \<and> 1000 \<le> year (wall s n))
     \<and> (\<forall>l. last_utcnow s = Some l \<longrightarrow> valid_datetime l \<and> 1000 \<le> year l)"

lemma keeps_floor_transaction:
  assumes "keeps floor_le m"
  shows "keeps floor_le (transaction m)"
proof (rule keepsI)
  fix s
  obtain r t where mt: "m (enter s) = (r, t)" by fastforce
  show "floor_le s (snd (transaction m s))"
    using keepsD [OF assms mt] mt
    by (cases r) (auto simp: transaction_def floor_le_def split: option.splits)
qed

lemma sane_clock_utcnow:
  assumes "sane_clock s"
  shows "sane_clock (snd (utcnow s))"
proof (cases "floor_sample (last_utcnow s) (wall s (ticks s))")
  case (Inl e)
  then show ?thesis using assms by (simp add: utcnow_def sane_clock_def)
next
  case (Inr t)
  have "valid_datetime t \<and> 1000 \<le> year t"
    using Inr assms
    by (auto simp: floor_sample_def sane_clock_def intro: add_microsecond_valid dest: add_microsecond_year
        split: if_splits option.splits)
  then show ?thesis using Inr assms by (simp add: utcnow_def sane_clock_def)
qed

lemma utcnow_text_after:
  assumes "sane_clock s" and "utcnow s = (Inr ts, t)" and "last_utcnow s = Some l"
  shows "strftime l < ts"
proof -
  obtain d where d: "last_utcnow t = Some d" "ts = strftime d"
    using utcnow_floor [OF assms(2)] by blast
  have "sane_clock t" using sane_clock_utcnow [OF assms(1)] assms(2) by simp
  then show ?thesis
    using utcnow_after [OF assms(2,3) d(1)] assms(1,3) d by (simp add: strftime_less_iff sane_clock_def)
qed

lemma utcnows_increase:
  assumes "sane_clock s" and "map_each (replicate n x) (\<lambda>_. utcnow) s = (Inr ts, t)"
  shows "sorted_wrt (<) ts \<and> (\<forall>l. last_utcnow s = Some l \<longrightarrow> (\<forall>a \<in> set ts. strftime l < a))"
  using assms
proof (induction n arbitrary: s ts t)
  case 0
  then show ?case by (simp add: ret_def)
next
  case (Suc n)
  obtain a u where a: "utcnow s = (Inr a, u)"
    using Suc.prems(2) by (auto simp: bnd_eq_Inr)
  obtain rest v where r: "map_each (replicate n x) (\<lambda>_. utcnow) u = (Inr rest, v)" and ts: "ts = a # rest"
    using Suc.prems(2) a by (auto simp: bnd_eq_Inr ret_def)
  obtain d where d: "last_utcnow u = Some d" "a = strftime d" using utcnow_floor [OF a] by blast
  have "sane_clock u" using sane_clock_utcnow [OF Suc.prems(1)] a by simp
  then have ih: "sorted_wrt (<) rest" "\<forall>b \<in> set rest. a < b" using Suc.IH [OF _ r] d by auto
  have "strftime l < a" if "last_utcnow s = Some l" for l
    using utcnow_text_after [OF Suc.prems(1) a that] .
  then show ?case using ih ts by (auto intro: less_trans)
qed

lemma utcnow_canonical:
  assumes "sane_clock s" and "utcnow s = (Inr ts, t)"
  shows "is_canonical_utc_timestamp (PStr ts)"
proof -
  obtain d where d: "last_utcnow t = Some d" "ts = strftime d" using utcnow_floor [OF assms(2)] by blast
  have "sane_clock t" using sane_clock_utcnow [OF assms(1)] assms(2) by simp
  then show ?thesis using d strftime_canonical by (simp add: sane_clock_def)
qed

subsection \<open>Properties\<close>

text \<open>C16: However the host clock behaves (standing still, running backwards), the timestamps
  that successive calls of \<open>utcnow\<close> return increase strictly as text.\<close>

theorem utcnow_strictly_increasing:
  assumes "sane_clock s" and "map_each (replicate n ()) (\<lambda>_. utcnow) s = (Inr ts, t)"
  shows "sorted_wrt (<) ts"
  using utcnows_increase [OF assms] by simp

definition stuck_clock :: env where
  "stuck_clock = \<lparr>last_utcnow = None, wall = (\<lambda>_. \<lparr>year = 2026, month = 12, day = 31, hour = 23,
     minute = 59, second = 59, micro = 999999\<rparr>), ticks = 0, tokens = (\<lambda>_. replicate 24 97),
     drawn = 0, depth = 0\<rparr>"

theorem utcnow_strictly_increasing_witness:
  "\<exists>a b t. map_each (replicate 2 ()) (\<lambda>_. utcnow) stuck_clock = (Inr [a, b], t) \<and> a < b"
proof -
  have "sane_clock stuck_clock"
    by (simp add: sane_clock_def stuck_clock_def valid_datetime_def valid_date_def days_in_month_def)
  moreover have "\<exists>a b t. map_each (replicate 2 ()) (\<lambda>_. utcnow) stuck_clock = (Inr [a, b], t)"
    by (simp add: numeral_2_eq_2 bnd_def ret_def utcnow_def stuck_clock_def floor_sample_def
        add_microsecond_def days_in_month_def time_fields_def)
  ultimately show ?thesis using utcnow_strictly_increasing by fastforce
qed

end
