(* ===== verification/Store.thy ===== *)
theory Store
  imports Core_Loads Db
begin

section \<open>store.py: the event log, the evidence store and the audit log\<close>

text \<open>
  The tables of \<open>Store\<close> and its operations. A table is the list of its rows in insertion
  order; a constraint the schema declares is an \<open>IntegrityError\<close> branch of the insert. The
  operations run on every state that extends \<open>store_st\<close>, so the graph and the engine call
  them as they are.
\<close>

subsection \<open>Rows\<close>

record event_row =
  e_id :: pstr
  e_tenant_id :: pstr
  e_project_id :: pstr
  e_source_type :: pstr
  e_source_id :: "pstr option"
  e_idempotency_key :: pstr
  e_observed_at :: pstr
  e_recorded_at :: pstr
  e_valid_from :: "pstr option"
  e_valid_to :: "pstr option"
  e_actor_type :: "pstr option"
  e_actor_id :: "pstr option"
  e_authority :: pstr
  e_sensitivity :: pstr
  e_capture_mode :: pstr
  e_payload_digest :: pstr
  e_stored_payload_digest :: "pstr option"
  e_payload :: "pstr option"
  e_schema_version :: pstr
  e_seq :: int
  e_prev_hash :: "pstr option"
  e_entry_hash :: "pstr option"

record mismatch_row =
  m_idempotency_key :: pstr
  m_existing_digest :: pstr
  m_new_digest :: pstr
  m_recorded_at :: pstr

record evidence_row =
  b_digest :: pstr
  b_content :: "nat list option"
  b_media_type :: pstr
  b_size :: nat
  b_sensitivity :: pstr
  b_captured_at :: pstr
  b_deleted_at :: "pstr option"

record processed_row =
  p_event_id :: pstr
  p_processor_version :: pstr
  p_processed_at :: pstr
  p_status :: pstr
  p_error :: "pstr option"

record audit_row =
  a_seq :: int
  a_at :: pstr
  a_actor :: pstr
  a_action :: pstr
  a_object_id :: "pstr option"
  a_before_ref :: "pstr option"
  a_after_ref :: "pstr option"
  a_authority :: "pstr option"
  a_detail :: "pstr option"
  a_prev_hash :: "pstr option"
  a_entry_hash :: "pstr option"

record store_st = env +
  events :: "event_row list"
  event_seq :: int
  payload_mismatches :: "mismatch_row list"
  evidence_blobs :: "evidence_row list"
  processed_events :: "processed_row list"
  audit_log :: "audit_row list"
  audit_seq :: int
  chain_lock :: nat

subsection \<open>Validation at the write boundary\<close>

definition GENESIS :: pstr where
  "GENESIS = lit ''sha256:'' @ replicate 64 48"

definition EVENT_AUTHORITIES :: "pstr list" where
  "EVENT_AUTHORITIES = map lit
     [''untrusted_content'', ''agent_inference'', ''agent_observed'', ''human_intent'',
      ''repository_authoritative'', ''verifier_authoritative'', ''human_decision'', ''tenant_policy'']"

definition EVENT_ACTOR_TYPES :: "pyval list" where
  "EVENT_ACTOR_TYPES = [pkey ''human'', pkey ''agent'', pkey ''service'', PNone]"

definition EVENT_CAPTURE_MODES :: "pstr list" where
  "EVENT_CAPTURE_MODES = map lit [''metadata_only'', ''redacted'', ''full'']"

definition EVENT_SCHEMA :: pstr where
  "EVENT_SCHEMA = lit ''cce.event.v1''"

definition EVENT_ID_RE :: "pstr \<Rightarrow> bool" where
  "EVENT_ID_RE s \<longleftrightarrow> take 4 s = lit ''evt_'' \<and> length s = 28 \<and> list_all is_hex (drop 4 s)"

fun validate_log_text :: "bool \<Rightarrow> nat \<Rightarrow> pyval \<Rightarrow> exn + pstr option" where
  "validate_log_text nullable max_length v =
     (if v = PNone \<and> nullable then Inr None
      else rbind (validate_human_text max_length v) (\<lambda>s. Inr (Some s)))"

definition validate_datetime :: "bool \<Rightarrow> pyval \<Rightarrow> exn + unit" where
  "validate_datetime nullable v =
     (if v = PNone \<and> nullable then Inr () else require (is_rfc3339_datetime v) ValueError (Inr ()))"

definition validate_digest :: "pyval \<Rightarrow> exn + unit" where
  "validate_digest v = (case v of PStr s \<Rightarrow> require (DIGEST_RE s) ValueError (Inr ()) | _ \<Rightarrow> Inl ValueError)"

definition in_vocabulary :: "pyval \<Rightarrow> pstr list \<Rightarrow> bool" where
  "in_vocabulary v vs = (case v of PStr s \<Rightarrow> s \<in> set vs | _ \<Rightarrow> False)"

text \<open>The checks of \<open>_validate_stored_event\<close> on a row about to be inserted and the parsed
  payload it carries. The row's columns have the types of the schema, so the checks that a
  text column holds text have no branch here.\<close>

definition void :: "exn + 'a \<Rightarrow> exn + unit" where
  "void m = rbind m (\<lambda>_. Inr ())"

definition validate_stored_event :: "event_row \<Rightarrow> pyval \<Rightarrow> exn + unit" where
  "validate_stored_event r payload = checks
     [guard (EVENT_ID_RE (e_id r)) ValueError,
      void (validate_public_identifier (PStr (e_tenant_id r))),
      void (validate_public_identifier (PStr (e_project_id r))),
      guard (e_source_type r \<noteq> [] \<and> e_idempotency_key r \<noteq> [] \<and> e_sensitivity r \<noteq> []) ValueError,
      validate_datetime False (PStr (e_observed_at r)),
      validate_datetime False (PStr (e_recorded_at r)),
      validate_datetime True (opt_val (e_valid_from r)),
      validate_datetime True (opt_val (e_valid_to r)),
      guard (opt_val (e_actor_type r) \<in> set EVENT_ACTOR_TYPES) ValueError,
      guard (e_authority r \<in> set EVENT_AUTHORITIES) ValueError,
      guard (e_capture_mode r \<in> set EVENT_CAPTURE_MODES) ValueError,
      guard (e_schema_version r = EVENT_SCHEMA) ValueError,
      guard (1 \<le> e_seq r) ValueError,
      validate_digest (PStr (e_payload_digest r)),
      validate_digest (opt_val (e_stored_payload_digest r)),
      validate_digest (opt_val (e_prev_hash r)),
      validate_digest (opt_val (e_entry_hash r)),
      guard (payload = PNone \<or> is_dict payload) ValueError,
      rbind (if payload = PNone then Inr []
             else rcatch (canonical_json payload) value_like (\<lambda>_. Inl ValueError)) (\<lambda>persisted.
      rbind (sha256_hex persisted) (\<lambda>d.
        guard (Some d = e_stored_payload_digest r) ValueError))]"

text \<open>The columns the chain covers. A row from before the persisted-payload commitment has
  no such column in its entry.\<close>

definition event_entry :: "event_row \<Rightarrow> pydict" where
  "event_entry r =
     [(pkey ''event_id'', PStr (e_id r)), (pkey ''tenant_id'', PStr (e_tenant_id r)),
      (pkey ''project_id'', PStr (e_project_id r)), (pkey ''source_type'', PStr (e_source_type r)),
      (pkey ''source_id'', opt_val (e_source_id r)),
      (pkey ''idempotency_key'', PStr (e_idempotency_key r)),
      (pkey ''observed_at'', PStr (e_observed_at r)), (pkey ''recorded_at'', PStr (e_recorded_at r)),
      (pkey ''valid_from'', opt_val (e_valid_from r)), (pkey ''valid_to'', opt_val (e_valid_to r)),
      (pkey ''actor_type'', opt_val (e_actor_type r)), (pkey ''actor_id'', opt_val (e_actor_id r)),
      (pkey ''authority'', PStr (e_authority r)), (pkey ''sensitivity'', PStr (e_sensitivity r)),
      (pkey ''capture_mode'', PStr (e_capture_mode r)),
      (pkey ''payload_digest'', PStr (e_payload_digest r))]
     @ (case e_stored_payload_digest r of None \<Rightarrow> [] | Some d \<Rightarrow> [(pkey ''stored_payload_digest'', PStr d)])
     @ [(pkey ''schema_version'', PStr (e_schema_version r)), (pkey ''seq'', PInt (e_seq r))]"

definition audit_entry :: "audit_row \<Rightarrow> pydict" where
  "audit_entry r =
     [(pkey ''at'', PStr (a_at r)), (pkey ''actor'', PStr (a_actor r)), (pkey ''action'', PStr (a_action r)),
      (pkey ''object_id'', opt_val (a_object_id r)), (pkey ''before_ref'', opt_val (a_before_ref r)),
      (pkey ''after_ref'', opt_val (a_after_ref r)), (pkey ''authority'', opt_val (a_authority r)),
      (pkey ''detail'', opt_val (a_detail r))]"

definition link :: "pstr \<Rightarrow> pydict \<Rightarrow> exn + pstr" where
  "link prev entry = rbind (canonical_json (PDict entry)) (\<lambda>text. sha256_hex (prev @ [10] @ text))"

text \<open>\<open>ORDER BY seq DESC LIMIT 1\<close>: the hash of the last entry; a missing or empty one reads
  as the genesis.\<close>

definition tip_of :: "pstr option list \<Rightarrow> pstr" where
  "tip_of hs = (if hs = [] then GENESIS else case last hs of Some h \<Rightarrow> if h = [] then GENESIS else h | None \<Rightarrow> GENESIS)"

definition events_by_seq :: "'z store_st_scheme \<Rightarrow> event_row list" where
  "events_by_seq s = sort_key e_seq (events s)"

definition audit_by_seq :: "'z store_st_scheme \<Rightarrow> audit_row list" where
  "audit_by_seq s = sort_key a_seq (audit_log s)"

definition events_tip :: "'z store_st_scheme \<Rightarrow> pstr" where
  "events_tip s = tip_of (map e_entry_hash (events_by_seq s))"

definition audit_tip :: "'z store_st_scheme \<Rightarrow> pstr" where
  "audit_tip s = tip_of (map a_entry_hash (audit_by_seq s))"

subsection \<open>Appending events\<close>

text \<open>The keyword arguments of \<open>append_event\<close>, as the caller passes them.\<close>

record event_args =
  x_tenant_id :: pyval
  x_project_id :: pyval
  x_source_type :: pyval
  x_idempotency_key :: pyval
  x_payload :: pyval
  x_authority :: pyval
  x_observed_at :: pyval
  x_valid_from :: pyval
  x_valid_to :: pyval
  x_actor_type :: pyval
  x_actor_id :: pyval
  x_source_id :: pyval
  x_sensitivity :: pyval
  x_capture_mode :: pyval
  x_schema_version :: pyval
  x_payload_digest :: pyval

text \<open>The checks of \<open>_append_event\<close> before it touches the database, and what it computes
  from the arguments: the payload text and the two digests.\<close>

definition check_event_args :: "event_args \<Rightarrow> exn + unit" where
  "check_event_args a = checks
     [guard (nonempty_string (x_tenant_id a)) ValueError,
      guard (nonempty_string (x_project_id a)) ValueError,
      guard (nonempty_string (x_source_type a)) ValueError,
      guard (nonempty_string (x_idempotency_key a)) ValueError,
      guard (nonempty_string (x_sensitivity a)) ValueError,
      void (validate_public_identifier (x_tenant_id a)),
      void (validate_public_identifier (x_project_id a)),
      guard (x_payload a = PNone \<or> is_dict (x_payload a)) ValueError,
      guard (text_or_none (x_source_id a)) ValueError,
      guard (text_or_none (x_actor_id a)) ValueError,
      guard (text_or_none (x_actor_type a)) ValueError,
      guard (x_actor_type a \<in> set EVENT_ACTOR_TYPES) ValueError,
      guard (in_vocabulary (x_authority a) EVENT_AUTHORITIES) ValueError,
      guard (in_vocabulary (x_capture_mode a) EVENT_CAPTURE_MODES) ValueError,
      guard (x_schema_version a = PStr EVENT_SCHEMA) ValueError,
      validate_datetime True (x_observed_at a),
      validate_datetime True (x_valid_from a),
      validate_datetime True (x_valid_to a),
      (if x_payload_digest a = PNone then Inr () else validate_digest (x_payload_digest a))]"

definition payload_text :: "event_args \<Rightarrow> exn + pstr option" where
  "payload_text a =
     (if x_payload a = PNone then Inr None
      else rcatch (rbind (canonical_json (x_payload a)) (\<lambda>t. Inr (Some t))) value_like (\<lambda>_. Inl ValueError))"

definition stored_digest :: "event_args \<Rightarrow> exn + pstr" where
  "stored_digest a = rbind (payload_text a) (\<lambda>t. sha256_hex (case t of None \<Rightarrow> [] | Some x \<Rightarrow> x))"

definition source_digest :: "event_args \<Rightarrow> exn + pstr" where
  "source_digest a = (case x_payload_digest a of PStr d \<Rightarrow> Inr d | _ \<Rightarrow> stored_digest a)"

text \<open>The row built from valid arguments, before its hashes are known.\<close>

definition new_event_row :: "event_args \<Rightarrow> pstr \<Rightarrow> pstr option \<Rightarrow> pstr \<Rightarrow> pstr \<Rightarrow> pstr \<Rightarrow> int \<Rightarrow> event_row" where
  "new_event_row a now text digest stored eid n =
     (let observed = (case x_observed_at a of PStr ts \<Rightarrow> ts | _ \<Rightarrow> now);
          valid_start = (case x_valid_from a of PStr ts \<Rightarrow> ts | _ \<Rightarrow> observed)
      in \<lparr>e_id = eid, e_tenant_id = text_of (x_tenant_id a), e_project_id = text_of (x_project_id a),
          e_source_type = text_of (x_source_type a), e_source_id = opt_text (x_source_id a),
          e_idempotency_key = text_of (x_idempotency_key a), e_observed_at = observed,
          e_recorded_at = now, e_valid_from = Some valid_start, e_valid_to = opt_text (x_valid_to a),
          e_actor_type = opt_text (x_actor_type a), e_actor_id = opt_text (x_actor_id a),
          e_authority = text_of (x_authority a), e_sensitivity = text_of (x_sensitivity a),
          e_capture_mode = text_of (x_capture_mode a), e_payload_digest = digest,
          e_stored_payload_digest = Some stored, e_payload = text,
          e_schema_version = text_of (x_schema_version a), e_seq = n,
          e_prev_hash = None, e_entry_hash = None\<rparr>)"

text \<open>The row of an earlier delivery under the same key, and the insert with the table's
  primary key and unique index.\<close>

definition same_delivery :: "event_args \<Rightarrow> event_row \<Rightarrow> bool" where
  "same_delivery a r \<longleftrightarrow> e_tenant_id r = text_of (x_tenant_id a) \<and> e_project_id r = text_of (x_project_id a)
     \<and> e_idempotency_key r = text_of (x_idempotency_key a)"

definition find_delivery :: "event_args \<Rightarrow> 'z store_st_scheme \<Rightarrow> event_row option" where
  "find_delivery a s = find (same_delivery a) (events s)"

definition insert_event :: "event_row \<Rightarrow> ('z store_st_scheme, unit) op" where
  "insert_event r = bnd (rd events) (\<lambda>rows.
     bnd (chk (e_id r \<notin> set (map e_id rows)
           \<and> (\<forall>x \<in> set rows. \<not> (e_tenant_id x = e_tenant_id r \<and> e_project_id x = e_project_id r
                \<and> e_idempotency_key x = e_idempotency_key r))) IntegrityError) (\<lambda>_.
     wr (\<lambda>s. s\<lparr>events := events s @ [r]\<rparr>)))"

text \<open>What the locked part of an append decides: a redelivery of an event, a redelivery with
  another payload, or a new event.\<close>

datatype verdict = Redelivered pstr | Mismatched | Appended pstr

definition append_body :: "event_args \<Rightarrow> pstr \<Rightarrow> pstr option \<Rightarrow> pstr \<Rightarrow> pstr \<Rightarrow> ('z store_st_scheme, verdict) op" where
  "append_body a now text digest stored =
     bnd (lift (utf8 (text_of (x_idempotency_key a)))) (\<lambda>_.
     bnd (rd (find_delivery a)) (\<lambda>found. case found of
       Some r \<Rightarrow>
         if e_payload_digest r = digest then ret (Redelivered (e_id r))
         else bnd (wr (\<lambda>s. s\<lparr>payload_mismatches := payload_mismatches s @
                [\<lparr>m_idempotency_key = text_of (x_idempotency_key a), m_existing_digest = e_payload_digest r,
                  m_new_digest = digest, m_recorded_at = now\<rparr>]\<rparr>)) (\<lambda>_. ret Mismatched)
     | None \<Rightarrow>
         bnd (wr (\<lambda>s. s\<lparr>event_seq := event_seq s + 1\<rparr>)) (\<lambda>_.
         bnd (rd event_seq) (\<lambda>n.
         bnd (new_id (lit ''event'')) (\<lambda>eid.
         bnd (rd events_tip) (\<lambda>prev.
         bnd (lift (link prev (event_entry (new_event_row a now text digest stored eid n)))) (\<lambda>h.
         bnd (ret ((new_event_row a now text digest stored eid n)
                \<lparr>e_prev_hash := Some prev, e_entry_hash := Some h\<rparr>)) (\<lambda>row.
         bnd (lift (validate_stored_event row (x_payload a))) (\<lambda>_.
         bnd (insert_event row) (\<lambda>_.
         ret (Appended eid)))))))))))"

subsection \<open>Reading events\<close>

definition event_dict :: "event_row \<Rightarrow> exn + event_row \<times> pyval" where
  "event_dict r = (case e_payload r of
     None \<Rightarrow> Inr (r, PNone)
   | Some text \<Rightarrow> (case e_stored_payload_digest r of
       None \<Rightarrow> Inl EventPayloadIntegrityError
     | Some commitment \<Rightarrow> rbind (sha256_hex text) (\<lambda>d.
         if d \<noteq> commitment then Inl EventPayloadIntegrityError
         else rbind (strict_json_loads (PStr text)) (\<lambda>v. Inr (r, v)))))"

definition get_event :: "pstr \<Rightarrow> pstr option \<Rightarrow> pstr option \<Rightarrow> ('z store_st_scheme, event_row \<times> pyval) op" where
  "get_event eid tenant project = bnd (rd events) (\<lambda>rows.
     case find (\<lambda>r. e_id r = eid) rows of
       None \<Rightarrow> fail KeyError
     | Some r \<Rightarrow>
         if (tenant \<noteq> None \<and> tenant \<noteq> Some (e_tenant_id r)) \<or> (project \<noteq> None \<and> project \<noteq> Some (e_project_id r))
         then fail KeyError else lift (event_dict r))"

definition list_events :: "pyval \<Rightarrow> pyval \<Rightarrow> pyval \<Rightarrow> ('z store_st_scheme, (event_row \<times> pyval) list) op" where
  "list_events project since_seq tenant = (case since_seq of
     PInt n \<Rightarrow>
       bnd (chk (0 \<le> n) ValueError) (\<lambda>_.
       bnd (lift (if tenant = PNone then Inr () else void (validate_public_identifier tenant))) (\<lambda>_.
       bnd (lift (if project = PNone then Inr () else void (validate_public_identifier project))) (\<lambda>_.
       bnd (rd events_by_seq) (\<lambda>rows. lift (rmap event_dict
         (filter (\<lambda>r. n < e_seq r \<and> (tenant = PNone \<or> tenant = PStr (e_tenant_id r))
            \<and> (project = PNone \<or> project = PStr (e_project_id r))) rows))))))
   | _ \<Rightarrow> fail ValueError)"

definition deliver :: "verdict \<Rightarrow> ('z store_st_scheme, event_row \<times> pyval) op" where
  "deliver v = (case v of
     Redelivered eid \<Rightarrow> fail (DuplicateEventError eid)
   | Mismatched \<Rightarrow> fail PayloadMismatchError
   | Appended eid \<Rightarrow> get_event eid None None)"

text \<open>\<open>append_event\<close> commits what it decides before it raises, so that the record of a payload
  mismatch survives; any other failure rolls the append back.\<close>

definition append_event :: "event_args \<Rightarrow> ('z store_st_scheme, event_row \<times> pyval) op" where
  "append_event a =
     bnd (lift (check_event_args a)) (\<lambda>_.
     bnd (lift (payload_text a)) (\<lambda>text.
     bnd (lift (stored_digest a)) (\<lambda>stored.
     bnd (lift (source_digest a)) (\<lambda>digest.
     bnd utcnow (\<lambda>now.
     bnd (rd depth) (\<lambda>d.
     bnd (chk (d = 0) RuntimeError) (\<lambda>_.
     bnd (atomic (append_body a now text digest stored)) deliver)))))))"

text \<open>The append inside an owned transaction: a savepoint that a duplicate or a mismatch rolls
  back like any other failure.\<close>

definition append_event_in_transaction :: "event_args \<Rightarrow> ('z store_st_scheme, event_row \<times> pyval) op" where
  "append_event_in_transaction a =
     bnd (rd depth) (\<lambda>d.
     bnd (chk (0 < d) RuntimeError) (\<lambda>_.
     transaction (
       bnd (lift (check_event_args a)) (\<lambda>_.
       bnd (lift (payload_text a)) (\<lambda>text.
       bnd (lift (stored_digest a)) (\<lambda>stored.
       bnd (lift (source_digest a)) (\<lambda>digest.
       bnd utcnow (\<lambda>now.
       bnd (append_body a now text digest stored) deliver))))))))"

subsection \<open>The audit log\<close>

definition audit_row_of :: "pstr \<Rightarrow> pstr \<Rightarrow> pstr \<Rightarrow> pstr option \<Rightarrow> pstr option \<Rightarrow> pstr option \<Rightarrow> pstr option
    \<Rightarrow> pstr option \<Rightarrow> audit_row" where
  "audit_row_of now actor action object_id before_ref after_ref authority detail =
     \<lparr>a_seq = 0, a_at = now, a_actor = actor, a_action = action, a_object_id = object_id,
      a_before_ref = before_ref, a_after_ref = after_ref, a_authority = authority, a_detail = detail,
      a_prev_hash = None, a_entry_hash = None\<rparr>"

text \<open>The write of \<open>audit\<close>: the lock row, the link to the tip, and the row, numbered by
  SQLite's autoincrement.\<close>

definition audit_append :: "audit_row \<Rightarrow> ('z store_st_scheme, unit) op" where
  "audit_append r =
     bnd (wr (\<lambda>s. s\<lparr>chain_lock := chain_lock s + 1\<rparr>)) (\<lambda>_.
     bnd (rd audit_tip) (\<lambda>prev.
     bnd (lift (link prev (audit_entry r))) (\<lambda>h.
     wr (\<lambda>s. s\<lparr>audit_seq := audit_seq s + 1,
           audit_log := audit_log s @ [r\<lparr>a_seq := audit_seq s + 1, a_prev_hash := Some prev,
             a_entry_hash := Some h\<rparr>]\<rparr>))))"

definition audit :: "pyval \<Rightarrow> pyval \<Rightarrow> pyval \<Rightarrow> pyval \<Rightarrow> pyval \<Rightarrow> pyval \<Rightarrow> pyval
    \<Rightarrow> ('z store_st_scheme, unit) op" where
  "audit actor action object_id before_ref after_ref authority detail =
     bnd (lift (validate_log_text False 1024 actor)) (\<lambda>actor'.
     bnd (lift (validate_log_text False 256 action)) (\<lambda>action'.
     bnd (lift (validate_log_text True 4096 object_id)) (\<lambda>object_id'.
     bnd (lift (validate_log_text True 4096 before_ref)) (\<lambda>before_ref'.
     bnd (lift (validate_log_text True 4096 after_ref)) (\<lambda>after_ref'.
     bnd (lift (validate_log_text True 256 authority)) (\<lambda>authority'.
     bnd (lift (validate_log_text True 262144 (if detail = PStr [] then PNone else detail))) (\<lambda>detail'.
     bnd utcnow (\<lambda>now.
     bnd (ret (audit_row_of now (the actor') (the action') object_id' before_ref' after_ref' authority' detail')) (\<lambda>r.
     bnd (lift (canonical_json (PDict (audit_entry r)))) (\<lambda>_.
     write_scope (audit_append r)))))))))))"

text \<open>SQL's \<open>LIKE\<close>: \<open>%\<close> is any run, \<open>_\<close> any character, ASCII letters match in either case.\<close>

definition fold_ascii :: "nat \<Rightarrow> nat" where
  "fold_ascii c = (if 65 \<le> c \<and> c \<le> 90 then c + 32 else c)"

fun sql_like :: "pstr \<Rightarrow> pstr \<Rightarrow> bool" where
  "sql_like [] s = (s = [])"
| "sql_like (p # ps) [] = (p = 37 \<and> sql_like ps [])"
| "sql_like (p # ps) (c # cs) =
     (if p = 37 then sql_like ps (c # cs) \<or> sql_like (p # ps) cs
      else (p = 95 \<or> fold_ascii p = fold_ascii c) \<and> sql_like ps cs)"

definition audit_entries :: "pstr \<Rightarrow> ('z store_st_scheme, audit_row list) op" where
  "audit_entries action_prefix =
     rd (\<lambda>s. filter (\<lambda>r. sql_like (action_prefix @ [37]) (a_action r)) (audit_by_seq s))"

subsection \<open>Evidence\<close>

fun text_or_bytes :: "pyval \<Rightarrow> bool" where
  "text_or_bytes (PBytes b) = True"
| "text_or_bytes (PStr s) = True"
| "text_or_bytes _ = False"

definition evidence_bytes :: "pyval \<Rightarrow> exn + nat list" where
  "evidence_bytes content = (case content of PBytes b \<Rightarrow> Inr b | PStr s \<Rightarrow> utf8 s | _ \<Rightarrow> Inl ValueError)"

definition find_evidence :: "pstr \<Rightarrow> 'z store_st_scheme \<Rightarrow> evidence_row option" where
  "find_evidence digest s = find (\<lambda>r. b_digest r = digest) (evidence_blobs s)"

definition new_evidence_row :: "nat list \<Rightarrow> pstr \<Rightarrow> pstr \<Rightarrow> pstr \<Rightarrow> evidence_row" where
  "new_evidence_row data media_type sensitivity now =
     \<lparr>b_digest = sha256_bytes_hex data, b_content = Some data, b_media_type = media_type,
      b_size = length data, b_sensitivity = sensitivity, b_captured_at = now, b_deleted_at = None\<rparr>"

definition put_evidence_body :: "nat list \<Rightarrow> pstr \<Rightarrow> pstr \<Rightarrow> ('z store_st_scheme, pstr) op" where
  "put_evidence_body data media_type sensitivity =
     bnd (rd (find_evidence (sha256_bytes_hex data))) (\<lambda>found. case found of
       Some r \<Rightarrow> bnd (chk (b_media_type r = media_type \<and> b_sensitivity r = sensitivity
                       \<and> b_size r = length data) ValueError) (\<lambda>_. ret (sha256_bytes_hex data))
     | None \<Rightarrow> bnd utcnow (\<lambda>now.
         bnd (wr (\<lambda>s. s\<lparr>evidence_blobs := evidence_blobs s @ [new_evidence_row data media_type sensitivity now]\<rparr>)) (\<lambda>_.
         ret (sha256_bytes_hex data))))"

definition put_evidence :: "pyval \<Rightarrow> pyval \<Rightarrow> pyval \<Rightarrow> ('z store_st_scheme, pstr) op" where
  "put_evidence content media_type sensitivity =
     bnd (chk (text_or_bytes content) ValueError) (\<lambda>_.
     bnd (lift (validate_log_text False 256 media_type)) (\<lambda>media_type'.
     bnd (lift (validate_log_text False 256 sensitivity)) (\<lambda>sensitivity'.
     bnd (lift (evidence_bytes content)) (\<lambda>data.
     write_scope (put_evidence_body data (the media_type') (the sensitivity'))))))"

definition get_evidence :: "pstr \<Rightarrow> ('z store_st_scheme, nat list option) op" where
  "get_evidence digest = bnd (rd (find_evidence digest)) (\<lambda>found. case found of
     None \<Rightarrow> ret None
   | Some r \<Rightarrow>
       if b_deleted_at r \<noteq> None then ret None
       else (case b_content r of
           None \<Rightarrow> fail EvidenceIntegrityError
         | Some c \<Rightarrow> if length c \<noteq> b_size r \<or> sha256_bytes_hex c \<noteq> digest then fail EvidenceIntegrityError
             else ret (Some c)))"

definition delete_evidence :: "pyval \<Rightarrow> pyval \<Rightarrow> pyval \<Rightarrow> ('z store_st_scheme, bool) op" where
  "delete_evidence digest actor reason =
     bnd (lift (validate_digest digest)) (\<lambda>_.
     bnd (lift (validate_log_text False 1024 actor)) (\<lambda>actor'.
     bnd (lift (validate_log_text False 262144 reason)) (\<lambda>reason'.
     transaction (
       bnd (rd evidence_blobs) (\<lambda>rows.
       if \<exists>r \<in> set rows. b_digest r = text_of digest \<and> b_deleted_at r = None then
         bnd utcnow (\<lambda>now.
         bnd (wr (\<lambda>s. s\<lparr>evidence_blobs := map (\<lambda>r. if b_digest r = text_of digest
                then r\<lparr>b_content := None, b_deleted_at := Some now\<rparr> else r) (evidence_blobs s)\<rparr>)) (\<lambda>_.
         bnd (audit (opt_val actor') (pkey ''evidence.delete'') digest PNone PNone PNone (opt_val reason')) (\<lambda>_.
         ret True)))
       else ret False)))))"

subsection \<open>Processing markers\<close>

definition mark_processed :: "pyval \<Rightarrow> pyval \<Rightarrow> pyval \<Rightarrow> pyval \<Rightarrow> ('z store_st_scheme, unit) op" where
  "mark_processed event_id processor_version status error =
     bnd (lift (validate_public_identifier event_id)) (\<lambda>eid.
     bnd (lift (validate_log_text False 256 processor_version)) (\<lambda>pv.
     bnd (chk (in_vocabulary status [lit ''ok'', lit ''quarantined'']) ValueError) (\<lambda>_.
     bnd (lift (validate_log_text True 262144 error)) (\<lambda>err.
     write_scope (
       bnd utcnow (\<lambda>now. wr (\<lambda>s. s\<lparr>processed_events :=
         filter (\<lambda>r. \<not> (p_event_id r = eid \<and> p_processor_version r = the pv)) (processed_events s) @
         [\<lparr>p_event_id = eid, p_processor_version = the pv, p_processed_at = now, p_status = text_of status,
           p_error = err\<rparr>]\<rparr>)))))))"

definition unprocessed_event_ids :: "pyval \<Rightarrow> pyval \<Rightarrow> ('z store_st_scheme, pstr list) op" where
  "unprocessed_event_ids project tenant =
     bnd (lift (if tenant = PNone then Inr () else void (validate_public_identifier tenant))) (\<lambda>_.
     bnd (lift (if project = PNone then Inr () else void (validate_public_identifier project))) (\<lambda>_.
     rd (\<lambda>s. map e_id (filter (\<lambda>r. e_id r \<notin> p_event_id ` set (processed_events s)
        \<and> (tenant = PNone \<or> tenant = PStr (e_tenant_id r))
        \<and> (project = PNone \<or> project = PStr (e_project_id r))) (events_by_seq s)))))"

definition quarantined :: "pstr \<Rightarrow> ('z store_st_scheme, processed_row list) op" where
  "quarantined processor_version =
     rd (\<lambda>s. filter (\<lambda>r. p_status r = lit ''quarantined'' \<and> p_processor_version r = processor_version)
       (processed_events s))"

end
