(* ===== verification/Store_Chain.thy ===== *)
theory Store_Chain
  imports Store
begin

section \<open>store.py: tamper evidence\<close>

text \<open>
  \<open>verify_chain\<close>, the anchors that commit to a chain out of band, and the SQLite triggers
  that refuse rewrites. The chain of a table is the list of its rows in \<open>seq\<close> order, seen
  as links: the columns the hash covers, the two stored hashes, and for events the check
  of the retained payload. \<open>chained\<close> is the specification of an intact chain, and
  \<open>walk_intact\<close> shows that the verifier decides it.
\<close>

subsection \<open>verify_chain\<close>

datatype payload_check = NotCovered | Unavailable | Uncommitted | Committed pstr pstr

record link_row =
  l_ident :: pstr
  l_seq :: int
  l_entry :: pydict
  l_prev :: "pstr option"
  l_hash :: "pstr option"
  l_payload :: payload_check

definition event_link :: "event_row \<Rightarrow> link_row" where
  "event_link r =
     \<lparr>l_ident = e_id r, l_seq = e_seq r, l_entry = event_entry r, l_prev = e_prev_hash r,
      l_hash = e_entry_hash r,
      l_payload = (case e_payload r of None \<Rightarrow> Unavailable
        | Some text \<Rightarrow> (case e_stored_payload_digest r of None \<Rightarrow> Uncommitted | Some d \<Rightarrow> Committed text d))\<rparr>"

definition audit_link :: "audit_row \<Rightarrow> link_row" where
  "audit_link r =
     \<lparr>l_ident = lit ''audit:'' @ str_of_int (a_seq r), l_seq = a_seq r, l_entry = audit_entry r,
      l_prev = a_prev_hash r, l_hash = a_entry_hash r, l_payload = NotCovered\<rparr>"

datatype reason = NoCommitment | PayloadDiffers | PredecessorDiffers | ContentDiffers

definition payload_fault :: "payload_check \<Rightarrow> exn + reason option" where
  "payload_fault c = (case c of
     Uncommitted \<Rightarrow> Inr (Some NoCommitment)
   | Committed text d \<Rightarrow> rbind (sha256_hex text) (\<lambda>h. Inr (if h \<noteq> d then Some PayloadDiffers else None))
   | _ \<Rightarrow> Inr None)"

text \<open>The report of a broken chain names the row, the reason and its number; an intact one
  gives the number of entries, the tip and how many payloads are gone.\<close>

datatype chain_report =
    Broken pstr reason int
  | Intact nat pstr nat

fun walk :: "pstr \<Rightarrow> nat \<Rightarrow> nat \<Rightarrow> link_row list \<Rightarrow> exn + chain_report" where
  "walk prev n missing [] = Inr (Intact n prev missing)"
| "walk prev n missing (r # rs) =
     rbind (payload_fault (l_payload r)) (\<lambda>fault. case fault of
       Some why \<Rightarrow> Inr (Broken (l_ident r) why (l_seq r))
     | None \<Rightarrow> rbind (link prev (l_entry r)) (\<lambda>expected.
         if l_prev r \<noteq> Some prev then Inr (Broken (l_ident r) PredecessorDiffers (l_seq r))
         else if l_hash r \<noteq> Some expected then Inr (Broken (l_ident r) ContentDiffers (l_seq r))
         else walk expected (Suc n) (if l_payload r = Unavailable then Suc missing else missing) rs))"

definition chain_rows :: "pstr \<Rightarrow> 'z store_st_scheme \<Rightarrow> link_row list" where
  "chain_rows table s = (if table = lit ''events'' then map event_link (events_by_seq s)
     else map audit_link (audit_by_seq s))"

definition is_chain_table :: "pyval \<Rightarrow> bool" where
  "is_chain_table v \<longleftrightarrow> v = pkey ''events'' \<or> v = pkey ''audit_log''"

definition verify_chain :: "pstr \<Rightarrow> 'z store_st_scheme \<Rightarrow> exn + chain_report" where
  "verify_chain table s = (if is_chain_table (PStr table) then walk GENESIS 0 0 (chain_rows table s)
     else Inl ValueError)"

subsection \<open>Anchors\<close>

definition is_intact :: "chain_report \<Rightarrow> bool" where
  "is_intact c = (case c of Intact n t m \<Rightarrow> True | Broken i w q \<Rightarrow> False)"

definition chain_tip :: "pstr \<Rightarrow> 'z store_st_scheme \<Rightarrow> pstr" where
  "chain_tip table s = tip_of (map l_hash (chain_rows table s))"

definition export_anchor :: "pstr \<Rightarrow> pyval \<Rightarrow> pyval \<Rightarrow> ('z store_st_scheme, pydict) op" where
  "export_anchor table tenant project =
     bnd (chk ((tenant = PNone) = (project = PNone)) ValueError) (\<lambda>_.
     bnd (chk (tenant = PNone \<or> is_public_identifier tenant \<and> is_public_identifier project) ValueError) (\<lambda>_.
     bnd (rd (verify_chain table)) (\<lambda>r.
     bnd (lift r) (\<lambda>report.
     bnd (chk (is_intact report) AnchorExportError) (\<lambda>_.
     bnd (rd (\<lambda>s. (length (chain_rows table s), chain_tip table s))) (\<lambda>(n, tip).
     bnd utcnow (\<lambda>now.
     ret ([(pkey ''schema_version'', pkey ''cce.anchor.v1''), (pkey ''table'', PStr table),
           (pkey ''count'', PInt (int n)), (pkey ''tip'', PStr tip),
           (pkey ''intact_at_export'', PBool True), (pkey ''exported_at'', PStr now)]
          @ (if tenant = PNone then [] else [(pkey ''tenant_id'', tenant), (pkey ''project_id'', project)])))))))))"

definition ANCHOR_REQUIRED_FIELDS :: "pyval list" where
  "ANCHOR_REQUIRED_FIELDS =
     [pkey ''schema_version'', pkey ''table'', pkey ''count'', pkey ''tip'', pkey ''intact_at_export'',
      pkey ''exported_at'']"

definition ANCHOR_BINDING_FIELDS :: "pyval list" where
  "ANCHOR_BINDING_FIELDS = [pkey ''tenant_id'', pkey ''project_id'']"

text \<open>The document checks, in the order the code makes them. \<open>Some (table, count, tip, bound)\<close>
  is an anchor the live chain can be compared with.\<close>

definition anchor_fields_ok :: "pydict \<Rightarrow> bool" where
  "anchor_fields_ok d \<longleftrightarrow> (let ks = map fst d; binding = filter (\<lambda>f. f \<in> set ks) ANCHOR_BINDING_FIELDS in
     set ANCHOR_REQUIRED_FIELDS \<subseteq> set ks
     \<and> set ks \<subseteq> set ANCHOR_REQUIRED_FIELDS \<union> set ANCHOR_BINDING_FIELDS
     \<and> (binding = [] \<or> binding = ANCHOR_BINDING_FIELDS))"

definition anchor_bound :: "pydict \<Rightarrow> bool" where
  "anchor_bound d \<longleftrightarrow> pkey ''tenant_id'' \<in> set (map fst d)"

definition anchor_binding_ok :: "pydict \<Rightarrow> pyval \<Rightarrow> pyval \<Rightarrow> bool" where
  "anchor_binding_ok d tenant project \<longleftrightarrow> anchor_bound d \<longrightarrow>
     (let ten = dget_none d (lit ''tenant_id''); prj = dget_none d (lit ''project_id'') in
      is_public_identifier ten \<and> is_public_identifier prj
      \<and> (tenant = PNone \<or> ten = tenant) \<and> (project = PNone \<or> prj = project))"

fun count_tip_ok :: "pyval \<Rightarrow> pyval \<Rightarrow> bool" where
  "count_tip_ok (PInt n) (PStr tip) = (0 \<le> n \<and> DIGEST_RE tip \<and> \<not> (n = 0 \<and> tip \<noteq> GENESIS) \<and> \<not> (0 < n \<and> tip = GENESIS))"
| "count_tip_ok _ _ = False"

definition anchor_ok :: "pydict \<Rightarrow> pyval \<Rightarrow> pyval \<Rightarrow> bool" where
  "anchor_ok d tenant project \<longleftrightarrow>
     anchor_fields_ok d
     \<and> (tenant = PNone) = (project = PNone)
     \<and> (tenant \<noteq> PNone \<longrightarrow> anchor_bound d)
     \<and> dget_none d (lit ''schema_version'') = pkey ''cce.anchor.v1''
     \<and> is_chain_table (dget_none d (lit ''table''))
     \<and> count_tip_ok (dget_none d (lit ''count'')) (dget_none d (lit ''tip''))
     \<and> is_canonical_utc_timestamp (dget_none d (lit ''exported_at''))
     \<and> dget_none d (lit ''intact_at_export'') = PBool True
     \<and> anchor_binding_ok d tenant project"

datatype anchor_verdict =
    AnchorInvalid
  | ChainBroken chain_report
  | TailRemoved nat nat
  | PrefixRewritten pstr "pstr option"
  | AnchorHolds bool nat nat

fun int_of :: "pyval \<Rightarrow> int" where
  "int_of (PInt n) = n"
| "int_of _ = 0"

text \<open>The message about unexpected members sorts their names: \<open>TypeError\<close> when two of them
  have no order.\<close>

datatype comparison = Equal | Ordered | Unordered

definition is_number :: "pyval \<Rightarrow> bool" where
  "is_number v = (case v of PBool _ \<Rightarrow> True | PInt _ \<Rightarrow> True | PFloat _ \<Rightarrow> True | _ \<Rightarrow> False)"

function compared :: "pyval \<Rightarrow> pyval \<Rightarrow> comparison" and compared_items :: "pyval list \<Rightarrow> pyval list \<Rightarrow> comparison" where
  "compared v w = (case (v, w) of
     (PTuple vs, PTuple ws) \<Rightarrow> compared_items vs ws
   | (PStr x, PStr y) \<Rightarrow> (if x = y then Equal else Ordered)
   | (PBytes x, PBytes y) \<Rightarrow> (if x = y then Equal else Ordered)
   | _ \<Rightarrow> if py_eq v w then Equal else if is_number v \<and> is_number w then Ordered else Unordered)"
| "compared_items [] ws = (if ws = [] then Equal else Ordered)"
| "compared_items (v # vs) ws = (case ws of [] \<Rightarrow> Ordered
   | w # ws' \<Rightarrow> (case compared v w of Equal \<Rightarrow> compared_items vs ws' | c \<Rightarrow> c))"
  by pat_completeness auto
termination
  by (relation "measure (\<lambda>x. case x of Inl (v, w) \<Rightarrow> size v | Inr (vs, ws) \<Rightarrow> size_list size vs)")
    (auto split: pyval.splits)

declare compared.simps [simp del]

definition unknown_fields :: "pydict \<Rightarrow> pyval list" where
  "unknown_fields d = filter (\<lambda>k. k \<notin> set ANCHOR_REQUIRED_FIELDS \<union> set ANCHOR_BINDING_FIELDS) (map fst d)"

definition unsortable :: "pyval list \<Rightarrow> bool" where
  "unsortable ks \<longleftrightarrow> list_ex (\<lambda>a. list_ex (\<lambda>b. a \<noteq> b \<and> compared a b = Unordered) ks) ks"

definition verify_against_anchor :: "pyval \<Rightarrow> pyval \<Rightarrow> pyval \<Rightarrow> 'z store_st_scheme \<Rightarrow> exn + anchor_verdict" where
  "verify_against_anchor anchor tenant project s = (case anchor of
     PDict d \<Rightarrow>
       if \<not> anchor_fields_ok d \<and> unsortable (unknown_fields d) then Inl TypeError
       else if \<not> anchor_ok d tenant project then Inr AnchorInvalid
       else (let table = text_of (dget_none d (lit ''table'')); count = nat (int_of (dget_none d (lit ''count'')));
                 tip = text_of (dget_none d (lit ''tip'')); rows = chain_rows table s in
         rbind (verify_chain table s) (\<lambda>report.
           if \<not> is_intact report then Inr (ChainBroken report)
           else if length rows < count then Inr (TailRemoved count (length rows))
           else (let prefix_tip = (if count = 0 then Some GENESIS else l_hash (rows ! (count - 1))) in
             if prefix_tip \<noteq> Some tip then Inr (PrefixRewritten tip prefix_tip)
             else Inr (AnchorHolds (anchor_bound d) count (length rows)))))
   | _ \<Rightarrow> Inr AnchorInvalid)"

subsection \<open>Triggers\<close>

text \<open>
  What a statement on the three protected tables can do once the triggers are installed. A
  trigger fires on the columns an \<open>UPDATE\<close> names. A statement is given by the columns it sets,
  the rows it selects and the new values; without a trigger that aborts it, it sets any of them.
\<close>

datatype statement =
    UpdateEvents "pstr list" "event_row \<Rightarrow> bool" "event_row \<Rightarrow> event_row"
  | DeleteEvents "event_row \<Rightarrow> bool"
  | UpdateEvidence "pstr list" "evidence_row \<Rightarrow> bool" "evidence_row \<Rightarrow> evidence_row"
  | DeleteEvidence "evidence_row \<Rightarrow> bool"
  | UpdateAudit "audit_row \<Rightarrow> bool" "audit_row \<Rightarrow> audit_row"
  | DeleteAudit "audit_row \<Rightarrow> bool"

definition EVENT_IMMUTABLE :: "pstr list" where
  "EVENT_IMMUTABLE = map lit
     [''event_id'', ''tenant_id'', ''project_id'', ''source_type'', ''source_id'', ''idempotency_key'',
      ''observed_at'', ''recorded_at'', ''authority'', ''payload_digest'', ''stored_payload_digest'',
      ''schema_version'', ''seq'', ''prev_hash'', ''entry_hash'', ''valid_from'', ''valid_to'',
      ''actor_type'', ''actor_id'', ''sensitivity'', ''capture_mode'']"

definition EVIDENCE_IMMUTABLE :: "pstr list" where
  "EVIDENCE_IMMUTABLE = map lit [''digest'', ''media_type'', ''size'', ''sensitivity'', ''captured_at'']"

text \<open>The row an \<open>UPDATE\<close> writes: the named columns with the new values, the others as they
  were.\<close>

definition column :: "pstr list \<Rightarrow> string \<Rightarrow> ('r \<Rightarrow> 'c) \<Rightarrow> 'r \<Rightarrow> 'r \<Rightarrow> 'c" where
  "column cols name get new old = (if lit name \<in> set cols then get new else get old)"

definition set_event :: "pstr list \<Rightarrow> (event_row \<Rightarrow> event_row) \<Rightarrow> event_row \<Rightarrow> event_row" where
  "set_event cols f r =
     \<lparr>e_id = column cols ''event_id'' e_id (f r) r,
      e_tenant_id = column cols ''tenant_id'' e_tenant_id (f r) r,
      e_project_id = column cols ''project_id'' e_project_id (f r) r,
      e_source_type = column cols ''source_type'' e_source_type (f r) r,
      e_source_id = column cols ''source_id'' e_source_id (f r) r,
      e_idempotency_key = column cols ''idempotency_key'' e_idempotency_key (f r) r,
      e_observed_at = column cols ''observed_at'' e_observed_at (f r) r,
      e_recorded_at = column cols ''recorded_at'' e_recorded_at (f r) r,
      e_valid_from = column cols ''valid_from'' e_valid_from (f r) r,
      e_valid_to = column cols ''valid_to'' e_valid_to (f r) r,
      e_actor_type = column cols ''actor_type'' e_actor_type (f r) r,
      e_actor_id = column cols ''actor_id'' e_actor_id (f r) r,
      e_authority = column cols ''authority'' e_authority (f r) r,
      e_sensitivity = column cols ''sensitivity'' e_sensitivity (f r) r,
      e_capture_mode = column cols ''capture_mode'' e_capture_mode (f r) r,
      e_payload_digest = column cols ''payload_digest'' e_payload_digest (f r) r,
      e_stored_payload_digest = column cols ''stored_payload_digest'' e_stored_payload_digest (f r) r,
      e_payload = column cols ''payload'' e_payload (f r) r,
      e_schema_version = column cols ''schema_version'' e_schema_version (f r) r,
      e_seq = column cols ''seq'' e_seq (f r) r,
      e_prev_hash = column cols ''prev_hash'' e_prev_hash (f r) r,
      e_entry_hash = column cols ''entry_hash'' e_entry_hash (f r) r\<rparr>"

definition set_evidence :: "pstr list \<Rightarrow> (evidence_row \<Rightarrow> evidence_row) \<Rightarrow> evidence_row \<Rightarrow> evidence_row" where
  "set_evidence cols f r =
     \<lparr>b_digest = column cols ''digest'' b_digest (f r) r,
      b_content = column cols ''content'' b_content (f r) r,
      b_media_type = column cols ''media_type'' b_media_type (f r) r,
      b_size = column cols ''size'' b_size (f r) r,
      b_sensitivity = column cols ''sensitivity'' b_sensitivity (f r) r,
      b_captured_at = column cols ''captured_at'' b_captured_at (f r) r,
      b_deleted_at = column cols ''deleted_at'' b_deleted_at (f r) r\<rparr>"

definition is_tombstoning :: "evidence_row \<Rightarrow> evidence_row \<Rightarrow> bool" where
  "is_tombstoning old new \<longleftrightarrow> b_content old \<noteq> None \<and> b_content new = None
     \<and> b_deleted_at old = None \<and> b_deleted_at new \<noteq> None"

definition run_statement :: "statement \<Rightarrow> ('z store_st_scheme, unit) op" where
  "run_statement q = (case q of
     UpdateEvents cols sel f \<Rightarrow> bnd (rd events) (\<lambda>rows.
       let hit = filter sel rows in
       bnd (chk (hit = [] \<or> set cols \<inter> set EVENT_IMMUTABLE = {}) IntegrityError) (\<lambda>_.
       bnd (chk (\<forall>r \<in> set hit. lit ''payload'' \<in> set cols \<longrightarrow> e_payload (set_event cols f r) = None) IntegrityError) (\<lambda>_.
       wr (\<lambda>s. s\<lparr>events := map (\<lambda>r. if sel r then set_event cols f r else r) (events s)\<rparr>))))
   | DeleteEvents sel \<Rightarrow> bnd (rd events) (\<lambda>rows. chk (filter sel rows = []) IntegrityError)
   | UpdateEvidence cols sel f \<Rightarrow> bnd (rd evidence_blobs) (\<lambda>rows.
       let hit = filter sel rows in
       bnd (chk (hit = [] \<or> set cols \<inter> set EVIDENCE_IMMUTABLE = {}) IntegrityError) (\<lambda>_.
       bnd (chk (\<forall>r \<in> set hit. set cols \<inter> {lit ''content'', lit ''deleted_at''} \<noteq> {} \<longrightarrow>
              is_tombstoning r (set_evidence cols f r)) IntegrityError) (\<lambda>_.
       wr (\<lambda>s. s\<lparr>evidence_blobs := map (\<lambda>r. if sel r then set_evidence cols f r else r) (evidence_blobs s)\<rparr>))))
   | DeleteEvidence sel \<Rightarrow> bnd (rd evidence_blobs) (\<lambda>rows. chk (filter sel rows = []) IntegrityError)
   | UpdateAudit sel f \<Rightarrow> bnd (rd audit_log) (\<lambda>rows. chk (filter sel rows = []) IntegrityError)
   | DeleteAudit sel \<Rightarrow> bnd (rd audit_log) (\<lambda>rows. chk (filter sel rows = []) IntegrityError))"

end
