(* ===== verification/Store_Ops.thy ===== *)
theory Store_Ops
  imports Store_Chain
begin

section \<open>store.py: what every operation keeps\<close>

text \<open>
  \<open>store_relation\<close> is the interface between the store's operations and the facts about
  them: a relation on states that the few primitive writes keep is kept by every operation,
  with its failures, its rollbacks and its nested transactions. \<open>store_call\<close> names the
  operations, so that \<open>run_session\<close> runs any sequence a client may issue.
\<close>

lemma tables_store:
  fixes s t :: "'z store_st_scheme"
  assumes "tables s = tables t"
  shows "events s = events t" "event_seq s = event_seq t" "payload_mismatches s = payload_mismatches t"
    "evidence_blobs s = evidence_blobs t" "processed_events s = processed_events t"
    "audit_log s = audit_log t" "audit_seq s = audit_seq t"
    "chain_rows table s = chain_rows table t"
  using assms by (cases s; cases t; simp add: chain_rows_def events_by_seq_def audit_by_seq_def)+

lemma tables_store_moves [simp]:
  fixes s t :: "'z store_st_scheme"
  shows "events (rollback s t) = events s" "events (enter s) = events s" "events (leave s t) = events t"
    "audit_log (rollback s t) = audit_log s" "audit_log (enter s) = audit_log s" "audit_log (leave s t) = audit_log t"
    "evidence_blobs (rollback s t) = evidence_blobs s" "evidence_blobs (enter s) = evidence_blobs s"
    "evidence_blobs (leave s t) = evidence_blobs t"
    "event_seq (rollback s t) = event_seq s" "event_seq (enter s) = event_seq s" "event_seq (leave s t) = event_seq t"
    "audit_seq (rollback s t) = audit_seq s" "audit_seq (enter s) = audit_seq s" "audit_seq (leave s t) = audit_seq t"
    "payload_mismatches (rollback s t) = payload_mismatches s"
    "payload_mismatches (enter s) = payload_mismatches s"
    "payload_mismatches (leave s t) = payload_mismatches t"
  by (simp_all add: rollback_def enter_def leave_def)

subsection \<open>The interface\<close>

locale store_relation = db_relation R for R :: "'z store_st_scheme \<Rightarrow> 'z store_st_scheme \<Rightarrow> bool" +
  assumes R_append: "payload_text a = Inr text \<Longrightarrow> stored_digest a = Inr stored \<Longrightarrow>
      keeps R (append_body a now text digest stored)"
    and R_audit: "keeps R (audit_append ar)"
    and R_put: "find_evidence (sha256_bytes_hex data) s = None \<Longrightarrow>
      R s (s\<lparr>evidence_blobs := evidence_blobs s @ [new_evidence_row data mt sv now]\<rparr>)"
    and R_redact: "R s (s\<lparr>evidence_blobs := map (\<lambda>r. if b_digest r = dg
        then r\<lparr>b_content := None, b_deleted_at := Some now\<rparr> else r) (evidence_blobs s)\<rparr>)"
    and R_mark: "R s (s\<lparr>processed_events := f s\<rparr>)"
begin

lemma keeps_get_event [keeps_intros]: "keeps R (get_event eid t p)"
  unfolding get_event_def by (intro keeps_intros)

lemma keeps_deliver [keeps_intros]: "keeps R (deliver v)"
  unfolding deliver_def by (cases v) (auto intro!: keeps_intros)

lemma keeps_bnd_lift:
  assumes "\<And>x. r = Inr x \<Longrightarrow> keeps R (k x)"
  shows "keeps R (bnd (lift r) k)"
  using assms keeps_fail by (cases r) (auto simp: keeps_def bnd_def lift_def fail_def)

lemma keeps_append_event [keeps_intros]: "keeps R (append_event a)"
  unfolding append_event_def
  by (intro keeps_bnd_lift keeps_bnd keeps_utcnow keeps_rd keeps_chk keeps_atomic keeps_deliver R_append)

lemma keeps_append_event_in_transaction [keeps_intros]: "keeps R (append_event_in_transaction a)"
  unfolding append_event_in_transaction_def
  by (intro keeps_bnd_lift keeps_bnd keeps_utcnow keeps_rd keeps_chk keeps_transaction keeps_deliver R_append)

lemma keeps_audit [keeps_intros]: "keeps R (audit a b c d e f g)"
  unfolding audit_def by (intro keeps_intros R_audit)

lemma keeps_put_evidence_body: "keeps R (put_evidence_body data mt sv)"
proof (rule keepsI)
  fix s
  show "R s (snd (put_evidence_body data mt sv s))"
  proof (cases "find_evidence (sha256_bytes_hex data) s")
    case (Some r)
    then show ?thesis by (simp add: put_evidence_body_def bnd_rd bnd_chk ret_run R_refl)
  next
    case None
    obtain q t where u: "utcnow s = (q, t)" by fastforce
    have tt: "tables t = tables s" using u by (rule utcnow_tables)
    then have st: "R s t" using u R_utcnow [of s] by simp
    have fe: "find_evidence (sha256_bytes_hex data) t = None"
      using None tables_store(4) [OF tt] by (simp add: find_evidence_def)
    show ?thesis
      using None u R_trans [OF st R_put [OF fe]] st
      by (cases q) (simp_all add: put_evidence_body_def bnd_rd bnd_wr bnd_run_Inr bnd_run_Inl ret_run)
  qed
qed

lemma keeps_put_evidence [keeps_intros]: "keeps R (put_evidence c m v)"
  unfolding put_evidence_def by (intro keeps_intros keeps_put_evidence_body)

lemma keeps_delete_evidence [keeps_intros]: "keeps R (delete_evidence a b c)"
  unfolding delete_evidence_def by (intro keeps_intros keeps_wr R_redact)

lemma keeps_mark_processed [keeps_intros]: "keeps R (mark_processed a b c d)"
  unfolding mark_processed_def by (intro keeps_intros keeps_wr R_mark)

end

subsection \<open>Sequences of operations\<close>

text \<open>The operations of a store that write, as a client may call them: one after the other,
  or several inside a transaction, which may hold further transactions.\<close>

datatype store_call =
    CAppend event_args
  | CAppendInTransaction event_args
  | CPutEvidence pyval pyval pyval
  | CDeleteEvidence pyval pyval pyval
  | CMarkProcessed pyval pyval pyval pyval
  | CAudit pyval pyval pyval pyval pyval pyval pyval
  | CExportAnchor pstr pyval pyval
  | CTransaction "store_call list"

definition ignore :: "('s, 'a) op \<Rightarrow> ('s, unit) op" where
  "ignore m = bnd m (\<lambda>_. ret ())"

fun run_call :: "store_call \<Rightarrow> ('z store_st_scheme, unit) op"
and run_calls :: "store_call list \<Rightarrow> ('z store_st_scheme, unit) op" where
  "run_call (CAppend a) = ignore (append_event a)"
| "run_call (CAppendInTransaction a) = ignore (append_event_in_transaction a)"
| "run_call (CPutEvidence c m v) = ignore (put_evidence c m v)"
| "run_call (CDeleteEvidence d a r) = ignore (delete_evidence d a r)"
| "run_call (CMarkProcessed e p st er) = mark_processed e p st er"
| "run_call (CAudit a b c d e f g) = audit a b c d e f g"
| "run_call (CExportAnchor tb ten prj) = ignore (export_anchor tb ten prj)"
| "run_call (CTransaction cs) = transaction (run_calls cs)"
| "run_calls [] = ret ()"
| "run_calls (c # cs) = bnd (run_call c) (\<lambda>_. run_calls cs)"

text \<open>A session: each call returns or raises, and the next one starts from what it left.\<close>

fun run_session :: "store_call list \<Rightarrow> 'z store_st_scheme \<Rightarrow> 'z store_st_scheme" where
  "run_session [] s = s"
| "run_session (c # cs) s = run_session cs (snd (run_call c s))"

lemma run_session_append: "run_session (xs @ ys) s = run_session ys (run_session xs s)"
  by (induction xs arbitrary: s) auto

context store_relation begin

lemma keeps_export_anchor [keeps_intros]: "keeps R (export_anchor tb ten prj)"
  unfolding export_anchor_def by (intro keeps_intros)

lemma keeps_run_call: "keeps R (run_call c)"
  and keeps_run_calls: "keeps R (run_calls cs)"
  by (induction c and cs rule: run_call_run_calls.induct)
    (simp_all add: ignore_def keeps_intros)

lemma run_session_R: "R s (run_session cs s)"
proof (induction cs arbitrary: s)
  case Nil
  then show ?case by (simp add: R_refl)
next
  case (Cons c cs)
  have "R s (snd (run_call c s))" using keeps_run_call by (simp add: keeps_def)
  then show ?case using Cons by (auto intro: R_trans)
qed

end

subsection \<open>What an append does\<close>

lemma event_entry_hashes [simp]:
  "event_entry (r\<lparr>e_prev_hash := p\<rparr>) = event_entry r" "event_entry (r\<lparr>e_entry_hash := h\<rparr>) = event_entry r"
  by (simp_all add: event_entry_def)

lemma audit_entry_hashes [simp]:
  "audit_entry (r\<lparr>a_prev_hash := p\<rparr>) = audit_entry r" "audit_entry (r\<lparr>a_entry_hash := h\<rparr>) = audit_entry r"
  "audit_entry (r\<lparr>a_seq := n\<rparr>) = audit_entry r"
  by (simp_all add: audit_entry_def)

lemma new_event_row_simps [simp]:
  "e_id (new_event_row a now text digest stored eid n) = eid"
  "e_seq (new_event_row a now text digest stored eid n) = n"
  "e_payload (new_event_row a now text digest stored eid n) = text"
  "e_payload_digest (new_event_row a now text digest stored eid n) = digest"
  "e_stored_payload_digest (new_event_row a now text digest stored eid n) = Some stored"
  "e_tenant_id (new_event_row a now text digest stored eid n) = text_of (x_tenant_id a)"
  "e_project_id (new_event_row a now text digest stored eid n) = text_of (x_project_id a)"
  "e_idempotency_key (new_event_row a now text digest stored eid n) = text_of (x_idempotency_key a)"
  by (simp_all add: new_event_row_def Let_def)

text \<open>The tables an append leaves alone, and the clock.\<close>

definition same_clock :: "'z env_scheme \<Rightarrow> 'z env_scheme \<Rightarrow> bool" where
  "same_clock s t \<longleftrightarrow> last_utcnow t = last_utcnow s \<and> wall t = wall s \<and> ticks t = ticks s \<and> tokens t = tokens s"

lemma same_clock_refl [simp]: "same_clock s s"
  by (simp add: same_clock_def)

definition append_frame :: "'z store_st_scheme \<Rightarrow> 'z store_st_scheme \<Rightarrow> bool" where
  "append_frame s t \<longleftrightarrow> evidence_blobs t = evidence_blobs s \<and> processed_events t = processed_events s
     \<and> audit_log t = audit_log s \<and> audit_seq t = audit_seq s \<and> store_st.more t = store_st.more s \<and> same_clock s t"

text \<open>The row a successful append adds to the state it finds.\<close>

definition appends_row :: "event_args \<Rightarrow> pstr \<Rightarrow> pstr option \<Rightarrow> pstr \<Rightarrow> pstr \<Rightarrow> 'z store_st_scheme \<Rightarrow> event_row \<Rightarrow> bool" where
  "appends_row a now text digest stored s row \<longleftrightarrow>
     (\<exists>eid h. row = (new_event_row a now text digest stored eid (event_seq s + 1))
          \<lparr>e_prev_hash := Some (events_tip s), e_entry_hash := Some h\<rparr>
        \<and> link (events_tip s) (event_entry row) = Inr h)
     \<and> validate_stored_event row (x_payload a) = Inr ()
     \<and> find_delivery a s = None
     \<and> e_id row \<notin> e_id ` set (events s)"

lemma append_body_cases:
  assumes "append_body a now text digest stored s = (r, t)"
  shows "append_frame s t"
    and "(events t = events s \<and> event_seq s \<le> event_seq t \<and> (\<forall>eid. r \<noteq> Inr (Appended eid)))
       \<or> (\<exists>row. appends_row a now text digest stored s row \<and> events t = events s @ [row]
            \<and> event_seq t = event_seq s + 1 \<and> r = Inr (Appended (e_id row))
            \<and> payload_mismatches t = payload_mismatches s)"
proof -
  have "append_frame s t \<and> ((events t = events s \<and> event_seq s \<le> event_seq t \<and> (\<forall>eid. r \<noteq> Inr (Appended eid)))
       \<or> (\<exists>row. appends_row a now text digest stored s row \<and> events t = events s @ [row]
            \<and> event_seq t = event_seq s + 1 \<and> r = Inr (Appended (e_id row))
            \<and> payload_mismatches t = payload_mismatches s))"
  proof (cases "find_delivery a s")
    case (Some x)
    then show ?thesis using assms
      by (auto simp: append_body_def append_frame_def same_clock_def run_simps split: sum.splits if_splits)
  next
    case None
    then show ?thesis using assms
      by (auto simp: append_body_def append_frame_def same_clock_def appends_row_def insert_event_def run_simps bnd_new_id
          events_tip_def events_by_seq_def image_iff
          simp del: validate_public_identifier_PStr split: sum.splits if_splits)
  qed
  then show "append_frame s t"
    and "(events t = events s \<and> event_seq s \<le> event_seq t \<and> (\<forall>eid. r \<noteq> Inr (Appended eid)))
       \<or> (\<exists>row. appends_row a now text digest stored s row \<and> events t = events s @ [row]
            \<and> event_seq t = event_seq s + 1 \<and> r = Inr (Appended (e_id row))
            \<and> payload_mismatches t = payload_mismatches s)" by blast+
qed

end
