(* ===== verification/Store_Inv.thy ===== *)
theory Store_Inv
  imports Store_Ops
begin

section \<open>store.py: the chains stay intact\<close>

text \<open>
  \<open>chained\<close> says what it means for rows to form a chain from a given predecessor to a tip:
  each names the hash before it and carries the hash of its own columns under it.
  \<open>verify_chain\<close> decides exactly that. Every operation of the store, in any nesting of
  transactions and with any failure, takes a store whose two logs are numbered in order and
  chained to one of the same kind.
\<close>

subsection \<open>Chains\<close>

definition link_ok :: "pstr \<Rightarrow> link_row \<Rightarrow> pstr \<Rightarrow> bool" where
  "link_ok p r h \<longleftrightarrow> payload_fault (l_payload r) = Inr None \<and> l_prev r = Some p
     \<and> link p (l_entry r) = Inr h \<and> l_hash r = Some h"

fun chained :: "pstr \<Rightarrow> link_row list \<Rightarrow> pstr \<Rightarrow> bool" where
  "chained p [] t = (t = p)"
| "chained p (r # rs) t = (\<exists>h. link_ok p r h \<and> chained h rs t)"

lemma chained_append: "chained p (xs @ ys) t \<longleftrightarrow> (\<exists>u. chained p xs u \<and> chained u ys t)"
  by (induction xs arbitrary: p) auto

lemma chained_unique: "chained p xs t \<Longrightarrow> chained p xs u \<Longrightarrow> t = u"
  by (induction xs arbitrary: p) (auto simp: link_ok_def)

lemma link_digest: "link p d = Inr h \<Longrightarrow> DIGEST_RE h"
  by (auto simp: link_def DIGEST_RE_sha256_hex)

lemma DIGEST_RE_nonempty: "DIGEST_RE h \<Longrightarrow> h \<noteq> []"
  by (auto simp: DIGEST_RE_def)

lemma DIGEST_RE_GENESIS [simp]: "DIGEST_RE GENESIS"
  by (auto simp: DIGEST_RE_def GENESIS_def is_hex_def is_digit_def list_all_iff)

lemma chained_digest: "chained p xs t \<Longrightarrow> DIGEST_RE p \<Longrightarrow> DIGEST_RE t"
  by (induction xs arbitrary: p) (auto simp: link_ok_def dest: link_digest)

lemma chained_last: "chained p xs t \<Longrightarrow> xs \<noteq> [] \<Longrightarrow> l_hash (last xs) = Some t \<and> DIGEST_RE t"
  by (cases xs rule: rev_cases) (auto simp: chained_append link_ok_def link_digest)

lemma tip_of_chained: "chained GENESIS xs t \<Longrightarrow> tip_of (map l_hash xs) = t"
proof (cases "xs = []")
  case False
  assume "chained GENESIS xs t"
  with False show ?thesis
    using chained_last [of GENESIS xs t] DIGEST_RE_nonempty by (simp add: tip_of_def last_map)
qed (simp add: tip_of_def)

lemma walk_intact: "walk p n m xs = Inr (Intact k t m') \<longleftrightarrow>
    chained p xs t \<and> k = n + length xs \<and> m' = m + length (filter (\<lambda>r. l_payload r = Unavailable) xs)"
  by (induction xs arbitrary: p n m)
    (auto simp: link_ok_def rbind_eq_Inr split: option.splits if_splits)

lemma verify_chain_intact:
  assumes "is_chain_table (PStr table)"
  shows "(\<exists>m. verify_chain table s = Inr (Intact k t m)) \<longleftrightarrow>
    chained GENESIS (chain_rows table s) t \<and> k = length (chain_rows table s)"
  using assms by (auto simp: verify_chain_def walk_intact)

subsection \<open>The invariant\<close>

definition events_ok :: "'z store_st_scheme \<Rightarrow> bool" where
  "events_ok s \<longleftrightarrow> sorted_wrt (<) (map e_seq (events s)) \<and> (\<forall>r \<in> set (events s). e_seq r \<le> event_seq s)
     \<and> (\<exists>t. chained GENESIS (map event_link (events s)) t)"

definition audit_ok :: "'z store_st_scheme \<Rightarrow> bool" where
  "audit_ok s \<longleftrightarrow> sorted_wrt (<) (map a_seq (audit_log s)) \<and> (\<forall>r \<in> set (audit_log s). a_seq r \<le> audit_seq s)
     \<and> (\<exists>t. chained GENESIS (map audit_link (audit_log s)) t)"

lemma sort_key_sorted: "sorted_wrt (<) (map f xs) \<Longrightarrow> sort_key f xs = xs"
  by (simp add: sort_key_id_if_sorted strict_sorted_imp_sorted)

lemma events_by_seq_ok: "events_ok s \<Longrightarrow> events_by_seq s = events s"
  by (simp add: events_by_seq_def events_ok_def sort_key_sorted)

lemma audit_by_seq_ok: "audit_ok s \<Longrightarrow> audit_by_seq s = audit_log s"
  by (simp add: audit_by_seq_def audit_ok_def sort_key_sorted)

lemma l_hash_links [simp]: "l_hash (event_link r) = e_entry_hash r" "l_hash (audit_link q) = a_entry_hash q"
  by (simp_all add: event_link_def audit_link_def)

lemma l_hash_comp [simp]: "l_hash \<circ> event_link = e_entry_hash" "l_hash \<circ> audit_link = a_entry_hash"
  by (simp_all add: fun_eq_iff)

lemma events_tip_ok: "events_ok s \<Longrightarrow> chained GENESIS (map event_link (events s)) (events_tip s)"
  using tip_of_chained [of "map event_link (events s)"]
  by (auto simp: events_ok_def events_tip_def events_by_seq_def sort_key_sorted)

lemma audit_tip_ok: "audit_ok s \<Longrightarrow> chained GENESIS (map audit_link (audit_log s)) (audit_tip s)"
  using tip_of_chained [of "map audit_link (audit_log s)"]
  by (auto simp: audit_ok_def audit_tip_def audit_by_seq_def sort_key_sorted)

lemma appended_payload:
  assumes "payload_text a = Inr text" "stored_digest a = Inr stored"
  shows "payload_fault (l_payload (event_link ((new_event_row a now text digest stored eid n)
     \<lparr>e_prev_hash := p, e_entry_hash := h\<rparr>))) = Inr None"
  using assms by (cases "text") (auto simp: event_link_def payload_fault_def stored_digest_def)

lemma appended_link:
  assumes "payload_text a = Inr text" "stored_digest a = Inr stored"
    and "appends_row a now text digest stored s row"
  shows "\<exists>h. link_ok (events_tip s) (event_link row) h" and "e_seq row = event_seq s + 1"
  using assms
  by (auto simp: appends_row_def link_ok_def appended_payload)
    (auto simp: event_link_def)

lemma events_ok_snoc:
  assumes "events_ok s" and "events t = events s @ [row]" and "event_seq t = event_seq s + 1"
    and "link_ok (events_tip s) (event_link row) h" and "e_seq row = event_seq s + 1"
  shows "events_ok t"
proof -
  have "chained GENESIS (map event_link (events t)) h"
    using events_tip_ok [OF assms(1)] assms(2,4) by (auto simp: chained_append)
  then show ?thesis
    using assms(1,2,3,5) by (fastforce simp: events_ok_def sorted_wrt_append)
qed

lemma events_ok_appended:
  assumes "payload_text a = Inr text" and "stored_digest a = Inr stored"
    and "appends_row a now text digest stored s row" and "events_ok s"
    and "events t = events s @ [row]" and "event_seq t = event_seq s + 1"
  shows "events_ok t"
proof -
  obtain h where "link_ok (events_tip s) (event_link row) h" using appended_link(1) [OF assms(1-3)] ..
  then show ?thesis using events_ok_snoc [OF assms(4-6)] appended_link(2) [OF assms(1-3)] by blast
qed

lemma events_ok_tables: "events t = events s \<Longrightarrow> event_seq s \<le> event_seq t \<Longrightarrow> events_ok s \<Longrightarrow> events_ok t"
  by (auto simp: events_ok_def)

lemma audit_append_run:
  "audit_append r s = (case link (audit_tip s) (audit_entry r) of
     Inl e \<Rightarrow> (Inl e, s\<lparr>chain_lock := chain_lock s + 1\<rparr>)
   | Inr h \<Rightarrow> (Inr (), s\<lparr>chain_lock := chain_lock s + 1, audit_seq := audit_seq s + 1,
       audit_log := audit_log s @ [r\<lparr>a_seq := audit_seq s + 1, a_prev_hash := Some (audit_tip s),
         a_entry_hash := Some h\<rparr>]\<rparr>))"
  by (auto simp: audit_append_def run_simps audit_tip_def audit_by_seq_def split: sum.split)

lemma audit_ok_append: "audit_ok s \<Longrightarrow> audit_ok (snd (audit_append r s))"
proof (cases "link (audit_tip s) (audit_entry r)")
  case (Inl e)
  assume "audit_ok s"
  then show ?thesis using Inl by (simp add: audit_append_run audit_ok_def)
next
  case (Inr h)
  assume ok: "audit_ok s"
  let ?r = "r\<lparr>a_seq := audit_seq s + 1, a_prev_hash := Some (audit_tip s), a_entry_hash := Some h\<rparr>"
  have "link_ok (audit_tip s) (audit_link ?r) h"
    using Inr by (simp add: link_ok_def audit_link_def payload_fault_def)
  then have "chained GENESIS (map audit_link (audit_log s @ [?r])) h"
    using audit_tip_ok [OF ok] by (auto simp: chained_append)
  then show ?thesis
    using ok Inr by (fastforce simp: audit_append_run audit_ok_def sorted_wrt_append)
qed

subsection \<open>The interface, instantiated\<close>

lemma keeps_append_body:
  fixes R :: "'z store_st_scheme \<Rightarrow> 'z store_st_scheme \<Rightarrow> bool"
  assumes "\<And>s t. append_frame s t \<Longrightarrow> events t = events s \<Longrightarrow> event_seq s \<le> event_seq t \<Longrightarrow> R s t"
    and "\<And>s t row. append_frame s t \<Longrightarrow> appends_row a now text digest stored s row \<Longrightarrow>
      events t = events s @ [row] \<Longrightarrow> event_seq t = event_seq s + 1 \<Longrightarrow> R s t"
  shows "keeps R (append_body a now text digest stored)"
proof (rule keepsI)
  fix s :: "'z store_st_scheme"
  obtain r t where m: "append_body a now text digest stored s = (r, t)" by fastforce
  show "R s (snd (append_body a now text digest stored s))"
    using append_body_cases [OF m] assms m by auto
qed

text \<open>A relation that only looks at the clock and at tables beyond the store's own is kept by
  every operation of the store.\<close>

locale beyond_relation = db_relation R for R :: "'z store_st_scheme \<Rightarrow> 'z store_st_scheme \<Rightarrow> bool" +
  assumes R_beyond: "store_st.more t = store_st.more s \<Longrightarrow> same_clock s t \<Longrightarrow> R s t"

sublocale beyond_relation \<subseteq> store_relation
proof unfold_locales
  fix a :: event_args and "text" :: "pstr option" and stored now digest
  show "keeps R (append_body a now text digest stored)"
    by (intro keeps_append_body) (auto simp: append_frame_def intro: R_beyond)
next
  fix r
  show "keeps R (audit_append r)"
    by (auto simp: keeps_def audit_append_run same_clock_def intro!: R_beyond split: sum.split)
qed (auto simp: same_clock_def intro!: R_beyond)

lemma events_ok_update [simp]:
  "events_ok (s\<lparr>evidence_blobs := x\<rparr>) = events_ok s" "events_ok (s\<lparr>processed_events := y\<rparr>) = events_ok s"
  "audit_ok (s\<lparr>evidence_blobs := x\<rparr>) = audit_ok s" "audit_ok (s\<lparr>processed_events := y\<rparr>) = audit_ok s"
  by (simp_all add: events_ok_def audit_ok_def)

lemma events_ok_audit_append: "events_ok (snd (audit_append r s)) = events_ok s"
  by (simp add: audit_append_run events_ok_def split: sum.split)

interpretation events_ok: tables_relation "kept events_ok"
proof unfold_locales
  fix s t :: "'a store_st_scheme"
  assume "tables s = tables t"
  then show "kept events_ok s t" using tables_store [of s t] by (simp add: kept_def events_ok_def)
qed

interpretation events_ok: store_relation "kept events_ok"
proof unfold_locales
  fix a :: event_args and "text" :: "pstr option" and stored now digest
  assume "payload_text a = Inr text" "stored_digest a = Inr stored"
  then show "keeps (kept events_ok) (append_body a now text digest stored :: ('a store_st_scheme, verdict) op)"
    by (intro keeps_append_body)
      (auto simp: kept_def intro: events_ok_tables events_ok_appended)
qed (auto simp: kept_def keeps_def events_ok_audit_append)

interpretation audit_ok: tables_relation "kept audit_ok"
proof unfold_locales
  fix s t :: "'a store_st_scheme"
  assume "tables s = tables t"
  then show "kept audit_ok s t" using tables_store [of s t] by (simp add: kept_def audit_ok_def)
qed

interpretation audit_ok: store_relation "kept audit_ok"
proof unfold_locales
  fix a :: event_args and "text" :: "pstr option" and stored now digest
  show "keeps (kept audit_ok) (append_body a now text digest stored :: ('a store_st_scheme, verdict) op)"
    by (intro keeps_append_body) (auto simp: kept_def append_frame_def audit_ok_def)
qed (auto simp: kept_def keeps_def audit_ok_append)

subsection \<open>Keys and evidence\<close>

definition delivery_key :: "event_row \<Rightarrow> pstr \<times> pstr \<times> pstr" where
  "delivery_key r = (e_tenant_id r, e_project_id r, e_idempotency_key r)"

text \<open>The primary key and the unique index of \<open>events\<close>.\<close>

definition keys_ok :: "'z store_st_scheme \<Rightarrow> bool" where
  "keys_ok s \<longleftrightarrow> distinct (map e_id (events s)) \<and> distinct (map delivery_key (events s))"

lemma same_delivery_key: "same_delivery a r \<longleftrightarrow>
    delivery_key r = (text_of (x_tenant_id a), text_of (x_project_id a), text_of (x_idempotency_key a))"
  by (auto simp: same_delivery_def delivery_key_def)

lemma appends_row_key:
  assumes "appends_row a now text digest stored s row"
  shows "delivery_key row \<notin> delivery_key ` set (events s)" and "e_id row \<notin> e_id ` set (events s)"
proof -
  have k: "delivery_key row = (text_of (x_tenant_id a), text_of (x_project_id a), text_of (x_idempotency_key a))"
    using assms by (auto simp: appends_row_def delivery_key_def)
  have "\<forall>r \<in> set (events s). \<not> same_delivery a r"
    using assms by (auto simp: appends_row_def find_delivery_def find_None_iff)
  then show "delivery_key row \<notin> delivery_key ` set (events s)"
    unfolding same_delivery_key k by auto
  show "e_id row \<notin> e_id ` set (events s)" using assms by (auto simp: appends_row_def)
qed

interpretation keys_ok: tables_relation "kept keys_ok"
proof unfold_locales
  fix s t :: "'a store_st_scheme"
  assume "tables s = tables t"
  then show "kept keys_ok s t" using tables_store [of s t] by (simp add: kept_def keys_ok_def)
qed

interpretation keys_ok: store_relation "kept keys_ok"
proof unfold_locales
  fix a :: event_args and "text" :: "pstr option" and stored now digest
  show "keeps (kept keys_ok) (append_body a now text digest stored :: ('a store_st_scheme, verdict) op)"
    by (intro keeps_append_body) (auto simp: kept_def keys_ok_def dest: appends_row_key)
qed (auto simp: kept_def keeps_def keys_ok_def audit_append_run split: sum.split)

text \<open>One row per digest, and every row still holding bytes holds the bytes its digest names.\<close>

definition blob_ok :: "evidence_row \<Rightarrow> bool" where
  "blob_ok r \<longleftrightarrow> (b_deleted_at r = None \<longrightarrow> (\<exists>c. b_content r = Some c \<and> length c = b_size r
     \<and> sha256_bytes_hex c = b_digest r))"

definition evidence_ok :: "'z store_st_scheme \<Rightarrow> bool" where
  "evidence_ok s \<longleftrightarrow> distinct (map b_digest (evidence_blobs s)) \<and> (\<forall>r \<in> set (evidence_blobs s). blob_ok r)"

interpretation evidence_ok: tables_relation "kept evidence_ok"
proof unfold_locales
  fix s t :: "'a store_st_scheme"
  assume "tables s = tables t"
  then show "kept evidence_ok s t" using tables_store [of s t] by (simp add: kept_def evidence_ok_def)
qed

interpretation evidence_ok: store_relation "kept evidence_ok"
proof unfold_locales
  fix a :: event_args and "text" :: "pstr option" and stored now digest
  show "keeps (kept evidence_ok) (append_body a now text digest stored :: ('a store_st_scheme, verdict) op)"
    by (intro keeps_append_body) (auto simp: kept_def append_frame_def evidence_ok_def)
next
  fix data mt sv now and s :: "'a store_st_scheme"
  assume "find_evidence (sha256_bytes_hex data) s = None"
  then show "kept evidence_ok s (s\<lparr>evidence_blobs := evidence_blobs s @ [new_evidence_row data mt sv now]\<rparr>)"
    by (auto simp: kept_def evidence_ok_def find_evidence_def find_None_iff new_evidence_row_def blob_ok_def)
next
  fix dg now and s :: "'a store_st_scheme"
  have "(b_digest :: evidence_row \<Rightarrow> pstr) \<circ> (\<lambda>r. if b_digest r = dg then r\<lparr>b_content := None, b_deleted_at := Some now\<rparr> else r) = b_digest"
    by (auto simp: fun_eq_iff)
  then show "kept evidence_ok s (s\<lparr>evidence_blobs := map (\<lambda>r. if b_digest r = dg
      then r\<lparr>b_content := None, b_deleted_at := Some now\<rparr> else r) (evidence_blobs s)\<rparr>)"
    by (auto simp: kept_def evidence_ok_def blob_ok_def)
qed (auto simp: kept_def keeps_def evidence_ok_def audit_append_run split: sum.split)

subsection \<open>History is only extended\<close>

definition tombstoned_from :: "evidence_row \<Rightarrow> evidence_row \<Rightarrow> bool" where
  "tombstoned_from old new \<longleftrightarrow> b_digest new = b_digest old \<and> b_media_type new = b_media_type old
     \<and> b_size new = b_size old \<and> b_sensitivity new = b_sensitivity old \<and> b_captured_at new = b_captured_at old
     \<and> (new = old \<or> b_content new = None \<and> b_deleted_at new \<noteq> None)"

definition history_kept :: "'z store_st_scheme \<Rightarrow> 'z store_st_scheme \<Rightarrow> bool" where
  "history_kept s t \<longleftrightarrow> prefix (events s) (events t) \<and> prefix (audit_log s) (audit_log t)
     \<and> (\<exists>ys zs. evidence_blobs t = ys @ zs \<and> list_all2 tombstoned_from (evidence_blobs s) ys)"

lemma tombstoned_from_refl: "tombstoned_from r r"
  by (simp add: tombstoned_from_def)

lemma tombstoned_from_trans: "tombstoned_from a b \<Longrightarrow> tombstoned_from b c \<Longrightarrow> tombstoned_from a c"
  by (auto simp: tombstoned_from_def)

lemma list_all2_tombstoned_refl [simp]: "list_all2 tombstoned_from xs xs"
  by (simp add: list_all2_refl tombstoned_from_refl)

lemma history_keptI:
  assumes "prefix (events s) (events t)" "prefix (audit_log s) (audit_log t)"
    and "evidence_blobs t = ys @ zs" "list_all2 tombstoned_from (evidence_blobs s) ys"
  shows "history_kept s t"
  using assms unfolding history_kept_def by blast

lemma history_kept_same:
  assumes "prefix (events s) (events t)" "prefix (audit_log s) (audit_log t)"
    and "evidence_blobs t = evidence_blobs s @ zs"
  shows "history_kept s t"
  using assms by (rule history_keptI) simp

lemma evidence_history_trans:
  assumes "bt = ys @ zs" "list_all2 tombstoned_from bs ys"
    and "bu = vs @ ws" "list_all2 tombstoned_from bt vs"
  shows "\<exists>ys' zs'. bu = ys' @ zs' \<and> list_all2 tombstoned_from bs ys'"
proof -
  obtain v1 v2 where v: "vs = v1 @ v2" "list_all2 tombstoned_from ys v1"
    using assms(1,4) by (auto simp: list_all2_append1)
  have "list_all2 tombstoned_from bs v1"
    using list_all2_trans [OF tombstoned_from_trans assms(2) v(2)] .
  then show ?thesis using v assms(3) by auto
qed

definition mismatches_kept :: "'z store_st_scheme \<Rightarrow> 'z store_st_scheme \<Rightarrow> bool" where
  "mismatches_kept s t \<longleftrightarrow> prefix (payload_mismatches s) (payload_mismatches t)"

lemma append_body_mismatches: "keeps mismatches_kept (append_body a now txt digest stored :: ('z store_st_scheme, verdict) op)"
proof (rule keepsI)
  fix s :: "'z store_st_scheme"
  show "mismatches_kept s (snd (append_body a now txt digest stored s))"
  proof (cases "find_delivery a s")
    case (Some x)
    then show ?thesis by (auto simp: append_body_def mismatches_kept_def run_simps split: sum.splits if_splits)
  next
    case None
    then show ?thesis
      by (auto simp: append_body_def mismatches_kept_def insert_event_def run_simps bnd_new_id
          simp del: validate_public_identifier_PStr split: sum.splits if_splits)
  qed
qed

interpretation mismatches: tables_relation mismatches_kept
  by unfold_locales (auto simp: mismatches_kept_def dest: tables_store)

interpretation mismatches: store_relation mismatches_kept
  by unfold_locales (rule append_body_mismatches | (auto simp: keeps_def mismatches_kept_def audit_append_run split: sum.split)[])+

interpretation history: tables_relation history_kept
proof unfold_locales
  fix s :: "'a store_st_scheme"
  show "history_kept s s" by (rule history_kept_same [where zs = "[]"]) auto
next
  fix s t u :: "'a store_st_scheme"
  assume "history_kept s t" "history_kept t u"
  then show "history_kept s u"
    unfolding history_kept_def using evidence_history_trans [of "evidence_blobs t"]
    by (meson prefix_order.trans)
next
  fix s t :: "'a store_st_scheme"
  assume "tables s = tables t"
  then show "history_kept s t" using tables_store [of s t]
    by (intro history_kept_same [where zs = "[]"]) auto
qed

interpretation history: store_relation history_kept
proof unfold_locales
  fix a :: event_args and "text" :: "pstr option" and stored now digest
  show "keeps history_kept (append_body a now text digest stored :: ('a store_st_scheme, verdict) op)"
    by (intro keeps_append_body)
      (auto simp: append_frame_def intro!: history_kept_same [where zs = "[]"])
next
  fix r
  show "keeps history_kept (audit_append r :: ('a store_st_scheme, unit) op)"
    by (auto simp: keeps_def audit_append_run intro!: history_kept_same [where zs = "[]"] split: sum.split)
next
  fix dg now and s :: "'a store_st_scheme"
  show "history_kept s (s\<lparr>evidence_blobs := map (\<lambda>r. if b_digest r = dg
      then r\<lparr>b_content := None, b_deleted_at := Some now\<rparr> else r) (evidence_blobs s)\<rparr>)"
    by (rule history_keptI [where zs = "[]"])
      (auto simp: list_all2_map2 tombstoned_from_def intro: list_all2_refl)
qed (auto intro: history_kept_same)

lemma store_history_kept_rows:
  assumes "r \<in> set (evidence_blobs s)"
  shows "\<exists>q \<in> set (evidence_blobs (run_session cs s)). tombstoned_from r q"
proof -
  have "\<exists>q \<in> set ys. tombstoned_from r q" if "list_all2 tombstoned_from xs ys" "r \<in> set xs" for xs ys
    using that by (induction xs ys rule: list_all2_induct) auto
  then show ?thesis using history.run_session_R [of s cs] assms unfolding history_kept_def by fastforce
qed

end
