(* ===== verification/Core_Jcs_Number.thy ===== *)
theory Core_Jcs_Number
  imports Core_Jcs
begin

section \<open>The number spelling is ECMAScript's\<close>

text \<open>
  RFC 8785 delegates numbers to ECMAScript's Number::toString. \<open>ecma_number ds n\<close> is that
  algorithm on the shortest digits \<open>ds\<close> of a positive number and its decimal point
  position \<open>n\<close>. The code gets there by taking Python's \<open>repr\<close> apart as text; the two
  agree on every digit string that does not start or end with a zero.
\<close>

definition ecma_number :: "pstr \<Rightarrow> int \<Rightarrow> pstr" where
  "ecma_number ds n =
     (let k = int (length ds); e = n - 1 in
      if k \<le> n \<and> n \<le> 21 then ds @ zeros (n - k)
      else if 0 < n \<and> n \<le> 21 then take (nat n) ds @ [46] @ drop (nat n) ds
      else if -6 < n \<and> n \<le> 0 then [48, 46] @ zeros (- n) @ ds
      else if k = 1 then ds @ [101] @ (if e < 0 then [45] else [43]) @ decimal (nat \<bar>e\<bar>)
      else [hd ds] @ [46] @ tl ds @ [101] @ (if e < 0 then [45] else [43]) @ decimal (nat \<bar>e\<bar>))"

definition significant :: "pstr \<Rightarrow> bool" where
  "significant ds \<longleftrightarrow> ds \<noteq> [] \<and> list_all is_digit ds \<and> hd ds \<noteq> 48 \<and> last ds \<noteq> 48"

lemma significantD:
  assumes "significant ds"
  shows "ds \<noteq> []" "101 \<notin> set ds" "46 \<notin> set ds" "hd ds \<noteq> 48" "last ds \<noteq> 48" "list_all is_digit ds"
    "c \<in> set ds \<Longrightarrow> c \<noteq> 101" "c \<in> set ds \<Longrightarrow> c \<noteq> 46"
  using assms by (auto simp: significant_def list_all_iff is_digit_def)

lemma split_first_None: "split_first c s = None \<longleftrightarrow> c \<notin> set s"
  by (induction s) (auto split: option.splits)

lemma split_first_mid: "c \<notin> set a \<Longrightarrow> split_first c (a @ c # b) = Some (a, b)"
  by (simp add: split_first_Some)

lemma zeros_Nil [simp]: "n \<le> 0 \<Longrightarrow> zeros n = []"
  by (simp add: zeros_def)

lemma set_zeros: "c \<in> set (zeros n) \<Longrightarrow> c = 48"
  by (simp add: zeros_def)

lemma length_zeros [simp]: "length (zeros n) = nat n"
  by (simp add: zeros_def)

lemma dropWhile_zeros: "dropWhile (\<lambda>c. c = 48) (zeros n @ s) = dropWhile (\<lambda>c. c = 48) s"
proof -
  have "dropWhile (\<lambda>c. c = 48) (replicate k 48 @ s) = dropWhile (\<lambda>c. c = (48::nat)) s" for k
    by (induction k) auto
  then show ?thesis by (simp add: zeros_def)
qed

lemma rev_zeros [simp]: "rev (zeros n) = zeros n"
  by (simp add: zeros_def)

lemma dropWhile_hd: "s \<noteq> [] \<Longrightarrow> hd s \<noteq> 48 \<Longrightarrow> dropWhile (\<lambda>c. c = (48::nat)) s = s"
  by (cases s) auto

lemma significant_lstrip: "significant ds \<Longrightarrow> dropWhile (\<lambda>c. c = 48) (ds @ t) = ds @ t"
  by (cases ds) (auto simp: significant_def)

lemma significant_rstrip: "significant ds \<Longrightarrow> dropWhile (\<lambda>c. c = 48) (rev ds @ t) = rev ds @ t"
  by (cases ds rule: rev_cases) (auto simp: significant_def)

lemma digits_value_Cons0: "digits_value (48 # s) = digits_value s"
  by (simp add: digits_value.simps)

lemma int_of_signed_exponent: "int_of_text (signed_exponent e) = e"
  by (auto simp: int_of_text_def signed_exponent_def digits_value_Cons0 digits_value_decimal)

lemma set_signed_exponent: "c \<in> set (signed_exponent e) \<Longrightarrow> c \<noteq> 101"
  using digits_decimal [of "nat \<bar>e\<bar>"]
  by (auto simp: signed_exponent_def list_all_iff is_digit_def split: if_splits)

text \<open>What the text operations recover from \<open>repr\<close>: the digits and the point.\<close>

definition jcs_layout :: "pstr \<Rightarrow> int \<Rightarrow> pstr" where
  "jcs_layout digits pt =
     (if 0 < pt \<and> pt \<le> 21 then
        if int (length digits) \<le> pt then digits @ zeros (pt - int (length digits))
        else take (nat pt) digits @ [46] @ drop (nat pt) digits
      else if -6 < pt \<and> pt \<le> 0 then [48, 46] @ zeros (- pt) @ digits
      else take 1 digits @ (if 1 < length digits then [46] @ drop 1 digits else [])
        @ [101] @ (if 0 \<le> pt - 1 then [43] else []) @ str_of_int (pt - 1))"

lemma jcs_body_parts:
  assumes "split_first 101 text = None \<and> m = text \<and> ex = 0
      \<or> (\<exists>e. split_first 101 text = Some (m, e) \<and> ex = int_of_text e)"
    and "split_first 46 m = None \<and> w = m \<and> f = [] \<or> split_first 46 m = Some (w, f)"
    and "dropWhile (\<lambda>c. c = 48) (w @ f) = d1"
    and "rev (dropWhile (\<lambda>c. c = 48) (rev d1)) = ds"
    and "int (length w) + ex - (int (length (w @ f)) - int (length d1)) = pt"
  shows "jcs_body text = jcs_layout ds pt"
proof -
  have 1: "(case split_first 101 text of Some (m, e) \<Rightarrow> (m, int_of_text e) | None \<Rightarrow> (text, 0)) = (m, ex)"
    using assms(1) by auto
  have 2: "(case split_first 46 m of Some (w, f) \<Rightarrow> (w, f) | None \<Rightarrow> (m, [])) = (w, f)"
    using assms(2) by auto
  show ?thesis
    unfolding jcs_body_def 1 using 2 assms(3-5) by (simp add: jcs_layout_def Let_def)
qed

lemma jcs_body_repr:
  assumes "significant ds"
  shows "jcs_body (repr_digits ds pt) = jcs_layout ds pt"
proof -
  note s = significantD [OF assms]
  consider (small) "-4 < pt" "pt \<le> 0" | (whole) "pt \<le> 16" "int (length ds) \<le> pt" "0 < pt"
    | (mixed) "0 < pt" "pt \<le> 16" "pt < int (length ds)" | (expo) "pt \<le> -4 \<or> 16 < pt"
    by linarith
  then show ?thesis
  proof cases
    case small
    have t: "repr_digits ds pt = [48] @ 46 # zeros (- pt) @ ds" using small by (simp add: repr_digits_def)
    show ?thesis unfolding t
    proof (rule jcs_body_parts)
      show "split_first 101 ([48] @ 46 # zeros (- pt) @ ds) = None \<and> [48] @ 46 # zeros (- pt) @ ds = [48] @ 46 # zeros (- pt) @ ds \<and> (0::int) = 0
        \<or> (\<exists>e. split_first 101 ([48] @ 46 # zeros (- pt) @ ds) = Some ([48] @ 46 # zeros (- pt) @ ds, e) \<and> 0 = int_of_text e)"
        using s by (auto simp: split_first_None dest: set_zeros)
      show "split_first 46 ([48] @ 46 # zeros (- pt) @ ds) = None \<and> [48] = [48] @ 46 # zeros (- pt) @ ds \<and> zeros (- pt) @ ds = []
        \<or> split_first 46 ([48] @ 46 # zeros (- pt) @ ds) = Some ([48], zeros (- pt) @ ds)"
        by simp
      show "dropWhile (\<lambda>c. c = 48) ([48] @ zeros (- pt) @ ds) = ds"
        using s by (simp add: dropWhile_zeros dropWhile_hd)
      show "rev (dropWhile (\<lambda>c. c = 48) (rev ds)) = ds"
        using significant_rstrip [OF assms, of "[]"] by simp
      show "int (length [48]) + 0 - (int (length ([48] @ zeros (- pt) @ ds)) - int (length ds)) = pt"
        using small by simp
    qed
  next
    case whole
    let ?z = "zeros (pt - int (length ds))"
    have t: "repr_digits ds pt = (ds @ ?z) @ 46 # [48]" using whole by (simp add: repr_digits_def)
    show ?thesis unfolding t
    proof (rule jcs_body_parts [where m = "(ds @ ?z) @ 46 # [48]" and w = "ds @ ?z" and f = "[48]" and ex = 0])
      show "split_first 101 ((ds @ ?z) @ 46 # [48]) = None \<and> (ds @ ?z) @ 46 # [48] = (ds @ ?z) @ 46 # [48] \<and> (0::int) = 0
        \<or> (\<exists>e. split_first 101 ((ds @ ?z) @ 46 # [48]) = Some ((ds @ ?z) @ 46 # [48], e) \<and> 0 = int_of_text e)"
        using s by (auto simp: split_first_None dest: set_zeros)
      have "46 \<notin> set (ds @ ?z)" using s by (auto dest: set_zeros)
      then show "split_first 46 ((ds @ ?z) @ 46 # [48]) = None \<and> ds @ ?z = (ds @ ?z) @ 46 # [48] \<and> [48] = []
        \<or> split_first 46 ((ds @ ?z) @ 46 # [48]) = Some (ds @ ?z, [48])"
        by (simp only: split_first_mid simp_thms)
      show "dropWhile (\<lambda>c. c = 48) ((ds @ ?z) @ [48]) = (ds @ ?z) @ [48]"
        using significant_lstrip [OF assms, of "?z @ [48]"] by simp
      show "rev (dropWhile (\<lambda>c. c = 48) (rev ((ds @ ?z) @ [48]))) = ds"
        using significant_rstrip [OF assms, of "[]"] by (simp add: dropWhile_zeros)
      show "int (length (ds @ ?z)) + 0 - (int (length ((ds @ ?z) @ [48])) - int (length ((ds @ ?z) @ [48]))) = pt"
        using whole by simp
    qed
  next
    case mixed
    let ?a = "take (nat pt) ds" and ?b = "drop (nat pt) ds"
    have t: "repr_digits ds pt = ?a @ 46 # ?b" using mixed by (simp add: repr_digits_def)
    have a: "c \<noteq> 101" "c \<noteq> 46" if "c \<in> set ?a" for c using s that by (auto dest: in_set_takeD)
    have b: "c \<noteq> 101" if "c \<in> set ?b" for c using s that by (auto dest: in_set_dropD)
    show ?thesis unfolding t
    proof (rule jcs_body_parts [where m = "?a @ 46 # ?b" and w = ?a and f = ?b and ex = 0])
      show "split_first 101 (?a @ 46 # ?b) = None \<and> ?a @ 46 # ?b = ?a @ 46 # ?b \<and> (0::int) = 0
        \<or> (\<exists>e. split_first 101 (?a @ 46 # ?b) = Some (?a @ 46 # ?b, e) \<and> 0 = int_of_text e)"
        using a b by (auto simp: split_first_None)
      have "46 \<notin> set ?a" using a by blast
      then show "split_first 46 (?a @ 46 # ?b) = None \<and> ?a = ?a @ 46 # ?b \<and> ?b = []
        \<or> split_first 46 (?a @ 46 # ?b) = Some (?a, ?b)"
        by (simp only: split_first_mid simp_thms)
      show "dropWhile (\<lambda>c. c = 48) (?a @ ?b) = ds"
        using significant_lstrip [OF assms, of "[]"] by simp
      show "rev (dropWhile (\<lambda>c. c = 48) (rev ds)) = ds"
        using significant_rstrip [OF assms, of "[]"] by simp
      show "int (length ?a) + 0 - (int (length (?a @ ?b)) - int (length ds)) = pt"
        using mixed by simp
    qed
  next
    case expo
    let ?e = "signed_exponent (pt - 1)"
    show ?thesis
    proof (cases "length ds = 1")
      case True
      have t: "repr_digits ds pt = ds @ 101 # ?e" using expo True by (auto simp: repr_digits_def)
      show ?thesis unfolding t
      proof (rule jcs_body_parts [where m = ds and w = ds and f = "[]" and ex = "pt - 1"])
        show "split_first 101 (ds @ 101 # ?e) = None \<and> ds = ds @ 101 # ?e \<and> pt - 1 = 0
          \<or> (\<exists>e. split_first 101 (ds @ 101 # ?e) = Some (ds, e) \<and> pt - 1 = int_of_text e)"
          using s by (auto simp: split_first_mid int_of_signed_exponent)
        show "split_first 46 ds = None \<and> ds = ds \<and> [] = [] \<or> split_first 46 ds = Some (ds, [])"
          using s by (simp add: split_first_None)
        show "dropWhile (\<lambda>c. c = 48) (ds @ []) = ds"
          using significant_lstrip [OF assms, of "[]"] by simp
        show "rev (dropWhile (\<lambda>c. c = 48) (rev ds)) = ds"
          using significant_rstrip [OF assms, of "[]"] by simp
        show "int (length ds) + (pt - 1) - (int (length (ds @ [])) - int (length ds)) = pt"
          using True by simp
      qed
    next
      case False
      obtain d r where ds: "ds = d # r" using s(1) by (cases ds) auto
      have t: "repr_digits ds pt = (d # 46 # r) @ 101 # ?e"
        using expo False by (auto simp: repr_digits_def ds)
      show ?thesis unfolding t
      proof (rule jcs_body_parts [where m = "d # 46 # r" and w = "[d]" and f = r and ex = "pt - 1"])
        have "101 \<notin> set (d # 46 # r)" using s by (simp add: ds)
        then have "split_first 101 ((d # 46 # r) @ 101 # ?e) = Some (d # 46 # r, ?e)"
          by (rule split_first_mid)
        then show "split_first 101 ((d # 46 # r) @ 101 # ?e) = None \<and> d # 46 # r = (d # 46 # r) @ 101 # ?e \<and> pt - 1 = 0
          \<or> (\<exists>e. split_first 101 ((d # 46 # r) @ 101 # ?e) = Some (d # 46 # r, e) \<and> pt - 1 = int_of_text e)"
          by (simp add: int_of_signed_exponent)
        show "split_first 46 (d # 46 # r) = None \<and> [d] = d # 46 # r \<and> r = []
          \<or> split_first 46 (d # 46 # r) = Some ([d], r)"
          using s by (simp add: ds)
        show "dropWhile (\<lambda>c. c = 48) ([d] @ r) = ds"
          using s by (simp add: ds)
        show "rev (dropWhile (\<lambda>c. c = 48) (rev ds)) = ds"
          using significant_rstrip [OF assms, of "[]"] by simp
        show "int (length [d]) + (pt - 1) - (int (length ([d] @ r)) - int (length ds)) = pt"
          by (simp add: ds)
      qed
    qed
  qed
qed

lemma jcs_layout_ecma: "ds \<noteq> [] \<Longrightarrow> jcs_layout ds n = ecma_number ds n"
  by (cases ds) (auto simp: jcs_layout_def ecma_number_def Let_def str_of_int_def)

text \<open>C15: \<open>_jcs_number\<close> spells a positive number as ECMAScript does: the text it assembles
  from the pieces of Python's \<open>repr\<close> is Number::toString on the same shortest digits, for
  every decimal point position.\<close>

theorem jcs_body_is_ecmascript:
  assumes "significant ds"
  shows "jcs_body (repr_digits ds pt) = ecma_number ds pt"
  using jcs_body_repr [OF assms] jcs_layout_ecma [OF significantD(1) [OF assms]] by simp

theorem jcs_body_is_ecmascript_witness:
  "jcs_body (repr_digits [49, 50] (- 6)) = [49, 46, 50, 101, 45, 55]"
proof -
  have "significant [49, 50]" by (simp add: significant_def is_digit_def)
  then have "jcs_body (repr_digits [49, 50] (- 6)) = ecma_number [49, 50] (- 6)"
    by (rule jcs_body_is_ecmascript)
  also have "\<dots> = [49, 46, 50, 101, 45, 55]"
    by (simp add: ecma_number_def Let_def) (subst decimal.simps, simp)
  finally show ?thesis .
qed

end
