(* ===== verification/Core_Jcs_Read.thy ===== *)
theory Core_Jcs_Read
  imports Core_Loads Core_Jcs_Number
begin

section \<open>Canonical JSON reads back\<close>

text \<open>
  \<open>json.loads\<close> on the text of \<open>canonical_json\<close>: the same document, with tuples read as
  lists, objects in the order of their spelling, and each number as the value its spelling
  denotes (\<open>jnorm\<close>). So two documents with one canonical text are the same document.

  \<open>strict_json_loads\<close> adds a check that the canonical spelling itself need not pass: a
  float past 2 ^ 53 is spelled by its shortest digits padded with zeros, and the integer
  that spelling denotes need not be a binary64 number. Below 2 ^ 53 the round trip is total.
\<close>

subsection \<open>The digits of a number\<close>

lemma ten_pow_add: "ten_pow (a + b) = ten_pow a * ten_pow b"
  by (simp add: ten_pow_def nat_add_distrib power_add field_simps)
     (auto simp: not_le field_simps simp flip: power_add nat_add_distrib intro!: arg_cong [where f = "\<lambda>k. 10 ^ k"])

lemma ten_pow_pos [simp]: "0 < ten_pow e"
  by (simp add: ten_pow_def)

lemma ten_pow_nat: "ten_pow (int n) = 10 ^ n"
  by (simp add: ten_pow_def)

lemma ten_pow_neg: "ten_pow (- int n) * 10 ^ n = 1"
  by (cases n) (auto simp: ten_pow_def nat_add_distrib)

definition dec_value :: "nat \<times> int \<Rightarrow> rat" where
  "dec_value p = of_nat (fst p) * ten_pow (snd p)"

lemma digits_candidate_value:
  assumes "digits_candidate n r = Some p" and "0 < r"
  shows "rnd64 (dec_value p) = r"
proof -
  define x where "x = ilog10 r - int n + 1"
  define f where "f = \<lfloor>r / ten_pow x\<rfloor>"
  have "0 \<le> r / ten_pow x" using assms(2) by (simp add: less_imp_le)
  then have f: "0 \<le> f" by (simp add: f_def)
  then have nf: "(of_nat (nat f) :: rat) = of_int f" "(of_nat (nat (f + 1)) :: rat) = of_int (f + 1)"
    by auto
  show ?thesis
    using assms(1)
    by (auto simp: digits_candidate_def Let_def x_def [symmetric] f_def [symmetric] dec_value_def nf
        simp del: of_int_add split: if_splits)
qed

lemma exact_digits_value:
  assumes "rnd64 r = r" and "0 < r"
  shows "rnd64 (dec_value (exact_digits r)) = r"
proof -
  obtain n e where ne: "r = of_int n * two_pow e" "- 1074 \<le> e" using rnd64_grid [of r] assms(1) by auto
  have "two_pow (e + 1074) = 2 ^ nat (e + 1074)" using ne(2) by (simp add: two_pow_def)
  then have "two_pow e * 2 ^ 1074 = 2 ^ nat (e + 1074)" using two_pow_add [of e 1074] by (simp add: two_pow_def)
  then have i: "r * 2 ^ 1074 = of_int (n * 2 ^ nat (e + 1074))" by (simp add: ne(1) mult.assoc)
  have "0 \<le> r * 2 ^ 1074" using assms(2) by simp
  then have "0 \<le> n * 2 ^ nat (e + 1074)" unfolding i by (simp only: of_int_0_le_iff)
  then have "(of_nat (nat \<lfloor>r * 2 ^ 1074\<rfloor>) :: rat) = r * 2 ^ 1074" unfolding i by (simp only: floor_of_int of_nat_nat)
  then have "dec_value (exact_digits r) = r * 2 ^ 1074 * 5 ^ 1074 * ten_pow (- 1074)"
    by (simp only: dec_value_def exact_digits_def fst_conv snd_conv of_nat_mult of_nat_power of_nat_numeral)
  also have "\<dots> = r * (2 * 5) ^ 1074 * ten_pow (- 1074)" by (simp only: power_mult_distrib mult.assoc)
  also have "(2 :: rat) * 5 = 10" by simp
  also have "r * 10 ^ 1074 * ten_pow (- 1074) = r * (ten_pow (- int 1074) * 10 ^ 1074)"
    by (simp only: of_nat_numeral mult.assoc mult.commute mult.left_commute)
  also have "\<dots> = r" by (simp only: ten_pow_neg mult_1_right)
  finally show ?thesis using assms(1) by simp
qed

lemma shortest_from_value: "rnd64 r = r \<Longrightarrow> 0 < r \<Longrightarrow> rnd64 (dec_value (shortest_from k n r)) = r"
  by (induction k arbitrary: n) (auto simp: exact_digits_value digits_candidate_value split: option.split)

lemma strip_zeros_value:
  "dec_value (strip_zeros p) = dec_value p \<and> (fst p \<noteq> 0 \<longrightarrow> fst (strip_zeros p) mod 10 \<noteq> 0)"
proof (induction p rule: strip_zeros.induct)
  case (1 d x)
  show ?case
  proof (cases "d \<noteq> 0 \<and> d mod 10 = 0")
    case True
    have "d div 10 * 10 = d" using True by (simp add: mod_eq_0_iff_dvd)
    then have q: "of_nat (d div 10) * 10 = (of_nat d :: rat)" by (metis of_nat_mult of_nat_numeral)
    have t: "ten_pow 1 = 10" by (simp add: ten_pow_def)
    have "dec_value (d div 10, x + 1) = of_nat (d div 10) * (ten_pow x * 10)"
      by (simp only: dec_value_def fst_conv snd_conv ten_pow_add t)
    also have "\<dots> = (of_nat (d div 10) * 10) * ten_pow x" by (metis mult.assoc mult.commute)
    finally have v: "dec_value (d div 10, x + 1) = dec_value (d, x)"
      by (simp only: q dec_value_def fst_conv snd_conv)
    have d: "d div 10 \<noteq> 0" using True by (auto simp: div_eq_0_iff)
    have e: "strip_zeros (d, x) = strip_zeros (d div 10, x + 1)"
      using True by (simp add: strip_zeros.simps [of d x])
    show ?thesis unfolding e using 1 [OF True] v d by (simp only: fst_conv simp_thms)
  next
    case False
    then show ?thesis by (auto simp: strip_zeros.simps [of d x])
  qed
qed

lemma shortest_value:
  assumes "rnd64 r = r" and "0 < r" and "shortest r = (d, x)"
  shows "rnd64 (of_nat d * ten_pow x) = r" and "d mod 10 \<noteq> 0"
proof -
  let ?p = "shortest_from 17 1 r"
  have v: "rnd64 (dec_value ?p) = r" using assms(1,2) by (rule shortest_from_value)
  have "fst ?p \<noteq> 0"
  proof
    assume "fst ?p = 0"
    then have "dec_value ?p = 0" by (simp only: dec_value_def of_nat_0 mult_zero_left)
    with v assms(2) show False by simp
  qed
  then show "rnd64 (of_nat d * ten_pow x) = r" and "d mod 10 \<noteq> 0"
    using strip_zeros_value [of ?p] assms(3) v
    by (auto simp: shortest_def dec_value_def)
qed

lemma decimal_hd: "0 < n \<Longrightarrow> hd (decimal n) \<noteq> 48 \<and> decimal n \<noteq> []"
proof (induction n rule: decimal.induct)
  case (1 n)
  show ?case
  proof (cases "n < 10")
    case True
    then show ?thesis using 1 by (subst (1 2) decimal.simps) simp
  next
    case False
    then have "0 < n div 10" by simp
    then show ?thesis using 1 False by (subst (1 2) decimal.simps) (simp add: hd_append)
  qed
qed

lemma decimal_nonempty [simp]: "decimal n \<noteq> []"
  by (subst decimal.simps) simp

lemma decimal_last: "last (decimal n) = 48 + n mod 10"
  by (subst decimal.simps) simp

lemma significant_decimal: "n mod 10 \<noteq> 0 \<Longrightarrow> significant (decimal n)"
  using decimal_hd [of n] digits_decimal [of n]
  by (cases "n = 0") (auto simp: significant_def decimal_last)


subsection \<open>Reading the spelling back\<close>

text \<open>What may follow a value inside a document.\<close>

definition follows :: "pstr \<Rightarrow> bool" where
  "follows q \<longleftrightarrow> q = [] \<or> hd q \<in> {44, 93, 125}"

lemma follows_simps [simp]: "follows []" "follows (44 # q)" "follows (93 # q)" "follows (125 # q)"
  by (auto simp: follows_def)

lemma follows_facts:
  assumes "follows q"
  shows "q \<noteq> [] \<Longrightarrow> \<not> is_digit (hd q)" "expect 46 q = None" "scan_fraction q = None" "scan_exponent q = None"
  using assms by (cases q; auto simp: follows_def is_digit_def expect_def scan_fraction_def scan_exponent_def)+

lemma digit_run_append:
  assumes "list_all is_digit ds" and "q \<noteq> [] \<Longrightarrow> \<not> is_digit (hd q)"
  shows "digit_run (ds @ q) = ds" and "after_digits (ds @ q) = q"
  using assms by (induction ds) (cases q; auto simp: digit_run_def after_digits_def)+

lemma digits_value_append: "digits_value (a @ b) = digits_value a * 10 ^ length b + digits_value b"
proof (induction b rule: rev_induct)
  case (snoc c b)
  then show ?case by (simp flip: append_assoc add: algebra_simps)
qed simp

lemma digits_value_zeros [simp]: "digits_value (zeros n) = 0"
proof -
  have "digits_value (replicate k 48) = 0" for k
    by (induction k) (simp_all flip: replicate_append_same)
  then show ?thesis by (simp add: zeros_def)
qed

lemma scan_whole_digits:
  assumes "list_all is_digit ds" "ds \<noteq> []" "hd ds \<noteq> 48" "q \<noteq> [] \<Longrightarrow> \<not> is_digit (hd q)"
  shows "scan_whole (ds @ q) = Some (ds, q)"
  using assms digit_run_append [of ds q] by (cases ds) (auto simp: scan_whole_def)

lemma scan_whole_zero: "scan_whole (48 # q) = Some ([48], q)"
  by (simp add: scan_whole_def)

lemma scan_fraction_digits:
  assumes "list_all is_digit ds" "ds \<noteq> []" "q \<noteq> [] \<Longrightarrow> \<not> is_digit (hd q)"
  shows "scan_fraction (46 # ds @ q) = Some (ds, q)"
  using assms digit_run_append [of ds q] by (simp add: scan_fraction_def expect_def)

lemma scan_exponent_signed:
  assumes "q \<noteq> [] \<Longrightarrow> \<not> is_digit (hd q)"
  shows "scan_exponent (101 # (if e < 0 then [45] else [43]) @ decimal (nat \<bar>e\<bar>) @ q) = Some (e, q)"
proof -
  have run: "digit_run (decimal m @ q) = decimal m" "after_digits (decimal m @ q) = q" for m
    using digit_run_append [OF digits_decimal [of m] assms] by auto
  show ?thesis
    by (cases "e < 0") (simp_all add: scan_exponent_def expect_def run digits_value_decimal)
qed

text \<open>The value a number is read back as.\<close>

definition read_value :: "bool \<Rightarrow> nat \<Rightarrow> int \<Rightarrow> pyval" where
  "read_value neg d x =
     (if 0 \<le> x \<and> x + int (length (decimal d)) \<le> 21
      then PInt (if neg then - int (d * 10 ^ nat x) else int (d * 10 ^ nat x))
      else PFloat (fl (if neg then - (of_nat d * ten_pow x) else of_nat d * ten_pow x)))"

definition read_number :: "rat \<Rightarrow> pyval" where
  "read_number r = (if r = 0 then PInt 0 else case shortest \<bar>r\<bar> of (d, x) \<Rightarrow> read_value (r < 0) d x)"

lemma scan_ecma:
  assumes "significant (decimal d)" and "follows q"
  shows "scan_unsigned neg (ecma_number (decimal d) (x + int (length (decimal d))) @ q) = Some (read_value neg d x, q)"
proof -
  define ds where "ds = decimal d"
  define n where "n = x + int (length ds)"
  note s = significantD [OF assms(1) [folded ds_def]]
  note f = follows_facts [OF assms(2)]
  have dv: "digits_value ds = d" by (simp add: ds_def digits_value_decimal)
  have rv: "read_value neg d x = (if int (length ds) \<le> n \<and> n \<le> 21
      then PInt (if neg then - int (d * 10 ^ nat x) else int (d * 10 ^ nat x))
      else PFloat (fl (if neg then - (of_nat d * ten_pow x) else of_nat d * ten_pow x)))"
    by (simp add: read_value_def n_def ds_def)
  have dot: "46 # (u @ q) \<noteq> [] \<Longrightarrow> \<not> is_digit (hd (46 # (u @ q)))" "101 # u \<noteq> [] \<Longrightarrow> \<not> is_digit (hd (101 # u))" for u
    by (auto simp: is_digit_def)
  have sf: "scan_fraction (101 # u) = None" for u by (simp add: scan_fraction_def expect_def)
  have se: "scan_exponent (46 # u) = None" for u by (simp add: scan_exponent_def)
  consider (whole) "int (length ds) \<le> n" "n \<le> 21" | (mixed) "0 < n" "n \<le> 21" "n < int (length ds)"
    | (small) "-6 < n" "n \<le> 0" | (expo) "n \<le> -6 \<or> 21 < n"
    by linarith
  then have "scan_unsigned neg (ecma_number ds n @ q) = Some (read_value neg d x, q)"
  proof cases
    case whole
    have t: "ecma_number ds n @ q = (ds @ zeros (n - int (length ds))) @ q"
      using whole s(1) by (simp add: ecma_number_def Let_def)
    have "list_all is_digit (ds @ zeros (n - int (length ds)))"
      using s(6) by (auto simp: list_all_iff is_digit_def dest: set_zeros)
    then have w: "scan_whole (ecma_number ds n @ q) = Some (ds @ zeros (n - int (length ds)), q)"
      unfolding t using s(1,4) f(1) by (intro scan_whole_digits) auto
    show ?thesis using w whole f
      by (simp add: scan_unsigned_def rv digits_value_append dv n_def)
  next
    case mixed
    let ?w = "take (nat n) ds" and ?f = "drop (nat n) ds"
    have t: "ecma_number ds n @ q = ?w @ 46 # ?f @ q" using mixed s(1) by (simp add: ecma_number_def Let_def)
    have wd: "list_all is_digit ?w" "list_all is_digit ?f"
      using s(6) by (auto simp: list_all_iff dest: in_set_takeD in_set_dropD)
    have ne: "?w \<noteq> []" "hd ?w \<noteq> 48" "?f \<noteq> []" using mixed s(1,4) by (auto simp: hd_take)
    have w: "scan_whole (ecma_number ds n @ q) = Some (?w, 46 # ?f @ q)"
      unfolding t using wd ne dot(1) [of ?f] by (intro scan_whole_digits) auto
    have fr: "scan_fraction (46 # ?f @ q) = Some (?f, q)"
      using wd ne f(1) by (intro scan_fraction_digits) auto
    have x: "- int (length ?f) = x" using mixed by (simp add: n_def)
    show ?thesis using mixed
      by (simp only: scan_unsigned_def w fr f option.case prod.case Let_def append_take_drop_id dv rv)
        (simp add: n_def)
  next
    case small
    let ?f = "zeros (- n) @ ds"
    have l: "1 \<le> length ds" using s(1) by (cases ds) auto
    then have t: "ecma_number ds n @ q = 48 # (46 # ?f @ q)" using small by (simp add: ecma_number_def Let_def)
    have "list_all is_digit ?f" using s(6) by (auto simp: list_all_iff is_digit_def dest: set_zeros)
    then have fr: "scan_fraction (46 # ?f @ q) = Some (?f, q)"
      using s(1) f(1) by (intro scan_fraction_digits) auto
    have x: "- int (length ?f) = x" using small by (simp add: n_def)
    have v: "digits_value ([48] @ ?f) = d" by (simp add: digits_value_append dv digits_value_Cons0)
    show ?thesis unfolding t using small
      by (simp only: scan_unsigned_def scan_whole_zero fr f option.case prod.case Let_def v rv)
        (use l in \<open>auto simp: n_def\<close>)
  next
    case expo
    have lf: "\<not> (int (length ds) \<le> n \<and> n \<le> 21)" using expo by auto
    define E where "E = 101 # (if n - 1 < 0 then [45] else [43]) @ decimal (nat \<bar>n - 1\<bar>) @ q"
    have E: "scan_exponent E = Some (n - 1, q)" "scan_fraction E = None" "E \<noteq> [] \<Longrightarrow> \<not> is_digit (hd E)"
      using scan_exponent_signed [OF f(1), of "n - 1"] sf dot(2) by (simp_all add: E_def)
    show ?thesis
    proof (cases "length ds = 1")
      case True
      have t: "ecma_number ds n @ q = ds @ E"
        using expo True by (auto simp: ecma_number_def Let_def E_def)
      have w: "scan_whole (ds @ E) = Some (ds, E)"
        using s E(3) by (intro scan_whole_digits) auto
      have "n - 1 = x" using True by (simp add: n_def)
      then show ?thesis using lf unfolding t by (auto simp: scan_unsigned_def w E dv rv)
    next
      case False
      obtain c r where ds: "ds = c # r" "r \<noteq> []" using s(1) False by (cases ds) auto
      have t: "ecma_number ds n @ q = [c] @ 46 # r @ E"
        using expo False by (auto simp: ecma_number_def Let_def ds E_def)
      have w: "scan_whole ([c] @ 46 # r @ E) = Some ([c], 46 # r @ E)"
        using s by (intro scan_whole_digits) (auto simp: ds is_digit_def)
      have fr: "scan_fraction (46 # r @ E) = Some (r, E)"
        using s ds E(3) by (intro scan_fraction_digits) auto
      have x: "n - 1 - int (length r) = x" by (simp add: n_def ds)
      have v: "digits_value (c # r) = d" using dv by (simp add: ds)
      show ?thesis using lf x unfolding t by (auto simp: scan_unsigned_def w [simplified] fr E v rv)
    qed
  qed
  then show ?thesis by (simp add: n_def ds_def)
qed

lemma hd_ecma:
  assumes "significant ds"
  shows "ecma_number ds n \<noteq> [] \<and> is_digit (hd (ecma_number ds n))"
proof -
  obtain c r where ds: "ds = c # r" using significantD(1) [OF assms] by (cases ds) auto
  have "is_digit c" using significantD(6) [OF assms] by (simp add: ds)
  then show ?thesis by (auto simp: ecma_number_def Let_def ds is_digit_def hd_append take_Cons' split: if_splits)
qed

lemma jcs_finite_eq:
  assumes "rnd64 r = r" and "r \<noteq> 0" and "shortest \<bar>r\<bar> = (d, x)"
  shows "jcs_finite r = (if r < 0 then [45] else []) @ ecma_number (decimal d) (x + int (length (decimal d)))"
    and "significant (decimal d)" and "rnd64 (of_nat d * ten_pow x) = \<bar>r\<bar>"
proof -
  have a: "rnd64 \<bar>r\<bar> = \<bar>r\<bar>" using assms(1) rnd64_uminus [of r] by (auto simp: abs_if)
  have v: "rnd64 (of_nat d * ten_pow x) = \<bar>r\<bar>" "d mod 10 \<noteq> 0"
    using shortest_value [OF a _ assms(3)] assms(2) by auto
  then show "significant (decimal d)" "rnd64 (of_nat d * ten_pow x) = \<bar>r\<bar>"
    by (auto intro: significant_decimal)
  then have "jcs_body (float_repr \<bar>r\<bar>) = ecma_number (decimal d) (x + int (length (decimal d)))"
    by (simp add: float_repr_def assms(3) jcs_body_repr jcs_layout_ecma significantD(1) Let_def)
  then show "jcs_finite r = (if r < 0 then [45] else []) @ ecma_number (decimal d) (x + int (length (decimal d)))"
    using assms(2) by (simp add: jcs_finite_def)
qed

lemma scan_jcs_finite:
  assumes "rnd64 r = r" and "follows q"
  shows "scan_number (jcs_finite r @ q) = Some (read_number r, q)"
proof (cases "r = 0")
  case True
  then show ?thesis using follows_facts [OF assms(2)]
    by (simp add: jcs_finite_def scan_number_def expect_def scan_unsigned_def scan_whole_zero read_number_def
        digits_value_Cons0)
next
  case False
  obtain d x where dx: "shortest \<bar>r\<bar> = (d, x)" by fastforce
  note j = jcs_finite_eq [OF assms(1) False dx]
  let ?t = "ecma_number (decimal d) (x + int (length (decimal d)))"
  have "expect 45 (?t @ q) = None"
    using hd_ecma [OF j(2), of "x + int (length (decimal d))"]
    by (cases ?t) (auto simp: expect_def is_digit_def)
  then show ?thesis
    using scan_ecma [OF j(2) assms(2)] False
    by (simp add: scan_number_def j(1) read_number_def dx) (simp add: expect_def)
qed

lemma jcs_finite_hd: "rnd64 r = r \<Longrightarrow> jcs_finite r \<noteq> [] \<and> (hd (jcs_finite r) = 45 \<or> is_digit (hd (jcs_finite r)))"
proof (cases "r = 0")
  case False
  assume r: "rnd64 r = r"
  obtain d x where dx: "shortest \<bar>r\<bar> = (d, x)" by fastforce
  note j = jcs_finite_eq [OF r False dx]
  show ?thesis using hd_ecma [OF j(2)] by (auto simp: j(1))
qed (simp add: jcs_finite_def is_digit_def)

text \<open>What is read back has the number as its float.\<close>

lemma read_number_cases:
  assumes "is_binary64 r"
  obtains m where "read_number r = PInt m" "rnd64 (of_int m) = r" | "read_number r = PFloat (Fin r)"
proof (cases "r = 0")
  case True
  then show ?thesis by (intro that(1) [of 0]) (auto simp: read_number_def)
next
  case False
  have r: "rnd64 r = r" "\<bar>r\<bar> < two_pow 1024" using assms by (auto simp: is_binary64_def)
  obtain d x where dx: "shortest \<bar>r\<bar> = (d, x)" by fastforce
  have v: "rnd64 (of_nat d * ten_pow x) = \<bar>r\<bar>" by (rule jcs_finite_eq(3) [OF r(1) False dx])
  then have sv: "rnd64 (if r < 0 then - (of_nat d * ten_pow x) else of_nat d * ten_pow x) = r"
    by (auto simp: rnd64_uminus)
  show ?thesis
  proof (cases "0 \<le> x \<and> x + int (length (decimal d)) \<le> 21")
    case True
    have "ten_pow x = 10 ^ nat x" using True by (simp add: ten_pow_def)
    then show ?thesis using True sv False dx
      by (intro that(1) [of "if r < 0 then - int (d * 10 ^ nat x) else int (d * 10 ^ nat x)"])
        (auto simp: read_number_def read_value_def)
  next
    case False': False
    have "fl (if r < 0 then - (of_nat d * ten_pow x) else of_nat d * ten_pow x) = Fin r"
      by (rule fl_rnd64 [OF sv r(2)])
    then show ?thesis using False' False dx by (intro that(2)) (auto simp: read_number_def read_value_def)
  qed
qed

lemma read_number_inject:
  assumes "is_binary64 r" "is_binary64 s" "read_number r = read_number s"
  shows "r = s"
proof -
  have v: "(\<exists>m. read_number u = PInt m \<and> rnd64 (of_int m) = u) \<or> read_number u = PFloat (Fin u)"
    if "is_binary64 u" for u
    using read_number_cases [OF that] by metis
  show ?thesis using v [OF assms(1)] v [OF assms(2)] assms(3) by auto
qed

lemma rnd64_of_int_Ints: "rnd64 (of_int n) \<in> \<int>"
proof -
  have pos: "rnd64 (of_int m) \<in> \<int>" if "0 < m" for m
  proof (cases "m < 2 ^ 53")
    case True
    then show ?thesis using rnd64_int [OF that] by simp
  next
    case False
    let ?r = "of_int m :: rat"
    have "(of_int (2 ^ 53) :: rat) \<le> ?r" using False by (simp only: of_int_le_iff not_less)
    then have "two_pow 53 \<le> ?r" by (simp add: two_pow_def)
    also have "?r < two_pow (ilog2 ?r + 1)" using that by (intro ilog2_bounds) simp
    finally have "53 < ilog2 ?r + 1" by (simp add: two_pow_less_iff)
    then have "two_pow (max (ilog2 ?r) (- 1022) - 52) \<in> \<int>" by (simp add: two_pow_def)
    then show ?thesis using that by (simp add: rnd64_def Let_def)
  qed
  consider "n = 0" | "0 < n" | "n < 0" by linarith
  then show ?thesis
  proof cases
    case 3
    then have "rnd64 (of_int (- n)) \<in> \<int>" by (intro pos) simp
    then have "- rnd64 (of_int n) \<in> \<int>" by (simp add: rnd64_uminus)
    then show ?thesis by (metis Ints_minus minus_minus)
  qed (auto simp: pos)
qed

lemma fl_Fin: "fl v = Fin r \<longleftrightarrow> r = rnd64 v \<and> \<bar>r\<bar> < two_pow 1024"
  by (auto simp: fl_def Let_def abs_if)

lemma jcs_number_PInt:
  "jcs_number (PInt n) = Inr s \<longleftrightarrow> is_binary64 (of_int n) \<and> s = jcs_finite (of_int n)"
proof
  assume "jcs_number (PInt n) = Inr s"
  then obtain r where r: "fl (of_int n) = Fin r" "\<lfloor>r\<rfloor> = n" "s = jcs_finite r"
    by (auto split: pyfloat.splits)
  then have "r = rnd64 (of_int n)" by (simp add: fl_Fin)
  then obtain m where "r = of_int m" using rnd64_of_int_Ints [of n] by (auto elim: Ints_cases)
  with r(2) have "r = of_int n" by simp
  then show "is_binary64 (of_int n) \<and> s = jcs_finite (of_int n)"
    using r by (auto simp: is_binary64_def fl_Fin)
next
  assume a: "is_binary64 (of_int n) \<and> s = jcs_finite (of_int n)"
  then have "fl (of_int n) = Fin (of_int n)" by (auto simp: is_binary64_def fl_Fin)
  then show "jcs_number (PInt n) = Inr s" using a by simp
qed

subsection \<open>Strings\<close>

lemma unhex_hex_digit: "n < 16 \<Longrightarrow> unhex (if n < 10 then 48 + n else 87 + n) = Some n"
  by (auto simp: unhex_def is_digit_def)

lemma scan_unicode_hex4:
  assumes "c \<le> 31"
  shows "scan_unicode (hex4 c @ r) = Some (c, r)"
proof -
  have d: "c div 16 < 16" "c div 256 = 0" "c div 4096 = 0" "c div 16 mod 16 = c div 16"
    using assms by auto
  have "hex4 c @ r = 48 # 48 # (if c div 16 < 10 then 48 + c div 16 else 87 + c div 16)
      # (if c mod 16 < 10 then 48 + c mod 16 else 87 + c mod 16) # r"
    by (simp only: hex4_def Let_def d) simp
  moreover have "unhex 48 = Some 0" using unhex_hex_digit [of 0] by simp
  ultimately show ?thesis
    using assms by (simp add: scan_unicode_def hex4_value_def unhex_hex_digit d del: if_split)
qed

lemma scan_char:
  "scan_string (Suc n) (jcs_char c @ r) = (case scan_string n r of None \<Rightarrow> None | Some (t, q) \<Rightarrow> Some (c # t, q))"
proof (cases "map_of JCS_SHORT_ESCAPES c")
  case None
  then show ?thesis
    using scan_unicode_hex4 [of c r]
    by (auto simp: jcs_char_def JCS_SHORT_ESCAPES_def scan_escape_def split: if_splits)
next
  case (Some e)
  then show ?thesis
    by (auto simp: jcs_char_def JCS_SHORT_ESCAPES_def scan_escape_def short_escape_def split: if_splits)
qed

lemma scan_jcs_string:
  "length t < n \<Longrightarrow> scan_string n (concat (map jcs_char t) @ 34 # q) = Some (t, q)"
proof (induction t arbitrary: n)
  case Nil
  then show ?case by (cases n) auto
next
  case (Cons c t)
  then obtain m where "n = Suc m" "length t < m" by (cases n) auto
  then show ?case using Cons.IH by (simp add: scan_char del: scan_string.simps)
qed

declare scan_string.simps(2) [simp del]

lemma length_jcs_chars: "length t \<le> length (concat (map jcs_char t))"
proof (induction t)
  case (Cons c t)
  have "1 \<le> length (jcs_char c)"
    by (auto simp: jcs_char_def JCS_SHORT_ESCAPES_def Suc_le_eq split: option.split if_splits)
  then show ?case using Cons by simp
qed simp

lemma jcs_string_eq: "jcs_string t = Inr s \<Longrightarrow> s = 34 # concat (map jcs_char t) @ [34]"
  by (auto simp: jcs_string_def)

lemma scan_jcs_quoted:
  assumes "jcs_string t = Inr s" and "length s \<le> n"
  shows "scan_string n (tl s @ q) = Some (t, q)" and "s = 34 # tl s"
  using assms scan_jcs_string [of t n q] length_jcs_chars [of t] by (auto dest!: jcs_string_eq)

subsection \<open>Documents\<close>

text \<open>A document: floats are binary64, and no object has a key twice. What it is read back
  as: tuples are lists, objects in the order of their spelling, and numbers by value.\<close>

fun wf_json :: "pyval \<Rightarrow> bool" where
  "wf_json (PFloat x) = (case x of Fin r \<Rightarrow> is_binary64 r | _ \<Rightarrow> True)"
| "wf_json (PList xs) = list_all wf_json xs"
| "wf_json (PTuple xs) = list_all wf_json xs"
| "wf_json (PDict d) = (distinct (map fst d) \<and> list_all (\<lambda>(k, v). wf_json v) d)"
| "wf_json _ = True"

function jnorm :: "pyval \<Rightarrow> pyval" where
  "jnorm (PInt n) = read_number (of_int n)"
| "jnorm (PFloat x) = (case x of Fin r \<Rightarrow> read_number r | _ \<Rightarrow> PNone)"
| "jnorm (PList xs) = PList (map jnorm xs)"
| "jnorm (PTuple xs) = PList (map jnorm xs)"
| "jnorm (PDict d) = PDict (map (\<lambda>(k, v). (k, jnorm v)) (sort_members d))"
| "jnorm (PStr s) = PStr s"
| "jnorm (PBool b) = PBool b"
| "jnorm PNone = PNone"
| "jnorm (PBytes b) = PNone"
| "jnorm PObject = PNone"
  by pat_completeness auto
termination
  by (relation "measure size")
    (auto simp: less_Suc_eq_le elim!: size_list_estimation')

lemma skip_ws_id: "s = [] \<or> \<not> is_ws (hd s) \<Longrightarrow> skip_ws s = s"
  by (cases s) (auto simp: skip_ws_def)

definition value_head :: "pstr \<Rightarrow> bool" where
  "value_head s \<longleftrightarrow> s \<noteq> [] \<and> (hd s \<in> {34, 91, 123, 45, 110, 116, 102} \<or> is_digit (hd s))"

lemma value_head_facts:
  assumes "value_head s"
  shows "skip_ws (s @ q) = s @ q" "expect 93 (s @ q) = None" "expect 125 (s @ q) = None" "s \<noteq> []"
    "hd s \<noteq> 0xFEFF" "skip_ws s = s"
  using assms by (cases s; auto simp: value_head_def is_ws_def is_digit_def expect_def skip_ws_def)+

lemma render_head: "render_jcs v = Inr s \<Longrightarrow> wf_json v \<Longrightarrow> value_head s"
  by (cases v)
    (auto simp: value_head_def jcs_string_def lit_Cons jcs_number_PInt is_binary64_def dest!: jcs_finite_hd
      simp del: jcs_number.simps(1) split: if_splits pyfloat.splits)

text \<open>Each kind of value in turn; the fuel is twice the text and what follows is a separator.\<close>

definition scans :: "pyval \<Rightarrow> pstr \<Rightarrow> bool" where
  "scans v s \<longleftrightarrow> (\<forall>q n. follows q \<longrightarrow> 2 * length s \<le> n \<longrightarrow> scan_value n (s @ q) = Inr (jnorm v, q))"

lemma scansD: "scans v s \<Longrightarrow> follows q \<Longrightarrow> 2 * length s \<le> n \<Longrightarrow> scan_value n (s @ q) = Inr (jnorm v, q)"
  by (simp add: scans_def)

lemma scan_items_join:
  assumes "list_all2 (\<lambda>v t. scans v t \<and> value_head t) vs ts" and "vs \<noteq> []"
    and "2 * length (join [44] ts) + 1 \<le> n"
  shows "scan_items n (join [44] ts @ 93 # q) = Inr (map jnorm vs, q)"
  using assms
proof (induction vs ts arbitrary: n rule: list_all2_induct)
  case (Cons v vs t ts)
  obtain m where n: "n = Suc m" using Cons.prems(2) by (cases n) auto
  note h = value_head_facts [OF conjunct2 [OF Cons.hyps(1)]]
  note sc = scansD [OF conjunct1 [OF Cons.hyps(1)]]
  show ?case
  proof (cases ts)
    case Nil
    then have "vs = []" using Cons.hyps(2) by simp
    then show ?thesis using Nil n Cons.prems(2) sc [of "93 # q" m]
      by (simp add: skip_ws_def is_ws_def expect_def)
  next
    case (Cons t' ts')
    then obtain v' vs' where vs: "vs = v' # vs'" "value_head t'" using Cons.hyps(2) by (cases vs) auto
    have len: "2 * length t \<le> m" "2 * length (join [44] ts) + 1 \<le> m"
      using Cons.prems(2) n by (auto simp: Cons)
    have "value_head (join [44] ts)" using vs(2) by (cases ts') (auto simp: Cons value_head_def)
    then have ws: "skip_ws (join [44] ts @ 93 # q) = join [44] ts @ 93 # q" by (rule value_head_facts)
    have "scan_items m (join [44] ts @ 93 # q) = Inr (map jnorm vs, q)"
      using Cons.IH [of m] vs(1) len(2) by simp
    then show ?thesis
      using sc [of "44 # join [44] ts @ 93 # q" m] len(1) n ws
      by (simp add: Cons skip_ws_def [of "44 # _"] skip_ws_def [of "_ # _"] is_ws_def expect_def)
  qed
qed simp

definition member_of :: "pyval \<times> pyval \<Rightarrow> pstr \<Rightarrow> bool" where
  "member_of kv t \<longleftrightarrow> (\<exists>k ek ev. fst kv = PStr k \<and> jcs_string k = Inr ek \<and> scans (snd kv) ev \<and> value_head ev
     \<and> t = ek @ [58] @ ev)"

lemma member_head: "member_of kv t \<Longrightarrow> value_head t"
  by (auto simp: member_of_def value_head_def dest!: jcs_string_eq)

lemma scan_member:
  assumes "member_of kv t" and "follows q" and "2 * length t \<le> n"
  obtains k r where "fst kv = PStr k" "expect 34 (t @ q) = Some r"
    "\<exists>r1 r2. scan_string (length (t @ q)) r = Some (k, r1) \<and> expect 58 (skip_ws r1) = Some r2
       \<and> scan_value n (skip_ws r2) = Inr (jnorm (snd kv), q)"
proof -
  obtain k ek ev where m: "fst kv = PStr k" "jcs_string k = Inr ek" "scans (snd kv) ev" "value_head ev"
    "t = ek @ [58] @ ev" using assms(1) by (auto simp: member_of_def)
  have l: "length ek \<le> length (t @ q)" by (simp add: m(5))
  note k = scan_jcs_quoted [OF m(2) l]
  have e: "expect 34 (t @ q) = Some (tl ek @ 58 # ev @ q)"
    using k(2) by (cases ek) (auto simp: expect_def m(5))
  have v: "scan_value n (ev @ q) = Inr (jnorm (snd kv), q)"
    using assms(2,3) by (intro scansD [OF m(3)]) (auto simp: m(5))
  show ?thesis
    by (rule that [OF m(1) e])
      (use k(1) v value_head_facts(1) [OF m(4)] in \<open>auto simp: skip_ws_def [of "58 # _"] is_ws_def expect_def\<close>)
qed


lemma scan_members_join:
  assumes "list_all2 member_of d ts" and "d \<noteq> []" and "2 * length (join [44] ts) + 1 \<le> n"
  shows "scan_members n (join [44] ts @ 125 # q) = Inr (map (\<lambda>(k, v). (k, jnorm v)) d, q)"
  using assms
proof (induction d ts arbitrary: n rule: list_all2_induct)
  case (Cons kv d t ts)
  obtain m where n: "n = Suc m" using Cons.prems(2) by (cases n) auto
  obtain k v where kv: "kv = (k, v)" by fastforce
  show ?case
  proof (cases ts)
    case Nil
    then have d: "d = []" using Cons.hyps(2) by simp
    have "2 * length t \<le> m" using Cons.prems(2) n Nil by simp
    then obtain r key where m: "fst kv = PStr key" "expect 34 (t @ 125 # q) = Some r"
      "\<exists>r1 r2. scan_string (length (t @ 125 # q)) r = Some (key, r1) \<and> expect 58 (skip_ws r1) = Some r2
       \<and> scan_value m (skip_ws r2) = Inr (jnorm (snd kv), 125 # q)"
      by (rule scan_member [OF Cons.hyps(1) follows_simps(4)])
    then show ?thesis using Nil n d kv
      by (auto simp: skip_ws_def [of "125 # _"] is_ws_def expect_def [of 125])
  next
    case (Cons t' ts')
    then obtain kv' d' where d: "d = kv' # d'" "value_head t'"
      using Cons.hyps(2) by (cases d) (auto dest: member_head)
    have len: "2 * length t \<le> m" "2 * length (join [44] ts) + 1 \<le> m"
      using Cons.prems(2) n by (auto simp: Cons)
    have "value_head (join [44] ts)" using d(2) by (cases ts') (auto simp: Cons value_head_def)
    then have ws: "skip_ws (join [44] ts @ 125 # q) = join [44] ts @ 125 # q" by (rule value_head_facts)
    have ih: "scan_members m (join [44] ts @ 125 # q) = Inr (map (\<lambda>(k, v). (k, jnorm v)) d, q)"
      using Cons.IH [of m] d(1) len(2) by simp
    obtain r key where m: "fst kv = PStr key" "expect 34 (t @ 44 # join [44] ts @ 125 # q) = Some r"
      "\<exists>r1 r2. scan_string (length (t @ 44 # join [44] ts @ 125 # q)) r = Some (key, r1) \<and> expect 58 (skip_ws r1) = Some r2
       \<and> scan_value m (skip_ws r2) = Inr (jnorm (snd kv), 44 # join [44] ts @ 125 # q)"
      by (rule scan_member [OF Cons.hyps(1) follows_simps(2) len(1)])
    have j: "join [44] (t # ts) @ 125 # q = t @ 44 # join [44] ts @ 125 # q" by (simp add: Cons)
    show ?thesis
      unfolding j using m ih ws kv n
      by (auto simp: skip_ws_def [of "44 # _"] is_ws_def expect_def [of 125] expect_def [of 44])
  qed
qed simp

lemma unique_object_distinct: "distinct (map fst (acc @ ps)) \<Longrightarrow> unique_object acc ps = Inr (acc @ ps)"
  by (induction acc ps rule: unique_object.induct) auto

lemma scan_value_digit:
  assumes "s \<noteq> []" and "hd s = 45 \<or> is_digit (hd s)"
  shows "scan_value (Suc n) (s @ q) = (case scan_number (s @ q) of Some (v, r) \<Rightarrow> Inr (v, r) | None \<Rightarrow> Inl ValueError)"
proof -
  obtain c r where s: "s = c # r" using assms(1) by (cases s) auto
  have c: "c \<noteq> 34" "c \<noteq> 123" "c \<noteq> 91" "c \<noteq> 110" "c \<noteq> 116" "c \<noteq> 102"
    using assms(2) by (auto simp: s is_digit_def)
  then show ?thesis by (auto simp: s strip_prefix_def lit_Cons)
qed

lemma scans_number:
  assumes "rnd64 r = r" and "jnorm v = read_number r"
  shows "scans v (jcs_finite r)"
proof -
  have h: "jcs_finite r \<noteq> []" "hd (jcs_finite r) = 45 \<or> is_digit (hd (jcs_finite r))"
    using jcs_finite_hd [OF assms(1)] by auto
  have "scan_value n (jcs_finite r @ q) = Inr (jnorm v, q)"
    if fq: "follows q" and n: "2 * length (jcs_finite r) \<le> n" for q n
  proof -
    obtain m where "n = Suc m" using n h(1) by (cases n) auto
    then show ?thesis using scan_value_digit [OF h, of m q] scan_jcs_finite [OF assms(1) fq] assms(2)
      by simp
  qed
  then show ?thesis by (simp add: scans_def)
qed

lemma scans_constant:
  "scans PNone (lit ''null'')" "scans (PBool True) (lit ''true'')" "scans (PBool False) (lit ''false'')"
proof -
  have p: "strip_prefix (lit c) (lit c @ q) = Some q" for c q by (simp add: strip_prefix_def)
  have "scan_value n (lit ''null'' @ q) = Inr (PNone, q)" "scan_value n (lit ''true'' @ q) = Inr (PBool True, q)"
    "scan_value n (lit ''false'' @ q) = Inr (PBool False, q)" if "0 < n" for n q
    using that p [of "''null''" q] p [of "''true''" q] p [of "''false''" q]
    by (cases n; simp add: lit_Cons strip_prefix_def)+
  then show "scans PNone (lit ''null'')" "scans (PBool True) (lit ''true'')" "scans (PBool False) (lit ''false'')"
    by (simp_all add: scans_def)
qed

lemma scans_list:
  assumes "list_all2 (\<lambda>v t. scans v t \<and> value_head t) vs ts" and "jnorm v = PList (map jnorm vs)"
  shows "scans v ([91] @ join [44] ts @ [93])"
proof -
  have "scan_value n (([91] @ join [44] ts @ [93]) @ q) = Inr (jnorm v, q)"
    if n: "2 * length ([91] @ join [44] ts @ [93]) \<le> n" for q n
  proof -
    obtain m where m: "n = Suc m" "2 * length (join [44] ts) + 1 \<le> m" using n by (cases n) auto
    show ?thesis
    proof (cases vs)
      case Nil
      then show ?thesis using assms m by (simp add: skip_ws_def is_ws_def expect_def)
    next
      case (Cons v' vs')
      then obtain t' ts' where ts: "ts = t' # ts'" "value_head t'" using assms(1) by (cases ts) auto
      have h: "value_head (join [44] ts)" using ts by (cases ts') (auto simp: value_head_def)
      have "scan_items m (join [44] ts @ 93 # q) = Inr (map jnorm vs, q)"
        using scan_items_join [OF assms(1) _ m(2)] Cons by simp
      then show ?thesis
        using m(1) value_head_facts(1,2) [OF h, of "93 # q"] assms(2) by simp
    qed
  qed
  then show ?thesis by (simp add: scans_def)
qed

lemma scans_dict:
  assumes "list_all2 member_of d ts" and "distinct (map fst d)"
    and "jnorm v = PDict (map (\<lambda>(k, v). (k, jnorm v)) d)"
  shows "scans v ([123] @ join [44] ts @ [125])"
proof -
  have "scan_value n (([123] @ join [44] ts @ [125]) @ q) = Inr (jnorm v, q)"
    if n: "2 * length ([123] @ join [44] ts @ [125]) \<le> n" for q n
  proof -
    obtain m where m: "n = Suc m" "2 * length (join [44] ts) + 1 \<le> m" using n by (cases n) auto
    show ?thesis
    proof (cases d)
      case Nil
      then show ?thesis using assms m by (simp add: skip_ws_def is_ws_def expect_def)
    next
      case (Cons kv d')
      then obtain t' ts' where ts: "ts = t' # ts'" "value_head t'"
        using assms(1) by (cases ts) (auto dest: member_head)
      have h: "value_head (join [44] ts)" using ts by (cases ts') (auto simp: value_head_def)
      have "scan_members m (join [44] ts @ 125 # q) = Inr (map (\<lambda>(k, v). (k, jnorm v)) d, q)"
        using scan_members_join [OF assms(1) _ m(2)] Cons by simp
      moreover have "map fst (map (\<lambda>(k, v). (k, jnorm v)) d) = map fst d" by (induction d) auto
      then have "distinct (map fst ([] @ map (\<lambda>(k, v). (k, jnorm v)) d))" using assms(2) by (simp only: append_Nil)
      then have "unique_object [] (map (\<lambda>(k, v). (k, jnorm v)) d) = Inr (map (\<lambda>(k, v). (k, jnorm v)) d)"
        by (simp only: unique_object_distinct append_Nil)
      ultimately show ?thesis
        using m(1) value_head_facts(1,3) [OF h, of "125 # q"] assms(3) by simp
    qed
  qed
  then show ?thesis by (simp add: scans_def)
qed

lemma check_keys_PStr: "check_keys ks = Inr u \<Longrightarrow> k \<in> set ks \<Longrightarrow> \<exists>t. k = PStr t"
  by (induction ks rule: check_keys.induct) auto

lemma distinct_sort_members: "distinct (map fst d) \<Longrightarrow> distinct (map fst (sort_members d))"
  unfolding distinct_map by (simp add: sort_members_def)

lemma list_all2_strong:
  "list_all2 P xs ys \<Longrightarrow> (\<And>x y. x \<in> set xs \<Longrightarrow> P x y \<Longrightarrow> Q x y) \<Longrightarrow> list_all2 Q xs ys"
  by (induction xs ys rule: list_all2_induct) auto

lemma render_scans: "render_jcs v = Inr s \<Longrightarrow> wf_json v \<Longrightarrow> scans v s"
proof (induction v arbitrary: s rule: render_jcs.induct)
  case (6 xs)
  then obtain ts where ts: "rmap render_jcs xs = Inr ts" "s = [91] @ join [44] ts @ [93]" by auto
  have "list_all2 (\<lambda>v t. scans v t \<and> value_head t) xs ts"
    using ts(1) 6 unfolding rmap_eq_Inr
    by (fastforce simp: list_all2_conv_all_nth list_all_length dest: render_head)
  then show ?case unfolding ts(2) by (rule scans_list) simp
next
  case (7 xs)
  then obtain ts where ts: "rmap render_jcs xs = Inr ts" "s = [91] @ join [44] ts @ [93]" by auto
  have "list_all2 (\<lambda>v t. scans v t \<and> value_head t) xs ts"
    using ts(1) 7 unfolding rmap_eq_Inr
    by (fastforce simp: list_all2_conv_all_nth list_all_length dest: render_head)
  then show ?case unfolding ts(2) by (rule scans_list) simp
next
  case (8 d)
  then obtain ts where ck: "check_keys (map fst d) = Inr ()"
    and ts: "rmap (\<lambda>(k, v). rbind (jcs_string (key_text k)) (\<lambda>ek. rbind (render_jcs v) (\<lambda>ev.
              Inr (ek @ [58] @ ev)))) (sort_members d) = Inr ts" "s = [123] @ join [44] ts @ [125]" by auto
  have "member_of kv t"
    if kv: "kv \<in> set d" and t: "(case kv of (k, v) \<Rightarrow> rbind (jcs_string (key_text k)) (\<lambda>ek. rbind (render_jcs v) (\<lambda>ev.
              Inr (ek @ [58] @ ev)))) = Inr t" for kv t
  proof -
    obtain k v where e: "kv = (k, v)" by fastforce
    obtain key where k: "k = PStr key" using check_keys_PStr [OF ck, of k] kv e by force
    obtain ek ev where ev: "jcs_string key = Inr ek" "render_jcs v = Inr ev" "t = ek @ [58] @ ev"
      using t e k by auto
    have w: "wf_json v" using 8(3) kv e by (auto simp: list_all_iff)
    have "(k, v) \<in> set (sort_members d)" using kv e by simp
    then have "scans v ev" using 8(1) [OF _ _ ev(2) w] by blast
    then show ?thesis using e k ev render_head [OF ev(2) w] by (auto simp: member_of_def)
  qed
  note member = this
  have "list_all2 member_of (sort_members d) ts"
    using ts(1) unfolding rmap_eq_Inr
    by (rule list_all2_strong) (rule member, simp_all)
  then show ?case
    unfolding ts(2) using 8(3) by (intro scans_dict) (auto simp: distinct_sort_members)
next
  case (3 t)
  have "scan_value n (s @ q) = Inr (PStr t, q)" if n: "2 * length s \<le> n" for n q
  proof -
    have js: "jcs_string t = Inr s" using 3 by simp
    have "length s \<le> length (s @ q)" by simp
    note k = scan_jcs_quoted [OF js this]
    obtain u where u: "s = 34 # u" using k(2) by metis
    obtain m where m: "n = Suc m" using n u by (cases n) auto
    have "scan_string (length (s @ q)) (u @ q) = Some (t, q)" using k(1) [of q] u by simp
    then show ?thesis by (simp add: u m)
  qed
  then show ?case by (simp add: scans_def)
qed (auto simp: scans_constant scans_number is_binary64_def jcs_number_PInt simp del: jcs_number.simps(1)
   split: pyfloat.splits if_splits)

subsection \<open>Round trip\<close>

lemma json_loads_canonical:
  assumes "canonical_json v = Inr s" and "wf_json v"
  shows "json_loads s = Inr (jnorm v)"
proof -
  have r: "render_jcs v = Inr s" using assms(1) by (simp add: canonical_json_def)
  have "scan_value (Suc (2 * length s)) (s @ []) = Inr (jnorm v, [])"
    by (rule scansD [OF render_scans [OF r assms(2)]]) simp_all
  then show ?thesis
    using value_head_facts(6) [OF render_head [OF r assms(2)]] by (simp add: json_loads_def skip_ws_def)
qed

lemma canonical_json_inject:
  "canonical_json v = Inr s \<Longrightarrow> canonical_json w = Inr s \<Longrightarrow> wf_json v \<Longrightarrow> wf_json w \<Longrightarrow> jnorm v = jnorm w"
  by (metis json_loads_canonical sum.inject(2))

text \<open>Integers below 2 ^ 53 survive, whatever their spelling.\<close>

lemma read_number_small:
  assumes "is_binary64 r" and "\<bar>r\<bar> < 2 ^ 53" and "read_number r = PInt m"
  shows "of_int m = r" and "jcs_number (PInt m) \<noteq> Inl e"
proof -
  have m: "rnd64 (of_int m) = r"
    using assms(1) by (rule read_number_cases) (use assms(3) in auto)
  have lt: "n < 2 ^ 53" if "rnd64 (of_int n) < 2 ^ 53" for n
  proof (rule ccontr)
    assume "\<not> n < 2 ^ 53"
    then have "(of_int (2 ^ 53) :: rat) \<le> of_int n" by (simp only: of_int_le_iff not_less)
    then have "2 ^ 53 \<le> rnd64 (of_int n)" by (intro rnd64_ge_2_53) simp
    with that show False by simp
  qed
  have "m < 2 ^ 53" using m assms(2) by (intro lt) auto
  moreover have "- m < 2 ^ 53" using m assms(2) by (intro lt) (auto simp: rnd64_uminus)
  ultimately have exact: "rnd64 (of_int m) = of_int m"
    using rnd64_int [of m] rnd64_int [of "- m"] rnd64_uminus [of "of_int m"] by (cases "m = 0"; cases "0 < m") auto
  then show v: "of_int m = r" using m by simp
  show "jcs_number (PInt m) \<noteq> Inl e"
    using assms(1) v by (metis Inr_Inl_False jcs_number_PInt)
qed

fun small_numbers :: "pyval \<Rightarrow> bool" where
  "small_numbers (PInt n) = (\<bar>n\<bar> < 2 ^ 53)"
| "small_numbers (PFloat x) = (case x of Fin r \<Rightarrow> \<bar>r\<bar> < 2 ^ 53 | _ \<Rightarrow> True)"
| "small_numbers (PList xs) = list_all small_numbers xs"
| "small_numbers (PTuple xs) = list_all small_numbers xs"
| "small_numbers (PDict d) = list_all (\<lambda>(k, v). small_numbers v) d"
| "small_numbers _ = True"

lemma void_rmap: "rbind (rmap f xs) (\<lambda>_. Inr ()) = Inr () \<longleftrightarrow> (\<forall>x \<in> set xs. \<exists>y. f x = Inr y)"
  by (induction xs) auto

lemma validate_read_number:
  assumes "is_binary64 r" and "\<bar>r\<bar> < 2 ^ 53"
  shows "validate_i_json (read_number r) = Inr ()"
proof (cases rule: read_number_cases [OF assms(1)])
  case (1 m)
  then show ?thesis using read_number_small(2) [OF assms 1(1)]
    by (cases "jcs_number (PInt m)") (auto simp del: jcs_number.simps(1))
qed simp

lemma jcs_string_valid: "jcs_string t = Inr s \<Longrightarrow> validate_i_json_string t = Inr ()"
  by (auto simp: jcs_string_def)

lemma of_int_less_2_53: "\<bar>n\<bar> < 2 ^ 53 \<Longrightarrow> \<bar>of_int n :: rat\<bar> < 2 ^ 53"
proof -
  assume "\<bar>n\<bar> < 2 ^ 53"
  then have "(of_int \<bar>n\<bar> :: rat) < of_int (2 ^ 53)" by (simp only: of_int_less_iff)
  then show ?thesis by simp
qed

lemma validate_jnorm:
  "render_jcs v = Inr s \<Longrightarrow> wf_json v \<Longrightarrow> small_numbers v \<Longrightarrow> validate_i_json (jnorm v) = Inr ()"
proof (induction v arbitrary: s rule: render_jcs.induct)
  case (6 xs)
  then obtain ts where ts: "rmap render_jcs xs = Inr ts" by auto
  have "\<exists>y. render_jcs x = Inr y" if "x \<in> set xs" for x
    using rmap_mem [OF ts that] .
  then have "\<forall>x \<in> set xs. validate_i_json (jnorm x) = Inr ()" using 6 by (fastforce simp: list_all_iff)
  then show ?case by (simp add: void_rmap del: rbind_eq_Inr)
next
  case (7 xs)
  then obtain ts where ts: "rmap render_jcs xs = Inr ts" by auto
  have "\<exists>y. render_jcs x = Inr y" if "x \<in> set xs" for x
    using rmap_mem [OF ts that] .
  then have "\<forall>x \<in> set xs. validate_i_json (jnorm x) = Inr ()" using 7 by (fastforce simp: list_all_iff)
  then show ?case by (simp add: void_rmap del: rbind_eq_Inr)
next
  case (8 d)
  then obtain ts where ck: "check_keys (map fst d) = Inr ()"
    and ts: "rmap (\<lambda>(k, v). rbind (jcs_string (key_text k)) (\<lambda>ek. rbind (render_jcs v) (\<lambda>ev.
              Inr (ek @ [58] @ ev)))) (sort_members d) = Inr ts" by auto
  have "validate_i_json_string (key_text k) = Inr () \<and> validate_i_json (jnorm v) = Inr ()"
    if kv: "(k, v) \<in> set d" for k v
  proof -
    have i: "(k, v) \<in> set (sort_members d)" using kv by simp
    then obtain ek ev where e: "jcs_string (key_text k) = Inr ek" "render_jcs v = Inr ev"
      using rmap_mem [OF ts i] by auto
    have w: "wf_json v" "small_numbers v" using 8(3,4) kv by (auto simp: list_all_iff)
    show ?thesis using jcs_string_valid [OF e(1)] 8(1) [OF i _ e(2) w] by simp
  qed
  then show ?case by (fastforce simp: void_rmap simp del: rbind_eq_Inr)
qed (auto simp: jcs_string_def validate_read_number jcs_number_PInt is_binary64_def of_int_less_2_53
    simp del: jcs_number.simps(1) split: pyfloat.splits if_splits)

lemma strict_json_canonical:
  assumes "canonical_json v = Inr s" and "wf_json v" and "small_numbers v"
  shows "strict_json_text s = Inr (jnorm v)"
proof -
  have r: "render_jcs v = Inr s" using assms(1) by (simp add: canonical_json_def)
  have "take 1 s \<noteq> [0xFEFF]"
    using value_head_facts(4,5) [OF render_head [OF r assms(2)]] by (cases s) auto
  then show ?thesis
    using json_loads_canonical [OF assms(1,2)] validate_jnorm [OF r assms(2,3)]
    by (simp add: strict_json_text_def)
qed

subsection \<open>A spelling that does not read back\<close>

text \<open>The float nearest to 9.9999e20: its shortest digits are 99999, and it is not
  99999 * 10 ^ 16.\<close>

lemma length_decimal: "10 ^ w \<le> n \<Longrightarrow> n < 10 ^ Suc w \<Longrightarrow> length (decimal n) = Suc w"
  by (simp add: decimal_padded del: power_Suc)

definition big :: rat where "big = 999990000000000065536"

lemma ilog10_big: "ilog10 big = 20"
proof -
  have "length (decimal 999990000000000065536) = Suc 20" by (rule length_decimal) simp_all
  moreover have "length (decimal (Suc 0)) = 1" by (subst decimal.simps) simp
  ultimately show ?thesis by (simp add: ilog10_def big_def Let_def ten_pow_def)
qed

lemma rnd64_near_big:
  assumes "2 ^ 69 \<le> r" "r < 2 ^ 70"
  shows "rnd64 r = of_int (round_half_even (r / 2 ^ 17)) * 2 ^ 17"
proof -
  have "rnd64 r = of_int (round_half_even (r / two_pow (69 - 52))) * two_pow (69 - 52)"
    using assms by (intro rnd64_at) (simp_all add: two_pow_def)
  then show ?thesis by (simp add: two_pow_def)
qed

lemma rnd64_big: "rnd64 big = big"
  by (subst rnd64_near_big) (simp_all add: big_def round_half_even_def Let_def)

lemma digits_candidate_at:
  assumes "ten_pow (ilog10 r - int n + 1) = u" and "of_int f \<le> r / u" and "r / u < of_int f + 1"
  shows "digits_candidate n r =
     (if rnd64 (of_int f * u) = r \<and> (rnd64 (of_int (f + 1) * u) \<noteq> r \<or> r / u - of_int f < 1/2
           \<or> (r / u - of_int f = 1/2 \<and> even f))
      then Some (nat f, ilog10 r - int n + 1)
      else if rnd64 (of_int (f + 1) * u) = r then Some (nat (f + 1), ilog10 r - int n + 1) else None)"
proof -
  have f: "\<lfloor>r / u\<rfloor> = f" using assms(2,3) by (rule floor_unique)
  show ?thesis unfolding digits_candidate_def Let_def assms(1) f ..
qed

lemma candidate_big:
  assumes "21 - int n = int k" and "of_int f \<le> big / 10 ^ k" and "big / 10 ^ k < of_int f + 1"
    and "rnd64 (of_int (f + 1) * 10 ^ k) \<noteq> big" and "big / 10 ^ k - of_int f < 1 / 2"
  shows "digits_candidate n big = (if rnd64 (of_int f * 10 ^ k) = big then Some (nat f, int k) else None)"
proof -
  have k: "ilog10 big - int n + 1 = int k" using assms(1) ilog10_big by simp
  then have u: "ten_pow (ilog10 big - int n + 1) = 10 ^ k" by (simp only: ten_pow_nat)
  show ?thesis by (simp only: digits_candidate_at [OF u assms(2,3)] assms(4,5) k simp_thms if_False)
qed

lemma candidates_big: "digits_candidate 5 big = Some (99999, 16)"
  by (subst candidate_big [where k = 16 and f = 99999])
    (simp_all add: big_def rnd64_near_big round_half_even_def Let_def)
  
lemma candidate_big_None:
  assumes "21 - int n = int k" and "of_int f \<le> big / 10 ^ k" and "big / 10 ^ k < of_int f + 1"
    and "rnd64 (of_int (f + 1) * 10 ^ k) \<noteq> big" and "rnd64 (of_int f * 10 ^ k) \<noteq> big"
  shows "digits_candidate n big = None"
proof -
  have k: "ilog10 big - int n + 1 = int k" using assms(1) ilog10_big by simp
  then have u: "ten_pow (ilog10 big - int n + 1) = 10 ^ k" by (simp only: ten_pow_nat)
  show ?thesis by (simp only: digits_candidate_at [OF u assms(2,3)] assms(4,5) simp_thms if_False)
qed

lemma candidates_big_None:
  "digits_candidate (Suc 0) big = None" "digits_candidate 2 big = None" "digits_candidate 3 big = None"
  "digits_candidate 4 big = None"
proof -
  show "digits_candidate (Suc 0) big = None"
    by (rule candidate_big_None [where k = 20 and f = 9])
      (simp_all add: big_def rnd64_near_big round_half_even_def Let_def)
  show "digits_candidate 2 big = None"
    by (rule candidate_big_None [where k = 19 and f = 99])
      (simp_all add: big_def rnd64_near_big round_half_even_def Let_def)
  show "digits_candidate 3 big = None"
    by (rule candidate_big_None [where k = 18 and f = 999])
      (simp_all add: big_def rnd64_near_big round_half_even_def Let_def)
  show "digits_candidate 4 big = None"
    by (rule candidate_big_None [where k = 17 and f = 9999])
      (simp_all add: big_def rnd64_near_big round_half_even_def Let_def)
qed

lemma shortest_big: "shortest big = (99999, 16)"
proof -
  note step = shortest_from.simps(2) [of _ _ big]
  have "shortest_from 16 2 big = (99999, 16)"
    using step [of 15 2] step [of 14 3] step [of 13 4] step [of 12 5] candidates_big candidates_big_None by simp
  then have "shortest_from 17 1 big = (99999, 16)"
    using step [of 16 1] candidates_big_None(1) by (simp add: numeral_2_eq_2)
  then show ?thesis by (simp add: shortest_def strip_zeros.simps [of 99999])
qed

lemma decimal_99999: "length (decimal 99999) = 5"
  by (subst length_decimal [of 4]) simp_all

lemma big_unreadable: 
  assumes "canonical_json (PFloat (Fin big)) = Inr s"
  shows "strict_json_loads (PStr s) = Inl ValueError"
proof -
  have b: "is_binary64 big" using rnd64_big by (simp add: is_binary64_def) (simp add: big_def two_pow_def)
  have rn: "read_number big = PInt 999990000000000000000"
    using shortest_big decimal_99999 by (simp add: read_number_def read_value_def) (simp add: big_def)
  have fl: "fl 999990000000000000000 = Fin big"
    using rnd64_near_big [of 999990000000000000000]
    by (simp add: fl_Fin round_half_even_def Let_def big_def two_pow_def)
  have "json_loads s = Inr (PInt 999990000000000000000)"
    using json_loads_canonical [OF assms] b rn by simp
  moreover have "validate_i_json (PInt 999990000000000000000) = Inl ValueError"
    using fl by (simp add: big_def)
  moreover have "take 1 s \<noteq> [0xFEFF]"
    using value_head_facts(4,5) [OF render_head [of "PFloat (Fin big)" s]] b assms
    by (cases s) (auto simp: canonical_json_def)
  ultimately show ?thesis by (simp add: strict_json_text_def)
qed
lemma canonical_json_float: "is_binary64 r \<Longrightarrow> canonical_json (PFloat (Fin r)) = Inr (jcs_finite r)"
  by (simp add: canonical_json_def)

subsection \<open>Properties\<close>

text \<open>C13: Round trip of canonical JSON. A JSON document whose numbers are below 2 ^ 53 in
  magnitude is read back by \<open>strict_json_loads\<close> from the text \<open>canonical_json\<close> writes for it,
  up to the normalisation JSON itself makes (tuples as lists, members in UTF-16 order,
  numbers by value).\<close>

theorem canonical_json_roundtrip:
  assumes "canonical_json v = Inr s" and "wf_json v" and "small_numbers v"
  shows "strict_json_loads (PStr s) = Inr (jnorm v)"
  using strict_json_canonical [OF assms] by simp

theorem canonical_json_roundtrip_witness:
  "\<exists>s. canonical_json (PDict [(pkey ''b'', PTuple [PInt 1, PNone]), (pkey ''a'', PBool True)]) = Inr s
     \<and> strict_json_loads (PStr s) = Inr (jnorm (PDict [(pkey ''b'', PTuple [PInt 1, PNone]), (pkey ''a'', PBool True)]))"
proof -
  let ?v = "PDict [(pkey ''b'', PTuple [PInt 1, PNone]), (pkey ''a'', PBool True)]"
  have "is_binary64 (of_int 1)" using rnd64_int [of 1] by (simp add: is_binary64_def two_pow_def)
  then have "jcs_number (PInt 1) = Inr (jcs_finite (of_int 1))" by (simp only: jcs_number_PInt)
  then have "\<exists>s. canonical_json ?v = Inr s"
    by (simp add: canonical_json_def sort_members_def utf16_sort_key_def utf16_units_def jcs_string_def lit_Cons
        non_ijson_def del: jcs_number.simps)
  then obtain s where "canonical_json ?v = Inr s" by blast
  moreover from this have "strict_json_loads (PStr s) = Inr (jnorm ?v)"
    by (rule canonical_json_roundtrip) simp_all
  ultimately show ?thesis by blast
qed

text \<open>C14: Two documents with one canonical text are one document: signatures and digests over
  canonical JSON bind the content, not just its spelling.\<close>

theorem canonical_json_binds:
  assumes "canonical_json v = Inr s" and "canonical_json w = Inr s" and "wf_json v" and "wf_json w"
  shows "jnorm v = jnorm w"
  using assms by (rule canonical_json_inject)

theorem canonical_json_binds_witness:
  "jnorm (PList [PStr [65], PNone]) = jnorm (PTuple [PStr [65], PNone])"
proof -
  have "canonical_json (PList [PStr [65], PNone]) = canonical_json (PTuple [PStr [65], PNone])"
    "\<exists>s. canonical_json (PList [PStr [65], PNone]) = Inr s"
    by (simp_all add: canonical_json_def jcs_string_def non_ijson_def)
  then obtain s where "canonical_json (PList [PStr [65], PNone]) = Inr s"
    "canonical_json (PTuple [PStr [65], PNone]) = Inr s" by auto
  then show ?thesis by (rule canonical_json_binds) simp_all
qed

text \<open>The round trip fails past 2 ^ 53: a float the code canonicalises, digests and stores
  has a canonical text that \<open>strict_json_loads\<close> refuses.\<close>

theorem canonical_text_refused:
  "\<exists>s. canonical_json (PFloat (Fin 999990000000000065536)) = Inr s
     \<and> strict_json_loads (PStr s) = Inl ValueError"
proof -
  have "is_binary64 big" using rnd64_big by (simp add: is_binary64_def) (simp add: big_def two_pow_def)
  then have "canonical_json (PFloat (Fin big)) = Inr (jcs_finite big)" by (rule canonical_json_float)
  then show ?thesis using big_unreadable unfolding big_def by blast
qed

end
