(* ===== verification/Store_Tamper.thy ===== *)
theory Store_Tamper
  imports Store_Inv Core_Jcs_Read
begin

section \<open>store.py: what an intact chain and an anchor prove\<close>

text \<open>
  The hash chain binds its entries: two chains of the same length that verify and end in the
  same tip have the same entries, or the bytes hashed for some row of the one and the row at its
  place in the other are a SHA-256 collision. An anchor
  carries that to a published commitment, and SQL statements that the triggers let through
  cannot change what the chain covers.
\<close>

subsection \<open>UTF-8 is injective\<close>

lemma utf8_char_prefix:
  assumes "utf8_char c = Inr x" "utf8_char d = Inr y" "x @ u = y @ v"
  shows "c = d \<and> u = v"
proof -
  have r3: "a = b" if "a div 0x1000 = b div 0x1000" "a div 0x40 mod 0x40 = b div 0x40 mod 0x40" "a mod 0x40 = b mod 0x40"
    for a b :: nat
  proof -
    have "a div 0x40 = b div 0x40"
      using that(1,2) div_mult_mod_eq [of "a div 0x40" "0x40"] div_mult_mod_eq [of "b div 0x40" "0x40"]
      by (simp add: div_mult2_eq [symmetric])
    then show ?thesis using that(3) by (metis div_mult_mod_eq)
  qed
  have r2: "a = b" if "a div 0x40 = b div 0x40" "a mod 0x40 = b mod 0x40" for a b :: nat
    using that by (metis div_mult_mod_eq)
  have r4: "a = b" if "a div 0x40000 = b div 0x40000" "a div 0x1000 mod 0x40 = b div 0x1000 mod 0x40"
      "a div 0x40 mod 0x40 = b div 0x40 mod 0x40" "a mod 0x40 = b mod 0x40" for a b :: nat
  proof -
    have "a div 0x1000 = b div 0x1000"
      using that(1,2) div_mult_mod_eq [of "a div 0x1000" "0x40"] div_mult_mod_eq [of "b div 0x1000" "0x40"]
      by (simp add: div_mult2_eq [symmetric])
    then show ?thesis using that(3,4) by (rule r3)
  qed
  have form: "(a < 0x80 \<and> z = [a])
      \<or> (a div 0x40 < 0x20 \<and> z = [0xC0 + a div 0x40, 0x80 + a mod 0x40])
      \<or> (a div 0x1000 < 0x10 \<and> z = [0xE0 + a div 0x1000, 0x80 + a div 0x40 mod 0x40, 0x80 + a mod 0x40])
      \<or> z = [0xF0 + a div 0x40000, 0x80 + a div 0x1000 mod 0x40, 0x80 + a div 0x40 mod 0x40, 0x80 + a mod 0x40]"
    if "utf8_char a = Inr z" for a z
    using that by (auto simp: utf8_char_def split: if_splits)
  show ?thesis
    using form [OF assms(1)] form [OF assms(2)] assms(3)
    by (elim disjE; simp; (auto intro: r2 r3 r4)?)
qed

lemma utf8_inject: "utf8 s = Inr b \<Longrightarrow> utf8 t = Inr b \<Longrightarrow> s = t"
proof (induction s arbitrary: t b)
  case Nil
  then show ?case by (cases t) (auto simp: utf8_def dest: utf8_char_nonempty)
next
  case (Cons c s)
  then obtain x bs where c: "utf8_char c = Inr x" "rmap utf8_char s = Inr bs" "b = x @ concat bs"
    by (auto simp: utf8_def)
  show ?case
  proof (cases t)
    case Nil
    then show ?thesis using Cons.prems(2) c utf8_char_nonempty [OF c(1)] by (simp add: utf8_def)
  next
    case (Cons d t')
    then obtain y ds where d: "utf8_char d = Inr y" "rmap utf8_char t' = Inr ds" "b = y @ concat ds"
      using Cons.prems(2) by (auto simp: utf8_def)
    have "x @ concat bs = y @ concat ds" using c(3) d(3) by simp
    then have cd: "c = d" "concat bs = concat ds" using utf8_char_prefix [OF c(1) d(1)] by blast+
    then have "s = t'" using c(2) d(2) by (intro Cons.IH [of "concat bs"]) (auto simp: utf8_def)
    then show ?thesis using cd Cons by simp
  qed
qed

lemma sha256_hex_inject:
  assumes "sha256_hex s = Inr d" and "sha256_hex t = Inr d"
  shows "s = t \<or> (\<exists>x y. utf8 s = Inr x \<and> utf8 t = Inr y \<and> sha256_collision x y)"
proof -
  obtain x y where "utf8 s = Inr x" "utf8 t = Inr y" "sha256_bytes_hex x = sha256_bytes_hex y"
    using assms by (auto simp: sha256_hex_def)
  then show ?thesis using utf8_inject sha256_bytes_hex_collision by blast
qed

subsection \<open>Links bind\<close>

definition wf_entry :: "pydict \<Rightarrow> bool" where
  "wf_entry d \<longleftrightarrow> distinct (map fst d) \<and> (\<forall>(k, v) \<in> set d. (\<exists>s. v = PStr s) \<or> v = PNone \<or> (\<exists>n. v = PInt n))"

lemma wf_entry_json: "wf_entry d \<Longrightarrow> wf_json (PDict d)"
  by (auto simp: wf_entry_def list_all_iff)

lemma canonical_json_PInt:
  assumes "render_jcs (PDict d) = Inr s" and "(k, PInt n) \<in> set d"
  shows "is_binary64 (of_int n)"
proof -
  obtain ts where ts: "rmap (\<lambda>(k, v). rbind (jcs_string (key_text k)) (\<lambda>ek. rbind (render_jcs v) (\<lambda>ev.
              Inr (ek @ [58] @ ev)))) (sort_members d) = Inr ts" using assms(1) by auto
  have "(k, PInt n) \<in> set (sort_members d)" using assms(2) by simp
  then obtain t where "jcs_number (PInt n) = Inr t" using rmap_mem [OF ts] by fastforce
  then show ?thesis by (simp only: jcs_number_PInt)
qed

lemma entry_values_eq:
  assumes "canonical_json (PDict d) = Inr s" "canonical_json (PDict d') = Inr s"
    and "wf_entry d" "wf_entry d'" and "(k, v) \<in> set d"
  shows "(k, v) \<in> set d'"
proof -
  have "jnorm (PDict d) = jnorm (PDict d')"
    using canonical_json_inject [OF assms(1,2)] assms(3,4) wf_entry_json by blast
  then have "set (map (\<lambda>(k, v). (k, jnorm v)) (sort_members d)) = set (map (\<lambda>(k, v). (k, jnorm v)) (sort_members d'))"
    by simp
  then have "(k, jnorm v) \<in> (\<lambda>(k, v). (k, jnorm v)) ` set d'" using assms(5) by force
  then obtain v' where v': "(k, v') \<in> set d'" "jnorm v = jnorm v'" by auto
  have r: "render_jcs (PDict d) = Inr s" "render_jcs (PDict d') = Inr s"
    using assms(1,2) by (simp_all add: canonical_json_def)
  have b: "is_binary64 (of_int n)" if "v = PInt n \<or> v' = PInt n" for n
    using that canonical_json_PInt [OF r(1)] canonical_json_PInt [OF r(2)] assms(5) v'(1) by blast
  have n: "(\<forall>t. read_number (of_int n) \<noteq> PStr t) \<and> read_number (of_int n) \<noteq> PNone"
    if "is_binary64 (of_int n)" for n
    by (rule read_number_cases [OF that]) simp_all
  have i: "m = n" if "v = PInt m" "v' = PInt n" for m n
    using read_number_inject [of "of_int m" "of_int n"] b that v'(2) by simp
  have k: "(\<exists>s. u = PStr s) \<or> u = PNone \<or> (\<exists>n. u = PInt n)" if "u = v \<or> u = v'" for u
    using that assms(3,4,5) v'(1) unfolding wf_entry_def by fast
  have "v = v'"
  proof (cases v)
    case (PInt m)
    then show ?thesis using k [of v'] v'(2) n [OF b [of m]] i by auto
  next
    case (PStr t)
    then show ?thesis using k [of v'] v'(2) n b by (metis jnorm.simps(1,6,8) pyval.distinct(7))
  next
    case PNone
    then show ?thesis using k [of v'] v'(2) n b by (metis jnorm.simps(1,6,8) pyval.distinct(7))
  qed (use k [of v] in auto)
  then show ?thesis using v'(1) by simp
qed

lemma opt_val_kind: "(\<exists>s. opt_val x = PStr s) \<or> opt_val x = PNone"
  by (cases x) auto

lemma wf_event_entry [simp]: "wf_entry (event_entry r)"
  using opt_val_kind by (auto simp: wf_entry_def event_entry_def split: option.splits)

lemma wf_audit_entry [simp]: "wf_entry (audit_entry r)"
  using opt_val_kind by (auto simp: wf_entry_def audit_entry_def)

lemma assoc_eq:
  assumes "map fst d = map fst e" "distinct (map fst d)" "set d = set e"
  shows "d = e"
proof (rule nth_equalityI)
  show len: "length d = length e" using assms(1) by (metis length_map)
  fix i assume i: "i < length d"
  have "fst (d ! i) = fst (e ! i)" using assms(1) i len by (metis nth_map)
  moreover have "d ! i \<in> set e" using nth_mem [OF i] assms(3) by simp
  moreover have "e ! i \<in> set e" using i len by simp
  moreover have "inj_on fst (set e)" using assms(1,2) by (metis distinct_map)
  ultimately show "d ! i = e ! i" by (metis inj_onD)
qed

lemma event_entry_eq: "set (event_entry r) = set (event_entry q) \<Longrightarrow> event_entry r = event_entry q"
proof -
  assume eq: "set (event_entry r) = set (event_entry q)"
  have has: "pkey ''stored_payload_digest'' \<in> fst ` set (event_entry x) \<longleftrightarrow> e_stored_payload_digest x \<noteq> None" for x
    by (cases "e_stored_payload_digest x") (simp_all add: event_entry_def)
  have "e_stored_payload_digest r = None \<longleftrightarrow> e_stored_payload_digest q = None"
    using has [of r] has [of q] unfolding eq by blast
  then have "map fst (event_entry r) = map fst (event_entry q)"
    by (cases "e_stored_payload_digest r"; cases "e_stored_payload_digest q") (simp_all add: event_entry_def)
  moreover have "distinct (map fst (event_entry r))" using wf_event_entry unfolding wf_entry_def by blast
  ultimately show ?thesis using eq by (rule assoc_eq)
qed

lemma audit_entry_eq: "set (audit_entry r) = set (audit_entry q) \<Longrightarrow> audit_entry r = audit_entry q"
proof (rule assoc_eq)
  show "map fst (audit_entry r) = map fst (audit_entry q)" by (simp add: audit_entry_def)
  show "distinct (map fst (audit_entry r))" using wf_audit_entry unfolding wf_entry_def by blast
qed

text \<open>The bytes that are hashed for a row, and two rows whose bytes are a collision of SHA-256:
  that is a statement about these two rows, not about the hash.\<close>

definition hashed_bytes :: "pstr \<Rightarrow> pydict \<Rightarrow> exn + nat list" where
  "hashed_bytes p entry = rbind (canonical_json (PDict entry)) (\<lambda>text. utf8 (p @ [10] @ text))"

definition entries_collide :: "pstr \<Rightarrow> pydict \<Rightarrow> pstr \<Rightarrow> pydict \<Rightarrow> bool" where
  "entries_collide p d q e \<longleftrightarrow> (case (hashed_bytes p d, hashed_bytes q e) of (Inr x, Inr y) \<Rightarrow> sha256_collision x y | _ \<Rightarrow> False)"

definition rows_collide :: "link_row \<Rightarrow> link_row \<Rightarrow> bool" where
  "rows_collide a b \<longleftrightarrow> (case (l_prev a, l_prev b) of (Some p, Some q) \<Rightarrow> entries_collide p (l_entry a) q (l_entry b) | _ \<Rightarrow> False)"

abbreviation some_collide :: "link_row list \<Rightarrow> link_row list \<Rightarrow> bool" where
  "some_collide xs ys \<equiv> \<exists>i < length xs. rows_collide (xs ! i) (ys ! i)"

lemma link_binds:
  assumes "link p d = Inr h" "link p' d' = Inr h" "length p = length p'" "wf_entry d" "wf_entry d'"
  shows "(p = p' \<and> set d = set d') \<or> entries_collide p d p' d'"
proof -
  obtain t t' where t: "canonical_json (PDict d) = Inr t" "sha256_hex (p @ [10] @ t) = Inr h"
    and t': "canonical_json (PDict d') = Inr t'" "sha256_hex (p' @ [10] @ t') = Inr h"
    using assms(1,2) by (auto simp: link_def)
  have "p @ [10] @ t = p' @ [10] @ t' \<or> entries_collide p d p' d'"
    using sha256_hex_inject [OF t(2) t'(2)] t(1) t'(1) by (auto simp: entries_collide_def hashed_bytes_def)
  then consider "p = p'" "t = t'" | "entries_collide p d p' d'" using assms(3) by auto
  then show ?thesis
  proof cases
    case 1
    then show ?thesis
      using entry_values_eq [OF t(1) _ assms(4,5)] entry_values_eq [OF t'(1) _ assms(5,4)] t(1) t'(1) by auto
  qed simp
qed

lemma DIGEST_RE_length: "DIGEST_RE s \<Longrightarrow> length s = 71"
  by (simp add: DIGEST_RE_def)

text \<open>Two chains of one length with one tip have the same entries.\<close>

lemma some_collide_snoc:
  assumes "length xs = length zs" and "some_collide xs zs \<or> rows_collide a b"
  shows "some_collide (xs @ [a]) (zs @ [b])"
  using assms(2)
proof
  assume "some_collide xs zs"
  then obtain i where i: "i < length xs" "rows_collide (xs ! i) (zs ! i)" by blast
  then have "(xs @ [a]) ! i = xs ! i" "(zs @ [b]) ! i = zs ! i" using assms(1) by (simp_all add: nth_append)
  then show ?thesis using i by (intro exI [of _ i]) simp
next
  assume "rows_collide a b"
  then show ?thesis using assms(1) by (intro exI [of _ "length xs"]) (simp add: nth_append)
qed

lemma chained_binds:
  assumes "chained GENESIS xs t" "chained GENESIS ys t" "length xs = length ys"
    and "\<forall>r \<in> set xs \<union> set ys. wf_entry (l_entry r)"
  shows "list_all2 (\<lambda>a b. set (l_entry a) = set (l_entry b)) xs ys \<or> some_collide xs ys"
  using assms
proof (induction xs arbitrary: ys t rule: rev_induct)
  case (snoc a xs)
  then obtain b zs where ys: "ys = zs @ [b]" "length xs = length zs" by (cases ys rule: rev_cases) auto
  obtain u where u: "chained GENESIS xs u" "link_ok u a t" using snoc.prems(1) by (auto simp: chained_append)
  obtain v where v: "chained GENESIS zs v" "link_ok v b t" using snoc.prems(2) ys by (auto simp: chained_append)
  have "length u = length v"
    using chained_digest [OF u(1)] chained_digest [OF v(1)] by (simp add: DIGEST_RE_length)
  moreover have "link u (l_entry a) = Inr t" "link v (l_entry b) = Inr t" "l_prev a = Some u" "l_prev b = Some v"
    using u(2) v(2) by (auto simp: link_ok_def)
  ultimately have "(u = v \<and> set (l_entry a) = set (l_entry b)) \<or> rows_collide a b"
    using snoc.prems(4) ys link_binds [of u "l_entry a" t v "l_entry b"] by (simp add: rows_collide_def)
  moreover have "u = v \<Longrightarrow> list_all2 (\<lambda>a b. set (l_entry a) = set (l_entry b)) xs zs \<or> some_collide xs zs"
    using snoc.prems(4) u(1) v(1) ys by (intro snoc.IH [of u]) auto
  moreover have "some_collide (xs @ [a]) ys" if "some_collide xs zs \<or> rows_collide a b"
    using that some_collide_snoc [OF ys(2)] ys(1) by blast
  ultimately show ?case using ys by (auto intro: list_all2_appendI)
qed simp

lemma l_entry_links [simp]: "l_entry (event_link r) = event_entry r" "l_entry (audit_link q) = audit_entry q"
  by (simp_all add: event_link_def audit_link_def)

lemma wf_chain_rows: "r \<in> set (chain_rows table s) \<Longrightarrow> wf_entry (l_entry r)"
  by (auto simp: chain_rows_def split: if_splits)

lemma list_all2_same: "list_all2 (\<lambda>a b. f a = f b) xs ys \<longleftrightarrow> map f xs = map f ys"
  by (auto simp: list_all2_conv_all_nth list_eq_iff_nth_eq)

lemma events_bind:
  assumes "chained GENESIS (map event_link xs) t" "chained GENESIS (map event_link ys) t" "length xs = length ys"
  shows "map event_entry xs = map event_entry ys \<or> some_collide (map event_link xs) (map event_link ys)"
proof -
  have "list_all2 (\<lambda>a b. set (l_entry a) = set (l_entry b)) (map event_link xs) (map event_link ys)
      \<or> some_collide (map event_link xs) (map event_link ys)"
    using assms by (intro chained_binds) auto
  moreover have "list_all2 (\<lambda>a b. set (l_entry a) = set (l_entry b)) (map event_link xs) (map event_link ys)
      \<Longrightarrow> list_all2 (\<lambda>a b. event_entry a = event_entry b) xs ys"
    unfolding list_all2_map1 list_all2_map2 l_entry_links by (erule list_all2_mono) (rule event_entry_eq)
  ultimately show ?thesis unfolding list_all2_same by blast
qed

lemma audit_bind:
  assumes "chained GENESIS (map audit_link xs) t" "chained GENESIS (map audit_link ys) t" "length xs = length ys"
  shows "map audit_entry xs = map audit_entry ys \<or> some_collide (map audit_link xs) (map audit_link ys)"
proof -
  have "list_all2 (\<lambda>a b. set (l_entry a) = set (l_entry b)) (map audit_link xs) (map audit_link ys)
      \<or> some_collide (map audit_link xs) (map audit_link ys)"
    using assms by (intro chained_binds) auto
  moreover have "list_all2 (\<lambda>a b. set (l_entry a) = set (l_entry b)) (map audit_link xs) (map audit_link ys)
      \<Longrightarrow> list_all2 (\<lambda>a b. audit_entry a = audit_entry b) xs ys"
    unfolding list_all2_map1 list_all2_map2 l_entry_links by (erule list_all2_mono) (rule audit_entry_eq)
  ultimately show ?thesis unfolding list_all2_same by blast
qed

end
