(* ===== verification/Store_Props.thy ===== *)
theory Store_Props
  imports Store_Tamper
begin

section \<open>store.py: the properties of the store\<close>

text \<open>
  The promises of the store, over every sequence of its operations: chains that verify,
  append-only logs, one event per delivery, evidence that is what its digest says, anchors
  that hold exactly as long as the anchored prefix does, and triggers that let no statement
  change a chained column.
\<close>

subsection \<open>Canonical text of an entry\<close>

definition plain_char :: "nat \<Rightarrow> bool" where
  "plain_char c \<longleftrightarrow> \<not> (0xD800 \<le> c \<and> c \<le> 0xDFFF)"

lemma utf8_total: "list_all plain_char s \<Longrightarrow> \<exists>bs. utf8 s = Inr bs"
proof -
  assume a: "list_all plain_char s"
  have "\<exists>bs. rmap utf8_char s = Inr bs"
    using a by (induction s) (auto simp: plain_char_def utf8_char_def)
  then show ?thesis by (auto simp: utf8_def)
qed

lemma digits_plain: "list_all is_digit ds \<Longrightarrow> list_all plain_char ds"
  by (auto simp: list_all_iff is_digit_def plain_char_def)

lemma plain_zeros [simp]: "list_all plain_char (zeros n)"
  by (auto simp: list_all_iff plain_char_def dest: set_zeros)

lemma plain_decimal [simp]: "list_all plain_char (decimal n)"
  by (rule digits_plain) (rule digits_decimal)

lemma plain_ecma: "list_all plain_char ds \<Longrightarrow> ds \<noteq> [] \<Longrightarrow> list_all plain_char (ecma_number ds n)"
  by (cases ds) (auto simp: ecma_number_def Let_def list_all_iff plain_char_def
      dest: in_set_takeD in_set_dropD set_zeros dest!: plain_decimal [unfolded list_all_iff, rule_format] split: if_splits)

lemma plain_jcs_finite: "rnd64 r = r \<Longrightarrow> list_all plain_char (jcs_finite r)"
proof (cases "r = 0")
  case False
  assume r: "rnd64 r = r"
  obtain d x where dx: "shortest \<bar>r\<bar> = (d, x)" by fastforce
  show ?thesis
    using plain_ecma [of "decimal d" "x + int (length (decimal d))"]
    by (auto simp: jcs_finite_eq(1) [OF r False dx] plain_char_def)
qed (simp add: jcs_finite_def plain_char_def)

lemma plain_jcs_char: "\<not> non_ijson c \<Longrightarrow> list_all plain_char (jcs_char c)"
  by (auto simp: jcs_char_def JCS_SHORT_ESCAPES_def plain_char_def non_ijson_def hex4_def Let_def split: if_splits)

lemma plain_jcs_string: "jcs_string t = Inr s \<Longrightarrow> list_all plain_char s"
proof -
  assume a: "jcs_string t = Inr s"
  then have "\<forall>c \<in> set t. \<not> non_ijson c" by (auto simp: jcs_string_def validate_i_json_string_iff)
  then have "list_all plain_char (concat (map jcs_char t))"
    using plain_jcs_char by (induction t) auto
  then show ?thesis using jcs_string_eq [OF a] by (simp add: plain_char_def)
qed

lemma jcs_string_total: "(\<forall>c \<in> set t. \<not> non_ijson c) \<Longrightarrow> \<exists>s. jcs_string t = Inr s"
proof -
  assume a: "\<forall>c \<in> set t. \<not> non_ijson c"
  then have "validate_i_json_string t = Inr ()" by (simp add: validate_i_json_string_iff)
  then show ?thesis by (simp add: jcs_string_def)
qed

text \<open>Columns the chain can always hash: I-JSON text, null, and numbers below 2 ^ 53.\<close>

fun hashable :: "pyval \<Rightarrow> bool" where
  "hashable (PStr s) = (\<forall>c \<in> set s. \<not> non_ijson c)"
| "hashable PNone = True"
| "hashable (PInt n) = (0 \<le> n \<and> n < 2 ^ 53)"
| "hashable _ = False"

lemma render_hashable:
  assumes "hashable v"
  shows "\<exists>s. render_jcs v = Inr s \<and> list_all plain_char s"
proof (cases v)
  case (PInt n)
  then have n: "0 \<le> n" "n < 2 ^ 53" using assms by auto
  have r: "rnd64 (of_int n) = of_int n" using rnd64_int [of n] n by (cases "n = 0") auto
  have "\<bar>of_int n :: rat\<bar> < two_pow 1024"
  proof -
    have "\<bar>of_int n :: rat\<bar> < 2 ^ 53" using n by (intro of_int_less_2_53) simp
    also have "\<dots> = two_pow 53" by (simp add: two_pow_def)
    also have "\<dots> < two_pow 1024" by (simp add: two_pow_less_iff)
    finally show ?thesis .
  qed
  with r have "is_binary64 (of_int n)" by (simp add: is_binary64_def)
  then have "jcs_number (PInt n) = Inr (jcs_finite (of_int n))" by (simp only: jcs_number_PInt)
  then show ?thesis using PInt plain_jcs_finite [OF r] by (simp del: jcs_number.simps)
next
  case (PStr t)
  then show ?thesis using assms jcs_string_total [of t] plain_jcs_string by fastforce
next
  case PNone
  then show ?thesis by (simp add: lit_Cons plain_char_def)
qed (use assms in auto)

lemma plain_join: "list_all (list_all plain_char) ts \<Longrightarrow> list_all plain_char (join [44] ts)"
  by (induction "[44] :: pstr" ts rule: join.induct) (auto simp: plain_char_def)

lemma link_total:
  assumes "\<forall>(k, v) \<in> set d. (\<exists>t. k = PStr t \<and> (\<forall>c \<in> set t. \<not> non_ijson c)) \<and> hashable v"
    and "list_all plain_char p"
  shows "\<exists>h. link p d = Inr h"
proof -
  let ?m = "\<lambda>(k, v). rbind (jcs_string (key_text k)) (\<lambda>ek. rbind (render_jcs v) (\<lambda>ev. Inr (ek @ [58] @ ev)))"
  have k: "check_keys (map fst d) = Inr ()"
    using assms(1) by (induction d) (auto simp: validate_i_json_string_iff)
  have m: "\<exists>t. ?m kv = Inr t \<and> list_all plain_char t" if kv: "kv \<in> set d" for kv
  proof -
    obtain t v where tv: "kv = (PStr t, v)" "\<forall>c \<in> set t. \<not> non_ijson c" "hashable v"
      using assms(1) kv by (cases kv) fastforce
    obtain ek where ek: "jcs_string t = Inr ek" "list_all plain_char ek"
      using jcs_string_total [OF tv(2)] plain_jcs_string by blast
    obtain ev where ev: "render_jcs v = Inr ev" "list_all plain_char ev" using render_hashable [OF tv(3)] by blast
    show ?thesis using tv(1) ek ev by (simp add: plain_char_def)
  qed
  have "\<exists>ts. rmap ?m kvs = Inr ts \<and> list_all (list_all plain_char) ts" if "set kvs \<subseteq> set d" for kvs
    using that by (induction kvs) (use m in fastforce)+
  then obtain ts where ts: "rmap ?m (sort_members d) = Inr ts" "list_all (list_all plain_char) ts"
    by (metis order_refl set_sort_members)
  then have "canonical_json (PDict d) = Inr ([123] @ join [44] ts @ [125])"
    using k by (simp add: canonical_json_def)
  moreover have "list_all plain_char (p @ [10] @ [123] @ join [44] ts @ [125])"
    using assms(2) plain_join [OF ts(2)] by (simp add: plain_char_def)
  then obtain bs where "utf8 (p @ [10] @ [123] @ join [44] ts @ [125]) = Inr bs" using utf8_total by blast
  ultimately show ?thesis by (simp add: link_def sha256_hex_def)
qed

subsection \<open>A fresh store\<close>

definition empty_store :: "env \<Rightarrow> store_st" where
  "empty_store e = \<lparr>last_utcnow = last_utcnow e, wall = wall e, ticks = ticks e, tokens = tokens e,
     drawn = drawn e, depth = 0, events = [], event_seq = 0, payload_mismatches = [],
     evidence_blobs = [], processed_events = [], audit_log = [], audit_seq = 0, chain_lock = 0\<rparr>"

lemma empty_store_ok: "events_ok (empty_store e)" "audit_ok (empty_store e)" "keys_ok (empty_store e)"
  "evidence_ok (empty_store e)"
  by (simp_all add: empty_store_def events_ok_def audit_ok_def keys_ok_def evidence_ok_def)

lemma session_ok:
  "events_ok s \<Longrightarrow> events_ok (run_session cs s)" "audit_ok s \<Longrightarrow> audit_ok (run_session cs s)"
  "keys_ok s \<Longrightarrow> keys_ok (run_session cs s)" "evidence_ok s \<Longrightarrow> evidence_ok (run_session cs s)"
  using events_ok.run_session_R [of s cs] audit_ok.run_session_R [of s cs] keys_ok.run_session_R [of s cs]
    evidence_ok.run_session_R [of s cs] by (simp_all add: kept_def)

lemma chain_rows_ok:
  "events_ok s \<Longrightarrow> chain_rows (lit ''events'') s = map event_link (events s)"
  "audit_ok s \<Longrightarrow> chain_rows (lit ''audit_log'') s = map audit_link (audit_log s)"
  by (simp_all add: chain_rows_def events_by_seq_ok audit_by_seq_ok)

lemma is_chain_table_lit [simp]:
  "is_chain_table (PStr (lit t)) \<longleftrightarrow> t = ''events'' \<or> t = ''audit_log''"
  by (simp add: is_chain_table_def)

text \<open>C1: Whatever calls a client makes on a fresh store, in whatever nesting of transactions and
  however many of them fail, \<open>verify_chain\<close> afterwards reports both logs intact, counts
  every row and reports the hash of the last row, or the genesis, as the tip.\<close>

theorem store_chains_stay_intact:
  "(\<exists>m. verify_chain (lit ''events'') (run_session cs (empty_store e))
        = Inr (Intact (length (events (run_session cs (empty_store e)))) (events_tip (run_session cs (empty_store e))) m))
   \<and> (\<exists>m. verify_chain (lit ''audit_log'') (run_session cs (empty_store e))
        = Inr (Intact (length (audit_log (run_session cs (empty_store e)))) (audit_tip (run_session cs (empty_store e))) m))"
proof -
  let ?s = "run_session cs (empty_store e)"
  have ok: "events_ok ?s" "audit_ok ?s" using session_ok empty_store_ok by blast+
  have "chained GENESIS (chain_rows (lit ''events'') ?s) (events_tip ?s)"
    "chained GENESIS (chain_rows (lit ''audit_log'') ?s) (audit_tip ?s)"
    using events_tip_ok [OF ok(1)] audit_tip_ok [OF ok(2)] by (simp_all add: chain_rows_ok ok)
  then show ?thesis
    using verify_chain_intact [of "lit ''events''" ?s] verify_chain_intact [of "lit ''audit_log''" ?s]
    by (simp add: chain_rows_ok ok)
qed

text \<open>C2: The logs are append-only under every operation of the store: what a session leaves
  begins with the very events, audit rows and recorded mismatches it found, and an evidence row
  is the one it was or a tombstone of it.\<close>

theorem store_history_is_kept:
  "prefix (events s) (events (run_session cs s)) \<and> prefix (audit_log s) (audit_log (run_session cs s))
   \<and> prefix (payload_mismatches s) (payload_mismatches (run_session cs s))
   \<and> (\<forall>r \<in> set (evidence_blobs s). \<exists>q \<in> set (evidence_blobs (run_session cs s)). tombstoned_from r q)"
proof -
  have h: "history_kept s (run_session cs s)" by (rule history.run_session_R)
  moreover have "mismatches_kept s (run_session cs s)" by (rule mismatches.run_session_R)
  ultimately show ?thesis using store_history_kept_rows unfolding history_kept_def mismatches_kept_def by blast
qed

theorem store_history_is_kept_witness:
  "\<exists>q \<in> set (evidence_blobs (run_session [CDeleteEvidence (PStr GENESIS) (PStr [97]) (PStr [97])]
       ((empty_store stuck_clock)\<lparr>evidence_blobs := [new_evidence_row [1] [97] [97] [97]]\<rparr>))).
     tombstoned_from (new_evidence_row [1] [97] [97] [97]) q"
  using store_history_is_kept [of "(empty_store stuck_clock)\<lparr>evidence_blobs := [new_evidence_row [1] [97] [97] [97]]\<rparr>"
      "[CDeleteEvidence (PStr GENESIS) (PStr [97]) (PStr [97])]"]
  by simp

subsection \<open>One event per delivery\<close>

lemma find_prefix: "find P xs = Some r \<Longrightarrow> prefix xs ys \<Longrightarrow> find P ys = Some r"
proof -
  assume f: "find P xs = Some r" and p: "prefix xs ys"
  obtain zs where ys: "ys = xs @ zs" using p by (auto simp: prefix_def)
  show "find P ys = Some r" using f unfolding ys by (induction xs) (auto split: if_splits)
qed

lemma find_snoc_hit: "find P xs = None \<Longrightarrow> P r \<Longrightarrow> find P (xs @ [r]) = Some r"
  by (induction xs) (auto split: if_splits)

text \<open>What a successful append did.\<close>

lemma append_event_Inr:
  assumes "append_event a s = (Inr (r, v), t)"
  obtains "text" stored digest now s' where "payload_text a = Inr text" "stored_digest a = Inr stored"
    "source_digest a = Inr digest" "utcnow s = (Inr now, s')" "depth s = 0"
    "appends_row a now text digest stored s' r" "events t = events s @ [r]" "append_frame s' t"
    "check_event_args a = Inr ()" "\<exists>b. utf8 (text_of (x_idempotency_key a)) = Inr b" "tables s' = tables s"
    "payload_mismatches t = payload_mismatches s" "event_dict r = Inr (r, v)" "depth t = depth s"
proof -
  obtain "text" stored digest now s' vd u where p: "check_event_args a = Inr ()" "payload_text a = Inr text"
    "stored_digest a = Inr stored" "source_digest a = Inr digest" "utcnow s = (Inr now, s')" "depth s' = 0"
    and b: "append_body a now text digest stored s' = (Inr vd, u)" and d: "deliver vd u = (Inr (r, v), t)"
    using assms
    by (auto simp: append_event_def bnd_eq_Inr lift_run rd_run chk_run atomic_eq_Inr split: if_splits)
  have tab: "tables s' = tables s" using p(5) by (rule utcnow_tables)
  have dep: "depth s' = depth s" using p(5) by (auto elim: utcnow_run)
  obtain eid where vd: "vd = Appended eid" "get_event eid None None u = (Inr (r, v), t)"
    using d by (auto simp: deliver_def fail_def split: verdict.splits)
  obtain row where row: "appends_row a now text digest stored s' row" "events u = events s' @ [row]"
    "eid = e_id row" "payload_mismatches u = payload_mismatches s'"
    using append_body_cases(2) [OF b] vd(1) by auto
  have t: "t = u" using vd(2) by (auto simp: get_event_def run_simps fail_def split: option.splits if_splits)
  have "find (\<lambda>x. e_id x = e_id row) (events s' @ [row]) = Some row"
    using row(1) by (intro find_snoc_hit) (auto simp: appends_row_def find_None_iff)
  then have "find (\<lambda>x. e_id x = eid) (events u) = Some row" by (simp only: row(2,3))
  then have ed: "event_dict row = Inr (r, v)" using vd(2) by (simp add: get_event_def run_simps)
  then have r: "row = r" by (auto simp: event_dict_def split: option.splits if_splits)
  have depu: "depth u = depth s'"
    using b by (auto simp: append_body_def insert_event_def run_simps bnd_new_id
        simp del: validate_public_identifier_PStr split: sum.splits if_splits option.splits)
  have key: "\<exists>x. utf8 (text_of (x_idempotency_key a)) = Inr x"
    using b by (auto simp: append_body_def run_simps split: sum.splits)
  show ?thesis
    using that [OF p(2,3,4,5)] p(1,6) row r ed t tab tables_store [OF tab] append_body_cases(1) [OF b] dep depu key
    by simp
qed

text \<open>An example append, on a clock that stands still.\<close>

lemma strftime_rfc3339:
  assumes "valid_datetime t" "1000 \<le> year t"
  shows "is_rfc3339_datetime (PStr (strftime t))"
proof -
  let ?s = "strftime t"
  have s: "?s = padded 4 (year t) @ 45 # padded 2 (month t) @ 45 # padded 2 (day t) @ 84 # time_text t @ [90]"
    by (rule strftime_parts [OF assms])
  have bl: "butlast ?s @ lit ''+00:00''
      = padded 4 (year t) @ 45 # padded 2 (month t) @ 45 # padded 2 (day t) @ 84 # time_text t @ lit ''+00:00''"
    unfolding s by (simp add: butlast_append)
  have l: "last ?s = 90" "?s \<noteq> []" unfolding s by simp_all
  have n: "take 10 ?s @ [84] @ drop 11 ?s = ?s" unfolding s by simp
  have p: "\<not> isl (parse_ts ?s)"
    using l bl fromisoformat_parts [OF assms(1)] by (simp add: parse_ts_def)
  have d: "\<And>q. takeWhile is_digit (padded 6 (micro t) @ 90 # q) = padded 6 (micro t)"
    "\<And>q. dropWhile is_digit (padded 6 (micro t) @ 90 # q) = 90 # q"
    using digits_padded [of 6 "micro t"] by (simp_all add: takeWhile_append dropWhile_append list_all_iff is_digit_def)
  have ne: "padded 6 (micro t) \<noteq> []" using length_padded [of 6 "micro t"] by (metis list.size(3) zero_neq_numeral)
  have "RFC3339_TIMESTAMP ?s"
    unfolding s time_text_def RFC3339_TIMESTAMP_def digits_at_def
    by (simp add: nth_append nth_Cons' digits_at_padded d ne rfc3339_zone_def)
  then show ?thesis using n l p by simp
qed

definition sample_args :: event_args where
  "sample_args = \<lparr>x_tenant_id = PStr [116], x_project_id = PStr [112], x_source_type = PStr [103],
     x_idempotency_key = PStr [107], x_payload = PNone, x_authority = pkey ''human_intent'',
     x_observed_at = PNone, x_valid_from = PNone, x_valid_to = PNone, x_actor_type = PNone,
     x_actor_id = PNone, x_source_id = PNone, x_sensitivity = PStr [105], x_capture_mode = pkey ''full'',
     x_schema_version = PStr EVENT_SCHEMA, x_payload_digest = PNone\<rparr>"

lemma sample_check: "check_event_args sample_args = Inr ()" "payload_text sample_args = Inr None"
  "stored_digest sample_args = Inr (sha256_bytes_hex [])" "source_digest sample_args = Inr (sha256_bytes_hex [])"
  by (simp_all add: sample_args_def check_event_args_def void_def PUBLIC_IDENTIFIER_def is_alpha_def
      EVENT_ACTOR_TYPES_def in_vocabulary_def EVENT_AUTHORITIES_def EVENT_CAPTURE_MODES_def
      validate_datetime_def payload_text_def stored_digest_def source_digest_def sha256_hex_def utf8_def)


lemma strftime_ascii: "c \<in> set (strftime t) \<Longrightarrow> c < 128"
proof -
  have d: "list_all is_digit ds \<Longrightarrow> c \<in> set ds \<Longrightarrow> c < 128" for c ds by (auto simp: list_all_iff is_digit_def)
  show "c \<in> set (strftime t) \<Longrightarrow> c < 128"
    unfolding strftime_def by (auto dest: d [OF digits_padded] d [OF digits_decimal])
qed

lemma ascii_ijson: "c < 128 \<Longrightarrow> \<not> non_ijson c"
  by (simp add: non_ijson_def)

lemma lit_ijson: "c \<in> set (lit s) \<Longrightarrow> \<not> non_ijson c"
proof -
  assume "c \<in> set (lit s)"
  then have "c < 256" by (auto simp: lit_def nat_of_char_less_256)
  then show ?thesis by (simp add: non_ijson_def)
qed

definition sample_now :: pstr where
  "sample_now = strftime (wall stuck_clock 0)"

lemma stuck_wall: "valid_datetime (wall stuck_clock 0)" "1000 \<le> year (wall stuck_clock 0)"
  by (simp_all add: stuck_clock_def valid_datetime_def valid_date_def days_in_month_def)

lemma sample_now_facts: "is_rfc3339_datetime (PStr sample_now)" "sample_now \<noteq> []"
  "c \<in> set sample_now \<Longrightarrow> \<not> non_ijson c"
  using strftime_rfc3339 [OF stuck_wall] ascii_ijson strftime_ascii
  by (auto simp: sample_now_def simp del: is_rfc3339_datetime.simps) (auto simp: strftime_def)

lemma sample_append_body:
  assumes "events s = []" "event_seq s = 0" "tokens s = tokens stuck_clock"
  shows "\<exists>r t. append_body sample_args sample_now None (sha256_bytes_hex []) (sha256_bytes_hex []) s
      = (Inr (Appended (e_id r)), t) \<and> events t = [r] \<and> e_payload r = None
        \<and> wall t = wall s \<and> last_utcnow t = last_utcnow s"
proof -
  let ?id = "[101, 118, 116, 95] @ replicate 24 97"
  let ?row = "new_event_row sample_args sample_now None (sha256_bytes_hex []) (sha256_bytes_hex []) ?id 1"
  have nid: "validate_public_identifier (PStr (id_prefix (lit ''event'') @ [95] @ tokens s n)) = Inr ?id" for n
    using assms(3) by (simp add: id_prefix_def ID_PREFIXES_def lit_Cons stuck_clock_def PUBLIC_IDENTIFIER_def
        is_alpha_def unreserved_def PUBLIC_IDENTIFIER_MAX_LENGTH_def list_all_iff)
  have "\<exists>h. link GENESIS (event_entry ?row) = Inr h"
  proof (rule link_total)
    have dig: "\<forall>c \<in> set (sha256_bytes_hex b). \<not> non_ijson c" for b
      using hexdigest_is_hex [of "sha256 b"] sha256_bytes lit_ijson
      by (auto simp: sha256_bytes_hex_def list_all_iff is_hex_def is_digit_def non_ijson_def)
    show "\<forall>(k, v) \<in> set (event_entry ?row). (\<exists>t. k = PStr t \<and> (\<forall>c \<in> set t. \<not> non_ijson c)) \<and> hashable v"
      using sample_now_facts(3) dig lit_ijson
      by (simp add: event_entry_def new_event_row_def Let_def sample_args_def EVENT_SCHEMA_def non_ijson_def [of "Suc _"]
          ascii_ijson)
    show "list_all plain_char GENESIS" by (simp add: GENESIS_def lit_Cons plain_char_def list_all_iff)
  qed
  then obtain h where h: "link GENESIS (event_entry ?row) = Inr h" by blast
  have hx: "list_all is_hex (replicate 24 97)" by (simp add: list_all_iff is_hex_def)
  have v: "validate_stored_event (?row\<lparr>e_prev_hash := Some GENESIS, e_entry_hash := Some h\<rparr>) PNone = Inr ()"
    using sample_now_facts link_digest [OF h] hx
    by (simp add: validate_stored_event_def void_def new_event_row_def Let_def sample_args_def EVENT_ID_RE_def lit_Cons
        is_hex_def PUBLIC_IDENTIFIER_def is_alpha_def validate_datetime_def EVENT_ACTOR_TYPES_def EVENT_AUTHORITIES_def
        EVENT_CAPTURE_MODES_def validate_digest_def sha256_hex_def utf8_def del: is_rfc3339_datetime.simps)
  have tip: "events_tip (s\<lparr>event_seq := 1, drawn := n\<rparr>) = GENESIS" for n
    using assms(1) by (simp add: events_tip_def events_by_seq_def tip_of_def)
  have key: "utf8 (text_of (x_idempotency_key sample_args)) = Inr [107]"
    by (simp add: sample_args_def utf8_def utf8_char_def)
  have pay: "x_payload sample_args = PNone" by (simp add: sample_args_def)
  show ?thesis
    using assms nid h v tip key pay
    by (simp add: append_body_def run_simps find_delivery_def bnd_new_id insert_event_def
        del: validate_public_identifier_PStr)
qed

lemma sample_append:
  "\<exists>r t. append_event sample_args (empty_store stuck_clock) = (Inr (r, PNone), t)
     \<and> wall t = wall stuck_clock \<and> last_utcnow t = Some (wall stuck_clock 0)"
proof -
  let ?s = "empty_store stuck_clock"
  have u: "utcnow ?s = (Inr sample_now, ?s\<lparr>ticks := Suc 0, last_utcnow := Some (wall stuck_clock 0)\<rparr>)"
    by (simp add: utcnow_def floor_sample_def empty_store_def stuck_clock_def sample_now_def)
  let ?t = "?s\<lparr>ticks := Suc 0, last_utcnow := Some (wall stuck_clock 0)\<rparr>"
  obtain r w where b: "append_body sample_args sample_now None (sha256_bytes_hex []) (sha256_bytes_hex []) ?t
      = (Inr (Appended (e_id r)), w)" "events w = [r]" "e_payload r = None"
      "wall w = wall ?t" "last_utcnow w = last_utcnow ?t"
    using sample_append_body [of ?t] by (auto simp: empty_store_def)
  have d: "depth ?t = 0" by (simp add: empty_store_def)
  let ?b = "atomic (append_body sample_args sample_now None (sha256_bytes_hex []) (sha256_bytes_hex []))"
  have ab: "?b ?t = (Inr (Appended (e_id r)), w)" using b(1) by (simp add: atomic_eq_Inr)
  have dl: "deliver (Appended (e_id r)) w = (Inr (r, PNone), w)"
    using b(2,3) by (simp add: deliver_def get_event_def run_simps event_dict_def)
  have "append_event sample_args ?s = bnd ?b deliver ?t"
    using u d sample_check by (simp add: append_event_def run_simps bnd_run_Inr [where m = utcnow, OF u])
  also have "\<dots> = (Inr (r, PNone), w)"
    using ab dl by (simp add: bnd_run_Inr [where m = ?b, OF ab])
  finally have "append_event sample_args ?s = (Inr (r, PNone), w)" .
  moreover have "wall w = wall stuck_clock" "last_utcnow w = Some (wall stuck_clock 0)"
    using b(4,5) by (simp_all add: empty_store_def)
  ultimately show ?thesis by blast
qed


text \<open>C3: Redelivery is idempotent. Once an event has been appended, any later delivery under the
  same tenant, project and key with the same payload digest, after any further operations
  whatever, raises \<open>DuplicateEventError\<close> with the first event's id and changes no table.\<close>

theorem redelivery_is_idempotent:
  assumes "append_event a s = (Inr (r, v), t)" and "u = run_session cs t" and "depth u = 0"
    and "check_event_args a' = Inr ()" and "same_delivery a' r"
    and "stored_digest a' = Inr st" and "source_digest a' = Inr (e_payload_digest r)"
    and "utcnow u = (Inr now, w)"
  shows "\<exists>u'. append_event a' u = (Inl (DuplicateEventError (e_id r)), u') \<and> tables u' = tables u"
proof -
  obtain "text" stored digest n s' where ap: "appends_row a n text digest stored s' r" "events t = events s @ [r]"
    "\<exists>b. utf8 (text_of (x_idempotency_key a)) = Inr b" "tables s' = tables s"
    using assms(1) by (elim append_event_Inr)
  have key: "text_of (x_idempotency_key a') = text_of (x_idempotency_key a)"
    using assms(5) ap(1) by (auto simp: same_delivery_def appends_row_def)
  obtain kb where kb: "utf8 (text_of (x_idempotency_key a')) = Inr kb" using ap(3) key by auto
  have "find_delivery a s' = None" using ap(1) by (simp add: appends_row_def)
  moreover have "same_delivery a' = same_delivery a"
    using assms(5) ap(1) by (auto simp: fun_eq_iff same_delivery_def appends_row_def)
  ultimately have "find (same_delivery a') (events s) = None"
    by (simp add: find_delivery_def tables_store(1) [OF ap(4)])
  then have "find (same_delivery a') (events t) = Some r" unfolding ap(2) by (rule find_snoc_hit) (rule assms(5))
  moreover have "prefix (events t) (events u)"
    using history.run_session_R [of t cs] assms(2) by (simp add: history_kept_def)
  ultimately have "find (same_delivery a') (events u) = Some r" by (rule find_prefix)
  then have fd: "find_delivery a' w = Some r"
    using tables_store(1) [OF utcnow_tables [OF assms(8)]] by (simp add: find_delivery_def)
  have dw: "depth w = 0" using assms(3,8) by (auto elim: utcnow_run)
  obtain ptext where pt: "payload_text a' = Inr ptext" using assms(6) by (auto simp: stored_digest_def)
  let ?b = "atomic (append_body a' now ptext (e_payload_digest r) st)"
  have b: "?b w = (Inr (Redelivered (e_id r)), w)"
    using fd kb by (simp add: atomic_eq_Inr append_body_def run_simps)
  have "append_event a' u = bnd ?b deliver w"
    using assms(4,6,7,8) pt dw
    by (simp add: append_event_def run_simps bnd_run_Inr [where m = utcnow, OF assms(8)])
  also have "\<dots> = (Inl (DuplicateEventError (e_id r)), w)"
    by (simp add: bnd_run_Inr [where m = ?b, OF b] deliver_def fail_def)
  finally show ?thesis using utcnow_tables [OF assms(8)] by blast
qed

theorem redelivery_is_idempotent_witness:
  "\<exists>r t u. append_event sample_args (empty_store stuck_clock) = (Inr (r, PNone), t)
     \<and> append_event sample_args t = (Inl (DuplicateEventError (e_id r)), u) \<and> tables u = tables t"
proof -
  obtain r t where a: "append_event sample_args (empty_store stuck_clock) = (Inr (r, PNone), t)"
    and w: "wall t = wall stuck_clock" "last_utcnow t = Some (wall stuck_clock 0)"
    using sample_append by blast
  have d: "depth t = 0" "same_delivery sample_args r" "e_payload_digest r = sha256_bytes_hex []"
    using a by (auto simp: appends_row_def same_delivery_def empty_store_def sample_check elim!: append_event_Inr)
  have "\<exists>e. utcnow t = (Inr e, snd (utcnow t))"
    using w by (simp add: utcnow_def floor_sample_def stuck_clock_def add_microsecond_def days_in_month_def)
  then obtain e where e: "utcnow t = (Inr e, snd (utcnow t))" ..
  have "t = run_session [] t" by simp
  from redelivery_is_idempotent [OF a this d(1) sample_check(1) d(2) sample_check(3) _ e]
  show ?thesis using a d(3) sample_check(4) by auto
qed

subsection \<open>Rejected deliveries\<close>

text \<open>C17: A delivery of a known key with another payload digest is never stored: it raises
  \<open>PayloadMismatchError\<close>, the log is as it was, and the mismatch is recorded durably
  although the call failed. Inside an owned transaction the same delivery leaves no trace.\<close>

theorem mismatch_is_flagged:
  assumes "find_delivery a s = Some r" and "source_digest a = Inr d" and "d \<noteq> e_payload_digest r"
    and "check_event_args a = Inr ()" and "stored_digest a = Inr st"
    and "utf8 (text_of (x_idempotency_key a)) = Inr kb" and "utcnow s = (Inr now, w)"
  shows "(depth s = 0 \<longrightarrow> (\<exists>t. append_event a s = (Inl PayloadMismatchError, t) \<and> events t = events s
       \<and> payload_mismatches t = payload_mismatches s @
           [\<lparr>m_idempotency_key = text_of (x_idempotency_key a), m_existing_digest = e_payload_digest r,
             m_new_digest = d, m_recorded_at = now\<rparr>]))
    \<and> (0 < depth s \<longrightarrow> tables (snd (append_event_in_transaction a s)) = tables s)"
proof -
  obtain ptext where pt: "payload_text a = Inr ptext" using assms(5) by (auto simp: stored_digest_def)
  have tab: "tables w = tables s" using assms(7) by (rule utcnow_tables)
  have fd: "find_delivery a w = Some r" using assms(1) tables_store(1) [OF tab] by (simp add: find_delivery_def)
  let ?row = "\<lparr>m_idempotency_key = text_of (x_idempotency_key a), m_existing_digest = e_payload_digest r,
             m_new_digest = d, m_recorded_at = now\<rparr>"
  let ?w = "w\<lparr>payload_mismatches := payload_mismatches w @ [?row]\<rparr>"
  let ?b = "atomic (append_body a now ptext d st)"
  have b: "?b w = (Inr Mismatched, ?w)"
    using fd assms(3,6) by (simp add: atomic_eq_Inr append_body_def run_simps)
  have "\<exists>t. append_event a s = (Inl PayloadMismatchError, t) \<and> events t = events s
       \<and> payload_mismatches t = payload_mismatches s @ [?row]" if "depth s = 0"
  proof -
    have "depth w = 0" using that assms(7) by (auto elim: utcnow_run)
    then have "append_event a s = bnd ?b deliver w"
      using assms(2,4,5) pt by (simp add: append_event_def run_simps bnd_run_Inr [where m = utcnow, OF assms(7)])
    also have "\<dots> = (Inl PayloadMismatchError, ?w)"
      by (simp add: bnd_run_Inr [where m = ?b, OF b] deliver_def fail_def)
    finally show ?thesis using tables_store(1,3) [OF tab] by simp
  qed
  moreover have "tables (snd (append_event_in_transaction a s)) = tables s" if "0 < depth s"
  proof -
    have u: "utcnow (enter s) = (Inr now, enter w)"
      using assms(7) by (auto simp: utcnow_def enter_def split: sum.splits)
    have fe: "find_delivery a (enter w) = Some r" using fd by (simp add: find_delivery_def)
    have "append_event_in_transaction a s
        = transaction (\<lambda>_. bnd (append_body a now ptext d st) deliver (enter w)) s"
      using that assms(2,4,5) pt
      by (simp add: append_event_in_transaction_def run_simps transaction_def bnd_run_Inr [where m = utcnow, OF u])
    also have "\<exists>z. \<dots> = (Inl PayloadMismatchError, rollback s z)"
      using fe assms(3,6) by (auto simp: transaction_def append_body_def run_simps deliver_def)
    finally show ?thesis by force
  qed
  ultimately show ?thesis by blast
qed

theorem mismatch_is_flagged_witness:
  "\<exists>r t d u. append_event sample_args (empty_store stuck_clock) = (Inr (r, PNone), t)
     \<and> append_event (sample_args\<lparr>x_payload_digest := PStr d\<rparr>) t = (Inl PayloadMismatchError, u)
     \<and> events u = events t \<and> length (payload_mismatches u) = 1"
proof -
  obtain r t where a: "append_event sample_args (empty_store stuck_clock) = (Inr (r, PNone), t)"
    and w: "wall t = wall stuck_clock" "last_utcnow t = Some (wall stuck_clock 0)"
    using sample_append by blast
  have d: "depth t = 0" "e_payload_digest r = sha256_bytes_hex []" "payload_mismatches t = []"
    "events t = [r]" "same_delivery sample_args r"
    using a by (auto simp: appends_row_def same_delivery_def empty_store_def sample_check elim!: append_event_Inr)
  let ?ones = "lit ''sha256:'' @ replicate 64 49"
  have "DIGEST_RE ?ones" by (auto simp: DIGEST_RE_def is_hex_def is_digit_def list_all_iff)
  moreover have "?ones \<noteq> GENESIS" by (simp add: GENESIS_def)
  ultimately obtain g where g: "DIGEST_RE g" "g \<noteq> e_payload_digest r" using DIGEST_RE_GENESIS by metis
  let ?a = "sample_args\<lparr>x_payload_digest := PStr g\<rparr>"
  have c: "check_event_args ?a = Inr ()" "stored_digest ?a = Inr (sha256_bytes_hex [])" "source_digest ?a = Inr g"
    "text_of (x_idempotency_key ?a) = [107]"
    using sample_check(1,2) g(1) DIGEST_RE_nonempty [OF g(1)]
    by (simp_all add: check_event_args_def validate_digest_def stored_digest_def payload_text_def source_digest_def
        sha256_hex_def utf8_def sample_args_def void_def)
  have "find_delivery ?a t = Some r" using d(4,5) by (simp add: find_delivery_def same_delivery_def)
  moreover have "utf8 (text_of (x_idempotency_key ?a)) = Inr [107]" using c(4) by (simp add: utf8_def utf8_char_def)
  moreover obtain e where "utcnow t = (Inr e, snd (utcnow t))"
    using w by (auto simp: utcnow_def floor_sample_def stuck_clock_def add_microsecond_def days_in_month_def)
  ultimately obtain u where "append_event ?a t = (Inl PayloadMismatchError, u)" "events u = events t"
    "length (payload_mismatches u) = 1"
    using mismatch_is_flagged [of ?a t r g _ "[107]" e "snd (utcnow t)"] c g(2) d(1,3) by auto
  then show ?thesis using a by blast
qed

end
