(* ===== verification/Store_Evidence.thy ===== *)
theory Store_Evidence
  imports Store_Props
begin

section \<open>store.py: evidence, tampering, anchors and triggers\<close>

text \<open>
  What the evidence table, the verifier, the anchors and the SQL triggers promise together:
  bytes are read back under their digest or are gone with a tombstone, an intact chain commits
  to its entries, an anchor holds after every further operation and any chain under which it
  holds has the anchored entries, and no SQL statement changes a chained column.
\<close>

subsection \<open>Evidence\<close>

lemma find_evidence_unique:
  assumes "evidence_ok s" "r \<in> set (evidence_blobs s)"
  shows "find_evidence (b_digest r) s = Some r"
proof -
  have "find (\<lambda>q. b_digest q = b_digest r) xs = Some r" if "distinct (map b_digest xs)" "r \<in> set xs" for xs :: "evidence_row list"
    using that by (induction xs) auto
  then show ?thesis using assms by (simp add: evidence_ok_def find_evidence_def)
qed

lemma empty_chain_rows [simp]: "chain_rows table (empty_store e) = []"
  by (simp add: chain_rows_def events_by_seq_def audit_by_seq_def empty_store_def)

lemma put_evidence_row:
  assumes "put_evidence content mt sv s = (Inr dg, t)"
  obtains data r where "evidence_bytes content = Inr data" "dg = sha256_bytes_hex data"
    "r \<in> set (evidence_blobs t)" "b_digest r = dg"
proof -
  obtain data m v where d: "evidence_bytes content = Inr data" and w: "write_scope (put_evidence_body data m v) s = (Inr dg, t)"
    using assms by (auto simp: put_evidence_def bnd_eq_Inr chk_run lift_run split: if_splits)
  have b: "put_evidence_body data m v s = (Inr dg, t)"
    using w by (auto simp: write_scope_def atomic_eq_Inr split: if_splits)
  have "dg = sha256_bytes_hex data \<and> (\<exists>r \<in> set (evidence_blobs t). b_digest r = dg)"
  proof (cases "find_evidence (sha256_bytes_hex data) s")
    case (Some r)
    then have "r \<in> set (evidence_blobs s)" "b_digest r = sha256_bytes_hex data"
      by (auto simp: find_evidence_def find_Some_iff)
    then show ?thesis using b Some by (auto simp: put_evidence_body_def run_simps split: if_splits)
  next
    case None
    then show ?thesis using b
      by (auto simp: put_evidence_body_def bnd_rd bnd_eq_Inr wr_run ret_run new_evidence_row_def)
  qed
  then show thesis using that d by blast
qed

text \<open>C18: Evidence is content-addressed. After bytes have been put, every later state either
  returns exactly those bytes under the returned digest (or exhibits two byte strings with one
  digest), or holds a tombstone for them without any bytes and answers that there are none;
  reading never raises.\<close>

theorem evidence_is_read_back_or_tombstoned:
  assumes "evidence_ok s" and "put_evidence content mt sv s = (Inr dg, t)"
    and "evidence_bytes content = Inr data" and "u = run_session cs t"
  shows "(\<exists>c. get_evidence dg u = (Inr (Some c), u) \<and> (c = data \<or> sha256_collision c data))
    \<or> (get_evidence dg u = (Inr None, u)
        \<and> (\<exists>r \<in> set (evidence_blobs u). b_digest r = dg \<and> b_deleted_at r \<noteq> None))"
proof -
  obtain r where dg: "dg = sha256_bytes_hex data" and r: "r \<in> set (evidence_blobs t)" "b_digest r = dg"
    using put_evidence_row [OF assms(2)] assms(3) by (metis sum.inject(2))
  have "evidence_ok t"
    using evidence_ok.keeps_put_evidence [of content mt sv] assms(1,2) by (auto simp: kept_def dest: keepsD)
  then have ok: "evidence_ok u" unfolding assms(4) by (rule session_ok)
  obtain q where q: "q \<in> set (evidence_blobs u)" "b_digest q = dg"
    using store_history_kept_rows [of r t cs] r assms(4) by (auto simp: tombstoned_from_def)
  have f: "find_evidence dg u = Some q" using find_evidence_unique [OF ok q(1)] q(2) by simp
  show ?thesis
  proof (cases "b_deleted_at q")
    case None
    then obtain c where c: "b_content q = Some c" "length c = b_size q" "sha256_bytes_hex c = dg"
      using ok q by (auto simp: evidence_ok_def blob_ok_def)
    then have "get_evidence dg u = (Inr (Some c), u)" using f None by (simp add: get_evidence_def run_simps)
    then show ?thesis using sha256_bytes_hex_collision c(3) dg by blast
  next
    case (Some at_time)
    then have "get_evidence dg u = (Inr None, u)" using f by (simp add: get_evidence_def run_simps)
    then show ?thesis using q Some by blast
  qed
qed

theorem evidence_is_read_back_or_tombstoned_witness:
  "\<exists>dg t. put_evidence (PBytes [1]) (PStr [97]) (PStr [97]) (empty_store stuck_clock) = (Inr dg, t)
     \<and> ((\<exists>c. get_evidence dg t = (Inr (Some c), t)) \<or> get_evidence dg t = (Inr None, t))"
proof -
  have "validate_log_text False 256 (PStr [97]) = Inr (Some [97])"
    by (simp add: non_ijson_def unsafe_char_def UNSAFE_HUMAN_CONTROLS_def)
  then obtain t where t: "put_evidence (PBytes [1]) (PStr [97]) (PStr [97]) (empty_store stuck_clock)
      = (Inr (sha256_bytes_hex [1]), t)"
    by (auto simp: put_evidence_def run_simps evidence_bytes_def write_scope_def atomic_def empty_store_def
        put_evidence_body_def find_evidence_def utcnow_def floor_sample_def stuck_clock_def bnd_def)
  have "t = run_session [] t" "evidence_bytes (PBytes [1]) = Inr [1]" by (simp_all add: evidence_bytes_def)
  from evidence_is_read_back_or_tombstoned [OF empty_store_ok(4) t this(2,1)]
  show ?thesis using t by blast
qed

subsection \<open>What an intact report commits to\<close>

lemma chained_entries_bind:
  assumes "chained GENESIS (chain_rows table s) t" "chained GENESIS (take n (chain_rows table s')) t"
    and "length (chain_rows table s) = n" "n \<le> length (chain_rows table s')"
  shows "map l_entry (take n (chain_rows table s')) = map l_entry (chain_rows table s)
    \<or> (\<exists>i < n. rows_collide (chain_rows table s ! i) (chain_rows table s' ! i))"
proof -
  have at: "take n (chain_rows table s') ! i = chain_rows table s' ! i" if "i < n" for i using that by simp
  have "map l_entry (chain_rows table s) = map l_entry (take n (chain_rows table s'))
    \<or> some_collide (chain_rows table s) (take n (chain_rows table s'))"
  proof (cases "table = lit ''events''")
    case True
    then show ?thesis
      using events_bind [of "events_by_seq s" t "take n (events_by_seq s')"] assms
      by (simp add: chain_rows_def take_map comp_def) blast
  next
    case False
    then show ?thesis
      using audit_bind [of "audit_by_seq s" t "take n (audit_by_seq s')"] assms
      by (simp add: chain_rows_def take_map comp_def) blast
  qed
  then show ?thesis using assms(3) at by metis
qed

lemma verify_chain_table: "verify_chain table s = Inr c \<Longrightarrow> is_chain_table (PStr table)"
  by (auto simp: verify_chain_def split: if_splits)

text \<open>An intact report is a commitment. Two states of a log, one of them tampered with in any
  way, for which \<open>verify_chain\<close> reports the same count and the same tip have the same covered
  columns in every row, or two rows at one place are hashed over a SHA-256 collision.\<close>

theorem intact_report_commits:
  assumes "verify_chain table s = Inr (Intact n t m)" and "verify_chain table s' = Inr (Intact n t m')"
  shows "map l_entry (chain_rows table s') = map l_entry (chain_rows table s)
    \<or> (\<exists>i < n. rows_collide (chain_rows table s ! i) (chain_rows table s' ! i))"
proof -
  note tb = verify_chain_table [OF assms(1)]
  have "chained GENESIS (chain_rows table s) t" "length (chain_rows table s) = n"
    "chained GENESIS (chain_rows table s') t" "length (chain_rows table s') = n"
    using verify_chain_intact [OF tb, of s n t] verify_chain_intact [OF tb, of s' n t] assms by auto
  then show ?thesis using chained_entries_bind [of table s t n s'] by simp
qed

subsection \<open>Anchors\<close>

lemma dget_none_anchor:
  assumes "export_anchor table tenant project s = (Inr d, t)"
  obtains n m now where "verify_chain table s = Inr (Intact n (chain_tip table s) m)"
    "n = length (chain_rows table s)" "utcnow s = (Inr now, t)"
    "(tenant = PNone) = (project = PNone)" "tenant = PNone \<or> is_public_identifier tenant \<and> is_public_identifier project"
    "d = [(pkey ''schema_version'', pkey ''cce.anchor.v1''), (pkey ''table'', PStr table),
           (pkey ''count'', PInt (int n)), (pkey ''tip'', PStr (chain_tip table s)),
           (pkey ''intact_at_export'', PBool True), (pkey ''exported_at'', PStr now)]
          @ (if tenant = PNone then [] else [(pkey ''tenant_id'', tenant), (pkey ''project_id'', project)])"
proof -
  obtain r now where r: "verify_chain table s = Inr r" "is_intact r" "utcnow s = (Inr now, t)"
    "(tenant = PNone) = (project = PNone)" "tenant = PNone \<or> is_public_identifier tenant \<and> is_public_identifier project"
    "d = [(pkey ''schema_version'', pkey ''cce.anchor.v1''), (pkey ''table'', PStr table),
           (pkey ''count'', PInt (int (length (chain_rows table s)))), (pkey ''tip'', PStr (chain_tip table s)),
           (pkey ''intact_at_export'', PBool True), (pkey ''exported_at'', PStr now)]
          @ (if tenant = PNone then [] else [(pkey ''tenant_id'', tenant), (pkey ''project_id'', project)])"
    using assms
    by (auto simp: export_anchor_def bnd_eq_Inr chk_run rd_run lift_run ret_run split: if_splits)
  obtain n u m where i: "r = Intact n u m" using r(2) by (cases r) (auto simp: is_intact_def)
  have c: "chained GENESIS (chain_rows table s) u" "n = length (chain_rows table s)"
    using verify_chain_intact [OF verify_chain_table [OF r(1)], of s n u] r(1) i by auto
  then have "chain_tip table s = u" by (simp add: chain_tip_def tip_of_chained)
  then show thesis using that [of n m now] r i c(2) by simp
qed

lemma chain_rows_prefix:
  assumes "events_ok s" "audit_ok s"
  shows "prefix (chain_rows table s) (chain_rows table (run_session cs s))"
proof -
  have h: "prefix (events s) (events (run_session cs s))" "prefix (audit_log s) (audit_log (run_session cs s))"
    using history.run_session_R [of s cs] by (simp_all add: history_kept_def)
  have ok: "events_ok (run_session cs s)" "audit_ok (run_session cs s)" using assms session_ok by blast+
  show ?thesis
    using h by (simp add: chain_rows_def events_by_seq_ok audit_by_seq_ok assms ok map_mono_prefix)
qed

lemma anchor_ok_exported:
  assumes "d = [(pkey ''schema_version'', pkey ''cce.anchor.v1''), (pkey ''table'', PStr table),
           (pkey ''count'', PInt (int n)), (pkey ''tip'', PStr tip),
           (pkey ''intact_at_export'', PBool True), (pkey ''exported_at'', PStr now)]
          @ (if tenant = PNone then [] else [(pkey ''tenant_id'', tenant), (pkey ''project_id'', project)])"
    and "(tenant = PNone) = (project = PNone)" "tenant = PNone \<or> is_public_identifier tenant \<and> is_public_identifier project"
    and "is_chain_table (PStr table)" "is_canonical_utc_timestamp (PStr now)" "DIGEST_RE tip" "n = 0 \<longleftrightarrow> tip = GENESIS"
  shows "anchor_ok d tenant project \<and> (anchor_bound d \<longleftrightarrow> tenant \<noteq> PNone)"
  using assms
  by (cases "tenant = PNone")
    (auto simp: anchor_ok_def anchor_fields_ok_def anchor_bound_def anchor_binding_ok_def ANCHOR_REQUIRED_FIELDS_def
      ANCHOR_BINDING_FIELDS_def dget_none_def Let_def simp del: is_canonical_utc_timestamp.simps)

lemma anchor_ok_fields: "anchor_ok d tenant project \<Longrightarrow> anchor_fields_ok d"
  by (simp add: anchor_ok_def)

text \<open>C19: An anchor binds. If an exported anchor of a log holds for a later, possibly rewritten
  database, the first rows there have exactly the columns the anchored rows had, or one of them
  and the anchored row at its place are hashed over two byte strings that collide under SHA-256;
  and the anchored count is the number of anchored rows.\<close>

theorem anchor_binds_prefix:
  assumes "export_anchor table tenant project s = (Inr d, t)"
    and "verify_against_anchor (PDict d) tenant' project' u = Inr (AnchorHolds b n k)"
  shows "n = length (chain_rows table s) \<and> n \<le> length (chain_rows table u)
    \<and> (map l_entry (take n (chain_rows table u)) = map l_entry (chain_rows table s)
       \<or> (\<exists>i < n. rows_collide (chain_rows table s ! i) (chain_rows table u ! i)))"
proof -
  obtain n' m now where e: "verify_chain table s = Inr (Intact n' (chain_tip table s) m)"
    "n' = length (chain_rows table s)"
    "d = [(pkey ''schema_version'', pkey ''cce.anchor.v1''), (pkey ''table'', PStr table),
           (pkey ''count'', PInt (int n')), (pkey ''tip'', PStr (chain_tip table s)),
           (pkey ''intact_at_export'', PBool True), (pkey ''exported_at'', PStr now)]
          @ (if tenant = PNone then [] else [(pkey ''tenant_id'', tenant), (pkey ''project_id'', project)])"
    by (rule dget_none_anchor [OF assms(1)])
  let ?tip = "chain_tip table s"
  have g: "dget_none d (lit ''table'') = PStr table" "dget_none d (lit ''count'') = PInt (int n')"
    "dget_none d (lit ''tip'') = PStr ?tip"
    unfolding e(3) by (simp_all add: dget_none_def)
  obtain r where v: "anchor_ok d tenant' project'" "verify_chain table u = Inr r" "is_intact r"
    "n' \<le> length (chain_rows table u)" "n = n'"
    "(if n' = 0 then Some GENESIS else l_hash (chain_rows table u ! (n' - 1))) = Some ?tip"
    using assms(2) by (auto simp: verify_against_anchor_def Let_def g split: if_splits)
  obtain q w k' where q: "r = Intact q w k'" using v(3) by (cases r) (auto simp: is_intact_def)
  have cu: "chained GENESIS (chain_rows table u) w"
    using verify_chain_intact [OF verify_chain_table [OF e(1)], of u q w] v(2) q by auto
  have cs: "chained GENESIS (chain_rows table s) ?tip"
    using verify_chain_intact [OF verify_chain_table [OF e(1)], of s n' ?tip] e(1) by auto
  obtain z where z: "chained GENESIS (take n' (chain_rows table u)) z"
    using cu chained_append [of GENESIS "take n' (chain_rows table u)" "drop n' (chain_rows table u)" w] by auto
  have "z = ?tip"
  proof (cases "n' = 0")
    case False
    then have ne: "take n' (chain_rows table u) \<noteq> []" using v(4) by auto
    have "last (take n' (chain_rows table u)) = chain_rows table u ! (n' - 1)"
      using False v(4) last_conv_nth [OF ne] by (simp add: min_absorb2)
    then show ?thesis using chained_last [OF z ne] v(6) False by simp
  qed (use z v(6) in simp)
  then show ?thesis using chained_entries_bind [OF cs _ e(2) [symmetric] v(4)] z v(4,5) e(2) by simp
qed

theorem anchor_binds_prefix_witness:
  "\<exists>d t. export_anchor (lit ''audit_log'') PNone PNone (empty_store stuck_clock) = (Inr d, t)
     \<and> verify_against_anchor (PDict d) PNone PNone t = Inr (AnchorHolds False 0 0)
     \<and> map l_entry (take 0 (chain_rows (lit ''audit_log'') t)) = []"
proof -
  obtain d t where d: "export_anchor (lit ''audit_log'') PNone PNone (empty_store stuck_clock) = (Inr d, t)"
    by (auto simp: export_anchor_def run_simps verify_chain_def chain_rows_def audit_by_seq_def empty_store_def
        is_intact_def utcnow_def floor_sample_def stuck_clock_def bnd_def)
  obtain now where n: "utcnow (empty_store stuck_clock) = (Inr now, t)"
    and dd: "d = [(pkey ''schema_version'', pkey ''cce.anchor.v1''), (pkey ''table'', pkey ''audit_log''),
           (pkey ''count'', PInt (int 0)), (pkey ''tip'', PStr GENESIS),
           (pkey ''intact_at_export'', PBool True), (pkey ''exported_at'', PStr now)]
          @ (if PNone = PNone then [] else [(pkey ''tenant_id'', PNone), (pkey ''project_id'', PNone)])"
    by (rule dget_none_anchor [OF d])
      (simp add: chain_tip_def tip_of_def)
  have "sane_clock (empty_store stuck_clock)"
    using stuck_wall by (simp add: sane_clock_def empty_store_def stuck_clock_def)
  from utcnow_canonical [OF this n] have "anchor_ok d PNone PNone \<and> (anchor_bound d \<longleftrightarrow> PNone \<noteq> PNone)"
    by (intro anchor_ok_exported [OF dd]) simp_all
  moreover have r: "chain_rows (lit ''audit_log'') t = []"
    by (simp add: tables_store(8) [OF utcnow_tables [OF n]])
  ultimately have "verify_against_anchor (PDict d) PNone PNone t = Inr (AnchorHolds False 0 0)"
    using anchor_ok_fields [of d PNone PNone] by (simp add: dd verify_against_anchor_def dget_none_def verify_chain_def r is_intact_def)
  then show ?thesis using anchor_binds_prefix [OF d] d r by simp
qed

text \<open>An exported anchor keeps holding. After any further operations the same anchor,
  presented with the same binding, verifies with the anchored count against the current one,
  unless a preimage of the all-zero digest has been exhibited.\<close>

theorem anchor_keeps_holding:
  assumes "events_ok s" "audit_ok s" "sane_clock s"
    and "export_anchor table tenant project s = (Inr d, t)" and "u = run_session cs t"
  shows "verify_against_anchor (PDict d) tenant project u
      = Inr (AnchorHolds (tenant \<noteq> PNone) (length (chain_rows table s)) (length (chain_rows table u)))
    \<or> (\<exists>x. sha256_hex x = Inr GENESIS)"
proof -
  obtain n m now where e: "verify_chain table s = Inr (Intact n (chain_tip table s) m)"
    "n = length (chain_rows table s)" "utcnow s = (Inr now, t)"
    and bind: "(tenant = PNone) = (project = PNone)"
      "tenant = PNone \<or> is_public_identifier tenant \<and> is_public_identifier project"
    and d: "d = [(pkey ''schema_version'', pkey ''cce.anchor.v1''), (pkey ''table'', PStr table),
           (pkey ''count'', PInt (int n)), (pkey ''tip'', PStr (chain_tip table s)),
           (pkey ''intact_at_export'', PBool True), (pkey ''exported_at'', PStr now)]
          @ (if tenant = PNone then [] else [(pkey ''tenant_id'', tenant), (pkey ''project_id'', project)])"
    by (rule dget_none_anchor [OF assms(4)])
  let ?tip = "chain_tip table s"
  note tb = verify_chain_table [OF e(1)]
  have tab: "tables t = tables s" using e(3) by (rule utcnow_tables)
  have rows: "chain_rows table t = chain_rows table s" using tab by (rule tables_store)
  have okt: "events_ok t" "audit_ok t" using assms(1,2) tables_store [OF tab] by (simp_all add: events_ok_def audit_ok_def)
  have oku: "events_ok u" "audit_ok u" unfolding assms(5) using okt session_ok by blast+
  have pre: "prefix (chain_rows table s) (chain_rows table u)"
    using chain_rows_prefix [OF okt, of table cs] rows assms(5) by simp
  obtain w where cu: "chained GENESIS (chain_rows table u) w"
    using events_tip_ok [OF oku(1)] audit_tip_ok [OF oku(2)] tb oku
    by (auto simp: is_chain_table_def chain_rows_ok)
  obtain k where vu: "verify_chain table u = Inr (Intact (length (chain_rows table u)) w k)"
    using verify_chain_intact [OF tb, of u "length (chain_rows table u)" w] cu by auto
  have cs: "chained GENESIS (chain_rows table s) ?tip"
    using verify_chain_intact [OF tb, of s n ?tip] e(1) by auto
  have can: "is_canonical_utc_timestamp (PStr now)" by (rule utcnow_canonical [OF assms(3) e(3)])
  have dig: "DIGEST_RE ?tip" using chained_digest [OF cs] by simp
  have g: "dget_none d (lit ''table'') = PStr table" "dget_none d (lit ''count'') = PInt (int n)"
    "dget_none d (lit ''tip'') = PStr ?tip"
    unfolding d by (simp_all add: dget_none_def)
  show ?thesis
  proof (cases "n = 0 \<longleftrightarrow> ?tip = GENESIS")
    case True
    have ok: "anchor_ok d tenant project" "anchor_bound d \<longleftrightarrow> tenant \<noteq> PNone"
      using anchor_ok_exported [OF d bind tb can dig True] by blast+
    have le: "n \<le> length (chain_rows table u)" using pre e(2) by (simp add: prefix_length_le)
    have tip: "(if n = 0 then Some GENESIS else l_hash (chain_rows table u ! (n - 1))) = Some ?tip"
    proof (cases "n = 0")
      case False
      then have ne: "chain_rows table s \<noteq> []" using e(2) by auto
      have "chain_rows table u ! (n - 1) = last (chain_rows table s)"
        using pre e(2) ne by (auto simp: prefix_def nth_append last_conv_nth)
      then show ?thesis using chained_last [OF cs ne] False by simp
    qed (use True in simp)
    then show ?thesis
      using ok anchor_ok_fields [OF ok(1)] vu le tip e(2) [symmetric]
      by (simp add: verify_against_anchor_def Let_def g is_intact_def del: length_0_conv split del: if_split)
  next
    case False
    have "n \<noteq> 0" using False cs e(2) by auto
    then obtain r rs where r: "chain_rows table s = rs @ [r]" using e(2) by (cases "chain_rows table s" rule: rev_cases) auto
    then obtain p where "link p (l_entry r) = Inr ?tip" using cs by (auto simp: chained_append link_ok_def)
    moreover have "?tip = GENESIS" using False \<open>n \<noteq> 0\<close> by simp
    ultimately show ?thesis by (auto simp: link_def)
  qed
qed

theorem anchor_keeps_holding_witness:
  "\<exists>d t. export_anchor (lit ''events'') PNone PNone (empty_store stuck_clock) = (Inr d, t)
     \<and> (verify_against_anchor (PDict d) PNone PNone (run_session [CAppend sample_args] t)
          = Inr (AnchorHolds False 0 (length (chain_rows (lit ''events'') (run_session [CAppend sample_args] t))))
        \<or> (\<exists>x. sha256_hex x = Inr GENESIS))"
proof -
  obtain d t where d: "export_anchor (lit ''events'') PNone PNone (empty_store stuck_clock) = (Inr d, t)"
    by (auto simp: export_anchor_def run_simps verify_chain_def chain_rows_def events_by_seq_def empty_store_def
        is_intact_def utcnow_def floor_sample_def stuck_clock_def bnd_def)
  have "sane_clock (empty_store stuck_clock)"
    using stuck_wall by (simp add: sane_clock_def empty_store_def stuck_clock_def)
  from anchor_keeps_holding [OF empty_store_ok(1,2) this d refl, of "[CAppend sample_args]"]
  have "verify_against_anchor (PDict d) PNone PNone (run_session [CAppend sample_args] t)
      = Inr (AnchorHolds False 0 (length (chain_rows (lit ''events'') (run_session [CAppend sample_args] t))))
      \<or> (\<exists>x. sha256_hex x = Inr GENESIS)"
    by (simp del: run_session.simps)
  then show ?thesis using d by blast
qed

subsection \<open>Triggers\<close>

definition redacted_from :: "event_row \<Rightarrow> event_row \<Rightarrow> bool" where
  "redacted_from old new \<longleftrightarrow> new = old \<or> new = old\<lparr>e_payload := None\<rparr>"

lemma redacted_from_link:
  assumes "redacted_from a b" "link_ok p (event_link a) h"
  shows "link_ok p (event_link b) h"
  using assms by (auto simp: redacted_from_def link_ok_def event_link_def event_entry_def payload_fault_def)

lemma redacted_from_seq: "redacted_from a b \<Longrightarrow> e_seq b = e_seq a"
  by (auto simp: redacted_from_def)

lemma redacted_from_chained:
  "list_all2 redacted_from xs ys \<Longrightarrow> chained p (map event_link xs) t \<Longrightarrow> chained p (map event_link ys) t"
  by (induction xs ys arbitrary: p rule: list_all2_induct) (auto dest: redacted_from_link)

lemma insort_rel:
  assumes "list_all2 R xs ys" "R x y" "\<And>a b. R a b \<Longrightarrow> (f :: 'a \<Rightarrow> int) b = f a"
  shows "list_all2 R (insort_key f x xs) (insort_key f y ys)"
  using assms(1,2) by (induction xs ys rule: list_all2_induct) (auto dest!: assms(3))

lemma sort_rel:
  assumes "list_all2 R xs ys" "\<And>a b. R a b \<Longrightarrow> (f :: 'a \<Rightarrow> int) b = f a"
  shows "list_all2 R (sort_key f xs) (sort_key f ys)"
  using assms(1) by (induction xs ys rule: list_all2_induct) (auto intro: insort_rel assms(2))

lemma list_all2_map_self: "(\<And>x. x \<in> set xs \<Longrightarrow> R x (f x)) \<Longrightarrow> list_all2 R xs (map f xs)"
  by (induction xs) auto

lemma redacted_from_refl [simp]: "redacted_from r r"
  by (simp add: redacted_from_def)

lemma list_all2_redacted_refl [simp]: "list_all2 redacted_from xs xs"
  by (simp add: list_all2_refl)

lemma snd_checked:
  "snd (if c then if d then (x, t) else (y, s) else (z, s)) = (if c \<and> d then t else s)"
  by simp

lemma set_event_payload:
  assumes "set cols \<inter> set EVENT_IMMUTABLE = {}"
  shows "set_event cols f r = (if lit ''payload'' \<in> set cols then r\<lparr>e_payload := e_payload (f r)\<rparr> else r)"
proof -
  have "list_all (\<lambda>c. c \<notin> set cols) EVENT_IMMUTABLE" using assms by (auto simp: list_all_iff)
  then show ?thesis by (simp add: EVENT_IMMUTABLE_def set_event_def column_def)
qed

lemma set_only_payload: "set_event [lit ''payload''] f r = r\<lparr>e_payload := e_payload (f r)\<rparr>"
proof -
  have "lit ''payload'' \<notin> set EVENT_IMMUTABLE" by code_simp
  then have "set [lit ''payload''] \<inter> set EVENT_IMMUTABLE = {}" by simp
  from set_event_payload [OF this] show ?thesis by simp
qed

lemma set_evidence_content:
  assumes "set cols \<inter> set EVIDENCE_IMMUTABLE = {}"
  shows "set_evidence cols f r = r\<lparr>b_content := column cols ''content'' b_content (f r) r,
    b_deleted_at := column cols ''deleted_at'' b_deleted_at (f r) r\<rparr>"
proof -
  have "list_all (\<lambda>c. c \<notin> set cols) EVIDENCE_IMMUTABLE" using assms by (auto simp: list_all_iff)
  then show ?thesis by (simp add: EVIDENCE_IMMUTABLE_def set_evidence_def column_def)
qed

lemma run_statement_events: "list_all2 redacted_from (events s) (events (snd (run_statement q s)))"
proof (cases q)
  case (UpdateEvents cols sel f)
  let ?ok = "\<forall>r \<in> set (filter sel (events s)). lit ''payload'' \<in> set cols \<longrightarrow> e_payload (set_event cols f r) = None"
  let ?im = "filter sel (events s) = [] \<or> set cols \<inter> set EVENT_IMMUTABLE = {}"
  let ?t = "s\<lparr>events := map (\<lambda>r. if sel r then set_event cols f r else r) (events s)\<rparr>"
  have "run_statement q s = (if ?im then if ?ok then (Inr (), ?t) else (Inl IntegrityError, s) else (Inl IntegrityError, s))"
    by (simp only: UpdateEvents run_statement_def statement.case Let_def run_simps)
  then have "snd (run_statement q s) = (if ?im \<and> ?ok then ?t else s)" by (simp only: snd_checked)
  moreover have "list_all2 redacted_from (events s) (map (\<lambda>r. if sel r then set_event cols f r else r) (events s))" if ?ok ?im
  proof (rule list_all2_map_self)
    fix r assume r: "r \<in> set (events s)"
    show "redacted_from r (if sel r then set_event cols f r else r)"
    proof (cases "sel r")
      case True
      then have e: "set_event cols f r = (if lit ''payload'' \<in> set cols then r\<lparr>e_payload := e_payload (f r)\<rparr> else r)"
        using that(2) r by (intro set_event_payload) (auto simp: filter_empty_conv)
      then show ?thesis using True that(1) r by (auto simp: redacted_from_def)
    qed simp
  qed
  ultimately show ?thesis by (cases "?im \<and> ?ok") simp_all
qed (simp_all add: run_statement_def run_simps)

lemma run_statement_audit: "audit_log (snd (run_statement q s)) = audit_log s"
  by (cases q) (auto simp: run_statement_def run_simps Let_def)

lemma set_evidence_tombstones:
  assumes "set cols \<inter> {lit ''content'', lit ''deleted_at''} \<noteq> {} \<longrightarrow> is_tombstoning r (set_evidence cols f r)"
    and "set cols \<inter> set EVIDENCE_IMMUTABLE = {}"
  shows "tombstoned_from r (set_evidence cols f r)"
proof (cases "lit ''content'' \<in> set cols \<or> lit ''deleted_at'' \<in> set cols")
  case True
  then show ?thesis
    using assms(1) unfolding set_evidence_content [OF assms(2)] by (auto simp: tombstoned_from_def is_tombstoning_def)
next
  case False
  then show ?thesis unfolding set_evidence_content [OF assms(2)] by (simp add: column_def tombstoned_from_def)
qed

lemma run_statement_evidence:
  "list_all2 tombstoned_from (evidence_blobs s) (evidence_blobs (snd (run_statement q s)))"
proof (cases q)
  case (UpdateEvidence cols sel f)
  let ?ok = "\<forall>r \<in> set (filter sel (evidence_blobs s)). set cols \<inter> {lit ''content'', lit ''deleted_at''} \<noteq> {} \<longrightarrow>
              is_tombstoning r (set_evidence cols f r)"
  let ?im = "filter sel (evidence_blobs s) = [] \<or> set cols \<inter> set EVIDENCE_IMMUTABLE = {}"
  let ?t = "s\<lparr>evidence_blobs := map (\<lambda>r. if sel r then set_evidence cols f r else r) (evidence_blobs s)\<rparr>"
  have "run_statement q s = (if ?im then if ?ok then (Inr (), ?t) else (Inl IntegrityError, s) else (Inl IntegrityError, s))"
    by (simp only: UpdateEvidence run_statement_def statement.case Let_def run_simps)
  then have "snd (run_statement q s) = (if ?im \<and> ?ok then ?t else s)" by (simp only: snd_checked)
  moreover have "list_all2 tombstoned_from (evidence_blobs s)
      (map (\<lambda>r. if sel r then set_evidence cols f r else r) (evidence_blobs s))" if ?ok ?im
  proof (rule list_all2_map_self)
    fix r assume r: "r \<in> set (evidence_blobs s)"
    then show "tombstoned_from r (if sel r then set_evidence cols f r else r)"
      using that set_evidence_tombstones [of cols r f] tombstoned_from_refl by (cases "sel r") (auto simp: filter_empty_conv)
  qed
  ultimately show ?thesis by (cases "?im \<and> ?ok") simp_all
qed (simp_all add: run_statement_def run_simps)

text \<open>C20: No SQL statement rewrites history. With the triggers installed, any \<open>UPDATE\<close>, whichever
  columns it sets to whatever values, or
  \<open>DELETE\<close> on the three protected tables leaves every event as it was or with its payload
  redacted, the audit log as it was, and every evidence row as it was or a tombstone of it;
  and an event log that verified before verifies after, with the same count and tip.\<close>

theorem triggers_protect_history:
  assumes "verify_chain (lit ''events'') s = Inr (Intact n tip m)" and "t = snd (run_statement q s)"
  shows "list_all2 redacted_from (events s) (events t) \<and> audit_log t = audit_log s
    \<and> list_all2 tombstoned_from (evidence_blobs s) (evidence_blobs t)
    \<and> (\<exists>m'. verify_chain (lit ''events'') t = Inr (Intact n tip m'))"
proof -
  note tb = verify_chain_table [OF assms(1)]
  have ch: "chained GENESIS (map event_link (events_by_seq s)) tip" "n = length (events_by_seq s)"
    using verify_chain_intact [OF tb, of s n tip] assms(1) by (auto simp: chain_rows_def)
  have r: "list_all2 redacted_from (events s) (events t)" unfolding assms(2) by (rule run_statement_events)
  then have "list_all2 redacted_from (events_by_seq s) (events_by_seq t)"
    unfolding events_by_seq_def by (rule sort_rel) (rule redacted_from_seq)
  from redacted_from_chained [OF this ch(1)] list_all2_lengthD [OF this]
  have "\<exists>m'. verify_chain (lit ''events'') t = Inr (Intact n tip m')"
    using verify_chain_intact [OF tb, of t n tip] ch(2) by (simp add: chain_rows_def)
  then show ?thesis using r run_statement_audit run_statement_evidence assms(2) by blast
qed

theorem triggers_protect_history_witness:
  "audit_log (snd (run_statement (DeleteAudit (\<lambda>_. True)) (empty_store stuck_clock))) = []
   \<and> (\<exists>m'. verify_chain (lit ''events'') (snd (run_statement (DeleteAudit (\<lambda>_. True)) (empty_store stuck_clock)))
        = Inr (Intact 0 GENESIS m'))"
proof -
  have "verify_chain (lit ''events'') (empty_store stuck_clock) = Inr (Intact 0 GENESIS 0)"
    by (simp add: verify_chain_def chain_rows_def events_by_seq_def empty_store_def)
  from triggers_protect_history [OF this refl, of "DeleteAudit (\<lambda>_. True)"]
  show ?thesis by (simp add: empty_store_def)
qed

end
