(* ===== verification/Ontology.thy ===== *)
theory Ontology
  imports Core_Text
begin

section \<open>ontology.py: vocabularies and the assumption state machine\<close>

text \<open>
  The closed vocabularies that the graph, the policy and the invalidation engine check
  against, the authority ranking, the strengths with which impact propagates along edges,
  and the assumption state machine. The last is also given as a relation on paths of
  statuses, to say what every history of an assumption has in common.
\<close>

definition ENTITY_TYPES :: "pstr list" where
  "ENTITY_TYPES = map lit
     [''project'', ''event'', ''artifact'', ''claim'', ''assumption'', ''requirement'', ''constraint'',
      ''decision'', ''plan'', ''task'', ''action'', ''evidence'', ''verification'', ''session'',
      ''outcome'', ''failure'', ''skill'', ''evaluation'', ''actor'', ''invalidation'', ''checkpoint'']"

definition EDGE_TYPES :: "pstr list" where
  "EDGE_TYPES = map lit
     [''derived_from'', ''supports'', ''contradicts'', ''assumes'', ''depends_on'', ''invalidates'',
      ''supersedes'', ''affects'', ''produces'', ''verifies'', ''accepted_by'', ''rejected_by'',
      ''resumed_from'', ''migrated_from'', ''replay_of'']"

text \<open>The strengths are binary64 literals; \<open>0.9\<close> is the float nearest to it.\<close>

definition PROPAGATION_EDGES :: "(pstr \<times> rat) list" where
  "PROPAGATION_EDGES =
     [(lit ''assumes'', rnd64 1), (lit ''depends_on'', rnd64 (9 / 10)), (lit ''derived_from'', rnd64 (8 / 10)),
      (lit ''supports'', rnd64 (6 / 10)), (lit ''verifies'', rnd64 (7 / 10))]"

definition AUTHORITY_ORDER :: "pstr list" where
  "AUTHORITY_ORDER = map lit
     [''untrusted_content'', ''agent_inference'', ''agent_observed'', ''human_intent'',
      ''repository_authoritative'', ''verifier_authoritative'', ''human_decision'', ''tenant_policy'']"

definition AUTHORITY_RANK :: "(pstr \<times> nat) list" where
  "AUTHORITY_RANK = zip AUTHORITY_ORDER [0..<length AUTHORITY_ORDER]"

definition authority_rank :: "pstr \<Rightarrow> nat" where
  "authority_rank a = (case map_of AUTHORITY_RANK a of Some i \<Rightarrow> i | None \<Rightarrow> 0)"

definition ASSUMPTION_STATES :: "pstr list" where
  "ASSUMPTION_STATES = map lit
     [''proposed'', ''supported'', ''active'', ''uncertain'', ''invalidated'', ''resolved'', ''superseded'']"

definition ASSUMPTION_TRANSITIONS :: "(pstr \<times> pstr list) list" where
  "ASSUMPTION_TRANSITIONS = map (\<lambda>(s, ts). (lit s, map lit ts))
     [(''proposed'', [''supported'', ''active'', ''uncertain'', ''invalidated'', ''superseded'', ''resolved'']),
      (''supported'', [''active'', ''uncertain'', ''invalidated'', ''superseded'', ''resolved'']),
      (''active'', [''uncertain'', ''invalidated'', ''superseded'', ''resolved'']),
      (''uncertain'', [''active'', ''supported'', ''invalidated'', ''superseded'', ''resolved'']),
      (''invalidated'', [''resolved'', ''superseded'']),
      (''resolved'', [''invalidated'', ''uncertain'', ''superseded'']),
      (''superseded'', [])]"

definition IMPACT_STATES :: "pstr list" where
  "IMPACT_STATES = map lit [''valid'', ''review_required'', ''blocked'', ''invalidated'']"

definition RUN_OUTCOMES :: "pstr list" where
  "RUN_OUTCOMES = map lit
     [''completed'', ''partially_completed'', ''blocked'', ''failed'', ''cancelled'', ''inconclusive'']"

definition VERIFICATION_RESULTS :: "pstr list" where
  "VERIFICATION_RESULTS = map lit
     [''passed'', ''failed'', ''skipped'', ''missing'', ''inconclusive'', ''stale'']"

definition FAILURE_TAXONOMY :: "pstr list" where
  "FAILURE_TAXONOMY = map lit
     [''planning'', ''retrieval'', ''stale_assumption'', ''tool'', ''environment'', ''verification'',
      ''policy'', ''coordination'', ''unknown'']"

definition MVP_MAX_AUTONOMY :: int where
  "MVP_MAX_AUTONOMY = 3"

definition CRITICALITY_LEVELS :: "pstr list" where
  "CRITICALITY_LEVELS = map lit [''low'', ''medium'', ''high'', ''critical'']"

definition is_valid_transition :: "pstr \<Rightarrow> pstr \<Rightarrow> bool" where
  "is_valid_transition current new =
     (if current = new then True
      else new \<in> set (case map_of ASSUMPTION_TRANSITIONS current of Some ts \<Rightarrow> ts | None \<Rightarrow> []))"

subsection \<open>Authority\<close>

lemmas vocabulary_defs = ENTITY_TYPES_def EDGE_TYPES_def AUTHORITY_ORDER_def ASSUMPTION_STATES_def
  IMPACT_STATES_def RUN_OUTCOMES_def VERIFICATION_RESULTS_def FAILURE_TAXONOMY_def CRITICALITY_LEVELS_def

lemma AUTHORITY_RANK_eq:
  "AUTHORITY_RANK =
     [(lit ''untrusted_content'', 0), (lit ''agent_inference'', 1), (lit ''agent_observed'', 2),
      (lit ''human_intent'', 3), (lit ''repository_authoritative'', 4),
      (lit ''verifier_authoritative'', 5), (lit ''human_decision'', 6), (lit ''tenant_policy'', 7)]"
  by (simp add: AUTHORITY_RANK_def AUTHORITY_ORDER_def upt_rec)

lemma authority_rank_le: "authority_rank a \<le> 7"
  by (simp add: authority_rank_def AUTHORITY_RANK_eq)

lemma authority_rank_top: "authority_rank a = 7 \<longleftrightarrow> a = lit ''tenant_policy''"
  by (simp add: authority_rank_def AUTHORITY_RANK_eq)

subsection \<open>Propagation\<close>

lemma PROPAGATION_EDGES_unit:
  "map_of PROPAGATION_EDGES t = Some r \<Longrightarrow> 0 \<le> r \<and> r \<le> 1"
  by (auto simp: PROPAGATION_EDGES_def rnd64_nonneg rnd64_le_1 split: if_splits)

lemma PROPAGATION_EDGES_types: "map_of PROPAGATION_EDGES t = Some r \<Longrightarrow> t \<in> set EDGE_TYPES"
  by (auto simp: PROPAGATION_EDGES_def EDGE_TYPES_def split: if_splits)

subsection \<open>Histories of an assumption\<close>

text \<open>The statuses an assumption passes through, from first to last.\<close>

inductive assumption_path :: "pstr \<Rightarrow> pstr list \<Rightarrow> pstr \<Rightarrow> bool" where
  path_here: "assumption_path s [s] s"
| path_step: "assumption_path s p t \<Longrightarrow> is_valid_transition t u \<Longrightarrow> assumption_path s (p @ [u]) u"

lemma is_valid_transition_iff:
  "is_valid_transition s t \<longleftrightarrow> s = t \<or>
     (s = lit ''proposed'' \<and> t \<in> lit ` {''supported'', ''active'', ''uncertain'', ''invalidated'', ''superseded'', ''resolved''}) \<or>
     (s = lit ''supported'' \<and> t \<in> lit ` {''active'', ''uncertain'', ''invalidated'', ''superseded'', ''resolved''}) \<or>
     (s = lit ''active'' \<and> t \<in> lit ` {''uncertain'', ''invalidated'', ''superseded'', ''resolved''}) \<or>
     (s = lit ''uncertain'' \<and> t \<in> lit ` {''active'', ''supported'', ''invalidated'', ''superseded'', ''resolved''}) \<or>
     (s = lit ''invalidated'' \<and> t \<in> lit ` {''resolved'', ''superseded''}) \<or>
     (s = lit ''resolved'' \<and> t \<in> lit ` {''invalidated'', ''uncertain'', ''superseded''})"
  by (auto simp: is_valid_transition_def ASSUMPTION_TRANSITIONS_def)

lemma superseded_final: "is_valid_transition (lit ''superseded'') t \<longleftrightarrow> t = lit ''superseded''"
  by (auto simp: is_valid_transition_iff)

lemma proposed_initial: "is_valid_transition s (lit ''proposed'') \<longleftrightarrow> s = lit ''proposed''"
  by (auto simp: is_valid_transition_iff)

lemma assumption_path_last: "assumption_path s p t \<Longrightarrow> p \<noteq> [] \<and> last p = t \<and> hd p = s"
  by (induction rule: assumption_path.induct) auto

lemma assumption_path_from_superseded:
  "assumption_path s p t \<Longrightarrow> s = lit ''superseded'' \<Longrightarrow> t = lit ''superseded''"
  by (induction rule: assumption_path.induct) (auto simp: superseded_final)

lemma assumption_path_unresolved:
  assumes "assumption_path s p t" and "s = lit ''invalidated''" and "lit ''resolved'' \<notin> set p"
  shows "t = lit ''invalidated'' \<or> t = lit ''superseded''"
  using assms by (induction rule: assumption_path.induct) (auto simp: is_valid_transition_iff)

end
