(* ===== verification/Graph.thy ===== *)
theory Graph
  imports Store_Inv Ontology "HOL-Library.Multiset"
begin

section \<open>graph.py: the bi-temporal graph\<close>

text \<open>
  Nodes and edges are versioned rows: a write closes the transaction interval of the current
  row and appends the next version. The two tables extend the store's state, in row order,
  and every operation of \<open>Graph\<close> is one definition. Documents (\<open>data\<close>, \<open>scope\<close>) are
  stored as canonical text and parsed when a row is returned, as in the code. A query without
  \<open>ORDER BY\<close> returns its rows in row order here.
\<close>

record node_row =
  n_row_id :: nat
  n_id :: pstr
  n_version :: nat
  n_entity_type :: pstr
  n_tenant_id :: pstr
  n_project_id :: pstr
  n_status :: "pstr option"
  n_criticality :: "pstr option"
  n_authority :: "pstr option"
  n_confidence :: "rat option"
  n_scope :: "pstr option"
  n_data :: pstr
  n_valid_from :: "pstr option"
  n_valid_to :: "pstr option"
  n_tx_from :: pstr
  n_tx_to :: "pstr option"
  n_event_id :: "pstr option"
  n_extractor :: "pstr option"
  n_extractor_version :: "pstr option"

record edge_row =
  g_row_id :: nat
  g_id :: pstr
  g_version :: nat
  g_edge_type :: pstr
  g_src_id :: pstr
  g_dst_id :: pstr
  g_tenant_id :: pstr
  g_project_id :: pstr
  g_strength :: rat
  g_data :: "pstr option"
  g_valid_from :: "pstr option"
  g_valid_to :: "pstr option"
  g_tx_from :: pstr
  g_tx_to :: "pstr option"
  g_event_id :: "pstr option"

record graph_st = store_st +
  nodes :: "node_row list"
  node_rows :: nat
  edges :: "edge_row list"
  edge_rows :: nat

text \<open>What the graph returns: the row with its documents parsed.\<close>

record node =
  nd_row :: node_row
  nd_scope :: pyval
  nd_data :: pyval

record edge =
  ed_row :: edge_row
  ed_data :: pyval

subsection \<open>Validation\<close>

definition validate_optional_text :: "pyval \<Rightarrow> exn + pstr option" where
  "validate_optional_text v =
     (if v = PNone then Inr None
      else require (nonempty_string v) ValueError
        (rcatch (rbind (canonical_json v) (\<lambda>_. Inr (Some (text_of v)))) value_like (\<lambda>_. Inl ValueError)))"

definition validate_optional_datetime :: "pyval \<Rightarrow> exn + pstr option" where
  "validate_optional_datetime v =
     (if v = PNone then Inr None else require (is_rfc3339_datetime v) ValueError (Inr (Some (text_of v))))"

definition optional_identifier :: "pyval \<Rightarrow> exn + pstr option" where
  "optional_identifier v =
     (if v = PNone then Inr None else rbind (validate_public_identifier v) (\<lambda>s. Inr (Some s)))"

definition encode_optional :: "pyval \<Rightarrow> exn + pstr option" where
  "encode_optional v = (if v = PNone then Inr None else rbind (canonical_json v) (\<lambda>t. Inr (Some t)))"

definition decode_optional :: "pstr option \<Rightarrow> exn + pyval" where
  "decode_optional t = (case t of None \<Rightarrow> Inr PNone
     | Some s \<Rightarrow> if s = [] then Inr PNone else strict_json_loads (PStr s))"

definition node_dict :: "node_row \<Rightarrow> exn + node" where
  "node_dict r =
     rbind (strict_json_loads (PStr (n_data r))) (\<lambda>d.
     rbind (decode_optional (n_scope r)) (\<lambda>sc. Inr \<lparr>nd_row = r, nd_scope = sc, nd_data = d\<rparr>))"

definition edge_dict :: "edge_row \<Rightarrow> exn + edge" where
  "edge_dict r = rbind (decode_optional (g_data r)) (\<lambda>d. Inr \<lparr>ed_row = r, ed_data = d\<rparr>)"

subsection \<open>Current rows and scopes\<close>

definition current_node :: "pstr \<Rightarrow> 'z graph_st_scheme \<Rightarrow> node_row option" where
  "current_node nid s = find (\<lambda>r. n_id r = nid \<and> n_tx_to r = None) (nodes s)"

definition current_edge :: "pstr \<Rightarrow> 'z graph_st_scheme \<Rightarrow> edge_row option" where
  "current_edge eid s = find (\<lambda>r. g_id r = eid \<and> g_tx_to r = None) (edges s)"

definition reference_scope :: "pstr \<Rightarrow> ('z graph_st_scheme, (pstr \<times> pstr) option) op" where
  "reference_scope ref = bnd (rd (current_node ref)) (\<lambda>found. case found of
     Some r \<Rightarrow> ret (Some (n_tenant_id r, n_project_id r))
   | None \<Rightarrow> catch (bnd (get_event ref None None) (\<lambda>(e, _). ret (Some (e_tenant_id e, e_project_id e))))
       (\<lambda>e. e = KeyError) (\<lambda>_. ret None))"

definition require_event_scope :: "pstr option \<Rightarrow> pstr \<Rightarrow> pstr \<Rightarrow> ('z graph_st_scheme, unit) op" where
  "require_event_scope eid tenant project = (case eid of
     None \<Rightarrow> ret ()
   | Some e \<Rightarrow> bnd (chk (e \<noteq> []) ValueError) (\<lambda>_.
       catch (bnd (get_event e (Some tenant) (Some project)) (\<lambda>_. ret ()))
         (\<lambda>x. x = KeyError) (\<lambda>_. fail ValueError)))"

definition get_node :: "pstr \<Rightarrow> pstr option \<Rightarrow> pstr option \<Rightarrow> pstr option \<Rightarrow> pstr option
    \<Rightarrow> ('z graph_st_scheme, node) op" where
  "get_node nid as_of_tx tenant project kind =
     bnd (rd (\<lambda>s. case as_of_tx of
         None \<Rightarrow> current_node nid s
       | Some t \<Rightarrow> (case rev (sort_key n_version (filter (\<lambda>r. n_id r = nid \<and> n_tx_from r \<le> t
             \<and> (n_tx_to r = None \<or> t < the (n_tx_to r))) (nodes s))) of
             [] \<Rightarrow> None | r # _ \<Rightarrow> Some r))) (\<lambda>found. case found of
       None \<Rightarrow> fail KeyError
     | Some r \<Rightarrow>
         if (tenant \<noteq> None \<and> tenant \<noteq> Some (n_tenant_id r)) \<or> (project \<noteq> None \<and> project \<noteq> Some (n_project_id r))
           \<or> (kind \<noteq> None \<and> kind \<noteq> Some (n_entity_type r))
         then fail KeyError else lift (node_dict r))"

definition history_of :: "pstr \<Rightarrow> pstr option \<Rightarrow> pstr option \<Rightarrow> ('z graph_st_scheme, node list) op" where
  "history_of nid tenant project = bnd (rd nodes) (\<lambda>rows.
     lift (rmap node_dict (sort_key n_version (filter (\<lambda>r. n_id r = nid
       \<and> (tenant = None \<or> tenant = Some (n_tenant_id r)) \<and> (project = None \<or> project = Some (n_project_id r))) rows))))"

subsection \<open>put_node\<close>

record node_args =
  v_entity_type :: pyval
  v_tenant_id :: pyval
  v_project_id :: pyval
  v_data :: pyval
  v_node_id :: pyval
  v_status :: pyval
  v_criticality :: pyval
  v_authority :: pyval
  v_confidence :: pyval
  v_scope :: pyval
  v_valid_from :: pyval
  v_valid_to :: pyval
  v_reopen :: pyval
  v_event_id :: pyval
  v_extractor :: pyval
  v_extractor_version :: pyval

definition is_object_or_null :: "pyval \<Rightarrow> bool" where
  "is_object_or_null v \<longleftrightarrow> v = PNone \<or> is_dict v"

fun is_bool :: "pyval \<Rightarrow> bool" where
  "is_bool (PBool b) = True"
| "is_bool _ = False"

text \<open>The validation of the arguments, in the order of the code; the first failure raises.\<close>

definition check_node_args :: "node_args \<Rightarrow> exn + unit" where
  "check_node_args a = checks
     [guard (in_vocabulary (v_entity_type a) ENTITY_TYPES) ValueError,
      void (validate_public_identifier (v_tenant_id a)),
      void (validate_public_identifier (v_project_id a)),
      void (optional_identifier (v_node_id a)),
      void (optional_identifier (v_event_id a)),
      void (validate_optional_text (v_status a)),
      void (validate_optional_text (v_criticality a)),
      void (validate_optional_text (v_authority a)),
      void (validate_optional_text (v_extractor a)),
      void (validate_optional_text (v_extractor_version a)),
      void (validate_optional_datetime (v_valid_from a)),
      void (validate_optional_datetime (v_valid_to a)),
      guard (is_bool (v_reopen a)) ValueError,
      guard (\<not> (truthy (v_reopen a) \<and> (v_valid_from a = PNone \<or> v_valid_to a \<noteq> PNone))) ValueError,
      guard (is_dict (v_data a)) ValueError,
      guard (is_object_or_null (v_scope a)) ValueError,
      guard (v_confidence a = PNone \<or> unit_number (v_confidence a)) (unit_refusal (v_confidence a)),
      void (canonical_json (v_data a)),
      void (encode_optional (v_scope a))]"

definition KIND_IDS :: "pstr list" where
  "KIND_IDS = map lit
     [''assumption'', ''decision'', ''claim'', ''requirement'', ''task'', ''action'', ''evidence'',
      ''verification'', ''session'', ''invalidation'', ''plan'', ''outcome'', ''artifact'',
      ''constraint'', ''skill'', ''evaluation'', ''checkpoint'', ''failure'']"

text \<open>\<open>x if x is not None else y\<close>\<close>

definition or_else :: "'a option \<Rightarrow> 'a option \<Rightarrow> 'a option" where
  "or_else x y = (if x = None then y else x)"

text \<open>The reopening rule: the new interval starts no earlier than the closed one ended.\<close>

definition reopening_ok :: "node_args \<Rightarrow> node_row option \<Rightarrow> exn + bool" where
  "reopening_ok a prev =
     (if \<not> truthy (v_reopen a) then Inr True
      else case prev of
        None \<Rightarrow> Inr False
      | Some p \<Rightarrow> (case n_valid_to p of
          None \<Rightarrow> Inr False
        | Some e \<Rightarrow> rbind (parse_ts (text_of (v_valid_from a))) (\<lambda>new. rbind (parse_ts e) (\<lambda>old. Inr (old \<le> new)))))"

definition node_identity :: "node_row \<Rightarrow> pstr \<times> pstr \<times> pstr" where
  "node_identity r = (n_entity_type r, n_tenant_id r, n_project_id r)"

definition args_identity :: "node_args \<Rightarrow> pstr \<times> pstr \<times> pstr" where
  "args_identity a = (text_of (v_entity_type a), text_of (v_tenant_id a), text_of (v_project_id a))"

text \<open>The row of the next version: what the call left open is carried forward from the
  previous one, the data is merged into the previous data, and the validity interval starts
  now unless it is given or carried.\<close>

definition scope_of :: "node_args \<Rightarrow> node_row option \<Rightarrow> exn + pyval" where
  "scope_of a prev = (if v_scope a \<noteq> PNone then Inr (v_scope a)
     else case prev of None \<Rightarrow> Inr PNone | Some p \<Rightarrow> decode_optional (n_scope p))"

definition merged_data :: "node_args \<Rightarrow> node_row option \<Rightarrow> exn + pyval" where
  "merged_data a prev = (case prev of
     None \<Rightarrow> Inr (v_data a)
   | Some p \<Rightarrow> rbind (strict_json_loads (PStr (n_data p))) (\<lambda>old. case (old, v_data a) of
       (PDict d, PDict e) \<Rightarrow> Inr (PDict (dupdate d e))
     | _ \<Rightarrow> Inl TypeError))"

definition next_node_row :: "node_args \<Rightarrow> node_row option \<Rightarrow> pstr \<Rightarrow> pstr option \<Rightarrow> pstr \<Rightarrow> pstr \<Rightarrow> nat \<Rightarrow> node_row" where
  "next_node_row a prev nid enc_scope enc_data now row_id =
     (let old = (\<lambda>f. case prev of None \<Rightarrow> None | Some p \<Rightarrow> f p);
          from = or_else (opt_text (v_valid_from a)) (old n_valid_from);
          until = (if truthy (v_reopen a) then opt_text (v_valid_to a)
                else or_else (opt_text (v_valid_to a)) (old n_valid_to))
      in \<lparr>n_row_id = row_id, n_id = nid,
          n_version = (case prev of None \<Rightarrow> 1 | Some p \<Rightarrow> n_version p + 1),
          n_entity_type = text_of (v_entity_type a), n_tenant_id = text_of (v_tenant_id a),
          n_project_id = text_of (v_project_id a),
          n_status = or_else (opt_text (v_status a)) (old n_status),
          n_criticality = or_else (opt_text (v_criticality a)) (old n_criticality),
          n_authority = or_else (opt_text (v_authority a)) (old n_authority),
          n_confidence = or_else (number (v_confidence a)) (case prev of None \<Rightarrow> None | Some p \<Rightarrow> n_confidence p),
          n_scope = enc_scope, n_data = enc_data,
          n_valid_from = (if from = None then Some now else from), n_valid_to = until,
          n_tx_from = now, n_tx_to = None, n_event_id = opt_text (v_event_id a),
          n_extractor = opt_text (v_extractor a), n_extractor_version = opt_text (v_extractor_version a)\<rparr>)"

definition close_node :: "pstr \<Rightarrow> node_row \<Rightarrow> ('z graph_st_scheme, unit) op" where
  "close_node now p = wr (\<lambda>s. s\<lparr>nodes :=
     map (\<lambda>r. if n_row_id r = n_row_id p then r\<lparr>n_tx_to := Some now\<rparr> else r) (nodes s)\<rparr>)"

definition insert_node :: "(nat \<Rightarrow> node_row) \<Rightarrow> ('z graph_st_scheme, unit) op" where
  "insert_node row = bnd (rd (\<lambda>s. (nodes s, node_rows s))) (\<lambda>(rows, k).
     bnd (chk (\<forall>r \<in> set rows. \<not> (n_id r = n_id (row (Suc k)) \<and> n_version r = n_version (row (Suc k)))) IntegrityError) (\<lambda>_.
     wr (\<lambda>s. s\<lparr>nodes := nodes s @ [row (Suc k)], node_rows := Suc k\<rparr>)))"

text \<open>The write scope of \<open>put_node\<close>; it returns the identifier written.\<close>

definition put_node_body :: "node_args \<Rightarrow> pstr \<Rightarrow> ('z graph_st_scheme, pstr) op" where
  "put_node_body a now =
     bnd (require_event_scope (opt_text (v_event_id a)) (text_of (v_tenant_id a)) (text_of (v_project_id a))) (\<lambda>_.
     bnd (case v_node_id a of
           PStr nid \<Rightarrow> bnd (rd (current_node nid)) (\<lambda>prev. ret (nid, prev))
         | _ \<Rightarrow> bnd (new_id (if text_of (v_entity_type a) \<in> set KIND_IDS then text_of (v_entity_type a)
               else lit ''node'')) (\<lambda>nid. ret (nid, None))) (\<lambda>(nid, prev).
     bnd (lift (reopening_ok a prev)) (\<lambda>ok.
     bnd (chk ok ValueError) (\<lambda>_.
     bnd (case prev of None \<Rightarrow> ret ()
         | Some p \<Rightarrow> bnd (chk (node_identity p = args_identity a) ValueError) (\<lambda>_. close_node now p)) (\<lambda>_.
     bnd (lift (scope_of a prev)) (\<lambda>scope.
     bnd (lift (merged_data a prev)) (\<lambda>data.
     bnd (lift (encode_optional scope)) (\<lambda>enc_scope.
     bnd (lift (canonical_json data)) (\<lambda>enc_data.
     bnd (insert_node (next_node_row a prev nid enc_scope enc_data now)) (\<lambda>_.
     ret nid))))))))))"

definition put_node :: "node_args \<Rightarrow> ('z graph_st_scheme, node) op" where
  "put_node a =
     bnd (lift (check_node_args a)) (\<lambda>_.
     bnd utcnow (\<lambda>now.
     bnd (write_scope (put_node_body a now)) (\<lambda>nid.
     get_node nid None (Some (text_of (v_tenant_id a))) (Some (text_of (v_project_id a)))
       (Some (text_of (v_entity_type a))))))"

subsection \<open>put_edge and end_edge\<close>

record edge_args =
  w_edge_type :: pyval
  w_src_id :: pyval
  w_dst_id :: pyval
  w_tenant_id :: pyval
  w_project_id :: pyval
  w_strength :: pyval
  w_data :: pyval
  w_valid_from :: pyval
  w_valid_to :: pyval
  w_event_id :: pyval
  w_edge_id :: pyval

definition check_edge_args :: "edge_args \<Rightarrow> exn + unit" where
  "check_edge_args a = checks
     [guard (in_vocabulary (w_edge_type a) EDGE_TYPES) ValueError,
      void (validate_public_identifier (w_tenant_id a)),
      void (validate_public_identifier (w_project_id a)),
      void (validate_public_identifier (w_src_id a)),
      void (validate_public_identifier (w_dst_id a)),
      void (optional_identifier (w_edge_id a)),
      void (optional_identifier (w_event_id a)),
      void (validate_optional_datetime (w_valid_from a)),
      void (validate_optional_datetime (w_valid_to a)),
      guard (unit_number (w_strength a)) (unit_refusal (w_strength a)),
      guard (is_object_or_null (w_data a)) ValueError]"

definition edge_identity :: "edge_row \<Rightarrow> pstr \<times> pstr \<times> pstr \<times> pstr \<times> pstr" where
  "edge_identity r = (g_edge_type r, g_src_id r, g_dst_id r, g_tenant_id r, g_project_id r)"

definition edge_args_identity :: "edge_args \<Rightarrow> pstr \<times> pstr \<times> pstr \<times> pstr \<times> pstr" where
  "edge_args_identity a = (text_of (w_edge_type a), text_of (w_src_id a), text_of (w_dst_id a),
     text_of (w_tenant_id a), text_of (w_project_id a))"

text \<open>The current edge with the same identity, when no edge id is given.\<close>

definition existing_edge :: "edge_args \<Rightarrow> 'z graph_st_scheme \<Rightarrow> pstr option" where
  "existing_edge a s = map_option g_id
     (find (\<lambda>r. edge_identity r = edge_args_identity a \<and> g_tx_to r = None) (edges s))"

definition close_edge :: "pstr \<Rightarrow> edge_row \<Rightarrow> ('z graph_st_scheme, unit) op" where
  "close_edge now p = wr (\<lambda>s. s\<lparr>edges :=
     map (\<lambda>r. if g_row_id r = g_row_id p then r\<lparr>g_tx_to := Some now\<rparr> else r) (edges s)\<rparr>)"

definition insert_edge :: "(nat \<Rightarrow> edge_row) \<Rightarrow> ('z graph_st_scheme, unit) op" where
  "insert_edge row = bnd (rd (\<lambda>s. (edges s, edge_rows s))) (\<lambda>(rows, k).
     bnd (chk (\<forall>r \<in> set rows. \<not> (g_id r = g_id (row (Suc k)) \<and> g_version r = g_version (row (Suc k)))) IntegrityError) (\<lambda>_.
     wr (\<lambda>s. s\<lparr>edges := edges s @ [row (Suc k)], edge_rows := Suc k\<rparr>)))"

definition new_edge_row :: "edge_args \<Rightarrow> edge_row option \<Rightarrow> pstr \<Rightarrow> pstr option \<Rightarrow> pstr \<Rightarrow> nat \<Rightarrow> edge_row" where
  "new_edge_row a prev eid enc_data now row_id =
     \<lparr>g_row_id = row_id, g_id = eid, g_version = (case prev of None \<Rightarrow> 1 | Some p \<Rightarrow> g_version p + 1),
      g_edge_type = text_of (w_edge_type a), g_src_id = text_of (w_src_id a), g_dst_id = text_of (w_dst_id a),
      g_tenant_id = text_of (w_tenant_id a), g_project_id = text_of (w_project_id a),
      g_strength = (case number (w_strength a) of None \<Rightarrow> 0 | Some r \<Rightarrow> r), g_data = enc_data,
      g_valid_from = (case opt_text (w_valid_from a) of None \<Rightarrow> Some now | Some t \<Rightarrow> Some t),
      g_valid_to = opt_text (w_valid_to a), g_tx_from = now, g_tx_to = None, g_event_id = opt_text (w_event_id a)\<rparr>"

definition put_edge_body :: "edge_args \<Rightarrow> pstr option \<Rightarrow> pstr \<Rightarrow> ('z graph_st_scheme, edge_row) op" where
  "put_edge_body a enc_data now =
     bnd (require_event_scope (opt_text (w_event_id a)) (text_of (w_tenant_id a)) (text_of (w_project_id a))) (\<lambda>_.
     bnd (reference_scope (text_of (w_src_id a))) (\<lambda>src.
     bnd (reference_scope (text_of (w_dst_id a))) (\<lambda>dst.
     bnd (chk (src = Some (text_of (w_tenant_id a), text_of (w_project_id a))
             \<and> dst = Some (text_of (w_tenant_id a), text_of (w_project_id a))) ValueError) (\<lambda>_.
     bnd (case w_edge_id a of PStr eid \<Rightarrow> ret (Some eid) | _ \<Rightarrow> rd (existing_edge a)) (\<lambda>known.
     bnd (case known of None \<Rightarrow> ret None | Some eid \<Rightarrow> rd (current_edge eid)) (\<lambda>prev.
     bnd (case known of None \<Rightarrow> new_id (lit ''edge'') | Some eid \<Rightarrow> ret eid) (\<lambda>eid.
     bnd (case prev of None \<Rightarrow> ret ()
         | Some p \<Rightarrow> bnd (chk (edge_identity p = edge_args_identity a) ValueError) (\<lambda>_. close_edge now p)) (\<lambda>_.
     bnd (insert_edge (new_edge_row a prev eid enc_data now)) (\<lambda>_.
     bnd (rd (current_edge eid)) (\<lambda>row. case row of None \<Rightarrow> fail TypeError | Some r \<Rightarrow> ret r))))))))))"

definition put_edge :: "edge_args \<Rightarrow> ('z graph_st_scheme, edge) op" where
  "put_edge a =
     bnd (lift (check_edge_args a)) (\<lambda>_.
     bnd (lift (encode_optional (w_data a))) (\<lambda>enc_data.
     bnd utcnow (\<lambda>now.
     bnd (write_scope (put_edge_body a enc_data now)) (\<lambda>r.
     lift (edge_dict r)))))"

text \<open>\<open>end_edge\<close> appends a version that differs from the current one in the end of its
  validity and its provenance.\<close>

definition end_edge_body :: "pstr \<Rightarrow> pstr \<Rightarrow> pstr \<Rightarrow> pstr option \<Rightarrow> pstr option \<Rightarrow> pstr \<Rightarrow> ('z graph_st_scheme, unit) op" where
  "end_edge_body eid tenant project event until now =
     bnd (require_event_scope event tenant project) (\<lambda>_.
     bnd (rd (current_edge eid)) (\<lambda>found. case found of
       None \<Rightarrow> fail KeyError
     | Some p \<Rightarrow>
         bnd (chk ((g_tenant_id p, g_project_id p) = (tenant, project)) PermissionError) (\<lambda>_.
         bnd (close_edge now p) (\<lambda>_.
         insert_edge (\<lambda>k. p\<lparr>g_row_id := k, g_version := g_version p + 1,
           g_valid_to := Some (case until of None \<Rightarrow> now | Some t \<Rightarrow> t), g_tx_from := now, g_tx_to := None,
           g_event_id := event\<rparr>)))))"

definition end_edge :: "pyval \<Rightarrow> pyval \<Rightarrow> pyval \<Rightarrow> pyval \<Rightarrow> pyval \<Rightarrow> ('z graph_st_scheme, unit) op" where
  "end_edge edge_id tenant project event_id valid_to =
     bnd (lift (validate_public_identifier edge_id)) (\<lambda>eid.
     bnd (lift (validate_public_identifier tenant)) (\<lambda>ten.
     bnd (lift (validate_public_identifier project)) (\<lambda>prj.
     bnd (lift (optional_identifier event_id)) (\<lambda>ev.
     bnd (lift (validate_optional_datetime valid_to)) (\<lambda>until.
     bnd utcnow (\<lambda>now.
     write_scope (end_edge_body eid ten prj ev until now)))))))"

end
