(* ===== verification/Graph_Query.thy ===== *)
theory Graph_Query
  imports Graph
begin

section \<open>graph.py: queries and traversals\<close>

text \<open>
  The reading half of \<open>Graph\<close>: filtered lists of nodes and edges, the bounded breadth-first
  traversal that measures what an invalidation reaches, the shortest typed path and the
  provenance trail. The loops over a queue are recursive functions on the queue; their
  termination is proved from the depth bound by a multiset order, since what is queued is one
  step deeper than what was taken.
\<close>

subsection \<open>Filters\<close>

text \<open>\<open>(valid_from IS NULL OR valid_from <= ?) AND (valid_to IS NULL OR valid_to > ?)\<close>\<close>

definition valid_window :: "pstr option \<Rightarrow> pstr option \<Rightarrow> pstr \<Rightarrow> bool" where
  "valid_window from until at_time \<longleftrightarrow> (case from of None \<Rightarrow> True | Some f \<Rightarrow> f \<le> at_time)
     \<and> (case until of None \<Rightarrow> True | Some u \<Rightarrow> at_time < u)"

definition check_entity_type :: "pyval \<Rightarrow> exn + unit" where
  "check_entity_type v = guard (v = PNone \<or> in_vocabulary v ENTITY_TYPES) ValueError"

definition matches :: "pstr option \<Rightarrow> pstr \<Rightarrow> bool" where
  "matches wanted x \<longleftrightarrow> wanted = None \<or> wanted = Some x"

text \<open>The status filter: \<open>None\<close> for no filter.\<close>

definition status_filter :: "pyval \<Rightarrow> exn + pstr list option" where
  "status_filter v = (case v of
     PNone \<Rightarrow> Inr None
   | PStr s \<Rightarrow> require (s \<noteq> []) ValueError (Inr (Some [s]))
   | PList vs \<Rightarrow> require (list_all nonempty_string vs) ValueError (Inr (Some (map text_of vs)))
   | _ \<Rightarrow> Inl ValueError)"

definition current_rows :: "pstr \<Rightarrow> pstr option \<Rightarrow> pstr option \<Rightarrow> pstr list option \<Rightarrow> pstr option \<Rightarrow> node_row list \<Rightarrow> node_row list" where
  "current_rows project tenant kind statuses valid_at =
     filter (\<lambda>r. n_project_id r = project \<and> n_tx_to r = None
       \<and> matches tenant (n_tenant_id r) \<and> matches kind (n_entity_type r)
       \<and> (case statuses of None \<Rightarrow> True | Some ss \<Rightarrow> n_status r \<in> Some ` set ss)
       \<and> (case valid_at of None \<Rightarrow> True | Some t \<Rightarrow> valid_window (n_valid_from r) (n_valid_to r) t))"

definition current :: "pyval \<Rightarrow> pyval \<Rightarrow> pyval \<Rightarrow> pyval \<Rightarrow> pyval \<Rightarrow> ('z graph_st_scheme, node list) op" where
  "current project kind status valid_at tenant =
     bnd (lift (validate_public_identifier project)) (\<lambda>prj.
     bnd (lift (optional_identifier tenant)) (\<lambda>ten.
     bnd (lift (check_entity_type kind)) (\<lambda>_.
     bnd (lift (status_filter status)) (\<lambda>statuses.
     if statuses = Some [] then ret []
     else bnd (lift (validate_optional_datetime valid_at)) (\<lambda>t.
       bnd (rd nodes) (\<lambda>rows. lift (rmap node_dict (current_rows prj ten (opt_text kind) statuses t rows))))))))"

text \<open>What was believed at a transaction time: each row whose transaction interval holds it.\<close>

definition believed_at :: "pstr \<Rightarrow> node_row \<Rightarrow> bool" where
  "believed_at t r \<longleftrightarrow> n_tx_from r \<le> t \<and> (case n_tx_to r of None \<Rightarrow> True | Some e \<Rightarrow> t < e)"

definition as_of_rows :: "pstr \<Rightarrow> pstr \<Rightarrow> pstr option \<Rightarrow> pstr option \<Rightarrow> node_row list \<Rightarrow> node_row list" where
  "as_of_rows project t kind tenant =
     filter (\<lambda>r. n_project_id r = project \<and> believed_at t r \<and> matches tenant (n_tenant_id r) \<and> matches kind (n_entity_type r))"

definition as_of :: "pyval \<Rightarrow> pyval \<Rightarrow> pyval \<Rightarrow> pyval \<Rightarrow> ('z graph_st_scheme, node list) op" where
  "as_of project tx_time kind tenant =
     bnd (lift (validate_public_identifier project)) (\<lambda>prj.
     bnd (lift (optional_identifier tenant)) (\<lambda>ten.
     bnd (chk (is_rfc3339_datetime tx_time) ValueError) (\<lambda>_.
     bnd (lift (check_entity_type kind)) (\<lambda>_.
     bnd (rd nodes) (\<lambda>rows. lift (rmap node_dict (as_of_rows prj (text_of tx_time) (opt_text kind) ten rows)))))))"

text \<open>An endpoint is in scope when a current node or an event of the edge's tenant and project
  carries its identifier.\<close>

definition endpoint_in_scope :: "pstr \<Rightarrow> edge_row \<Rightarrow> 'z graph_st_scheme \<Rightarrow> bool" where
  "endpoint_in_scope ref r s \<longleftrightarrow>
     (\<exists>n \<in> set (nodes s). n_id n = ref \<and> n_tx_to n = None \<and> n_tenant_id n = g_tenant_id r \<and> n_project_id n = g_project_id r)
   \<or> (\<exists>e \<in> set (events s). e_id e = ref \<and> e_tenant_id e = g_tenant_id r \<and> e_project_id e = g_project_id r)"

text \<open>Which end of an edge a query fixes.\<close>

datatype side = Outgoing | Incoming

definition near :: "side \<Rightarrow> edge_row \<Rightarrow> pstr" where
  "near d r = (case d of Outgoing \<Rightarrow> g_src_id r | Incoming \<Rightarrow> g_dst_id r)"

definition far :: "side \<Rightarrow> edge_row \<Rightarrow> pstr" where
  "far d r = (case d of Outgoing \<Rightarrow> g_dst_id r | Incoming \<Rightarrow> g_src_id r)"

definition edge_selected :: "side \<Rightarrow> pstr \<Rightarrow> pstr \<times> pstr \<Rightarrow> pstr list option \<Rightarrow> pstr \<Rightarrow> 'z graph_st_scheme \<Rightarrow> edge_row \<Rightarrow> bool" where
  "edge_selected d nid anchor kinds now s r \<longleftrightarrow>
     near d r = nid \<and> g_tx_to r = None \<and> (g_tenant_id r, g_project_id r) = anchor
     \<and> endpoint_in_scope (far d r) r s \<and> valid_window (g_valid_from r) (g_valid_to r) now
     \<and> (case kinds of None \<Rightarrow> True | Some ks \<Rightarrow> g_edge_type r \<in> set ks)"

definition edges_for :: "side \<Rightarrow> pyval \<Rightarrow> pstr list option \<Rightarrow> pyval \<Rightarrow> ('z graph_st_scheme, edge list) op" where
  "edges_for d node_id kinds valid_at =
     bnd (lift (validate_public_identifier node_id)) (\<lambda>nid.
     bnd (lift (validate_optional_datetime valid_at)) (\<lambda>given.
     bnd (chk (case kinds of None \<Rightarrow> True | Some ks \<Rightarrow> set ks \<subseteq> set EDGE_TYPES) ValueError) (\<lambda>_.
     if kinds = Some [] then ret []
     else bnd (case given of None \<Rightarrow> utcnow | Some t \<Rightarrow> ret t) (\<lambda>now.
       bnd (reference_scope nid) (\<lambda>found. case found of
         None \<Rightarrow> ret []
       | Some anchor \<Rightarrow> bnd (rd (\<lambda>s. filter (edge_selected d nid anchor kinds now s) (edges s))) (\<lambda>rows.
           lift (rmap edge_dict rows)))))))"

abbreviation out_edges :: "pyval \<Rightarrow> pstr list option \<Rightarrow> pyval \<Rightarrow> ('z graph_st_scheme, edge list) op" where
  "out_edges \<equiv> edges_for Outgoing"

abbreviation in_edges :: "pyval \<Rightarrow> pstr list option \<Rightarrow> pyval \<Rightarrow> ('z graph_st_scheme, edge list) op" where
  "in_edges \<equiv> edges_for Incoming"

definition current_edges :: "pyval \<Rightarrow> pyval \<Rightarrow> pyval \<Rightarrow> ('z graph_st_scheme, edge list) op" where
  "current_edges project event_derived_only tenant =
     bnd (lift (validate_public_identifier project)) (\<lambda>prj.
     bnd (lift (optional_identifier tenant)) (\<lambda>ten.
     bnd (chk (is_bool event_derived_only) ValueError) (\<lambda>_.
     bnd (rd (\<lambda>s. filter (\<lambda>r. g_project_id r = prj \<and> g_tx_to r = None
         \<and> endpoint_in_scope (g_src_id r) r s \<and> endpoint_in_scope (g_dst_id r) r s
         \<and> matches ten (g_tenant_id r) \<and> (truthy event_derived_only \<longrightarrow> g_event_id r \<noteq> None)) (edges s))) (\<lambda>rows.
     lift (rmap edge_dict rows)))))"

definition stats :: "pstr \<Rightarrow> 'z graph_st_scheme \<Rightarrow> nat \<times> nat" where
  "stats project s = (length (filter (\<lambda>r. n_project_id r = project \<and> n_tx_to r = None) (nodes s)),
     length (filter (\<lambda>r. g_project_id r = project \<and> g_tx_to r = None) (edges s)))"

subsection \<open>dependents\<close>

record reached =
  q_id :: pstr
  q_depth :: nat
  q_strength :: rat
  q_path :: "pstr list"
  q_via :: pstr

text \<open>\<open>d[k] = v\<close> on a dictionary as a list: an existing key keeps its place.\<close>

fun put_key :: "('k \<times> 'v) list \<Rightarrow> 'k \<Rightarrow> 'v \<Rightarrow> ('k \<times> 'v) list" where
  "put_key [] k v = [(k, v)]"
| "put_key ((k', v') # d) k v = (if k' = k then (k, v) # d else (k', v') # put_key d k v)"

record traversal =
  t_seen :: "(pstr \<times> rat) list"
  t_best :: "(pstr \<times> reached) list"
  t_queue :: "(pstr \<times> nat \<times> rat \<times> pstr list) list"

text \<open>The body of the inner loop over the edges into the node taken from the queue.\<close>

definition weaker_known :: "(pstr \<times> rat) list \<Rightarrow> pstr \<Rightarrow> rat \<Rightarrow> bool" where
  "weaker_known seen nxt s = (case map_of seen nxt of None \<Rightarrow> False | Some s' \<Rightarrow> s \<le> s')"

fun relax :: "(pstr \<times> rat) list \<Rightarrow> rat \<Rightarrow> nat \<Rightarrow> nat \<Rightarrow> rat \<Rightarrow> pstr list \<Rightarrow> edge list \<Rightarrow> traversal \<Rightarrow> exn + traversal" where
  "relax weights min_strength max_nodes dp strength path [] t = Inr t"
| "relax weights min_strength max_nodes dp strength path (e # es) t =
     (let nxt = g_src_id (ed_row e); kind = g_edge_type (ed_row e);
          s = fmul (fmul strength (the (map_of weights kind))) (g_strength (ed_row e))
      in if s < min_strength \<or> weaker_known (t_seen t) nxt s
         then relax weights min_strength max_nodes dp strength path es t
         else (let best = put_key (t_best t) nxt \<lparr>q_id = nxt, q_depth = dp + 1, q_strength = round4 s,
                     q_path = path @ [nxt], q_via = kind\<rparr>
               in if max_nodes < length best then Inl TraversalBudgetExceeded
                  else relax weights min_strength max_nodes dp strength path es
                    \<lparr>t_seen = put_key (t_seen t) nxt s, t_best = best,
                     t_queue = t_queue t @ [(nxt, dp + 1, s, path @ [nxt])]\<rparr>))"

text \<open>What the inner loop appends to the queue is one step deeper.\<close>

lemma relax_queue:
  "relax weights mn mx dp str path es t = Inr t' \<Longrightarrow>
   \<exists>new. t_queue t' = t_queue t @ new \<and> (\<forall>(n, d, _) \<in> set new. d = Suc dp)"
proof (induction es arbitrary: t)
  case (Cons e es)
  then show ?case by (fastforce simp: Let_def split: if_splits)
qed simp

definition queue_measure :: "nat \<Rightarrow> (pstr \<times> nat \<times> 'x) list \<Rightarrow> nat multiset" where
  "queue_measure max_depth q = image_mset (\<lambda>(_, d, _). max_depth - d) (mset q)"

lemma queue_measure_drop: "(queue_measure m q, queue_measure m (x # q)) \<in> mult less_than"
  using one_step_implies_mult [of "queue_measure m [x]" "{#}" less_than "queue_measure m q"]
  by (simp add: queue_measure_def)

lemma queue_measure_grow:
  assumes "d < m" "\<forall>(n, d', _) \<in> set new. d' = Suc d"
  shows "(queue_measure m (q @ new), queue_measure m ((n, d, y) # q)) \<in> mult less_than"
proof -
  have "\<forall>k \<in> set_mset (queue_measure m new). \<exists>j \<in> set_mset {#m - d#}. (k, j) \<in> less_than"
    using assms by (auto simp: queue_measure_def)
  then have "(queue_measure m q + queue_measure m new, queue_measure m q + {#m - d#}) \<in> mult less_than"
    by (intro one_step_implies_mult) auto
  then show ?thesis by (simp add: queue_measure_def add.commute)
qed

lemma relax_measure:
  assumes "relax weights mn mx dp str path es (t\<lparr>t_queue := rest\<rparr>) = Inr t'" "\<not> m \<le> dp"
  shows "(queue_measure m (t_queue t'), queue_measure m ((cur, dp, y) # rest)) \<in> mult less_than"
proof -
  obtain new where "t_queue t' = rest @ new" "\<forall>(n, d, _) \<in> set new. d = Suc dp"
    using relax_queue [OF assms(1)] by auto
  then show ?thesis using queue_measure_grow [of dp m new rest cur y] assms(2) by simp
qed

function dependents_loop :: "(pstr \<times> rat) list \<Rightarrow> rat \<Rightarrow> nat \<Rightarrow> nat \<Rightarrow> traversal \<Rightarrow> ('z graph_st_scheme, (pstr \<times> reached) list) op" where
  "dependents_loop weights min_strength max_nodes max_depth t s = (case t_queue t of
     [] \<Rightarrow> (Inr (t_best t), s)
   | (cur, dp, strength, path) # rest \<Rightarrow>
       if max_depth \<le> dp then dependents_loop weights min_strength max_nodes max_depth (t\<lparr>t_queue := rest\<rparr>) s
       else (case in_edges (PStr cur) (Some (map fst weights)) PNone s of
           (Inl e, s') \<Rightarrow> (Inl e, s')
         | (Inr es, s') \<Rightarrow>
             (case relax weights min_strength max_nodes dp strength path es (t\<lparr>t_queue := rest\<rparr>) of
               Inl e \<Rightarrow> (Inl e, s')
             | Inr t' \<Rightarrow> dependents_loop weights min_strength max_nodes max_depth t' s')))"
  by pat_completeness auto
termination
proof (relation "inv_image (mult less_than) (\<lambda>(w, mn, mx, md, t, s). queue_measure md (t_queue t))")
  show "wf (inv_image (mult less_than) (\<lambda>(w, mn, mx, md, t, s). queue_measure md (t_queue t)))"
    by (intro wf_inv_image wf_mult) simp
qed (auto simp: queue_measure_drop intro: relax_measure)

declare dependents_loop.simps [simp del]

text \<open>The propagation weights: the defaults, or a checked dictionary of the caller.\<close>

definition propagation_weights :: "pyval \<Rightarrow> exn + (pstr \<times> rat) list" where
  "propagation_weights v = (case v of
     PNone \<Rightarrow> Inr PROPAGATION_EDGES
   | PDict d \<Rightarrow> rmap (\<lambda>(k, w). require (in_vocabulary k EDGE_TYPES) ValueError
       (require (unit_number w) (unit_refusal w) (Inr (text_of k, the (number w))))) d
   | _ \<Rightarrow> Inl ValueError)"

definition natural :: "pyval \<Rightarrow> exn + nat" where
  "natural v = (case v of PInt n \<Rightarrow> require (0 \<le> n) ValueError (Inr (nat n)) | _ \<Rightarrow> Inl ValueError)"

definition dependents :: "pyval \<Rightarrow> pyval \<Rightarrow> pyval \<Rightarrow> pyval \<Rightarrow> pyval \<Rightarrow> ('z graph_st_scheme, reached list) op" where
  "dependents node_id max_depth max_nodes edge_types min_strength =
     bnd (lift (validate_public_identifier node_id)) (\<lambda>nid.
     bnd (lift (natural max_depth)) (\<lambda>md.
     bnd (lift (natural max_nodes)) (\<lambda>mx.
     bnd (chk (unit_number min_strength) (unit_refusal min_strength)) (\<lambda>_.
     bnd (lift (propagation_weights edge_types)) (\<lambda>weights.
     if weights = [] then ret []
     else bnd (dependents_loop weights (the (number min_strength)) mx md
         \<lparr>t_seen = [(nid, 1)], t_best = [], t_queue = [(nid, 0, 1, [nid])]\<rparr>) (\<lambda>best.
       ret (sort_key q_depth (sort_key (\<lambda>q. - q_strength q) (map snd best)))))))))"

subsection \<open>causal_path\<close>

record hop =
  h_from :: pstr
  h_to :: pstr
  h_edge_type :: pstr
  h_outgoing :: bool

type_synonym path_queue = "(pstr \<times> hop list) list"

text \<open>The inner loop: \<open>Inl\<close> is the path found, \<open>Inr\<close> the nodes seen and what was queued.\<close>

fun expand_paths :: "pstr \<Rightarrow> pstr \<Rightarrow> hop list \<Rightarrow> edge list \<Rightarrow> pstr list \<Rightarrow> path_queue \<Rightarrow> hop list + pstr list \<times> path_queue" where
  "expand_paths dst cur path [] seen queue = Inr (seen, queue)"
| "expand_paths dst cur path (e # es) seen queue =
     (let out = (g_src_id (ed_row e) = cur); nxt = (if out then g_dst_id (ed_row e) else g_src_id (ed_row e));
          step = \<lparr>h_from = cur, h_to = nxt, h_edge_type = g_edge_type (ed_row e), h_outgoing = out\<rparr>
      in if nxt \<in> set seen then expand_paths dst cur path es seen queue
         else if nxt = dst then Inl (path @ [step])
         else expand_paths dst cur path es (nxt # seen) (queue @ [(nxt, path @ [step])]))"

lemma expand_paths_queue:
  "expand_paths dst cur path es seen queue = Inr (seen', queue') \<Longrightarrow>
   \<exists>new. queue' = queue @ new \<and> (\<forall>(n, p) \<in> set new. length p = Suc (length path))"
proof (induction es arbitrary: seen queue)
  case (Cons e es)
  then show ?case by (fastforce simp: Let_def split: if_splits)
qed simp

definition path_depths :: "path_queue \<Rightarrow> (pstr \<times> nat \<times> unit) list" where
  "path_depths q = map (\<lambda>(n, p). (n, length p, ())) q"

lemma path_depths_simps: "path_depths ((n, p) # q) = (n, length p, ()) # path_depths q"
  "path_depths (q @ r) = path_depths q @ path_depths r"
  by (simp_all add: path_depths_def)

lemma path_measure_grow:
  assumes "expand_paths dst cur path es seen queue = Inr (seen', queue')" "length path < m"
  shows "(queue_measure m (path_depths queue'), queue_measure m (path_depths ((n, path) # queue))) \<in> mult less_than"
proof -
  obtain new where new: "queue' = queue @ new" "\<forall>(n, p) \<in> set new. length p = Suc (length path)"
    using expand_paths_queue [OF assms(1)] by blast
  have "\<forall>(n, d', _) \<in> set (path_depths new). d' = Suc (length path)"
    using new(2) by (auto simp: path_depths_def)
  from queue_measure_grow [OF assms(2) this] show ?thesis by (simp add: new(1) path_depths_simps)
qed

function causal_path_loop :: "pstr \<Rightarrow> nat \<Rightarrow> pstr list \<Rightarrow> path_queue \<Rightarrow> ('z graph_st_scheme, hop list option) op" where
  "causal_path_loop dst max_depth seen [] s = (Inr None, s)"
| "causal_path_loop dst max_depth seen ((cur, path) # rest) s =
     (if max_depth \<le> length path then causal_path_loop dst max_depth seen rest s
      else (case bnd (out_edges (PStr cur) None PNone) (\<lambda>a. bnd (in_edges (PStr cur) None PNone) (\<lambda>b. ret (a @ b))) s of
          (Inl e, s') \<Rightarrow> (Inl e, s')
        | (Inr es, s') \<Rightarrow> (case expand_paths dst cur path es seen rest of
              Inl found \<Rightarrow> (Inr (Some found), s')
            | Inr (seen', queue) \<Rightarrow> causal_path_loop dst max_depth seen' queue s')))"
  by pat_completeness auto
termination
proof (relation "inv_image (mult less_than) (\<lambda>(dst, m, seen, q, s). queue_measure m (path_depths q))")
  show "wf (inv_image (mult less_than) (\<lambda>(dst, m, seen, q, s). queue_measure m (path_depths q)))"
    by (intro wf_inv_image wf_mult) simp
next
  fix dst m seen cur path rest s es s' seen' queue x y
  assume "\<not> m \<le> length path" "expand_paths dst cur path es seen rest = Inr x" "(seen', queue) = x"
  then show "((dst, m, seen', queue, s'), dst, m, seen, (cur, path) # rest, s)
      \<in> inv_image (mult less_than) (\<lambda>(dst, m, seen, q, s). queue_measure m (path_depths q))"
    using path_measure_grow [of dst cur path es seen rest seen' queue m] by simp
qed (simp add: path_depths_simps queue_measure_drop)

declare causal_path_loop.simps [simp del]

definition causal_path :: "pyval \<Rightarrow> pyval \<Rightarrow> pyval \<Rightarrow> ('z graph_st_scheme, hop list option) op" where
  "causal_path src_id dst_id max_depth =
     bnd (lift (validate_public_identifier src_id)) (\<lambda>src.
     bnd (lift (validate_public_identifier dst_id)) (\<lambda>dst.
     bnd (lift (natural max_depth)) (\<lambda>md.
     causal_path_loop dst md [src] [(src, [])])))"

subsection \<open>provenance\<close>

record source_ref =
  s_node_id :: pstr
  s_entity_type :: pstr
  s_relation :: pstr
  s_depth :: nat
  s_summary :: pyval

record version_ref =
  r_version :: nat
  r_tx_from :: pstr
  r_tx_to :: "pstr option"
  r_status :: "pstr option"
  r_event_id :: "pstr option"
  r_source :: "event_row option"

record trail =
  p_node :: node_row
  p_versions :: "version_ref list"
  p_sources :: "source_ref list"

definition version_entry :: "node \<Rightarrow> ('z graph_st_scheme, version_ref) op" where
  "version_entry v = (let r = nd_row v in
     bnd (case n_event_id r of
         None \<Rightarrow> ret None
       | Some e \<Rightarrow> if e = [] then ret None
           else catch (bnd (get_event e None None) (\<lambda>(ev, _). ret (Some ev))) (\<lambda>x. x = KeyError) (\<lambda>_. ret None)) (\<lambda>src.
     ret \<lparr>r_version = n_version r, r_tx_from = n_tx_from r, r_tx_to = n_tx_to r, r_status = n_status r,
       r_event_id = n_event_id r, r_source = src\<rparr>))"

text \<open>\<open>a or b or c\<close>, on values read with \<open>get\<close>.\<close>

definition first_truthy :: "pydict \<Rightarrow> string list \<Rightarrow> pyval" where
  "first_truthy d ks = foldr (\<lambda>k rest. if truthy (dget_none d (lit k)) then dget_none d (lit k) else rest)
     (butlast ks) (dget_none d (lit (last ks)))"

definition node_fields :: "node \<Rightarrow> pydict" where
  "node_fields n = (case nd_data n of PDict d \<Rightarrow> d | _ \<Rightarrow> [])"

text \<open>The inner loop over the edges of the node taken from the queue: an unseen source that
  is a current node is recorded and queued, one that is not (an event) is only marked seen.\<close>

fun expand_sources :: "nat \<Rightarrow> edge list \<Rightarrow> pstr list \<Rightarrow> source_ref list \<Rightarrow> (pstr \<times> nat) list
    \<Rightarrow> ('z graph_st_scheme, pstr list \<times> source_ref list \<times> (pstr \<times> nat) list) op" where
  "expand_sources dp [] seen out queue = ret (seen, out, queue)"
| "expand_sources dp (e # es) seen out queue =
     (let r = ed_row e; src = (if g_edge_type r = lit ''derived_from'' then g_dst_id r else g_src_id r) in
      if src \<in> set seen then expand_sources dp es seen out queue
      else bnd (catch (bnd (get_node src None None None None) (\<lambda>n. ret (Some n))) (\<lambda>x. x = KeyError) (\<lambda>_. ret None)) (\<lambda>found.
        case found of
          None \<Rightarrow> expand_sources dp es (src # seen) out queue
        | Some n \<Rightarrow> expand_sources dp es (src # seen)
            (out @ [\<lparr>s_node_id = src, s_entity_type = n_entity_type (nd_row n), s_relation = g_edge_type r,
               s_depth = dp + 1, s_summary = first_truthy (node_fields n) [''statement'', ''title'', ''name'']\<rparr>])
            (queue @ [(src, dp + 1)])))"

lemma expand_sources_queue:
  "expand_sources dp es seen out queue s = (Inr (seen', out', queue'), s') \<Longrightarrow>
   \<exists>new. queue' = queue @ new \<and> (\<forall>(n, d) \<in> set new. d = Suc dp)"
proof (induction es arbitrary: seen out queue s)
  case Nil
  then show ?case by (simp add: ret_def)
next
  case (Cons e es)
  then show ?case
    by (fastforce simp: Let_def bnd_eq_Inr split: if_splits option.splits)
qed

definition source_depths :: "(pstr \<times> nat) list \<Rightarrow> (pstr \<times> nat \<times> unit) list" where
  "source_depths q = map (\<lambda>(n, d). (n, d, ())) q"

lemma source_depths_simps: "source_depths ((n, d) # q) = (n, d, ()) # source_depths q"
  "source_depths (q @ r) = source_depths q @ source_depths r"
  by (simp_all add: source_depths_def)

lemma source_measure_grow:
  assumes "expand_sources dp es seen out queue s = (Inr (seen', out', queue'), s')" "dp < m"
  shows "(queue_measure m (source_depths queue'), queue_measure m (source_depths ((n, dp) # queue))) \<in> mult less_than"
proof -
  obtain new where new: "queue' = queue @ new" "\<forall>(n, d) \<in> set new. d = Suc dp"
    using expand_sources_queue [OF assms(1)] by blast
  have "\<forall>(n, d', _) \<in> set (source_depths new). d' = Suc dp"
    using new(2) by (auto simp: source_depths_def)
  from queue_measure_grow [OF assms(2) this] show ?thesis by (simp add: new(1) source_depths_simps)
qed

lemma source_step_measure:
  assumes "(Inr (seen', out', queue), s') = bnd m (\<lambda>a. bnd (k a) (\<lambda>b. expand_sources dp (a @ b) seen out rest)) s"
    and "\<not> md \<le> dp"
  shows "(queue_measure md (source_depths queue), queue_measure md ((cur, dp, ()) # source_depths rest)) \<in> mult less_than"
  using assms(1) [symmetric] assms(2) source_measure_grow [of dp _ seen out rest _ seen' out' queue s' md cur]
  by (auto simp: bnd_eq_Inr source_depths_simps)

function sources_loop :: "nat \<Rightarrow> pstr list \<Rightarrow> source_ref list \<Rightarrow> (pstr \<times> nat) list
    \<Rightarrow> ('z graph_st_scheme, source_ref list) op" where
  "sources_loop max_depth seen out [] s = (Inr out, s)"
| "sources_loop max_depth seen out ((cur, dp) # rest) s =
     (if max_depth \<le> dp then sources_loop max_depth seen out rest s
      else (case bnd (out_edges (PStr cur) (Some [lit ''derived_from'']) PNone) (\<lambda>a.
                 bnd (in_edges (PStr cur) (Some [lit ''supports'']) PNone) (\<lambda>b.
                 expand_sources dp (a @ b) seen out rest)) s of
          (Inl e, s') \<Rightarrow> (Inl e, s')
        | (Inr (seen', out', queue), s') \<Rightarrow> sources_loop max_depth seen' out' queue s'))"
  by pat_completeness auto
termination
proof (relation "inv_image (mult less_than) (\<lambda>(m, seen, out, q, s). queue_measure m (source_depths q))")
  show "wf (inv_image (mult less_than) (\<lambda>(m, seen, out, q, s). queue_measure m (source_depths q)))"
    by (intro wf_inv_image wf_mult) simp
qed (auto simp: source_depths_simps queue_measure_drop intro: source_step_measure)

declare sources_loop.simps [simp del]

definition provenance :: "pstr \<Rightarrow> nat \<Rightarrow> ('z graph_st_scheme, trail) op" where
  "provenance node_id max_depth =
     bnd (get_node node_id None None None None) (\<lambda>n.
     bnd (history_of node_id None None) (\<lambda>vs.
     bnd (map_each vs version_entry) (\<lambda>versions.
     bnd (sources_loop max_depth [node_id] [] [(node_id, 0)]) (\<lambda>sources.
     ret \<lparr>p_node = nd_row n, p_versions = versions, p_sources = sources\<rparr>))))"

end
