(* ===== verification/Glob.thy ===== *)
theory Glob
  imports PyVal
begin

section \<open>fnmatch.fnmatchcase and str.strip\<close>

text \<open>
  The two pieces of Python's text library that the grant scopes of the policy rest on. A
  pattern is read as \<open>fnmatch.translate\<close> reads it: \<open>*\<close> is any run, \<open>?\<close> any character, a
  bracket expression a set of characters with ranges, a bracket without an end a literal.
\<close>

text \<open>\<open>str.isspace\<close> on one character, as \<open>str.strip()\<close> uses it.\<close>

definition py_space :: "nat \<Rightarrow> bool" where
  "py_space c \<longleftrightarrow> (9 \<le> c \<and> c \<le> 13) \<or> (28 \<le> c \<and> c \<le> 32) \<or> (0x2000 \<le> c \<and> c \<le> 0x200A)
     \<or> c \<in> {0x85, 0xA0, 0x1680, 0x2028, 0x2029, 0x202F, 0x205F, 0x3000}"

definition strip :: "pstr \<Rightarrow> pstr" where
  "strip s = rev (dropWhile py_space (rev (dropWhile py_space s)))"

text \<open>\<open>not s.strip()\<close>, and \<open>isinstance(v, str) and v.strip()\<close>.\<close>

definition blank :: "pstr \<Rightarrow> bool" where
  "blank s \<longleftrightarrow> strip s = []"

fun solid_text :: "pyval \<Rightarrow> bool" where
  "solid_text (PStr s) = (\<not> blank s)"
| "solid_text _ = False"

text \<open>\<open>s.split(c)\<close> for one character.\<close>

fun split_on :: "nat \<Rightarrow> pstr \<Rightarrow> pstr list" where
  "split_on c [] = [[]]"
| "split_on c (x # xs) = (if x = c then [] # split_on c xs
     else (case split_on c xs of [] \<Rightarrow> [[x]] | p # ps \<Rightarrow> (x # p) # ps))"

text \<open>The chunks of a bracket expression between the hyphens that form ranges: a hyphen counts
  from the second character of a chunk on, and the character after it belongs to the next chunk.\<close>

fun chunks_from :: "pstr \<Rightarrow> nat \<Rightarrow> pstr \<Rightarrow> pstr list" where
  "chunks_from acc skip [] = (if acc = [] then [] else [acc])"
| "chunks_from acc skip (c # cs) =
     (if skip = 0 \<and> c = 45 then (if cs = [] then [acc @ [45]] else acc # chunks_from [] 2 cs)
      else chunks_from (acc @ [c]) (skip - 1) cs)"

text \<open>Ranges that run backwards are removed, from the last on.\<close>

fun drop_empty_ranges :: "pstr list \<Rightarrow> pstr list" where
  "drop_empty_ranges [] = []"
| "drop_empty_ranges (c # cs) = (case drop_empty_ranges cs of
     [] \<Rightarrow> [c]
   | d # ds \<Rightarrow> if hd d < last c then (butlast c @ tl d) # ds else c # d # ds)"

definition bracket_chunks :: "pstr \<Rightarrow> pstr list" where
  "bracket_chunks body = (if 45 \<notin> set body then [body] else drop_empty_ranges (chunks_from [] 1 body))"

fun in_chunks :: "nat \<Rightarrow> pstr list \<Rightarrow> bool" where
  "in_chunks x [] = False"
| "in_chunks x [c] = (x \<in> set c)"
| "in_chunks x (c # d # ds) = (x \<in> set c \<or> (c \<noteq> [] \<and> d \<noteq> [] \<and> last c \<le> x \<and> x \<le> hd d) \<or> in_chunks x (d # ds))"

datatype glob = GAny | GOne | GChar nat | GSet bool "pstr list"

text \<open>The bracket expression that starts after \<open>[\<close>: its body and what follows, or \<open>None\<close>
  without an end. The first character after \<open>[\<close> or \<open>[!\<close> belongs to the body.\<close>

definition close_bracket :: "nat \<Rightarrow> pstr \<Rightarrow> (pstr \<times> pstr) option" where
  "close_bracket k q = (case dropWhile (\<lambda>c. c \<noteq> 93) (drop k q) of
     [] \<Rightarrow> None | _ # rest \<Rightarrow> Some (take k q @ takeWhile (\<lambda>c. c \<noteq> 93) (drop k q), rest))"

definition bracket_body :: "pstr \<Rightarrow> (pstr \<times> pstr) option" where
  "bracket_body q = close_bracket (if q \<noteq> [] \<and> hd q = 93 then 1 else 0) q"

definition bracket :: "pstr \<Rightarrow> (bool \<times> pstr \<times> pstr) option" where
  "bracket p = (let neg = (p \<noteq> [] \<and> hd p = 33)
     in case bracket_body (if neg then tl p else p) of None \<Rightarrow> None | Some (body, rest) \<Rightarrow> Some (neg, body, rest))"

lemma close_bracket_shorter:
  assumes "close_bracket k q = Some (body, rest)"
  shows "length rest < length q"
proof -
  obtain c where c: "dropWhile (\<lambda>c. c \<noteq> 93) (drop k q) = c # rest"
    using assms by (cases "dropWhile (\<lambda>c. c \<noteq> 93) (drop k q)") (simp_all add: close_bracket_def)
  have "length (c # rest) \<le> length (drop k q)" unfolding c [symmetric] by (rule length_dropWhile_le)
  then show ?thesis by simp
qed

lemma bracket_shorter:
  assumes "bracket p = Some (neg, body, rest)"
  shows "length rest < length p"
proof -
  obtain q where "bracket_body q = Some (body, rest)" "length q \<le> length p"
    using assms by (auto simp: bracket_def Let_def split: option.splits if_splits)
  then show ?thesis unfolding bracket_body_def using close_bracket_shorter by fastforce
qed

function parse_glob :: "pstr \<Rightarrow> glob list" where
  "parse_glob [] = []"
| "parse_glob (c # p) =
     (if c = 42 then GAny # parse_glob p
      else if c = 63 then GOne # parse_glob p
      else if c = 91 then (case bracket p of
          None \<Rightarrow> GChar 91 # parse_glob p
        | Some (neg, body, rest) \<Rightarrow> GSet neg (bracket_chunks body) # parse_glob rest)
      else GChar c # parse_glob p)"
  by pat_completeness auto
termination by (relation "measure length") (auto dest: bracket_shorter)

fun glob_match :: "glob list \<Rightarrow> pstr \<Rightarrow> bool" where
  "glob_match [] s = (s = [])"
| "glob_match (GAny # g) [] = glob_match g []"
| "glob_match (GAny # g) (c # s) = (glob_match g (c # s) \<or> glob_match (GAny # g) s)"
| "glob_match (_ # g) [] = False"
| "glob_match (GOne # g) (c # s) = glob_match g s"
| "glob_match (GChar k # g) (c # s) = (c = k \<and> glob_match g s)"
| "glob_match (GSet neg cs # g) (c # s) = (in_chunks c cs \<noteq> neg \<and> glob_match g s)"

definition fnmatchcase :: "pstr \<Rightarrow> pstr \<Rightarrow> bool" where
  "fnmatchcase name pat = glob_match (parse_glob pat) name"

end
