(* ===== verification/Policy.thy ===== *)
theory Policy
  imports Graph_Query Glob
begin

section \<open>policy.py: autonomy grants, downgrades and decisions\<close>

text \<open>
  The autonomy policy of a project: grants, downgrades and the configuration document, and
  the authorization decision computed from them. Columns that the code re-validates when it
  reads them (\<open>level\<close>, \<open>granted_by\<close>, \<open>scope\<close>, \<open>expires_at\<close>, \<open>ceiling\<close>, the revision) hold
  any value here, so that a directly edited row is within the model. The rendering of a value
  by \<open>repr\<close> in audit texts is a parameter \<open>py_repr\<close>.
\<close>

record grant_row =
  gr_id :: pstr
  gr_project_id :: pstr
  gr_level :: pyval
  gr_scope :: pyval
  gr_granted_by :: pyval
  gr_granted_at :: pstr
  gr_expires_at :: pyval
  gr_revoked_at :: "pstr option"
  gr_reason :: pyval

record downgrade_row =
  dg_seq :: nat
  dg_project_id :: pstr
  dg_ceiling :: pyval
  dg_trigger :: pstr
  dg_at :: pstr
  dg_cleared_at :: "pstr option"
  dg_cleared_by :: "pstr option"

record config_row =
  cf_project_id :: pstr
  cf_config :: pstr
  cf_revision :: pyval

record policy_st = graph_st +
  grants :: "grant_row list"
  downgrades :: "downgrade_row list"
  downgrade_seq :: nat
  project_policy :: "config_row list"

text \<open>The attributes of a \<open>PolicyEngine\<close>: the tenant it is bound to, whether it has a graph to
  look projects up in, and the tenant's cap on autonomy.\<close>

record policy_engine =
  pe_tenant :: "pstr option"
  pe_graph :: bool
  pe_tenant_max :: int

definition make_policy_engine :: "int \<Rightarrow> bool \<Rightarrow> pstr option \<Rightarrow> policy_engine" where
  "make_policy_engine tenant_max graph tenant =
     \<lparr>pe_tenant = tenant, pe_graph = graph, pe_tenant_max = min tenant_max MVP_MAX_AUTONOMY\<rparr>"

subsection \<open>Constants and small checks\<close>

definition DOWNGRADE_TRIGGERS :: "pstr list" where
  "DOWNGRADE_TRIGGERS = map lit
     [''migration'', ''anomalous_behavior'', ''failed_proof'', ''major_invalidation'',
      ''expired_approval'', ''policy_violation'']"

definition ACTION_CLASSES :: "(pstr \<times> int) list" where
  "ACTION_CLASSES = map (\<lambda>(a, n). (lit a, n))
     [(''observe'', 0), (''recommend'', 1), (''compose_packet'', 1), (''run_verifier'', 2),
      (''create_local_artifact'', 2), (''reversible_tool'', 2), (''create_branch'', 3),
      (''create_pr'', 3), (''update_pr'', 3), (''post_check'', 3), (''post_comment'', 3),
      (''merge'', 4), (''deploy'', 4), (''production_write'', 4), (''external_irreversible'', 4)]"

definition DEFAULT_CONFIG :: pydict where
  "DEFAULT_CONFIG =
     [(pkey ''max_autonomy_level'', PInt 2),
      (pkey ''require_proof_for'', PList [pkey ''task_complete'', pkey ''pr_ready'']),
      (pkey ''required_verifiers'', PList []),
      (pkey ''guarded_pr_enabled'', PBool False),
      (pkey ''min_evidence_grade'', pkey ''C''),
      (pkey ''trusted_verifier_apps'', PList []),
      (pkey ''trusted_workflows'', PList []),
      (pkey ''tracked_ref'', pkey ''refs/heads/main''),
      (pkey ''prose_may_mandate'', PBool False)]"

definition PROOF_REQUIRED_WITHOUT_VERIFIERS :: pstr where
  "PROOF_REQUIRED_WITHOUT_VERIFIERS = lit ''policy:proof-required-without-required-verifiers''"

definition proof_policy_verifier_gaps :: "pydict \<Rightarrow> pyval list \<Rightarrow> pstr list" where
  "proof_policy_verifier_gaps config verifier_definitions =
     (if truthy (dget_none config (lit ''require_proof_for'')) \<and> verifier_definitions = []
      then [PROOF_REQUIRED_WITHOUT_VERIFIERS] else [])"

definition APP_CONFIG_KEYS :: "pyval list" where
  "APP_CONFIG_KEYS = [pkey ''app_id'', pkey ''slug'']"

definition REVERSIBILITY_CLASSES :: "pstr list" where
  "REVERSIBILITY_CLASSES = map lit [''reversible'', ''compensable'', ''irreversible'']"

fun valid_autonomy_level :: "pyval \<Rightarrow> bool" where
  "valid_autonomy_level (PInt n) = (0 \<le> n \<and> n \<le> MVP_MAX_AUTONOMY)"
| "valid_autonomy_level _ = False"

definition validate_probability :: "pyval \<Rightarrow> exn + rat" where
  "validate_probability v = require (unit_number v) ValueError (Inr (the (number v)))"

definition validate_actor :: "pyval \<Rightarrow> exn + pstr" where
  "validate_actor v = rbind (validate_human_text PROJECT_NAME_MAX_LENGTH v) (\<lambda>a.
     require (\<not> blank a) ValueError (Inr a))"

text \<open>A GitHub App id or workflow id: a positive \<open>int\<close> that is not a \<open>bool\<close>.\<close>

fun positive_int :: "pyval \<Rightarrow> bool" where
  "positive_int (PInt n) = (0 < n)"
| "positive_int _ = False"

text \<open>Iterating over a value that was parsed from JSON, and \<open>.get\<close> on one.\<close>

definition iter_of :: "pyval \<Rightarrow> exn + pyval list" where
  "iter_of v = (case v of PList xs \<Rightarrow> Inr xs | PTuple xs \<Rightarrow> Inr xs | PDict d \<Rightarrow> Inr (map fst d)
     | PStr s \<Rightarrow> Inr (map (\<lambda>c. PStr [c]) s) | _ \<Rightarrow> Inl TypeError)"

definition dict_of :: "pyval \<Rightarrow> exn + pydict" where
  "dict_of v = (case v of PDict d \<Rightarrow> Inr d | _ \<Rightarrow> Inl AttributeError)"

definition dget_or :: "pydict \<Rightarrow> string \<Rightarrow> pyval \<Rightarrow> pyval" where
  "dget_or d k v = (case dget d (lit k) of None \<Rightarrow> v | Some x \<Rightarrow> x)"

subsection \<open>Trusted apps\<close>

text \<open>The loop of \<open>_normalise_trusted_apps\<close>: \<open>seen\<close> maps an app id to its slug.\<close>

fun normalise_apps :: "pyval list \<Rightarrow> (pyval \<times> pstr option) list \<Rightarrow> pyval list \<Rightarrow> exn + pyval list" where
  "normalise_apps [] seen out = Inr out"
| "normalise_apps (PDict e # es) seen out =
     require (set (map fst e) \<subseteq> set APP_CONFIG_KEYS) ValueError
     (let app_id = dget_none e (lit ''app_id''); raw = dget_none e (lit ''slug'') in
      require (positive_int app_id) ValueError
      (require (raw = PNone \<or> solid_text raw) ValueError
      (let slug = (if raw = PNone then None else Some (strip (text_of raw))) in
       case map_of seen app_id of
         Some known \<Rightarrow> require (known = slug) ValueError (normalise_apps es seen out)
       | None \<Rightarrow> normalise_apps es ((app_id, slug) # seen)
           (out @ [PDict ((pkey ''app_id'', app_id) # (case slug of None \<Rightarrow> [] | Some s \<Rightarrow> [(pkey ''slug'', PStr s)]))]))))"
| "normalise_apps (_ # es) seen out = Inl ValueError"

definition normalise_trusted_apps :: "pyval \<Rightarrow> exn + pyval list" where
  "normalise_trusted_apps v = (case v of PList es \<Rightarrow> normalise_apps es [] [] | _ \<Rightarrow> Inl ValueError)"

subsection \<open>Configuration\<close>

definition require_project :: "policy_engine \<Rightarrow> pyval \<Rightarrow> ('z policy_st_scheme, unit) op" where
  "require_project pe project =
     bnd (lift (validate_public_identifier project)) (\<lambda>prj. case pe_tenant pe of
       None \<Rightarrow> ret ()
     | Some tenant \<Rightarrow>
         bnd (chk (pe_graph pe) PermissionError) (\<lambda>_.
         catch (bnd (get_node prj None (Some tenant) (Some prj) (Some (lit ''project''))) (\<lambda>_. ret ()))
           (\<lambda>e. e = KeyError) (\<lambda>_. fail PermissionError)))"

definition config_row_of :: "pyval \<Rightarrow> 'z policy_st_scheme \<Rightarrow> config_row option" where
  "config_row_of project s = find (\<lambda>r. PStr (cf_project_id r) = project) (project_policy s)"

definition project_config :: "policy_engine \<Rightarrow> pyval \<Rightarrow> ('z policy_st_scheme, pyval) op" where
  "project_config pe project =
     bnd (require_project pe project) (\<lambda>_.
     bnd (rd (config_row_of project)) (\<lambda>row. case row of
       None \<Rightarrow> ret (PDict DEFAULT_CONFIG)
     | Some r \<Rightarrow> lift (strict_json_loads (PStr (cf_config r)))))"

text \<open>\<open>project_config(p).get(field, default)\<close>\<close>

definition config_field :: "policy_engine \<Rightarrow> pyval \<Rightarrow> string \<Rightarrow> pyval \<Rightarrow> ('z policy_st_scheme, pyval) op" where
  "config_field pe project k v =
     bnd (project_config pe project) (\<lambda>c. lift (rbind (dict_of c) (\<lambda>d. Inr (dget_or d k v))))"

definition tracked_ref_basis :: "policy_engine \<Rightarrow> pyval \<Rightarrow> ('z policy_st_scheme, pyval \<times> int) op" where
  "tracked_ref_basis pe project =
     bnd (require_project pe project) (\<lambda>_.
     bnd (rd (config_row_of project)) (\<lambda>row. case row of
       None \<Rightarrow> ret (dget_none DEFAULT_CONFIG (lit ''tracked_ref''), 0)
     | Some r \<Rightarrow> (case cf_revision r of
         PInt n \<Rightarrow>
           bnd (chk (0 \<le> n) ValueError) (\<lambda>_.
           (case strict_json_loads (PStr (cf_config r)) of
             Inr (PDict d) \<Rightarrow> (case dget d (lit ''tracked_ref'') of None \<Rightarrow> fail ValueError | Some v \<Rightarrow> ret (v, n))
           | _ \<Rightarrow> fail ValueError))
       | _ \<Rightarrow> fail ValueError)))"

record frontier =
  fr_tracked_ref :: pyval
  fr_revision :: int
  fr_matches_policy :: bool
  fr_current_head :: pyval
  fr_uncertain :: bool
  fr_trusted_head :: pyval

definition resolve_frontier :: "pyval \<Rightarrow> int \<Rightarrow> pydict \<Rightarrow> frontier" where
  "resolve_frontier tracked_ref revision d =
     (let agrees = (tracked_ref \<noteq> PNone \<and> py_eq (dget_none d (lit ''tracked_ref'')) tracked_ref
            \<and> py_eq (dget_none d (lit ''tracked_ref_revision'')) (PInt revision));
          stored = dget_none d (lit ''current_head_sha'');
          head = (if agrees \<and> nonempty_string stored then stored else PNone);
          uncertain = truthy (dget_none d (if agrees then lit ''revision_frontier_uncertain'' else lit ''repository_id''))
      in \<lparr>fr_tracked_ref = tracked_ref, fr_revision = revision, fr_matches_policy = agrees,
          fr_current_head = head, fr_uncertain = uncertain,
          fr_trusted_head = (if truthy head \<and> \<not> uncertain then head else PNone)\<rparr>)"

definition tracked_ref_frontier :: "policy_engine \<Rightarrow> pyval \<Rightarrow> pyval \<Rightarrow> ('z policy_st_scheme, frontier) op" where
  "tracked_ref_frontier pe project project_data = (case project_data of
     PDict d \<Rightarrow> bnd (tracked_ref_basis pe project) (\<lambda>(ref, n). ret (resolve_frontier ref n d))
   | _ \<Rightarrow> fail ValueError)"

definition verifier_name :: "pyval \<Rightarrow> exn + pyval" where
  "verifier_name entry = (case entry of
     PStr s \<Rightarrow> Inr (PStr s)
   | PDict d \<Rightarrow> require (truthy (dget_none d (lit ''name''))) ValueError (Inr (dget_none d (lit ''name'')))
   | _ \<Rightarrow> Inl ValueError)"

definition required_verifiers :: "policy_engine \<Rightarrow> pyval \<Rightarrow> ('z policy_st_scheme, pyval list) op" where
  "required_verifiers pe project =
     bnd (config_field pe project ''required_verifiers'' (PList [])) (\<lambda>v.
     lift (rbind (iter_of v) (rmap verifier_name)))"

definition min_evidence_grade :: "policy_engine \<Rightarrow> pyval \<Rightarrow> ('z policy_st_scheme, pyval) op" where
  "min_evidence_grade pe project = config_field pe project ''min_evidence_grade'' PNone"

definition trusted_verifier_apps :: "policy_engine \<Rightarrow> pyval \<Rightarrow> ('z policy_st_scheme, pyval list) op" where
  "trusted_verifier_apps pe project =
     bnd (config_field pe project ''trusted_verifier_apps'' (PList [])) (\<lambda>v.
     lift (rcatch (normalise_trusted_apps v) (\<lambda>e. e = ValueError) (\<lambda>_. Inr [])))"

fun workflow_entries :: "pyval list \<Rightarrow> (pyval \<times> pyval) list option" where
  "workflow_entries [] = Some []"
| "workflow_entries (PDict e # es) =
     (let wid = dget_none e (lit ''workflow_id''); path = dget_none e (lit ''path'') in
      if positive_int wid \<and> text_or_none path
      then map_option (\<lambda>r. (wid, path) # r) (workflow_entries es) else None)"
| "workflow_entries (_ # es) = None"

definition trusted_workflows :: "policy_engine \<Rightarrow> pyval \<Rightarrow> ('z policy_st_scheme, (pyval \<times> pyval) list) op" where
  "trusted_workflows pe project =
     bnd (config_field pe project ''trusted_workflows'' (PList [])) (\<lambda>v. ret (case v of
       PList es \<Rightarrow> (case workflow_entries es of None \<Rightarrow> [] | Some r \<Rightarrow> r) | _ \<Rightarrow> []))"

definition external_verifier_trusted :: "policy_engine \<Rightarrow> pyval \<Rightarrow> pyval \<Rightarrow> pydict \<Rightarrow> ('z policy_st_scheme, bool) op" where
  "external_verifier_trusted pe project source prov =
     (if source = pkey ''github:workflow_run'' then
        bnd (trusted_workflows pe project) (\<lambda>entries. ret (list_ex (\<lambda>(wid, path).
          py_eq wid (dget_none prov (lit ''workflow_id''))
          \<and> (path = PNone \<or> py_eq path (dget_none prov (lit ''workflow_path'')))) entries))
      else if \<not> positive_int (dget_none prov (lit ''app_id'')) then ret False
      else bnd (trusted_verifier_apps pe project) (\<lambda>apps. ret (list_ex (\<lambda>a. case a of
          PDict e \<Rightarrow> py_eq (dget_none e (lit ''app_id'')) (dget_none prov (lit ''app_id''))
            \<and> (dget e (lit ''slug'') = None \<or> py_eq (dget_none e (lit ''slug'')) (dget_none prov (lit ''app'')))
        | _ \<Rightarrow> False) apps)))"

subsection \<open>Grants\<close>

definition normalise_scope :: "pstr \<Rightarrow> pstr option" where
  "normalise_scope v =
     (let n = strip (map (\<lambda>c. if c = 92 then 47 else c) v); parts = split_on 47 n
      in if n = [] \<or> hd n = 47 \<or> lit ''..'' \<in> set parts \<or> (parts \<noteq> [] \<and> 58 \<in> set (hd parts)) then None else Some n)"

definition str_or_none :: "pyval \<Rightarrow> pstr" where
  "str_or_none v = (case v of PStr s \<Rightarrow> s | _ \<Rightarrow> lit ''None'')"

text \<open>An expiry the setter accepts: text that \<open>parse_ts\<close> reads.\<close>

definition check_expiry :: "pyval \<Rightarrow> exn + unit" where
  "check_expiry v = (if v = PNone then Inr ()
     else require (solid_text v) ValueError
       (rcatch (void (parse_ts (text_of v))) (\<lambda>e. e = ValueError \<or> e = OverflowError) (\<lambda>_. Inl ValueError)))"

definition check_scope :: "pyval \<Rightarrow> exn + pstr option" where
  "check_scope v = (if v = PNone then Inr None
     else require (solid_text v) ValueError
       (case normalise_scope (text_of v) of None \<Rightarrow> Inl ValueError | Some n \<Rightarrow> Inr (Some n)))"

definition check_reason :: "pyval \<Rightarrow> exn + unit" where
  "check_reason v = (if v = PNone then Inr () else void (validate_human_text 4096 v))"

definition check_level :: "pyval \<Rightarrow> exn + int" where
  "check_level v = (case v of PInt n \<Rightarrow> require (valid_autonomy_level v) ValueError (Inr n) | _ \<Rightarrow> Inl ValueError)"

definition grant :: "policy_engine \<Rightarrow> pyval \<Rightarrow> pyval \<Rightarrow> pyval \<Rightarrow> pyval \<Rightarrow> pyval \<Rightarrow> pyval
    \<Rightarrow> ('z policy_st_scheme, pstr) op" where
  "grant pe project level granted_by scope expires_at reason =
     bnd (require_project pe project) (\<lambda>_.
     bnd (lift (check_level level)) (\<lambda>n.
     bnd (lift (validate_actor granted_by)) (\<lambda>actor.
     bnd (lift (check_reason reason)) (\<lambda>_.
     bnd (lift (check_expiry expires_at)) (\<lambda>_.
     bnd (lift (check_scope scope)) (\<lambda>sc.
     bnd (new_id (lit ''grant'')) (\<lambda>gid.
     bnd (transaction (
       bnd utcnow (\<lambda>now.
       bnd (rd grants) (\<lambda>rows.
       bnd (chk (gid \<notin> gr_id ` set rows) IntegrityError) (\<lambda>_.
       bnd (wr (\<lambda>s. s\<lparr>grants := grants s @ [\<lparr>gr_id = gid, gr_project_id = text_of project, gr_level = PInt n,
          gr_scope = opt_val sc, gr_granted_by = PStr actor, gr_granted_at = now, gr_expires_at = expires_at,
          gr_revoked_at = None, gr_reason = reason\<rparr>]\<rparr>)) (\<lambda>_.
       audit (PStr actor) (pkey ''policy.grant'') (PStr gid) PNone PNone (pkey ''human_decision'')
         (PStr (lit ''level '' @ str_of_int n @ lit '' scope='' @ str_or_none (opt_val sc)
            @ lit '' expires='' @ str_or_none expires_at)))))))) (\<lambda>_. ret gid))))))))"

definition revoke :: "policy_engine \<Rightarrow> pyval \<Rightarrow> pyval \<Rightarrow> pyval \<Rightarrow> ('z policy_st_scheme, unit) op" where
  "revoke pe grant_id actor reason =
     bnd (lift (validate_public_identifier grant_id)) (\<lambda>gid.
     bnd (lift (validate_actor actor)) (\<lambda>who.
     bnd (chk (is_str reason) ValueError) (\<lambda>_.
     bnd (lift (if truthy reason then void (validate_human_text 4096 reason) else Inr ())) (\<lambda>_.
     transaction (
       bnd (rd (\<lambda>s. find (\<lambda>r. gr_id r = gid) (grants s))) (\<lambda>found. case found of
         None \<Rightarrow> fail KeyError
       | Some r \<Rightarrow>
           bnd (require_project pe (PStr (gr_project_id r))) (\<lambda>_.
           bnd utcnow (\<lambda>now.
           bnd (wr (\<lambda>s. s\<lparr>grants := map (\<lambda>g. if gr_id g = gid then g\<lparr>gr_revoked_at := Some now\<rparr> else g) (grants s)\<rparr>)) (\<lambda>_.
           audit (PStr who) (pkey ''policy.revoke'') (PStr gid) PNone PNone PNone reason)))))))))"

text \<open>A stored grant that still is authority at an instant; a malformed one never is.\<close>

definition grant_expired :: "int \<Rightarrow> pyval \<Rightarrow> exn + bool" where
  "grant_expired clock v = (if v = PNone then Inr False
     else if \<not> solid_text v then Inr True
     else rcatch (rbind (parse_ts (text_of v)) (\<lambda>t. Inr (t \<le> clock)))
       (\<lambda>e. e = ValueError \<or> e = OverflowError) (\<lambda>_. Inr True))"

definition grant_sound :: "grant_row \<Rightarrow> bool" where
  "grant_sound r \<longleftrightarrow> valid_autonomy_level (gr_level r) \<and> solid_text (gr_granted_by r)
     \<and> (gr_scope r = PNone \<or> (is_str (gr_scope r) \<and> normalise_scope (text_of (gr_scope r)) \<noteq> None))"

definition grant_active :: "int \<Rightarrow> grant_row \<Rightarrow> exn + bool" where
  "grant_active clock r = (if \<not> grant_sound r then Inr False
     else rbind (grant_expired clock (gr_expires_at r)) (\<lambda>x. Inr (\<not> x)))"

definition read_now :: "pyval \<Rightarrow> exn + int" where
  "read_now v = (case v of
     PStr s \<Rightarrow> rcatch (parse_ts s) (\<lambda>e. value_like e \<or> e = AttributeError) (\<lambda>_. Inl ValueError)
   | _ \<Rightarrow> Inl ValueError)"

definition active_grants :: "policy_engine \<Rightarrow> pyval \<Rightarrow> pyval \<Rightarrow> ('z policy_st_scheme, grant_row list) op" where
  "active_grants pe project now =
     bnd (require_project pe project) (\<lambda>_.
     bnd (if now = PNone then bnd utcnow (\<lambda>t. ret (PStr t)) else ret now) (\<lambda>t.
     bnd (lift (read_now t)) (\<lambda>clock.
     bnd (rd (\<lambda>s. filter (\<lambda>r. PStr (gr_project_id r) = project \<and> gr_revoked_at r = None) (grants s))) (\<lambda>rows.
     lift (rbind (rmap (\<lambda>r. rbind (grant_active clock r) (\<lambda>a. Inr (r, a))) rows)
       (\<lambda>ras. Inr (map fst (filter snd ras))))))))"

subsection \<open>Downgrades\<close>

definition downgrade :: "policy_engine \<Rightarrow> pyval \<Rightarrow> pyval \<Rightarrow> pyval \<Rightarrow> pyval \<Rightarrow> ('z policy_st_scheme, unit) op" where
  "downgrade pe project trigger cap actor =
     bnd (require_project pe project) (\<lambda>_.
     bnd (chk (in_vocabulary trigger DOWNGRADE_TRIGGERS) ValueError) (\<lambda>_.
     bnd (lift (check_level cap)) (\<lambda>n.
     bnd (lift (validate_actor actor)) (\<lambda>who.
     transaction (
       bnd utcnow (\<lambda>now.
       bnd (wr (\<lambda>s. s\<lparr>downgrade_seq := Suc (downgrade_seq s),
          downgrades := downgrades s @ [\<lparr>dg_seq = Suc (downgrade_seq s), dg_project_id = text_of project,
            dg_ceiling = PInt n, dg_trigger = text_of trigger, dg_at = now, dg_cleared_at = None,
            dg_cleared_by = None\<rparr>]\<rparr>)) (\<lambda>_.
       audit (PStr who) (pkey ''policy.downgrade'') project PNone PNone PNone
         (PStr (text_of trigger @ lit '' -> ceiling '' @ str_of_int n)))))))))"

definition clear_downgrades :: "policy_engine \<Rightarrow> pyval \<Rightarrow> pyval \<Rightarrow> ('z policy_st_scheme, unit) op" where
  "clear_downgrades pe project actor =
     bnd (require_project pe project) (\<lambda>_.
     bnd (lift (validate_actor actor)) (\<lambda>who.
     transaction (
       bnd utcnow (\<lambda>now.
       bnd (wr (\<lambda>s. s\<lparr>downgrades := map (\<lambda>d. if PStr (dg_project_id d) = project \<and> dg_cleared_at d = None
            then d\<lparr>dg_cleared_at := Some now, dg_cleared_by := Some who\<rparr> else d) (downgrades s)\<rparr>)) (\<lambda>_.
       audit (PStr who) (pkey ''policy.clear_downgrades'') project PNone PNone (pkey ''human_decision'') PNone)))))"

fun int_value :: "pyval \<Rightarrow> int" where
  "int_value (PInt n) = n"
| "int_value _ = 0"

text \<open>The cap of live downgrades; a malformed one tightens to level 0.\<close>

definition ceiling_of :: "pyval list \<Rightarrow> int option" where
  "ceiling_of cs = (if cs = [] then None
     else if list_all valid_autonomy_level cs then Some (Min (set (map int_value cs))) else Some 0)"

definition active_downgrade_ceiling :: "policy_engine \<Rightarrow> pyval \<Rightarrow> ('z policy_st_scheme, int option) op" where
  "active_downgrade_ceiling pe project =
     bnd (require_project pe project) (\<lambda>_.
     rd (\<lambda>s. ceiling_of (map dg_ceiling
       (filter (\<lambda>d. PStr (dg_project_id d) = project \<and> dg_cleared_at d = None) (downgrades s)))))"

subsection \<open>Decisions\<close>

definition scope_matches :: "pyval \<Rightarrow> pyval \<Rightarrow> bool" where
  "scope_matches grant_scope action_scope \<longleftrightarrow>
     (if grant_scope = PNone then True
      else if \<not> solid_text action_scope then False
      else (case (normalise_scope (text_of grant_scope), normalise_scope (text_of action_scope)) of
          (Some pattern, Some target) \<Rightarrow> fnmatchcase target pattern
        | _ \<Rightarrow> False))"

text \<open>\<open>int(v)\<close>: a float truncates; text is read as decimal ASCII digits with an optional sign and
  surrounding white space.\<close>

definition py_int :: "pyval \<Rightarrow> exn + int" where
  "py_int v = (case v of
     PInt n \<Rightarrow> Inr n
   | PBool b \<Rightarrow> Inr (if b then 1 else 0)
   | PFloat (Fin r) \<Rightarrow> Inr (if 0 \<le> r then \<lfloor>r\<rfloor> else - \<lfloor>- r\<rfloor>)
   | PFloat NaN \<Rightarrow> Inl ValueError
   | PFloat _ \<Rightarrow> Inl OverflowError
   | PStr s \<Rightarrow> (let t = strip s; ds = (if t \<noteq> [] \<and> (hd t = 43 \<or> hd t = 45) then tl t else t)
       in require (ds \<noteq> [] \<and> list_all is_digit ds) ValueError (Inr (int_of_text t)))
   | _ \<Rightarrow> Inl TypeError)"

definition applicable :: "pyval \<Rightarrow> grant_row list \<Rightarrow> grant_row list" where
  "applicable action_scope gs = filter (\<lambda>g. scope_matches (gr_scope g) action_scope) gs"

definition granted_level :: "grant_row list \<Rightarrow> int" where
  "granted_level gs = (if gs = [] then 0 else Max (set (map (\<lambda>g. int_value (gr_level g)) gs)))"

text \<open>\<open>config["max_autonomy_level"]\<close>\<close>

definition config_level :: "pyval \<Rightarrow> exn + pyval" where
  "config_level c = (case c of
     PDict d \<Rightarrow> (case dget d (lit ''max_autonomy_level'') of None \<Rightarrow> Inl KeyError | Some v \<Rightarrow> Inr v)
   | _ \<Rightarrow> Inl TypeError)"

definition effective_level :: "policy_engine \<Rightarrow> pyval \<Rightarrow> pyval \<Rightarrow> pyval \<Rightarrow> ('z policy_st_scheme, int) op" where
  "effective_level pe project now action_scope =
     bnd (project_config pe project) (\<lambda>config.
     bnd (active_grants pe project now) (\<lambda>gs.
     bnd (lift (rbind (config_level config) py_int)) (\<lambda>cap.
     bnd (active_downgrade_ceiling pe project) (\<lambda>lowered.
     (let level = min (min (granted_level (applicable action_scope gs)) cap) (pe_tenant_max pe)
      in ret (case lowered of None \<Rightarrow> level | Some c \<Rightarrow> min level c))))))"

datatype reason =
    UnknownAction pstr
  | Irreversible
  | BlastRadius int
  | LowEvidence
  | PoorReliability
  | Prohibited
  | GuardedDisabled
  | Sufficient int int
  | Insufficient int int
  | IgnoredScopes "pstr list" pyval

definition reason_text :: "(pyval \<Rightarrow> pstr) \<Rightarrow> reason \<Rightarrow> pstr" where
  "reason_text py_repr r = (case r of
     UnknownAction a \<Rightarrow> lit ''unknown action type '' @ py_repr (PStr a) @ lit '': treated as irreversible''
   | Irreversible \<Rightarrow> lit ''irreversible action forced to level 4''
   | BlastRadius n \<Rightarrow> lit ''blast radius '' @ str_of_int n @ lit '' raises required level to 3''
   | LowEvidence \<Rightarrow> lit ''low evidence quality raises the bar''
   | PoorReliability \<Rightarrow> lit ''poor historical reliability raises the bar''
   | Prohibited \<Rightarrow> lit ''level 4 (irreversible/external) prohibited in MVP (ADR-009)''
   | GuardedDisabled \<Rightarrow> lit ''guarded repository actions not enabled for this project''
   | Sufficient e q \<Rightarrow> lit ''effective level '' @ str_of_int e @ lit '' >= required '' @ str_of_int q
   | Insufficient e q \<Rightarrow> lit ''effective level '' @ str_of_int e @ lit '' < required '' @ str_of_int q
   | IgnoredScopes ss a \<Rightarrow> lit ''scoped grant(s) '' @ py_repr (PList (map PStr ss))
       @ lit '' do not cover action scope '' @ py_repr a)"

text \<open>The level an action needs, each rule adding its reason.\<close>

definition required_level :: "pstr \<Rightarrow> pstr \<Rightarrow> rat \<Rightarrow> int \<Rightarrow> rat \<Rightarrow> int \<times> reason list" where
  "required_level action reversibility evidence radius reliability =
     (let s0 = (case map_of ACTION_CLASSES action of Some n \<Rightarrow> (n, []) | None \<Rightarrow> (4, [UnknownAction action]));
          s1 = (if reversibility = lit ''irreversible'' \<and> fst s0 < 4 then (4, snd s0 @ [Irreversible]) else s0);
          s2 = (if 20 \<le> radius \<and> fst s1 < 3 then (3, snd s1 @ [BlastRadius radius]) else s1);
          s3 = (if evidence < rnd64 (4 / 10) \<and> 2 \<le> fst s2 then (max (fst s2) 3, snd s2 @ [LowEvidence]) else s2)
      in (if reliability < rnd64 (3 / 10) \<and> 2 \<le> fst s3 then (max (fst s3) 3, snd s3 @ [PoorReliability]) else s3))"

record decision =
  d_allow :: bool
  d_action_type :: pstr
  d_required_level :: int
  d_effective_level :: int
  d_action_scope :: pyval
  d_applicable_grant_ids :: "pstr list"
  d_reasons :: "reason list"
  d_config_level :: pyval
  d_tenant_max :: int
  d_decided_at :: pstr

definition GUARDED_ACTIONS :: "pstr list" where
  "GUARDED_ACTIONS = map lit [''create_pr'', ''update_pr'', ''create_branch'']"

definition ignored_scopes :: "grant_row list \<Rightarrow> grant_row list \<Rightarrow> pstr list" where
  "ignored_scopes active appl =
     sort (remdups (map (\<lambda>g. text_of (gr_scope g)) (filter (\<lambda>g. gr_scope g \<noteq> PNone \<and> g \<notin> set appl) active)))"

definition judge :: "pydict \<Rightarrow> pstr \<Rightarrow> int \<Rightarrow> int \<Rightarrow> pyval \<Rightarrow> grant_row list \<Rightarrow> grant_row list \<Rightarrow> bool \<times> reason list" where
  "judge config action required effective action_scope active appl =
     (if 4 \<le> required then (False, [Prohibited])
      else if required = 3 \<and> \<not> truthy (dget_none config (lit ''guarded_pr_enabled'')) \<and> action \<in> set GUARDED_ACTIONS
        then (False, [GuardedDisabled])
      else if required \<le> effective then (True, [Sufficient effective required])
      else (False, Insufficient effective required #
        (let ignored = ignored_scopes active appl in if ignored = [] then [] else [IgnoredScopes ignored action_scope])))"

definition decide_detail :: "(pyval \<Rightarrow> pstr) \<Rightarrow> pstr \<Rightarrow> bool \<Rightarrow> reason list \<Rightarrow> pstr" where
  "decide_detail py_repr action allow reasons =
     action @ lit '': '' @ (if allow then lit ''allow'' else lit ''deny'') @ lit '' (''
       @ join (lit ''; '') (map (reason_text py_repr) reasons) @ lit '')''"

definition decide :: "(pyval \<Rightarrow> pstr) \<Rightarrow> policy_engine \<Rightarrow> pyval \<Rightarrow> pyval \<Rightarrow> pyval \<Rightarrow> pyval \<Rightarrow> pyval \<Rightarrow> pyval
    \<Rightarrow> pyval \<Rightarrow> pyval \<Rightarrow> ('z policy_st_scheme, decision) op" where
  "decide py_repr pe project action_type reversibility evidence_quality blast_radius historical_reliability
     action_scope now =
     bnd (chk (in_vocabulary reversibility REVERSIBILITY_CLASSES) ValueError) (\<lambda>_.
     bnd (lift (validate_probability evidence_quality)) (\<lambda>evidence.
     bnd (lift (validate_probability historical_reliability)) (\<lambda>reliability.
     bnd (lift (natural blast_radius)) (\<lambda>radius.
     bnd (chk (is_str action_type) ValueError) (\<lambda>_.
     bnd (project_config pe project) (\<lambda>config.
     bnd (ret (required_level (text_of action_type) (text_of reversibility) evidence (int radius) reliability)) (\<lambda>(required, raised).
     bnd (active_grants pe project now) (\<lambda>active.
     bnd (effective_level pe project now action_scope) (\<lambda>effective.
     bnd (lift (if required = 3 then dict_of config else Inr [])) (\<lambda>guard_config.
     bnd (ret (judge guard_config (text_of action_type) required effective action_scope active (applicable action_scope active)))
       (\<lambda>(allow, verdict).
     bnd (lift (config_level config)) (\<lambda>level.
     bnd utcnow (\<lambda>decided_at.
     bnd (audit (pkey ''policy-engine'') (pkey ''policy.decide'') project PNone PNone PNone
       (PStr (decide_detail py_repr (text_of action_type) allow (raised @ verdict)))) (\<lambda>_.
     ret \<lparr>d_allow = allow, d_action_type = text_of action_type, d_required_level = required,
       d_effective_level = effective, d_action_scope = action_scope,
       d_applicable_grant_ids = map gr_id (applicable action_scope active), d_reasons = raised @ verdict,
       d_config_level = level, d_tenant_max = pe_tenant_max pe, d_decided_at = decided_at\<rparr>))))))))))))))"

text \<open>\<open>x in v\<close>: membership in a list, among the keys of a dict, or as a substring.\<close>

definition py_in :: "pyval \<Rightarrow> pyval \<Rightarrow> exn + bool" where
  "py_in x v = (case v of
     PStr s \<Rightarrow> require (is_str x) TypeError (Inr (sublist (text_of x) s))
   | _ \<Rightarrow> rbind (iter_of v) (\<lambda>xs. Inr (list_ex (py_eq x) xs)))"

definition proof_required :: "policy_engine \<Rightarrow> pyval \<Rightarrow> pyval \<Rightarrow> ('z policy_st_scheme, bool) op" where
  "proof_required pe project claim_type =
     bnd (config_field pe project ''require_proof_for'' (PList [])) (\<lambda>v.
     lift (py_in claim_type v))"

end
