(* ===== verification/Invalidation.thy ===== *)
theory Invalidation
  imports Policy
begin

section \<open>invalidation.py: firing an invalidation\<close>

text \<open>
  An invalidation is a node with receipts in its data: what it targets, what depends on the
  target, how strongly, and which statuses it changed. Receipts are JSON documents here as in
  the code, so that a malformed stored receipt is within the model. The owning engine's check
  of a node's authority, \<open>Graph.may_mandate\<close>, is the argument \<open>may\<close>; a standalone graph has
  the constant true check.
\<close>

definition TRIGGER_TYPES :: "pstr list" where
  "TRIGGER_TYPES = map lit
     [''changed_requirement'', ''superseding_decision'', ''contradictory_evidence'', ''stale_verifier_input'',
      ''dependency_drift'', ''failed_check'', ''environment_mismatch'', ''expired_approval'']"

record inv_engine =
  ie_max_depth :: nat
  ie_max_nodes :: nat
  ie_tenant :: "pstr option"
  ie_policy :: "policy_engine option"

text \<open>The constructor: positive bounds and a valid tenant.\<close>

definition make_inv_engine :: "policy_engine option \<Rightarrow> pyval \<Rightarrow> pyval \<Rightarrow> pyval \<Rightarrow> exn + inv_engine" where
  "make_inv_engine policy max_depth max_nodes tenant =
     require (positive_int max_depth) ValueError
     (require (positive_int max_nodes) ValueError
     (rbind (optional_identifier tenant) (\<lambda>ten.
     Inr \<lparr>ie_max_depth = nat (int_value max_depth), ie_max_nodes = nat (int_value max_nodes), ie_tenant = ten,
          ie_policy = policy\<rparr>)))"

subsection \<open>Classification\<close>

definition check_criticality :: "pyval \<Rightarrow> exn + unit" where
  "check_criticality v = guard (v = PNone \<or> in_vocabulary v CRITICALITY_LEVELS) ValueError"

definition classify :: "pyval \<Rightarrow> pyval \<Rightarrow> pyval \<Rightarrow> exn + pstr" where
  "classify strength criticality confidence =
     require (unit_number strength) (unit_refusal strength)
     (require (unit_number confidence) (unit_refusal confidence)
     (rbind (check_criticality criticality) (\<lambda>_.
      let crit = (if criticality = PNone then lit ''medium'' else text_of criticality);
          s = the (number strength); c = the (number confidence)
      in Inr (if rnd64 (75 / 100) \<le> s \<and> (crit = lit ''high'' \<or> crit = lit ''critical'')
              then (if rnd64 (7 / 10) \<le> c then lit ''blocked'' else lit ''review_required'')
              else if rnd64 (45 / 100) \<le> s then lit ''review_required'' else lit ''valid''))))"

subsection \<open>Tenancy and restored statuses\<close>

definition require_tenant :: "inv_engine \<Rightarrow> pstr \<Rightarrow> exn + unit" where
  "require_tenant ie tenant = guard (ie_tenant ie = None \<or> ie_tenant ie = Some tenant) PermissionError"

definition require_owned :: "inv_engine \<Rightarrow> node \<Rightarrow> exn + unit" where
  "require_owned ie n = require_tenant ie (n_tenant_id (nd_row n))"

definition require_inv_project :: "inv_engine \<Rightarrow> pstr \<Rightarrow> ('z policy_st_scheme, unit) op" where
  "require_inv_project ie project = (case ie_tenant ie of
     None \<Rightarrow> ret ()
   | Some tenant \<Rightarrow> catch (bnd (get_node project None (Some tenant) (Some project) (Some (lit ''project''))) (\<lambda>_. ret ()))
       (\<lambda>e. e = KeyError) (\<lambda>_. fail PermissionError))"

text \<open>\<open>self.tenant_id or tenant_id\<close>\<close>

definition scope_tenant :: "inv_engine \<Rightarrow> pyval \<Rightarrow> pyval" where
  "scope_tenant ie tenant = (case ie_tenant ie of None \<Rightarrow> tenant | Some t \<Rightarrow> PStr t)"

definition default_restored_status :: "pstr \<Rightarrow> pstr" where
  "default_restored_status entity_type =
     (case map_of (map (\<lambda>(a, b). (lit a, lit b)) [(''task'', ''open''), (''decision'', ''accepted''),
        (''assumption'', ''active''), (''plan'', ''active''), (''action'', ''active'')]) entity_type of
       None \<Rightarrow> lit ''active'' | Some st \<Rightarrow> st)"

text \<open>\<open>receipt.get("restore_status", receipt.get("prior_status"))\<close>\<close>

definition receipt_status :: "pydict \<Rightarrow> pyval" where
  "receipt_status d = dget_or d ''restore_status'' (dget_none d (lit ''prior_status''))"

definition restored_status :: "node \<Rightarrow> pydict \<Rightarrow> pyval" where
  "restored_status n receipt =
     (if receipt \<noteq> [] \<and> receipt_status receipt \<noteq> PNone then receipt_status receipt
      else PStr (default_restored_status (n_entity_type (nd_row n))))"

text \<open>The status an open invalidation recorded for a node: the first receipt that names it.\<close>

fun receipt_for :: "pstr \<Rightarrow> pyval list \<Rightarrow> exn + pyval option" where
  "receipt_for nid [] = Inr None"
| "receipt_for nid (r # rs) = rbind (dict_of r) (\<lambda>d.
     if dget_none d (lit ''node_id'') = PStr nid then Inr (Some (receipt_status d)) else receipt_for nid rs)"

fun held_status :: "pstr \<Rightarrow> node list \<Rightarrow> pyval \<Rightarrow> exn + pyval" where
  "held_status nid [] current_status = Inr current_status"
| "held_status nid (iv # invs) current_status =
     rbind (dict_of (nd_data iv)) (\<lambda>d.
     (let t = dget_none d (lit ''target_transition'') in
      rbind (if truthy t then dict_of t else Inr []) (\<lambda>transition.
      if dget_none transition (lit ''node_id'') = PStr nid then Inr (receipt_status transition)
      else rbind (iter_of (dget_or d ''affected'' (PList []))) (\<lambda>affected.
        rbind (receipt_for nid affected) (\<lambda>found. case found of
          Some v \<Rightarrow> Inr v | None \<Rightarrow> held_status nid invs current_status)))))"

definition open_list :: "inv_engine \<Rightarrow> pstr \<Rightarrow> string list \<Rightarrow> pyval \<Rightarrow> ('z policy_st_scheme, node list) op" where
  "open_list ie project statuses tenant =
     current (PStr project) (pkey ''invalidation'') (PList (map pkey statuses)) PNone (scope_tenant ie tenant)"

definition held_restore_status :: "inv_engine \<Rightarrow> pstr \<Rightarrow> pstr \<Rightarrow> pyval \<Rightarrow> pyval \<Rightarrow> ('z policy_st_scheme, pyval) op" where
  "held_restore_status ie project nid current_status tenant =
     bnd (open_list ie project [''open''] tenant) (\<lambda>invs. lift (held_status nid invs current_status))"

subsection \<open>Writing statuses\<close>

text \<open>The arguments of \<open>put_node\<close> and \<open>put_edge\<close> that the code leaves at their defaults.\<close>

definition node_defaults :: node_args where
  "node_defaults = \<lparr>v_entity_type = PNone, v_tenant_id = PNone, v_project_id = PNone, v_data = PDict [],
     v_node_id = PNone, v_status = PNone, v_criticality = PNone, v_authority = PNone, v_confidence = PNone,
     v_scope = PNone, v_valid_from = PNone, v_valid_to = PNone, v_reopen = PBool False, v_event_id = PNone,
     v_extractor = PNone, v_extractor_version = PNone\<rparr>"

definition edge_defaults :: edge_args where
  "edge_defaults = \<lparr>w_edge_type = PNone, w_src_id = PNone, w_dst_id = PNone, w_tenant_id = PNone,
     w_project_id = PNone, w_strength = PFloat (Fin 1), w_data = PNone, w_valid_from = PNone,
     w_valid_to = PNone, w_event_id = PNone, w_edge_id = PNone\<rparr>"

text \<open>A new version of an existing node with a status and data of the caller.\<close>

definition version_args :: "node \<Rightarrow> pydict \<Rightarrow> pyval \<Rightarrow> pstr option \<Rightarrow> node_args" where
  "version_args n data status event =
     node_defaults\<lparr>v_entity_type := PStr (n_entity_type (nd_row n)), v_tenant_id := PStr (n_tenant_id (nd_row n)),
       v_project_id := PStr (n_project_id (nd_row n)), v_node_id := PStr (n_id (nd_row n)), v_data := PDict data,
       v_status := status, v_event_id := opt_val event\<rparr>"

definition put_status :: "node \<Rightarrow> pyval \<Rightarrow> pstr option \<Rightarrow> ('z policy_st_scheme, unit) op" where
  "put_status n status event = bnd (put_node (version_args n [] status event)) (\<lambda>_. ret ())"

definition restore_node :: "(node \<Rightarrow> 'z policy_st_scheme \<Rightarrow> bool) \<Rightarrow> node \<Rightarrow> pydict \<Rightarrow> pstr option
    \<Rightarrow> ('z policy_st_scheme, bool) op" where
  "restore_node may n receipt event =
     bnd (rd (may n)) (\<lambda>ok. if \<not> ok then ret False
       else bnd (put_status n (restored_status n receipt) event) (\<lambda>_. ret True))"

definition status_of :: "node \<Rightarrow> pyval" where
  "status_of n = opt_val (n_status (nd_row n))"

text \<open>\<open>node.get("status") or "proposed"\<close>\<close>

definition status_or_proposed :: "node \<Rightarrow> pstr" where
  "status_or_proposed n = (if truthy (status_of n) then text_of (status_of n) else lit ''proposed'')"

definition transition :: "node \<Rightarrow> pstr \<Rightarrow> pstr option \<Rightarrow> ('z policy_st_scheme, bool) op" where
  "transition n new_status event =
     (if n_entity_type (nd_row n) = lit ''assumption'' \<and> \<not> is_valid_transition (status_or_proposed n) new_status
      then ret False
      else bnd (put_status n (PStr new_status) event) (\<lambda>_. ret True))"

definition IMPACTED_TYPES :: "pstr list" where
  "IMPACTED_TYPES = map lit [''assumption'', ''decision'', ''plan'', ''task'', ''action'']"

text \<open>The status an impact puts on a node, if any.\<close>

definition impact_status :: "pstr \<Rightarrow> pyval \<Rightarrow> pstr option" where
  "impact_status entity_type impact =
     (if impact = pkey ''review_required'' then Some (lit ''uncertain'')
      else if impact = pkey ''blocked'' then
        Some (if entity_type = lit ''assumption'' then lit ''uncertain'' else lit ''blocked'')
      else None)"

definition apply_impact :: "pydict \<Rightarrow> pstr option \<Rightarrow> node \<Rightarrow> ('z policy_st_scheme, bool) op" where
  "apply_impact c event n =
     (let kind = n_entity_type (nd_row n) in
      if kind \<notin> set IMPACTED_TYPES then ret True
      else (case impact_status kind (dget_none c (lit ''impact'')) of
          None \<Rightarrow> ret True | Some st \<Rightarrow> transition n st event))"

subsection \<open>Explanations\<close>

definition impact_is :: "string \<Rightarrow> pydict \<Rightarrow> bool" where
  "impact_is k c \<longleftrightarrow> dget_none c (lit ''impact'') = pkey k"

definition criticality_or_medium :: "node \<Rightarrow> pstr" where
  "criticality_or_medium n = (case n_criticality (nd_row n) of
     None \<Rightarrow> lit ''medium'' | Some c \<Rightarrow> if c = [] then lit ''medium'' else c)"

definition severity :: "node \<Rightarrow> pydict list \<Rightarrow> pstr" where
  "severity target classified =
     (let crit = criticality_or_medium target; blocked = length (filter (impact_is ''blocked'') classified) in
      if crit = lit ''critical'' \<or> 3 \<le> blocked then lit ''critical''
      else if crit = lit ''high'' \<or> 1 \<le> blocked then lit ''high''
      else if list_ex (impact_is ''review_required'') classified then lit ''medium'' else lit ''low'')"

definition recommend :: "pstr \<Rightarrow> pstr \<Rightarrow> bool \<Rightarrow> pstr" where
  "recommend trigger_type sev requires_human =
     (if requires_human then lit ''Confirm or reject this invalidation; no state was changed automatically.''
      else (case map_of (map (\<lambda>(a, b). (lit a, lit b))
          [(''changed_requirement'', ''Revise affected plans/tasks against the new requirement.''),
           (''superseding_decision'', ''Re-link dependents to the superseding decision.''),
           (''contradictory_evidence'', ''Review the contradiction and resolve the conflict.''),
           (''stale_verifier_input'', ''Re-run the affected verifiers against current inputs.''),
           (''dependency_drift'', ''Re-validate assumptions against the new dependency version.''),
           (''failed_check'', ''Fix the failing check before relying on dependent work.''),
           (''environment_mismatch'', ''Reconcile the environment fingerprint before resuming.''),
           (''expired_approval'', ''Request a fresh approval before relying on the affected authority.'')]) trigger_type of
          None \<Rightarrow> lit ''Review affected nodes.'' | Some t \<Rightarrow> t)
        @ (if sev = lit ''high'' \<or> sev = lit ''critical''
           then lit '' Blocked nodes must not drive actions until resolved.'' else []))"

definition path_value :: "pstr list \<Rightarrow> pyval" where
  "path_value p = PList (map PStr p)"

text \<open>The receipt of one dependent node.\<close>

definition receipt_of :: "reached \<Rightarrow> node \<Rightarrow> pstr \<Rightarrow> pyval \<Rightarrow> pydict" where
  "receipt_of dep n impact restore =
     [(pkey ''node_id'', PStr (q_id dep)), (pkey ''entity_type'', PStr (n_entity_type (nd_row n))),
      (pkey ''depth'', PInt (int (q_depth dep))), (pkey ''strength'', PFloat (Fin (q_strength dep))),
      (pkey ''impact'', PStr impact), (pkey ''path'', path_value (q_path dep)),
      (pkey ''prior_status'', status_of n), (pkey ''restore_status'', restore),
      (pkey ''impact_applied'', PBool False), (pkey ''applied_status'', PNone)]"

text \<open>A gated invalidation never blocks: CI-005's conservative downgrade.\<close>

definition gated_impact :: "bool \<Rightarrow> pstr \<Rightarrow> pstr" where
  "gated_impact requires_human impact =
     (if requires_human \<and> (impact = lit ''blocked'' \<or> impact = lit ''invalidated'') then lit ''review_required'' else impact)"

fun classify_all :: "inv_engine \<Rightarrow> pstr \<Rightarrow> pstr \<Rightarrow> pyval \<Rightarrow> bool \<Rightarrow> reached list
    \<Rightarrow> ('z policy_st_scheme, (pydict \<times> pstr list) list) op" where
  "classify_all ie tenant project confidence requires_human [] = ret []"
| "classify_all ie tenant project confidence requires_human (dep # deps) =
     bnd (catch (bnd (get_node (q_id dep) None (Some tenant) (Some project) None) (\<lambda>n. ret (Some n)))
           (\<lambda>e. e = KeyError) (\<lambda>_. ret None)) (\<lambda>found. case found of
       None \<Rightarrow> classify_all ie tenant project confidence requires_human deps
     | Some n \<Rightarrow>
         bnd (lift (classify (PFloat (Fin (q_strength dep))) (opt_val (n_criticality (nd_row n))) confidence)) (\<lambda>impact.
         bnd (held_restore_status ie project (q_id dep) (status_of n) (PStr tenant)) (\<lambda>restore.
         bnd (classify_all ie tenant project confidence requires_human deps) (\<lambda>rest.
         ret ((receipt_of dep n (gated_impact requires_human impact) restore, q_path dep) # rest)))))"

subsection \<open>fire\<close>

record fire_args =
  f_tenant_id :: pyval
  f_project_id :: pyval
  f_target_node_id :: pyval
  f_trigger_type :: pyval
  f_trigger_evidence_id :: pyval
  f_trigger_confidence :: pyval
  f_reason :: pyval
  f_event_id :: pyval
  f_actor :: pyval
  f_requires_human :: pyval
  f_invalidation_id :: pyval

definition optional_note :: "exn \<Rightarrow> pyval \<Rightarrow> exn + unit" where
  "optional_note e v = rbind (guard (is_str v) e) (\<lambda>_.
     if truthy v then void (validate_human_text 4096 v) else Inr ())"

definition check_fire_args :: "inv_engine \<Rightarrow> fire_args \<Rightarrow> exn + unit" where
  "check_fire_args ie a = checks
     [guard (f_requires_human a = PNone \<or> is_bool (f_requires_human a)) ValueError,
      void (optional_identifier (f_invalidation_id a)),
      void (validate_public_identifier (f_tenant_id a)),
      void (validate_public_identifier (f_project_id a)),
      void (validate_public_identifier (f_target_node_id a)),
      void (optional_identifier (f_trigger_evidence_id a)),
      void (optional_identifier (f_event_id a)),
      guard (in_vocabulary (f_trigger_type a) TRIGGER_TYPES) ValueError,
      guard (unit_number (f_trigger_confidence a)) (unit_refusal (f_trigger_confidence a)),
      void (validate_human_text PROJECT_NAME_MAX_LENGTH (f_actor a)),
      optional_note ValueError (f_reason a),
      require_tenant ie (text_of (f_tenant_id a))]"

text \<open>The trigger evidence, when given, is a live evidence or verification node of the scope.\<close>

definition check_trigger :: "pstr \<Rightarrow> pstr \<Rightarrow> pyval \<Rightarrow> ('z policy_st_scheme, unit) op" where
  "check_trigger tenant project trigger = (case trigger of
     PStr t \<Rightarrow>
       bnd (catch (get_node t None (Some tenant) (Some project) None) (\<lambda>e. e = KeyError) (\<lambda>_. fail ValueError)) (\<lambda>n.
       bnd (chk (n_entity_type (nd_row n) \<in> {lit ''evidence'', lit ''verification''}) ValueError) (\<lambda>_.
       chk (status_of n \<notin> {pkey ''quarantined'', pkey ''invalidated'', pkey ''superseded'', pkey ''rejected''}) ValueError))
   | _ \<Rightarrow> ret ())"

text \<open>The dependents within the engine's bounds, or a shallower and wider traversal when they
  exceed them; the flag says which.\<close>

definition blast_radius :: "inv_engine \<Rightarrow> pyval \<Rightarrow> ('z policy_st_scheme, reached list \<times> bool) op" where
  "blast_radius ie target =
     catch (bnd (dependents target (PInt (int (ie_max_depth ie))) (PInt (int (ie_max_nodes ie))) PNone (PFloat (Fin 0)))
         (\<lambda>ds. ret (ds, False)))
       (\<lambda>e. e = TraversalBudgetExceeded)
       (\<lambda>_. bnd (dependents target (PInt 2) (PInt (int (ie_max_nodes ie * 10))) PNone (PFloat (Fin 0)))
         (\<lambda>ds. ret (ds, True)))"

text \<open>CI-005: a low-confidence trigger with a wide or critical impact needs a human.\<close>

definition human_gate :: "pyval \<Rightarrow> rat \<Rightarrow> bool \<Rightarrow> node \<Rightarrow> bool" where
  "human_gate requested confidence high_blast target =
     (case requested of PBool b \<Rightarrow> b
      | _ \<Rightarrow> (confidence < rnd64 (6 / 10) \<and> high_blast)
        \<or> (n_criticality (nd_row target) \<in> {Some (lit ''high''), Some (lit ''critical'')} \<and> confidence < rnd64 (6 / 10)))"

definition shortest :: "pstr list list \<Rightarrow> pstr \<Rightarrow> pstr list" where
  "shortest paths target = (case sort_key length paths of [] \<Rightarrow> [target] | p # _ \<Rightarrow> p)"

definition target_receipt :: "pstr \<Rightarrow> pyval \<Rightarrow> pyval \<Rightarrow> pydict" where
  "target_receipt target prior restore =
     [(pkey ''node_id'', PStr target), (pkey ''prior_status'', prior), (pkey ''restore_status'', restore),
      (pkey ''impact_applied'', PBool False), (pkey ''applied_status'', PNone)]"

definition explanation :: "fire_args \<Rightarrow> node \<Rightarrow> pydict list \<Rightarrow> pstr list \<Rightarrow> bool \<Rightarrow> bool \<Rightarrow> pydict \<Rightarrow> pydict" where
  "explanation a target classified path truncated human receipt =
     [(pkey ''trigger_type'', f_trigger_type a), (pkey ''trigger_evidence_id'', f_trigger_evidence_id a),
      (pkey ''trigger_confidence'', f_trigger_confidence a), (pkey ''reason'', f_reason a),
      (pkey ''target_node_id'', f_target_node_id a),
      (pkey ''target_summary'', first_truthy (node_fields target) [''statement'', ''title'']),
      (pkey ''minimal_causal_path'', path_value path), (pkey ''affected_count'', PInt (int (length classified))),
      (pkey ''truncated'', PBool truncated), (pkey ''severity'', PStr (severity target classified)),
      (pkey ''requires_human_confirmation'', PBool human),
      (pkey ''recommended_action'', PStr (recommend (text_of (f_trigger_type a)) (severity target classified) human)),
      (pkey ''target_transition'', PDict receipt)]"

definition scoped_edge :: "string \<Rightarrow> pstr \<Rightarrow> pstr \<Rightarrow> pstr \<Rightarrow> pstr \<Rightarrow> pstr option \<Rightarrow> edge_args" where
  "scoped_edge kind src dst tenant project event =
     edge_defaults\<lparr>w_edge_type := pkey kind, w_src_id := PStr src, w_dst_id := PStr dst, w_tenant_id := PStr tenant,
       w_project_id := PStr project, w_event_id := opt_val event\<rparr>"

definition affects_edge :: "pstr \<Rightarrow> pydict \<Rightarrow> pyval \<Rightarrow> pstr \<Rightarrow> pstr \<Rightarrow> pstr option \<Rightarrow> edge_args" where
  "affects_edge iv c label tenant project event =
     (scoped_edge ''affects'' iv (text_of (dget_none c (lit ''node_id''))) tenant project event)
       \<lparr>w_strength := dget_none c (lit ''strength''), w_data := PDict [(pkey ''impact'', label)]\<rparr>"

text \<open>A receipt after its impact was applied: what the status became, and whether it changed.\<close>

definition applied :: "pyval \<Rightarrow> pyval \<Rightarrow> pydict \<Rightarrow> pydict" where
  "applied before after c =
     dset (dset c (pkey ''impact_applied'') (PBool (after \<noteq> before))) (pkey ''applied_status'') after"

text \<open>The direct target: the transition to \<open>invalidated\<close>, and its receipt; the flag is a refusal.\<close>

definition invalidate_target :: "node \<Rightarrow> pydict \<Rightarrow> pstr option \<Rightarrow> ('z policy_st_scheme, pydict \<times> bool) op" where
  "invalidate_target target receipt event =
     bnd (transition target (lit ''invalidated'') event) (\<lambda>ok.
     if \<not> ok then ret (receipt, True)
     else bnd (get_node (n_id (nd_row target)) None (Some (n_tenant_id (nd_row target)))
           (Some (n_project_id (nd_row target))) (Some (n_entity_type (nd_row target)))) (\<lambda>after.
       ret (applied (status_of target) (status_of after) receipt, False)))"

text \<open>One dependent: its impact applied when it has one, its receipt, and whether the lifecycle
  refused. \<open>given\<close> is the node already read, if any.\<close>

definition impact_node :: "pstr \<Rightarrow> pstr \<Rightarrow> pstr option \<Rightarrow> node option \<Rightarrow> pydict \<Rightarrow> ('z policy_st_scheme, pydict \<times> bool) op" where
  "impact_node tenant project event given c =
     (if \<not> (impact_is ''review_required'' c \<or> impact_is ''blocked'' c) then ret (c, False)
      else (let again = get_node (text_of (dget_none c (lit ''node_id''))) None (Some tenant) (Some project)
                (opt_text (dget_none c (lit ''entity_type''))) in
        bnd (case given of None \<Rightarrow> again | Some n \<Rightarrow> ret n) (\<lambda>n.
        bnd (apply_impact c event n) (\<lambda>ok.
        if \<not> ok then ret (c, True)
        else bnd again (\<lambda>after. ret (applied (status_of n) (status_of after) c, False))))))"

fun impact_all :: "pstr \<Rightarrow> pstr \<Rightarrow> pstr \<Rightarrow> pstr option \<Rightarrow> pydict list \<Rightarrow> ('z policy_st_scheme, (pydict \<times> bool) list) op" where
  "impact_all iv tenant project event [] = ret []"
| "impact_all iv tenant project event (c # cs) =
     bnd (impact_node tenant project event None c) (\<lambda>r.
     bnd (put_edge (affects_edge iv c (dget_none c (lit ''impact'')) tenant project event)) (\<lambda>_.
     bnd (impact_all iv tenant project event cs) (\<lambda>rs. ret (r # rs))))"

definition receipt_id :: "pydict \<Rightarrow> pstr" where
  "receipt_id c = text_of (dget_none c (lit ''node_id''))"

definition inv_version :: "pstr \<Rightarrow> pstr \<Rightarrow> pstr \<Rightarrow> pydict \<Rightarrow> pstr option \<Rightarrow> node_args" where
  "inv_version iv tenant project data event =
     node_defaults\<lparr>v_entity_type := pkey ''invalidation'', v_tenant_id := PStr tenant, v_project_id := PStr project,
       v_node_id := PStr iv, v_data := PDict data, v_event_id := opt_val event\<rparr>"

text \<open>The state changes of an ungated invalidation; it returns the nodes that refused.\<close>

definition apply_invalidation :: "pstr \<Rightarrow> node \<Rightarrow> pydict \<Rightarrow> pydict list \<Rightarrow> pstr \<Rightarrow> pstr \<Rightarrow> pstr option
    \<Rightarrow> ('z policy_st_scheme, pstr list) op" where
  "apply_invalidation iv target receipt classified tenant project event =
     bnd (invalidate_target target receipt event) (\<lambda>(receipt', target_refused).
     bnd (impact_all iv tenant project event classified) (\<lambda>rs.
     bnd (put_node (inv_version iv tenant project
       [(pkey ''affected'', PList (map (PDict \<circ> fst) rs)), (pkey ''target_transition'', PDict receipt')] event)) (\<lambda>_.
     ret ((if target_refused then [n_id (nd_row target)] else []) @ map (receipt_id \<circ> fst) (filter snd rs)))))"

definition unapplied_data :: "pstr list \<Rightarrow> pstr \<Rightarrow> pydict" where
  "unapplied_data refused target =
     [(pkey ''unapplied_nodes'', path_value refused),
      (pkey ''target_status_applied'', PBool (target \<notin> set refused)),
      (pkey ''unapplied_reason'', pkey ''the lifecycle of these nodes forbids the transition; their status is unchanged'')]"

definition bool_text :: "bool \<Rightarrow> pstr" where
  "bool_text b = (if b then lit ''True'' else lit ''False'')"

definition fire_detail :: "pstr \<Rightarrow> pstr \<Rightarrow> nat \<Rightarrow> bool \<Rightarrow> nat \<Rightarrow> pstr" where
  "fire_detail trigger target n human refused =
     trigger @ lit '' -> '' @ target @ lit '' ('' @ str_of_int (int n) @ lit '' affected, human='' @ bool_text human
       @ (if refused = 0 then [] else lit '', '' @ str_of_int (int refused) @ lit '' UNAPPLIED'') @ lit '')''"

text \<open>What \<open>_fire\<close> works out before it writes anything.\<close>

record fire_facts =
  fp_target :: node
  fp_human :: bool
  fp_truncated :: bool
  fp_classified :: "pydict list"
  fp_path :: "pstr list"
  fp_receipt :: pydict

definition fire_plan :: "inv_engine \<Rightarrow> fire_args \<Rightarrow> ('z policy_st_scheme, fire_facts) op" where
  "fire_plan ie a =
     (let tenant = text_of (f_tenant_id a); project = text_of (f_project_id a); tid = text_of (f_target_node_id a) in
     bnd (catch (get_node tid None (Some tenant) (Some project) None) (\<lambda>e. e = KeyError) (\<lambda>_. fail ValueError)) (\<lambda>target.
     bnd (lift (check_criticality (opt_val (n_criticality (nd_row target))))) (\<lambda>_.
     bnd (check_trigger tenant project (f_trigger_evidence_id a)) (\<lambda>_.
     bnd (blast_radius ie (PStr tid)) (\<lambda>(reach, truncated).
     bnd (ret (human_gate (f_requires_human a) (the (number (f_trigger_confidence a)))
           (10 \<le> length reach \<or> truncated) target)) (\<lambda>human.
     bnd (classify_all ie tenant project (f_trigger_confidence a) human reach) (\<lambda>found.
     bnd (held_restore_status ie project tid (status_of target) (PStr tenant)) (\<lambda>restore.
     ret \<lparr>fp_target = target, fp_human = human, fp_truncated = truncated, fp_classified = map fst found,
       fp_path = shortest (map snd found) tid, fp_receipt = target_receipt tid (status_of target) restore\<rparr>))))))))"

definition fire_node_args :: "fire_args \<Rightarrow> fire_facts \<Rightarrow> pstr \<Rightarrow> node_args" where
  "fire_node_args a p fired_at =
     node_defaults\<lparr>v_entity_type := pkey ''invalidation'', v_tenant_id := f_tenant_id a,
       v_project_id := f_project_id a, v_node_id := f_invalidation_id a,
       v_status := (if fp_human p then pkey ''pending_confirmation'' else pkey ''open''),
       v_criticality := PStr (criticality_or_medium (fp_target p)), v_confidence := f_trigger_confidence a,
       v_data := PDict (explanation a (fp_target p) (fp_classified p) (fp_path p) (fp_truncated p) (fp_human p) (fp_receipt p)
         @ [(pkey ''affected'', PList (map PDict (fp_classified p))), (pkey ''fired_at'', PStr fired_at)]),
       v_event_id := f_event_id a\<rparr>"

text \<open>The effects on the graph: none but edges while a human gate is pending.\<close>

definition fire_effects :: "fire_args \<Rightarrow> fire_facts \<Rightarrow> pstr \<Rightarrow> ('z policy_st_scheme, pstr list) op" where
  "fire_effects a p iv =
     (let tenant = text_of (f_tenant_id a); project = text_of (f_project_id a); event = opt_text (f_event_id a) in
      if fp_human p
      then bnd (map_each (fp_classified p) (\<lambda>c. put_edge (affects_edge iv c (pkey ''pending_confirmation'') tenant project event)))
        (\<lambda>_. ret [])
      else apply_invalidation iv (fp_target p) (fp_receipt p) (fp_classified p) tenant project event)"

definition fire_downgrade :: "inv_engine \<Rightarrow> fire_args \<Rightarrow> fire_facts \<Rightarrow> ('z policy_st_scheme, unit) op" where
  "fire_downgrade ie a p = (case ie_policy ie of
     None \<Rightarrow> ret ()
   | Some pe \<Rightarrow> if severity (fp_target p) (fp_classified p) = lit ''critical''
       then downgrade pe (f_project_id a) (pkey ''major_invalidation'') (PInt 1) (f_actor a) else ret ())"

definition fire_body :: "inv_engine \<Rightarrow> fire_args \<Rightarrow> ('z policy_st_scheme, node) op" where
  "fire_body ie a =
     (let tenant = text_of (f_tenant_id a); project = text_of (f_project_id a); event = opt_text (f_event_id a);
          tid = text_of (f_target_node_id a) in
     bnd (fire_plan ie a) (\<lambda>p.
     bnd utcnow (\<lambda>fired_at.
     bnd (put_node (fire_node_args a p fired_at)) (\<lambda>inv_node.
     bnd (ret (n_id (nd_row inv_node))) (\<lambda>iv.
     bnd (put_edge (scoped_edge ''invalidates'' iv tid tenant project event)) (\<lambda>_.
     bnd (case f_trigger_evidence_id a of
           PStr t \<Rightarrow> bnd (put_edge (scoped_edge ''derived_from'' iv t tenant project event)) (\<lambda>_. ret ())
         | _ \<Rightarrow> ret ()) (\<lambda>_.
     bnd (fire_effects a p iv) (\<lambda>refused.
     bnd (if refused = [] then ret ()
          else bnd (put_node (inv_version iv tenant project (unapplied_data refused tid) event)) (\<lambda>_. ret ())) (\<lambda>_.
     bnd (fire_downgrade ie a p) (\<lambda>_.
     bnd (audit (f_actor a) (pkey ''invalidation.fire'') (PStr iv) PNone PNone (pkey ''verifier_authoritative'')
       (PStr (fire_detail (text_of (f_trigger_type a)) tid (length (fp_classified p)) (fp_human p) (length refused)))) (\<lambda>_.
     get_node iv None (Some tenant) (Some project) (Some (lit ''invalidation'')))))))))))))"

definition fire :: "inv_engine \<Rightarrow> fire_args \<Rightarrow> ('z policy_st_scheme, node) op" where
  "fire ie a = bnd (lift (check_fire_args ie a)) (\<lambda>_. transaction (fire_body ie a))"

end
