(* ===== verification/Resolution.thy ===== *)
theory Resolution
  imports Invalidation
begin

section \<open>invalidation.py: confirming, resolving, querying\<close>

text \<open>
  The second half of the invalidation engine. Confirmation and resolution first bind every
  receipt of the invalidation to a node and an edge of its own tenant and project; only then
  is any status changed, all of it in one transaction. A node is released when no other open
  invalidation holds it.
\<close>

subsection \<open>Preflight\<close>

definition status_field_ok :: "pydict \<Rightarrow> string \<Rightarrow> exn + unit" where
  "status_field_ok d k = guard (dget_none d (lit k) = PNone \<or> nonempty_string (dget_none d (lit k))) ResolutionInputError"

definition receipt_fields_ok :: "pydict \<Rightarrow> exn + unit" where
  "receipt_fields_ok d = checks
     [status_field_ok d ''prior_status'', status_field_ok d ''restore_status'', status_field_ok d ''applied_status'',
      guard (case dget d (lit ''impact_applied'') of None \<Rightarrow> True | Some v \<Rightarrow> is_bool v) ResolutionInputError]"

definition receipt_identifier :: "pyval \<Rightarrow> exn + pstr" where
  "receipt_identifier v = rcatch (validate_public_identifier v) (\<lambda>e. e = ValueError) (\<lambda>_. Inl ResolutionInputError)"

definition target_transition_of :: "pydict \<Rightarrow> pstr \<Rightarrow> exn + pydict" where
  "target_transition_of data tid =
     rbind (case dget_none data (lit ''target_transition'') of
         PNone \<Rightarrow> Inr [(pkey ''node_id'', PStr tid)]
       | PDict d \<Rightarrow> Inr d
       | _ \<Rightarrow> Inl ResolutionInputError) (\<lambda>t.
     require (dget_none t (lit ''node_id'') = PStr tid) ResolutionInputError
     (rbind (receipt_fields_ok t) (\<lambda>_. Inr t)))"

definition path_ok :: "pyval \<Rightarrow> pstr \<Rightarrow> pstr \<Rightarrow> exn + unit" where
  "path_ok v tid nid = (case v of
     PNone \<Rightarrow> Inr ()
   | PList p \<Rightarrow> require (p \<noteq> [] \<and> hd p = PStr tid \<and> last p = PStr nid) ResolutionInputError
       (void (rmap receipt_identifier p))
   | _ \<Rightarrow> Inl ResolutionInputError)"

text \<open>One affected receipt: its fields, and the node it names in the invalidation's scope.\<close>

definition receipt_ok :: "pstr \<Rightarrow> pstr list \<Rightarrow> pyval \<Rightarrow> exn + pstr \<times> pstr \<times> pydict" where
  "receipt_ok tid known raw = (case raw of
     PDict d \<Rightarrow>
       rbind (receipt_identifier (dget_none d (lit ''node_id''))) (\<lambda>nid.
       require (nid \<notin> set known) ResolutionInputError
       (require (nonempty_string (dget_none d (lit ''entity_type''))) ResolutionInputError
       (require (in_vocabulary (dget_none d (lit ''impact'')) IMPACT_STATES) ResolutionInputError
       (rbind (receipt_fields_ok d) (\<lambda>_.
       rbind (path_ok (dget_none d (lit ''path'')) tid nid) (\<lambda>_.
       Inr (nid, text_of (dget_none d (lit ''entity_type'')), d)))))))
   | _ \<Rightarrow> Inl ResolutionInputError)"

definition bound_node :: "pstr \<Rightarrow> pstr \<Rightarrow> pstr \<Rightarrow> pstr option \<Rightarrow> ('z policy_st_scheme, node) op" where
  "bound_node nid tenant project kind =
     catch (get_node nid None (Some tenant) (Some project) kind) (\<lambda>e. e = KeyError) (\<lambda>_. fail ResolutionInputError)"

fun bind_receipts :: "pstr \<Rightarrow> pstr \<Rightarrow> pstr \<Rightarrow> pyval list \<Rightarrow> (pstr \<times> node) list \<Rightarrow> pydict list
    \<Rightarrow> ('z policy_st_scheme, pydict list \<times> (pstr \<times> node) list) op" where
  "bind_receipts tid tenant project [] bound out = ret (out, bound)"
| "bind_receipts tid tenant project (r # rs) bound out =
     bnd (lift (receipt_ok tid (map fst bound) r)) (\<lambda>(nid, kind, d).
     bnd (bound_node nid tenant project (Some kind)) (\<lambda>n.
     bind_receipts tid tenant project rs (bound @ [(nid, n)]) (out @ [d])))"

definition unapplied :: "pydict \<Rightarrow> bool" where
  "unapplied d \<longleftrightarrow> dget_none d (lit ''impact_applied'') \<in> {PNone, PBool False} \<and> dget_none d (lit ''applied_status'') = PNone"

record preflight =
  pf_target :: node
  pf_transition :: pydict
  pf_affected :: "pydict list"
  pf_nodes :: "(pstr \<times> node) list"

definition preflight_references :: "node \<Rightarrow> ('z policy_st_scheme, preflight) op" where
  "preflight_references i =
     (let r = nd_row i; tenant = n_tenant_id r; project = n_project_id r in
     bnd (chk (n_entity_type r = lit ''invalidation'') ResolutionInputError) (\<lambda>_.
     bnd (lift (case nd_data i of PDict d \<Rightarrow> Inr d | _ \<Rightarrow> Inl ResolutionInputError)) (\<lambda>data.
     bnd (lift (receipt_identifier (dget_none data (lit ''target_node_id'')))) (\<lambda>tid.
     bnd (lift (target_transition_of data tid)) (\<lambda>moved_receipt.
     bnd (bound_node tid tenant project None) (\<lambda>target.
     bnd (out_edges (PStr (n_id r)) (Some [lit ''invalidates'']) PNone) (\<lambda>tes.
     bnd (chk (map (g_dst_id \<circ> ed_row) tes = [tid]) ResolutionInputError) (\<lambda>_.
     bnd (lift (case dget_or data ''affected'' (PList []) of PList xs \<Rightarrow> Inr xs | _ \<Rightarrow> Inl ResolutionInputError)) (\<lambda>raw.
     bnd (bind_receipts tid tenant project raw [(tid, target)] []) (\<lambda>(affected, bound).
     bnd (out_edges (PStr (n_id r)) (Some [lit ''affects'']) PNone) (\<lambda>aes.
     bnd (chk (distinct (map (g_dst_id \<circ> ed_row) aes)
           \<and> set (map (g_dst_id \<circ> ed_row) aes) = set (map receipt_id affected)) ResolutionInputError) (\<lambda>_.
     bnd (chk (n_status r = Some (lit ''pending_confirmation'') \<longrightarrow> list_all unapplied (moved_receipt # affected)) ResolutionInputError) (\<lambda>_.
     ret \<lparr>pf_target = target, pf_transition = moved_receipt, pf_affected = affected, pf_nodes = bound\<rparr>)))))))))))))"

subsection \<open>Holders\<close>

text \<open>What the other open invalidations hold: their targets, and the nodes they gave an impact.\<close>

fun held_receipts :: "pyval list \<Rightarrow> exn + pyval list" where
  "held_receipts [] = Inr []"
| "held_receipts (c # cs) = rbind (dict_of c) (\<lambda>d. rbind
     (if impact_is ''review_required'' d \<or> impact_is ''blocked'' d
      then (case dget d (lit ''node_id'') of None \<Rightarrow> Inl KeyError | Some v \<Rightarrow> Inr [v]) else Inr []) (\<lambda>h.
     rbind (held_receipts cs) (\<lambda>hs. Inr (h @ hs))))"

definition held_by :: "node \<Rightarrow> exn + pyval list" where
  "held_by i = rbind (dict_of (nd_data i)) (\<lambda>d.
     rbind (iter_of (dget_or d ''affected'' (PList []))) (\<lambda>cs.
     rbind (held_receipts cs) (\<lambda>hs. Inr (hs @ [dget_none d (lit ''target_node_id'')]))))"

definition nodes_held_by_others :: "inv_engine \<Rightarrow> pstr \<Rightarrow> pstr \<Rightarrow> pyval \<Rightarrow> ('z policy_st_scheme, pyval list) op" where
  "nodes_held_by_others ie project excluding tenant =
     bnd (open_list ie project [''open''] tenant) (\<lambda>invs.
     lift (rbind (rmap held_by (filter (\<lambda>i. n_id (nd_row i) \<noteq> excluding) invs)) (\<lambda>hs.
       Inr (filter (\<lambda>v. v \<noteq> PNone) (concat hs)))))"

definition releasable :: "node \<Rightarrow> bool" where
  "releasable n \<longleftrightarrow> n_status (nd_row n) \<in> {Some (lit ''uncertain''), Some (lit ''blocked'')}"

text \<open>The receipts that were applied, whose node nothing else holds, restored one by one.\<close>

fun release_all :: "(node \<Rightarrow> 'z policy_st_scheme \<Rightarrow> bool) \<Rightarrow> pyval list \<Rightarrow> (pstr \<times> node) list \<Rightarrow> pstr option \<Rightarrow> pydict list
    \<Rightarrow> ('z policy_st_scheme, pstr list) op" where
  "release_all may held bound event [] = ret []"
| "release_all may held bound event (d # ds) =
     (if \<not> truthy (dget_none d (lit ''node_id'')) \<or> dget_none d (lit ''impact_applied'') \<noteq> PBool True
        \<or> dget_none d (lit ''node_id'') \<in> set held
      then release_all may held bound event ds
      else (case map_of bound (receipt_id d) of
          None \<Rightarrow> fail ResolutionInputError
        | Some n \<Rightarrow>
            bnd (if releasable n then restore_node may n d event else ret False) (\<lambda>done.
            bnd (release_all may held bound event ds) (\<lambda>rest.
            ret ((if done then [receipt_id d] else []) @ rest)))))"

definition release_unheld :: "inv_engine \<Rightarrow> (node \<Rightarrow> 'z policy_st_scheme \<Rightarrow> bool) \<Rightarrow> pstr \<Rightarrow> pydict list \<Rightarrow> pstr
    \<Rightarrow> pstr option \<Rightarrow> pyval \<Rightarrow> (pstr \<times> node) list \<Rightarrow> ('z policy_st_scheme, pstr list) op" where
  "release_unheld ie may project receipts excluding event tenant bound =
     bnd (nodes_held_by_others ie project excluding tenant) (\<lambda>held. release_all may held bound event receipts)"

subsection \<open>confirm\<close>

fun confirm_all :: "pstr \<Rightarrow> pstr \<Rightarrow> pstr option \<Rightarrow> (pstr \<times> node) list \<Rightarrow> pydict list
    \<Rightarrow> ('z policy_st_scheme, (pydict \<times> bool) list) op" where
  "confirm_all tenant project event bound [] = ret []"
| "confirm_all tenant project event bound (c # cs) =
     bnd (impact_node tenant project event (map_of bound (receipt_id c)) c) (\<lambda>r.
     bnd (confirm_all tenant project event bound cs) (\<lambda>rs. ret (r # rs)))"

text \<open>Accepting applies what the gate had held back; the nodes that refused are named.\<close>

definition accept_effects :: "preflight \<Rightarrow> pstr \<Rightarrow> pstr \<Rightarrow> pstr option
    \<Rightarrow> ('z policy_st_scheme, pydict \<times> pydict list \<times> pstr list) op" where
  "accept_effects pf tenant project event =
     bnd (invalidate_target (pf_target pf) (pf_transition pf) event) (\<lambda>(moved_receipt, target_refused).
     bnd (confirm_all tenant project event (pf_nodes pf) (pf_affected pf)) (\<lambda>rs.
     ret (moved_receipt, map fst rs,
       (if target_refused then [n_id (nd_row (pf_target pf))] else []) @ map (receipt_id \<circ> fst) (filter snd rs))))"

definition confirmation_data :: "pyval \<Rightarrow> pstr \<Rightarrow> bool \<Rightarrow> pydict list \<Rightarrow> pydict \<Rightarrow> pstr list \<Rightarrow> pydict" where
  "confirmation_data actor now accept affected moved_receipt refused =
     [(pkey ''confirmed_by'', actor), (pkey ''confirmed_at'', PStr now), (pkey ''accepted'', PBool accept),
      (pkey ''affected'', PList (map PDict affected)), (pkey ''target_transition'', PDict moved_receipt)]
     @ (if refused = [] then [] else
        [(pkey ''unapplied_nodes'', path_value refused),
         (pkey ''unapplied_reason'',
          pkey ''confirmed, but the lifecycle of these nodes forbids the transition; their status is unchanged'')])"

definition confirm_detail :: "bool \<Rightarrow> nat \<Rightarrow> nat \<Rightarrow> pstr" where
  "confirm_detail accept released refused =
     lit ''accepted='' @ bool_text accept @ lit ''; released '' @ str_of_int (int released)
       @ (if refused = 0 then [] else lit ''; '' @ str_of_int (int refused) @ lit '' UNAPPLIED'')"

definition confirm_body :: "inv_engine \<Rightarrow> (node \<Rightarrow> 'z policy_st_scheme \<Rightarrow> bool) \<Rightarrow> pstr \<Rightarrow> pyval \<Rightarrow> bool \<Rightarrow> pstr option
    \<Rightarrow> ('z policy_st_scheme, node) op" where
  "confirm_body ie may iid actor accept event =
     bnd (get_node iid None (ie_tenant ie) None None) (\<lambda>i.
     bnd (lift (require_owned ie i)) (\<lambda>_.
     bnd (chk (n_status (nd_row i) = Some (lit ''pending_confirmation'')) ValueError) (\<lambda>_.
     bnd (preflight_references i) (\<lambda>pf.
     (let tenant = n_tenant_id (nd_row i); project = n_project_id (nd_row i) in
     bnd (if accept then accept_effects pf tenant project event
          else ret (pf_transition pf, pf_affected pf, [])) (\<lambda>(moved_receipt, affected, refused).
     bnd utcnow (\<lambda>now.
     bnd (put_node ((inv_version iid tenant project (confirmation_data actor now accept affected moved_receipt refused) event)
          \<lparr>v_status := (if accept then pkey ''open'' else pkey ''rejected''), v_authority := pkey ''human_decision''\<rparr>)) (\<lambda>out.
     bnd (if accept then ret []
          else release_unheld ie may project (affected @ [moved_receipt]) iid event (PStr tenant) (pf_nodes pf)) (\<lambda>released.
     bnd (audit actor (pkey ''invalidation.confirm'') (PStr iid) PNone PNone PNone
       (PStr (confirm_detail accept (length released) (length refused)))) (\<lambda>_.
     ret out))))))))))"

definition confirm :: "inv_engine \<Rightarrow> (node \<Rightarrow> 'z policy_st_scheme \<Rightarrow> bool) \<Rightarrow> pyval \<Rightarrow> pyval \<Rightarrow> pyval \<Rightarrow> pyval
    \<Rightarrow> ('z policy_st_scheme, node) op" where
  "confirm ie may invalidation_id actor accept event_id =
     bnd (lift (validate_public_identifier invalidation_id)) (\<lambda>iid.
     bnd (lift (optional_identifier event_id)) (\<lambda>event.
     bnd (chk (solid_text actor) ValueError) (\<lambda>_.
     bnd (lift (validate_human_text PROJECT_NAME_MAX_LENGTH actor)) (\<lambda>_.
     bnd (chk (is_bool accept) ValueError) (\<lambda>_.
     transaction (confirm_body ie may iid actor (truthy accept) event))))))"

subsection \<open>resolve\<close>

definition RESOLUTION_MODES :: "pstr list" where
  "RESOLUTION_MODES = map lit [''replacement_evidence'', ''narrowed_scope'', ''superseding_decision'']"

text \<open>The typed evidence a mode promises: the live node of the right kind and authority that
  names the target, or a scope.\<close>

definition replacement_ok :: "(node \<Rightarrow> 'z policy_st_scheme \<Rightarrow> bool) \<Rightarrow> pstr \<Rightarrow> pyval \<Rightarrow> node \<Rightarrow> 'z policy_st_scheme \<Rightarrow> bool" where
  "replacement_ok may mode target n s \<longleftrightarrow>
     (let r = nd_row n; evidence = (mode = lit ''replacement_evidence'') in
      n_entity_type r = (if evidence then lit ''evidence'' else lit ''decision'')
      \<and> status_of n \<notin> pkey ` {''quarantined'', ''invalidated'', ''superseded'', ''rejected'', ''failed''}
      \<and> (if evidence
         then status_of n = pkey ''verified''
           \<and> n_authority r \<in> {Some (lit ''verifier_authoritative''), Some (lit ''human_decision'')}
         else status_of n \<in> {pkey ''accepted'', pkey ''active''}
           \<and> n_authority r = Some (lit ''human_decision'') \<and> may n s)
      \<and> dget_none (node_fields n) (if evidence then lit ''subject_node_id'' else lit ''supersedes_node_id'') = target)"

definition resolution_inputs :: "(node \<Rightarrow> 'z policy_st_scheme \<Rightarrow> bool) \<Rightarrow> node \<Rightarrow> pstr \<Rightarrow> pyval \<Rightarrow> pyval
    \<Rightarrow> ('z policy_st_scheme, node option) op" where
  "resolution_inputs may i mode replacement narrowed =
     (let target = dget_none (node_fields i) (lit ''target_node_id'') in
      if mode = lit ''narrowed_scope'' then
        bnd (chk (replacement = PNone) ResolutionInputError) (\<lambda>_.
        bnd (chk (is_dict narrowed \<and> truthy narrowed) ResolutionInputError) (\<lambda>_. ret None))
      else
        bnd (chk (narrowed = PNone) ResolutionInputError) (\<lambda>_.
        bnd (chk (replacement \<noteq> PNone) ResolutionInputError) (\<lambda>_.
        bnd (chk (replacement \<noteq> target \<and> replacement \<noteq> PStr (n_id (nd_row i))) ResolutionInputError) (\<lambda>_.
        bnd (bound_node (text_of replacement) (n_tenant_id (nd_row i)) (n_project_id (nd_row i)) None) (\<lambda>n.
        bnd (rd (replacement_ok may mode target n)) (\<lambda>ok.
        bnd (chk ok ResolutionInputError) (\<lambda>_. ret (Some n))))))))"

text \<open>The narrowed scope as canonical JSON reads it back.\<close>

definition canonical_scope :: "pyval \<Rightarrow> exn + pyval" where
  "canonical_scope v = (if v = PNone then Inr PNone
     else require (is_dict v) ResolutionInputError
       (rcatch (rbind (canonical_json v) (\<lambda>t. strict_json_loads (PStr t))) value_like (\<lambda>_. Inl ResolutionInputError)))"

text \<open>What resolving does to the direct target: held while another invalidation or withdrawn
  authority keeps it, else moved on by the mode. The result is what was released and held.\<close>

definition narrow_args :: "node \<Rightarrow> pydict \<Rightarrow> pyval \<Rightarrow> pyval \<Rightarrow> pstr option \<Rightarrow> node_args" where
  "narrow_args n extra scope status event =
     (version_args n ((pkey ''narrowed_scope'', scope) # extra) status event)
       \<lparr>v_scope := scope, v_authority := pkey ''human_decision''\<rparr>"

definition resolve_target :: "(node \<Rightarrow> 'z policy_st_scheme \<Rightarrow> bool) \<Rightarrow> node \<Rightarrow> pydict \<Rightarrow> pyval list \<Rightarrow> pstr \<Rightarrow> pyval
    \<Rightarrow> pstr option \<Rightarrow> ('z policy_st_scheme, pstr list \<times> pstr list) op" where
  "resolve_target may target receipt held mode scope event =
     (let tid = n_id (nd_row target) in
     bnd (rd (may target)) (\<lambda>ok.
     if \<not> ok then ret ([], [tid])
     else if PStr tid \<in> set held then
       bnd (if mode = lit ''narrowed_scope'' then bnd (put_node (narrow_args target [] scope PNone event)) (\<lambda>_. ret ())
            else ret ()) (\<lambda>_. ret ([], [tid]))
     else if mode = lit ''superseding_decision'' then
       bnd (transition target (lit ''superseded'') event) (\<lambda>moved. bnd (chk moved ResolutionInputError) (\<lambda>_. ret ([], [])))
     else if mode = lit ''replacement_evidence'' then
       bnd (transition target (lit ''resolved'') event) (\<lambda>moved. bnd (chk moved ResolutionInputError) (\<lambda>_. ret ([], [])))
     else
       (let reopen = (n_entity_type (nd_row target) = lit ''assumption''
              \<and> dget_none (node_fields target) (lit ''source_withdrawn'') = PBool True);
            args = narrow_args target (if reopen then [(pkey ''source_withdrawn'', PBool False)] else []) scope
              (restored_status target receipt) event in
        bnd (if reopen then bnd utcnow (\<lambda>t. ret (args\<lparr>v_valid_from := PStr t, v_reopen := PBool True\<rparr>)) else ret args) (\<lambda>args'.
        bnd (put_node args') (\<lambda>_. ret ([tid], []))))))"

text \<open>The dependents: released when uncertain or blocked and held by nothing else.\<close>

fun resolve_affected :: "(node \<Rightarrow> 'z policy_st_scheme \<Rightarrow> bool) \<Rightarrow> pyval list \<Rightarrow> (pstr \<times> node) list \<Rightarrow> pstr option \<Rightarrow> pydict list
    \<Rightarrow> ('z policy_st_scheme, pstr list \<times> pstr list) op" where
  "resolve_affected may held bound event [] = ret ([], [])"
| "resolve_affected may held bound event (d # ds) =
     (case map_of bound (receipt_id d) of
       None \<Rightarrow> fail KeyError
     | Some n \<Rightarrow>
         bnd (if \<not> releasable n then ret ([], [])
              else if PStr (receipt_id d) \<in> set held then ret ([], [receipt_id d])
              else bnd (restore_node may n d event) (\<lambda>done. ret (if done then ([receipt_id d], []) else ([], [receipt_id d])))) (\<lambda>(r, h).
         bnd (resolve_affected may held bound event ds) (\<lambda>(rs, hs). ret (r @ rs, h @ hs))))"

definition resolution_data :: "pyval \<Rightarrow> pstr \<Rightarrow> pstr \<Rightarrow> pyval \<Rightarrow> pyval \<Rightarrow> pyval \<Rightarrow> node option \<Rightarrow> pstr \<Rightarrow> pyval \<Rightarrow> pyval
    \<Rightarrow> pstr list \<Rightarrow> pstr list \<Rightarrow> pydict" where
  "resolution_data actor now mode note replacement_id scope replacement tid before after released held =
     [(pkey ''resolved_by'', actor), (pkey ''resolved_at'', PStr now), (pkey ''mode'', PStr mode), (pkey ''note'', note),
      (pkey ''replacement_node_id'', replacement_id), (pkey ''narrowed_scope'', scope),
      (pkey ''replacement'', (case replacement of None \<Rightarrow> PNone
         | Some n \<Rightarrow> PDict [(pkey ''node_id'', PStr (n_id (nd_row n))), (pkey ''entity_type'', PStr (n_entity_type (nd_row n))),
             (pkey ''status'', status_of n)])),
      (pkey ''target_result'', PDict [(pkey ''node_id'', PStr tid), (pkey ''from_status'', before),
         (pkey ''to_status'', after), (pkey ''still_held'', PBool (tid \<in> set held))]),
      (pkey ''released_nodes'', path_value (sorted_set released)), (pkey ''still_held_nodes'', path_value (sorted_set held))]"

definition resolve_detail :: "pstr \<Rightarrow> nat \<Rightarrow> nat \<Rightarrow> pstr" where
  "resolve_detail mode released held =
     mode @ lit ''; released '' @ str_of_int (int released) @ lit '', still held by unresolved controls: ''
       @ str_of_int (int held)"

text \<open>The transaction of \<open>resolve\<close>, on the invalidation that is to be resolved.\<close>

definition resolve_open :: "inv_engine \<Rightarrow> (node \<Rightarrow> 'z policy_st_scheme \<Rightarrow> bool) \<Rightarrow> node \<Rightarrow> pstr \<Rightarrow> pyval \<Rightarrow> pyval \<Rightarrow> pyval
    \<Rightarrow> pyval \<Rightarrow> pstr option \<Rightarrow> ('z policy_st_scheme, unit) op" where
  "resolve_open ie may i mode actor replacement_id scope note event =
     (let iid = n_id (nd_row i); tenant = n_tenant_id (nd_row i); project = n_project_id (nd_row i) in
     bnd (preflight_references i) (\<lambda>pf.
     bnd (resolution_inputs may i mode replacement_id scope) (\<lambda>replacement.
     bnd (nodes_held_by_others ie project iid (PStr tenant)) (\<lambda>held.
     bnd (case replacement of
           None \<Rightarrow> ret ()
         | Some n \<Rightarrow> bnd (put_edge (scoped_edge (if mode = lit ''replacement_evidence'' then ''supports'' else ''supersedes'')
             (n_id (nd_row n)) (n_id (nd_row (pf_target pf))) tenant project event)) (\<lambda>_. ret ())) (\<lambda>_.
     bnd (resolve_target may (pf_target pf) (pf_transition pf) held mode scope event) (\<lambda>(r1, h1).
     bnd (resolve_affected may held (pf_nodes pf) event (pf_affected pf)) (\<lambda>(r2, h2).
     bnd (get_node (n_id (nd_row (pf_target pf))) None (Some tenant) (Some project)
         (Some (n_entity_type (nd_row (pf_target pf))))) (\<lambda>after.
     bnd utcnow (\<lambda>now.
     bnd (put_node ((inv_version iid tenant project
         [(pkey ''resolution'', PDict (resolution_data actor now mode note replacement_id scope replacement
            (n_id (nd_row (pf_target pf))) (status_of (pf_target pf)) (status_of after) (r1 @ r2) (h1 @ h2))),
          (pkey ''released_nodes'', path_value (sorted_set (r1 @ r2))),
          (pkey ''still_held_nodes'', path_value (sorted_set (h1 @ h2)))] event)
         \<lparr>v_status := pkey ''resolved'', v_authority := pkey ''human_decision''\<rparr>)) (\<lambda>_.
     audit actor (pkey ''invalidation.resolve'') (PStr iid) PNone PNone PNone
       (PStr (resolve_detail mode (length (sorted_set (r1 @ r2))) (length (sorted_set (h1 @ h2)))))))))))))))"

definition resolve_body :: "inv_engine \<Rightarrow> (node \<Rightarrow> 'z policy_st_scheme \<Rightarrow> bool) \<Rightarrow> pstr \<Rightarrow> pstr \<Rightarrow> pyval \<Rightarrow> pyval \<Rightarrow> pyval
    \<Rightarrow> pyval \<Rightarrow> pstr option \<Rightarrow> ('z policy_st_scheme, node) op" where
  "resolve_body ie may iid mode actor replacement_id scope note event =
     bnd (get_node iid None (ie_tenant ie) None None) (\<lambda>i.
     bnd (lift (require_owned ie i)) (\<lambda>_.
     bnd (chk (n_entity_type (nd_row i) = lit ''invalidation'') ResolutionInputError) (\<lambda>_.
     bnd (chk (n_status (nd_row i) = Some (lit ''open'')) ResolutionInputError) (\<lambda>_.
     bnd (resolve_open ie may i mode actor replacement_id scope note event) (\<lambda>_. ret i)))))"

definition resolve :: "inv_engine \<Rightarrow> (node \<Rightarrow> 'z policy_st_scheme \<Rightarrow> bool) \<Rightarrow> pyval \<Rightarrow> pyval \<Rightarrow> pyval \<Rightarrow> pyval \<Rightarrow> pyval
    \<Rightarrow> pyval \<Rightarrow> pyval \<Rightarrow> ('z policy_st_scheme, node) op" where
  "resolve ie may invalidation_id mode actor replacement_id narrowed note event_id =
     bnd (chk (in_vocabulary mode RESOLUTION_MODES) ResolutionInputError) (\<lambda>_.
     bnd (lift (validate_public_identifier invalidation_id)) (\<lambda>iid.
     bnd (lift (optional_identifier replacement_id)) (\<lambda>_.
     bnd (lift (optional_identifier event_id)) (\<lambda>event.
     bnd (lift (validate_human_text PROJECT_NAME_MAX_LENGTH actor)) (\<lambda>_.
     bnd (lift (optional_note ResolutionInputError note)) (\<lambda>_.
     bnd (lift (canonical_scope narrowed)) (\<lambda>scope.
     bnd (transaction (resolve_body ie may iid (text_of mode) actor replacement_id scope note event)) (\<lambda>i.
     get_node iid None (Some (n_tenant_id (nd_row i))) (Some (n_project_id (nd_row i))) (Some (lit ''invalidation''))))))))))"

subsection \<open>Queries\<close>

definition open_invalidations :: "inv_engine \<Rightarrow> pstr \<Rightarrow> ('z policy_st_scheme, node list) op" where
  "open_invalidations ie project =
     bnd (require_inv_project ie project) (\<lambda>_. open_list ie project [''open'', ''pending_confirmation''] PNone)"

text \<open>The walk from a candidate to what it depends on; \<open>None\<close> when a bound is hit.\<close>

fun expand_ancestors :: "inv_engine \<Rightarrow> nat \<Rightarrow> edge list \<Rightarrow> pstr list \<Rightarrow> (pstr \<times> nat) list
    \<Rightarrow> (pstr list \<times> (pstr \<times> nat) list) option" where
  "expand_ancestors ie d [] seen queue = Some (seen, queue)"
| "expand_ancestors ie d (e # es) seen queue =
     (let dep = g_dst_id (ed_row e) in
      if dep \<in> set seen then expand_ancestors ie d es seen queue
      else if ie_max_depth ie \<le> d \<or> ie_max_nodes ie < length seen then None
      else expand_ancestors ie d es (dep # seen) (queue @ [(dep, Suc d)]))"

lemma expand_ancestors_queue:
  "expand_ancestors ie d es seen queue = Some (seen', queue') \<Longrightarrow>
   \<exists>new. queue' = queue @ new \<and> (\<forall>(n, d') \<in> set new. d' = Suc d) \<and> (new \<noteq> [] \<longrightarrow> d < ie_max_depth ie)"
proof (induction es arbitrary: seen queue)
  case (Cons e es)
  then show ?case by (fastforce simp: Let_def split: if_splits)
qed simp

lemma ancestors_measure:
  assumes "expand_ancestors ie d es seen queue = Some (seen', queue')"
  shows "(queue_measure (Suc (ie_max_depth ie)) (source_depths queue'),
     queue_measure (Suc (ie_max_depth ie)) (source_depths ((n, d) # queue))) \<in> mult less_than"
proof -
  obtain new where new: "queue' = queue @ new" "\<forall>(n, d') \<in> set new. d' = Suc d"
    "new \<noteq> [] \<longrightarrow> d < ie_max_depth ie"
    using expand_ancestors_queue [OF assms] by blast
  show ?thesis
  proof (cases "new = []")
    case True
    then show ?thesis using new(1) by (simp add: source_depths_simps queue_measure_drop)
  next
    case False
    have "\<forall>(n, d', _) \<in> set (source_depths new). d' = Suc d" using new(2) by (auto simp: source_depths_def)
    from queue_measure_grow [OF _ this, of "Suc (ie_max_depth ie)"] False new(1,3)
    show ?thesis by (simp add: source_depths_simps)
  qed
qed

function ancestors_loop :: "inv_engine \<Rightarrow> pstr list \<Rightarrow> (pstr \<times> nat) list \<Rightarrow> ('z policy_st_scheme, pstr list option) op" where
  "ancestors_loop ie seen [] s = (Inr (Some seen), s)"
| "ancestors_loop ie seen ((cur, d) # rest) s =
     (case out_edges (PStr cur) (Some (map fst PROPAGATION_EDGES)) PNone s of
        (Inl e, s') \<Rightarrow> (Inl e, s')
      | (Inr es, s') \<Rightarrow> (case expand_ancestors ie d es seen rest of
            None \<Rightarrow> (Inr None, s')
          | Some (seen', queue) \<Rightarrow> ancestors_loop ie seen' queue s'))"
  by pat_completeness auto
termination
proof (relation "inv_image (mult less_than) (\<lambda>(ie, seen, q, s). queue_measure (Suc (ie_max_depth ie)) (source_depths q))")
  show "wf (inv_image (mult less_than) (\<lambda>(ie, seen, q, s). queue_measure (Suc (ie_max_depth ie)) (source_depths q)))"
    by (intro wf_inv_image wf_mult) simp
qed (use ancestors_measure in fastforce)

declare ancestors_loop.simps [simp del]

definition touched_by :: "node \<Rightarrow> exn + pyval list" where
  "touched_by i = (let data = (if truthy (nd_data i) then nd_data i else PDict []) in
     rbind (dict_of data) (\<lambda>d. rbind (iter_of (dget_or d ''affected'' (PList []))) (\<lambda>cs.
     Inr (dget_none d (lit ''target_node_id'') #
       map (\<lambda>c. case c of PDict x \<Rightarrow> dget_none x (lit ''node_id'') | _ \<Rightarrow> PNone) (filter is_dict cs)))))"

definition blocks :: "pstr list option \<Rightarrow> node \<Rightarrow> exn + bool" where
  "blocks ancestors i = rbind (touched_by i) (\<lambda>touched. Inr (
     ancestors = None \<or> (\<exists>a \<in> set (the ancestors). PStr a \<in> set touched)
     \<or> dget_none (node_fields i) (lit ''severity'') = pkey ''critical''))"

definition blocking_invalidations :: "inv_engine \<Rightarrow> pstr \<Rightarrow> pstr \<Rightarrow> ('z policy_st_scheme, node list) op" where
  "blocking_invalidations ie project nid =
     bnd (open_invalidations ie project) (\<lambda>invs.
     bnd (if invs = [] then ret (Some [nid]) else ancestors_loop ie [nid] [(nid, 0)]) (\<lambda>ancestors.
     lift (rbind (rmap (\<lambda>i. rbind (blocks ancestors i) (\<lambda>b. Inr (i, b))) invs) (\<lambda>ibs.
       Inr (map fst (filter snd ibs))))))"

definition count_key :: "(pyval \<times> nat) list \<Rightarrow> pyval \<Rightarrow> (pyval \<times> nat) list" where
  "count_key d k = put_key d k (case map_of d k of None \<Rightarrow> 1 | Some n \<Rightarrow> Suc n)"

definition metrics :: "inv_engine \<Rightarrow> pstr \<Rightarrow> ('z policy_st_scheme, nat \<times> (pyval \<times> nat) list \<times> (pyval \<times> nat) list) op" where
  "metrics ie project =
     bnd (require_inv_project ie project) (\<lambda>_.
     bnd (current (PStr project) (pkey ''invalidation'') PNone PNone (opt_val (ie_tenant ie))) (\<lambda>invs.
     bnd (lift (rmap (\<lambda>i. dict_of (nd_data i)) invs)) (\<lambda>ds.
     ret (length invs, foldl count_key [] (map status_of invs),
       foldl count_key [] (map (\<lambda>d. dget_or d ''trigger_type'' (pkey ''unknown'')) ds)))))"

end
