(* ===== verification/Versions.thy ===== *)
theory Versions
  imports Prelude
begin

section \<open>Versioned tables\<close>

text \<open>
  What the node table and the edge table have in common: rows numbered in order, each the
  next version of a key, open until a later version closes it. A layout names the columns of
  a table; the locale \<open>versioned\<close> states the only law the proofs need of it, that closing a
  row changes nothing but the end of its interval. \<open>table_step\<close> is what one write does, and
  the lemmas of the locale say that writes keep the versions in order (\<open>versions_ok\<close>) and
  extend the history (\<open>extends\<close>).
\<close>

record ('r, 'i) layout =
  lo_row :: "'r \<Rightarrow> nat"
  lo_key :: "'r \<Rightarrow> pstr"
  lo_ver :: "'r \<Rightarrow> nat"
  lo_ident :: "'r \<Rightarrow> 'i"
  lo_from :: "'r \<Rightarrow> pstr"
  lo_until :: "'r \<Rightarrow> pstr option"
  lo_close :: "pstr \<Rightarrow> 'r \<Rightarrow> 'r"

definition of_key :: "('r, 'i) layout \<Rightarrow> pstr \<Rightarrow> 'r list \<Rightarrow> 'r list" where
  "of_key L k rows = filter (\<lambda>r. lo_key L r = k) rows"

definition find_open :: "('r, 'i) layout \<Rightarrow> pstr \<Rightarrow> 'r list \<Rightarrow> 'r option" where
  "find_open L k rows = find (\<lambda>r. lo_key L r = k \<and> lo_until L r = None) rows"

definition close_row :: "('r, 'i) layout \<Rightarrow> pstr \<Rightarrow> 'r \<Rightarrow> 'r list \<Rightarrow> 'r list" where
  "close_row L now p rows = map (\<lambda>r. if lo_row L r = lo_row L p then lo_close L now r else r) rows"

text \<open>The versions of one key: numbered from 1, of one identity, all but the last closed.\<close>

definition chain_ok :: "('r, 'i) layout \<Rightarrow> 'r list \<Rightarrow> bool" where
  "chain_ok L vs \<longleftrightarrow> map (lo_ver L) vs = [1..<Suc (length vs)]
     \<and> (\<exists>i. \<forall>a \<in> set vs. lo_ident L a = i)
     \<and> (\<forall>r \<in> set (butlast vs). lo_until L r \<noteq> None)"

definition versions_ok :: "('r, 'i) layout \<Rightarrow> 'r list \<Rightarrow> nat \<Rightarrow> bool" where
  "versions_ok L rows n \<longleftrightarrow> sorted_wrt (<) (map (lo_row L) rows) \<and> (\<forall>r \<in> set rows. lo_row L r \<le> n)
     \<and> (\<forall>k. chain_ok L (of_key L k rows))"

definition closed_by :: "('r, 'i) layout \<Rightarrow> (pstr \<Rightarrow> bool) \<Rightarrow> 'r \<Rightarrow> 'r \<Rightarrow> bool" where
  "closed_by L P a b \<longleftrightarrow> b = a \<or> (lo_until L a = None \<and> (\<exists>t. P t \<and> b = lo_close L t a))"

definition extends :: "('r, 'i) layout \<Rightarrow> (pstr \<Rightarrow> bool) \<Rightarrow> 'r list \<Rightarrow> 'r list \<Rightarrow> bool" where
  "extends L P xs ys \<longleftrightarrow> (\<exists>old new. ys = old @ new \<and> list_all2 (closed_by L P) xs old
     \<and> (\<forall>r \<in> set new. P (lo_from L r)))"

text \<open>One write at the instant \<open>now\<close>: nothing, a row closed, or a version appended after its
  predecessor was closed.\<close>

definition successor :: "('r, 'i) layout \<Rightarrow> 'r option \<Rightarrow> pstr \<Rightarrow> nat \<Rightarrow> 'r list \<Rightarrow> 'r \<Rightarrow> bool" where
  "successor L prev now n rows new \<longleftrightarrow> lo_row L new = Suc n \<and> lo_from L new = now \<and> lo_until L new = None
     \<and> (prev = None \<or> prev = find_open L (lo_key L new) rows)
     \<and> lo_ver L new = (case prev of None \<Rightarrow> 1 | Some p \<Rightarrow> lo_ver L p + 1)
     \<and> (\<forall>p. prev = Some p \<longrightarrow> lo_ident L new = lo_ident L p)
     \<and> (\<forall>r \<in> set rows. \<not> (lo_key L r = lo_key L new \<and> lo_ver L r = lo_ver L new))"

definition closing :: "('r, 'i) layout \<Rightarrow> pstr \<Rightarrow> 'r option \<Rightarrow> 'r list \<Rightarrow> 'r list" where
  "closing L now prev rows = (case prev of None \<Rightarrow> rows | Some p \<Rightarrow> close_row L now p rows)"

definition table_step :: "('r, 'i) layout \<Rightarrow> pstr \<Rightarrow> 'r list \<Rightarrow> nat \<Rightarrow> 'r list \<Rightarrow> nat \<Rightarrow> bool" where
  "table_step L now rows n rows' n' \<longleftrightarrow>
     (\<exists>prev. (prev = None \<or> (\<exists>k. prev = find_open L k rows)) \<and> rows' = closing L now prev rows \<and> n' = n)
   \<or> (\<exists>prev new. successor L prev now n rows new \<and> rows' = closing L now prev rows @ [new] \<and> n' = Suc n)"

lemma table_step_none: "table_step L now rows n rows n"
  unfolding table_step_def closing_def by auto

lemma of_key_append [simp]: "of_key L k (xs @ ys) = of_key L k xs @ of_key L k ys"
  by (simp add: of_key_def)

lemma set_of_key: "r \<in> set (of_key L k rows) \<longleftrightarrow> r \<in> set rows \<and> lo_key L r = k"
  by (auto simp: of_key_def)

lemma find_open_Some: "find_open L k rows = Some p \<Longrightarrow> p \<in> set rows \<and> lo_key L p = k \<and> lo_until L p = None"
  by (auto simp: find_open_def find_Some_iff)

lemma find_open_None: "find_open L k rows = None \<longleftrightarrow> (\<forall>r \<in> set rows. lo_key L r = k \<longrightarrow> lo_until L r \<noteq> None)"
  by (auto simp: find_open_def find_None_iff)

lemma chain_ok_Nil [simp]: "chain_ok L []"
  by (simp add: chain_ok_def)

lemma chain_ok_snoc:
  "chain_ok L vs \<Longrightarrow> lo_ver L r = Suc (length vs) \<Longrightarrow> (\<forall>a \<in> set vs. lo_ident L a = lo_ident L r \<and> lo_until L a \<noteq> None)
   \<Longrightarrow> chain_ok L (vs @ [r])"
  by (auto simp: chain_ok_def)

lemma chain_ok_last: "chain_ok L vs \<Longrightarrow> r \<in> set vs \<Longrightarrow> lo_until L r = None \<Longrightarrow> r = last vs"
  unfolding chain_ok_def by (cases vs rule: rev_cases) (fastforce simp del: upt_Suc)+

lemma chain_ok_ver_last: "chain_ok L vs \<Longrightarrow> vs \<noteq> [] \<Longrightarrow> lo_ver L (last vs) = length vs"
proof -
  assume "chain_ok L vs" "vs \<noteq> []"
  then have "last (map (lo_ver L) vs) = last [1..<Suc (length vs)]" by (simp add: chain_ok_def del: upt_Suc)
  then show ?thesis using \<open>vs \<noteq> []\<close> by (cases "length vs") (simp_all add: last_map)
qed

lemma chain_ok_first: "chain_ok L vs \<Longrightarrow> vs \<noteq> [] \<Longrightarrow> \<exists>r \<in> set vs. lo_ver L r = 1"
proof (cases vs)
  case (Cons a rest)
  assume "chain_ok L vs" "vs \<noteq> []"
  then have "map (lo_ver L) vs = 1 # [2..<Suc (length vs)]"
    by (simp add: chain_ok_def upt_conv_Cons del: upt_Suc) (simp add: numeral_2_eq_2)
  then show ?thesis using Cons by simp
qed simp

text \<open>The open version of a key is the last one.\<close>

lemma find_open_last:
  assumes "versions_ok L rows n" and "find_open L k rows = Some p"
  shows "of_key L k rows \<noteq> [] \<and> last (of_key L k rows) = p"
proof -
  have p: "p \<in> set (of_key L k rows)" "lo_until L p = None"
    using find_open_Some [OF assms(2)] by (auto simp: set_of_key)
  have "chain_ok L (of_key L k rows)" using assms(1) by (simp add: versions_ok_def)
  then show ?thesis using chain_ok_last p by fastforce
qed

lemma versions_ok_rows: "versions_ok L rows n \<Longrightarrow> a \<in> set rows \<Longrightarrow> b \<in> set rows \<Longrightarrow> lo_row L a = lo_row L b \<Longrightarrow> a = b"
proof -
  assume "versions_ok L rows n" and ab: "a \<in> set rows" "b \<in> set rows" "lo_row L a = lo_row L b"
  then have "distinct (map (lo_row L) rows)"
    by (simp add: versions_ok_def strict_sorted_iff)
  then show "a = b" using ab by (auto simp: distinct_map dest: inj_onD)
qed

locale versioned =
  fixes L :: "('r, 'i) layout"
  assumes close_columns: "lo_row L (lo_close L t r) = lo_row L r" "lo_key L (lo_close L t r) = lo_key L r"
      "lo_ver L (lo_close L t r) = lo_ver L r" "lo_ident L (lo_close L t r) = lo_ident L r"
      "lo_from L (lo_close L t r) = lo_from L r"
    and close_until: "lo_until L (lo_close L t r) = Some t"
begin

lemmas close_simps = close_columns close_until

lemma close_row_map:
  "map (lo_row L) (close_row L now p rows) = map (lo_row L) rows"
  "of_key L k (close_row L now p rows) = close_row L now p (of_key L k rows)"
  "map (lo_ver L) (close_row L now p rows) = map (lo_ver L) rows"
  by (auto simp: close_row_def of_key_def close_simps filter_map o_def intro: filter_cong)

lemma close_row_mem:
  "r \<in> set (close_row L now p rows) \<Longrightarrow> \<exists>q \<in> set rows. lo_row L r = lo_row L q \<and> lo_ident L r = lo_ident L q
     \<and> lo_key L r = lo_key L q \<and> lo_ver L r = lo_ver L q \<and> (lo_until L r = None \<longrightarrow> lo_until L q = None \<and> lo_row L q \<noteq> lo_row L p)"
proof -
  assume "r \<in> set (close_row L now p rows)"
  then obtain q where "q \<in> set rows" "r = (if lo_row L q = lo_row L p then lo_close L now q else q)"
    by (auto simp: close_row_def)
  then show ?thesis by (intro bexI [of _ q]) (simp_all add: close_simps)
qed

lemma chain_ok_close: "chain_ok L vs \<Longrightarrow> chain_ok L (close_row L now p vs)"
proof -
  assume ok: "chain_ok L vs"
  have "butlast (close_row L now p vs) = close_row L now p (butlast vs)"
    by (simp add: close_row_def map_butlast)
  moreover have "length (close_row L now p vs) = length vs" by (simp add: close_row_def)
  ultimately show ?thesis using ok close_row_mem close_row_map(3)
    unfolding chain_ok_def by (metis (no_types, lifting))
qed

lemma versions_ok_close: "versions_ok L rows n \<Longrightarrow> versions_ok L (close_row L now p rows) n"
  using close_row_mem unfolding versions_ok_def close_row_map by (metis chain_ok_close)

lemma versions_ok_closing: "versions_ok L rows n \<Longrightarrow> versions_ok L (closing L now prev rows) n"
  by (simp add: closing_def versions_ok_close split: option.split)

lemma closing_open:
  assumes "versions_ok L rows n" and "prev = find_open L k rows"
  shows "\<forall>r \<in> set (of_key L k (closing L now prev rows)). lo_until L r \<noteq> None"
proof (cases prev)
  case None
  then have "find_open L k rows = None" using assms(2) by simp
  then show ?thesis unfolding None by (simp add: closing_def set_of_key find_open_None)
next
  case (Some p)
  have ok: "chain_ok L (of_key L k rows)" using assms(1) by (simp add: versions_ok_def)
  have p: "p = last (of_key L k rows)" using find_open_last [OF assms(1) trans [OF assms(2) [symmetric] Some]] by simp
  show ?thesis
  proof
    fix r
    assume "r \<in> set (of_key L k (closing L now prev rows))"
    then have "r \<in> set (close_row L now p (of_key L k rows))" by (simp add: closing_def Some close_row_map)
    then obtain q where q: "q \<in> set (of_key L k rows)" "lo_until L r = None \<longrightarrow> lo_until L q = None \<and> lo_row L q \<noteq> lo_row L p"
      using close_row_mem by metis
    show "lo_until L r \<noteq> None" using q chain_ok_last [OF ok q(1)] p by auto
  qed
qed

lemma length_of_key_closing: "length (of_key L k (closing L now prev rows)) = length (of_key L k rows)"
  by (simp add: closing_def close_row_map split: option.split) (simp add: close_row_def)

lemma closing_mem: "r \<in> set (closing L now prev rows) \<Longrightarrow> \<exists>q \<in> set rows. lo_ident L r = lo_ident L q
     \<and> lo_key L r = lo_key L q \<and> lo_ver L r = lo_ver L q"
  using close_row_mem by (auto simp: closing_def split: option.splits) metis

lemma versions_ok_snoc:
  assumes "versions_ok L rows n" and "lo_row L new = Suc n"
    and "chain_ok L (of_key L (lo_key L new) rows @ [new])"
  shows "versions_ok L (rows @ [new]) (Suc n)"
proof -
  have "of_key L k [new] = (if lo_key L new = k then [new] else [])" for k by (simp add: of_key_def)
  then show ?thesis using assms
    by (fastforce simp: versions_ok_def sorted_wrt_append)
qed

lemma versions_ok_successor:
  assumes ok: "versions_ok L rows n" and new: "successor L prev now n rows new"
  shows "versions_ok L (closing L now prev rows @ [new]) (Suc n)"
proof -
  let ?k = "lo_key L new" and ?rows = "closing L now prev rows"
  let ?vs = "of_key L ?k rows"
  have chain: "chain_ok L ?vs" using ok by (simp add: versions_ok_def)
  have fresh: "\<forall>r \<in> set ?vs. lo_ver L r \<noteq> lo_ver L new" using new by (auto simp: successor_def set_of_key)
  have prev: "prev = find_open L ?k rows"
  proof (cases prev)
    case None
    then have "?vs = []" using chain_ok_first [OF chain] fresh new by (auto simp: successor_def)
    then have "find_open L ?k rows = None" by (auto simp: find_open_None filter_empty_conv of_key_def)
    then show ?thesis using None by simp
  next
    case (Some p)
    then show ?thesis using new by (auto simp: successor_def)
  qed
  have ver: "lo_ver L new = Suc (length ?vs) \<and> (\<forall>a \<in> set ?vs. lo_ident L a = lo_ident L new)"
  proof (cases prev)
    case None
    then have "?vs = []" using chain_ok_first [OF chain] fresh new by (auto simp: successor_def)
    then show ?thesis using None new by (simp add: successor_def)
  next
    case (Some p)
    have p: "?vs \<noteq> []" "last ?vs = p" using find_open_last [OF ok trans [OF prev [symmetric] Some]] by auto
    then have "p \<in> set ?vs" by auto
    then show ?thesis using p chain_ok_ver_last [OF chain] new Some chain
      by (auto simp: successor_def chain_ok_def)
  qed
  have "chain_ok L (of_key L ?k ?rows @ [new])"
  proof (rule chain_ok_snoc)
    show "chain_ok L (of_key L ?k ?rows)" using versions_ok_closing [OF ok] by (simp add: versions_ok_def)
    show "lo_ver L new = Suc (length (of_key L ?k ?rows))" using ver by (simp add: length_of_key_closing)
    have "lo_ident L a = lo_ident L new" if a: "a \<in> set (of_key L ?k ?rows)" for a
    proof -
      obtain q where "q \<in> set ?vs" "lo_ident L a = lo_ident L q"
        using a closing_mem [of a now prev rows] by (fastforce simp: set_of_key)
      then show ?thesis using ver by simp
    qed
    then show "\<forall>a \<in> set (of_key L ?k ?rows). lo_ident L a = lo_ident L new \<and> lo_until L a \<noteq> None"
      using closing_open [OF ok prev] by blast
  qed
  then show ?thesis using versions_ok_snoc [OF versions_ok_closing [OF ok]] new by (simp add: successor_def)
qed

lemma versions_ok_step: "versions_ok L rows n \<Longrightarrow> table_step L now rows n rows' n' \<Longrightarrow> versions_ok L rows' n'"
  unfolding table_step_def using versions_ok_successor versions_ok_closing by blast

subsection \<open>History\<close>

lemma extends_refl: "extends L P xs xs"
  unfolding extends_def by (intro exI [of _ xs] exI [of _ "[]"]) (auto simp: closed_by_def intro: list_all2_refl)

lemma closed_by_trans: "closed_by L P a b \<Longrightarrow> closed_by L P b c \<Longrightarrow> closed_by L P a c"
  by (auto simp: closed_by_def close_simps)

lemma closed_by_from: "closed_by L P a b \<Longrightarrow> lo_from L b = lo_from L a"
  by (auto simp: closed_by_def close_simps)

lemma extends_trans:
  assumes "extends L P xs ys" and "extends L P ys zs"
  shows "extends L P xs zs"
proof -
  obtain old new where 1: "ys = old @ new" "list_all2 (closed_by L P) xs old" "\<forall>r \<in> set new. P (lo_from L r)"
    using assms(1) by (auto simp: extends_def)
  obtain old' new' where 2: "zs = old' @ new'" "list_all2 (closed_by L P) ys old'" "\<forall>r \<in> set new'. P (lo_from L r)"
    using assms(2) by (auto simp: extends_def)
  obtain a b where 3: "old' = a @ b" "list_all2 (closed_by L P) old a" "list_all2 (closed_by L P) new b"
    using 1(1) 2(2) by (auto simp: list_all2_append1)
  have "list_all2 (closed_by L P) xs a"
    using 1(2) 3(2) list_all2_trans [of "closed_by L P" "closed_by L P" "closed_by L P"] closed_by_trans by blast
  moreover have "\<forall>r \<in> set b. P (lo_from L r)"
  proof
    fix r
    assume "r \<in> set b"
    then obtain q where "q \<in> set new" "closed_by L P q r"
      using 3(3) by (metis in_set_conv_nth list_all2_conv_all_nth)
    then show "P (lo_from L r)" using 1(3) closed_by_from by fastforce
  qed
  ultimately show ?thesis
    unfolding extends_def using 2(1,3) 3(1) by (intro exI [of _ a] exI [of _ "b @ new'"]) auto
qed

lemma extends_closing:
  fixes P :: "pstr \<Rightarrow> bool"
  assumes ok: "versions_ok L rows n" and prev: "prev = None \<or> prev = find_open L k rows" and now: "P now"
  shows "list_all2 (closed_by L P) rows (closing L now prev rows)"
proof (cases prev)
  case None
  then show ?thesis by (auto simp: closing_def closed_by_def intro: list_all2_refl)
next
  case (Some p)
  then have "find_open L k rows = Some p" using prev by auto
  then have p: "p \<in> set rows" "lo_until L p = None" using find_open_Some by fastforce+
  have "closed_by L P r (if lo_row L r = lo_row L p then lo_close L now r else r)" if "r \<in> set rows" for r
    using versions_ok_rows [OF ok that p(1)] p(2) now by (auto simp: closed_by_def)
  then show ?thesis using Some
    by (simp add: closing_def close_row_def list_all2_map2 list.rel_refl_strong)
qed

lemma extends_step:
  assumes ok: "versions_ok L rows n" and step: "table_step L now rows n rows' n'" and now: "P now"
  shows "extends L P rows rows'"
  using step unfolding table_step_def
proof (elim disjE exE conjE)
  fix prev
  assume "prev = None" "rows' = closing L now prev rows"
  then show ?thesis by (simp add: closing_def extends_refl)
next
  fix prev k
  assume "prev = find_open L k rows" "rows' = closing L now prev rows"
  then show ?thesis using extends_closing [of rows n prev k P now] ok now unfolding extends_def
    by (intro exI [of _ rows'] exI [of _ "[]"]) auto
next
  fix prev new
  assume new: "successor L prev now n rows new" and "rows' = closing L now prev rows @ [new]"
  then show ?thesis using extends_closing [of rows n prev "lo_key L new" P now] ok now
    unfolding extends_def successor_def by (intro exI [of _ "closing L now prev rows"] exI [of _ "[new]"]) auto
qed

end

end
