(* ===== verification/Graph_Inv.thy ===== *)
theory Graph_Inv
  imports Versions Graph_Query
begin

section \<open>graph.py: versions and history\<close>

text \<open>
  The node and the edge table as layouts, what each write of the graph does to them, and the
  interface \<open>graph_relation\<close>: a relation on states that the graph's writes and the store's
  keep is kept by every operation of \<open>Graph\<close>, traversals included.
\<close>

definition node_layout :: "(node_row, pstr \<times> pstr \<times> pstr) layout" where
  "node_layout = \<lparr>lo_row = n_row_id, lo_key = n_id, lo_ver = n_version, lo_ident = node_identity,
     lo_from = n_tx_from, lo_until = n_tx_to, lo_close = (\<lambda>t r. r\<lparr>n_tx_to := Some t\<rparr>)\<rparr>"

definition edge_layout :: "(edge_row, pstr \<times> pstr \<times> pstr \<times> pstr \<times> pstr) layout" where
  "edge_layout = \<lparr>lo_row = g_row_id, lo_key = g_id, lo_ver = g_version, lo_ident = edge_identity,
     lo_from = g_tx_from, lo_until = g_tx_to, lo_close = (\<lambda>t r. r\<lparr>g_tx_to := Some t\<rparr>)\<rparr>"

lemma node_layout_simps [simp]:
  "lo_row node_layout = n_row_id" "lo_key node_layout = n_id" "lo_ver node_layout = n_version"
  "lo_ident node_layout = node_identity" "lo_from node_layout = n_tx_from" "lo_until node_layout = n_tx_to"
  "lo_close node_layout = (\<lambda>t r. r\<lparr>n_tx_to := Some t\<rparr>)"
  by (simp_all add: node_layout_def)

lemma edge_layout_simps [simp]:
  "lo_row edge_layout = g_row_id" "lo_key edge_layout = g_id" "lo_ver edge_layout = g_version"
  "lo_ident edge_layout = edge_identity" "lo_from edge_layout = g_tx_from" "lo_until edge_layout = g_tx_to"
  "lo_close edge_layout = (\<lambda>t r. r\<lparr>g_tx_to := Some t\<rparr>)"
  by (simp_all add: edge_layout_def)

interpretation node_table: versioned node_layout
  by unfold_locales (auto simp: node_identity_def)

interpretation edge_table: versioned edge_layout
  by unfold_locales (auto simp: edge_identity_def)

lemma current_node_open: "current_node k s = find_open node_layout k (nodes s)"
  by (simp add: current_node_def find_open_def)

lemma current_edge_open: "current_edge k s = find_open edge_layout k (edges s)"
  by (simp add: current_edge_def find_open_def)

subsection \<open>Reads\<close>

lemma keeps_get_event_same: "keeps (=) (get_event e t p :: ('z store_st_scheme, event_row \<times> pyval) op)"
  unfolding get_event_def by (intro keeps_intros same.keeps_bnd same.keeps_rd same.keeps_chk same.keeps_lift
      same.keeps_fail same.keeps_ret)

lemmas same_intros = keeps_bnd_rd keeps_if keeps_case_option keeps_case_sum keeps_case_prod keeps_Let
  same.keeps_bnd same.keeps_rd same.keeps_chk same.keeps_lift same.keeps_fail same.keeps_ret same.keeps_catch
  keeps_get_event_same

lemma keeps_get_node_same: "keeps (=) (get_node a b c d e :: ('z graph_st_scheme, node) op)"
  unfolding get_node_def by (intro same_intros)

lemma keeps_require_event_scope_same: "keeps (=) (require_event_scope a b c :: ('z graph_st_scheme, unit) op)"
  unfolding require_event_scope_def by (intro same_intros)

lemma keeps_reference_scope_same: "keeps (=) (reference_scope a :: ('z graph_st_scheme, (pstr \<times> pstr) option) op)"
  unfolding reference_scope_def by (intro same_intros)

lemma bnd_ret_eq: "bnd (ret x) k = k x"
  by (simp add: bnd_def ret_def)

lemma bnd_same:
  assumes "keeps (=) m"
  shows "bnd m k s = (case fst (m s) of Inl e \<Rightarrow> (Inl e, s) | Inr x \<Rightarrow> k x s)"
  using keeps_eqD [OF assms, of s] by (cases "m s") (auto simp: bnd_def split: sum.split)

subsection \<open>What a write does\<close>

lemma unique_after_closing:
  assumes "\<forall>r \<in> set (closing node_layout now prev rows). \<not> (n_id r = k \<and> n_version r = v)"
  shows "\<forall>r \<in> set rows. \<not> (n_id r = k \<and> n_version r = v)"
proof -
  have "\<exists>q \<in> set (closing node_layout now prev rows). n_id q = n_id r \<and> n_version q = n_version r" if "r \<in> set rows" for r
  proof (cases prev)
    case (Some a)
    then have "(if n_row_id r = n_row_id a then r\<lparr>n_tx_to := Some now\<rparr> else r) \<in> set (closing node_layout now prev rows)"
      using that by (auto simp: closing_def close_row_def)
    then show ?thesis by (rule rev_bexI) simp
  qed (use that in \<open>auto simp: closing_def\<close>)
  then show ?thesis using assms by metis
qed

lemma next_node_row_simps [simp]:
  "n_row_id (next_node_row a prev nid sc d now k) = k" "n_id (next_node_row a prev nid sc d now k) = nid"
  "n_version (next_node_row a prev nid sc d now k) = (case prev of None \<Rightarrow> 1 | Some p \<Rightarrow> n_version p + 1)"
  "n_tx_from (next_node_row a prev nid sc d now k) = now" "n_tx_to (next_node_row a prev nid sc d now k) = None"
  "node_identity (next_node_row a prev nid sc d now k) = args_identity a"
  "n_tenant_id (next_node_row a prev nid sc d now k) = text_of (v_tenant_id a)"
  "n_project_id (next_node_row a prev nid sc d now k) = text_of (v_project_id a)"
  "n_entity_type (next_node_row a prev nid sc d now k) = text_of (v_entity_type a)"
  by (simp_all add: next_node_row_def Let_def node_identity_def args_identity_def split: option.split)

text \<open>The second half of \<open>put_node_body\<close>, from the row that was found.\<close>

definition store_version :: "node_args \<Rightarrow> pstr \<Rightarrow> pstr \<Rightarrow> node_row option \<Rightarrow> ('z graph_st_scheme, pstr) op" where
  "store_version a now nid prev =
     bnd (lift (reopening_ok a prev)) (\<lambda>ok.
     bnd (chk ok ValueError) (\<lambda>_.
     bnd (case prev of None \<Rightarrow> ret ()
         | Some p \<Rightarrow> bnd (chk (node_identity p = args_identity a) ValueError) (\<lambda>_. close_node now p)) (\<lambda>_.
     bnd (lift (scope_of a prev)) (\<lambda>scope.
     bnd (lift (merged_data a prev)) (\<lambda>data.
     bnd (lift (encode_optional scope)) (\<lambda>enc_scope.
     bnd (lift (canonical_json data)) (\<lambda>enc_data.
     bnd (insert_node (next_node_row a prev nid enc_scope enc_data now)) (\<lambda>_.
     ret nid))))))))"

lemma put_node_body_split:
  "put_node_body a now =
     bnd (require_event_scope (opt_text (v_event_id a)) (text_of (v_tenant_id a)) (text_of (v_project_id a))) (\<lambda>_.
     bnd (case v_node_id a of
           PStr nid \<Rightarrow> bnd (rd (current_node nid)) (\<lambda>prev. ret (nid, prev))
         | _ \<Rightarrow> bnd (new_id (if text_of (v_entity_type a) \<in> set KIND_IDS then text_of (v_entity_type a)
               else lit ''node'')) (\<lambda>nid. ret (nid, None))) (\<lambda>(nid, prev).
     store_version a now nid prev))"
  by (simp add: put_node_body_def store_version_def)

lemma closing_node: "(case prev of None \<Rightarrow> ret () | Some p \<Rightarrow> bnd (chk (c p) ValueError) (\<lambda>_. close_node now p)) s
   = (if (\<forall>p. prev = Some p \<longrightarrow> c p) then (Inr (), s\<lparr>nodes := closing node_layout now prev (nodes s)\<rparr>) else (Inl ValueError, s))"
  by (cases prev) (simp_all add: run_simps close_node_def closing_def close_row_def)

lemma bnd_closing_node: "bnd (case prev of None \<Rightarrow> ret () | Some p \<Rightarrow> bnd (chk (c p) ValueError) (\<lambda>_. close_node now p)) k s
   = (if (\<forall>p. prev = Some p \<longrightarrow> c p) then k () (s\<lparr>nodes := closing node_layout now prev (nodes s)\<rparr>) else (Inl ValueError, s))"
  by (auto simp: bnd_def [where k = k] closing_node)

lemma bnd_insert_node: "bnd (insert_node row) k s
   = (if \<forall>r \<in> set (nodes s). \<not> (n_id r = n_id (row (Suc (node_rows s))) \<and> n_version r = n_version (row (Suc (node_rows s))))
      then k () (s\<lparr>nodes := nodes s @ [row (Suc (node_rows s))], node_rows := Suc (node_rows s)\<rparr>)
      else (Inl IntegrityError, s))"
  by (simp only: insert_node_def bnd_assoc bnd_rd prod.case bnd_chk bnd_wr)

text \<open>How a version is stored: a refusal that changes nothing, a failure after the previous
  version was closed, or the new version.\<close>

lemma store_version_cases:
  assumes "store_version a now nid prev s = (r, t)"
  obtains (refused) e where "r = Inl e" "t = s"
  | (half) e where "r = Inl e" "t = s\<lparr>nodes := closing node_layout now prev (nodes s)\<rparr>"
  | (stored) scope data enc_scope enc_data where "r = Inr nid" "\<forall>p. prev = Some p \<longrightarrow> node_identity p = args_identity a"
      "scope_of a prev = Inr scope" "merged_data a prev = Inr data" "encode_optional scope = Inr enc_scope"
      "canonical_json data = Inr enc_data" "reopening_ok a prev = Inr True"
      "\<forall>q \<in> set (nodes s). \<not> (n_id q = nid \<and> n_version q = (case prev of None \<Rightarrow> 1 | Some p \<Rightarrow> n_version p + 1))"
      "t = s\<lparr>nodes := closing node_layout now prev (nodes s) @ [next_node_row a prev nid enc_scope enc_data now (Suc (node_rows s))],
         node_rows := Suc (node_rows s)\<rparr>"
proof -
  let ?ok = "reopening_ok a prev = Inr True \<and> (\<forall>p. prev = Some p \<longrightarrow> node_identity p = args_identity a)"
  let ?s = "s\<lparr>nodes := closing node_layout now prev (nodes s)\<rparr>"
  show thesis
  proof (cases ?ok)
    case False
    then have "fst (store_version a now nid prev s) \<in> range Inl \<and> snd (store_version a now nid prev s) = s"
      by (cases "reopening_ok a prev") (simp_all only: store_version_def bnd_lift bnd_chk bnd_closing_node sum.case split: if_splits, auto)
    then show thesis using assms refused by auto
  next
    case True
    let ?rest = "bnd (lift (scope_of a prev)) (\<lambda>scope. bnd (lift (merged_data a prev)) (\<lambda>data.
      bnd (lift (encode_optional scope)) (\<lambda>enc_scope. bnd (lift (canonical_json data)) (\<lambda>enc_data.
      bnd (insert_node (next_node_row a prev nid enc_scope enc_data now)) (\<lambda>_. ret nid)))))"
    have run: "?rest ?s = (r, t)"
      using assms True by (simp only: store_version_def bnd_lift bnd_chk bnd_closing_node sum.case) simp
    show thesis
    proof (cases r)
      case (Inl e)
      then have "t = ?s" using run
        by (auto simp: bnd_lift bnd_insert_node ret_run split: sum.splits if_splits)
      then show thesis using half Inl by blast
    next
      case (Inr x)
      then obtain scope data enc_scope enc_data where v: "scope_of a prev = Inr scope" "merged_data a prev = Inr data"
        "encode_optional scope = Inr enc_scope" "canonical_json data = Inr enc_data"
        and w: "bnd (insert_node (next_node_row a prev nid enc_scope enc_data now)) (\<lambda>_. ret nid) ?s = (Inr x, t)"
        using run by (auto simp: bnd_lift split: sum.splits)
      have u: "\<forall>q \<in> set (closing node_layout now prev (nodes s)). \<not> (n_id q = nid
          \<and> n_version q = (case prev of None \<Rightarrow> 1 | Some p \<Rightarrow> n_version p + 1))"
        using w by (auto simp: bnd_insert_node split: if_splits)
      show thesis
        by (rule stored [OF _ _ v _ unique_after_closing [OF u]])
          (use w True Inr in \<open>auto simp: bnd_insert_node ret_run split: if_splits\<close>)
    qed
  qed
qed

lemma table_step_stored:
  assumes "prev = None \<or> prev = current_node nid s" and "store_version a now nid prev s = (r, t)"
  shows "\<exists>ns k. t = s\<lparr>nodes := ns, node_rows := k\<rparr> \<and> table_step node_layout now (nodes s) (node_rows s) ns k"
  using assms(2)
proof (cases rule: store_version_cases)
  case (refused e)
  then show ?thesis by (intro exI [of _ "nodes s"] exI [of _ "node_rows s"]) (simp add: table_step_none)
next
  case (half e)
  have "table_step node_layout now (nodes s) (node_rows s) (closing node_layout now prev (nodes s)) (node_rows s)"
    using assms(1) unfolding table_step_def current_node_open by metis
  then show ?thesis using half by (intro exI [of _ "closing node_layout now prev (nodes s)"] exI [of _ "node_rows s"]) simp
next
  case (stored scope data enc_scope enc_data)
  let ?new = "next_node_row a prev nid enc_scope enc_data now (Suc (node_rows s))"
  have "successor node_layout prev now (node_rows s) (nodes s) ?new"
    using assms(1) stored by (auto simp: successor_def current_node_open split: option.split)
  then have "table_step node_layout now (nodes s) (node_rows s) (closing node_layout now prev (nodes s) @ [?new]) (Suc (node_rows s))"
    unfolding table_step_def by blast
  then show ?thesis using stored by blast
qed

text \<open>The write scope of \<open>put_node\<close> changes the node table by one step and draws at most a token.\<close>

lemma put_node_body_step:
  assumes "put_node_body a now s = (r, t)"
  obtains ns k d where "t = s\<lparr>nodes := ns, node_rows := k, drawn := d\<rparr>"
    "table_step node_layout now (nodes s) (node_rows s) ns k"
proof -
  have "\<exists>ns k d. t = s\<lparr>nodes := ns, node_rows := k, drawn := d\<rparr> \<and> table_step node_layout now (nodes s) (node_rows s) ns k"
  proof (cases "fst (require_event_scope (opt_text (v_event_id a)) (text_of (v_tenant_id a)) (text_of (v_project_id a)) s)")
    case (Inl e)
    then have "t = s" using assms by (simp add: put_node_body_split bnd_same [OF keeps_require_event_scope_same])
    then show ?thesis by (intro exI [of _ "nodes s"] exI [of _ "node_rows s"] exI [of _ "drawn s"]) (simp add: table_step_none)
  next
    case (Inr u)
    note run = assms [unfolded put_node_body_split bnd_same [OF keeps_require_event_scope_same] Inr, simplified]
    show ?thesis
    proof (cases "\<exists>nid. v_node_id a = PStr nid")
      case True
      then obtain nid where "v_node_id a = PStr nid" by blast
      then have "store_version a now nid (current_node nid s) s = (r, t)" using run by (simp add: run_simps)
      then obtain ns k where t: "t = s\<lparr>nodes := ns, node_rows := k\<rparr>" "table_step node_layout now (nodes s) (node_rows s) ns k"
        using table_step_stored [of "current_node nid s" nid s] by blast
      have "t = s\<lparr>nodes := ns, node_rows := k, drawn := drawn s\<rparr>" using t(1) by (cases s) simp
      then show ?thesis using t(2) by blast
    next
      case False
      then have new: "bnd (new_id (if text_of (v_entity_type a) \<in> set KIND_IDS then text_of (v_entity_type a) else lit ''node''))
          (\<lambda>nid. store_version a now nid None) s = (r, t)"
        using run by (cases "v_node_id a") (simp_all add: bnd_assoc bnd_ret_eq)
      let ?s = "s\<lparr>drawn := Suc (drawn s)\<rparr>"
      show ?thesis
      proof (cases "validate_public_identifier (PStr (id_prefix (if text_of (v_entity_type a) \<in> set KIND_IDS
          then text_of (v_entity_type a) else lit ''node'') @ [95] @ tokens s (drawn s)))")
        case (Inl e)
        then have "t = s\<lparr>nodes := nodes s, node_rows := node_rows s, drawn := Suc (drawn s)\<rparr>"
          using new by (simp add: bnd_new_id)
        then show ?thesis using table_step_none by blast
      next
        case (Inr nid)
        then have "store_version a now nid None ?s = (r, t)" using new by (simp add: bnd_new_id)
        then obtain ns k where t: "t = ?s\<lparr>nodes := ns, node_rows := k\<rparr>" "table_step node_layout now (nodes s) (node_rows s) ns k"
          using table_step_stored [of None nid ?s a now r t] by fastforce
        have "t = s\<lparr>nodes := ns, node_rows := k, drawn := Suc (drawn s)\<rparr>" using t(1) by (cases s) simp
        then show ?thesis using t(2) by blast
      qed
    qed
  qed
  then show thesis using that by blast
qed

text \<open>The same for edges.\<close>

lemma bnd_closing_edge: "bnd (case prev of None \<Rightarrow> ret () | Some p \<Rightarrow> bnd (chk (c p) ValueError) (\<lambda>_. close_edge now p)) k s
   = (if (\<forall>p. prev = Some p \<longrightarrow> c p) then k () (s\<lparr>edges := closing edge_layout now prev (edges s)\<rparr>) else (Inl ValueError, s))"
proof -
  have "(case prev of None \<Rightarrow> ret () | Some p \<Rightarrow> bnd (chk (c p) ValueError) (\<lambda>_. close_edge now p)) s
    = (if (\<forall>p. prev = Some p \<longrightarrow> c p) then (Inr (), s\<lparr>edges := closing edge_layout now prev (edges s)\<rparr>) else (Inl ValueError, s))"
    by (cases prev) (simp_all add: run_simps close_edge_def closing_def close_row_def)
  then show ?thesis by (auto simp: bnd_def [where k = k])
qed

lemma bnd_insert_edge: "bnd (insert_edge row) k s
   = (if \<forall>r \<in> set (edges s). \<not> (g_id r = g_id (row (Suc (edge_rows s))) \<and> g_version r = g_version (row (Suc (edge_rows s))))
      then k () (s\<lparr>edges := edges s @ [row (Suc (edge_rows s))], edge_rows := Suc (edge_rows s)\<rparr>)
      else (Inl IntegrityError, s))"
  by (simp only: insert_edge_def bnd_assoc bnd_rd prod.case bnd_chk bnd_wr)

lemma unique_edge_after_closing:
  assumes "\<forall>r \<in> set (closing edge_layout now prev rows). \<not> (g_id r = k \<and> g_version r = v)"
  shows "\<forall>r \<in> set rows. \<not> (g_id r = k \<and> g_version r = v)"
proof -
  have "\<exists>q \<in> set (closing edge_layout now prev rows). g_id q = g_id r \<and> g_version q = g_version r" if "r \<in> set rows" for r
  proof (cases prev)
    case (Some a)
    then have "(if g_row_id r = g_row_id a then r\<lparr>g_tx_to := Some now\<rparr> else r) \<in> set (closing edge_layout now prev rows)"
      using that by (auto simp: closing_def close_row_def)
    then show ?thesis by (rule rev_bexI) simp
  qed (use that in \<open>auto simp: closing_def\<close>)
  then show ?thesis using assms by metis
qed

text \<open>A version closed and its successor appended, whatever the successor's other columns are.\<close>

lemma table_step_edge:
  assumes "prev = None \<or> prev = current_edge eid s"
    and row: "\<And>k. g_row_id (row k) = k \<and> g_id (row k) = eid \<and> g_tx_from (row k) = now \<and> g_tx_to (row k) = None
      \<and> g_version (row k) = (case prev of None \<Rightarrow> 1 | Some p \<Rightarrow> g_version p + 1)
      \<and> (\<forall>p. prev = Some p \<longrightarrow> edge_identity (row k) = edge_identity p)"
    and "bnd (insert_edge row) m (s\<lparr>edges := closing edge_layout now prev (edges s)\<rparr>) = (r, t)"
    and "\<And>u s'. snd (m u s') = s'"
  shows "\<exists>es k. t = s\<lparr>edges := es, edge_rows := k\<rparr> \<and> table_step edge_layout now (edges s) (edge_rows s) es k"
proof (cases "\<forall>r \<in> set (closing edge_layout now prev (edges s)). \<not> (g_id r = eid
      \<and> g_version r = (case prev of None \<Rightarrow> 1 | Some p \<Rightarrow> g_version p + 1))")
  case True
  let ?new = "row (Suc (edge_rows s))"
  have "successor edge_layout prev now (edge_rows s) (edges s) ?new"
    using assms(1) row unique_edge_after_closing [OF True] by (auto simp: successor_def current_edge_open split: option.split)
  then have "table_step edge_layout now (edges s) (edge_rows s) (closing edge_layout now prev (edges s) @ [?new]) (Suc (edge_rows s))"
    unfolding table_step_def by blast
  moreover have "t = s\<lparr>edges := closing edge_layout now prev (edges s) @ [?new], edge_rows := Suc (edge_rows s)\<rparr>"
    using assms(3) True row assms(4) by (simp add: bnd_insert_edge) (metis snd_conv)
  ultimately show ?thesis by blast
next
  case False
  then have "t = s\<lparr>edges := closing edge_layout now prev (edges s)\<rparr>"
    using assms(3) row by (auto simp: bnd_insert_edge split: if_split_asm)
  moreover have "table_step edge_layout now (edges s) (edge_rows s) (closing edge_layout now prev (edges s)) (edge_rows s)"
    using assms(1) unfolding table_step_def current_edge_open by metis
  ultimately show ?thesis by (intro exI [of _ "closing edge_layout now prev (edges s)"] exI [of _ "edge_rows s"]) simp
qed

lemma put_edge_body_step:
  assumes "put_edge_body a enc now s = (r, t)"
  obtains es k d where "t = s\<lparr>edges := es, edge_rows := k, drawn := d\<rparr>"
    "table_step edge_layout now (edges s) (edge_rows s) es k"
proof -
  let ?P = "\<exists>es k d. t = s\<lparr>edges := es, edge_rows := k, drawn := d\<rparr> \<and> table_step edge_layout now (edges s) (edge_rows s) es k"
  have same: ?P if "t = s\<lparr>drawn := d\<rparr>" for d
    using that table_step_none [of edge_layout now "edges s" "edge_rows s"]
    by (intro exI [of _ "edges s"] exI [of _ "edge_rows s"] exI [of _ d]) simp
  have same0: ?P if "t = s" using same [of "drawn s"] that by simp
  let ?tail = "\<lambda>prev eid. bnd (case prev of None \<Rightarrow> ret ()
         | Some p \<Rightarrow> bnd (chk (edge_identity p = edge_args_identity a) ValueError) (\<lambda>_. close_edge now p)) (\<lambda>_.
     bnd (insert_edge (new_edge_row a prev eid enc now)) (\<lambda>_.
     bnd (rd (current_edge eid)) (\<lambda>row. case row of None \<Rightarrow> fail TypeError | Some r \<Rightarrow> ret r)))"
  have tail: "\<exists>es k. t = u\<lparr>edges := es, edge_rows := k\<rparr> \<and> table_step edge_layout now (edges u) (edge_rows u) es k"
    if run: "?tail prev eid u = (r, t)" and prev: "prev = None \<or> prev = current_edge eid u" for u :: "'a graph_st_scheme" and prev eid
  proof (cases "\<forall>p. prev = Some p \<longrightarrow> edge_identity p = edge_args_identity a")
    case True
    show ?thesis
    proof (rule table_step_edge [OF prev])
      show "bnd (insert_edge (new_edge_row a prev eid enc now)) (\<lambda>_.
          bnd (rd (current_edge eid)) (\<lambda>row. case row of None \<Rightarrow> fail TypeError | Some r \<Rightarrow> ret r))
          (u\<lparr>edges := closing edge_layout now prev (edges u)\<rparr>) = (r, t)"
        using run True by (simp add: bnd_closing_edge)
    qed (use True in \<open>auto simp: new_edge_row_def edge_identity_def edge_args_identity_def run_simps split: option.splits\<close>)
  next
    case False
    then have "t = u" using run by (auto simp: bnd_closing_edge)
    then show ?thesis by (intro exI [of _ "edges u"] exI [of _ "edge_rows u"]) (simp add: table_step_none)
  qed
  note run = assms [unfolded put_edge_body_def bnd_same [OF keeps_require_event_scope_same] bnd_same [OF keeps_reference_scope_same]]
  have ?P
  proof (cases "t = s")
    case True
    then show ?P by (rule same0)
  next
    case False
    have found: "bnd (case w_edge_id a of PStr eid \<Rightarrow> ret (Some eid) | _ \<Rightarrow> rd (existing_edge a)) (\<lambda>known.
       bnd (case known of None \<Rightarrow> ret None | Some eid \<Rightarrow> rd (current_edge eid)) (\<lambda>prev.
       bnd (case known of None \<Rightarrow> new_id (lit ''edge'') | Some eid \<Rightarrow> ret eid) (?tail prev))) s = (r, t)"
      using run False by (auto simp: bnd_chk [where s = s] split: sum.splits if_splits)
    have "\<exists>known. bnd (case known of None \<Rightarrow> ret None | Some eid \<Rightarrow> rd (current_edge eid)) (\<lambda>prev.
       bnd (case known of None \<Rightarrow> new_id (lit ''edge'') | Some eid \<Rightarrow> ret eid) (?tail prev)) s = (r, t)"
    proof (cases "\<exists>eid. w_edge_id a = PStr eid")
      case True
      then obtain eid where "w_edge_id a = PStr eid" by blast
      then show ?thesis using found by (intro exI [of _ "Some eid"]) (simp add: bnd_ret_eq)
    next
      case False
      have "(case w_edge_id a of PStr eid \<Rightarrow> ret (Some eid) | _ \<Rightarrow> rd (existing_edge a)) = (rd (existing_edge a) :: ('a graph_st_scheme, pstr option) op)"
        using False by (simp split: pyval.split)
      then show ?thesis using found by (simp only: bnd_rd) blast
    qed
    then obtain known where known: "bnd (case known of None \<Rightarrow> ret None | Some eid \<Rightarrow> rd (current_edge eid)) (\<lambda>prev.
       bnd (case known of None \<Rightarrow> new_id (lit ''edge'') | Some eid \<Rightarrow> ret eid) (?tail prev)) s = (r, t)" by blast
    show ?P
    proof (cases known)
      case (Some eid)
      then have "?tail (current_edge eid s) eid s = (r, t)" using known by (simp only: option.case bnd_rd bnd_ret_eq)
      then obtain es k where "t = s\<lparr>edges := es, edge_rows := k\<rparr>" "table_step edge_layout now (edges s) (edge_rows s) es k"
        using tail by blast
      moreover from this(1) have "t = s\<lparr>edges := es, edge_rows := k, drawn := drawn s\<rparr>" by (cases s) simp
      ultimately show ?P by blast
    next
      case None
      let ?u = "s\<lparr>drawn := Suc (drawn s)\<rparr>"
      have new: "bnd (new_id (lit ''edge'')) (?tail None) s = (r, t)" using known None by (simp only: option.case bnd_ret_eq)
      show ?P
      proof (cases "validate_public_identifier (PStr (id_prefix (lit ''edge'') @ [95] @ tokens s (drawn s)))")
        case (Inl e)
        then have "t = s\<lparr>drawn := Suc (drawn s)\<rparr>" using new by (simp add: bnd_new_id)
        then show ?P by (rule same)
      next
        case (Inr eid)
        then have "?tail None eid ?u = (r, t)" using new by (simp only: bnd_new_id sum.case)
        then obtain es k where "t = ?u\<lparr>edges := es, edge_rows := k\<rparr>" "table_step edge_layout now (edges ?u) (edge_rows ?u) es k"
          using tail by blast
        moreover from this(1) have "t = s\<lparr>edges := es, edge_rows := k, drawn := Suc (drawn s)\<rparr>" by (cases s) simp
        ultimately show ?P by auto
      qed
    qed
  qed
  then show thesis using that by blast
qed

lemma end_edge_body_step:
  assumes "end_edge_body eid tenant project event until now s = (r, t)"
  obtains es k where "t = s\<lparr>edges := es, edge_rows := k\<rparr>"
    "table_step edge_layout now (edges s) (edge_rows s) es k"
proof (cases "t = s")
  case True
  then have "t = s\<lparr>edges := edges s, edge_rows := edge_rows s\<rparr>" by simp
  then show thesis using that table_step_none by blast
next
  case False
  note run = assms [unfolded end_edge_body_def bnd_same [OF keeps_require_event_scope_same] bnd_rd]
  obtain p where p: "current_edge eid s = Some p"
    using run False by (cases "current_edge eid s") (auto simp: run_simps split: sum.splits)
  define row where "row k = p\<lparr>g_row_id := k, g_version := g_version p + 1,
           g_valid_to := Some (case until of None \<Rightarrow> now | Some t \<Rightarrow> t), g_tx_from := now, g_tx_to := None,
           g_event_id := event\<rparr>" for k
  have "bnd (close_edge now p) (\<lambda>_. insert_edge row) s = (r, t)"
    using run False p by (auto simp: bnd_chk row_def [abs_def] split: sum.splits if_splits)
  then have ins: "insert_edge row (s\<lparr>edges := closing edge_layout now (Some p) (edges s)\<rparr>) = (r, t)"
    by (simp add: close_edge_def bnd_wr closing_def close_row_def cong: if_cong)
  have "\<exists>es k. t = s\<lparr>edges := es, edge_rows := k\<rparr> \<and> table_step edge_layout now (edges s) (edge_rows s) es k"
  proof (rule table_step_edge)
    show "Some p = None \<or> Some p = current_edge eid s" using p by simp
    show "bnd (insert_edge row) ret (s\<lparr>edges := closing edge_layout now (Some p) (edges s)\<rparr>) = (r, t)"
      using ins by (cases r) (simp_all add: bnd_def ret_def)
    show "\<And>k. g_row_id (row k) = k \<and> g_id (row k) = eid \<and> g_tx_from (row k) = now \<and> g_tx_to (row k) = None
      \<and> g_version (row k) = (case Some p of None \<Rightarrow> 1 | Some p \<Rightarrow> g_version p + 1)
      \<and> (\<forall>q. Some p = Some q \<longrightarrow> edge_identity (row k) = edge_identity q)"
      using p by (auto simp: row_def edge_identity_def current_edge_def find_Some_iff)
  qed (simp add: ret_def)
  then show thesis using that by blast
qed

subsection \<open>The interface\<close>

locale graph_relation = store_relation R for R :: "'z graph_st_scheme \<Rightarrow> 'z graph_st_scheme \<Rightarrow> bool" +
  assumes R_node_table: "utcnow s = (Inr now, u) \<Longrightarrow> table_step node_layout now (nodes s) (node_rows s) ns k \<Longrightarrow>
      R s (u\<lparr>nodes := ns, node_rows := k, drawn := d\<rparr>)"
    and R_edge_table: "utcnow s = (Inr now, u) \<Longrightarrow> table_step edge_layout now (edges s) (edge_rows s) es k \<Longrightarrow>
      R s (u\<lparr>edges := es, edge_rows := k, drawn := d\<rparr>)"
begin

lemma keeps_stamped:
  fixes m :: "pstr \<Rightarrow> ('z graph_st_scheme, 'a) op"
  assumes "\<And>s now u. utcnow s = (Inr now, u) \<Longrightarrow> R s (snd (m now u))"
  shows "keeps R (bnd utcnow (\<lambda>now. write_scope (m now)))"
proof (rule keepsI)
  fix s :: "'z graph_st_scheme"
  obtain q u where u: "utcnow s = (q, u)" by fastforce
  show "R s (snd (bnd utcnow (\<lambda>now. write_scope (m now)) s))"
  proof (cases q)
    case (Inl e)
    then show ?thesis using u R_utcnow [of s] by (simp add: bnd_def)
  next
    case (Inr now)
    obtain r t where t: "m now u = (r, t)" by fastforce
    have R: "R s t" using assms [of s now u] u Inr t by simp
    obtain l where "u = s\<lparr>ticks := Suc (ticks s), last_utcnow := l\<rparr>" using utcnow_run [OF u] .
    then have "rollback u t = rollback s t" by (simp add: rollback_def)
    then show ?thesis using R R_rollback [OF R] u Inr t
      by (cases r) (simp_all add: bnd_def write_scope_def atomic_def)
  qed
qed

lemma tables_graph_utcnow:
  assumes "utcnow s = (q, u)"
  shows "nodes u = nodes (s :: 'z graph_st_scheme)" "node_rows u = node_rows s" "edges u = edges s" "edge_rows u = edge_rows s"
proof -
  obtain l where "u = s\<lparr>ticks := Suc (ticks s), last_utcnow := l\<rparr>" using utcnow_run [OF assms] .
  then show "nodes u = nodes s" "node_rows u = node_rows s" "edges u = edges s" "edge_rows u = edge_rows s" by simp_all
qed

lemma keeps_get_node [keeps_intros]: "keeps R (get_node a b c d e)"
  by (simp add: keeps_def keeps_eqD [OF keeps_get_node_same] R_refl)

lemma keeps_reference_scope [keeps_intros]: "keeps R (reference_scope a)"
  by (simp add: keeps_def keeps_eqD [OF keeps_reference_scope_same] R_refl)

lemma keeps_put_node [keeps_intros]: "keeps R (put_node a)"
proof -
  have stamped: "keeps R (bnd utcnow (\<lambda>now. write_scope (put_node_body a now)))"
  proof (rule keeps_stamped)
    fix s u :: "'z graph_st_scheme" and now
    assume u: "utcnow s = (Inr now, u)"
    obtain r t where t: "put_node_body a now u = (r, t)" by fastforce
    show "R s (snd (put_node_body a now u))"
      using t by (cases rule: put_node_body_step [OF t]) (auto simp: tables_graph_utcnow [OF u] intro: R_node_table [OF u])
  qed
  have "(put_node a :: ('z graph_st_scheme, node) op) = bnd (lift (check_node_args a)) (\<lambda>_. bnd (bnd utcnow (\<lambda>now. write_scope (put_node_body a now))) (\<lambda>nid.
     get_node nid None (Some (text_of (v_tenant_id a))) (Some (text_of (v_project_id a))) (Some (text_of (v_entity_type a)))))"
    by (simp add: put_node_def bnd_assoc)
  then show ?thesis by (simp add: keeps_intros stamped)
qed

lemma keeps_put_edge [keeps_intros]: "keeps R (put_edge a)"
proof -
  have stamped: "keeps R (bnd utcnow (\<lambda>now. write_scope (put_edge_body a enc now)))" for enc
  proof (rule keeps_stamped)
    fix s u :: "'z graph_st_scheme" and now
    assume u: "utcnow s = (Inr now, u)"
    obtain r t where t: "put_edge_body a enc now u = (r, t)" by fastforce
    show "R s (snd (put_edge_body a enc now u))"
      using t by (cases rule: put_edge_body_step [OF t]) (auto simp: tables_graph_utcnow [OF u] intro: R_edge_table [OF u])
  qed
  have "(put_edge a :: ('z graph_st_scheme, edge) op) = bnd (lift (check_edge_args a)) (\<lambda>_. bnd (lift (encode_optional (w_data a))) (\<lambda>enc.
     bnd (bnd utcnow (\<lambda>now. write_scope (put_edge_body a enc now))) (\<lambda>r. lift (edge_dict r))))"
    by (simp add: put_edge_def bnd_assoc)
  then show ?thesis by (simp add: keeps_intros stamped)
qed

lemma keeps_end_edge [keeps_intros]: "keeps R (end_edge e t p ev v)"
proof -
  have stamped: "keeps R (bnd utcnow (\<lambda>now. write_scope (end_edge_body a b c d f now)))" for a b c d f
  proof (rule keeps_stamped)
    fix s u :: "'z graph_st_scheme" and now
    assume u: "utcnow s = (Inr now, u)"
    obtain r t where t: "end_edge_body a b c d f now u = (r, t)" by fastforce
    obtain es k where k: "t = u\<lparr>edges := es, edge_rows := k\<rparr>" "table_step edge_layout now (edges u) (edge_rows u) es k"
      using end_edge_body_step [OF t] by blast
    have "t = u\<lparr>edges := es, edge_rows := k, drawn := drawn u\<rparr>" using k(1) by (cases u) simp
    then show "R s (snd (end_edge_body a b c d f now u))"
      using t k(2) R_edge_table [OF u, of es k "drawn u"] by (simp add: tables_graph_utcnow [OF u])
  qed
  show ?thesis unfolding end_edge_def by (intro keeps_intros stamped)
qed

text \<open>The queries take readings of the clock and change nothing else.\<close>

lemma keeps_edges_for [keeps_intros]: "keeps R (edges_for d n k v)"
  unfolding edges_for_def by (intro keeps_intros)

lemma keeps_current [keeps_intros]: "keeps R (current a b c d e)"
  unfolding current_def by (intro keeps_intros)

lemma keeps_dependents_loop: "keeps R (dependents_loop w mn mx md t)"
proof (rule keepsI)
  fix s
  show "R s (snd (dependents_loop w mn mx md t s))"
  proof (induction w mn mx md t s rule: dependents_loop.induct)
    case (1 w mn mx md t s)
    show ?case
    proof (cases "t_queue t")
      case Nil
      then show ?thesis by (simp add: dependents_loop.simps [of w mn mx md t s] R_refl)
    next
      case (Cons x rest)
      then obtain cur dp strength path where Q: "t_queue t = (cur, dp, strength, path) # rest" by (cases x) auto
      note step = dependents_loop.simps [of w mn mx md t s, unfolded Q list.case prod.case]
      show ?thesis
      proof (cases "md \<le> dp")
        case True
        then show ?thesis using 1(1) [OF Q refl refl refl True] by (simp add: step)
      next
        case False
        obtain q u where q: "in_edges (PStr cur) (Some (map fst w)) PNone s = (q, u)" by fastforce
        have su: "R s u" using keepsD [OF keeps_edges_for q] .
        show ?thesis
        proof (cases q)
          case (Inl e)
          then show ?thesis using su q False by (simp add: step)
        next
          case (Inr es)
          show ?thesis
          proof (cases "relax w mn mx dp strength path es (t\<lparr>t_queue := rest\<rparr>)")
            case (Inl e)
            then show ?thesis using su q \<open>q = Inr es\<close> False by (simp add: step)
          next
            case (Inr t')
            have "R u (snd (dependents_loop w mn mx md t' u))"
              using 1(2) [OF Q refl refl refl False q [symmetric] \<open>q = Inr es\<close> Inr] .
            then show ?thesis using R_trans [OF su] q \<open>q = Inr es\<close> Inr False by (simp add: step)
          qed
        qed
      qed
    qed
  qed
qed

lemma keeps_dependents [keeps_intros]: "keeps R (dependents a b c d e)"
  unfolding dependents_def by (intro keeps_intros keeps_dependents_loop)

end

end
