(* ===== verification/Graph_History.thy ===== *)
theory Graph_History
  imports Graph_Inv
begin

section \<open>graph.py: the past is kept\<close>

text \<open>
  Two instances of \<open>graph_relation\<close>. \<open>graph_history\<close>: versions stay numbered in order under
  one identity, and rows are only closed and appended. \<open>past tau\<close>: in a process whose clock
  has reached \<open>tau\<close>, nothing that is written later touches what was believed at \<open>tau\<close>.
\<close>

definition tables_ok :: "'z graph_st_scheme \<Rightarrow> bool" where
  "tables_ok s \<longleftrightarrow> versions_ok node_layout (nodes s) (node_rows s) \<and> versions_ok edge_layout (edges s) (edge_rows s)"

definition grown :: "(pstr \<Rightarrow> bool) \<Rightarrow> 'z graph_st_scheme \<Rightarrow> 'z graph_st_scheme \<Rightarrow> bool" where
  "grown P s t \<longleftrightarrow> tables_ok t \<and> extends node_layout P (nodes s) (nodes t) \<and> extends edge_layout P (edges s) (edges t)"

definition graph_history :: "'z graph_st_scheme \<Rightarrow> 'z graph_st_scheme \<Rightarrow> bool" where
  "graph_history s t \<longleftrightarrow> (tables_ok s \<longrightarrow> grown (\<lambda>_. True) s t)"

lemma tables_graph:
  fixes s t :: "'z graph_st_scheme"
  assumes "store_st.more s = store_st.more t"
  shows "nodes s = nodes t" "node_rows s = node_rows t" "edges s = edges t" "edge_rows s = edge_rows t"
  using assms by (cases s; cases t; simp)+

lemma tables_beyond: "tables s = tables t \<Longrightarrow> store_st.more s = store_st.more t"
  by (cases s; cases t) simp

lemma grown_trans:
  assumes "grown P s t" and "grown P t u"
  shows "grown P s u"
  using assms node_table.extends_trans edge_table.extends_trans unfolding grown_def by blast

lemma grown_ok: "grown P s t \<Longrightarrow> tables_ok t"
  by (simp add: grown_def)

lemma grown_same: "tables_ok s \<Longrightarrow> store_st.more s = store_st.more t \<Longrightarrow> grown P s t"
  using tables_graph [of s t] by (simp add: grown_def tables_ok_def node_table.extends_refl edge_table.extends_refl)

lemma grown_nodes:
  assumes "tables_ok s" and "table_step node_layout now (nodes s) (node_rows s) (nodes t) (node_rows t)"
    and "edges t = edges s" and "edge_rows t = edge_rows s" and "P now"
  shows "grown P s t"
  using assms by (simp add: grown_def tables_ok_def edge_table.extends_refl)
    (metis node_table.versions_ok_step node_table.extends_step)

lemma grown_edges:
  assumes "tables_ok s" and "table_step edge_layout now (edges s) (edge_rows s) (edges t) (edge_rows t)"
    and "nodes t = nodes s" and "node_rows t = node_rows s" and "P now"
  shows "grown P s t"
  using assms by (simp add: grown_def tables_ok_def node_table.extends_refl)
    (metis edge_table.versions_ok_step edge_table.extends_step)

lemma tables_ok_utcnow: "utcnow s = (q, u) \<Longrightarrow> tables_ok u = tables_ok (s :: 'z graph_st_scheme)"
  using utcnow_tables [of s q u] tables_graph [OF tables_beyond, of u s] by (simp add: tables_ok_def)

interpretation graph_history: tables_relation graph_history
proof unfold_locales
  fix s t u :: "'a graph_st_scheme"
  show "graph_history s s" by (simp add: graph_history_def grown_same)
  show "graph_history s t \<Longrightarrow> graph_history t u \<Longrightarrow> graph_history s u"
    unfolding graph_history_def using grown_trans grown_ok by blast
  show "tables s = tables t \<Longrightarrow> graph_history s t" using tables_beyond [of s t] by (simp add: graph_history_def grown_same)
qed

interpretation graph_history: beyond_relation graph_history
  by unfold_locales (simp add: graph_history_def grown_same)

interpretation graph_history: graph_relation graph_history
proof unfold_locales
  fix s u :: "'a graph_st_scheme" and now ns es k d
  assume u: "utcnow s = (Inr now, u)"
  note same = tables_graph [OF tables_beyond [OF utcnow_tables [OF u]]]
  show "table_step node_layout now (nodes s) (node_rows s) ns k \<Longrightarrow> graph_history s (u\<lparr>nodes := ns, node_rows := k, drawn := d\<rparr>)"
    using same by (auto simp: graph_history_def intro: grown_nodes)
  show "table_step edge_layout now (edges s) (edge_rows s) es k \<Longrightarrow> graph_history s (u\<lparr>edges := es, edge_rows := k, drawn := d\<rparr>)"
    using same by (auto simp: graph_history_def intro: grown_edges)
qed

subsection \<open>The past\<close>

definition clock_past :: "pstr \<Rightarrow> 'z env_scheme \<Rightarrow> bool" where
  "clock_past tau s \<longleftrightarrow> sane_clock s \<and> (\<exists>l. last_utcnow s = Some l \<and> tau \<le> strftime l)"

definition past :: "pstr \<Rightarrow> 'z graph_st_scheme \<Rightarrow> 'z graph_st_scheme \<Rightarrow> bool" where
  "past tau s t \<longleftrightarrow> (clock_past tau s \<and> tables_ok s \<longrightarrow> clock_past tau t \<and> grown (\<lambda>x. tau < x) s t)"

lemma clock_past_utcnow:
  assumes "clock_past tau s" and "utcnow s = (q, u)"
  shows "clock_past tau u \<and> (\<forall>now. q = Inr now \<longrightarrow> tau < now)"
proof -
  obtain l where l: "last_utcnow s = Some l" "tau \<le> strftime l" and sane: "sane_clock s"
    using assms(1) by (auto simp: clock_past_def)
  have su: "sane_clock u" using sane_clock_utcnow [OF sane] assms(2) by simp
  show ?thesis
  proof (cases q)
    case (Inl e)
    then have "last_utcnow u = last_utcnow s" using assms(2) by (auto simp: utcnow_def split: sum.splits)
    then show ?thesis using su l Inl by (simp add: clock_past_def)
  next
    case (Inr now)
    then have "strftime l < now" using utcnow_text_after [OF sane _ l(1)] assms(2) by blast
    moreover obtain d where "last_utcnow u = Some d" "now = strftime d" using utcnow_floor assms(2) Inr by blast
    ultimately show ?thesis using su l(2) Inr by (auto simp: clock_past_def)
  qed
qed

lemma clock_past_reading: "clock_past tau s \<Longrightarrow> utcnow s = (Inr now, u) \<Longrightarrow> clock_past now u"
  using clock_past_utcnow [of tau s "Inr now" u] utcnow_floor [of s now u] by (auto simp: clock_past_def)

lemma clock_past_moves [simp]:
  "clock_past tau (enter s) = clock_past tau s" "clock_past tau (leave s t) = clock_past tau t"
  "clock_past tau (rollback s t) = clock_past tau t"
  by (simp_all add: clock_past_def sane_clock_def)

lemma clock_past_same: "same_clock s t \<Longrightarrow> clock_past tau s = clock_past tau t"
  by (simp add: clock_past_def sane_clock_def same_clock_def)

lemma beyond_moves [simp]:
  "store_st.more (enter s) = store_st.more s" "store_st.more (leave s t) = store_st.more t"
  "store_st.more (rollback s t) = store_st.more s"
  by (simp_all add: enter_def leave_def rollback_def)

lemma grown_beyond:
  assumes "store_st.more s = store_st.more s'" and "store_st.more t = store_st.more t'" and "grown P s t"
  shows "grown P s' t'"
  using assms tables_graph [OF assms(1)] tables_graph [OF assms(2)] by (simp add: grown_def tables_ok_def)

lemma tables_ok_beyond: "store_st.more s = store_st.more t \<Longrightarrow> tables_ok s = tables_ok t"
  using tables_graph [of s t] by (simp add: tables_ok_def)

interpretation past: db_relation "past tau" for tau
proof unfold_locales
  fix s t u :: "'a graph_st_scheme"
  show "past tau s s" by (simp add: past_def grown_same)
  show "past tau s t \<Longrightarrow> past tau t u \<Longrightarrow> past tau s u"
    unfolding past_def using grown_trans grown_ok by blast
  obtain q v where v: "utcnow s = (q, v)" by fastforce
  then show "past tau s (snd (utcnow s))"
    using clock_past_utcnow [OF _ v] tables_beyond [OF utcnow_tables [OF v]] by (simp add: past_def grown_same)
  have "same_clock s (snd (draw_token s))" "store_st.more (snd (draw_token s)) = store_st.more s"
    by (simp_all add: draw_token_def same_clock_def)
  then show "past tau s (snd (draw_token s))"
    using clock_past_same by (auto simp: past_def grown_same)
  show "past tau (enter s) t \<Longrightarrow> past tau s (leave s t)"
    unfolding past_def using grown_beyond [of "enter s" s t "leave s t"] tables_ok_beyond [of "enter s" s] by simp
  show "past tau (enter s) t \<Longrightarrow> past tau s (rollback s t)"
    unfolding past_def using tables_ok_beyond [of "enter s" s] by (simp add: grown_same)
  show "past tau s t \<Longrightarrow> past tau s (rollback s t)"
    unfolding past_def by (simp add: grown_same)
qed

interpretation past: beyond_relation "past tau" for tau
  using clock_past_same by unfold_locales (auto simp: past_def grown_same)

interpretation past: graph_relation "past tau" for tau
proof unfold_locales
  fix s u :: "'a graph_st_scheme" and now ns es k d
  assume u: "utcnow s = (Inr now, u)"
  note same = tables_graph [OF tables_beyond [OF utcnow_tables [OF u]]]
  have clock: "clock_past tau s \<Longrightarrow> clock_past tau (u\<lparr>nodes := ns, node_rows := k, drawn := d\<rparr>)
      \<and> clock_past tau (u\<lparr>edges := es, edge_rows := k, drawn := d\<rparr>) \<and> tau < now"
    using clock_past_utcnow [OF _ u, of tau] by (simp add: clock_past_def sane_clock_def)
  show "table_step node_layout now (nodes s) (node_rows s) ns k \<Longrightarrow> past tau s (u\<lparr>nodes := ns, node_rows := k, drawn := d\<rparr>)"
    using same clock by (auto simp: past_def intro: grown_nodes)
  show "table_step edge_layout now (edges s) (edge_rows s) es k \<Longrightarrow> past tau s (u\<lparr>edges := es, edge_rows := k, drawn := d\<rparr>)"
    using same clock by (auto simp: past_def intro: grown_edges)
qed

end
