(* ===== verification/Sessions.thy ===== *)
theory Sessions
  imports Graph_History Resolution
begin

section \<open>Sessions of the whole engine\<close>

text \<open>
  \<open>policy_relation\<close> extends \<open>graph_relation\<close> by the writes of \<open>policy.py\<close>, and the lemmas
  carry it through every operation of the policy and of the invalidation engine.
  \<open>engine_call\<close> names everything a client may call, nested transactions included, so that
  \<open>run_engine\<close> runs any session. Clearing downgrades is a law of its own, for the facts that
  hold until somebody does.
\<close>

lemma keeps_case_pyval [keeps_intros]:
  "keeps R a \<Longrightarrow> (\<And>x. keeps R (b x)) \<Longrightarrow> (\<And>x. keeps R (c x)) \<Longrightarrow> (\<And>x. keeps R (d x)) \<Longrightarrow> (\<And>x. keeps R (e x))
   \<Longrightarrow> (\<And>x. keeps R (f x)) \<Longrightarrow> (\<And>x. keeps R (g x)) \<Longrightarrow> (\<And>x. keeps R (h x)) \<Longrightarrow> (\<And>x. keeps R (i x)) \<Longrightarrow> keeps R j
   \<Longrightarrow> keeps R (case_pyval a b c d e f g h i j v)"
  by (cases v) simp_all

locale policy_relation = graph_relation R for R :: "'z policy_st_scheme \<Rightarrow> 'z policy_st_scheme \<Rightarrow> bool" +
  assumes R_grant: "gr_id row \<notin> gr_id ` set (grants s) \<Longrightarrow> R s (s\<lparr>grants := grants s @ [row]\<rparr>)"
    and R_revoke: "R s (s\<lparr>grants := map (\<lambda>g. if gr_id g = gid then g\<lparr>gr_revoked_at := Some now\<rparr> else g) (grants s)\<rparr>)"
    and R_downgrade: "R s (s\<lparr>downgrade_seq := Suc (downgrade_seq s), downgrades := downgrades s @ [drow]\<rparr>)"
begin

lemma keeps_require_project [keeps_intros]: "keeps R (require_project pe p)"
  unfolding require_project_def by (intro keeps_intros)

lemma keeps_project_config [keeps_intros]: "keeps R (project_config pe p)"
  unfolding project_config_def by (intro keeps_intros)

lemma keeps_new_grant:
  assumes "gr_id row = gid" "keeps R k"
  shows "keeps R (bnd (rd grants) (\<lambda>rows. bnd (chk (gid \<notin> gr_id ` set rows) IntegrityError) (\<lambda>_.
      bnd (wr (\<lambda>s. s\<lparr>grants := grants s @ [row]\<rparr>)) (\<lambda>_. k))))"
proof (rule keepsI)
  fix s
  obtain q t where t: "k (s\<lparr>grants := grants s @ [row]\<rparr>) = (q, t)" by fastforce
  show "R s (snd (bnd (rd grants) (\<lambda>rows. bnd (chk (gid \<notin> gr_id ` set rows) IntegrityError) (\<lambda>_.
      bnd (wr (\<lambda>s. s\<lparr>grants := grants s @ [row]\<rparr>)) (\<lambda>_. k))) s))"
    using R_grant [of row s] R_trans [OF _ keepsD [OF assms(2) t]] t assms(1) R_refl by (auto simp: run_simps)
qed

lemma keeps_grant [keeps_intros]: "keeps R (grant pe p l g sc ex re)"
  unfolding grant_def by (intro keeps_bnd keeps_transaction keeps_new_grant) (intro keeps_intros | simp)+

lemma keeps_revoke [keeps_intros]: "keeps R (revoke pe g a r)"
  unfolding revoke_def by (intro keeps_intros keeps_wr R_revoke)

lemma keeps_downgrade [keeps_intros]: "keeps R (downgrade pe p t c a)"
  unfolding downgrade_def by (intro keeps_intros keeps_wr R_downgrade)

lemma keeps_active_grants [keeps_intros]: "keeps R (active_grants pe p t)"
  unfolding active_grants_def by (intro keeps_intros)

lemma keeps_active_downgrade_ceiling [keeps_intros]: "keeps R (active_downgrade_ceiling pe p)"
  unfolding active_downgrade_ceiling_def by (intro keeps_intros)

lemma keeps_effective_level [keeps_intros]: "keeps R (effective_level pe p t sc)"
  unfolding effective_level_def by (intro keeps_intros)

lemma keeps_decide [keeps_intros]: "keeps R (decide rp pe p a r e b h sc t)"
  unfolding decide_def by (intro keeps_intros)

text \<open>Invalidation.\<close>

lemma keeps_require_inv_project [keeps_intros]: "keeps R (require_inv_project ie p)"
  unfolding require_inv_project_def by (intro keeps_intros)

lemma keeps_open_list [keeps_intros]: "keeps R (open_list ie p st t)"
  unfolding open_list_def by (intro keeps_intros)

lemma keeps_held_restore_status [keeps_intros]: "keeps R (held_restore_status ie p n c t)"
  unfolding held_restore_status_def by (intro keeps_intros)

lemma keeps_put_status [keeps_intros]: "keeps R (put_status n st e)"
  unfolding put_status_def by (intro keeps_intros)

lemma keeps_restore_node [keeps_intros]: "keeps R (restore_node may n d e)"
  unfolding restore_node_def by (intro keeps_intros)

lemma keeps_transition [keeps_intros]: "keeps R (transition n st e)"
  unfolding transition_def by (intro keeps_intros)

lemma keeps_apply_impact [keeps_intros]: "keeps R (apply_impact c e n)"
  unfolding apply_impact_def by (intro keeps_intros)

lemma keeps_classify_all [keeps_intros]: "keeps R (classify_all ie t p c h deps)"
  by (induction deps) (auto intro!: keeps_intros)

lemma keeps_check_trigger [keeps_intros]: "keeps R (check_trigger t p v)"
  unfolding check_trigger_def by (intro keeps_intros)

lemma keeps_blast_radius [keeps_intros]: "keeps R (blast_radius ie v)"
  unfolding blast_radius_def by (intro keeps_intros)

lemma keeps_invalidate_target [keeps_intros]: "keeps R (invalidate_target n d e)"
  unfolding invalidate_target_def by (intro keeps_intros)

lemma keeps_impact_node [keeps_intros]: "keeps R (impact_node t p e n c)"
  unfolding impact_node_def Let_def by (intro keeps_intros)

lemma keeps_impact_all [keeps_intros]: "keeps R (impact_all iv t p e cs)"
  by (induction cs) (auto intro!: keeps_intros)

lemma keeps_apply_invalidation [keeps_intros]: "keeps R (apply_invalidation iv n d cs t p e)"
  unfolding apply_invalidation_def by (intro keeps_intros)

lemma keeps_fire_plan [keeps_intros]: "keeps R (fire_plan ie a)"
  unfolding fire_plan_def by (intro keeps_intros)

lemma keeps_fire_effects [keeps_intros]: "keeps R (fire_effects a p iv)"
  unfolding fire_effects_def by (intro keeps_intros)

lemma keeps_fire_downgrade [keeps_intros]: "keeps R (fire_downgrade ie a p)"
  unfolding fire_downgrade_def by (intro keeps_intros)

lemma keeps_fire [keeps_intros]: "keeps R (fire ie a)"
  unfolding fire_def fire_body_def by (intro keeps_intros)

lemma keeps_bound_node [keeps_intros]: "keeps R (bound_node n t p k)"
  unfolding bound_node_def by (intro keeps_intros)

lemma keeps_bind_receipts [keeps_intros]: "keeps R (bind_receipts tid t p rs b out)"
  by (induction rs arbitrary: b out) (auto intro!: keeps_intros)

lemma keeps_preflight_references [keeps_intros]: "keeps R (preflight_references i)"
  unfolding preflight_references_def by (intro keeps_intros)

lemma keeps_nodes_held_by_others [keeps_intros]: "keeps R (nodes_held_by_others ie p x t)"
  unfolding nodes_held_by_others_def by (intro keeps_intros)

lemma keeps_release_all [keeps_intros]: "keeps R (release_all may h b e ds)"
  by (induction ds) (auto intro!: keeps_intros)

lemma keeps_release_unheld [keeps_intros]: "keeps R (release_unheld ie may p rs x e t b)"
  unfolding release_unheld_def by (intro keeps_intros)

lemma keeps_confirm_all [keeps_intros]: "keeps R (confirm_all t p e b cs)"
  by (induction cs) (auto intro!: keeps_intros)

lemma keeps_accept_effects [keeps_intros]: "keeps R (accept_effects pf t p e)"
  unfolding accept_effects_def by (intro keeps_intros)

lemma keeps_confirm [keeps_intros]: "keeps R (confirm ie may iid a acc e)"
  unfolding confirm_def confirm_body_def by (intro keeps_intros)

lemma keeps_resolution_inputs [keeps_intros]: "keeps R (resolution_inputs may i m rp nw)"
  unfolding resolution_inputs_def by (intro keeps_intros)

lemma keeps_resolve_target [keeps_intros]: "keeps R (resolve_target may n d h m sc e)"
  unfolding resolve_target_def by (intro keeps_intros)

lemma keeps_resolve_affected [keeps_intros]: "keeps R (resolve_affected may h b e ds)"
  by (induction ds) (auto intro!: keeps_intros)

lemma keeps_resolve_open [keeps_intros]: "keeps R (resolve_open ie may i m a rp sc nt e)"
  unfolding resolve_open_def by (intro keeps_intros)

lemma keeps_resolve [keeps_intros]: "keeps R (resolve ie may iid m a rp nw nt e)"
  unfolding resolve_def resolve_body_def by (intro keeps_intros)

lemma keeps_blocking [keeps_intros]: "keeps R (open_invalidations ie p)"
  unfolding open_invalidations_def by (intro keeps_intros)

end

text \<open>The law for the one operation that lifts a restriction.\<close>

locale clearing_relation = policy_relation R for R :: "'z policy_st_scheme \<Rightarrow> 'z policy_st_scheme \<Rightarrow> bool" +
  assumes R_clear: "R s (s\<lparr>downgrades := map (\<lambda>d. if PStr (dg_project_id d) = project \<and> dg_cleared_at d = None
            then d\<lparr>dg_cleared_at := Some now, dg_cleared_by := Some who\<rparr> else d) (downgrades s)\<rparr>)"
begin

lemma keeps_clear_downgrades [keeps_intros]: "keeps R (clear_downgrades pe p a)"
  unfolding clear_downgrades_def by (intro keeps_intros keeps_wr R_clear)

end

subsection \<open>Calls and sessions\<close>

datatype engine_call =
    EStore store_call
  | EPutNode node_args
  | EPutEdge edge_args
  | EEndEdge pyval pyval pyval pyval pyval
  | EDependents pyval pyval pyval pyval pyval
  | EGrant policy_engine pyval pyval pyval pyval pyval pyval
  | ERevoke policy_engine pyval pyval pyval
  | EDowngrade policy_engine pyval pyval pyval pyval
  | EClear policy_engine pyval pyval
  | EDecide "pyval \<Rightarrow> pstr" policy_engine pyval pyval pyval pyval pyval pyval pyval pyval
  | EFire inv_engine fire_args
  | EConfirm inv_engine pyval pyval pyval pyval
  | EResolve inv_engine pyval pyval pyval pyval pyval pyval pyval
  | ETransaction "engine_call list"

fun run_engine_call :: "(node \<Rightarrow> 'z policy_st_scheme \<Rightarrow> bool) \<Rightarrow> engine_call \<Rightarrow> ('z policy_st_scheme, unit) op"
and run_engine_calls :: "(node \<Rightarrow> 'z policy_st_scheme \<Rightarrow> bool) \<Rightarrow> engine_call list \<Rightarrow> ('z policy_st_scheme, unit) op" where
  "run_engine_call may (EStore c) = run_call c"
| "run_engine_call may (EPutNode a) = ignore (put_node a)"
| "run_engine_call may (EPutEdge a) = ignore (put_edge a)"
| "run_engine_call may (EEndEdge e t p ev v) = end_edge e t p ev v"
| "run_engine_call may (EDependents n d m w st) = ignore (dependents n d m w st)"
| "run_engine_call may (EGrant pe p l g sc ex r) = ignore (grant pe p l g sc ex r)"
| "run_engine_call may (ERevoke pe g a r) = revoke pe g a r"
| "run_engine_call may (EDowngrade pe p t c a) = downgrade pe p t c a"
| "run_engine_call may (EClear pe p a) = clear_downgrades pe p a"
| "run_engine_call may (EDecide rp pe p a r e b h sc t) = ignore (decide rp pe p a r e b h sc t)"
| "run_engine_call may (EFire ie a) = ignore (fire ie a)"
| "run_engine_call may (EConfirm ie i a acc e) = ignore (confirm ie may i a acc e)"
| "run_engine_call may (EResolve ie i m a rp nw nt e) = ignore (resolve ie may i m a rp nw nt e)"
| "run_engine_call may (ETransaction cs) = transaction (run_engine_calls may cs)"
| "run_engine_calls may [] = ret ()"
| "run_engine_calls may (c # cs) = bnd (run_engine_call may c) (\<lambda>_. run_engine_calls may cs)"

text \<open>Each call returns or raises, and the next one starts from what it left.\<close>

fun run_engine :: "(node \<Rightarrow> 'z policy_st_scheme \<Rightarrow> bool) \<Rightarrow> engine_call list \<Rightarrow> 'z policy_st_scheme \<Rightarrow> 'z policy_st_scheme" where
  "run_engine may [] s = s"
| "run_engine may (c # cs) s = run_engine may cs (snd (run_engine_call may c s))"

text \<open>The calls that clear no downgrade.\<close>

fun clears :: "engine_call \<Rightarrow> bool" where
  "clears (EClear pe p a) = True"
| "clears (ETransaction cs) = list_ex clears cs"
| "clears _ = False"

context policy_relation begin

lemma keeps_ignore [keeps_intros]: "keeps R m \<Longrightarrow> keeps R (ignore m)"
  unfolding ignore_def by (intro keeps_intros)

lemma keeps_engine_call_no_clear: "\<not> clears c \<Longrightarrow> keeps R (run_engine_call may c)"
  and keeps_engine_calls_no_clear: "\<not> list_ex clears cs \<Longrightarrow> keeps R (run_engine_calls may cs)"
  by (induction may c and may cs rule: run_engine_call_run_engine_calls.induct)
    (auto intro!: keeps_intros keeps_run_call)

lemma run_engine_no_clear: "\<not> list_ex clears cs \<Longrightarrow> R s (run_engine may cs s)"
proof (induction cs arbitrary: s)
  case Nil
  then show ?case by (simp add: R_refl)
next
  case (Cons c cs)
  have "R s (snd (run_engine_call may c s))"
    using keeps_engine_call_no_clear Cons.prems by (simp add: keeps_def)
  then show ?case using Cons by (auto intro: R_trans)
qed

end

context clearing_relation begin

lemma keeps_engine_call: "keeps R (run_engine_call may c)"
  and keeps_engine_calls: "keeps R (run_engine_calls may cs)"
  by (induction may c and may cs rule: run_engine_call_run_engine_calls.induct)
    (auto intro!: keeps_intros keeps_run_call)

lemma run_engine_R: "R s (run_engine may cs s)"
proof (induction cs arbitrary: s)
  case Nil
  then show ?case by (simp add: R_refl)
next
  case (Cons c cs)
  have "R s (snd (run_engine_call may c s))" using keeps_engine_call by (simp add: keeps_def)
  then show ?case using Cons by (auto intro: R_trans)
qed

end

text \<open>What looks at the graph only is kept by the policy's writes.\<close>

interpretation graph_history: clearing_relation graph_history
  by unfold_locales (auto simp: graph_history_def grown_def node_table.extends_refl edge_table.extends_refl tables_ok_def)

interpretation past: clearing_relation "past tau" for tau
  by unfold_locales (auto simp: past_def clock_past_def sane_clock_def grown_def node_table.extends_refl
      edge_table.extends_refl tables_ok_def)

end
