(* ===== verification/Reach.thy ===== *)
theory Reach
  imports Graph_History
begin

section \<open>graph.py: what a traversal reaches\<close>

text \<open>
  The edges a query may return and those it must return. An edge that \<open>may\<close> be followed is a
  current row in the scope of the node it is asked for; one that \<open>must\<close> be followed is also
  valid from an instant the clock has passed and without end, so that no reading of the clock
  during a traversal hides it. Walks over edges of the first kind bound what a traversal can
  report from above, walks over edges of the second kind from below.
\<close>

definition in_scope :: "side \<Rightarrow> 'z graph_st_scheme \<Rightarrow> edge_row \<Rightarrow> bool" where
  "in_scope d s r \<longleftrightarrow> r \<in> set (edges s) \<and> g_tx_to r = None
     \<and> fst (reference_scope (near d r) s) = Inr (Some (g_tenant_id r, g_project_id r))
     \<and> endpoint_in_scope (far d r) r s"

definition may_edge :: "side \<Rightarrow> pstr list option \<Rightarrow> 'z graph_st_scheme \<Rightarrow> edge_row \<Rightarrow> bool" where
  "may_edge d kinds s r \<longleftrightarrow> in_scope d s r \<and> (case kinds of None \<Rightarrow> True | Some ks \<Rightarrow> g_edge_type r \<in> set ks)"

definition must_edge :: "pstr \<Rightarrow> side \<Rightarrow> pstr list option \<Rightarrow> 'z graph_st_scheme \<Rightarrow> edge_row \<Rightarrow> bool" where
  "must_edge tau d kinds s r \<longleftrightarrow> may_edge d kinds s r \<and> g_valid_to r = None
     \<and> (case g_valid_from r of None \<Rightarrow> True | Some f \<Rightarrow> f \<le> tau)"

text \<open>For a query whose last reading of the clock is not after \<open>hi\<close>, edges that are valid until
  later than \<open>hi\<close> are as good as lasting ones.\<close>

definition live_edge :: "pstr \<Rightarrow> pstr \<Rightarrow> side \<Rightarrow> pstr list option \<Rightarrow> 'z graph_st_scheme \<Rightarrow> edge_row \<Rightarrow> bool" where
  "live_edge tau hi d kinds s r \<longleftrightarrow> may_edge d kinds s r
     \<and> (case g_valid_from r of None \<Rightarrow> True | Some f \<Rightarrow> f \<le> tau) \<and> (case g_valid_to r of None \<Rightarrow> True | Some e \<Rightarrow> hi < e)"

lemma get_event_tables:
  assumes "tables s = tables t"
  shows "fst (get_event e a b s) = fst (get_event e a b (t :: 'z store_st_scheme))"
  using tables_store(1) [OF assms] by (auto simp: get_event_def run_simps split: option.splits sum.splits)

lemma reference_scope_tables:
  assumes "tables s = tables t"
  shows "fst (reference_scope n s) = fst (reference_scope n (t :: 'z graph_st_scheme))"
proof -
  have "current_node n s = current_node n t"
    using tables_graph(1) [OF tables_beyond [OF assms]] by (simp add: current_node_def)
  then show ?thesis
    using get_event_tables [OF assms, of n None None] keeps_eqD [OF keeps_get_event_same, of n None None]
    by (cases "get_event n None None s"; cases "get_event n None None t")
      (auto simp: reference_scope_def run_simps catch_def bnd_def split: option.split sum.split)
qed

lemma in_scope_tables:
  assumes "tables s = tables (t :: 'z graph_st_scheme)"
  shows "in_scope d s = in_scope d t" "may_edge d k s = may_edge d k t" "must_edge tau d k s = must_edge tau d k t"
    "live_edge tau hi d k s = live_edge tau hi d k t"
proof -
  note same = tables_graph [OF tables_beyond [OF assms]] tables_store(1) [OF assms] reference_scope_tables [OF assms]
  show "in_scope d s = in_scope d t" by (simp add: fun_eq_iff in_scope_def endpoint_in_scope_def same)
  then show "may_edge d k s = may_edge d k t" by (simp add: fun_eq_iff may_edge_def)
  then show "must_edge tau d k s = must_edge tau d k t" "live_edge tau hi d k s = live_edge tau hi d k t"
    by (simp_all add: fun_eq_iff must_edge_def live_edge_def)
qed

lemma edge_dict_row: "edge_dict r = Inr e \<Longrightarrow> ed_row e = r"
  by (auto simp: edge_dict_def)

lemma rmap_edge_dict: "rmap edge_dict rows = Inr es \<Longrightarrow> map ed_row es = rows"
  by (induction rows arbitrary: es) (auto dest: edge_dict_row)

text \<open>One query: what it returns, and that it leaves the tables alone.\<close>

lemma edges_for_run:
  assumes "edges_for d (PStr n) kinds PNone s = (Inr es, t)"
  shows "tables t = tables s"
    and "e \<in> set es \<Longrightarrow> near d (ed_row e) = n \<and> may_edge d kinds s (ed_row e)"
    and "clock_past tau s \<Longrightarrow> clock_past tau t"
    and "clock_past tau s \<Longrightarrow> must_edge tau d kinds s r \<Longrightarrow> near d r = n \<Longrightarrow> r \<in> ed_row ` set es"
    and "clock_past tau s \<Longrightarrow> live_edge tau hi d kinds s r \<Longrightarrow> near d r = n \<Longrightarrow> \<forall>x. clock_past x t \<longrightarrow> x \<le> hi
      \<Longrightarrow> r \<in> ed_row ` set es"
proof -
  have empty: "kinds = Some [] \<Longrightarrow> es = [] \<and> t = s"
    using assms by (auto simp: edges_for_def run_simps validate_optional_datetime_def split: if_splits)
  have nonempty: "\<exists>now u anchor. utcnow s = (Inr now, u) \<and> t = u \<and> fst (reference_scope n u) = Inr anchor
      \<and> (case anchor of None \<Rightarrow> es = []
         | Some a \<Rightarrow> rmap edge_dict (filter (edge_selected d n a kinds now u) (edges u)) = Inr es)" if k: "kinds \<noteq> Some []"
  proof -
    have "bnd utcnow (\<lambda>now. bnd (reference_scope n) (\<lambda>found. case found of None \<Rightarrow> ret []
        | Some anchor \<Rightarrow> bnd (rd (\<lambda>s. filter (edge_selected d n anchor kinds now s) (edges s))) (\<lambda>rows.
           lift (rmap edge_dict rows)))) s = (Inr es, t)"
      using assms k by (auto simp: edges_for_def bnd_lift bnd_chk validate_optional_datetime_def split: if_splits)
    then obtain now u where u: "utcnow s = (Inr now, u)" and k: "bnd (reference_scope n) (\<lambda>found. case found of None \<Rightarrow> ret []
        | Some anchor \<Rightarrow> bnd (rd (\<lambda>s. filter (edge_selected d n anchor kinds now s) (edges s))) (\<lambda>rows.
           lift (rmap edge_dict rows))) u = (Inr es, t)"
      by (auto simp: bnd_eq_Inr [of utcnow])
    then obtain anchor where anchor: "fst (reference_scope n u) = Inr anchor"
      by (cases "fst (reference_scope n u)") (auto simp: bnd_same [OF keeps_reference_scope_same])
    have "t = u \<and> (case anchor of None \<Rightarrow> es = []
         | Some a \<Rightarrow> rmap edge_dict (filter (edge_selected d n a kinds now u) (edges u)) = Inr es)"
      using k anchor by (cases anchor) (auto simp: bnd_same [OF keeps_reference_scope_same] ret_run bnd_rd lift_run)
    then show ?thesis using u anchor by blast
  qed
  have main: "tables t = tables s \<and> (e \<in> set es \<longrightarrow> near d (ed_row e) = n \<and> may_edge d kinds s (ed_row e))
    \<and> (clock_past tau s \<longrightarrow> clock_past tau t)
    \<and> (clock_past tau s \<and> must_edge tau d kinds s r \<and> near d r = n \<longrightarrow> r \<in> ed_row ` set es)
    \<and> (clock_past tau s \<and> live_edge tau hi d kinds s r \<and> near d r = n \<and> (\<forall>x. clock_past x t \<longrightarrow> x \<le> hi) \<longrightarrow> r \<in> ed_row ` set es)" for e tau hi r
  proof (cases "kinds = Some []")
    case True
    then show ?thesis using empty by (auto simp: must_edge_def live_edge_def may_edge_def)
  next
    case False
    obtain now anchor where u: "utcnow s = (Inr now, t)" and anchor: "fst (reference_scope n t) = Inr anchor"
      and es: "case anchor of None \<Rightarrow> es = []
         | Some a \<Rightarrow> rmap edge_dict (filter (edge_selected d n a kinds now t) (edges t)) = Inr es"
      using nonempty [OF False] by auto
    have tt: "tables t = tables s" by (rule utcnow_tables [OF u])
    have rows: "ed_row ` set es = {r \<in> set (edges t). \<exists>a. anchor = Some a \<and> edge_selected d n a kinds now t r}"
    proof (cases anchor)
      case (Some a)
      then have "map ed_row es = filter (edge_selected d n a kinds now t) (edges t)" using es rmap_edge_dict by auto
      then have "set (map ed_row es) = {r \<in> set (edges t). edge_selected d n a kinds now t r}" by simp
      then show ?thesis using Some by simp
    qed (use es in simp)
    have may: "near d r = n \<and> may_edge d kinds s r" if "r \<in> ed_row ` set es" for r
    proof -
      have "near d r = n \<and> may_edge d kinds t r"
        using that anchor unfolding rows by (auto simp: edge_selected_def may_edge_def in_scope_def)
      then show ?thesis using in_scope_tables(2) [OF tt] by metis
    qed
    have must: "r \<in> ed_row ` set es" if c: "clock_past tau s" and m: "must_edge tau d kinds s r" and n: "near d r = n" for r
    proof -
      have "tau < now" using clock_past_utcnow [OF c u] by simp
      moreover have "must_edge tau d kinds t r" using m in_scope_tables(3) [OF tt] by metis
      ultimately show ?thesis using anchor n unfolding rows
        by (auto simp: must_edge_def may_edge_def in_scope_def edge_selected_def valid_window_def split: option.splits)
    qed
    have live: "r \<in> ed_row ` set es" if c: "clock_past tau s" and m: "live_edge tau hi d kinds s r" and n: "near d r = n"
      and hi: "\<forall>x. clock_past x t \<longrightarrow> x \<le> hi" for r
    proof -
      have "tau < now" using clock_past_utcnow [OF c u] by simp
      moreover have "now \<le> hi" using clock_past_reading [OF c u] hi by blast
      moreover have "live_edge tau hi d kinds t r" using m in_scope_tables(4) [OF tt] by metis
      ultimately show ?thesis using anchor n unfolding rows
        by (auto simp: live_edge_def may_edge_def in_scope_def edge_selected_def valid_window_def split: option.splits)
    qed
    show ?thesis using tt may must live clock_past_utcnow [OF _ u] by blast
  qed
  show "tables t = tables s"
    and "e \<in> set es \<Longrightarrow> near d (ed_row e) = n \<and> may_edge d kinds s (ed_row e)"
    and "clock_past tau s \<Longrightarrow> clock_past tau t"
    and "clock_past tau s \<Longrightarrow> must_edge tau d kinds s r \<Longrightarrow> near d r = n \<Longrightarrow> r \<in> ed_row ` set es"
    and "clock_past tau s \<Longrightarrow> live_edge tau hi d kinds s r \<Longrightarrow> near d r = n \<Longrightarrow> \<forall>x. clock_past x t \<longrightarrow> x \<le> hi
      \<Longrightarrow> r \<in> ed_row ` set es"
    using main by blast+
qed

subsection \<open>Chains of edges\<close>

text \<open>A chain of edges from a node, as the nodes it visits.\<close>

inductive chain :: "(edge_row \<Rightarrow> bool) \<Rightarrow> side \<Rightarrow> pstr \<Rightarrow> pstr list \<Rightarrow> bool" for P d a where
  chain_here: "chain P d a [a]"
| chain_step: "chain P d a p \<Longrightarrow> P r \<Longrightarrow> near d r = last p \<Longrightarrow> chain P d a (p @ [far d r])"

lemma chain_ends: "chain P d a p \<Longrightarrow> p \<noteq> [] \<and> hd p = a"
  by (induction rule: chain.induct) auto

lemma chain_closed:
  assumes "chain P d a p" and "a \<in> S" and "\<And>r. P r \<Longrightarrow> near d r \<in> S \<Longrightarrow> far d r \<in> S"
  shows "last p \<in> S"
  using assms(1) by (induction rule: chain.induct) (use assms(2,3) in auto)

end
