(* ===== verification/Samples.thy ===== *)
theory Samples
  imports Sessions Store_Evidence Reach
begin

section \<open>Concrete states\<close>

text \<open>
  An empty engine and small graphs on which the properties of the graph and of the engines
  above it are evaluated.
\<close>

definition empty_engine :: "env \<Rightarrow> policy_st" where
  "empty_engine e = \<lparr>last_utcnow = last_utcnow e, wall = wall e, ticks = ticks e, tokens = tokens e, drawn = drawn e,
     depth = 0, events = [], event_seq = 0, payload_mismatches = [], evidence_blobs = [], processed_events = [],
     audit_log = [], audit_seq = 0, chain_lock = 0, nodes = [], node_rows = 0, edges = [], edge_rows = 0,
     grants = [], downgrades = [], downgrade_seq = 0, project_policy = []\<rparr>"

definition new_year :: datetime where
  "new_year = \<lparr>year = 2026, month = 1, day = 1, hour = 0, minute = 0, second = 0, micro = 0\<rparr>"

definition demo_row :: node_row where
  "demo_row = \<lparr>n_row_id = 1, n_id = lit ''tsk_1'', n_version = 1, n_entity_type = lit ''task'', n_tenant_id = lit ''t'',
     n_project_id = lit ''p'', n_status = Some (lit ''open''), n_criticality = None, n_authority = None,
     n_confidence = None, n_scope = None, n_data = lit ''{}'', n_valid_from = None, n_valid_to = None,
     n_tx_from = strftime new_year, n_tx_to = None, n_event_id = None, n_extractor = None,
     n_extractor_version = None\<rparr>"

definition demo_state :: policy_st where
  "demo_state = (empty_engine stuck_clock)\<lparr>last_utcnow := Some (wall stuck_clock 0), nodes := [demo_row], node_rows := 1\<rparr>"

lemma demo_state_simps [simp]:
  "nodes demo_state = [demo_row]" "node_rows demo_state = 1" "edges demo_state = []" "edge_rows demo_state = 0"
  "last_utcnow demo_state = Some (wall stuck_clock 0)" "wall demo_state = wall stuck_clock" "events demo_state = []"
  by (simp_all add: demo_state_def empty_engine_def)

lemma loads_empty: "strict_json_loads (PStr (lit ''{}'')) = Inr (PDict [])"
proof -
  have "canonical_json (PDict []) = Inr (lit ''{}'')"
    by (simp add: canonical_json_def sort_members_def lit_Cons)
  then show ?thesis using strict_json_canonical [of "PDict []" "lit ''{}''"] by (simp add: sort_members_def)
qed

lemma demo_node: "node_dict demo_row = Inr \<lparr>nd_row = demo_row, nd_scope = PNone, nd_data = PDict []\<rparr>"
proof -
  show ?thesis using loads_empty by (simp add: node_dict_def demo_row_def decode_optional_def del: strict_json_loads.simps)
qed

subsection \<open>A small graph\<close>

text \<open>Task \<open>a\<close> depends on claim \<open>b\<close>, which an open invalidation targets.\<close>

definition plain_node :: "nat \<Rightarrow> string \<Rightarrow> string \<Rightarrow> string \<Rightarrow> pydict \<Rightarrow> node_row" where
  "plain_node i nid kind status data = \<lparr>n_row_id = i, n_id = lit nid, n_version = 1, n_entity_type = lit kind,
     n_tenant_id = lit ''t'', n_project_id = lit ''p'', n_status = Some (lit status), n_criticality = None, n_authority = None,
     n_confidence = None, n_scope = None, n_data = (case canonical_json (PDict data) of Inr t \<Rightarrow> t | Inl _ \<Rightarrow> []),
     n_valid_from = None, n_valid_to = None, n_tx_from = strftime new_year, n_tx_to = None, n_event_id = None,
     n_extractor = None, n_extractor_version = None\<rparr>"

definition sample_edge :: edge_row where
  "sample_edge = \<lparr>g_row_id = 1, g_id = lit ''edg_1'', g_version = 1, g_edge_type = lit ''depends_on'',
     g_src_id = lit ''a'', g_dst_id = lit ''b'', g_tenant_id = lit ''t'', g_project_id = lit ''p'', g_strength = 1,
     g_data = None, g_valid_from = None, g_valid_to = None, g_tx_from = strftime new_year, g_tx_to = None,
     g_event_id = None\<rparr>"

definition sample_data :: pydict where
  "sample_data = [(pkey ''target_node_id'', pkey ''b'')]"

definition sample_graph :: policy_st where
  "sample_graph = (empty_engine stuck_clock)\<lparr>last_utcnow := Some (wall stuck_clock 0),
     nodes := [plain_node 1 ''a'' ''task'' ''open'' [], plain_node 2 ''b'' ''claim'' ''supported'' [],
       plain_node 3 ''i'' ''invalidation'' ''open'' sample_data],
     node_rows := 3, edges := [sample_edge], edge_rows := 1\<rparr>"

lemma plain_node_simps [simp]:
  "n_id (plain_node i nid kind st d) = lit nid" "n_entity_type (plain_node i nid kind st d) = lit kind"
  "n_tenant_id (plain_node i nid kind st d) = lit ''t''" "n_project_id (plain_node i nid kind st d) = lit ''p''"
  "n_status (plain_node i nid kind st d) = Some (lit st)" "n_tx_to (plain_node i nid kind st d) = None"
  "n_valid_from (plain_node i nid kind st d) = None" "n_valid_to (plain_node i nid kind st d) = None"
  "n_scope (plain_node i nid kind st d) = None" "n_version (plain_node i nid kind st d) = 1"
  by (simp_all add: plain_node_def)

lemma sample_edge_simps [simp]:
  "g_edge_type sample_edge = lit ''depends_on''" "g_src_id sample_edge = lit ''a''" "g_dst_id sample_edge = lit ''b''"
  "g_tenant_id sample_edge = lit ''t''" "g_project_id sample_edge = lit ''p''" "g_strength sample_edge = 1"
  "g_data sample_edge = None" "g_valid_from sample_edge = None" "g_valid_to sample_edge = None" "g_tx_to sample_edge = None"
  by (simp_all add: sample_edge_def)

lemma sample_graph_simps [simp]:
  "nodes sample_graph = [plain_node 1 ''a'' ''task'' ''open'' [], plain_node 2 ''b'' ''claim'' ''supported'' [],
     plain_node 3 ''i'' ''invalidation'' ''open'' sample_data]"
  "edges sample_graph = [sample_edge]" "events sample_graph = []"
  "last_utcnow sample_graph = Some (wall stuck_clock 0)" "wall sample_graph = wall stuck_clock"
  by (simp_all add: sample_graph_def empty_engine_def)

lemma sample_lits [simp]: "lit ''a'' \<noteq> lit ''b''" "lit ''b'' \<noteq> lit ''a''" "PUBLIC_IDENTIFIER (lit ''a'')" "PUBLIC_IDENTIFIER (lit ''b'')"
  "PUBLIC_IDENTIFIER (lit ''p'')" "lit ''i'' \<noteq> lit ''a''" "lit ''i'' \<noteq> lit ''b''"
  by code_simp+

lemma sample_clock: "clock_past sample_now sample_graph"
  using stuck_wall by (simp add: clock_past_def sane_clock_def sample_now_def stuck_clock_def)

lemma sample_readings:
  "\<exists>n u m v. utcnow sample_graph = (Inr n, u) \<and> utcnow u = (Inr m, v) \<and> tables u = tables sample_graph
     \<and> tables v = tables sample_graph"
proof -
  have "\<exists>n u m v. utcnow sample_graph = (Inr n, u) \<and> utcnow u = (Inr m, v)"
    by (simp add: utcnow_def stuck_clock_def floor_sample_def add_microsecond_def days_in_month_def time_fields_def)
  then show ?thesis using utcnow_tables by metis
qed

lemma sample_nodes:
  assumes "tables s = tables sample_graph"
  shows "nodes s = nodes sample_graph" "edges s = edges sample_graph" "events s = events sample_graph"
    "current_node (lit ''a'') s = Some (plain_node 1 ''a'' ''task'' ''open'' [])"
    "current_node (lit ''b'') s = Some (plain_node 2 ''b'' ''claim'' ''supported'' [])"
  using tables_graph [OF tables_beyond [OF assms]] tables_store(1) [OF assms] by (simp_all add: current_node_def)

text \<open>The edges out of and into the two nodes.\<close>

lemma sample_edges:
  assumes "utcnow s = (Inr now, u)" "tables u = tables sample_graph"
    and "case kinds of None \<Rightarrow> True | Some ks \<Rightarrow> set ks \<subseteq> set EDGE_TYPES \<and> lit ''depends_on'' \<in> set ks"
  shows "edges_for Outgoing (PStr (lit ''a'')) kinds PNone s = (Inr [\<lparr>ed_row = sample_edge, ed_data = PNone\<rparr>], u)"
    "edges_for Incoming (PStr (lit ''a'')) kinds PNone s = (Inr [], u)"
    "edges_for Outgoing (PStr (lit ''b'')) kinds PNone s = (Inr [], u)"
    "edges_for Incoming (PStr (lit ''b'')) kinds PNone s = (Inr [\<lparr>ed_row = sample_edge, ed_data = PNone\<rparr>], u)"
  using assms sample_nodes [OF assms(2)]
  by (cases kinds; auto simp: edges_for_def run_simps validate_optional_datetime_def reference_scope_def bnd_def ret_def
      edge_selected_def near_def far_def valid_window_def endpoint_in_scope_def edge_dict_def decode_optional_def)+

end
