(* ===== verification/Graph_Props.thy ===== *)
theory Graph_Props
  imports Samples
begin

section \<open>Properties of the graph\<close>

text \<open>
  What every session of the engine guarantees about the bi-temporal tables: versions in
  order, rows that are only ever closed, and a past that later writes cannot touch.
\<close>

lemma empty_engine_ok: "tables_ok (empty_engine e)"
  by (simp add: tables_ok_def empty_engine_def versions_ok_def of_key_def)

lemma session_tables_ok: "tables_ok s \<Longrightarrow> tables_ok (run_engine may cs s)"
  using graph_history.run_engine_R [of s may cs] by (simp add: graph_history_def grown_def)

lemma chain_current:
  assumes "versions_ok node_layout rows n"
  shows "find_open node_layout k rows = (let vs = filter (\<lambda>r. n_id r = k) rows
    in if vs \<noteq> [] \<and> n_tx_to (last vs) = None then Some (last vs) else None)"
proof (cases "find_open node_layout k rows")
  case (Some p)
  then show ?thesis using find_open_last [OF assms Some] find_open_Some [OF Some] by (auto simp: of_key_def Let_def)
next
  case None
  then show ?thesis by (auto simp: find_open_None Let_def dest!: last_in_set)
qed

lemma run_engine_append: "run_engine may (cs @ ds) s = run_engine may ds (run_engine may cs s)"
  by (induction cs arbitrary: s) auto

lemma list_all2_take: "list_all2 Q xs old \<Longrightarrow> list_all2 Q xs (take (length xs) (old @ new))"
  by (frule list_all2_lengthD) simp

lemma extends_take: "extends L P xs ys \<Longrightarrow> list_all2 (closed_by L P) xs (take (length xs) ys)"
  by (auto simp: extends_def intro: list_all2_take)

text \<open>C21: From an empty database, whatever is called and however it fails, the rows of every
  node are its versions 1, 2, ... in the order they were written, under one entity type, tenant
  and project, with all but the last closed; the current row is the last one, if it is open.\<close>

theorem versions_stay_in_order:
  "let s = run_engine may cs (empty_engine e); vs = filter (\<lambda>r. n_id r = k) (nodes s)
   in map n_version vs = [1..<Suc (length vs)] \<and> (\<exists>i. list_all (\<lambda>r. node_identity r = i) vs)
    \<and> list_all (\<lambda>r. n_tx_to r \<noteq> None) (butlast vs)
    \<and> current_node k s = (if vs \<noteq> [] \<and> n_tx_to (last vs) = None then Some (last vs) else None)"
proof -
  have ok: "versions_ok node_layout (nodes (run_engine may cs (empty_engine e))) (node_rows (run_engine may cs (empty_engine e)))"
    using session_tables_ok [OF empty_engine_ok] by (simp add: tables_ok_def)
  then have "chain_ok node_layout (of_key node_layout k (nodes (run_engine may cs (empty_engine e))))"
    by (simp add: versions_ok_def)
  then show ?thesis using chain_current [OF ok, of k]
    by (simp add: Let_def chain_ok_def of_key_def current_node_open list_all_iff del: upt_Suc)
qed

text \<open>C22: Rows are never rewritten: what a session leaves begins with the rows it found, in order,
  each as it was or, where it was open, with its transaction interval closed.\<close>

theorem graph_rows_only_close:
  "list_all2 (\<lambda>a b. b = a \<or> (n_tx_to a = None \<and> (\<exists>now. b = a\<lparr>n_tx_to := Some now\<rparr>)))
     (nodes (run_engine may cs (empty_engine e)))
     (take (length (nodes (run_engine may cs (empty_engine e)))) (nodes (run_engine may (cs @ ds) (empty_engine e))))
   \<and> list_all2 (\<lambda>a b. b = a \<or> (g_tx_to a = None \<and> (\<exists>now. b = a\<lparr>g_tx_to := Some now\<rparr>)))
     (edges (run_engine may cs (empty_engine e)))
     (take (length (edges (run_engine may cs (empty_engine e)))) (edges (run_engine may (cs @ ds) (empty_engine e))))"
proof -
  let ?s = "run_engine may cs (empty_engine e)" and ?t = "run_engine may (cs @ ds) (empty_engine e)"
  have t: "?t = run_engine may ds ?s" by (rule run_engine_append)
  have "grown (\<lambda>_. True) ?s ?t"
    using graph_history.run_engine_R [of ?s may ds] session_tables_ok [OF empty_engine_ok] t
    by (simp add: graph_history_def)
  then have "extends node_layout (\<lambda>_. True) (nodes ?s) (nodes ?t)" "extends edge_layout (\<lambda>_. True) (edges ?s) (edges ?t)"
    by (simp_all add: grown_def)
  from this [THEN extends_take] show ?thesis by (simp add: closed_by_def [abs_def])
qed

subsection \<open>What was believed\<close>

text \<open>A node as it was returned, without the end of its transaction interval: the one column a
  later write sets.\<close>

definition forget_end :: "node \<Rightarrow> node" where
  "forget_end n = n\<lparr>nd_row := (nd_row n)\<lparr>n_tx_to := None\<rparr>\<rparr>"

lemma node_dict_forget:
  "map_sum id forget_end (node_dict (r\<lparr>n_tx_to := x\<rparr>)) = map_sum id forget_end (node_dict r)"
  by (simp add: node_dict_def rbind_def forget_end_def split: sum.split)

lemma rmap_forget:
  assumes "list_all2 (\<lambda>a b. map_sum id forget_end (node_dict b) = map_sum id forget_end (node_dict a)) xs ys"
  shows "map_sum id (map forget_end) (rmap node_dict ys) = map_sum id (map forget_end) (rmap node_dict xs)"
  using assms
proof (induction rule: list_all2_induct)
  case (Cons x xs y ys)
  then show ?case
    by (cases "node_dict x"; cases "node_dict y"; cases "rmap node_dict xs"; cases "rmap node_dict ys") simp_all
qed simp

lemma believed_closed:
  assumes "closed_by node_layout (\<lambda>x. tau < x) a b"
  shows "believed_at tau b = believed_at tau a" "n_project_id b = n_project_id a" "n_tenant_id b = n_tenant_id a"
    "n_entity_type b = n_entity_type a" "n_id b = n_id a" "n_version b = n_version a"
    "map_sum id forget_end (node_dict b) = map_sum id forget_end (node_dict a)"
  using assms by (auto simp: closed_by_def believed_at_def node_dict_forget)

lemma list_all2_filter:
  assumes "list_all2 Q xs ys" and "\<And>a b. Q a b \<Longrightarrow> P b = P a"
  shows "list_all2 Q (filter P xs) (filter P ys)"
  using assms by (induction rule: list_all2_induct) auto

lemma believed_extends:
  assumes "extends node_layout (\<lambda>x. tau < x) xs ys"
    and "\<And>a b. closed_by node_layout (\<lambda>x. tau < x) a b \<Longrightarrow> P b = P a" and "\<And>r. P r \<Longrightarrow> believed_at tau r"
  shows "list_all2 (closed_by node_layout (\<lambda>x. tau < x)) (filter P xs) (filter P ys)"
proof -
  obtain old new where y: "ys = old @ new" "list_all2 (closed_by node_layout (\<lambda>x. tau < x)) xs old"
      "\<forall>r \<in> set new. tau < n_tx_from r"
    using assms(1) by (auto simp: extends_def)
  have "\<not> P r" if "r \<in> set new" for r
    using assms(3) [of r] y(3) that leD unfolding believed_at_def by blast
  then have "filter P ys = filter P old" by (simp add: y(1) filter_empty_conv)
  then show ?thesis using list_all2_filter [OF y(2) assms(2)] by simp
qed

lemma as_of_extends:
  assumes "extends node_layout (\<lambda>x. tau < x) (nodes s) (nodes t)"
  shows "map_sum id (map forget_end) (fst (as_of project (PStr tau) kind tenant t))
       = map_sum id (map forget_end) (fst (as_of project (PStr tau) kind tenant s))"
proof -
  have rows: "map_sum id (map forget_end) (rmap node_dict (as_of_rows p tau k ten (nodes t)))
      = map_sum id (map forget_end) (rmap node_dict (as_of_rows p tau k ten (nodes s)))" for p k ten
    unfolding as_of_rows_def
    by (rule rmap_forget, rule list_all2_mono [OF believed_extends [OF assms]]) (auto simp: believed_closed)
  show ?thesis
    by (simp add: as_of_def run_simps rows split: sum.split)
qed

text \<open>C23: What was believed at a transaction time stays what it was: once the clock of the
  process has passed \<open>tau\<close>, no session changes what \<open>as_of\<close> answers for \<open>tau\<close>, in any
  project, except that a row found open may since have been closed.\<close>

theorem as_of_is_stable:
  assumes "clock_past tau s" and "tables_ok s"
  shows "map_sum id (map forget_end) (fst (as_of project (PStr tau) kind tenant (run_engine may cs s)))
       = map_sum id (map forget_end) (fst (as_of project (PStr tau) kind tenant s))"
proof (rule as_of_extends)
  show "extends node_layout (\<lambda>x. tau < x) (nodes s) (nodes (run_engine may cs s))"
    using past.run_engine_R [of tau s may cs] assms by (simp add: past_def grown_def)
qed

lemma demo_tables_ok: "tables_ok demo_state"
  by (simp add: tables_ok_def versions_ok_def of_key_def chain_ok_def) (simp add: demo_row_def node_identity_def)

lemma demo_clock: "clock_past sample_now demo_state"
  using stuck_wall by (simp add: clock_past_def sane_clock_def sample_now_def stuck_clock_def)

lemma demo_as_of:
  "fst (as_of (pkey ''p'') (PStr sample_now) PNone PNone demo_state)
   = Inr [\<lparr>nd_row = demo_row, nd_scope = PNone, nd_data = PDict []\<rparr>]"
proof -
  have id: "PUBLIC_IDENTIFIER (lit ''p'')" by code_simp
  have "strftime new_year < sample_now"
    using stuck_wall by (simp add: sample_now_def new_year_def stuck_clock_def strftime_less_iff time_fields_def
        valid_datetime_def valid_date_def days_in_month_def)
  then have "believed_at sample_now demo_row" by (simp add: believed_at_def demo_row_def)
  then have "as_of_rows (lit ''p'') sample_now None None [demo_row] = [demo_row]"
    by (simp add: as_of_rows_def matches_def) (simp add: demo_row_def)
  then show ?thesis
    using sample_now_facts
    by (simp add: as_of_def run_simps id optional_identifier_def check_entity_type_def demo_node)
qed

theorem as_of_is_stable_witness:
  "map_sum id (map forget_end) (fst (as_of (pkey ''p'') (PStr sample_now) PNone PNone
     (run_engine (\<lambda>_ _. True) [EPutNode (node_defaults\<lparr>v_entity_type := pkey ''task'', v_tenant_id := pkey ''t'',
        v_project_id := pkey ''p'', v_node_id := pkey ''tsk_1'', v_status := pkey ''done''\<rparr>)] demo_state)))
   = Inr [\<lparr>nd_row = demo_row, nd_scope = PNone, nd_data = PDict []\<rparr>]"
proof -
  have "forget_end \<lparr>nd_row = demo_row, nd_scope = PNone, nd_data = PDict []\<rparr> = \<lparr>nd_row = demo_row, nd_scope = PNone, nd_data = PDict []\<rparr>"
    by (simp add: forget_end_def demo_row_def)
  then show ?thesis
    by (simp add: as_of_is_stable [OF demo_clock demo_tables_ok] demo_as_of del: run_engine.simps)
qed

end
