(* ===== verification/Paths.thy ===== *)
theory Paths
  imports Samples
begin

section \<open>graph.py: causal paths\<close>

text \<open>
  \<open>causal_path\<close> is a breadth-first search over the current edges in both directions. A path it
  returns is a real one, within the bound, and no longer than any path over the edges that it
  cannot miss; when it finds none, there is no such path within the bound.
\<close>

text \<open>A step between two nodes along an edge that \<open>P\<close> admits from the side it is asked for.\<close>

definition hop_ok :: "(side \<Rightarrow> edge_row \<Rightarrow> bool) \<Rightarrow> hop \<Rightarrow> bool" where
  "hop_ok P h \<longleftrightarrow> (\<exists>d r. P d r \<and> near d r = h_from h \<and> g_edge_type r = h_edge_type h
     \<and> h_outgoing h = (g_src_id r = h_from h) \<and> h_to h = (if g_src_id r = h_from h then g_dst_id r else g_src_id r))"

text \<open>Consecutive hops from one node to another.\<close>

fun hops :: "(hop \<Rightarrow> bool) \<Rightarrow> pstr \<Rightarrow> hop list \<Rightarrow> pstr \<Rightarrow> bool" where
  "hops Q a [] b = (a = b)"
| "hops Q a (h # hs) b = (Q h \<and> h_from h = a \<and> hops Q (h_to h) hs b)"

lemma hops_snoc: "hops Q a (hs @ [h]) b \<longleftrightarrow> hops Q a hs (h_from h) \<and> Q h \<and> h_to h = b"
  by (induction hs arbitrary: a) auto

definition step_of :: "pstr \<Rightarrow> edge_row \<Rightarrow> hop" where
  "step_of cur r = \<lparr>h_from = cur, h_to = (if g_src_id r = cur then g_dst_id r else g_src_id r),
     h_edge_type = g_edge_type r, h_outgoing = (g_src_id r = cur)\<rparr>"

text \<open>The inner loop: the target is found by the first edge to it, or everything next to the
  node is seen and queued one step further.\<close>

lemma expand_paths_Cons:
  "expand_paths dst cur path (e # es) seen queue = (let h = step_of cur (ed_row e) in
     if h_to h \<in> set seen then expand_paths dst cur path es seen queue
     else if h_to h = dst then Inl (path @ [h])
     else expand_paths dst cur path es (h_to h # seen) (queue @ [(h_to h, path @ [h])]))"
  by (simp add: Let_def step_of_def)

lemma expand_paths_cases:
  fixes e cur
  defines "h \<equiv> step_of cur (ed_row e)"
  obtains "h_to h \<in> set seen" "expand_paths dst cur path (e # es) seen queue = expand_paths dst cur path es seen queue"
    | "h_to h \<notin> set seen" "h_to h = dst" "expand_paths dst cur path (e # es) seen queue = Inl (path @ [h])"
    | "h_to h \<notin> set seen" "h_to h \<noteq> dst" "expand_paths dst cur path (e # es) seen queue
        = expand_paths dst cur path es (h_to h # seen) (queue @ [(h_to h, path @ [h])])"
proof (cases "h_to h \<in> set seen")
  case True
  then show ?thesis using that(1) by (simp add: expand_paths_Cons Let_def h_def del: expand_paths.simps)
next
  case new: False
  show ?thesis
  proof (cases "h_to h = dst")
    case True
    then show ?thesis using new that(2) by (simp add: expand_paths_Cons Let_def h_def del: expand_paths.simps)
  next
    case False
    then show ?thesis using new that(3) by (simp add: expand_paths_Cons Let_def h_def del: expand_paths.simps)
  qed
qed

lemma expand_paths_found:
  "expand_paths dst cur path es seen queue = Inl found \<Longrightarrow>
   \<exists>e \<in> set es. found = path @ [step_of cur (ed_row e)] \<and> h_to (step_of cur (ed_row e)) = dst"
proof (induction es arbitrary: seen queue)
  case (Cons e es)
  show ?case
  proof (cases rule: expand_paths_cases [of cur e seen dst path es queue])
    case 1
    then show ?thesis using Cons.IH [of seen queue] Cons.prems by (simp del: expand_paths.simps)
  next
    case 2
    then show ?thesis using Cons.prems by (simp del: expand_paths.simps)
  next
    case 3
    show ?thesis using Cons.IH [OF Cons.prems [unfolded 3(3)]] by auto
  qed
qed simp

text \<open>What the inner loop adds to the nodes seen and to the queue.\<close>

definition expanded :: "pstr \<Rightarrow> hop list \<Rightarrow> edge list \<Rightarrow> pstr list \<Rightarrow> path_queue \<Rightarrow> pstr list \<Rightarrow> bool" where
  "expanded cur path es seen new seen' \<longleftrightarrow> set seen' = set seen \<union> (\<lambda>e. h_to (step_of cur (ed_row e))) ` set es
     \<and> list_all (\<lambda>(n, p). \<exists>e \<in> set es. p = path @ [step_of cur (ed_row e)] \<and> n = h_to (step_of cur (ed_row e))) new
     \<and> fst ` set new = set seen' - set seen"

lemma expanded_Nil: "expanded cur path [] seen [] seen"
  by (simp add: expanded_def)

lemma expanded_skip:
  assumes "h_to (step_of cur (ed_row e)) \<in> set seen" and e: "expanded cur path es seen new seen'"
  shows "expanded cur path (e # es) seen new seen'"
proof -
  have "set seen' = set seen \<union> (\<lambda>e. h_to (step_of cur (ed_row e))) ` set (e # es)"
    using assms unfolding expanded_def by auto
  moreover have "list_all (\<lambda>(n, p). \<exists>e \<in> set (e # es). p = path @ [step_of cur (ed_row e)]
      \<and> n = h_to (step_of cur (ed_row e))) new"
    using e unfolding expanded_def by (auto elim!: list.pred_mono_strong)
  ultimately show ?thesis using e unfolding expanded_def by blast
qed

lemma expanded_add:
  fixes e cur
  defines "h \<equiv> step_of cur (ed_row e)"
  assumes h: "h_to h \<notin> set seen" and e: "expanded cur path es (h_to h # seen) new seen'"
  shows "expanded cur path (e # es) seen ((h_to h, path @ [h]) # new) seen'"
proof -
  have "set seen' = set seen \<union> (\<lambda>e. h_to (step_of cur (ed_row e))) ` set (e # es)"
    using e unfolding expanded_def h_def by simp
  moreover have "list_all (\<lambda>(n, p). \<exists>e \<in> set (e # es). p = path @ [step_of cur (ed_row e)]
      \<and> n = h_to (step_of cur (ed_row e))) ((h_to h, path @ [h]) # new)"
    using e unfolding expanded_def h_def by (auto elim!: list.pred_mono_strong)
  moreover have "fst ` set ((h_to h, path @ [h]) # new) = set seen' - set seen"
    using e h unfolding expanded_def by auto
  ultimately show ?thesis unfolding expanded_def by blast
qed

lemma expand_paths_seen:
  "expand_paths dst cur path es seen queue = Inr (seen', queue') \<Longrightarrow>
   (\<exists>new. queue' = queue @ new \<and> expanded cur path es seen new seen') \<and> (dst \<in> set seen' \<longrightarrow> dst \<in> set seen)"
proof (induction es arbitrary: seen queue)
  case Nil
  then show ?case using expanded_Nil by auto
next
  case (Cons e es)
  let ?h = "step_of cur (ed_row e)"
  show ?case
  proof (cases rule: expand_paths_cases [of cur e seen dst path es queue])
    case 1
    from Cons.IH [OF Cons.prems [unfolded 1(2)]] show ?thesis using expanded_skip [OF 1(1)] by blast
  next
    case 2
    then show ?thesis using Cons.prems by (simp del: expand_paths.simps)
  next
    case 3
    from Cons.IH [OF Cons.prems [unfolded 3(3)]] obtain new where "queue' = (queue @ [(h_to ?h, path @ [?h])]) @ new"
      "expanded cur path es (h_to ?h # seen) new seen'" "dst \<in> set seen' \<longrightarrow> dst \<in> set (h_to ?h # seen)" by blast
    then show ?thesis using expanded_add [OF 3(1)] 3(2) by auto
  qed
qed

subsection \<open>The queue\<close>

text \<open>
  The queue holds real paths, ordered by length and at most one apart. Whatever has left it has
  been expanded: along the hops in \<open>M\<close> nothing unseen is next to it. Everything that can be
  reached along \<open>M\<close> in as many hops as the first path of the queue has is seen already, and is
  not queued with a longer path.
\<close>

definition search_inv :: "(hop \<Rightarrow> bool) \<Rightarrow> (hop \<Rightarrow> bool) \<Rightarrow> pstr \<Rightarrow> pstr \<Rightarrow> pstr list \<Rightarrow> path_queue \<Rightarrow> bool" where
  "search_inv Q M src dst seen queue \<longleftrightarrow>
     src \<in> set seen \<and> dst \<notin> set seen
     \<and> (\<forall>n p. (n, p) \<in> set queue \<longrightarrow> n \<in> set seen \<and> hops Q src p n \<and> length p \<le> Suc (length (snd (hd queue))))
     \<and> sorted (map (length \<circ> snd) queue)
     \<and> (\<forall>h. M h \<and> h_from h \<in> set seen \<and> h_from h \<notin> fst ` set queue \<longrightarrow> h_to h \<in> set seen)
     \<and> (\<forall>hs b. queue \<noteq> [] \<and> hops M src hs b \<and> length hs \<le> length (snd (hd queue)) \<longrightarrow>
          b \<in> set seen \<and> (\<forall>p. (b, p) \<in> set queue \<longrightarrow> length p \<le> length hs))"

lemma search_start: "src \<noteq> dst \<Longrightarrow> search_inv Q M src dst [src] [(src, [])]"
  by (auto simp: search_inv_def)

lemma hops_closed:
  assumes "hops M a hs b" and "a \<in> S" and "\<And>h. M h \<Longrightarrow> h_from h \<in> S \<Longrightarrow> h_to h \<in> S"
  shows "b \<in> S"
  using assms(1,2) by (induction hs arbitrary: a) (use assms(3) in auto)

lemma hops_split:
  assumes "hops M a hs b" and "length hs = Suc k"
  obtains hs' h where "hops M a hs' (h_from h)" "M h" "h_to h = b" "length hs' = k"
  using assms by (cases hs rule: rev_cases) (auto simp: hops_snoc)

lemma search_step:
  assumes inv: "search_inv Q M src dst seen ((cur, path) # rest)"
    and run: "expand_paths dst cur path es seen rest = Inr (seen', queue')"
    and may: "\<And>e. e \<in> set es \<Longrightarrow> Q (step_of cur (ed_row e))"
    and must: "\<And>h. M h \<Longrightarrow> h_from h = cur \<Longrightarrow> \<exists>e \<in> set es. h = step_of cur (ed_row e)"
  shows "search_inv Q M src dst seen' queue'"
proof -
  let ?k = "length path"
  obtain new where q: "queue' = rest @ new" and ex: "expanded cur path es seen new seen'"
    and dst: "dst \<in> set seen' \<longrightarrow> dst \<in> set seen"
    using expand_paths_seen [OF run] by blast
  have seen': "set seen' = set seen \<union> (\<lambda>e. h_to (step_of cur (ed_row e))) ` set es"
    and new: "\<And>n p. (n, p) \<in> set new \<Longrightarrow> \<exists>e \<in> set es. p = path @ [step_of cur (ed_row e)] \<and> n = h_to (step_of cur (ed_row e))"
    and fst_new: "fst ` set new = set seen' - set seen"
    using ex by (auto simp: expanded_def list_all_iff)
  have new_len: "length p = Suc ?k" if "(n, p) \<in> set new" for n p using new [OF that] by auto
  have old: "src \<in> set seen" "dst \<notin> set seen" "cur \<in> set seen" "hops Q src path cur"
    and srt: "sorted (map (length \<circ> snd) rest)" and le: "\<And>x. x \<in> set rest \<Longrightarrow> ?k \<le> length (snd x)"
    using inv unfolding search_inv_def by simp_all
  have rest: "n \<in> set seen \<and> hops Q src p n \<and> ?k \<le> length p \<and> length p \<le> Suc ?k" if np: "(n, p) \<in> set rest" for n p
  proof -
    have "(n, p) \<in> set ((cur, path) # rest)" using np by simp
    then have "n \<in> set seen \<and> hops Q src p n \<and> length p \<le> Suc (length (snd (hd ((cur, path) # rest))))"
      using inv unfolding search_inv_def by blast
    then show ?thesis using le [OF np] by simp
  qed
  have closed: "h_to h \<in> set seen" if "M h" "h_from h \<in> set seen" "h_from h \<notin> fst ` set ((cur, path) # rest)" for h
    using inv that unfolding search_inv_def by blast
  have near: "b \<in> set seen \<and> (\<forall>p. (b, p) \<in> set ((cur, path) # rest) \<longrightarrow> length p \<le> length hs)"
    if "hops M src hs b" "length hs \<le> ?k" for hs b
    using inv that unfolding search_inv_def by (metis list.sel(1) list.distinct(1) snd_conv)
  have all: "?k \<le> length p \<and> length p \<le> Suc ?k \<and> n \<in> set seen' \<and> hops Q src p n" if "(n, p) \<in> set queue'" for n p
  proof (cases "(n, p) \<in> set rest")
    case True
    then show ?thesis using rest seen' by blast
  next
    case False
    then have n: "(n, p) \<in> set new" using that q by auto
    then obtain e where e: "e \<in> set es" "p = path @ [step_of cur (ed_row e)]" "n = h_to (step_of cur (ed_row e))"
      using new by blast
    then have "hops Q src p n" using may [OF e(1)] old(4) by (simp add: hops_snoc) (simp add: step_of_def)
    then show ?thesis using e seen' by auto
  qed
  have "sorted (map (length \<circ> snd) queue')"
  proof -
    have "\<forall>x \<in> set (map (length \<circ> snd) new). x = Suc ?k" using new_len by auto
    then have "map (length \<circ> snd) new = replicate (length (map (length \<circ> snd) new)) (Suc ?k)"
      by (intro replicate_eqI) auto
    then have "sorted (map (length \<circ> snd) new)" by (metis sorted_replicate)
    moreover have "\<forall>x \<in> set rest. \<forall>y \<in> set new. length (snd x) \<le> length (snd y)"
    proof (intro ballI)
      fix x y assume x: "x \<in> set rest" and y: "y \<in> set new"
      show "length (snd x) \<le> length (snd y)"
        using rest [of "fst x" "snd x"] new_len [of "fst y" "snd y"] x y by simp
    qed
    ultimately show ?thesis using srt by (auto simp: q sorted_append)
  qed
  moreover have "length p \<le> Suc (length (snd (hd queue')))" if "(n, p) \<in> set queue'" for n p
  proof -
    have "hd queue' \<in> set queue'" using that by (cases queue') auto
    then have "?k \<le> length (snd (hd queue'))" using all [of "fst (hd queue')" "snd (hd queue')"] by simp
    then show ?thesis using all [OF that] by simp
  qed
  moreover have expanded': "h_to h \<in> set seen'" if "M h" "h_from h \<in> set seen'" "h_from h \<notin> fst ` set queue'" for h
  proof (cases "h_from h = cur")
    case True
    from must [OF that(1) this] obtain e where e: "e \<in> set es" "h = step_of cur (ed_row e)" by blast
    have "h_to h \<in> (\<lambda>e. h_to (step_of cur (ed_row e))) ` set es"
      by (rule image_eqI [OF _ e(1)]) (simp only: e(2) [symmetric])
    then show ?thesis using seen' by blast
  next
    case False
    have "h_from h \<notin> fst ` set new" "h_from h \<notin> fst ` set rest" using that(3) q by auto
    then have "h_from h \<in> set seen" "h_from h \<notin> fst ` set ((cur, path) # rest)" using that(2) fst_new False by auto
    then show ?thesis using closed [OF that(1)] seen' by auto
  qed
  moreover have "b \<in> set seen' \<and> (\<forall>p. (b, p) \<in> set queue' \<longrightarrow> length p \<le> length hs)"
    if ne: "queue' \<noteq> []" and w: "hops M src hs b" and len: "length hs \<le> length (snd (hd queue'))" for hs b
  proof (cases "length hs \<le> ?k")
    case True
    note n = near [OF w True]
    have "(b, p) \<notin> set new" for p using n fst_new by force
    then show ?thesis using n seen' q by auto
  next
    case False
    have "(fst (hd queue'), snd (hd queue')) \<in> set queue'" using ne by simp
    note h = all [OF this]
    have hl: "length hs = Suc ?k" and head: "length (snd (hd queue')) = Suc ?k" using False len h by auto
    obtain hs' h where s: "hops M src hs' (h_from h)" "M h" "h_to h = b" "length hs' = ?k"
      by (rule hops_split [OF w hl])
    have "h_from h \<notin> fst ` set queue'"
    proof
      assume "h_from h \<in> fst ` set queue'"
      then obtain p where p: "(h_from h, p) \<in> set queue'" by auto
      have "Suc ?k \<le> length p"
        using \<open>sorted (map (length \<circ> snd) queue')\<close> p head ne by (cases queue') auto
      moreover have "(h_from h, p) \<notin> set new" using near [OF s(1)] s(4) fst_new by force
      ultimately show False using near [OF s(1)] s(4) p q by auto
    qed
    moreover have "h_from h \<in> set seen'" using near [OF s(1)] s(4) seen' by auto
    ultimately have "b \<in> set seen'" using expanded' [OF s(2)] s(3) by auto
    then show ?thesis using all hl by auto
  qed
  ultimately show ?thesis
    using old dst seen' all unfolding search_inv_def by blast
qed

subsection \<open>The search\<close>

definition may_hop :: "'z graph_st_scheme \<Rightarrow> hop \<Rightarrow> bool" where
  "may_hop s = hop_ok (\<lambda>d. may_edge d None s)"

definition must_hop :: "pstr \<Rightarrow> 'z graph_st_scheme \<Rightarrow> hop \<Rightarrow> bool" where
  "must_hop tau s = hop_ok (\<lambda>d. must_edge tau d None s)"

lemma hop_tables:
  assumes "tables s = tables t"
  shows "may_hop s = may_hop t" "must_hop tau s = must_hop tau t"
  using in_scope_tables [OF assms] by (simp_all add: may_hop_def must_hop_def)

text \<open>The edges of a node in both directions.\<close>

lemma both_sides:
  assumes "bnd (out_edges (PStr cur) None PNone) (\<lambda>a. bnd (in_edges (PStr cur) None PNone) (\<lambda>b. ret (a @ b))) s = (Inr es, t)"
  shows "tables t = tables s" and "clock_past tau s \<Longrightarrow> clock_past tau t"
    and "e \<in> set es \<Longrightarrow> may_hop s (step_of cur (ed_row e))"
    and "clock_past tau s \<Longrightarrow> must_hop tau s h \<Longrightarrow> h_from h = cur \<Longrightarrow> \<exists>e \<in> set es. h = step_of cur (ed_row e)"
proof -
  from assms obtain a u b where a: "out_edges (PStr cur) None PNone s = (Inr a, u)"
    and b: "in_edges (PStr cur) None PNone u = (Inr b, t)" and es: "es = a @ b"
    by (auto simp: bnd_eq_Inr ret_run)
  note out = edges_for_run [OF a] and inn = edges_for_run [OF b]
  note us = in_scope_tables [OF out(1)]
  show "tables t = tables s" using out(1) inn(1) by simp
  show "clock_past tau s \<Longrightarrow> clock_past tau t" using out(3) inn(3) by blast
  show "may_hop s (step_of cur (ed_row e))" if "e \<in> set es"
  proof -
    have "\<exists>d. near d (ed_row e) = cur \<and> may_edge d None s (ed_row e)"
      using that es out(2) [of e] inn(2) [of e] us(2) by auto
    then show ?thesis unfolding may_hop_def hop_ok_def step_of_def by auto
  qed
  show "\<exists>e \<in> set es. h = step_of cur (ed_row e)" if c: "clock_past tau s" and m: "must_hop tau s h" and f: "h_from h = cur"
  proof -
    obtain d r where r: "must_edge tau d None s r" "near d r = cur" and h: "h = step_of cur r"
      using m f unfolding must_hop_def hop_ok_def step_of_def by (cases h) auto
    have "r \<in> ed_row ` set es"
    proof (cases d)
      case Outgoing
      then show ?thesis using out(4) [OF c] r es by auto
    next
      case Incoming
      then show ?thesis using inn(4) [OF out(3) [OF c]] r es us(3) by auto
    qed
    then show ?thesis using h by blast
  qed
qed

text \<open>Paths at the bound are dropped.\<close>

lemma causal_path_loop_bound:
  "list_all (\<lambda>x. m \<le> length (snd x)) queue \<Longrightarrow> causal_path_loop dst m seen queue s = (Inr None, s)"
  by (induction queue) (auto simp: causal_path_loop.simps)

definition path_answer :: "(hop \<Rightarrow> bool) \<Rightarrow> (hop \<Rightarrow> bool) \<Rightarrow> pstr \<Rightarrow> pstr \<Rightarrow> nat \<Rightarrow> hop list option \<Rightarrow> bool" where
  "path_answer Q M src dst m found \<longleftrightarrow> (case found of
     None \<Rightarrow> \<forall>hs. hops M src hs dst \<longrightarrow> m < length hs
   | Some p \<Rightarrow> hops Q src p dst \<and> length p \<le> m \<and> (\<forall>hs. hops M src hs dst \<longrightarrow> length p \<le> length hs))"

lemma search_nearest:
  assumes "search_inv Q M src dst seen queue" "queue \<noteq> []" "hops M src hs dst"
  shows "length (snd (hd queue)) < length hs"
  using assms unfolding search_inv_def by (metis not_less)

lemma search_over:
  assumes "search_inv Q M src dst seen []"
  shows "\<not> hops M src hs dst"
proof
  assume "hops M src hs dst"
  then have "dst \<in> set seen" by (rule hops_closed) (use assms in \<open>auto simp: search_inv_def\<close>)
  then show False using assms by (simp add: search_inv_def)
qed

lemma causal_path_loop_answer:
  assumes "causal_path_loop dst m seen queue s = (Inr found, t)" and "clock_past tau s"
    and "search_inv (may_hop s) (must_hop tau s) src dst seen queue"
  shows "path_answer (may_hop s) (must_hop tau s) src dst m found"
  using assms
proof (induction dst m seen queue s rule: causal_path_loop.induct)
  case (1 dst m seen s)
  then have "found = None" by (simp add: causal_path_loop.simps)
  then show ?case using search_over [OF "1.prems"(3)] by (simp add: path_answer_def)
next
  case (2 dst m seen cur path rest s)
  let ?Q = "may_hop s" and ?M = "must_hop tau s"
  note inv = "2.prems"(3)
  show ?case
  proof (cases "m \<le> length path")
    case True
    have "sorted (map (length \<circ> snd) ((cur, path) # rest))" using inv by (simp only: search_inv_def)
    then have "list_all (\<lambda>x. m \<le> length (snd x)) rest" using True by (fastforce simp: list_all_iff)
    from causal_path_loop_bound [OF this, of dst seen s] have "found = None" using "2.prems"(1) True by (simp add: causal_path_loop.simps)
    then show ?thesis using search_nearest [OF inv] True by (fastforce simp: path_answer_def)
  next
    case False
    then obtain es u where b: "bnd (out_edges (PStr cur) None PNone) (\<lambda>a. bnd (in_edges (PStr cur) None PNone) (\<lambda>b. ret (a @ b))) s = (Inr es, u)"
      and k: "(case expand_paths dst cur path es seen rest of Inl found \<Rightarrow> (Inr (Some found), u)
            | Inr (seen', queue) \<Rightarrow> causal_path_loop dst m seen' queue u) = (Inr found, t)"
      using "2.prems"(1) by (auto simp: causal_path_loop.simps split: prod.splits sum.splits)
    note run = both_sides [OF b]
    note same = hop_tables [OF run(1)]
    show ?thesis
    proof (cases "expand_paths dst cur path es seen rest")
      case (Inl p)
      then obtain e where e: "e \<in> set es" "p = path @ [step_of cur (ed_row e)]" "h_to (step_of cur (ed_row e)) = dst"
        using expand_paths_found by blast
      have "hops ?Q src path cur" using inv by (simp add: search_inv_def)
      then have "hops ?Q src p dst" using run(3) [OF e(1)] e by (simp add: hops_snoc) (simp add: step_of_def)
      moreover have "length p \<le> length hs" if "hops ?M src hs dst" for hs
        using search_nearest [OF inv _ that] e(2) by simp
      moreover have "found = Some p" using k Inl by simp
      ultimately show ?thesis using e(2) False by (simp add: path_answer_def)
    next
      case (Inr sq)
      obtain seen' queue' where sq: "sq = (seen', queue')" by (cases sq)
      have "search_inv ?Q ?M src dst seen' queue'"
        by (rule search_step [OF inv Inr [unfolded sq] run(3) run(4) [OF "2.prems"(2)]])
      moreover have loop: "causal_path_loop dst m seen' queue' u = (Inr found, t)" using k Inr sq by simp
      ultimately show ?thesis
        using "2.IH"(2) [OF False b [symmetric] refl Inr sq [symmetric] loop run(2) [OF "2.prems"(2)]] same by simp
    qed
  qed
qed

text \<open>From a node to itself the search finds nothing.\<close>

lemma causal_path_loop_self:
  "dst \<in> set seen \<Longrightarrow> causal_path_loop dst m seen queue s = (Inr found, t) \<Longrightarrow> found = None"
proof (induction dst m seen queue s rule: causal_path_loop.induct)
  case (2 dst m seen cur path rest s)
  show ?case
  proof (cases "m \<le> length path")
    case True
    then show ?thesis using "2.IH"(1) [OF True "2.prems"(1)] "2.prems"(2) by (simp add: causal_path_loop.simps)
  next
    case False
    then obtain es u where b: "bnd (out_edges (PStr cur) None PNone) (\<lambda>a. bnd (in_edges (PStr cur) None PNone) (\<lambda>b. ret (a @ b))) s = (Inr es, u)"
      and k: "(case expand_paths dst cur path es seen rest of Inl found \<Rightarrow> (Inr (Some found), u)
            | Inr (seen', queue) \<Rightarrow> causal_path_loop dst m seen' queue u) = (Inr found, t)"
      using "2.prems"(2) by (auto simp: causal_path_loop.simps split: prod.splits sum.splits)
    have never: "dst \<in> set seen \<Longrightarrow> \<exists>seen' queue'. expand_paths dst cur path es seen q = Inr (seen', queue') \<and> dst \<in> set seen'" for q
    proof (induction es arbitrary: seen q)
      case (Cons e es)
      show ?case
      proof (cases rule: expand_paths_cases [of cur e seen dst path es q])
        case 1
        then show ?thesis using Cons by (simp del: expand_paths.simps)
      next
        case 2
        then show ?thesis using Cons.prems by simp
      next
        case 3
        then show ?thesis using Cons by (simp del: expand_paths.simps)
      qed
    qed simp
    obtain seen' queue' where x: "expand_paths dst cur path es seen rest = Inr (seen', queue')" "dst \<in> set seen'"
      using never [OF "2.prems"(1)] by blast
    then have "causal_path_loop dst m seen' queue' u = (Inr found, t)" using k by simp
    then show ?thesis by (rule "2.IH"(2) [OF False b [symmetric] refl x(1) refl x(2)])
  qed
qed (simp add: causal_path_loop.simps)

lemma causal_path_run:
  assumes "causal_path (PStr src) (PStr dst) (PInt d) s = (Inr found, t)" and "clock_past tau s"
  shows "if src = dst then found = None else path_answer (may_hop s) (must_hop tau s) src dst (nat d) found"
proof -
  have "causal_path_loop dst (nat d) [src] [(src, [])] s = (Inr found, t)"
    using assms(1) by (cases "0 \<le> d") (auto simp: causal_path_def bnd_lift natural_def split: if_splits)
  then show ?thesis
    using causal_path_loop_self [of dst "[src]"] causal_path_loop_answer [OF _ assms(2) search_start] by auto
qed

text \<open>\<open>causal_path\<close> answers correctly. A path it returns leads from the source to the target over
  edges that are current and in scope, within the bound, and no path over lasting edges is
  shorter; when it returns none, there is no path over lasting edges within the bound.
  From a node to itself it returns none.\<close>

theorem causal_path_is_shortest:
  assumes "clock_past tau s"
  shows "case fst (causal_path (PStr src) (PStr dst) (PInt d) s) of
      Inl e \<Rightarrow> True
    | Inr None \<Rightarrow> src = dst \<or> (\<nexists>hs. hops (must_hop tau s) src hs dst \<and> length hs \<le> nat d)
    | Inr (Some p) \<Rightarrow> src \<noteq> dst \<and> hops (may_hop s) src p dst \<and> length p \<le> nat d
        \<and> (\<nexists>hs. hops (must_hop tau s) src hs dst \<and> length hs < length p)"
proof (cases "causal_path (PStr src) (PStr dst) (PInt d) s")
  case (Pair r t)
  then show ?thesis
    using causal_path_run [OF _ assms, of src dst d]
    by (auto simp: path_answer_def not_le [symmetric] split: sum.split option.split if_splits)
qed

lemma sample_path:
  "fst (causal_path (pkey ''a'') (pkey ''b'') (PInt 1) sample_graph) = Inr (Some [step_of (lit ''a'') sample_edge])"
proof -
  obtain n u m v where r: "utcnow sample_graph = (Inr n, u)" "utcnow u = (Inr m, v)"
    and t: "tables u = tables sample_graph" "tables v = tables sample_graph"
    using sample_readings by blast
  show ?thesis
    using sample_edges(1) [OF r(1) t(1), of None] sample_edges(2) [OF r(2) t(2), of None]
    by (simp add: causal_path_def bnd_lift natural_def) (simp add: causal_path_loop.simps bnd_def ret_def step_of_def)
qed

theorem causal_path_is_shortest_witness:
  "fst (causal_path (pkey ''a'') (pkey ''b'') (PInt 1) sample_graph) = Inr (Some [step_of (lit ''a'') sample_edge])
   \<and> hops (may_hop sample_graph) (lit ''a'') [step_of (lit ''a'') sample_edge] (lit ''b'')"
  using causal_path_is_shortest [OF sample_clock, of "lit ''a''" "lit ''b''" 1] sample_path by simp

end
