(* ===== verification/Impact.thy ===== *)
theory Impact
  imports Samples
begin

section \<open>graph.py: what an invalidation reaches\<close>

text \<open>
  \<open>dependents\<close> walks the edges into a node breadth first, multiplying the weights and strengths
  on its way and going on from a node again when it is reached more strongly. What it reports
  is reached by a walk of that strength, and every walk over lasting edges that stays above the
  threshold and within the depth ends in a node reported with at least its strength.
\<close>

text \<open>The strength that is left after one more edge.\<close>

definition gain :: "(pstr \<times> rat) list \<Rightarrow> rat \<Rightarrow> edge_row \<Rightarrow> rat" where
  "gain w x r = fmul (fmul x (the (map_of w (g_edge_type r)))) (g_strength r)"

text \<open>A walk against the edges, as the nodes it visits and the strength that is left.\<close>

inductive impact :: "(edge_row \<Rightarrow> bool) \<Rightarrow> (pstr \<times> rat) list \<Rightarrow> rat \<Rightarrow> pstr \<Rightarrow> pstr list \<Rightarrow> rat \<Rightarrow> bool" for P w lo a where
  impact_here: "impact P w lo a [a] 1"
| impact_step: "impact P w lo a p x \<Longrightarrow> P r \<Longrightarrow> g_dst_id r = last p \<Longrightarrow> lo \<le> gain w x r
    \<Longrightarrow> impact P w lo a (p @ [g_src_id r]) (gain w x r)"

lemma impact_ends: "impact P w lo a p x \<Longrightarrow> p \<noteq> [] \<and> hd p = a"
  by (induction rule: impact.induct) auto

definition shares :: "(pstr \<times> rat) list \<Rightarrow> bool" where
  "shares w \<longleftrightarrow> list_all (\<lambda>(k, c). 0 \<le> c \<and> c \<le> 1) w"

lemma shares_map_of: "shares w \<Longrightarrow> k \<in> fst ` set w \<Longrightarrow> 0 \<le> the (map_of w k) \<and> the (map_of w k) \<le> 1"
  by (induction w) (auto simp: shares_def)

lemma gain_mono:
  assumes "shares w" "g_edge_type r \<in> fst ` set w" "0 \<le> g_strength r" "0 \<le> x" "x \<le> y"
  shows "gain w x r \<le> gain w y r"
proof -
  have c: "0 \<le> the (map_of w (g_edge_type r))" using shares_map_of [OF assms(1,2)] by simp
  show ?thesis unfolding gain_def
    by (intro fmul_mono fmul_nonneg) (use c assms in simp_all)
qed

lemma gain_nonneg:
  assumes "shares w" "g_edge_type r \<in> fst ` set w" "0 \<le> g_strength r" "0 \<le> x"
  shows "0 \<le> gain w x r"
  using shares_map_of [OF assms(1,2)] assms(3,4) by (simp add: gain_def fmul_nonneg)

lemma impact_nonneg:
  assumes "impact P w lo a p x" and "shares w" and "\<And>r. P r \<Longrightarrow> g_edge_type r \<in> fst ` set w \<and> 0 \<le> g_strength r"
  shows "0 \<le> x"
  using assms(1) by (induction rule: impact.induct) (use assms(2,3) gain_nonneg in auto)

lemma round4_mono: "0 \<le> x \<Longrightarrow> x \<le> y \<Longrightarrow> round4 x \<le> round4 y"
proof -
  assume "0 \<le> x" "x \<le> y"
  then have "round_half_even 0 \<le> round_half_even (x * 10000)" "round_half_even (x * 10000) \<le> round_half_even (y * 10000)"
    by (intro round_half_even_mono; simp)+
  then show ?thesis
    unfolding round4_def using round_half_even_of_int [of 0] by (intro rnd64_mono) (auto intro!: divide_right_mono)
qed

subsection \<open>The dictionaries\<close>

lemma map_of_put_key [simp]: "map_of (put_key d k v) = (map_of d)(k \<mapsto> v)"
  by (induction d k v rule: put_key.induct) auto

lemma set_put_key: "set (put_key d k v) \<subseteq> insert (k, v) (set d)"
  by (induction d k v rule: put_key.induct) auto

lemma keys_put_key: "fst ` set (put_key d k v) = insert k (fst ` set d)"
  by (induction d k v rule: put_key.induct) auto

lemma distinct_put_key: "distinct (map fst d) \<Longrightarrow> distinct (map fst (put_key d k v))"
  by (induction d k v rule: put_key.induct) (auto simp: keys_put_key image_iff dest: set_put_key [THEN subsetD])

text \<open>One edge: skipped, or it becomes the best way to its source.\<close>

definition push :: "nat \<Rightarrow> pstr list \<Rightarrow> edge_row \<Rightarrow> rat \<Rightarrow> traversal \<Rightarrow> traversal" where
  "push dp path r s t = \<lparr>t_seen = put_key (t_seen t) (g_src_id r) s,
     t_best = put_key (t_best t) (g_src_id r) \<lparr>q_id = g_src_id r, q_depth = dp + 1, q_strength = round4 s,
       q_path = path @ [g_src_id r], q_via = g_edge_type r\<rparr>,
     t_queue = t_queue t @ [(g_src_id r, dp + 1, s, path @ [g_src_id r])]\<rparr>"

lemma relax_cases:
  assumes "relax w lo mx dp x path (e # es) t = Inr t'"
  obtains "gain w x (ed_row e) < lo \<or> weaker_known (t_seen t) (g_src_id (ed_row e)) (gain w x (ed_row e))"
      "relax w lo mx dp x path es t = Inr t'"
    | "lo \<le> gain w x (ed_row e)" "\<not> weaker_known (t_seen t) (g_src_id (ed_row e)) (gain w x (ed_row e))"
      "length (t_best (push dp path (ed_row e) (gain w x (ed_row e)) t)) \<le> mx"
      "relax w lo mx dp x path es (push dp path (ed_row e) (gain w x (ed_row e)) t) = Inr t'"
proof (cases "gain w x (ed_row e) < lo \<or> weaker_known (t_seen t) (g_src_id (ed_row e)) (gain w x (ed_row e))")
  case True
  then show ?thesis using assms that(1) by (simp add: Let_def gain_def)
next
  case False
  then show ?thesis using assms that(2) by (simp add: Let_def gain_def push_def not_less split: if_splits)
qed

subsection \<open>What is reported is reached\<close>

definition reached_ok :: "(edge_row \<Rightarrow> bool) \<Rightarrow> (pstr \<times> rat) list \<Rightarrow> rat \<Rightarrow> pstr \<Rightarrow> nat \<Rightarrow> reached \<Rightarrow> bool" where
  "reached_ok P w lo a md q \<longleftrightarrow> (\<exists>x. impact P w lo a (q_path q) x \<and> q_id q = last (q_path q)
     \<and> length (q_path q) = Suc (q_depth q) \<and> 0 < q_depth q \<and> q_depth q \<le> md \<and> lo \<le> x \<and> q_strength q = round4 x)"

definition traced :: "(edge_row \<Rightarrow> bool) \<Rightarrow> (pstr \<times> rat) list \<Rightarrow> rat \<Rightarrow> pstr \<Rightarrow> nat \<Rightarrow> nat \<Rightarrow> traversal \<Rightarrow> bool" where
  "traced P w lo a mx md t \<longleftrightarrow>
     (\<forall>n d x p. (n, d, x, p) \<in> set (t_queue t) \<longrightarrow> impact P w lo a p x \<and> last p = n \<and> length p = Suc d)
     \<and> (\<forall>n q. (n, q) \<in> set (t_best t) \<longrightarrow> q_id q = n \<and> reached_ok P w lo a md q)
     \<and> distinct (map fst (t_best t)) \<and> length (t_best t) \<le> mx"

lemma traced_push:
  assumes t: "traced P w lo a mx md t" and p: "impact P w lo a path x" "length path = Suc dp" "dp < md"
    and r: "P r" "g_dst_id r = last path" "lo \<le> gain w x r" and len: "length (t_best (push dp path r (gain w x r) t)) \<le> mx"
  shows "traced P w lo a mx md (push dp path r (gain w x r) t)"
proof -
  note step = impact_step [OF p(1) r]
  have ok: "reached_ok P w lo a md \<lparr>q_id = g_src_id r, q_depth = dp + 1, q_strength = round4 (gain w x r),
      q_path = path @ [g_src_id r], q_via = g_edge_type r\<rparr>"
    using step p r(3) unfolding reached_ok_def by auto
  show ?thesis
    using t len step p(2) ok unfolding traced_def push_def
    by (auto simp: distinct_put_key dest!: set_put_key [THEN subsetD])
qed

lemma relax_traced:
  assumes "relax w lo mx dp x path es t = Inr t'" and "traced P w lo a mx md t"
    and "impact P w lo a path x" "length path = Suc dp" "dp < md"
    and "\<And>e. e \<in> set es \<Longrightarrow> P (ed_row e) \<and> g_dst_id (ed_row e) = last path"
  shows "traced P w lo a mx md t'"
  using assms(1,2,6)
proof (induction es arbitrary: t)
  case (Cons e es)
  show ?case
  proof (cases rule: relax_cases [OF Cons.prems(1)])
    case 1
    then show ?thesis using Cons by simp
  next
    case 2
    have "traced P w lo a mx md (push dp path (ed_row e) (gain w x (ed_row e)) t)"
      by (rule traced_push [OF Cons.prems(2) assms(3-5) _ _ 2(1,3)]) (use Cons.prems(3) in simp_all)
    then show ?thesis using Cons.IH [OF 2(4)] Cons.prems(3) by simp
  qed
qed simp

subsection \<open>What is reached is reported\<close>

text \<open>\<open>A\<close> collects what was ever queued: node, depth and strength.\<close>

definition known :: "pstr \<Rightarrow> (pstr \<times> nat \<times> rat) set \<Rightarrow> traversal \<Rightarrow> bool" where
  "known a A t \<longleftrightarrow>
     (\<forall>n x. map_of (t_seen t) n = Some x \<longrightarrow> (\<exists>d. (n, d, x) \<in> A) \<and> (n = a \<or> map_of (t_best t) n \<noteq> None))
     \<and> (\<forall>n d x. (n, d, x) \<in> A \<longrightarrow> (\<exists>x'. map_of (t_seen t) n = Some x' \<and> x \<le> x'))
     \<and> (\<forall>n q. map_of (t_best t) n = Some q \<longrightarrow> (\<exists>x. map_of (t_seen t) n = Some x \<and> q_strength q = round4 x))"

lemma known_push:
  assumes k: "known a A t" and s: "\<not> weaker_known (t_seen t) (g_src_id r) s"
  shows "known a (insert (g_src_id r, Suc dp, s) A) (push dp path r s t)"
proof -
  have old: "(g_src_id r, d, x) \<in> A \<Longrightarrow> x \<le> s" for d x
    using k s unfolding known_def weaker_known_def by (fastforce split: option.splits)
  show ?thesis
    using k old unfolding known_def push_def by auto
qed

lemma relax_known:
  assumes "relax w lo mx dp x path es t = Inr t'" and "known a A t" and "\<forall>z \<in> A. fst (snd z) \<le> Suc dp"
  shows "\<exists>new. t_queue t' = t_queue t @ new \<and> (\<forall>n d y p. (n, d, y, p) \<in> set new \<longrightarrow> d = Suc dp)
    \<and> known a (A \<union> (\<lambda>(n, d, y, p). (n, d, y)) ` set new) t'
    \<and> (\<forall>e \<in> set es. lo \<le> gain w x (ed_row e) \<longrightarrow>
         (\<exists>d y. (g_src_id (ed_row e), d, y) \<in> A \<union> (\<lambda>(n, d, y, p). (n, d, y)) ` set new \<and> d \<le> Suc dp \<and> gain w x (ed_row e) \<le> y))"
  using assms
proof (induction es arbitrary: t A)
  case Nil
  then show ?case by (intro exI [of _ "[]"]) simp
next
  case (Cons e es)
  let ?r = "ed_row e" and ?s = "gain w x (ed_row e)"
  show ?case
  proof (cases rule: relax_cases [OF Cons.prems(1)])
    case 1
    obtain new where new: "t_queue t' = t_queue t @ new" "\<forall>n d y p. (n, d, y, p) \<in> set new \<longrightarrow> d = Suc dp"
        "known a (A \<union> (\<lambda>(n, d, y, p). (n, d, y)) ` set new) t'"
        "\<forall>e \<in> set es. lo \<le> gain w x (ed_row e) \<longrightarrow>
         (\<exists>d y. (g_src_id (ed_row e), d, y) \<in> A \<union> (\<lambda>(n, d, y, p). (n, d, y)) ` set new \<and> d \<le> Suc dp \<and> gain w x (ed_row e) \<le> y)"
      using Cons.IH [OF 1(2) Cons.prems(2,3)] by blast
    have "\<exists>d y. (g_src_id ?r, d, y) \<in> A \<and> d \<le> Suc dp \<and> ?s \<le> y" if lo: "lo \<le> ?s"
    proof -
      obtain y where y: "map_of (t_seen t) (g_src_id ?r) = Some y" "?s \<le> y"
        using 1(1) lo by (auto simp: weaker_known_def split: option.splits)
      then obtain d where "(g_src_id ?r, d, y) \<in> A" using Cons.prems(2) unfolding known_def by blast
      then show ?thesis using Cons.prems(3) y(2) by force
    qed
    then show ?thesis using new by (intro exI [of _ new]) (auto 0 3)
  next
    case 2
    let ?n = "(g_src_id ?r, Suc dp, ?s, path @ [g_src_id ?r])"
    let ?A = "insert (g_src_id ?r, Suc dp, ?s) A"
    have "known a ?A (push dp path ?r ?s t)" by (rule known_push [OF Cons.prems(2) 2(2)])
    moreover have "\<forall>z \<in> ?A. fst (snd z) \<le> Suc dp" using Cons.prems(3) by auto
    ultimately obtain new where new: "t_queue t' = t_queue (push dp path ?r ?s t) @ new"
        "\<forall>n d y p. (n, d, y, p) \<in> set new \<longrightarrow> d = Suc dp"
        "known a (?A \<union> (\<lambda>(n, d, y, p). (n, d, y)) ` set new) t'"
        "\<forall>e \<in> set es. lo \<le> gain w x (ed_row e) \<longrightarrow>
         (\<exists>d y. (g_src_id (ed_row e), d, y) \<in> ?A \<union> (\<lambda>(n, d, y, p). (n, d, y)) ` set new \<and> d \<le> Suc dp \<and> gain w x (ed_row e) \<le> y)"
      using Cons.IH [OF 2(4)] by blast
    have A: "A \<union> (\<lambda>(n, d, y, p). (n, d, y)) ` set (?n # new) = ?A \<union> (\<lambda>(n, d, y, p). (n, d, y)) ` set new" by auto
    have q: "t_queue t' = t_queue t @ (?n # new)" using new(1) by (simp add: push_def)
    show ?thesis
      by (intro exI [of _ "?n # new"] conjI; (simp only: A)?) (use q new in auto)
  qed
qed

text \<open>An entry is spread when everything next to it is known at least as strongly, one step deeper
  at most. Whatever has left the queue above the depth bound is spread.\<close>

definition spread :: "(edge_row \<Rightarrow> bool) \<Rightarrow> (pstr \<times> rat) list \<Rightarrow> rat \<Rightarrow> (pstr \<times> nat \<times> rat) set \<Rightarrow> pstr \<Rightarrow> nat \<Rightarrow> rat \<Rightarrow> bool" where
  "spread M w lo A n d x \<longleftrightarrow> (\<forall>r. M r \<and> g_dst_id r = n \<and> lo \<le> gain w x r \<longrightarrow>
     (\<exists>d' y. (g_src_id r, d', y) \<in> A \<and> d' \<le> Suc d \<and> gain w x r \<le> y))"

definition explored :: "(edge_row \<Rightarrow> bool) \<Rightarrow> (pstr \<times> rat) list \<Rightarrow> rat \<Rightarrow> pstr \<Rightarrow> nat \<Rightarrow> (pstr \<times> nat \<times> rat) set \<Rightarrow> traversal \<Rightarrow> bool" where
  "explored M w lo a md A t \<longleftrightarrow> known a A t \<and> (a, 0, 1) \<in> A
     \<and> (\<forall>n d x p. (n, d, x, p) \<in> set (t_queue t) \<longrightarrow> (n, d, x) \<in> A)
     \<and> sorted (map (\<lambda>q. fst (snd q)) (t_queue t))
     \<and> (t_queue t \<noteq> [] \<longrightarrow> (\<forall>z \<in> A. fst (snd z) \<le> Suc (fst (snd (hd (t_queue t))))))
     \<and> (\<forall>n d x. (n, d, x) \<in> A \<longrightarrow> (\<exists>p. (n, d, x, p) \<in> set (t_queue t)) \<or> md \<le> d \<or> spread M w lo A n d x)"

lemma explored_start: "explored M w lo a md {(a, 0, 1)} \<lparr>t_seen = [(a, 1)], t_best = [], t_queue = [(a, 0, 1, [a])]\<rparr>"
  by (auto simp: explored_def known_def)

lemma traced_start: "traced P w lo a mx md \<lparr>t_seen = [(a, 1)], t_best = [], t_queue = [(a, 0, 1, [a])]\<rparr>"
  by (auto simp: traced_def intro: impact_here)

lemma known_queue [simp]: "known a A (t\<lparr>t_queue := q\<rparr>) = known a A t"
  by (simp add: known_def)

lemma spread_mono: "spread M w lo A n d x \<Longrightarrow> A \<subseteq> B \<Longrightarrow> spread M w lo B n d x"
  unfolding spread_def by blast

lemma explored_drop:
  assumes e: "explored M w lo a md A t" and q: "t_queue t = (n, d, x, p) # rest" and d: "md \<le> d"
  shows "explored M w lo a md A (t\<lparr>t_queue := rest\<rparr>)"
proof -
  have "\<forall>z \<in> A. fst (snd z) \<le> Suc d" "\<forall>q \<in> set rest. d \<le> fst (snd q)"
    using e q by (auto simp: explored_def)
  then have "rest \<noteq> [] \<longrightarrow> (\<forall>z \<in> A. fst (snd z) \<le> Suc (fst (snd (hd rest))))"
    by (cases rest) (auto intro: le_trans)
  moreover have "(\<exists>r. (m, c, y, r) \<in> set rest) \<or> md \<le> c \<or> spread M w lo A m c y" if "(m, c, y) \<in> A" for m c y
  proof -
    have "(\<exists>r. (m, c, y, r) \<in> set (t_queue t)) \<or> md \<le> c \<or> spread M w lo A m c y"
      using e that unfolding explored_def by blast
    then show ?thesis using q d by auto
  qed
  ultimately show ?thesis using e q unfolding explored_def by simp
qed

lemma explored_relax:
  assumes e: "explored M w lo a md A t" and q: "t_queue t = (n, d, x, p) # rest"
    and run: "relax w lo mx d x p es (t\<lparr>t_queue := rest\<rparr>) = Inr t'"
    and must: "\<And>r. M r \<Longrightarrow> g_dst_id r = n \<Longrightarrow> r \<in> ed_row ` set es"
  shows "\<exists>B. explored M w lo a md B t'"
proof -
  have A: "\<forall>z \<in> A. fst (snd z) \<le> Suc d" "\<forall>q \<in> set rest. d \<le> fst (snd q)" "known a A t" "(a, 0, 1) \<in> A"
    "sorted (map (\<lambda>q. fst (snd q)) rest)"
    using e q by (auto simp: explored_def)
  have inA: "(m, c, y) \<in> A" if "(m, c, y, r) \<in> set rest" for m c y r using e q that by (auto simp: explored_def)
  obtain new where new: "t_queue t' = rest @ new" "\<forall>n c y p. (n, c, y, p) \<in> set new \<longrightarrow> c = Suc d"
      and k: "known a (A \<union> (\<lambda>(n, d, y, p). (n, d, y)) ` set new) t'"
      and sp: "\<forall>e \<in> set es. lo \<le> gain w x (ed_row e) \<longrightarrow>
        (\<exists>c y. (g_src_id (ed_row e), c, y) \<in> A \<union> (\<lambda>(n, d, y, p). (n, d, y)) ` set new \<and> c \<le> Suc d \<and> gain w x (ed_row e) \<le> y)"
    using relax_known [OF run, of a A] A by auto
  let ?B = "A \<union> (\<lambda>(n, d, y, p). (n, d, y)) ` set new"
  have depth: "\<forall>q \<in> set new. fst (snd q) = Suc d"
  proof
    fix q assume "q \<in> set new"
    then show "fst (snd q) = Suc d" using new(2) by (metis prod.collapse)
  qed
  have le: "\<forall>q \<in> set rest. fst (snd q) \<le> Suc d"
  proof
    fix q assume "q \<in> set rest"
    then have "(fst q, fst (snd q), fst (snd (snd q))) \<in> A" using inA by (metis prod.collapse)
    then show "fst (snd q) \<le> Suc d" using A(1) by force
  qed
  have "map (\<lambda>q. fst (snd q)) new = replicate (length new) (Suc d)"
    using depth by (intro replicate_eqI) auto
  then have "sorted (map (\<lambda>q. fst (snd q)) (rest @ new))"
    using A(5) le depth by (simp add: sorted_append)
  moreover have "fst (snd z) \<le> Suc (fst (snd (hd (t_queue t'))))" if "z \<in> ?B" "t_queue t' \<noteq> []" for z
  proof -
    have "hd (t_queue t') \<in> set (rest @ new)" using hd_in_set [OF that(2)] by (simp only: new(1))
    then have "d \<le> fst (snd (hd (t_queue t')))" using A(2) depth by (metis Suc_n_not_le_n Un_iff nat_le_linear set_append)
    moreover have "fst (snd z) \<le> Suc d" using that(1) A(1) depth by auto
    ultimately show ?thesis by simp
  qed
  moreover have "(\<exists>r. (m, c, y, r) \<in> set (t_queue t')) \<or> md \<le> c \<or> spread M w lo ?B m c y" if "(m, c, y) \<in> ?B" for m c y
  proof -
    consider "(m, c, y) \<in> A" | r where "(m, c, y, r) \<in> set new" using \<open>(m, c, y) \<in> ?B\<close> by auto
    then show ?thesis
    proof cases
      case 1
      then consider r where "(m, c, y, r) \<in> set rest" | "(m, c, y) = (n, d, x)" | "md \<le> c" | "spread M w lo A m c y"
        using e q unfolding explored_def by (metis prod.inject set_ConsD)
      then show ?thesis
      proof cases
        case 2
        then have "spread M w lo ?B m c y" using sp must unfolding spread_def by fastforce
        then show ?thesis by blast
      next
        case 4
        then show ?thesis using spread_mono by blast
      qed (use new(1) in auto)
    qed (use new(1) in auto)
  qed
  ultimately have "explored M w lo a md ?B t'"
    using k A(4) new(1) inA unfolding explored_def by (auto 0 3 simp: image_iff)
  then show ?thesis by blast
qed

text \<open>The whole traversal.\<close>

lemma dependents_loop_run:
  assumes "dependents_loop w lo mx md t s = (Inr best, u)" and "clock_past tau s"
    and "traced (may_edge Incoming (Some (map fst w)) s) w lo a mx md t"
    and "\<exists>A. explored (must_edge tau Incoming (Some (map fst w)) s) w lo a md A t"
  shows "\<exists>t' A. t_best t' = best \<and> t_queue t' = []
    \<and> traced (may_edge Incoming (Some (map fst w)) s) w lo a mx md t'
    \<and> explored (must_edge tau Incoming (Some (map fst w)) s) w lo a md A t'"
  using assms
proof (induction w lo mx md t s rule: dependents_loop.induct)
  case (1 w lo mx md t s)
  let ?P = "may_edge Incoming (Some (map fst w)) s" and ?M = "must_edge tau Incoming (Some (map fst w)) s"
  note tr = "1.prems"(3)
  obtain A where ex: "explored ?M w lo a md A t" using "1.prems"(4) by blast
  show ?case
  proof (cases "t_queue t")
    case Nil
    then show ?thesis using "1.prems"(1) tr ex by (auto simp: dependents_loop.simps)
  next
    case (Cons x rest)
    obtain n d y p where q: "t_queue t = (n, d, y, p) # rest" using Cons by (cases x) auto
    show ?thesis
    proof (cases "md \<le> d")
      case True
      have "dependents_loop w lo mx md (t\<lparr>t_queue := rest\<rparr>) s = (Inr best, u)"
        using "1.prems"(1) True by (simp add: dependents_loop.simps [of w lo mx md t] q)
      moreover have "traced ?P w lo a mx md (t\<lparr>t_queue := rest\<rparr>)" using tr q unfolding traced_def by simp
      ultimately show ?thesis
        using "1.IH"(1) [OF q refl refl refl True] explored_drop [OF ex q True] "1.prems"(2) by blast
    next
      case False
      obtain es v t' where e: "in_edges (PStr n) (Some (map fst w)) PNone s = (Inr es, v)"
        and r: "relax w lo mx d y p es (t\<lparr>t_queue := rest\<rparr>) = Inr t'"
        and k: "dependents_loop w lo mx md t' v = (Inr best, u)"
        using "1.prems"(1) False by (auto simp: dependents_loop.simps [of w lo mx md t] q split: prod.splits sum.splits)
      note run = edges_for_run [OF e]
      note same = in_scope_tables [OF run(1)]
      have p: "impact ?P w lo a p y" "last p = n" "length p = Suc d" using tr q unfolding traced_def by simp_all
      have "traced ?P w lo a mx md t'"
        by (rule relax_traced [OF r _ p(1,3)]) (use tr q False run(2) p(2) in \<open>auto simp: traced_def near_def\<close>)
      moreover have "\<exists>B. explored ?M w lo a md B t'"
        by (rule explored_relax [OF ex q r run(4) [OF "1.prems"(2)]]) (simp_all add: near_def)
      ultimately show ?thesis
        using "1.IH"(2) [OF q refl refl refl False e [symmetric] refl r k run(3) [OF "1.prems"(2)]] same by simp
    qed
  qed
qed

lemma dominated:
  assumes "impact M w lo a p x" and "explored M w lo a md A t" "t_queue t = []" "shares w"
    and M: "\<And>r. M r \<Longrightarrow> g_edge_type r \<in> fst ` set w \<and> 0 \<le> g_strength r" and "length p \<le> Suc md"
  shows "\<exists>d y. (last p, d, y) \<in> A \<and> Suc d \<le> length p \<and> x \<le> y"
  using assms(1,6)
proof (induction rule: impact.induct)
  case impact_here
  then show ?case using assms(2) by (auto simp: explored_def intro!: exI [of _ 0] exI [of _ 1])
next
  case (impact_step p x r)
  then obtain d y where dy: "(last p, d, y) \<in> A" "Suc d \<le> length p" "x \<le> y" by auto
  have "\<not> md \<le> d" using dy(2) impact_step.prems by simp
  then have sp: "spread M w lo A (last p) d y" using assms(2,3) dy(1) by (auto simp: explored_def)
  have "0 \<le> x" by (rule impact_nonneg [OF impact_step.hyps(1) assms(4) M])
  then have le: "gain w x r \<le> gain w y r" using M [OF impact_step.hyps(2)] dy(3) by (intro gain_mono [OF assms(4)]) auto
  then have "lo \<le> gain w y r" using impact_step.hyps(4) by simp
  then obtain d' z where z: "(g_src_id r, d', z) \<in> A" "d' \<le> Suc d" "gain w y r \<le> z"
    using sp impact_step.hyps(2,3) unfolding spread_def by blast
  then show ?case using dy(2) le by (intro exI [of _ d'] exI [of _ z]) auto
qed

lemma unit_number_bounds: "unit_number v \<Longrightarrow> 0 \<le> the (number v) \<and> the (number v) \<le> 1"
  by (auto simp: unit_number_def split: option.splits)

lemma default_shares: "shares PROPAGATION_EDGES"
  by (simp add: shares_def PROPAGATION_EDGES_def rnd64_nonneg rnd64_le_1)

lemma propagation_shares: "propagation_weights v = Inr w \<Longrightarrow> shares w"
proof (cases v)
  case (PDict d)
  assume "propagation_weights v = Inr w"
  then have "rmap (\<lambda>(k, c). require (in_vocabulary k EDGE_TYPES) ValueError
       (require (unit_number c) (unit_refusal c) (Inr (text_of k, the (number c))))) d = Inr w"
    using PDict by (simp add: propagation_weights_def)
  then show ?thesis
    by (induction d arbitrary: w) (auto simp: shares_def unit_number_bounds)
qed (auto simp: propagation_weights_def default_shares)

lemma distinct_sort_key: "distinct (map f (sort_key k xs)) = distinct (map f xs)"
  by (rule mset_eq_imp_distinct_iff) simp

lemma dependents_cases:
  assumes "dependents (PStr nid) (PInt md) (PInt mx) kinds lo s = (Inr qs, u)" and "propagation_weights kinds = Inr w"
  obtains "w = []" "qs = []"
    | best v where "w \<noteq> []" "dependents_loop w (the (number lo)) (nat mx) (nat md)
        \<lparr>t_seen = [(nid, 1)], t_best = [], t_queue = [(nid, 0, 1, [nid])]\<rparr> s = (Inr best, v)"
      "qs = sort_key q_depth (sort_key (\<lambda>q. - q_strength q) (map snd best))"
proof -
  have "0 \<le> md" "0 \<le> mx"
    using assms(1) by (cases "0 \<le> md"; cases "0 \<le> mx"; auto simp: dependents_def bnd_lift natural_def split: if_splits)+
  then have run: "bnd (chk (unit_number lo) (unit_refusal lo)) (\<lambda>_.
     if w = [] then ret []
     else bnd (dependents_loop w (the (number lo)) (nat mx) (nat md)
         \<lparr>t_seen = [(nid, 1)], t_best = [], t_queue = [(nid, 0, 1, [nid])]\<rparr>) (\<lambda>best.
       ret (sort_key q_depth (sort_key (\<lambda>q. - q_strength q) (map snd best))))) s = (Inr qs, u)"
    using assms by (auto simp: dependents_def bnd_lift natural_def bnd_chk split: if_splits)
  show ?thesis
  proof (cases "w = []")
    case True
    then show ?thesis using run that(1) by (auto simp: bnd_chk ret_run split: if_splits)
  next
    case False
    then show ?thesis using run that(2) by (auto simp: bnd_chk bnd_eq_Inr ret_run split: if_splits)
  qed
qed

lemma dependents_run:
  assumes run: "dependents (PStr nid) (PInt md) (PInt mx) kinds lo s = (Inr qs, u)"
    and w: "propagation_weights kinds = Inr w" and tau: "clock_past tau s" and "w \<noteq> []"
  obtains t A where "traced (may_edge Incoming (Some (map fst w)) s) w (the (number lo)) nid (nat mx) (nat md) t"
    "explored (must_edge tau Incoming (Some (map fst w)) s) w (the (number lo)) nid (nat md) A t"
    "t_queue t = []" "qs = sort_key q_depth (sort_key (\<lambda>q. - q_strength q) (map snd (t_best t)))"
proof -
  obtain best v where loop: "dependents_loop w (the (number lo)) (nat mx) (nat md)
        \<lparr>t_seen = [(nid, 1)], t_best = [], t_queue = [(nid, 0, 1, [nid])]\<rparr> s = (Inr best, v)"
      and qs: "qs = sort_key q_depth (sort_key (\<lambda>q. - q_strength q) (map snd best))"
    by (rule dependents_cases [OF run w]) (use \<open>w \<noteq> []\<close> in blast)+
  obtain t A where "t_best t = best" "t_queue t = []"
      "traced (may_edge Incoming (Some (map fst w)) s) w (the (number lo)) nid (nat mx) (nat md) t"
      "explored (must_edge tau Incoming (Some (map fst w)) s) w (the (number lo)) nid (nat md) A t"
    using dependents_loop_run [OF loop tau traced_start] explored_start by blast
  then show ?thesis using that qs by blast
qed

lemma dependents_sound:
  assumes "dependents (PStr nid) (PInt md) (PInt mx) kinds lo s = (Inr qs, u)"
    and "propagation_weights kinds = Inr w" and "clock_past tau s"
  shows "list_all (reached_ok (may_edge Incoming (Some (map fst w)) s) w (the (number lo)) nid (nat md)) qs
    \<and> distinct (map q_id qs) \<and> length qs \<le> nat mx \<and> sorted (map q_depth qs)"
proof (cases "w = []")
  case True
  then have "qs = []" by (metis dependents_cases [OF assms(1,2)])
  then show ?thesis by simp
next
  case False
  obtain t A where t: "traced (may_edge Incoming (Some (map fst w)) s) w (the (number lo)) nid (nat mx) (nat md) t"
      "qs = sort_key q_depth (sort_key (\<lambda>q. - q_strength q) (map snd (t_best t)))"
    by (rule dependents_run [OF assms False])
  have ids: "map fst (t_best t) = map (q_id \<circ> snd) (t_best t)" using t(1) by (auto simp: traced_def)
  have "distinct (map q_id (map snd (t_best t)))" using t(1) ids by (simp add: traced_def)
  then have "distinct (map q_id qs)" by (simp only: t(2) distinct_sort_key)
  then show ?thesis using t(1) unfolding t(2) traced_def by (auto simp: list_all_iff)
qed

text \<open>C24: What \<open>dependents\<close> reports is real: each node once, at most \<open>max_nodes\<close> of them, in
  the order of their depth, and each with a walk of that length from the start against edges
  that are current and in scope, no longer than \<open>max_depth\<close>, whose strength, which the
  threshold admits at every step, rounds to the one that is reported.\<close>

theorem dependents_are_reached:
  assumes "dependents (PStr nid) (PInt md) (PInt mx) kinds lo s = (Inr qs, u)"
    and "propagation_weights kinds = Inr w" and "clock_past tau s"
  shows "list_all (reached_ok (may_edge Incoming (Some (map fst w)) s) w (the (number lo)) nid (nat md)) qs
    \<and> distinct (map q_id qs) \<and> length qs \<le> nat mx \<and> sorted (map q_depth qs)"
  using dependents_sound [OF assms] .

text \<open>C25: \<open>dependents\<close> misses nothing that lasts: a walk against edges that are current, in scope
  and valid without end, of length within \<open>max_depth\<close> and of a strength the threshold admits
  at every step, leads back to the start or to a node that is reported, at least as strong.\<close>

theorem dependents_miss_nothing:
  assumes "dependents (PStr nid) (PInt md) (PInt mx) kinds lo s = (Inr qs, u)"
    and "propagation_weights kinds = Inr w" and "clock_past tau s" and "list_all (\<lambda>r. 0 \<le> g_strength r) (edges s)"
    and "impact (must_edge tau Incoming (Some (map fst w)) s) w (the (number lo)) nid p x" and "length p \<le> Suc (nat md)"
  shows "last p = nid \<or> (\<exists>q \<in> set qs. q_id q = last p \<and> round4 x \<le> q_strength q)"
proof (cases "w = []")
  case True
  have "last p = nid"
    using assms(5) True by (induction rule: impact.induct) (auto simp: must_edge_def may_edge_def)
  then show ?thesis ..
next
  case False
  obtain t A where t: "traced (may_edge Incoming (Some (map fst w)) s) w (the (number lo)) nid (nat mx) (nat md) t"
      "explored (must_edge tau Incoming (Some (map fst w)) s) w (the (number lo)) nid (nat md) A t"
      "t_queue t = []" "qs = sort_key q_depth (sort_key (\<lambda>q. - q_strength q) (map snd (t_best t)))"
    by (rule dependents_run [OF assms(1-3) False])
  have M: "g_edge_type r \<in> fst ` set w \<and> 0 \<le> g_strength r" if "must_edge tau Incoming (Some (map fst w)) s r" for r
    using that assms(4) by (auto simp: must_edge_def may_edge_def in_scope_def list_all_iff)
  have w: "shares w" by (rule propagation_shares [OF assms(2)])
  obtain d y where A: "(last p, d, y) \<in> A" "x \<le> y"
    using dominated [OF assms(5) t(2,3) w M assms(6)] by blast
  then obtain z where z: "map_of (t_seen t) (last p) = Some z" "y \<le> z"
    using t(2) unfolding explored_def known_def by blast
  show ?thesis
  proof (cases "last p = nid")
    case False
    have k: "known nid A t" using t(2) by (simp add: explored_def)
    then have "map_of (t_best t) (last p) \<noteq> None" using z(1) False unfolding known_def by blast
    then obtain q where q: "map_of (t_best t) (last p) = Some q" by blast
    then have "q_strength q = round4 z" using k z(1) unfolding known_def by fastforce
    have "0 \<le> x" by (rule impact_nonneg [OF assms(5) w M])
    then have "round4 x \<le> q_strength q" using A(2) z(2) \<open>q_strength q = round4 z\<close> by (auto intro: round4_mono)
    moreover have best: "(last p, q) \<in> set (t_best t)" using q by (rule map_of_SomeD)
    moreover from best have "q_id q = last p" "q \<in> set qs" using t(1) by (force simp: t(4) traced_def)+
    ultimately show ?thesis by blast
  qed simp
qed

subsection \<open>On a small graph\<close>

abbreviation sample_gain :: rat where
  "sample_gain \<equiv> gain PROPAGATION_EDGES 1 sample_edge"

lemma sample_kinds: "set (map fst PROPAGATION_EDGES) \<subseteq> set EDGE_TYPES" "lit ''depends_on'' \<in> set (map fst PROPAGATION_EDGES)"
  by code_simp+

lemma sample_gain_nonneg: "0 \<le> sample_gain"
  by (rule gain_nonneg [OF default_shares]) (use sample_kinds in simp_all)

lemma sample_dependents:
  "\<exists>u. dependents (pkey ''b'') (PInt 1) (PInt 5) PNone (PInt 0) sample_graph
     = (Inr [\<lparr>q_id = lit ''a'', q_depth = 1, q_strength = round4 sample_gain, q_path = [lit ''b'', lit ''a''],
         q_via = lit ''depends_on''\<rparr>], u)"
proof -
  obtain n u where r: "utcnow sample_graph = (Inr n, u)" and t: "tables u = tables sample_graph"
    using sample_readings by blast
  have q: "in_edges (pkey ''b'') (Some (map fst PROPAGATION_EDGES)) PNone sample_graph = (Inr [\<lparr>ed_row = sample_edge, ed_data = PNone\<rparr>], u)"
    using sample_edges(4) [OF r t] sample_kinds by simp
  have x: "relax PROPAGATION_EDGES 0 5 0 1 [lit ''b''] [\<lparr>ed_row = sample_edge, ed_data = PNone\<rparr>]
      \<lparr>t_seen = [(lit ''b'', 1)], t_best = [], t_queue = []\<rparr> =
      Inr \<lparr>t_seen = [(lit ''b'', 1), (lit ''a'', sample_gain)],
        t_best = [(lit ''a'', \<lparr>q_id = lit ''a'', q_depth = 1, q_strength = round4 sample_gain,
          q_path = [lit ''b'', lit ''a''], q_via = lit ''depends_on''\<rparr>)],
        t_queue = [(lit ''a'', 1, sample_gain, [lit ''b'', lit ''a''])]\<rparr>"
    using sample_gain_nonneg by (simp add: gain_def Let_def weaker_known_def)
  have loop: "dependents_loop PROPAGATION_EDGES 0 5 1 \<lparr>t_seen = [(lit ''b'', 1)], t_best = [],
      t_queue = [(lit ''b'', 0, 1, [lit ''b''])]\<rparr> sample_graph
    = (Inr [(lit ''a'', \<lparr>q_id = lit ''a'', q_depth = 1, q_strength = round4 sample_gain,
          q_path = [lit ''b'', lit ''a''], q_via = lit ''depends_on''\<rparr>)], u)"
    by (simp add: dependents_loop.simps q x [simplified One_nat_def] del: relax.simps)
  have "PROPAGATION_EDGES \<noteq> []" by (simp add: PROPAGATION_EDGES_def)
  then show ?thesis
    by (simp add: dependents_def bnd_lift bnd_chk natural_def propagation_weights_def unit_number_def bnd_eq_Inr ret_run
        loop [simplified])
qed

theorem dependents_are_reached_witness:
  "\<exists>qs u. dependents (pkey ''b'') (PInt 1) (PInt 5) PNone (PInt 0) sample_graph = (Inr qs, u) \<and> map q_id qs = [lit ''a'']
     \<and> list_all (reached_ok (may_edge Incoming (Some (map fst PROPAGATION_EDGES)) sample_graph) PROPAGATION_EDGES 0 (lit ''b'') 1) qs"
proof -
  have "propagation_weights PNone = Inr PROPAGATION_EDGES" by (simp add: propagation_weights_def)
  then show ?thesis
    using sample_dependents dependents_are_reached [OF _ _ sample_clock, of "lit ''b''" 1 5 PNone "PInt 0"] by fastforce
qed

theorem dependents_miss_nothing_witness:
  "\<exists>qs u. dependents (pkey ''b'') (PInt 1) (PInt 5) PNone (PInt 0) sample_graph = (Inr qs, u)
     \<and> (\<exists>q \<in> set qs. q_id q = lit ''a'' \<and> round4 sample_gain \<le> q_strength q)"
proof -
  obtain qs u where run: "dependents (pkey ''b'') (PInt 1) (PInt 5) PNone (PInt 0) sample_graph = (Inr qs, u)"
    using sample_dependents by blast
  have "fst (reference_scope (lit ''b'') sample_graph) = Inr (Some (lit ''t'', lit ''p''))"
    using sample_nodes(5) [of sample_graph] by (simp add: reference_scope_def run_simps)
  then have m: "must_edge sample_now Incoming (Some (map fst PROPAGATION_EDGES)) sample_graph sample_edge"
    using sample_kinds by (simp add: must_edge_def may_edge_def in_scope_def near_def far_def endpoint_in_scope_def)
  have w: "propagation_weights PNone = Inr PROPAGATION_EDGES" "list_all (\<lambda>r. 0 \<le> g_strength r) (edges sample_graph)"
    by (simp_all add: propagation_weights_def)
  have "impact (must_edge sample_now Incoming (Some (map fst PROPAGATION_EDGES)) sample_graph) PROPAGATION_EDGES
      (the (number (PInt 0))) (lit ''b'') ([lit ''b''] @ [g_src_id sample_edge]) sample_gain"
    by (rule impact_step [where r = sample_edge]) (simp_all add: impact_here m sample_gain_nonneg)
  from dependents_miss_nothing [OF run w(1) sample_clock w(2) this] run
  show ?thesis by auto
qed

end
