(* ===== verification/Blocking.thy ===== *)
theory Blocking
  imports Samples
begin

section \<open>Which invalidations block a node\<close>

text \<open>
  The walk of \<open>blocking_invalidations\<close> from a candidate to its dependencies: when it does not
  give up on its bounds, it has seen everything the candidate depends on, so an invalidation
  that touches any of it blocks the candidate.
\<close>

lemma expand_ancestors_seen:
  assumes "expand_ancestors ie d es seen queue = Some (seen', queue')"
  shows "set seen' = set seen \<union> (\<lambda>e. g_dst_id (ed_row e)) ` set es"
    and "fst ` set queue' = fst ` set queue \<union> (set seen' - set seen)"
    and "fst ` set queue \<subseteq> fst ` set queue'"
proof -
  have "set seen' = set seen \<union> (\<lambda>e. g_dst_id (ed_row e)) ` set es
    \<and> fst ` set queue' = fst ` set queue \<union> (set seen' - set seen)"
    using assms
  proof (induction es arbitrary: seen queue)
    case (Cons e es)
    let ?n = "g_dst_id (ed_row e)"
    show ?case
    proof (cases "?n \<in> set seen")
      case True
      then show ?thesis using Cons.IH [of seen queue] Cons.prems by (auto simp: Let_def)
    next
      case False
      then have "expand_ancestors ie d es (?n # seen) (queue @ [(?n, Suc d)]) = Some (seen', queue')"
        using Cons.prems by (auto simp: Let_def split: if_splits)
      from Cons.IH [OF this] show ?thesis using False by auto
    qed
  qed simp
  then show "set seen' = set seen \<union> (\<lambda>e. g_dst_id (ed_row e)) ` set es"
    and "fst ` set queue' = fst ` set queue \<union> (set seen' - set seen)"
    and "fst ` set queue \<subseteq> fst ` set queue'" by auto
qed

abbreviation dependency_kinds :: "pstr list" where
  "dependency_kinds \<equiv> map fst PROPAGATION_EDGES"

lemma ancestors_loop_clock:
  "ancestors_loop ie seen queue s = (Inr out, t) \<Longrightarrow> clock_past x s \<Longrightarrow> clock_past x t"
proof (induction ie seen queue s rule: ancestors_loop.induct)
  case (1 ie seen s)
  then show ?case by (simp add: ancestors_loop.simps)
next
  case (2 ie seen cur d rest s)
  obtain es s' where q: "out_edges (PStr cur) (Some dependency_kinds) PNone s = (Inr es, s')"
    using "2.prems"(1) by (cases "out_edges (PStr cur) (Some dependency_kinds) PNone s")
      (auto simp: ancestors_loop.simps split: sum.splits)
  have "clock_past x s'" by (rule edges_for_run(3) [OF q "2.prems"(2)])
  then show ?case
    using "2.prems"(1) "2.IH" [OF q [symmetric] refl] q by (auto simp: ancestors_loop.simps split: option.splits)
qed

lemma ancestors_loop_closed:
  assumes "ancestors_loop ie seen queue s = (Inr (Some out), t)" and "clock_past tau s" and "\<forall>x. clock_past x t \<longrightarrow> x \<le> hi"
    and "\<forall>n \<in> set seen. n \<in> fst ` set queue \<or>
      (\<forall>r. live_edge tau hi Outgoing (Some dependency_kinds) s r \<and> g_src_id r = n \<longrightarrow> g_dst_id r \<in> set seen)"
  shows "set seen \<subseteq> set out
    \<and> (\<forall>r. live_edge tau hi Outgoing (Some dependency_kinds) s r \<and> g_src_id r \<in> set out \<longrightarrow> g_dst_id r \<in> set out)"
  using assms
proof (induction ie seen queue s rule: ancestors_loop.induct)
  case (1 ie seen s)
  then show ?case by (auto simp: ancestors_loop.simps)
next
  case (2 ie seen cur d rest s)
  obtain es s' where q: "out_edges (PStr cur) (Some dependency_kinds) PNone s = (Inr es, s')"
    using "2.prems"(1) by (cases "out_edges (PStr cur) (Some dependency_kinds) PNone s")
      (auto simp: ancestors_loop.simps split: sum.splits)
  note run = edges_for_run [OF q]
  obtain seen' queue' where x: "expand_ancestors ie d es seen rest = Some (seen', queue')"
    using "2.prems"(1) q by (auto simp: ancestors_loop.simps split: option.splits)
  note grown = expand_ancestors_seen [OF x]
  have loop: "ancestors_loop ie seen' queue' s' = (Inr (Some out), t)"
    using "2.prems"(1) q x by (simp add: ancestors_loop.simps)
  have must: "live_edge tau hi Outgoing (Some dependency_kinds) s' = live_edge tau hi Outgoing (Some dependency_kinds) s"
    by (rule in_scope_tables(4) [OF run(1)])
  have upto: "\<forall>x. clock_past x s' \<longrightarrow> x \<le> hi" using ancestors_loop_clock [OF loop] "2.prems"(3) by blast
  have inv: "n \<in> fst ` set queue' \<or>
      (\<forall>r. live_edge tau hi Outgoing (Some dependency_kinds) s' r \<and> g_src_id r = n \<longrightarrow> g_dst_id r \<in> set seen')" if n: "n \<in> set seen'" for n
  proof (cases "n \<in> set seen")
    case True
    then consider "n = cur" | "n \<in> fst ` set rest"
      | "\<forall>r. live_edge tau hi Outgoing (Some dependency_kinds) s r \<and> g_src_id r = n \<longrightarrow> g_dst_id r \<in> set seen"
      using "2.prems"(4) by fastforce
    then show ?thesis
    proof cases
      case 1
      then show ?thesis
        using run(5) [OF "2.prems"(2) _ _ upto] grown(1) unfolding must by (fastforce simp: near_def)
    next
      case 2
      then show ?thesis using grown(3) by blast
    next
      case 3
      then show ?thesis using grown(1) unfolding must by blast
    qed
  next
    case False
    then show ?thesis using n grown(2) by blast
  qed
  have "set seen' \<subseteq> set out
    \<and> (\<forall>r. live_edge tau hi Outgoing (Some dependency_kinds) s' r \<and> g_src_id r \<in> set out \<longrightarrow> g_dst_id r \<in> set out)"
    by (rule "2.IH" [OF q [symmetric] refl x refl loop run(3) [OF "2.prems"(2)] "2.prems"(3)]) (use inv in blast)
  then show ?case using grown(1) unfolding must by blast
qed

lemma blocking_ancestors:
  assumes "ancestors_loop ie [nid] [(nid, 0)] s = (Inr (Some out), t)" and "clock_past tau s" and "\<forall>x. clock_past x t \<longrightarrow> x \<le> hi"
    and "chain (live_edge tau hi Outgoing (Some dependency_kinds) s) Outgoing nid p"
  shows "last p \<in> set out"
proof -
  have "set [nid] \<subseteq> set out
    \<and> (\<forall>r. live_edge tau hi Outgoing (Some dependency_kinds) s r \<and> g_src_id r \<in> set out \<longrightarrow> g_dst_id r \<in> set out)"
    by (rule ancestors_loop_closed [OF assms(1-3)]) simp
  then show ?thesis using chain_closed [OF assms(4), of "set out"] by (simp add: near_def far_def)
qed

lemma keeps_open_list_same: "keeps (=) (open_list ie p st t :: ('z policy_st_scheme, node list) op)"
  unfolding open_list_def current_def by (intro same_intros)

lemma keeps_open_invalidations_same: "keeps (=) (open_invalidations ie p :: ('z policy_st_scheme, node list) op)"
  unfolding open_invalidations_def require_inv_project_def
  by (intro same_intros keeps_open_list_same keeps_get_node_same)

lemma rmap_flagged:
  assumes "rmap (\<lambda>i. rbind (f i) (\<lambda>b. Inr (i, b))) xs = Inr ys" and "x \<in> set xs"
  shows "\<exists>b. f x = Inr b \<and> (x, b) \<in> set ys"
  using assms by (induction xs arbitrary: ys) auto

text \<open>C26: An open invalidation blocks a node when it touches the node or anything the node
  depends on: whatever can be reached from the node by dependency edges that are current, in
  scope and valid throughout the query, from an instant before its first reading of the clock
  until after its last. A critical one blocks every node of the project.\<close>

theorem blocking_follows_dependencies:
  assumes "open_invalidations ie project s = (Inr invs, u)" and "blocking_invalidations ie project nid s = (Inr bs, t)"
    and "i \<in> set invs" and "touched_by i = Inr touched" and "clock_past tau s" and "last_utcnow t = Some reading"
    and "chain (live_edge tau (strftime reading) Outgoing (Some (map fst PROPAGATION_EDGES)) s) Outgoing nid p"
    and "PStr (last p) \<in> set touched \<or> dget_none (node_fields i) (lit ''severity'') = pkey ''critical''"
  shows "i \<in> set bs"
proof -
  have us: "u = s" using keeps_eqD [OF keeps_open_invalidations_same, of ie project s] assms(1) by simp
  have "invs \<noteq> []" using assms(3) by auto
  then obtain ancestors where loop: "ancestors_loop ie [nid] [(nid, 0)] s = (Inr ancestors, t)"
    and flags: "(rbind (rmap (\<lambda>i. rbind (blocks ancestors i) (\<lambda>b. Inr (i, b))) invs) (\<lambda>ibs. Inr (map fst (filter snd ibs)))) = Inr bs"
    using assms(1,2) us unfolding blocking_invalidations_def
    by (auto simp: bnd_eq_Inr lift_run split: if_splits)
  then obtain ibs where ibs: "rmap (\<lambda>i. rbind (blocks ancestors i) (\<lambda>b. Inr (i, b))) invs = Inr ibs" "bs = map fst (filter snd ibs)"
    by auto
  have "blocks ancestors i = Inr True"
  proof (cases ancestors)
    case None
    then show ?thesis using assms(4) by (simp add: blocks_def)
  next
    case (Some out)
    have "\<forall>x. clock_past x t \<longrightarrow> x \<le> strftime reading" using assms(6) by (auto simp: clock_past_def)
    then have "last p \<in> set out" using blocking_ancestors [OF _ assms(5) _ assms(7)] loop Some by auto
    then show ?thesis using assms(4,8) Some by (auto simp: blocks_def)
  qed
  then have "(i, True) \<in> set ibs" using rmap_flagged [OF ibs(1) assms(3)] by auto
  then show ?thesis using ibs(2) by force
qed

lemma sample_document: "node_dict (plain_node 3 ''i'' ''invalidation'' ''open'' sample_data)
   = Inr \<lparr>nd_row = plain_node 3 ''i'' ''invalidation'' ''open'' sample_data, nd_scope = PNone, nd_data = PDict sample_data\<rparr>"
proof -
  obtain t where t: "canonical_json (PDict sample_data) = Inr t"
    by (simp add: canonical_json_def sort_members_def lit_Cons sample_data_def jcs_string_def non_ijson_def)
  have "strict_json_text t = Inr (jnorm (PDict sample_data))"
    by (rule strict_json_canonical [OF t]) (simp_all add: sample_data_def)
  then show ?thesis
    using t by (simp add: node_dict_def plain_node_def decode_optional_def sample_data_def sort_members_def)
qed

abbreviation plain_ie :: inv_engine where
  "plain_ie \<equiv> \<lparr>ie_max_depth = 8, ie_max_nodes = 100, ie_tenant = None, ie_policy = None\<rparr>"

abbreviation sample_invalidation :: node where
  "sample_invalidation \<equiv> \<lparr>nd_row = plain_node 3 ''i'' ''invalidation'' ''open'' sample_data, nd_scope = PNone, nd_data = PDict sample_data\<rparr>"

lemma sample_open: "open_invalidations plain_ie (lit ''p'') sample_graph = (Inr [sample_invalidation], sample_graph)"
proof -
  have v: "in_vocabulary (pkey ''invalidation'') ENTITY_TYPES" "lit ''a'' \<noteq> lit ''i''"
    "lit ''task'' \<noteq> lit ''invalidation''" "lit ''claim'' \<noteq> lit ''invalidation''" by code_simp+
  show ?thesis
    using v by (simp add: open_invalidations_def require_inv_project_def open_list_def current_def run_simps scope_tenant_def
      optional_identifier_def check_entity_type_def status_filter_def validate_optional_datetime_def current_rows_def
      matches_def sample_document bnd_def list_all_iff)
qed

lemma sample_touched: "touched_by sample_invalidation = Inr [pkey ''b'']"
  by (simp add: touched_by_def sample_data_def dget_none_def dget_def dget_or_def dict_of_def iter_of_def lit_Cons)

lemma sample_blocking:
  "\<exists>v l. blocking_invalidations plain_ie (lit ''p'') (lit ''a'') sample_graph = (Inr [sample_invalidation], v)
     \<and> last_utcnow v = Some l"
proof -
  obtain n u m v where r: "utcnow sample_graph = (Inr n, u)" "utcnow u = (Inr m, v)"
    and t: "tables u = tables sample_graph" "tables v = tables sample_graph"
    using sample_readings by blast
  have k: "set (map fst PROPAGATION_EDGES) \<subseteq> set EDGE_TYPES" "lit ''depends_on'' \<in> set (map fst PROPAGATION_EDGES)" by code_simp+
  have q: "out_edges (PStr (lit ''a'')) (Some (map fst PROPAGATION_EDGES)) PNone sample_graph = (Inr [\<lparr>ed_row = sample_edge, ed_data = PNone\<rparr>], u)"
    "out_edges (PStr (lit ''b'')) (Some (map fst PROPAGATION_EDGES)) PNone u = (Inr [], v)"
    using sample_edges(1) [OF r(1) t(1)] sample_edges(3) [OF r(2) t(2)] k by simp_all
  have loop: "ancestors_loop plain_ie [lit ''a''] [(lit ''a'', 0)] sample_graph = (Inr (Some [lit ''b'', lit ''a'']), v)"
    by (simp add: ancestors_loop.simps q Let_def)
  have "blocks (Some [lit ''b'', lit ''a'']) sample_invalidation = Inr True"
    by (simp add: blocks_def sample_touched)
  then show ?thesis
    using utcnow_floor [OF r(2)] by (auto simp: blocking_invalidations_def bnd_def sample_open loop lift_run)
qed

lemma sample_chain:
  "chain (live_edge sample_now hi Outgoing (Some (map fst PROPAGATION_EDGES)) sample_graph) Outgoing (lit ''a'') [lit ''a'', lit ''b'']"
proof -
  have k: "lit ''depends_on'' \<in> set (map fst PROPAGATION_EDGES)" by code_simp
  have "fst (reference_scope (lit ''a'') sample_graph) = Inr (Some (lit ''t'', lit ''p''))"
    using sample_nodes(4) [of sample_graph] by (simp add: reference_scope_def run_simps)
  then have "live_edge sample_now hi Outgoing (Some (map fst PROPAGATION_EDGES)) sample_graph sample_edge"
    using k by (simp add: live_edge_def may_edge_def in_scope_def near_def far_def endpoint_in_scope_def)
  from chain_step [where P = "live_edge sample_now hi Outgoing (Some (map fst PROPAGATION_EDGES)) sample_graph",
      OF chain_here this, of Outgoing "lit ''a''"] show ?thesis by (simp add: near_def far_def)
qed

theorem blocking_follows_dependencies_witness:
  "\<exists>bs v. blocking_invalidations plain_ie (lit ''p'') (lit ''a'') sample_graph = (Inr bs, v)
     \<and> sample_invalidation \<in> set bs"
proof -
  obtain bs v l where b: "blocking_invalidations plain_ie (lit ''p'') (lit ''a'') sample_graph = (Inr bs, v)" "last_utcnow v = Some l"
    using sample_blocking by blast
  have "sample_invalidation \<in> set bs"
    by (rule blocking_follows_dependencies [OF sample_open b(1) _ sample_touched sample_clock b(2) sample_chain]) simp_all
  then show ?thesis using b by blast
qed

end
