(* ===== verification/Engine_Props.thy ===== *)
theory Engine_Props
  imports Impact Graph_Props
begin

section \<open>The whole engine\<close>

text \<open>
  The invariants of the store hold under every operation of the layers above it: graph,
  policy and invalidation write through the same connection, but never to the store's own
  tables except by its operations.
\<close>

subsection \<open>The store under the engine\<close>

lemma store_beside_graph:
  fixes s u :: "'z graph_st_scheme"
  assumes "utcnow s = (Inr now, u)"
  shows "events (u\<lparr>nodes := ns, node_rows := k, drawn := d\<rparr>) = events s"
    "events (u\<lparr>edges := es, edge_rows := k, drawn := d\<rparr>) = events s"
    "event_seq (u\<lparr>nodes := ns, node_rows := k, drawn := d\<rparr>) = event_seq s"
    "event_seq (u\<lparr>edges := es, edge_rows := k, drawn := d\<rparr>) = event_seq s"
    "audit_log (u\<lparr>nodes := ns, node_rows := k, drawn := d\<rparr>) = audit_log s"
    "audit_log (u\<lparr>edges := es, edge_rows := k, drawn := d\<rparr>) = audit_log s"
    "audit_seq (u\<lparr>nodes := ns, node_rows := k, drawn := d\<rparr>) = audit_seq s"
    "audit_seq (u\<lparr>edges := es, edge_rows := k, drawn := d\<rparr>) = audit_seq s"
    "evidence_blobs (u\<lparr>nodes := ns, node_rows := k, drawn := d\<rparr>) = evidence_blobs s"
    "evidence_blobs (u\<lparr>edges := es, edge_rows := k, drawn := d\<rparr>) = evidence_blobs s"
  using tables_store [OF utcnow_tables [OF assms]] by simp_all

interpretation engine_events: clearing_relation "kept events_ok"
  by unfold_locales (simp_all add: kept_def events_ok_def store_beside_graph)

interpretation engine_audit: clearing_relation "kept audit_ok"
  by unfold_locales (simp_all add: kept_def audit_ok_def store_beside_graph)

interpretation engine_keys: clearing_relation "kept keys_ok"
  by unfold_locales (simp_all add: kept_def keys_ok_def store_beside_graph)

interpretation engine_evidence: clearing_relation "kept evidence_ok"
  by unfold_locales (simp_all add: kept_def evidence_ok_def store_beside_graph)

interpretation engine_history: clearing_relation history_kept
  by unfold_locales (auto simp: store_beside_graph intro!: history_kept_same [where zs = "[]"])

lemma empty_engine_store_ok:
  "events_ok (empty_engine e)" "audit_ok (empty_engine e)" "keys_ok (empty_engine e)" "evidence_ok (empty_engine e)"
  by (simp_all add: events_ok_def audit_ok_def keys_ok_def evidence_ok_def empty_engine_def)

lemma engine_store_ok:
  "events_ok s \<Longrightarrow> events_ok (run_engine may cs s)" "audit_ok s \<Longrightarrow> audit_ok (run_engine may cs s)"
  "keys_ok s \<Longrightarrow> keys_ok (run_engine may cs s)" "evidence_ok s \<Longrightarrow> evidence_ok (run_engine may cs s)"
  using engine_events.run_engine_R [of s may cs] engine_audit.run_engine_R [of s may cs]
    engine_keys.run_engine_R [of s may cs] engine_evidence.run_engine_R [of s may cs]
  by (simp_all add: kept_def)

text \<open>Whatever a client of the engine does, from an empty database, with any nesting and
  failing of operations, both hash chains verify as intact, count every row and report
  the hash of the last one, no two
  events share an identifier or a delivery key, and every evidence row that is not a
  tombstone holds the bytes its digest names.\<close>

theorem engine_keeps_the_store_sound:
  "(\<exists>m. verify_chain (lit ''events'') (run_engine may cs (empty_engine e))
        = Inr (Intact (length (events (run_engine may cs (empty_engine e)))) (events_tip (run_engine may cs (empty_engine e))) m))
   \<and> (\<exists>m. verify_chain (lit ''audit_log'') (run_engine may cs (empty_engine e))
        = Inr (Intact (length (audit_log (run_engine may cs (empty_engine e)))) (audit_tip (run_engine may cs (empty_engine e))) m))
   \<and> keys_ok (run_engine may cs (empty_engine e)) \<and> evidence_ok (run_engine may cs (empty_engine e))"
proof -
  let ?s = "run_engine may cs (empty_engine e)"
  have ok: "events_ok ?s" "audit_ok ?s" "keys_ok ?s" "evidence_ok ?s"
    using engine_store_ok empty_engine_store_ok by blast+
  have "chained GENESIS (chain_rows (lit ''events'') ?s) (events_tip ?s)"
    "chained GENESIS (chain_rows (lit ''audit_log'') ?s) (audit_tip ?s)"
    using events_tip_ok [OF ok(1)] audit_tip_ok [OF ok(2)] by (simp_all add: chain_rows_ok ok)
  then show ?thesis
    using verify_chain_intact [of "lit ''events''" ?s] verify_chain_intact [of "lit ''audit_log''" ?s] ok(3,4)
    by (simp add: chain_rows_ok ok)
qed

subsection \<open>Traversals stay in one tenant and project\<close>

text \<open>Where an identifier lives: the scope of its current node or of the event it names.\<close>

definition home :: "pstr \<Rightarrow> 'z graph_st_scheme \<Rightarrow> (pstr \<times> pstr) option" where
  "home n s = (case current_node n s of
     Some r \<Rightarrow> Some (n_tenant_id r, n_project_id r)
   | None \<Rightarrow> map_option (\<lambda>e. (e_tenant_id e, e_project_id e)) (find (\<lambda>e. e_id e = n) (events s)))"

lemma reference_scope_home: "fst (reference_scope n s) = Inr (Some sc) \<Longrightarrow> home n s = Some sc"
  by (auto simp: reference_scope_def home_def run_simps catch_def bnd_def get_event_def event_dict_def ret_def fail_def rd_def
      lift_def split: option.splits if_splits sum.splits)

lemma current_node_unique:
  assumes "tables_ok s" "r \<in> set (nodes s)" "n_tx_to r = None"
  shows "current_node (n_id r) s = Some r"
proof -
  have ok: "versions_ok node_layout (nodes s) (node_rows s)" using assms(1) by (simp add: tables_ok_def)
  obtain p where p: "find_open node_layout (n_id r) (nodes s) = Some p"
    using assms(2,3) by (cases "find_open node_layout (n_id r) (nodes s)") (auto simp: find_open_None)
  have c: "chain_ok node_layout (of_key node_layout (n_id r) (nodes s))" using ok by (simp add: versions_ok_def)
  have "r \<in> set (of_key node_layout (n_id r) (nodes s))" using assms(2) by (simp add: set_of_key)
  then have "r = p" using chain_ok_last [OF c] find_open_last [OF ok p] assms(3) by auto
  then show ?thesis using p by (simp add: current_node_open)
qed

lemma event_unique:
  assumes "distinct (map e_id es)" "e \<in> set es"
  shows "find (\<lambda>x. e_id x = e_id e) es = Some e"
  using assms by (induction es) (auto simp: image_iff)

text \<open>No identifier names both a node and an event.\<close>

definition apart :: "'z graph_st_scheme \<Rightarrow> bool" where
  "apart s \<longleftrightarrow> n_id ` set (nodes s) \<inter> e_id ` set (events s) = {}"

lemma endpoint_home:
  assumes "tables_ok s" "keys_ok s" "apart s" "endpoint_in_scope n r s"
  shows "home n s = Some (g_tenant_id r, g_project_id r)"
proof -
  consider m where "m \<in> set (nodes s)" "n_id m = n" "n_tx_to m = None" "n_tenant_id m = g_tenant_id r" "n_project_id m = g_project_id r"
    | e where "e \<in> set (events s)" "e_id e = n" "e_tenant_id e = g_tenant_id r" "e_project_id e = g_project_id r"
    using assms(4) unfolding endpoint_in_scope_def by blast
  then show ?thesis
  proof cases
    case 1
    then show ?thesis using current_node_unique [OF assms(1)] by (auto simp: home_def)
  next
    case 2
    have "current_node n s = None"
      using assms(3) 2(1,2) unfolding apart_def current_node_def by (fastforce simp: find_None_iff)
    then show ?thesis using event_unique [OF _ 2(1)] assms(2) 2 by (auto simp: home_def keys_ok_def)
  qed
qed

lemma impact_home:
  assumes "impact (may_edge Incoming ks s) w lo a p x" and "tables_ok s" "keys_ok s" "apart s"
  shows "list_all (\<lambda>n. n = a \<or> home n s = home a s) p"
  using assms(1)
proof (induction rule: impact.induct)
  case (impact_step p x r)
  have p: "p \<noteq> []" using impact_ends [OF impact_step.hyps(1)] by simp
  have "home (g_dst_id r) s = Some (g_tenant_id r, g_project_id r)" "home (g_src_id r) s = Some (g_tenant_id r, g_project_id r)"
    using impact_step.hyps(2) reference_scope_home endpoint_home [OF assms(2-4)]
    by (auto simp: may_edge_def in_scope_def near_def far_def)
  moreover have "last p = a \<or> home (last p) s = home a s" using impact_step.IH p by (simp add: list_all_iff)
  ultimately have "home (g_src_id r) s = home a s" using impact_step.hyps(3) by auto
  then show ?case using impact_step.IH by simp
qed simp

text \<open>An impact traversal stays in the tenant and project it starts in: in any state a client
  can bring the engine to from sound tables, as long as no node has been given the identifier
  of an event, everything \<open>dependents\<close> reports, and every node on the paths it reports, is of
  the same tenant and project as the start.\<close>

theorem dependents_stay_in_scope:
  assumes "tables_ok s" and "keys_ok s" and "apart (run_engine may cs s)" and "clock_past tau (run_engine may cs s)"
    and "dependents (PStr nid) (PInt md) (PInt mx) kinds lo (run_engine may cs s) = (Inr qs, u)"
  shows "list_all (\<lambda>q. q_id q = last (q_path q)
      \<and> list_all (\<lambda>n. n = nid \<or> home n (run_engine may cs s) = home nid (run_engine may cs s)) (q_path q)) qs"
proof -
  let ?s = "run_engine may cs s"
  have ok: "tables_ok ?s" "keys_ok ?s" using session_tables_ok [OF assms(1)] engine_store_ok(3) [OF assms(2)] by auto
  obtain w where w: "propagation_weights kinds = Inr w"
    using assms(5) by (cases "propagation_weights kinds"; cases "0 \<le> md"; cases "0 \<le> mx")
      (auto simp: dependents_def bnd_lift natural_def bnd_chk split: if_splits)
  have "list_all (reached_ok (may_edge Incoming (Some (map fst w)) ?s) w (the (number lo)) nid (nat md)) qs"
    using dependents_sound [OF assms(5) w assms(4)] by blast
  then show ?thesis
    using impact_home [OF _ ok assms(3)] unfolding reached_ok_def list_all_iff by meson
qed

lemma sample_tables_ok: "tables_ok sample_graph"
proof -
  have n: "lit ''b'' \<noteq> lit ''i''" "lit ''a'' \<noteq> lit ''i''" by code_simp+
  have "chain_ok node_layout (of_key node_layout k (nodes sample_graph))" for k
    using n by (cases "k = lit ''a''"; cases "k = lit ''b''"; cases "k = lit ''i''")
      (simp_all add: of_key_def chain_ok_def node_identity_def)
  moreover have "chain_ok edge_layout (of_key edge_layout k (edges sample_graph))" for k
    by (cases "k = g_id sample_edge") (simp_all add: of_key_def chain_ok_def edge_identity_def, simp_all add: sample_edge_def)
  ultimately show ?thesis
    by (simp add: tables_ok_def versions_ok_def) (simp add: plain_node_def sample_edge_def sample_graph_def)
qed

theorem dependents_stay_in_scope_witness:
  "\<exists>qs u. dependents (pkey ''b'') (PInt 1) (PInt 5) PNone (PInt 0) sample_graph = (Inr qs, u) \<and> qs \<noteq> []
     \<and> list_all (\<lambda>q. q_id q = last (q_path q)
         \<and> list_all (\<lambda>n. n = lit ''b'' \<or> home n sample_graph = home (lit ''b'') sample_graph) (q_path q)) qs"
proof -
  obtain qs u where run: "dependents (pkey ''b'') (PInt 1) (PInt 5) PNone (PInt 0) sample_graph = (Inr qs, u)" "qs \<noteq> []"
    using sample_dependents by fastforce
  have k: "keys_ok sample_graph" "apart sample_graph" by (simp_all add: keys_ok_def apart_def)
  have "list_all (\<lambda>q. q_id q = last (q_path q)
         \<and> list_all (\<lambda>n. n = lit ''b'' \<or> home n sample_graph = home (lit ''b'') sample_graph) (q_path q)) qs"
    using dependents_stay_in_scope [OF sample_tables_ok k(1), of "\<lambda>_ _. True" "[]"] k(2) sample_clock run(1) by simp
  then show ?thesis using run by blast
qed

end
