(* ===== verification/Audit_Props.thy ===== *)
theory Audit_Props
  imports Store_Props
begin

section \<open>store.py: what an audit call does\<close>

text \<open>
  A call of \<open>audit\<close> that returns has appended exactly one row with the given texts, linked to the
  tip, and touched nothing else; it returns whenever the clock does and the texts are valid.
\<close>

text \<open>What is changed besides the clock.\<close>

definition audited :: "audit_row \<Rightarrow> 'z store_st_scheme \<Rightarrow> 'z store_st_scheme \<Rightarrow> bool" where
  "audited r s t \<longleftrightarrow> audit_log t = audit_log s @ [r] \<and> events t = events s \<and> evidence_blobs t = evidence_blobs s
     \<and> store_st.more t = store_st.more s"

lemma write_scope_Inr: "write_scope m s = (Inr x, t) \<longleftrightarrow> m s = (Inr x, t)"
  by (simp add: write_scope_def atomic_eq_Inr)

lemma audit_run:
  assumes "audit actor action object_id before_ref after_ref authority detail s = (Inr (), t)"
  shows "\<exists>r now u. utcnow s = (Inr now, u) \<and> same_clock u t \<and> audited r s t \<and> a_at r = now \<and> PStr (a_actor r) = actor \<and> PStr (a_action r) = action
    \<and> opt_val (a_object_id r) = object_id \<and> opt_val (a_detail r) = (if detail = PStr [] then PNone else detail)"
proof -
  have tx: "validate_log_text b n v = Inr x \<Longrightarrow> opt_val x = v \<and> (\<not> b \<longrightarrow> x \<noteq> None)" for b n v x
    by (auto simp: validate_human_text_iff split: if_splits)
  obtain a' c' o' b' f' g' d' where v: "validate_log_text False 1024 actor = Inr a'" "validate_log_text False 256 action = Inr c'"
      "validate_log_text True 4096 object_id = Inr o'" "validate_log_text True 262144 (if detail = PStr [] then PNone else detail) = Inr d'"
    and k: "bnd utcnow (\<lambda>now. bnd (ret (audit_row_of now (the a') (the c') o' b' f' g' d')) (\<lambda>r.
      bnd (lift (canonical_json (PDict (audit_entry r)))) (\<lambda>_. write_scope (audit_append r)))) s = (Inr (), t)"
    using assms unfolding audit_def by (auto simp: bnd_lift simp del: validate_log_text.simps split: sum.splits)
  obtain now u where u: "utcnow s = (Inr now, u)"
    and w: "audit_append (audit_row_of now (the a') (the c') o' b' f' g' d') u = (Inr (), t)"
    using k by (auto simp: bnd_eq_Inr lift_run ret_run write_scope_Inr)
  let ?r = "audit_row_of now (the a') (the c') o' b' f' g' d'"
  obtain h where t: "t = u\<lparr>chain_lock := chain_lock u + 1, audit_seq := audit_seq u + 1,
       audit_log := audit_log u @ [?r\<lparr>a_seq := audit_seq u + 1, a_prev_hash := Some (audit_tip u), a_entry_hash := Some h\<rparr>]\<rparr>"
    using w by (auto simp: audit_append_run split: sum.splits)
  have "tables u = tables s" by (rule utcnow_tables [OF u])
  moreover from this have "store_st.more u = store_st.more s" by (cases s; cases u) simp
  ultimately have "audited (?r\<lparr>a_seq := audit_seq u + 1, a_prev_hash := Some (audit_tip u), a_entry_hash := Some h\<rparr>) s t"
    using tables_store [of u s] by (simp add: audited_def t)
  moreover have "same_clock u t" by (simp add: same_clock_def t)
  ultimately show ?thesis
    using u tx [OF v(1)] tx [OF v(2)] tx [OF v(3)] tx [OF v(4)] by (force simp: audit_row_of_def)
qed

lemma audit_total:
  assumes "audit_ok s" "utcnow s = (Inr now, u)" "\<forall>c \<in> set now. \<not> non_ijson c"
    and "validate_log_text False 1024 actor = Inr a'" "validate_log_text False 256 action = Inr c'"
      "validate_log_text True 4096 object_id = Inr o'" "validate_log_text True 4096 before_ref = Inr b'"
      "validate_log_text True 4096 after_ref = Inr f'" "validate_log_text True 256 authority = Inr g'"
      "validate_log_text True 262144 (if detail = PStr [] then PNone else detail) = Inr d'"
  shows "\<exists>t. audit actor action object_id before_ref after_ref authority detail s = (Inr (), t)"
proof -
  have tx: "validate_log_text b n v = Inr x \<Longrightarrow> hashable (opt_val x) \<and> (x \<noteq> None \<longrightarrow> hashable (PStr (the x)))" for b n v x
    by (auto simp: validate_human_text_iff split: if_splits)
  have some: "validate_log_text False n v = Inr x \<Longrightarrow> x \<noteq> None" for n v x by (auto split: if_splits)
  let ?r = "audit_row_of now (the a') (the c') o' b' f' g' d'"
  have val: "hashable (PStr now)" "hashable (PStr (the a'))" "hashable (PStr (the c'))" "hashable (opt_val o')"
      "hashable (opt_val b')" "hashable (opt_val f')" "hashable (opt_val g')" "hashable (opt_val d')"
    using assms(3) tx [OF assms(4)] some [OF assms(4)] tx [OF assms(5)] some [OF assms(5)]
      tx [OF assms(6)] tx [OF assms(7)] tx [OF assms(8)] tx [OF assms(9)] tx [OF assms(10)] by auto
  have ok: "\<forall>(k, v) \<in> set (audit_entry ?r). (\<exists>t. k = PStr t \<and> (\<forall>c \<in> set t. \<not> non_ijson c)) \<and> hashable v"
    unfolding audit_entry_def audit_row_of_def using val
    by (simp del: hashable.simps add: lit_ijson)
  have "list_all plain_char GENESIS" by (simp add: GENESIS_def lit_Cons plain_char_def list_all_iff)
  from link_total [OF ok this] obtain j where j: "canonical_json (PDict (audit_entry ?r)) = Inr j" by (auto simp: link_def)
  have u: "audit_ok u" using assms(1) by (simp add: audit_ok_def tables_store [OF utcnow_tables [OF assms(2)]])
  have "chained GENESIS (map audit_link (audit_log u)) (audit_tip u)" by (rule audit_tip_ok [OF u])
  then have "DIGEST_RE (audit_tip u)" by (rule chained_digest) simp
  then have "list_all plain_char (take 7 (audit_tip u) @ drop 7 (audit_tip u))"
    by (auto simp: DIGEST_RE_def is_hex_def is_digit_def plain_char_def list_all_iff lit_Cons simp del: append_take_drop_id)
  then have "list_all plain_char (audit_tip u)" by simp
  from link_total [OF ok this] obtain h where h: "link (audit_tip u) (audit_entry ?r) = Inr h" by blast
  obtain t where "audit_append ?r u = (Inr (), t)" using h by (simp add: audit_append_run)
  then show ?thesis
    using assms(2,4-) j by (auto simp: audit_def bnd_lift bnd_ret bnd_eq_Inr write_scope_Inr simp del: validate_log_text.simps)
qed

definition short :: "pstr \<Rightarrow> bool" where
  "short t \<longleftrightarrow> t \<noteq> [] \<and> list_all (\<lambda>c. 32 \<le> c \<and> c < 127) t \<and> length t < 100"

lemma short_log_text: "short t \<Longrightarrow> 100 \<le> n \<Longrightarrow> validate_log_text b n (PStr t) = Inr (Some t)"
proof -
  assume "short t" "100 \<le> n"
  then have "validate_human_text n (PStr t) = Inr t"
    unfolding validate_human_text_iff by (auto simp: short_def list_all_iff non_ijson_def unsafe_char_def UNSAFE_HUMAN_CONTROLS_def)
  then show ?thesis by simp
qed

subsection \<open>A clock that runs\<close>

text \<open>The concrete clock of the samples, after \<open>k\<close> readings.\<close>

definition stamp :: "nat \<Rightarrow> datetime" where
  "stamp k = (if k = 0 then wall stuck_clock 0
     else \<lparr>year = 2027, month = 1, day = 1, hour = 0, minute = 0, second = 0, micro = k - 1\<rparr>)"

definition ticking :: "nat \<Rightarrow> 'z env_scheme \<Rightarrow> bool" where
  "ticking k s \<longleftrightarrow> wall s = wall stuck_clock \<and> last_utcnow s = Some (stamp k)"

lemma ticking_utcnow:
  assumes "ticking k s" "k < 1000"
  shows "\<exists>n u. utcnow s = (Inr n, u) \<and> ticking (Suc k) u \<and> tables u = tables s \<and> (\<forall>c \<in> set n. \<not> non_ijson c)"
proof -
  have "floor_sample (Some (stamp k)) (wall stuck_clock (ticks s)) = Inr (stamp (Suc k))"
    using assms(2) by (cases k) (simp_all add: stamp_def stuck_clock_def floor_sample_def add_microsecond_def days_in_month_def
        time_fields_def)
  then obtain u where u: "utcnow s = (Inr (strftime (stamp (Suc k))), u)" "ticking (Suc k) u"
    using assms(1) by (simp add: utcnow_def ticking_def)
  then show ?thesis using utcnow_tables [OF u(1)] strftime_ascii ascii_ijson by blast
qed

lemma ticking_utcnow_run: "ticking k s \<Longrightarrow> k < 1000 \<Longrightarrow> utcnow s = (q, u) \<Longrightarrow> ticking (Suc k) u"
  using ticking_utcnow [of k s] by auto

lemma ticking_moves [simp]: "ticking k (enter s) = ticking k s" "ticking k (leave s t) = ticking k t"
  by (simp_all add: ticking_def)

lemma audit_ticking:
  "audit a b c d e f g s = (Inr (), t) \<Longrightarrow> ticking k s \<Longrightarrow> k < 1000 \<Longrightarrow> ticking (Suc k) t"
  using audit_run [of a b c d e f g s t] ticking_utcnow_run [of k s] by (auto simp: ticking_def same_clock_def)

lemma audit_short:
  assumes "ticking k s" "k < 1000" "audit_ok s" "short a" "short c" "short i" "d = [] \<or> short d"
  shows "\<exists>t. audit (PStr a) (PStr c) (PStr i) PNone PNone PNone (PStr d) s = (Inr (), t)"
proof -
  obtain n u where u: "utcnow s = (Inr n, u)" "\<forall>c \<in> set n. \<not> non_ijson c"
    using ticking_utcnow [OF assms(1,2)] by blast
  have l: "validate_log_text False 1024 (PStr a) = Inr (Some a)" "validate_log_text False 256 (PStr c) = Inr (Some c)"
    "validate_log_text True 4096 (PStr i) = Inr (Some i)" "validate_log_text True m PNone = Inr None"
    "validate_log_text True 262144 (if PStr d = PStr [] then PNone else PStr d) = Inr (if d = [] then None else Some d)" for m
    using assms(4-) by (auto simp: short_log_text simp del: validate_log_text.simps) simp_all
  show ?thesis by (rule audit_total [OF assms(3) u l(1,2,3,4,4,4,5)])
qed

lemma strftime_stamp: "strftime (stamp 0) \<le> strftime (stamp k)" if "k < 1000"
proof (cases k)
  case (Suc j)
  have "strftime (stamp 0) < strftime (stamp (Suc j))"
    using that Suc stuck_wall
    by (subst strftime_less_iff) (auto simp: stamp_def stuck_clock_def valid_datetime_def valid_date_def days_in_month_def time_fields_def)
  then show ?thesis using Suc by simp
qed simp

end
