(* ===== verification/Policy_Props.thy ===== *)
theory Policy_Props
  imports Engine_Props Audit_Props
begin

section \<open>Properties of the autonomy policy\<close>

text \<open>
  A decision of the policy engine is compared with an abstract specification: what the grants,
  the ceilings and the configuration of the project permit at an instant. Downgrades and
  revocations are followed through every later session.
\<close>

subsection \<open>What is read\<close>

lemma keeps_require_project_same: "keeps (=) (require_project pe p :: ('z policy_st_scheme, unit) op)"
  unfolding require_project_def by (intro same_intros keeps_get_node_same)

lemma keeps_project_config_same: "keeps (=) (project_config pe p :: ('z policy_st_scheme, pyval) op)"
  unfolding project_config_def by (intro same_intros keeps_require_project_same)

text \<open>An instant: the one the caller gives, or a reading of the clock.\<close>

definition instant :: "pstr \<Rightarrow> pyval \<Rightarrow> int \<Rightarrow> bool" where
  "instant tau now clock \<longleftrightarrow> (if now = PNone then \<exists>x. tau < x \<and> read_now (PStr x) = Inr clock else read_now now = Inr clock)"

definition live_grants :: "pyval \<Rightarrow> int \<Rightarrow> 'z policy_st_scheme \<Rightarrow> grant_row list" where
  "live_grants project clock s = filter (\<lambda>r. PStr (gr_project_id r) = project \<and> gr_revoked_at r = None
     \<and> grant_active clock r = Inr True) (grants s)"

definition live_downgrades :: "pyval \<Rightarrow> 'z policy_st_scheme \<Rightarrow> downgrade_row list" where
  "live_downgrades project s = filter (\<lambda>d. PStr (dg_project_id d) = project \<and> dg_cleared_at d = None) (downgrades s)"

lemma tables_policy:
  fixes s t :: "'z policy_st_scheme"
  assumes "tables s = tables t"
  shows "grants s = grants t" "downgrades s = downgrades t" "project_policy s = project_policy t"
    "config_row_of p s = config_row_of p t"
  using assms by (cases s; cases t; simp add: config_row_of_def)+

lemma rmap_flags:
  "rmap (\<lambda>r. rbind (f r) (\<lambda>a. Inr (r, a))) rows = Inr ras \<Longrightarrow> map fst (filter snd ras) = filter (\<lambda>r. f r = Inr True) rows"
  by (induction rows arbitrary: ras) auto

lemma active_grants_run:
  assumes "active_grants pe project now s = (Inr gs, t)"
  shows "tables t = tables s" and "clock_past tau s \<Longrightarrow> clock_past tau t"
    and "clock_past tau s \<Longrightarrow> \<exists>clock. instant tau now clock \<and> gs = live_grants project clock s"
proof -
  have "\<exists>x u. (if now = PNone then bnd utcnow (\<lambda>t. ret (PStr t)) else ret now) s = (Inr x, u)
      \<and> (\<exists>clock ras. read_now x = Inr clock \<and> t = u \<and> rmap (\<lambda>r. rbind (grant_active clock r) (\<lambda>a. Inr (r, a)))
        (filter (\<lambda>r. PStr (gr_project_id r) = project \<and> gr_revoked_at r = None) (grants u)) = Inr ras
        \<and> gs = map fst (filter snd ras))"
    using assms unfolding active_grants_def
    by (auto simp: bnd_same [OF keeps_require_project_same] bnd_eq_Inr lift_run rd_run split: sum.splits)
  then obtain x u clock ras where x: "(if now = PNone then bnd utcnow (\<lambda>t. ret (PStr t)) else ret now) s = (Inr x, u)"
    and r: "read_now x = Inr clock" "t = u" "rmap (\<lambda>r. rbind (grant_active clock r) (\<lambda>a. Inr (r, a)))
        (filter (\<lambda>r. PStr (gr_project_id r) = project \<and> gr_revoked_at r = None) (grants u)) = Inr ras"
        "gs = map fst (filter snd ras)" by blast
  have g: "gs = live_grants project clock u"
    using rmap_flags [OF r(3)] r(4) by (simp add: live_grants_def conj_assoc)
  have main: "tables t = tables s \<and> (clock_past tau s \<longrightarrow> clock_past tau t \<and> instant tau now clock)"
  proof (cases "now = PNone")
    case True
    then obtain n where n: "utcnow s = (Inr n, u)" "x = PStr n" using x by (auto simp: bnd_eq_Inr ret_run)
    then show ?thesis
      using utcnow_tables [OF n(1)] clock_past_utcnow [OF _ n(1)] r(1,2) True by (auto simp: instant_def)
  qed (use x r in \<open>auto simp: ret_run instant_def\<close>)
  then show "tables t = tables s" "clock_past tau s \<Longrightarrow> clock_past tau t" by blast+
  then show "clock_past tau s \<Longrightarrow> \<exists>clock. instant tau now clock \<and> gs = live_grants project clock s"
    using g main r(2) tables_policy [of t s] by (auto simp: live_grants_def)
qed

text \<open>The level of \<open>effective_level\<close>, from what it reads.\<close>

definition level_at :: "policy_engine \<Rightarrow> pyval \<Rightarrow> int \<Rightarrow> int \<Rightarrow> pyval \<Rightarrow> 'z policy_st_scheme \<Rightarrow> int" where
  "level_at pe project clock cap action_scope s =
     (let level = min (min (granted_level (applicable action_scope (live_grants project clock s))) cap) (pe_tenant_max pe)
      in case ceiling_of (map dg_ceiling (live_downgrades project s)) of None \<Rightarrow> level | Some c \<Rightarrow> min level c)"

lemma effective_level_run:
  assumes "effective_level pe project now action_scope s = (Inr e, t)"
  shows "tables t = tables s" and "clock_past tau s \<Longrightarrow> clock_past tau t"
    and "clock_past tau s \<Longrightarrow> \<exists>config cap clock. fst (project_config pe project s) = Inr config
      \<and> rbind (config_level config) py_int = Inr cap \<and> instant tau now clock \<and> e = level_at pe project clock cap action_scope s"
proof -
  obtain config where c: "fst (project_config pe project s) = Inr config"
    using assms unfolding effective_level_def
    by (cases "fst (project_config pe project s)") (simp_all add: bnd_same [OF keeps_project_config_same])
  then obtain gs u where g: "active_grants pe project now s = (Inr gs, u)"
      and k: "bnd (lift (rbind (config_level config) py_int)) (\<lambda>cap. bnd (active_downgrade_ceiling pe project) (\<lambda>lowered.
        (let level = min (min (granted_level (applicable action_scope gs)) cap) (pe_tenant_max pe)
         in ret (case lowered of None \<Rightarrow> level | Some c \<Rightarrow> min level c)))) u = (Inr e, t)"
    using assms unfolding effective_level_def
    by (auto simp: bnd_same [OF keeps_project_config_same] bnd_eq_Inr [of "active_grants _ _ _"])
  then obtain cap where cap: "rbind (config_level config) py_int = Inr cap" by (auto simp: bnd_eq_Inr lift_run)
  have t: "t = u" and e: "e = (let level = min (min (granted_level (applicable action_scope gs)) cap) (pe_tenant_max pe)
      in case ceiling_of (map dg_ceiling (live_downgrades project u)) of None \<Rightarrow> level | Some c \<Rightarrow> min level c)"
    using k cap unfolding active_downgrade_ceiling_def live_downgrades_def
    by (auto simp: bnd_lift bnd_assoc bnd_same [OF keeps_require_project_same] bnd_rd ret_run Let_def split: sum.splits)
  note run = active_grants_run [OF g]
  show "tables t = tables s" "clock_past tau s \<Longrightarrow> clock_past tau t" using run t by auto
  show "\<exists>config cap clock. fst (project_config pe project s) = Inr config
      \<and> rbind (config_level config) py_int = Inr cap \<and> instant tau now clock \<and> e = level_at pe project clock cap action_scope s"
    if past: "clock_past tau s"
  proof -
    obtain clock where "instant tau now clock" "gs = live_grants project clock s" using run(3) [OF past] by blast
    moreover have "live_downgrades project u = live_downgrades project s"
      using tables_policy(2) [OF run(1)] by (simp add: live_downgrades_def)
    ultimately show ?thesis using c cap e by (auto simp: level_at_def)
  qed
qed

subsection \<open>What a decision promises\<close>

text \<open>The abstract policy: what has to hold for an action of a required level to be permitted.\<close>

definition permitted :: "policy_engine \<Rightarrow> pyval \<Rightarrow> int \<Rightarrow> pydict \<Rightarrow> int \<Rightarrow> pstr \<Rightarrow> int \<Rightarrow> pyval \<Rightarrow> 'z policy_st_scheme \<Rightarrow> bool" where
  "permitted pe project clock config cap action required action_scope s \<longleftrightarrow>
     required < 4 \<and> required \<le> cap \<and> required \<le> pe_tenant_max pe
     \<and> (required = 3 \<and> action \<in> set GUARDED_ACTIONS \<longrightarrow> truthy (dget_none config (lit ''guarded_pr_enabled'')))
     \<and> (required \<le> 0 \<or> (\<exists>g \<in> set (live_grants project clock s). scope_matches (gr_scope g) action_scope
          \<and> required \<le> int_value (gr_level g)))
     \<and> (\<forall>d \<in> set (live_downgrades project s).
          required \<le> (if valid_autonomy_level (dg_ceiling d) then int_value (dg_ceiling d) else 0))"

lemma valid_level_nonneg: "valid_autonomy_level v \<Longrightarrow> 0 \<le> int_value v"
  by (cases v) auto

lemma grant_active_level: "grant_active clock r = Inr True \<Longrightarrow> 0 \<le> int_value (gr_level r)"
  using valid_level_nonneg by (auto simp: grant_active_def grant_sound_def split: if_splits)

lemma granted_level_ge:
  "required \<le> granted_level (applicable sc (live_grants project clock s)) \<longleftrightarrow>
   required \<le> 0 \<or> (\<exists>g \<in> set (live_grants project clock s). scope_matches (gr_scope g) sc \<and> required \<le> int_value (gr_level g))"
proof -
  let ?gs = "applicable sc (live_grants project clock s)"
  have mem: "g \<in> set ?gs \<longleftrightarrow> g \<in> set (live_grants project clock s) \<and> scope_matches (gr_scope g) sc" for g
    by (auto simp: applicable_def)
  have nn: "g \<in> set ?gs \<Longrightarrow> 0 \<le> int_value (gr_level g)" for g
    using grant_active_level by (auto simp: applicable_def live_grants_def)
  show ?thesis
  proof (cases "?gs = []")
    case True
    then show ?thesis using mem by (auto simp: granted_level_def)
  next
    case False
    then have "required \<le> granted_level ?gs \<longleftrightarrow> (\<exists>g \<in> set ?gs. required \<le> int_value (gr_level g))"
      by (simp add: granted_level_def Max_ge_iff)
    moreover obtain g where "g \<in> set ?gs" using False by (cases ?gs) auto
    ultimately show ?thesis using mem nn by (meson order_trans)
  qed
qed

lemma ceiling_of_ge:
  "(case ceiling_of cs of None \<Rightarrow> True | Some c \<Rightarrow> required \<le> c) \<longleftrightarrow>
   (\<forall>c \<in> set cs. required \<le> (if valid_autonomy_level c then int_value c else 0))"
proof (cases "cs = []")
  case False
  show ?thesis
  proof (cases "list_all valid_autonomy_level cs")
    case True
    then show ?thesis using False by (auto simp: ceiling_of_def list_all_iff)
  next
    case bad: False
    then obtain c where c: "c \<in> set cs" "\<not> valid_autonomy_level c" by (auto simp: list_all_iff)
    then show ?thesis
      using bad False valid_level_nonneg by (auto simp: ceiling_of_def split: if_splits) (meson order_trans)+
  qed
qed (simp add: ceiling_of_def)

lemma level_at_ge:
  "required \<le> level_at pe project clock cap sc s \<longleftrightarrow> required \<le> cap \<and> required \<le> pe_tenant_max pe
     \<and> (required \<le> 0 \<or> (\<exists>g \<in> set (live_grants project clock s). scope_matches (gr_scope g) sc \<and> required \<le> int_value (gr_level g)))
     \<and> (\<forall>d \<in> set (live_downgrades project s).
          required \<le> (if valid_autonomy_level (dg_ceiling d) then int_value (dg_ceiling d) else 0))"
proof -
  have "required \<le> level_at pe project clock cap sc s \<longleftrightarrow>
      required \<le> granted_level (applicable sc (live_grants project clock s)) \<and> required \<le> cap \<and> required \<le> pe_tenant_max pe
      \<and> (case ceiling_of (map dg_ceiling (live_downgrades project s)) of None \<Rightarrow> True | Some c \<Rightarrow> required \<le> c)"
    by (simp add: level_at_def Let_def split: option.split)
  then show ?thesis unfolding granted_level_ge ceiling_of_ge by auto
qed

lemma judge_allow:
  "fst (judge config action required effective sc active appl) \<longleftrightarrow> required < 4 \<and> required \<le> effective
     \<and> (required = 3 \<and> action \<in> set GUARDED_ACTIONS \<longrightarrow> truthy (dget_none config (lit ''guarded_pr_enabled'')))"
  by (auto simp: judge_def)

lemma fst_project_config_tables:
  assumes "tables u = tables (s :: 'z policy_st_scheme)"
  shows "fst (project_config pe project u) = fst (project_config pe project s)"
proof -
  note same = tables_graph [OF tables_beyond [OF assms]] tables_policy [OF assms]
  have n: "current_node n u = current_node n s" for n by (simp add: current_node_def same)
  have g: "fst (get_node p None a b c u) = fst (get_node p None a b c s)" for p a b c
    by (simp add: get_node_def bnd_rd n split: option.split) (simp add: fail_def lift_def)
  have "fst (require_project pe project u) = fst (require_project pe project s)"
  proof -
    have "fst (catch (bnd (get_node p None a b c) (\<lambda>_. ret ())) h k u) = fst (catch (bnd (get_node p None a b c) (\<lambda>_. ret ())) h k s)"
      if "\<And>e. fst (k e u) = fst (k e s)" for p a b c h k
      using g [of p a b c] that
      by (simp add: catch_def bnd_same [OF keeps_get_node_same] ret_run split: sum.split)
    then show ?thesis
      by (simp add: require_project_def bnd_lift bnd_chk ret_run fail_def split: sum.split option.split)
  qed
  then show ?thesis
    by (simp add: project_config_def bnd_same [OF keeps_require_project_same] bnd_rd same ret_run lift_run split: sum.split option.split)
qed

lemma decide_run:
  assumes "decide py_repr pe project (PStr action) rv eq br hr sc now s = (Inr d, t)" and tau: "clock_past tau s"
  obtains c cap clock u v w now' evidence radius reliability where "fst (project_config pe project s) = Inr (PDict c)"
    "rbind (config_level (PDict c)) py_int = Inr cap" "instant tau now clock"
    "d_allow d \<longleftrightarrow> permitted pe project clock c cap action (d_required_level d) sc s"
    "validate_probability eq = Inr evidence" "validate_probability hr = Inr reliability" "natural br = Inr radius"
    "d_required_level d = fst (required_level action (text_of rv) evidence (int radius) reliability)"
    "d_effective_level d = level_at pe project clock cap sc s"
    "\<exists>clock'. instant tau now clock' \<and> d_applicable_grant_ids d = map gr_id (applicable sc (live_grants project clock' s))"
    "tables u = tables s" "utcnow v = (Inr now', u)"
    "audit (pkey ''policy-engine'') (pkey ''policy.decide'') project PNone PNone PNone
       (PStr (decide_detail py_repr action (d_allow d) (d_reasons d))) u = (Inr (), w)" "t = w"
proof -
  obtain evidence reliability radius config where checks: "validate_probability eq = Inr evidence"
      "validate_probability hr = Inr reliability" "natural br = Inr radius" and config: "fst (project_config pe project s) = Inr config"
    using assms(1) unfolding decide_def
    by (auto simp: bnd_chk bnd_lift bnd_same [OF keeps_project_config_same] split: if_splits sum.splits)
  let ?r = "required_level action (text_of rv) evidence (int radius) reliability"
  obtain active u where g: "active_grants pe project now s = (Inr active, u)"
    and k: "bnd (effective_level pe project now sc) (\<lambda>effective.
     bnd (lift (if fst ?r = 3 then dict_of config else Inr [])) (\<lambda>guard_config.
     bnd (ret (judge guard_config action (fst ?r) effective sc active (applicable sc active))) (\<lambda>(allow, verdict).
     bnd (lift (config_level config)) (\<lambda>level.
     bnd utcnow (\<lambda>decided_at.
     bnd (audit (pkey ''policy-engine'') (pkey ''policy.decide'') project PNone PNone PNone
       (PStr (decide_detail py_repr action allow (snd ?r @ verdict)))) (\<lambda>_.
     ret \<lparr>d_allow = allow, d_action_type = action, d_required_level = fst ?r,
       d_effective_level = effective, d_action_scope = sc,
       d_applicable_grant_ids = map gr_id (applicable sc active), d_reasons = snd ?r @ verdict,
       d_config_level = level, d_tenant_max = pe_tenant_max pe, d_decided_at = decided_at\<rparr>)))))) u = (Inr d, t)"
    using assms(1) checks config unfolding decide_def
    by (auto simp: bnd_chk bnd_lift bnd_same [OF keeps_project_config_same] bnd_ret case_prod_unfold
        bnd_eq_Inr [of "active_grants _ _ _"] split: if_splits)
  note run = active_grants_run [OF g]
  obtain e v where e: "effective_level pe project now sc u = (Inr e, v)" using k by (auto simp: bnd_eq_Inr)
  note eff = effective_level_run [OF e]
  have cu: "fst (project_config pe project u) = Inr config" using fst_project_config_tables [OF run(1)] config by simp
  obtain cap clock where cap: "rbind (config_level config) py_int = Inr cap" and clock: "instant tau now clock"
    and lev: "e = level_at pe project clock cap sc u"
    using eff(3) [OF run(2) [OF tau]] cu by auto
  obtain c where c: "config = PDict c" using cap by (cases config) (auto simp: config_level_def)
  obtain clock' where g': "instant tau now clock'" "active = live_grants project clock' s" using run(3) [OF tau] by blast
  have lev': "e = level_at pe project clock cap sc s"
    using tables_policy [OF run(1)] lev by (simp add: level_at_def live_grants_def live_downgrades_def)
  let ?cfg = "if fst ?r = 3 then c else []"
  obtain allow verdict where j: "judge ?cfg action (fst ?r) e sc active (applicable sc active) = (allow, verdict)" by fastforce
  obtain level where "config_level config = Inr level" using cap by (cases "config_level config") auto
  then have "bnd utcnow (\<lambda>decided_at.
     bnd (audit (pkey ''policy-engine'') (pkey ''policy.decide'') project PNone PNone PNone
       (PStr (decide_detail py_repr action allow (snd ?r @ verdict)))) (\<lambda>_.
     ret \<lparr>d_allow = allow, d_action_type = action, d_required_level = fst ?r,
       d_effective_level = e, d_action_scope = sc,
       d_applicable_grant_ids = map gr_id (applicable sc active), d_reasons = snd ?r @ verdict,
       d_config_level = level, d_tenant_max = pe_tenant_max pe, d_decided_at = decided_at\<rparr>)) v = (Inr d, t)"
    using k e j c by (simp add: bnd_eq_Inr [of "effective_level _ _ _ _"] bnd_lift bnd_ret dict_of_def split: if_splits)
  then obtain now' x y where d: "utcnow v = (Inr now', x)"
      "audit (pkey ''policy-engine'') (pkey ''policy.decide'') project PNone PNone PNone
       (PStr (decide_detail py_repr action allow (snd ?r @ verdict))) x = (Inr (), y)" "t = y"
      "d_allow d = allow" "d_required_level d = fst ?r" "d_reasons d = snd ?r @ verdict" "d_effective_level d = e"
      "d_applicable_grant_ids d = map gr_id (applicable sc active)"
    by (auto simp: bnd_eq_Inr ret_run)
  have allow: "allow \<longleftrightarrow> permitted pe project clock c cap action (fst ?r) sc s"
    using judge_allow [of ?cfg action "fst ?r" e sc active "applicable sc active"] j lev'
    by (auto simp: level_at_ge permitted_def)
  have x: "tables x = tables s" using utcnow_tables [OF d(1)] eff(1) run(1) by simp
  show ?thesis
    by (rule that [of c cap clock evidence reliability radius x v now' y])
      (use config c cap clock allow checks d lev' g' x in auto)
qed

text \<open>C27: The policy engine implements its abstract policy: it allows an action exactly when the
  level the action needs is below 4, within the configured level of the project and the cap of
  the tenant, within every downgrade that has not been cleared (a malformed one counting as
  level 0), covered by an unrevoked, unexpired, well-formed grant of the project whose scope
  matches, and, for guarded repository actions, enabled in the configuration.\<close>

theorem decide_implements_policy:
  assumes "decide py_repr pe project (PStr action) rv eq br hr sc now s = (Inr d, t)" and "clock_past tau s"
  shows "\<exists>c cap clock. fst (project_config pe project s) = Inr (PDict c) \<and> rbind (config_level (PDict c)) py_int = Inr cap
    \<and> instant tau now clock \<and> (d_allow d \<longleftrightarrow> permitted pe project clock c cap action (d_required_level d) sc s)"
  by (rule decide_run [OF assms]) blast

subsection \<open>Downgrades and revocations last\<close>

definition lowered :: "pyval \<Rightarrow> int \<Rightarrow> 'z policy_st_scheme \<Rightarrow> bool" where
  "lowered project n s \<longleftrightarrow> (\<exists>d \<in> set (downgrades s). PStr (dg_project_id d) = project \<and> dg_cleared_at d = None
     \<and> dg_ceiling d = PInt n)"

definition revoked :: "pstr \<Rightarrow> 'z policy_st_scheme \<Rightarrow> bool" where
  "revoked gid s \<longleftrightarrow> gid \<in> gr_id ` set (grants s) \<and> (\<forall>g \<in> set (grants s). gr_id g = gid \<longrightarrow> gr_revoked_at g \<noteq> None)"

lemma tables_beyond_policy:
  fixes s t :: "'z policy_st_scheme"
  assumes "store_st.more t = store_st.more s"
  shows "grants t = grants s" "downgrades t = downgrades s"
  using assms by (cases s; cases t; simp)+

lemma beside_policy:
  fixes s u :: "'z policy_st_scheme"
  assumes "utcnow s = (Inr now, u)"
  shows "grants (u\<lparr>nodes := ns, node_rows := k, drawn := d\<rparr>) = grants s" "downgrades (u\<lparr>nodes := ns, node_rows := k, drawn := d\<rparr>) = downgrades s"
    "grants (u\<lparr>edges := es, edge_rows := k, drawn := d\<rparr>) = grants s" "downgrades (u\<lparr>edges := es, edge_rows := k, drawn := d\<rparr>) = downgrades s"
  using tables_policy [OF utcnow_tables [OF assms]] by simp_all

interpretation lowered: tables_relation "kept (lowered p n :: 'z policy_st_scheme \<Rightarrow> bool)" for p n
proof unfold_locales
  fix s t :: "'z policy_st_scheme"
  assume "tables s = tables t"
  then show "kept (lowered p n) s t" using tables_policy [of s t] by (simp add: kept_def lowered_def)
qed

interpretation lowered: beyond_relation "kept (lowered p n :: 'z policy_st_scheme \<Rightarrow> bool)" for p n
proof unfold_locales
  fix s t :: "'z policy_st_scheme"
  assume "store_st.more t = store_st.more s"
  from tables_beyond_policy [OF this] show "kept (lowered p n) s t" by (simp add: kept_def lowered_def)
qed

interpretation lowered: graph_relation "kept (lowered p n :: 'z policy_st_scheme \<Rightarrow> bool)" for p n
proof unfold_locales
  fix s u :: "'z policy_st_scheme" and now ns es k d
  assume u: "utcnow s = (Inr now, u)"
  show "kept (lowered p n) s (u\<lparr>nodes := ns, node_rows := k, drawn := d\<rparr>)"
    "kept (lowered p n) s (u\<lparr>edges := es, edge_rows := k, drawn := d\<rparr>)"
    using beside_policy [OF u] by (simp_all add: kept_def lowered_def)
qed

interpretation lowered: policy_relation "kept (lowered p n :: 'z policy_st_scheme \<Rightarrow> bool)" for p n
  by unfold_locales (auto simp: kept_def lowered_def)

interpretation revoked: tables_relation "kept (revoked g :: 'z policy_st_scheme \<Rightarrow> bool)" for g
proof unfold_locales
  fix s t :: "'z policy_st_scheme"
  assume "tables s = tables t"
  then show "kept (revoked g) s t" using tables_policy [of s t] by (simp add: kept_def revoked_def)
qed

interpretation revoked: beyond_relation "kept (revoked g :: 'z policy_st_scheme \<Rightarrow> bool)" for g
proof unfold_locales
  fix s t :: "'z policy_st_scheme"
  assume "store_st.more t = store_st.more s"
  from tables_beyond_policy [OF this] show "kept (revoked g) s t" by (simp add: kept_def revoked_def)
qed

interpretation revoked: graph_relation "kept (revoked g :: 'z policy_st_scheme \<Rightarrow> bool)" for g
proof unfold_locales
  fix s u :: "'z policy_st_scheme" and now ns es k d
  assume u: "utcnow s = (Inr now, u)"
  show "kept (revoked g) s (u\<lparr>nodes := ns, node_rows := k, drawn := d\<rparr>)"
    "kept (revoked g) s (u\<lparr>edges := es, edge_rows := k, drawn := d\<rparr>)"
    using beside_policy [OF u] by (simp_all add: kept_def revoked_def)
qed

interpretation revoked: clearing_relation "kept (revoked g :: 'z policy_st_scheme \<Rightarrow> bool)" for g
proof unfold_locales
  fix s :: "'z policy_st_scheme" and gid now
  define f where "f = (\<lambda>r :: grant_row. if gr_id r = gid then r\<lparr>gr_revoked_at := Some now\<rparr> else r)"
  have f: "gr_id (f r) = gr_id r" "gr_revoked_at (f r) = (if gr_id r = gid then Some now else gr_revoked_at r)" for r
    by (simp_all add: f_def)
  have "gr_id ` set (map f (grants s)) = gr_id ` set (grants s)" by (simp add: image_image f)
  then have "kept (revoked g) s (s\<lparr>grants := map f (grants s)\<rparr>)" by (simp add: kept_def revoked_def f)
  then show "kept (revoked g) s (s\<lparr>grants := map (\<lambda>r. if gr_id r = gid then r\<lparr>gr_revoked_at := Some now\<rparr> else r) (grants s)\<rparr>)"
    by (simp only: f_def)
next
  fix row :: grant_row and s :: "'z policy_st_scheme"
  assume "gr_id row \<notin> gr_id ` set (grants s)"
  then show "kept (revoked g) s (s\<lparr>grants := grants s @ [row]\<rparr>)" unfolding kept_def revoked_def by (auto simp del: not_None_eq)
qed (simp_all add: kept_def revoked_def)

text \<open>What is written before an audit call is still there when it returns.\<close>

lemma audited_policy:
  assumes "audit a b c d e f g s = (Inr (), t)"
  shows "grants t = grants (s :: 'z policy_st_scheme)" "downgrades t = downgrades s"
  using audit_run [OF assms] tables_beyond_policy [of t s] by (auto simp: audited_def)

lemma downgrade_lowers:
  assumes "downgrade pe (PStr p) trigger (PInt n) actor s = (Inr (), t)"
  shows "lowered (PStr p) n t"
proof -
  obtain who u where run: "bnd utcnow (\<lambda>now.
       bnd (wr (\<lambda>s. s\<lparr>downgrade_seq := Suc (downgrade_seq s),
          downgrades := downgrades s @ [\<lparr>dg_seq = Suc (downgrade_seq s), dg_project_id = p,
            dg_ceiling = PInt n, dg_trigger = text_of trigger, dg_at = now, dg_cleared_at = None,
            dg_cleared_by = None\<rparr>]\<rparr>)) (\<lambda>_.
       audit (PStr who) (pkey ''policy.downgrade'') (PStr p) PNone PNone PNone
         (PStr (text_of trigger @ lit '' -> ceiling '' @ str_of_int n)))) (enter s) = (Inr (), u)" and t: "t = leave s u"
    using assms unfolding downgrade_def
    by (auto simp: bnd_same [OF keeps_require_project_same] bnd_chk bnd_lift check_level_def transaction_eq_Inr split: if_splits sum.splits)
  then obtain now x where "utcnow (enter s) = (Inr now, x)" and "downgrades u = downgrades x
      @ [\<lparr>dg_seq = Suc (downgrade_seq x), dg_project_id = p, dg_ceiling = PInt n, dg_trigger = text_of trigger,
          dg_at = now, dg_cleared_at = None, dg_cleared_by = None\<rparr>]"
    by (auto simp: bnd_eq_Inr [of utcnow] bnd_wr dest!: audited_policy(2))
  then show ?thesis using t tables_policy(2) [of "leave s u" u] by (simp add: lowered_def)
qed

lemma revoke_revokes:
  assumes "revoke pe (PStr gid) actor why s = (Inr (), t)"
  shows "revoked gid t"
proof -
  obtain who r u where r: "find (\<lambda>r. gr_id r = gid) (grants (enter s)) = Some r"
    and run: "bnd utcnow (\<lambda>now.
           bnd (wr (\<lambda>s. s\<lparr>grants := map (\<lambda>g. if gr_id g = gid then g\<lparr>gr_revoked_at := Some now\<rparr> else g) (grants s)\<rparr>)) (\<lambda>_.
           audit (PStr who) (pkey ''policy.revoke'') (PStr gid) PNone PNone PNone why)) (enter s) = (Inr (), u)" and t: "t = leave s u"
    using assms unfolding revoke_def
    by (auto simp: bnd_same [OF keeps_require_project_same] bnd_chk bnd_lift bnd_rd transaction_eq_Inr fail_def
        split: if_splits sum.splits option.splits)
  then obtain now x where x: "utcnow (enter s) = (Inr now, x)"
    and g: "grants u = map (\<lambda>g. if gr_id g = gid then g\<lparr>gr_revoked_at := Some now\<rparr> else g) (grants x)"
    by (auto simp: bnd_eq_Inr [of utcnow] bnd_wr dest!: audited_policy(1))
  have "r \<in> set (grants x)" "gr_id r = gid" using r tables_policy(1) [OF utcnow_tables [OF x]] by (auto simp: find_Some_iff)
  then have "gid \<in> gr_id ` set (grants u)" unfolding g by (intro image_eqI [of _ _ "r\<lparr>gr_revoked_at := Some now\<rparr>"]) auto
  moreover have "\<forall>q \<in> set (grants u). gr_id q = gid \<longrightarrow> gr_revoked_at q \<noteq> None"
    unfolding g set_map by (rule ballI) (erule imageE, simp)
  ultimately show ?thesis using t tables_policy(1) [of "leave s u" u] by (simp add: revoked_def)
qed

text \<open>C28: A downgrade binds until it is cleared: after the project has been lowered to level \<open>n\<close>,
  whatever a client does short of clearing downgrades, further grants, other configurations
  and transactions that fail included, no decision allows an action that needs more.\<close>

theorem downgrade_binds_until_cleared:
  assumes "downgrade pe (PStr p) trigger (PInt n) actor s = (Inr (), t)" and "\<not> list_ex clears cs"
    and "decide py_repr pe' (PStr p) (PStr action) rv eq br hr sc now (run_engine may cs t) = (Inr d, u)"
    and "clock_past tau (run_engine may cs t)" and "d_allow d"
  shows "d_required_level d \<le> max n 0"
proof -
  have "lowered (PStr p) n (run_engine may cs t)"
    using lowered.run_engine_no_clear [OF assms(2), of "PStr p" n t may] downgrade_lowers [OF assms(1)] by (simp add: kept_def)
  then obtain d' where d': "d' \<in> set (live_downgrades (PStr p) (run_engine may cs t))" "dg_ceiling d' = PInt n"
    by (auto simp: lowered_def live_downgrades_def)
  obtain c cap clock where "permitted pe' (PStr p) clock c cap action (d_required_level d) sc (run_engine may cs t)"
    by (rule decide_run [OF assms(3,4)]) (use assms(5) in blast)
  then have "d_required_level d \<le> (if valid_autonomy_level (dg_ceiling d') then int_value (dg_ceiling d') else 0)"
    using d'(1) unfolding permitted_def by blast
  then show ?thesis using d'(2) by (auto split: if_splits)
qed

text \<open>C29: A revoked grant never counts again: in no later state does a decision list it among the
  grants that apply.\<close>

theorem revocation_is_final:
  assumes "revoke pe (PStr gid) actor why s = (Inr (), t)"
    and "decide py_repr pe' project (PStr action) rv eq br hr sc now (run_engine may cs t) = (Inr d, u)"
    and "clock_past tau (run_engine may cs t)"
  shows "gid \<notin> set (d_applicable_grant_ids d)"
proof -
  have "revoked gid (run_engine may cs t)"
    using revoked.run_engine_R [of gid t may cs] revoke_revokes [OF assms(1)] by (simp add: kept_def)
  moreover obtain clock where "d_applicable_grant_ids d = map gr_id (applicable sc (live_grants project clock (run_engine may cs t)))"
    by (rule decide_run [OF assms(2,3)]) blast
  ultimately show ?thesis by (auto simp: revoked_def applicable_def live_grants_def)
qed

text \<open>No decision is silent: a decision that is returned has appended one row to the audit log,
  with the action, the verdict and its reasons, after everything the log held, and has written
  nothing else.\<close>

theorem decision_is_recorded:
  assumes "decide py_repr pe project (PStr action) rv eq br hr sc now s = (Inr d, t)" and "clock_past tau s"
  shows "\<exists>r. audit_log t = audit_log s @ [r] \<and> a_action r = lit ''policy.decide'' \<and> opt_val (a_object_id r) = project
    \<and> a_detail r = Some (decide_detail py_repr action (d_allow d) (d_reasons d))
    \<and> events t = events s \<and> evidence_blobs t = evidence_blobs s \<and> store_st.more t = store_st.more s"
proof -
  obtain u w where u: "tables u = tables s" and w: "audit (pkey ''policy-engine'') (pkey ''policy.decide'') project PNone PNone PNone
       (PStr (decide_detail py_repr action (d_allow d) (d_reasons d))) u = (Inr (), w)" "t = w"
    by (rule decide_run [OF assms]) blast
  have ne: "decide_detail py_repr action (d_allow d) (d_reasons d) \<noteq> []" by (simp add: decide_detail_def)
  obtain r where "audited r u t" "PStr (a_action r) = pkey ''policy.decide''" "opt_val (a_object_id r) = project"
      "opt_val (a_detail r) = PStr (decide_detail py_repr action (d_allow d) (d_reasons d))"
    using audit_run [OF w(1)] w(2) ne by auto
  then show ?thesis
    using tables_store [OF u] tables_beyond [OF u] by (cases "a_detail r") (auto simp: audited_def)
qed

subsection \<open>The level an action needs\<close>

text \<open>The level as a function of the four circumstances that can raise it.\<close>

definition raised :: "int \<Rightarrow> bool \<Rightarrow> bool \<Rightarrow> bool \<Rightarrow> bool \<Rightarrow> int" where
  "raised n irreversible wide weak poor =
     (let l1 = (if irreversible \<and> n < 4 then 4 else n);
          l2 = (if wide \<and> l1 < 3 then 3 else l1);
          l3 = (if weak \<and> 2 \<le> l2 then max l2 3 else l2)
      in if poor \<and> 2 \<le> l3 then max l3 3 else l3)"

definition base_level :: "pstr \<Rightarrow> int" where
  "base_level action = (case map_of ACTION_CLASSES action of Some n \<Rightarrow> n | None \<Rightarrow> 4)"

lemma base_level_le: "base_level action \<le> 4"
  by (auto simp: base_level_def ACTION_CLASSES_def split: option.split if_splits)

lemma required_level_fst:
  "fst (required_level action rv evidence radius reliability) =
     raised (base_level action) (rv = lit ''irreversible'') (20 \<le> radius) (evidence < rnd64 (4 / 10)) (reliability < rnd64 (3 / 10))"
  unfolding required_level_def raised_def base_level_def Let_def
  by (simp only: if_distrib [of fst] if_distrib [of snd] fst_conv snd_conv option.case_distrib [of fst])

lemma raised_mono:
  "(a \<longrightarrow> a') \<Longrightarrow> (b \<longrightarrow> b') \<Longrightarrow> (c \<longrightarrow> c') \<Longrightarrow> (d \<longrightarrow> d') \<Longrightarrow> n \<le> 4 \<Longrightarrow> raised n a b c d \<le> raised n a' b' c' d'"
  by (cases a; cases b; cases c; cases d; simp add: raised_def Let_def)

lemma raised_le: "n \<le> 4 \<Longrightarrow> raised n a b c d \<le> 4" and raised_top: "n \<le> 4 \<Longrightarrow> a \<or> n = 4 \<Longrightarrow> raised n a b c d = 4"
  by (auto simp: raised_def Let_def)

text \<open>Doubt never lowers the bar: with less evidence, a wider blast radius, a poorer record and
  an action called irreversible, an action needs at least the level it needed before; an action
  outside the known classes or called irreversible needs level 4, which nothing permits.\<close>

theorem required_level_is_cautious:
  assumes "evidence' \<le> evidence" and "radius \<le> radius'" and "reliability' \<le> reliability"
  shows "fst (required_level action rv evidence radius reliability) \<le> fst (required_level action rv evidence' radius' reliability')
    \<and> fst (required_level action rv evidence radius reliability)
        \<le> fst (required_level action (lit ''irreversible'') evidence' radius' reliability')
    \<and> fst (required_level action (lit ''irreversible'') evidence radius reliability) = 4
    \<and> (map_of ACTION_CLASSES action = None \<longrightarrow> fst (required_level action rv evidence radius reliability) = 4)
    \<and> fst (required_level action rv evidence radius reliability) \<le> 4"
proof -
  have w: "evidence < r \<longrightarrow> evidence' < r" "20 \<le> radius \<longrightarrow> 20 \<le> radius'" "reliability < r \<longrightarrow> reliability' < r" for r
    using assms by auto
  have "map_of ACTION_CLASSES action = None \<Longrightarrow> base_level action = 4" by (simp add: base_level_def)
  then show ?thesis
    unfolding required_level_fst using w base_level_le [of action]
    by (intro conjI impI raised_mono raised_le raised_top) auto
qed

theorem required_level_is_cautious_witness:
  "fst (required_level (lit ''run_verifier'') (lit ''reversible'') 1 0 1)
     \<le> fst (required_level (lit ''run_verifier'') (lit ''reversible'') 0 20 0)"
  using required_level_is_cautious [of 0 1 0 20 0 1 "lit ''run_verifier''" "lit ''reversible''"] by simp

subsection \<open>Trusted apps\<close>

lemma strip_strip: "strip (strip s) = strip s"
proof -
  have idem: "dropWhile P (dropWhile P xs) = dropWhile P xs" for P and xs :: pstr by (induction xs) auto
  have rd: "dropWhile P (rev (dropWhile P (rev xs))) = rev (dropWhile P (rev xs))" if "xs = dropWhile P xs" for P and xs :: pstr
  proof (cases "rev (dropWhile P (rev xs))")
    case (Cons y ys)
    have "\<exists>zs. xs = rev (dropWhile P (rev xs)) @ zs"
      using takeWhile_dropWhile_id [of P "rev xs"] by (metis rev_append rev_rev_ident)
    then have "hd xs = y" "xs \<noteq> []" using Cons by (metis append_Cons list.sel(1), metis Cons append_Cons list.distinct(1))
    then have "\<not> P y" using that by (metis hd_dropWhile)
    then show ?thesis using Cons by simp
  next
    case Nil
    then show ?thesis by (simp only: dropWhile.simps)
  qed
  show ?thesis unfolding strip_def using rd [of "dropWhile py_space s" py_space] idem by simp
qed

definition app_entry :: "pyval \<times> pstr option \<Rightarrow> pyval" where
  "app_entry a = PDict ((pkey ''app_id'', fst a) # (case snd a of None \<Rightarrow> [] | Some s \<Rightarrow> [(pkey ''slug'', PStr s)]))"

definition clean_app :: "pyval \<times> pstr option \<Rightarrow> bool" where
  "clean_app a \<longleftrightarrow> positive_int (fst a) \<and> (case snd a of None \<Rightarrow> True | Some s \<Rightarrow> s \<noteq> [] \<and> strip s = s)"

lemma app_entry_of:
  "app_entry (i, s) = PDict ((pkey ''app_id'', i) # (case s of None \<Rightarrow> [] | Some s \<Rightarrow> [(pkey ''slug'', PStr s)]))"
  by (simp add: app_entry_def)

lemma normalise_apps_clean:
  "normalise_apps es seen out = Inr apps \<Longrightarrow> \<exists>as. apps = out @ map app_entry as \<and> list_all clean_app as
     \<and> distinct (map fst as) \<and> fst ` set as \<inter> fst ` set seen = {}"
proof (induction es seen out rule: normalise_apps.induct)
  case (1 seen out)
  then show ?case by (intro exI [of _ "[]"]) simp
next
  case (2 e es seen out)
  let ?id = "dget_none e (lit ''app_id'')" and ?raw = "dget_none e (lit ''slug'')"
  let ?slug = "if ?raw = PNone then None else Some (strip (text_of ?raw))"
  have p: "positive_int ?id" "?raw = PNone \<or> solid_text ?raw" "set (map fst e) \<subseteq> set APP_CONFIG_KEYS"
    using "2.prems" by (auto simp: Let_def)
  show ?case
  proof (cases "map_of seen ?id")
    case None
    have run: "normalise_apps es ((?id, ?slug) # seen) (out @ [app_entry (?id, ?slug)]) = Inr apps"
      using "2.prems" p None by (simp add: Let_def app_entry_def)
    obtain as where as: "apps = (out @ [app_entry (?id, ?slug)]) @ map app_entry as" "list_all clean_app as"
        "distinct (map fst as)" "fst ` set as \<inter> fst ` set ((?id, ?slug) # seen) = {}"
      using "2.IH"(1) [OF refl refl refl None run [unfolded app_entry_def fst_conv snd_conv], folded app_entry_of] by blast
    have "clean_app (?id, ?slug)" using p by (cases ?raw) (auto simp: clean_app_def blank_def strip_strip)
    moreover have "?id \<notin> fst ` set seen" using None by (simp add: map_of_eq_None_iff)
    ultimately show ?thesis using as by (intro exI [of _ "(?id, ?slug) # as"]) auto
  next
    case (Some known)
    then show ?thesis using "2.IH"(2) [OF refl refl refl Some] "2.prems" p by (simp add: Let_def)
  qed
qed simp_all

lemma normalise_clean:
  "list_all clean_app as \<Longrightarrow> distinct (map fst as) \<Longrightarrow> fst ` set as \<inter> fst ` set seen = {}
     \<Longrightarrow> normalise_apps (map app_entry as) seen out = Inr (out @ map app_entry as)"
proof (induction as arbitrary: seen out)
  case (Cons a as)
  obtain i s where a: "a = (i, s)" by (cases a)
  have k: "lit ''slug'' \<noteq> lit ''app_id''" "lit ''app_id'' \<noteq> lit ''slug''" by code_simp+
  have "map_of seen i = None" using Cons.prems a by (auto simp: map_of_eq_None_iff)
  moreover have "fst ` set as \<inter> fst ` set ((i, s) # seen) = {}" using Cons.prems a by auto
  ultimately show ?case
    using Cons a k by (cases s) (simp_all add: app_entry_def clean_app_def APP_CONFIG_KEYS_def dget_none_def Let_def blank_def)
qed simp

text \<open>The list of trusted apps a policy accepts is in normal form: every entry has a positive
  integer id, and normalising an accepted list again changes nothing.\<close>
theorem trusted_apps_normal_form:
  assumes "normalise_trusted_apps v = Inr apps"
  shows "normalise_trusted_apps (PList apps) = Inr apps \<and> list_all (\<lambda>a. case a of PDict d \<Rightarrow> positive_int (dget_none d (lit ''app_id'')) | _ \<Rightarrow> False) apps"
proof -
  obtain as where as: "apps = map app_entry as" "list_all clean_app as" "distinct (map fst as)"
    using assms normalise_apps_clean [of _ "[]" "[]"] by (cases v) (auto simp: normalise_trusted_apps_def)
  then have "normalise_trusted_apps (PList apps) = Inr apps" using normalise_clean [of as "[]" "[]"] by (simp add: normalise_trusted_apps_def)
  moreover have "list_all (\<lambda>a. case a of PDict d \<Rightarrow> positive_int (dget_none d (lit ''app_id'')) | _ \<Rightarrow> False) apps"
    using as(2) by (auto simp: as(1) list_all_iff app_entry_def clean_app_def dget_none_def)
  ultimately show ?thesis ..
qed

end
