(* ===== verification/Policy_Samples.thy ===== *)
theory Policy_Samples
  imports Policy_Props
begin

section \<open>Decisions on a small project\<close>

text \<open>The properties of the policy, applied to a project with one grant.\<close>

definition sample_grant :: grant_row where
  "sample_grant = \<lparr>gr_id = lit ''grt_1'', gr_project_id = lit ''p'', gr_level = PInt 2, gr_scope = PNone,
     gr_granted_by = pkey ''ann'', gr_granted_at = sample_now, gr_expires_at = PNone, gr_revoked_at = None, gr_reason = PNone\<rparr>"

definition sample_policy :: policy_st where
  "sample_policy = sample_graph\<lparr>grants := [sample_grant]\<rparr>"

definition sample_pe :: policy_engine where
  "sample_pe = \<lparr>pe_tenant = None, pe_graph = False, pe_tenant_max = 3\<rparr>"

lemma sample_policy_simps [simp]:
  "grants sample_policy = [sample_grant]" "downgrades sample_policy = []" "project_policy sample_policy = []"
  "audit_log sample_policy = []" "audit_seq sample_policy = 0" "last_utcnow sample_policy = Some (wall stuck_clock 0)"
  by (simp_all add: sample_policy_def sample_graph_def empty_engine_def)

lemma sample_policy_ok: "audit_ok sample_policy" "clock_past sample_now sample_policy" "ticking 0 sample_policy"
  using sample_clock by (simp_all add: audit_ok_def) (simp_all add: clock_past_def sane_clock_def sample_policy_def ticking_def stamp_def)

lemma sample_instant: "\<exists>clock. read_now (PStr sample_now) = Inr clock"
proof -
  let ?s = "strftime (wall stuck_clock 0)"
  note parts = strftime_parts [OF stuck_wall] and iso = fromisoformat_parts [OF stuck_wall(1)]
  have l: "last ?s = 90" "?s \<noteq> []" unfolding parts by simp_all
  have "\<not> isl (parse_ts ?s)" using l iso unfolding parts by (simp add: parse_ts_def butlast_append)
  then show ?thesis by (cases "parse_ts ?s") (simp_all add: read_now_def sample_now_def)
qed

lemma sample_project [simp]: "require_project sample_pe (pkey ''p'') = ret ()"
  by (simp add: require_project_def sample_pe_def fun_eq_iff bnd_lift)

lemma sample_config: "project_policy s = [] \<Longrightarrow> project_config sample_pe (pkey ''p'') s = (Inr (PDict DEFAULT_CONFIG), s)"
  by (simp add: project_config_def run_simps config_row_of_def)

lemma sample_grant_live: "grant_active clock sample_grant = Inr True"
proof -
  have "\<not> blank (lit ''ann'')" by (simp add: blank_def strip_def lit_Cons py_space_def)
  then show ?thesis by (simp add: grant_active_def grant_sound_def grant_expired_def sample_grant_def MVP_MAX_AUTONOMY_def)
qed

lemma sample_active:
  assumes "grants s = [sample_grant\<lparr>gr_revoked_at := r\<rparr>]"
  shows "active_grants sample_pe (pkey ''p'') (PStr sample_now) s = (Inr (if r = None then [sample_grant] else []), s)"
proof -
  obtain clock where "read_now (PStr sample_now) = Inr clock" using sample_instant by blast
  moreover have "r = None \<Longrightarrow> sample_grant\<lparr>gr_revoked_at := r\<rparr> = sample_grant" "gr_project_id sample_grant = lit ''p''"
    by (simp_all add: sample_grant_def)
  ultimately show ?thesis using assms by (simp add: active_grants_def run_simps sample_grant_live)
qed

lemma sample_texts:
  "e \<in> {0, 1, 2} \<Longrightarrow> short (decide_detail (\<lambda>_. []) (lit ''run_verifier'') (2 \<le> e) [if 2 \<le> e then Sufficient e 2 else Insufficient e 2])"
proof -
  have "\<forall>e \<in> set [0, 1, 2 :: int].
      short (decide_detail (\<lambda>_. []) (lit ''run_verifier'') (2 \<le> e) [if 2 \<le> e then Sufficient e 2 else Insufficient e 2])"
    by code_simp
  then show "e \<in> {0, 1, 2} \<Longrightarrow> ?thesis" by auto
qed

lemma ticking_clock: "ticking k s \<Longrightarrow> k < 1000 \<Longrightarrow> clock_past sample_now s"
  using stuck_wall strftime_stamp [of k]
  by (auto simp: ticking_def clock_past_def sane_clock_def sample_now_def stamp_def stuck_clock_def valid_datetime_def
      valid_date_def days_in_month_def)

text \<open>The decision on running a verifier, which needs level 2.\<close>

lemma sample_decide_at:
  assumes s: "grants s = [sample_grant\<lparr>gr_revoked_at := r\<rparr>]" "project_policy s = []" "audit_ok s" "ticking k s" "k < 900"
    and c: "ceiling_of (map dg_ceiling (live_downgrades (pkey ''p'') s)) = c" "c \<in> {None, Some 1}"
  shows "\<exists>d t. decide (\<lambda>_. []) sample_pe (pkey ''p'') (pkey ''run_verifier'') (pkey ''reversible'') (PInt 1) (PInt 0) (PInt 1)
     PNone (PStr sample_now) s = (Inr d, t) \<and> d_allow d = (r = None \<and> c = None) \<and> d_required_level d = 2"
proof -
  let ?gs = "if r = None then [sample_grant] else []"
  obtain e where e: "e = (if r = None then case c of None \<Rightarrow> 2 | Some _ \<Rightarrow> 1 else 0 :: int)" "e \<in> {0, 1, 2}" by (simp split: option.split)
  note g = sample_active [OF s(1)] and cfg = sample_config [OF s(2)]
  have ceil: "active_downgrade_ceiling sample_pe (pkey ''p'') s = (Inr c, s)"
    using c(1) by (simp add: active_downgrade_ceiling_def run_simps live_downgrades_def)
  have cap: "config_level (PDict DEFAULT_CONFIG) = Inr (PInt 2)" by code_simp
  have lev: "granted_level (applicable PNone ?gs) = (if r = None then 2 else 0)"
    by (simp add: granted_level_def applicable_def scope_matches_def sample_grant_def)
  have mx: "pe_tenant_max sample_pe = 3" by (simp add: sample_pe_def)
  have eff: "effective_level sample_pe (pkey ''p'') (PStr sample_now) PNone s = (Inr e, s)"
    using e c(2) by (auto simp: effective_level_def bnd_eq_Inr cfg g ceil cap lift_run ret_run py_int_def lev mx)
  have k: "map_of ACTION_CLASSES (lit ''run_verifier'') = Some 2" "lit ''reversible'' \<noteq> lit ''irreversible''" by code_simp+
  have le: "rnd64 (4 / 10) \<le> 1" "rnd64 (3 / 10) \<le> 1" by (simp_all add: rnd64_le_1)
  have q: "required_level (lit ''run_verifier'') (lit ''reversible'') 1 0 1 = (2, [])"
    using k le by (simp add: required_level_def Let_def not_less)
  have v: "in_vocabulary (pkey ''reversible'') REVERSIBILITY_CLASSES" by code_simp
  let ?verdict = "[if 2 \<le> e then Sufficient e 2 else Insufficient e 2]"
  have j: "judge [] (lit ''run_verifier'') 2 e PNone ?gs (applicable PNone ?gs) = (2 \<le> e, ?verdict)"
    by (simp add: judge_def ignored_scopes_def applicable_def scope_matches_def sample_grant_def)
  let ?text = "decide_detail (\<lambda>_. []) (lit ''run_verifier'') (2 \<le> e) ?verdict"
  have p: "short (lit ''policy-engine'')" "short (lit ''policy.decide'')" "short (lit ''p'')" by code_simp+
  obtain n u where u: "utcnow s = (Inr n, u)" "ticking (Suc k) u" "tables u = tables s"
    using ticking_utcnow [OF s(4)] s(5) by auto
  have "audit_ok u" using s(3) tables_store [OF u(3)] by (simp add: audit_ok_def)
  then obtain t where "audit (pkey ''policy-engine'') (pkey ''policy.decide'') (pkey ''p'') PNone PNone PNone (PStr ?text) u = (Inr (), t)"
    using audit_short [OF u(2) _ _ p] sample_texts [OF e(2)] s(5) by auto
  then show ?thesis
    using v q g eff u(1) j cap e c(2)
    by (auto simp: decide_def bnd_lift bnd_chk bnd_eq_Inr cfg bnd_ret lift_run ret_run validate_probability_def unit_number_def natural_def)
qed

theorem decide_implements_policy_witness:
  "\<exists>d t c cap clock. decide (\<lambda>_. []) sample_pe (pkey ''p'') (pkey ''run_verifier'') (pkey ''reversible'') (PInt 1) (PInt 0) (PInt 1)
     PNone (PStr sample_now) sample_policy = (Inr d, t) \<and> permitted sample_pe (pkey ''p'') clock c cap (lit ''run_verifier'') 2 PNone sample_policy"
proof -
  have g: "sample_grant\<lparr>gr_revoked_at := None\<rparr> = sample_grant" by (simp add: sample_grant_def)
  obtain d t where d: "decide (\<lambda>_. []) sample_pe (pkey ''p'') (pkey ''run_verifier'') (pkey ''reversible'') (PInt 1) (PInt 0) (PInt 1)
     PNone (PStr sample_now) sample_policy = (Inr d, t)" "d_allow d" "d_required_level d = 2"
    using sample_decide_at [of sample_policy None 0 None] sample_policy_ok g by (auto simp: live_downgrades_def ceiling_of_def)
  from decide_implements_policy [OF d(1) sample_policy_ok(2)] d show ?thesis by auto
qed

lemma sample_actor: "validate_actor (pkey ''ann'') = Inr (lit ''ann'')"
  by (simp add: validate_actor_def blank_def strip_def lit_Cons py_space_def PROJECT_NAME_MAX_LENGTH_def non_ijson_def
      unsafe_char_def UNSAFE_HUMAN_CONTROLS_def)

lemma sample_downgrade:
  obtains t where "downgrade sample_pe (pkey ''p'') (pkey ''migration'') (PInt 1) (pkey ''ann'') sample_policy = (Inr (), t)"
    "grants t = [sample_grant]" "project_policy t = []" "audit_ok t" "ticking 2 t" "map dg_ceiling (live_downgrades (pkey ''p'') t) = [PInt 1]"
proof -
  obtain n u where u: "utcnow (enter sample_policy) = (Inr n, u)" "ticking 1 u" "tables u = tables sample_policy"
    using ticking_utcnow [of 0 "enter sample_policy"] sample_policy_ok(3) by auto
  define v where "v = u\<lparr>downgrade_seq := Suc (downgrade_seq u), downgrades := downgrades u @ [\<lparr>dg_seq = Suc (downgrade_seq u), dg_project_id = lit ''p'',
            dg_ceiling = PInt 1, dg_trigger = lit ''migration'', dg_at = n, dg_cleared_at = None, dg_cleared_by = None\<rparr>]\<rparr>"
  have v: "ticking 1 v" "audit_ok v" "grants v = [sample_grant]" "project_policy v = []" "map dg_ceiling (live_downgrades (pkey ''p'') v) = [PInt 1]"
    using u(2) sample_policy_ok(1) tables_store [OF u(3)] tables_policy [OF u(3)]
    by (simp_all add: v_def ticking_def audit_ok_def live_downgrades_def)
  have p: "short (lit ''ann'')" "short (lit ''policy.downgrade'')" "short (lit ''p'')" "short (lit ''migration'' @ lit '' -> ceiling '' @ str_of_int 1)"
    by code_simp+
  obtain t where t: "audit (pkey ''ann'') (pkey ''policy.downgrade'') (pkey ''p'') PNone PNone PNone
         (PStr (lit ''migration'' @ lit '' -> ceiling '' @ str_of_int 1)) v = (Inr (), t)"
    using audit_short [OF v(1) _ v(2) p(1-3) disjI2 [OF p(4)]] by auto
  have m: "in_vocabulary (pkey ''migration'') DOWNGRADE_TRIGGERS" by code_simp
  have run: "downgrade sample_pe (pkey ''p'') (pkey ''migration'') (PInt 1) (pkey ''ann'') sample_policy = (Inr (), leave sample_policy t)"
    using t u(1) unfolding v_def
    by (simp add: downgrade_def bnd_ret_eq bnd_chk bnd_lift m sample_actor check_level_def MVP_MAX_AUTONOMY_def transaction_eq_Inr bnd_eq_Inr wr_run)
  have "store_st.more t = store_st.more v" using audit_run [OF t] by (auto simp: audited_def)
  then have "project_policy t = project_policy v" by (cases t; cases v) simp
  moreover have "grants t = grants v" "downgrades t = downgrades v" using audited_policy [OF t] by auto
  moreover have "ticking 2 t" using audit_ticking [OF t v(1)] by (simp add: numeral_2_eq_2)
  moreover have "audit_ok (leave sample_policy t)"
    using keepsD [OF engine_audit.keeps_downgrade run] sample_policy_ok(1) by (simp add: kept_def)
  ultimately show ?thesis
    using v(3-5) tables_policy [of "leave sample_policy t" t]
    by (intro that [OF run]) (simp_all add: live_downgrades_def)
qed

theorem downgrade_binds_until_cleared_witness:
  "\<exists>t d u. downgrade sample_pe (pkey ''p'') (pkey ''migration'') (PInt 1) (pkey ''ann'') sample_policy = (Inr (), t)
     \<and> decide (\<lambda>_. []) sample_pe (pkey ''p'') (pkey ''run_verifier'') (pkey ''reversible'') (PInt 1) (PInt 0) (PInt 1)
         PNone (PStr sample_now) t = (Inr d, u) \<and> \<not> d_allow d"
proof -
  obtain t where t: "downgrade sample_pe (pkey ''p'') (pkey ''migration'') (PInt 1) (pkey ''ann'') sample_policy = (Inr (), t)"
     "grants t = [sample_grant]" "project_policy t = []" "audit_ok t" "ticking 2 t" "map dg_ceiling (live_downgrades (pkey ''p'') t) = [PInt 1]"
    by (rule sample_downgrade)
  have g: "sample_grant\<lparr>gr_revoked_at := None\<rparr> = sample_grant" by (simp add: sample_grant_def)
  obtain d u where d: "decide (\<lambda>_. []) sample_pe (pkey ''p'') (pkey ''run_verifier'') (pkey ''reversible'') (PInt 1) (PInt 0) (PInt 1)
         PNone (PStr sample_now) t = (Inr d, u)" "d_required_level d = 2"
    using sample_decide_at [of t None 2 "Some 1"] t g by (auto simp: ceiling_of_def MVP_MAX_AUTONOMY_def)
  have "clock_past sample_now t" using ticking_clock [OF t(5)] by simp
  then have "d_allow d \<Longrightarrow> d_required_level d \<le> max 1 0"
    using downgrade_binds_until_cleared [OF t(1), of "[]"] d(1) by simp
  then show ?thesis using t(1) d by auto
qed

lemma sample_revoke:
  obtains t r where "revoke sample_pe (pkey ''grt_1'') (pkey ''ann'') (PStr []) sample_policy = (Inr (), t)"
    "grants t = [sample_grant\<lparr>gr_revoked_at := Some r\<rparr>]" "project_policy t = []" "audit_ok t" "ticking 2 t" "live_downgrades (pkey ''p'') t = []"
proof -
  obtain n u where u: "utcnow (enter sample_policy) = (Inr n, u)" "ticking 1 u" "tables u = tables sample_policy"
    using ticking_utcnow [of 0 "enter sample_policy"] sample_policy_ok(3) by auto
  have id: "gr_id sample_grant = lit ''grt_1''" "gr_project_id sample_grant = lit ''p''" by (simp_all add: sample_grant_def)
  define v where "v = u\<lparr>grants := map (\<lambda>g. if gr_id g = lit ''grt_1'' then g\<lparr>gr_revoked_at := Some n\<rparr> else g) (grants u)\<rparr>"
  have v: "ticking 1 v" "audit_ok v" "grants v = [sample_grant\<lparr>gr_revoked_at := Some n\<rparr>]" "project_policy v = []" "downgrades v = []"
    using u(2) sample_policy_ok(1) tables_store [OF u(3)] tables_policy [OF u(3)] id
    by (simp_all add: v_def ticking_def audit_ok_def)
  have p: "short (lit ''ann'')" "short (lit ''policy.revoke'')" "short (lit ''grt_1'')" by code_simp+
  obtain t where t: "audit (pkey ''ann'') (pkey ''policy.revoke'') (pkey ''grt_1'') PNone PNone PNone (PStr []) v = (Inr (), t)"
    using audit_short [OF v(1) _ v(2) p disjI1 [OF refl]] by auto
  have pid: "PUBLIC_IDENTIFIER (lit ''grt_1'')" by code_simp
  have run: "revoke sample_pe (pkey ''grt_1'') (pkey ''ann'') (PStr []) sample_policy = (Inr (), leave sample_policy t)"
    using t u(1) id tables_policy(1) [of "enter sample_policy" sample_policy] unfolding v_def
    by (simp add: revoke_def bnd_ret_eq bnd_chk bnd_lift sample_actor pid transaction_eq_Inr bnd_eq_Inr wr_run rd_run truthy.simps)
  have "store_st.more t = store_st.more v" using audit_run [OF t] by (auto simp: audited_def)
  then have "project_policy t = project_policy v" by (cases t; cases v) simp
  moreover have "grants t = grants v" "downgrades t = downgrades v" using audited_policy [OF t] by auto
  moreover have "ticking 2 t" using audit_ticking [OF t v(1)] by (simp add: numeral_2_eq_2)
  moreover have "audit_ok (leave sample_policy t)"
    using keepsD [OF engine_audit.keeps_revoke run] sample_policy_ok(1) by (simp add: kept_def)
  ultimately show ?thesis
    using v(3-5) tables_policy [of "leave sample_policy t" t]
    by (intro that [OF run]) (simp_all add: live_downgrades_def)
qed

theorem revocation_is_final_witness:
  "\<exists>t d u. revoke sample_pe (pkey ''grt_1'') (pkey ''ann'') (PStr []) sample_policy = (Inr (), t)
     \<and> decide (\<lambda>_. []) sample_pe (pkey ''p'') (pkey ''run_verifier'') (pkey ''reversible'') (PInt 1) (PInt 0) (PInt 1)
         PNone (PStr sample_now) t = (Inr d, u) \<and> lit ''grt_1'' \<notin> set (d_applicable_grant_ids d)"
proof -
  obtain t r where t: "revoke sample_pe (pkey ''grt_1'') (pkey ''ann'') (PStr []) sample_policy = (Inr (), t)"
    "grants t = [sample_grant\<lparr>gr_revoked_at := Some r\<rparr>]" "project_policy t = []" "audit_ok t" "ticking 2 t" "live_downgrades (pkey ''p'') t = []"
    by (rule sample_revoke)
  obtain d u where d: "decide (\<lambda>_. []) sample_pe (pkey ''p'') (pkey ''run_verifier'') (pkey ''reversible'') (PInt 1) (PInt 0) (PInt 1)
         PNone (PStr sample_now) t = (Inr d, u)"
    using sample_decide_at [of t "Some r" 2 None] t by (auto simp: ceiling_of_def)
  have "clock_past sample_now t" using ticking_clock [OF t(5)] by simp
  then show ?thesis
    using revocation_is_final [OF t(1), of "\<lambda>_. []" sample_pe "pkey ''p''" "lit ''run_verifier''" _ _ _ _ _ _ "\<lambda>_ _. True" "[]"] t(1) d by auto
qed

theorem decision_is_recorded_witness:
  "\<exists>d t. decide (\<lambda>_. []) sample_pe (pkey ''p'') (pkey ''run_verifier'') (pkey ''reversible'') (PInt 1) (PInt 0) (PInt 1)
     PNone (PStr sample_now) sample_policy = (Inr d, t) \<and> length (audit_log t) = 1"
proof -
  obtain d t where d: "decide (\<lambda>_. []) sample_pe (pkey ''p'') (pkey ''run_verifier'') (pkey ''reversible'') (PInt 1) (PInt 0) (PInt 1)
         PNone (PStr sample_now) sample_policy = (Inr d, t)"
    using sample_decide_at [of sample_policy None 0 None] sample_policy_ok by (auto simp: live_downgrades_def ceiling_of_def sample_grant_def)
  have "length (audit_log t) = 1" using decision_is_recorded [OF d sample_policy_ok(2)] by auto
  with d show ?thesis by blast
qed

theorem trusted_apps_normal_form_witness:
  "\<exists>apps. normalise_trusted_apps (PList apps) = Inr apps \<and> length apps = 1"
proof -
  let ?slug = "pkey '' ci ''"
  have k: "lit ''slug'' \<noteq> lit ''app_id''" "lit ''app_id'' \<noteq> lit ''slug''" by code_simp+
  have "strip (lit '' ci '') = lit ''ci''" "strip (lit ''ci'') = lit ''ci''" "lit ''ci'' \<noteq> []"
    by (simp_all add: strip_def lit_Cons py_space_def)
  then have "normalise_trusted_apps (PList [PDict [(pkey ''app_id'', PInt 7), (pkey ''slug'', ?slug)], PDict [(pkey ''slug'', pkey ''ci''), (pkey ''app_id'', PInt 7)]])
      = Inr [PDict [(pkey ''app_id'', PInt 7), (pkey ''slug'', pkey ''ci'')]]"
    using k by (simp add: normalise_trusted_apps_def dget_none_def Let_def APP_CONFIG_KEYS_def blank_def)
  from trusted_apps_normal_form [OF this] show ?thesis
    by (intro exI [of _ "[PDict [(pkey ''app_id'', PInt 7), (pkey ''slug'', pkey ''ci'')]]"]) simp
qed

end
