(* ===== verification/Lamport.thy ===== *)
theory Lamport
  imports Core_Sign
begin

section \<open>lamport.py: one-time signatures a stranger can check\<close>

text \<open>
  Lamport signatures over the computed SHA-256: a key pair is 256 pairs of random blocks and
  their digests, a signature reveals one block of each pair. Keys travel through the code as
  lists of tuples of \<open>bytes\<close> and through documents as lists of lists of hexadecimal
  strings; \<open>key_pairs\<close> and \<open>decode_pairs\<close> are the shape checks of the two forms. What
  \<open>secrets.token_bytes\<close> returns is given, \<open>entropy\<close>, and read in order. The set of
  registered fingerprints is a list, of which only membership counts; a \<open>set\<close> passed for a
  list of fingerprints is the list of its elements.
\<close>

subsection \<open>Keys\<close>

definition LAMPORT_ALGORITHM :: pstr where
  "LAMPORT_ALGORITHM = lit ''lamport-sha256/1''"

abbreviation BITS :: nat where
  "BITS \<equiv> 256"

abbreviation BLOCK :: nat where
  "BLOCK \<equiv> 32"

type_synonym block_pair = "nat list \<times> nat list"

fun block_of :: "pyval \<Rightarrow> nat list option" where
  "block_of (PBytes b) = (if length b = BLOCK then Some b else None)"
| "block_of _ = None"

fun pair_of :: "pyval \<Rightarrow> block_pair option" where
  "pair_of (PTuple [a, b]) = (case (block_of a, block_of b) of (Some x, Some y) \<Rightarrow> Some (x, y) | _ \<Rightarrow> None)"
| "pair_of _ = None"

fun all_of :: "('a \<Rightarrow> 'b option) \<Rightarrow> 'a list \<Rightarrow> 'b list option" where
  "all_of f [] = Some []"
| "all_of f (x # xs) = (case f x of None \<Rightarrow> None | Some y \<Rightarrow> map_option ((#) y) (all_of f xs))"

text \<open>The condition on a key repeated in \<open>fingerprint\<close>, \<open>sign\<close> and \<open>verify\<close>, with the
  pairs it holds.\<close>

fun key_pairs :: "pyval \<Rightarrow> block_pair list option" where
  "key_pairs (PList ps) = (if length ps = BITS then all_of pair_of ps else None)"
| "key_pairs _ = None"

fun revealed_blocks :: "pyval \<Rightarrow> nat list list option" where
  "revealed_blocks (PList bs) = (if length bs = BITS then all_of block_of bs else None)"
| "revealed_blocks _ = None"

definition bytes_key :: "block_pair list \<Rightarrow> pyval" where
  "bytes_key ps = PList (map (\<lambda>(a, b). PTuple [PBytes a, PBytes b]) ps)"

definition hash_pair :: "block_pair \<Rightarrow> block_pair" where
  "hash_pair p = (sha256 (fst p), sha256 (snd p))"

definition flat_key :: "block_pair list \<Rightarrow> nat list" where
  "flat_key ps = concat (map (\<lambda>(a, b). a @ b) ps)"

definition fingerprint :: "pyval \<Rightarrow> exn + pstr" where
  "fingerprint public = (case key_pairs public of
     None \<Rightarrow> Inl ValueError | Some ps \<Rightarrow> Inr (sha256_bytes_hex (flat_key ps)))"

subsection \<open>Signing and verifying bytes\<close>

text \<open>\<open>(byte >> (7 - i)) & 1\<close> for \<open>i\<close> from 0 to 7, for each byte.\<close>

definition byte_bits :: "nat \<Rightarrow> nat list" where
  "byte_bits b = map (\<lambda>i. b div 2 ^ (7 - i) mod 2) [0..<8]"

definition message_bits :: "nat list \<Rightarrow> nat list" where
  "message_bits digest = concat (map byte_bits digest)"

definition side :: "nat \<Rightarrow> 'a \<times> 'a \<Rightarrow> 'a" where
  "side b p = (if b = 0 then fst p else snd p)"

definition sign_bytes :: "pyval \<Rightarrow> pyval \<Rightarrow> exn + nat list list" where
  "sign_bytes private message = (case (message, key_pairs private) of
     (PBytes m, Some ps) \<Rightarrow> Inr (map2 side (message_bits (sha256 m)) ps)
   | _ \<Rightarrow> Inl ValueError)"

definition verify_bytes :: "pyval \<Rightarrow> pyval \<Rightarrow> pyval \<Rightarrow> bool" where
  "verify_bytes public message signature = (case (message, revealed_blocks signature, key_pairs public) of
     (PBytes m, Some blocks, Some ps) \<Rightarrow>
       list_all (\<lambda>(b, block, p). sha256 block = side b p) (zip (message_bits (sha256 m)) (zip blocks ps))
   | _ \<Rightarrow> False)"

subsection \<open>Keys and signatures in documents\<close>

definition hex_block :: "pyval \<Rightarrow> nat list option" where
  "hex_block v = (case v of PStr s \<Rightarrow> if length s = 64 \<and> list_all is_hex s then Some (fromhex s) else None | _ \<Rightarrow> None)"

fun hex_pair :: "pyval \<Rightarrow> block_pair option" where
  "hex_pair (PList [a, b]) = (case (hex_block a, hex_block b) of (Some x, Some y) \<Rightarrow> Some (x, y) | _ \<Rightarrow> None)"
| "hex_pair _ = None"

definition decode_pairs :: "pyval \<Rightarrow> exn + block_pair list" where
  "decode_pairs v = (case v of
     PList ps \<Rightarrow> require (length ps = BITS) ValueError
       (case all_of hex_pair ps of None \<Rightarrow> Inl ValueError | Some qs \<Rightarrow> Inr qs)
   | _ \<Rightarrow> Inl ValueError)"

definition decode_blocks :: "pyval \<Rightarrow> exn + nat list list" where
  "decode_blocks v = (case v of
     PList bs \<Rightarrow> require (length bs = BITS) ValueError
       (case all_of hex_block bs of None \<Rightarrow> Inl ValueError | Some ds \<Rightarrow> Inr ds)
   | _ \<Rightarrow> Inl ValueError)"

definition encode_pairs :: "block_pair list \<Rightarrow> pyval" where
  "encode_pairs ps = PList (map (\<lambda>(a, b). PList [PStr (hexdigest a), PStr (hexdigest b)]) ps)"

definition encode_blocks :: "nat list list \<Rightarrow> pyval" where
  "encode_blocks bs = PList (map (\<lambda>b. PStr (hexdigest b)) bs)"

subsection \<open>Fingerprints\<close>

fun fingerprint_text :: "pyval \<Rightarrow> bool" where
  "fingerprint_text (PStr s) = DIGEST_RE s"
| "fingerprint_text _ = False"

definition normalize_fingerprints :: "bool \<Rightarrow> pyval \<Rightarrow> exn + pstr list" where
  "normalize_fingerprints allow_none values =
     (let elements = (\<lambda>vs. require (list_all py_hashable vs) TypeError
            (require (list_all fingerprint_text vs) ValueError (Inr (map text_of vs))))
      in case values of
           PNone \<Rightarrow> if allow_none then Inr [] else Inl ValueError
         | PList vs \<Rightarrow> elements vs
         | PTuple vs \<Rightarrow> elements vs
         | _ \<Rightarrow> Inl ValueError)"

definition SIGNATURE_FIELDS :: "pyval list" where
  "SIGNATURE_FIELDS = [pkey ''key_id'', pkey ''algorithm'', pkey ''fingerprint'', pkey ''public_key'', pkey ''value'']"

fun signature_shape :: "pyval \<Rightarrow> bool" where
  "signature_shape (PDict sig) \<longleftrightarrow> set (map fst sig) = set SIGNATURE_FIELDS
     \<and> nonempty_string (dget_none sig (lit ''key_id''))
     \<and> dget_none sig (lit ''algorithm'') = PStr LAMPORT_ALGORITHM
     \<and> fingerprint_text (dget_none sig (lit ''fingerprint''))"
| "signature_shape _ \<longleftrightarrow> False"

subsection \<open>The signer\<close>

record lamport_signer =
  lam_key_id :: pstr
  issued_fingerprints :: "pstr list"
  registered_fingerprints :: "pstr list"
  entropy :: "nat \<Rightarrow> nat list"
  blocks_drawn :: nat

definition make_lamport_signer :: "(nat \<Rightarrow> nat list) \<Rightarrow> nat \<Rightarrow> pyval \<Rightarrow> pyval \<Rightarrow> exn + lamport_signer" where
  "make_lamport_signer ent n key_id registered =
     rbind (validate_human_text 256 key_id) (\<lambda>k.
     rbind (normalize_fingerprints True registered) (\<lambda>fps. Inr
       \<lparr>lam_key_id = k, issued_fingerprints = [], registered_fingerprints = fps, entropy = ent, blocks_drawn = n\<rparr>))"

definition register :: "pyval \<Rightarrow> (lamport_signer, unit) op" where
  "register value =
     bnd (lift (normalize_fingerprints False (PList [value]))) (\<lambda>fps.
     wr (\<lambda>g. g\<lparr>registered_fingerprints := fps @ registered_fingerprints g\<rparr>))"

definition generate_keypair :: "(lamport_signer, block_pair list \<times> block_pair list) op" where
  "generate_keypair = (\<lambda>g.
     let n = blocks_drawn g; private = map (\<lambda>i. (entropy g (n + 2 * i), entropy g (n + 2 * i + 1))) [0..<BITS]
     in (Inr (private, map hash_pair private), g\<lparr>blocks_drawn := n + 2 * BITS\<rparr>))"

definition derive_fingerprint :: "pyval \<Rightarrow> exn + pstr option" where
  "derive_fingerprint sig = (case sig of
     PDict d \<Rightarrow> if signature_shape sig
       then (case decode_pairs (dget_none d (lit ''public_key'')) of
           Inl e \<Rightarrow> Inr None
         | Inr public \<Rightarrow> rbind (fingerprint (bytes_key public)) (\<lambda>fp. Inr (Some fp)))
       else Inr None
   | _ \<Rightarrow> Inr None)"

text \<open>\<open>canonical_json(body).encode("utf-8")\<close> of an object without its signature, every
  exception it can raise being caught by the callers.\<close>

definition signed_message :: "pydict \<Rightarrow> exn + nat list" where
  "signed_message obj = rbind (canonical_json (PDict (unsigned obj))) utf8"

definition lamport_sign :: "pyval \<Rightarrow> (lamport_signer, pydict) op" where
  "lamport_sign v = (case v of
     PDict obj \<Rightarrow>
       bnd (lift (rcatch (signed_message obj) value_like (\<lambda>_. Inl ValueError))) (\<lambda>message.
       bnd generate_keypair (\<lambda>(private, public).
       bnd (lift (fingerprint (bytes_key public))) (\<lambda>fp.
       bnd (wr (\<lambda>g. g\<lparr>issued_fingerprints := issued_fingerprints g @ [fp],
                     registered_fingerprints := fp # registered_fingerprints g\<rparr>)) (\<lambda>_.
       bnd (lift (sign_bytes (bytes_key private) (PBytes message))) (\<lambda>blocks.
       bnd (rd lam_key_id) (\<lambda>k. ret
         [(pkey ''key_id'', PStr k), (pkey ''algorithm'', PStr LAMPORT_ALGORITHM), (pkey ''fingerprint'', PStr fp),
          (pkey ''public_key'', encode_pairs public), (pkey ''value'', encode_blocks blocks)]))))))
   | _ \<Rightarrow> fail ValueError)"

definition lamport_verify :: "pyval \<Rightarrow> exn + bool" where
  "lamport_verify v = (case v of
     PDict obj \<Rightarrow> (case dget_none obj (lit ''signature'') of
         PDict sig \<Rightarrow> if signature_shape (PDict sig)
           then (case (decode_pairs (dget_none sig (lit ''public_key'')), decode_blocks (dget_none sig (lit ''value''))) of
               (Inr public, Inr blocks) \<Rightarrow> rcatch
                  (rbind (signed_message obj) (\<lambda>message.
                     Inr (verify_bytes (bytes_key public) (PBytes message) (PList (map PBytes blocks)))))
                  value_like (\<lambda>_. Inr False)
             | _ \<Rightarrow> Inr False)
           else Inr False
       | _ \<Rightarrow> Inr False)
   | _ \<Rightarrow> Inr False)"

subsection \<open>Stranger verification\<close>

datatype envelope_fault =
    NotAnObject
  | MalformedShape
  | MalformedSignature
  | DeclaredFingerprintDiffers
  | MalformedBody
  | ContentNotCovered pstr
  | KeyNotRegistered pstr

datatype envelope_report = ValidEnvelope pstr | InvalidEnvelope envelope_fault

definition check_envelope :: "pstr list \<Rightarrow> pydict \<Rightarrow> pydict \<Rightarrow> exn + envelope_report" where
  "check_envelope expected obj sig =
     (case (decode_pairs (dget_none sig (lit ''public_key'')), decode_blocks (dget_none sig (lit ''value''))) of
        (Inr public, Inr blocks) \<Rightarrow>
          rbind (fingerprint (bytes_key public)) (\<lambda>actual.
          if dget_none sig (lit ''fingerprint'') \<noteq> PStr actual then Inr (InvalidEnvelope DeclaredFingerprintDiffers)
          else (case signed_message obj of
              Inl e \<Rightarrow> if value_like e then Inr (InvalidEnvelope MalformedBody) else Inl e
            | Inr message \<Rightarrow> Inr (
                if \<not> verify_bytes (bytes_key public) (PBytes message) (PList (map PBytes blocks))
                  then InvalidEnvelope (ContentNotCovered actual)
                else if actual \<notin> set expected then InvalidEnvelope (KeyNotRegistered actual)
                else ValidEnvelope actual)))
      | _ \<Rightarrow> Inr (InvalidEnvelope MalformedSignature))"

definition verify_envelope_with :: "pyval \<Rightarrow> pyval \<Rightarrow> exn + envelope_report" where
  "verify_envelope_with v expected_fingerprints =
     rbind (normalize_fingerprints False expected_fingerprints) (\<lambda>expected.
     require (expected \<noteq> []) UnregisteredKeyError
     (case v of
        PDict obj \<Rightarrow> (case dget_none obj (lit ''signature'') of
            PDict sig \<Rightarrow> if signature_shape (PDict sig) then check_envelope expected obj sig
              else Inr (InvalidEnvelope MalformedShape)
          | _ \<Rightarrow> Inr (InvalidEnvelope MalformedShape))
      | _ \<Rightarrow> Inr (InvalidEnvelope NotAnObject)))"

end
