(* ===== verification/Lamport_Props.thy ===== *)
theory Lamport_Props
  imports Lamport
begin

section \<open>What a one-time signature proves\<close>

text \<open>
  A fresh signature verifies and is accepted under its own fingerprint, and an accepted
  envelope with another body than the signed one contains a block that the signer never
  revealed, or a SHA-256 collision. The random blocks are assumed to be 32 bytes each, as
  \<open>secrets.token_bytes\<close> documents, and nothing else.
\<close>

definition byte_source :: "(nat \<Rightarrow> nat list) \<Rightarrow> bool" where
  "byte_source ent \<longleftrightarrow> (\<forall>n. length (ent n) = BLOCK \<and> (\<forall>b \<in> set (ent n). b < 256))"

definition sound_block :: "nat list \<Rightarrow> bool" where
  "sound_block b \<longleftrightarrow> length b = BLOCK \<and> (\<forall>x \<in> set b. x < 256)"

definition sound_key :: "block_pair list \<Rightarrow> bool" where
  "sound_key ps \<longleftrightarrow> length ps = BITS \<and> (\<forall>p \<in> set ps. sound_block (fst p) \<and> sound_block (snd p))"

subsection \<open>Shapes and encodings\<close>

lemma all_of_eq_Some: "all_of f xs = Some ys \<longleftrightarrow> list_all2 (\<lambda>x y. f x = Some y) xs ys"
  by (induction xs arbitrary: ys) (auto simp: list_all2_Cons1 split: option.splits)

lemma all_of_map: "(\<And>x. x \<in> set xs \<Longrightarrow> f (g x) = Some x) \<Longrightarrow> all_of f (map g xs) = Some xs"
  by (induction xs) auto

lemma key_pairs_bytes_key: "sound_key ps \<Longrightarrow> key_pairs (bytes_key ps) = Some ps"
  by (auto simp: bytes_key_def sound_key_def sound_block_def intro!: all_of_map)

lemma revealed_blocks_bytes:
  "length bs = BITS \<Longrightarrow> (\<And>b. b \<in> set bs \<Longrightarrow> sound_block b) \<Longrightarrow> revealed_blocks (PList (map PBytes bs)) = Some bs"
  by (auto simp: sound_block_def intro!: all_of_map)

lemma hex_block_hexdigest: "sound_block b \<Longrightarrow> hex_block (PStr (hexdigest b)) = Some b"
  by (simp add: hex_block_def sound_block_def fromhex_hexdigest hexdigest_is_hex)

lemma unhex_digit_less: "is_hex c \<Longrightarrow> unhex_digit c < 16"
  by (auto simp: is_hex_def unhex_digit_def is_digit_def)

lemma fromhex_sound: "list_all is_hex s \<Longrightarrow> length s = 2 * n \<Longrightarrow> length (fromhex s) = n \<and> (\<forall>x \<in> set (fromhex s). x < 256)"
proof (induction s arbitrary: n rule: fromhex.induct)
  case (1 a b r)
  then obtain k where k: "n = Suc k" by (cases n) auto
  have "unhex_digit a < 16" "unhex_digit b < 16" using "1.prems" by (simp_all add: unhex_digit_less)
  then show ?case using 1 k by auto
qed auto

lemma hex_block_sound: "hex_block v = Some b \<Longrightarrow> sound_block b"
  using fromhex_sound [of _ BLOCK] by (auto simp: hex_block_def sound_block_def split: pyval.splits if_splits)

lemma hex_pair_sound: "hex_pair v = Some p \<Longrightarrow> sound_block (fst p) \<and> sound_block (snd p)"
  by (cases v rule: hex_pair.cases) (auto dest: hex_block_sound split: option.splits)

lemma decode_pairs_sound: "decode_pairs v = Inr ps \<Longrightarrow> sound_key ps"
proof -
  assume "decode_pairs v = Inr ps"
  then obtain vs where vs: "length vs = BITS" "list_all2 (\<lambda>x y. hex_pair x = Some y) vs ps"
    by (auto simp: decode_pairs_def all_of_eq_Some split: pyval.splits option.splits)
  then show ?thesis
    using hex_pair_sound by (auto simp: sound_key_def in_set_conv_nth list_all2_conv_all_nth simp del: split_paired_All) fastforce+
qed

lemma decode_blocks_sound: "decode_blocks v = Inr bs \<Longrightarrow> length bs = BITS \<and> (\<forall>b \<in> set bs. sound_block b)"
  by (auto simp: decode_blocks_def all_of_eq_Some list_all2_conv_all_nth in_set_conv_nth
      dest!: hex_block_sound split: pyval.splits option.splits)

lemma decode_encode_pairs: "sound_key ps \<Longrightarrow> decode_pairs (encode_pairs ps) = Inr ps"
proof -
  assume s: "sound_key ps"
  have "all_of hex_pair (map (\<lambda>(a, b). PList [PStr (hexdigest a), PStr (hexdigest b)]) ps) = Some ps"
    using s by (intro all_of_map) (auto simp: sound_key_def hex_block_hexdigest)
  then show ?thesis using s by (simp add: decode_pairs_def encode_pairs_def sound_key_def)
qed

lemma decode_encode_blocks:
  "length bs = BITS \<Longrightarrow> \<forall>b \<in> set bs. sound_block b \<Longrightarrow> decode_blocks (encode_blocks bs) = Inr bs"
proof -
  assume s: "length bs = BITS" "\<forall>b \<in> set bs. sound_block b"
  have "all_of hex_block (map (\<lambda>b. PStr (hexdigest b)) bs) = Some bs"
    using s by (intro all_of_map) (auto simp: hex_block_hexdigest)
  then show ?thesis using s by (simp add: decode_blocks_def encode_blocks_def)
qed

lemma sound_sha256: "sound_block (sha256 b)"
  by (simp add: sound_block_def sha256_bytes)

lemma sound_hash_key: "length ps = BITS \<Longrightarrow> sound_key (map hash_pair ps)"
  by (simp add: sound_key_def hash_pair_def sound_sha256)

text \<open>Concatenations of pieces of one length.\<close>

lemma concat_pieces_inject:
  assumes "concat xs = concat ys" and "length xs = length ys" and "\<forall>x \<in> set xs \<union> set ys. length x = n"
  shows "xs = ys"
proof (rule concat_injective [OF assms(1,2)])
  have "length x = length y" if "(x, y) \<in> set (zip xs ys)" for x y
    using assms(3) set_zip_leftD [OF that] set_zip_rightD [OF that] by simp
  then show "\<forall>(x, y) \<in> set (zip xs ys). length x = length y" by blast
qed

text \<open>A fingerprint names one key.\<close>

lemma flat_key_inject:
  assumes "sound_key ps" and "sound_key qs" and "flat_key ps = flat_key qs"
  shows "ps = qs"
proof -
  have l: "length ps = length qs" using assms(1,2) by (simp add: sound_key_def)
  have "map (\<lambda>(a, b). a @ b) ps = map (\<lambda>(a, b). a @ b) qs"
    using assms l by (intro concat_pieces_inject [where n = "2 * BLOCK"]) (auto simp: flat_key_def sound_key_def sound_block_def)
  note eq = this
  show ?thesis
  proof (rule nth_equalityI [OF l])
    fix i assume i: "i < length ps"
    have s: "ps ! i \<in> set ps" "qs ! i \<in> set qs" using i l by simp_all
    have "fst (ps ! i) @ snd (ps ! i) = fst (qs ! i) @ snd (qs ! i)"
      using arg_cong [OF eq, of "\<lambda>xs. xs ! i"] i l by (simp add: case_prod_unfold)
    moreover have "length (fst (ps ! i)) = length (fst (qs ! i))"
      using s assms(1,2) by (simp add: sound_key_def sound_block_def)
    ultimately show "ps ! i = qs ! i" by (simp add: prod_eq_iff)
  qed
qed

subsection \<open>Message bits\<close>

lemma length_message_bits [simp]: "length (message_bits d) = 8 * length d"
  by (simp add: message_bits_def length_concat_const [where n = 8] byte_bits_def)

lemma message_bits_bit: "x \<in> set (message_bits d) \<Longrightarrow> x = 0 \<or> x = 1"
  by (auto simp: message_bits_def byte_bits_def)

lemma byte_of_bits:
  assumes "b < 256"
  shows "foldl (\<lambda>n x. 2 * n + x) 0 (byte_bits b) = b"
proof -
  have step: "2 * (b div (c * 2)) + b div c mod 2 = b div c" for c
    by (simp add: div_mult2_eq)
  have "b div 128 mod 2 = b div 128" using assms by simp
  then show ?thesis
    using step [of 1] step [of 2] step [of 4] step [of 8] step [of 16] step [of 32] step [of 64]
    by (simp add: byte_bits_def upt_rec)
qed

lemma message_bits_inject:
  assumes "length d = length e" and "\<forall>b \<in> set d \<union> set e. b < 256" and "message_bits d = message_bits e"
  shows "d = e"
proof -
  have "map byte_bits d = map byte_bits e"
    using assms(1,3) by (intro concat_pieces_inject [where n = 8]) (auto simp: message_bits_def byte_bits_def)
  then have "map (foldl (\<lambda>n x. 2 * n + x) 0 \<circ> byte_bits) d = map (foldl (\<lambda>n x. 2 * n + x) 0 \<circ> byte_bits) e"
    by (metis map_map)
  moreover have "map (foldl (\<lambda>n x. 2 * n + x) 0 \<circ> byte_bits) x = x" if "\<forall>b \<in> set x. b < 256" for x
    using that by (intro map_idI) (simp add: byte_of_bits)
  ultimately show ?thesis using assms(2) by (metis UnCI)
qed

abbreviation bits_of :: "nat list \<Rightarrow> nat list" where
  "bits_of m \<equiv> message_bits (sha256 m)"

lemma bits_of_bit: "i < BITS \<Longrightarrow> bits_of m ! i = 0 \<or> bits_of m ! i = 1"
  by (rule message_bits_bit [where d = "sha256 m"]) simp

lemma bits_of_inject: "bits_of m = bits_of m' \<Longrightarrow> m \<noteq> m' \<Longrightarrow> sha256_collision m m'"
  using message_bits_inject [of "sha256 m" "sha256 m'"] sha256_bytes by (auto simp: sha256_collision_def)

subsection \<open>Bytes\<close>

lemma verify_bytes_iff:
  assumes "sound_key ps" and "length bs = BITS" and "\<forall>b \<in> set bs. sound_block b"
  shows "verify_bytes (bytes_key ps) (PBytes m) (PList (map PBytes bs))
    \<longleftrightarrow> (\<forall>i < BITS. sha256 (bs ! i) = side (bits_of m ! i) (ps ! i))"
proof -
  have r: "revealed_blocks (PList (map PBytes bs)) = Some bs" using assms by (intro revealed_blocks_bytes) auto
  have "length ps = BITS" using assms(1) by (simp add: sound_key_def)
  then show ?thesis
    using assms by (simp add: verify_bytes_def r key_pairs_bytes_key list_all_length del: revealed_blocks.simps)
qed

lemma sign_bytes_run:
  assumes "sound_key ps" and "sign_bytes (bytes_key ps) (PBytes m) = Inr blocks"
  shows "length blocks = BITS" and "i < BITS \<Longrightarrow> blocks ! i = side (bits_of m ! i) (ps ! i)"
    and "\<forall>b \<in> set blocks. sound_block b"
proof -
  have l: "length ps = BITS" and b: "blocks = map2 side (bits_of m) ps"
    using assms by (auto simp: sign_bytes_def key_pairs_bytes_key sound_key_def)
  show "length blocks = BITS" "i < BITS \<Longrightarrow> blocks ! i = side (bits_of m ! i) (ps ! i)" using l b by simp_all
  show "\<forall>b \<in> set blocks. sound_block b"
    using assms(1) b by (auto simp: sound_key_def side_def dest!: set_zip_rightD)
qed

lemma side_hash_pair: "side b (hash_pair p) = sha256 (side b p)"
  by (simp add: side_def hash_pair_def)

subsection \<open>Documents\<close>

definition fresh_key :: "lamport_signer \<Rightarrow> block_pair list" where
  "fresh_key g = map (\<lambda>i. (entropy g (blocks_drawn g + 2 * i), entropy g (blocks_drawn g + 2 * i + 1))) [0..<BITS]"

lemma sound_fresh_key: "byte_source (entropy g) \<Longrightarrow> sound_key (fresh_key g)"
  by (auto simp: byte_source_def sound_key_def sound_block_def fresh_key_def)

lemma length_fresh_key [simp]: "length (fresh_key g) = BITS"
  by (simp add: fresh_key_def)

lemma side_fresh_key:
  "i < BITS \<Longrightarrow> b \<le> 1 \<Longrightarrow> side b (fresh_key g ! i) = entropy g (blocks_drawn g + 2 * i + b)"
  by (cases b) (auto simp: fresh_key_def side_def)

lemma generate_keypair_run:
  "bnd generate_keypair k g = k (fresh_key g, map hash_pair (fresh_key g)) (g\<lparr>blocks_drawn := blocks_drawn g + 2 * BITS\<rparr>)"
  by (simp add: bnd_def generate_keypair_def fresh_key_def Let_def)

lemma lamport_sign_run:
  assumes "byte_source (entropy g)" and "lamport_sign (PDict obj) g = (Inr sig, h)"
  obtains m blocks fp where "signed_message obj = Inr m" "sign_bytes (bytes_key (fresh_key g)) (PBytes m) = Inr blocks"
    "fp = sha256_bytes_hex (flat_key (map hash_pair (fresh_key g)))"
    "sig = [(pkey ''key_id'', PStr (lam_key_id g)), (pkey ''algorithm'', PStr LAMPORT_ALGORITHM), (pkey ''fingerprint'', PStr fp),
        (pkey ''public_key'', encode_pairs (map hash_pair (fresh_key g))), (pkey ''value'', encode_blocks blocks)]"
    "issued_fingerprints h = issued_fingerprints g @ [fp]" "fp \<in> set (registered_fingerprints h)"
    "blocks_drawn h = blocks_drawn g + 2 * BITS"
proof -
  have k: "key_pairs (bytes_key (map hash_pair (fresh_key g))) = Some (map hash_pair (fresh_key g))"
    by (rule key_pairs_bytes_key [OF sound_hash_key]) (simp add: fresh_key_def)
  obtain m where m: "signed_message obj = Inr m"
    using assms(2) by (cases "signed_message obj") (auto simp: lamport_sign_def rcatch_def bnd_lift split: if_splits)
  obtain blocks where b: "sign_bytes (bytes_key (fresh_key g)) (PBytes m) = Inr blocks"
    using key_pairs_bytes_key [OF sound_fresh_key [OF assms(1)]] by (simp add: sign_bytes_def)
  show thesis
    using assms(2) k
    by (intro that [OF m b refl])
      (auto simp: lamport_sign_def m rcatch_def run_simps generate_keypair_run fingerprint_def b)
qed

lemma signature_keys [simp]:
  "dget_none [(pkey ''key_id'', k), (pkey ''algorithm'', a), (pkey ''fingerprint'', f), (pkey ''public_key'', p), (pkey ''value'', v)] (lit n)
     = (if n = ''key_id'' then k else if n = ''algorithm'' then a else if n = ''fingerprint'' then f
        else if n = ''public_key'' then p else if n = ''value'' then v else PNone)"
  by (auto simp: dget_none_def)

lemma lamport_signed_verifies:
  assumes "byte_source (entropy g)" and "sign_bytes (bytes_key (fresh_key g)) (PBytes m) = Inr blocks"
  shows "verify_bytes (bytes_key (map hash_pair (fresh_key g))) (PBytes m) (PList (map PBytes blocks))"
proof -
  note s = sound_fresh_key [OF assms(1)] and r = sign_bytes_run [OF sound_fresh_key [OF assms(1)] assms(2)]
  note l = length_fresh_key [of g]
  show ?thesis
    unfolding verify_bytes_iff [OF sound_hash_key [OF l] r(1,3)] using r(2) l by (simp add: side_hash_pair)
qed

lemma signed_message_carried: "signed_message (with_signature obj sig) = signed_message obj"
  by (simp add: signed_message_def)

text \<open>How the two verifiers judge a signature carried by an object, whichever object that is.\<close>

lemma carried_signature:
  assumes "byte_source (entropy g)" and "lam_key_id g \<noteq> []" and "lamport_sign (PDict obj) g = (Inr sig, h)"
  obtains m blocks fp where "signed_message obj = Inr m" "sign_bytes (bytes_key (fresh_key g)) (PBytes m) = Inr blocks"
    "issued_fingerprints h = issued_fingerprints g @ [fp]" "fp \<in> set (registered_fingerprints h)"
    "decode_blocks (dget_none sig (lit ''value'')) = Inr blocks"
    "\<And>obj' m'. signed_message obj' = Inr m' \<Longrightarrow> lamport_verify (PDict (with_signature obj' sig))
        = Inr (verify_bytes (bytes_key (map hash_pair (fresh_key g))) (PBytes m') (PList (map PBytes blocks)))"
    "\<And>obj' m' v fps. signed_message obj' = Inr m' \<Longrightarrow> normalize_fingerprints False v = Inr fps \<Longrightarrow> fps \<noteq> [] \<Longrightarrow>
        verify_envelope_with (PDict (with_signature obj' sig)) v
        = Inr (if \<not> verify_bytes (bytes_key (map hash_pair (fresh_key g))) (PBytes m') (PList (map PBytes blocks))
                 then InvalidEnvelope (ContentNotCovered fp)
               else if fp \<notin> set fps then InvalidEnvelope (KeyNotRegistered fp) else ValidEnvelope fp)"
proof -
  obtain m blocks fp where r: "signed_message obj = Inr m" "sign_bytes (bytes_key (fresh_key g)) (PBytes m) = Inr blocks"
    "fp = sha256_bytes_hex (flat_key (map hash_pair (fresh_key g)))"
    "sig = [(pkey ''key_id'', PStr (lam_key_id g)), (pkey ''algorithm'', PStr LAMPORT_ALGORITHM), (pkey ''fingerprint'', PStr fp),
        (pkey ''public_key'', encode_pairs (map hash_pair (fresh_key g))), (pkey ''value'', encode_blocks blocks)]"
    "issued_fingerprints h = issued_fingerprints g @ [fp]" "fp \<in> set (registered_fingerprints h)"
    by (rule lamport_sign_run [OF assms(1,3)])
  let ?public = "map hash_pair (fresh_key g)"
  note l = length_fresh_key [of g]
  note key = sound_hash_key [OF l] and blocks = sign_bytes_run [OF sound_fresh_key [OF assms(1)] r(2)]
  have shape: "signature_shape (PDict sig)"
    using assms(2) unfolding r(4) by (simp add: SIGNATURE_FIELDS_def) (simp add: r(3))
  have dec: "decode_pairs (dget_none sig (lit ''public_key'')) = Inr ?public"
      "decode_blocks (dget_none sig (lit ''value'')) = Inr blocks" "dget_none sig (lit ''fingerprint'') = PStr fp"
    unfolding r(4) using decode_encode_pairs [OF key] decode_encode_blocks [OF blocks(1,3)] by simp_all
  have own: "dget_none (with_signature obj' sig) (lit ''signature'') = PDict sig" for obj' by (simp add: dget_none_def)
  have fp: "fingerprint (bytes_key ?public) = Inr fp" using r(3) by (simp add: fingerprint_def key_pairs_bytes_key [OF key])
  show thesis
    by (rule that [OF r(1,2,5,6) dec(2)])
      (simp_all add: lamport_verify_def verify_envelope_with_def check_envelope_def own shape dec signed_message_carried fp del: signature_shape.simps)
qed

text \<open>C36: A signature verifies: what \<open>sign\<close> returns for an object makes the signed object
  verify, the new key is issued and registered with the signer, and a stranger who was given
  fingerprints accepts the object exactly when the new one is among them.\<close>

theorem lamport_signature_accepted:
  assumes "byte_source (entropy g)" and "lam_key_id g \<noteq> []" and "lamport_sign (PDict obj) g = (Inr sig, h)"
  shows "\<exists>fp. issued_fingerprints h = issued_fingerprints g @ [fp] \<and> fp \<in> set (registered_fingerprints h)
    \<and> lamport_verify (PDict (with_signature obj sig)) = Inr True
    \<and> (\<forall>v fps. normalize_fingerprints False v = Inr fps \<and> fps \<noteq> [] \<longrightarrow>
         verify_envelope_with (PDict (with_signature obj sig)) v
           = Inr (if fp \<in> set fps then ValidEnvelope fp else InvalidEnvelope (KeyNotRegistered fp)))"
proof (rule carried_signature [OF assms])
  fix m blocks fp
  assume m: "signed_message obj = Inr m" "sign_bytes (bytes_key (fresh_key g)) (PBytes m) = Inr blocks"
    and j: "\<And>obj' m'. signed_message obj' = Inr m' \<Longrightarrow> lamport_verify (PDict (with_signature obj' sig))
        = Inr (verify_bytes (bytes_key (map hash_pair (fresh_key g))) (PBytes m') (PList (map PBytes blocks)))"
      "\<And>obj' m' v fps. signed_message obj' = Inr m' \<Longrightarrow> normalize_fingerprints False v = Inr fps \<Longrightarrow> fps \<noteq> [] \<Longrightarrow>
        verify_envelope_with (PDict (with_signature obj' sig)) v
        = Inr (if \<not> verify_bytes (bytes_key (map hash_pair (fresh_key g))) (PBytes m') (PList (map PBytes blocks))
                 then InvalidEnvelope (ContentNotCovered fp)
               else if fp \<notin> set fps then InvalidEnvelope (KeyNotRegistered fp) else ValidEnvelope fp)"
    and i: "issued_fingerprints h = issued_fingerprints g @ [fp]" "fp \<in> set (registered_fingerprints h)"
  show ?thesis
    using lamport_signed_verifies [OF assms(1) m(2)] i j(1) [OF m(1)] j(2) [OF m(1)]
    by (intro exI [of _ fp]) simp
qed

subsection \<open>Forgery\<close>

lemma valid_envelope:
  assumes "verify_envelope_with (PDict obj) v = Inr (ValidEnvelope fp)"
  obtains fps sig public blocks m where "normalize_fingerprints False v = Inr fps" "fp \<in> set fps"
    "dget_none obj (lit ''signature'') = PDict sig" "decode_pairs (dget_none sig (lit ''public_key'')) = Inr public"
    "decode_blocks (dget_none sig (lit ''value'')) = Inr blocks" "fp = sha256_bytes_hex (flat_key public)"
    "signed_message obj = Inr m" "verify_bytes (bytes_key public) (PBytes m) (PList (map PBytes blocks))"
proof -
  obtain fps sig where s: "normalize_fingerprints False v = Inr fps" "dget_none obj (lit ''signature'') = PDict sig"
      "check_envelope fps obj sig = Inr (ValidEnvelope fp)"
    using assms by (cases "dget_none obj (lit ''signature'')")
      (auto simp: verify_envelope_with_def simp del: signature_shape.simps split: if_splits)
  obtain public blocks where d: "decode_pairs (dget_none sig (lit ''public_key'')) = Inr public"
      "decode_blocks (dget_none sig (lit ''value'')) = Inr blocks"
    using s(3) by (auto simp: check_envelope_def split: sum.splits)
  have "fingerprint (bytes_key public) = Inr (sha256_bytes_hex (flat_key public))"
    using decode_pairs_sound [OF d(1)] by (simp add: fingerprint_def key_pairs_bytes_key)
  then show thesis
    using s(3) d by (cases "signed_message obj") (auto simp: check_envelope_def split: if_splits intro: that [OF s(1) _ s(2) d])
qed

text \<open>What a signature carries.\<close>

lemma lamport_sign_parts:
  assumes "byte_source (entropy g)" and "lam_key_id g \<noteq> []" and "lamport_sign (PDict obj) g = (Inr sig, h)"
    and "issued_fingerprints h = issued_fingerprints g @ [fp]"
  obtains m blocks where "signed_message obj = Inr m" "sign_bytes (bytes_key (fresh_key g)) (PBytes m) = Inr blocks"
    "decode_blocks (dget_none sig (lit ''value'')) = Inr blocks"
    "decode_pairs (dget_none sig (lit ''public_key'')) = Inr (map hash_pair (fresh_key g))"
    "fp = sha256_bytes_hex (flat_key (map hash_pair (fresh_key g)))"
proof (rule lamport_sign_run [OF assms(1,3)])
  fix m blocks fp'
  assume r: "signed_message obj = Inr m" "sign_bytes (bytes_key (fresh_key g)) (PBytes m) = Inr blocks"
    "fp' = sha256_bytes_hex (flat_key (map hash_pair (fresh_key g)))" "issued_fingerprints h = issued_fingerprints g @ [fp']"
    "sig = [(pkey ''key_id'', PStr (lam_key_id g)), (pkey ''algorithm'', PStr LAMPORT_ALGORITHM), (pkey ''fingerprint'', PStr fp'),
        (pkey ''public_key'', encode_pairs (map hash_pair (fresh_key g))), (pkey ''value'', encode_blocks blocks)]"
  note blocks = sign_bytes_run [OF sound_fresh_key [OF assms(1)] r(2)]
  have "decode_blocks (dget_none sig (lit ''value'')) = Inr blocks"
    "decode_pairs (dget_none sig (lit ''public_key'')) = Inr (map hash_pair (fresh_key g))"
    unfolding r(5) using decode_encode_pairs [OF sound_hash_key [OF length_fresh_key]] decode_encode_blocks [OF blocks(1,3)] by simp_all
  then show thesis using that [OF r(1,2)] r(3,4) assms(4) by auto
qed

text \<open>C37: Forging takes a secret: if an envelope with another body than the signed one is accepted
  under the fingerprint of a signature, then one of four things is in the two documents: the
  public keys they carry collide under SHA-256, their signed messages do, or at some position
  the forged block is the block of the private key that the signature does not reveal, or
  collides with it.\<close>

theorem lamport_forgery_needs_secret:
  assumes "byte_source (entropy g)" and "lam_key_id g \<noteq> []" and "lamport_sign (PDict obj) g = (Inr sig, h)"
    and "issued_fingerprints h = issued_fingerprints g @ [fp]"
    and "verify_envelope_with (PDict obj') v = Inr (ValidEnvelope fp)" and "signed_message obj' \<noteq> signed_message obj"
  shows "\<exists>sig' public public' shown forged m m'.
      dget_none obj' (lit ''signature'') = PDict sig' \<and> signed_message obj = Inr m \<and> signed_message obj' = Inr m'
    \<and> decode_pairs (dget_none sig (lit ''public_key'')) = Inr public \<and> decode_pairs (dget_none sig' (lit ''public_key'')) = Inr public'
    \<and> decode_blocks (dget_none sig (lit ''value'')) = Inr shown \<and> decode_blocks (dget_none sig' (lit ''value'')) = Inr forged
    \<and> (sha256_collision (flat_key public') (flat_key public) \<or> sha256_collision m m'
       \<or> (\<exists>i b. i < BITS \<and> b \<le> 1 \<and> shown ! i = entropy g (blocks_drawn g + 2 * i + b)
            \<and> (forged ! i = entropy g (blocks_drawn g + 2 * i + (1 - b))
               \<or> sha256_collision (forged ! i) (entropy g (blocks_drawn g + 2 * i + (1 - b))))))"
proof -
  let ?public = "map hash_pair (fresh_key g)"
  obtain m blocks where s: "signed_message obj = Inr m" "sign_bytes (bytes_key (fresh_key g)) (PBytes m) = Inr blocks"
      "decode_blocks (dget_none sig (lit ''value'')) = Inr blocks" "decode_pairs (dget_none sig (lit ''public_key'')) = Inr ?public"
      "fp = sha256_bytes_hex (flat_key ?public)"
    using lamport_sign_parts [OF assms(1-4)] .
  obtain sig' public forged m' where f: "dget_none obj' (lit ''signature'') = PDict sig'"
      "decode_pairs (dget_none sig' (lit ''public_key'')) = Inr public" "sound_key public"
      "decode_blocks (dget_none sig' (lit ''value'')) = Inr forged" "fp = sha256_bytes_hex (flat_key public)"
      "signed_message obj' = Inr m'" "verify_bytes (bytes_key public) (PBytes m') (PList (map PBytes forged))"
    using valid_envelope [OF assms(5)] decode_pairs_sound by metis
  note l = length_fresh_key [of g]
  note shown = sign_bytes_run [OF sound_fresh_key [OF assms(1)] s(2)] and blocks = decode_blocks_sound [OF f(4)]
  consider "flat_key public \<noteq> flat_key ?public" | "bits_of m = bits_of m'"
    | i where "public = ?public" "i < BITS" "bits_of m ! i \<noteq> bits_of m' ! i"
    using flat_key_inject [OF f(3) sound_hash_key [OF l]] nth_equalityI [of "bits_of m" "bits_of m'"] by auto
  then have "sha256_collision (flat_key public) (flat_key ?public) \<or> sha256_collision m m'
       \<or> (\<exists>i b. i < BITS \<and> b \<le> 1 \<and> blocks ! i = entropy g (blocks_drawn g + 2 * i + b)
            \<and> (forged ! i = entropy g (blocks_drawn g + 2 * i + (1 - b))
               \<or> sha256_collision (forged ! i) (entropy g (blocks_drawn g + 2 * i + (1 - b)))))"
  proof cases
    case 1
    then show ?thesis using sha256_bytes_hex_collision [of "flat_key public" "flat_key ?public"] f(5) s(5) by simp
  next
    case 2
    then show ?thesis using bits_of_inject [OF 2] assms(6) s(1) f(6) by auto
  next
    case 3
    let ?b = "bits_of m ! i"
    have b: "?b \<le> 1" "bits_of m' ! i = 1 - ?b"
      using bits_of_bit [OF 3(2), of m] bits_of_bit [OF 3(2), of m'] 3(3) by auto
    have "blocks ! i = entropy g (blocks_drawn g + 2 * i + ?b)" using shown(2) [OF 3(2)] side_fresh_key [OF 3(2) b(1)] by simp
    moreover have "sha256 (forged ! i) = sha256 (entropy g (blocks_drawn g + 2 * i + (1 - ?b)))"
      using f(3,7) 3 l blocks b side_fresh_key [OF 3(2), of "1 - ?b"] by (simp add: verify_bytes_iff side_hash_pair)
    ultimately show ?thesis using 3(2) b(1) unfolding sha256_collision_def by blast
  qed
  then show ?thesis using s(1,3,4) f(1,2,4,6) by blast
qed

subsection \<open>A signer at work\<close>

text \<open>A signer whose random source is stuck at zero: its two blocks at a position are the
  same, so one signature covers every object, and the theorem on forgeries applies.\<close>

definition stuck_signer :: lamport_signer where
  "stuck_signer = \<lparr>lam_key_id = lit ''k'', issued_fingerprints = [], registered_fingerprints = [],
     entropy = \<lambda>_. replicate BLOCK 0, blocks_drawn = 0\<rparr>"

lemma stuck_signer_simps [simp]:
  "lam_key_id stuck_signer \<noteq> []" "byte_source (entropy stuck_signer)" "issued_fingerprints stuck_signer = []"
  by (simp_all add: stuck_signer_def byte_source_def)

lemma stuck_messages:
  "signed_message [] = Inr (lit ''{}'')" "signed_message [(pkey ''a'', PNone)] = Inr (lit ''{\"a\":null}'')"
proof -
  have s: "jcs_string (lit ''a'') = Inr (lit ''\"a\"'')"
    by (simp add: jcs_string_def jcs_char_def JCS_SHORT_ESCAPES_def lit_Cons non_ijson_def)
  have u: "utf8 (lit ''{}'') = Inr (lit ''{}'')" "utf8 (lit ''{\"a\":null}'') = Inr (lit ''{\"a\":null}'')"
    by (simp_all add: utf8_def utf8_char_def lit_Cons)
  show "signed_message [] = Inr (lit ''{}'')"
    using u(1) by (simp add: signed_message_def unsigned_def canonical_json_def sort_members_def lit_Cons)
  have "lit ''{\"a\":null}'' = [123] @ (lit ''\"a\"'' @ [58] @ lit ''null'') @ [125]" by (simp add: lit_Cons)
  then show "signed_message [(pkey ''a'', PNone)] = Inr (lit ''{\"a\":null}'')"
    using u(2) s by (simp add: signed_message_def unsigned_def canonical_json_def sort_members_def lit_Cons non_ijson_def)
qed

lemma stuck_sign: "\<exists>sig h. lamport_sign (PDict []) stuck_signer = (Inr sig, h)"
proof -
  have s: "sound_key (fresh_key stuck_signer)" by (rule sound_fresh_key) simp
  have p: "fingerprint (bytes_key (map hash_pair (fresh_key stuck_signer))) = Inr (sha256_bytes_hex (flat_key (map hash_pair (fresh_key stuck_signer))))"
    using key_pairs_bytes_key [OF sound_hash_key, of "fresh_key stuck_signer"] length_fresh_key by (simp add: fingerprint_def)
  show ?thesis
    by (simp add: lamport_sign_def stuck_messages run_simps generate_keypair_run p sign_bytes_def key_pairs_bytes_key [OF s])
qed

theorem lamport_signature_accepted_witness:
  "\<exists>sig. lamport_verify (PDict (with_signature [] sig)) = Inr True"
proof -
  obtain sig h where s: "lamport_sign (PDict []) stuck_signer = (Inr sig, h)" using stuck_sign by blast
  show ?thesis using lamport_signature_accepted [OF _ _ s] by auto
qed

theorem lamport_forgery_needs_secret_witness:
  "\<exists>sig fp. verify_envelope_with (PDict (with_signature [(pkey ''a'', PNone)] sig)) (PList [PStr fp]) = Inr (ValidEnvelope fp)
     \<and> (\<exists>public shown. decode_pairs (dget_none sig (lit ''public_key'')) = Inr public
         \<and> decode_blocks (dget_none sig (lit ''value'')) = Inr shown)"
proof -
  let ?obj = "[(pkey ''a'', PNone)]"
  obtain sig h where s: "lamport_sign (PDict []) stuck_signer = (Inr sig, h)" using stuck_sign by blast
  have g: "byte_source (entropy stuck_signer)" "lam_key_id stuck_signer \<noteq> []" by simp_all
  obtain m blocks fp where c: "sign_bytes (bytes_key (fresh_key stuck_signer)) (PBytes m) = Inr blocks"
      "issued_fingerprints h = issued_fingerprints stuck_signer @ [fp]"
      "\<And>v fps. normalize_fingerprints False v = Inr fps \<Longrightarrow> fps \<noteq> [] \<Longrightarrow>
        verify_envelope_with (PDict (with_signature ?obj sig)) v
        = Inr (if \<not> verify_bytes (bytes_key (map hash_pair (fresh_key stuck_signer))) (PBytes (lit ''{\"a\":null}'')) (PList (map PBytes blocks))
                 then InvalidEnvelope (ContentNotCovered fp)
               else if fp \<notin> set fps then InvalidEnvelope (KeyNotRegistered fp) else ValidEnvelope fp)"
    using stuck_messages(2) by (rule_tac carried_signature [OF g s]) blast
  note l = length_fresh_key [of stuck_signer]
  note r = sign_bytes_run [OF sound_fresh_key [OF g(1)] c(1)]
  have any: "side b (fresh_key stuck_signer ! i) = replicate BLOCK 0" if "i < BITS" for b i
    using that by (simp add: side_def fresh_key_def stuck_signer_def)
  have "verify_bytes (bytes_key (map hash_pair (fresh_key stuck_signer))) (PBytes (lit ''{\"a\":null}'')) (PList (map PBytes blocks))"
    unfolding verify_bytes_iff [OF sound_hash_key [OF l] r(1,3)] using r(2) l by (simp add: side_hash_pair any)
  moreover have "DIGEST_RE fp"
    by (rule lamport_sign_run [OF g(1) s]) (use c(2) in auto)
  then have "normalize_fingerprints False (PList [PStr fp]) = Inr [fp]" by (simp add: normalize_fingerprints_def)
  ultimately have v: "verify_envelope_with (PDict (with_signature ?obj sig)) (PList [PStr fp]) = Inr (ValidEnvelope fp)"
    using c(3) by simp
  have d: "signed_message (with_signature ?obj sig) \<noteq> signed_message []"
    unfolding signed_message_carried stuck_messages by simp
  show ?thesis using lamport_forgery_needs_secret [OF g s c(2) v d] v by blast
qed

end
