(* ===== verification/Evidence.thy ===== *)
theory Evidence
  imports Core_Sign Db Glob "HOL-Library.AList"
begin

section \<open>evidence.py: how hard a passing check would be to fake\<close>

text \<open>
  Declared artifact paths, the mutation and determinism probes, and the grade. The file
  system and the verifier processes are not modelled: what a probe observes of them is given
  by a \<open>workspace\<close>, for every artifact, mutation and check. Unicode case folding is a table
  of the standard library and given as \<open>casefold\<close>; nothing is assumed of it. The sentences
  in \<open>reasons\<close> and \<open>caps\<close> are the constructors of \<open>grade_reason\<close> and \<open>grade_cap\<close>, with the
  data each sentence shows.
\<close>

subsection \<open>Artifact paths\<close>

definition ARTIFACT_PATH_MAX_LENGTH :: nat where
  "ARTIFACT_PATH_MAX_LENGTH = 4096"

definition ARTIFACT_PATH_MAX_DEPTH :: nat where
  "ARTIFACT_PATH_MAX_DEPTH = 64"

definition ARTIFACT_COMPONENT_MAX_BYTES :: nat where
  "ARTIFACT_COMPONENT_MAX_BYTES = 255"

definition ARTIFACT_MAX_PATHS :: nat where
  "ARTIFACT_MAX_PATHS = 10000"

definition WORKSPACE_IGNORED_NAMES :: "pstr list" where
  "WORKSPACE_IGNORED_NAMES = map lit
     [''.git'', ''.hg'', ''.svn'', ''.cce'', ''.venv'', ''venv'', ''__pycache__'', ''node_modules'',
      ''.pytest_cache'', ''.mypy_cache'', ''.ruff_cache'']"

definition WINDOWS_RESERVED_NAMES :: "pstr list" where
  "WINDOWS_RESERVED_NAMES = map lit [''CON'', ''PRN'', ''AUX'', ''NUL'']
     @ map (\<lambda>n. lit ''COM'' @ [48 + n]) [1..<10] @ map (\<lambda>n. lit ''LPT'' @ [48 + n]) [1..<10]"

definition ignored_workspace_name :: "(pstr \<Rightarrow> pstr) \<Rightarrow> pstr \<Rightarrow> bool" where
  "ignored_workspace_name casefold name \<longleftrightarrow>
     casefold name \<in> set WORKSPACE_IGNORED_NAMES \<or> suffix (lit ''.pyc'') (casefold name)"

text \<open>\<open>part.split(".", 1)[0].upper() in _WINDOWS_RESERVED_NAMES\<close>: the names are ASCII, and no
  other character has one of their letters or digits as its upper case.\<close>

definition ascii_upper :: "pstr \<Rightarrow> pstr" where
  "ascii_upper s = map (\<lambda>c. if 97 \<le> c \<and> c \<le> 122 then c - 32 else c) s"

definition reserved_name :: "pstr \<Rightarrow> bool" where
  "reserved_name part \<longleftrightarrow> ascii_upper (takeWhile (\<lambda>c. c \<noteq> 46) part) \<in> set WINDOWS_RESERVED_NAMES"

definition portable_part :: "(pstr \<Rightarrow> pstr) \<Rightarrow> pstr \<Rightarrow> bool" where
  "portable_part casefold part \<longleftrightarrow>
     part \<notin> set [[], lit ''.'', lit ''..'']
     \<and> (case utf8 part of Inl e \<Rightarrow> False | Inr bs \<Rightarrow> length bs \<le> ARTIFACT_COMPONENT_MAX_BYTES)
     \<and> length (concat (map utf16_units part)) \<le> ARTIFACT_COMPONENT_MAX_BYTES
     \<and> 58 \<notin> set part \<and> list_all (\<lambda>c. c \<notin> set (lit ''<>\"|?*'')) part
     \<and> last part \<notin> {46, 32} \<and> list_all (\<lambda>c. 32 \<le> c) part
     \<and> \<not> reserved_name part \<and> \<not> ignored_workspace_name casefold part"

text \<open>A drive in front of the path needs a colon, which every component refuses.\<close>

definition normalize_artifact_path :: "(pstr \<Rightarrow> pstr) \<Rightarrow> pyval \<Rightarrow> exn + pstr" where
  "normalize_artifact_path casefold v = (case v of
     PStr s \<Rightarrow>
       require (s \<noteq> [] \<and> s = strip s \<and> 92 \<notin> set s \<and> 0 \<notin> set s \<and> length s \<le> ARTIFACT_PATH_MAX_LENGTH \<and> hd s \<noteq> 47)
         ValueError
       (let parts = split_on 47 s in
        require (length parts \<le> ARTIFACT_PATH_MAX_DEPTH \<and> list_all (portable_part casefold) parts) ValueError (Inr s))
   | _ \<Rightarrow> Inl ValueError)"

text \<open>The loop of \<open>normalize_artifact_paths\<close>: a path seen before is skipped, one that differs
  from an earlier path only by case is refused. \<open>seen\<close> are the paths so far, \<open>folded\<close> maps each
  folded spelling to its path.\<close>

fun normalize_paths_loop :: "(pstr \<Rightarrow> pstr) \<Rightarrow> pyval list \<Rightarrow> pstr list \<Rightarrow> exn + pstr list" where
  "normalize_paths_loop casefold [] seen = Inr seen"
| "normalize_paths_loop casefold (v # vs) seen =
     rbind (normalize_artifact_path casefold v) (\<lambda>path.
     if path \<in> set seen then normalize_paths_loop casefold vs seen
     else require (casefold path \<notin> casefold ` set seen) ValueError
       (normalize_paths_loop casefold vs (seen @ [path])))"

definition normalize_artifact_paths :: "(pstr \<Rightarrow> pstr) \<Rightarrow> pyval \<Rightarrow> exn + pstr list" where
  "normalize_artifact_paths casefold values = (case values of
     PList vs \<Rightarrow> require (length vs \<le> ARTIFACT_MAX_PATHS) ValueError (normalize_paths_loop casefold vs [])
   | _ \<Rightarrow> Inl ValueError)"

subsection \<open>The mutation probe\<close>

definition MUTATIONS :: "pstr list" where
  "MUTATIONS = map lit [''absent'', ''truncate'']"

datatype mutation_attempt = Applied | NotPresent | Escapes | Unwritable

text \<open>What the probes see of the disk and of the checks. A run that raises \<open>OSError\<close> or
  \<open>UnsafeWorkspaceError\<close> is \<open>None\<close>, otherwise it is the verifier's \<open>result\<close>.\<close>

record 'c workspace =
  pristine_copied :: bool
  pristine_run :: "'c \<Rightarrow> pstr option"
  sandbox_copied :: "pstr \<Rightarrow> pstr \<Rightarrow> bool"
  mutation_applied :: "pstr \<Rightarrow> pstr \<Rightarrow> mutation_attempt"
  sandbox_run :: "pstr \<Rightarrow> pstr \<Rightarrow> 'c \<Rightarrow> pstr option"

datatype probe_fault =
    InvalidDeclaration
  | NoArtifacts
  | NoChecks
  | NotMaterialized
  | BaselineFailed "(pstr \<times> pstr) list"
  | Refused
  | NotMutated
  | ArtifactAbsent
  | ChecksCrashed "pstr list"
  | StillPassed

record mutation_report =
  mr_artifacts :: "pstr list"
  mr_detected :: "(pstr \<times> pstr \<times> pstr) list"
  mr_undetected :: "(pstr \<times> pstr \<times> probe_fault) list"
  mr_inconclusive :: "(pstr \<times> pstr \<times> probe_fault) list"
  mr_baseline :: "(pstr \<times> pstr) list"
  mr_ran_at :: pstr
  mr_error :: "probe_fault option"

definition bound :: "mutation_report \<Rightarrow> bool" where
  "bound r \<longleftrightarrow> mr_artifacts r \<noteq> [] \<and> mr_baseline r \<noteq> []
     \<and> list_all (\<lambda>(n, result). result = lit ''passed'') (mr_baseline r)
     \<and> mr_detected r \<noteq> [] \<and> mr_undetected r = [] \<and> mr_inconclusive r = [] \<and> mr_error r = None"

text \<open>The baseline: every check on an unmutated copy, under its name, and whether all of them
  could be run.\<close>

fun run_baseline :: "'c workspace \<Rightarrow> ('c \<Rightarrow> pstr) \<Rightarrow> 'c list \<Rightarrow> (pstr \<times> pstr) list \<Rightarrow> bool \<times> (pstr \<times> pstr) list" where
  "run_baseline ws nm [] acc = (True, acc)"
| "run_baseline ws nm (c # cs) acc = (case pristine_run ws c of
     None \<Rightarrow> (False, acc) | Some result \<Rightarrow> run_baseline ws nm cs (AList.update (nm c) result acc))"

text \<open>The checks on one mutated copy, up to the first that fails: its name, or the names of
  those that did not come to a verdict.\<close>

fun run_checks :: "('c \<Rightarrow> pstr option) \<Rightarrow> ('c \<Rightarrow> pstr) \<Rightarrow> 'c list \<Rightarrow> pstr list \<Rightarrow> (pstr option \<times> pstr list) option" where
  "run_checks run nm [] crashed = Some (None, crashed)"
| "run_checks run nm (c # cs) crashed = (case run c of
     None \<Rightarrow> None
   | Some result \<Rightarrow> if result = lit ''failed'' then Some (Some (nm c), crashed)
       else run_checks run nm cs (if result = lit ''inconclusive'' then crashed @ [nm c] else crashed))"

definition probe_one :: "'c workspace \<Rightarrow> ('c \<Rightarrow> pstr) \<Rightarrow> 'c list \<Rightarrow> pstr \<times> pstr \<Rightarrow> mutation_report \<Rightarrow> mutation_report" where
  "probe_one ws nm cs am r = (let (a, m) = am;
       missed = (\<lambda>why. r\<lparr>mr_undetected := mr_undetected r @ [(a, m, why)]\<rparr>);
       unclear = (\<lambda>why. r\<lparr>mr_inconclusive := mr_inconclusive r @ [(a, m, why)]\<rparr>)
     in if \<not> sandbox_copied ws a m then unclear NotMaterialized
        else (case mutation_applied ws a m of
            Escapes \<Rightarrow> missed Refused
          | Unwritable \<Rightarrow> missed NotMutated
          | NotPresent \<Rightarrow> missed ArtifactAbsent
          | Applied \<Rightarrow> (case run_checks (sandbox_run ws a m) nm cs [] of
              None \<Rightarrow> unclear NotMaterialized
            | Some (Some n, crashed) \<Rightarrow> r\<lparr>mr_detected := mr_detected r @ [(a, m, n)]\<rparr>
            | Some (None, crashed) \<Rightarrow> if crashed \<noteq> [] then unclear (ChecksCrashed crashed) else missed StillPassed)))"

definition probe_artifacts :: "'c workspace \<Rightarrow> ('c \<Rightarrow> pstr) \<Rightarrow> 'c list \<Rightarrow> mutation_report \<Rightarrow> mutation_report" where
  "probe_artifacts ws nm cs r = fold (probe_one ws nm cs) (List.product (mr_artifacts r) MUTATIONS) r"

definition new_report :: "pstr list \<Rightarrow> pstr \<Rightarrow> mutation_report" where
  "new_report artifacts now = \<lparr>mr_artifacts = artifacts, mr_detected = [], mr_undetected = [], mr_inconclusive = [],
     mr_baseline = [], mr_ran_at = now, mr_error = None\<rparr>"

definition run_mutation_probe ::
  "(pstr \<Rightarrow> pstr) \<Rightarrow> 'c workspace \<Rightarrow> ('c \<Rightarrow> pstr) \<Rightarrow> pyval \<Rightarrow> 'c list \<Rightarrow> ('z env_scheme, mutation_report) op" where
  "run_mutation_probe casefold ws nm artifacts cs =
     (case normalize_artifact_paths casefold artifacts of
        Inl e \<Rightarrow> bnd utcnow (\<lambda>now. ret ((new_report [] now)\<lparr>mr_error := Some InvalidDeclaration,
            mr_undetected := [(lit ''<invalid-declaration>'', lit ''n/a'', InvalidDeclaration)]\<rparr>))
      | Inr paths \<Rightarrow> bnd utcnow (\<lambda>now. ret (let r = new_report paths now;
            base_entry = (\<lambda>why. (lit ''<unmutated-tree>'', lit ''baseline'', why))
          in if paths = [] then r\<lparr>mr_error := Some NoArtifacts\<rparr>
             else if cs = [] then r\<lparr>mr_error := Some NoChecks\<rparr>
             else (case (if pristine_copied ws then run_baseline ws nm cs [] else (False, [])) of
                 (False, base) \<Rightarrow> r\<lparr>mr_baseline := base, mr_error := Some NotMaterialized,
                   mr_inconclusive := [base_entry NotMaterialized]\<rparr>
               | (True, base) \<Rightarrow> (let bad = filter (\<lambda>(n, result). result \<noteq> lit ''passed'') base in
                   if bad \<noteq> [] then r\<lparr>mr_baseline := base, mr_error := Some (BaselineFailed bad),
                     mr_inconclusive := [base_entry (BaselineFailed bad)]\<rparr>
                   else probe_artifacts ws nm cs (r\<lparr>mr_baseline := base\<rparr>))))))"

subsection \<open>The determinism probe\<close>

text \<open>\<open>r1\<close> and \<open>r2\<close> are the results of two runs of one check.\<close>

definition run_determinism_probe :: "pstr \<Rightarrow> pstr \<Rightarrow> ('z env_scheme, pydict) op" where
  "run_determinism_probe r1 r2 =
     (let results = PList [PStr r1, PStr r2];
          stable = (results = PList [pkey ''passed'', pkey ''passed'']);
          note = (if stable then [] else if r1 \<noteq> r2 then lit ''check is flaky: two runs disagreed''
            else lit ''check repeated a non-passing verdict; consistency of failure does not establish usable evidence'')
      in bnd utcnow (\<lambda>now. ret
        [(pkey ''stable'', PBool stable), (pkey ''results'', results), (pkey ''checked_at'', PStr now), (pkey ''note'', PStr note)]))"

subsection \<open>Grades\<close>

definition GRADES :: "pstr list" where
  "GRADES = map lit [''A'', ''B'', ''C'', ''D'', ''F'']"

definition grade_index :: "pstr \<Rightarrow> nat" where
  "grade_index g = length (takeWhile (\<lambda>x. x \<noteq> g) GRADES)"

datatype grade_reason =
    NoResult pstr
  | NotPassed pstr pyval
  | NotExecuted pstr pyval
  | NothingRequired
  | FullyBound

datatype grade_cap =
    ChosenCommand pstr
  | ProbeFailed probe_fault
  | MutationsSurvived nat
  | BindingUndetermined nat
  | ControlUnmet "pstr list"
  | ControlMissing "pstr list"
  | NoMutationProbe
  | UnstableChecks "pstr list"
  | NoDeterminismProbe "pstr list"

record evidence_grade =
  eg_grade :: pstr
  eg_reasons :: "grade_reason list"
  eg_caps :: "grade_cap list"

definition at_least :: "evidence_grade \<Rightarrow> pstr \<Rightarrow> exn + bool" where
  "at_least g minimum = require (eg_grade g \<in> set GRADES \<and> minimum \<in> set GRADES) ValueError
     (Inr (grade_index (eg_grade g) \<le> grade_index minimum))"

text \<open>\<open>verifier_names\<close>: a list of distinct non-empty strings.\<close>

definition verifier_names :: "pyval \<Rightarrow> exn + pstr list" where
  "verifier_names v = (case v of
     PList ns \<Rightarrow> require (list_all nonempty_string ns) ValueError
       (require (distinct ns) ValueError (Inr (map text_of ns)))
   | _ \<Rightarrow> Inl ValueError)"

text \<open>An argument that is an object of objects, \<open>None\<close> counting as empty.\<close>

definition verifier_objects :: "pyval \<Rightarrow> exn + pydict" where
  "verifier_objects v = (case v of
     PNone \<Rightarrow> Inr []
   | PDict d \<Rightarrow> require (list_all (\<lambda>(n, x). nonempty_string n \<and> is_dict x) d) ValueError (Inr d)
   | _ \<Rightarrow> Inl ValueError)"

definition verifier_outcomes :: "pyval \<Rightarrow> exn + pydict list" where
  "verifier_outcomes v = (case v of
     PList os \<Rightarrow> require (list_all is_dict os) ValueError (Inr (map (\<lambda>x. case x of PDict d \<Rightarrow> d | _ \<Rightarrow> []) os))
   | _ \<Rightarrow> Inl ValueError)"

text \<open>\<open>{o.get("verifier"): o for o in outcomes}\<close>: the last outcome of a name counts, and a name
  that cannot be hashed raises.\<close>

definition outcome_of :: "pydict list \<Rightarrow> pstr \<Rightarrow> pydict option" where
  "outcome_of os name = find (\<lambda>d. dget_none d (lit ''verifier'') = PStr name) (rev os)"

definition object_in :: "pydict \<Rightarrow> pstr \<Rightarrow> pydict" where
  "object_in d name = (case dget_none d name of PDict x \<Rightarrow> x | _ \<Rightarrow> [])"

text \<open>The first required check that is not a pass executed by the engine itself.\<close>

fun missing_evidence :: "pydict list \<Rightarrow> pstr list \<Rightarrow> grade_reason option" where
  "missing_evidence os [] = None"
| "missing_evidence os (n # ns) = (case outcome_of os n of
     None \<Rightarrow> Some (NoResult n)
   | Some d \<Rightarrow> if dget_none d (lit ''result'') \<noteq> pkey ''passed'' then Some (NotPassed n (dget_none d (lit ''result'')))
       else if dget_none d (lit ''source'') \<noteq> pkey ''executed'' then Some (NotExecuted n (dget_none d (lit ''source'')))
       else missing_evidence os ns)"

text \<open>The inner function \<open>cap\<close>: it lowers the grade, never raises it.\<close>

definition cap :: "bool \<Rightarrow> string \<Rightarrow> grade_cap \<Rightarrow> pstr \<times> grade_cap list \<Rightarrow> pstr \<times> grade_cap list" where
  "cap c low why gc = (if c then (if grade_index (fst gc) < grade_index (lit low) then lit low else fst gc, snd gc @ [why]) else gc)"

definition unbound_detail :: "mutation_report \<Rightarrow> grade_cap" where
  "unbound_detail r = (case mr_error r of Some why \<Rightarrow> ProbeFailed why
     | None \<Rightarrow> if mr_undetected r \<noteq> [] then MutationsSurvived (length (mr_undetected r))
         else BindingUndetermined (length (mr_inconclusive r)))"

definition control_status :: "pydict \<Rightarrow> pstr \<Rightarrow> pyval" where
  "control_status controls n = dget_none (object_in controls n) (lit ''status'')"

definition unstable :: "pydict \<Rightarrow> pstr \<Rightarrow> bool" where
  "unstable determinism n \<longleftrightarrow> dget determinism n \<noteq> None
     \<and> (\<not> truthy (dget_none (object_in determinism n) (lit ''stable''))
        \<or> dget_none (object_in determinism n) (lit ''results'') \<noteq> PList [pkey ''passed'', pkey ''passed''])"

definition cap_grade :: "pstr list \<Rightarrow> pydict \<Rightarrow> mutation_report option \<Rightarrow> pydict \<Rightarrow> pstr list \<Rightarrow> pstr \<times> grade_cap list" where
  "cap_grade required controls mutation determinism unpinned =
     (let g0 = fold (\<lambda>n. cap (n \<in> set unpinned) ''D'' (ChosenCommand n)) required (lit ''A'', []);
          g1 = (case mutation of None \<Rightarrow> g0 | Some r \<Rightarrow> cap (\<not> bound r) ''D'' (unbound_detail r) g0);
          missing_controls = filter (\<lambda>n. control_status controls n \<noteq> pkey ''held'') required;
          unmet = filter (\<lambda>n. control_status controls n = pkey ''unmet'') missing_controls;
          g2 = cap (missing_controls \<noteq> []) ''C'' (if unmet \<noteq> [] then ControlUnmet unmet else ControlMissing missing_controls) g1;
          g3 = cap (mutation = None) ''B'' NoMutationProbe g2;
          missing_determinism = filter (\<lambda>n. dget determinism n = None) required;
          flaky = filter (unstable determinism) required;
          g4 = cap (flaky \<noteq> []) ''C'' (UnstableChecks flaky) g3
      in cap (missing_determinism \<noteq> []) ''B'' (NoDeterminismProbe missing_determinism) g4)"

text \<open>The grade of arguments that have passed their checks.\<close>

definition grade_checked :: "pydict list \<Rightarrow> pstr list \<Rightarrow> pydict \<Rightarrow> mutation_report option \<Rightarrow> pydict \<Rightarrow> pstr list \<Rightarrow> evidence_grade" where
  "grade_checked os req ctl mutation det unp =
     (case missing_evidence os req of
        Some why \<Rightarrow> \<lparr>eg_grade = lit ''F'', eg_reasons = [why], eg_caps = []\<rparr>
      | None \<Rightarrow> if req = [] then \<lparr>eg_grade = lit ''F'', eg_reasons = [NothingRequired], eg_caps = []\<rparr>
          else (let (g, caps) = cap_grade req ctl mutation det unp
                in \<lparr>eg_grade = g, eg_reasons = (if g = lit ''A'' then [FullyBound] else []), eg_caps = caps\<rparr>))"

definition grade_evidence ::
  "pyval \<Rightarrow> pyval \<Rightarrow> pyval \<Rightarrow> mutation_report option \<Rightarrow> pyval \<Rightarrow> pyval \<Rightarrow> exn + evidence_grade" where
  "grade_evidence outcomes required controls mutation determinism unpinned =
     rbind (verifier_outcomes outcomes) (\<lambda>os.
     rbind (verifier_names required) (\<lambda>req.
     rbind (verifier_objects controls) (\<lambda>ctl.
     rbind (verifier_objects determinism) (\<lambda>det.
     rbind (if unpinned = PNone then Inr [] else verifier_names unpinned) (\<lambda>unp.
     require (list_all (\<lambda>d. py_hashable (dget_none d (lit ''verifier''))) os) TypeError
     (Inr (grade_checked os req ctl mutation det unp)))))))"

end
