(* ===== verification/Evidence_Props.thy ===== *)
theory Evidence_Props
  imports Evidence
begin

section \<open>What a grade means\<close>

text \<open>
  \<open>graded\<close> is the table of grades the code computes and \<open>documented\<close> the one in the docstring
  of \<open>grade_evidence\<close>; the code is never milder, and stricter in two cases. A grade of A with a mutation report says that each declared artifact was
  destroyed in each way and that some check, which passes on the intact tree, failed then.
  Accepted artifact paths are portable and in normal form.
\<close>

subsection \<open>The table of grades\<close>

definition sound_run :: "pydict list \<Rightarrow> pstr \<Rightarrow> bool" where
  "sound_run os n \<longleftrightarrow> (case outcome_of os n of None \<Rightarrow> False
     | Some d \<Rightarrow> dget_none d (lit ''result'') = pkey ''passed'' \<and> dget_none d (lit ''source'') = pkey ''executed'')"

definition graded :: "pydict list \<Rightarrow> pstr list \<Rightarrow> pydict \<Rightarrow> mutation_report option \<Rightarrow> pydict \<Rightarrow> pstr list \<Rightarrow> pstr" where
  "graded os req ctl m det unp =
     (if req = [] \<or> list_ex (\<lambda>n. \<not> sound_run os n) req then lit ''F''
      else if list_ex (\<lambda>n. n \<in> set unp) req \<or> (case m of None \<Rightarrow> False | Some r \<Rightarrow> \<not> bound r) then lit ''D''
      else if list_ex (\<lambda>n. control_status ctl n \<noteq> pkey ''held'' \<or> unstable det n) req then lit ''C''
      else if m = None \<or> list_ex (\<lambda>n. dget det n = None) req then lit ''B'' else lit ''A'')"

text \<open>The docstring. It grades D only a deliverable whose destruction went unnoticed, takes any
  other report that does not bind the deliverables for one that is not there, and says of a
  flaky check only that it rules out A.\<close>

definition documented :: "pydict list \<Rightarrow> pstr list \<Rightarrow> pydict \<Rightarrow> mutation_report option \<Rightarrow> pydict \<Rightarrow> pstr list \<Rightarrow> pstr" where
  "documented os req ctl m det unp =
     (if req = [] \<or> list_ex (\<lambda>n. \<not> sound_run os n) req then lit ''F''
      else if list_ex (\<lambda>n. n \<in> set unp) req \<or> (case m of None \<Rightarrow> False | Some r \<Rightarrow> mr_undetected r \<noteq> []) then lit ''D''
      else if list_ex (\<lambda>n. control_status ctl n \<noteq> pkey ''held'') req then lit ''C''
      else if (case m of None \<Rightarrow> True | Some r \<Rightarrow> \<not> bound r) \<or> list_ex (\<lambda>n. dget det n = None \<or> unstable det n) req then lit ''B''
      else lit ''A'')"

text \<open>What the docstring leaves open: the report shows no survivor but does not bind either, or a
  check is flaky.\<close>

definition undetermined :: "pstr list \<Rightarrow> mutation_report option \<Rightarrow> pydict \<Rightarrow> bool" where
  "undetermined req m det \<longleftrightarrow> (case m of None \<Rightarrow> False | Some r \<Rightarrow> \<not> bound r \<and> mr_undetected r = []) \<or> list_ex (unstable det) req"

lemma grade_index_simps [simp]:
  "grade_index (lit ''A'') = 0" "grade_index (lit ''B'') = 1" "grade_index (lit ''C'') = 2"
  "grade_index (lit ''D'') = 3" "grade_index (lit ''F'') = 4"
  by (simp_all add: grade_index_def GRADES_def)

lemma fst_cap:
  "fst (cap c low why gc) = (if c \<and> grade_index (fst gc) < grade_index (lit low) then lit low else fst gc)"
  by (simp add: cap_def)

lemma fst_cap_fold:
  "fst gc \<in> {lit ''A'', lit ''D''} \<Longrightarrow>
   fst (fold (\<lambda>n. cap (P n) ''D'' (f n)) ns gc) = (if list_ex P ns then lit ''D'' else fst gc)"
  by (induction ns arbitrary: gc) (auto simp: fst_cap)

lemma filter_empty_iff: "filter P xs \<noteq> [] \<longleftrightarrow> list_ex P xs"
  by (induction xs) auto

lemma list_ex_disj: "list_ex (\<lambda>x. P x \<or> Q x) xs \<longleftrightarrow> list_ex P xs \<or> list_ex Q xs"
  by (induction xs) auto

lemma fst_cap_grade:
  "fst (cap_grade req ctl m det unp) =
     (if list_ex (\<lambda>n. n \<in> set unp) req \<or> (case m of None \<Rightarrow> False | Some r \<Rightarrow> \<not> bound r) then lit ''D''
      else if list_ex (\<lambda>n. control_status ctl n \<noteq> pkey ''held'' \<or> unstable det n) req then lit ''C''
      else if m = None \<or> list_ex (\<lambda>n. dget det n = None) req then lit ''B'' else lit ''A'')"
  unfolding cap_grade_def Let_def list_ex_disj
  by (cases m) (simp_all add: fst_cap fst_cap_fold filter_empty_iff)

lemma missing_evidence_None: "missing_evidence os ns = None \<longleftrightarrow> \<not> list_ex (\<lambda>n. \<not> sound_run os n) ns"
  by (induction ns) (auto simp: sound_run_def split: option.splits)

lemma eg_grade_checked: "eg_grade (grade_checked os req ctl m det unp) = graded os req ctl m det unp"
  using missing_evidence_None [of os req] fst_cap_grade [of req ctl m det unp]
  by (auto simp: grade_checked_def graded_def split: option.splits if_splits prod.splits)

lemma documented_graded:
  "grade_index (documented os req ctl m det unp) \<le> grade_index (graded os req ctl m det unp)
   \<and> (graded os req ctl m det unp = documented os req ctl m det unp \<or> undetermined req m det)"
proof -
  have "mr_undetected r \<noteq> [] \<Longrightarrow> \<not> bound r" for r by (simp add: bound_def)
  then show ?thesis
    unfolding graded_def documented_def undetermined_def list_ex_disj by (cases m) auto
qed

text \<open>C38: The grade is F when a required check is missing, failed or not run by the engine;
  otherwise D when a claimant chose a command or a mutation report does not bind the
  deliverables; otherwise C when a check has no negative control that held or was not stable;
  otherwise B without a mutation or determinism probe; and A when nothing is missing. That is
  never better than the docstring's table, and equal to it unless the report neither binds nor
  shows a survivor, or a check is flaky.\<close>

theorem grade_table:
  assumes "grade_evidence outcomes required controls m determinism unpinned = Inr g"
  shows "\<exists>os req ctl det unp. verifier_outcomes outcomes = Inr os \<and> verifier_names required = Inr req
    \<and> verifier_objects controls = Inr ctl \<and> verifier_objects determinism = Inr det
    \<and> (if unpinned = PNone then Inr [] else verifier_names unpinned) = Inr unp
    \<and> eg_grade g = graded os req ctl m det unp
    \<and> grade_index (documented os req ctl m det unp) \<le> grade_index (eg_grade g)
    \<and> (eg_grade g = documented os req ctl m det unp \<or> undetermined req m det)"
  using assms documented_graded by (auto simp: grade_evidence_def eg_grade_checked)

subsection \<open>What the mutation probe shows\<close>

definition caught :: "'c workspace \<Rightarrow> 'c list \<Rightarrow> pstr \<times> pstr \<Rightarrow> bool" where
  "caught ws cs am \<longleftrightarrow> mutation_applied ws (fst am) (snd am) = Applied
     \<and> (\<exists>c \<in> set cs. sandbox_run ws (fst am) (snd am) c = Some (lit ''failed''))"

lemma run_checks_failed:
  "run_checks run nm cs crashed = Some (Some n, crashed') \<Longrightarrow> \<exists>c \<in> set cs. run c = Some (lit ''failed'')"
  by (induction run nm cs crashed rule: run_checks.induct) (auto split: option.splits if_splits)

lemma probe_one_clean:
  assumes "mr_undetected (probe_one ws nm cs am r) = []" and "mr_inconclusive (probe_one ws nm cs am r) = []"
  shows "mr_undetected r = [] \<and> mr_inconclusive r = [] \<and> caught ws cs am"
proof -
  obtain a m where am: "am = (a, m)" by (cases am)
  have c: "sandbox_copied ws a m" using assms by (auto simp: probe_one_def am Let_def split: if_splits)
  have ap: "mutation_applied ws a m = Applied"
    using assms c by (cases "mutation_applied ws a m") (simp_all add: probe_one_def am Let_def)
  obtain n crashed where r: "run_checks (sandbox_run ws a m) nm cs [] = Some (Some n, crashed)"
  proof (cases "run_checks (sandbox_run ws a m) nm cs []")
    case None
    then show thesis using assms c ap by (simp add: probe_one_def am Let_def)
  next
    case (Some out)
    then show thesis
      using assms c ap that by (cases out; cases "fst out") (auto simp: probe_one_def am Let_def split: if_splits)
  qed
  show ?thesis using assms c ap run_checks_failed [OF r] by (simp add: probe_one_def am Let_def r caught_def)
qed

lemma probe_fold_clean:
  "mr_undetected (fold (probe_one ws nm cs) ams r) = [] \<Longrightarrow> mr_inconclusive (fold (probe_one ws nm cs) ams r) = [] \<Longrightarrow>
   mr_undetected r = [] \<and> mr_inconclusive r = [] \<and> (\<forall>am \<in> set ams. caught ws cs am)"
proof (induction ams arbitrary: r)
  case (Cons am ams)
  have "mr_undetected (probe_one ws nm cs am r) = [] \<and> mr_inconclusive (probe_one ws nm cs am r) = []
      \<and> (\<forall>x \<in> set ams. caught ws cs x)"
    by (rule Cons.IH) (use Cons.prems in simp_all)
  then show ?case using probe_one_clean [of ws nm cs am r] by simp
qed simp

lemma run_baseline_run:
  "run_baseline ws nm cs acc = (True, base) \<Longrightarrow> distinct (map nm cs) \<Longrightarrow> nm ` set cs \<inter> fst ` set acc = {} \<Longrightarrow>
   (\<forall>n. n \<notin> nm ` set cs \<longrightarrow> map_of base n = map_of acc n)
   \<and> (\<forall>c \<in> set cs. \<exists>result. pristine_run ws c = Some result \<and> map_of base (nm c) = Some result)"
proof (induction cs arbitrary: acc)
  case (Cons c cs)
  obtain result where r: "pristine_run ws c = Some result" "run_baseline ws nm cs (AList.update (nm c) result acc) = (True, base)"
    using Cons.prems(1) by (auto split: option.splits)
  have "nm ` set cs \<inter> fst ` set (AList.update (nm c) result acc) = {}"
    using Cons.prems(2,3) by (auto simp: update_conv' simp flip: dom_map_of_conv_image_fst split: if_splits)
  then have "(\<forall>n. n \<notin> nm ` set cs \<longrightarrow> map_of base n = ((map_of acc)(nm c \<mapsto> result)) n)
      \<and> (\<forall>c \<in> set cs. \<exists>result. pristine_run ws c = Some result \<and> map_of base (nm c) = Some result)"
    using Cons.IH [OF r(2)] Cons.prems(2) by (simp add: update_conv')
  moreover have "nm c \<notin> nm ` set cs" using Cons.prems(2) by auto
  ultimately show ?case using r(1) by simp
qed simp

lemma bound_probe:
  assumes "run_mutation_probe casefold ws nm artifacts cs s = (Inr r, t)" and "bound r"
  obtains paths now base where "normalize_artifact_paths casefold artifacts = Inr paths" "paths \<noteq> []"
    "run_baseline ws nm cs [] = (True, base)" "list_all (\<lambda>(n, result). result = lit ''passed'') base"
    "r = probe_artifacts ws nm cs ((new_report paths now)\<lparr>mr_baseline := base\<rparr>)"
proof -
  have e: "mr_error r = None" using assms(2) by (simp add: bound_def)
  obtain paths where p: "normalize_artifact_paths casefold artifacts = Inr paths"
    using assms(1) e by (cases "normalize_artifact_paths casefold artifacts") (auto simp: run_mutation_probe_def bnd_eq_Inr ret_def)
  obtain now where n: "utcnow s = (Inr now, t)"
    using assms(1) p by (auto simp: run_mutation_probe_def bnd_eq_Inr ret_def)
  note run = assms(1) [unfolded run_mutation_probe_def p sum.case bnd_run_Inr [where m = utcnow, OF n] ret_def Let_def]
  have c: "paths \<noteq> []" using run e by (cases "paths = []") auto
  then have "cs \<noteq> []" using run e by (cases "cs = []") auto
  note c = c this
  obtain ok base where b: "(if pristine_copied ws then run_baseline ws nm cs [] else (False, [])) = (ok, base)" by fastforce
  have ok: "ok" using run e c b by (cases ok) auto
  have bad: "filter (\<lambda>(n, result). result \<noteq> lit ''passed'') base = []" using run e c b ok by (auto split: if_splits)
  have "run_baseline ws nm cs [] = (True, base)" using b ok by (auto split: if_splits)
  moreover have "list_all (\<lambda>(n, result). result = lit ''passed'') base" using bad by (auto simp: filter_empty_conv list_all_iff)
  moreover have "r = probe_artifacts ws nm cs ((new_report paths now)\<lparr>mr_baseline := base\<rparr>)" using run c b ok bad by simp
  ultimately show thesis by (rule that [OF p c(1)])
qed

text \<open>A grade of A with a mutation report is earned: each declared artifact was destroyed
  in each way, and each time a check failed that passes on the intact tree.\<close>

theorem grade_A_is_earned:
  assumes "run_mutation_probe casefold ws nm artifacts cs s = (Inr r, t)" and "distinct (map nm cs)"
    and "grade_evidence outcomes required controls (Some r) determinism unpinned = Inr g" and "eg_grade g = lit ''A''"
  shows "\<exists>paths. normalize_artifact_paths casefold artifacts = Inr paths \<and> paths \<noteq> []
    \<and> (\<forall>a \<in> set paths. \<forall>m \<in> set MUTATIONS. mutation_applied ws a m = Applied
         \<and> (\<exists>c \<in> set cs. pristine_run ws c = Some (lit ''passed'') \<and> sandbox_run ws a m c = Some (lit ''failed'')))"
proof -
  have b: "bound r"
    using grade_table [OF assms(3)] assms(4) by (auto simp: graded_def split: if_splits)
  obtain paths now base where p: "normalize_artifact_paths casefold artifacts = Inr paths" "paths \<noteq> []"
      "run_baseline ws nm cs [] = (True, base)" "list_all (\<lambda>(n, result). result = lit ''passed'') base"
      "r = probe_artifacts ws nm cs ((new_report paths now)\<lparr>mr_baseline := base\<rparr>)"
    by (rule bound_probe [OF assms(1) b])
  have "\<forall>am \<in> set (List.product paths MUTATIONS). caught ws cs am"
    using b probe_fold_clean [of ws nm cs "List.product paths MUTATIONS" "(new_report paths now)\<lparr>mr_baseline := base\<rparr>"]
    by (simp add: p(5) probe_artifacts_def bound_def new_report_def)
  moreover have "pristine_run ws c = Some (lit ''passed'')" if c: "c \<in> set cs" for c
    using run_baseline_run [OF p(3) assms(2)] c p(4) by (fastforce simp: list_all_iff dest: map_of_SomeD)
  ultimately show ?thesis using p(1,2) by (intro exI [of _ paths]) (auto simp: caught_def)
qed

subsection \<open>Artifact paths\<close>

lemma normalize_artifact_path_Inr: "normalize_artifact_path casefold v = Inr p \<Longrightarrow> v = PStr p"
  by (cases v) (auto simp: normalize_artifact_path_def Let_def)

lemma normalize_paths_loop_run:
  "normalize_paths_loop casefold vs seen = Inr ps \<Longrightarrow> distinct (map casefold seen) \<Longrightarrow>
   \<exists>new. ps = seen @ new \<and> length new \<le> length vs \<and> distinct (map casefold ps)
     \<and> PStr ` set ps = PStr ` set seen \<union> set vs \<and> (\<forall>p \<in> set new. normalize_artifact_path casefold (PStr p) = Inr p)"
proof (induction vs arbitrary: seen)
  case (Cons v vs)
  obtain path where p: "normalize_artifact_path casefold v = Inr path" using Cons.prems(1) by auto
  note path = p normalize_artifact_path_Inr [OF p]
  show ?case
  proof (cases "path \<in> set seen")
    case True
    then have "normalize_paths_loop casefold vs seen = Inr ps" using Cons.prems(1) path by simp
    from Cons.IH [OF this Cons.prems(2)] show ?thesis using True path by (auto intro: le_SucI)
  next
    case False
    then have run: "normalize_paths_loop casefold vs (seen @ [path]) = Inr ps" "casefold path \<notin> casefold ` set seen"
      using Cons.prems(1) path by auto
    obtain new where new: "ps = (seen @ [path]) @ new" "length new \<le> length vs" "distinct (map casefold ps)"
        "PStr ` set ps = PStr ` set (seen @ [path]) \<union> set vs" "\<forall>p \<in> set new. normalize_artifact_path casefold (PStr p) = Inr p"
      using Cons.IH [OF run(1)] Cons.prems(2) run(2) by auto
    then show ?thesis using path by (intro exI [of _ "path # new"]) auto
  qed
qed auto

lemma normalize_paths_loop_stable:
  "\<forall>p \<in> set ps. normalize_artifact_path casefold (PStr p) = Inr p \<Longrightarrow> distinct (map casefold (seen @ ps)) \<Longrightarrow>
   normalize_paths_loop casefold (map PStr ps) seen = Inr (seen @ ps)"
proof (induction ps arbitrary: seen)
  case (Cons p ps)
  have "normalize_paths_loop casefold (map PStr ps) (seen @ [p]) = Inr ((seen @ [p]) @ ps)"
    using Cons.prems by (intro Cons.IH) auto
  moreover have "p \<notin> set seen" "casefold p \<notin> casefold ` set seen" using Cons.prems(2) by auto
  ultimately show ?case using Cons.prems(1) by simp
qed simp

text \<open>Accepted declarations are routes inside the tree, one per folded spelling, and accepting
  them again changes nothing.\<close>

lemma artifact_paths_normal_form:
  assumes "normalize_artifact_paths casefold (PList vs) = Inr ps"
  shows "normalize_artifact_paths casefold (PList (map PStr ps)) = Inr ps \<and> PStr ` set ps = set vs
    \<and> distinct (map casefold ps)
    \<and> (\<forall>p \<in> set ps. hd p \<noteq> 47 \<and> 92 \<notin> set p \<and> list_all (\<lambda>part. part \<notin> set [[], lit ''.'', lit ''..'']) (split_on 47 p))"
proof -
  have run: "length vs \<le> ARTIFACT_MAX_PATHS" "normalize_paths_loop casefold vs [] = Inr ps"
    using assms by (auto simp: normalize_artifact_paths_def)
  then have ps: "length ps \<le> length vs" "distinct (map casefold ps)" "PStr ` set ps = set vs"
      "\<forall>p \<in> set ps. normalize_artifact_path casefold (PStr p) = Inr p"
    using normalize_paths_loop_run [of casefold vs "[]" ps] by auto
  then have "normalize_artifact_paths casefold (PList (map PStr ps)) = Inr ps"
    using normalize_paths_loop_stable [of ps casefold "[]"] run(1) by (simp add: normalize_artifact_paths_def)
  moreover have "\<forall>p \<in> set ps. hd p \<noteq> 47 \<and> 92 \<notin> set p \<and> list_all (\<lambda>part. part \<notin> set [[], lit ''.'', lit ''..'']) (split_on 47 p)"
    using ps(4) by (fastforce simp: normalize_artifact_path_def Let_def portable_part_def list_all_iff)
  ultimately show ?thesis using ps by blast
qed

subsection \<open>A graded attestation\<close>

definition sample_workspace :: "pstr workspace" where
  "sample_workspace = \<lparr>pristine_copied = True, pristine_run = \<lambda>_. Some (lit ''passed''), sandbox_copied = \<lambda>_ _. True,
     mutation_applied = \<lambda>_ _. Applied, sandbox_run = \<lambda>_ _ _. Some (lit ''failed'')\<rparr>"

definition sample_report :: mutation_report where
  "sample_report = \<lparr>mr_artifacts = [lit ''a''], mr_detected = [(lit ''a'', lit ''absent'', lit ''t''), (lit ''a'', lit ''truncate'', lit ''t'')],
     mr_undetected = [], mr_inconclusive = [], mr_baseline = [(lit ''t'', lit ''passed'')], mr_ran_at = [], mr_error = None\<rparr>"

definition sample_env :: env where
  "sample_env = \<lparr>last_utcnow = None, wall = \<lambda>_. undefined, ticks = 0, tokens = \<lambda>_. [], drawn = 0, depth = 0\<rparr>"

definition sample_outcomes :: pyval where
  "sample_outcomes = PList [PDict [(pkey ''verifier'', pkey ''t''), (pkey ''result'', pkey ''passed''), (pkey ''source'', pkey ''executed'')]]"

definition sample_control :: pyval where
  "sample_control = PDict [(pkey ''t'', PDict [(pkey ''status'', pkey ''held'')])]"

definition sample_stability :: pyval where
  "sample_stability = PDict [(pkey ''t'', PDict [(pkey ''stable'', PBool True), (pkey ''results'', PList [pkey ''passed'', pkey ''passed''])])]"

lemma sample_probe:
  "\<exists>now t. run_mutation_probe id sample_workspace id (PList [pkey ''a'']) [lit ''t''] sample_env = (Inr (sample_report\<lparr>mr_ran_at := now\<rparr>), t)"
proof -
  have "\<not> suffix (lit ''.pyc'') [97 :: nat]" using suffix_length_le [of "lit ''.pyc''" "[97]"] by auto
  then have "portable_part id [97]"
    by (simp add: portable_part_def utf8_def utf8_char_def utf16_units_def reserved_name_def ascii_upper_def WINDOWS_RESERVED_NAMES_def
        ignored_workspace_name_def WORKSPACE_IGNORED_NAMES_def ARTIFACT_COMPONENT_MAX_BYTES_def lit_Cons upt_rec)
  then have "normalize_artifact_path id (pkey ''a'') = Inr (lit ''a'')"
    by (simp add: normalize_artifact_path_def lit_Cons strip_def py_space_def ARTIFACT_PATH_MAX_LENGTH_def ARTIFACT_PATH_MAX_DEPTH_def)
  then have "normalize_artifact_paths id (PList [pkey ''a'']) = Inr [lit ''a'']"
    by (simp add: normalize_artifact_paths_def ARTIFACT_MAX_PATHS_def)
  then show ?thesis
    by (simp add: run_mutation_probe_def bnd_def ret_def utcnow_def floor_sample_def sample_env_def sample_workspace_def new_report_def
        probe_artifacts_def probe_one_def MUTATIONS_def sample_report_def Let_def)
qed

lemma sample_grade:
  "\<exists>g. grade_evidence sample_outcomes (PList [pkey ''t'']) sample_control (Some (sample_report\<lparr>mr_ran_at := now\<rparr>)) sample_stability PNone = Inr g
     \<and> eg_grade g = lit ''A''"
  by (simp add: grade_evidence_def sample_outcomes_def sample_control_def sample_stability_def verifier_outcomes_def verifier_names_def
      verifier_objects_def eg_grade_checked graded_def sound_run_def outcome_of_def dget_none_def control_status_def unstable_def
      object_in_def bound_def sample_report_def)

theorem grade_table_witness:
  "\<exists>g. grade_evidence sample_outcomes (PList [pkey ''t'']) sample_control (Some sample_report) sample_stability PNone = Inr g
     \<and> eg_grade g = lit ''A''"
proof -
  obtain g where g: "grade_evidence sample_outcomes (PList [pkey ''t'']) sample_control (Some sample_report) sample_stability PNone = Inr g"
    using sample_grade [of "[]"] by (auto simp: sample_report_def)
  obtain os req ctl det where r: "verifier_outcomes sample_outcomes = Inr os" "verifier_names (PList [pkey ''t'']) = Inr req"
      "verifier_objects sample_control = Inr ctl" "verifier_objects sample_stability = Inr det"
      "eg_grade g = graded os req ctl (Some sample_report) det []"
    using grade_table [OF g] by auto
  then have "eg_grade g = lit ''A''"
    by (auto simp: sample_outcomes_def sample_control_def sample_stability_def verifier_outcomes_def verifier_names_def
      verifier_objects_def graded_def sound_run_def outcome_of_def dget_none_def control_status_def unstable_def
      object_in_def bound_def sample_report_def)
  then show ?thesis using g by blast
qed

theorem grade_A_is_earned_witness:
  "\<exists>paths. normalize_artifact_paths id (PList [pkey ''a'']) = Inr paths \<and> paths \<noteq> []
     \<and> (\<forall>a \<in> set paths. \<exists>c \<in> set [lit ''t'']. sandbox_run sample_workspace a (lit ''absent'') c = Some (lit ''failed''))"
proof -
  obtain now t where p: "run_mutation_probe id sample_workspace id (PList [pkey ''a'']) [lit ''t''] sample_env = (Inr (sample_report\<lparr>mr_ran_at := now\<rparr>), t)"
    using sample_probe by blast
  obtain g where g: "grade_evidence sample_outcomes (PList [pkey ''t'']) sample_control (Some (sample_report\<lparr>mr_ran_at := now\<rparr>)) sample_stability PNone = Inr g"
      "eg_grade g = lit ''A''" using sample_grade by blast
  show ?thesis using grade_A_is_earned [OF p _ g] by (fastforce simp: MUTATIONS_def)
qed

end
