(* ===== verification/Proof.thy ===== *)
theory Proof
  imports Core_Sign Db Glob Lamport Core_Loads
begin

section \<open>proof.py: proof envelopes\<close>

text \<open>
  The envelope of an action claim: its status rule, the structural check, the builder that
  signs it, the verifier, the staleness check and the in-toto mapping. An envelope is a JSON
  object, so its keys are strings. The structural check collects one entry of \<open>shape_error\<close>
  per message of the code, in its order: where the defect is and of which kind it is.
\<close>

definition PROOF_SCHEMA :: pstr where
  "PROOF_SCHEMA = lit ''cce.proof.v2''"

definition INTOTO_TYPE :: pstr where
  "INTOTO_TYPE = lit ''https://in-toto.io/Statement/v1''"

definition PREDICATE_TYPE :: pstr where
  "PREDICATE_TYPE = lit ''https://raw.githubusercontent.com/thequantumfalcon/causal-continuity-engine/v0.2.0/schemas/cce.proof-predicate.v2.json''"

definition FINAL_STATUSES :: "pstr list" where
  "FINAL_STATUSES = map lit [''verified'', ''failed'', ''incomplete'', ''inconclusive'', ''stale'', ''invalid'']"

definition PROOF_STATUSES :: "pstr list" where
  "PROOF_STATUSES = FINAL_STATUSES @ [lit ''draft'']"

definition VERIFICATION_RESULTS :: "pstr list" where
  "VERIFICATION_RESULTS = map lit [''passed'', ''failed'', ''skipped'', ''missing'', ''inconclusive'', ''stale'']"

definition REQUIRED_FIELDS :: "pstr list" where
  "REQUIRED_FIELDS = map lit
     [''schema_version'', ''proof_id'', ''created_at'', ''tenant_id'', ''project_id'', ''action_id'', ''subject'',
      ''action_intent'', ''actor'', ''inputs'', ''environment'', ''execution'', ''verifications'', ''policy_decision'',
      ''continuity_links'', ''evidence_context'', ''status'', ''verification_summary'', ''proof_digest'', ''signature'']"

definition ACTION_INTENT_FIELDS :: "pstr list" where
  "ACTION_INTENT_FIELDS = map lit [''type'', ''statement'', ''requirement_ids'']"

definition SUBJECT_FIELDS :: "pstr list" where
  "SUBJECT_FIELDS = map lit [''name'', ''digest'']"

definition INPUT_FIELDS :: "pstr list" where
  "INPUT_FIELDS = map lit [''name'', ''digest'', ''kind'']"

definition OBLIGATION_PREFIX :: pstr where
  "OBLIGATION_PREFIX = lit ''continuity:obligations:''"

definition SUMMARY_FIELDS :: "pstr list" where
  "SUMMARY_FIELDS = map lit
     [''unbacked_self_assertions'', ''required'', ''missing'', ''failed'', ''inconclusive'', ''skipped'', ''passed'']"

definition EXECUTION_FIELDS :: "pstr list" where
  "EXECUTION_FIELDS = map lit [''tool'', ''command_digest'', ''exit_code'', ''started_at'', ''output_digest'']"

definition VERIFICATION_FIELDS :: "pstr list" where
  "VERIFICATION_FIELDS = map lit
     [''source'', ''pinned'', ''command_digest'', ''definition_digest'', ''verifier'', ''kind'', ''result'', ''started_at'',
      ''duration_seconds'', ''exit_code'', ''output_digest'', ''evidence_digest'', ''coverage'', ''control'', ''observed'',
      ''details'', ''network'']"

definition CONTROL_FIELDS :: "pstr list" where
  "CONTROL_FIELDS = map lit [''command_present'', ''status'', ''exit_code'', ''details'']"

definition POLICY_DECISION_FIELDS :: "pstr list" where
  "POLICY_DECISION_FIELDS = map lit
     [''decision'', ''reason'', ''action_type'', ''required_level'', ''effective_level'', ''action_scope'',
      ''applicable_grant_ids'', ''reasons'', ''policy_config'', ''decided_at'', ''action_scopes'', ''scope_decisions'']"

definition CONTINUITY_FIELDS :: "pstr list" where
  "CONTINUITY_FIELDS = map lit
     [''task_ids'', ''requirement_ids'', ''decision_ids'', ''assumption_ids'', ''artifact_ids'', ''evidence_ids'',
      ''action_ids'', ''proof_node_id'']"

definition EVIDENCE_CONTEXT_FIELDS :: "pstr list" where
  "EVIDENCE_CONTEXT_FIELDS = map lit [''unpinned_required'', ''policy_pinned'', ''mutation'', ''determinism'']"

definition VERIFICATION_SOURCES :: "pstr list" where
  "VERIFICATION_SOURCES = map lit [''executed'', ''verifier_authoritative'', ''self_asserted'']"

definition CONTROL_STATUSES :: "pstr list" where
  "CONTROL_STATUSES = map lit [''held'', ''unmet'', ''absent'', ''inconclusive'']"

definition PROOF_SIGNATURE_FIELDS :: "pstr list" where
  "PROOF_SIGNATURE_FIELDS = map lit [''key_id'', ''algorithm'', ''value'', ''fingerprint'', ''public_key'']"

definition AUTHORITATIVE_SOURCES :: "pstr list" where
  "AUTHORITATIVE_SOURCES = map lit [''executed'', ''verifier_authoritative'']"

definition RESULT_SEVERITY :: "(pstr \<times> nat) list" where
  "RESULT_SEVERITY = map (\<lambda>(r, n). (lit r, n))
     [(''failed'', 0), (''inconclusive'', 1), (''stale'', 1), (''missing'', 2), (''skipped'', 3), (''passed'', 4)]"

definition severity :: "pstr \<Rightarrow> nat" where
  "severity r = (case map_of RESULT_SEVERITY r of None \<Rightarrow> 0 | Some n \<Rightarrow> n)"

text \<open>\<open>min(results, key=...)\<close>: the first of the least; the code calls it on lists that are not
  empty.\<close>

fun worst_of :: "pstr \<Rightarrow> pstr list \<Rightarrow> pstr" where
  "worst_of w [] = w"
| "worst_of w (r # rs) = worst_of (if severity r < severity w then r else w) rs"

definition worst :: "pstr list \<Rightarrow> pstr" where
  "worst rs = (case rs of [] \<Rightarrow> [] | r # rs \<Rightarrow> worst_of r rs)"

subsection \<open>The status rule\<close>

text \<open>A verification as the rule sees it: its name, its result and whether it is
  authoritative.\<close>

definition read_verification :: "pyval \<Rightarrow> exn + pstr \<times> pstr \<times> bool" where
  "read_verification v = (case v of PDict d \<Rightarrow>
     (let name = dget_none d (lit ''verifier''); result = dget_none d (lit ''result'');
          source = (case dget d (lit ''source'') of None \<Rightarrow> pkey ''self_asserted'' | Some s \<Rightarrow> s)
      in require (solid_text name) ValueError
         (require (py_hashable result) TypeError
         (require (result \<in> PStr ` set VERIFICATION_RESULTS) ValueError
         (require (py_hashable source) TypeError
         (require (source \<in> PStr ` set VERIFICATION_SOURCES) ValueError
         (Inr (text_of name, text_of result, source \<in> PStr ` set AUTHORITATIVE_SOURCES)))))))
   | _ \<Rightarrow> Inl ValueError)"

text \<open>\<open>by_verifier\<close>: the authoritative results under a name.\<close>

definition results_under :: "(pstr \<times> pstr \<times> bool) list \<Rightarrow> pstr \<Rightarrow> pstr list" where
  "results_under vs n = map (\<lambda>v. fst (snd v)) (filter (\<lambda>v. fst v = n \<and> snd (snd v)) vs)"

definition result_of :: "(pstr \<times> pstr \<times> bool) list \<Rightarrow> pstr \<Rightarrow> pstr option" where
  "result_of vs n = (case results_under vs n of [] \<Rightarrow> None | rs \<Rightarrow> Some (worst rs))"

record summary =
  sm_unbacked :: "pstr list"
  sm_required :: "pstr list"
  sm_missing :: "pstr list"
  sm_failed :: "pstr list"
  sm_inconclusive :: "pstr list"
  sm_skipped :: "pstr list"
  sm_passed :: "pstr list"

definition summarise :: "(pstr \<times> pstr \<times> bool) list \<Rightarrow> pstr list \<Rightarrow> summary" where
  "summarise vs required =
     (let backed = remdups (map fst (filter (\<lambda>v. snd (snd v)) vs));
          asserted = map fst (filter (\<lambda>v. \<not> snd (snd v)) vs);
          named = (\<lambda>P. sorted_set (filter (\<lambda>n. case result_of vs n of None \<Rightarrow> False | Some r \<Rightarrow> P n r) backed))
      in \<lparr>sm_unbacked = sorted_set (filter (\<lambda>n. n \<in> set asserted \<and> n \<notin> set backed) required),
          sm_required = sorted_set required,
          sm_missing = sorted_set (filter (\<lambda>n. case result_of vs n of None \<Rightarrow> True | Some r \<Rightarrow> r = lit ''missing'') required),
          sm_failed = named (\<lambda>n r. r = lit ''failed'' \<and> (required = [] \<or> n \<in> set required)),
          sm_inconclusive = named (\<lambda>n r. r \<in> {lit ''inconclusive'', lit ''stale''} \<and> (required = [] \<or> n \<in> set required)),
          sm_skipped = named (\<lambda>n r. r = lit ''skipped'' \<and> n \<in> set required),
          sm_passed = named (\<lambda>n r. r = lit ''passed'')\<rparr>)"

definition status_of :: "(pstr \<times> pstr \<times> bool) list \<Rightarrow> pstr list \<Rightarrow> summary \<Rightarrow> pstr" where
  "status_of vs required sm =
     (if sm_failed sm \<noteq> [] then lit ''failed''
      else if sm_missing sm \<noteq> [] \<or> sm_skipped sm \<noteq> [] then lit ''incomplete''
      else if sm_inconclusive sm \<noteq> [] then lit ''inconclusive''
      else if required \<noteq> [] \<and> list_all (\<lambda>n. result_of vs n = Some (lit ''passed'')) required then lit ''verified''
      else if required = [] \<and> sm_passed sm \<noteq> []
          \<and> list_all (\<lambda>v. snd (snd v) \<longrightarrow> result_of vs (fst v) = Some (lit ''passed'')) vs then lit ''verified''
      else lit ''incomplete'')"

definition names_value :: "pstr list \<Rightarrow> pyval" where
  "names_value ns = PList (map PStr ns)"

definition summary_value :: "summary \<Rightarrow> pyval" where
  "summary_value sm = PDict
     [(pkey ''unbacked_self_assertions'', names_value (sm_unbacked sm)), (pkey ''required'', names_value (sm_required sm)),
      (pkey ''missing'', names_value (sm_missing sm)), (pkey ''failed'', names_value (sm_failed sm)),
      (pkey ''inconclusive'', names_value (sm_inconclusive sm)), (pkey ''skipped'', names_value (sm_skipped sm)),
      (pkey ''passed'', names_value (sm_passed sm))]"

definition required_names :: "pyval \<Rightarrow> exn + pstr list" where
  "required_names v = (case v of
     PNone \<Rightarrow> Inr []
   | PList ns \<Rightarrow> require (list_all solid_text ns) ValueError (Inr (map text_of ns))
   | _ \<Rightarrow> Inl ValueError)"

definition evaluate_status :: "pyval \<Rightarrow> pyval \<Rightarrow> exn + pstr \<times> summary" where
  "evaluate_status verifications required_verifiers = (case verifications of
     PList vs \<Rightarrow>
       require (list_all is_dict vs) ValueError
       (rbind (required_names required_verifiers) (\<lambda>required.
        rbind (rmap read_verification vs) (\<lambda>rs.
        (let sm = summarise rs required in Inr (status_of rs required sm, sm)))))
   | _ \<Rightarrow> Inl ValueError)"

subsection \<open>The structural check\<close>

datatype fault = Missing | Unknown | Invalid

type_synonym shape_error = "pstr \<times> fault"

definition err :: "bool \<Rightarrow> pstr \<Rightarrow> shape_error list" where
  "err c place = (if c then [(place, Invalid)] else [])"

definition unknown_fields :: "pstr \<Rightarrow> pstr list \<Rightarrow> pydict \<Rightarrow> shape_error list" where
  "unknown_fields place fs d = (if list_all (\<lambda>kv. fst kv \<in> PStr ` set fs) d then [] else [(place, Unknown)])"

definition missing_fields :: "pstr \<Rightarrow> pstr list \<Rightarrow> pydict \<Rightarrow> shape_error list" where
  "missing_fields place fs d = (if list_all (\<lambda>f. dget d f \<noteq> None) fs then [] else [(place, Missing)])"

definition exact_fields :: "pstr list \<Rightarrow> pydict \<Rightarrow> bool" where
  "exact_fields fs d \<longleftrightarrow> set (map fst d) = PStr ` set fs"

fun is_int :: "pyval \<Rightarrow> bool" where
  "is_int (PInt n) = True"
| "is_int _ = False"

fun is_bool :: "pyval \<Rightarrow> bool" where
  "is_bool (PBool b) = True"
| "is_bool _ = False"

fun list_with :: "(pyval \<Rightarrow> bool) \<Rightarrow> pyval \<Rightarrow> bool" where
  "list_with P (PList vs) = list_all P vs"
| "list_with P _ = False"

definition digest_value :: "pyval \<Rightarrow> bool" where
  "digest_value v = (case v of PStr s \<Rightarrow> DIGEST_RE s | _ \<Rightarrow> False)"

definition or_null :: "(pyval \<Rightarrow> bool) \<Rightarrow> pyval \<Rightarrow> bool" where
  "or_null P v \<longleftrightarrow> v = PNone \<or> P v"

text \<open>A field that has to satisfy \<open>P\<close> when it is there.\<close>

definition if_present :: "pstr \<Rightarrow> pydict \<Rightarrow> (pyval \<Rightarrow> bool) \<Rightarrow> string \<Rightarrow> shape_error list" where
  "if_present place d P f = (case dget d (lit f) of None \<Rightarrow> [] | Some v \<Rightarrow> err (\<not> P v) (place @ lit f))"

definition PROOF_ID :: "pyval \<Rightarrow> bool" where
  "PROOF_ID v = (case v of PStr s \<Rightarrow> take 4 s = lit ''prf_'' \<and> length s = 28 \<and> list_all is_hex (drop 4 s) | _ \<Rightarrow> True)"

text \<open>The pattern bounds month, day, hour, minute and second as the calendar check does, except
  that the calendar also knows the lengths of the months and that there is no year zero.\<close>

definition is_canonical_created_at :: "pstr \<Rightarrow> bool" where
  "is_canonical_created_at s \<longleftrightarrow> CANONICAL_UTC_TIMESTAMP s \<and> \<not> isl (fromisoformat (butlast s))"

definition shape_top :: "pydict \<Rightarrow> shape_error list" where
  "shape_top d =
     map (\<lambda>f. (f, Missing)) (sort (filter (\<lambda>f. dget d f = None) REQUIRED_FIELDS))
     @ unknown_fields [] REQUIRED_FIELDS d
     @ err (dget_none d (lit ''schema_version'') \<noteq> PStr PROOF_SCHEMA) (lit ''schema_version'')
     @ concat (map (\<lambda>f. err (\<not> solid_text (dget_none d (lit f))) (lit f))
         [''proof_id'', ''tenant_id'', ''project_id'', ''action_id'', ''created_at''])
     @ concat (map (\<lambda>f. err (\<not> is_public_identifier (dget_none d (lit f))) (lit f)) [''tenant_id'', ''project_id'', ''action_id''])
     @ err (\<not> PROOF_ID (dget_none d (lit ''proof_id''))) (lit ''proof_id'')
     @ err (case dget_none d (lit ''created_at'') of PStr s \<Rightarrow> \<not> blank s \<and> \<not> is_canonical_created_at s | _ \<Rightarrow> False) (lit ''created_at'')
     @ err (dget_none d (lit ''status'') \<notin> PStr ` set PROOF_STATUSES) (lit ''status'')
     @ concat (map (\<lambda>f. err (\<not> list_with (\<lambda>_. True) (dget_none d (lit f))) (lit f))
         [''subject'', ''inputs'', ''execution'', ''verifications''])
     @ concat (map (\<lambda>f. err (\<not> is_dict (dget_none d (lit f))) (lit f))
         [''actor'', ''environment'', ''policy_decision'', ''continuity_links'', ''evidence_context'',
          ''verification_summary'', ''signature''])"

definition shape_intent :: "pyval \<Rightarrow> shape_error list" where
  "shape_intent v = (let place = lit ''action_intent'' in case v of
     PDict d \<Rightarrow> missing_fields place ACTION_INTENT_FIELDS d @ unknown_fields place ACTION_INTENT_FIELDS d
       @ err (\<not> solid_text (dget_none d (lit ''type''))) (place @ lit ''.type'')
       @ err (\<not> is_str (dget_none d (lit ''statement''))) (place @ lit ''.statement'')
       @ (let r = dget_none d (lit ''requirement_ids'')
          in err (\<not> list_with is_str r \<or> \<not> list_with is_public_identifier r) (place @ lit ''.requirement_ids''))
   | _ \<Rightarrow> err True place)"

definition shape_policy :: "pyval \<Rightarrow> shape_error list" where
  "shape_policy v = (let place = lit ''policy_decision.'' in case v of
     PDict d \<Rightarrow> unknown_fields place POLICY_DECISION_FIELDS d
       @ err (dget_none d (lit ''decision'') \<notin> {pkey ''allow'', pkey ''deny''}) (place @ lit ''decision'')
       @ concat (map (if_present place d is_str) [''action_type'', ''reason'', ''decided_at''])
       @ concat (map (if_present place d is_int) [''required_level'', ''effective_level''])
       @ if_present place d (or_null is_str) ''action_scope''
       @ concat (map (if_present place d (list_with is_str)) [''applicable_grant_ids'', ''reasons'', ''action_scopes''])
       @ if_present place d is_dict ''policy_config''
       @ if_present place d (list_with is_dict) ''scope_decisions''
   | _ \<Rightarrow> [])"

text \<open>The entries of an array, each with the name it has in the messages.\<close>

definition entries :: "string \<Rightarrow> pyval list \<Rightarrow> (pstr \<times> pyval) list" where
  "entries name vs = zip (map (\<lambda>i. lit name @ lit ''['' @ decimal i @ lit '']'') [0..<length vs]) vs"

definition each_entry :: "string \<Rightarrow> (pstr \<Rightarrow> pydict \<Rightarrow> shape_error list) \<Rightarrow> pyval \<Rightarrow> shape_error list" where
  "each_entry name check v = (case v of
     PList vs \<Rightarrow> concat (map (\<lambda>(place, x). case x of PDict d \<Rightarrow> check place d | _ \<Rightarrow> err True place) (entries name vs))
   | _ \<Rightarrow> [])"

definition shape_subject :: "pstr \<Rightarrow> pydict \<Rightarrow> shape_error list" where
  "shape_subject place d = err (\<not> exact_fields SUBJECT_FIELDS d) place
     @ err (\<not> solid_text (dget_none d (lit ''name''))) (place @ lit ''.name'')
     @ err (\<not> digest_value (dget_none d (lit ''digest''))) (place @ lit ''.digest'')"

text \<open>The task an obligation input commits to, when its name has the prefix.\<close>

definition obligation_target :: "pydict \<Rightarrow> pstr option" where
  "obligation_target d = (case dget_none d (lit ''name'') of
     PStr s \<Rightarrow> if take (length OBLIGATION_PREFIX) s = OBLIGATION_PREFIX then Some (drop (length OBLIGATION_PREFIX) s) else None
   | _ \<Rightarrow> None)"

definition shape_input :: "pstr list \<Rightarrow> pstr \<Rightarrow> pydict \<Rightarrow> shape_error list" where
  "shape_input seen place d = err (\<not> exact_fields INPUT_FIELDS d) place
     @ concat (map (\<lambda>f. err (\<not> solid_text (dget_none d (lit f))) (place @ lit ''.'' @ lit f)) [''name'', ''kind''])
     @ err (\<not> digest_value (dget_none d (lit ''digest''))) (place @ lit ''.digest'')
     @ (case obligation_target d of None \<Rightarrow> []
        | Some t \<Rightarrow> err (\<not> PUBLIC_IDENTIFIER t \<or> dget_none d (lit ''kind'') \<noteq> pkey ''continuity'' \<or> t \<in> set seen) place)"

fun shape_inputs :: "pstr list \<Rightarrow> (pstr \<times> pyval) list \<Rightarrow> shape_error list \<times> pstr list" where
  "shape_inputs seen [] = ([], seen)"
| "shape_inputs seen ((place, PDict d) # es) =
     (let (more, tasks) = shape_inputs (case obligation_target d of None \<Rightarrow> seen | Some t \<Rightarrow> seen @ [t]) es
      in (shape_input seen place d @ more, tasks))"
| "shape_inputs seen ((place, v) # es) = (let (more, tasks) = shape_inputs seen es in (err True place @ more, tasks))"

definition input_shapes :: "pyval \<Rightarrow> shape_error list \<times> pstr list" where
  "input_shapes v = (case v of PList vs \<Rightarrow> shape_inputs [] (entries ''inputs'' vs) | _ \<Rightarrow> ([], []))"

definition shape_execution :: "pstr \<Rightarrow> pydict \<Rightarrow> shape_error list" where
  "shape_execution place d = err (\<not> exact_fields EXECUTION_FIELDS d) place
     @ concat (map (\<lambda>f. err (\<not> solid_text (dget_none d (lit f))) (place @ lit ''.'' @ lit f)) [''tool'', ''started_at''])
     @ concat (map (\<lambda>f. err (\<not> or_null digest_value (dget_none d (lit f))) (place @ lit ''.'' @ lit f)) [''command_digest'', ''output_digest''])
     @ err (\<not> or_null is_int (dget_none d (lit ''exit_code''))) (place @ lit ''.exit_code'')"

text \<open>\<open>math.isfinite\<close> raises on an \<open>int\<close> that is too large for a float.\<close>

definition duration_ok :: "pyval \<Rightarrow> exn + bool" where
  "duration_ok v = (case v of
     PInt n \<Rightarrow> (case fl (of_int n) of Fin r \<Rightarrow> Inr (0 \<le> n) | _ \<Rightarrow> Inl OverflowError)
   | PFloat (Fin r) \<Rightarrow> Inr (0 \<le> r)
   | _ \<Rightarrow> Inr False)"

definition shape_control :: "pstr \<Rightarrow> pyval \<Rightarrow> shape_error list" where
  "shape_control place v = (case v of
     PNone \<Rightarrow> []
   | PDict c \<Rightarrow>
       if dget_none c (lit ''status'') \<notin> PStr ` set CONTROL_STATUSES then err True (place @ lit ''.status'')
       else if \<not> exact_fields CONTROL_FIELDS c then err True place
       else err (\<not> is_bool (dget_none c (lit ''command_present''))) (place @ lit ''.command_present'')
         @ err (\<not> or_null is_int (dget_none c (lit ''exit_code''))) (place @ lit ''.exit_code'')
         @ err (\<not> is_str (dget_none c (lit ''details''))) (place @ lit ''.details'')
   | _ \<Rightarrow> err True place)"

definition shape_verification :: "pstr \<Rightarrow> pydict \<Rightarrow> exn + shape_error list" where
  "shape_verification place d =
     rbind (case dget d (lit ''duration_seconds'') of None \<Rightarrow> Inr True | Some v \<Rightarrow> duration_ok v) (\<lambda>ok.
     (let loc = (\<lambda>f. place @ lit ''.'' @ lit f); opt = (\<lambda>P. if_present (place @ lit ''.'') d P) in Inr
       (unknown_fields place VERIFICATION_FIELDS d
        @ err (\<not> solid_text (dget_none d (lit ''verifier''))) (loc ''verifier'')
        @ err (dget_none d (lit ''result'') \<notin> PStr ` set VERIFICATION_RESULTS) (loc ''result'')
        @ err ((case dget d (lit ''source'') of None \<Rightarrow> pkey ''self_asserted'' | Some s \<Rightarrow> s) \<notin> PStr ` set VERIFICATION_SOURCES)
            (loc ''source'')
        @ opt is_bool ''pinned''
        @ concat (map (opt (or_null digest_value)) [''command_digest'', ''definition_digest'', ''output_digest'', ''evidence_digest''])
        @ shape_control (loc ''control'') (dget_none d (lit ''control''))
        @ concat (map (opt (or_null is_dict)) [''coverage'', ''observed''])
        @ err (\<not> ok) (loc ''duration_seconds'')
        @ opt (or_null is_int) ''exit_code''
        @ concat (map (opt is_str) [''kind'', ''started_at'', ''details'', ''network'']))))"

definition shape_verifications :: "pyval \<Rightarrow> exn + shape_error list" where
  "shape_verifications v = (case v of
     PList vs \<Rightarrow> rbind (rmap (\<lambda>(place, x). case x of PDict d \<Rightarrow> shape_verification place d | _ \<Rightarrow> Inr (err True place))
         (entries ''verifications'' vs)) (\<lambda>ess. Inr (concat ess))
   | _ \<Rightarrow> Inr [])"

definition shape_links :: "bool \<Rightarrow> pstr list \<Rightarrow> pyval \<Rightarrow> shape_error list" where
  "shape_links coverage obligation_tasks v = (let place = lit ''continuity_links'' in case v of
     PDict d \<Rightarrow>
       (let tasks = (case dget d (lit ''task_ids'') of None \<Rightarrow> PList [] | Some x \<Rightarrow> x);
            ids = list_with is_public_identifier tasks; ts = (case tasks of PList xs \<Rightarrow> xs | _ \<Rightarrow> []) in
        unknown_fields place CONTINUITY_FIELDS d
        @ concat (map (\<lambda>(k, x). err (if k = pkey ''proof_node_id'' then \<not> is_public_identifier x else \<not> list_with is_public_identifier x)
            (place @ lit ''.'' @ text_of k)) d)
        @ err (ids \<and> \<not> distinct ts) (place @ lit ''.task_ids'')
        @ err (coverage \<and> ids \<and> PStr ` set obligation_tasks \<noteq> set ts) (lit ''inputs''))
   | _ \<Rightarrow> [])"

definition shape_context :: "pyval \<Rightarrow> shape_error list" where
  "shape_context v = (let place = lit ''evidence_context'' in case v of
     PDict d \<Rightarrow> unknown_fields place EVIDENCE_CONTEXT_FIELDS d
       @ concat (map (if_present (place @ lit ''.'') d (list_with is_str)) [''unpinned_required'', ''policy_pinned''])
       @ if_present (place @ lit ''.'') d (or_null is_dict) ''mutation''
       @ if_present (place @ lit ''.'') d is_dict ''determinism''
   | _ \<Rightarrow> [])"

definition shape_signature :: "pyval \<Rightarrow> shape_error list" where
  "shape_signature v = (let place = lit ''signature'' in case v of
     PDict d \<Rightarrow> missing_fields place (map lit [''key_id'', ''algorithm'', ''value'']) d @ unknown_fields place PROOF_SIGNATURE_FIELDS d
       @ err (\<not> solid_text (dget_none d (lit ''algorithm''))) (place @ lit ''.algorithm'')
       @ err (case dget_none d (lit ''value'') of PStr s \<Rightarrow> s = [] | PList xs \<Rightarrow> xs = [] | _ \<Rightarrow> True) (place @ lit ''.value'')
       @ err (\<not> solid_text (dget_none d (lit ''key_id''))) (place @ lit ''.key_id'')
       @ if_present (place @ lit ''.'') d digest_value ''fingerprint''
       @ if_present (place @ lit ''.'') d (list_with (\<lambda>_. True)) ''public_key''
   | _ \<Rightarrow> [])"

definition shape_summary :: "pyval \<Rightarrow> shape_error list" where
  "shape_summary v = (let place = lit ''verification_summary'' in case v of
     PDict d \<Rightarrow> missing_fields place SUMMARY_FIELDS d @ unknown_fields place SUMMARY_FIELDS d
       @ concat (map (\<lambda>f. err (\<not> list_with is_str (dget_none d f)) (place @ lit ''.'' @ f)) (sort SUMMARY_FIELDS))
   | _ \<Rightarrow> [])"

definition validate_envelope_shape :: "bool \<Rightarrow> pyval \<Rightarrow> exn + shape_error list" where
  "validate_envelope_shape require_obligation_coverage v = (case v of
     PDict d \<Rightarrow>
       rbind (shape_verifications (dget_none d (lit ''verifications''))) (\<lambda>verifications.
       (let (inputs, obligation_tasks) = input_shapes (dget_none d (lit ''inputs'')) in Inr
         (shape_top d @ shape_intent (dget_none d (lit ''action_intent'')) @ shape_policy (dget_none d (lit ''policy_decision''))
          @ each_entry ''subject'' shape_subject (dget_none d (lit ''subject''))
          @ inputs
          @ each_entry ''execution'' shape_execution (dget_none d (lit ''execution''))
          @ verifications
          @ shape_links require_obligation_coverage obligation_tasks (dget_none d (lit ''continuity_links''))
          @ shape_context (dget_none d (lit ''evidence_context''))
          @ err (\<not> digest_value (dget_none d (lit ''proof_digest''))) (lit ''proof_digest'')
          @ shape_signature (dget_none d (lit ''signature''))
          @ shape_summary (dget_none d (lit ''verification_summary'')))))
   | _ \<Rightarrow> Inr (err True (lit ''envelope'')))"

end
