(* ===== verification/Proof_Envelope.thy ===== *)
theory Proof_Envelope
  imports Proof
begin

section \<open>proof.py: building, signing and checking envelopes\<close>

text \<open>
  The builder keeps its document in \<open>body\<close>; every method rereads the canonical text of the
  whole draft and checks its shape before it replaces the document. A signer is what the code
  uses of one: \<open>signing\<close>, which makes the \<open>signature\<close> member, and \<open>signer_view\<close>, what
  \<open>verify_envelope\<close> asks it. The two signers of the package are given as instances.
\<close>

text \<open>\<open>strict_json_loads(canonical_json(v))\<close>\<close>

definition reread :: "pyval \<Rightarrow> exn + pyval" where
  "reread v = rbind (canonical_json v) strict_json_text"

definition reread_dict :: "pydict \<Rightarrow> exn + pydict" where
  "reread_dict d = rbind (reread (PDict d)) (\<lambda>v. case v of PDict e \<Rightarrow> Inr e | _ \<Rightarrow> Inl TypeError)"

definition as_value_error :: "exn + 'a \<Rightarrow> exn + 'a" where
  "as_value_error r = rcatch r value_like (\<lambda>_. Inl ValueError)"

text \<open>\<open>{k: v for k, v in d.items() if k not in ("signature", "proof_digest")}\<close>\<close>

definition undigested :: "pydict \<Rightarrow> pydict" where
  "undigested d = filter (\<lambda>(k, v). k \<noteq> pkey ''signature'' \<and> k \<noteq> pkey ''proof_digest'') d"

definition PREFLIGHT_SIGNATURE :: pyval where
  "PREFLIGHT_SIGNATURE = PDict [(pkey ''key_id'', pkey ''preflight''), (pkey ''algorithm'', pkey ''preflight''), (pkey ''value'', pkey ''preflight'')]"

definition preflight_candidate :: "pydict \<Rightarrow> pyval \<Rightarrow> bool \<Rightarrow> exn + pydict" where
  "preflight_candidate draft required_verifiers final =
     rbind (as_value_error (reread_dict draft)) (\<lambda>c0.
     rbind (evaluate_status (dget_none c0 (lit ''verifications'')) required_verifiers) (\<lambda>(status, sm).
     (let c1 = dset (dset c0 (pkey ''status'') (PStr status)) (pkey ''verification_summary'') (summary_value sm) in
      rbind (digest_obj (PDict (undigested c1))) (\<lambda>digest.
      (let c2 = dset (dset c1 (pkey ''proof_digest'') (PStr digest)) (pkey ''signature'') PREFLIGHT_SIGNATURE in
       rbind (validate_envelope_shape final (PDict c2)) (\<lambda>errors.
       require (errors = []) ValueError (Inr c2)))))))"

subsection \<open>The builder\<close>

text \<open>A valid draft goes back to being a draft.\<close>

definition apply_validated_update :: "pydict \<Rightarrow> string \<Rightarrow> pyval \<Rightarrow> exn + pydict" where
  "apply_validated_update body field v =
     rbind (preflight_candidate (dset body (pkey field) v) PNone False) (\<lambda>c. Inr
       (filter (\<lambda>(k, x). k \<notin> {pkey ''verification_summary'', pkey ''proof_digest'', pkey ''signature''})
          (dset c (pkey ''status'') (pkey ''draft''))))"

text \<open>\<open>iter(v)\<close>: what a loop over a value of a document visits.\<close>

fun py_iter :: "pyval \<Rightarrow> exn + pyval list" where
  "py_iter (PList xs) = Inr xs"
| "py_iter (PTuple xs) = Inr xs"
| "py_iter (PDict d) = Inr (map fst d)"
| "py_iter (PStr s) = Inr (map (\<lambda>c. PStr [c]) s)"
| "py_iter (PBytes b) = Inr (map (\<lambda>x. PInt (int x)) b)"
| "py_iter _ = Inl TypeError"

definition items_of :: "pydict \<Rightarrow> string \<Rightarrow> exn + pyval list" where
  "items_of body field = (case dget body (lit field) of None \<Rightarrow> Inr [] | Some v \<Rightarrow> py_iter v)"

definition add_item :: "pydict \<Rightarrow> string \<Rightarrow> pyval \<Rightarrow> exn + pydict" where
  "add_item body field v = rbind (items_of body field) (\<lambda>xs. apply_validated_update body field (PList (xs @ [v])))"

definition update_object :: "pydict \<Rightarrow> string \<Rightarrow> pydict \<Rightarrow> exn + pydict" where
  "update_object body field new = (case dget_none body (lit field) of
     PDict d \<Rightarrow> apply_validated_update body field (PDict (dupdate d new)) | _ \<Rightarrow> Inl ValueError)"

definition display_text :: "pyval \<Rightarrow> exn + pstr" where
  "display_text v = validate_human_text PROJECT_NAME_MAX_LENGTH v"

definition add_subject :: "pydict \<Rightarrow> pyval \<Rightarrow> pyval \<Rightarrow> exn + pydict" where
  "add_subject body name digest =
     rbind (display_text name) (\<lambda>_.
     require (digest_value digest) ValueError
     (add_item body ''subject'' (PDict [(pkey ''name'', name), (pkey ''digest'', digest)])))"

definition add_input :: "pydict \<Rightarrow> pyval \<Rightarrow> pyval \<Rightarrow> pyval \<Rightarrow> exn + pydict" where
  "add_input body name digest kind =
     rbind (display_text name) (\<lambda>_.
     rbind (display_text kind) (\<lambda>_.
     require (digest_value digest) ValueError
     (add_item body ''inputs'' (PDict [(pkey ''name'', name), (pkey ''digest'', digest), (pkey ''kind'', kind)]))))"

definition set_environment :: "pydict \<Rightarrow> pydict \<Rightarrow> exn + pydict" where
  "set_environment body env = update_object body ''environment'' env"

definition add_execution ::
  "pydict \<Rightarrow> pyval \<Rightarrow> pyval \<Rightarrow> pyval \<Rightarrow> pyval \<Rightarrow> pyval \<Rightarrow> ('z env_scheme, pydict) op" where
  "add_execution body tool command_digest exit_code started_at output_digest =
     bnd (lift (rbind (display_text tool) (\<lambda>_. items_of body ''execution''))) (\<lambda>xs.
     bnd (if started_at = PNone then bnd utcnow (\<lambda>now. ret (PStr now)) else ret started_at) (\<lambda>at'.
     lift (apply_validated_update body ''execution'' (PList (xs @ [PDict
       [(pkey ''tool'', tool), (pkey ''command_digest'', command_digest), (pkey ''exit_code'', exit_code),
        (pkey ''started_at'', at'), (pkey ''output_digest'', output_digest)]])))))"

definition add_verification :: "pydict \<Rightarrow> pyval \<Rightarrow> exn + pydict" where
  "add_verification body v = add_item body ''verifications'' v"

definition set_policy_decision :: "pydict \<Rightarrow> pyval \<Rightarrow> exn + pydict" where
  "set_policy_decision body decision = apply_validated_update body ''policy_decision'' decision"

definition set_continuity :: "pydict \<Rightarrow> pydict \<Rightarrow> exn + pydict" where
  "set_continuity body links = update_object body ''continuity_links'' links"

definition set_evidence_context :: "pydict \<Rightarrow> pydict \<Rightarrow> exn + pydict" where
  "set_evidence_context body context = update_object body ''evidence_context'' context"

definition requirement_list :: "pyval \<Rightarrow> exn + pyval list" where
  "requirement_list v = (case v of
     PNone \<Rightarrow> Inr []
   | PList xs \<Rightarrow> rbind (rmap validate_public_identifier xs) (\<lambda>ids. require (distinct ids) ValueError (Inr xs))
   | _ \<Rightarrow> Inl ValueError)"

definition new_envelope ::
  "pyval \<Rightarrow> pyval \<Rightarrow> pyval \<Rightarrow> pyval \<Rightarrow> pyval \<Rightarrow> pyval \<Rightarrow> pyval \<Rightarrow> ('z env_scheme, pydict) op" where
  "new_envelope tenant_id project_id action_id intent_type intent_statement actor requirement_ids =
     bnd (lift (validate_public_identifier tenant_id)) (\<lambda>tenant.
     bnd (lift (validate_public_identifier project_id)) (\<lambda>project.
     bnd (if action_id = PNone then new_id (lit ''action'') else lift (validate_public_identifier action_id)) (\<lambda>action.
     bnd (lift (display_text intent_type)) (\<lambda>_.
     bnd (chk (is_str intent_statement) ValueError) (\<lambda>_.
     bnd (chk (is_dict actor) ValueError) (\<lambda>_.
     bnd (lift (as_value_error (canonical_json (PDict [(pkey ''statement'', intent_statement), (pkey ''actor'', actor)])))) (\<lambda>_.
     bnd (lift (requirement_list requirement_ids)) (\<lambda>requirements.
     bnd (new_id (lit ''proof'')) (\<lambda>pid.
     bnd utcnow (\<lambda>now. ret
       [(pkey ''schema_version'', PStr PROOF_SCHEMA), (pkey ''proof_id'', PStr pid), (pkey ''created_at'', PStr now),
        (pkey ''tenant_id'', PStr tenant), (pkey ''project_id'', PStr project), (pkey ''action_id'', PStr action),
        (pkey ''subject'', PList []),
        (pkey ''action_intent'', PDict [(pkey ''type'', intent_type), (pkey ''statement'', intent_statement),
           (pkey ''requirement_ids'', PList requirements)]),
        (pkey ''actor'', actor), (pkey ''inputs'', PList []), (pkey ''environment'', PDict []),
        (pkey ''execution'', PList []), (pkey ''verifications'', PList []),
        (pkey ''policy_decision'', PDict [(pkey ''decision'', pkey ''deny''),
           (pkey ''reason'', pkey ''proof constructed outside the policy engine'')]),
        (pkey ''continuity_links'', PDict []), (pkey ''evidence_context'', PDict []), (pkey ''status'', pkey ''draft'')]))))))))))"

subsection \<open>Signers\<close>

type_synonym signing = "pydict \<Rightarrow> exn + pyval"

text \<open>What \<open>verify_envelope\<close> asks a signer. \<open>sv_derive\<close> is \<open>None\<close> for a signer without
  \<open>derive_fingerprint\<close>.\<close>

record signer_view =
  sv_verify :: "pyval \<Rightarrow> exn + bool"
  sv_self_authenticating :: bool
  sv_derive :: "(pyval \<Rightarrow> exn + pstr option) option"
  sv_registered :: "pstr list"

definition hmac_signing :: "signer \<Rightarrow> signing" where
  "hmac_signing sg obj = rbind (sign sg obj) (\<lambda>sig. Inr (PDict sig))"

definition hmac_view :: "signer \<Rightarrow> signer_view" where
  "hmac_view sg = \<lparr>sv_verify = verify sg, sv_self_authenticating = True, sv_derive = None, sv_registered = []\<rparr>"

definition lamport_signing :: "lamport_signer \<Rightarrow> signing" where
  "lamport_signing g obj = rbind (fst (lamport_sign (PDict obj) g)) (\<lambda>sig. Inr (PDict sig))"

definition lamport_view :: "lamport_signer \<Rightarrow> signer_view" where
  "lamport_view g = \<lparr>sv_verify = lamport_verify, sv_self_authenticating = False, sv_derive = Some derive_fingerprint,
     sv_registered = registered_fingerprints g\<rparr>"

subsection \<open>finalize\<close>

text \<open>The new document of the builder and the envelope that is returned.\<close>

definition finalize :: "pydict \<Rightarrow> signing \<Rightarrow> pyval \<Rightarrow> exn + pydict \<times> pydict" where
  "finalize body make_sig required_verifiers =
     rbind (preflight_candidate body required_verifiers True) (\<lambda>candidate.
     rbind (as_value_error
       (rbind (reread_dict candidate) (\<lambda>signable.
        rbind (make_sig signable) (\<lambda>signature.
        reread_dict (dset candidate (pkey ''signature'') signature))))) (\<lambda>signed.
     rbind (validate_envelope_shape True (PDict signed)) (\<lambda>errors.
     require (errors = []) ValueError
     (rbind (reread_dict signed) (\<lambda>out. Inr (signed, out))))))"

subsection \<open>verify_envelope\<close>

record envelope_check =
  ec_valid :: bool
  ec_shape_errors :: "shape_error list"
  ec_digest_ok :: bool
  ec_signature_ok :: bool
  ec_authentic :: bool
  ec_sufficiency_ok :: bool
  ec_status :: pyval

definition rejected :: "shape_error list \<Rightarrow> envelope_check" where
  "rejected errors = \<lparr>ec_valid = False, ec_shape_errors = errors, ec_digest_ok = False, ec_signature_ok = False,
     ec_authentic = False, ec_sufficiency_ok = False, ec_status = pkey ''invalid''\<rparr>"

text \<open>Whether the key behind an intact signature is one the signer vouches for.\<close>

definition authentic_key :: "signer_view \<Rightarrow> pyval \<Rightarrow> exn + bool" where
  "authentic_key sv signature = (if sv_self_authenticating sv then Inr True
     else (case sv_derive sv of
         None \<Rightarrow> Inr False
       | Some derive \<Rightarrow> rbind (derive signature) (\<lambda>actual. Inr (case actual of
             None \<Rightarrow> False
           | Some fp \<Rightarrow> (case signature of
                 PDict d \<Rightarrow> dget_none d (lit ''fingerprint'') \<in> {PNone, PStr fp} | _ \<Rightarrow> False)
               \<and> fp \<in> set (sv_registered sv)))))"

text \<open>\<open>==\<close> on the two summaries, objects whose values are lists of strings: the order of the
  members does not count.\<close>

definition same_members :: "pyval \<Rightarrow> pyval \<Rightarrow> bool" where
  "same_members v w = (case (v, w) of
     (PDict d, PDict e) \<Rightarrow> list_all (\<lambda>k. map_of d k = map_of e k) (map fst d @ map fst e)
   | _ \<Rightarrow> v = w)"

text \<open>Whether the digest and the signature cover the contents.\<close>

definition envelope_integrity :: "pydict \<Rightarrow> signer_view option \<Rightarrow> exn + bool \<times> bool" where
  "envelope_integrity d sv =
     rbind (digest_obj (PDict (undigested d))) (\<lambda>digest.
     rbind (case sv of None \<Rightarrow> Inr False | Some w \<Rightarrow> sv_verify w (PDict d)) (\<lambda>sig_ok.
     Inr (dget_none d (lit ''proof_digest'') = PStr digest, sig_ok)))"

definition recorded_required :: "pydict \<Rightarrow> pyval" where
  "recorded_required d = (case dget_none d (lit ''verification_summary'') of
     PDict sm \<Rightarrow> (case dget sm (lit ''required'') of None \<Rightarrow> PList [] | Some v \<Rightarrow> v) | _ \<Rightarrow> PList [])"

definition judge_envelope :: "pydict \<Rightarrow> signer_view option \<Rightarrow> bool \<Rightarrow> bool \<Rightarrow> exn + envelope_check" where
  "judge_envelope d sv digest_ok sig_ok =
     rbind (case sv of None \<Rightarrow> Inr True | Some w \<Rightarrow>
         if sig_ok then authentic_key w (dget_none d (lit ''signature'')) else Inr True) (\<lambda>authentic.
     rbind (evaluate_status (dget_none d (lit ''verifications'')) (recorded_required d)) (\<lambda>(expected, sm).
     (let sufficient = (PStr expected = dget_none d (lit ''status'')
            \<and> same_members (summary_value sm) (dget_none d (lit ''verification_summary'')));
          valid = (digest_ok \<and> sig_ok \<and> authentic \<and> sufficient)
      in Inr \<lparr>ec_valid = valid, ec_shape_errors = [], ec_digest_ok = digest_ok, ec_signature_ok = sig_ok,
           ec_authentic = authentic, ec_sufficiency_ok = sufficient,
           ec_status = (if valid then dget_none d (lit ''status'') else pkey ''invalid'')\<rparr>)))"

definition verify_envelope :: "pyval \<Rightarrow> signer_view option \<Rightarrow> exn + envelope_check" where
  "verify_envelope v sv =
     rbind (validate_envelope_shape True v) (\<lambda>errors.
     if errors \<noteq> [] then Inr (rejected errors)
     else (case v of
        PDict d \<Rightarrow> (case envelope_integrity d sv of
            Inl e \<Rightarrow> if value_like e then Inr (rejected []) else Inl e
          | Inr (digest_ok, sig_ok) \<Rightarrow> judge_envelope d sv digest_ok sig_ok)
      | _ \<Rightarrow> Inr (rejected errors)))"

subsection \<open>Staleness\<close>

datatype input_drift = ChangedInput pyval pyval pyval | UntrackedInput pyval pyval pyval

definition item_at :: "pydict \<Rightarrow> string \<Rightarrow> exn + pyval" where
  "item_at d k = (case dget d (lit k) of None \<Rightarrow> Inl KeyError | Some v \<Rightarrow> Inr v)"

definition input_drift :: "(pstr \<times> pstr) list \<Rightarrow> pydict \<Rightarrow> exn + input_drift list" where
  "input_drift current d =
     rbind (item_at d ''name'') (\<lambda>name.
     require (py_hashable name) TypeError
     (rbind (item_at d ''digest'') (\<lambda>digest. Inr
     (case (case name of PStr n \<Rightarrow> map_of current n | _ \<Rightarrow> None) of
        None \<Rightarrow> if dget_none d (lit ''kind'') = pkey ''artifact'' then [ChangedInput name digest PNone]
          else [UntrackedInput name (dget_none d (lit ''kind'')) digest]
      | Some c \<Rightarrow> if PStr c \<noteq> digest then [ChangedInput name digest (PStr c)] else []))))"

definition changed_input :: "input_drift \<Rightarrow> bool" where
  "changed_input x = (case x of ChangedInput _ _ _ \<Rightarrow> True | UntrackedInput _ _ _ \<Rightarrow> False)"

text \<open>Whether the envelope is stale, what changed and what is not tracked.\<close>

definition detect_stale :: "pydict \<Rightarrow> (pstr \<times> pstr) list \<Rightarrow> exn + bool \<times> input_drift list \<times> input_drift list" where
  "detect_stale envelope current =
     rbind (items_of envelope ''inputs'') (\<lambda>vs.
     rbind (rmap (\<lambda>v. case v of PDict d \<Rightarrow> input_drift current d | _ \<Rightarrow> Inl TypeError) vs) (\<lambda>ds.
     (let changed = filter changed_input (concat ds); untracked = filter (\<lambda>x. \<not> changed_input x) (concat ds)
      in Inr (changed \<noteq> [], changed, untracked))))"

subsection \<open>in-toto statements\<close>

definition remove_prefix :: "pstr \<Rightarrow> pstr \<Rightarrow> pstr" where
  "remove_prefix p s = (if take (length p) s = p then drop (length p) s else s)"

definition subject_out :: "pyval \<Rightarrow> exn + pyval" where
  "subject_out v = (case v of PDict d \<Rightarrow>
       rbind (item_at d ''name'') (\<lambda>name. rbind (item_at d ''digest'') (\<lambda>digest. case digest of
         PStr s \<Rightarrow> Inr (PDict [(pkey ''name'', name), (pkey ''digest'', PDict [(pkey ''sha256'', PStr (remove_prefix (lit ''sha256:'') s))])])
       | _ \<Rightarrow> Inl AttributeError))
   | _ \<Rightarrow> Inl TypeError)"

definition to_intoto :: "pyval \<Rightarrow> exn + pydict" where
  "to_intoto v =
     rbind (validate_envelope_shape True v) (\<lambda>errors.
     require (errors = []) ValueError
     (case v of PDict d \<Rightarrow>
        rbind (items_of d ''subject'') (\<lambda>subjects.
        rbind (rmap subject_out subjects) (\<lambda>outs. Inr
          [(pkey ''_type'', PStr INTOTO_TYPE), (pkey ''subject'', PList outs), (pkey ''predicateType'', PStr PREDICATE_TYPE),
           (pkey ''predicate'', PDict (filter (\<lambda>(k, x). k \<noteq> pkey ''subject'' \<and> k \<noteq> pkey ''schema_version'') d))]))
      | _ \<Rightarrow> Inl ValueError))"

definition subject_in :: "pyval \<Rightarrow> exn + pyval" where
  "subject_in v = (case v of PDict d \<Rightarrow>
       rbind (item_at d ''name'') (\<lambda>name. rbind (item_at d ''digest'') (\<lambda>digest. case digest of
         PDict h \<Rightarrow> rbind (item_at h ''sha256'') (\<lambda>x. case x of
             PStr s \<Rightarrow> Inr (PDict [(pkey ''name'', name), (pkey ''digest'', PStr (lit ''sha256:'' @ s))])
           | _ \<Rightarrow> Inl TypeError)
       | _ \<Rightarrow> Inl TypeError))
   | _ \<Rightarrow> Inl TypeError)"

definition PREDICATE_FIELDS :: "pstr list" where
  "PREDICATE_FIELDS = filter (\<lambda>f. f \<noteq> lit ''subject'' \<and> f \<noteq> lit ''schema_version'') REQUIRED_FIELDS"

definition from_intoto :: "pydict \<Rightarrow> exn + pydict" where
  "from_intoto statement =
     require (dget_none statement (lit ''_type'') = PStr INTOTO_TYPE
              \<and> dget_none statement (lit ''predicateType'') = PStr PREDICATE_TYPE) ValueError
     (case dget_none statement (lit ''predicate'') of
        PDict predicate \<Rightarrow>
          require (exact_fields PREDICATE_FIELDS predicate) ValueError
          (rbind (items_of statement ''subject'') (\<lambda>subjects.
           rbind (rmap subject_in subjects) (\<lambda>ins.
           (let envelope = dset (dset predicate (pkey ''schema_version'') (PStr PROOF_SCHEMA)) (pkey ''subject'') (PList ins) in
            rbind (validate_envelope_shape True (PDict envelope)) (\<lambda>errors.
            require (errors = []) ValueError (Inr envelope))))))
      | _ \<Rightarrow> Inl ValueError)"

end
