(* ===== verification/Core_Jcs_Stable.thy ===== *)
theory Core_Jcs_Stable
  imports Core_Jcs_Read
begin

section \<open>Rereading a document\<close>

text \<open>
  The engine often rereads the canonical text of a document to normalise it. What it gets
  back has the same canonical text, also after members have been removed, so digests and
  signatures taken before and after agree.
\<close>

definition members_read :: "pydict \<Rightarrow> pydict" where
  "members_read d = map (\<lambda>(k, v). (k, jnorm v)) (sort_members d)"

lemma jnorm_PDict: "jnorm (PDict d) = PDict (members_read d)"
  by (simp add: members_read_def)

lemma map_insort_key: "map g (insort_key (\<lambda>x. f (g x)) x xs) = insort_key f (g x) (map g xs)"
  by (induction xs) auto

lemma map_sort_key: "map g (sort_key (\<lambda>x. f (g x)) xs) = sort_key f (map g xs)"
  by (induction xs) (simp_all add: map_insort_key)

lemma sort_members_map:
  "sort_members (map (\<lambda>(k, v). (k, f v)) d) = map (\<lambda>(k, v). (k, f v)) (sort_members d)"
  using map_sort_key [of "\<lambda>(k, v). (k, f v)" "\<lambda>(k, v). utf16_sort_key (key_text k)" d]
  by (simp add: sort_members_def case_prod_unfold)

lemma sort_members_idem: "sort_members (sort_members d) = sort_members d"
  unfolding sort_members_def by (rule sort_key_id_if_sorted) simp

lemma members_read_sorted: "sort_members (members_read d) = members_read d"
  by (simp add: members_read_def sort_members_map sort_members_idem)

lemma rmap_map: "rmap f (map g xs) = rmap (\<lambda>x. f (g x)) xs"
  by (induction xs) auto

lemma members_read_filter:
  "members_read (filter (\<lambda>(k, v). P k) d) = filter (\<lambda>(k, v). P k) (members_read d)"
proof -
  have "sort_members (filter (\<lambda>(k, v). P k) d) = filter (\<lambda>(k, v). P k) (sort_members d)"
    by (simp add: sort_members_def filter_sort)
  then show ?thesis by (simp add: members_read_def filter_map comp_def case_prod_unfold)
qed

lemma keys_members_read: "distinct (map fst d) \<Longrightarrow> distinct (map fst (members_read d))"
  using distinct_sort_members [of d] by (simp add: members_read_def comp_def case_prod_unfold)

lemma map_of_map_values: "map_of (map (\<lambda>(k, v). (k, f v)) d) k = map_option f (map_of d k)"
  by (induction d) auto

lemma map_of_members_read: "distinct (map fst d) \<Longrightarrow> map_of (members_read d) k = map_option jnorm (map_of d k)"
proof -
  assume d: "distinct (map fst d)"
  then have "map_of (sort_members d) = map_of d"
    using distinct_sort_members by (intro map_of_inject_set [THEN iffD2]) auto
  then show ?thesis by (simp add: members_read_def map_of_map_values)
qed

lemma dget_members_read: "distinct (map fst d) \<Longrightarrow> dget (members_read d) k = map_option jnorm (dget d k)"
  by (simp add: dget_def map_of_members_read)

lemma check_keys_iff: "check_keys ks = Inr () \<longleftrightarrow> (\<forall>k \<in> set ks. \<exists>t. k = PStr t \<and> validate_i_json_string t = Inr ())"
  by (induction ks rule: check_keys.induct) auto

lemma validate_PDict: "validate_i_json (PDict d) = Inr () \<Longrightarrow> (k, v) \<in> set d \<Longrightarrow> validate_i_json v = Inr ()"
  by (fastforce dest: rmap_mem)

lemma read_number_valid:
  assumes "is_binary64 r" and "validate_i_json (read_number r) = Inr ()"
  shows "render_jcs (read_number r) = Inr (jcs_finite r)" and "wf_json (read_number r)"
proof -
  have "render_jcs (read_number r) = Inr (jcs_finite r) \<and> wf_json (read_number r)"
  proof (cases rule: read_number_cases [OF assms(1)])
    case (1 m)
    then have "jcs_number (PInt m) \<noteq> Inl e" for e using assms(2) by (auto simp del: jcs_number.simps)
    then have "is_binary64 (of_int m)" using jcs_number_PInt by (cases "jcs_number (PInt m)") auto
    then have "of_int m = r" using 1 by (simp add: is_binary64_def)
    then show ?thesis using 1 assms(1) jcs_number_PInt [of m "jcs_finite r"] by (simp del: jcs_number.simps)
  next
    case 2
    then show ?thesis using assms(1) by simp
  qed
  then show "render_jcs (read_number r) = Inr (jcs_finite r)" "wf_json (read_number r)" by auto
qed

lemma render_jnorm:
  "render_jcs v = Inr s \<Longrightarrow> wf_json v \<Longrightarrow> validate_i_json (jnorm v) = Inr () \<Longrightarrow>
   render_jcs (jnorm v) = Inr s \<and> wf_json (jnorm v)"
proof (induction v arbitrary: s rule: render_jcs.induct)
  case (6 xs)
  then obtain ts where ts: "rmap render_jcs xs = Inr ts" "s = [91] @ join [44] ts @ [93]" by auto
  have x: "\<exists>t. render_jcs x = Inr t" "wf_json x" "validate_i_json (jnorm x) = Inr ()" if "x \<in> set xs" for x
    using rmap_mem [OF ts(1) that] "6.prems"(2,3) that by (auto simp: list_all_iff void_rmap simp del: rbind_eq_Inr)
  have "render_jcs (jnorm x) = render_jcs x \<and> wf_json (jnorm x)" if "x \<in> set xs" for x
    using x [OF that] "6.IH" [OF that] by auto
  note h = this
  have "rmap (\<lambda>x. render_jcs (jnorm x)) xs = rmap render_jcs xs" by (rule rmap_cong) (simp_all add: h)
  then show ?case using ts h by (simp add: list_all_iff rmap_map)
next
  case (7 xs)
  then obtain ts where ts: "rmap render_jcs xs = Inr ts" "s = [91] @ join [44] ts @ [93]" by auto
  have x: "\<exists>t. render_jcs x = Inr t" "wf_json x" "validate_i_json (jnorm x) = Inr ()" if "x \<in> set xs" for x
    using rmap_mem [OF ts(1) that] "7.prems"(2,3) that by (auto simp: list_all_iff void_rmap simp del: rbind_eq_Inr)
  have "render_jcs (jnorm x) = render_jcs x \<and> wf_json (jnorm x)" if "x \<in> set xs" for x
    using x [OF that] "7.IH" [OF that] by auto
  note h = this
  have "rmap (\<lambda>x. render_jcs (jnorm x)) xs = rmap render_jcs xs" by (rule rmap_cong) (simp_all add: h)
  then show ?case using ts h by (simp add: list_all_iff rmap_map)
next
  case (8 d)
  obtain ts where ck: "check_keys (map fst d) = Inr ()"
    and ts: "rmap (\<lambda>(k, v). rbind (jcs_string (key_text k)) (\<lambda>ek. rbind (render_jcs v) (\<lambda>ev.
              Inr (ek @ [58] @ ev)))) (sort_members d) = Inr ts" "s = [123] @ join [44] ts @ [125]"
    using "8.prems"(1) by auto
  have val: "validate_i_json (PDict (members_read d)) = Inr ()" using "8.prems"(3) by (simp only: jnorm_PDict)
  have v: "render_jcs (jnorm v) = render_jcs v \<and> wf_json (jnorm v)" if kv: "(k, v) \<in> set d" for k v
  proof -
    have m: "(k, v) \<in> set (sort_members d)" using kv by simp
    obtain ev where "render_jcs v = Inr ev" using rmap_mem [OF ts(1) m] by auto
    moreover have "wf_json v" using "8.prems"(2) kv by (auto simp: list_all_iff)
    moreover have "validate_i_json (jnorm v) = Inr ()"
      by (rule validate_PDict [OF val]) (use m in \<open>auto simp: members_read_def\<close>)
    ultimately show ?thesis using "8.IH" [OF _ _ _] m by (metis prod.inject)
  qed
  have "check_keys (map fst (members_read d)) = Inr ()"
    using ck by (auto simp: check_keys_iff members_read_def comp_def case_prod_unfold)
  moreover have "rmap (\<lambda>(k, v). rbind (jcs_string (key_text k)) (\<lambda>ek. rbind (render_jcs v) (\<lambda>ev.
              Inr (ek @ [58] @ ev)))) (members_read d) = Inr ts"
    unfolding ts(1) [symmetric] members_read_def rmap_map by (rule rmap_cong) (auto simp: v)
  moreover have "wf_json (PDict (members_read d))"
    using "8.prems"(2) v keys_members_read [of d] by (auto simp: list_all_iff members_read_def)
  ultimately show ?case using ts(2) by (simp add: jnorm_PDict members_read_sorted del: jnorm.simps)
next
  case (4 n)
  then show ?case using read_number_valid [of "of_int n"] by (auto simp: jcs_number_PInt simp del: jcs_number.simps)
next
  case (5 x)
  then show ?case using read_number_valid by (auto split: pyfloat.splits)
qed auto

lemma render_filter:
  assumes "render_jcs (PDict d) = Inr s"
  shows "\<exists>s. render_jcs (PDict (filter (\<lambda>(k, v). P k) d)) = Inr s"
proof -
  let ?f = "\<lambda>(k, v). rbind (jcs_string (key_text k)) (\<lambda>ek. rbind (render_jcs v) (\<lambda>ev. Inr (ek @ [58] @ ev)))"
  obtain ts where ck: "check_keys (map fst d) = Inr ()" and ts: "rmap ?f (sort_members d) = Inr ts" using assms by auto
  have "\<exists>ts. rmap ?f (sort_members (filter (\<lambda>(k, v). P k) d)) = Inr ts"
  proof (rule exI, rule rmap_all_Inr)
    fix x assume "x \<in> set (sort_members (filter (\<lambda>(k, v). P k) d))"
    then have "x \<in> set (sort_members d)" by auto
    then show "?f x = Inr (projr (?f x))" using rmap_mem [OF ts] by fastforce
  qed
  moreover have "check_keys (map fst (filter (\<lambda>(k, v). P k) d)) = Inr ()" using ck by (auto simp: check_keys_iff)
  ultimately show ?thesis by auto
qed

lemma validate_filter:
  assumes "validate_i_json (PDict d) = Inr ()"
  shows "validate_i_json (PDict (filter (\<lambda>(k, v). P k) d)) = Inr ()"
  using assms by (fastforce simp: void_rmap simp del: rbind_eq_Inr)

lemma wf_filter: "wf_json (PDict d) \<Longrightarrow> wf_json (PDict (filter (\<lambda>(k, v). P k) d))"
  by (auto simp: list_all_iff distinct_map_filter)

text \<open>What rereading gives, and that removing members before or after makes no difference to the
  canonical text.\<close>

lemma strict_json_canonical_Inr:
  assumes "canonical_json v = Inr s" and "wf_json v" and "strict_json_text s = Inr w"
  shows "w = jnorm v" and "canonical_json w = Inr s" and "wf_json w" and "jnorm w = w"
proof -
  have l: "json_loads s = Inr (jnorm v)" by (rule json_loads_canonical [OF assms(1,2)])
  then have w: "w = jnorm v" "validate_i_json (jnorm v) = Inr ()"
    using assms(3) by (auto simp: strict_json_text_def split: if_splits)
  show "w = jnorm v" by (rule w(1))
  show c: "canonical_json w = Inr s" and "wf_json w"
    using render_jnorm [OF _ assms(2) w(2)] assms(1) w(1) by (auto simp: canonical_json_def)
  then show "jnorm w = w" using canonical_json_inject [OF assms(1) c assms(2)] w(1) by simp
qed

lemma canonical_filter_read:
  assumes "canonical_json (PDict d) = Inr s" and "wf_json (PDict d)" and "strict_json_text s = Inr (PDict e)"
  shows "canonical_json (PDict (filter (\<lambda>(k, v). P k) e)) = canonical_json (PDict (filter (\<lambda>(k, v). P k) d))"
proof -
  let ?F = "\<lambda>x. filter (\<lambda>(k, v). P k) x"
  have l: "json_loads s = Inr (jnorm (PDict d))" by (rule json_loads_canonical [OF assms(1,2)])
  then have e: "e = members_read d" "validate_i_json (PDict e) = Inr ()"
    using assms(3) by (auto simp: strict_json_text_def jnorm_PDict simp del: jnorm.simps split: if_splits)
  obtain u where u: "render_jcs (PDict (?F d)) = Inr u"
    using render_filter assms(1) unfolding canonical_json_def by blast
  have n: "jnorm (PDict (?F d)) = PDict (?F e)" by (simp only: jnorm_PDict members_read_filter e(1))
  have "validate_i_json (jnorm (PDict (?F d))) = Inr ()" unfolding n by (rule validate_filter [OF e(2)])
  then have "render_jcs (jnorm (PDict (?F d))) = Inr u" using render_jnorm [OF u wf_filter [OF assms(2)]] by blast
  then show ?thesis using u n by (simp only: canonical_json_def)
qed

end
