(* ===== verification/Proof_Props.thy ===== *)
theory Proof_Props
  imports Proof_Envelope Core_Jcs_Stable Lamport_Props
begin

section \<open>What a proof envelope proves\<close>

lemma dget_dset [simp]: "dget (dset d k v) n = (if k = PStr n then Some v else dget d n)"
  by (auto simp: dget_def map_of_dset)

subsection \<open>The status rule\<close>

text \<open>Authoritative results under a name, all of them passes.\<close>

definition passes :: "(pstr \<times> pstr \<times> bool) list \<Rightarrow> pstr \<Rightarrow> bool" where
  "passes vs n \<longleftrightarrow> results_under vs n \<noteq> [] \<and> list_all (\<lambda>r. r = lit ''passed'') (results_under vs n)"

lemma severity_passed: "severity (lit ''passed'') = 4" "r \<noteq> lit ''passed'' \<Longrightarrow> severity r < 4"
  by (auto simp: severity_def RESULT_SEVERITY_def)

lemma worst_of_passed: "worst_of w rs = lit ''passed'' \<longleftrightarrow> w = lit ''passed'' \<and> list_all (\<lambda>r. r = lit ''passed'') rs"
proof (induction rs arbitrary: w)
  case (Cons r rs)
  show ?case
    using severity_passed(2) [of r] severity_passed(2) [of w] severity_passed(1)
    by (cases "r = lit ''passed''"; cases "w = lit ''passed''") (simp_all add: Cons.IH)
qed simp

lemma result_of_passed: "result_of vs n = Some (lit ''passed'') \<longleftrightarrow> passes vs n"
  by (auto simp: result_of_def passes_def worst_def worst_of_passed split: list.splits)

lemma results_under_Nil: "results_under vs n = [] \<longleftrightarrow> n \<notin> fst ` {v \<in> set vs. snd (snd v)}"
  by (induction vs) (auto simp: results_under_def)

lemma result_of_None: "result_of vs n = None \<longleftrightarrow> n \<notin> fst ` {v \<in> set vs. snd (snd v)}"
  unfolding results_under_Nil [symmetric] by (simp add: result_of_def split: list.split)

lemma sorted_set_Nil [simp]: "sorted_set xs = [] \<longleftrightarrow> xs = []"
  by (metis list.set(1) set_empty set_remdups set_sort sorted_set_def)

lemma sorted_set_cong: "set xs = set ys \<Longrightarrow> sorted_set xs = sorted_set ys"
  by (simp add: sorted_set_def sorted_list_of_set_sort_remdups [symmetric])

lemma set_sorted_set [simp]: "set (sorted_set xs) = set xs"
  by (simp add: sorted_set_def)

definition sufficient :: "(pstr \<times> pstr \<times> bool) list \<Rightarrow> pstr list \<Rightarrow> bool" where
  "sufficient vs req \<longleftrightarrow> (if req = [] then list_ex (\<lambda>v. snd (snd v)) vs \<and> list_all (\<lambda>v. snd (snd v) \<longrightarrow> fst (snd v) = lit ''passed'') vs
     else list_all (passes vs) req)"

lemma in_named:
  "set (sorted_set (filter (\<lambda>n. case result_of vs n of None \<Rightarrow> False | Some r \<Rightarrow> P n r) (remdups (map fst (filter (\<lambda>v. snd (snd v)) vs)))))
     = {n. \<exists>r. result_of vs n = Some r \<and> P n r}"
proof (rule set_eqI)
  fix n
  show "n \<in> set (sorted_set (filter (\<lambda>n. case result_of vs n of None \<Rightarrow> False | Some r \<Rightarrow> P n r) (remdups (map fst (filter (\<lambda>v. snd (snd v)) vs)))))
      \<longleftrightarrow> n \<in> {n. \<exists>r. result_of vs n = Some r \<and> P n r}"
  proof (cases "result_of vs n")
    case None
    then show ?thesis by simp
  next
    case (Some r)
    then have "n \<in> fst ` {v \<in> set vs. snd (snd v)}" using result_of_None [of vs n] by simp
    then show ?thesis using Some by simp
  qed
qed

lemma summary_sets:
  "set (sm_failed (summarise vs req)) = {n. result_of vs n = Some (lit ''failed'') \<and> (req = [] \<or> n \<in> set req)}"
  "set (sm_inconclusive (summarise vs req))
     = {n. (result_of vs n = Some (lit ''inconclusive'') \<or> result_of vs n = Some (lit ''stale'')) \<and> (req = [] \<or> n \<in> set req)}"
  "set (sm_skipped (summarise vs req)) = {n. result_of vs n = Some (lit ''skipped'') \<and> n \<in> set req}"
  "set (sm_passed (summarise vs req)) = {n. result_of vs n = Some (lit ''passed'')}"
  "set (sm_missing (summarise vs req)) = {n \<in> set req. result_of vs n = None \<or> result_of vs n = Some (lit ''missing'')}"
  unfolding summarise_def Let_def summary.simps in_named
  by (auto split: option.splits) (metis option.exhaust)

lemma list_empty_set: "xs = [] \<longleftrightarrow> set xs = {}"
  by simp

lemma all_passes:
  "(\<forall>v \<in> set vs. snd (snd v) \<longrightarrow> result_of vs (fst v) = Some (lit ''passed''))
     \<longleftrightarrow> (\<forall>v \<in> set vs. snd (snd v) \<longrightarrow> fst (snd v) = lit ''passed'')"
proof
  assume a: "\<forall>v \<in> set vs. snd (snd v) \<longrightarrow> result_of vs (fst v) = Some (lit ''passed'')"
  have "fst (snd v) = lit ''passed''" if v: "v \<in> set vs" "snd (snd v)" for v
  proof -
    have "list_all (\<lambda>r. r = lit ''passed'') (results_under vs (fst v))" using a v by (simp add: result_of_passed passes_def)
    moreover have "fst (snd v) \<in> set (results_under vs (fst v))" using v by (simp add: results_under_def)
    ultimately show ?thesis by (simp add: list_all_iff)
  qed
  then show "\<forall>v \<in> set vs. snd (snd v) \<longrightarrow> fst (snd v) = lit ''passed''" by blast
next
  assume "\<forall>v \<in> set vs. snd (snd v) \<longrightarrow> fst (snd v) = lit ''passed''"
  then show "\<forall>v \<in> set vs. snd (snd v) \<longrightarrow> result_of vs (fst v) = Some (lit ''passed'')"
    by (simp add: result_of_passed passes_def results_under_def list_all_iff filter_empty_conv del: split_paired_All) blast
qed

lemma status_verified: "status_of vs req (summarise vs req) = lit ''verified'' \<longleftrightarrow> sufficient vs req"
proof (cases "req = []")
  case True
  let ?A = "\<forall>v \<in> set vs. snd (snd v) \<longrightarrow> result_of vs (fst v) = Some (lit ''passed'')"
  let ?S = "summarise vs req"
  have suff: "sufficient vs req \<longleftrightarrow> (\<exists>v \<in> set vs. snd (snd v)) \<and> ?A"
    unfolding all_passes using True by (simp add: sufficient_def list_ex_iff list_all_iff)
  have stat: "status_of vs req ?S = lit ''verified'' \<longleftrightarrow>
      set (sm_failed ?S) = {} \<and> set (sm_missing ?S) = {} \<and> set (sm_skipped ?S) = {} \<and> set (sm_inconclusive ?S) = {}
      \<and> set (sm_passed ?S) \<noteq> {} \<and> ?A"
    using True by (auto simp: status_of_def list_all_iff simp del: split_paired_All split_paired_Ex)
  have only: "result_of vs n = Some (lit ''passed'')" if "?A" "result_of vs n = Some r" for n r
    using that result_of_None [of vs n] by force
  have "set (sm_passed ?S) \<noteq> {} \<longleftrightarrow> (\<exists>v \<in> set vs. snd (snd v))" if A: "?A"
  proof
    assume "set (sm_passed ?S) \<noteq> {}"
    then obtain n where "result_of vs n \<noteq> None" unfolding summary_sets by auto
    then show "\<exists>v \<in> set vs. snd (snd v)" using result_of_None [of vs n] by auto
  next
    assume "\<exists>v \<in> set vs. snd (snd v)"
    then show "set (sm_passed ?S) \<noteq> {}" using A unfolding summary_sets by blast
  qed
  moreover have "set (sm_failed ?S) = {} \<and> set (sm_missing ?S) = {} \<and> set (sm_skipped ?S) = {} \<and> set (sm_inconclusive ?S) = {}" if A: "?A"
    unfolding summary_sets using only [OF A] True by fastforce
  ultimately show ?thesis unfolding stat suff by blast
next
  case False
  let ?S = "summarise vs req"
  have "status_of vs req ?S = lit ''verified'' \<longleftrightarrow>
      set (sm_failed ?S) = {} \<and> set (sm_missing ?S) = {} \<and> set (sm_skipped ?S) = {} \<and> set (sm_inconclusive ?S) = {}
      \<and> (\<forall>n \<in> set req. passes vs n)"
    using False by (auto simp: status_of_def list_all_iff result_of_passed simp del: split_paired_All split_paired_Ex)
  moreover have "set (sm_failed ?S) = {} \<and> set (sm_missing ?S) = {} \<and> set (sm_skipped ?S) = {} \<and> set (sm_inconclusive ?S) = {}"
    if "\<forall>n \<in> set req. passes vs n"
    using that False unfolding summary_sets result_of_passed [symmetric] by fastforce
  ultimately show ?thesis using False unfolding sufficient_def list_all_iff by auto
qed

lemma evaluate_status_Inr:
  assumes "evaluate_status v required = Inr (status, sm)"
  obtains vs req xs where "v = PList xs" "rmap read_verification xs = Inr vs" "required_names required = Inr req"
    "sm = summarise vs req" "status = status_of vs req (summarise vs req)"
  using assms by (cases v) (auto simp: evaluate_status_def Let_def)

lemma filter_set_cong: "set xs = set ys \<Longrightarrow> set (filter P xs) = set (filter P ys)"
  by auto

lemma set_empty_cong: "set xs = set ys \<Longrightarrow> xs = [] \<longleftrightarrow> ys = []"
  by (metis set_empty)

lemma summarise_cong:
  assumes "set req = set req'"
  shows "summarise vs req = summarise vs req'"
proof -
  have f: "sorted_set (filter P req) = sorted_set (filter P req')" for P using assms by (intro sorted_set_cong) simp
  show ?thesis
    unfolding summarise_def Let_def using assms set_empty_cong [OF assms] sorted_set_cong [OF assms] f by (simp cong: option.case_cong)
qed

lemma status_of_cong:
  assumes "set req = set req'"
  shows "status_of vs req sm = status_of vs req' sm"
  unfolding status_of_def list_all_iff using assms set_empty_cong [OF assms] by simp

lemma solid_text_iff: "solid_text v \<longleftrightarrow> (\<exists>s. v = PStr s \<and> \<not> blank s)"
  by (cases v) auto

lemma required_names_solid: "required_names v = Inr req \<Longrightarrow> list_all (\<lambda>n. \<not> blank n) req"
  by (force simp: required_names_def list_all_iff solid_text_iff split: pyval.splits)

text \<open>The required names recorded in a summary give the same verdict as those it was made from.\<close>

lemma evaluate_status_recorded:
  assumes "evaluate_status v required = Inr (status, sm)"
  shows "evaluate_status v (names_value (sm_required sm)) = Inr (status, sm)"
proof -
  obtain vs req xs where e: "v = PList xs" "rmap read_verification xs = Inr vs" "required_names required = Inr req"
    "sm = summarise vs req" "status = status_of vs req (summarise vs req)"
    by (rule evaluate_status_Inr [OF assms])
  have rq: "sm_required (summarise vs req) = sorted_set req" by (simp add: summarise_def Let_def)
  have "list_all is_dict xs" using assms by (simp add: evaluate_status_def e(1))
  moreover have "required_names (names_value (sorted_set req)) = Inr (sorted_set req)"
    using required_names_solid [OF e(3)] by (simp add: required_names_def names_value_def list_all_iff comp_def)
  ultimately show ?thesis
    using e summarise_cong [of "sorted_set req" req] status_of_cong [of "sorted_set req" req]
    by (simp add: evaluate_status_def rq Let_def)
qed

subsection \<open>Valid envelopes\<close>

text \<open>C39: A valid proof that says it is verified carries its evidence: the digest and the
  signature cover its contents, every required verifier has results the engine observed
  itself or got from an authoritative source, all of them passes, and without required
  verifiers there is at least one such result and all are passes.\<close>

theorem valid_verified_proof:
  assumes "verify_envelope (PDict d) (Some w) = Inr ec" and "ec_valid ec" and "ec_status ec = pkey ''verified''"
  shows "\<exists>xs vs req digest. dget_none d (lit ''verifications'') = PList xs \<and> rmap read_verification xs = Inr vs
    \<and> required_names (recorded_required d) = Inr req \<and> sufficient vs req \<and> sv_verify w (PDict d) = Inr True
    \<and> digest_obj (PDict (undigested d)) = Inr digest \<and> dget_none d (lit ''proof_digest'') = PStr digest"
proof -
  obtain errors where shape: "validate_envelope_shape True (PDict d) = Inr errors"
    using assms(1) by (auto simp: verify_envelope_def)
  then have "errors = []" using assms(1,2) by (auto simp: verify_envelope_def rejected_def split: if_splits)
  note run = assms(1) [unfolded verify_envelope_def shape this rbind_simps pyval.case]
  obtain digest_ok sig_ok where c: "envelope_integrity d (Some w) = Inr (digest_ok, sig_ok)"
  proof (cases "envelope_integrity d (Some w)")
    case (Inl e)
    then show thesis using run assms(2) by (auto simp: rejected_def split: if_splits)
  next
    case (Inr p)
    then show thesis using that by (cases p) simp
  qed
  have judged: "judge_envelope d (Some w) digest_ok sig_ok = Inr ec" using run c by simp
  obtain expected sm where e: "evaluate_status (dget_none d (lit ''verifications'')) (recorded_required d) = Inr (expected, sm)"
      "digest_ok \<and> sig_ok \<and> PStr expected = dget_none d (lit ''status'')" "ec_status ec = dget_none d (lit ''status'')"
    using judged assms(2) by (auto simp: judge_envelope_def Let_def)
  obtain vs req xs where v: "dget_none d (lit ''verifications'') = PList xs" "rmap read_verification xs = Inr vs"
      "required_names (recorded_required d) = Inr req" "expected = status_of vs req (summarise vs req)"
    by (rule evaluate_status_Inr [OF e(1)])
  have "PStr expected = pkey ''verified''" using e(2,3) assms(3) by metis
  then have "expected = lit ''verified''" by simp
  then have "sufficient vs req" using v(4) status_verified [of vs req] by simp
  then show ?thesis using v(1-3) c e(2) by (auto simp: envelope_integrity_def)
qed


subsection \<open>Staleness\<close>

lemma rmap_Inr_mem: "rmap f xs = Inr ys \<Longrightarrow> x \<in> set xs \<Longrightarrow> \<exists>y. f x = Inr y \<and> y \<in> set ys"
  by (auto simp: rmap_eq_Inr list_all2_conv_all_nth in_set_conv_nth) 

text \<open>What the drift of one input says when it reports no change.\<close>

lemma input_drift_unchanged:
  assumes "input_drift current d = Inr ds" and "\<not> list_ex changed_input ds"
  shows "\<exists>name digest. dget d (lit ''name'') = Some name \<and> dget d (lit ''digest'') = Some digest
    \<and> ((\<exists>n c. name = PStr n \<and> map_of current n = Some c \<and> digest = PStr c)
       \<or> dget_none d (lit ''kind'') \<noteq> pkey ''artifact'' \<and> ds = [UntrackedInput name (dget_none d (lit ''kind'')) digest])"
  using assms
  by (auto simp: input_drift_def item_at_def changed_input_def split: option.splits pyval.splits if_splits)

text \<open>A proof that is not reported stale is fresh: every recorded input of kind artifact
  has the digest that the project reports now, and every other input has it or is listed as
  not tracked.\<close>

theorem fresh_inputs_match:
  assumes "detect_stale envelope current = Inr (False, changed, untracked)" and "dget envelope (lit ''inputs'') = Some (PList vs)"
    and "PDict d \<in> set vs"
  shows "changed = [] \<and> (\<exists>name digest. dget d (lit ''name'') = Some name \<and> dget d (lit ''digest'') = Some digest
    \<and> ((\<exists>n. name = PStr n \<and> map_option PStr (map_of current n) = Some digest)
       \<or> dget_none d (lit ''kind'') \<noteq> pkey ''artifact'' \<and> UntrackedInput name (dget_none d (lit ''kind'')) digest \<in> set untracked))"
proof -
  obtain ds where ds: "rmap (\<lambda>v. case v of PDict d \<Rightarrow> input_drift current d | _ \<Rightarrow> Inl TypeError) vs = Inr ds"
      "filter changed_input (concat ds) = []" "changed = []" "untracked = filter (\<lambda>x. \<not> changed_input x) (concat ds)"
    using assms(1,2) by (auto simp: detect_stale_def items_of_def Let_def)
  obtain x where x: "input_drift current d = Inr x" "x \<in> set ds"
    using rmap_Inr_mem [OF ds(1) assms(3)] by auto
  have u: "\<not> list_ex changed_input x" using ds(2) x(2) by (auto simp: filter_empty_conv list_ex_iff)
  obtain name digest where n: "dget d (lit ''name'') = Some name" "dget d (lit ''digest'') = Some digest"
    "(\<exists>n c. name = PStr n \<and> map_of current n = Some c \<and> digest = PStr c)
       \<or> dget_none d (lit ''kind'') \<noteq> pkey ''artifact'' \<and> x = [UntrackedInput name (dget_none d (lit ''kind'')) digest]"
    using input_drift_unchanged [OF x(1) u] by blast
  have "y \<in> set untracked" if "x = [y]" for y
    using x(2) u that unfolding ds(4) by (auto simp: filter_concat intro!: bexI [of _ x])
  then show ?thesis using n ds(3) by auto
qed

theorem fresh_inputs_match_witness:
  "\<exists>changed untracked. detect_stale [(pkey ''inputs'', PList [PDict [(pkey ''name'', pkey ''a''), (pkey ''digest'', pkey ''x''),
      (pkey ''kind'', pkey ''artifact'')]])] [(lit ''a'', lit ''x'')] = Inr (False, changed, untracked) \<and> changed = []"
proof -
  let ?d = "[(pkey ''name'', pkey ''a''), (pkey ''digest'', pkey ''x''), (pkey ''kind'', pkey ''artifact'')]"
  have "detect_stale [(pkey ''inputs'', PList [PDict ?d])] [(lit ''a'', lit ''x'')] = Inr (False, [], [])"
    by (simp add: detect_stale_def items_of_def input_drift_def item_at_def)
  then show ?thesis using fresh_inputs_match [of _ _ "[]" "[]" "[PDict ?d]" ?d] by auto
qed

end
