(* ===== verification/Proof_Final.thy ===== *)
theory Proof_Final
  imports Proof_Props
begin

section \<open>Finalized envelopes verify\<close>

text \<open>
  \<open>finalize\<close> signs a reread of the candidate and rereads the result, so what is digested and
  signed and what the verifier digests are different documents. They have the same canonical
  text, and that is all a signer has to depend on: \<open>envelope_signer\<close> states what
  \<open>finalize\<close> and \<open>verify_envelope\<close> need of a signer, and the two signers of the package
  are shown to give it.
\<close>


subsection \<open>Members of a document\<close>

lemma set_dset: "set (dset d k v) \<subseteq> insert (k, v) (set d)"
  by (induction d k v rule: dset.induct) auto

lemma wf_dset: "wf_json (PDict d) \<Longrightarrow> wf_json v \<Longrightarrow> wf_json (PDict (dset d k v))"
  using set_dset [of d k v] by (auto simp: list_all_iff distinct_dset)

lemma undigested_dset: "k \<in> {pkey ''signature'', pkey ''proof_digest''} \<Longrightarrow> undigested (dset d k v) = undigested d"
  unfolding undigested_def by (induction d k v rule: dset.induct) (auto split: prod.splits)

lemma digest_obj_cong: "canonical_json v = canonical_json w \<Longrightarrow> digest_obj v = digest_obj w"
  by (simp add: digest_obj_def)

lemma mac_of_cong: "canonical_json (PDict (unsigned d)) = canonical_json (PDict (unsigned e)) \<Longrightarrow> mac_of sg d = mac_of sg e"
  by (simp add: mac_of_def)

lemma as_value_error_Inr [simp]: "as_value_error r = Inr x \<longleftrightarrow> r = Inr x"
  by (cases r) (simp_all add: as_value_error_def rcatch_def)

text \<open>A document that has been reread.\<close>

lemma reread_dict_Inr:
  assumes "reread_dict d = Inr e" and "wf_json (PDict d)"
  shows "wf_json (PDict e)" and "dget e k = map_option jnorm (dget d k)"
    and "canonical_json (PDict (filter (\<lambda>(k, v). P k) e)) = canonical_json (PDict (filter (\<lambda>(k, v). P k) d))"
    and "reread_dict e = Inr e" and "map_option jnorm (dget e k) = dget e k"
proof -
  obtain v where v: "reread (PDict d) = Inr v" "(case v of PDict e \<Rightarrow> Inr e | _ \<Rightarrow> Inl TypeError) = Inr e"
    using assms(1) by (auto simp: reread_dict_def)
  then have "reread (PDict d) = Inr (PDict e)" by (cases v) auto
  then obtain s where s: "canonical_json (PDict d) = Inr s" "strict_json_text s = Inr (PDict e)" by (auto simp: reread_def)
  note r = strict_json_canonical_Inr [OF s(1) assms(2) s(2)]
  have e: "e = members_read d" using r(1) by (simp add: jnorm_PDict del: jnorm.simps)
  show "wf_json (PDict e)" by (rule r(3))
  show "dget e k = map_option jnorm (dget d k)" using assms(2) by (simp add: e dget_members_read)
  show "canonical_json (PDict (filter (\<lambda>(k, v). P k) e)) = canonical_json (PDict (filter (\<lambda>(k, v). P k) d))"
    by (rule canonical_filter_read [OF s(1) assms(2) s(2)])
  show "reread_dict e = Inr e" using r(2) s(2) by (simp add: reread_dict_def reread_def)
  have "members_read e = e" using r(4) by (simp add: jnorm_PDict del: jnorm.simps)
  then show "map_option jnorm (dget e k) = dget e k" using dget_members_read [of e k] r(3) by simp
qed

lemma undigested_reread:
  "reread_dict d = Inr e \<Longrightarrow> wf_json (PDict d) \<Longrightarrow> canonical_json (PDict (undigested e)) = canonical_json (PDict (undigested d))"
  unfolding undigested_def by (rule reread_dict_Inr(3))

lemma unsigned_reread:
  "reread_dict d = Inr e \<Longrightarrow> wf_json (PDict d) \<Longrightarrow> canonical_json (PDict (unsigned e)) = canonical_json (PDict (unsigned d))"
  unfolding unsigned_def by (rule reread_dict_Inr(3))

lemma jnorm_names_value [simp]: "jnorm (names_value ns) = names_value ns"
  by (simp add: names_value_def comp_def)

lemma wf_names_value [simp]: "wf_json (names_value ns)"
  by (simp add: names_value_def list_all_iff)

lemma summary_members:
  obtains fs where "summary_value sm = PDict fs" "distinct (map fst fs)" "\<forall>k v. map_of fs k = Some v \<longrightarrow> jnorm v = v"
    "dget fs (lit ''required'') = Some (names_value (sm_required sm))" "wf_json (PDict fs)"
  by (rule that [OF summary_value_def]) (auto split: if_splits)

lemma same_members_jnorm: "same_members (summary_value sm) (jnorm (summary_value sm))"
proof -
  obtain fs where f: "summary_value sm = PDict fs" "distinct (map fst fs)" "\<forall>k v. map_of fs k = Some v \<longrightarrow> jnorm v = v"
      "dget fs (lit ''required'') = Some (names_value (sm_required sm))" "wf_json (PDict fs)"
    by (rule summary_members [of sm])
  have "map_of fs k = map_of (members_read fs) k" for k
    using f(3) by (cases "map_of fs k") (simp_all add: map_of_members_read [OF f(2)])
  then show ?thesis by (simp add: same_members_def f(1) jnorm_PDict list_all_iff del: jnorm.simps)
qed

lemma recorded_required_jnorm:
  "dget_none d (lit ''verification_summary'') = jnorm (summary_value sm) \<Longrightarrow> recorded_required d = names_value (sm_required sm)"
proof -
  assume d: "dget_none d (lit ''verification_summary'') = jnorm (summary_value sm)"
  obtain fs where f: "summary_value sm = PDict fs" "distinct (map fst fs)" "\<forall>k v. map_of fs k = Some v \<longrightarrow> jnorm v = v"
      "dget fs (lit ''required'') = Some (names_value (sm_required sm))" "wf_json (PDict fs)"
    by (rule summary_members [of sm])
  show ?thesis using d f(4) by (simp add: recorded_required_def f(1) jnorm_PDict dget_members_read [OF f(2)] del: jnorm.simps)
qed

lemma preflight_candidate_Inr:
  assumes "preflight_candidate draft required final = Inr c" and "wf_json (PDict draft)"
  obtains status sm digest where "wf_json (PDict c)" "digest_obj (PDict (undigested c)) = Inr digest"
    "evaluate_status (dget_none c (lit ''verifications'')) required = Inr (status, sm)"
    "dget c (lit ''status'') = Some (PStr status)" "dget c (lit ''verification_summary'') = Some (summary_value sm)"
    "dget c (lit ''proof_digest'') = Some (PStr digest)" "map_option jnorm (dget c (lit ''verifications'')) = dget c (lit ''verifications'')"
proof -
  obtain c0 status sm where c0: "reread_dict draft = Inr c0"
      "evaluate_status (dget_none c0 (lit ''verifications'')) required = Inr (status, sm)"
    and rest: "(let c1 = dset (dset c0 (pkey ''status'') (PStr status)) (pkey ''verification_summary'') (summary_value sm) in
      rbind (digest_obj (PDict (undigested c1))) (\<lambda>digest.
      (let c2 = dset (dset c1 (pkey ''proof_digest'') (PStr digest)) (pkey ''signature'') PREFLIGHT_SIGNATURE in
       rbind (validate_envelope_shape final (PDict c2)) (\<lambda>errors.
       require (errors = []) ValueError (Inr c2))))) = Inr c"
    using assms(1) by (auto simp: preflight_candidate_def)
  obtain digest where c: "digest_obj (PDict (undigested c)) = Inr digest"
      "c = dset (dset (dset (dset c0 (pkey ''status'') (PStr status)) (pkey ''verification_summary'') (summary_value sm))
            (pkey ''proof_digest'') (PStr digest)) (pkey ''signature'') PREFLIGHT_SIGNATURE"
    using rest by (auto simp: Let_def undigested_dset)
  have "wf_json (summary_value sm)" by (rule summary_members [of sm]) simp
  then have "wf_json (PDict c)"
    unfolding c(2) using reread_dict_Inr(1) [OF c0(1) assms(2)] by (intro wf_dset) (simp_all add: PREFLIGHT_SIGNATURE_def)
  then show thesis
    using c c0(2) reread_dict_Inr(5) [OF c0(1) assms(2), of "lit ''verifications''"]
    by (intro that) (simp_all add: dget_none_def)
qed

locale envelope_signer =
  fixes make_sig :: signing and view :: signer_view and ready :: bool
  assumes sig_wf: "ready \<Longrightarrow> make_sig obj = Inr sig \<Longrightarrow> wf_json sig"
    and accepts: "ready \<Longrightarrow> make_sig obj = Inr sig \<Longrightarrow>
      canonical_json (PDict (unsigned obj')) = canonical_json (PDict (unsigned obj)) \<Longrightarrow>
      dget obj' (lit ''signature'') = Some (jnorm sig) \<Longrightarrow> sv_verify view (PDict obj') = Inr True"
    and vouches: "ready \<Longrightarrow> make_sig obj = Inr sig \<Longrightarrow> authentic_key view (jnorm sig) = Inr True"
begin

lemma finalized_verifies:
  assumes "ready" and "wf_json (PDict body)" and "finalize body make_sig required = Inr (sealed, out)"
  shows "out = sealed \<and> (\<exists>ec status sm. verify_envelope (PDict out) (Some view) = Inr ec \<and> ec_valid ec
    \<and> evaluate_status (dget_none out (lit ''verifications'')) required = Inr (status, sm) \<and> ec_status ec = PStr status)"
proof -
  obtain c signable sig where c: "preflight_candidate body required True = Inr c" "reread_dict c = Inr signable"
      "make_sig signable = Inr sig" "reread_dict (dset c (pkey ''signature'') sig) = Inr sealed"
      "validate_envelope_shape True (PDict sealed) = Inr []" "reread_dict sealed = Inr out"
    using assms(3) by (auto simp: finalize_def)
  let ?c = "dset c (pkey ''signature'') sig"
  obtain status sm digest where p: "wf_json (PDict c)" "digest_obj (PDict (undigested c)) = Inr digest"
    "evaluate_status (dget_none c (lit ''verifications'')) required = Inr (status, sm)"
    "dget c (lit ''status'') = Some (PStr status)" "dget c (lit ''verification_summary'') = Some (summary_value sm)"
    "dget c (lit ''proof_digest'') = Some (PStr digest)" "map_option jnorm (dget c (lit ''verifications'')) = dget c (lit ''verifications'')"
    by (rule preflight_candidate_Inr [OF c(1) assms(2)])
  have wf: "wf_json (PDict ?c)" using wf_dset [OF p(1)] sig_wf [OF assms(1) c(3)] by blast
  note got = reread_dict_Inr(2) [OF c(4) wf]
  have out: "out = sealed" using reread_dict_Inr(4) [OF c(4) wf] c(6) by simp
  have fields: "dget_none sealed (lit ''status'') = PStr status" "dget_none sealed (lit ''proof_digest'') = PStr digest"
      "dget_none sealed (lit ''verification_summary'') = jnorm (summary_value sm)" "dget sealed (lit ''signature'') = Some (jnorm sig)"
      "dget_none sealed (lit ''verifications'') = dget_none c (lit ''verifications'')"
    using p(4-7) by (simp_all add: dget_none_def got)
  have "digest_obj (PDict (undigested sealed)) = Inr digest"
    unfolding digest_obj_cong [OF undigested_reread [OF c(4) wf]] using p(2) by (simp add: undigested_dset)
  moreover have "canonical_json (PDict (unsigned sealed)) = canonical_json (PDict (unsigned signable))"
    unfolding unsigned_reread [OF c(4) wf] unsigned_reread [OF c(2) p(1)] by (simp add: unsigned_dset)
  then have v: "sv_verify view (PDict sealed) = Inr True" using accepts [OF assms(1) c(3)] fields(4) by blast
  ultimately have "envelope_integrity sealed (Some view) = Inr (True, True)"
    using fields(2) by (simp add: envelope_integrity_def)
  moreover have "dget_none sealed (lit ''signature'') = jnorm sig" using fields(4) by (simp add: dget_none_def)
  then have "\<exists>ec. judge_envelope sealed (Some view) True True = Inr ec \<and> ec_valid ec \<and> ec_status ec = PStr status"
    using vouches [OF assms(1) c(3)] evaluate_status_recorded [OF p(3)] recorded_required_jnorm [OF fields(3)] fields(1,3,5) same_members_jnorm
    by (simp add: judge_envelope_def Let_def)
  ultimately show ?thesis using out c(5) p(3) fields(5) by (auto simp: verify_envelope_def)
qed

end


lemma hmac_signing_Inr:
  assumes "hmac_signing sg obj = Inr sig"
  obtains mac where "mac_of sg obj = Inr mac" "sig = PDict [(PStr (lit ''key_id''), PStr (signer_key_id sg)),
      (PStr (lit ''algorithm''), PStr HMAC_ALGORITHM), (PStr (lit ''value''), PStr mac)]"
  using assms by (auto simp: hmac_signing_def sign_def)

lemma hmac_signing_wf: "hmac_signing sg obj = Inr sig \<Longrightarrow> wf_json sig"
  by (erule hmac_signing_Inr) simp


lemma hmac_accepts:
  assumes "hmac_signing sg obj = Inr sig" and "canonical_json (PDict (unsigned obj')) = canonical_json (PDict (unsigned obj))"
    and "dget obj' (lit ''signature'') = Some (jnorm sig)"
  shows "verify sg (PDict obj') = Inr True"
proof -
  obtain mac where m: "mac_of sg obj = Inr mac" "sig = PDict [(PStr (lit ''key_id''), PStr (signer_key_id sg)),
      (PStr (lit ''algorithm''), PStr HMAC_ALGORITHM), (PStr (lit ''value''), PStr mac)]"
    by (rule hmac_signing_Inr [OF assms(1)])
  have own: "dget_none obj' (lit ''signature'') = PDict (members_read [(PStr (lit ''key_id''), PStr (signer_key_id sg)),
      (PStr (lit ''algorithm''), PStr HMAC_ALGORITHM), (PStr (lit ''value''), PStr mac)])"
    using assms(3) unfolding m(2) jnorm_PDict by (simp add: dget_none_def del: jnorm.simps)
  show ?thesis
    using m(1) mac_of_cong [OF assms(2), of sg] mac_of_shape [OF m(1)]
    by (simp add: verify_def own) (simp add: dget_none_def dget_members_read)
qed

definition fresh_fingerprint :: "lamport_signer \<Rightarrow> pstr" where
  "fresh_fingerprint g = sha256_bytes_hex (flat_key (map hash_pair (fresh_key g)))"

text \<open>The signer once it has signed with its fresh key.\<close>

definition after_signing :: "lamport_signer \<Rightarrow> lamport_signer" where
  "after_signing g = g\<lparr>registered_fingerprints := fresh_fingerprint g # registered_fingerprints g\<rparr>"

lemma jnorm_encoded [simp]: "jnorm (encode_pairs ps) = encode_pairs ps" "jnorm (encode_blocks bs) = encode_blocks bs"
  by (simp_all add: encode_pairs_def encode_blocks_def comp_def case_prod_unfold)

lemma wf_encoded [simp]: "wf_json (encode_pairs ps)" "wf_json (encode_blocks bs)"
  by (auto simp: encode_pairs_def encode_blocks_def list_all_iff)

abbreviation lamport_signature :: "lamport_signer \<Rightarrow> nat list list \<Rightarrow> pydict" where
  "lamport_signature g blocks \<equiv> [(pkey ''key_id'', PStr (lam_key_id g)), (pkey ''algorithm'', PStr LAMPORT_ALGORITHM),
     (pkey ''fingerprint'', PStr (fresh_fingerprint g)), (pkey ''public_key'', encode_pairs (map hash_pair (fresh_key g))),
     (pkey ''value'', encode_blocks blocks)]"

lemma lamport_signing_Inr:
  assumes "byte_source (entropy g)" and "lamport_signing g obj = Inr sig"
  obtains m blocks where "signed_message obj = Inr m" "sign_bytes (bytes_key (fresh_key g)) (PBytes m) = Inr blocks"
    "sig = PDict (lamport_signature g blocks)"
proof -
  obtain s h where s: "lamport_sign (PDict obj) g = (Inr s, h)" "sig = PDict s"
    using assms(2) by (cases "lamport_sign (PDict obj) g") (auto simp: lamport_signing_def)
  show thesis by (rule lamport_sign_run [OF assms(1) s(1)]) (use s(2) that in \<open>auto simp: fresh_fingerprint_def\<close>)
qed

lemma reread_signature:
  fixes g blocks
  defines "s \<equiv> lamport_signature g blocks"
  assumes "lam_key_id g \<noteq> []"
  shows "signature_shape (PDict (members_read s))"
    and "dget_none (members_read s) (lit ''public_key'') = encode_pairs (map hash_pair (fresh_key g))"
    and "dget_none (members_read s) (lit ''value'') = encode_blocks blocks"
    and "dget_none (members_read s) (lit ''fingerprint'') = PStr (fresh_fingerprint g)"
proof -
  have d: "distinct (map fst s)" by (simp add: s_def)
  have g: "dget_none (members_read s) k = (case dget s k of None \<Rightarrow> PNone | Some v \<Rightarrow> jnorm v)" for k
    by (simp add: dget_none_def dget_members_read [OF d] split: option.split)
  show "dget_none (members_read s) (lit ''public_key'') = encode_pairs (map hash_pair (fresh_key g))"
    "dget_none (members_read s) (lit ''value'') = encode_blocks blocks"
    "dget_none (members_read s) (lit ''fingerprint'') = PStr (fresh_fingerprint g)"
    unfolding g by (simp_all add: s_def)
  have "set (map fst (members_read s)) = set SIGNATURE_FIELDS"
    using set_sort_members [of s] by (simp add: members_read_def comp_def case_prod_unfold image_image [symmetric] del: image_image)
      (simp add: s_def SIGNATURE_FIELDS_def)
  then show "signature_shape (PDict (members_read s))"
    unfolding signature_shape.simps g using assms(2) by (simp add: s_def fresh_fingerprint_def)
qed

lemma lamport_accepts:
  assumes "byte_source (entropy g)" and "lam_key_id g \<noteq> []" and "lamport_signing g obj = Inr sig"
    and "canonical_json (PDict (unsigned obj')) = canonical_json (PDict (unsigned obj))"
    and "dget obj' (lit ''signature'') = Some (jnorm sig)"
  shows "lamport_verify (PDict obj') = Inr True"
proof -
  obtain m blocks where m: "signed_message obj = Inr m" "sign_bytes (bytes_key (fresh_key g)) (PBytes m) = Inr blocks"
    "sig = PDict (lamport_signature g blocks)"
    by (rule lamport_signing_Inr [OF assms(1,3)])
  have m': "signed_message obj' = Inr m" using m(1) assms(4) by (simp add: signed_message_def)
  have own: "dget_none obj' (lit ''signature'') = PDict (members_read (lamport_signature g blocks))"
    using assms(5) unfolding m(3) jnorm_PDict by (simp add: dget_none_def del: jnorm.simps)
  note key = sound_hash_key [OF length_fresh_key [of g]] and bs = sign_bytes_run [OF sound_fresh_key [OF assms(1)] m(2)]
  show ?thesis
    using lamport_signed_verifies [OF assms(1) m(2)]
    by (simp add: lamport_verify_def own reread_signature [OF assms(2)] m' decode_encode_pairs [OF key]
        decode_encode_blocks [OF bs(1,3)] rcatch_def del: signature_shape.simps)
qed

lemma lamport_vouches:
  assumes "byte_source (entropy g)" and "lam_key_id g \<noteq> []" and "lamport_signing g obj = Inr sig"
  shows "authentic_key (lamport_view (after_signing g)) (jnorm sig) = Inr True"
proof -
  obtain m blocks where m: "sig = PDict (lamport_signature g blocks)"
    by (rule lamport_signing_Inr [OF assms(1,3)])
  note key = sound_hash_key [OF length_fresh_key [of g]]
  have "derive_fingerprint (PDict (members_read (lamport_signature g blocks))) = Inr (Some (fresh_fingerprint g))"
    by (simp add: derive_fingerprint_def reread_signature [OF assms(2)] decode_encode_pairs [OF key] fingerprint_def
        key_pairs_bytes_key [OF key] del: signature_shape.simps) (simp add: fresh_fingerprint_def)
  then show ?thesis
    by (simp add: m jnorm_PDict authentic_key_def lamport_view_def after_signing_def reread_signature [OF assms(2)] del: jnorm.simps)
qed

lemma lamport_signing_wf: "byte_source (entropy g) \<Longrightarrow> lamport_signing g obj = Inr sig \<Longrightarrow> wf_json sig"
  by (erule (1) lamport_signing_Inr) simp

interpretation hmac: envelope_signer "hmac_signing sg" "hmac_view sg" True for sg
  by unfold_locales (auto simp: hmac_view_def authentic_key_def intro: hmac_accepts hmac_signing_wf)

interpretation lamport: envelope_signer "lamport_signing g" "lamport_view (after_signing g)"
  "byte_source (entropy g) \<and> lam_key_id g \<noteq> []" for g
proof (unfold_locales, goal_cases)
  case (1 obj sig)
  then show ?case using lamport_signing_wf by blast
next
  case (2 obj sig obj')
  then show ?case using lamport_accepts [of g obj sig obj'] by (simp add: lamport_view_def)
next
  case (3 obj sig)
  then show ?case using lamport_vouches by blast
qed

text \<open>C40: A finalized proof verifies: what \<open>finalize\<close> stores is what it returns, and with the
  HMAC signer that made it \<open>verify_envelope\<close> calls it valid and reports the status that the
  verification results and the required verifiers give.\<close>

theorem finalized_proof_verifies:
  assumes "wf_json (PDict body)" and "finalize body (hmac_signing sg) required = Inr (sealed, out)"
  shows "out = sealed \<and> (\<exists>ec status sm. verify_envelope (PDict out) (Some (hmac_view sg)) = Inr ec \<and> ec_valid ec
    \<and> evaluate_status (dget_none out (lit ''verifications'')) required = Inr (status, sm) \<and> ec_status ec = PStr status)"
  using assms by (rule hmac.finalized_verifies [OF TrueI])

text \<open>The same with a one-time signer: the signer that has just signed and registered
  its fresh key calls the finalized proof valid, and its key authentic.\<close>

theorem lamport_proof_verifies:
  assumes "byte_source (entropy g)" and "lam_key_id g \<noteq> []" and "wf_json (PDict body)"
    and "finalize body (lamport_signing g) required = Inr (sealed, out)"
  shows "out = sealed \<and> (\<exists>ec status sm. verify_envelope (PDict out) (Some (lamport_view (after_signing g))) = Inr ec \<and> ec_valid ec
    \<and> evaluate_status (dget_none out (lit ''verifications'')) required = Inr (status, sm) \<and> ec_status ec = PStr status)"
  using assms by (intro lamport.finalized_verifies) simp_all

end
