(* ===== verification/Proof_Intoto.thy ===== *)
theory Proof_Intoto
  imports Proof_Props
begin

section \<open>Proofs as in-toto statements\<close>

text \<open>
  The mapping to in-toto statements loses nothing: the statement of a proof reads back as a
  proof with the same members. Subjects are rebuilt with their two members in a fixed order,
  so they are the same objects but perhaps not the same lists of members.
\<close>

lemma err_Nil [simp]: "err c p = [] \<longleftrightarrow> \<not> c"
  by (simp add: err_def)

lemma list_all_True [simp]: "list_all (\<lambda>_. True) xs"
  by (simp add: list_all_iff)

lemma sort_Nil [simp]: "sort xs = [] \<longleftrightarrow> xs = []"
  by (metis set_empty set_sort)

text \<open>The structural check looks only at the members, and at the subjects one by one.\<close>

lemma shape_members_cong:
  assumes "\<And>k. k \<noteq> lit ''subject'' \<Longrightarrow> dget e k = dget d k" and "fst ` set e = fst ` set d"
    and "dget d (lit ''subject'') = Some (PList xs)" and "dget e (lit ''subject'') = Some (PList ys)"
    and "each_entry ''subject'' shape_subject (PList ys) = each_entry ''subject'' shape_subject (PList xs)"
  shows "validate_envelope_shape b (PDict e) = validate_envelope_shape b (PDict d)"
proof -
  have n: "dget_none e k = dget_none d k" if "k \<noteq> lit ''subject''" for k using assms(1) [OF that] by (simp add: dget_none_def)
  have s: "dget_none d (lit ''subject'') = PList xs" "dget_none e (lit ''subject'') = PList ys" using assms(3,4) by (simp_all add: dget_none_def)
  have "dget e f = None \<longleftrightarrow> dget d f = None" for f using assms(1,3,4) by (cases "f = lit ''subject''") auto
  then have m: "filter (\<lambda>f. dget e f = None) fs = filter (\<lambda>f. dget d f = None) fs" for fs by simp
  have "unknown_fields p fs e = unknown_fields p fs d" for p fs
    unfolding unknown_fields_def list_all_iff using assms(2) by (metis (no_types, opaque_lifting) imageE imageI)
  then show ?thesis by (simp add: validate_envelope_shape_def shape_top_def m n s assms(5))
qed

lemma exact_REQUIRED:
  assumes "validate_envelope_shape b (PDict d) = Inr []"
  shows "set (map fst d) = PStr ` set REQUIRED_FIELDS" and "dget d (lit ''schema_version'') = Some (PStr PROOF_SCHEMA)"
    and "\<exists>xs. dget d (lit ''subject'') = Some (PList xs) \<and> each_entry ''subject'' shape_subject (PList xs) = []"
proof -
  have top: "shape_top d = []" and subj: "each_entry ''subject'' shape_subject (dget_none d (lit ''subject'')) = []"
    using assms by (auto simp: validate_envelope_shape_def case_prod_unfold Let_def)
  have miss: "\<forall>f \<in> set REQUIRED_FIELDS. dget d f \<noteq> None" and unk: "unknown_fields [] REQUIRED_FIELDS d = []"
    and schema: "dget_none d (lit ''schema_version'') = PStr PROOF_SCHEMA" and l: "list_with (\<lambda>_. True) (dget_none d (lit ''subject''))"
    using top by (auto simp: shape_top_def filter_empty_conv)
  have "PStr f \<in> set (map fst d)" if "f \<in> set REQUIRED_FIELDS" for f
    using miss that by (force simp: dget_def map_of_eq_None_iff)
  moreover have "k \<in> PStr ` set REQUIRED_FIELDS" if "k \<in> set (map fst d)" for k
    using unk that by (auto simp: unknown_fields_def list_all_iff split: if_splits)
  ultimately show "set (map fst d) = PStr ` set REQUIRED_FIELDS" by blast
  show "dget d (lit ''schema_version'') = Some (PStr PROOF_SCHEMA)"
    using schema by (simp add: dget_none_def split: option.splits)
  show "\<exists>xs. dget d (lit ''subject'') = Some (PList xs) \<and> each_entry ''subject'' shape_subject (PList xs) = []"
    using l subj by (cases "dget d (lit ''subject'')"; cases "dget_none d (lit ''subject'')") (auto simp: dget_none_def)
qed

text \<open>A subject and what the two mappings make of it.\<close>

definition good_subject :: "pyval \<Rightarrow> bool" where
  "good_subject v \<longleftrightarrow> (\<forall>place. (case v of PDict d \<Rightarrow> shape_subject place d | _ \<Rightarrow> err True place) = [])"

lemma each_entry_subjects: "each_entry ''subject'' shape_subject (PList xs) = [] \<longleftrightarrow> list_all good_subject xs"
proof -
  have g: "good_subject x \<longleftrightarrow> (case x of PDict d \<Rightarrow> shape_subject place d | _ \<Rightarrow> err True place) = []" for x place
    by (auto simp: good_subject_def shape_subject_def split: pyval.splits)
  have "each_entry ''subject'' shape_subject (PList xs) = [] \<longleftrightarrow> (\<forall>p \<in> set (entries ''subject'' xs). good_subject (snd p))"
    by (simp add: each_entry_def case_prod_unfold g [symmetric])
  also have "\<dots> \<longleftrightarrow> (\<forall>x \<in> snd ` set (entries ''subject'' xs). good_subject x)" by simp
  also have "snd ` set (entries ''subject'' xs) = set xs"
    unfolding entries_def set_map [symmetric] by (subst map_snd_zip) simp_all
  finally show ?thesis by (simp add: list_all_iff)
qed

lemma good_subjectE:
  assumes "good_subject v"
  obtains d n s where "v = PDict d" "set (map fst d) = {pkey ''name'', pkey ''digest''}" "dget d (lit ''name'') = Some n" "solid_text n"
    "dget d (lit ''digest'') = Some (PStr s)" "DIGEST_RE s"
proof (cases v)
  case (PDict d)
  then have "shape_subject [] d = []" using assms by (simp add: good_subject_def)
  then have s: "set (map fst d) = {pkey ''name'', pkey ''digest''}" "solid_text (dget_none d (lit ''name''))" "digest_value (dget_none d (lit ''digest''))"
    by (auto simp: shape_subject_def exact_fields_def SUBJECT_FIELDS_def)
  then show thesis
    using PDict that [of d "dget_none d (lit ''name'')"]
    by (cases "dget d (lit ''name'')"; cases "dget d (lit ''digest'')") (auto simp: dget_none_def digest_value_def split: pyval.splits)
qed (use assms in \<open>auto simp: good_subject_def\<close>)

definition same_object :: "pyval \<Rightarrow> pyval \<Rightarrow> bool" where
  "same_object v w \<longleftrightarrow> (\<exists>d e. v = PDict d \<and> w = PDict e \<and> map_of d = map_of e)"

lemma subject_roundtrip:
  assumes "good_subject v"
  shows "\<exists>w u. subject_out v = Inr w \<and> subject_in w = Inr u \<and> same_object u v \<and> good_subject u"
proof -
  obtain d n s where d: "v = PDict d" "set (map fst d) = {pkey ''name'', pkey ''digest''}" "dget d (lit ''name'') = Some n" "solid_text n"
    "dget d (lit ''digest'') = Some (PStr s)" "DIGEST_RE s"
    by (rule good_subjectE [OF assms])
  have "take 7 s = lit ''sha256:''" using d(6) by (simp add: DIGEST_RE_def)
  then have p: "lit ''sha256:'' @ remove_prefix (lit ''sha256:'') s = s"
    using append_take_drop_id [of 7 s] by (simp add: remove_prefix_def numeral_eq_Suc)
  let ?u = "[(pkey ''name'', n), (pkey ''digest'', PStr s)]"
  have "map_of ?u k = map_of d k" for k
    using d(2,3,5) map_of_eq_None_iff [of d k] by (cases "k \<in> set (map fst d)") (auto simp: dget_def)
  then have "same_object (PDict ?u) v" using d(1) by (auto simp: same_object_def fun_eq_iff)
  moreover have "good_subject (PDict ?u)"
    using d(4,6) by (simp add: good_subject_def shape_subject_def exact_fields_def SUBJECT_FIELDS_def dget_none_def digest_value_def)
  moreover have "\<exists>w. subject_out v = Inr w \<and> subject_in w = Inr (PDict ?u)"
    using d(1,3,5) p by (simp add: subject_out_def subject_in_def item_at_def)
  ultimately show ?thesis by blast
qed

lemma subjects_roundtrip:
  "list_all good_subject xs \<Longrightarrow> \<exists>ws ys. rmap subject_out xs = Inr ws \<and> rmap subject_in ws = Inr ys
     \<and> list_all2 same_object ys xs \<and> list_all good_subject ys"
proof (induction xs)
  case (Cons x xs)
  then show ?case using subject_roundtrip [of x] by auto
qed simp

lemma map_of_filter_keys: "map_of (filter (\<lambda>(k, x). P k) d) k = (if P k then map_of d k else None)"
  by (induction d) auto

text \<open>The in-toto round trip: the statement that \<open>to_intoto\<close> makes of a proof is accepted
  by \<open>from_intoto\<close>, which gives back every member of the proof, the subjects as equal
  objects in the same order.\<close>

theorem intoto_roundtrip:
  assumes "to_intoto (PDict d) = Inr statement" and "distinct (map fst d)"
  shows "\<exists>e xs ys. from_intoto statement = Inr e \<and> (\<forall>k. k \<noteq> lit ''subject'' \<longrightarrow> dget e k = dget d k)
    \<and> dget d (lit ''subject'') = Some (PList xs) \<and> dget e (lit ''subject'') = Some (PList ys) \<and> list_all2 same_object ys xs"
proof -
  have shape: "validate_envelope_shape True (PDict d) = Inr []"
    using assms(1) by (auto simp: to_intoto_def)
  note ex = exact_REQUIRED [OF shape]
  obtain xs where xs: "dget d (lit ''subject'') = Some (PList xs)" "list_all good_subject xs" using ex(3) each_entry_subjects by blast
  obtain ws ys where r: "rmap subject_out xs = Inr ws" "rmap subject_in ws = Inr ys" "list_all2 same_object ys xs" "list_all good_subject ys"
    using subjects_roundtrip [OF xs(2)] by blast
  let ?p = "filter (\<lambda>(k, x). k \<noteq> pkey ''subject'' \<and> k \<noteq> pkey ''schema_version'') d"
  let ?e = "dset (dset ?p (pkey ''schema_version'') (PStr PROOF_SCHEMA)) (pkey ''subject'') (PList ys)"
  have st: "statement = [(pkey ''_type'', PStr INTOTO_TYPE), (pkey ''subject'', PList ws), (pkey ''predicateType'', PStr PREDICATE_TYPE),
      (pkey ''predicate'', PDict ?p)]"
    using assms(1) shape xs(1) r(1) by (simp add: to_intoto_def items_of_def)
  have "exact_fields PREDICATE_FIELDS ?p"
  proof -
    have "set (map fst ?p) = set (map fst d) - {pkey ''subject'', pkey ''schema_version''}" by force
    also have "\<dots> = PStr ` set PREDICATE_FIELDS" unfolding ex(1) PREDICATE_FIELDS_def by auto
    finally show ?thesis by (simp add: exact_fields_def)
  qed
  note exact = this
  have e: "map_of ?e k = (if k = pkey ''subject'' then Some (PList ys) else map_of d k)" for k
    using ex(2) by (simp add: map_of_dset map_of_filter_keys dget_def)
  have get: "dget ?e k = dget d k" if "k \<noteq> lit ''subject''" for k
    using that by (simp add: dget_def e)
  have "map_of ?e k = None \<longleftrightarrow> map_of d k = None" for k using xs(1) by (simp add: e dget_def)
  then have keys: "fst ` set ?e = fst ` set d" unfolding map_of_eq_None_iff by blast
  have "validate_envelope_shape True (PDict ?e) = Inr []"
    using shape_members_cong [OF get keys xs(1), of ys True] each_entry_subjects [THEN iffD2, OF r(4)]
      each_entry_subjects [THEN iffD2, OF xs(2)] shape by simp
  then have "from_intoto statement = Inr ?e"
    using exact r(2) by (simp add: st from_intoto_def dget_none_def items_of_def Let_def)
  then show ?thesis using get xs(1) r(3) by (intro exI [of _ ?e]) auto
qed

end
