(* ===== verification/Proof_Samples.thy ===== *)
theory Proof_Samples
  imports Proof_Final Proof_Intoto
begin

section \<open>A sample proof\<close>

text \<open>
  A draft with one passed result, and what \<open>finalize\<close> makes of it with either signer. The
  documents hold digests and signatures that are not worth computing; it is enough that
  documents of printable strings have a canonical text and read back.
\<close>

text \<open>Documents of printable ASCII strings, the only number being 1.\<close>

definition printable :: "pstr \<Rightarrow> bool" where
  "printable s \<longleftrightarrow> list_all (\<lambda>c. 32 \<le> c \<and> c < 127) s"

fun plain :: "pyval \<Rightarrow> bool" where
  "plain PNone = True"
| "plain (PBool b) = True"
| "plain (PStr s) = printable s"
| "plain (PInt n) = (n = 1)"
| "plain (PList xs) = list_all plain xs"
| "plain (PDict d) = list_all (\<lambda>(k, v). (case k of PStr s \<Rightarrow> printable s | _ \<Rightarrow> False) \<and> plain v) d"
| "plain _ = False"

lemma printable_ijson: "printable s \<Longrightarrow> validate_i_json_string s = Inr ()"
  by (auto simp: validate_i_json_string_iff printable_def list_all_iff non_ijson_def)

lemma printable_jcs: "printable s \<Longrightarrow> \<exists>t. jcs_string s = Inr t \<and> (\<forall>c \<in> set t. c < 128)"
proof -
  assume p: "printable s"
  have "d < 128" if "32 \<le> c" "c < 127" "d \<in> set (jcs_char c)" for c d
    using that by (auto simp: jcs_char_def JCS_SHORT_ESCAPES_def split: if_splits)
  then show ?thesis using p printable_ijson [OF p] by (auto simp: jcs_string_def printable_def list_all_iff)
qed

lemma one_plain: "jcs_number (PInt 1) = Inr [49]" "jnorm (PInt 1) = PInt 1"
proof -
  have "is_binary64 (of_int 1)" using rnd64_int [of 1] by (simp add: is_binary64_def two_pow_def)
  moreover have "jcs_finite 1 = [49]" by code_simp
  ultimately show "jcs_number (PInt 1) = Inr [49]" by (simp add: jcs_number_PInt del: jcs_number.simps)
  have "read_number 1 = PInt 1" by code_simp
  then show "jnorm (PInt 1) = PInt 1" by simp
qed

lemma small_plain: "plain v \<Longrightarrow> small_numbers v"
  by (induction v rule: plain.induct) (auto simp: list_all_iff)

lemma join_ascii: "\<forall>t \<in> set ts. \<forall>c \<in> set t. c < (128::nat) \<Longrightarrow> \<forall>c \<in> set (join [44] ts). c < 128"
  by (induction "[44]::pstr" ts rule: join.induct) auto

lemma rmap_total: "(\<And>x. x \<in> set xs \<Longrightarrow> \<exists>y. f x = Inr y \<and> P y) \<Longrightarrow> \<exists>ys. rmap f xs = Inr ys \<and> (\<forall>y \<in> set ys. P y)"
  by (induction xs) force+

lemma check_keys_plain: "list_all (\<lambda>(k, v). (case k of PStr s \<Rightarrow> printable s | _ \<Rightarrow> False) \<and> plain v) d \<Longrightarrow> check_keys (map fst d) = Inr ()"
  by (induction d) (auto simp: printable_ijson split: pyval.splits)

lemma render_plain: "plain v \<Longrightarrow> \<exists>s. render_jcs v = Inr s \<and> (\<forall>c \<in> set s. c < 128)"
proof (induction v rule: render_jcs.induct)
  case (6 xs)
  have "\<exists>ys. rmap render_jcs xs = Inr ys \<and> (\<forall>y \<in> set ys. \<forall>c \<in> set y. c < 128)"
    by (rule rmap_total) (use 6 in \<open>auto simp: list_all_iff\<close>)
  then show ?case using join_ascii by auto
next
  case (8 d)
  let ?m = "\<lambda>(k, v). rbind (jcs_string (key_text k)) (\<lambda>ek. rbind (render_jcs v) (\<lambda>ev. Inr (ek @ [58] @ ev)))"
  have "\<exists>ys. rmap ?m (sort_members d) = Inr ys \<and> (\<forall>y \<in> set ys. \<forall>c \<in> set y. c < 128)"
  proof (rule rmap_total)
    fix x assume x: "x \<in> set (sort_members d)"
    obtain k v where kv: "x = (k, v)" by (cases x)
    then have p: "plain v" "printable (key_text k)"
      using x "8.prems" by (cases k; force simp: list_all_iff)+
    obtain ek where ek: "jcs_string (key_text k) = Inr ek" "\<forall>c \<in> set ek. c < 128" using printable_jcs [OF p(2)] by blast
    obtain ev where ev: "render_jcs v = Inr ev" "\<forall>c \<in> set ev. c < 128"
      using "8.IH" [OF x kv [symmetric] p(1)] by auto
    show "\<exists>y. ?m x = Inr y \<and> (\<forall>c \<in> set y. c < 128)" using kv ek ev by auto
  qed
  then show ?case using join_ascii check_keys_plain [of d] "8.prems" by auto
qed (auto simp: lit_Cons one_plain(1) simp del: jcs_number.simps dest: printable_jcs)

lemma utf8_of_ascii: "\<forall>c \<in> set s. c < 128 \<Longrightarrow> utf8 s = Inr s"
proof -
  assume a: "\<forall>c \<in> set s. c < 128"
  then have "rmap utf8_char s = Inr (map (\<lambda>c. [c]) s)" by (induction s) (simp_all add: utf8_char_def)
  then show ?thesis by (simp add: utf8_def)
qed

lemma reread_plain: "plain (PDict d) \<Longrightarrow> wf_json (PDict d) \<Longrightarrow> reread_dict d = Inr (members_read d)"
  using render_plain [of "PDict d"] strict_json_canonical [OF _ _ small_plain [of "PDict d"]]
  by (auto simp: reread_dict_def reread_def canonical_json_def jnorm_PDict simp del: plain.simps jnorm.simps render_jcs.simps wf_json.simps)

lemma digest_plain: "plain v \<Longrightarrow> \<exists>dg. digest_obj v = Inr dg \<and> DIGEST_RE dg"
  using render_plain [of v] utf8_of_ascii by (force simp: digest_obj_def canonical_json_def sha256_hex_def simp del: render_jcs.simps)

lemma mac_plain: "plain (PDict (unsigned d)) \<Longrightarrow> \<exists>mac. mac_of sg d = Inr mac \<and> length mac = 64 \<and> list_all is_hex mac"
  using render_plain [of "PDict (unsigned d)"] utf8_of_ascii mac_of_shape [of sg d]
  by (force simp: mac_of_def canonical_json_def simp del: render_jcs.simps plain.simps)

lemma plain_members: "plain (PDict d) \<Longrightarrow> plain (PDict (filter (\<lambda>(k, v). P k) d))"
  by (auto simp: list_all_iff)

lemma plain_jnorm: "plain v \<Longrightarrow> plain (jnorm v)"
  by (induction v rule: jnorm.induct) (auto simp: list_all_iff one_plain(2) simp del: jnorm.simps(1))

lemma plain_dset: "plain (PDict d) \<Longrightarrow> printable k \<Longrightarrow> plain v \<Longrightarrow> plain (PDict (dset d (PStr k) v))"
  using set_dset [of d "PStr k" v] by (auto simp: list_all_iff)

lemma hex_printable: "list_all is_hex s \<Longrightarrow> printable s"
  by (auto simp: printable_def list_all_iff is_hex_def is_digit_def)

lemma digest_printable: "DIGEST_RE s \<Longrightarrow> printable s"
proof -
  assume d: "DIGEST_RE s"
  have "printable (take 7 s @ drop 7 s)"
    using d hex_printable [of "drop 7 s"] unfolding DIGEST_RE_def printable_def list_all_append by (simp add: lit_Cons)
  then show ?thesis by simp
qed


text \<open>A draft, as the builder makes it, with one result of a verifier.\<close>

definition sample_digest :: pstr where
  "sample_digest = lit ''sha256:'' @ replicate 64 48"

definition sample_draft :: pydict where
  "sample_draft =
     [(pkey ''schema_version'', PStr PROOF_SCHEMA), (pkey ''proof_id'', pkey ''prf_0123456789abcdef01234567''),
      (pkey ''created_at'', pkey ''2024-02-29T01:02:03.000004Z''), (pkey ''tenant_id'', pkey ''acme''),
      (pkey ''project_id'', pkey ''web''), (pkey ''action_id'', pkey ''deploy-7''), (pkey ''subject'', PList [PDict [(pkey ''digest'', PStr sample_digest), (pkey ''name'', pkey ''web.tar'')]]),
      (pkey ''action_intent'', PDict [(pkey ''requirement_ids'', PList []), (pkey ''statement'', pkey ''ship it''), (pkey ''type'', pkey ''deploy'')]),
      (pkey ''actor'', PDict []), (pkey ''inputs'', PList []), (pkey ''environment'', PDict []), (pkey ''execution'', PList []),
      (pkey ''verifications'', PList [PDict [(pkey ''result'', pkey ''passed''), (pkey ''source'', pkey ''executed''),
         (pkey ''verifier'', pkey ''tests'')]]),
      (pkey ''policy_decision'', PDict [(pkey ''decision'', pkey ''deny'')]),
      (pkey ''continuity_links'', PDict []), (pkey ''evidence_context'', PDict []), (pkey ''status'', pkey ''draft'')]"

definition sample_envelope :: "pyval \<Rightarrow> pstr \<Rightarrow> pyval \<Rightarrow> pydict" where
  "sample_envelope sm digest sig = dset (dset (dset (dset sample_draft (pkey ''status'') (pkey ''verified''))
     (pkey ''verification_summary'') sm) (pkey ''proof_digest'') (PStr digest)) (pkey ''signature'') sig"

definition sample_summary :: summary where
  "sample_summary = \<lparr>sm_unbacked = [], sm_required = [lit ''tests''], sm_missing = [], sm_failed = [],
     sm_inconclusive = [], sm_skipped = [], sm_passed = [lit ''tests'']\<rparr>"

lemma sample_solid:
  "\<not> blank (lit ''tests'')" "\<not> blank (lit ''deploy'')" "\<not> blank (lit ''acme'')" "\<not> blank (lit ''web'')"
  "\<not> blank (lit ''deploy-7'')" "\<not> blank (lit ''prf_0123456789abcdef01234567'')" "\<not> blank (lit ''2024-02-29T01:02:03.000004Z'')"
  by (simp_all add: blank_def lit_Cons strip_def py_space_def)

lemma sample_status: "evaluate_status (dget_none sample_draft (lit ''verifications'')) (PList [pkey ''tests'']) = Inr (lit ''verified'', sample_summary)"
  by (simp add: evaluate_status_def sample_draft_def dget_none_def required_names_def read_verification_def
      VERIFICATION_RESULTS_def VERIFICATION_SOURCES_def AUTHORITATIVE_SOURCES_def summarise_def status_of_def
      result_of_def results_under_def worst_def Let_def sorted_set_def sample_summary_def sample_solid image_iff)

lemma sample_wf: "wf_json (PDict sample_draft)"
  by (simp add: sample_draft_def)

lemma sample_plain: "plain (PDict sample_draft)"
  by (simp add: sample_draft_def printable_def lit_Cons PROOF_SCHEMA_def sample_digest_def list_all_iff)

lemma sample_stable: "map_of (members_read sample_draft) = map_of sample_draft"
proof -
  have "jnorm v = v" if "(k, v) \<in> set sample_draft" for k v
    using that by (auto simp: sample_draft_def sort_members_def lit_Cons utf16_sort_key_def utf16_units_def)
  then have "map_option jnorm (map_of sample_draft k) = map_of sample_draft k" for k
    by (cases "map_of sample_draft k") (auto dest: map_of_SomeD)
  then show ?thesis using sample_wf map_of_members_read [of sample_draft] by auto
qed

lemma shape_cong:
  assumes "map_of d = map_of e"
  shows "validate_envelope_shape b (PDict d) = validate_envelope_shape b (PDict e)"
proof -
  have g: "dget d = dget e" "dget_none d = dget_none e" using assms by (auto simp: dget_def dget_none_def fun_eq_iff)
  have "fst ` set d = fst ` set e" using assms by (metis dom_map_of_conv_image_fst)
  then have "unknown_fields p fs d = unknown_fields p fs e" for p fs
    unfolding unknown_fields_def list_all_iff by (metis (no_types, opaque_lifting) imageE imageI)
  then show ?thesis using g by (simp add: validate_envelope_shape_def shape_top_def)
qed

lemma sample_stamp: "is_canonical_created_at (lit ''2024-02-29T01:02:03.000004Z'')"
  by (simp add: is_canonical_created_at_def CANONICAL_UTC_TIMESTAMP_def digits_at_def lit_Cons is_digit_def fromisoformat_def int_field_def
      parse_time_def parse_hms_def parse_fraction_def parse_offset_def Let_def valid_datetime_def digits_value.simps days_in_month_def valid_date_def is_leap_def)

lemma sample_names: "PUBLIC_IDENTIFIER (lit ''acme'')" "PUBLIC_IDENTIFIER (lit ''web'')" "PUBLIC_IDENTIFIER (lit ''deploy-7'')"
    "PROOF_ID (pkey ''prf_0123456789abcdef01234567'')"
  by (simp_all add: PUBLIC_IDENTIFIER_def is_alpha_def is_digit_def unreserved_def PUBLIC_IDENTIFIER_MAX_LENGTH_def lit_Cons PROOF_ID_def is_hex_def)

lemma sample_top:
  "is_dict sm \<Longrightarrow> is_dict sig \<Longrightarrow> shape_top (sample_envelope sm digest sig) = []"
  by (simp add: shape_top_def sample_envelope_def sample_draft_def dget_none_def err_def unknown_fields_def REQUIRED_FIELDS_def
      sample_solid sample_names sample_stamp PROOF_STATUSES_def FINAL_STATUSES_def)

lemma sample_verification:
  "shape_verifications (PList [PDict [(pkey ''result'', pkey ''passed''), (pkey ''source'', pkey ''executed''), (pkey ''verifier'', pkey ''tests'')]])
     = Inr []"
  by (simp add: shape_verifications_def entries_def shape_verification_def unknown_fields_def VERIFICATION_FIELDS_def dget_none_def err_def
      sample_solid VERIFICATION_RESULTS_def VERIFICATION_SOURCES_def shape_control_def if_present_def Let_def)

lemma sample_intent:
  "shape_intent (PDict [(pkey ''requirement_ids'', PList []), (pkey ''statement'', pkey ''ship it''), (pkey ''type'', pkey ''deploy'')]) = []"
  by (simp add: shape_intent_def missing_fields_def unknown_fields_def ACTION_INTENT_FIELDS_def err_def dget_none_def sample_solid)

lemma sample_empty:
  "shape_policy (PDict [(pkey ''decision'', pkey ''deny'')]) = []"
  "each_entry n f (PList []) = []" "input_shapes (PList []) = ([], [])" "shape_links True [] (PDict []) = []" "shape_context (PDict []) = []"
  by (simp_all add: shape_policy_def unknown_fields_def POLICY_DECISION_FIELDS_def err_def dget_none_def if_present_def
      each_entry_def entries_def input_shapes_def shape_links_def shape_context_def)

lemma sample_subject:
  "each_entry ''subject'' shape_subject (PList [PDict [(pkey ''digest'', PStr sample_digest), (pkey ''name'', pkey ''web.tar'')]]) = []"
  by (simp add: each_entry_def entries_def shape_subject_def exact_fields_def SUBJECT_FIELDS_def dget_none_def digest_value_def
      DIGEST_RE_def is_hex_def is_digit_def sample_digest_def list_all_iff)
    (auto simp: blank_def lit_Cons strip_def py_space_def)

lemma sample_shape:
  assumes "DIGEST_RE digest" and "shape_signature sig = []" and "is_dict sig" and "shape_summary sm = []" and "is_dict sm"
  shows "validate_envelope_shape True (PDict (sample_envelope sm digest sig)) = Inr []"
proof -
  have "shape_top (sample_envelope sm digest sig) = []" by (rule sample_top) (use assms in simp_all)
  moreover have "dget_none (sample_envelope sm digest sig) (lit ''verifications'')
      = PList [PDict [(pkey ''result'', pkey ''passed''), (pkey ''source'', pkey ''executed''), (pkey ''verifier'', pkey ''tests'')]]"
    "dget_none (sample_envelope sm digest sig) (lit ''action_intent'')
      = PDict [(pkey ''requirement_ids'', PList []), (pkey ''statement'', pkey ''ship it''), (pkey ''type'', pkey ''deploy'')]"
    "dget_none (sample_envelope sm digest sig) (lit ''policy_decision'') = PDict [(pkey ''decision'', pkey ''deny'')]"
    "dget_none (sample_envelope sm digest sig) (lit ''inputs'') = PList []" "dget_none (sample_envelope sm digest sig) (lit ''subject'')
      = PList [PDict [(pkey ''digest'', PStr sample_digest), (pkey ''name'', pkey ''web.tar'')]]"
    "dget_none (sample_envelope sm digest sig) (lit ''execution'') = PList []"
    "dget_none (sample_envelope sm digest sig) (lit ''continuity_links'') = PDict []"
    "dget_none (sample_envelope sm digest sig) (lit ''evidence_context'') = PDict []"
    "dget_none (sample_envelope sm digest sig) (lit ''proof_digest'') = PStr digest"
    "dget_none (sample_envelope sm digest sig) (lit ''signature'') = sig"
    "dget_none (sample_envelope sm digest sig) (lit ''verification_summary'') = sm"
    by (simp_all add: sample_envelope_def sample_draft_def dget_none_def)
  ultimately show ?thesis
    using assms by (simp add: validate_envelope_shape_def sample_verification sample_intent sample_empty sample_subject digest_value_def err_def)
qed


text \<open>A signer whose signatures are objects that pass the checks.\<close>

definition sample_signer :: signer where
  "sample_signer = \<lparr>signer_key_id = lit ''acme'', signer_key = [1, 2, 3]\<rparr>"

lemma map_of_eq_dset: "map_of d = map_of e \<Longrightarrow> map_of (dset d k v) = map_of (dset e k v)"
  by (simp add: map_of_dset fun_eq_iff)

lemma map_of_eq_members: "map_of d = map_of e \<Longrightarrow> distinct (map fst d) \<Longrightarrow> distinct (map fst e) \<Longrightarrow>
    map_of (members_read d) = map_of (members_read e)"
  by (simp add: map_of_members_read fun_eq_iff)

lemma sample_final_shape:
  assumes "map_of d = map_of (sample_envelope sm digest sig)" and "DIGEST_RE digest" and "shape_signature sig = []" and "is_dict sig"
    and "shape_summary sm = []" and "is_dict sm"
  shows "validate_envelope_shape True (PDict d) = Inr []"
  unfolding shape_cong [OF assms(1)] using assms by (intro sample_shape)

lemma unknown_members [simp]: "unknown_fields p fs (members_read d) = unknown_fields p fs d"
  by (simp add: unknown_fields_def members_read_def list_all_iff case_prod_unfold)

lemma missing_members [simp]: "distinct (map fst d) \<Longrightarrow> missing_fields p fs (members_read d) = missing_fields p fs d"
  by (simp add: missing_fields_def dget_members_read list_all_iff)

lemma sample_summary_shapes:
  "shape_summary (summary_value sample_summary) = []" "shape_summary (jnorm (summary_value sample_summary)) = []"
  "is_dict (summary_value sample_summary)" "is_dict (jnorm (summary_value sample_summary))" "plain (summary_value sample_summary)"
    apply (simp add: shape_summary_def summary_value_def sample_summary_def Let_def)
    apply (simp add: SUMMARY_FIELDS_def missing_fields_def unknown_fields_def dget_none_def names_value_def err_def)
   apply (simp add: summary_value_def jnorm_PDict shape_summary_def dget_none_def dget_members_read Let_def del: jnorm.simps)
   apply (simp add: sample_summary_def SUMMARY_FIELDS_def missing_fields_def unknown_fields_def names_value_def err_def)
  by (simp_all add: summary_value_def sample_summary_def names_value_def printable_def lit_Cons)

lemma sample_preflight_shapes:
  "shape_signature PREFLIGHT_SIGNATURE = []" "is_dict PREFLIGHT_SIGNATURE" "plain PREFLIGHT_SIGNATURE" "wf_json PREFLIGHT_SIGNATURE"
  apply (simp add: shape_signature_def PREFLIGHT_SIGNATURE_def missing_fields_def unknown_fields_def PROOF_SIGNATURE_FIELDS_def
      dget_none_def err_def if_present_def)
  apply (simp add: blank_def lit_Cons strip_def py_space_def)
  by (simp_all add: PREFLIGHT_SIGNATURE_def printable_def lit_Cons)

lemma sample_signature_shapes:
  assumes "length mac = 64"
  defines "s \<equiv> [(pkey ''key_id'', pkey ''acme''), (pkey ''algorithm'', PStr HMAC_ALGORITHM), (pkey ''value'', PStr mac)]"
  shows "shape_signature (jnorm (PDict s)) = []"
  using assms(1)
  apply (simp add: s_def jnorm_PDict shape_signature_def dget_none_def dget_members_read if_present_def del: jnorm.simps)
  apply (auto simp add: err_def missing_fields_def unknown_fields_def PROOF_SIGNATURE_FIELDS_def sample_solid)
   apply (simp add: HMAC_ALGORITHM_def blank_def lit_Cons strip_def py_space_def)
  by (cases mac) simp_all

lemma sample_envelope_jnorm:
  "map_option jnorm (map_of (sample_envelope sm digest sig) k) = map_of (sample_envelope (jnorm sm) digest (jnorm sig)) k"
proof -
  have "map_option jnorm (map_of sample_draft k) = map_of sample_draft k"
    using sample_stable sample_wf map_of_members_read [of sample_draft k] by simp
  then show ?thesis by (simp add: sample_envelope_def map_of_dset)
qed

lemma sample_candidate:
  obtains digest c where "preflight_candidate sample_draft (PList [pkey ''tests'']) True = Inr c" "plain (PDict c)" "wf_json (PDict c)"
    "DIGEST_RE digest" "\<forall>sig. map_of (dset c (pkey ''signature'') sig) = map_of (sample_envelope (summary_value sample_summary) digest sig)"
proof -
  let ?draft = "members_read sample_draft"
  let ?judged = "dset (dset ?draft (pkey ''status'') (pkey ''verified'')) (pkey ''verification_summary'') (summary_value sample_summary)"
  have c0: "reread_dict sample_draft = Inr ?draft" "plain (PDict ?draft)" "wf_json (PDict ?draft)"
    using reread_plain [OF sample_plain sample_wf] reread_dict_Inr(1) [OF _ sample_wf] plain_jnorm [OF sample_plain]
    by (simp_all add: jnorm_PDict del: jnorm.simps plain.simps wf_json.simps)
  have wfs: "wf_json (summary_value sample_summary)" by (simp add: summary_value_def)
  have c1: "plain (PDict ?judged)" "wf_json (PDict ?judged)"
    using c0 sample_summary_shapes(5) wfs
    by (intro plain_dset wf_dset; simp add: printable_def lit_Cons del: plain.simps(5) wf_json.simps(4))+
  obtain digest where dg: "digest_obj (PDict (undigested ?judged)) = Inr digest" "DIGEST_RE digest"
    using digest_plain [of "PDict (undigested ?judged)"] plain_members [OF c1(1), of "\<lambda>k. k \<noteq> pkey ''signature'' \<and> k \<noteq> pkey ''proof_digest''"]
    unfolding undigested_def by blast
  let ?cand = "dset (dset ?judged (pkey ''proof_digest'') (PStr digest)) (pkey ''signature'') PREFLIGHT_SIGNATURE"
  have m: "map_of (dset ?cand (pkey ''signature'') sig) = map_of (sample_envelope (summary_value sample_summary) digest sig)" for sig
    using sample_stable by (auto simp: map_of_dset sample_envelope_def fun_eq_iff)
  have "validate_envelope_shape True (PDict ?cand) = Inr []"
    by (rule sample_final_shape [where digest = digest and sm = "summary_value sample_summary" and sig = PREFLIGHT_SIGNATURE])
      (use m [of PREFLIGHT_SIGNATURE] dg sample_summary_shapes sample_preflight_shapes in \<open>auto simp: map_of_dset fun_eq_iff\<close>)
  moreover have "evaluate_status (dget_none ?draft (lit ''verifications'')) (PList [pkey ''tests'']) = Inr (lit ''verified'', sample_summary)"
    using sample_status sample_stable by (simp add: dget_none_def dget_def)
  ultimately have "preflight_candidate sample_draft (PList [pkey ''tests'']) True = Inr ?cand"
    using c0(1) dg(1) by (simp add: preflight_candidate_def as_value_error_def rcatch_def)
  moreover have "plain (PDict ?cand)" "wf_json (PDict ?cand)"
    using c0(2,3) sample_summary_shapes(5) wfs digest_printable [OF dg(2)] sample_preflight_shapes(3,4)
    by (intro plain_dset wf_dset; simp add: printable_def lit_Cons del: plain.simps(5) wf_json.simps(4))+
  ultimately show thesis using dg(2) m by (intro that) auto
qed

lemma sample_sealed:
  assumes "\<And>obj. plain (PDict (unsigned obj)) \<Longrightarrow>
    \<exists>sig. make_sig obj = Inr sig \<and> plain sig \<and> wf_json sig \<and> is_dict (jnorm sig) \<and> shape_signature (jnorm sig) = []"
  obtains sealed where "finalize sample_draft make_sig (PList [pkey ''tests'']) = Inr (sealed, sealed)"
    "dget_none sealed (lit ''verifications'') = dget_none sample_draft (lit ''verifications'')"
proof -
  obtain digest c where c: "preflight_candidate sample_draft (PList [pkey ''tests'']) True = Inr c" "plain (PDict c)" "wf_json (PDict c)"
    "DIGEST_RE digest" "\<forall>sig. map_of (dset c (pkey ''signature'') sig) = map_of (sample_envelope (summary_value sample_summary) digest sig)"
    by (rule sample_candidate)
  note r = reread_plain [OF c(2,3)]
  have "plain (PDict (members_read c))" using plain_jnorm [OF c(2)] by (simp add: jnorm_PDict del: jnorm.simps plain.simps)
  then have "plain (PDict (unsigned (members_read c)))" unfolding unsigned_def by (rule plain_members)
  then obtain sig where sig: "make_sig (members_read c) = Inr sig" "plain sig" "wf_json sig" "is_dict (jnorm sig)" "shape_signature (jnorm sig) = []"
    using assms by blast
  let ?d = "dset c (pkey ''signature'') sig"
  have d: "plain (PDict ?d)" "wf_json (PDict ?d)"
    using c(2,3) sig(2,3) by (intro plain_dset wf_dset; simp add: printable_def lit_Cons)+
  note rd = reread_plain [OF d]
  have same: "map_of (members_read ?d) = map_of (sample_envelope (jnorm (summary_value sample_summary)) digest (jnorm sig))"
    using d(2) by (simp add: fun_eq_iff map_of_members_read c(5) sample_envelope_jnorm)
  have "validate_envelope_shape True (PDict (members_read ?d)) = Inr []"
    by (rule sample_final_shape [OF same c(4) sig(5,4) sample_summary_shapes(2,4)])
  then have "finalize sample_draft make_sig (PList [pkey ''tests'']) = Inr (members_read ?d, members_read ?d)"
    using c(1) r sig(1) rd reread_dict_Inr(4) [OF rd d(2)] by (simp add: finalize_def as_value_error_def rcatch_def)
  moreover have "dget_none (members_read ?d) (lit ''verifications'') = dget_none sample_draft (lit ''verifications'')"
    using same by (simp add: dget_none_def dget_def) (simp add: sample_envelope_def map_of_dset)
  ultimately show thesis by (rule that)
qed

lemma sample_hmac:
  assumes "plain (PDict (unsigned obj))"
  shows "\<exists>sig. hmac_signing sample_signer obj = Inr sig \<and> plain sig \<and> wf_json sig \<and> is_dict (jnorm sig) \<and> shape_signature (jnorm sig) = []"
proof -
  obtain mac where mac: "mac_of sample_signer obj = Inr mac" "length mac = 64" "list_all is_hex mac"
    using mac_plain [OF assms] by blast
  let ?sig = "PDict [(pkey ''key_id'', pkey ''acme''), (pkey ''algorithm'', PStr HMAC_ALGORITHM), (pkey ''value'', PStr mac)]"
  have "hmac_signing sample_signer obj = Inr ?sig"
    using mac(1) by (simp add: hmac_signing_def sign_def sample_signer_def)
  moreover have "plain ?sig" "wf_json ?sig" "is_dict (jnorm ?sig)"
    using hex_printable [OF mac(3)] by (simp_all add: printable_def lit_Cons HMAC_ALGORITHM_def)
  ultimately show ?thesis using sample_signature_shapes [OF mac(2)] by blast
qed

lemma plain_encoded: "plain (encode_pairs ps)" if "\<forall>p \<in> set ps. sound_block (fst p) \<and> sound_block (snd p)"
  using that by (auto simp: encode_pairs_def list_all_iff sound_block_def intro!: hex_printable hexdigest_is_hex)

lemma plain_blocks: "plain (encode_blocks bs)" if "\<forall>b \<in> set bs. sound_block b"
  using that by (auto simp: encode_blocks_def list_all_iff sound_block_def intro!: hex_printable hexdigest_is_hex)

lemma sample_lamport:
  assumes "plain (PDict (unsigned obj))"
  shows "\<exists>sig. lamport_signing stuck_signer obj = Inr sig \<and> plain sig \<and> wf_json sig \<and> is_dict (jnorm sig) \<and> shape_signature (jnorm sig) = []"
proof -
  let ?g = stuck_signer
  have g: "byte_source (entropy ?g)" "lam_key_id ?g \<noteq> []" by simp_all
  obtain m where m: "signed_message obj = Inr m"
    using render_plain [OF assms] utf8_of_ascii by (force simp: signed_message_def canonical_json_def simp del: render_jcs.simps plain.simps)
  have k: "key_pairs (bytes_key (map hash_pair (fresh_key ?g))) = Some (map hash_pair (fresh_key ?g))"
      "key_pairs (bytes_key (fresh_key ?g)) = Some (fresh_key ?g)"
    using key_pairs_bytes_key sound_hash_key sound_fresh_key [OF g(1)] by simp_all
  obtain sig where sig: "lamport_signing ?g obj = Inr sig"
    using m k by (simp add: lamport_signing_def lamport_sign_def rcatch_def run_simps generate_keypair_run fingerprint_def sign_bytes_def)
  obtain m' blocks where b: "sign_bytes (bytes_key (fresh_key ?g)) (PBytes m') = Inr blocks" "sig = PDict (lamport_signature ?g blocks)"
    using lamport_signing_Inr [OF g(1) sig] by metis
  have "sound_key (map hash_pair (fresh_key ?g))" by (simp add: sound_hash_key)
  moreover have "\<forall>b \<in> set blocks. sound_block b" by (rule sign_bytes_run(3) [OF sound_fresh_key [OF g(1)] b(1)])
  moreover have "printable (fresh_fingerprint ?g)" unfolding fresh_fingerprint_def by (rule digest_printable) simp
  ultimately have "plain sig"
    unfolding b(2) using plain_encoded plain_blocks by (simp add: sound_key_def printable_def lit_Cons LAMPORT_ALGORITHM_def stuck_signer_def)
  moreover have "wf_json sig" by (rule lamport_signing_wf [OF g(1) sig])
  moreover have "shape_signature (jnorm sig) = []"
  proof -
    have d: "distinct (map fst (lamport_signature ?g blocks))" by simp
    have ne: "blocks \<noteq> []" using sign_bytes_run(1) [OF sound_fresh_key [OF g(1)] b(1)] by auto
    have k: "\<not> blank (lam_key_id ?g)" "\<not> blank LAMPORT_ALGORITHM"
      by (simp_all add: stuck_signer_def LAMPORT_ALGORITHM_def blank_def lit_Cons strip_def py_space_def)
    have f: "DIGEST_RE (fresh_fingerprint ?g)" by (simp add: fresh_fingerprint_def)
    show ?thesis
      unfolding b(2) jnorm_PDict
      using ne k f by (simp add: shape_signature_def Let_def dget_none_def dget_members_read [OF d] missing_members [OF d] if_present_def err_def)
        (simp add: missing_fields_def unknown_fields_def PROOF_SIGNATURE_FIELDS_def encode_pairs_def encode_blocks_def digest_value_def list_all_iff)
  qed
  moreover have "is_dict (jnorm sig)" by (simp add: b(2))
  ultimately show ?thesis using sig by blast
qed

theorem finalized_proof_verifies_witness:
  "\<exists>sealed. finalize sample_draft (hmac_signing sample_signer) (PList [pkey ''tests'']) = Inr (sealed, sealed)
    \<and> (\<exists>ec. verify_envelope (PDict sealed) (Some (hmac_view sample_signer)) = Inr ec \<and> ec_valid ec \<and> ec_status ec = pkey ''verified'')"
proof -
  obtain sealed where s: "finalize sample_draft (hmac_signing sample_signer) (PList [pkey ''tests'']) = Inr (sealed, sealed)"
    "dget_none sealed (lit ''verifications'') = dget_none sample_draft (lit ''verifications'')"
    by (rule sample_sealed [OF sample_hmac])
  show ?thesis using finalized_proof_verifies [OF sample_wf s(1)] s sample_status by auto
qed

theorem valid_verified_proof_witness:
  "\<exists>d ec vs req. verify_envelope (PDict d) (Some (hmac_view sample_signer)) = Inr ec \<and> ec_valid ec \<and> sufficient vs req
    \<and> required_names (recorded_required d) = Inr req \<and> verify sample_signer (PDict d) = Inr True"
proof -
  obtain d where s: "finalize sample_draft (hmac_signing sample_signer) (PList [pkey ''tests'']) = Inr (d, d)"
    "dget_none d (lit ''verifications'') = dget_none sample_draft (lit ''verifications'')"
    by (rule sample_sealed [OF sample_hmac])
  obtain ec where ec: "verify_envelope (PDict d) (Some (hmac_view sample_signer)) = Inr ec" "ec_valid ec" "ec_status ec = pkey ''verified''"
    using hmac.finalized_verifies [OF TrueI sample_wf s(1)] s(2) sample_status by auto
  show ?thesis using valid_verified_proof [OF ec] ec(1,2) by (auto simp: hmac_view_def)
qed

theorem lamport_proof_verifies_witness:
  "\<exists>sealed ec. verify_envelope (PDict sealed) (Some (lamport_view (after_signing stuck_signer))) = Inr ec
    \<and> ec_valid ec \<and> ec_status ec = pkey ''verified''"
proof -
  obtain sealed where s: "finalize sample_draft (lamport_signing stuck_signer) (PList [pkey ''tests'']) = Inr (sealed, sealed)"
    "dget_none sealed (lit ''verifications'') = dget_none sample_draft (lit ''verifications'')"
    by (rule sample_sealed [OF sample_lamport])
  show ?thesis using lamport_proof_verifies [OF _ _ sample_wf s(1)] s(2) sample_status by auto
qed

theorem intoto_roundtrip_witness:
  "\<exists>statement e. to_intoto (PDict (sample_envelope (summary_value sample_summary) sample_digest PREFLIGHT_SIGNATURE)) = Inr statement
    \<and> from_intoto statement = Inr e \<and> dget e (lit ''project_id'') = Some (pkey ''web'')"
proof -
  let ?d = "sample_envelope (summary_value sample_summary) sample_digest PREFLIGHT_SIGNATURE"
  have "DIGEST_RE sample_digest" by (simp add: DIGEST_RE_def is_hex_def is_digit_def sample_digest_def list_all_iff)
  then have "validate_envelope_shape True (PDict ?d) = Inr []"
    by (intro sample_shape sample_summary_shapes sample_preflight_shapes)
  moreover have "dget ?d (lit ''subject'') = Some (PList [PDict [(pkey ''digest'', PStr sample_digest), (pkey ''name'', pkey ''web.tar'')]])"
    "dget ?d (lit ''project_id'') = Some (pkey ''web'')" "distinct (map fst ?d)"
    by (simp_all add: sample_envelope_def sample_draft_def)
  moreover from calculation obtain statement where "to_intoto (PDict ?d) = Inr statement"
    by (simp add: to_intoto_def items_of_def subject_out_def item_at_def)
  ultimately show ?thesis using intoto_roundtrip [of ?d statement] by fastforce
qed

end
