(* ===== verification/Memory.thy ===== *)
theory Memory
  imports Invalidation
begin

section \<open>memory.py: tiers, provenance and checkpoints\<close>

text \<open>
  Tier assignments are an append-only table; what holds a node now is the last row about it.
  Project and node identifiers, actors and reasons are texts here, as the callers pass them.
  The owning engine's authority check is the argument \<open>may\<close> again. Retrieval, corrections
  and retention are in the theory Retrieval.
\<close>

record assignment =
  as_seq :: nat
  as_project_id :: pstr
  as_node_id :: pstr
  as_tier :: pstr
  as_op :: pstr
  as_actor :: pstr
  as_reason :: "pstr option"
  as_at :: pstr

record memory_st = policy_st +
  assignments :: "assignment list"
  assignment_seq :: nat

text \<open>The attribute of a \<open>Memory\<close>: the tenant it is bound to.\<close>

record memory =
  mm_tenant :: "pstr option"

definition TIERS :: "pstr list" where
  "TIERS = map lit [''L0'', ''L1'', ''L2'', ''L3'']"

definition finite_json_object :: "pyval \<Rightarrow> exn + pyval" where
  "finite_json_object v =
     require (is_dict v) ValueError
     (rcatch (rbind (canonical_json v) strict_json_text) value_like (\<lambda>_. Inl ValueError))"

subsection \<open>Tenancy\<close>

text \<open>\<open>self.tenant_id or tenant_id\<close>\<close>

definition effective_tenant :: "memory \<Rightarrow> pstr option \<Rightarrow> exn + pstr option" where
  "effective_tenant mm tenant =
     require (mm_tenant mm = None \<or> tenant = None \<or> tenant = mm_tenant mm) PermissionError
     (Inr (case mm_tenant mm of None \<Rightarrow> tenant | Some t \<Rightarrow> if t = [] then tenant else Some t))"

definition absent_is :: "exn \<Rightarrow> ('s, 'a) op \<Rightarrow> ('s, 'a) op" where
  "absent_is e m = catch m (\<lambda>x. x = KeyError) (\<lambda>_. fail e)"

definition memory_project :: "memory \<Rightarrow> pstr \<Rightarrow> ('z memory_st_scheme, unit) op" where
  "memory_project mm project = (case mm_tenant mm of
     None \<Rightarrow> ret ()
   | Some tenant \<Rightarrow> absent_is PermissionError
       (bnd (get_node project None (Some tenant) (Some project) (Some (lit ''project''))) (\<lambda>_. ret ())))"

definition memory_node :: "memory \<Rightarrow> pstr \<Rightarrow> pstr \<Rightarrow> ('z memory_st_scheme, node) op" where
  "memory_node mm project nid =
     bnd (memory_project mm project) (\<lambda>_.
     absent_is PermissionError (get_node nid None (mm_tenant mm) (Some project) None))"

subsection \<open>Binding control state\<close>

definition CONTROL_TYPES :: "pstr list" where
  "CONTROL_TYPES = map lit [''requirement'', ''constraint'', ''decision'', ''assumption'', ''task'', ''claim'']"

definition UNSETTLED_STATUSES :: "pstr list" where
  "UNSETTLED_STATUSES = map lit [''invalidated'', ''superseded'', ''revoked'', ''withdrawn'', ''uncertain'', ''blocked'']"

definition l0_is_binding :: "(node \<Rightarrow> 's \<Rightarrow> bool) \<Rightarrow> node \<Rightarrow> 's \<Rightarrow> bool" where
  "l0_is_binding may n s =
     (if n_entity_type (nd_row n) \<in> set CONTROL_TYPES \<and> n_status (nd_row n) \<in> Some ` set UNSETTLED_STATUSES
      then False else may n s)"

definition quarantined :: "node \<Rightarrow> bool" where
  "quarantined n \<longleftrightarrow> n_status (nd_row n) = Some (lit ''quarantined'')"

subsection \<open>Provenance\<close>

text \<open>The locals of the walk: what has been decided, and the nodes visited.\<close>

record walk_st =
  wk_memo :: "(pstr \<times> bool) list"
  wk_discovered :: "pstr list"

definition remember :: "pstr \<Rightarrow> bool \<Rightarrow> walk_st \<Rightarrow> walk_st" where
  "remember c b w = w\<lparr>wk_memo := (c, b) # wk_memo w\<rparr>"

definition found_event :: "pstr \<Rightarrow> pstr \<Rightarrow> pstr \<Rightarrow> ('z memory_st_scheme, bool) op" where
  "found_event tenant project eid =
     catch (bnd (get_event eid (Some tenant) (Some project)) (\<lambda>_. ret True)) (\<lambda>e. e = KeyError) (\<lambda>_. ret False)"

definition is_root :: "(node \<Rightarrow> 's \<Rightarrow> bool) \<Rightarrow> node \<Rightarrow> 's \<Rightarrow> bool" where
  "is_root may n s =
     (if quarantined n then False
      else if n_authority (nd_row n) = Some (lit ''human_decision'') \<and> may n s then True
      else if n_entity_type (nd_row n) = lit ''verification'' \<and> n_authority (nd_row n) = Some (lit ''verifier_authoritative'')
          \<and> n_status (nd_row n) \<in> {Some (lit ''passed''), Some (lit ''verified'')} then True
      else n_entity_type (nd_row n) = lit ''evidence'' \<and> n_status (nd_row n) \<in> {Some (lit ''recorded''), Some (lit ''verified'')})"

definition source_ids :: "pstr \<Rightarrow> ('z memory_st_scheme, pstr list) op" where
  "source_ids c =
     bnd (out_edges (PStr c) (Some [lit ''derived_from'']) PNone) (\<lambda>outs.
     bnd (in_edges (PStr c) (Some [lit ''supports'', lit ''verifies'']) PNone) (\<lambda>ins.
     ret (filter (\<lambda>x. x \<noteq> c)
       (sorted_set (map (\<lambda>e. g_dst_id (ed_row e)) outs @ map (\<lambda>e. g_src_id (ed_row e)) ins)))))"

text \<open>\<open>any(walk(x) for x in sources)\<close>\<close>

fun any_source :: "(pstr \<Rightarrow> walk_st \<Rightarrow> ('s, bool \<times> walk_st) op) \<Rightarrow> pstr list \<Rightarrow> walk_st \<Rightarrow> ('s, bool \<times> walk_st) op" where
  "any_source f [] w = ret (False, w)"
| "any_source f (x # xs) w = bnd (f x w) (\<lambda>(b, w'). if b then ret (True, w') else any_source f xs w')"

definition event_backed :: "pstr \<Rightarrow> pstr \<Rightarrow> node \<Rightarrow> ('z memory_st_scheme, bool) op" where
  "event_backed tenant project n = (case n_event_id (nd_row n) of
     None \<Rightarrow> ret False | Some e \<Rightarrow> if e = [] then ret False else found_event tenant project e)"

abbreviation MAX_WALK :: nat where
  "MAX_WALK \<equiv> 256"

text \<open>The recursion is on a bound of its depth. \<open>MAX_WALK\<close> levels are enough: each level has
  its own visited node, and the code returns \<open>False\<close> once that many are visited.\<close>

fun walk_sources :: "(node \<Rightarrow> 'z memory_st_scheme \<Rightarrow> bool) \<Rightarrow> pstr \<Rightarrow> pstr \<Rightarrow> nat \<Rightarrow> pstr list \<Rightarrow> pstr \<Rightarrow> walk_st
    \<Rightarrow> ('z memory_st_scheme, bool \<times> walk_st) op" where
  "walk_sources may tenant project 0 visiting c w = ret (False, w)"
| "walk_sources may tenant project (Suc n) visiting c w = (case map_of (wk_memo w) c of
     Some b \<Rightarrow> ret (b, w)
   | None \<Rightarrow>
       if c \<in> set visiting \<or> MAX_WALK \<le> length (wk_discovered w) then ret (False, w)
       else bnd (catch (bnd (get_node c None (Some tenant) (Some project) None) (\<lambda>x. ret (Some x)))
                  (\<lambda>e. e = KeyError) (\<lambda>_. ret None)) (\<lambda>found. case found of
         None \<Rightarrow> bnd (found_event tenant project c) (\<lambda>b. ret (b, remember c b w))
       | Some x \<Rightarrow>
           bnd (ret (w\<lparr>wk_discovered := List.insert c (wk_discovered w)\<rparr>)) (\<lambda>w1.
           bnd (rd (is_root may x)) (\<lambda>root.
           if root then ret (True, remember c True w1)
           else bnd (event_backed tenant project x) (\<lambda>backed.
             if backed then ret (True, remember c True w1)
             else bnd (source_ids c) (\<lambda>xs.
               bnd (any_source (walk_sources may tenant project n (c # visiting)) xs w1) (\<lambda>(b, w2).
               ret (b, remember c b w2))))))))"

definition has_real_provenance :: "memory \<Rightarrow> (node \<Rightarrow> 'z memory_st_scheme \<Rightarrow> bool) \<Rightarrow> pstr \<Rightarrow> pstr
    \<Rightarrow> ('z memory_st_scheme, bool) op" where
  "has_real_provenance mm may project nid =
     bnd (memory_node mm project nid) (\<lambda>n.
     bnd (walk_sources may (n_tenant_id (nd_row n)) project (Suc MAX_WALK) [] nid \<lparr>wk_memo = [], wk_discovered = []\<rparr>) (\<lambda>(b, _).
     ret b))"

subsection \<open>Tiers\<close>

definition add_assignment :: "pstr \<Rightarrow> pstr \<Rightarrow> pstr \<Rightarrow> pstr \<Rightarrow> pstr \<Rightarrow> pstr option \<Rightarrow> pstr \<Rightarrow> ('z memory_st_scheme, unit) op" where
  "add_assignment project nid tier what actor reason now =
     wr (\<lambda>s. s\<lparr>assignment_seq := Suc (assignment_seq s),
       assignments := assignments s @ [\<lparr>as_seq = Suc (assignment_seq s), as_project_id = project, as_node_id = nid,
         as_tier = tier, as_op = what, as_actor = actor, as_reason = reason, as_at = now\<rparr>]\<rparr>)"

definition record_tier :: "pstr \<Rightarrow> pstr \<Rightarrow> pstr \<Rightarrow> pstr \<Rightarrow> pstr \<Rightarrow> pstr option \<Rightarrow> ('z memory_st_scheme, unit) op" where
  "record_tier project nid tier what actor reason =
     transaction (
       bnd utcnow (\<lambda>now.
       bnd (add_assignment project nid tier what actor reason now) (\<lambda>_.
       audit (PStr actor) (PStr (lit ''memory.'' @ what)) (PStr nid) PNone PNone PNone
         (PStr (tier @ lit '': '' @ (case reason of None \<Rightarrow> [] | Some r \<Rightarrow> r))))))"

definition check_tier :: "pyval \<Rightarrow> exn + pstr" where
  "check_tier tier = require (in_vocabulary tier TIERS) ValueError (Inr (text_of tier))"

definition promote :: "memory \<Rightarrow> (node \<Rightarrow> 'z memory_st_scheme \<Rightarrow> bool) \<Rightarrow> pstr \<Rightarrow> pstr \<Rightarrow> pyval \<Rightarrow> pstr \<Rightarrow> pstr option
    \<Rightarrow> ('z memory_st_scheme, unit) op" where
  "promote mm may project nid tier actor reason =
     bnd (lift (check_tier tier)) (\<lambda>t.
     bnd (memory_node mm project nid) (\<lambda>n.
     bnd (chk (\<not> quarantined n) ValueError) (\<lambda>_.
     bnd (rd (l0_is_binding may n)) (\<lambda>binding.
     bnd (chk (t = lit ''L0'' \<longrightarrow> binding) ValueError) (\<lambda>_.
     bnd (if t = lit ''L3'' then has_real_provenance mm may project nid else ret True) (\<lambda>supported.
     bnd (chk supported ValueError) (\<lambda>_.
     record_tier project nid t (lit ''promote'') actor reason)))))))"

definition rows_about :: "pstr \<Rightarrow> pstr \<Rightarrow> 'z memory_st_scheme \<Rightarrow> assignment list" where
  "rows_about project nid s = filter (\<lambda>r. as_project_id r = project \<and> as_node_id r = nid) (sort_key as_seq (assignments s))"

text \<open>What a row says holds the node.\<close>

definition tier_held :: "assignment \<Rightarrow> pstr option" where
  "tier_held r = (if as_op r = lit ''promote'' then Some (as_tier r) else None)"

definition tier_of :: "memory \<Rightarrow> pstr \<Rightarrow> pstr \<Rightarrow> ('z memory_st_scheme, pstr option) op" where
  "tier_of mm project nid =
     bnd (memory_project mm project) (\<lambda>_.
     bnd (rd (rows_about project nid)) (\<lambda>rows.
     ret (if rows = [] \<or> as_op (last rows) = lit ''demote'' then None else Some (as_tier (last rows)))))"

definition demote :: "memory \<Rightarrow> pstr \<Rightarrow> pstr \<Rightarrow> pyval \<Rightarrow> pstr \<Rightarrow> pstr option \<Rightarrow> ('z memory_st_scheme, bool) op" where
  "demote mm project nid tier actor reason =
     bnd (lift (check_tier tier)) (\<lambda>t.
     bnd (memory_node mm project nid) (\<lambda>_.
     bnd (tier_of mm project nid) (\<lambda>actual. case actual of
       None \<Rightarrow> ret False
     | Some held \<Rightarrow>
         bnd (chk (held = t) ValueError) (\<lambda>_.
         bnd (record_tier project nid t (lit ''demote'') actor reason) (\<lambda>_. ret True)))))"

definition demote_from_any_tier :: "memory \<Rightarrow> pstr \<Rightarrow> pstr \<Rightarrow> pstr \<Rightarrow> pstr \<Rightarrow> ('z memory_st_scheme, pstr option) op" where
  "demote_from_any_tier mm project nid actor reason =
     bnd (memory_node mm project nid) (\<lambda>_.
     bnd (tier_of mm project nid) (\<lambda>actual. case actual of
       None \<Rightarrow> ret None
     | Some held \<Rightarrow> bnd (record_tier project nid held (lit ''demote'') actor (Some reason)) (\<lambda>_. ret (Some held))))"

text \<open>The dictionary of what holds each node, in the order in which they first appear.\<close>

definition held_tiers :: "pstr \<Rightarrow> 'z memory_st_scheme \<Rightarrow> (pstr \<times> pstr option) list" where
  "held_tiers project s = fold (\<lambda>r d. put_key d (as_node_id r) (tier_held r))
     (filter (\<lambda>r. as_project_id r = project) (sort_key as_seq (assignments s))) []"

definition admitted :: "(node \<Rightarrow> 'z memory_st_scheme \<Rightarrow> bool) \<Rightarrow> pstr option \<Rightarrow> pstr \<Rightarrow> pstr \<Rightarrow> pstr
    \<Rightarrow> ('z memory_st_scheme, bool) op" where
  "admitted may tenant project tier nid =
     catch (bnd (get_node nid None tenant (Some project) None) (\<lambda>n.
            bnd (rd (l0_is_binding may n)) (\<lambda>binding.
            ret (\<not> quarantined n \<and> (tier = lit ''L0'' \<longrightarrow> binding)))))
       (\<lambda>e. e = KeyError) (\<lambda>_. ret False)"

fun keep_admitted :: "(pstr \<Rightarrow> ('s, bool) op) \<Rightarrow> pstr list \<Rightarrow> ('s, pstr list) op" where
  "keep_admitted ok [] = ret []"
| "keep_admitted ok (n # ns) = bnd (ok n) (\<lambda>b. bnd (keep_admitted ok ns) (\<lambda>ms. ret (if b then n # ms else ms)))"

definition tier_members :: "memory \<Rightarrow> (node \<Rightarrow> 'z memory_st_scheme \<Rightarrow> bool) \<Rightarrow> pstr \<Rightarrow> pstr \<Rightarrow> pstr option
    \<Rightarrow> ('z memory_st_scheme, pstr list) op" where
  "tier_members mm may project tier tenant =
     bnd (lift (effective_tenant mm tenant)) (\<lambda>ten.
     bnd (memory_project mm project) (\<lambda>_.
     bnd (rd (held_tiers project)) (\<lambda>held.
     keep_admitted (admitted may ten project tier) (map fst (filter (\<lambda>(n, h). h = Some tier) held)))))"

definition l0 :: "memory \<Rightarrow> (node \<Rightarrow> 'z memory_st_scheme \<Rightarrow> bool) \<Rightarrow> pstr \<Rightarrow> pstr option \<Rightarrow> ('z memory_st_scheme, node list) op" where
  "l0 mm may project tenant =
     bnd (lift (effective_tenant mm tenant)) (\<lambda>ten.
     bnd (memory_project mm project) (\<lambda>_.
     bnd (tier_members mm may project (lit ''L0'') ten) (\<lambda>ns.
     bnd (map_each ns (\<lambda>n. catch (bnd (get_node n None ten (Some project) None) (\<lambda>x. ret [x])) (\<lambda>e. e = KeyError) (\<lambda>_. ret [])))
       (\<lambda>xs. ret (concat xs)))))"

subsection \<open>Checkpoints\<close>

definition checkpoint_args :: "pyval \<Rightarrow> pstr \<Rightarrow> bool \<Rightarrow> pstr \<Rightarrow> pyval \<Rightarrow> pyval \<Rightarrow> pstr \<Rightarrow> pyval \<Rightarrow> node_args" where
  "checkpoint_args tenant project verified label session working_state now event =
     node_defaults\<lparr>v_entity_type := pkey ''checkpoint'', v_tenant_id := tenant, v_project_id := PStr project,
       v_status := (if verified then pkey ''verified'' else pkey ''unverified''),
       v_data := PDict [(pkey ''label'', PStr label), (pkey ''session_id'', session), (pkey ''working_state'', working_state),
         (pkey ''checkpoint_at'', PStr now)], v_event_id := event\<rparr>"

definition checkpoint :: "memory \<Rightarrow> (node \<Rightarrow> 'z memory_st_scheme \<Rightarrow> bool) \<Rightarrow> pstr option \<Rightarrow> pstr \<Rightarrow> pyval \<Rightarrow> pyval \<Rightarrow> pyval \<Rightarrow> pyval \<Rightarrow> pyval
    \<Rightarrow> ('z memory_st_scheme, node) op" where
  "checkpoint mm may tenant project session_id label working_state event_id verified =
     bnd (chk (is_bool verified) ValueError) (\<lambda>_.
     bnd (chk (solid_text label) ValueError) (\<lambda>_.
     bnd (lift (validate_human_text 1024 label)) (\<lambda>lbl.
     bnd (lift (finite_json_object working_state)) (\<lambda>state.
     bnd (lift (optional_identifier session_id)) (\<lambda>session.
     bnd (lift (effective_tenant mm tenant)) (\<lambda>ten.
     bnd (memory_project mm project) (\<lambda>_.
     bnd (case session of None \<Rightarrow> ret () | Some sid \<Rightarrow>
         bnd (memory_node mm project sid) (\<lambda>n. chk (n_entity_type (nd_row n) = lit ''session'') ValueError)) (\<lambda>_.
     transaction (
       bnd utcnow (\<lambda>now.
       bnd (put_node (checkpoint_args (opt_val ten) project (truthy verified) lbl (opt_val session) state now event_id)) (\<lambda>n.
       bnd (case session of None \<Rightarrow> ret () | Some sid \<Rightarrow>
           bnd (put_edge (edge_defaults\<lparr>w_edge_type := pkey ''produces'', w_src_id := PStr sid, w_dst_id := PStr (n_id (nd_row n)),
             w_tenant_id := opt_val ten, w_project_id := PStr project, w_event_id := event_id\<rparr>)) (\<lambda>_. ret ())) (\<lambda>_.
       bnd (promote mm may project (n_id (nd_row n)) (pkey ''L1'') (lit ''cce'') (Some (lit ''checkpoint '' @ lbl))) (\<lambda>_.
       ret n)))))))))))))"

definition last_safe_checkpoint :: "memory \<Rightarrow> pstr \<Rightarrow> ('z memory_st_scheme, node option) op" where
  "last_safe_checkpoint mm project =
     bnd (memory_project mm project) (\<lambda>_.
     bnd (current (PStr project) (pkey ''checkpoint'') PNone PNone (opt_val (mm_tenant mm))) (\<lambda>ns.
     ret (case rev (filter (\<lambda>n. n_status (nd_row n) = Some (lit ''verified'')) ns) of [] \<Rightarrow> None | n # _ \<Rightarrow> Some n)))"

end
