(* ===== verification/Quarantine.thy ===== *)
theory Quarantine
  imports Graph_Query Glob
begin

section \<open>resume.py: quarantined content at the exit of the engine\<close>

text \<open>
  \<open>_strip_quarantined\<close> and \<open>_require_quarantine_free\<close>: what a resume packet or a recovery
  packet may carry once a node of the project is quarantined. Sets of texts and of
  identifiers are lists here; only membership in them is ever asked.
\<close>

subsection \<open>Patterns\<close>

text \<open>\<open>pattern in value\<close>\<close>

definition occurs_in :: "pstr \<Rightarrow> pstr \<Rightarrow> bool" where
  "occurs_in p s = list_ex (\<lambda>i. take (length p) (drop i s) = p) [0..<Suc (length s)]"

definition BOOKKEEPING_KEYS :: "pstr list" where
  "BOOKKEEPING_KEYS = map lit
     [''span'', ''source_ref'', ''suspected_injection'', ''quarantine_reason'', ''quarantined_at'', ''extractor'',
      ''extractor_version'', ''node_id'', ''event_id'', ''kind'', ''pattern'', ''demoted_from'', ''proposed_kind'',
      ''demotion_reason'']"

definition MIN_SUBSTRING_PATTERN :: nat where
  "MIN_SUBSTRING_PATTERN = 24"

definition substring_patterns :: "pstr list \<Rightarrow> pstr list" where
  "substring_patterns texts = filter (\<lambda>t. MIN_SUBSTRING_PATTERN \<le> length t) texts"

definition text_matches :: "pstr list \<Rightarrow> pstr \<Rightarrow> bool" where
  "text_matches texts v \<longleftrightarrow> v \<in> set texts \<or> list_ex (\<lambda>p. occurs_in p v) (substring_patterns texts)"

text \<open>What of the data of a quarantined node is payload.\<close>

definition payload_texts :: "pydict \<Rightarrow> pstr list" where
  "payload_texts d = map (\<lambda>(k, v). text_of v)
     (filter (\<lambda>(k, v). key_text k \<notin> set BOOKKEEPING_KEYS \<and> solid_text v) d)"

subsection \<open>Scrubbing a value\<close>

definition matching_text :: "pstr list \<Rightarrow> pyval \<Rightarrow> bool" where
  "matching_text texts v \<longleftrightarrow> is_str v \<and> text_matches texts (text_of v)"

text \<open>\<open>value.get("node_id") or value.get("claim_id")\<close>, looked up in the set of identifiers: what
  cannot be hashed raises.\<close>

definition names_quarantined :: "pstr list \<Rightarrow> pydict \<Rightarrow> exn + bool" where
  "names_quarantined ids d =
     (let ident = (if truthy (dget_none d (lit ''node_id'')) then dget_none d (lit ''node_id'') else dget_none d (lit ''claim_id''))
      in require (py_hashable ident) TypeError (Inr (is_str ident \<and> text_of ident \<in> set ids)))"

text \<open>\<open>scrub\<close>: the number of removals and what is left, \<open>None\<close> for what is removed. A list loses
  every \<open>None\<close>, those it held before included.\<close>

function scrub :: "pstr list \<Rightarrow> pstr list \<Rightarrow> pyval \<Rightarrow> exn + nat \<times> pyval" where
  "scrub ids texts (PDict d) =
     rbind (names_quarantined ids d) (\<lambda>named.
     if named then Inr (1, PNone)
     else if list_ex (\<lambda>(k, v). matching_text texts v) d then Inr (1, PNone)
     else rbind (rmap (\<lambda>(k, v). rbind (scrub ids texts v) (\<lambda>(n, v'). Inr (n, k, v'))) d) (\<lambda>xs.
       Inr (sum_list (map fst xs), PDict (map snd xs))))"
| "scrub ids texts (PList vs) =
     rbind (rmap (scrub ids texts) vs) (\<lambda>xs.
       Inr (sum_list (map fst xs), PList (filter (\<lambda>v. v \<noteq> PNone) (map snd xs))))"
| "scrub ids texts (PStr s) = Inr (if s \<in> set ids \<or> text_matches texts s then (1, PNone) else (0, PStr s))"
| "scrub ids texts PNone = Inr (0, PNone)"
| "scrub ids texts (PBool b) = Inr (0, PBool b)"
| "scrub ids texts (PInt i) = Inr (0, PInt i)"
| "scrub ids texts (PFloat x) = Inr (0, PFloat x)"
| "scrub ids texts (PBytes b) = Inr (0, PBytes b)"
| "scrub ids texts (PTuple vs) = Inr (0, PTuple vs)"
| "scrub ids texts PObject = Inr (0, PObject)"
  by pat_completeness auto
termination
  by (relation "measure (\<lambda>(_, _, v). size v)")
    (auto simp: less_Suc_eq_le elim!: size_list_estimation')

text \<open>The packet itself: every member but \<open>omissions\<close>.\<close>

definition scrub_packet :: "pstr list \<Rightarrow> pstr list \<Rightarrow> pydict \<Rightarrow> exn + nat \<times> pydict" where
  "scrub_packet ids texts p =
     rbind (rmap (\<lambda>(k, v). if k = pkey ''omissions'' then Inr (0, k, v)
                           else rbind (scrub ids texts v) (\<lambda>(n, v'). Inr (n, k, v'))) p) (\<lambda>xs.
       Inr (sum_list (map fst xs), map snd xs))"

subsection \<open>Stripping a packet\<close>

text \<open>The live nodes that carry the same text, as the packet discloses them.\<close>

definition collides :: "pstr list \<Rightarrow> pydict \<Rightarrow> bool" where
  "collides texts d \<longleftrightarrow> list_ex (\<lambda>(k, v). matching_text texts v) d"

definition collision_entry :: "node \<Rightarrow> pyval" where
  "collision_entry n = PDict [(pkey ''node_id'', PStr (n_id (nd_row n))), (pkey ''entity_type'', PStr (n_entity_type (nd_row n))),
     (pkey ''status'', opt_val (n_status (nd_row n)))]"

definition collisions_of :: "pstr list \<Rightarrow> pstr list \<Rightarrow> pstr list \<Rightarrow> node list \<Rightarrow> node list" where
  "collisions_of ids excluded texts ns =
     filter (\<lambda>n. n_id (nd_row n) \<notin> set ids \<and> n_id (nd_row n) \<notin> set excluded \<and> collides texts (node_fields n)) ns"

text \<open>\<open>packet["omissions"].append(entry)\<close>\<close>

definition disclose :: "pyval \<Rightarrow> pydict \<Rightarrow> exn + pydict" where
  "disclose entry p = (case dget p (lit ''omissions'') of
     None \<Rightarrow> Inl KeyError
   | Some (PList xs) \<Rightarrow> Inr (dset p (pkey ''omissions'') (PList (xs @ [entry])))
   | Some _ \<Rightarrow> Inl AttributeError)"

definition removal_entry :: "nat \<Rightarrow> pyval" where
  "removal_entry removed = PDict [(pkey ''reason'', pkey ''quarantined_content''), (pkey ''section'', pkey ''all''),
     (pkey ''count'', PInt (int removed)),
     (pkey ''note'', PStr (lit ''content flagged as suspected prompt injection is '' @ lit ''withheld from agent-facing state (AD-006)''))]"

definition collisions_entry :: "node list \<Rightarrow> pyval" where
  "collisions_entry ns = PDict [(pkey ''reason'', pkey ''quarantined_text_collision''), (pkey ''section'', pkey ''all''),
     (pkey ''count'', PInt (int (length ns))), (pkey ''nodes'', PList (map collision_entry ns)),
     (pkey ''note'', PStr (lit ''these NON-quarantined nodes carry text that also ''
        @ lit ''appears in quarantined content, so they were withheld ''
        @ lit ''too. Either an injection was copied into live state, ''
        @ lit ''or someone quoted live state to get it suppressed. '' @ lit ''Both need a human.''))]"

definition audit_collision :: "pstr \<Rightarrow> node list \<Rightarrow> ('z store_st_scheme, unit) op" where
  "audit_collision project ns =
     audit (pkey ''resume'') (pkey ''packet.quarantine_collision'') (PStr project) PNone PNone (pkey ''verifier_authoritative'')
       (PStr (decimal (length ns) @ lit '' live node(s) withheld for matching quarantined text: ''
          @ join [44] (map (\<lambda>n. n_id (nd_row n)) (take 10 ns))))"

definition held_ids :: "node list \<Rightarrow> pstr list" where
  "held_ids ns = map (\<lambda>n. n_id (nd_row n)) (filter (\<lambda>n. n_status (nd_row n) = Some (lit ''quarantined'')) ns)"

definition strip_quarantined :: "pstr \<Rightarrow> pydict \<Rightarrow> pstr option \<Rightarrow> bool \<Rightarrow> pstr list \<Rightarrow> ('z graph_st_scheme, pydict) op" where
  "strip_quarantined project packet tenant record_audit excluded =
     bnd (current (PStr project) PNone PNone PNone (opt_val tenant)) (\<lambda>ns.
     let ids = held_ids ns in
     if ids = [] then ret packet
     else bnd (map_each ids (\<lambda>i. bnd (get_node i None tenant (Some project) None) (\<lambda>n. ret (payload_texts (node_fields n))))) (\<lambda>tss.
       let texts = concat tss; colliding = collisions_of ids excluded texts ns in
       bnd (lift (scrub_packet ids texts packet)) (\<lambda>(removed, p).
       bnd (lift (if removed = 0 then Inr p else disclose (removal_entry removed) p)) (\<lambda>p.
       if colliding = [] then ret p
       else bnd (lift (disclose (collisions_entry colliding) p)) (\<lambda>p.
         bnd (if record_audit then audit_collision project colliding else ret ()) (\<lambda>_. ret p))))))"

text \<open>\<open>_require_quarantine_free\<close>\<close>

definition require_quarantine_free :: "pstr option \<Rightarrow> pstr \<Rightarrow> pyval \<Rightarrow> ('z graph_st_scheme, unit) op" where
  "require_quarantine_free tenant project content =
     bnd (strip_quarantined project [(pkey ''content'', content), (pkey ''omissions'', PList [])] tenant False []) (\<lambda>checked.
     chk (dget_none checked (lit ''content'') = content) ValueError)"

end
