(* ===== verification/Partial.thy ===== *)
theory Partial
  imports Memory Quarantine Core_Jcs
begin

section \<open>partial.py: graceful partial progress\<close>

text \<open>
  Outcomes, quarantine, rollbacks and the recovery packet. Node and project identifiers, actors
  and reasons are texts, as the callers pass them. \<open>py_str\<close> is Python's \<open>str\<close> on a value that is
  not a string, used in the text of a retry step; nothing is assumed of it.
\<close>

record manager =
  pm_tenant :: "pstr option"
  pm_memory :: memory

definition outcome_items :: "pyval \<Rightarrow> exn + pyval" where
  "outcome_items v = (case v of
     PNone \<Rightarrow> Inr (PList [])
   | PList xs \<Rightarrow> require (list_all is_dict xs) ValueError
       (rcatch (rbind (canonical_json (PList xs)) strict_json_text) value_like (\<lambda>_. Inl ValueError))
   | _ \<Rightarrow> Inl ValueError)"

definition manager_tenant :: "pstr option \<Rightarrow> pstr \<Rightarrow> exn + pstr" where
  "manager_tenant bound tenant =
     require (bound = None \<or> bound = Some tenant) PermissionError
     (Inr (case bound of None \<Rightarrow> tenant | Some t \<Rightarrow> if t = [] then tenant else t))"

definition manager_project :: "pstr option \<Rightarrow> pstr \<Rightarrow> ('z graph_st_scheme, unit) op" where
  "manager_project bound project = (case bound of
     None \<Rightarrow> ret ()
   | Some t \<Rightarrow> absent_is PermissionError
       (bnd (get_node project None (Some t) (Some project) (Some (lit ''project''))) (\<lambda>_. ret ())))"

definition manager_node :: "pstr option \<Rightarrow> pstr \<Rightarrow> pstr option \<Rightarrow> ('z graph_st_scheme, node) op" where
  "manager_node bound nid kind = absent_is PermissionError (get_node nid None bound None kind)"

text \<open>A node that must be of the given kind and belong to the project.\<close>

definition own_node :: "pstr option \<Rightarrow> pstr \<Rightarrow> pstr \<Rightarrow> pstr \<Rightarrow> ('z graph_st_scheme, node) op" where
  "own_node bound project nid kind =
     bnd (manager_node bound nid (Some kind)) (\<lambda>n.
     bnd (chk (n_project_id (nd_row n) = project) PermissionError) (\<lambda>_. ret n))"

subsection \<open>Outcomes\<close>

record outcome_args =
  oa_tenant :: pstr
  oa_project :: pstr
  oa_session :: pyval
  oa_status :: pyval
  oa_completed :: pyval
  oa_failed :: pyval
  oa_blocked :: pyval
  oa_skipped :: pyval
  oa_unverified :: pyval
  oa_failure_mode :: pyval
  oa_event :: pyval

definition outcome_lists :: "outcome_args \<Rightarrow> exn + (pyval \<times> pyval) list" where
  "outcome_lists a =
     rbind (outcome_items (oa_completed a)) (\<lambda>c.
     rbind (outcome_items (oa_failed a)) (\<lambda>f.
     rbind (outcome_items (oa_blocked a)) (\<lambda>b.
     rbind (outcome_items (oa_skipped a)) (\<lambda>k.
     rbind (outcome_items (oa_unverified a)) (\<lambda>u.
     Inr [(pkey ''completed'', c), (pkey ''failed'', f), (pkey ''blocked'', b), (pkey ''skipped'', k),
          (pkey ''unverified'', u)])))))"

definition record_outcome :: "manager \<Rightarrow> outcome_args \<Rightarrow> ('z graph_st_scheme, node) op" where
  "record_outcome pm a =
     bnd (lift (outcome_lists a)) (\<lambda>lists.
     bnd (lift (optional_identifier (oa_session a))) (\<lambda>session.
     bnd (lift (manager_tenant (pm_tenant pm) (oa_tenant a))) (\<lambda>tenant.
     bnd (manager_project (pm_tenant pm) (oa_project a)) (\<lambda>_.
     bnd (chk (in_vocabulary (oa_status a) RUN_OUTCOMES) ValueError) (\<lambda>_.
     bnd (chk (oa_failure_mode a = PNone \<or> in_vocabulary (oa_failure_mode a) FAILURE_TAXONOMY) ValueError) (\<lambda>_.
     bnd (case session of None \<Rightarrow> ret ()
          | Some sid \<Rightarrow> bnd (own_node (pm_tenant pm) (oa_project a) sid (lit ''session'')) (\<lambda>_. ret ())) (\<lambda>_.
     transaction (
       bnd utcnow (\<lambda>now.
       bnd (put_node (node_defaults\<lparr>v_entity_type := pkey ''outcome'', v_tenant_id := PStr tenant,
          v_project_id := PStr (oa_project a), v_status := oa_status a,
          v_data := PDict ((pkey ''session_id'', opt_val session) # lists
             @ [(pkey ''failure_mode'', oa_failure_mode a), (pkey ''recorded_at'', PStr now)]),
          v_event_id := oa_event a\<rparr>)) (\<lambda>n.
       bnd (case session of None \<Rightarrow> ret ()
            | Some sid \<Rightarrow> bnd (put_edge (edge_defaults\<lparr>w_edge_type := pkey ''produces'', w_src_id := PStr sid,
                w_dst_id := PStr (n_id (nd_row n)), w_tenant_id := PStr tenant, w_project_id := PStr (oa_project a),
                w_event_id := oa_event a\<rparr>)) (\<lambda>_. ret ())) (\<lambda>_.
       ret n)))))))))))"

subsection \<open>Quarantine\<close>

definition quarantine :: "manager \<Rightarrow> pstr \<Rightarrow> pstr \<Rightarrow> pstr \<Rightarrow> pyval \<Rightarrow> ('z memory_st_scheme, node) op" where
  "quarantine pm nid actor reason event_id =
     bnd (manager_node (pm_tenant pm) nid None) (\<lambda>n.
     let project = n_project_id (nd_row n) in
     transaction (
       bnd utcnow (\<lambda>now.
       bnd (put_node (node_defaults\<lparr>v_entity_type := PStr (n_entity_type (nd_row n)), v_tenant_id := PStr (n_tenant_id (nd_row n)),
          v_project_id := PStr project, v_node_id := PStr nid,
          v_data := PDict [(pkey ''quarantine_reason'', PStr reason), (pkey ''quarantined_at'', PStr now)],
          v_status := pkey ''quarantined'', v_event_id := event_id\<rparr>)) (\<lambda>out.
       bnd (demote_from_any_tier (pm_memory pm) project nid actor (lit ''quarantined: '' @ reason)) (\<lambda>vacated.
       bnd (audit (PStr actor) (pkey ''artifact.quarantine'') (PStr nid) PNone PNone PNone
          (PStr (reason @ (case vacated of None \<Rightarrow> [] | Some t \<Rightarrow> if t = [] then [] else lit '' (demoted from '' @ t @ lit '')''))))
         (\<lambda>_. ret out))))))"

subsection \<open>Rollbacks\<close>

definition record_rollback :: "manager \<Rightarrow> pstr \<Rightarrow> pstr \<Rightarrow> pstr \<Rightarrow> pyval \<Rightarrow> pyval \<Rightarrow> pyval \<Rightarrow> pyval
    \<Rightarrow> ('z graph_st_scheme, node) op" where
  "record_rollback pm tenant_id project action_id compensating_action status evidence_digest event_id =
     bnd (chk (in_vocabulary status RUN_OUTCOMES) ValueError) (\<lambda>_.
     bnd (chk (solid_text compensating_action) ValueError) (\<lambda>_.
     bnd (lift (validate_human_text 4096 compensating_action)) (\<lambda>act.
     bnd (lift (manager_tenant (pm_tenant pm) tenant_id)) (\<lambda>tenant.
     bnd (manager_project (pm_tenant pm) project) (\<lambda>_.
     bnd (own_node (pm_tenant pm) project action_id (lit ''action'')) (\<lambda>_.
     transaction (
       bnd utcnow (\<lambda>now.
       bnd (put_node (node_defaults\<lparr>v_entity_type := pkey ''action'', v_tenant_id := PStr tenant, v_project_id := PStr project,
          v_status := PStr (lit ''rollback_'' @ text_of status),
          v_data := PDict [(pkey ''kind'', pkey ''rollback''), (pkey ''compensates'', PStr action_id),
             (pkey ''compensating_action'', PStr act), (pkey ''evidence_digest'', evidence_digest),
             (pkey ''recorded_at'', PStr now)],
          v_event_id := event_id\<rparr>)) (\<lambda>n.
       bnd (put_edge (edge_defaults\<lparr>w_edge_type := pkey ''supersedes'', w_src_id := PStr (n_id (nd_row n)),
          w_dst_id := PStr action_id, w_tenant_id := PStr tenant, w_project_id := PStr project, w_event_id := event_id\<rparr>))
         (\<lambda>_. ret n))))))))))"

subsection \<open>Recovery packets\<close>

abbreviation status_in :: "node \<Rightarrow> string list \<Rightarrow> bool" where
  "status_in n ss \<equiv> n_status (nd_row n) \<in> Some ` set (map lit ss)"

definition field_of :: "node \<Rightarrow> string \<Rightarrow> pyval" where
  "field_of n k = dget_none (node_fields n) (lit k)"

text \<open>\<open>summary\<close>: the first of the fields that is not null.\<close>

fun summary_of :: "node \<Rightarrow> string list \<Rightarrow> exn + pstr" where
  "summary_of n [] = Inr []"
| "summary_of n (k # ks) = (case field_of n k of
     PNone \<Rightarrow> summary_of n ks | PStr s \<Rightarrow> Inr s | _ \<Rightarrow> Inl ValueError)"

definition str_text :: "(pyval \<Rightarrow> pstr) \<Rightarrow> pyval \<Rightarrow> pstr" where
  "str_text py_str v = (case v of PStr s \<Rightarrow> s | PNone \<Rightarrow> lit ''None'' | _ \<Rightarrow> py_str v)"

definition retry_step :: "(pyval \<Rightarrow> pstr) \<Rightarrow> pyval \<Rightarrow> pyval" where
  "retry_step py_str f =
     (let nm = (case f of PDict d \<Rightarrow> dget_none d (lit ''name'') | _ \<Rightarrow> PNone)
      in PStr (lit ''Retry failed step '' @ str_text py_str (if truthy nm then nm else f)
               @ lit '': fix the recorded cause before rerunning.''))"

definition rerun_steps :: "(pyval \<Rightarrow> pstr) \<Rightarrow> node option \<Rightarrow> node option \<Rightarrow> pyval" where
  "rerun_steps py_str last_one cp = PList (
     [PStr (case cp of
        Some c \<Rightarrow> lit ''Resume from checkpoint '' @ n_id (nd_row c) @ lit '' ('' @ str_text py_str (field_of c ''label'')
           @ lit ''); do not repeat work verified before it.''
      | None \<Rightarrow> lit ''No verified checkpoint exists; verify current state before continuing.'')]
     @ (case last_one of None \<Rightarrow> []
        | Some n \<Rightarrow> (case field_of n ''failed'' of PList fs \<Rightarrow> map (retry_step py_str) fs | _ \<Rightarrow> []))
     @ [pkey ''Re-run required verifiers before claiming any completion.''])"

definition verifier_gaps :: "node list \<Rightarrow> exn + pstr list" where
  "verifier_gaps vs =
     (let gaps = map (\<lambda>v. field_of v ''verifier'') (filter (\<lambda>v. status_in v [''failed'', ''stale'', ''inconclusive'', ''missing'']) vs)
      in require (list_all nonempty_string gaps) ValueError (Inr (sorted_set (map text_of gaps))))"

definition check_last :: "node \<Rightarrow> exn + unit" where
  "check_last n =
     require (n_status (nd_row n) \<in> Some ` set RUN_OUTCOMES) ValueError
     (require ((case field_of n ''failed'' of PList fs \<Rightarrow> list_all is_dict fs | _ \<Rightarrow> False)
        \<and> (field_of n ''failure_mode'' = PNone \<or> in_vocabulary (field_of n ''failure_mode'') FAILURE_TAXONOMY)) ValueError
     (Inr ()))"

definition outcome_entry :: "node \<Rightarrow> pyval" where
  "outcome_entry n = PDict [(pkey ''status'', opt_val (n_status (nd_row n))), (pkey ''failed'', field_of n ''failed''),
     (pkey ''failure_mode'', field_of n ''failure_mode'')]"

definition checkpoint_entry :: "node \<Rightarrow> pyval" where
  "checkpoint_entry n = PDict [(pkey ''node_id'', PStr (n_id (nd_row n))), (pkey ''label'', field_of n ''label''),
     (pkey ''working_state'', field_of n ''working_state'')]"

definition work_entry :: "string list \<Rightarrow> node \<Rightarrow> exn + pyval" where
  "work_entry ks n = rbind (summary_of n ks) (\<lambda>t. Inr (PDict [(pkey ''node_id'', PStr (n_id (nd_row n))), (pkey ''summary'', PStr t)]))"

definition task_entry :: "node \<Rightarrow> exn + pyval" where
  "task_entry n = rbind (summary_of n [''statement'', ''title'']) (\<lambda>t. Inr (PDict [(pkey ''node_id'', PStr (n_id (nd_row n))),
     (pkey ''status'', opt_val (n_status (nd_row n))), (pkey ''summary'', PStr t)]))"

definition last_of :: "'a list \<Rightarrow> 'a option" where
  "last_of xs = (if xs = [] then None else Some (last xs))"

definition recovery_content :: "(pyval \<Rightarrow> pstr) \<Rightarrow> pstr \<Rightarrow> pstr \<Rightarrow> node option \<Rightarrow> node option \<Rightarrow> node list \<Rightarrow> node list
    \<Rightarrow> pstr list \<Rightarrow> pstr list \<Rightarrow> exn + pydict" where
  "recovery_content py_str now project last_one cp keepers tasks held gaps =
     rbind (rmap (work_entry [''statement'', ''label'', ''title'']) keepers) (\<lambda>work.
     rbind (rmap task_entry tasks) (\<lambda>remaining.
     Inr [(pkey ''schema_version'', pkey ''cce.recovery.v1''), (pkey ''generated_at'', PStr now), (pkey ''project_id'', PStr project),
       (pkey ''last_outcome'', case last_one of None \<Rightarrow> PNone | Some n \<Rightarrow> outcome_entry n),
       (pkey ''last_safe_checkpoint'', case cp of None \<Rightarrow> PNone | Some c \<Rightarrow> checkpoint_entry c),
       (pkey ''verified_work_to_keep'', PList work), (pkey ''quarantined'', PList (map PStr held)),
       (pkey ''remaining_tasks'', PList remaining), (pkey ''verifier_gaps'', PList (map PStr gaps)),
       (pkey ''rerun_instructions'', rerun_steps py_str last_one cp)]))"

text \<open>What the last check looks at: every member but the list of quarantined identifiers.\<close>

definition open_members :: "pydict \<Rightarrow> pydict" where
  "open_members p = filter (\<lambda>(k, v). k \<noteq> pkey ''quarantined'') p"

definition recovery_packet :: "manager \<Rightarrow> (node \<Rightarrow> 'z memory_st_scheme \<Rightarrow> bool) \<Rightarrow> (pyval \<Rightarrow> pstr) \<Rightarrow> pstr \<Rightarrow> pyval
    \<Rightarrow> ('z memory_st_scheme, pydict) op" where
  "recovery_packet pm may py_str project session_id =
     bnd (lift (optional_identifier session_id)) (\<lambda>session.
     bnd (manager_project (pm_tenant pm) project) (\<lambda>_.
     bnd (case session of None \<Rightarrow> ret ()
          | Some sid \<Rightarrow> bnd (own_node (pm_tenant pm) project sid (lit ''session'')) (\<lambda>_. ret ())) (\<lambda>_.
     let nodes_of = (\<lambda>kind. current (PStr project) kind PNone PNone (opt_val (pm_tenant pm))) in
     bnd (nodes_of (pkey ''outcome'')) (\<lambda>outcomes.
     let last_one = last_of (case session of None \<Rightarrow> outcomes
                             | Some sid \<Rightarrow> filter (\<lambda>n. field_of n ''session_id'' = PStr sid) outcomes) in
     bnd (last_safe_checkpoint (pm_memory pm) project) (\<lambda>cp.
     bnd (nodes_of (pkey ''task'')) (\<lambda>tasks.
     bnd (rd (\<lambda>s. filter (\<lambda>t. (status_in t [''open'', ''in_progress'', ''blocked''] \<or> n_status (nd_row t) = None) \<and> may t s) tasks)) (\<lambda>open_tasks.
     bnd (nodes_of PNone) (\<lambda>ns.
     let keepers = filter (\<lambda>n. status_in n [''verified''] \<and> n_entity_type (nd_row n) \<in> set (map lit [''task'', ''action'', ''artifact'', ''checkpoint''])) ns;
         held = map (\<lambda>n. n_id (nd_row n)) (filter quarantined ns) in
     bnd (nodes_of (pkey ''verification'')) (\<lambda>vs.
     bnd (lift (verifier_gaps vs)) (\<lambda>gaps.
     bnd (lift (case last_one of None \<Rightarrow> Inr () | Some n \<Rightarrow> check_last n)) (\<lambda>_.
     bnd (chk (case cp of None \<Rightarrow> True | Some c \<Rightarrow> text_or_none (field_of c ''label'')) ValueError) (\<lambda>_.
     bnd utcnow (\<lambda>now.
     bnd (lift (recovery_content py_str now project last_one cp keepers open_tasks held gaps)) (\<lambda>p.
     bnd (require_quarantine_free (pm_tenant pm) project (PDict (open_members p))) (\<lambda>_.
     ret p)))))))))))))))"

end
