(* ===== verification/Retrieval.thy ===== *)
theory Retrieval
  imports Memory Core_Jcs Store_Chain
begin

section \<open>memory.py: retrieval, export, corrections and retention\<close>

text \<open>
  Scores are binary64 numbers, as the rationals they denote: every operation rounds once, in
  the order of the source. \<open>half_pow\<close> is \<open>0.5 ** x\<close> of the platform's library, an argument of
  which nothing is assumed. The words of a node are those of the text that \<open>json.dumps\<close> writes
  of its data, escapes included.
\<close>

subsection \<open>Words\<close>

text \<open>\<open>str.lower\<close> as far as the pattern of \<open>_terms\<close> can see it: outside ASCII only the Kelvin
  sign and the dotted capital I have an ASCII letter in their lower case, and every other
  character separates words before and after.\<close>

definition lower_char :: "nat \<Rightarrow> pstr" where
  "lower_char c = (if 65 \<le> c \<and> c \<le> 90 then [c + 32]
     else if c = 0x212A then [107] else if c = 0x130 then [105, 0x307] else [c])"

definition word_char :: "nat \<Rightarrow> bool" where
  "word_char c \<longleftrightarrow> 97 \<le> c \<and> c \<le> 122 \<or> is_digit c \<or> c = 95"

text \<open>\<open>re.findall("[a-z0-9_]+", text)\<close>; the first argument is the word being read, backwards.\<close>

fun word_runs :: "pstr \<Rightarrow> pstr \<Rightarrow> pstr list" where
  "word_runs w [] = (if w = [] then [] else [rev w])"
| "word_runs w (c # cs) =
     (if word_char c then word_runs (c # w) cs
      else (if w = [] then [] else [rev w]) @ word_runs [] cs)"

definition terms :: "pstr \<Rightarrow> pstr list" where
  "terms s = remdups (filter (\<lambda>w. 2 < length w) (word_runs [] (concat (map lower_char s))))"

text \<open>\<open>json.dumps\<close> with its default separators and ASCII escapes.\<close>

definition dumps_char :: "nat \<Rightarrow> pstr" where
  "dumps_char c = (case map_of JCS_SHORT_ESCAPES c of Some e \<Rightarrow> e
     | None \<Rightarrow> if 32 \<le> c \<and> c \<le> 126 then [c]
               else concat (map (\<lambda>u. [92, 117] @ hex4 u) (utf16_units c)))"

definition dumps_string :: "pstr \<Rightarrow> pstr" where
  "dumps_string s = [34] @ concat (map dumps_char s) @ [34]"

fun dumps_float :: "pyfloat \<Rightarrow> pstr" where
  "dumps_float (Fin r) = (if r = 0 then lit ''0.0'' else (if r < 0 then [45] else []) @ float_repr \<bar>r\<bar>)"
| "dumps_float PInf = lit ''Infinity''"
| "dumps_float NInf = lit ''-Infinity''"
| "dumps_float NaN = lit ''NaN''"

function json_dumps :: "pyval \<Rightarrow> exn + pstr" where
  "json_dumps PNone = Inr (lit ''null'')"
| "json_dumps (PBool b) = Inr (if b then lit ''true'' else lit ''false'')"
| "json_dumps (PStr s) = Inr (dumps_string s)"
| "json_dumps (PInt n) = Inr (str_of_int n)"
| "json_dumps (PFloat x) = Inr (dumps_float x)"
| "json_dumps (PList xs) = rbind (rmap json_dumps xs) (\<lambda>ts. Inr ([91] @ join [44, 32] ts @ [93]))"
| "json_dumps (PTuple xs) = rbind (rmap json_dumps xs) (\<lambda>ts. Inr ([91] @ join [44, 32] ts @ [93]))"
| "json_dumps (PDict d) =
     rbind (rmap (\<lambda>(k, v). rbind (json_dumps v) (\<lambda>t. Inr (dumps_string (key_text k) @ [58, 32] @ t))) d)
       (\<lambda>ms. Inr ([123] @ join [44, 32] ms @ [125]))"
| "json_dumps (PBytes b) = Inl TypeError"
| "json_dumps PObject = Inl TypeError"
  by pat_completeness auto
termination
  by (relation "measure size")
    (auto simp: less_Suc_eq_le elim!: size_list_estimation')

definition lexical :: "pstr list \<Rightarrow> pyval \<Rightarrow> exn + rat" where
  "lexical query_terms data =
     (if query_terms = [] then Inr 0
      else rbind (json_dumps data) (\<lambda>s. let hay = terms s in
        Inr (if hay = [] then 0
             else rnd64 (of_nat (length (filter (\<lambda>t. t \<in> set hay) query_terms)) / of_nat (max (length query_terms) 1)))))"

subsection \<open>Signals and scores\<close>

text \<open>\<open>total_seconds() / 86400.0\<close> of a difference in microseconds, and the decay.\<close>

definition age_days :: "int \<Rightarrow> rat" where
  "age_days us = max (rnd64 (rnd64 (of_int us / 1000000) / 86400)) 0"

definition decay :: "(rat \<Rightarrow> rat) \<Rightarrow> pstr \<Rightarrow> int \<Rightarrow> rat \<Rightarrow> rat" where
  "decay half_pow ts now half_life = (case parse_ts ts of
     Inl e \<Rightarrow> 0
   | Inr t \<Rightarrow> (case fl (age_days (now - t) / rnd64 half_life) of Fin x \<Rightarrow> half_pow x | _ \<Rightarrow> 0))"

text \<open>The checks of \<open>half_life_days\<close>: \<open>math.isfinite\<close> raises on an integer that no float holds.\<close>

definition check_half_life :: "pyval \<Rightarrow> exn + rat" where
  "check_half_life v = (case v of
     PInt n \<Rightarrow> (case fl (of_int n) of Fin r \<Rightarrow> require (0 < n) ValueError (Inr (of_int n)) | _ \<Rightarrow> Inl OverflowError)
   | PFloat (Fin r) \<Rightarrow> require (0 < r) ValueError (Inr r)
   | _ \<Rightarrow> Inl ValueError)"

definition check_limit :: "pyval \<Rightarrow> exn + nat" where
  "check_limit v = (case v of
     PInt n \<Rightarrow> require (0 \<le> n \<and> n \<le> 10000) ValueError (Inr (nat n))
   | _ \<Rightarrow> Inl ValueError)"

text \<open>A clock reading of the caller, or a fresh one.\<close>

definition given_now :: "pyval \<Rightarrow> ('z env_scheme, int) op" where
  "given_now now =
     bnd (case now of PNone \<Rightarrow> utcnow | PStr t \<Rightarrow> bnd (chk (t \<noteq> []) ValueError) (\<lambda>_. ret t) | _ \<Rightarrow> fail ValueError) (\<lambda>t.
     lift (rcatch (parse_ts t) value_like (\<lambda>_. Inl ValueError)))"

definition check_anchors :: "pyval \<Rightarrow> exn + pstr list" where
  "check_anchors v = (case v of
     PNone \<Rightarrow> Inr []
   | PList xs \<Rightarrow> rbind (rmap validate_public_identifier xs) (\<lambda>as. require (distinct as) ValueError (Inr as))
   | _ \<Rightarrow> Inl ValueError)"

text \<open>\<open>d[k] = max(d.get(k, 0), x)\<close>\<close>

definition raise_key :: "(pstr \<times> rat) list \<Rightarrow> pstr \<Rightarrow> rat \<Rightarrow> (pstr \<times> rat) list" where
  "raise_key d k x = put_key d k (max (case map_of d k of None \<Rightarrow> 0 | Some y \<Rightarrow> y) x)"

definition or_absent :: "('s, 'a) op \<Rightarrow> ('s, 'a option) op" where
  "or_absent m = catch (bnd m (\<lambda>x. ret (Some x))) (\<lambda>e. e = KeyError) (\<lambda>_. ret None)"

definition near_anchor :: "pstr \<Rightarrow> (pstr \<times> rat) list \<Rightarrow> ('z memory_st_scheme, (pstr \<times> rat) list) op" where
  "near_anchor anchor d =
     bnd (or_absent (dependents (PStr anchor) (PInt 3) (PInt 200) PNone (PFloat (Fin 0)))) (\<lambda>deps. case deps of
       None \<Rightarrow> ret d
     | Some rs \<Rightarrow>
         bnd (ret (fold (\<lambda>r d. raise_key d (q_id r) (q_strength r)) rs d)) (\<lambda>d1.
         bnd (or_absent (out_edges (PStr anchor) None PNone)) (\<lambda>outs. case outs of
           None \<Rightarrow> ret d1
         | Some es \<Rightarrow> ret (fold (\<lambda>e d. raise_key d (g_dst_id (ed_row e)) (rnd64 (8/10))) es d1))))"

fun near_anchors :: "pstr list \<Rightarrow> (pstr \<times> rat) list \<Rightarrow> ('z memory_st_scheme, (pstr \<times> rat) list) op" where
  "near_anchors [] d = ret d"
| "near_anchors (a # as) d = bnd (near_anchor a d) (near_anchors as)"

record scored =
  sc_node :: node
  sc_score :: rat
  sc_pinned :: rat
  sc_causal :: rat
  sc_lexical :: rat
  sc_temporal :: rat

definition combined :: "rat \<Rightarrow> rat \<Rightarrow> rat \<Rightarrow> rat \<Rightarrow> rat \<Rightarrow> rat" where
  "combined pinned causal lexis temporal boost =
     rnd64 (rnd64 (rnd64 (rnd64 (fmul pinned 10 + fmul causal 2) + fmul lexis (3/2)) + temporal) + boost)"

definition boosted :: "pstr option \<Rightarrow> bool" where
  "boosted a \<longleftrightarrow> a \<in> Some ` set (map lit [''tenant_policy'', ''human_decision'', ''verifier_authoritative''])"

text \<open>One turn of the loop over the current nodes: nothing, or the scored node.\<close>

definition score_node :: "(rat \<Rightarrow> rat) \<Rightarrow> int \<Rightarrow> rat \<Rightarrow> pstr list \<Rightarrow> (pstr \<times> rat) list \<Rightarrow> pstr list \<Rightarrow> node
    \<Rightarrow> exn + scored option" where
  "score_node half_pow now half_life query_terms near_by pinned_ids n = (let r = nd_row n in
     if n_entity_type r \<in> {lit ''project'', lit ''actor''} \<or> quarantined n then Inr None
     else let temporal = decay half_pow (n_tx_from r) now half_life in
       rbind (lexical query_terms (nd_data n)) (\<lambda>lexis.
         let causal = (case map_of near_by (n_id r) of None \<Rightarrow> 0 | Some x \<Rightarrow> x);
             pinned = (if n_id r \<in> set pinned_ids then 1 else 0);
             boost = (if boosted (n_authority r) then rnd64 (1/10) else 0);
             score = combined pinned causal lexis temporal boost
         in Inr (if score \<le> rnd64 (5/100) then None
              else Some \<lparr>sc_node = n, sc_score = round4 score, sc_pinned = pinned, sc_causal = round4 causal,
                         sc_lexical = round4 lexis, sc_temporal = round4 temporal\<rparr>)))"

definition ranked :: "nat \<Rightarrow> scored option list \<Rightarrow> scored list" where
  "ranked limit xs = take limit (sort_key (\<lambda>x. - sc_score x) (map the (filter (\<lambda>x. x \<noteq> None) xs)))"

definition retrieve :: "memory \<Rightarrow> (node \<Rightarrow> 'z memory_st_scheme \<Rightarrow> bool) \<Rightarrow> (rat \<Rightarrow> rat) \<Rightarrow> pstr \<Rightarrow> pyval \<Rightarrow> pyval
    \<Rightarrow> pyval \<Rightarrow> pyval \<Rightarrow> pyval \<Rightarrow> pstr option \<Rightarrow> ('z memory_st_scheme, scored list) op" where
  "retrieve mm may half_pow project query anchor_node_ids limit now half_life_days tenant =
     bnd (chk (is_str query) ValueError) (\<lambda>_.
     bnd (if truthy query then lift (validate_human_text 8192 query) else ret []) (\<lambda>q.
     bnd (lift (check_limit limit)) (\<lambda>lim.
     bnd (lift (check_half_life half_life_days)) (\<lambda>hl.
     bnd (given_now now) (\<lambda>clock.
     bnd (lift (check_anchors anchor_node_ids)) (\<lambda>as.
     bnd (lift (effective_tenant mm tenant)) (\<lambda>ten.
     bnd (memory_project mm project) (\<lambda>_.
     bnd (tier_members mm may project (lit ''L0'') ten) (\<lambda>pinned_ids.
     bnd (near_anchors as []) (\<lambda>near_by.
     bnd (current (PStr project) PNone PNone PNone (opt_val ten)) (\<lambda>ns.
     bnd (lift (rmap (score_node half_pow clock hl (terms q) near_by pinned_ids) ns)) (\<lambda>xs.
     ret (ranked lim xs)))))))))))))"

subsection \<open>Export and corrections\<close>

record memory_export =
  me_project_id :: pstr
  me_exported_at :: pstr
  me_tiers :: "(pstr \<times> pstr list) list"
  me_nodes :: "node list"

definition export :: "memory \<Rightarrow> (node \<Rightarrow> 'z memory_st_scheme \<Rightarrow> bool) \<Rightarrow> pstr \<Rightarrow> ('z memory_st_scheme, memory_export) op" where
  "export mm may project =
     bnd (memory_project mm project) (\<lambda>_.
     bnd (map_each TIERS (\<lambda>tier. bnd (tier_members mm may project tier (mm_tenant mm)) (\<lambda>ns. ret (tier, ns)))) (\<lambda>tiers.
     bnd utcnow (\<lambda>now.
     bnd (current (PStr project) PNone PNone PNone (opt_val (mm_tenant mm))) (\<lambda>ns.
     ret \<lparr>me_project_id = project, me_exported_at = now, me_tiers = tiers, me_nodes = ns\<rparr>))))"

definition correct :: "memory \<Rightarrow> pstr \<Rightarrow> pstr \<Rightarrow> pyval \<Rightarrow> pyval \<Rightarrow> pyval \<Rightarrow> ('z memory_st_scheme, node) op" where
  "correct mm project nid corrections actor event_id =
     bnd (lift (finite_json_object corrections)) (\<lambda>fields.
     bnd (chk (solid_text actor) ValueError) (\<lambda>_.
     bnd (lift (validate_human_text 256 actor)) (\<lambda>who.
     bnd (memory_node mm project nid) (\<lambda>n.
     transaction (
       bnd (put_node (node_defaults\<lparr>v_entity_type := PStr (n_entity_type (nd_row n)), v_tenant_id := PStr (n_tenant_id (nd_row n)),
          v_project_id := PStr project, v_node_id := PStr nid, v_data := fields, v_authority := pkey ''human_decision'',
          v_event_id := event_id\<rparr>)) (\<lambda>new.
       bnd (audit (PStr who) (pkey ''memory.correct'') (PStr nid) (PStr (decimal (n_version (nd_row n))))
          (PStr (decimal (n_version (nd_row new)))) PNone PNone) (\<lambda>_.
       ret new)))))))"

subsection \<open>Retention\<close>

definition DAY :: int where
  "DAY = 86400000000"

definition due :: "int \<Rightarrow> int \<Rightarrow> event_row \<Rightarrow> exn + bool" where
  "due clock raw_days r = rbind (parse_ts (e_recorded_at r)) (\<lambda>t. Inr (raw_days \<le> (clock - t) div DAY))"

text \<open>The loop over the selected rows; it counts what it cleared.\<close>

fun clear_payloads :: "int \<Rightarrow> int \<Rightarrow> event_row list \<Rightarrow> nat \<Rightarrow> ('z store_st_scheme, nat) op" where
  "clear_payloads clock raw_days [] deleted = ret deleted"
| "clear_payloads clock raw_days (r # rs) deleted =
     bnd (lift (due clock raw_days r)) (\<lambda>old.
     if old then
       bnd (run_statement (UpdateEvents [lit ''payload''] (\<lambda>x. e_id x = e_id r) (\<lambda>x. x\<lparr>e_payload := None\<rparr>)))
         (\<lambda>_. clear_payloads clock raw_days rs (Suc deleted))
     else clear_payloads clock raw_days rs deleted)"

definition swept_rows :: "memory \<Rightarrow> 'z store_st_scheme \<Rightarrow> event_row list" where
  "swept_rows mm s = filter (\<lambda>r. e_payload r \<noteq> None \<and> matches (mm_tenant mm) (e_tenant_id r)) (events s)"

definition sweep_retention :: "memory \<Rightarrow> pyval \<Rightarrow> pyval \<Rightarrow> pyval \<Rightarrow> ('z store_st_scheme, nat) op" where
  "sweep_retention mm raw_days now actor =
     bnd (lift (case raw_days of PInt n \<Rightarrow> require (0 \<le> n) ValueError (Inr n) | _ \<Rightarrow> Inl ValueError)) (\<lambda>days.
     bnd (given_now now) (\<lambda>clock.
     bnd (chk (solid_text actor) ValueError) (\<lambda>_.
     bnd (lift (validate_human_text 256 actor)) (\<lambda>who.
     transaction (
       bnd (rd (swept_rows mm)) (\<lambda>rows.
       bnd (clear_payloads clock days rows 0) (\<lambda>deleted.
       bnd (if deleted = 0 then ret ()
            else audit (PStr who) (pkey ''retention.sweep'') PNone PNone PNone PNone
              (PStr (lit ''cleared '' @ decimal deleted @ lit '' raw payloads > '' @ str_of_int days @ lit ''d''))) (\<lambda>_.
       ret deleted))))))))"

end
