(* ===== verification/Learning.thy ===== *)
theory Learning
  imports Partial Retrieval Core_Sign
begin

section \<open>learning.py: replays, failures, evaluations and skills\<close>

text \<open>
  The four managers bind a tenant as \<open>PartialProgressManager\<close> does, with the same three checks.
  The Unicode tables that \<open>normalize_statement\<close> consults are the record \<open>unicode\<close>; \<open>py_repr\<close>
  and \<open>py_str\<close> are Python's \<open>repr\<close> of a text and \<open>str\<close> of a value that is not one.
\<close>

subsection \<open>extraction.py: normalize_statement\<close>

text \<open>\<open>unicodedata.normalize("NFKC", s)\<close>, \<open>str.casefold\<close>, the test of the general category
  against L, N, M and S, and the word characters of \<open>re\<close>.\<close>

record unicode =
  nfkc :: "pstr \<Rightarrow> pstr"
  casefold :: "pstr \<Rightarrow> pstr"
  in_LNMS :: "nat \<Rightarrow> bool"
  word_like :: "nat \<Rightarrow> bool"

definition STOP_WORDS :: "pstr list" where
  "STOP_WORDS = map lit [''the'', ''a'', ''an'', ''is'', ''are'', ''was'', ''were'', ''be'', ''been'', ''that'', ''this'', ''it'',
     ''its'', ''of'', ''to'', ''in'', ''on'', ''for'']"

text \<open>\<open>\b\<close> between the character before, if any, and the text that follows.\<close>

definition boundary :: "unicode \<Rightarrow> nat option \<Rightarrow> pstr \<Rightarrow> bool" where
  "boundary uc before rest \<longleftrightarrow>
     (case before of None \<Rightarrow> False | Some c \<Rightarrow> word_like uc c) \<noteq> (case rest of [] \<Rightarrow> False | c # _ \<Rightarrow> word_like uc c)"

definition stop_word :: "unicode \<Rightarrow> nat option \<Rightarrow> pstr \<Rightarrow> pstr option" where
  "stop_word uc before s =
     (if boundary uc before s
      then find (\<lambda>w. take (length w) s = w \<and> boundary uc (Some (last w)) (drop (length w) s)) STOP_WORDS else None)"

text \<open>The substitution scans from the left and goes on after each match; fuel is the length.\<close>

fun drop_words :: "unicode \<Rightarrow> nat \<Rightarrow> nat option \<Rightarrow> pstr \<Rightarrow> pstr" where
  "drop_words uc 0 before s = s"
| "drop_words uc (Suc n) before [] = []"
| "drop_words uc (Suc n) before (c # s) = (case stop_word uc before (c # s) of
     Some w \<Rightarrow> 32 # drop_words uc n (Some (last w)) (drop (length w) (c # s))
   | None \<Rightarrow> c # drop_words uc n (Some c) s)"

text \<open>\<open>re.sub(r"\s+", " ", s).strip()\<close>: by then the only white space is the space.\<close>

fun squeeze :: "pstr \<Rightarrow> pstr" where
  "squeeze [] = []"
| "squeeze [c] = [c]"
| "squeeze (c # d # s) = (if c = 32 \<and> d = 32 then squeeze (d # s) else c # squeeze (d # s))"

definition trim :: "pstr \<Rightarrow> pstr" where
  "trim s = rev (dropWhile (\<lambda>c. c = 32) (rev (dropWhile (\<lambda>c. c = 32) s)))"

definition normalize_statement :: "unicode \<Rightarrow> pstr \<Rightarrow> pstr" where
  "normalize_statement uc statement =
     (let s = map (\<lambda>c. if in_LNMS uc c then c else 32) (casefold uc (nfkc uc statement))
      in trim (squeeze (drop_words uc (length s) None s)))"

subsection \<open>Arguments\<close>

definition optional_json_object :: "pyval \<Rightarrow> exn + pydict" where
  "optional_json_object v = (case v of
     PNone \<Rightarrow> Inr []
   | PDict d \<Rightarrow> rbind (rcatch (rbind (canonical_json v) strict_json_text) value_like (\<lambda>_. Inl ValueError))
       (\<lambda>w. Inr (case w of PDict e \<Rightarrow> e | _ \<Rightarrow> []))
   | _ \<Rightarrow> Inl ValueError)"

definition safe_nonempty_text :: "nat \<Rightarrow> pyval \<Rightarrow> exn + pstr" where
  "safe_nonempty_text n v = require (solid_text v) ValueError (validate_human_text n v)"

definition optional_distinct_ids :: "pyval \<Rightarrow> exn + pstr list" where
  "optional_distinct_ids v = (case v of
     PNone \<Rightarrow> Inr []
   | PList xs \<Rightarrow> rbind (rmap validate_public_identifier xs) (\<lambda>ids. require (distinct ids) ValueError (Inr ids))
   | _ \<Rightarrow> Inl ValueError)"

definition manager_event :: "pstr \<Rightarrow> pstr \<Rightarrow> pstr \<Rightarrow> ('z store_st_scheme, event_row) op" where
  "manager_event eid tenant project =
     absent_is PermissionError (bnd (get_event eid (Some tenant) (Some project)) (\<lambda>(r, d). ret r))"

subsection \<open>Replays\<close>

definition REPLAY_FIDELITY :: "pstr list" where
  "REPLAY_FIDELITY = map lit [''exact'', ''environment_equivalent'', ''mocked'', ''non_reproducible'']"

definition classify_replay :: "pydict \<Rightarrow> pydict \<Rightarrow> pstr" where
  "classify_replay captured_inputs mocks =
     (if mocks \<noteq> [] then lit ''mocked''
      else if captured_inputs \<noteq> [] then lit ''environment_equivalent'' else lit ''non_reproducible'')"

definition sorted_keys :: "pydict \<Rightarrow> pyval" where
  "sorted_keys d = PList (map PStr (sort (map (\<lambda>(k, v). key_text k) d)))"

definition start_replay :: "pstr option \<Rightarrow> pstr \<Rightarrow> pstr \<Rightarrow> pstr \<Rightarrow> pyval \<Rightarrow> pyval \<Rightarrow> pyval \<Rightarrow> ('z graph_st_scheme, node) op" where
  "start_replay bound tenant_id project from_event_id captured_inputs mocks fork =
     bnd (lift (optional_json_object captured_inputs)) (\<lambda>ci.
     bnd (lift (optional_json_object mocks)) (\<lambda>ms.
     bnd (lift (optional_json_object fork)) (\<lambda>fk.
     bnd (lift (manager_tenant bound tenant_id)) (\<lambda>tenant.
     bnd (manager_project bound project) (\<lambda>_.
     bnd (manager_event from_event_id tenant project) (\<lambda>origin.
     bnd (list_events (PStr project) (PInt 0) (PStr tenant)) (\<lambda>rows.
     let count = length (filter (\<lambda>(r, d). e_seq r \<le> e_seq origin) rows) in
     transaction (
       bnd (new_id (lit ''replay'')) (\<lambda>rid.
       bnd utcnow (\<lambda>now.
       bnd (put_node (node_defaults\<lparr>v_entity_type := pkey ''evaluation'', v_tenant_id := PStr tenant, v_project_id := PStr project,
          v_status := pkey ''replay_ready'',
          v_data := PDict [(pkey ''kind'', pkey ''replay''), (pkey ''replay_id'', PStr rid), (pkey ''from_event_id'', PStr from_event_id),
            (pkey ''event_count'', PInt (int count)), (pkey ''captured_inputs'', sorted_keys ci), (pkey ''mocks'', sorted_keys ms),
            (pkey ''fork'', PDict fk), (pkey ''fidelity'', PStr (classify_replay ci ms)), (pkey ''created_at'', PStr now)]\<rparr>)) (\<lambda>n.
       bnd (put_edge (edge_defaults\<lparr>w_edge_type := pkey ''replay_of'', w_src_id := PStr (n_id (nd_row n)), w_dst_id := PStr from_event_id,
          w_tenant_id := PStr tenant, w_project_id := PStr project\<rparr>)) (\<lambda>_.
       ret n))))))))))))"

definition record_result :: "pstr option \<Rightarrow> pstr \<Rightarrow> pyval \<Rightarrow> pyval \<Rightarrow> ('z graph_st_scheme, node) op" where
  "record_result bound replay_node_id diff outcome =
     transaction (
       bnd (manager_node bound replay_node_id (Some (lit ''evaluation''))) (\<lambda>n.
       bnd (chk (field_of n ''kind'' = pkey ''replay'' \<and> n_status (nd_row n) = Some (lit ''replay_ready'')) ValueError) (\<lambda>_.
       let fidelity = (if in_vocabulary (field_of n ''fidelity'') REPLAY_FIDELITY then field_of n ''fidelity'' else pkey ''non_reproducible'') in
       bnd utcnow (\<lambda>now.
       put_node (node_defaults\<lparr>v_entity_type := pkey ''evaluation'', v_tenant_id := PStr (n_tenant_id (nd_row n)),
          v_project_id := PStr (n_project_id (nd_row n)), v_node_id := PStr replay_node_id, v_status := pkey ''replay_done'',
          v_data := PDict [(pkey ''result_outcome'', outcome), (pkey ''diff'', diff), (pkey ''fidelity'', fidelity),
            (pkey ''finished_at'', PStr now)]\<rparr>)))))"

subsection \<open>Failures\<close>

definition FAILURE_RULES :: "(pstr \<times> pstr list) list" where
  "FAILURE_RULES = map (\<lambda>(l, ns). (lit l, map lit ns))
    [(''stale_assumption'', [''stale'', ''assumption'', ''invalidat'', ''outdated'']),
     (''verification'', [''test fail'', ''assert'', ''verification'', ''check fail'', ''proof'']),
     (''environment'', [''env'', ''dependency'', ''version'', ''missing module'', ''install'', ''not found'', ''permission denied'']),
     (''tool'', [''tool'', ''command'', ''subprocess'', ''timeout'', ''crash'', ''exit code'']),
     (''retrieval'', [''retriev'', ''context'', ''memory'', ''missing information'']),
     (''planning'', [''plan'', ''wrong order'', ''skipped step'', ''scope'']),
     (''policy'', [''policy'', ''denied'', ''authoriz'', ''autonomy'', ''blocked by'']),
     (''coordination'', [''conflict'', ''concurrent'', ''race'', ''merge conflict'', ''handoff''])]"

definition classify_failure :: "pstr \<Rightarrow> pstr" where
  "classify_failure description =
     (let text' = concat (map lower_char description)
      in case find (\<lambda>(l, ns). list_ex (\<lambda>n. occurs_in n text') ns) FAILURE_RULES of Some (l, _) \<Rightarrow> l | None \<Rightarrow> lit ''unknown'')"

definition RECOVERIES :: "(pyval \<Rightarrow> pstr) \<Rightarrow> pstr \<Rightarrow> (pstr \<times> pstr) list" where
  "RECOVERIES py_repr step =
    [(lit ''stale_assumption'', lit ''Re-validate the assumption against current evidence before retrying.''),
     (lit ''verification'', lit ''Fix the failing check; do not mark complete until the verifier passes.''),
     (lit ''environment'', lit ''Pin/restore the environment fingerprint, then rerun '' @ py_repr (PStr step) @ lit ''.''),
     (lit ''tool'', lit ''Retry '' @ py_repr (PStr step) @ lit '' with captured inputs; if it recurs, wrap with timeout/retry.''),
     (lit ''retrieval'', lit ''Add the missing context to the resume packet composition query.''),
     (lit ''planning'', lit ''Insert an explicit verification step before this boundary.''),
     (lit ''policy'', lit ''Request the required grant or reduce the action'' @ [39] @ lit ''s scope.''),
     (lit ''coordination'', lit ''Serialize the conflicting operations or add a lock.''),
     (lit ''unknown'', lit ''Escalate for human diagnosis; insufficient signal.'')]"

definition recovery :: "(pyval \<Rightarrow> pstr) \<Rightarrow> pstr \<Rightarrow> pstr \<Rightarrow> pstr" where
  "recovery py_repr taxonomy step = the (map_of (RECOVERIES py_repr step) taxonomy)"

definition choose_taxonomy :: "pyval \<Rightarrow> pstr \<Rightarrow> exn + pstr" where
  "choose_taxonomy override description =
     require (text_or_none override) ValueError
     (let t = (case override of PStr s \<Rightarrow> s | _ \<Rightarrow> classify_failure description)
      in require (t \<in> set FAILURE_TAXONOMY) ValueError (Inr t))"

definition compost :: "unicode \<Rightarrow> (pyval \<Rightarrow> pstr) \<Rightarrow> pstr option \<Rightarrow> pstr \<Rightarrow> pstr \<Rightarrow> pyval \<Rightarrow> pyval \<Rightarrow> pstr option \<Rightarrow> pyval \<Rightarrow> pyval
    \<Rightarrow> ('z graph_st_scheme, node) op" where
  "compost uc py_repr bound tenant_id project description failing_step session_id trace_event_ids taxonomy_override =
     bnd (lift (safe_nonempty_text 8192 description)) (\<lambda>desc.
     bnd (lift (safe_nonempty_text 8192 failing_step)) (\<lambda>step.
     bnd (lift (optional_distinct_ids trace_event_ids)) (\<lambda>eids.
     bnd (lift (manager_tenant bound tenant_id)) (\<lambda>tenant.
     bnd (manager_project bound project) (\<lambda>_.
     bnd (case session_id of None \<Rightarrow> ret ()
          | Some sid \<Rightarrow> bnd (own_node bound project sid (lit ''session'')) (\<lambda>_. ret ())) (\<lambda>_.
     bnd (for_each eids (\<lambda>e. bnd (manager_event e tenant project) (\<lambda>_. ret ()))) (\<lambda>_.
     bnd (lift (choose_taxonomy taxonomy_override desc)) (\<lambda>taxonomy.
     transaction (
       bnd utcnow (\<lambda>now.
       bnd (put_node (node_defaults\<lparr>v_entity_type := pkey ''failure'', v_tenant_id := PStr tenant, v_project_id := PStr project,
          v_status := pkey ''diagnosed'',
          v_data := PDict [(pkey ''description'', PStr desc), (pkey ''taxonomy'', PStr taxonomy), (pkey ''minimal_failing_boundary'', PStr step),
            (pkey ''session_id'', opt_val session_id), (pkey ''trace_event_ids'', PList (map PStr eids)),
            (pkey ''cluster_key'', PStr (taxonomy @ lit '':'' @ take 80 (normalize_statement uc step))),
            (pkey ''recovery_candidate'', PStr (recovery py_repr taxonomy step)), (pkey ''diagnosed_at'', PStr now)]\<rparr>)) (\<lambda>n.
       bnd (for_each eids (\<lambda>e. bnd (put_edge (edge_defaults\<lparr>w_edge_type := pkey ''derived_from'', w_src_id := PStr (n_id (nd_row n)),
          w_dst_id := PStr e, w_tenant_id := PStr tenant, w_project_id := PStr project\<rparr>)) (\<lambda>_. ret ()))) (\<lambda>_.
       ret n))))))))))))"

text \<open>\<open>out.setdefault(key, []).append(node_id)\<close>\<close>

fun add_to :: "(pyval \<times> pstr list) list \<Rightarrow> pyval \<Rightarrow> pstr \<Rightarrow> (pyval \<times> pstr list) list" where
  "add_to [] k x = [(k, [x])]"
| "add_to ((k', xs) # d) k x = (if k' = k then (k', xs @ [x]) # d else (k', xs) # add_to d k x)"

fun group_failures :: "node list \<Rightarrow> (pyval \<times> pstr list) list \<Rightarrow> exn + (pyval \<times> pstr list) list" where
  "group_failures [] out = Inr out"
| "group_failures (f # fs) out = (case dget (node_fields f) (lit ''cluster_key'') of
     None \<Rightarrow> Inl KeyError
   | Some k \<Rightarrow> require (py_hashable k) TypeError (group_failures fs (add_to out k (n_id (nd_row f)))))"

definition clusters :: "pstr option \<Rightarrow> pstr \<Rightarrow> ('z graph_st_scheme, (pyval \<times> pstr list) list) op" where
  "clusters bound project =
     bnd (manager_project bound project) (\<lambda>_.
     bnd (current (PStr project) (pkey ''failure'') PNone PNone (opt_val bound)) (\<lambda>fs.
     lift (group_failures fs [])))"

subsection \<open>Evaluations\<close>

definition field_or :: "node \<Rightarrow> string \<Rightarrow> pyval \<Rightarrow> pyval" where
  "field_or n k d = (case dget (node_fields n) (lit k) of None \<Rightarrow> d | Some v \<Rightarrow> v)"

definition eval_case :: "(pyval \<Rightarrow> pstr) \<Rightarrow> node \<Rightarrow> pyval" where
  "eval_case py_str n = PDict
    [(pkey ''setup'', PDict [(pkey ''project_id'', PStr (n_project_id (nd_row n))), (pkey ''trace_event_ids'', field_or n ''trace_event_ids'' (PList [])),
        (pkey ''failing_step'', field_of n ''minimal_failing_boundary'')]),
     (pkey ''expected_properties'', PList [PStr (lit ''System detects/handles: '' @ str_text py_str (field_of n ''description'')),
        PStr (lit ''Recovery action available: '' @ str_text py_str (field_of n ''recovery_candidate''))]),
     (pkey ''ground_truth'', PDict [(pkey ''taxonomy'', field_of n ''taxonomy''),
        (pkey ''minimal_failing_boundary'', field_of n ''minimal_failing_boundary'')]),
     (pkey ''scoring'', PList [pkey ''detected'', pkey ''classified_correctly'', pkey ''recovery_offered''])]"

definition dedup_key :: "node \<Rightarrow> exn + pstr" where
  "dedup_key n = digest_obj (PDict [(pkey ''boundary'', field_of n ''minimal_failing_boundary''), (pkey ''taxonomy'', field_of n ''taxonomy'')])"

text \<open>The identifier is derived from the scope, the split and the key, so that a second call
  finds the first one's node.\<close>

definition eval_node_id :: "node \<Rightarrow> pstr \<Rightarrow> pstr \<Rightarrow> exn + pstr" where
  "eval_node_id n split key =
     rbind (digest_obj (PDict [(pkey ''tenant_id'', PStr (n_tenant_id (nd_row n))), (pkey ''project_id'', PStr (n_project_id (nd_row n))),
        (pkey ''kind'', pkey ''generated_eval''), (pkey ''split'', PStr split), (pkey ''dedup_key'', PStr key)])) (\<lambda>dg.
     Inr (lit ''evl_'' @ take 24 (if take 7 dg = lit ''sha256:'' then drop 7 dg else dg)))"

definition link_to_failure :: "pstr \<Rightarrow> pstr \<Rightarrow> node \<Rightarrow> ('z graph_st_scheme, unit) op" where
  "link_to_failure eval_id failure_id n =
     bnd (put_edge (edge_defaults\<lparr>w_edge_type := pkey ''derived_from'', w_src_id := PStr eval_id, w_dst_id := PStr failure_id,
        w_tenant_id := PStr (n_tenant_id (nd_row n)), w_project_id := PStr (n_project_id (nd_row n))\<rparr>)) (\<lambda>_. ret ())"

definition reuse_eval :: "node \<Rightarrow> pstr \<Rightarrow> node \<Rightarrow> pstr \<Rightarrow> pstr \<Rightarrow> pstr \<Rightarrow> ('z graph_st_scheme, node) op" where
  "reuse_eval found eval_id failure failure_id split key =
     bnd (chk (field_of found ''kind'' = pkey ''generated_eval'' \<and> field_of found ''split'' = PStr split
        \<and> field_of found ''dedup_key'' = PStr key) RuntimeError) (\<lambda>_.
     bnd (out_edges (PStr eval_id) (Some [lit ''derived_from'']) PNone) (\<lambda>es.
     bnd (if failure_id \<in> set (map (\<lambda>e. g_dst_id (ed_row e)) es) then ret () else link_to_failure eval_id failure_id failure) (\<lambda>_.
     ret found)))"

definition from_failure :: "(pyval \<Rightarrow> pstr) \<Rightarrow> pstr option \<Rightarrow> pstr \<Rightarrow> pyval \<Rightarrow> ('z graph_st_scheme, node) op" where
  "from_failure py_str bound failure_id withheld =
     bnd (chk (is_bool withheld) ValueError) (\<lambda>_.
     transaction (
       bnd (manager_node bound failure_id (Some (lit ''failure''))) (\<lambda>failure.
       let tenant = n_tenant_id (nd_row failure); project = n_project_id (nd_row failure);
           split = (if truthy withheld then lit ''withheld'' else lit ''development'') in
       bnd (lift (dedup_key failure)) (\<lambda>key.
       bnd (lift (eval_node_id failure split key)) (\<lambda>eid.
       bnd (or_absent (get_node eid None (Some tenant) (Some project) (Some (lit ''evaluation'')))) (\<lambda>existing. case existing of
         Some found \<Rightarrow> reuse_eval found eid failure failure_id split key
       | None \<Rightarrow>
           bnd utcnow (\<lambda>now.
           bnd (put_node (node_defaults\<lparr>v_entity_type := pkey ''evaluation'', v_tenant_id := PStr tenant, v_project_id := PStr project,
              v_node_id := PStr eid, v_status := pkey ''candidate'',
              v_data := PDict [(pkey ''kind'', pkey ''generated_eval''), (pkey ''version'', PInt 1), (pkey ''split'', PStr split),
                (pkey ''dedup_key'', PStr key), (pkey ''case'', eval_case py_str failure),
                (pkey ''provenance'', PDict [(pkey ''failure_node_id'', PStr failure_id), (pkey ''generated_at'', PStr now)])]\<rparr>)) (\<lambda>n.
           bnd (link_to_failure (n_id (nd_row n)) failure_id failure) (\<lambda>_.
           ret n)))))))))"

subsection \<open>Skills\<close>

definition propose :: "pstr option \<Rightarrow> pstr \<Rightarrow> pstr \<Rightarrow> pyval \<Rightarrow> pyval \<Rightarrow> pstr list \<Rightarrow> pyval \<Rightarrow> pyval \<Rightarrow> ('z graph_st_scheme, node) op" where
  "propose bound tenant_id project name description source_failure_ids tests rollback_plan =
     bnd (lift (manager_tenant bound tenant_id)) (\<lambda>tenant.
     bnd (manager_project bound project) (\<lambda>_.
     bnd (for_each source_failure_ids (\<lambda>f. bnd (own_node bound project f (lit ''failure'')) (\<lambda>_. ret ()))) (\<lambda>_.
     transaction (
       bnd utcnow (\<lambda>now.
       bnd (put_node (node_defaults\<lparr>v_entity_type := pkey ''skill'', v_tenant_id := PStr tenant, v_project_id := PStr project,
          v_status := pkey ''proposed'',
          v_data := PDict [(pkey ''name'', name), (pkey ''description'', description), (pkey ''version'', PInt 1),
            (pkey ''provenance'', PList (map PStr source_failure_ids)), (pkey ''tests'', tests), (pkey ''rollback_plan'', rollback_plan),
            (pkey ''proposed_at'', PStr now),
            (pkey ''gate_results'', PDict [(pkey ''sandbox_eval'', pkey ''not_run''), (pkey ''human_approval'', pkey ''pending'')])]\<rparr>)) (\<lambda>n.
       bnd (for_each source_failure_ids (\<lambda>f. bnd (put_edge (edge_defaults\<lparr>w_edge_type := pkey ''derived_from'', w_src_id := PStr (n_id (nd_row n)),
          w_dst_id := PStr f, w_tenant_id := PStr tenant, w_project_id := PStr project\<rparr>)) (\<lambda>_. ret ()))) (\<lambda>_.
       ret n)))))))"

definition approve :: "pstr option \<Rightarrow> pstr \<Rightarrow> pyval \<Rightarrow> pyval \<Rightarrow> ('z graph_st_scheme, node) op" where
  "approve bound skill_id actor sandbox_eval_passed =
     bnd (lift (safe_nonempty_text 256 actor)) (\<lambda>who.
     transaction (
       bnd (manager_node bound skill_id (Some (lit ''skill''))) (\<lambda>skill.
       bnd (chk (n_status (nd_row skill) = Some (lit ''proposed'')) ValueError) (\<lambda>_.
       bnd (chk (sandbox_eval_passed = PBool True) ValueError) (\<lambda>_.
       bnd (put_node (node_defaults\<lparr>v_entity_type := pkey ''skill'', v_tenant_id := PStr (n_tenant_id (nd_row skill)),
          v_project_id := PStr (n_project_id (nd_row skill)), v_node_id := PStr skill_id, v_status := pkey ''approved'',
          v_authority := pkey ''human_decision'',
          v_data := PDict [(pkey ''gate_results'', PDict [(pkey ''sandbox_eval'', pkey ''passed''), (pkey ''human_approval'', PStr who)])]\<rparr>)) (\<lambda>out.
       bnd (audit (PStr who) (pkey ''skill.approve'') (PStr skill_id) PNone PNone PNone PNone) (\<lambda>_.
       ret out)))))))"

end
