(* ===== verification/Provenance.thy ===== *)
theory Provenance
  imports Memory Reach
begin

section \<open>memory.py: what the provenance walk decides\<close>

text \<open>
  \<open>grounded\<close> is the specification of provenance: a path of current sources to an end that may
  vouch. The walk with its memory, its cut at nodes on the path and its bound decides it: more
  levels than \<open>MAX_WALK\<close> never change what it does, what it accepts is grounded over edges a
  query may return, and in a project with fewer current nodes than the bound what it rejects
  is not grounded over edges a query must return.
\<close>

subsection \<open>What an operation returns\<close>

definition yields :: "('s, 'a) op \<Rightarrow> ('a \<Rightarrow> bool) \<Rightarrow> bool" where
  "yields m P \<longleftrightarrow> (\<forall>s x t. m s = (Inr x, t) \<longrightarrow> P x)"

named_theorems yields_intros \<open>what combinators return\<close>

lemma yields_ret [yields_intros]: "P x \<Longrightarrow> yields (ret x) P"
  by (simp add: yields_def ret_def)

lemma yields_bnd [yields_intros]: "(\<And>x. yields (k x) P) \<Longrightarrow> yields (bnd m k) P"
  by (auto simp: yields_def bnd_eq_Inr)

lemma yields_bnd_by: "yields m Q \<Longrightarrow> (\<And>x. Q x \<Longrightarrow> yields (k x) P) \<Longrightarrow> yields (bnd m k) P"
  by (fastforce simp: yields_def bnd_eq_Inr)

lemma yields_if [yields_intros]: "(b \<Longrightarrow> yields m P) \<Longrightarrow> (\<not> b \<Longrightarrow> yields n P) \<Longrightarrow> yields (if b then m else n) P"
  by simp

lemma yields_option [yields_intros]:
  "(v = None \<Longrightarrow> yields m P) \<Longrightarrow> (\<And>x. v = Some x \<Longrightarrow> yields (f x) P) \<Longrightarrow> yields (case v of None \<Rightarrow> m | Some x \<Rightarrow> f x) P"
  by (simp split: option.split)

lemma bnd_cong_yields:
  assumes "yields m P" and "\<And>x. P x \<Longrightarrow> f x = g x"
  shows "bnd m f = bnd m g"
proof
  fix s show "bnd m f s = bnd m g s"
    using assms unfolding yields_def bnd_def by (cases "m s") (fastforce split: sum.split)
qed

subsection \<open>The bound of the walk\<close>

definition walk_grown :: "walk_st \<Rightarrow> walk_st \<Rightarrow> bool" where
  "walk_grown w v \<longleftrightarrow> set (wk_discovered w) \<subseteq> set (wk_discovered v) \<and> (distinct (wk_discovered w) \<longrightarrow> distinct (wk_discovered v))"

lemma remember_discovered [simp]: "wk_discovered (remember c b w) = wk_discovered w"
  by (simp add: remember_def)

lemma walk_grown_refl [simp]: "walk_grown w w" "walk_grown w (remember c b w)"
  by (simp_all add: walk_grown_def remember_def)

lemma walk_grown_trans: "walk_grown w v \<Longrightarrow> walk_grown v u \<Longrightarrow> walk_grown w u"
  by (auto simp: walk_grown_def)

lemma walk_grown_insert: "walk_grown w (w\<lparr>wk_discovered := List.insert c (wk_discovered w)\<rparr>)"
  by (auto simp: walk_grown_def)

lemma any_source_yields:
  assumes "J w" and "\<And>x w. J w \<Longrightarrow> yields (f x w) (\<lambda>(b, v). J v)"
  shows "yields (any_source f xs w) (\<lambda>(b, v). J v)"
  using assms(1)
proof (induction xs arbitrary: w)
  case (Cons x xs)
  show ?case unfolding any_source.simps
    by (rule yields_bnd_by [OF assms(2) [OF Cons.prems]]) (use Cons.IH in \<open>auto simp: yields_ret split_paired_all\<close>)
qed (simp add: yields_ret)

lemma any_source_grows:
  assumes "\<And>x w. yields (f x w) (\<lambda>(b, v). walk_grown w v)"
  shows "yields (any_source f xs w) (\<lambda>(b, v). walk_grown w v)"
proof (rule any_source_yields)
  show "yields (f x u) (\<lambda>(b, v). walk_grown w v)" if "walk_grown w u" for x u
    using assms [of x u] walk_grown_trans [OF that] by (fastforce simp: yields_def)
qed simp

lemma walk_grows: "yields (walk_sources may tenant project n vis c w) (\<lambda>(b, v). walk_grown w v)"
proof (induction n arbitrary: vis c w)
  case (Suc n)
  let ?w1 = "w\<lparr>wk_discovered := List.insert c (wk_discovered w)\<rparr>"
  have sub: "yields (bnd (any_source (walk_sources may tenant project n (c # vis)) xs ?w1) (\<lambda>(b, w2). ret (b, remember c b w2)))
    (\<lambda>(b, v). walk_grown w v)" for xs
  proof (rule yields_bnd_by [OF any_source_grows [OF Suc.IH]])
    fix p :: "bool \<times> walk_st" assume "case p of (b, v) \<Rightarrow> walk_grown ?w1 v"
    then show "yields (case p of (b, w2) \<Rightarrow> ret (b, remember c b w2)) (\<lambda>(b, v). walk_grown w v)"
      using walk_grown_trans [OF walk_grown_insert [of w c]] walk_grown_trans [OF _ walk_grown_refl(2)]
      by (auto intro!: yields_intros split: prod.split)
  qed
  have root: "walk_grown w (remember c True ?w1)" by (rule walk_grown_trans [OF walk_grown_insert walk_grown_refl(2)])
  show ?case unfolding walk_sources.simps bnd_ret_eq
    by (rule sub yields_intros | simp add: root)+
qed (simp add: yields_ret)

lemma walk_visits:
  "length (wk_discovered w) \<le> MAX_WALK \<Longrightarrow>
   yields (walk_sources may tenant project n vis c w) (\<lambda>(b, v). length (wk_discovered v) \<le> MAX_WALK)"
proof (induction n arbitrary: vis c w)
  case (Suc n)
  let ?w1 = "w\<lparr>wk_discovered := List.insert c (wk_discovered w)\<rparr>"
  have len: "length (wk_discovered ?w1) \<le> MAX_WALK" if "\<not> MAX_WALK \<le> length (wk_discovered w)"
    using that by (simp add: List.insert_def)
  have sub: "yields (bnd (any_source (walk_sources may tenant project n (c # vis)) xs ?w1) (\<lambda>(b, w2). ret (b, remember c b w2)))
    (\<lambda>(b, v). length (wk_discovered v) \<le> MAX_WALK)" if "\<not> MAX_WALK \<le> length (wk_discovered w)" for xs
    by (rule yields_bnd_by [OF any_source_yields [where J = "\<lambda>v. length (wk_discovered v) \<le> MAX_WALK", OF len [OF that] Suc.IH]])
      (auto intro!: yields_intros split: prod.split)
  show ?case unfolding walk_sources.simps bnd_ret_eq
    by (rule sub yields_intros | use Suc.prems len in \<open>simp; fail\<close>)+
qed (simp add: yields_ret)

text \<open>Equal functions on the states a run can meet make equal searches.\<close>

lemma any_source_cong:
  assumes "J w" and "\<And>x w. J w \<Longrightarrow> f x w = g x w" and "\<And>x w. J w \<Longrightarrow> yields (f x w) (\<lambda>(b, v). J v)"
  shows "any_source f xs w = any_source g xs w"
  using assms(1)
proof (induction xs arbitrary: w)
  case (Cons x xs)
  have "bnd (f x w) (\<lambda>(b, v). if b then ret (True, v) else any_source f xs v)
      = bnd (f x w) (\<lambda>(b, v). if b then ret (True, v) else any_source g xs v)"
    by (rule bnd_cong_yields [OF assms(3) [OF Cons.prems]]) (use Cons.IH in auto)
  then show ?case by (simp add: assms(2) [OF Cons.prems])
qed simp

lemma walk_fuel:
  assumes "distinct vis" "set vis \<subseteq> set (wk_discovered w)" "distinct (wk_discovered w)"
    and "length vis \<le> MAX_WALK" "Suc MAX_WALK \<le> n + length vis" "Suc MAX_WALK \<le> m + length vis"
  shows "walk_sources may tenant project n vis c w = walk_sources may tenant project m vis c w"
  using assms
proof (induction n arbitrary: m vis c w)
  case (Suc n)
  obtain k where m: "m = Suc k" using Suc.prems(4,6) by (cases m) auto
  let ?w1 = "w\<lparr>wk_discovered := List.insert c (wk_discovered w)\<rparr>"
  let ?J = "\<lambda>w. distinct (wk_discovered w) \<and> set (c # vis) \<subseteq> set (wk_discovered w)"
  have sub: "any_source (walk_sources may tenant project n (c # vis)) xs ?w1 = any_source (walk_sources may tenant project k (c # vis)) xs ?w1"
    if "c \<notin> set vis" "length (wk_discovered w) < MAX_WALK" for xs
  proof (rule any_source_cong [where J = ?J])
    show "?J ?w1" using Suc.prems(2,3) by auto
    have "length vis \<le> length (wk_discovered w)"
      using Suc.prems(1-3) by (metis card_mono distinct_card List.finite_set)
    then have len: "length (c # vis) \<le> MAX_WALK" using that(2) by simp
    show "walk_sources may tenant project n (c # vis) x w = walk_sources may tenant project k (c # vis) x w" if "?J w" for x w
      using Suc.IH [of "c # vis" w k x] Suc.prems(1,5,6) \<open>c \<notin> set vis\<close> that len m by simp
    show "yields (walk_sources may tenant project n (c # vis) x w) (\<lambda>(b, v). ?J v)" if "?J w" for x w
      using walk_grows [of may tenant project n "c # vis" x w] that unfolding yields_def walk_grown_def by fastforce
  qed
  show ?case
  proof (cases "c \<in> set vis \<or> MAX_WALK \<le> length (wk_discovered w)")
    case True
    then show ?thesis unfolding m walk_sources.simps by (simp only: if_True)
  next
    case False
    then have "c \<notin> set vis" "length (wk_discovered w) < MAX_WALK" by simp_all
    note same = sub [OF this]
    show ?thesis unfolding m walk_sources.simps bnd_ret_eq same ..
  qed
qed auto


subsection \<open>What the walk accepts\<close>

text \<open>One step of provenance, over edges that a query may return and over those it must.\<close>

definition source_edge :: "(side \<Rightarrow> pstr list option \<Rightarrow> edge_row \<Rightarrow> bool) \<Rightarrow> pstr \<Rightarrow> pstr \<Rightarrow> bool" where
  "source_edge follow c x \<longleftrightarrow>
     (\<exists>r. follow Outgoing (Some [lit ''derived_from'']) r \<and> near Outgoing r = c \<and> far Outgoing r = x)
   \<or> (\<exists>r. follow Incoming (Some [lit ''supports'', lit ''verifies'']) r \<and> near Incoming r = c \<and> far Incoming r = x)"

definition event_exists :: "pstr \<Rightarrow> pstr \<Rightarrow> 'z store_st_scheme \<Rightarrow> pstr \<Rightarrow> bool" where
  "event_exists tenant project s e \<longleftrightarrow> fst (get_event e (Some tenant) (Some project) s) \<noteq> Inl KeyError"

definition backing_event :: "pstr \<Rightarrow> pstr \<Rightarrow> 'z store_st_scheme \<Rightarrow> node \<Rightarrow> bool" where
  "backing_event tenant project s n \<longleftrightarrow>
     (case n_event_id (nd_row n) of None \<Rightarrow> False | Some e \<Rightarrow> e \<noteq> [] \<and> event_exists tenant project s e)"

abbreviation found_in :: "pstr \<Rightarrow> pstr \<Rightarrow> 'z graph_st_scheme \<Rightarrow> pstr \<Rightarrow> exn + node" where
  "found_in tenant project s c \<equiv> fst (get_node c None (Some tenant) (Some project) None s)"

text \<open>Where provenance may end: a node that is a root by the judgement of \<open>good\<close>, a node whose
  current version names an event, and an event that no node stands for.\<close>

definition rooted :: "(node \<Rightarrow> bool) \<Rightarrow> pstr \<Rightarrow> pstr \<Rightarrow> 'z graph_st_scheme \<Rightarrow> pstr \<Rightarrow> bool" where
  "rooted good tenant project s c \<longleftrightarrow> (case found_in tenant project s c of
     Inr n \<Rightarrow> good n \<or> backing_event tenant project s n
   | Inl e \<Rightarrow> e = KeyError \<and> event_exists tenant project s c)"

inductive grounded :: "(pstr \<Rightarrow> bool) \<Rightarrow> (pstr \<Rightarrow> pstr \<Rightarrow> bool) \<Rightarrow> pstr \<Rightarrow> bool" for endpoint step where
  grounded_root: "endpoint c \<Longrightarrow> grounded endpoint step c"
| grounded_step: "step c x \<Longrightarrow> grounded endpoint step x \<Longrightarrow> grounded endpoint step c"

lemma get_node_tables:
  assumes "tables s = tables t"
  shows "fst (get_node c None a b k s) = fst (get_node c None a b k (t :: 'z graph_st_scheme))"
proof -
  have "current_node c s = current_node c t"
    using tables_graph(1) [OF tables_beyond [OF assms]] by (simp add: current_node_def)
  then show ?thesis by (simp add: get_node_def run_simps split: option.splits)
qed

lemma event_exists_tables:
  "tables s = tables t \<Longrightarrow> event_exists a b s e = event_exists a b (t :: 'z store_st_scheme) e"
  using get_event_tables [of s t e "Some a" "Some b"] by (simp add: event_exists_def)

lemma found_event_run:
  assumes "found_event tenant project e s = (Inr b, t)"
  shows "t = s \<and> (b \<longrightarrow> event_exists tenant project s e) \<and> (\<not> b \<longrightarrow> \<not> event_exists tenant project s e)"
  using assms keeps_eqD [OF keeps_get_event_same, of e "Some tenant" "Some project" s]
  by (cases "get_event e (Some tenant) (Some project) s")
    (auto simp: found_event_def catch_def bnd_def ret_def event_exists_def split: sum.splits if_splits)

lemma event_backed_run:
  assumes "event_backed tenant project n s = (Inr b, t)"
  shows "t = s \<and> (b \<longleftrightarrow> backing_event tenant project s n)"
  using assms found_event_run [of tenant project _ s b t]
  by (auto simp: event_backed_def backing_event_def ret_def split: option.splits if_splits)

lemma source_ids_run:
  fixes s :: "'z memory_st_scheme"
  assumes "source_ids c s = (Inr xs, t)"
  shows "tables t = tables s"
    and "x \<in> set xs \<Longrightarrow> source_edge (\<lambda>d k r. may_edge d k s r) c x"
    and "clock_past tau s \<Longrightarrow> clock_past tau t"
    and "clock_past tau s \<Longrightarrow> source_edge (\<lambda>d k r. must_edge tau d k s r) c x \<Longrightarrow> x \<noteq> c \<Longrightarrow> x \<in> set xs"
proof -
  obtain outs ins u where o: "out_edges (PStr c) (Some [lit ''derived_from'']) PNone s = (Inr outs, u)"
    and i: "in_edges (PStr c) (Some [lit ''supports'', lit ''verifies'']) PNone u = (Inr ins, t)"
    and l: "xs = filter (\<lambda>x. x \<noteq> c) (sorted_set (map (\<lambda>e. g_dst_id (ed_row e)) outs @ map (\<lambda>e. g_src_id (ed_row e)) ins))"
    using assms by (auto simp: source_ids_def bnd_eq_Inr ret_def)
  have xs: "set xs = ((\<lambda>e. far Outgoing (ed_row e)) ` set outs \<union> (\<lambda>e. far Incoming (ed_row e)) ` set ins) - {c}"
    by (auto simp: l sorted_set_def far_def)
  note O = edges_for_run [OF o] and I = edges_for_run [OF i]
  show t: "tables t = tables s" using O(1) I(1) by simp
  note same = in_scope_tables [OF O(1) [symmetric]]
  show "source_edge (\<lambda>d k r. may_edge d k s r) c x" if "x \<in> set xs"
    using that O(2) I(2) unfolding xs source_edge_def same by blast
  show "clock_past tau s \<Longrightarrow> clock_past tau t" using O(3) I(3) by blast
  show "x \<in> set xs" if "clock_past tau s" "source_edge (\<lambda>d k r. must_edge tau d k s r) c x" "x \<noteq> c"
    using that O(3) O(4) I(4) unfolding xs source_edge_def same by blast
qed


lemma looked_up:
  fixes s :: "'z graph_st_scheme"
  shows "catch (bnd (get_node c None (Some tenant) (Some project) None) (\<lambda>x. ret (Some x))) (\<lambda>e. e = KeyError) (\<lambda>_. ret None) s
    = (case found_in tenant project s c of Inr x \<Rightarrow> (Inr (Some x), s) | Inl e \<Rightarrow> (if e = KeyError then Inr None else Inl e, s))"
  using keeps_eqD [OF keeps_get_node_same, of c None "Some tenant" "Some project" None s]
  by (cases "get_node c None (Some tenant) (Some project) None s") (auto simp: catch_def bnd_def ret_def split: sum.splits)

lemma walk_step:
  fixes s :: "'z memory_st_scheme"
  assumes "walk_sources may tenant project (Suc n) vis c w s = (Inr (b, v), t)"
  defines "w1 \<equiv> w\<lparr>wk_discovered := List.insert c (wk_discovered w)\<rparr>"
    and "ends \<equiv> rooted (\<lambda>x. is_root may x s) tenant project s c"
  obtains (memo) "map_of (wk_memo w) c = Some b" "v = w" "t = s"
  | (cut) "map_of (wk_memo w) c = None" "c \<in> set vis \<or> MAX_WALK \<le> length (wk_discovered w)" "\<not> b" "v = w" "t = s"
  | (leaf) "map_of (wk_memo w) c = None" "b \<longleftrightarrow> ends" "found_in tenant project s c = Inl KeyError"
      "v = remember c b w" "t = s"
  | (root) "map_of (wk_memo w) c = None" ends b "v = remember c True w1" "t = s"
  | (sub) xs u w2 where "map_of (wk_memo w) c = None" "c \<notin> set vis" "length (wk_discovered w) < MAX_WALK"
      "\<not> ends" "\<exists>x. found_in tenant project s c = Inr x" "source_ids c s = (Inr xs, u)"
      "any_source (walk_sources may tenant project n (c # vis)) xs w1 u = (Inr (b, w2), t)" "v = remember c b w2"
proof (cases "map_of (wk_memo w) c")
  case (Some b')
  then have "b' = b" "v = w" "t = s" using assms(1) by (auto simp: ret_def)
  then show thesis using memo Some by simp
next
  case None
  show thesis
  proof (cases "c \<in> set vis \<or> MAX_WALK \<le> length (wk_discovered w)")
    case True
    then have "\<not> b" "v = w" "t = s" using assms(1) None by (auto simp: ret_def)
    then show thesis using cut None True by simp
  next
    case open_c: False
    let ?look = "catch (bnd (get_node c None (Some tenant) (Some project) None) (\<lambda>x. ret (Some x))) (\<lambda>e. e = KeyError) (\<lambda>_. ret None)"
    let ?search = "\<lambda>x. bnd (rd (is_root may x)) (\<lambda>root. if root then ret (True, remember c True w1)
           else bnd (event_backed tenant project x) (\<lambda>backed. if backed then ret (True, remember c True w1)
             else bnd (source_ids c) (\<lambda>xs. bnd (any_source (walk_sources may tenant project n (c # vis)) xs w1) (\<lambda>(b, w2).
               ret (b, remember c b w2)))))"
    have run0: "bnd ?look (\<lambda>found. case found of None \<Rightarrow> bnd (found_event tenant project c) (\<lambda>b. ret (b, remember c b w))
        | Some x \<Rightarrow> ?search x) s = (Inr (b, v), t)"
      using assms(1) open_c unfolding walk_sources.simps None option.case bnd_ret_eq w1_def by (simp only: if_False)
    show thesis
    proof (cases "found_in tenant project s c")
      case (Inl e)
      have L: "?look s = (if e = KeyError then Inr None else Inl e, s)" by (simp only: looked_up Inl sum.case)
      have e: "e = KeyError"
      proof (rule ccontr)
        assume "e \<noteq> KeyError"
        then have "?look s = (Inl e, s)" using L by (simp only: if_False)
        from run0 [unfolded bnd_run_Inl [where m = ?look, OF this]] show False by simp
      qed
      then have "?look s = (Inr None, s)" using L by (simp only: if_True simp_thms)
      from run0 [unfolded bnd_run_Inr [where m = ?look, OF this] option.case] have fe: "found_event tenant project c s = (Inr b, t)" and v: "v = remember c b w"
        by (auto simp: bnd_eq_Inr ret_def)
      have t: "t = s" and "b \<longleftrightarrow> event_exists tenant project s c" using found_event_run [OF fe] by auto
      then have "b \<longleftrightarrow> ends" using Inl e by (simp add: rooted_def ends_def)
      then show thesis using leaf [OF None] Inl e v t by simp
    next
      case (Inr x)
      have found: "?look s = (Inr (Some x), s)" by (simp only: looked_up Inr sum.case)
      have run: "?search x s = (Inr (b, v), t)"
        using run0 [unfolded bnd_run_Inr [where m = ?look, OF found] option.case] .
      have ends: "ends \<longleftrightarrow> is_root may x s \<or> backing_event tenant project s x" by (simp add: ends_def rooted_def Inr)
      show thesis
      proof (cases "is_root may x s")
        case True
        then have r: "ret (True, remember c True w1) s = (Inr (b, v), t)" using run by (simp only: bnd_rd if_True)
        show thesis
          by (rule root [OF None]) (use r True ends in \<open>auto simp: ret_def\<close>)
      next
        case False
        then obtain bk s1 where bk: "event_backed tenant project x s = (Inr bk, s1)"
          and rest: "(if bk then ret (True, remember c True w1) else bnd (source_ids c) (\<lambda>xs.
            bnd (any_source (walk_sources may tenant project n (c # vis)) xs w1) (\<lambda>(b, w2). ret (b, remember c b w2)))) s1 = (Inr (b, v), t)"
          using run by (auto simp only: bnd_rd if_False bnd_eq_Inr [of "event_backed _ _ _"])
        have s1: "s1 = s" "bk \<longleftrightarrow> backing_event tenant project s x" using event_backed_run [OF bk] by auto
        show thesis
        proof (cases bk)
          case True
          then have r: "ret (True, remember c True w1) s = (Inr (b, v), t)" using rest s1 by (simp only: if_True)
          show thesis
            by (rule root [OF None]) (use r True ends s1 in \<open>auto simp: ret_def\<close>)
        next
          case nbk: False
          obtain xs u where xs: "source_ids c s = (Inr xs, u)"
            and r: "bnd (any_source (walk_sources may tenant project n (c # vis)) xs w1) (\<lambda>(b, w2). ret (b, remember c b w2)) u = (Inr (b, v), t)"
            using rest nbk s1 by (auto simp only: if_False bnd_eq_Inr [of "source_ids c"])
          obtain w2 where w2: "any_source (walk_sources may tenant project n (c # vis)) xs w1 u = (Inr (b, w2), t)" "v = remember c b w2"
            using r by (auto simp: bnd_eq_Inr ret_def)
          show thesis
            by (rule sub [OF None _ _ _ _ xs w2]) (use open_c ends s1 nbk False Inr in auto)
        qed
      qed
    qed
  qed
qed

subsection \<open>Soundness\<close>

text \<open>The judgement of the walk is made in states with the same tables as the one it began in.\<close>

definition may_end :: "(node \<Rightarrow> 'z memory_st_scheme \<Rightarrow> bool) \<Rightarrow> pstr \<Rightarrow> pstr \<Rightarrow> 'z memory_st_scheme \<Rightarrow> pstr \<Rightarrow> bool" where
  "may_end may tenant project s c \<longleftrightarrow> (\<exists>t. tables t = tables s \<and> rooted (\<lambda>x. is_root may x t) tenant project t c)"

abbreviation may_ground :: "(node \<Rightarrow> 'z memory_st_scheme \<Rightarrow> bool) \<Rightarrow> pstr \<Rightarrow> pstr \<Rightarrow> 'z memory_st_scheme \<Rightarrow> pstr \<Rightarrow> bool" where
  "may_ground may tenant project s \<equiv>
     grounded (may_end may tenant project s) (source_edge (\<lambda>d k r. may_edge d k s r))"

definition memo_true :: "(pstr \<Rightarrow> bool) \<Rightarrow> walk_st \<Rightarrow> bool" where
  "memo_true P w \<longleftrightarrow> (\<forall>c. map_of (wk_memo w) c = Some True \<longrightarrow> P c)"

lemma memo_true_simps [simp]:
  "memo_true P (w\<lparr>wk_discovered := d\<rparr>) = memo_true P w"
  "memo_true P w \<Longrightarrow> (b \<longrightarrow> P c) \<Longrightarrow> memo_true P (remember c b w)"
  by (auto simp: memo_true_def remember_def)

lemma memo_trueD: "memo_true P w \<Longrightarrow> map_of (wk_memo w) c = Some True \<Longrightarrow> P c"
  by (simp add: memo_true_def)

lemma any_source_sound:
  assumes "any_source f xs w s = (Inr (b, v), t)" and "J w s"
    and "\<And>x w s b v t. x \<in> set xs \<Longrightarrow> J w s \<Longrightarrow> f x w s = (Inr (b, v), t) \<Longrightarrow> J v t \<and> (b \<longrightarrow> P x)"
  shows "J v t \<and> (b \<longrightarrow> (\<exists>x \<in> set xs. P x))"
  using assms
proof (induction xs arbitrary: w s)
  case (Cons x xs)
  obtain b' v' u where x: "f x w s = (Inr (b', v'), u)"
    and rest: "(if b' then ret (True, v') else any_source f xs v') u = (Inr (b, v), t)"
    using Cons.prems(1) by (auto simp: bnd_eq_Inr)
  have J: "J v' u" "b' \<longrightarrow> P x" using Cons.prems(3) [OF _ Cons.prems(2) x] by auto
  show ?case
  proof (cases b')
    case True
    then show ?thesis using rest J by (auto simp: ret_def)
  next
    case False
    then have "any_source f xs v' u = (Inr (b, v), t)" using rest by simp
    from Cons.IH [OF this J(1)] have "J v t \<and> (b \<longrightarrow> (\<exists>x \<in> set xs. P x))" using Cons.prems(3) by (meson list.set_intros(2))
    then show ?thesis by auto
  qed
qed (auto simp: ret_def)

lemma walk_sound:
  fixes s0 :: "'z memory_st_scheme"
  assumes "walk_sources may tenant project n vis c w s = (Inr (b, v), t)" "tables s = tables s0"
    and "memo_true (may_ground may tenant project s0) w"
  shows "tables t = tables s0 \<and> memo_true (may_ground may tenant project s0) v \<and> (b \<longrightarrow> may_ground may tenant project s0 c)"
  using assms
proof (induction n arbitrary: vis c w s b v t)
  case (Suc n)
  let ?G = "may_ground may tenant project s0"
  have ends: "?G c" if "rooted (\<lambda>x. is_root may x s) tenant project s c"
    using that Suc.prems(2) by (auto intro!: grounded_root simp: may_end_def)
  from Suc.prems(1) show ?case
  proof (cases rule: walk_step)
    case memo
    have "b \<longrightarrow> ?G c" using memo_trueD [OF Suc.prems(3), of c] memo(1) by (cases b) simp_all
    then show ?thesis using Suc.prems(2,3) memo by simp
  next
    case cut
    then show ?thesis using Suc.prems(2,3) by simp
  next
    case leaf
    then have "b \<longrightarrow> ?G c" using ends by simp
    then show ?thesis using Suc.prems(2,3) leaf(4,5) by simp
  next
    case root
    then show ?thesis using Suc.prems(2,3) ends [OF root(2)] by simp
  next
    case (sub xs u w2)
    have u: "tables u = tables s0" using source_ids_run(1) [OF sub(6)] Suc.prems(2) by simp
    have J: "memo_true ?G (w\<lparr>wk_discovered := List.insert c (wk_discovered w)\<rparr>)"
      using Suc.prems(3) by simp
    have r: "(memo_true ?G w2 \<and> tables t = tables s0) \<and> (b \<longrightarrow> (\<exists>x \<in> set xs. ?G x))"
      by (rule any_source_sound [OF sub(7), where J = "\<lambda>w s. memo_true ?G w \<and> tables s = tables s0"])
        (use J u Suc.IH in blast)+
    have "?G c" if B: b
    proof -
      obtain x where x: "x \<in> set xs" "?G x" using r B by blast
      have "source_edge (\<lambda>d k r. may_edge d k s r) c x" by (rule source_ids_run(2) [OF sub(6) x(1)])
      then have "source_edge (\<lambda>d k r. may_edge d k s0 r) c x" unfolding in_scope_tables(2) [OF Suc.prems(2)] .
      then show ?thesis using x(2) by (rule grounded_step)
    qed
    then show ?thesis using r sub(8) by simp
  qed
qed (auto simp: ret_def)


subsection \<open>Completeness\<close>

text \<open>Where provenance must be accepted: whatever the clock says, over edges that are valid from an
  instant it has passed.\<close>

definition must_end :: "(node \<Rightarrow> 'z memory_st_scheme \<Rightarrow> bool) \<Rightarrow> pstr \<Rightarrow> pstr \<Rightarrow> 'z memory_st_scheme \<Rightarrow> pstr \<Rightarrow> bool" where
  "must_end may tenant project s c \<longleftrightarrow> (\<forall>t. tables t = tables s \<longrightarrow> rooted (\<lambda>x. is_root may x t) tenant project t c)"

definition must_source :: "pstr \<Rightarrow> pstr \<Rightarrow> pstr \<Rightarrow> 'z graph_st_scheme \<Rightarrow> pstr \<Rightarrow> pstr \<Rightarrow> bool" where
  "must_source tau tenant project s c x \<longleftrightarrow> (\<exists>n. found_in tenant project s c = Inr n)
     \<and> source_edge (\<lambda>d k r. must_edge tau d k s r) c x"

definition remembered :: "walk_st \<Rightarrow> pstr set" where
  "remembered w = fst ` set (wk_memo w)"

lemma remembered_simps [simp]:
  "remembered (w\<lparr>wk_discovered := d\<rparr>) = remembered w" "remembered (remember c b w) = insert c (remembered w)"
  by (auto simp: remembered_def remember_def)

lemma remembered_map_of: "map_of (wk_memo w) c = None \<longleftrightarrow> c \<notin> remembered w"
  by (simp add: remembered_def map_of_eq_None_iff)

definition settled :: "(pstr \<Rightarrow> bool) \<Rightarrow> (pstr \<Rightarrow> pstr \<Rightarrow> bool) \<Rightarrow> pstr list \<Rightarrow> walk_st \<Rightarrow> bool" where
  "settled good step vis w \<longleftrightarrow> (\<forall>c \<in> remembered w. \<not> good c \<and> (\<forall>x. step c x \<longrightarrow> x = c \<or> x \<in> remembered w \<or> x \<in> set vis))"

lemma any_source_complete:
  assumes "any_source f xs w s = (Inr (False, v), t)" and "J w s"
    and "\<And>x w s v t. J w s \<Longrightarrow> f x w s = (Inr (False, v), t) \<Longrightarrow>
           J v t \<and> remembered w \<subseteq> remembered v \<and> x \<in> remembered v \<union> V"
  shows "J v t \<and> remembered w \<subseteq> remembered v \<and> set xs \<subseteq> remembered v \<union> V"
  using assms(1,2)
proof (induction xs arbitrary: w s)
  case (Cons x xs)
  obtain b' v' u where x: "f x w s = (Inr (b', v'), u)"
    and rest: "(if b' then ret (True, v') else any_source f xs v') u = (Inr (False, v), t)"
    using Cons.prems(1) by (auto simp: bnd_eq_Inr)
  have b: "\<not> b'" using rest by (cases b') (auto simp: ret_def)
  then have 1: "J v' u \<and> remembered w \<subseteq> remembered v' \<and> x \<in> remembered v' \<union> V"
    using assms(3) [OF Cons.prems(2)] x by simp
  have "any_source f xs v' u = (Inr (False, v), t)" using rest b by simp
  from Cons.IH [OF this] 1 show ?case by auto
qed (auto simp: ret_def)

lemma walk_complete:
  fixes s0 :: "'z memory_st_scheme" and may :: "node \<Rightarrow> 'z memory_st_scheme \<Rightarrow> bool" and tenant project tau :: pstr
  defines "N \<equiv> {c. \<exists>x. found_in tenant project s0 c = Inr x}"
    and "S \<equiv> settled (must_end may tenant project s0) (must_source tau tenant project s0)"
  assumes "walk_sources may tenant project n vis c w s = (Inr (False, v), t)"
    and "finite N" "card N < MAX_WALK"
    and "tables s = tables s0" "clock_past tau s" "distinct vis" "set vis \<subseteq> set (wk_discovered w)"
    and "distinct (wk_discovered w)" "set (wk_discovered w) \<subseteq> N" "S vis w" "Suc MAX_WALK \<le> n + length vis"
  shows "(tables t = tables s0 \<and> clock_past tau t \<and> set vis \<subseteq> set (wk_discovered v) \<and> distinct (wk_discovered v)
      \<and> set (wk_discovered v) \<subseteq> N \<and> S vis v) \<and> remembered w \<subseteq> remembered v \<and> c \<in> remembered v \<union> set vis"
  using assms(3,6-)
proof (induction n arbitrary: vis c w s v t)
  case 0
  have "length vis = card (set vis)" using 0(4) by (simp add: distinct_card)
  also have "\<dots> \<le> card N" by (rule card_mono [OF assms(4)]) (use 0(5,7) in auto)
  finally show ?case using 0(9) assms(5) by simp
next
  case (Suc n)
  have len: "length (wk_discovered w) < MAX_WALK"
    using card_mono [OF assms(4) Suc.prems(7)] Suc.prems(6) assms(5) by (simp add: distinct_card)
  have ends: "\<not> must_end may tenant project s0 c" if "\<not> rooted (\<lambda>x. is_root may x s) tenant project s c"
    using that Suc.prems(2) by (auto simp: must_end_def)
  have found: "found_in tenant project s c = found_in tenant project s0 c" by (rule get_node_tables [OF Suc.prems(2)])
  from Suc.prems(1) show ?case
  proof (cases rule: walk_step)
    case memo
    then have "c \<in> remembered w" using remembered_map_of [of w c] by simp
    then show ?thesis using Suc.prems memo by simp
  next
    case cut
    then show ?thesis using Suc.prems len by auto
  next
    case leaf
    have "S vis v"
      using Suc.prems(8) leaf(2,3,4) ends found by (auto simp: S_def settled_def must_source_def)
    then show ?thesis using Suc.prems(2-7) leaf(4,5) by auto
  next
    case root
    then show ?thesis by simp
  next
    case (sub xs u w2)
    let ?w1 = "w\<lparr>wk_discovered := List.insert c (wk_discovered w)\<rparr>"
    have c: "c \<in> N"
      using sub(5) by (simp add: N_def found)
    let ?J = "\<lambda>w s. tables s = tables s0 \<and> clock_past tau s \<and> set (c # vis) \<subseteq> set (wk_discovered w) \<and> distinct (wk_discovered w)
      \<and> set (wk_discovered w) \<subseteq> N \<and> S (c # vis) w"
    have J: "?J ?w1 u"
      using Suc.prems source_ids_run(1,3) [OF sub(6)] c by (auto simp: S_def settled_def)
    have r: "?J w2 t \<and> remembered ?w1 \<subseteq> remembered w2 \<and> set xs \<subseteq> remembered w2 \<union> set (c # vis)"
    proof (rule any_source_complete [OF sub(7), where J = ?J, OF J])
      show "?J v t \<and> remembered w \<subseteq> remembered v \<and> x \<in> remembered v \<union> set (c # vis)"
        if "?J w s" "walk_sources may tenant project n (c # vis) x w s = (Inr (False, v), t)" for x w s v t
        using Suc.IH [of "c # vis" x w s v t] that Suc.prems(4,9) sub(2) by simp
    qed
    have "S vis v" unfolding S_def settled_def sub(8)
    proof (intro ballI conjI allI impI)
      fix y assume y: "y \<in> remembered (remember c False w2)"
      show "\<not> must_end may tenant project s0 y"
        using y r ends [OF sub(4)] by (auto simp: S_def settled_def)
      fix x assume x: "must_source tau tenant project s0 y x"
      show "x = y \<or> x \<in> remembered (remember c False w2) \<or> x \<in> set vis"
      proof (cases "y = c")
        case True
        have "source_edge (\<lambda>d k r. must_edge tau d k s r) c x"
          using x True unfolding must_source_def in_scope_tables(3) [OF Suc.prems(2)] by simp
        then have "x \<noteq> c \<longrightarrow> x \<in> set xs" using source_ids_run(4) [OF sub(6) Suc.prems(3)] by blast
        then show ?thesis using r True by auto
      next
        case False
        then show ?thesis using y x r by (auto simp: S_def settled_def)
      qed
    qed
    then show ?thesis using r sub(8) by auto
  qed
qed


subsection \<open>The decision\<close>

text \<open>What \<open>memory_node\<close> hands to the walk: the current row of the node.\<close>

lemma memory_project_state: "memory_project mm project s = (r, t) \<Longrightarrow> t = (s :: 'z memory_st_scheme)"
  using keeps_eqD [OF keeps_get_node_same, of project None "mm_tenant mm" "Some project" "Some (lit ''project'')" s]
  by (cases "get_node project None (mm_tenant mm) (Some project) (Some (lit ''project'')) s")
    (auto simp: memory_project_def absent_is_def catch_def bnd_def ret_def fail_def split: option.splits sum.splits if_splits)

lemma memory_node_run:
  fixes s :: "'z memory_st_scheme"
  assumes "memory_node mm project nid s = (Inr n, t)"
  shows "t = s" "current_node nid s = Some (nd_row n)" "n_project_id (nd_row n) = project"
    "mm_tenant mm = None \<or> mm_tenant mm = Some (n_tenant_id (nd_row n))"
    "found_in (n_tenant_id (nd_row n)) project s nid = Inr n"
proof -
  obtain u where u: "memory_project mm project s = (Inr (), u)" and g: "absent_is PermissionError (get_node nid None (mm_tenant mm) (Some project) None) u = (Inr n, t)"
    using assms by (auto simp: memory_node_def bnd_eq_Inr)
  have us: "u = s" by (rule memory_project_state [OF u])
  have g: "get_node nid None (mm_tenant mm) (Some project) None s = (Inr n, t)"
    using g unfolding us absent_is_def
    by (cases "get_node nid None (mm_tenant mm) (Some project) None s") (auto simp: catch_def fail_def split: sum.splits if_splits)
  obtain r where r: "current_node nid s = Some r" "node_dict r = Inr n" "n_project_id r = project"
    "mm_tenant mm = None \<or> mm_tenant mm = Some (n_tenant_id r)" and t: "t = s"
    using g by (auto simp: get_node_def run_simps split: option.splits if_splits)
  have row: "nd_row n = r" using r(2) by (auto simp: node_dict_def)
  show "t = s" "current_node nid s = Some (nd_row n)" "n_project_id (nd_row n) = project"
    "mm_tenant mm = None \<or> mm_tenant mm = Some (n_tenant_id (nd_row n))"
    "found_in (n_tenant_id (nd_row n)) project s nid = Inr n"
    using r t row by (auto simp: get_node_def run_simps)
qed

lemma has_real_provenance_run:
  fixes s :: "'z memory_st_scheme"
  assumes "has_real_provenance mm may project nid s = (Inr b, t)"
  obtains n v where "memory_node mm project nid s = (Inr n, s)"
    "walk_sources may (n_tenant_id (nd_row n)) project (Suc MAX_WALK) [] nid \<lparr>wk_memo = [], wk_discovered = []\<rparr> s = (Inr (b, v), t)"
proof -
  obtain n u where n: "memory_node mm project nid s = (Inr n, u)"
    and w: "bnd (walk_sources may (n_tenant_id (nd_row n)) project (Suc MAX_WALK) [] nid \<lparr>wk_memo = [], wk_discovered = []\<rparr>)
      (\<lambda>(b, _). ret b) u = (Inr b, t)"
    using assms unfolding has_real_provenance_def by (auto simp only: bnd_eq_Inr [of "memory_node _ _ _"])
  obtain p v where "walk_sources may (n_tenant_id (nd_row n)) project (Suc MAX_WALK) [] nid \<lparr>wk_memo = [], wk_discovered = []\<rparr> u = (Inr (p, v), t)"
    "p = b" using w unfolding bnd_eq_Inr by (auto simp only: split_paired_Ex prod.case ret_def prod.inject sum.inject)
  then show thesis using that n memory_node_run(1) [OF n] by blast
qed

text \<open>C32: The provenance walk ends: no level of recursion beyond 257 is ever reached, in any graph,
  cyclic or hostile, and it visits at most 256 nodes, whatever levels it is given.\<close>

theorem provenance_walk_is_bounded:
  "walk_sources may tenant project (Suc MAX_WALK + k) [] c \<lparr>wk_memo = [], wk_discovered = []\<rparr>
     = walk_sources may tenant project (Suc MAX_WALK) [] c \<lparr>wk_memo = [], wk_discovered = []\<rparr>
   \<and> yields (walk_sources may tenant project (Suc MAX_WALK + k) [] c \<lparr>wk_memo = [], wk_discovered = []\<rparr>)
       (\<lambda>(b, v). length (wk_discovered v) \<le> MAX_WALK)"
  by (intro conjI walk_fuel walk_visits) simp_all

text \<open>C30: Claims cannot vouch for themselves: when a node is judged to have provenance, a chain of
  current sources in its tenant and project leads from it to an end that is a canonical event, a
  node whose current version an event made, affirmative evidence, a passed authoritative
  verification or a human decision whose authority is live.\<close>

theorem provenance_reaches_a_root:
  assumes "has_real_provenance mm may project nid s = (Inr True, t)"
  shows "\<exists>r. current_node nid s = Some r \<and> n_project_id r = project \<and> may_ground may (n_tenant_id r) project s nid"
proof -
  obtain n v where n: "memory_node mm project nid s = (Inr n, s)" and
    w: "walk_sources may (n_tenant_id (nd_row n)) project (Suc MAX_WALK) [] nid \<lparr>wk_memo = [], wk_discovered = []\<rparr> s = (Inr (True, v), t)"
    by (rule has_real_provenance_run [OF assms])
  show ?thesis using walk_sound [OF w refl] memory_node_run(2,3) [OF n] by (auto simp: memo_true_def)
qed

text \<open>C31: And nothing is rejected wrongly: in a project with fewer than 256 current nodes, a node
  judged to have no provenance has no chain of lasting sources, all valid from an instant the
  clock has passed, to an end that is accepted whatever the clock says.\<close>

theorem provenance_misses_nothing:
  assumes "has_real_provenance mm may project nid s = (Inr False, t)" and "clock_past tau s"
    and "current_node nid s = Some r"
    and "length (filter (\<lambda>x. n_tx_to x = None \<and> n_tenant_id x = n_tenant_id r \<and> n_project_id x = project) (nodes s)) < MAX_WALK"
  shows "\<not> grounded (must_end may (n_tenant_id r) project s) (must_source tau (n_tenant_id r) project s) nid"
proof -
  obtain n v where n: "memory_node mm project nid s = (Inr n, s)" and
    w: "walk_sources may (n_tenant_id (nd_row n)) project (Suc MAX_WALK) [] nid \<lparr>wk_memo = [], wk_discovered = []\<rparr> s = (Inr (False, v), t)"
    by (rule has_real_provenance_run [OF assms(1)])
  have r: "nd_row n = r" using memory_node_run(2) [OF n] assms(3) by simp
  let ?rows = "filter (\<lambda>x. n_tx_to x = None \<and> n_tenant_id x = n_tenant_id r \<and> n_project_id x = project) (nodes s)"
  let ?N = "{c. \<exists>x. found_in (n_tenant_id r) project s c = Inr x}"
  have sub: "?N \<subseteq> n_id ` set ?rows"
  proof
    fix c assume "c \<in> ?N"
    then obtain x where "current_node c s = Some x" "n_tenant_id x = n_tenant_id r" "n_project_id x = project"
      by (auto simp: get_node_def run_simps split: option.splits if_splits)
    then have "x \<in> set (nodes s)" "n_id x = c" "n_tx_to x = None"
      by (auto simp: current_node_def find_Some_iff in_set_conv_nth)
    then show "c \<in> n_id ` set ?rows" using \<open>n_tenant_id x = n_tenant_id r\<close> \<open>n_project_id x = project\<close> by auto
  qed
  have fin: "finite ?N" by (rule finite_subset [OF sub]) simp
  have "card ?N \<le> card (n_id ` set ?rows)" by (rule card_mono [OF _ sub]) simp
  also have "\<dots> \<le> length ?rows" using card_image_le [of "set ?rows" n_id] card_length [of ?rows] by simp
  finally have card: "card ?N < MAX_WALK" using assms(4) by simp
  have "settled (must_end may (n_tenant_id r) project s) (must_source tau (n_tenant_id r) project s) [] v \<and> nid \<in> remembered v"
    using walk_complete [OF w [unfolded r] fin card refl assms(2)] by (simp add: settled_def remembered_def)
  moreover have "c \<notin> remembered v" if g: "grounded (must_end may (n_tenant_id r) project s) (must_source tau (n_tenant_id r) project s) c"
    and S: "settled (must_end may (n_tenant_id r) project s) (must_source tau (n_tenant_id r) project s) [] v" for c
    using g by (induction rule: grounded.induct) (use S in \<open>auto simp: settled_def\<close>)
  ultimately show ?thesis by blast
qed

end
