(* ===== verification/Github.thy ===== *)
theory Github
  imports Core_Sign Core_Time Policy
begin

section \<open>github.py: webhooks\<close>

text \<open>
  The signature check, the shape a payload has to have, and the envelope a handler makes of it.
  An envelope is a record; \<open>en_repository_ids\<close> is the member only one handler adds.
\<close>

definition SUBSCRIBED_EVENTS :: "pstr list" where
  "SUBSCRIBED_EVENTS = map lit
     [''installation'', ''installation_repositories'', ''push'', ''pull_request'', ''pull_request_review'', ''issues'',
      ''issue_comment'', ''check_run'', ''check_suite'', ''workflow_run'', ''release'', ''repository'']"

definition TRUSTED_ASSOCIATIONS :: "pstr list" where
  "TRUSTED_ASSOCIATIONS = map lit [''OWNER'', ''MEMBER'', ''COLLABORATOR'']"

definition WEBHOOK_SECRET_MIN_BYTES :: nat where
  "WEBHOOK_SECRET_MIN_BYTES = 32"

definition WEBHOOK_SECRET_MAX_BYTES :: nat where
  "WEBHOOK_SECRET_MAX_BYTES = 4096"

subsection \<open>Credentials\<close>

definition validate_webhook_secret :: "pyval \<Rightarrow> bool \<Rightarrow> exn + nat list option" where
  "validate_webhook_secret secret need =
     (if secret = PNone \<and> \<not> need then Inr None
      else rbind (case secret of PStr s \<Rightarrow> utf8 s | PBytes b \<Rightarrow> Inr b | _ \<Rightarrow> Inl ValueError) (\<lambda>encoded.
        require (WEBHOOK_SECRET_MIN_BYTES \<le> length encoded \<and> length encoded \<le> WEBHOOK_SECRET_MAX_BYTES) ValueError
          (Inr (Some encoded))))"

definition SIGNATURE_HEADER :: "pstr \<Rightarrow> bool" where
  "SIGNATURE_HEADER s \<longleftrightarrow> take 7 s = lit ''sha256='' \<and> length s = 71 \<and> list_all is_hex (drop 7 s)"

definition verify_signature :: "pyval \<Rightarrow> nat list \<Rightarrow> pyval \<Rightarrow> exn + bool" where
  "verify_signature secret payload header =
     (case header of
        PStr h \<Rightarrow> if \<not> SIGNATURE_HEADER h then Inr False
          else rbind (case secret of PStr s \<Rightarrow> utf8 s | PBytes b \<Rightarrow> Inr b | _ \<Rightarrow> Inl TypeError) (\<lambda>key.
            Inr (h = lit ''sha256='' @ hexdigest (hmac_sha256 key payload)))
      | _ \<Rightarrow> Inr False)"

definition text_authority :: "pyval \<Rightarrow> pstr" where
  "text_authority association =
     (if in_vocabulary association TRUSTED_ASSOCIATIONS then lit ''human_intent'' else lit ''untrusted_content'')"

subsection \<open>Shapes\<close>

definition gh_object :: "pydict \<Rightarrow> string \<Rightarrow> bool \<Rightarrow> exn + pydict" where
  "gh_object d field need = (case dget_none d (lit field) of
     PNone \<Rightarrow> require (\<not> need) WebhookPayloadError (Inr [])
   | PDict e \<Rightarrow> Inr e
   | _ \<Rightarrow> Inl WebhookPayloadError)"

definition gh_objects :: "pydict \<Rightarrow> string \<Rightarrow> bool \<Rightarrow> exn + pydict list" where
  "gh_objects d field need = (case dget_none d (lit field) of
     PNone \<Rightarrow> require (\<not> need) WebhookPayloadError (Inr [])
   | PList vs \<Rightarrow> rmap (\<lambda>v. case v of PDict e \<Rightarrow> Inr e | _ \<Rightarrow> Inl WebhookPayloadError) vs
   | _ \<Rightarrow> Inl WebhookPayloadError)"

definition gh_text :: "pydict \<Rightarrow> string \<Rightarrow> bool \<Rightarrow> exn + unit" where
  "gh_text d field need = (let v = dget_none d (lit field) in
     guard (\<not> (need \<and> (\<not> is_str v \<or> v = PStr [])) \<and> (v = PNone \<or> is_str v)) WebhookPayloadError)"

definition gh_positive :: "pydict \<Rightarrow> string \<Rightarrow> exn + unit" where
  "gh_positive d field = guard (case dget_none d (lit field) of
     PInt n \<Rightarrow> 1 \<le> n \<and> n \<le> 9223372036854775807 | _ \<Rightarrow> False) WebhookPayloadError"

definition gh_boolean :: "pydict \<Rightarrow> string \<Rightarrow> exn + unit" where
  "gh_boolean d field = guard (is_bool (dget_none d (lit field))) WebhookPayloadError"

definition gh_timestamp :: "pydict \<Rightarrow> string \<Rightarrow> bool \<Rightarrow> exn + unit" where
  "gh_timestamp d field need = (let v = dget_none d (lit field) in
     guard ((v = PNone \<and> \<not> need) \<or> is_rfc3339_datetime v) WebhookPayloadError)"

definition gh_texts :: "pydict \<Rightarrow> string list \<Rightarrow> bool \<Rightarrow> exn + unit" where
  "gh_texts d ks need = checks (map (\<lambda>f. gh_text d f need) ks)"

text \<open>\<open>_validate_payload_shape\<close>: what every event has, then the branch of the event.\<close>

definition shape_common :: "pstr \<Rightarrow> pydict \<Rightarrow> exn + unit" where
  "shape_common name p =
     (let app_level = name \<in> {lit ''installation'', lit ''installation_repositories''} in
      rbind (if name = lit ''push'' then Inr () else gh_text p ''action'' True) (\<lambda>_.
      rbind (gh_object p ''repository'' (\<not> app_level)) (\<lambda>repository.
      rbind (if \<not> app_level \<or> dget_none p (lit ''repository'') \<noteq> PNone
             then checks [gh_positive repository ''id'', gh_text repository ''full_name'' True] else Inr ()) (\<lambda>_.
      rbind (gh_object p ''installation'' app_level) (\<lambda>installation.
      rbind (if app_level \<or> dget_none p (lit ''installation'') \<noteq> PNone then gh_positive installation ''id'' else Inr ()) (\<lambda>_.
      rbind (gh_object p ''sender'' False) (\<lambda>sender.
      gh_texts sender [''login'', ''type''] False)))))))"

definition shape_push :: "pydict \<Rightarrow> exn + unit" where
  "shape_push p = checks
     [gh_texts p [''ref'', ''before'', ''after''] True,
      checks (map (gh_boolean p) [''forced'', ''deleted'', ''created'']),
      rbind (gh_object p ''head_commit'' False) (\<lambda>head. gh_timestamp head ''timestamp'' False),
      rbind (gh_objects p ''commits'' True) (\<lambda>commits. checks (map (\<lambda>c. gh_texts c [''id'', ''message''] True) commits))]"

definition shape_pull_request :: "pydict \<Rightarrow> exn + unit" where
  "shape_pull_request p =
     rbind (gh_object p ''pull_request'' True) (\<lambda>pull. checks
      [gh_positive pull ''number'',
       rbind (gh_object pull ''base'' True) (\<lambda>base. gh_text base ''sha'' True),
       rbind (gh_object pull ''head'' True) (\<lambda>head. gh_text head ''sha'' True),
       gh_boolean pull ''merged'', gh_texts pull [''title'', ''state''] True, gh_timestamp pull ''updated_at'' True,
       gh_texts pull [''author_association'', ''body''] False, gh_timestamp pull ''created_at'' False])"

definition shape_pull_request_review :: "pydict \<Rightarrow> exn + unit" where
  "shape_pull_request_review p =
     rbind (gh_object p ''review'' True) (\<lambda>review.
     rbind (gh_object p ''pull_request'' True) (\<lambda>pull. checks
      [gh_positive review ''id'', gh_positive pull ''number'', gh_timestamp review ''submitted_at'' True,
       gh_text review ''state'' True, gh_texts review [''author_association'', ''body''] False]))"

definition shape_issues :: "pydict \<Rightarrow> exn + unit" where
  "shape_issues p =
     rbind (gh_object p ''issue'' True) (\<lambda>issue. checks
      [gh_positive issue ''number'', gh_texts issue [''title'', ''state''] True, gh_timestamp issue ''created_at'' True,
       gh_texts issue [''author_association'', ''body''] False, gh_timestamp issue ''updated_at'' False,
       rbind (gh_objects issue ''labels'' False) (\<lambda>labels. checks (map (\<lambda>l. gh_text l ''name'' False) labels))])"

definition shape_issue_comment :: "pydict \<Rightarrow> exn + unit" where
  "shape_issue_comment p =
     rbind (gh_object p ''comment'' True) (\<lambda>comment.
     rbind (gh_object p ''issue'' True) (\<lambda>issue. checks
      [gh_positive comment ''id'', gh_positive issue ''number'', gh_text comment ''body'' True,
       gh_timestamp comment ''created_at'' True, gh_timestamp comment ''updated_at'' False,
       gh_text comment ''author_association'' False]))"

definition shape_check :: "pstr \<Rightarrow> pydict \<Rightarrow> exn + unit" where
  "shape_check name p =
     (let field = (if name = lit ''check_run'' then ''check_run'' else ''check_suite'') in
      rbind (gh_object p field True) (\<lambda>check. checks
       [gh_positive check ''id'',
        rbind (gh_object check ''app'' True) (\<lambda>app. checks [gh_positive app ''id'', gh_text app ''slug'' True]),
        gh_texts check [''status'', ''head_sha''] True,
        if name = lit ''check_run'' then gh_text check ''name'' True else Inr (),
        gh_text check ''conclusion'' False,
        checks (map (\<lambda>f. gh_timestamp check f False) [''completed_at'', ''started_at'', ''updated_at''])]))"

definition shape_workflow_run :: "pydict \<Rightarrow> exn + unit" where
  "shape_workflow_run p =
     rbind (gh_object p ''workflow_run'' True) (\<lambda>run. checks
      [gh_positive run ''id'', gh_positive run ''workflow_id'',
       rbind (gh_object run ''actor'' False) (\<lambda>actor.
       rbind (gh_object run ''triggering_actor'' False) (\<lambda>triggering. checks
         [gh_texts actor [''login'', ''type''] False, gh_texts triggering [''login'', ''type''] False])),
       gh_texts run [''name'', ''status'', ''head_sha'', ''path''] True, gh_timestamp run ''updated_at'' True,
       gh_text run ''conclusion'' False])"

definition shape_installation_repositories :: "pydict \<Rightarrow> exn + unit" where
  "shape_installation_repositories p =
     rbind (gh_objects p ''repositories_added'' True) (\<lambda>added.
     rbind (gh_objects p ''repositories_removed'' True) (\<lambda>removed.
     rbind (checks (map (\<lambda>r. checks [gh_positive r ''id'', gh_text r ''full_name'' True]) (added @ removed))) (\<lambda>_.
     guard (added @ removed \<noteq> []) WebhookPayloadError)))"

definition shape_repository :: "pydict \<Rightarrow> exn + unit" where
  "shape_repository p =
     rbind (gh_object p ''changes'' False) (\<lambda>changes.
     rbind (gh_object changes ''repository'' False) (\<lambda>repository.
     rbind (gh_object repository ''name'' (dget repository (lit ''name'') \<noteq> None)) (\<lambda>name.
     gh_text name ''from'' False)))"

definition shape_release :: "pydict \<Rightarrow> exn + unit" where
  "shape_release p =
     rbind (gh_object p ''release'' True) (\<lambda>release. checks
      [gh_positive release ''id'', gh_text release ''tag_name'' True, gh_text release ''body'' False,
       gh_timestamp release ''published_at'' False])"

definition validate_payload_shape :: "pstr \<Rightarrow> pydict \<Rightarrow> exn + unit" where
  "validate_payload_shape name p = rbind (shape_common name p) (\<lambda>_.
     if name = lit ''push'' then shape_push p
     else if name = lit ''pull_request'' then shape_pull_request p
     else if name = lit ''pull_request_review'' then shape_pull_request_review p
     else if name = lit ''issues'' then shape_issues p
     else if name = lit ''issue_comment'' then shape_issue_comment p
     else if name \<in> {lit ''check_run'', lit ''check_suite''} then shape_check name p
     else if name = lit ''workflow_run'' then shape_workflow_run p
     else if name = lit ''installation_repositories'' then shape_installation_repositories p
     else if name = lit ''repository'' then shape_repository p
     else if name = lit ''release'' then shape_release p
     else Inr ())"

subsection \<open>Envelopes\<close>

record block =
  bk_text :: pyval
  bk_authority :: pstr
  bk_ref :: pstr

record envelope =
  en_source_type :: pstr
  en_key :: pstr
  en_source_id :: pyval
  en_authority :: pstr
  en_observed_at :: pyval
  en_repository :: pyval
  en_repository_id :: pyval
  en_installation_id :: pyval
  en_repository_ids :: "pyval option"
  en_flags :: pydict
  en_blocks :: "block list"

text \<open>\<open>x or y\<close>, and a member that is read as an object; \<open>d.get(k)["x"]\<close> and so on raise only
  on values that the shape excludes.\<close>

definition py_or :: "pyval \<Rightarrow> pyval \<Rightarrow> pyval" where
  "py_or v w = (if truthy v then v else w)"

definition gh_get :: "pydict \<Rightarrow> string \<Rightarrow> pyval" where
  "gh_get d k = dget_none d (lit k)"

definition raw_object :: "pyval \<Rightarrow> exn + pydict" where
  "raw_object v = (if \<not> truthy v then Inr [] else case v of PDict d \<Rightarrow> Inr d | _ \<Rightarrow> Inl AttributeError)"

definition raw_objects :: "pyval \<Rightarrow> exn + pydict list" where
  "raw_objects v = (if \<not> truthy v then Inr [] else case v of
     PList vs \<Rightarrow> rmap (\<lambda>x. case x of PDict d \<Rightarrow> Inr d | _ \<Rightarrow> Inl AttributeError) vs | _ \<Rightarrow> Inl TypeError)"

text \<open>What an f-string makes of a text, an integer or null; the shape excludes everything else
  where a handler formats a value.\<close>

fun shown :: "pyval \<Rightarrow> pstr" where
  "shown (PStr s) = s"
| "shown (PInt i) = str_of_int i"
| "shown PNone = lit ''None''"
| "shown (PBool b) = (if b then lit ''True'' else lit ''False'')"
| "shown _ = []"

definition base_envelope :: "pstr \<Rightarrow> pstr \<Rightarrow> pydict \<Rightarrow> exn + envelope" where
  "base_envelope name delivery p =
     rbind (raw_object (gh_get p ''repository'')) (\<lambda>repo.
     rbind (raw_object (gh_get p ''installation'')) (\<lambda>inst.
     Inr \<lparr>en_source_type = lit ''github:'' @ name, en_key = lit ''github:'' @ delivery, en_source_id = PNone,
       en_authority = lit ''repository_authoritative'', en_observed_at = PNone, en_repository = gh_get repo ''full_name'',
       en_repository_id = gh_get repo ''id'', en_installation_id = gh_get inst ''id'', en_repository_ids = None,
       en_flags = [], en_blocks = []\<rparr>))"

text \<open>The flags copied from an object under their own or another name.\<close>

definition gh_flags :: "pydict \<Rightarrow> (string \<times> string) list \<Rightarrow> pydict" where
  "gh_flags d ks = map (\<lambda>(k, f). (pkey k, gh_get d f)) ks"

definition handle_default :: "pydict \<Rightarrow> envelope \<Rightarrow> exn + envelope" where
  "handle_default p b = Inr (b\<lparr>en_source_id := PStr (case dget p (lit ''action'') of None \<Rightarrow> [] | Some v \<Rightarrow> shown v)\<rparr>)"

definition handle_push :: "pydict \<Rightarrow> envelope \<Rightarrow> exn + envelope" where
  "handle_push p b =
     rbind (raw_object (gh_get p ''head_commit'')) (\<lambda>head.
     rbind (raw_objects (gh_get p ''commits'')) (\<lambda>commits.
     Inr (b\<lparr>en_source_id := gh_get p ''after'', en_authority := lit ''repository_authoritative'',
       en_observed_at := gh_get head ''timestamp'',
       en_flags := [(pkey ''forced'', PBool (truthy (gh_get p ''forced''))), (pkey ''deleted'', PBool (truthy (gh_get p ''deleted''))),
         (pkey ''created'', PBool (truthy (gh_get p ''created'')))] @ gh_flags p [(''ref'', ''ref''), (''before'', ''before''), (''after'', ''after'')],
       en_blocks := map (\<lambda>c. \<lparr>bk_text = (case dget c (lit ''message'') of None \<Rightarrow> PStr [] | Some t \<Rightarrow> t),
         bk_authority = lit ''untrusted_content'', bk_ref = lit ''commit:'' @ shown (gh_get c ''id'')\<rparr>) commits\<rparr>)))"

text \<open>The blocks of the ks that are present.\<close>

definition field_blocks :: "pydict \<Rightarrow> string list \<Rightarrow> pstr \<Rightarrow> (string \<Rightarrow> pstr) \<Rightarrow> block list" where
  "field_blocks d ks authority ref = List.map_filter (\<lambda>f. case dget d (lit f) of
     None \<Rightarrow> None | Some v \<Rightarrow> Some \<lparr>bk_text = v, bk_authority = authority, bk_ref = ref f\<rparr>) ks"

definition handle_pull_request :: "pydict \<Rightarrow> envelope \<Rightarrow> exn + envelope" where
  "handle_pull_request p b =
     rbind (raw_object (gh_get p ''pull_request'')) (\<lambda>pr.
     rbind (raw_object (gh_get pr ''base'')) (\<lambda>base.
     rbind (raw_object (gh_get pr ''head'')) (\<lambda>head.
     let authority = text_authority (gh_get pr ''author_association''); number = shown (gh_get pr ''number'') in
     Inr (b\<lparr>en_source_id := PStr (lit ''pr:'' @ number), en_authority := authority,
       en_observed_at := py_or (gh_get pr ''updated_at'') (gh_get pr ''created_at''),
       en_flags := [(pkey ''action'', gh_get p ''action''), (pkey ''merged'', PBool (truthy (gh_get pr ''merged''))),
         (pkey ''source_revision_at'', gh_get pr ''updated_at''), (pkey ''base_sha'', gh_get base ''sha''),
         (pkey ''head_sha'', gh_get head ''sha''), (pkey ''state'', gh_get pr ''state''),
         (pkey ''author_association'', gh_get pr ''author_association'')],
       en_blocks := field_blocks pr [''title'', ''body''] authority (\<lambda>f. lit ''pr:'' @ number @ lit '':'' @ lit f)\<rparr>))))"

definition handle_pull_request_review :: "pydict \<Rightarrow> envelope \<Rightarrow> exn + envelope" where
  "handle_pull_request_review p b =
     rbind (raw_object (gh_get p ''review'')) (\<lambda>review.
     rbind (raw_object (gh_get p ''pull_request'')) (\<lambda>pr.
     let authority = text_authority (gh_get review ''author_association'') in
     Inr (b\<lparr>en_source_id := PStr (lit ''pr:'' @ shown (gh_get pr ''number'') @ lit '':review:'' @ shown (gh_get review ''id'')),
       en_authority := authority, en_observed_at := gh_get review ''submitted_at'',
       en_flags := [(pkey ''state'', gh_get review ''state''), (pkey ''action'', gh_get p ''action''),
         (pkey ''author_association'', gh_get review ''author_association'')],
       en_blocks := field_blocks review [''body''] authority (\<lambda>_. lit ''review:'' @ shown (gh_get review ''id''))\<rparr>)))"

definition handle_issues :: "pydict \<Rightarrow> envelope \<Rightarrow> exn + envelope" where
  "handle_issues p b =
     rbind (raw_object (gh_get p ''issue'')) (\<lambda>issue.
     rbind (raw_objects (gh_get issue ''labels'')) (\<lambda>labels.
     let authority = text_authority (gh_get issue ''author_association''); number = shown (gh_get issue ''number'') in
     Inr (b\<lparr>en_source_id := PStr (lit ''issue:'' @ number), en_authority := authority,
       en_observed_at := py_or (gh_get issue ''updated_at'') (gh_get issue ''created_at''),
       en_flags := [(pkey ''action'', gh_get p ''action''), (pkey ''state'', gh_get issue ''state''),
         (pkey ''source_revision_at'', gh_get issue ''updated_at''), (pkey ''author_association'', gh_get issue ''author_association''),
         (pkey ''labels'', PList (map (\<lambda>l. gh_get l ''name'') labels))],
       en_blocks := field_blocks issue [''title'', ''body''] authority (\<lambda>f. lit ''issue:'' @ number @ lit '':'' @ lit f)\<rparr>)))"

definition command_of :: "pstr \<Rightarrow> pyval" where
  "command_of body = (let s = strip body in
     if take 4 s = lit ''/cce'' then PStr (takeWhile (\<lambda>c. c \<noteq> 10) s) else PNone)"

definition handle_issue_comment :: "pydict \<Rightarrow> envelope \<Rightarrow> exn + envelope" where
  "handle_issue_comment p b =
     rbind (raw_object (gh_get p ''comment'')) (\<lambda>comment.
     rbind (raw_object (gh_get p ''issue'')) (\<lambda>issue.
     rbind (case py_or (gh_get comment ''body'') (PStr []) of PStr body \<Rightarrow> Inr body | _ \<Rightarrow> Inl AttributeError) (\<lambda>body.
     let authority = text_authority (gh_get comment ''author_association'') in
     Inr (b\<lparr>en_source_id := PStr (lit ''issue:'' @ shown (gh_get issue ''number'') @ lit '':comment:'' @ shown (gh_get comment ''id'')),
       en_authority := authority, en_observed_at := gh_get comment ''created_at'',
       en_flags := [(pkey ''action'', gh_get p ''action''), (pkey ''command'', command_of body),
         (pkey ''source_revision_at'', gh_get comment ''updated_at''), (pkey ''author_association'', gh_get comment ''author_association'')],
       en_blocks := (if body = [] then [] else
         [\<lparr>bk_text = PStr body, bk_authority = authority, bk_ref = lit ''comment:'' @ shown (gh_get comment ''id'')\<rparr>])\<rparr>))))"

definition handle_check_run :: "pydict \<Rightarrow> envelope \<Rightarrow> exn + envelope" where
  "handle_check_run p b =
     rbind (raw_object (gh_get p ''check_run'')) (\<lambda>check.
     rbind (raw_object (gh_get check ''app'')) (\<lambda>app.
     rbind (raw_object (gh_get p ''sender'')) (\<lambda>sender.
     Inr (b\<lparr>en_source_id := PStr (lit ''check:'' @ shown (gh_get check ''id'')), en_authority := lit ''verifier_authoritative'',
       en_observed_at := py_or (gh_get check ''completed_at'') (gh_get check ''started_at''),
       en_flags := gh_flags check [(''name'', ''name''), (''status'', ''status''), (''conclusion'', ''conclusion''), (''head_sha'', ''head_sha'')]
         @ gh_flags app [(''app'', ''slug''), (''app_id'', ''id'')] @ gh_flags sender [(''sender'', ''login''), (''sender_type'', ''type'')]
         @ [(pkey ''installation_id'', en_installation_id b)]\<rparr>))))"

definition handle_check_suite :: "pydict \<Rightarrow> envelope \<Rightarrow> exn + envelope" where
  "handle_check_suite p b =
     rbind (raw_object (gh_get p ''check_suite'')) (\<lambda>suite.
     rbind (raw_object (gh_get suite ''app'')) (\<lambda>app.
     rbind (raw_object (gh_get p ''sender'')) (\<lambda>sender.
     Inr (b\<lparr>en_source_id := PStr (lit ''suite:'' @ shown (gh_get suite ''id'')), en_authority := lit ''verifier_authoritative'',
       en_observed_at := gh_get suite ''updated_at'',
       en_flags := gh_flags suite [(''status'', ''status''), (''conclusion'', ''conclusion''), (''head_sha'', ''head_sha'')]
         @ gh_flags app [(''app'', ''slug''), (''app_id'', ''id'')] @ gh_flags sender [(''sender'', ''login''), (''sender_type'', ''type'')]
         @ [(pkey ''installation_id'', en_installation_id b)]\<rparr>))))"

definition handle_workflow_run :: "pydict \<Rightarrow> envelope \<Rightarrow> exn + envelope" where
  "handle_workflow_run p b =
     rbind (raw_object (gh_get p ''workflow_run'')) (\<lambda>run.
     rbind (raw_object (gh_get run ''actor'')) (\<lambda>actor.
     rbind (raw_object (gh_get run ''triggering_actor'')) (\<lambda>triggering.
     rbind (raw_object (gh_get p ''sender'')) (\<lambda>sender.
     Inr (b\<lparr>en_source_id := PStr (lit ''workflow:'' @ shown (gh_get run ''id'')), en_authority := lit ''verifier_authoritative'',
       en_observed_at := gh_get run ''updated_at'',
       en_flags := gh_flags run [(''name'', ''name''), (''status'', ''status''), (''conclusion'', ''conclusion''), (''head_sha'', ''head_sha'')]
         @ [(pkey ''app'', PNone)] @ gh_flags run [(''workflow_id'', ''workflow_id''), (''workflow_path'', ''path'')]
         @ gh_flags actor [(''actor'', ''login''), (''actor_type'', ''type'')] @ gh_flags triggering [(''triggering_actor'', ''login'')]
         @ gh_flags sender [(''sender'', ''login''), (''sender_type'', ''type'')] @ [(pkey ''installation_id'', en_installation_id b)]\<rparr>)))))"

definition handle_installation :: "pydict \<Rightarrow> envelope \<Rightarrow> exn + envelope" where
  "handle_installation p b =
     rbind (raw_object (gh_get p ''installation'')) (\<lambda>inst.
     Inr (b\<lparr>en_source_id := PStr (lit ''installation:'' @ shown (gh_get inst ''id'')), en_authority := lit ''repository_authoritative'',
       en_flags := gh_flags p [(''action'', ''action'')]\<rparr>))"

text \<open>\<open>payload[k]\<close> raises on a missing key.\<close>

definition must_have :: "pydict \<Rightarrow> string \<Rightarrow> exn + pyval" where
  "must_have d k = (case dget d (lit k) of None \<Rightarrow> Inl KeyError | Some v \<Rightarrow> Inr v)"

definition ids_of :: "pyval \<Rightarrow> exn + pyval list" where
  "ids_of v = (case v of
     PList vs \<Rightarrow> rmap (\<lambda>x. case x of PDict d \<Rightarrow> must_have d ''id'' | _ \<Rightarrow> Inl TypeError) vs | _ \<Rightarrow> Inl TypeError)"

definition handle_installation_repositories :: "pydict \<Rightarrow> envelope \<Rightarrow> exn + envelope" where
  "handle_installation_repositories p b =
     rbind (must_have p ''installation'') (\<lambda>i. rbind (case i of PDict d \<Rightarrow> must_have d ''id'' | _ \<Rightarrow> Inl TypeError) (\<lambda>inst.
     rbind (must_have p ''action'') (\<lambda>action.
     rbind (rbind (must_have p ''repositories_added'') ids_of) (\<lambda>added.
     rbind (rbind (must_have p ''repositories_removed'') ids_of) (\<lambda>removed.
     Inr (b\<lparr>en_source_id := PStr (lit ''installation:'' @ shown inst @ lit '':'' @ shown action),
       en_authority := lit ''repository_authoritative'', en_repository_ids := Some (PList (added @ removed)),
       en_flags := [(pkey ''action'', action), (pkey ''added_repository_ids'', PList added),
         (pkey ''removed_repository_ids'', PList removed)]\<rparr>))))))"

definition handle_repository :: "pydict \<Rightarrow> envelope \<Rightarrow> exn + envelope" where
  "handle_repository p b =
     rbind (raw_object (gh_get p ''changes'')) (\<lambda>changes.
     rbind (raw_object (gh_get changes ''repository'')) (\<lambda>repository.
     rbind (raw_object (gh_get repository ''name'')) (\<lambda>name.
     Inr (b\<lparr>en_source_id := PStr (lit ''repository:'' @ shown (gh_get p ''action'')), en_authority := lit ''repository_authoritative'',
       en_flags := [(pkey ''action'', gh_get p ''action''), (pkey ''old_name'', gh_get name ''from'')]\<rparr>))))"

definition handle_release :: "pydict \<Rightarrow> envelope \<Rightarrow> exn + envelope" where
  "handle_release p b =
     rbind (raw_object (gh_get p ''release'')) (\<lambda>release.
     Inr (b\<lparr>en_source_id := PStr (lit ''release:'' @ shown (gh_get release ''id'')), en_authority := lit ''repository_authoritative'',
       en_observed_at := gh_get release ''published_at'',
       en_flags := [(pkey ''tag'', gh_get release ''tag_name''), (pkey ''action'', gh_get p ''action'')],
       en_blocks := (if truthy (gh_get release ''body'') then
         [\<lparr>bk_text = gh_get release ''body'', bk_authority = lit ''untrusted_content'',
           bk_ref = lit ''release:'' @ shown (gh_get release ''tag_name'')\<rparr>] else [])\<rparr>))"

definition HANDLERS :: "(pstr \<times> (pydict \<Rightarrow> envelope \<Rightarrow> exn + envelope)) list" where
  "HANDLERS = [(lit ''push'', handle_push), (lit ''pull_request'', handle_pull_request),
     (lit ''pull_request_review'', handle_pull_request_review), (lit ''issues'', handle_issues),
     (lit ''issue_comment'', handle_issue_comment), (lit ''check_run'', handle_check_run), (lit ''check_suite'', handle_check_suite),
     (lit ''workflow_run'', handle_workflow_run), (lit ''installation'', handle_installation),
     (lit ''installation_repositories'', handle_installation_repositories), (lit ''repository'', handle_repository),
     (lit ''release'', handle_release)]"

definition normalize :: "pyval \<Rightarrow> pyval \<Rightarrow> pyval \<Rightarrow> exn + envelope" where
  "normalize event_name delivery_id payload =
     require (in_vocabulary event_name SUBSCRIBED_EVENTS) WebhookError
     (rbind (validate_public_identifier delivery_id) (\<lambda>delivery.
      case payload of
        PDict p \<Rightarrow>
          let name = text_of event_name in
          rbind (validate_payload_shape name p) (\<lambda>_.
          rbind (base_envelope name delivery p) (\<lambda>b.
          (case map_of HANDLERS name of None \<Rightarrow> handle_default | Some h \<Rightarrow> h) p b))
      | _ \<Rightarrow> Inl WebhookPayloadError))"

subsection \<open>The published conclusion\<close>

definition continuity_conclusion :: "bool \<Rightarrow> bool \<Rightarrow> bool \<Rightarrow> bool \<Rightarrow> bool \<Rightarrow> bool \<Rightarrow> pstr" where
  "continuity_conclusion critical_invalidation proof_ok packet_current authority_conflict approval_needed trust_unavailable =
     (if trust_unavailable then lit ''cancelled''
      else if critical_invalidation \<or> authority_conflict \<or> approval_needed then lit ''action_required''
      else if \<not> proof_ok then lit ''failure''
      else if packet_current then lit ''success''
      else lit ''neutral'')"

end
