(* ===== verification/Capture.thy ===== *)
theory Capture
  imports Github
begin

section \<open>redaction.py: capture modes\<close>

text \<open>
  What of a payload is persisted, and the check that retained bytes are what capture would have
  produced. The two functions of the module that evaluate regular expressions for secrets,
  \<open>scan_secrets\<close> and \<open>redact_text\<close>, are the record \<open>redactor\<close>; the walk over the payload, the
  placeholders and both entry points are the code's.
\<close>

record redactor =
  holds_secret :: "pstr \<Rightarrow> bool"
  redact_text :: "pstr \<Rightarrow> pstr \<times> pstr list"

definition CAPTURE_MODES :: "pstr list" where
  "CAPTURE_MODES = map lit [''metadata_only'', ''redacted'', ''full'']"

definition CONTENT_FIELDS :: "pyval list" where
  "CONTENT_FIELDS = map pkey [''body'', ''text'', ''content'', ''message'', ''description'', ''output'', ''title'', ''diff'',
     ''patch'', ''stdout'', ''stderr'', ''changes'', ''commit_message'', ''summary'', ''note'']"

subsection \<open>Placeholders\<close>

definition canonical_placeholder_count :: "pstr \<Rightarrow> bool" where
  "canonical_placeholder_count n \<longleftrightarrow> n = lit ''0''
     \<or> (case n of [] \<Rightarrow> False | c # cs \<Rightarrow> c \<in> {49..57} \<and> list_all (\<lambda>d. d \<in> {48..57}) cs)"

definition placeholder_head :: "pyval \<Rightarrow> pstr" where
  "placeholder_head key = lit ''[DROPPED:'' @ shown key @ lit '':''"

definition placeholder :: "pyval \<Rightarrow> pstr \<Rightarrow> pstr" where
  "placeholder key s = placeholder_head key @ str_of_int (int (length s)) @ lit ''chars]''"

definition is_metadata_placeholder :: "pyval \<Rightarrow> pstr \<Rightarrow> bool" where
  "is_metadata_placeholder key v \<longleftrightarrow> key \<noteq> PNone
     \<and> (let h = length (placeholder_head key) in
        take h v = placeholder_head key \<and> drop (length v - 6) v = lit ''chars]''
        \<and> canonical_placeholder_count (take (length v - 6 - h) (drop h v)))"

subsection \<open>The walk\<close>

text \<open>The value, the kinds of what was redacted, and the number of dropped fields.\<close>

type_synonym captured = "pyval \<times> pstr list \<times> nat"

definition joined :: "(pyval list \<Rightarrow> pyval) \<Rightarrow> captured list \<Rightarrow> captured" where
  "joined f cs = (f (map fst cs), concat (map (fst \<circ> snd) cs), sum_list (map (snd \<circ> snd) cs))"

function capture_walk :: "redactor \<Rightarrow> pstr \<Rightarrow> pyval \<Rightarrow> bool \<Rightarrow> pyval \<Rightarrow> exn + captured" where
  "capture_walk rx mode key inside v =
     (let here = inside \<or> key \<in> set CONTENT_FIELDS in
      case v of
        PDict d \<Rightarrow> require (\<not> list_ex (\<lambda>(k, w). is_str k \<and> holds_secret rx (text_of k)) d) ValueError
          (rbind (rmap (\<lambda>(k, w). capture_walk rx mode k here w) d) (\<lambda>cs.
           Inr (joined (\<lambda>ws. PDict (zip (map fst d) ws)) cs)))
      | PList vs \<Rightarrow> rbind (rmap (capture_walk rx mode key here) vs) (\<lambda>cs. Inr (joined PList cs))
      | PTuple vs \<Rightarrow> rbind (rmap (capture_walk rx mode key here) vs) (\<lambda>cs. Inr (joined PList cs))
      | PStr s \<Rightarrow> Inr (if mode = lit ''metadata_only'' \<and> here then (PStr (placeholder key s), [], 1)
          else (PStr (fst (redact_text rx s)), snd (redact_text rx s), 0))
      | _ \<Rightarrow> Inr (v, [], 0))"
  by pat_completeness auto
termination
  by (relation "measure (\<lambda>(_, _, _, _, v). size v)")
    (auto simp: less_Suc_eq_le elim!: size_list_estimation')

declare capture_walk.simps [simp del]

definition apply_capture_mode :: "redactor \<Rightarrow> pyval \<Rightarrow> pyval \<Rightarrow> exn + captured" where
  "apply_capture_mode rx payload mode =
     require (in_vocabulary mode CAPTURE_MODES) ValueError (capture_walk rx (text_of mode) PNone False payload)"

function capture_valid :: "redactor \<Rightarrow> pstr \<Rightarrow> pyval \<Rightarrow> bool \<Rightarrow> pyval \<Rightarrow> bool" where
  "capture_valid rx mode key inside v =
     (let here = inside \<or> key \<in> set CONTENT_FIELDS in
      case v of
        PDict d \<Rightarrow> list_all (\<lambda>(k, w). is_str k \<and> \<not> holds_secret rx (text_of k)) d
          \<and> list_all (\<lambda>(k, w). capture_valid rx mode k here w) d
      | PList vs \<Rightarrow> list_all (capture_valid rx mode key here) vs
      | PTuple vs \<Rightarrow> list_all (capture_valid rx mode key here) vs
      | PStr s \<Rightarrow> (if mode = lit ''metadata_only'' \<and> here then is_metadata_placeholder key s else fst (redact_text rx s) = s)
      | _ \<Rightarrow> True)"
  by pat_completeness auto
termination
  by (relation "measure (\<lambda>(_, _, _, _, v). size v)")
    (auto simp: less_Suc_eq_le elim!: size_list_estimation')

declare capture_valid.simps [simp del]

definition capture_payload_is_current :: "redactor \<Rightarrow> pyval \<Rightarrow> pyval \<Rightarrow> exn + bool" where
  "capture_payload_is_current rx payload mode =
     require (in_vocabulary mode CAPTURE_MODES) ValueError (Inr (capture_valid rx (text_of mode) PNone False payload))"

end
