(* ===== verification/Authority.thy ===== *)
theory Authority
  imports Learning Github
begin

section \<open>engine.py: canonical authority\<close>

text \<open>
  The check that the engine installs in the graph (\<open>Graph.may_mandate\<close>) and the records behind
  it: owner-local decisions are events, a decision confirms a statement that was extracted from
  a retained source, and what is in force is derived from the events at each read. The
  extractor, regular expressions over prose, is the function \<open>ae_extract\<close> of the text and the
  authority of its source.
\<close>

definition PROCESSOR_VERSION :: pstr where
  "PROCESSOR_VERSION = lit ''cce-processor/1.12.0''"

definition AUTHORITY_SCHEMA :: pstr where
  "AUTHORITY_SCHEMA = lit ''cce.authority-decision.v1''"

definition AUTHORITY_SOURCE :: pstr where
  "AUTHORITY_SOURCE = lit ''cce:authority-decision:v1''"

definition AUTHORITY_EXTRACTOR :: pstr where
  "AUTHORITY_EXTRACTOR = lit ''cce.authority-decision''"

definition PROPOSAL_SCHEMA :: pstr where
  "PROPOSAL_SCHEMA = lit ''cce.proposal-id.v1''"

definition AUTHORITY_KINDS :: "pstr list" where
  "AUTHORITY_KINDS = map lit [''requirement'', ''constraint'', ''decision'', ''assumption'', ''task'']"

definition INVALIDATION_OPERATIONS :: "pstr list" where
  "INVALIDATION_OPERATIONS = map lit [''confirm_invalidation'', ''reject_invalidation'']"

definition KIND_PREFIX :: "(pstr \<times> pstr) list" where
  "KIND_PREFIX = map (\<lambda>(k, p). (lit k, lit p))
     [(''assumption'', ''asm''), (''requirement'', ''req''), (''constraint'', ''cst''), (''decision'', ''dec''),
      (''claim'', ''clm''), (''task'', ''tsk'')]"

text \<open>\<open>==\<close> on JSON documents: members in any order, numbers by value.\<close>

function py_same :: "pyval \<Rightarrow> pyval \<Rightarrow> bool" where
  "py_same v w = (case (v, w) of
     (PList xs, PList ys) \<Rightarrow> length xs = length ys \<and> list_all (\<lambda>(x, y). py_same x y) (zip xs ys)
   | (PDict d, PDict e) \<Rightarrow> length d = length e
       \<and> list_all (\<lambda>(k, x). case map_of e k of None \<Rightarrow> False | Some y \<Rightarrow> py_same x y) d
   | _ \<Rightarrow> py_eq v w)"
  by pat_completeness auto
termination
  by (relation "measure (\<lambda>(v, w). size v)")
    (auto simp: less_Suc_eq_le dest!: set_zip_leftD elim!: size_list_estimation')

declare py_same.simps [simp del]

lemma py_same_refl: "distinct (map fst d) \<Longrightarrow> (\<And>k v. (k, v) \<in> set d \<Longrightarrow> py_same v v) \<Longrightarrow> py_same (PDict d) (PDict d)"
  by (auto simp: py_same.simps [of "PDict d" "PDict d"] list_all_iff)

text \<open>The exceptions of \<open>except (KeyError, ValueError)\<close>.\<close>

definition absent_or_invalid :: "exn \<Rightarrow> bool" where
  "absent_or_invalid e \<longleftrightarrow> e \<in> {KeyError, ValueError, UnicodeEncodeError, ResolutionInputError,
     ProcessorProjectionCompatibilityError, ResumeTaskScopeError}"

text \<open>\<open>d[k]\<close> and \<open>d.setdefault(k, v)\<close>.\<close>

definition member :: "pydict \<Rightarrow> string \<Rightarrow> exn + pyval" where
  "member d k = (case dget d (lit k) of None \<Rightarrow> Inl KeyError | Some v \<Rightarrow> Inr v)"

definition with_default :: "pydict \<Rightarrow> string \<Rightarrow> pyval \<Rightarrow> pydict" where
  "with_default d k v = (if dget d (lit k) = None then dset d (pkey k) v else d)"

definition has_keys :: "pydict \<Rightarrow> string list \<Rightarrow> bool" where
  "has_keys d ks \<longleftrightarrow> set (map fst d) = set (map pkey ks)"

subsection \<open>Requests\<close>

definition GLOBAL :: pyval where
  "GLOBAL = PDict [(pkey ''kind'', pkey ''global'')]"

definition request_scope :: "pyval \<Rightarrow> exn + pyval" where
  "request_scope scope =
     (if py_same scope GLOBAL then Inr scope
      else case scope of
        PDict d \<Rightarrow> require (has_keys d [''kind'', ''task_ids''] \<and> dget_none d (lit ''kind'') = pkey ''tasks'') ValueError
          (case dget_none d (lit ''task_ids'') of
             PList xs \<Rightarrow> require (1 \<le> length xs \<and> length xs \<le> 128) ValueError
               (rbind (rmap validate_public_identifier xs) (\<lambda>ids.
                require (distinct ids) ValueError
                (Inr (PDict (dset d (pkey ''task_ids'') (PList (map PStr (sort ids))))))))
           | _ \<Rightarrow> Inl ValueError)
      | _ \<Rightarrow> Inl ValueError)"

text \<open>The fields an operation requires, those it allows besides, and what it binds.\<close>

definition request_fields :: "pyval \<Rightarrow> exn + string list \<times> string list \<times> string" where
  "request_fields operation =
     (let common = [''operation'', ''request_id'', ''tenant_id'', ''project_id''] in
      if operation = pkey ''confirm'' then
        Inr (common @ [''proposal_id'', ''expected_proposal_version'', ''expected_proposal_digest'', ''proposed_kind'', ''text''],
             [''note'', ''authority_scope''], ''proposal'')
      else if operation \<in> {pkey ''revoke'', pkey ''replace_scope''} then
        Inr (common @ [''confirmation_id'', ''expected_confirmation_version'', ''expected_confirmation_digest'']
               @ (if operation = pkey ''replace_scope'' then [''authority_scope''] else []), [''note''], ''confirmation'')
      else if in_vocabulary operation INVALIDATION_OPERATIONS then
        Inr (common @ [''invalidation_id'', ''expected_invalidation_version'', ''expected_invalidation_digest''], [''note''],
             ''invalidation'')
      else Inl ValueError)"

definition digest_text :: "pyval \<Rightarrow> bool" where
  "digest_text v \<longleftrightarrow> is_str v \<and> DIGEST_RE (text_of v)"

text \<open>What \<open>confirm\<close> asks of the statement, and its default scope.\<close>

definition confirm_fields :: "pydict \<Rightarrow> exn + pydict" where
  "confirm_fields r =
     require (in_vocabulary (dget_none r (lit ''proposed_kind'')) AUTHORITY_KINDS) ValueError
     (rbind (validate_human_text 4096 (dget_none r (lit ''text''))) (\<lambda>t.
      require (\<not> blank t) ValueError (Inr (with_default r ''authority_scope'' GLOBAL))))"

definition request_body :: "pydict \<Rightarrow> pydict \<Rightarrow> exn + pydict" where
  "request_body supplied r =
     rbind (request_fields (dget_none r (lit ''operation''))) (\<lambda>(required, optional, binding).
     require (set (map pkey required) \<subseteq> set (map fst r) \<and> set (map fst r) \<subseteq> set (map pkey (required @ optional))) ValueError
     (rbind (rmap (\<lambda>k. validate_public_identifier (dget_none r (lit k)))
         [''request_id'', ''tenant_id'', ''project_id'', binding @ ''_id'']) (\<lambda>_.
      require (positive_int (dget_none supplied (lit (''expected_'' @ binding @ ''_version'')))) ValueError
      (require (digest_text (dget_none r (lit (''expected_'' @ binding @ ''_digest'')))) ValueError
       (let r1 = with_default r ''note'' PNone in
        rbind (if dget_none r1 (lit ''note'') = PNone then Inr () else void (validate_human_text 1024 (dget_none r1 (lit ''note'')))) (\<lambda>_.
        rbind (if binding = ''proposal'' then confirm_fields r1 else Inr r1) (\<lambda>r2.
        case dget r2 (lit ''authority_scope'') of
          None \<Rightarrow> Inr r2
        | Some scope \<Rightarrow> rbind (request_scope scope) (\<lambda>sc. Inr (dset r2 (pkey ''authority_scope'') sc)))))))))"

definition authority_request :: "pyval \<Rightarrow> exn + pydict" where
  "authority_request v = (case v of
     PDict supplied \<Rightarrow> rbind (rbind (canonical_json v) strict_json_text) (\<lambda>w.
       case w of PDict r \<Rightarrow> request_body supplied r | _ \<Rightarrow> Inl ValueError)
   | _ \<Rightarrow> Inl ValueError)"

text \<open>Fields of a request that passed.\<close>

definition req :: "pydict \<Rightarrow> string \<Rightarrow> pstr" where
  "req q k = text_of (dget_none q (lit k))"

definition confirmation_id :: "event_row \<Rightarrow> pydict \<Rightarrow> exn + pstr" where
  "confirmation_id e q =
     (if req q ''operation'' \<in> set INVALIDATION_OPERATIONS then Inr (req q ''invalidation_id'')
      else if req q ''operation'' \<noteq> lit ''confirm'' then Inr (req q ''confirmation_id'')
      else rbind (digest_obj (PList [PStr AUTHORITY_SCHEMA, PStr (e_tenant_id e), PStr (e_project_id e), PStr (e_id e)])) (\<lambda>d.
        case map_of KIND_PREFIX (req q ''proposed_kind'') of
          None \<Rightarrow> Inl KeyError
        | Some p \<Rightarrow> Inr (p @ lit ''_'' @ take 24 (drop 7 d))))"

definition proposal_descriptor :: "event_row \<Rightarrow> pyval \<Rightarrow> pyval \<Rightarrow> pyval \<Rightarrow> pyval" where
  "proposal_descriptor e ref kind txt = PDict
     [(pkey ''schema_version'', PStr PROPOSAL_SCHEMA), (pkey ''tenant_id'', PStr (e_tenant_id e)),
      (pkey ''project_id'', PStr (e_project_id e)), (pkey ''source_type'', PStr (e_source_type e)),
      (pkey ''source_id'', opt_val (e_source_id e)), (pkey ''source_ref'', ref),
      (pkey ''source_event_id'', PStr (e_id e)), (pkey ''proposed_kind'', kind), (pkey ''text'', txt)]"

text \<open>\<open>_authority_payload\<close>: the request of a decision event, when the event is one.\<close>

definition authority_payload :: "event_row \<times> pyval \<Rightarrow> exn + pydict" where
  "authority_payload ev = (let e = fst ev in case snd ev of
     PDict p \<Rightarrow>
       require (has_keys p [''schema_version'', ''request'', ''request_digest'', ''authorization_basis'', ''operator_label'']
           \<and> dget_none p (lit ''schema_version'') = PStr AUTHORITY_SCHEMA) ValueError
       (rbind (authority_request (dget_none p (lit ''request''))) (\<lambda>q.
        require (py_same (PDict q) (dget_none p (lit ''request''))) ValueError
        (rbind (digest_obj (PDict q)) (\<lambda>d.
         require (dget_none p (lit ''request_digest'') = PStr d
           \<and> dget_none p (lit ''authorization_basis'') = pkey ''local_store_capability''
           \<and> dget_none p (lit ''operator_label'') = pkey ''owner-local''
           \<and> e_source_type e = lit ''human_decision'' \<and> e_source_id e = Some AUTHORITY_SOURCE
           \<and> e_actor_type e = Some (lit ''service'') \<and> e_actor_id e = Some (lit ''owner-local'')
           \<and> e_authority e = lit ''human_decision''
           \<and> e_idempotency_key e = AUTHORITY_SOURCE @ lit '':'' @ req q ''request_id''
           \<and> req q ''tenant_id'' = e_tenant_id e \<and> req q ''project_id'' = e_project_id e) ValueError (Inr q)))))
   | _ \<Rightarrow> Inl ValueError)"

subsection \<open>Proposals\<close>

record item =
  it_suspected :: bool
  it_statement :: pstr
  it_span :: pstr
  it_confidence :: pyval
  it_criticality :: pstr
  it_meta :: pydict

abbreviation it_kind :: "item \<Rightarrow> pyval" where
  "it_kind i \<equiv> dget_none (it_meta i) (lit ''proposed_kind'')"

record authority_engine =
  ae_tenant :: pstr
  ae_extract :: "pyval \<Rightarrow> pstr \<Rightarrow> exn + item list"

text \<open>The envelope of a stored event, built again: of a webhook by \<open>normalize\<close>, with the identity
  checked; the other sources have no flags and at most one block.\<close>

definition plain_envelope :: "pstr \<Rightarrow> block list \<Rightarrow> envelope" where
  "plain_envelope source_type blocks = \<lparr>en_source_type = source_type, en_key = [], en_source_id = PNone, en_authority = [],
     en_observed_at = PNone, en_repository = PNone, en_repository_id = PNone, en_installation_id = PNone,
     en_repository_ids = None, en_flags = [], en_blocks = blocks\<rparr>"

definition split_key :: "pstr \<Rightarrow> (pstr \<times> pstr) option" where
  "split_key key = (if 58 \<in> set key then Some (takeWhile (\<lambda>c. c \<noteq> 58) key, drop 1 (dropWhile (\<lambda>c. c \<noteq> 58) key)) else None)"

definition webhook_envelope :: "event_row \<Rightarrow> pyval \<Rightarrow> exn + envelope" where
  "webhook_envelope e payload = (case split_key (e_idempotency_key e) of
     None \<Rightarrow> Inl WebhookPayloadError
   | Some (scheme, delivery) \<Rightarrow>
       require (scheme = lit ''github'' \<and> PUBLIC_IDENTIFIER delivery) WebhookPayloadError
       (rbind (normalize (PStr (drop 7 (e_source_type e))) (PStr delivery) payload) (\<lambda>en.
        require (en_source_type en = e_source_type e \<and> en_key en = e_idempotency_key e) WebhookPayloadError (Inr en))))"

definition names_authority :: "event_row \<Rightarrow> pydict \<Rightarrow> bool" where
  "names_authority e p \<longleftrightarrow> e_source_id e = Some AUTHORITY_SOURCE
     \<or> (case gh_get p ''schema_version'' of PStr v \<Rightarrow> take 23 v = lit ''cce.authority-decision.'' | _ \<Rightarrow> False)"

definition re_envelope :: "event_row \<times> pyval \<Rightarrow> exn + envelope" where
  "re_envelope ev =
     (let e = fst ev; st = e_source_type e; payload = py_or (snd ev) (PDict []) in
      if take 7 st = lit ''github:'' then webhook_envelope e payload
      else rbind (case payload of PDict p \<Rightarrow> Inr p | _ \<Rightarrow>
          if st = lit ''agent_trace'' \<or> st = lit ''human_decision'' \<and> e_source_id e \<noteq> Some AUTHORITY_SOURCE
          then Inl AttributeError else Inr []) (\<lambda>p.
        if st = lit ''human_decision'' then
          (if names_authority e p then rbind (authority_payload ev) (\<lambda>_. Inr (plain_envelope st []))
           else Inr (plain_envelope st
             [\<lparr>bk_text = (case dget p (lit ''decision'') of None \<Rightarrow> PStr [] | Some t \<Rightarrow> t), bk_authority = lit ''human_decision'',
               bk_ref = lit ''decision:'' @ e_id e\<rparr>]))
        else if st = lit ''agent_trace'' then
          Inr (plain_envelope st (if truthy (gh_get p ''message'')
            then [\<lparr>bk_text = gh_get p ''message'', bk_authority = lit ''agent_inference'',
              bk_ref = lit ''trace:'' @ shown (opt_val (e_source_id e))\<rparr>] else []))
        else Inr (plain_envelope st [])))"

text \<open>A block with what the extractor finds in it.\<close>

record text_block =
  tb_ref :: pyval
  tb_authority :: pstr
  tb_items :: "exn + item list"

definition scan_block :: "authority_engine \<Rightarrow> block \<Rightarrow> text_block" where
  "scan_block ae b = \<lparr>tb_ref = PStr (bk_ref b), tb_authority = bk_authority b,
     tb_items = ae_extract ae (py_or (bk_text b) (PStr [])) (bk_authority b)\<rparr>"

definition scan_blocks :: "authority_engine \<Rightarrow> event_row \<times> pyval \<Rightarrow> exn + text_block list" where
  "scan_blocks ae ev = rbind (re_envelope ev) (\<lambda>en. Inr (map (scan_block ae) (en_blocks en)))"

definition matching_items :: "pydict \<Rightarrow> item list \<Rightarrow> item list" where
  "matching_items desc items = filter (\<lambda>i. it_kind i = dget_none desc (lit ''proposed_kind'')
      \<and> PStr (it_statement i) = dget_none desc (lit ''text'')) items"

text \<open>The loop over the blocks of the source.\<close>

fun witnessed :: "pydict \<Rightarrow> pstr option \<Rightarrow> text_block list \<Rightarrow> exn + unit" where
  "witnessed desc criticality [] = Inl ValueError"
| "witnessed desc criticality (b # bs) =
     (if tb_ref b \<noteq> dget_none desc (lit ''source_ref'') then witnessed desc criticality bs
      else rbind (tb_items b) (\<lambda>items.
        if list_ex it_suspected items then Inl ValueError
        else case matching_items desc items of
          [] \<Rightarrow> witnessed desc criticality bs
        | i # _ \<Rightarrow> require (criticality = Some (it_criticality i)) ValueError (Inr ())))"

definition descriptor_of :: "node \<Rightarrow> pydict" where
  "descriptor_of n = (case field_of n ''proposal'' of PDict d \<Rightarrow> d | _ \<Rightarrow> [])"

definition proposal_origin :: "authority_engine \<Rightarrow> pstr \<Rightarrow> pstr \<Rightarrow> ('z graph_st_scheme, node \<times> event_row \<times> pyval) op" where
  "proposal_origin ae project pid =
     bnd (history_of pid (Some (ae_tenant ae)) (Some project)) (\<lambda>hs. case hs of
       [] \<Rightarrow> fail ValueError
     | n # _ \<Rightarrow>
         let desc = descriptor_of n in
         bnd (chk (n_entity_type (nd_row n) = lit ''claim'' \<and> is_dict (field_of n ''proposal'')
           \<and> dget_none desc (lit ''schema_version'') = PStr PROPOSAL_SCHEMA
           \<and> n_extractor (nd_row n) = Some (lit ''cce-deterministic'')) ValueError) (\<lambda>_.
         bnd (catch (case dget_none desc (lit ''source_event_id'') of
                PStr e \<Rightarrow> get_event e (Some (ae_tenant ae)) (Some project) | _ \<Rightarrow> fail KeyError)
              (\<lambda>x. x = KeyError) (\<lambda>_. fail ValueError)) (\<lambda>ev.
         let expected = proposal_descriptor (fst ev) (dget_none desc (lit ''source_ref''))
               (dget_none desc (lit ''proposed_kind'')) (dget_none desc (lit ''text'')) in
         bnd (chk (py_same (PDict desc) expected) ValueError) (\<lambda>_.
         bnd (lift (digest_obj expected)) (\<lambda>d.
         bnd (chk (pid = lit ''clm_'' @ take 24 (drop 7 d) \<and> n_event_id (nd_row n) = Some (e_id (fst ev))
           \<and> snd ev \<noteq> PNone) ValueError) (\<lambda>_.
         bnd (lift (rbind (scan_blocks ae ev) (witnessed desc (n_criticality (nd_row n))))) (\<lambda>_.
         ret (n, ev))))))))"

text \<open>A later event of the same source withdraws the statement when its blocks no longer hold it.\<close>

fun withdrawn_by :: "pydict \<Rightarrow> nat \<Rightarrow> text_block list \<Rightarrow> exn + bool" where
  "withdrawn_by desc rank [] = Inr False"
| "withdrawn_by desc rank (b # bs) =
     (if tb_ref b \<noteq> dget_none desc (lit ''source_ref'') \<or> authority_rank (tb_authority b) < rank
      then withdrawn_by desc rank bs
      else rbind (tb_items b) (\<lambda>items.
        if \<not> list_ex it_suspected items \<and> matching_items desc items = [] then Inr True
        else withdrawn_by desc rank bs))"

definition rank_of :: "pstr option \<Rightarrow> nat" where
  "rank_of a = (case a of None \<Rightarrow> 0 | Some x \<Rightarrow> authority_rank x)"

fun still_supported :: "authority_engine \<Rightarrow> node \<Rightarrow> event_row \<Rightarrow> node list \<Rightarrow> ('z graph_st_scheme, bool) op" where
  "still_supported ae n source [] = ret True"
| "still_supported ae n source (h # hs) =
     (case n_event_id (nd_row h) of
        None \<Rightarrow> still_supported ae n source hs
      | Some e \<Rightarrow>
          if \<not> truthy (field_of h ''source_withdrawn'') \<or> e = [] then still_supported ae n source hs
          else bnd (get_event e (Some (ae_tenant ae)) (Some (n_project_id (nd_row n)))) (\<lambda>ev.
            if e_source_type (fst ev) \<noteq> e_source_type source \<or> e_source_id (fst ev) \<noteq> e_source_id source
               \<or> e_seq (fst ev) \<le> e_seq source
            then still_supported ae n source hs
            else if snd ev = PNone then ret False
            else bnd (lift (rbind (scan_blocks ae ev) (withdrawn_by (descriptor_of n) (rank_of (n_authority (nd_row n)))))) (\<lambda>gone.
              if gone then ret False else still_supported ae n source hs)))"

definition proposal_supported :: "authority_engine \<Rightarrow> node \<Rightarrow> event_row \<Rightarrow> ('z graph_st_scheme, bool) op" where
  "proposal_supported ae n source =
     bnd (history_of (n_id (nd_row n)) (Some (ae_tenant ae)) (Some (n_project_id (nd_row n)))) (\<lambda>hs.
     still_supported ae n source hs)"

subsection \<open>What is in force\<close>

text \<open>The dictionary \<open>state\<close> that the walk over the decisions builds.\<close>

record confirmed =
  cf_id :: pstr
  cf_proposal :: pstr
  cf_statement :: pstr
  cf_kind :: pstr
  cf_scope :: pyval
  cf_event :: pstr
  cf_version :: int
  cf_revoked :: bool
  cf_decision :: pstr
  cf_decided_at :: pstr

definition state_dict :: "confirmed \<Rightarrow> pydict" where
  "state_dict c =
     [(pkey ''confirmation_id'', PStr (cf_id c)), (pkey ''proposal_id'', PStr (cf_proposal c)),
      (pkey ''statement'', PStr (cf_statement c)), (pkey ''proposed_kind'', PStr (cf_kind c)),
      (pkey ''authority_scope'', cf_scope c), (pkey ''confirmation_event_id'', PStr (cf_event c)),
      (pkey ''authority_version'', PInt (cf_version c)), (pkey ''revoked'', PBool (cf_revoked c)),
      (pkey ''decision_event_id'', PStr (cf_decision c)), (pkey ''decided_at'', PStr (cf_decided_at c))]"

definition confirmation_of :: "pstr \<Rightarrow> event_row \<Rightarrow> pydict \<Rightarrow> confirmed" where
  "confirmation_of cid e q = \<lparr>cf_id = cid, cf_proposal = req q ''proposal_id'', cf_statement = req q ''text'',
     cf_kind = req q ''proposed_kind'', cf_scope = dget_none q (lit ''authority_scope''), cf_event = e_id e,
     cf_version = 1, cf_revoked = False, cf_decision = e_id e, cf_decided_at = e_recorded_at e\<rparr>"

definition amend :: "confirmed \<Rightarrow> event_row \<Rightarrow> pydict \<Rightarrow> exn + confirmed" where
  "amend c e q =
     (let c1 = c\<lparr>cf_version := cf_version c + 1, cf_decision := e_id e, cf_decided_at := e_recorded_at e\<rparr> in
      if req q ''operation'' = lit ''revoke'' then Inr (c1\<lparr>cf_revoked := True\<rparr>)
      else rbind (member q ''authority_scope'') (\<lambda>sc. Inr (c1\<lparr>cf_scope := sc\<rparr>)))"

text \<open>A later decision has to name the version and the digest of what it decides about.\<close>

definition binds_confirmation :: "confirmed \<Rightarrow> pydict \<Rightarrow> exn + bool" where
  "binds_confirmation c q =
     (if cf_revoked c then Inr False
      else rbind (member q ''expected_confirmation_version'') (\<lambda>v.
        if v \<noteq> PInt (cf_version c) then Inr False
        else rbind (member q ''expected_confirmation_digest'') (\<lambda>d.
          rbind (digest_obj (PDict (state_dict c))) (\<lambda>d'. Inr (d = PStr d')))))"

text \<open>A confirmation has to name the statement as it was extracted.\<close>

definition binds_proposal :: "node \<Rightarrow> pydict \<Rightarrow> exn + bool" where
  "binds_proposal n q =
     rbind (digest_obj (PDict (descriptor_of n))) (\<lambda>d.
     Inr (dget_none q (lit ''expected_proposal_digest'') = PStr d
       \<and> dget_none q (lit ''expected_proposal_version'') = PInt (int (n_version (nd_row n)))
       \<and> dget_none q (lit ''text'') = dget_none (descriptor_of n) (lit ''text'')
       \<and> dget_none q (lit ''proposed_kind'') = dget_none (descriptor_of n) (lit ''proposed_kind'')))"

definition decide_one :: "authority_engine \<Rightarrow> pstr \<Rightarrow> pstr \<Rightarrow> confirmed option \<Rightarrow> event_row \<times> pyval
    \<Rightarrow> ('z graph_st_scheme, confirmed option) op" where
  "decide_one ae project cid st ev =
     bnd (lift (authority_payload ev)) (\<lambda>q.
     bnd (lift (confirmation_id (fst ev) q)) (\<lambda>i.
     if i \<noteq> cid then ret st
     else if req q ''operation'' = lit ''confirm'' then
       bnd (chk (st = None) ValueError) (\<lambda>_.
       bnd (proposal_origin ae project (req q ''proposal_id'')) (\<lambda>(n, _).
       bnd (lift (binds_proposal n q)) (\<lambda>ok.
       bnd (chk ok ValueError) (\<lambda>_.
       ret (Some (confirmation_of cid (fst ev) q))))))
     else case st of
       None \<Rightarrow> fail ValueError
     | Some c \<Rightarrow>
         bnd (lift (binds_confirmation c q)) (\<lambda>ok.
         bnd (chk ok ValueError) (\<lambda>_.
         bnd (lift (amend c (fst ev) q)) (\<lambda>c'. ret (Some c'))))))"

fun decide_all :: "authority_engine \<Rightarrow> pstr \<Rightarrow> pstr \<Rightarrow> confirmed option \<Rightarrow> pstr list \<Rightarrow> ('z graph_st_scheme, confirmed option) op" where
  "decide_all ae project cid st [] = ret st"
| "decide_all ae project cid st (e # es) =
     bnd (get_event e (Some (ae_tenant ae)) (Some project)) (\<lambda>ev.
     bnd (decide_one ae project cid st ev) (\<lambda>st'.
     decide_all ae project cid st' es))"

text \<open>The decisions of the project that were processed, in the order of the log.\<close>

definition decision_events :: "authority_engine \<Rightarrow> pstr \<Rightarrow> int \<Rightarrow> 'z graph_st_scheme \<Rightarrow> pstr list" where
  "decision_events ae project since s = map e_id (filter (\<lambda>e. e_tenant_id e = ae_tenant ae \<and> e_project_id e = project
       \<and> e_source_type e = lit ''human_decision'' \<and> e_source_id e = Some AUTHORITY_SOURCE \<and> since \<le> e_seq e
       \<and> list_ex (\<lambda>p. p_event_id p = e_id e \<and> p_processor_version p = PROCESSOR_VERSION \<and> p_status p = lit ''ok'')
           (processed_events s)) (events_by_seq s))"

definition authority_state :: "authority_engine \<Rightarrow> pstr \<Rightarrow> pstr \<Rightarrow> ('z graph_st_scheme, confirmed) op" where
  "authority_state ae project cid =
     bnd (history_of cid (Some (ae_tenant ae)) (Some project)) (\<lambda>hs.
     case find (\<lambda>n. n_extractor (nd_row n) = Some AUTHORITY_EXTRACTOR) hs of
       None \<Rightarrow> fail ValueError
     | Some origin \<Rightarrow>
         bnd (case n_event_id (nd_row origin) of
                None \<Rightarrow> fail KeyError
              | Some e \<Rightarrow> get_event e (Some (ae_tenant ae)) (Some project)) (\<lambda>first.
         bnd (lift (authority_payload first)) (\<lambda>q.
         bnd (chk (req q ''operation'' = lit ''confirm'') ValueError) (\<lambda>_.
         bnd (lift (confirmation_id (fst first) q)) (\<lambda>i.
         bnd (chk (i = cid) ValueError) (\<lambda>_.
         bnd (rd (decision_events ae project (e_seq (fst first)))) (\<lambda>es.
         bnd (decide_all ae project cid None es) (\<lambda>st.
         case st of None \<Rightarrow> fail ValueError | Some c \<Rightarrow> ret c))))))))"

definition or_invalid :: "('s, 'a) op \<Rightarrow> ('s, 'a option) op" where
  "or_invalid m = catch (bnd m (\<lambda>x. ret (Some x))) absent_or_invalid (\<lambda>_. ret None)"

definition matches_state :: "authority_engine \<Rightarrow> node \<Rightarrow> confirmed \<Rightarrow> ('z graph_st_scheme, bool) op" where
  "matches_state ae n c =
     bnd (or_invalid (proposal_origin ae (n_project_id (nd_row n)) (cf_proposal c))) (\<lambda>found. case found of
       None \<Rightarrow> ret False
     | Some (orig, ev) \<Rightarrow>
         if cf_revoked c then ret False
         else bnd (proposal_supported ae orig (fst ev)) (\<lambda>supported.
           ret (supported \<and> n_entity_type (nd_row n) = cf_kind c
             \<and> n_criticality (nd_row n) = n_criticality (nd_row orig)
             \<and> list_all (\<lambda>(k, v). py_same (dget_none (node_fields n) (text_of k)) v) (state_dict c)
             \<and> py_same (nd_scope n) (cf_scope c))))"

definition authority_is_current :: "authority_engine \<Rightarrow> node \<Rightarrow> ('z graph_st_scheme, bool) op" where
  "authority_is_current ae n =
     (if quarantined n then ret False
      else bnd (history_of (n_id (nd_row n)) (Some (ae_tenant ae)) (Some (n_project_id (nd_row n)))) (\<lambda>hs.
        if list_all (\<lambda>h. n_extractor (nd_row h) \<in> {None, Some []}) hs then ret True
        else bnd (or_invalid (authority_state ae (n_project_id (nd_row n)) (n_id (nd_row n)))) (\<lambda>st. case st of
          None \<Rightarrow> ret False
        | Some c \<Rightarrow> matches_state ae n c)))"

text \<open>The check as the graph asks it: a check that raises has not returned \<open>True\<close>.\<close>

definition may_mandate :: "authority_engine \<Rightarrow> node \<Rightarrow> 'z graph_st_scheme \<Rightarrow> bool" where
  "may_mandate ae n s \<longleftrightarrow> fst (authority_is_current ae n s) = Inr True"

subsection \<open>Operands of a decision\<close>

definition VOLATILE_PROJECTION_KEYS :: "pstr list" where
  "VOLATILE_PROJECTION_KEYS = map lit
     [''captured_at'', ''checked_at'', ''completed_at'', ''composed_at'', ''confirmed_at'', ''created_at'', ''decided_at'',
      ''fired_at'', ''generated_at'', ''packet_generation_time'', ''ran_at'', ''started_at'', ''superseded_at'']"

definition RANDOM_PREFIXES :: "pstr list" where
  "RANDOM_PREFIXES = map lit
     [''act'', ''art'', ''asm'', ''cap'', ''ckp'', ''clm'', ''cst'', ''dec'', ''edg'', ''evd'', ''evl'', ''flr'', ''grt'', ''inv'',
      ''nod'', ''out'', ''pln'', ''prf'', ''req'', ''rpl'', ''rsp'', ''ses'', ''skl'', ''tsk'', ''ver'']"

definition internal_random_id :: "pstr \<Rightarrow> bool" where
  "internal_random_id s \<longleftrightarrow> take 3 s \<in> set RANDOM_PREFIXES \<and> take 1 (drop 3 s) = lit ''_'' \<and> length s = 28 \<and> list_all is_hex (drop 4 s)"

text \<open>Object members are visited in the order of their keys.\<close>

function projection_value :: "(pstr \<times> pstr) list \<Rightarrow> bool \<Rightarrow> pyval \<Rightarrow> pyval" where
  "projection_value aliases anonymize (PDict d) =
     PDict (sort_key (\<lambda>(k, v). key_text k)
       (map (\<lambda>(k, v). (k, projection_value aliases anonymize v))
         (filter (\<lambda>(k, v). key_text k \<notin> set VOLATILE_PROJECTION_KEYS) d)))"
| "projection_value aliases anonymize (PList vs) = PList (map (projection_value aliases anonymize) vs)"
| "projection_value aliases anonymize (PTuple vs) = PList (map (projection_value aliases anonymize) vs)"
| "projection_value aliases anonymize (PStr s) = PStr (case map_of aliases s of
       Some a \<Rightarrow> a
     | None \<Rightarrow> if anonymize \<and> internal_random_id s then lit ''<'' @ take 3 s @ lit ''-id>'' else s)"
| "projection_value aliases anonymize PNone = PNone"
| "projection_value aliases anonymize (PBool b) = PBool b"
| "projection_value aliases anonymize (PInt i) = PInt i"
| "projection_value aliases anonymize (PFloat x) = PFloat x"
| "projection_value aliases anonymize (PBytes b) = PBytes b"
| "projection_value aliases anonymize PObject = PObject"
  by pat_completeness auto
termination
  by (relation "measure (\<lambda>(_, _, v). size v)")
    (auto simp: less_Suc_eq_le elim!: size_list_estimation')

definition require_project_node :: "authority_engine \<Rightarrow> pstr \<Rightarrow> ('z graph_st_scheme, unit) op" where
  "require_project_node ae project =
     bnd (lift (validate_public_identifier (PStr project))) (\<lambda>p.
     absent_is PermissionError
       (bnd (get_node p None (Some (ae_tenant ae)) (Some p) (Some (lit ''project''))) (\<lambda>_. ret ())))"

text \<open>What a request has to repeat: \<open>authority_proposal\<close>, \<open>authority_confirmation\<close> and
  \<open>authority_invalidation\<close>.\<close>

definition authority_proposal :: "authority_engine \<Rightarrow> pstr \<Rightarrow> pstr \<Rightarrow> ('z graph_st_scheme, pydict) op" where
  "authority_proposal ae project pid =
     bnd (require_project_node ae project) (\<lambda>_.
     bnd (proposal_origin ae project pid) (\<lambda>(orig, ev).
     bnd (get_node pid None (Some (ae_tenant ae)) (Some project) None) (\<lambda>now.
     bnd (chk (n_version (nd_row now) = n_version (nd_row orig) \<and> py_same (nd_data now) (nd_data orig) \<and> \<not> quarantined now) ValueError) (\<lambda>_.
     bnd (proposal_supported ae orig (fst ev)) (\<lambda>supported.
     bnd (chk supported ValueError) (\<lambda>_.
     bnd (lift (digest_obj (PDict (descriptor_of orig)))) (\<lambda>d.
     ret [(pkey ''proposal_id'', PStr pid), (pkey ''expected_proposal_version'', PInt (int (n_version (nd_row orig)))),
       (pkey ''expected_proposal_digest'', PStr d), (pkey ''proposed_kind'', dget_none (descriptor_of orig) (lit ''proposed_kind'')),
       (pkey ''text'', dget_none (descriptor_of orig) (lit ''text''))])))))))"

definition authority_confirmation :: "authority_engine \<Rightarrow> pstr \<Rightarrow> pstr \<Rightarrow> ('z graph_st_scheme, pydict) op" where
  "authority_confirmation ae project cid =
     bnd (require_project_node ae project) (\<lambda>_.
     bnd (authority_state ae project cid) (\<lambda>c.
     bnd (lift (digest_obj (PDict (state_dict c)))) (\<lambda>d.
     ret [(pkey ''confirmation_id'', PStr cid), (pkey ''expected_confirmation_version'', PInt (cf_version c)),
       (pkey ''expected_confirmation_digest'', PStr d), (pkey ''authority_scope'', cf_scope c)])))"

definition authority_invalidation :: "authority_engine \<Rightarrow> pstr \<Rightarrow> pstr \<Rightarrow> ('z graph_st_scheme, pydict) op" where
  "authority_invalidation ae project iid =
     bnd (require_project_node ae project) (\<lambda>_.
     bnd (absent_is ValueError (get_node iid None (Some (ae_tenant ae)) (Some project) (Some (lit ''invalidation'')))) (\<lambda>inv.
     bnd (chk (n_status (nd_row inv) = Some (lit ''pending_confirmation'')) ValueError) (\<lambda>_.
     bnd (lift (digest_obj (projection_value [] False (nd_data inv)))) (\<lambda>d.
     ret [(pkey ''invalidation_id'', PStr iid), (pkey ''expected_invalidation_version'', PInt (int (n_version (nd_row inv)))),
       (pkey ''expected_invalidation_digest'', PStr d)]))))"

text \<open>\<open>any(request[key] != value for key, value in binding.items())\<close>, negated.\<close>

definition repeats :: "pydict \<Rightarrow> pydict \<Rightarrow> bool" where
  "repeats q binding \<longleftrightarrow> list_all (\<lambda>(k, v). dget_none q (text_of k) = v) binding"

definition LIVE_TASK :: "pstr list" where
  "LIVE_TASK = map lit [''open'', ''active'', ''in_progress'', ''blocked'', ''review_required'', ''uncertain'']"

definition check_scope_task :: "authority_engine \<Rightarrow> pstr \<Rightarrow> pstr \<Rightarrow> ('z graph_st_scheme, unit) op" where
  "check_scope_task ae project tid =
     bnd (or_invalid (
       bnd (get_node tid None (Some (ae_tenant ae)) (Some project) (Some (lit ''task''))) (\<lambda>task.
       bnd (authority_state ae project tid) (\<lambda>c. ret (task, c))))) (\<lambda>found. case found of
       None \<Rightarrow> fail ValueError
     | Some (task, c) \<Rightarrow>
         bnd (chk (\<not> cf_revoked c) ValueError) (\<lambda>_.
         bnd (authority_is_current ae task) (\<lambda>ok.
         chk (ok \<and> n_status (nd_row task) \<in> Some ` set LIVE_TASK) ValueError)))"

definition scope_tasks :: "pyval \<Rightarrow> pstr list" where
  "scope_tasks scope = (case scope of
     PDict d \<Rightarrow> (case dget_none d (lit ''task_ids'') of PList xs \<Rightarrow> map text_of xs | _ \<Rightarrow> [])
   | _ \<Rightarrow> [])"

definition scope_of :: "pydict \<Rightarrow> pyval" where
  "scope_of q = (case dget q (lit ''authority_scope'') of None \<Rightarrow> GLOBAL | Some sc \<Rightarrow> sc)"

text \<open>The decision about an existing confirmation that a request asks for.\<close>

definition bound_confirmation :: "authority_engine \<Rightarrow> pstr \<Rightarrow> pydict \<Rightarrow> ('z graph_st_scheme, confirmed) op" where
  "bound_confirmation ae project q =
     bnd (authority_state ae project (req q ''confirmation_id'')) (\<lambda>c.
     bnd (lift (binds_confirmation c q)) (\<lambda>ok.
     bnd (chk ok ValueError) (\<lambda>_.
     if req q ''operation'' = lit ''replace_scope''
     then bnd (get_node (cf_id c) None (Some (ae_tenant ae)) (Some project) None) (\<lambda>n.
          bnd (authority_is_current ae n) (\<lambda>live.
          bnd (chk live ValueError) (\<lambda>_. ret c)))
     else ret c)))"

definition validate_operands :: "authority_engine \<Rightarrow> pstr \<Rightarrow> pydict \<Rightarrow> ('z graph_st_scheme, confirmed option) op" where
  "validate_operands ae project q =
     bnd (chk (req q ''tenant_id'' = ae_tenant ae \<and> req q ''project_id'' = project) PermissionError) (\<lambda>_.
     if req q ''operation'' \<in> set INVALIDATION_OPERATIONS then
       bnd (authority_invalidation ae project (req q ''invalidation_id'')) (\<lambda>b.
       bnd (chk (repeats q b) ValueError) (\<lambda>_. ret None))
     else
       bnd (if req q ''operation'' = lit ''confirm''
            then bnd (authority_proposal ae project (req q ''proposal_id'')) (\<lambda>b.
                 bnd (chk (repeats q b) ValueError) (\<lambda>_. ret (None, req q ''proposed_kind'')))
            else bnd (bound_confirmation ae project q) (\<lambda>c. ret (Some c, cf_kind c))) (\<lambda>(st, kind).
       bnd (chk (kind = lit ''task'' \<longrightarrow> py_same (scope_of q) GLOBAL) ValueError) (\<lambda>_.
       bnd (for_each (scope_tasks (scope_of q)) (check_scope_task ae project)) (\<lambda>_.
       ret st))))"

end
