(* ===== verification/Conflicts.thy ===== *)
theory Conflicts
  imports Capture Authority
begin

section \<open>engine.py: near-duplicate statements\<close>

text \<open>
  When a decision puts a statement in force, statements that differ from it in a few words, or
  negate it literally, are in conflict with it: authority, then freshness, then confidence rank
  them, and what is still stated elsewhere at the same authority is left to a human.
\<close>

text \<open>The report of a projection.\<close>

record report =
  rp_created :: "pydict list"
  rp_invalidations :: "pstr list"
  rp_conflicts :: "pydict list"
  rp_verifications :: "pstr list"
  rp_commands :: "pydict list"
  rp_skipped :: "pydict list"

definition empty_report :: report where
  "empty_report = \<lparr>rp_created = [], rp_invalidations = [], rp_conflicts = [], rp_verifications = [], rp_commands = [], rp_skipped = []\<rparr>"

text \<open>A loop that threads a value.\<close>

fun fold_ops :: "('a \<Rightarrow> 'r \<Rightarrow> ('s, 'r) op) \<Rightarrow> 'a list \<Rightarrow> 'r \<Rightarrow> ('s, 'r) op" where
  "fold_ops f [] r = ret r"
| "fold_ops f (x # xs) r = bnd (f x r) (fold_ops f xs)"

subsection \<open>Words\<close>

text \<open>\<open>s.split()\<close>, and \<open>re.sub(r"\s+", " ", s.strip())\<close>.\<close>

fun split_where :: "(nat \<Rightarrow> bool) \<Rightarrow> pstr \<Rightarrow> pstr list" where
  "split_where p [] = [[]]"
| "split_where p (c # s) = (case split_where p s of
     w # ws \<Rightarrow> if p c then [] # w # ws else (c # w) # ws | [] \<Rightarrow> [])"

definition py_words :: "pstr \<Rightarrow> pstr list" where
  "py_words s = filter (\<lambda>w. w \<noteq> []) (split_where py_space s)"

fun joined_by :: "pstr \<Rightarrow> pstr list \<Rightarrow> pstr" where
  "joined_by sep [] = []"
| "joined_by sep [w] = w"
| "joined_by sep (w # v # ws) = w @ sep @ joined_by sep (v # ws)"

definition collapse :: "pstr \<Rightarrow> pstr" where
  "collapse s = joined_by [32] (py_words s)"

text \<open>\<open>re.subn(r"\b(must|shall) (not|never) ", r"\1 ", s, count=1)\<close>, when it replaces something.\<close>

definition NEGATIONS :: "(pstr \<times> pstr) list" where
  "NEGATIONS = map (\<lambda>(v, p). (lit v, lit p))
     [(''must '', ''must not ''), (''must '', ''must never ''), (''shall '', ''shall not ''), (''shall '', ''shall never '')]"

fun drop_negation :: "unicode \<Rightarrow> nat option \<Rightarrow> pstr \<Rightarrow> pstr option" where
  "drop_negation uc before [] = None"
| "drop_negation uc before (c # s) =
     (case (if boundary uc before (c # s) then find (\<lambda>(v, p). take (length p) (c # s) = p) NEGATIONS else None) of
        Some (v, p) \<Rightarrow> Some (v @ drop (length p) (c # s))
      | None \<Rightarrow> map_option ((#) c) (drop_negation uc (Some c) s))"

subsection \<open>Ranking\<close>

definition rank_conflict :: "node \<Rightarrow> node \<Rightarrow> (node \<times> node) option \<times> pstr" where
  "rank_conflict a b =
     (let ra = rank_of (n_authority (nd_row a)); rb = rank_of (n_authority (nd_row b));
          ta = n_tx_from (nd_row a); tb = n_tx_from (nd_row b);
          ca = (case n_confidence (nd_row a) of None \<Rightarrow> 0 | Some c \<Rightarrow> c); cb = (case n_confidence (nd_row b) of None \<Rightarrow> 0 | Some c \<Rightarrow> c) in
      if ra \<noteq> rb then
        (let (w, l) = (if rb < ra then (a, b) else (b, a)) in
         (Some (w, l), lit ''authority '' @ shown (opt_val (n_authority (nd_row w))) @ lit '' outranks '' @ shown (opt_val (n_authority (nd_row l)))))
      else if ta \<noteq> tb then (Some (if tb < ta then (a, b) else (b, a)), lit ''same authority; newer statement wins'')
      else if ca \<noteq> cb then (Some (if cb < ca then (a, b) else (b, a)), lit ''higher extraction confidence wins'')
      else (None, lit ''unresolved conflict: equal authority, time, confidence''))"

text \<open>\<open>set(v)\<close>\<close>

definition hashed :: "pyval \<Rightarrow> exn + pyval list" where
  "hashed v = rbind (iter_of v) (\<lambda>xs. require (list_all py_hashable xs) TypeError (Inr xs))"

definition source_refs :: "node \<Rightarrow> exn + pyval list" where
  "source_refs n = (case field_of n ''source_refs'' of
     PNone \<Rightarrow> (let ref = field_of n ''source_ref'' in
       if \<not> truthy ref then Inr [] else require (py_hashable ref) TypeError (Inr [ref]))
   | v \<Rightarrow> hashed v)"

subsection \<open>Which statements conflict\<close>

definition STATEMENT_KINDS :: "pstr list" where
  "STATEMENT_KINDS = map lit [''claim'', ''decision'', ''requirement'', ''constraint'']"

definition SETTLED :: "pstr list" where
  "SETTLED = map lit [''superseded'', ''invalidated'', ''quarantined'']"

definition in_contest :: "node \<Rightarrow> bool" where
  "in_contest n \<longleftrightarrow> n_entity_type (nd_row n) \<in> set STATEMENT_KINDS \<and> n_status (nd_row n) \<notin> Some ` set SETTLED"

definition statement_tokens :: "unicode \<Rightarrow> pyval \<Rightarrow> exn + pstr list" where
  "statement_tokens uc v = (case v of PStr s \<Rightarrow> Inr (remdups (py_words (normalize_statement uc s))) | _ \<Rightarrow> Inl TypeError)"

text \<open>Confirmations for disjoint sets of tasks do not conflict.\<close>

definition scopes_apart :: "node \<Rightarrow> node \<Rightarrow> exn + bool" where
  "scopes_apart n m =
     rbind (dict_of (py_or (nd_scope n) (PDict []))) (\<lambda>mine.
     rbind (dict_of (py_or (nd_scope m) (PDict []))) (\<lambda>theirs.
     if gh_get mine ''kind'' = pkey ''tasks'' \<and> gh_get theirs ''kind'' = pkey ''tasks''
     then rbind (rbind (member mine ''task_ids'') hashed) (\<lambda>xs.
          rbind (rbind (member theirs ''task_ids'') hashed) (\<lambda>ys.
          Inr (\<not> list_ex (\<lambda>x. list_ex (py_eq x) ys) xs)))
     else Inr False))"

definition folded_statement :: "unicode \<Rightarrow> node \<Rightarrow> exn + pstr" where
  "folded_statement uc n = rbind (member (node_fields n) ''statement'') (\<lambda>v.
     case v of PStr s \<Rightarrow> Inr (casefold uc (collapse s)) | _ \<Rightarrow> Inl AttributeError)"

text \<open>A constraint that says literally the opposite of a requirement.\<close>

definition literal_negation :: "unicode \<Rightarrow> node \<Rightarrow> node \<Rightarrow> exn + bool" where
  "literal_negation uc n m =
     rbind (folded_statement uc n) (\<lambda>s. rbind (folded_statement uc m) (\<lambda>t.
     let (c, r) = (if n_entity_type (nd_row n) = lit ''constraint'' then (s, t) else (t, s)) in
     Inr (drop_negation uc None c = Some r)))"

definition near_duplicate :: "pstr list \<Rightarrow> pstr list \<Rightarrow> bool" where
  "near_duplicate mine other \<longleftrightarrow> 3 \<le> length mine \<and> other \<noteq> [] \<and> set other \<noteq> set mine
     \<and> (let diff = length (filter (\<lambda>w. w \<notin> set other) mine) + length (filter (\<lambda>w. w \<notin> set mine) other) in
        0 < diff \<and> diff \<le> max 2 (length mine div 4))
     \<and> 2 \<le> length (filter (\<lambda>w. w \<in> set other) mine)"

text \<open>Whether the two conflict, and whether by literal negation.\<close>

definition conflict_between :: "unicode \<Rightarrow> pstr list \<Rightarrow> node \<Rightarrow> node \<Rightarrow> exn + bool \<times> bool" where
  "conflict_between uc mine n m =
     (let kinds = {n_entity_type (nd_row n), n_entity_type (nd_row m)};
          others = statement_tokens uc (py_or (field_of m ''statement'') (PStr [])) in
      if lit ''constraint'' \<in> kinds then
        (if kinds \<noteq> {lit ''requirement'', lit ''constraint''} then Inr (False, False)
         else rbind (literal_negation uc n m) (\<lambda>opposite.
           if \<not> opposite then Inr (False, False) else rbind others (\<lambda>_. Inr (True, True))))
      else rbind others (\<lambda>other. Inr (near_duplicate mine other, False)))"

subsection \<open>What a conflict does\<close>

definition version_of :: "authority_engine \<Rightarrow> pstr \<Rightarrow> node \<Rightarrow> pydict \<Rightarrow> pyval \<Rightarrow> pstr \<Rightarrow> node_args" where
  "version_of ae project n data status event =
     node_defaults\<lparr>v_entity_type := PStr (n_entity_type (nd_row n)), v_tenant_id := PStr (ae_tenant ae),
       v_project_id := PStr project, v_node_id := PStr (n_id (nd_row n)), v_data := PDict data, v_status := status,
       v_event_id := PStr event\<rparr>"

definition unresolved :: pydict where
  "unresolved = [(pkey ''conflict_requires_resolution'', PBool True)]"

definition is_contested :: "node \<Rightarrow> bool \<Rightarrow> bool \<Rightarrow> (node \<times> node) option \<Rightarrow> exn + bool" where
  "is_contested n opposite both rank = (case rank of
     None \<Rightarrow> Inr False
   | Some (w, l) \<Rightarrow>
       rbind (if n_extractor (nd_row n) = Some AUTHORITY_EXTRACTOR then Inr True
              else rbind (source_refs l) (\<lambda>xs. rbind (source_refs n) (\<lambda>ys.
                Inr (list_ex (\<lambda>x. \<not> list_ex (py_eq x) ys) xs \<or> (opposite \<and> both))))) (\<lambda>live.
       Inr (live \<and> rank_of (n_authority (nd_row l)) = rank_of (n_authority (nd_row w)))))"

definition settle_conflict :: "authority_engine \<Rightarrow> pstr \<Rightarrow> pstr \<Rightarrow> bool \<Rightarrow> bool \<Rightarrow> node \<Rightarrow> node \<Rightarrow> ('z graph_st_scheme, unit) op" where
  "settle_conflict ae project event opposite contested w l =
     bnd (put_node (version_of ae project l (if contested then unresolved else [])
       (if contested \<or> n_entity_type (nd_row l) = lit ''assumption'' then pkey ''uncertain'' else pkey ''superseded'') event)) (\<lambda>_.
     bnd (if opposite \<and> contested then bnd (put_node (version_of ae project w unresolved (pkey ''uncertain'') event)) (\<lambda>_. ret ())
          else ret ()) (\<lambda>_.
     if contested then ret ()
     else bnd (put_edge (scoped_edge ''supersedes'' (n_id (nd_row w)) (n_id (nd_row l)) (ae_tenant ae) project (Some event))) (\<lambda>_. ret ())))"

definition conflict_entry :: "node \<Rightarrow> node \<Rightarrow> (node \<times> node) option \<Rightarrow> bool \<Rightarrow> pstr \<Rightarrow> pydict" where
  "conflict_entry n m rank contested wording =
     [(pkey ''a'', PStr (n_id (nd_row n))), (pkey ''b'', PStr (n_id (nd_row m))),
      (pkey ''winner'', if contested then PNone else case rank of None \<Rightarrow> PNone | Some (w, l) \<Rightarrow> PStr (n_id (nd_row w))),
      (pkey ''requires_resolution'', PBool contested), (pkey ''explanation'', PStr wording)]"

definition record_conflict :: "authority_engine \<Rightarrow> pstr \<Rightarrow> pstr \<Rightarrow> bool \<Rightarrow> bool \<Rightarrow> node \<Rightarrow> node \<Rightarrow> report \<Rightarrow> ('z graph_st_scheme, report) op" where
  "record_conflict ae project event opposite both n m rp =
     (let (rank, why) = rank_conflict n m in
      bnd (lift (is_contested n opposite both rank)) (\<lambda>contested.
      let wording = (if contested then lit ''both statements remain asserted at equal authority '' @ 0x2014 # lit '' human resolution required'' else why) in
      bnd (put_edge ((scoped_edge ''contradicts'' (n_id (nd_row n)) (n_id (nd_row m)) (ae_tenant ae) project (Some event))
        \<lparr>w_data := PDict [(pkey ''explanation'', PStr wording), (pkey ''contested'', PBool contested)]\<rparr>)) (\<lambda>_.
      bnd (case rank of None \<Rightarrow> ret () | Some (w, l) \<Rightarrow> settle_conflict ae project event opposite contested w l) (\<lambda>_.
      ret (rp\<lparr>rp_conflicts := rp_conflicts rp @ [conflict_entry n m rank contested wording]\<rparr>)))))"

definition conflict_with :: "authority_engine \<Rightarrow> unicode \<Rightarrow> pstr \<Rightarrow> pstr \<Rightarrow> pstr list \<Rightarrow> pstr \<Rightarrow> pstr list \<Rightarrow> node \<Rightarrow> node \<Rightarrow> report
    \<Rightarrow> ('z graph_st_scheme, report) op" where
  "conflict_with ae uc project event together authority mine n m rp =
     (if n_id (nd_row m) = n_id (nd_row n) \<or> \<not> in_contest m then ret rp
      else bnd (authority_is_current ae m) (\<lambda>live.
        if \<not> live then ret rp
        else bnd (lift (scopes_apart n m)) (\<lambda>unrelated.
          if unrelated then ret rp
          else bnd (lift (conflict_between uc mine n m)) (\<lambda>(conflict, opposite).
            let both = (n_id (nd_row n) \<in> set together \<and> n_id (nd_row m) \<in> set together);
                peers = (n_entity_type (nd_row n) = lit ''requirement'' \<and> n_entity_type (nd_row m) = lit ''requirement'' \<and> both
                  \<and> (case n_authority (nd_row n) of None \<Rightarrow> [] | Some a \<Rightarrow> a) = authority
                  \<and> (case n_authority (nd_row m) of None \<Rightarrow> [] | Some a \<Rightarrow> a) = authority) in
            if \<not> conflict \<or> peers then ret rp else record_conflict ae project event opposite both n m rp))))"

definition detect_near_duplicate_conflict :: "authority_engine \<Rightarrow> unicode \<Rightarrow> node \<Rightarrow> report \<Rightarrow> pstr \<Rightarrow> pstr list \<Rightarrow> pstr
    \<Rightarrow> ('z graph_st_scheme, report) op" where
  "detect_near_duplicate_conflict ae uc n rp event together authority =
     (if \<not> in_contest n then ret rp
      else let project = n_project_id (nd_row n) in
        bnd (lift (rbind (member (node_fields n) ''statement'') (statement_tokens uc))) (\<lambda>mine.
        bnd (current (PStr project) PNone PNone PNone (PStr (ae_tenant ae))) (\<lambda>others.
        fold_ops (conflict_with ae uc project event together authority mine n) others rp)))"

end
