(* ===== verification/Projection.thy ===== *)
theory Projection
  imports Conflicts Resolution
begin

section \<open>engine.py: the projection of events\<close>

text \<open>
  How a stored event becomes graph state: text is recorded as proposals, a source that no longer
  says something withdraws it, checks become verifications, pushes move the revision frontier,
  and owner-local decisions become authority. Everything runs in one transaction that ends with
  the marker of the event. \<open>searches\<close> holds what the two regular expressions for package names
  find in a text, and \<open>str.lower\<close>; \<open>explicit_negations\<close> of extraction.py is the argument
  \<open>pl_negations\<close>; \<open>pl_repr\<close> and \<open>pl_str\<close> are Python's \<open>repr\<close> and \<open>str\<close>. The optional second argument
  of \<open>process_event\<close>, which no caller in the package passes, is left out.
\<close>

record searches =
  rx_bumps :: "pstr \<Rightarrow> pstr list list"
  rx_tokens :: "pstr \<Rightarrow> pstr list"
  rx_lower :: "pstr \<Rightarrow> pstr"

record pipeline =
  pl_ae :: authority_engine
  pl_ie :: inv_engine
  pl_pe :: policy_engine
  pl_unicode :: unicode
  pl_redactor :: redactor
  pl_negations :: "pyval \<Rightarrow> (pstr \<times> pyval) list \<Rightarrow> exn + (pstr \<times> pstr) list"
  pl_searches :: searches
  pl_repr :: "pyval \<Rightarrow> pstr"
  pl_str :: "pyval \<Rightarrow> pstr"

abbreviation pl_tenant :: "pipeline \<Rightarrow> pstr" where
  "pl_tenant pl \<equiv> ae_tenant (pl_ae pl)"

definition invalidated_by :: "node \<Rightarrow> report \<Rightarrow> report" where
  "invalidated_by noticed rp = rp\<lparr>rp_invalidations := rp_invalidations rp @ [n_id (nd_row noticed)]\<rparr>"

fun filter_ops :: "('a \<Rightarrow> ('s, bool) op) \<Rightarrow> 'a list \<Rightarrow> ('s, 'a list) op" where
  "filter_ops f [] = ret []"
| "filter_ops f (x # xs) = bnd (f x) (\<lambda>b. bnd (filter_ops f xs) (\<lambda>ys. ret (if b then x # ys else ys)))"

definition value_error :: "exn \<Rightarrow> bool" where
  "value_error e \<longleftrightarrow> absent_or_invalid e \<and> e \<noteq> KeyError"

text \<open>\<open>except A: raise / except Exception: _refuse_projection()\<close>\<close>

definition refuse_other :: "(exn \<Rightarrow> bool) \<Rightarrow> ('s, 'a) op \<Rightarrow> ('s, 'a) op" where
  "refuse_other known m = catch m (\<lambda>e. \<not> known e) (\<lambda>_. fail ProcessorProjectionCompatibilityError)"

definition EXTRACTOR_NAME :: pstr where
  "EXTRACTOR_NAME = lit ''cce-deterministic''"

definition EXTRACTOR_VERSION :: pstr where
  "EXTRACTOR_VERSION = lit ''1.5.0''"

subsection \<open>Markers\<close>

definition require_persisted_marker :: "pstr \<Rightarrow> pstr \<Rightarrow> pstr option \<Rightarrow> ('z store_st_scheme, unit) op" where
  "require_persisted_marker eid status error =
     bnd (rd (\<lambda>s. map (\<lambda>p. (p_processor_version p, p_status p, p_error p)) (filter (\<lambda>p. p_event_id p = eid) (processed_events s)))) (\<lambda>rows.
     chk (rows = [(PROCESSOR_VERSION, status, error)]) ProcessorProjectionCompatibilityError)"

definition event_terminal_state :: "pstr \<Rightarrow> ('z graph_st_scheme, bool \<times> bool \<times> bool) op" where
  "event_terminal_state eid = rd (\<lambda>s. (list_ex (\<lambda>p. p_event_id p = eid) (processed_events s),
     list_ex (\<lambda>n. n_event_id n = Some eid) (nodes s), list_ex (\<lambda>g. g_event_id g = Some eid) (edges s)))"

definition mark_event_quarantined :: "pstr \<Rightarrow> ('z graph_st_scheme, unit) op" where
  "mark_event_quarantined eid = refuse_other (\<lambda>e. False) (transaction (
     bnd (event_terminal_state eid) (\<lambda>before.
     bnd (chk (before = (False, False, False)) ProcessorProjectionCompatibilityError) (\<lambda>_.
     bnd (mark_processed (PStr eid) (PStr PROCESSOR_VERSION) (pkey ''quarantined'') (pkey ''event processing failed'')) (\<lambda>_.
     bnd (require_persisted_marker eid (lit ''quarantined'') (Some (lit ''event processing failed''))) (\<lambda>_.
     bnd (event_terminal_state eid) (\<lambda>after.
     chk (after = (True, False, False)) ProcessorProjectionCompatibilityError)))))))"

subsection \<open>The canonical input\<close>

definition assert_payload_current :: "pipeline \<Rightarrow> pyval \<Rightarrow> pyval \<Rightarrow> exn + unit" where
  "assert_payload_current pl payload mode = (case payload of
     PNone \<Rightarrow> Inr ()
   | PDict p \<Rightarrow> guard (capture_payload_is_current (pl_redactor pl) payload mode = Inr True) ProcessorProjectionCompatibilityError
   | _ \<Rightarrow> Inl ProcessorProjectionCompatibilityError)"

definition assert_event_current :: "pipeline \<Rightarrow> event_row \<times> pyval \<Rightarrow> pyval \<Rightarrow> exn + unit" where
  "assert_event_current pl ev project_mode =
     (let recorded = e_capture_mode (fst ev) in
      rbind (guard (recorded \<in> set CAPTURE_MODES \<and> in_vocabulary project_mode CAPTURE_MODES)
        ProcessorProjectionCompatibilityError) (\<lambda>_.
      rbind (assert_payload_current pl (snd ev) (PStr recorded)) (\<lambda>_.
      if PStr recorded = project_mode \<or> recorded = lit ''metadata_only'' then Inr ()
      else assert_payload_current pl (snd ev) project_mode)))"

definition the_project :: "pipeline \<Rightarrow> pstr \<Rightarrow> ('z graph_st_scheme, node) op" where
  "the_project pl project =
     bnd (lift (validate_public_identifier (PStr project))) (\<lambda>p.
     absent_is PermissionError (get_node p None (Some (pl_tenant pl)) (Some p) (Some (lit ''project''))))"

text \<open>The event of the caller has to be the stored one; the two are compared as canonical JSON.\<close>

definition prepare_event :: "pipeline \<Rightarrow> event_row \<times> pyval \<Rightarrow> ('z graph_st_scheme, event_row \<times> pyval) op" where
  "prepare_event pl given =
     (let eid = e_id (fst given); project = e_project_id (fst given) in
      bnd (chk (eid \<noteq> []) ValueError) (\<lambda>_.
      bnd (chk (e_tenant_id (fst given) = pl_tenant pl) PermissionError) (\<lambda>_.
      bnd (chk (project \<noteq> []) ValueError) (\<lambda>_.
      bnd (refuse_other (\<lambda>e. e = PermissionError \<or> value_error e) (the_project pl project)) (\<lambda>prj.
      bnd (refuse_other (\<lambda>e. e = PermissionError \<or> e = EventPayloadIntegrityError \<or> value_error e)
            (catch (get_event eid (Some (pl_tenant pl)) (Some project)) (\<lambda>e. e \<in> {KeyError, TypeError}) (\<lambda>_. fail PermissionError))) (\<lambda>ev.
      bnd (lift (rcatch (rbind (canonical_json (snd given)) (\<lambda>a. rbind (canonical_json (snd ev)) (\<lambda>b. Inr (a, b))))
            value_like (\<lambda>_. Inl ValueError))) (\<lambda>(a, b).
      bnd (chk (fst given = fst ev \<and> a = b) ValueError) (\<lambda>_.
      bnd (lift (assert_event_current pl ev (dget_or (node_fields prj) ''capture_mode'' (pkey ''redacted'')))) (\<lambda>_.
      ret ev)))))))))"

subsection \<open>Revisions of a source\<close>

text \<open>The successful projections of other events of the source, the newest first, each with the
  data of its event node.\<close>

definition source_rows :: "event_row \<Rightarrow> 'z graph_st_scheme \<Rightarrow> (event_row \<times> node_row) list" where
  "source_rows e s = List.map_filter (\<lambda>r.
       if e_tenant_id r = e_tenant_id e \<and> e_project_id r = e_project_id e \<and> e_source_type r = e_source_type e
         \<and> e_source_id r \<noteq> None \<and> e_source_id r = e_source_id e \<and> e_id r \<noteq> e_id e
         \<and> list_ex (\<lambda>p. p_event_id p = e_id r \<and> p_processor_version p = PROCESSOR_VERSION \<and> p_status p = lit ''ok'') (processed_events s)
       then map_option (\<lambda>n. (r, n)) (find (\<lambda>n. n_id n = e_id r \<and> n_tenant_id n = e_tenant_id r \<and> n_project_id n = e_project_id r
         \<and> n_entity_type n = lit ''event'' \<and> n_tx_to n = None) (nodes s))
       else None) (rev (events_by_seq s))"

fun newer_loop :: "event_row \<Rightarrow> int \<Rightarrow> pstr list \<Rightarrow> (event_row \<times> node_row) list \<Rightarrow> (pstr \<times> pstr) list \<Rightarrow> exn + (pstr \<times> pstr) list" where
  "newer_loop e incoming refs [] obsolete = Inr obsolete"
| "newer_loop e incoming refs ((r, n) # rows) obsolete =
     (if authority_rank (e_authority r) < authority_rank (e_authority e) then newer_loop e incoming refs rows obsolete
      else rbind (rbind (strict_json_loads (PStr (n_data n))) dict_of) (\<lambda>data.
        case gh_get data ''source_revision_at'' of
          PNone \<Rightarrow> newer_loop e incoming refs rows obsolete
        | v \<Rightarrow> rbind (case v of PStr t \<Rightarrow> parse_ts t | _ \<Rightarrow> Inl TypeError) (\<lambda>prior.
            if prior \<le> incoming then newer_loop e incoming refs rows obsolete
            else rbind (iter_of (dget_or data ''source_revision_refs'' (PList []))) (\<lambda>held.
              let hit = filter (\<lambda>x. PStr x \<in> set held \<and> map_of obsolete x = None) refs;
                  obsolete' = obsolete @ map (\<lambda>x. (x, e_id r)) hit in
              if set refs \<subseteq> set (map fst obsolete') then Inr obsolete'
              else newer_loop e incoming refs rows obsolete'))))"

definition newer_source_blocks :: "event_row \<Rightarrow> pyval \<Rightarrow> block list \<Rightarrow> ('z graph_st_scheme, (pstr \<times> pstr) list) op" where
  "newer_source_blocks e revision bks =
     (if revision = PNone \<or> bks = [] then ret []
      else bnd (lift (case revision of PStr t \<Rightarrow> parse_ts t | _ \<Rightarrow> Inl TypeError)) (\<lambda>incoming.
        bnd (rd (source_rows e)) (\<lambda>rows.
        lift (newer_loop e incoming (sorted_set (map bk_ref bks)) rows []))))"

subsection \<open>Text\<close>

definition claim_args :: "pipeline \<Rightarrow> event_row \<Rightarrow> block \<Rightarrow> bool \<Rightarrow> item \<Rightarrow> pstr \<Rightarrow> pyval \<Rightarrow> pstr \<Rightarrow> node_args" where
  "claim_args pl e b held i nid desc d =
     node_defaults\<lparr>v_entity_type := pkey ''claim'', v_tenant_id := PStr (pl_tenant pl), v_project_id := PStr (e_project_id e),
       v_node_id := PStr nid, v_status := (if held then pkey ''quarantined'' else pkey ''recorded''),
       v_criticality := PStr (it_criticality i), v_authority := PStr (bk_authority b), v_confidence := it_confidence i,
       v_scope := PDict [(pkey ''source_ref'', PStr (bk_ref b))], v_valid_from := PStr (e_recorded_at e),
       v_data := PDict (dupdate (dupdate [(pkey ''statement'', PStr (it_statement i)), (pkey ''span'', PStr (it_span i)),
         (pkey ''source_ref'', PStr (bk_ref b)), (pkey ''proposal'', desc), (pkey ''proposal_digest'', PStr d)] (it_meta i))
         (if held then [(pkey ''suspected_injection'', PBool True)] else [])),
       v_event_id := PStr (e_id e), v_extractor := PStr EXTRACTOR_NAME, v_extractor_version := PStr EXTRACTOR_VERSION\<rparr>"

definition record_item :: "pipeline \<Rightarrow> event_row \<Rightarrow> block \<Rightarrow> bool \<Rightarrow> item \<Rightarrow> report \<Rightarrow> ('z policy_st_scheme, report) op" where
  "record_item pl e b held i rp =
     (let desc = proposal_descriptor e (PStr (bk_ref b)) (it_kind i) (PStr (it_statement i)) in
      bnd (lift (digest_obj desc)) (\<lambda>d.
      let nid = lit ''clm_'' @ take 24 (drop 7 d) in
      bnd (put_node (claim_args pl e b held i nid desc d)) (\<lambda>n.
      bnd (put_edge (scoped_edge ''supports'' (e_id e) nid (pl_tenant pl) (e_project_id e) (Some (e_id e)))) (\<lambda>_.
      bnd (if held then audit (pkey ''extractor'') (pkey ''injection.quarantined'') (PStr nid) PNone PNone PNone (PStr (take 200 (it_statement i)))
           else ret ()) (\<lambda>_.
      ret (rp\<lparr>rp_created := rp_created rp @ [[(pkey ''node_id'', PStr (n_id (nd_row n))), (pkey ''kind'', pkey ''claim''),
        (pkey ''status'', opt_val (n_status (nd_row n))), (pkey ''quarantined'', PBool held)]]\<rparr>))))))"

definition fire_of :: "pipeline \<Rightarrow> event_row \<Rightarrow> pstr \<Rightarrow> string \<Rightarrow> rat \<Rightarrow> pstr \<Rightarrow> pyval \<Rightarrow> pyval \<Rightarrow> fire_args" where
  "fire_of pl e target trigger confidence reason human iid =
     \<lparr>f_tenant_id = PStr (pl_tenant pl), f_project_id = PStr (e_project_id e), f_target_node_id = PStr target,
      f_trigger_type = pkey trigger, f_trigger_evidence_id = PNone, f_trigger_confidence = PFloat (fl confidence),
      f_reason = PStr reason, f_event_id = PStr (e_id e), f_actor = pkey ''cce'', f_requires_human = human,
      f_invalidation_id = iid\<rparr>"

text \<open>Explicit negations of active assumptions become notices that wait for the owner.\<close>

definition already_noticed :: "node list \<Rightarrow> pstr \<Rightarrow> pstr \<Rightarrow> bool" where
  "already_noticed recorded nid reason \<longleftrightarrow> list_ex (\<lambda>noticed. field_of noticed ''trigger_type'' = pkey ''contradictory_evidence''
     \<and> field_of noticed ''target_node_id'' = PStr nid
     \<and> (n_status (nd_row noticed) \<noteq> Some (lit ''rejected'') \<or> field_of noticed ''reason'' = PStr reason)) recorded"

definition notice_one :: "pipeline \<Rightarrow> event_row \<Rightarrow> node list \<Rightarrow> pstr \<times> pstr \<Rightarrow> report \<Rightarrow> ('z policy_st_scheme, report) op" where
  "notice_one pl e recorded d rp =
     (let nid = fst d; reason = (case validate_human_text 300 (PStr (take 300 (snd d))) of Inr t \<Rightarrow> t
        | Inl _ \<Rightarrow> lit ''explicit negation of the assumption (sentence withheld)'') in
      if already_noticed recorded nid reason then ret rp
      else bnd (lift (digest_obj (PList [pkey ''cce.contradiction-notice.v1'', PStr (pl_tenant pl), PStr (e_project_id e), PStr (e_id e), PStr nid]))) (\<lambda>dg.
        bnd (fire (pl_ie pl) (fire_of pl e nid ''contradictory_evidence'' (9/10) reason (PBool True) (PStr (lit ''inv_'' @ take 24 (drop 7 dg))))) (\<lambda>noticed.
        ret (invalidated_by noticed rp))))"

definition notice_negations :: "pipeline \<Rightarrow> event_row \<Rightarrow> pyval \<Rightarrow> report \<Rightarrow> ('z policy_st_scheme, report) op" where
  "notice_negations pl e txt rp =
     bnd (current (PStr (e_project_id e)) (pkey ''assumption'') (PList [pkey ''active'', pkey ''supported'']) PNone (PStr (pl_tenant pl))) (\<lambda>ns.
     bnd (filter_ops (authority_is_current (pl_ae pl)) ns) (\<lambda>active.
     if active = [] then ret rp
     else bnd (lift (pl_negations pl txt (map (\<lambda>n. (n_id (nd_row n), dget_or (node_fields n) ''statement'' (PStr []))) active))) (\<lambda>denied.
       if denied = [] then ret rp
       else bnd (current (PStr (e_project_id e)) (pkey ''invalidation'')
              (PList [pkey ''open'', pkey ''pending_confirmation'', pkey ''rejected'']) PNone (PStr (pl_tenant pl))) (\<lambda>recorded.
         fold_ops (notice_one pl e recorded) (sort_key fst denied) rp))))"

text \<open>What this source said before and does not say any more is withdrawn, with what was
  confirmed on its account invalidated.\<close>

definition withdraw_confirmed :: "pipeline \<Rightarrow> event_row \<Rightarrow> pstr \<Rightarrow> node \<Rightarrow> report \<Rightarrow> ('z policy_st_scheme, report) op" where
  "withdraw_confirmed pl e proposal n rp =
     (let r = nd_row n in
      if field_of n ''proposal_id'' = PStr proposal \<and> n_entity_type r \<in> set AUTHORITY_KINDS
      then bnd (fire (pl_ie pl) (fire_of pl e (n_id r)
               (if n_entity_type r \<in> {lit ''requirement'', lit ''constraint''} then ''changed_requirement'' else ''expired_approval'')
               1 (lit ''confirmed source statement withdrawn'') PNone PNone)) (\<lambda>noticed.
           bnd (put_node (node_defaults\<lparr>v_entity_type := PStr (n_entity_type r), v_tenant_id := PStr (pl_tenant pl),
               v_project_id := PStr (e_project_id e), v_node_id := PStr (n_id r), v_valid_to := PStr (e_recorded_at e),
               v_event_id := PStr (e_id e)\<rparr>)) (\<lambda>_.
           ret (invalidated_by noticed rp)))
      else ret rp)"

definition speaks_for :: "event_row \<Rightarrow> block \<Rightarrow> (pyval \<times> pyval) list \<Rightarrow> pydict \<Rightarrow> pydict \<Rightarrow> node_row \<Rightarrow> bool" where
  "speaks_for e b stated data desc r \<longleftrightarrow>
     \<not> (n_status r = Some (lit ''quarantined'') \<or> truthy (gh_get data ''suspected_injection'')
       \<or> gh_get desc ''source_type'' \<noteq> PStr (e_source_type e) \<or> gh_get desc ''source_id'' \<noteq> opt_val (e_source_id e)
       \<or> gh_get desc ''source_ref'' \<noteq> PStr (bk_ref b) \<or> gh_get desc ''source_event_id'' = PStr (e_id e)
       \<or> (gh_get desc ''proposed_kind'', gh_get desc ''text'') \<in> set stated
       \<or> authority_rank (bk_authority b) < rank_of (n_authority r))"

definition withdraw_row :: "pipeline \<Rightarrow> event_row \<Rightarrow> block \<Rightarrow> (pyval \<times> pyval) list \<Rightarrow> node_row \<Rightarrow> report \<Rightarrow> ('z policy_st_scheme, report) op" where
  "withdraw_row pl e b stated r rp =
     bnd (lift (rbind (strict_json_loads (PStr (n_data r))) dict_of)) (\<lambda>data.
     bnd (lift (dict_of (dget_or data ''proposal'' (PDict [])))) (\<lambda>desc.
     if \<not> speaks_for e b stated data desc r then ret rp
     else bnd (get_node (n_id r) None (Some (pl_tenant pl)) (Some (e_project_id e)) None) (\<lambda>now.
       if n_status (nd_row now) = Some (lit ''quarantined'') \<or> truthy (field_of now ''suspected_injection'') \<or> truthy (field_of now ''source_withdrawn'') then ret rp
       else bnd (put_node (node_defaults\<lparr>v_entity_type := pkey ''claim'', v_tenant_id := PStr (pl_tenant pl),
              v_project_id := PStr (e_project_id e), v_node_id := PStr (n_id r), v_status := pkey ''withdrawn'',
              v_valid_to := PStr (e_recorded_at e), v_data := PDict [(pkey ''source_withdrawn'', PBool True)], v_event_id := PStr (e_id e),
              v_extractor := opt_val (n_extractor r), v_extractor_version := opt_val (n_extractor_version r)\<rparr>)) (\<lambda>_.
         bnd (current (PStr (e_project_id e)) PNone PNone PNone (PStr (pl_tenant pl))) (\<lambda>ns.
         fold_ops (withdraw_confirmed pl e (n_id r)) ns rp)))))"

definition first_claims :: "pipeline \<Rightarrow> event_row \<Rightarrow> 'z graph_st_scheme \<Rightarrow> node_row list" where
  "first_claims pl e s = filter (\<lambda>r. n_tenant_id r = pl_tenant pl \<and> n_project_id r = e_project_id e \<and> n_entity_type r = lit ''claim''
     \<and> n_version r = 1 \<and> n_extractor r = Some EXTRACTOR_NAME) (nodes s)"

definition process_text :: "pipeline \<Rightarrow> event_row \<Rightarrow> block \<Rightarrow> report \<Rightarrow> ('z policy_st_scheme, bool \<times> report) op" where
  "process_text pl e b rp =
     (let txt = py_or (bk_text b) (PStr []) in
      bnd (config_field (pl_pe pl) (PStr (e_project_id e)) ''prose_may_mandate'' (PBool False)) (\<lambda>mandate.
      bnd (lift (ae_extract (pl_ae pl) txt (bk_authority b))) (\<lambda>items.
      bnd (chk (mandate = PBool False) ValueError) (\<lambda>_.
      let held = list_ex it_suspected items; stated = map (\<lambda>i. (it_kind i, PStr (it_statement i))) items in
      bnd (fold_ops (record_item pl e b held) items rp) (\<lambda>rp1.
      bnd (if \<not> held \<and> authority_rank (lit ''human_intent'') \<le> authority_rank (bk_authority b)
           then notice_negations pl e txt rp1 else ret rp1) (\<lambda>rp2.
      bnd (if held then ret rp2
           else bnd (rd (first_claims pl e)) (\<lambda>rows. fold_ops (withdraw_row pl e b stated) rows rp2)) (\<lambda>rp3.
      ret (\<not> held, rp3))))))))"

subsection \<open>Owner-local decisions\<close>

definition decision_status :: "pstr \<Rightarrow> pyval" where
  "decision_status kind = (if kind = lit ''task'' then pkey ''open'' else if kind = lit ''decision'' then pkey ''accepted'' else pkey ''active'')"

definition decision_args :: "pipeline \<Rightarrow> event_row \<Rightarrow> confirmed \<Rightarrow> pyval \<Rightarrow> pyval \<Rightarrow> node_args" where
  "decision_args pl e c status criticality =
     node_defaults\<lparr>v_entity_type := PStr (cf_kind c), v_tenant_id := PStr (pl_tenant pl), v_project_id := PStr (e_project_id e),
       v_node_id := PStr (cf_id c), v_data := PDict (state_dict c), v_status := status, v_authority := pkey ''human_decision'',
       v_confidence := PFloat (fl 1), v_criticality := criticality, v_scope := cf_scope c, v_valid_from := PStr (e_recorded_at e),
       v_valid_to := (if cf_revoked c then PStr (e_recorded_at e) else PNone), v_event_id := PStr (e_id e),
       v_extractor := PStr AUTHORITY_EXTRACTOR, v_extractor_version := pkey ''1.0.0''\<rparr>"

text \<open>The state a decision leads to, its status and the criticality it inherits.\<close>

definition decided_state :: "pipeline \<Rightarrow> event_row \<Rightarrow> pydict \<Rightarrow> pstr \<Rightarrow> confirmed option
    \<Rightarrow> ('z graph_st_scheme, confirmed \<times> pyval \<times> pyval) op" where
  "decided_state pl e q nid st = (case st of
     None \<Rightarrow>
       bnd (proposal_origin (pl_ae pl) (e_project_id e) (req q ''proposal_id'')) (\<lambda>(orig, src).
       let c = confirmation_of nid e q in
       ret (c, decision_status (cf_kind c), opt_val (n_criticality (nd_row orig))))
   | Some c \<Rightarrow> bnd (lift (amend c e q)) (\<lambda>c'. ret (c', if cf_revoked c' then pkey ''revoked'' else PNone, PNone)))"

definition supports :: "pipeline \<Rightarrow> event_row \<Rightarrow> pstr \<Rightarrow> pstr \<Rightarrow> ('z graph_st_scheme, unit) op" where
  "supports pl e src dst = bnd (put_edge (scoped_edge ''supports'' src dst (pl_tenant pl) (e_project_id e) (Some (e_id e)))) (\<lambda>_. ret ())"

definition created_entry :: "pstr \<Rightarrow> pstr \<Rightarrow> pydict" where
  "created_entry nid kind = [(pkey ''node_id'', PStr nid), (pkey ''kind'', PStr kind)]"

definition decide_invalidation :: "pipeline \<Rightarrow> event_row \<Rightarrow> pydict \<Rightarrow> report \<Rightarrow> ('z policy_st_scheme, report) op" where
  "decide_invalidation pl e q rp =
     bnd (validate_operands (pl_ae pl) (e_project_id e) q) (\<lambda>_.
     bnd (confirm (pl_ie pl) (may_mandate (pl_ae pl)) (PStr (req q ''invalidation_id'')) (pkey ''owner-local'')
       (PBool (req q ''operation'' = lit ''confirm_invalidation'')) (PStr (e_id e))) (\<lambda>noticed.
     ret ((invalidated_by noticed rp)\<lparr>rp_created := rp_created rp @ [created_entry (n_id (nd_row noticed)) (lit ''invalidation'')]\<rparr>)))"

definition after_decision :: "pipeline \<Rightarrow> event_row \<Rightarrow> pydict \<Rightarrow> node \<Rightarrow> report \<Rightarrow> ('z policy_st_scheme, report) op" where
  "after_decision pl e q n rp =
     (if req q ''operation'' \<in> {lit ''confirm'', lit ''replace_scope''} then
        bnd (current (PStr (e_project_id e)) PNone PNone PNone (PStr (pl_tenant pl))) (\<lambda>ns.
        let compatible = map (\<lambda>m. n_id (nd_row m)) (filter (\<lambda>m. n_entity_type (nd_row m) \<in> {lit ''requirement'', lit ''constraint''}) ns) in
        detect_near_duplicate_conflict (pl_ae pl) (pl_unicode pl) n rp (e_id e) compatible (lit ''human_decision''))
      else if req q ''operation'' = lit ''revoke'' then
        bnd (fire (pl_ie pl) (fire_of pl e (n_id (nd_row n)) ''expired_approval'' 1 (lit ''owner-local authority revoked'') PNone PNone)) (\<lambda>noticed.
        ret (invalidated_by noticed rp))
      else ret rp)"

definition process_authority_decision :: "pipeline \<Rightarrow> event_row \<times> pyval \<Rightarrow> report \<Rightarrow> ('z policy_st_scheme, report) op" where
  "process_authority_decision pl ev rp =
     (let e = fst ev in
      bnd (lift (authority_payload ev)) (\<lambda>q.
      if req q ''operation'' \<in> set INVALIDATION_OPERATIONS then decide_invalidation pl e q rp
      else
        bnd (validate_operands (pl_ae pl) (e_project_id e) q) (\<lambda>st.
        bnd (lift (confirmation_id e q)) (\<lambda>nid.
        bnd (decided_state pl e q nid st) (\<lambda>(c, status, criticality).
        bnd (put_node (decision_args pl e c status criticality)) (\<lambda>n.
        bnd (if req q ''operation'' = lit ''confirm''
             then bnd (supports pl e (e_id e) nid) (\<lambda>_. supports pl e (cf_proposal c) nid) else ret ()) (\<lambda>_.
        bnd (after_decision pl e q n rp) (\<lambda>rp'.
        ret (rp'\<lparr>rp_created := rp_created rp' @ [created_entry nid (cf_kind c)]\<rparr>)))))))))"

subsection \<open>Checks\<close>

definition CHECK_RESULTS :: "(pyval \<times> string) list" where
  "CHECK_RESULTS = map (\<lambda>(k, v). (pkey k, v))
     [(''success'', ''passed''), (''failure'', ''failed''), (''neutral'', ''skipped''), (''cancelled'', ''inconclusive''),
      (''timed_out'', ''inconclusive''), (''skipped'', ''skipped''), (''action_required'', ''failed''), (''stale'', ''stale'')]"

definition check_result :: "pyval \<Rightarrow> string" where
  "check_result conclusion = (case map_of CHECK_RESULTS conclusion of None \<Rightarrow> ''inconclusive'' | Some r \<Rightarrow> r)"

definition check_args :: "pipeline \<Rightarrow> event_row \<Rightarrow> pydict \<Rightarrow> pyval \<Rightarrow> bool \<Rightarrow> node_args" where
  "check_args pl e flags name trusted =
     node_defaults\<lparr>v_entity_type := pkey ''verification'', v_tenant_id := PStr (pl_tenant pl), v_project_id := PStr (e_project_id e),
       v_status := pkey (check_result (gh_get flags ''conclusion'')),
       v_authority := (if trusted then pkey ''verifier_authoritative'' else pkey ''repository_authoritative''),
       v_data := PDict ([(pkey ''verifier'', name), (pkey ''source'', PStr (e_source_type e)), (pkey ''conclusion'', gh_get flags ''conclusion''),
           (pkey ''head_sha'', gh_get flags ''head_sha''), (pkey ''source_id'', opt_val (e_source_id e)), (pkey ''app'', gh_get flags ''app''),
           (pkey ''app_id'', gh_get flags ''app_id''), (pkey ''installation_id'', gh_get flags ''installation_id''),
           (pkey ''workflow_id'', gh_get flags ''workflow_id''), (pkey ''workflow_path'', gh_get flags ''workflow_path''),
           (pkey ''trusted_app'', PBool trusted), (pkey ''trusted_producer_at_ingest'', PBool trusted)]),
       v_event_id := PStr (e_id e)\<rparr>"

definition from_github :: "pyval \<Rightarrow> exn + bool" where
  "from_github v = (case py_or v (PStr []) of PStr s \<Rightarrow> Inr (take 7 s = lit ''github:'') | _ \<Rightarrow> Inl AttributeError)"

definition fail_prior :: "pipeline \<Rightarrow> event_row \<Rightarrow> pydict \<Rightarrow> pyval \<Rightarrow> pstr \<Rightarrow> node \<Rightarrow> report \<Rightarrow> ('z policy_st_scheme, report) op" where
  "fail_prior pl e flags name nid prior rp =
     bnd (lift (if n_authority (nd_row prior) = Some (lit ''verifier_authoritative'') then from_github (field_of prior ''source'') else Inr False)) (\<lambda>ours.
     if ours \<and> py_eq (field_of prior ''verifier'') name \<and> n_id (nd_row prior) \<noteq> nid
     then bnd (fire (pl_ie pl) (fire_of pl e (n_id (nd_row prior)) ''failed_check'' (95/100)
            (lit ''check '' @ pl_repr pl name @ lit '' now fails at '' @ shown (gh_get flags ''head_sha'')) PNone PNone)) (\<lambda>noticed.
          ret (invalidated_by noticed rp))
     else ret rp)"

definition passed_checks :: "pipeline \<Rightarrow> pstr \<Rightarrow> ('z graph_st_scheme, node list) op" where
  "passed_checks pl project = current (PStr project) (pkey ''verification'') (PList [pkey ''passed'']) PNone (PStr (pl_tenant pl))"

definition process_check :: "pipeline \<Rightarrow> event_row \<Rightarrow> pydict \<Rightarrow> report \<Rightarrow> ('z policy_st_scheme, report) op" where
  "process_check pl e flags rp =
     (let name = py_or (gh_get flags ''name'') (PStr (e_source_type e)) in
      bnd (external_verifier_trusted (pl_pe pl) (PStr (e_project_id e)) (PStr (e_source_type e)) flags) (\<lambda>trusted.
      if gh_get flags ''status'' \<noteq> pkey ''completed'' \<and> gh_get flags ''conclusion'' = PNone then ret rp
      else bnd (put_node (check_args pl e flags name trusted)) (\<lambda>n.
        let nid = n_id (nd_row n); rp1 = rp\<lparr>rp_verifications := rp_verifications rp @ [nid]\<rparr> in
        if check_result (gh_get flags ''conclusion'') = ''failed'' \<and> trusted
        then bnd (passed_checks pl (e_project_id e)) (\<lambda>priors. fold_ops (fail_prior pl e flags name nid) priors rp1)
        else ret rp1)))"

subsection \<open>Commands\<close>

definition process_command :: "event_row \<Rightarrow> pydict \<Rightarrow> report \<Rightarrow> ('z store_st_scheme, report) op" where
  "process_command e flags rp =
     bnd (lift (case py_or (gh_get flags ''command'') (PStr []) of PStr c \<Rightarrow> Inr (strip c) | _ \<Rightarrow> Inl AttributeError)) (\<lambda>command.
     let association = py_or (gh_get flags ''author_association'') (pkey ''NONE'') in
     bnd (audit (PStr (lit ''github:'' @ shown association)) (pkey ''command.received'') (PStr (e_id e)) PNone PNone (pkey ''human_intent'') (PStr command)) (\<lambda>_.
     let entry = (if in_vocabulary association TRUSTED_ASSOCIATIONS
       then [(pkey ''command'', PStr command), (pkey ''status'', pkey ''accepted'')]
       else [(pkey ''command'', PStr command), (pkey ''status'', pkey ''rejected''),
         (pkey ''reason'', PStr (lit ''association '' @ shown association))]) in
     ret (rp\<lparr>rp_commands := rp_commands rp @ [entry]\<rparr>)))"

end
