(* ===== verification/Pushes.thy ===== *)
theory Pushes
  imports Projection
begin

section \<open>engine.py: pushes\<close>

text \<open>
  A push to the tracked branch moves the revision frontier of the project, unless it arrives out
  of order; results for other revisions become stale, and changed dependency manifests
  invalidate, or ask about, the assumptions that name what moved.
\<close>

subsection \<open>Paths and words\<close>

text \<open>\<open>_MANIFESTS\<close> and \<open>_DRIFT_PYTHON_MANIFEST\<close> look at the last segment of a path; \<open>$\<close> also matches
  before a final newline.\<close>

definition last_segment :: "pstr \<Rightarrow> pstr" where
  "last_segment p = rev (takeWhile (\<lambda>c. c \<noteq> 47) (rev p))"

definition segment_is :: "(pstr \<Rightarrow> bool) \<Rightarrow> pstr \<Rightarrow> bool" where
  "segment_is f p = (let n = last_segment p in f n \<or> (n \<noteq> [] \<and> last n = 10 \<and> f (butlast n)))"

definition starts :: "string \<Rightarrow> pstr \<Rightarrow> bool" where
  "starts a s \<longleftrightarrow> take (length a) s = lit a"

definition ends :: "string \<Rightarrow> pstr \<Rightarrow> bool" where
  "ends a s \<longleftrightarrow> length a \<le> length s \<and> drop (length s - length a) s = lit a"

definition requirements_name :: "pstr \<Rightarrow> bool" where
  "requirements_name n \<longleftrightarrow> starts ''requirements'' n \<and> ends ''.txt'' n \<and> 16 \<le> length n"

definition manifest_name :: "pstr \<Rightarrow> bool" where
  "manifest_name n \<longleftrightarrow> requirements_name n \<or> starts ''build.gradle'' n
     \<or> list_ex (\<lambda>a. ends a n \<and> length a < length n) [''.csproj'', ''.fsproj'', ''.vbproj'', ''.nuspec'']
     \<or> n \<in> set (map lit [''pyproject.toml'', ''package.json'', ''package-lock.json'', ''poetry.lock'', ''uv.lock'', ''yarn.lock'',
         ''pnpm-lock.yaml'', ''Pipfile'', ''Pipfile.lock'', ''Directory.Packages.props'', ''Directory.Build.props'', ''packages.config'',
         ''packages.lock.json'', ''go.mod'', ''go.sum'', ''Cargo.toml'', ''Cargo.lock'', ''Gemfile'', ''Gemfile.lock'', ''pom.xml''])"

definition python_manifest_name :: "pstr \<Rightarrow> bool" where
  "python_manifest_name n \<longleftrightarrow> requirements_name n
     \<or> n \<in> set (map lit [''pyproject.toml'', ''poetry.lock'', ''uv.lock'', ''Pipfile'', ''Pipfile.lock''])"

definition DRIFT_VOCABULARY :: "pstr list" where
  "DRIFT_VOCABULARY = map lit [''dependency'', ''dependencies'', ''version'', ''pinned'', ''requires'', ''library'', ''package'']"

definition DRIFT_COMMON :: "pstr list" where
  "DRIFT_COMMON = py_words (lit (
     ''about above after again against also among another because been before being '' @
     ''below between both bump bumps bumped change changed changes chore could deps '' @
     ''dependencies dependency does doing down during each either else even every file '' @
     ''files from have having here into just like lock lockfile made major make many '' @
     ''merge minor more most much must need never only other over patch pinned refresh '' @
     ''release require required requirement requirements requires same should since some still '' @
     ''such than that their them then there these they this those through under until update '' @
     ''updated updates upgrade upgraded upgrades upon version versions very want were '' @
     ''what when where whether which while will with within without would your package '' @
     ''packages library libraries build main master fix fixes fixed app apps api ci cd '' @
     ''group groups directory directories module modules monorepo rust crate crates the and''))"

text \<open>\<open>re.findall(r"[a-z]{4,}", s)\<close>, and the words of a file name without its extension.\<close>

definition ascii_terms :: "pstr \<Rightarrow> pstr list" where
  "ascii_terms s = filter (\<lambda>w. 4 \<le> length w) (split_where (\<lambda>c. c < 97 \<or> 122 < c) s)"

definition stem_of :: "pstr \<Rightarrow> pstr" where
  "stem_of p = (let n = last_segment p in if 46 \<in> set n then rev (drop 1 (dropWhile (\<lambda>c. c \<noteq> 46) (rev n))) else n)"

definition stem_terms :: "searches \<Rightarrow> pstr \<Rightarrow> pstr list" where
  "stem_terms sx p = filter (\<lambda>w. 3 < length w) (split_where (\<lambda>c. c \<in> {95, 45, 46}) (rx_lower sx (stem_of p)))"

fun dashed :: "pstr \<Rightarrow> pstr" where
  "dashed [] = []"
| "dashed [c] = [if c \<in> {45, 95, 46} then 45 else c]"
| "dashed (c # d # s) = (if c \<in> {45, 95, 46} then (if d \<in> {45, 95, 46} then dashed (d # s) else 45 # dashed (d # s)) else c # dashed (d # s))"

definition trim_dots :: "pstr \<Rightarrow> pstr" where
  "trim_dots s = rev (dropWhile (\<lambda>c. c = 46) (rev (dropWhile (\<lambda>c. c = 46) s)))"

definition drift_package :: "searches \<Rightarrow> bool \<Rightarrow> pstr \<Rightarrow> pstr" where
  "drift_package sx python token =
     (let t = rx_lower sx (trim_dots (strip (takeWhile (\<lambda>c. c \<noteq> 91) token))) in
      if python \<and> 47 \<notin> set t then dashed t else t)"

text \<open>The paths a commit names, and its subject.\<close>

definition commit_paths :: "pydict \<Rightarrow> exn + pyval list" where
  "commit_paths c = rbind (rmap (\<lambda>k. hashed (py_or (gh_get c k) (PList []))) [''added'', ''modified'', ''removed'']) (\<lambda>vs. Inr (concat vs))"

definition as_text :: "pyval \<Rightarrow> exn + pstr" where
  "as_text v = (case v of PStr s \<Rightarrow> Inr s | _ \<Rightarrow> Inl TypeError)"

definition subject_of :: "searches \<Rightarrow> pydict \<Rightarrow> exn + pstr" where
  "subject_of sx c = (case py_or (gh_get c ''message'') (PStr []) of
     PStr m \<Rightarrow> Inr (rx_lower sx (takeWhile (\<lambda>x. x \<noteq> 10) m)) | _ \<Rightarrow> Inl AttributeError)"

record drift =
  dr_terms :: "pstr list"
  dr_named :: "pstr list"
  dr_python :: "pstr list"

definition commit_drift :: "searches \<Rightarrow> pydict \<Rightarrow> exn + drift" where
  "commit_drift sx c =
     rbind (subject_of sx c) (\<lambda>subject.
     rbind (rbind (commit_paths c) (rmap as_text)) (\<lambda>ps.
     let tokens = (if list_ex (segment_is manifest_name) ps then concat (rx_bumps sx subject) else []) in
     Inr \<lparr>dr_terms = ascii_terms subject, dr_named = map (drift_package sx False) tokens,
       dr_python = (if list_ex (segment_is python_manifest_name) ps then map (drift_package sx True) tokens else [])\<rparr>))"

definition uncommon :: "pstr list \<Rightarrow> pstr list" where
  "uncommon = filter (\<lambda>w. w \<notin> set DRIFT_COMMON)"

definition drift_of :: "searches \<Rightarrow> pstr list \<Rightarrow> pydict list \<Rightarrow> exn + drift" where
  "drift_of sx changed commits =
     rbind (rmap (commit_drift sx) commits) (\<lambda>ds.
     Inr \<lparr>dr_terms = uncommon (concat (map (stem_terms sx) changed) @ concat (map dr_terms ds)),
       dr_named = uncommon (concat (map dr_named ds)), dr_python = uncommon (concat (map dr_python ds))\<rparr>)"

text \<open>\<open>_scope_hit\<close>\<close>

definition covers :: "pstr \<Rightarrow> pstr \<Rightarrow> bool" where
  "covers sp c = (let p = rev (dropWhile (\<lambda>x. x = 47) (dropWhile (\<lambda>x. x = 42) (rev sp))) in
     c = sp \<or> (p \<noteq> [] \<and> (c = p \<or> take (length p + 1) c = p @ [47])))"

fun hit_any :: "pyval list \<Rightarrow> pstr list \<Rightarrow> exn + bool" where
  "hit_any [] changed = Inr False"
| "hit_any (v # vs) changed = (case v of
     PStr sp \<Rightarrow> if list_ex (covers sp) changed then Inr True else hit_any vs changed
   | _ \<Rightarrow> Inl AttributeError)"

definition scope_hit :: "pyval \<Rightarrow> pstr list \<Rightarrow> exn + bool" where
  "scope_hit paths changed = rbind (iter_of (py_or paths (PList []))) (\<lambda>vs. hit_any vs changed)"

definition scope_paths :: "node \<Rightarrow> exn + pyval" where
  "scope_paths n = rbind (dict_of (py_or (nd_scope n) (PDict []))) (\<lambda>d. Inr (dget_or d ''paths'' (PList [])))"

subsection \<open>The revision frontier\<close>

definition project_version :: "pipeline \<Rightarrow> event_row \<Rightarrow> node \<Rightarrow> pydict \<Rightarrow> node_args" where
  "project_version pl e prj data =
     node_defaults\<lparr>v_entity_type := pkey ''project'', v_tenant_id := PStr (pl_tenant pl), v_project_id := PStr (e_project_id e),
       v_node_id := PStr (e_project_id e), v_status := opt_val (n_status (nd_row prj)), v_data := PDict data, v_event_id := PStr (e_id e)\<rparr>"

definition stale_args :: "pipeline \<Rightarrow> event_row \<Rightarrow> node \<Rightarrow> pyval \<Rightarrow> node_args" where
  "stale_args pl e prior why =
     node_defaults\<lparr>v_entity_type := pkey ''verification'', v_tenant_id := PStr (pl_tenant pl), v_project_id := PStr (e_project_id e),
       v_node_id := PStr (n_id (nd_row prior)), v_status := pkey ''stale'', v_data := PDict [(pkey ''stale_because'', why)], v_event_id := PStr (e_id e)\<rparr>"

text \<open>A passing external result describes one revision.\<close>

definition stale_external :: "pipeline \<Rightarrow> event_row \<Rightarrow> pyval \<Rightarrow> node \<Rightarrow> ('z graph_st_scheme, unit) op" where
  "stale_external pl e head prior =
     bnd (lift (from_github (field_of prior ''source''))) (\<lambda>ours.
     if ours \<and> \<not> py_eq (field_of prior ''head_sha'') head
     then bnd (put_node (stale_args pl e prior (PDict [(pkey ''recorded_head'', field_of prior ''head_sha''), (pkey ''current_head'', head)]))) (\<lambda>_. ret ())
     else ret ())"

definition move_frontier :: "pipeline \<Rightarrow> event_row \<Rightarrow> node \<Rightarrow> pydict \<Rightarrow> pyval \<times> int \<Rightarrow> ('z graph_st_scheme, unit) op" where
  "move_frontier pl e prj flags basis =
     (let deleted = truthy (gh_get flags ''deleted''); head = (if deleted then PNone else gh_get flags ''after'') in
      bnd (put_node (project_version pl e prj
        [(pkey ''current_head_sha'', head), (pkey ''tracked_ref'', fst basis), (pkey ''tracked_ref_revision'', PInt (snd basis)),
         (pkey ''previous_head_sha'', gh_get flags ''before''), (pkey ''revision_frontier_uncertain'', PBool deleted)])) (\<lambda>_.
      bnd (passed_checks pl (e_project_id e)) (\<lambda>priors. for_each priors (stale_external pl e head))))"

definition reject_push :: "pipeline \<Rightarrow> event_row \<Rightarrow> node \<Rightarrow> pydict \<Rightarrow> pyval \<Rightarrow> ('z graph_st_scheme, unit) op" where
  "reject_push pl e prj flags head =
     bnd (put_node (project_version pl e prj
       [(pkey ''revision_frontier_uncertain'', PBool True), (pkey ''rejected_head_sha'', gh_get flags ''after''),
        (pkey ''rejected_before_sha'', gh_get flags ''before'')])) (\<lambda>_.
     audit (pkey ''connector'') (pkey ''push.out_of_order'') (gh_get flags ''ref'') PNone PNone PNone
       (PStr (lit ''current '' @ shown head @ lit ''; delivery claimed '' @ shown (gh_get flags ''before'') @ lit '' -> ''
         @ shown (gh_get flags ''after'') @ lit ''; frontier left unchanged'')))"

text \<open>Whether the push moved the tracked branch in order.\<close>

definition push_frontier :: "pipeline \<Rightarrow> event_row \<Rightarrow> pydict \<Rightarrow> ('z policy_st_scheme, bool) op" where
  "push_frontier pl e flags =
     bnd (get_node (e_project_id e) None (Some (pl_tenant pl)) (Some (e_project_id e)) (Some (lit ''project''))) (\<lambda>prj.
     bnd (tracked_ref_basis (pl_pe pl) (PStr (e_project_id e))) (\<lambda>basis.
     let ref = gh_get flags ''ref''; after = gh_get flags ''after'';
         tracked = (truthy ref \<and> py_eq ref (fst basis));
         head = (if py_eq (field_of prj ''tracked_ref'') (fst basis) \<and> py_eq (field_of prj ''tracked_ref_revision'') (PInt (snd basis))
                 then field_of prj ''current_head_sha'' else PNone);
         out_of_order = (tracked \<and> truthy head \<and> \<not> py_eq (gh_get flags ''before'') head \<and> \<not> py_eq after head
           \<and> \<not> truthy (gh_get flags ''forced'')) in
     bnd (if truthy ref \<and> \<not> tracked
          then audit (pkey ''connector'') (pkey ''push.untracked_ref'') ref PNone PNone PNone
            (PStr (lit ''tracked ref is '' @ shown (fst basis) @ lit ''; revision frontier unchanged''))
          else if out_of_order then reject_push pl e prj flags head
          else if tracked \<and> truthy after then move_frontier pl e prj flags basis
          else ret ()) (\<lambda>_.
     ret (tracked \<and> \<not> out_of_order))))"

subsection \<open>Dependency drift\<close>

definition quoted_list :: "pstr list \<Rightarrow> pstr" where
  "quoted_list ws = joined_by (lit '', '') ws"

definition push_identity :: "event_row \<Rightarrow> pydict \<Rightarrow> pydict list \<Rightarrow> exn + pstr" where
  "push_identity e flags commits =
     rbind (rmap as_text (filter truthy (map (\<lambda>c. gh_get c ''id'') commits))) (\<lambda>ids.
     digest_obj (PList [gh_get flags ''ref'',
       py_or (py_or (gh_get flags ''after'') (PList (map PStr (sort ids)))) (PStr (e_id e))]))"

definition drift_args :: "pipeline \<Rightarrow> event_row \<Rightarrow> node \<Rightarrow> rat \<Rightarrow> pstr \<Rightarrow> pyval \<Rightarrow> pyval \<Rightarrow> fire_args" where
  "drift_args pl e n confidence reason human iid = fire_of pl e (n_id (nd_row n)) ''dependency_drift'' confidence reason human iid"

definition ask_about_drift :: "pipeline \<Rightarrow> event_row \<Rightarrow> drift \<Rightarrow> pstr \<Rightarrow> pstr \<Rightarrow> pstr list \<Rightarrow> node \<Rightarrow> pstr list \<Rightarrow> report
    \<Rightarrow> ('z policy_st_scheme, report) op" where
  "ask_about_drift pl e dr reason key recorded n words rp =
     (let vocabulary = sorted_set (filter (\<lambda>w. w \<in> set DRIFT_VOCABULARY) words); shared = sorted_set (filter (\<lambda>w. w \<in> set (dr_terms dr)) words) in
      if vocabulary = [] \<and> shared = [] then ret rp
      else bnd (lift (digest_obj (PList [pkey ''cce.dependency-drift-notice.v1'', PStr (pl_tenant pl), PStr (e_project_id e), PStr key, PStr (n_id (nd_row n))]))) (\<lambda>d.
        let iid = lit ''inv_'' @ take 24 (drop 7 d); cues = take 1200 (quoted_list (vocabulary @ map (\<lambda>w. lit ''shares '' @ 39 # w @ [39]) shared)) in
        if iid \<in> set recorded then ret rp
        else bnd (fire (pl_ie pl) (drift_args pl e n (1/2) (reason @ lit ''; no named dependency match ('' @ cues @ lit ''); confirm or reject'')
               (PBool True) (PStr iid))) (\<lambda>noticed. ret (invalidated_by noticed rp))))"

definition drift_one :: "pipeline \<Rightarrow> event_row \<Rightarrow> drift \<Rightarrow> pstr list \<Rightarrow> pstr \<Rightarrow> pstr \<Rightarrow> pstr list \<Rightarrow> node \<Rightarrow> report
    \<Rightarrow> ('z policy_st_scheme, report) op" where
  "drift_one pl e dr manifests reason key recorded n rp =
     (let sx = pl_searches pl in
      bnd (lift (scope_paths n)) (\<lambda>paths.
      bnd (lift (case py_or (field_of n ''statement'') (PStr []) of PStr s \<Rightarrow> Inr (rx_lower sx s) | _ \<Rightarrow> Inl AttributeError)) (\<lambda>statement.
      let tokens = rx_tokens sx statement;
          names = sorted_set (filter (\<lambda>w. w \<in> drift_package sx False ` set tokens) (dr_named dr)
            @ filter (\<lambda>w. w \<in> drift_package sx True ` set tokens) (dr_python dr)) in
      bnd (lift (if names \<noteq> [] then Inr True else scope_hit paths manifests)) (\<lambda>hit.
      if hit then
        bnd (fire (pl_ie pl) (drift_args pl e n (4/5)
          (reason @ lit ''; '' @ (if names \<noteq> [] then lit ''the push bumps '' @ take 1200 (quoted_list names) else lit ''the assumption''
             @ 39 # lit ''s scope covers a changed manifest'')) PNone PNone)) (\<lambda>noticed. ret (invalidated_by noticed rp))
      else ask_about_drift pl e dr reason key recorded n (ascii_terms statement) rp))))"

definition drift_notices :: "pipeline \<Rightarrow> event_row \<Rightarrow> pydict \<Rightarrow> pydict list \<Rightarrow> pstr list \<Rightarrow> pstr list \<Rightarrow> report
    \<Rightarrow> ('z policy_st_scheme, report) op" where
  "drift_notices pl e flags commits changed manifests rp =
     bnd (lift (drift_of (pl_searches pl) changed commits)) (\<lambda>dr.
     bnd (lift (push_identity e flags commits)) (\<lambda>key.
     bnd (current (PStr (e_project_id e)) (pkey ''invalidation'') PNone PNone (PStr (pl_tenant pl))) (\<lambda>recorded.
     bnd (lift (digest_obj (PList (map PStr manifests)))) (\<lambda>md.
     let reason = lit ''dependency manifests changed: '' @ take 1200 (pl_str pl (PList (map PStr manifests)))
           @ lit ''; manifest digest '' @ md @ lit ''; push '' @ key in
     bnd (current (PStr (e_project_id e)) (pkey ''assumption'') (PList [pkey ''active'', pkey ''supported'']) PNone (PStr (pl_tenant pl))) (\<lambda>ns.
     fold_ops (drift_one pl e dr manifests reason key (map (\<lambda>m. n_id (nd_row m)) recorded)) ns rp)))))"

definition stale_covered :: "pipeline \<Rightarrow> event_row \<Rightarrow> pstr list \<Rightarrow> node \<Rightarrow> ('z graph_st_scheme, unit) op" where
  "stale_covered pl e changed prior =
     bnd (lift (rbind (scope_paths prior) (\<lambda>paths. scope_hit paths changed))) (\<lambda>hit.
     if hit then bnd (put_node (stale_args pl e prior (PList (map PStr (take 10 (sort changed)))))) (\<lambda>_. ret ()) else ret ())"

definition process_push :: "pipeline \<Rightarrow> event_row \<times> pyval \<Rightarrow> pydict \<Rightarrow> report \<Rightarrow> ('z policy_st_scheme, report) op" where
  "process_push pl ev flags rp =
     (let e = fst ev in
      bnd (lift (dict_of (py_or (snd ev) (PDict [])))) (\<lambda>payload.
      bnd (push_frontier pl e flags) (\<lambda>tracked.
      bnd (lift (raw_objects (gh_get payload ''commits''))) (\<lambda>commits.
      bnd (lift (rbind (rmap commit_paths commits) (\<lambda>vs. Inr (remdups (concat vs))))) (\<lambda>values.
      bnd (if truthy (gh_get flags ''forced'')
           then audit (pkey ''connector'') (pkey ''push.forced'') (gh_get flags ''ref'') PNone PNone PNone
             (PStr (shown (gh_get flags ''before'') @ lit '' -> '' @ shown (gh_get flags ''after'')))
           else ret ()) (\<lambda>_.
      if \<not> tracked then ret rp
      else bnd (lift (rmap as_text values)) (\<lambda>changed.
        let manifests = sort (filter (segment_is manifest_name) changed) in
        bnd (if manifests = [] then ret rp else drift_notices pl e flags commits changed manifests rp) (\<lambda>rp1.
        bnd (if changed = [] then ret []
             else passed_checks pl (e_project_id e)) (\<lambda>priors.
        bnd (for_each priors (stale_covered pl e changed)) (\<lambda>_. ret rp1))))))))))"

end
