(* ===== verification/Process.thy ===== *)
theory Process
  imports Pushes
begin

section \<open>engine.py: events in, projections out\<close>

text \<open>
  \<open>process_event\<close> projects one stored event; \<open>ingest\<close> appends what a connector delivers and
  projects it, and the four public entries build what is delivered. \<open>GitHubDeliveryError\<close> is a
  subclass of \<open>PermissionError\<close> and appears as that.
\<close>

subsection \<open>One event\<close>

definition event_node_args :: "pipeline \<Rightarrow> event_row \<Rightarrow> pyval \<Rightarrow> pstr list \<Rightarrow> node_args" where
  "event_node_args pl e revision refs =
     node_defaults\<lparr>v_entity_type := pkey ''event'', v_tenant_id := PStr (e_tenant_id e), v_project_id := PStr (e_project_id e),
       v_node_id := PStr (e_id e), v_status := pkey ''recorded'', v_authority := PStr (e_authority e),
       v_data := PDict ([(pkey ''source_type'', PStr (e_source_type e)), (pkey ''source_id'', opt_val (e_source_id e)),
           (pkey ''idempotency_key'', PStr (e_idempotency_key e)), (pkey ''payload_digest'', PStr (e_payload_digest e)),
           (pkey ''stored_payload_digest'', opt_val (e_stored_payload_digest e)), (pkey ''observed_at'', PStr (e_observed_at e))]
         @ (if truthy revision then [(pkey ''source_revision_at'', revision), (pkey ''source_revision_refs'', PList (map PStr refs))] else [])),
       v_valid_from := opt_val (e_valid_from e), v_valid_to := opt_val (e_valid_to e), v_event_id := PStr (e_id e)\<rparr>"

definition frontier_args :: "event_row \<Rightarrow> pstr list \<Rightarrow> node_args" where
  "frontier_args e refs =
     node_defaults\<lparr>v_entity_type := pkey ''event'', v_tenant_id := PStr (e_tenant_id e), v_project_id := PStr (e_project_id e),
       v_node_id := PStr (e_id e), v_data := PDict [(pkey ''source_revision_refs'', PList (map PStr refs))], v_event_id := PStr (e_id e)\<rparr>"

text \<open>The two \<open>EXISTS\<close> queries: an earlier retained event without a marker, and a later event
  with one.\<close>

definition earlier_hole :: "event_row \<Rightarrow> 'z store_st_scheme \<Rightarrow> bool" where
  "earlier_hole e s \<longleftrightarrow> list_ex (\<lambda>r. e_tenant_id r = e_tenant_id e \<and> e_project_id r = e_project_id e \<and> e_seq r < e_seq e
     \<and> e_payload r \<noteq> None \<and> \<not> list_ex (\<lambda>p. p_event_id p = e_id r) (processed_events s)) (events s)"

definition later_marker :: "event_row \<Rightarrow> 'z store_st_scheme \<Rightarrow> bool" where
  "later_marker e s \<longleftrightarrow> list_ex (\<lambda>r. e_tenant_id r = e_tenant_id e \<and> e_project_id r = e_project_id e \<and> e_seq e < e_seq r
     \<and> list_ex (\<lambda>p. p_event_id p = e_id r) (processed_events s)) (events s)"

definition projected_ok :: "pstr \<Rightarrow> 'z store_st_scheme \<Rightarrow> bool" where
  "projected_ok eid s \<longleftrightarrow> list_ex (\<lambda>p. p_event_id p = eid \<and> p_processor_version p = PROCESSOR_VERSION \<and> p_status p = lit ''ok'') (processed_events s)"

text \<open>The blocks in order; one that a newer revision of the source has replaced is skipped.\<close>

definition skipped_entry :: "block \<Rightarrow> pyval \<Rightarrow> pstr \<Rightarrow> pydict" where
  "skipped_entry b revision newer = [(pkey ''source_ref'', PStr (bk_ref b)), (pkey ''source_revision_at'', revision),
     (pkey ''newer_event_id'', PStr newer), (pkey ''reason'', pkey ''older source revision'')]"

definition process_block :: "pipeline \<Rightarrow> event_row \<Rightarrow> pyval \<Rightarrow> (pstr \<times> pstr) list \<Rightarrow> block \<Rightarrow> pstr list \<times> report
    \<Rightarrow> ('z policy_st_scheme, pstr list \<times> report) op" where
  "process_block pl e revision obsolete b x = (case map_of obsolete (bk_ref b) of
     Some newer \<Rightarrow> ret (fst x, (snd x)\<lparr>rp_skipped := rp_skipped (snd x) @ [skipped_entry b revision newer]\<rparr>)
   | None \<Rightarrow> bnd (process_text pl e b (snd x)) (\<lambda>(ok, rp). ret (if ok then fst x @ [bk_ref b] else fst x, rp)))"

definition process_kind :: "pipeline \<Rightarrow> event_row \<times> pyval \<Rightarrow> pydict \<Rightarrow> (pstr \<times> pstr) list \<Rightarrow> report
    \<Rightarrow> ('z policy_st_scheme, report) op" where
  "process_kind pl ev flags obsolete rp =
     (let e = fst ev; st = e_source_type e in
      bnd (if st = lit ''human_decision'' \<and> e_source_id e = Some AUTHORITY_SOURCE then process_authority_decision pl ev rp else ret rp) (\<lambda>rp1.
      bnd (if st \<in> lit ` {''github:check_run'', ''github:workflow_run'', ''github:check_suite''} then process_check pl e flags rp1 else ret rp1) (\<lambda>rp2.
      bnd (if st = lit ''github:push'' then process_push pl ev flags rp2 else ret rp2) (\<lambda>rp3.
      if truthy (gh_get flags ''command'') \<and> obsolete = [] then process_command e flags rp3 else ret rp3))))"

definition project_event :: "pipeline \<Rightarrow> event_row \<times> pyval \<Rightarrow> envelope \<Rightarrow> ('z policy_st_scheme, report) op" where
  "project_event pl ev en =
     (let e = fst ev; flags = en_flags en; revision = gh_get flags ''source_revision_at''; bks = en_blocks en;
          refs = sorted_set (map bk_ref bks) in
      bnd (newer_source_blocks e revision bks) (\<lambda>obsolete.
      bnd (put_node (event_node_args pl e revision refs)) (\<lambda>_.
      bnd (process_kind pl ev flags obsolete empty_report) (\<lambda>rp.
      bnd (fold_ops (process_block pl e revision obsolete) bks ([], rp)) (\<lambda>(admitted, rp').
      bnd (if truthy revision \<and> sorted_set admitted \<noteq> refs
           then bnd (put_node (frontier_args e (sorted_set admitted))) (\<lambda>_. ret ()) else ret ()) (\<lambda>_.
      bnd (mark_processed (PStr (e_id e)) (PStr PROCESSOR_VERSION) (pkey ''ok'') PNone) (\<lambda>_.
      bnd (require_persisted_marker (e_id e) (lit ''ok'') None) (\<lambda>_.
      ret rp'))))))))"

definition process_prepared_event :: "pipeline \<Rightarrow> event_row \<times> pyval \<Rightarrow> ('z policy_st_scheme, report) op" where
  "process_prepared_event pl ev =
     bnd (lift (re_envelope ev)) (\<lambda>en.
     bnd (rd (\<lambda>s. (projected_ok (e_id (fst ev)) s, earlier_hole (fst ev) s, later_marker (fst ev) s))) (\<lambda>(done, hole, later).
     if done then bnd (require_persisted_marker (e_id (fst ev)) (lit ''ok'') None) (\<lambda>_. ret empty_report)
     else bnd (chk (\<not> (hole \<or> (snd ev \<noteq> PNone \<and> later))) ProcessorProjectionCompatibilityError) (\<lambda>_.
       project_event pl ev en)))"

definition process_event :: "pipeline \<Rightarrow> event_row \<times> pyval \<Rightarrow> ('z policy_st_scheme, report) op" where
  "process_event pl ev = transaction (bnd (prepare_event pl ev) (process_prepared_event pl))"

subsection \<open>Ingestion\<close>

definition project_capture_mode :: "pipeline \<Rightarrow> pstr \<Rightarrow> ('z graph_st_scheme, pyval) op" where
  "project_capture_mode pl project =
     bnd (the_project pl project) (\<lambda>prj. ret (dget_or (node_fields prj) ''capture_mode'' (pkey ''redacted'')))"

text \<open>What \<open>_ingest\<close> reads of an envelope.\<close>

record delivery =
  dl_source_type :: pstr
  dl_source_id :: pyval
  dl_key :: pstr
  dl_authority :: pstr
  dl_observed_at :: pyval
  dl_payload :: pyval

definition delivery_args :: "pipeline \<Rightarrow> pstr \<Rightarrow> delivery \<Rightarrow> pyval \<Rightarrow> pstr \<Rightarrow> pyval \<Rightarrow> event_args" where
  "delivery_args pl project dl payload digest mode =
     \<lparr>x_tenant_id = PStr (pl_tenant pl), x_project_id = PStr project, x_source_type = PStr (dl_source_type dl),
      x_idempotency_key = PStr (dl_key dl), x_payload = payload, x_authority = PStr (dl_authority dl),
      x_observed_at = dl_observed_at dl, x_valid_from = PNone, x_valid_to = PNone, x_actor_type = pkey ''service'',
      x_actor_id = pkey ''cce'', x_source_id = dl_source_id dl, x_sensitivity = pkey ''internal'', x_capture_mode = mode,
      x_schema_version = pkey ''cce.event.v1'', x_payload_digest = PStr digest\<rparr>"

definition capture_report :: "pyval \<Rightarrow> pstr list \<Rightarrow> nat \<Rightarrow> pydict" where
  "capture_report mode kinds dropped =
     [(pkey ''mode'', mode), (pkey ''redactions'', PList (map PStr kinds)), (pkey ''dropped_fields'', PInt (int dropped))]"

text \<open>A redelivery: the event is projected if that has not happened.\<close>

definition heal :: "pipeline \<Rightarrow> pstr \<Rightarrow> pstr \<Rightarrow> ('z policy_st_scheme, (report \<times> pydict) option) op" where
  "heal pl project eid =
     bnd (unprocessed_event_ids (PStr project) (PStr (pl_tenant pl))) (\<lambda>before.
     if eid \<notin> set before then ret None
     else transaction (
       bnd (unprocessed_event_ids (PStr project) (PStr (pl_tenant pl))) (\<lambda>now.
       if eid \<notin> set now then ret None
       else bnd (get_event eid (Some (pl_tenant pl)) (Some project)) (\<lambda>ev.
         bnd (process_event pl ev) (\<lambda>rp.
         ret (Some (rp, capture_report (PStr (e_capture_mode (fst ev))) [] 0)))))))"

text \<open>A new event: a failure before its input is validated refuses, a later one quarantines it.\<close>

definition project_new :: "pipeline \<Rightarrow> event_row \<times> pyval \<Rightarrow> ('z policy_st_scheme, report) op" where
  "project_new pl ev =
     catch (transaction (bnd (refuse_other (\<lambda>e. False) (prepare_event pl ev)) (process_prepared_event pl)))
       (\<lambda>e. e \<noteq> ProcessorProjectionCompatibilityError)
       (\<lambda>e. bnd (mark_event_quarantined (e_id (fst ev))) (\<lambda>_. fail e))"

definition known_event :: "exn \<Rightarrow> pstr option" where
  "known_event e = (case e of DuplicateEventError i \<Rightarrow> Some i | _ \<Rightarrow> None)"

definition try_append :: "event_args \<Rightarrow> ('z store_st_scheme, pstr + event_row \<times> pyval) op" where
  "try_append a = catch (bnd (append_event a) (\<lambda>ev. ret (Inr ev))) (\<lambda>e. known_event e \<noteq> None)
     (\<lambda>e. ret (Inl (the (known_event e))))"

definition ingest :: "pipeline \<Rightarrow> pstr \<Rightarrow> delivery \<Rightarrow> ('z policy_st_scheme, (report \<times> pydict) option) op" where
  "ingest pl project dl =
     bnd (catch (get_node project None (Some (pl_tenant pl)) (Some project) None) (\<lambda>e. e = KeyError)
       (\<lambda>_. bnd (audit (pkey ''connector'') (pkey ''ingest.rejected'') (PStr project) PNone PNone PNone (pkey ''unknown project''))
          (\<lambda>_. fail PermissionError))) (\<lambda>prj.
     bnd (chk (n_entity_type (nd_row prj) = lit ''project'') PermissionError) (\<lambda>_.
     bnd (project_capture_mode pl project) (\<lambda>mode.
     bnd (chk (dl_payload dl = PNone \<or> is_dict (dl_payload dl)) ValueError) (\<lambda>_.
     bnd (lift (if dl_payload dl = PNone then Inr [] else canonical_json (dl_payload dl))) (\<lambda>raw.
     bnd (lift (apply_capture_mode (pl_redactor pl) (dl_payload dl) mode)) (\<lambda>(payload, kinds, dropped).
     bnd (lift (sha256_hex raw)) (\<lambda>digest.
     bnd (try_append (delivery_args pl project dl payload digest mode)) (\<lambda>x. case x of
       Inl eid \<Rightarrow> heal pl project eid
     | Inr ev \<Rightarrow> bnd (project_new pl ev) (\<lambda>rp. ret (Some (rp, capture_report mode kinds dropped)))))))))))"

subsection \<open>The entries\<close>

definition WEBHOOK_BODY_MAX_BYTES :: nat where
  "WEBHOOK_BODY_MAX_BYTES = 1024 * 1024"

definition reject_webhook :: "pyval \<Rightarrow> pstr \<Rightarrow> exn \<Rightarrow> ('z store_st_scheme, 'a) op" where
  "reject_webhook object_id detail e =
     bnd (audit (pkey ''connector'') (pkey ''webhook.rejected'') object_id PNone PNone PNone (PStr detail)) (\<lambda>_. fail e)"

text \<open>The signed body has to be what was passed as payload.\<close>

definition signed_payload :: "nat list \<Rightarrow> pyval \<Rightarrow> exn + pyval" where
  "signed_payload body payload =
     rbind (strict_json_loads (PBytes body)) (\<lambda>signed_body.
     rbind (rbind (canonical_json payload) (\<lambda>t. strict_json_loads (PStr t))) (\<lambda>supplied.
     require (is_dict signed_body) ValueError
     (rbind (canonical_json signed_body) (\<lambda>a. rbind (canonical_json supplied) (\<lambda>b.
      require (a = b) ValueError (Inr signed_body))))))"

text \<open>The checks of a configured secret that come before any lookup.\<close>

definition webhook_credentials :: "pyval \<Rightarrow> pyval \<Rightarrow> pyval \<Rightarrow> exn + (nat list \<times> nat list) option" where
  "webhook_credentials secret body header =
     (if secret = PNone then Inr None
      else rbind (validate_webhook_secret secret True) (\<lambda>key.
        case body of
          PBytes b \<Rightarrow> require (b \<noteq> [] \<and> length b \<le> WEBHOOK_BODY_MAX_BYTES) ValueError
            (require (is_str header) ValueError (Inr (Some (the key, b))))
        | _ \<Rightarrow> Inl ValueError))"

definition authentic_payload :: "pstr \<Rightarrow> pstr \<Rightarrow> (nat list \<times> nat list) option \<Rightarrow> pyval \<Rightarrow> pyval \<Rightarrow> ('z store_st_scheme, pyval) op" where
  "authentic_payload project delivery_id credentials header payload = (case credentials of
     None \<Rightarrow> ret payload
   | Some (key, body) \<Rightarrow>
       bnd (lift (verify_signature (PBytes key) body header)) (\<lambda>ok.
       if \<not> ok then reject_webhook PNone (lit ''bad signature for '' @ delivery_id) PermissionError
       else catch (lift (signed_payload body payload)) value_like
         (\<lambda>_. reject_webhook (PStr project) (lit ''invalid signed body for delivery '' @ delivery_id) WebhookPayloadError)))"

text \<open>The repository and the installation of the delivery have to be the project's.\<close>

definition check_repository :: "pipeline \<Rightarrow> pstr \<Rightarrow> pstr \<Rightarrow> pstr \<Rightarrow> node \<Rightarrow> envelope \<Rightarrow> ('z store_st_scheme, unit) op" where
  "check_repository pl project name delivery_id prj en =
     (let configured = field_of prj ''repository_id'' in
      if \<not> positive_int configured
      then reject_webhook (PStr project) (lit ''unbound immutable repository id for delivery '' @ delivery_id) PermissionError
      else if name = lit ''installation'' then chk (positive_int (field_of prj ''github_installation_id'')) PermissionError
      else if name = lit ''installation_repositories''
      then bnd (lift (iter_of (case en_repository_ids en of None \<Rightarrow> PList [] | Some v \<Rightarrow> v))) (\<lambda>ids.
           chk (list_ex (py_eq configured) ids) PermissionError)
      else if \<not> positive_int (en_repository_id en) \<or> en_repository_id en \<noteq> configured
      then reject_webhook (PStr project) (lit ''repository id mismatch for '' @ delivery_id @ lit '': expected '' @ pl_repr pl configured
        @ lit '', received '' @ pl_repr pl (en_repository_id en)) PermissionError
      else ret ())"

definition is_int_value :: "pyval \<Rightarrow> bool" where
  "is_int_value v = (case v of PInt _ \<Rightarrow> True | _ \<Rightarrow> False)"

definition check_installation :: "pipeline \<Rightarrow> pstr \<Rightarrow> pstr \<Rightarrow> node \<Rightarrow> envelope \<Rightarrow> ('z store_st_scheme, unit) op" where
  "check_installation pl project delivery_id prj en =
     (let configured = field_of prj ''github_installation_id''; delivered = en_installation_id en in
      if configured \<noteq> PNone \<and> (\<not> positive_int configured \<or> \<not> is_int_value delivered \<or> delivered \<noteq> configured)
      then reject_webhook (PStr project) (lit ''installation id mismatch for '' @ delivery_id @ lit '': expected '' @ pl_repr pl configured
        @ lit '', received '' @ pl_repr pl delivered) PermissionError
      else ret ())"

definition delivery_of :: "envelope \<Rightarrow> pyval \<Rightarrow> delivery" where
  "delivery_of en payload = \<lparr>dl_source_type = en_source_type en, dl_source_id = en_source_id en, dl_key = en_key en,
     dl_authority = en_authority en, dl_observed_at = en_observed_at en, dl_payload = payload\<rparr>"

text \<open>Everything that is checked before the delivery is ingested.\<close>

definition admit_webhook :: "pipeline \<Rightarrow> pstr \<Rightarrow> pyval \<Rightarrow> pyval \<Rightarrow> pyval \<Rightarrow> pyval \<Rightarrow> pyval \<Rightarrow> pyval
    \<Rightarrow> ('z graph_st_scheme, delivery) op" where
  "admit_webhook pl project event_name delivery_id payload raw_body header secret =
     bnd (lift (validate_public_identifier delivery_id)) (\<lambda>did.
     bnd (lift (webhook_credentials secret raw_body header)) (\<lambda>credentials.
     bnd (catch (the_project pl project) (\<lambda>e. e = PermissionError)
       (\<lambda>_. reject_webhook (PStr project) (lit ''unknown project for delivery '' @ did) PermissionError)) (\<lambda>prj.
     bnd (authentic_payload project did credentials header payload) (\<lambda>p.
     bnd (lift (normalize event_name delivery_id p)) (\<lambda>en.
     bnd (check_repository pl project (text_of event_name) did prj en) (\<lambda>_.
     bnd (check_installation pl project did prj en) (\<lambda>_.
     ret (delivery_of en p))))))))"

definition ingest_github :: "pipeline \<Rightarrow> pstr \<Rightarrow> pyval \<Rightarrow> pyval \<Rightarrow> pyval \<Rightarrow> pyval \<Rightarrow> pyval \<Rightarrow> pyval
    \<Rightarrow> ('z policy_st_scheme, (report \<times> pydict) option) op" where
  "ingest_github pl project event_name delivery_id payload raw_body header secret =
     bnd (admit_webhook pl project event_name delivery_id payload raw_body header secret) (ingest pl project)"

definition trace_payload :: "pyval \<Rightarrow> exn + pydict" where
  "trace_payload payload =
     rbind (case payload of PDict d \<Rightarrow> Inr payload | _ \<Rightarrow> Inl ValueError) (\<lambda>v.
     rbind (rcatch (rbind (canonical_json v) (\<lambda>t. strict_json_loads (PStr t))) value_like (\<lambda>_. Inl ValueError)) (\<lambda>w.
     rbind (dict_of w) (\<lambda>d.
     require (case gh_get d ''message'' of PNone \<Rightarrow> True | PStr m \<Rightarrow> length m \<le> 65536 | _ \<Rightarrow> False) ValueError (Inr d))))"

definition ingest_agent_trace :: "pipeline \<Rightarrow> pstr \<Rightarrow> pyval \<Rightarrow> pyval \<Rightarrow> pyval \<Rightarrow> pyval
    \<Rightarrow> ('z policy_st_scheme, (report \<times> pydict) option) op" where
  "ingest_agent_trace pl project session_id span_id payload observed_at =
     bnd (lift (validate_public_identifier (PStr project))) (\<lambda>_.
     bnd (lift (validate_public_identifier span_id)) (\<lambda>span.
     bnd (lift (trace_payload payload)) (\<lambda>d.
     bnd (chk (observed_at = PNone \<or> is_rfc3339_datetime observed_at) ValueError) (\<lambda>_.
     bnd (the_project pl project) (\<lambda>_.
     bnd (if session_id = PNone then ret d
          else bnd (lift (validate_public_identifier session_id)) (\<lambda>sid.
            bnd (absent_is ValueError (get_node sid None (Some (pl_tenant pl)) (Some project) (Some (lit ''session'')))) (\<lambda>_.
            ret (dset d (pkey ''session_id'') (PStr sid))))) (\<lambda>body.
     ingest pl project \<lparr>dl_source_type = lit ''agent_trace'', dl_source_id = PStr span, dl_key = lit ''trace:'' @ span,
       dl_authority = lit ''agent_observed'', dl_observed_at = observed_at, dl_payload = PDict body\<rparr>))))))"

definition decision_scope :: "pyval \<Rightarrow> exn + pyval" where
  "decision_scope scope = (case scope of
     PNone \<Rightarrow> Inr PNone
   | PDict d \<Rightarrow> rcatch (rbind (canonical_json scope) (\<lambda>t. strict_json_loads (PStr t))) value_like (\<lambda>_. Inl ValueError)
   | _ \<Rightarrow> Inl ValueError)"

definition ingest_human_decision :: "pipeline \<Rightarrow> pstr \<Rightarrow> pyval \<Rightarrow> pyval \<Rightarrow> pyval \<Rightarrow> pyval
    \<Rightarrow> ('z policy_st_scheme, (report \<times> pydict) option) op" where
  "ingest_human_decision pl project actor decision scope request_id =
     bnd (lift (validate_public_identifier (PStr project))) (\<lambda>_.
     bnd (chk (solid_text actor) ValueError) (\<lambda>_.
     bnd (lift (validate_human_text PROJECT_NAME_MAX_LENGTH actor)) (\<lambda>who.
     bnd (chk (solid_text decision) ValueError) (\<lambda>_.
     bnd (lift (validate_human_text 4096 decision)) (\<lambda>what.
     bnd (lift (decision_scope scope)) (\<lambda>sc.
     bnd (if request_id = PNone then new_id (lit ''event'') else lift (validate_public_identifier request_id)) (\<lambda>rid.
     bnd (the_project pl project) (\<lambda>_.
     ingest pl project \<lparr>dl_source_type = lit ''human_decision'', dl_source_id = PStr who, dl_key = lit ''cce:'' @ rid,
       dl_authority = lit ''human_decision'', dl_observed_at = PNone,
       dl_payload = PDict [(pkey ''decision'', PStr what), (pkey ''actor'', PStr who), (pkey ''scope'', sc)]\<rparr>))))))))"

subsection \<open>Recording a decision of the owner\<close>

record receipt =
  rc_operation :: pstr
  rc_event_id :: pstr
  rc_confirmation_id :: pstr
  rc_recorded_at :: pstr
  rc_request_digest :: pstr

definition authority_receipt :: "event_row \<Rightarrow> pydict \<Rightarrow> exn + receipt" where
  "authority_receipt e q =
     rbind (confirmation_id e q) (\<lambda>nid. rbind (digest_obj (PDict q)) (\<lambda>d.
     Inr \<lparr>rc_operation = req q ''operation'', rc_event_id = e_id e, rc_confirmation_id = nid, rc_recorded_at = e_recorded_at e,
       rc_request_digest = d\<rparr>))"

definition decision_payload :: "pydict \<Rightarrow> pstr \<Rightarrow> pydict" where
  "decision_payload q d = [(pkey ''schema_version'', PStr AUTHORITY_SCHEMA), (pkey ''request'', PDict q), (pkey ''request_digest'', PStr d),
     (pkey ''authorization_basis'', pkey ''local_store_capability''), (pkey ''operator_label'', pkey ''owner-local'')]"

definition decision_event_args :: "pipeline \<Rightarrow> pstr \<Rightarrow> pstr \<Rightarrow> pyval \<Rightarrow> pyval \<Rightarrow> event_args" where
  "decision_event_args pl project key payload mode =
     \<lparr>x_tenant_id = PStr (pl_tenant pl), x_project_id = PStr project, x_source_type = pkey ''human_decision'',
      x_idempotency_key = PStr key, x_payload = payload, x_authority = pkey ''human_decision'', x_observed_at = PNone,
      x_valid_from = PNone, x_valid_to = PNone, x_actor_type = pkey ''service'', x_actor_id = pkey ''owner-local'',
      x_source_id = PStr AUTHORITY_SOURCE, x_sensitivity = pkey ''internal'', x_capture_mode = mode,
      x_schema_version = pkey ''cce.event.v1'', x_payload_digest = PNone\<rparr>"

text \<open>A request that is already in the log has to be the same request.\<close>

definition repeat_decision :: "pipeline \<Rightarrow> pstr \<Rightarrow> pydict \<Rightarrow> pstr \<Rightarrow> ('z policy_st_scheme, receipt) op" where
  "repeat_decision pl project q eid =
     bnd (get_event eid (Some (pl_tenant pl)) (Some project)) (\<lambda>ev.
     bnd (lift (authority_payload ev)) (\<lambda>q'.
     bnd (chk (py_same (PDict q') (PDict q)) ValueError) (\<lambda>_.
     bnd (require_persisted_marker (e_id (fst ev)) (lit ''ok'') None) (\<lambda>_.
     lift (authority_receipt (fst ev) q)))))"

definition new_decision :: "pipeline \<Rightarrow> pstr \<Rightarrow> pydict \<Rightarrow> pstr \<Rightarrow> ('z policy_st_scheme, receipt) op" where
  "new_decision pl project q key =
     bnd (validate_operands (pl_ae pl) project q) (\<lambda>_.
     bnd (lift (digest_obj (PDict q))) (\<lambda>d.
     let payload = PDict (decision_payload q d) in
     bnd (project_capture_mode pl project) (\<lambda>mode.
     bnd (lift (apply_capture_mode (pl_redactor pl) payload mode)) (\<lambda>(captured_value, kinds, dropped).
     bnd (chk (py_same captured_value payload) ValueError) (\<lambda>_.
     bnd (append_event_in_transaction (decision_event_args pl project key payload mode)) (\<lambda>ev.
     bnd (process_event pl ev) (\<lambda>_.
     bnd (require_persisted_marker (e_id (fst ev)) (lit ''ok'') None) (\<lambda>_.
     bnd (lift (confirmation_id (fst ev) q)) (\<lambda>nid.
     bnd (audit (pkey ''owner-local'') (PStr (lit ''authority.'' @ req q ''operation'')) (PStr nid) PNone PNone PNone (PStr d)) (\<lambda>_.
     lift (authority_receipt (fst ev) q)))))))))))"

definition record_authority_decision :: "pipeline \<Rightarrow> pstr \<Rightarrow> pyval \<Rightarrow> ('z policy_st_scheme, receipt) op" where
  "record_authority_decision pl project request =
     bnd (lift (authority_request request)) (\<lambda>q.
     transaction (
       bnd (the_project pl project) (\<lambda>_.
       bnd (chk (req q ''tenant_id'' = pl_tenant pl \<and> req q ''project_id'' = project) PermissionError) (\<lambda>_.
       let key = AUTHORITY_SOURCE @ lit '':'' @ req q ''request_id'' in
       bnd (rd (\<lambda>s. find (\<lambda>r. e_tenant_id r = pl_tenant pl \<and> e_project_id r = project \<and> e_idempotency_key r = key) (events s))) (\<lambda>old.
       case old of Some r \<Rightarrow> repeat_decision pl project q (e_id r) | None \<Rightarrow> new_decision pl project q key)))))"

end
