(* ===== verification/Quarantine_Props.thy ===== *)
theory Quarantine_Props
  imports Quarantine Graph_Inv
begin

section \<open>resume.py: what the exit withholds\<close>

text \<open>
  Whatever a packet held, nothing of a quarantined node is left in the values of what comes out
  of \<open>strip_quarantined\<close>. Two limits of the barrier are recorded as lemmas: keys of objects
  are not looked at, and a list that holds \<open>None\<close> is changed although nothing matches.
\<close>

subsection \<open>Texts in a value\<close>

text \<open>The strings in the places where \<open>scrub\<close> looks: items of lists and values of objects.\<close>

function strings :: "pyval \<Rightarrow> pstr list" where
  "strings (PStr s) = [s]"
| "strings (PList vs) = concat (map strings vs)"
| "strings (PDict d) = concat (map (\<lambda>(k, v). strings v) d)"
| "strings PNone = []"
| "strings (PBool b) = []"
| "strings (PInt i) = []"
| "strings (PFloat x) = []"
| "strings (PBytes b) = []"
| "strings (PTuple vs) = []"
| "strings PObject = []"
  by pat_completeness auto
termination
  by (relation "measure size")
    (auto simp: less_Suc_eq_le elim!: size_list_estimation')

lemma rmap_member:
  "rmap f xs = Inr ys \<Longrightarrow> y \<in> set ys \<Longrightarrow> \<exists>x \<in> set xs. f x = Inr y"
  by (induction xs arbitrary: ys) (auto simp: rbind_def split: sum.splits)

lemma rbind_Inr: "rbind r f = Inr y \<longleftrightarrow> (\<exists>x. r = Inr x \<and> f x = Inr y)"
  by (auto simp: rbind_def split: sum.splits)

definition clean :: "pstr list \<Rightarrow> pstr list \<Rightarrow> pyval \<Rightarrow> bool" where
  "clean ids texts v \<longleftrightarrow> (\<forall>x \<in> set (strings v). x \<notin> set ids \<and> \<not> text_matches texts x)"

lemma clean_simps [simp]:
  "clean ids texts PNone" "clean ids texts (PBool b)" "clean ids texts (PInt i)" "clean ids texts (PFloat y)"
  "clean ids texts (PBytes c)" "clean ids texts (PTuple vs)" "clean ids texts PObject"
  "clean ids texts (PStr s) \<longleftrightarrow> s \<notin> set ids \<and> \<not> text_matches texts s"
  "clean ids texts (PList vs) \<longleftrightarrow> (\<forall>v \<in> set vs. clean ids texts v)"
  "clean ids texts (PDict d) \<longleftrightarrow> (\<forall>(k, v) \<in> set d. clean ids texts v)"
  by (auto simp: clean_def)

lemma scrub_clean: "scrub ids texts v = Inr (n, v') \<Longrightarrow> clean ids texts v'"
proof (induction ids texts v arbitrary: n v' rule: scrub.induct)
  case (1 ids texts d)
  from 1(2) obtain named where named: "names_quarantined ids d = Inr named" by (auto simp: rbind_Inr)
  show ?case
  proof (cases "named \<or> list_ex (\<lambda>(k, v). matching_text texts v) d")
    case True
    then show ?thesis using 1(2) named by (auto split: if_splits)
  next
    case False
    then obtain xs where xs: "rmap (\<lambda>(k, v). rbind (scrub ids texts v) (\<lambda>(n, v'). Inr (n, k, v'))) d = Inr xs"
      and v': "v' = PDict (map snd xs)"
      using 1(2) named by (auto simp: rbind_Inr)
    have "clean ids texts w" if W: "(k, w) \<in> set (map snd xs)" for k w
    proof -
      obtain m where "(m, k, w) \<in> set xs" using W by auto
      from rmap_member [OF xs this] obtain v where v: "(k, v) \<in> set d" "scrub ids texts v = Inr (m, w)"
        by (auto simp: rbind_Inr)
      then show ?thesis using 1(1) [of named "(k, v)" k v m w] named v False by auto
    qed
    then show ?thesis by (simp only: v' clean_simps) blast
  qed
next
  case (2 ids texts vs)
  then obtain xs where xs: "rmap (scrub ids texts) vs = Inr xs" and v': "v' = PList (filter (\<lambda>v. v \<noteq> PNone) (map snd xs))"
    by (auto simp: rbind_Inr)
  have "clean ids texts (snd x)" if "x \<in> set xs" for x
    using rmap_member [OF xs that] 2(1) by (cases x) auto
  then show ?case by (auto simp: v')
qed (auto split: if_splits)

lemma scrub_packet_clean:
  assumes "scrub_packet ids texts p = Inr (n, q)" "(k, v) \<in> set q" "k \<noteq> pkey ''omissions''"
  shows "clean ids texts v"
proof -
  obtain xs where xs: "rmap (\<lambda>(k, v). if k = pkey ''omissions'' then Inr (0, k, v)
      else rbind (scrub ids texts v) (\<lambda>(n, v'). Inr (n, k, v'))) p = Inr xs" and q: "q = map snd xs"
    using assms(1) by (auto simp: scrub_packet_def rbind_Inr)
  obtain m where "(m, k, v) \<in> set xs" using assms(2) q by auto
  from rmap_member [OF xs this] show ?thesis using assms(3) scrub_clean by (auto simp: rbind_Inr split: if_splits)
qed

lemma disclose_rest:
  assumes "disclose e p = Inr q" "(k, v) \<in> set q" "k \<noteq> pkey ''omissions''"
  shows "(k, v) \<in> set p"
proof -
  have "(k, v) \<in> set p" if "(k, v) \<in> set (dset p (pkey ''omissions'') w)" for w
    using that assms(3) by (induction p) (auto split: if_splits)
  then show ?thesis using assms(1,2) by (auto simp: disclose_def split: option.splits pyval.splits)
qed


subsection \<open>The exit\<close>

text \<open>A node of the project that is quarantined now, and the texts it carries.\<close>

definition is_held :: "pstr \<Rightarrow> pstr option \<Rightarrow> 'z graph_st_scheme \<Rightarrow> node \<Rightarrow> bool" where
  "is_held project tenant s n \<longleftrightarrow> current_node (n_id (nd_row n)) s = Some (nd_row n) \<and> node_dict (nd_row n) = Inr n
     \<and> n_project_id (nd_row n) = project \<and> matches tenant (n_tenant_id (nd_row n))
     \<and> n_status (nd_row n) = Some (lit ''quarantined'')"

text \<open>A string that would carry it out: its identifier, a payload text, or a longer string with a
  payload text of at least 24 characters in it.\<close>

definition leaks :: "node \<Rightarrow> pstr \<Rightarrow> bool" where
  "leaks n x \<longleftrightarrow> x = n_id (nd_row n) \<or> (\<exists>t \<in> set (payload_texts (node_fields n)). x = t \<or> 24 \<le> length t \<and> occurs_in t x)"

lemma leaksD:
  assumes "leaks n x" "n_id (nd_row n) \<in> set ids" "set (payload_texts (node_fields n)) \<subseteq> set texts"
  shows "x \<in> set ids \<or> text_matches texts x"
  using assms unfolding leaks_def text_matches_def substring_patterns_def MIN_SUBSTRING_PATTERN_def
  by (auto simp: list_ex_iff)

lemma bnd_lift_Inr: "bnd (lift r) k s = (Inr y, t) \<longleftrightarrow> (\<exists>x. r = Inr x \<and> k x s = (Inr y, t))"
  by (auto simp: bnd_lift split: sum.splits)

lemma rmap_image: "rmap f xs = Inr ys \<Longrightarrow> x \<in> set xs \<Longrightarrow> \<exists>y \<in> set ys. f x = Inr y"
  by (induction xs arbitrary: ys) (auto simp: rbind_def split: sum.splits)

lemma current_run:
  assumes "current (PStr project) PNone PNone PNone (opt_val tenant) s = (Inr ns, t)"
  shows "t = s" "is_held project tenant s n \<Longrightarrow> n \<in> set ns"
proof -
  have none: "status_filter PNone = Inr None" "validate_optional_datetime PNone = Inr None"
    by (simp_all add: status_filter_def validate_optional_datetime_def)
  obtain ten where ten: "optional_identifier (opt_val tenant) = Inr ten"
    and rows: "rmap node_dict (current_rows project ten None None None (nodes s)) = Inr ns" and "t = s"
    using assms unfolding current_def bnd_lift_Inr none by (auto simp: bnd_rd bnd_lift lift_run split: if_splits)
  then show "t = s" by simp
  have "ten = tenant" using ten by (cases tenant) (auto simp: optional_identifier_def split: sum.splits if_splits)
  moreover assume h: "is_held project tenant s n"
  ultimately have "nd_row n \<in> set (current_rows project ten None None None (nodes s))"
    by (auto simp: is_held_def current_rows_def current_node_def find_Some_iff in_set_conv_nth matches_def)
  from rmap_image [OF rows this] show "n \<in> set ns" using h by (auto simp: is_held_def)
qed

lemma map_each_image:
  assumes "map_each xs f s = (Inr ys, t)" "x \<in> set xs" and "\<And>x. keeps (=) (f x)"
  shows "\<exists>y \<in> set ys. fst (f x s) = Inr y"
  using assms(1,2)
proof (induction xs arbitrary: ys)
  case (Cons a xs)
  then obtain y zs where y: "f a s = (Inr y, s)" and zs: "map_each xs f s = (Inr zs, t)" and ys: "ys = y # zs"
    using keeps_eqD [OF assms(3), of a s] by (auto simp: bnd_eq_Inr ret_def)
  show ?case using Cons.IH [OF zs] Cons.prems(2) y ys by auto
qed simp

text \<open>C33: Nothing quarantined leaves: whatever the packet held, no value left in it outside the
  disclosed omissions is or contains the identifier or the payload of a node of the project
  that is quarantined.\<close>

theorem nothing_quarantined_leaves:
  assumes "strip_quarantined project packet tenant record_audit excluded s = (Inr p, t)"
    and "is_held project tenant s n" and "(k, v) \<in> set p" "k \<noteq> pkey ''omissions''" "x \<in> set (strings v)"
  shows "\<not> leaks n x"
proof -
  obtain ns u where ns: "current (PStr project) PNone PNone PNone (opt_val tenant) s = (Inr ns, u)"
    and rest: "(let ids = held_ids ns in
     if ids = [] then ret packet
     else bnd (map_each ids (\<lambda>i. bnd (get_node i None tenant (Some project) None) (\<lambda>n. ret (payload_texts (node_fields n))))) (\<lambda>tss.
       let texts = concat tss; colliding = collisions_of ids excluded texts ns in
       bnd (lift (scrub_packet ids texts packet)) (\<lambda>(removed, p).
       bnd (lift (if removed = 0 then Inr p else disclose (removal_entry removed) p)) (\<lambda>p.
       if colliding = [] then ret p
       else bnd (lift (disclose (collisions_entry colliding) p)) (\<lambda>p.
         bnd (if record_audit then audit_collision project colliding else ret ()) (\<lambda>_. ret p)))))) u = (Inr p, t)"
    using assms(1) unfolding strip_quarantined_def by (auto simp only: bnd_eq_Inr [of "current _ _ _ _ _"])
  have us: "u = s" and n: "n \<in> set ns" using current_run [OF ns] assms(2) by auto
  have nid: "n_id (nd_row n) \<in> set (held_ids ns)" using n assms(2) by (auto simp: held_ids_def is_held_def)
  then have ne: "held_ids ns \<noteq> []" by auto
  obtain tss w where
      tss: "map_each (held_ids ns) (\<lambda>i. bnd (get_node i None tenant (Some project) None) (\<lambda>n. ret (payload_texts (node_fields n)))) s = (Inr tss, w)"
    and r1: "bnd (lift (scrub_packet (held_ids ns) (concat tss) packet)) (\<lambda>(removed, p).
       bnd (lift (if removed = 0 then Inr p else disclose (removal_entry removed) p)) (\<lambda>p.
       if collisions_of (held_ids ns) excluded (concat tss) ns = [] then ret p
       else bnd (lift (disclose (collisions_entry (collisions_of (held_ids ns) excluded (concat tss) ns)) p)) (\<lambda>p.
         bnd (if record_audit then audit_collision project (collisions_of (held_ids ns) excluded (concat tss) ns) else ret ()) (\<lambda>_. ret p)))) w = (Inr p, t)"
    using rest ne unfolding us Let_def by (auto simp only: if_False bnd_eq_Inr [of "map_each _ _"])
  obtain removed p1 p2 where p1: "scrub_packet (held_ids ns) (concat tss) packet = Inr (removed, p1)"
    and p2: "(if removed = 0 then Inr p1 else disclose (removal_entry removed) p1) = Inr p2"
    and r2: "(if collisions_of (held_ids ns) excluded (concat tss) ns = [] then ret p2
       else bnd (lift (disclose (collisions_entry (collisions_of (held_ids ns) excluded (concat tss) ns)) p2)) (\<lambda>p.
         bnd (if record_audit then audit_collision project (collisions_of (held_ids ns) excluded (concat tss) ns) else ret ()) (\<lambda>_. ret p))) w = (Inr p, t)"
    using r1 unfolding bnd_lift_Inr [of "scrub_packet _ _ _"] by (auto simp only: split_paired_Ex prod.case bnd_lift_Inr [of "if _ = 0 then _ else _"])
  have p: "p = p2 \<or> (\<exists>e. disclose e p2 = Inr p)"
    using r2 by (cases "collisions_of (held_ids ns) excluded (concat tss) ns = []") (auto simp: bnd_lift_Inr lift_run bnd_eq_Inr ret_def)
  have same: "keeps (=) (bnd (get_node i None tenant (Some project) None) (\<lambda>n. ret (payload_texts (node_fields n))))" for i
    by (intro same_intros keeps_get_node_same)
  have "fst (bnd (get_node (n_id (nd_row n)) None tenant (Some project) None) (\<lambda>n. ret (payload_texts (node_fields n))) s)
      = Inr (payload_texts (node_fields n))"
    using assms(2) by (auto simp: is_held_def get_node_def run_simps matches_def bnd_lift)
  then have "payload_texts (node_fields n) \<in> set tss" using map_each_image [OF tss nid same] by auto
  then have texts: "set (payload_texts (node_fields n)) \<subseteq> set (concat tss)" by auto
  have "(k, v) \<in> set p2" using p disclose_rest [OF _ assms(3,4)] assms(3) by blast
  then have "(k, v) \<in> set p1" using p2 disclose_rest [OF _ _ assms(4)] by (auto split: if_splits)
  then have "clean (held_ids ns) (concat tss) v" by (rule scrub_packet_clean [OF p1 _ assms(4)])
  then show ?thesis using leaksD [OF _ nid texts] assms(5) by (auto simp: clean_def)
qed

subsection \<open>Limits of the barrier\<close>

text \<open>A key is not looked at.\<close>

lemma payload_as_key_passes: "scrub ids texts (PDict [(PStr x, PInt i)]) = Inr (0, PDict [(PStr x, PInt i)])"
  if "PStr x \<notin> {pkey ''node_id'', pkey ''claim_id''}"
  using that by (auto simp: names_quarantined_def dget_none_def matching_text_def)

text \<open>A null in a list is taken for a removal.\<close>

lemma null_item_is_dropped: "scrub ids texts (PList [PNone]) = Inr (0, PList [])"
  by simp

end
