(* ===== verification/Process_Ops.thy ===== *)
theory Process_Ops
  imports Process Sessions Quarantine_Props
begin

section \<open>engine.py: what the projection keeps\<close>

text \<open>
  The reads behind the authority check change nothing, and a step relation of the policy's locale is kept by every operation of the pipeline, from the
  recording of one statement to the four ways an event can enter.
\<close>

subsection \<open>Reads\<close>

lemma keeps_history_same: "keeps (=) (history_of a b c :: ('z graph_st_scheme, node list) op)"
  unfolding history_of_def by (intro same_intros)

lemma keeps_case_list: "keeps R m \<Longrightarrow> (\<And>x xs. keeps R (f x xs)) \<Longrightarrow> keeps R (case v of [] \<Rightarrow> m | x # xs \<Rightarrow> f x xs)"
  by (cases v) simp_all

lemma keeps_case_text: "(\<And>e. keeps R (f e)) \<Longrightarrow> keeps R m \<Longrightarrow> keeps R (case v of PStr e \<Rightarrow> f e | _ \<Rightarrow> m)"
  by (cases v) simp_all

lemma keeps_proposal_origin_same: "keeps (=) (proposal_origin ae p i :: ('z graph_st_scheme, _) op)"
  unfolding proposal_origin_def
  by (intro same_intros keeps_history_same keeps_case_list keeps_case_text)

lemma keeps_still_supported_same: "keeps (=) (still_supported ae n e hs :: ('z graph_st_scheme, _) op)"
  by (induction hs) (auto intro!: same_intros)

lemma keeps_proposal_supported_same: "keeps (=) (proposal_supported ae n e :: ('z graph_st_scheme, _) op)"
  unfolding proposal_supported_def by (intro same_intros keeps_history_same keeps_still_supported_same)

lemma keeps_decide_one_same: "keeps (=) (decide_one ae p c st ev :: ('z graph_st_scheme, _) op)"
  unfolding decide_one_def by (intro same_intros keeps_proposal_origin_same)

lemma keeps_decide_all_same: "keeps (=) (decide_all ae p c st es :: ('z graph_st_scheme, _) op)"
  by (induction es arbitrary: st) (auto intro!: same_intros keeps_decide_one_same)

lemma keeps_authority_state_same: "keeps (=) (authority_state ae p c :: ('z graph_st_scheme, _) op)"
  unfolding authority_state_def by (intro same_intros keeps_history_same keeps_decide_all_same)

lemma keeps_or_invalid_same: "keeps (=) m \<Longrightarrow> keeps (=) (or_invalid m)"
  unfolding or_invalid_def by (intro same_intros)

lemma keeps_matches_state_same: "keeps (=) (matches_state ae n c :: ('z graph_st_scheme, _) op)"
  unfolding matches_state_def by (intro same_intros keeps_or_invalid_same keeps_proposal_origin_same keeps_proposal_supported_same)

lemma keeps_authority_is_current_same: "keeps (=) (authority_is_current ae n :: ('z graph_st_scheme, _) op)"
  unfolding authority_is_current_def
  by (intro same_intros keeps_history_same keeps_or_invalid_same keeps_authority_state_same keeps_matches_state_same)

lemma same_run: "keeps (=) m \<Longrightarrow> m s = (Inr x, t) \<Longrightarrow> t = s"
  using keeps_eqD [of m s] by simp

lemma keeps_require_project_node_same: "keeps (=) (require_project_node ae p :: ('z graph_st_scheme, _) op)"
  unfolding require_project_node_def absent_is_def by (intro same_intros keeps_get_node_same)

lemma keeps_authority_proposal_same: "keeps (=) (authority_proposal ae p i :: ('z graph_st_scheme, _) op)"
  unfolding authority_proposal_def
  by (intro same_intros keeps_get_node_same keeps_require_project_node_same keeps_proposal_origin_same keeps_proposal_supported_same)

lemma keeps_authority_invalidation_same: "keeps (=) (authority_invalidation ae p i :: ('z graph_st_scheme, _) op)"
  unfolding authority_invalidation_def absent_is_def by (intro same_intros keeps_get_node_same keeps_require_project_node_same)

lemma keeps_check_scope_task_same: "keeps (=) (check_scope_task ae p i :: ('z graph_st_scheme, _) op)"
  unfolding check_scope_task_def
  by (intro same_intros keeps_get_node_same keeps_or_invalid_same keeps_authority_state_same keeps_authority_is_current_same)

lemma keeps_bound_confirmation_same: "keeps (=) (bound_confirmation ae p q :: ('z graph_st_scheme, _) op)"
  unfolding bound_confirmation_def by (intro same_intros keeps_get_node_same keeps_authority_state_same keeps_authority_is_current_same)

lemma keeps_validate_operands_same: "keeps (=) (validate_operands ae p q :: ('z graph_st_scheme, _) op)"
  unfolding validate_operands_def
  by (intro same_intros keeps_get_node_same keeps_authority_invalidation_same keeps_authority_proposal_same keeps_bound_confirmation_same
      same.keeps_for_each keeps_check_scope_task_same)

subsection \<open>Operations\<close>

context step_relation begin

lemma keeps_of_same: "keeps (=) m \<Longrightarrow> keeps R m"
  by (simp add: keeps_def R_refl)

lemma keeps_fold_ops [keeps_intros]: "(\<And>x r. keeps R (f x r)) \<Longrightarrow> keeps R (fold_ops f xs r)"
  by (induction xs arbitrary: r) (auto intro!: keeps_intros)

lemma keeps_filter_ops [keeps_intros]: "(\<And>x. keeps R (f x)) \<Longrightarrow> keeps R (filter_ops f xs)"
  by (induction xs) (auto intro!: keeps_intros)

lemma keeps_refuse_other [keeps_intros]: "keeps R m \<Longrightarrow> keeps R (refuse_other k m)"
  unfolding refuse_other_def by (intro keeps_intros)

lemma keeps_absent_is [keeps_intros]: "keeps R m \<Longrightarrow> keeps R (absent_is e m)"
  unfolding absent_is_def by (intro keeps_intros)

end

context policy_relation begin

lemmas keeps_reads [keeps_intros] =
  keeps_of_same [OF keeps_authority_is_current_same] keeps_of_same [OF keeps_validate_operands_same]
  keeps_of_same [OF keeps_proposal_origin_same]

lemma keeps_config_field [keeps_intros]: "keeps R (config_field pe p k v)"
  unfolding config_field_def by (intro keeps_intros)

lemma keeps_tracked_ref_basis [keeps_intros]: "keeps R (tracked_ref_basis pe p)"
  unfolding tracked_ref_basis_def by (intro keeps_intros)

lemma keeps_external_verifier_trusted [keeps_intros]: "keeps R (external_verifier_trusted pe p s f)"
  unfolding external_verifier_trusted_def trusted_workflows_def trusted_verifier_apps_def by (intro keeps_intros)

lemma keeps_settle_conflict [keeps_intros]: "keeps R (settle_conflict ae p e o' c w l)"
  unfolding settle_conflict_def by (intro keeps_intros)

lemma keeps_conflict_with [keeps_intros]: "keeps R (conflict_with ae uc p e tg a mine n m rp)"
  unfolding conflict_with_def record_conflict_def by (intro keeps_intros)

lemma keeps_detect [keeps_intros]: "keeps R (detect_near_duplicate_conflict ae uc n rp e tg a)"
  unfolding detect_near_duplicate_conflict_def by (intro keeps_intros)

lemma keeps_require_persisted_marker [keeps_intros]: "keeps R (require_persisted_marker e st er)"
  unfolding require_persisted_marker_def by (intro keeps_intros)

lemma keeps_mark_event_quarantined [keeps_intros]: "keeps R (mark_event_quarantined e)"
  unfolding mark_event_quarantined_def event_terminal_state_def by (intro keeps_intros)

lemma keeps_the_project [keeps_intros]: "keeps R (the_project pl p)"
  unfolding the_project_def by (intro keeps_intros)

lemma keeps_prepare_event [keeps_intros]: "keeps R (prepare_event pl ev)"
  unfolding prepare_event_def by (intro keeps_intros)

lemma keeps_newer_source_blocks [keeps_intros]: "keeps R (newer_source_blocks e r b)"
  unfolding newer_source_blocks_def by (intro keeps_intros)

lemma keeps_record_item [keeps_intros]: "keeps R (record_item pl e b h i rp)"
  unfolding record_item_def by (intro keeps_intros)

lemma keeps_notice_negations [keeps_intros]: "keeps R (notice_negations pl e t rp)"
  unfolding notice_negations_def notice_one_def by (intro keeps_intros)

lemma keeps_withdraw_row [keeps_intros]: "keeps R (withdraw_row pl e b st r rp)"
  unfolding withdraw_row_def withdraw_confirmed_def by (intro keeps_intros)

lemma keeps_process_text [keeps_intros]: "keeps R (process_text pl e b rp)"
  unfolding process_text_def by (intro keeps_intros)

lemma keeps_decided_state [keeps_intros]: "keeps R (decided_state pl e q n st)"
  unfolding decided_state_def by (intro keeps_intros)

lemma keeps_process_authority_decision [keeps_intros]: "keeps R (process_authority_decision pl ev rp)"
  unfolding process_authority_decision_def decide_invalidation_def supports_def after_decision_def by (intro keeps_intros)

lemma keeps_passed_checks [keeps_intros]: "keeps R (passed_checks pl p)"
  unfolding passed_checks_def by (intro keeps_intros)

lemma keeps_process_check [keeps_intros]: "keeps R (process_check pl e f rp)"
  unfolding process_check_def fail_prior_def by (intro keeps_intros)

lemma keeps_process_command [keeps_intros]: "keeps R (process_command e f rp)"
  unfolding process_command_def by (intro keeps_intros)

lemma keeps_push_frontier [keeps_intros]: "keeps R (push_frontier pl e f)"
  unfolding push_frontier_def reject_push_def move_frontier_def stale_external_def by (intro keeps_intros)

lemma keeps_drift_one [keeps_intros]: "keeps R (drift_one pl e dr ms re k rc n rp)"
  unfolding drift_one_def ask_about_drift_def by (intro keeps_intros)

lemma keeps_process_push [keeps_intros]: "keeps R (process_push pl ev f rp)"
  unfolding process_push_def drift_notices_def stale_covered_def by (intro keeps_intros)

lemma keeps_process_block [keeps_intros]: "keeps R (process_block pl e r ob b x)"
  unfolding process_block_def by (intro keeps_intros)

lemma keeps_process_prepared_event [keeps_intros]: "keeps R (process_prepared_event pl ev)"
  unfolding process_prepared_event_def project_event_def process_kind_def by (intro keeps_intros)

lemma keeps_process_event [keeps_intros]: "keeps R (process_event pl ev)"
  unfolding process_event_def by (intro keeps_intros)

lemma keeps_project_capture_mode [keeps_intros]: "keeps R (project_capture_mode pl p)"
  unfolding project_capture_mode_def by (intro keeps_intros)

lemma keeps_unprocessed [keeps_intros]: "keeps R (unprocessed_event_ids p t)"
  unfolding unprocessed_event_ids_def by (intro keeps_intros)

lemma keeps_heal [keeps_intros]: "keeps R (heal pl p e)"
  unfolding heal_def by (intro keeps_intros)

lemma keeps_project_new [keeps_intros]: "keeps R (project_new pl ev)"
  unfolding project_new_def by (intro keeps_intros)

lemma keeps_ingest [keeps_intros]: "keeps R (ingest pl p dl)"
  unfolding ingest_def try_append_def by (intro keeps_intros)

lemma keeps_reject_webhook [keeps_intros]: "keeps R (reject_webhook o' d e)"
  unfolding reject_webhook_def by (intro keeps_intros)

lemma keeps_admit_webhook [keeps_intros]: "keeps R (admit_webhook pl p ev d pd b h sc)"
  unfolding admit_webhook_def authentic_payload_def check_repository_def check_installation_def by (intro keeps_intros)

lemma keeps_ingest_github [keeps_intros]: "keeps R (ingest_github pl p ev d pd b h sc)"
  unfolding ingest_github_def by (intro keeps_intros)

lemma keeps_ingest_agent_trace [keeps_intros]: "keeps R (ingest_agent_trace pl p se sp pd ob)"
  unfolding ingest_agent_trace_def by (intro keeps_intros)

lemma keeps_ingest_human_decision [keeps_intros]: "keeps R (ingest_human_decision pl p a d sc r)"
  unfolding ingest_human_decision_def by (intro keeps_intros)

lemma keeps_record_authority_decision [keeps_intros]: "keeps R (record_authority_decision pl p r)"
  unfolding record_authority_decision_def repeat_decision_def new_decision_def by (intro keeps_intros)

end

end
