(* ===== verification/App.thy ===== *)
theory App
  imports Learning Provenance Engine_Props Process_Ops
begin

section \<open>Sessions of the application\<close>

text \<open>
  \<open>app_relation\<close> extends the step relations of the engine by the two writes that the modules
  above it add: a row of the tier table, and the clearing of raw payloads. The lemmas carry it
  through memory, partial progress, quarantine and learning, and \<open>run_app\<close> runs any session of
  all of them.
\<close>

definition assigned :: "assignment \<Rightarrow> 'z memory_st_scheme \<Rightarrow> 'z memory_st_scheme" where
  "assigned r s = s\<lparr>assignment_seq := Suc (assignment_seq s), assignments := assignments s @ [r]\<rparr>"

definition clear_raw :: "(event_row \<Rightarrow> bool) \<Rightarrow> statement" where
  "clear_raw sel = UpdateEvents [lit ''payload''] sel (\<lambda>x. x\<lparr>e_payload := None\<rparr>)"

text \<open>What \<open>tier_of\<close> reads.\<close>

lemma tier_of_run:
  fixes s :: "'z memory_st_scheme"
  assumes "tier_of mm p n s = (Inr x, t)"
  shows "t = s" "x = (let rows = rows_about p n s in if rows = [] \<or> as_op (last rows) = lit ''demote'' then None else Some (as_tier (last rows)))"
proof -
  obtain u where u: "memory_project mm p s = (Inr (), u)"
    and x: "bnd (rd (rows_about p n)) (\<lambda>rows. ret (if rows = [] \<or> as_op (last rows) = lit ''demote'' then None else Some (as_tier (last rows)))) u = (Inr x, t)"
    using assms by (auto simp: tier_of_def bnd_eq_Inr [of "memory_project _ _"])
  have "u = s" by (rule memory_project_state [OF u])
  then show "t = s" "x = (let rows = rows_about p n s in if rows = [] \<or> as_op (last rows) = lit ''demote'' then None else Some (as_tier (last rows)))"
    using x by (auto simp: run_simps)
qed

lemma rows_about_set: "set (rows_about p n s) \<subseteq> set (assignments s)"
  by (auto simp: rows_about_def)

lemma tier_of_held: "tier_of mm p n s = (Inr (Some h), t) \<Longrightarrow> h \<in> as_tier ` set (assignments s)"
  using tier_of_run(2) [of mm p n s "Some h" t] subsetD [OF rows_about_set [of p n s], of "last (rows_about p n s)"]
  by (auto simp: Let_def split: if_splits)

locale app_relation = clearing_relation R for R :: "'z memory_st_scheme \<Rightarrow> 'z memory_st_scheme \<Rightarrow> bool" +
  assumes R_assigned: "as_seq r = Suc (assignment_seq s) \<Longrightarrow> as_tier r \<in> set TIERS \<union> as_tier ` set (assignments s)
      \<Longrightarrow> as_op r \<in> {lit ''promote'', lit ''demote''} \<Longrightarrow> R s (assigned r s)"
    and R_cleared: "R s (snd (run_statement (clear_raw sel) s))"
begin

lemma keeps_or_absent [keeps_intros]: "keeps R m \<Longrightarrow> keeps R (or_absent m)"
  unfolding or_absent_def by (intro keeps_intros)

lemma keeps_memory_project [keeps_intros]: "keeps R (memory_project mm p)"
  unfolding memory_project_def by (intro keeps_intros)

lemma keeps_memory_node [keeps_intros]: "keeps R (memory_node mm p n)"
  unfolding memory_node_def by (intro keeps_intros)

lemma keeps_found_event [keeps_intros]: "keeps R (found_event t p e)"
  unfolding found_event_def by (intro keeps_intros)

lemma keeps_event_backed [keeps_intros]: "keeps R (event_backed t p n)"
  unfolding event_backed_def by (intro keeps_intros)

lemma keeps_source_ids [keeps_intros]: "keeps R (source_ids c)"
  unfolding source_ids_def by (intro keeps_intros)

lemma keeps_any_source: "(\<And>x w. keeps R (f x w)) \<Longrightarrow> keeps R (any_source f xs w)"
  by (induction xs arbitrary: w) (auto intro!: keeps_intros)

lemma keeps_walk_sources [keeps_intros]: "keeps R (walk_sources may t p n vis c w)"
  by (induction n arbitrary: vis c w) (auto intro!: keeps_intros keeps_any_source)

lemma keeps_has_real_provenance [keeps_intros]: "keeps R (has_real_provenance mm may p n)"
  unfolding has_real_provenance_def by (intro keeps_intros)

lemma record_tier_R:
  assumes "tier \<in> set TIERS \<union> as_tier ` set (assignments s)" "what \<in> {lit ''promote'', lit ''demote''}"
  shows "R s (snd (record_tier p n tier what a re s))"
proof -
  let ?body = "bnd utcnow (\<lambda>now. bnd (add_assignment p n tier what a re now) (\<lambda>_.
       audit (PStr a) (PStr (lit ''memory.'' @ what)) (PStr n) PNone PNone PNone
         (PStr (tier @ lit '': '' @ (case re of None \<Rightarrow> [] | Some r \<Rightarrow> r)))))"
  have body: "R (enter s) (snd (?body (enter s)))"
  proof -
    obtain q u where u: "utcnow (enter s) = (q, u)" by fastforce
    have ru: "R (enter s) u" using R_utcnow [of "enter s"] u by simp
    show ?thesis
    proof (cases q)
      case (Inl e)
      then show ?thesis using u ru by (simp add: bnd_def)
    next
      case (Inr now)
      let ?r = "\<lparr>as_seq = Suc (assignment_seq u), as_project_id = p, as_node_id = n, as_tier = tier, as_op = what,
         as_actor = a, as_reason = re, as_at = now\<rparr>"
      obtain l where l: "u = (enter s)\<lparr>ticks := Suc (ticks (enter s)), last_utcnow := l\<rparr>" using utcnow_run [OF u] .
      have "assignments u = assignments s" by (simp add: l enter_def)
      then have "R u (assigned ?r u)" using assms by (intro R_assigned) auto
      then have r1: "R (enter s) (assigned ?r u)" by (rule R_trans [OF ru])
      have run: "?body (enter s) = audit (PStr a) (PStr (lit ''memory.'' @ what)) (PStr n) PNone PNone PNone
         (PStr (tier @ lit '': '' @ (case re of None \<Rightarrow> [] | Some r \<Rightarrow> r))) (assigned ?r u)"
        using u Inr by (simp add: bnd_def add_assignment_def wr_def assigned_def)
      obtain q' v where v: "audit (PStr a) (PStr (lit ''memory.'' @ what)) (PStr n) PNone PNone PNone
         (PStr (tier @ lit '': '' @ (case re of None \<Rightarrow> [] | Some r \<Rightarrow> r))) (assigned ?r u) = (q', v)" by fastforce
      show ?thesis using R_trans [OF r1 keepsD [OF keeps_audit v]] run v by simp
    qed
  qed
  obtain q v where v: "?body (enter s) = (q, v)" by fastforce
  show ?thesis using body v R_leave [of s v] R_abort [of s v] unfolding record_tier_def transaction_def
    by (cases q) simp_all
qed

lemma keeps_record_tier:
  "tier \<in> set TIERS \<Longrightarrow> what \<in> {lit ''promote'', lit ''demote''} \<Longrightarrow> keeps R (record_tier p n tier what a re)"
  by (simp add: keeps_def record_tier_R)

lemma check_tier_ok: "check_tier v = Inr t \<Longrightarrow> t \<in> set TIERS"
  by (cases v) (auto simp: check_tier_def require_def in_vocabulary_def split: if_splits)

lemma keeps_promote [keeps_intros]: "keeps R (promote mm may p n t a re)"
  unfolding promote_def
  by (intro keeps_bnd_lift keeps_bnd keeps_chk keeps_rd keeps_memory_node keeps_if keeps_has_real_provenance keeps_ret
      keeps_record_tier) (auto dest: check_tier_ok)

lemma keeps_tier_of [keeps_intros]: "keeps R (tier_of mm p n)"
  unfolding tier_of_def by (intro keeps_intros)

lemma keeps_demote [keeps_intros]: "keeps R (demote mm p n t a re)"
  unfolding demote_def
  by (intro keeps_bnd_lift keeps_bnd keeps_chk keeps_memory_node keeps_tier_of keeps_case_option keeps_ret
      keeps_record_tier) (auto dest: check_tier_ok)

lemma keeps_demote_from_any_tier [keeps_intros]: "keeps R (demote_from_any_tier mm p n a re)"
proof (rule keepsI)
  fix s
  show "R s (snd (demote_from_any_tier mm p n a re s))"
  proof (cases "fst (memory_node mm p n s)")
    case (Inl e)
    then show ?thesis using keepsD [OF keeps_memory_node, of mm p n s]
      by (cases "memory_node mm p n s") (simp add: demote_from_any_tier_def bnd_def)
  next
    case (Inr nd)
    then obtain u where u: "memory_node mm p n s = (Inr nd, u)" by (cases "memory_node mm p n s") auto
    have us: "u = s" by (rule memory_node_run(1) [OF u])
    obtain q v where v: "tier_of mm p n s = (q, v)" by fastforce
    have rv: "R s v" by (rule keepsD [OF keeps_tier_of v])
    show ?thesis
    proof (cases q)
      case (Inl e)
      then show ?thesis using u us v rv by (simp add: demote_from_any_tier_def bnd_def)
    next
      case (Inr x)
      have vs: "v = s" using tier_of_run(1) v Inr by blast
      show ?thesis
      proof (cases x)
        case None
        then show ?thesis using u us v vs Inr R_refl by (simp add: demote_from_any_tier_def bnd_def ret_def)
      next
        case (Some h)
        have h: "h \<in> as_tier ` set (assignments s)" using tier_of_held v Inr Some by blast
        have "R s (snd (record_tier p n h (lit ''demote'') a (Some re) s))" by (rule record_tier_R) (use h in auto)
        then show ?thesis using u us v vs Inr Some
          by (cases "record_tier p n h (lit ''demote'') a (Some re) s") (auto simp: demote_from_any_tier_def bnd_def ret_def split: sum.split)
      qed
    qed
  qed
qed

lemma keeps_admitted [keeps_intros]: "keeps R (admitted may t p tier n)"
  unfolding admitted_def by (intro keeps_intros)

lemma keeps_keep_admitted [keeps_intros]: "(\<And>x. keeps R (ok x)) \<Longrightarrow> keeps R (keep_admitted ok ns)"
  by (induction ns) (auto intro!: keeps_intros)

lemma keeps_tier_members [keeps_intros]: "keeps R (tier_members mm may p t ten)"
  unfolding tier_members_def by (intro keeps_intros)

lemma keeps_l0 [keeps_intros]: "keeps R (l0 mm may p ten)"
  unfolding l0_def by (intro keeps_intros)

lemma keeps_checkpoint [keeps_intros]: "keeps R (checkpoint mm may ten p sid l w e v)"
  unfolding checkpoint_def by (intro keeps_intros)

lemma keeps_last_safe_checkpoint [keeps_intros]: "keeps R (last_safe_checkpoint mm p)"
  unfolding last_safe_checkpoint_def by (intro keeps_intros)

lemma keeps_given_now [keeps_intros]: "keeps R (given_now v)"
  unfolding given_now_def by (intro keeps_intros)

lemma keeps_near_anchors [keeps_intros]: "keeps R (near_anchors as d)"
  by (induction as arbitrary: d) (auto simp: near_anchor_def intro!: keeps_intros)

lemma keeps_retrieve [keeps_intros]: "keeps R (retrieve mm may hp p q an l now hl ten)"
  unfolding retrieve_def by (intro keeps_intros)

lemma keeps_export [keeps_intros]: "keeps R (export mm may p)"
  unfolding export_def by (intro keeps_intros)

lemma keeps_correct [keeps_intros]: "keeps R (correct mm p n c a e)"
  unfolding correct_def by (intro keeps_intros)

lemma keeps_clear_payloads [keeps_intros]: "keeps R (clear_payloads c d rs k)"
  by (induction rs arbitrary: k) (auto simp: keeps_def [of R "run_statement _"] R_cleared [unfolded clear_raw_def] intro!: keeps_intros)

lemma keeps_sweep_retention [keeps_intros]: "keeps R (sweep_retention mm d now a)"
  unfolding sweep_retention_def by (intro keeps_intros)

text \<open>Partial progress and quarantine.\<close>

lemma keeps_audit_collision [keeps_intros]: "keeps R (audit_collision p ns)"
  unfolding audit_collision_def by (intro keeps_intros)

lemma keeps_strip_quarantined [keeps_intros]: "keeps R (strip_quarantined p pk t ra ex)"
  unfolding strip_quarantined_def by (intro keeps_intros)

lemma keeps_require_quarantine_free [keeps_intros]: "keeps R (require_quarantine_free t p c)"
  unfolding require_quarantine_free_def by (intro keeps_intros)

lemma keeps_manager_project [keeps_intros]: "keeps R (manager_project b p)"
  unfolding manager_project_def by (intro keeps_intros)

lemma keeps_manager_node [keeps_intros]: "keeps R (manager_node b n k)"
  unfolding manager_node_def by (intro keeps_intros)

lemma keeps_own_node [keeps_intros]: "keeps R (own_node b p n k)"
  unfolding own_node_def by (intro keeps_intros)

lemma keeps_record_outcome [keeps_intros]: "keeps R (record_outcome pm a)"
  unfolding record_outcome_def by (intro keeps_intros)

lemma keeps_quarantine [keeps_intros]: "keeps R (quarantine pm n a re e)"
  unfolding quarantine_def by (intro keeps_intros)

lemma keeps_record_rollback [keeps_intros]: "keeps R (record_rollback pm t p a c st d e)"
  unfolding record_rollback_def by (intro keeps_intros)

lemma keeps_recovery_packet [keeps_intros]: "keeps R (recovery_packet pm may ps p sid)"
  unfolding recovery_packet_def Let_def by (intro keeps_intros)

text \<open>Learning.\<close>

lemma keeps_manager_event [keeps_intros]: "keeps R (manager_event e t p)"
  unfolding manager_event_def by (intro keeps_intros)

lemma keeps_list_events [keeps_intros]: "keeps R (list_events p (PInt n) t)"
  unfolding list_events_def pyval.case by (intro keeps_intros)

lemma keeps_start_replay [keeps_intros]: "keeps R (start_replay b t p e ci ms fk)"
  unfolding start_replay_def by (intro keeps_intros)

lemma keeps_record_result [keeps_intros]: "keeps R (record_result b n d out)"
  unfolding record_result_def by (intro keeps_intros)

lemma keeps_compost [keeps_intros]: "keeps R (compost uc rp b t p d st sid tr ov)"
  unfolding compost_def by (intro keeps_intros)

lemma keeps_clusters [keeps_intros]: "keeps R (clusters b p)"
  unfolding clusters_def by (intro keeps_intros)

lemma keeps_from_failure [keeps_intros]: "keeps R (from_failure ps b f wh)"
  unfolding from_failure_def reuse_eval_def link_to_failure_def by (intro keeps_intros)

lemma keeps_propose [keeps_intros]: "keeps R (propose b t p nm d fs ts rb)"
  unfolding propose_def by (intro keeps_intros)

lemma keeps_approve [keeps_intros]: "keeps R (approve b sk a ev)"
  unfolding approve_def by (intro keeps_intros)

end

subsection \<open>Calls and sessions\<close>

datatype app_call =
    AEngine engine_call
  | APromote memory pstr pstr pyval pstr "pstr option"
  | ADemote memory pstr pstr pyval pstr "pstr option"
  | AVacate memory pstr pstr pstr pstr
  | ACheckpoint memory "pstr option" pstr pyval pyval pyval pyval pyval
  | ARetrieve memory "rat \<Rightarrow> rat" pstr pyval pyval pyval pyval pyval "pstr option"
  | AExport memory pstr
  | ACorrect memory pstr pstr pyval pyval pyval
  | ASweep memory pyval pyval pyval
  | AOutcome manager outcome_args
  | AQuarantine manager pstr pstr pstr pyval
  | ARollback manager pstr pstr pstr pyval pyval pyval pyval
  | ARecovery manager "pyval \<Rightarrow> pstr" pstr pyval
  | AReplay "pstr option" pstr pstr pstr pyval pyval pyval
  | AResult "pstr option" pstr pyval pyval
  | ACompost unicode "pyval \<Rightarrow> pstr" "pstr option" pstr pstr pyval pyval "pstr option" pyval pyval
  | AEval "pyval \<Rightarrow> pstr" "pstr option" pstr pyval
  | APropose "pstr option" pstr pstr pyval pyval "pstr list" pyval pyval
  | AApprove "pstr option" pstr pyval pyval
  | AGithub pipeline pstr pyval pyval pyval pyval pyval pyval
  | ATrace pipeline pstr pyval pyval pyval pyval
  | ADecision pipeline pstr pyval pyval pyval pyval
  | AProcess pipeline event_row pyval
  | AAuthority pipeline pstr pyval
  | ATransaction "app_call list"

fun run_app_call :: "(node \<Rightarrow> 'z memory_st_scheme \<Rightarrow> bool) \<Rightarrow> app_call \<Rightarrow> ('z memory_st_scheme, unit) op"
and run_app_calls :: "(node \<Rightarrow> 'z memory_st_scheme \<Rightarrow> bool) \<Rightarrow> app_call list \<Rightarrow> ('z memory_st_scheme, unit) op" where
  "run_app_call may (AEngine c) = run_engine_call may c"
| "run_app_call may (APromote mm p n t a re) = promote mm may p n t a re"
| "run_app_call may (ADemote mm p n t a re) = ignore (demote mm p n t a re)"
| "run_app_call may (AVacate mm p n a re) = ignore (demote_from_any_tier mm p n a re)"
| "run_app_call may (ACheckpoint mm ten p sid l w e v) = ignore (checkpoint mm may ten p sid l w e v)"
| "run_app_call may (ARetrieve mm hp p q an l now hl ten) = ignore (retrieve mm may hp p q an l now hl ten)"
| "run_app_call may (AExport mm p) = ignore (export mm may p)"
| "run_app_call may (ACorrect mm p n c a e) = ignore (correct mm p n c a e)"
| "run_app_call may (ASweep mm d now a) = ignore (sweep_retention mm d now a)"
| "run_app_call may (AOutcome pm a) = ignore (record_outcome pm a)"
| "run_app_call may (AQuarantine pm n a re e) = ignore (quarantine pm n a re e)"
| "run_app_call may (ARollback pm t p a c st d e) = ignore (record_rollback pm t p a c st d e)"
| "run_app_call may (ARecovery pm ps p sid) = ignore (recovery_packet pm may ps p sid)"
| "run_app_call may (AReplay b t p e ci ms fk) = ignore (start_replay b t p e ci ms fk)"
| "run_app_call may (AResult b n d out) = ignore (record_result b n d out)"
| "run_app_call may (ACompost uc rp b t p d st sid tr ov) = ignore (compost uc rp b t p d st sid tr ov)"
| "run_app_call may (AEval ps b f wh) = ignore (from_failure ps b f wh)"
| "run_app_call may (APropose b t p nm d fs ts rb) = ignore (propose b t p nm d fs ts rb)"
| "run_app_call may (AApprove b sk a ev) = ignore (approve b sk a ev)"
| "run_app_call may (AGithub pl p ev d pd b h sc) = ignore (ingest_github pl p ev d pd b h sc)"
| "run_app_call may (ATrace pl p se sp pd ob) = ignore (ingest_agent_trace pl p se sp pd ob)"
| "run_app_call may (ADecision pl p a d sc r) = ignore (ingest_human_decision pl p a d sc r)"
| "run_app_call may (AProcess pl e d) = ignore (process_event pl (e, d))"
| "run_app_call may (AAuthority pl p r) = ignore (record_authority_decision pl p r)"
| "run_app_call may (ATransaction cs) = transaction (run_app_calls may cs)"
| "run_app_calls may [] = ret ()"
| "run_app_calls may (c # cs) = bnd (run_app_call may c) (\<lambda>_. run_app_calls may cs)"

fun run_app :: "(node \<Rightarrow> 'z memory_st_scheme \<Rightarrow> bool) \<Rightarrow> app_call list \<Rightarrow> 'z memory_st_scheme \<Rightarrow> 'z memory_st_scheme" where
  "run_app may [] s = s"
| "run_app may (c # cs) s = run_app may cs (snd (run_app_call may c s))"

context app_relation begin

lemma keeps_app_call: "keeps R (run_app_call may c)"
  and keeps_app_calls: "keeps R (run_app_calls may cs)"
  by (induction may c and may cs rule: run_app_call_run_app_calls.induct)
    (auto intro!: keeps_intros keeps_engine_call)

lemma run_app_R: "R s (run_app may cs s)"
proof (induction cs arbitrary: s)
  case (Cons c cs)
  have "R s (snd (run_app_call may c s))" using keeps_app_call by (simp add: keeps_def)
  then show ?case using Cons by (auto intro: R_trans)
qed (simp add: R_refl)

end

subsection \<open>What sessions keep\<close>

lemma cleared_run:
  fixes s :: "'z store_st_scheme"
  shows "snd (run_statement (clear_raw sel) s) = s\<lparr>events := map (\<lambda>r. if sel r then r\<lparr>e_payload := None\<rparr> else r) (events s)\<rparr>"
proof -
  have imm: "lit ''payload'' \<notin> set EVENT_IMMUTABLE" by code_simp
  show ?thesis
    using imm by (simp add: clear_raw_def run_statement_def run_simps set_only_payload Let_def cong: if_cong)
qed

lemma redacted_cleared: "list_all2 redacted_from xs (map (\<lambda>r. if sel r then r\<lparr>e_payload := None\<rparr> else r) xs)"
  by (rule list_all2_map_self) (simp add: redacted_from_def)

lemma events_ok_cleared:
  assumes "events_ok s"
  shows "events_ok (snd (run_statement (clear_raw sel) s))"
proof -
  let ?f = "\<lambda>r. if sel r then r\<lparr>e_payload := None\<rparr> else r"
  have "map e_seq (map ?f (events s)) = map e_seq (events s)" by simp
  moreover obtain t where "chained GENESIS (map event_link (map ?f (events s))) t"
    using assms redacted_from_chained [OF redacted_cleared] unfolding events_ok_def by blast
  ultimately show ?thesis using assms by (auto simp: cleared_run events_ok_def simp del: map_map)
qed

interpretation app_events: app_relation "kept events_ok"
  by unfold_locales (simp_all add: kept_def events_ok_cleared, simp_all add: events_ok_def assigned_def)

interpretation app_audit: app_relation "kept audit_ok"
  by unfold_locales (simp_all add: kept_def audit_ok_def assigned_def cleared_run)

interpretation app_keys: app_relation "kept keys_ok"
  by unfold_locales (simp_all add: kept_def keys_ok_def assigned_def cleared_run comp_def delivery_key_def [abs_def] if_distrib cong: if_cong)

interpretation app_evidence: app_relation "kept evidence_ok"
  by unfold_locales (simp_all add: kept_def evidence_ok_def assigned_def cleared_run)

interpretation app_graph: app_relation graph_history
  by unfold_locales (auto simp: assigned_def cleared_run graph_history_def grown_def node_table.extends_refl edge_table.extends_refl tables_ok_def)

text \<open>The tier table: rows are numbered from one and name declared tiers and operations.\<close>

definition tiers_ok :: "'z memory_st_scheme \<Rightarrow> bool" where
  "tiers_ok s \<longleftrightarrow> map as_seq (assignments s) = [1..<Suc (assignment_seq s)]
     \<and> (\<forall>r \<in> set (assignments s). as_tier r \<in> set TIERS \<and> as_op r \<in> {lit ''promote'', lit ''demote''})"

text \<open>A relation that only looks at the tables beyond the policy's is kept by everything below.\<close>

locale view_relation = step_relation R for R :: "'z policy_st_scheme \<Rightarrow> 'z policy_st_scheme \<Rightarrow> bool" +
  assumes R_view: "policy_st.more s = policy_st.more t \<Longrightarrow> R s t"

lemma more_tables: "tables s = tables (t :: 'z policy_st_scheme) \<Longrightarrow> policy_st.more s = policy_st.more t"
  by (cases s; cases t) simp

lemma more_beyond: "store_st.more s = store_st.more (t :: 'z policy_st_scheme) \<Longrightarrow> policy_st.more s = policy_st.more t"
  by (cases s; cases t) simp

lemma more_beside:
  fixes s u :: "'z policy_st_scheme"
  assumes "utcnow s = (Inr now, u)"
  shows "policy_st.more (u\<lparr>nodes := ns, node_rows := k, drawn := d\<rparr>) = policy_st.more s"
    "policy_st.more (u\<lparr>edges := es, edge_rows := k, drawn := d\<rparr>) = policy_st.more s"
  using more_tables [OF utcnow_tables [OF assms]] by simp_all

sublocale view_relation \<subseteq> tables_relation
  by unfold_locales (rule R_view, rule more_tables)

sublocale view_relation \<subseteq> beyond_relation
  by unfold_locales (rule R_view, rule more_beyond, rule sym)

sublocale view_relation \<subseteq> clearing_relation
  by unfold_locales (rule R_view, (rule more_beside [symmetric], assumption | simp))+

lemma more_assigned: "policy_st.more (snd (run_statement (clear_raw sel) s)) = policy_st.more (s :: 'z policy_st_scheme)"
  by (simp add: cleared_run)

lemma tiers_view:
  fixes s t :: "'z memory_st_scheme"
  assumes "policy_st.more s = policy_st.more t"
  shows "assignments s = assignments t" "assignment_seq s = assignment_seq t"
  using assms by (cases s; cases t; simp)+

interpretation app_tiers: view_relation "kept (tiers_ok :: 'z memory_st_scheme \<Rightarrow> bool)"
proof unfold_locales
  fix s t :: "'z memory_st_scheme"
  assume "policy_st.more s = policy_st.more t"
  from tiers_view [OF this] show "kept tiers_ok s t" by (simp add: kept_def tiers_ok_def)
qed

interpretation app_tiers: app_relation "kept (tiers_ok :: 'z memory_st_scheme \<Rightarrow> bool)"
proof unfold_locales
  fix s :: "'z memory_st_scheme" and r sel
  show "as_seq r = Suc (assignment_seq s) \<Longrightarrow> as_tier r \<in> set TIERS \<union> as_tier ` set (assignments s)
      \<Longrightarrow> as_op r \<in> {lit ''promote'', lit ''demote''} \<Longrightarrow> kept tiers_ok s (assigned r s)"
    by (auto simp: kept_def tiers_ok_def assigned_def)
  show "kept tiers_ok s (snd (run_statement (clear_raw sel) s))"
    by (rule app_tiers.R_view) (simp add: more_assigned)
qed

text \<open>And it only grows.\<close>

definition tiers_grow :: "'z memory_st_scheme \<Rightarrow> 'z memory_st_scheme \<Rightarrow> bool" where
  "tiers_grow s t \<longleftrightarrow> prefix (assignments s) (assignments t)"

interpretation tiers_grow: step_relation tiers_grow
  by unfold_locales (auto simp: tiers_grow_def)

interpretation tiers_grow: view_relation "tiers_grow :: 'z memory_st_scheme \<Rightarrow> _"
proof unfold_locales
  fix s t :: "'z memory_st_scheme"
  assume "policy_st.more s = policy_st.more t"
  from tiers_view [OF this] show "tiers_grow s t" by (simp add: tiers_grow_def)
qed

interpretation tiers_grow: app_relation "tiers_grow :: 'z memory_st_scheme \<Rightarrow> _"
proof unfold_locales
  fix s :: "'z memory_st_scheme" and r sel
  show "tiers_grow s (assigned r s)" by (simp add: tiers_grow_def assigned_def)
  show "tiers_grow s (snd (run_statement (clear_raw sel) s))"
    by (rule tiers_grow.R_view) (simp add: more_assigned)
qed

definition empty_app :: "env \<Rightarrow> memory_st" where
  "empty_app e = \<lparr>last_utcnow = last_utcnow e, wall = wall e, ticks = ticks e, tokens = tokens e, drawn = drawn e,
     depth = 0, events = [], event_seq = 0, payload_mismatches = [], evidence_blobs = [], processed_events = [],
     audit_log = [], audit_seq = 0, chain_lock = 0, nodes = [], node_rows = 0, edges = [], edge_rows = 0,
     grants = [], downgrades = [], downgrade_seq = 0, project_policy = [], assignments = [], assignment_seq = 0\<rparr>"

lemma empty_app_ok:
  "events_ok (empty_app e)" "audit_ok (empty_app e)" "keys_ok (empty_app e)" "evidence_ok (empty_app e)"
  "tables_ok (empty_app e)" "tiers_ok (empty_app e)"
  by (simp_all add: events_ok_def audit_ok_def keys_ok_def evidence_ok_def empty_app_def tables_ok_def versions_ok_def of_key_def
      chain_ok_def tiers_ok_def)

text \<open>C4: The state stays well formed under every operation of the application: from an empty
  database, whatever a client does through ingestion, the projection of events, decisions of the owner,
  the graph, policy and invalidation engines, memory, partial progress, quarantine, learning and
  retention, with any nesting and failing of operations, both hash chains verify,
  count every row and report the hash of the last one, event identifiers and delivery keys are unique, evidence rows hold what
  their digest names, versions of nodes and edges are gapless with at most the last open, and
  the tier table is numbered from one and names only declared tiers and operations.\<close>

theorem application_state_stays_well_formed:
  "(\<exists>m. verify_chain (lit ''events'') (run_app may cs (empty_app e))
        = Inr (Intact (length (events (run_app may cs (empty_app e)))) (events_tip (run_app may cs (empty_app e))) m))
   \<and> (\<exists>m. verify_chain (lit ''audit_log'') (run_app may cs (empty_app e))
        = Inr (Intact (length (audit_log (run_app may cs (empty_app e)))) (audit_tip (run_app may cs (empty_app e))) m))
   \<and> keys_ok (run_app may cs (empty_app e)) \<and> evidence_ok (run_app may cs (empty_app e))
   \<and> tables_ok (run_app may cs (empty_app e)) \<and> tiers_ok (run_app may cs (empty_app e))"
proof -
  let ?s = "run_app may cs (empty_app e)"
  have ok: "events_ok ?s" "audit_ok ?s" and rest: "keys_ok ?s" "evidence_ok ?s" "tables_ok ?s" "tiers_ok ?s"
    using app_events.run_app_R [of "empty_app e" may cs] app_audit.run_app_R [of "empty_app e" may cs]
      app_keys.run_app_R [of "empty_app e" may cs] app_evidence.run_app_R [of "empty_app e" may cs]
      app_graph.run_app_R [of "empty_app e" may cs] app_tiers.run_app_R [of "empty_app e" may cs] empty_app_ok [of e]
    by (simp_all add: kept_def graph_history_def grown_def)
  have "chained GENESIS (chain_rows (lit ''events'') ?s) (events_tip ?s)"
    "chained GENESIS (chain_rows (lit ''audit_log'') ?s) (audit_tip ?s)"
    using events_tip_ok [OF ok(1)] audit_tip_ok [OF ok(2)] by (simp_all add: chain_rows_ok ok)
  then show ?thesis
    using verify_chain_intact [of "lit ''events''" ?s] verify_chain_intact [of "lit ''audit_log''" ?s] rest
    by (simp add: chain_rows_ok ok)
qed

end
