(* ===== verification/Tiers.thy ===== *)
theory Tiers
  imports App
begin

section \<open>memory.py: the tier table as a map\<close>

text \<open>
  \<open>tier_map\<close> is what the append-only table means: which tier holds a node of a project now.
  Promotions and demotions update it as their names say, \<open>tier_of\<close> reads it, and
  \<open>tier_members\<close> lists exactly the nodes it gives a tier that are admitted to it.
\<close>

definition tier_map :: "'z memory_st_scheme \<Rightarrow> pstr \<times> pstr \<Rightarrow> pstr option" where
  "tier_map s = fold (\<lambda>r m. m((as_project_id r, as_node_id r) := tier_held r)) (assignments s) Map.empty"

lemma fold_update:
  "fold (\<lambda>r m. m(f r := g r)) rs m k = (let qs = filter (\<lambda>r. f r = k) rs in if qs = [] then m k else g (last qs))"
  by (induction rs arbitrary: m) (auto simp: Let_def)

lemma tier_map_last:
  "tier_map s (p, n) = (let qs = filter (\<lambda>r. as_project_id r = p \<and> as_node_id r = n) (assignments s)
     in if qs = [] then None else tier_held (last qs))"
  by (simp add: tier_map_def fold_update)

lemma tiers_sorted: "tiers_ok s \<Longrightarrow> sort_key as_seq (assignments s) = assignments s"
  by (intro sort_key_id_if_sorted) (simp add: tiers_ok_def sorted_upt del: upt_Suc)

lemma tier_of_reads:
  assumes "tiers_ok s" "tier_of mm p n s = (Inr x, t)"
  shows "t = s" "x = tier_map s (p, n)"
proof -
  have rows: "rows_about p n s = filter (\<lambda>r. as_project_id r = p \<and> as_node_id r = n) (assignments s)"
    by (simp add: rows_about_def tiers_sorted [OF assms(1)])
  have "as_op (last (rows_about p n s)) \<in> {lit ''promote'', lit ''demote''}" if "rows_about p n s \<noteq> []"
    using that rows_about_set [of p n s] last_in_set [OF that] assms(1) unfolding tiers_ok_def by blast
  moreover have "lit ''promote'' \<noteq> lit ''demote''" by code_simp
  ultimately show "t = s" "x = tier_map s (p, n)"
    using tier_of_run [OF assms(2)] by (auto simp: tier_map_last rows [symmetric] tier_held_def Let_def)
qed

subsection \<open>Writing a row\<close>

definition same_view :: "'z policy_st_scheme \<Rightarrow> 'z policy_st_scheme \<Rightarrow> bool" where
  "same_view s t \<longleftrightarrow> policy_st.more s = policy_st.more t"

interpretation same_view: view_relation same_view
  by unfold_locales (auto simp: same_view_def)

lemma same_view_tiers: "same_view s t \<Longrightarrow> assignments t = assignments s \<and> assignment_seq t = assignment_seq s"
  using tiers_view [of s t] by (simp add: same_view_def)

lemma record_tier_run:
  fixes s :: "'z memory_st_scheme"
  assumes "record_tier p n tier what a re s = (Inr (), t)"
  obtains r where "assignments t = assignments s @ [r]" "as_project_id r = p" "as_node_id r = n" "as_tier r = tier" "as_op r = what"
proof -
  obtain u where body: "bnd utcnow (\<lambda>now. bnd (add_assignment p n tier what a re now) (\<lambda>_.
       audit (PStr a) (PStr (lit ''memory.'' @ what)) (PStr n) PNone PNone PNone
         (PStr (tier @ lit '': '' @ (case re of None \<Rightarrow> [] | Some r \<Rightarrow> r))))) (enter s) = (Inr (), u)" and t: "t = leave s u"
    using assms unfolding record_tier_def transaction_eq_Inr by blast
  obtain now v where v: "utcnow (enter s) = (Inr now, v)"
    and rest: "bnd (add_assignment p n tier what a re now) (\<lambda>_. audit (PStr a) (PStr (lit ''memory.'' @ what)) (PStr n) PNone PNone PNone
         (PStr (tier @ lit '': '' @ (case re of None \<Rightarrow> [] | Some r \<Rightarrow> r)))) v = (Inr (), u)"
    using body unfolding bnd_eq_Inr [of utcnow] by blast
  let ?r = "\<lparr>as_seq = Suc (assignment_seq v), as_project_id = p, as_node_id = n, as_tier = tier, as_op = what,
         as_actor = a, as_reason = re, as_at = now\<rparr>"
  have au: "audit (PStr a) (PStr (lit ''memory.'' @ what)) (PStr n) PNone PNone PNone
         (PStr (tier @ lit '': '' @ (case re of None \<Rightarrow> [] | Some r \<Rightarrow> r))) (assigned ?r v) = (Inr (), u)"
    using rest by (simp add: bnd_def add_assignment_def wr_def assigned_def)
  obtain l where l: "v = (enter s)\<lparr>ticks := Suc (ticks (enter s)), last_utcnow := l\<rparr>" using utcnow_run [OF v] .
  have "assignments v = assignments s" by (simp add: l enter_def)
  moreover have "assignments u = assignments (assigned ?r v)"
    using same_view_tiers [OF keepsD [OF same_view.keeps_audit au]] by simp
  ultimately have "assignments t = assignments s @ [?r]" by (simp add: t leave_def assigned_def)
  then show thesis by (rule that) simp_all
qed

lemma tier_map_snoc:
  assumes "assignments t = assignments s @ [r]"
  shows "tier_map t = (tier_map s)((as_project_id r, as_node_id r) := tier_held r)"
  by (simp add: tier_map_def assms)

lemma has_real_provenance_tables:
  fixes s :: "'z memory_st_scheme"
  assumes "has_real_provenance mm may p n s = (Inr b, t)"
  shows "tables t = tables s"
proof -
  obtain nd v where nd: "memory_node mm p n s = (Inr nd, s)"
    and w: "walk_sources may (n_tenant_id (nd_row nd)) p (Suc MAX_WALK) [] n \<lparr>wk_memo = [], wk_discovered = []\<rparr> s = (Inr (b, v), t)"
    by (rule has_real_provenance_run [OF assms])
  show ?thesis using walk_sound [OF w refl] by (simp add: memo_true_def)
qed

lemma promote_run:
  fixes s :: "'z memory_st_scheme"
  assumes "promote mm may p n tier a re s = (Inr (), t)"
  obtains nd x u where "memory_node mm p n s = (Inr nd, s)" "check_tier tier = Inr x" "\<not> quarantined nd"
    "x = lit ''L0'' \<longrightarrow> l0_is_binding may nd s" "x = lit ''L3'' \<longrightarrow> has_real_provenance mm may p n s = (Inr True, u)"
    "tables u = tables s" "record_tier p n x (lit ''promote'') a re u = (Inr (), t)"
proof -
  obtain x where x: "check_tier tier = Inr x"
    and r1: "bnd (memory_node mm p n) (\<lambda>n'. bnd (chk (\<not> quarantined n') ValueError) (\<lambda>_.
     bnd (rd (l0_is_binding may n')) (\<lambda>binding. bnd (chk (x = lit ''L0'' \<longrightarrow> binding) ValueError) (\<lambda>_.
     bnd (if x = lit ''L3'' then has_real_provenance mm may p n else ret True) (\<lambda>supported.
     bnd (chk supported ValueError) (\<lambda>_. record_tier p n x (lit ''promote'') a re)))))) s = (Inr (), t)"
    using assms unfolding promote_def bnd_lift by (cases "check_tier tier") auto
  obtain nd s' where nd: "memory_node mm p n s = (Inr nd, s')"
    and r2: "bnd (chk (\<not> quarantined nd) ValueError) (\<lambda>_.
     bnd (rd (l0_is_binding may nd)) (\<lambda>binding. bnd (chk (x = lit ''L0'' \<longrightarrow> binding) ValueError) (\<lambda>_.
     bnd (if x = lit ''L3'' then has_real_provenance mm may p n else ret True) (\<lambda>supported.
     bnd (chk supported ValueError) (\<lambda>_. record_tier p n x (lit ''promote'') a re))))) s' = (Inr (), t)"
    using r1 unfolding bnd_eq_Inr [of "memory_node mm p n"] by blast
  have s': "s' = s" by (rule memory_node_run(1) [OF nd])
  have q: "\<not> quarantined nd" and b: "x = lit ''L0'' \<longrightarrow> l0_is_binding may nd s"
    and r3: "bnd (if x = lit ''L3'' then has_real_provenance mm may p n else ret True) (\<lambda>supported.
     bnd (chk supported ValueError) (\<lambda>_. record_tier p n x (lit ''promote'') a re)) s = (Inr (), t)"
    using r2 unfolding s' bnd_chk bnd_rd by (auto split: if_splits)
  obtain ok u where u: "(if x = lit ''L3'' then has_real_provenance mm may p n else ret True) s = (Inr ok, u)"
    and r4: "bnd (chk ok ValueError) (\<lambda>_. record_tier p n x (lit ''promote'') a re) u = (Inr (), t)"
    using r3 unfolding bnd_eq_Inr [of "if _ then _ else _"] by blast
  have ok: ok and r5: "record_tier p n x (lit ''promote'') a re u = (Inr (), t)" using r4 by (auto simp: bnd_chk split: if_splits)
  have "tables u = tables s" using u has_real_provenance_tables [of mm may p n s ok u] by (auto simp: ret_def split: if_splits)
  then show thesis using that [OF nd [unfolded s'] x q b _ _ r5] u ok by (auto split: if_splits)
qed

text \<open>C34: The tier table implements a map from nodes to tiers: a promotion that returns sets the
  entry of its node to the tier it names and nothing else; a demotion returns \<open>True\<close> exactly
  when the node was in the tier it names, whose entry it removes, and \<open>False\<close> when it was in
  none, and never returns for a node that another tier holds; \<open>tier_of\<close> reads the entry.\<close>

theorem tier_operations_update_the_map:
  fixes s :: "'z memory_st_scheme"
  assumes "tiers_ok s"
  shows "(promote mm may p n tier a re s = (Inr (), t) \<longrightarrow> tier_map t = (tier_map s)((p, n) := Some (text_of tier)))
    \<and> (demote mm p n tier a re s = (Inr b, t) \<longrightarrow> tier_map t = (tier_map s)((p, n) := None)
          \<and> tier_map s (p, n) = (if b then Some (text_of tier) else None))
    \<and> (demote_from_any_tier mm p n a why s = (Inr x, t) \<longrightarrow> tier_map t = (tier_map s)((p, n) := None) \<and> x = tier_map s (p, n))
    \<and> (tier_of mm p n s = (Inr x, t) \<longrightarrow> x = tier_map s (p, n) \<and> t = s)"
proof (intro conjI impI)
  have row: "tier_map t = (tier_map u)((p, n) := (if what = lit ''promote'' then Some x else None))"
    if R: "record_tier p n x what a re u = (Inr (), t)" for x what re and u :: "'z memory_st_scheme" and t
  proof -
    obtain r where r: "assignments t = assignments u @ [r]" "as_project_id r = p" "as_node_id r = n" "as_tier r = x" "as_op r = what"
      by (rule record_tier_run [OF R])
    show ?thesis unfolding tier_map_snoc [OF r(1)] r(2,3) by (simp add: tier_held_def r(4,5))
  qed
  show "tier_map t = (tier_map s)((p, n) := Some (text_of tier))" if P: "promote mm may p n tier a re s = (Inr (), t)"
  proof -
    obtain x u where x: "check_tier tier = Inr x" and u: "tables u = tables s"
      and r: "record_tier p n x (lit ''promote'') a re u = (Inr (), t)" using promote_run [OF P] by metis
    have "x = text_of tier" using x by (simp add: check_tier_def require_def split: if_splits)
    moreover have "tier_map u = tier_map s"
      using tiers_view(1) [OF more_tables [OF u]] by (simp add: tier_map_def)
    ultimately show ?thesis using row [OF r] by simp
  qed
  show "tier_map t = (tier_map s)((p, n) := None)" "tier_map s (p, n) = (if b then Some (text_of tier) else None)"
    if D: "demote mm p n tier a re s = (Inr b, t)"
  proof -
    obtain x where x: "check_tier tier = Inr x" and r1: "bnd (memory_node mm p n) (\<lambda>_. bnd (tier_of mm p n) (\<lambda>actual. case actual of
         None \<Rightarrow> ret False | Some held \<Rightarrow> bnd (chk (held = x) ValueError) (\<lambda>_.
           bnd (record_tier p n x (lit ''demote'') a re) (\<lambda>_. ret True)))) s = (Inr b, t)"
      using D unfolding demote_def bnd_lift by (cases "check_tier tier") auto
    obtain nd s' where nd: "memory_node mm p n s = (Inr nd, s')" and r2: "bnd (tier_of mm p n) (\<lambda>actual. case actual of
         None \<Rightarrow> ret False | Some held \<Rightarrow> bnd (chk (held = x) ValueError) (\<lambda>_.
           bnd (record_tier p n x (lit ''demote'') a re) (\<lambda>_. ret True))) s' = (Inr b, t)"
      using r1 unfolding bnd_eq_Inr [of "memory_node mm p n"] by blast
    have s': "s' = s" by (rule memory_node_run(1) [OF nd])
    obtain y u where y: "tier_of mm p n s = (Inr y, u)" and r3: "(case y of
         None \<Rightarrow> ret False | Some held \<Rightarrow> bnd (chk (held = x) ValueError) (\<lambda>_.
           bnd (record_tier p n x (lit ''demote'') a re) (\<lambda>_. ret True))) u = (Inr b, t)"
      using r2 unfolding s' bnd_eq_Inr [of "tier_of mm p n"] by blast
    note ty = tier_of_reads [OF assms y]
    have xt: "x = text_of tier" using x by (simp add: check_tier_def require_def split: if_splits)
    have pd: "lit ''demote'' \<noteq> lit ''promote''" by code_simp
    have "tier_map t = (tier_map s)((p, n) := None) \<and> tier_map s (p, n) = (if b then Some (text_of tier) else None)"
    proof (cases y)
      case None
      then show ?thesis using r3 ty by (auto simp: ret_def)
    next
      case (Some h)
      then have h: "h = x" "b" and rt: "record_tier p n x (lit ''demote'') a re s = (Inr (), t)"
        using r3 ty(1) by (auto simp: bnd_chk bnd_eq_Inr ret_def split: if_splits)
      show ?thesis using row [OF rt] h ty(2) Some xt pd by simp
    qed
    then show "tier_map t = (tier_map s)((p, n) := None)" "tier_map s (p, n) = (if b then Some (text_of tier) else None)" by blast+
  qed
  show "tier_map t = (tier_map s)((p, n) := None)" "x = tier_map s (p, n)" if D: "demote_from_any_tier mm p n a why s = (Inr x, t)"
  proof -
    obtain nd s' where nd: "memory_node mm p n s = (Inr nd, s')" and r2: "bnd (tier_of mm p n) (\<lambda>actual. case actual of
         None \<Rightarrow> ret None | Some held \<Rightarrow> bnd (record_tier p n held (lit ''demote'') a (Some why)) (\<lambda>_. ret (Some held))) s' = (Inr x, t)"
      using D unfolding demote_from_any_tier_def bnd_eq_Inr [of "memory_node mm p n"] by blast
    have s': "s' = s" by (rule memory_node_run(1) [OF nd])
    obtain y u where y: "tier_of mm p n s = (Inr y, u)" and r3: "(case y of
         None \<Rightarrow> ret None | Some held \<Rightarrow> bnd (record_tier p n held (lit ''demote'') a (Some why)) (\<lambda>_. ret (Some held))) u = (Inr x, t)"
      using r2 unfolding s' bnd_eq_Inr [of "tier_of mm p n"] by blast
    note ty = tier_of_reads [OF assms y]
    have pd: "lit ''demote'' \<noteq> lit ''promote''" by code_simp
    have "tier_map t = (tier_map s)((p, n) := None) \<and> x = tier_map s (p, n)"
    proof (cases y)
      case None
      then show ?thesis using r3 ty by (auto simp: ret_def)
    next
      case (Some h)
      then have "x = Some h" and rt: "record_tier p n h (lit ''demote'') a (Some why) s = (Inr (), t)"
        using r3 ty(1) by (auto simp: bnd_eq_Inr ret_def)
      then show ?thesis using row [OF rt] ty(2) Some pd by simp
    qed
    then show "tier_map t = (tier_map s)((p, n) := None)" "x = tier_map s (p, n)" by blast+
  qed
  show "x = tier_map s (p, n)" "t = s" if "tier_of mm p n s = (Inr x, t)" using tier_of_reads [OF assms that] by simp_all
qed

subsection \<open>Listing a tier\<close>

lemma put_keys:
  "map_of (fold (\<lambda>r d. put_key d (f r) (g r)) rs d) = fold (\<lambda>r m. m(f r := Some (g r))) rs (map_of d)"
  "distinct (map fst d) \<Longrightarrow> distinct (map fst (fold (\<lambda>r d. put_key d (f r) (g r)) rs d))"
  by (induction rs arbitrary: d) (simp_all add: map_of_put_key distinct_put_key)

lemma held_tiers_map:
  assumes "tiers_ok s"
  shows "(n, Some tier) \<in> set (held_tiers p s) \<longleftrightarrow> tier_map s (p, n) = Some tier"
proof -
  let ?rs = "filter (\<lambda>r. as_project_id r = p) (assignments s)"
  have h: "held_tiers p s = fold (\<lambda>r d. put_key d (as_node_id r) (tier_held r)) ?rs []"
    by (simp add: held_tiers_def tiers_sorted [OF assms])
  have "(n, Some tier) \<in> set (held_tiers p s) \<longleftrightarrow> map_of (held_tiers p s) n = Some (Some tier)"
    unfolding h by (simp add: put_keys(2))
  also have "\<dots> \<longleftrightarrow> tier_map s (p, n) = Some tier"
    by (auto simp: h put_keys(1) fold_update tier_map_last Let_def conj_commute)
  finally show ?thesis .
qed

lemma keep_admitted_run:
  assumes "keep_admitted ok ns s = (Inr ms, t)" and "\<And>x. keeps (=) (ok x)"
  shows "t = s \<and> ms = filter (\<lambda>n. fst (ok n s) = Inr True) ns"
  using assms(1)
proof (induction ns arbitrary: ms)
  case (Cons n ns)
  then obtain b u where b: "ok n s = (Inr b, u)" and r: "bnd (keep_admitted ok ns) (\<lambda>ms. ret (if b then n # ms else ms)) u = (Inr ms, t)"
    by (auto simp: bnd_eq_Inr [of "ok n"])
  have u: "u = s" using keeps_eqD [OF assms(2), of n s] b by simp
  obtain ms' where "keep_admitted ok ns s = (Inr ms', t)" "ms = (if b then n # ms' else ms')"
    using r u by (auto simp: bnd_eq_Inr ret_def)
  then show ?case using Cons.IH b by auto
qed (simp add: ret_def)

lemma admitted_same: "keeps (=) (admitted may ten p tier n)"
  unfolding admitted_def by (intro same_intros keeps_get_node_same)

lemma admitted_run:
  "fst (admitted may ten p tier n s) = Inr True \<longleftrightarrow> (\<exists>nd. fst (get_node n None ten (Some p) None s) = Inr nd
     \<and> \<not> quarantined nd \<and> (tier = lit ''L0'' \<longrightarrow> l0_is_binding may nd s))"
  using keeps_eqD [OF keeps_get_node_same, of n None ten "Some p" None s]
  by (cases "get_node n None ten (Some p) None s")
    (auto simp: admitted_def catch_def bnd_def rd_def ret_def split: sum.splits)

lemma get_node_Inr:
  "fst (get_node n None ten (Some p) None s) = Inr nd \<longleftrightarrow> current_node n s = Some (nd_row nd) \<and> node_dict (nd_row nd) = Inr nd
     \<and> n_project_id (nd_row nd) = p \<and> matches ten (n_tenant_id (nd_row nd))"
  by (auto simp: get_node_def run_simps matches_def node_dict_def rbind_def split: option.splits sum.splits)

text \<open>\<open>tier_members\<close> lists exactly the nodes that the tier table puts in the tier and that may be
  there now: the current row is in the project and tenant asked for and is not quarantined, and
  in L0 it binds by the authority that holds at this moment. Nothing is written.\<close>

theorem tier_members_are_exact:
  fixes s :: "'z memory_st_scheme"
  assumes "tier_members mm may p tier tenant s = (Inr ns, t)" "tiers_ok s" "effective_tenant mm tenant = Inr ten"
  shows "t = s \<and> (n \<in> set ns \<longleftrightarrow> tier_map s (p, n) = Some tier
     \<and> (\<exists>nd. current_node n s = Some (nd_row nd) \<and> node_dict (nd_row nd) = Inr nd \<and> n_project_id (nd_row nd) = p
          \<and> matches ten (n_tenant_id (nd_row nd)) \<and> n_status (nd_row nd) \<noteq> Some (lit ''quarantined'')
          \<and> (tier = lit ''L0'' \<longrightarrow> l0_is_binding may nd s)))"
proof -
  obtain u where u: "memory_project mm p s = (Inr (), u)"
    and r: "keep_admitted (admitted may ten p tier) (map fst (filter (\<lambda>(n, h). h = Some tier) (held_tiers p u))) u = (Inr ns, t)"
    using assms(1,3) by (auto simp: tier_members_def bnd_lift bnd_eq_Inr [of "memory_project mm p"] bnd_rd)
  have us: "u = s" by (rule memory_project_state [OF u])
  note k = keep_admitted_run [OF r admitted_same]
  have "n \<in> set ns \<longleftrightarrow> (n, Some tier) \<in> set (held_tiers p s) \<and> fst (admitted may ten p tier n s) = Inr True"
    using k us by force
  then show ?thesis
    using k us unfolding held_tiers_map [OF assms(2)] admitted_run get_node_Inr quarantined_def by blast
qed

end
