(* ===== verification/Retention.thy ===== *)
theory Retention
  imports Tiers Audit_Props
begin

section \<open>memory.py: what a retention sweep removes\<close>

text \<open>
  A sweep clears the payload of exactly the events that are due, reports their number, and
  records a sweep that removed anything; the chain of what remains still verifies, since the
  digests stay.
\<close>

definition is_due :: "memory \<Rightarrow> int \<Rightarrow> int \<Rightarrow> event_row \<Rightarrow> bool" where
  "is_due mm clock days r \<longleftrightarrow> e_payload r \<noteq> None \<and> matches (mm_tenant mm) (e_tenant_id r)
     \<and> (\<exists>w. parse_ts (e_recorded_at r) = Inr w \<and> days \<le> (clock - w) div DAY)"

definition swept :: "memory \<Rightarrow> int \<Rightarrow> int \<Rightarrow> event_row \<Rightarrow> event_row" where
  "swept mm clock days r = (if is_due mm clock days r then r\<lparr>e_payload := None\<rparr> else r)"

lemma due_iff: "due clock days r = Inr True \<longleftrightarrow> (\<exists>w. parse_ts (e_recorded_at r) = Inr w \<and> days \<le> (clock - w) div DAY)"
  by (auto simp: due_def rbind_def split: sum.splits)

definition clear_ids :: "pstr set \<Rightarrow> event_row list \<Rightarrow> event_row list" where
  "clear_ids ids = map (\<lambda>r. if e_id r \<in> ids then r\<lparr>e_payload := None\<rparr> else r)"

lemma clear_ids_twice: "clear_ids B (clear_ids A xs) = clear_ids (A \<union> B) xs"
  by (induction xs) (auto simp: clear_ids_def)

lemma clear_payloads_run:
  fixes s :: "'z store_st_scheme"
  assumes "clear_payloads clock days rs k s = (Inr k', t)"
  shows "t = s\<lparr>events := clear_ids (e_id ` {r \<in> set rs. due clock days r = Inr True}) (events s)\<rparr>
    \<and> k' = k + length (filter (\<lambda>r. due clock days r = Inr True) rs)"
  using assms
proof (induction rs arbitrary: k s)
  case Nil
  then show ?case by (simp add: ret_def clear_ids_def)
next
  case (Cons r rs)
  then obtain old where old: "due clock days r = Inr old"
    and run: "(if old then bnd (run_statement (UpdateEvents [lit ''payload''] (\<lambda>x. e_id x = e_id r) (\<lambda>x. x\<lparr>e_payload := None\<rparr>))) (\<lambda>_. clear_payloads clock days rs (Suc k))
       else clear_payloads clock days rs k) s = (Inr k', t)"
    by (auto simp: bnd_lift split: sum.splits)
  show ?case
  proof (cases old)
    case False
    have e: "{x \<in> set (r # rs). due clock days x = Inr True} = {x \<in> set rs. due clock days x = Inr True}"
      using old False by auto
    from Cons.IH [of k s] run False old show ?thesis unfolding e by simp
  next
    case True
    obtain u where u: "run_statement (clear_raw (\<lambda>x. e_id x = e_id r)) s = (Inr (), u)"
      and rest: "clear_payloads clock days rs (Suc k) u = (Inr k', t)"
      using run True unfolding clear_raw_def by (auto simp: bnd_eq_Inr)
    have u': "u = s\<lparr>events := clear_ids {e_id r} (events s)\<rparr>" using u cleared_run [of "\<lambda>x. e_id x = e_id r" s]
      by (simp add: clear_ids_def)
    have e: "{x \<in> set (r # rs). due clock days x = Inr True} = insert r {x \<in> set rs. due clock days x = Inr True}"
      using old True by auto
    from Cons.IH [OF rest] show ?thesis using old True unfolding e u' by (simp add: clear_ids_twice)
  qed
qed

lemma clear_ids_swept:
  assumes "distinct (map e_id evs)"
  shows "clear_ids (e_id ` {r \<in> set (filter (\<lambda>r. e_payload r \<noteq> None \<and> matches (mm_tenant mm) (e_tenant_id r)) evs). due clock days r = Inr True}) evs
    = map (swept mm clock days) evs"
  unfolding clear_ids_def
proof (rule map_cong [OF refl])
  fix r assume "r \<in> set evs"
  then have "e_id r \<in> e_id ` {r \<in> set (filter (\<lambda>r. e_payload r \<noteq> None \<and> matches (mm_tenant mm) (e_tenant_id r)) evs). due clock days r = Inr True}
      \<longleftrightarrow> is_due mm clock days r"
    using inj_onD [OF distinct_map [THEN iffD1, THEN conjunct2, OF assms]] by (auto simp: is_due_def due_iff)
  then show "(if e_id r \<in> e_id ` {r \<in> set (filter (\<lambda>r. e_payload r \<noteq> None \<and> matches (mm_tenant mm) (e_tenant_id r)) evs). due clock days r = Inr True}
      then r\<lparr>e_payload := None\<rparr> else r) = swept mm clock days r"
    by (simp add: swept_def)
qed

text \<open>C35: A retention sweep removes what is due and nothing else: when it returns, the payload of
  exactly those events is gone that had one, belong to the tenant and were recorded at least
  the given number of whole days before the clock reading; the number returned is theirs; every
  other column and event, the evidence and the graph are as they were, and a sweep that removed
  anything has left one audit row.\<close>

theorem retention_removes_what_is_due:
  fixes s :: "'z graph_st_scheme"
  assumes "sweep_retention mm (PInt days) now actor s = (Inr k, t)" and "keys_ok s"
  shows "\<exists>clock u. given_now now s = (Inr clock, u) \<and> events t = map (swept mm clock days) (events s)
    \<and> k = length (filter (is_due mm clock days) (events s))
    \<and> length (audit_log t) = length (audit_log s) + (if k = 0 then 0 else 1)
    \<and> evidence_blobs t = evidence_blobs s \<and> nodes t = nodes s \<and> edges t = edges s"
proof -
  obtain clock u where u: "given_now now s = (Inr clock, u)" and r1: "bnd (chk (solid_text actor) ValueError) (\<lambda>_.
     bnd (lift (validate_human_text 256 actor)) (\<lambda>who.
     transaction (
       bnd (rd (swept_rows mm)) (\<lambda>rows.
       bnd (clear_payloads clock days rows 0) (\<lambda>deleted.
       bnd (if deleted = 0 then ret ()
            else audit (PStr who) (pkey ''retention.sweep'') PNone PNone PNone PNone
              (PStr (lit ''cleared '' @ decimal deleted @ lit '' raw payloads > '' @ str_of_int days @ lit ''d''))) (\<lambda>_.
       ret deleted)))))) u = (Inr k, t)"
    using assms(1) unfolding sweep_retention_def pyval.case
    by (auto simp: bnd_lift require_def bnd_eq_Inr [of "given_now now"] split: if_splits)
  have same: "tables u = tables s"
    using u by (auto simp: given_now_def bnd_eq_Inr run_simps split: pyval.splits if_splits dest: utcnow_tables)
  obtain who v where r2: "bnd (rd (swept_rows mm)) (\<lambda>rows.
       bnd (clear_payloads clock days rows 0) (\<lambda>deleted.
       bnd (if deleted = 0 then ret ()
            else audit (PStr who) (pkey ''retention.sweep'') PNone PNone PNone PNone
              (PStr (lit ''cleared '' @ decimal deleted @ lit '' raw payloads > '' @ str_of_int days @ lit ''d''))) (\<lambda>_.
       ret deleted))) (enter u) = (Inr k, v)" and t: "t = leave u v"
    using r1 by (auto simp: bnd_chk bnd_lift transaction_eq_Inr split: if_splits sum.splits)
  obtain w where w: "clear_payloads clock days (swept_rows mm (enter u)) 0 (enter u) = (Inr k, w)"
    and a: "(if k = 0 then ret () else audit (PStr who) (pkey ''retention.sweep'') PNone PNone PNone PNone
              (PStr (lit ''cleared '' @ decimal k @ lit '' raw payloads > '' @ str_of_int days @ lit ''d''))) w = (Inr (), v)"
    using r2 by (auto simp: bnd_rd bnd_eq_Inr ret_def)
  note ts = tables_store [OF same] tables_graph [OF tables_beyond [OF same]]
  have eu: "events (enter u) = events s" "audit_log (enter u) = audit_log s" "evidence_blobs (enter u) = evidence_blobs s"
    "nodes (enter u) = nodes s" "edges (enter u) = edges s"
    using ts by (simp_all add: enter_def)
  have rows: "swept_rows mm (enter u) = filter (\<lambda>r. e_payload r \<noteq> None \<and> matches (mm_tenant mm) (e_tenant_id r)) (events s)"
    by (simp add: swept_rows_def ts)
  note c = clear_payloads_run [OF w]
  have wv: "w = (enter u)\<lparr>events := map (swept mm clock days) (events s)\<rparr>"
    using c clear_ids_swept [of "events s" mm clock days] assms(2) by (simp add: rows ts keys_ok_def)
  have k: "k = length (filter (is_due mm clock days) (events s))"
    using c by (simp add: rows is_due_def [abs_def] due_iff conj_assoc)
  have fin: "events v = events w \<and> evidence_blobs v = evidence_blobs w \<and> nodes v = nodes w \<and> edges v = edges w
      \<and> length (audit_log v) = length (audit_log w) + (if k = 0 then 0 else 1)"
  proof (cases "k = 0")
    case True
    then show ?thesis using a by (simp add: ret_def)
  next
    case False
    then obtain r where "audited r w v" using a audit_run by (smt (verit))
    then show ?thesis using False tables_graph [of v w] by (simp add: audited_def)
  qed
  show ?thesis
    using u fin k by (intro exI [of _ clock] exI [of _ u]) (simp add: wv t leave_def ts eu(4,5))
qed

end
