(* ===== verification/App_Samples.thy ===== *)
theory App_Samples
  imports Retention Quarantine_Props Samples
begin

section \<open>The properties of memory on concrete states\<close>

text \<open>
  Claim \<open>a\<close> is derived from the recorded evidence \<open>e\<close>; the claims \<open>c\<close> and \<open>d\<close> support each other
  and nothing else.
\<close>

definition link_row :: "nat \<Rightarrow> string \<Rightarrow> string \<Rightarrow> string \<Rightarrow> edge_row" where
  "link_row i kind src dst = \<lparr>g_row_id = i, g_id = lit ''edg'' @ [i], g_version = 1, g_edge_type = lit kind,
     g_src_id = lit src, g_dst_id = lit dst, g_tenant_id = lit ''t'', g_project_id = lit ''p'', g_strength = 1,
     g_data = None, g_valid_from = None, g_valid_to = None, g_tx_from = strftime new_year, g_tx_to = None,
     g_event_id = None\<rparr>"

definition claims :: memory_st where
  "claims = (empty_app stuck_clock)\<lparr>last_utcnow := Some (wall stuck_clock 0),
     nodes := [plain_node 1 ''a'' ''claim'' ''supported'' [], plain_node 2 ''e'' ''evidence'' ''recorded'' [],
       plain_node 3 ''c'' ''claim'' ''supported'' [], plain_node 4 ''d'' ''claim'' ''supported'' []],
     node_rows := 4,
     edges := [link_row 1 ''derived_from'' ''a'' ''e'', link_row 2 ''supports'' ''c'' ''d'', link_row 3 ''supports'' ''d'' ''c''],
     edge_rows := 3\<rparr>"

lemma link_row_simps [simp]:
  "g_edge_type (link_row i k a b) = lit k" "g_src_id (link_row i k a b) = lit a" "g_dst_id (link_row i k a b) = lit b"
  "g_tenant_id (link_row i k a b) = lit ''t''" "g_project_id (link_row i k a b) = lit ''p''" "g_data (link_row i k a b) = None"
  "g_valid_from (link_row i k a b) = None" "g_valid_to (link_row i k a b) = None" "g_tx_to (link_row i k a b) = None"
  by (simp_all add: link_row_def)

lemma claims_simps [simp]:
  "nodes claims = [plain_node 1 ''a'' ''claim'' ''supported'' [], plain_node 2 ''e'' ''evidence'' ''recorded'' [],
       plain_node 3 ''c'' ''claim'' ''supported'' [], plain_node 4 ''d'' ''claim'' ''supported'' []]"
  "edges claims = [link_row 1 ''derived_from'' ''a'' ''e'', link_row 2 ''supports'' ''c'' ''d'', link_row 3 ''supports'' ''d'' ''c'']"
  "events claims = []" "last_utcnow claims = Some (wall stuck_clock 0)" "wall claims = wall stuck_clock"
  "assignments claims = []" "assignment_seq claims = 0"
  by (simp_all add: claims_def empty_app_def)

lemma claims_lits [simp]:
  "lit ''a'' \<noteq> lit ''e''" "lit ''a'' \<noteq> lit ''c''" "lit ''a'' \<noteq> lit ''d''" "lit ''e'' \<noteq> lit ''a''" "lit ''e'' \<noteq> lit ''c''"
  "lit ''e'' \<noteq> lit ''d''" "lit ''c'' \<noteq> lit ''a''" "lit ''c'' \<noteq> lit ''e''" "lit ''c'' \<noteq> lit ''d''" "lit ''d'' \<noteq> lit ''a''"
  "lit ''d'' \<noteq> lit ''e''" "lit ''d'' \<noteq> lit ''c''" "PUBLIC_IDENTIFIER (lit ''c'')" "PUBLIC_IDENTIFIER (lit ''d'')" "PUBLIC_IDENTIFIER (lit ''e'')"
  by code_simp+

lemma plain_dict: "node_dict (plain_node i nid kind st []) = Inr \<lparr>nd_row = plain_node i nid kind st [], nd_scope = PNone, nd_data = PDict []\<rparr>"
proof -
  have "n_data (plain_node i nid kind st []) = lit ''{}''"
    by (simp add: plain_node_def canonical_json_def sort_members_def lit_Cons)
  then show ?thesis using loads_empty by (simp add: node_dict_def decode_optional_def)
qed

text \<open>The state after \<open>k\<close> readings of its clock.\<close>

definition like_claims :: "nat \<Rightarrow> memory_st \<Rightarrow> bool" where
  "like_claims k s \<longleftrightarrow> tables s = tables claims \<and> ticking k s"

lemma like_claims_self: "like_claims 0 claims"
  by (simp add: like_claims_def ticking_def stamp_def)

lemma like_claims_utcnow:
  assumes "like_claims k s" "k < 1000"
  shows "\<exists>n u. utcnow s = (Inr n, u) \<and> like_claims (Suc k) u"
  using assms ticking_utcnow [of k s] by (auto simp: like_claims_def)

lemma like_claims_rows:
  assumes "like_claims k s"
  shows "nodes s = nodes claims" "edges s = edges claims" "events s = []"
    "current_node (lit ''a'') s = Some (plain_node 1 ''a'' ''claim'' ''supported'' [])"
    "current_node (lit ''e'') s = Some (plain_node 2 ''e'' ''evidence'' ''recorded'' [])"
    "current_node (lit ''c'') s = Some (plain_node 3 ''c'' ''claim'' ''supported'' [])"
    "current_node (lit ''d'') s = Some (plain_node 4 ''d'' ''claim'' ''supported'' [])"
proof -
  have t: "tables s = tables claims" using assms by (simp add: like_claims_def)
  show "nodes s = nodes claims" "edges s = edges claims" "events s = []"
    "current_node (lit ''a'') s = Some (plain_node 1 ''a'' ''claim'' ''supported'' [])"
    "current_node (lit ''e'') s = Some (plain_node 2 ''e'' ''evidence'' ''recorded'' [])"
    "current_node (lit ''c'') s = Some (plain_node 3 ''c'' ''claim'' ''supported'' [])"
    "current_node (lit ''d'') s = Some (plain_node 4 ''d'' ''claim'' ''supported'' [])"
    using tables_graph [OF tables_beyond [OF t]] tables_store(1) [OF t] by (simp_all add: current_node_def)
qed

lemma like_claims_found:
  assumes "like_claims k s"
  shows "get_node (lit ''a'') None (Some (lit ''t'')) (Some (lit ''p'')) None s
      = (Inr \<lparr>nd_row = plain_node 1 ''a'' ''claim'' ''supported'' [], nd_scope = PNone, nd_data = PDict []\<rparr>, s)"
    "get_node (lit ''e'') None (Some (lit ''t'')) (Some (lit ''p'')) None s
      = (Inr \<lparr>nd_row = plain_node 2 ''e'' ''evidence'' ''recorded'' [], nd_scope = PNone, nd_data = PDict []\<rparr>, s)"
    "get_node (lit ''c'') None (Some (lit ''t'')) (Some (lit ''p'')) None s
      = (Inr \<lparr>nd_row = plain_node 3 ''c'' ''claim'' ''supported'' [], nd_scope = PNone, nd_data = PDict []\<rparr>, s)"
    "get_node (lit ''d'') None (Some (lit ''t'')) (Some (lit ''p'')) None s
      = (Inr \<lparr>nd_row = plain_node 4 ''d'' ''claim'' ''supported'' [], nd_scope = PNone, nd_data = PDict []\<rparr>, s)"
  using like_claims_rows(4-7) [OF assms] by (simp_all add: get_node_def run_simps bnd_lift plain_dict)

lemma like_claims_scope:
  assumes "like_claims k s"
  shows "c \<in> {lit ''a'', lit ''e'', lit ''c'', lit ''d''} \<Longrightarrow> reference_scope c s = (Inr (Some (lit ''t'', lit ''p'')), s)"
    and "c \<in> {lit ''a'', lit ''e'', lit ''c'', lit ''d''} \<Longrightarrow> r \<in> set (edges claims) \<Longrightarrow> endpoint_in_scope c r s"
proof -
  note rows = like_claims_rows [OF assms]
  show "reference_scope c s = (Inr (Some (lit ''t'', lit ''p'')), s)" if C: "c \<in> {lit ''a'', lit ''e'', lit ''c'', lit ''d''}"
  proof -
    have "\<exists>n. current_node c s = Some n \<and> n_tenant_id n = lit ''t'' \<and> n_project_id n = lit ''p''"
      using C rows(4-7) by auto
    then show ?thesis by (auto simp: reference_scope_def bnd_rd ret_def)
  qed
  have "g_tenant_id r = lit ''t''" "g_project_id r = lit ''p''" if "r \<in> set (edges claims)" using that by auto
  then show "endpoint_in_scope c r s" if "c \<in> {lit ''a'', lit ''e'', lit ''c'', lit ''d''}" "r \<in> set (edges claims)"
    using that(1) that(2) unfolding endpoint_in_scope_def rows(1) by auto
qed

lemma like_claims_edges:
  assumes "like_claims k s" "k < 1000" and "c \<in> {lit ''a'', lit ''e'', lit ''c'', lit ''d''}" "PUBLIC_IDENTIFIER c"
    and "ks \<noteq> []" "set ks \<subseteq> set EDGE_TYPES"
  shows "\<exists>u. edges_for d (PStr c) (Some ks) PNone s
      = (Inr (map (\<lambda>r. \<lparr>ed_row = r, ed_data = PNone\<rparr>) (filter (\<lambda>r. near d r = c \<and> g_edge_type r \<in> set ks) (edges claims))), u)
    \<and> like_claims (Suc k) u"
proof -
  obtain n u where u: "utcnow s = (Inr n, u)" "like_claims (Suc k) u" using like_claims_utcnow [OF assms(1,2)] by blast
  have far: "far d r \<in> {lit ''a'', lit ''e'', lit ''c'', lit ''d''}" if "r \<in> set (edges claims)" for r
    using that by (cases d) (auto simp: far_def)
  have "edge_selected d c (lit ''t'', lit ''p'') (Some ks) n u r \<longleftrightarrow> near d r = c \<and> g_edge_type r \<in> set ks"
    if R: "r \<in> set (edges claims)" for r
    using R like_claims_scope(2) [OF u(2) far [OF R] R] by (auto simp: edge_selected_def valid_window_def)
  then have sel: "filter (edge_selected d c (lit ''t'', lit ''p'') (Some ks) n u) (edges u)
      = filter (\<lambda>r. near d r = c \<and> g_edge_type r \<in> set ks) (edges claims)"
    unfolding like_claims_rows(2) [OF u(2)] by (intro filter_cong refl)
  have dict: "rmap edge_dict rs = Inr (map (\<lambda>r. \<lparr>ed_row = r, ed_data = PNone\<rparr>) rs)" if "set rs \<subseteq> set (edges claims)" for rs
    using that by (induction rs) (auto simp: edge_dict_def decode_optional_def)
  have "edges_for d (PStr c) (Some ks) PNone s
      = (Inr (map (\<lambda>r. \<lparr>ed_row = r, ed_data = PNone\<rparr>) (filter (\<lambda>r. near d r = c \<and> g_edge_type r \<in> set ks) (edges claims))), u)"
    using assms(4,5,6) u(1) like_claims_scope(1) [OF u(2) assms(3)]
    by (simp add: edges_for_def bnd_lift validate_optional_datetime_def bnd_chk bnd_def [of utcnow] bnd_def [of "reference_scope _"]
        bnd_rd sel dict lift_run del: claims_simps)
  then show ?thesis using u(2) by blast
qed

lemma claims_kinds [simp]: "lit ''derived_from'' \<in> set EDGE_TYPES" "lit ''supports'' \<in> set EDGE_TYPES" "lit ''verifies'' \<in> set EDGE_TYPES"
  "lit ''derived_from'' \<noteq> lit ''supports''" "lit ''derived_from'' \<noteq> lit ''verifies''" "lit ''supports'' \<noteq> lit ''derived_from''"
  by code_simp+

lemma like_claims_sources:
  assumes "like_claims k s" "k < 999"
  shows "\<exists>u. source_ids (lit ''a'') s = (Inr [lit ''e''], u) \<and> like_claims (Suc (Suc k)) u"
    "\<exists>u. source_ids (lit ''c'') s = (Inr [lit ''d''], u) \<and> like_claims (Suc (Suc k)) u"
    "\<exists>u. source_ids (lit ''d'') s = (Inr [lit ''c''], u) \<and> like_claims (Suc (Suc k)) u"
proof -
  have go: "\<exists>u. source_ids c s = (Inr (filter (\<lambda>x. x \<noteq> c) (sorted_set
        (map g_dst_id (filter (\<lambda>r. g_src_id r = c \<and> g_edge_type r = lit ''derived_from'') (edges claims))
       @ map g_src_id (filter (\<lambda>r. g_dst_id r = c \<and> g_edge_type r \<in> {lit ''supports'', lit ''verifies''}) (edges claims))))), u)
      \<and> like_claims (Suc (Suc k)) u" if C: "c \<in> {lit ''a'', lit ''e'', lit ''c'', lit ''d''}" "PUBLIC_IDENTIFIER c" for c
  proof -
    have k: "k < 1000" "Suc k < 1000" using assms(2) by simp_all
    obtain u where u: "edges_for Outgoing (PStr c) (Some [lit ''derived_from'']) PNone s
      = (Inr (map (\<lambda>r. \<lparr>ed_row = r, ed_data = PNone\<rparr>) (filter (\<lambda>r. near Outgoing r = c \<and> g_edge_type r \<in> set [lit ''derived_from'']) (edges claims))), u)"
      "like_claims (Suc k) u"
      using like_claims_edges [OF assms(1) k(1) C, of "[lit ''derived_from'']" Outgoing] by auto
    obtain v where v: "edges_for Incoming (PStr c) (Some [lit ''supports'', lit ''verifies'']) PNone u
      = (Inr (map (\<lambda>r. \<lparr>ed_row = r, ed_data = PNone\<rparr>) (filter (\<lambda>r. near Incoming r = c \<and> g_edge_type r \<in> set [lit ''supports'', lit ''verifies'']) (edges claims))), v)"
      "like_claims (Suc (Suc k)) v"
      using like_claims_edges [OF u(2) k(2) C, of "[lit ''supports'', lit ''verifies'']" Incoming] by auto
    show ?thesis
      using v(2) by (simp add: source_ids_def bnd_def u(1) v(1) ret_def near_def comp_def del: claims_simps)
  qed
  show "\<exists>u. source_ids (lit ''a'') s = (Inr [lit ''e''], u) \<and> like_claims (Suc (Suc k)) u"
    using go [of "lit ''a''"] by (simp add: sorted_set_def)
  show "\<exists>u. source_ids (lit ''c'') s = (Inr [lit ''d''], u) \<and> like_claims (Suc (Suc k)) u"
    using go [of "lit ''c''"] by (simp add: sorted_set_def)
  show "\<exists>u. source_ids (lit ''d'') s = (Inr [lit ''c''], u) \<and> like_claims (Suc (Suc k)) u"
    using go [of "lit ''d''"] by (simp add: sorted_set_def)
qed

subsection \<open>Provenance\<close>

abbreviation nobody :: "node \<Rightarrow> memory_st \<Rightarrow> bool" where
  "nobody \<equiv> \<lambda>_ _. False"

abbreviation open_memory :: memory where
  "open_memory \<equiv> \<lparr>mm_tenant = None\<rparr>"

lemma evidence_ends_the_walk:
  assumes "like_claims k s" "map_of (wk_memo w) (lit ''e'') = None" "lit ''e'' \<notin> set vis" "length (wk_discovered w) < MAX_WALK" "0 < n"
  shows "\<exists>v. walk_sources nobody (lit ''t'') (lit ''p'') n vis (lit ''e'') w s = (Inr (True, v), s)"
proof -
  have "lit ''recorded'' \<noteq> lit ''quarantined''" by code_simp
  then show ?thesis
    using assms(2-) like_claims_found(2) [OF assms(1)]
    by (cases n) (simp_all add: bnd_def catch_def ret_def rd_def is_root_def quarantined_def)
qed

lemma claim_asks_its_sources:
  assumes "get_node c None (Some (lit ''t'')) (Some (lit ''p'')) None s = (Inr x, s)"
    and "n_entity_type (nd_row x) = lit ''claim''" "n_event_id (nd_row x) = None"
    and "source_ids c s = (Inr xs, u)"
    and "map_of (wk_memo w) c = None" "c \<notin> set vis" "length (wk_discovered w) < MAX_WALK" "0 < n"
  shows "walk_sources nobody (lit ''t'') (lit ''p'') n vis c w s
    = bnd (any_source (walk_sources nobody (lit ''t'') (lit ''p'') (n - 1) (c # vis)) xs (w\<lparr>wk_discovered := List.insert c (wk_discovered w)\<rparr>))
        (\<lambda>(b, w2). ret (b, remember c b w2)) u"
proof -
  have "lit ''claim'' \<noteq> lit ''verification''" "lit ''claim'' \<noteq> lit ''evidence''" by code_simp+
  then have "\<not> is_root nobody x s" using assms(2) by (simp add: is_root_def)
  then show ?thesis
    using assms by (cases n) (simp_all add: bnd_def catch_def ret_def rd_def event_backed_def)
qed

lemma visited_again:
  "c \<in> set vis \<Longrightarrow> map_of (wk_memo w) c = None \<Longrightarrow> walk_sources nobody (lit ''t'') (lit ''p'') n vis c w s = (Inr (False, w), s)"
  by (cases n) (simp_all add: ret_def)

lemma open_memory_node:
  assumes "get_node c None (Some (lit ''t'')) (Some (lit ''p'')) None s = (Inr x, s)" "n_tenant_id (nd_row x) = lit ''t''"
  shows "memory_node open_memory (lit ''p'') c s = (Inr x, s)"
  using assms by (auto simp: memory_node_def memory_project_def absent_is_def catch_def bnd_rd bnd_chk bnd_lift get_node_def run_simps
      split: option.splits if_splits)

theorem provenance_reaches_a_root_witness:
  "\<exists>t. has_real_provenance open_memory nobody (lit ''p'') (lit ''a'') claims = (Inr True, t)
     \<and> may_ground nobody (lit ''t'') (lit ''p'') claims (lit ''a'')"
proof -
  note here = like_claims_self
  obtain u where u: "source_ids (lit ''a'') claims = (Inr [lit ''e''], u)" "like_claims (Suc (Suc 0)) u"
    using like_claims_sources(1) [OF here] by auto
  let ?w = "\<lparr>wk_memo = [], wk_discovered = [lit ''a'']\<rparr>"
  obtain v where v: "walk_sources nobody (lit ''t'') (lit ''p'') MAX_WALK [lit ''a''] (lit ''e'') ?w u = (Inr (True, v), u)"
    using evidence_ends_the_walk [OF u(2), of ?w "[lit ''a'']" MAX_WALK] by (auto simp del: walk_sources.simps)
  have "walk_sources nobody (lit ''t'') (lit ''p'') (Suc MAX_WALK) [] (lit ''a'') \<lparr>wk_memo = [], wk_discovered = []\<rparr> claims
      = (Inr (True, remember (lit ''a'') True v), u)"
    using v claim_asks_its_sources [OF like_claims_found(1) [OF here] _ _ u(1), of "\<lparr>wk_memo = [], wk_discovered = []\<rparr>" "[]" "Suc MAX_WALK"]
    by (simp add: bnd_def ret_def plain_node_def List.insert_def del: walk_sources.simps)
  then have p: "has_real_provenance open_memory nobody (lit ''p'') (lit ''a'') claims = (Inr True, u)"
    using open_memory_node [OF like_claims_found(1) [OF here]]
    by (simp add: has_real_provenance_def bnd_def ret_def del: walk_sources.simps)
  then show ?thesis using provenance_reaches_a_root [OF p] like_claims_rows(4) [OF here] by auto
qed

theorem provenance_misses_nothing_witness:
  "\<exists>t. has_real_provenance open_memory nobody (lit ''p'') (lit ''c'') claims = (Inr False, t)
     \<and> \<not> grounded (must_end nobody (lit ''t'') (lit ''p'') claims) (must_source sample_now (lit ''t'') (lit ''p'') claims) (lit ''c'')"
proof -
  note here = like_claims_self
  obtain u where u: "source_ids (lit ''c'') claims = (Inr [lit ''d''], u)" "like_claims (Suc (Suc 0)) u"
    using like_claims_sources(2) [OF here] by auto
  obtain v where v: "source_ids (lit ''d'') u = (Inr [lit ''c''], v)" "like_claims (Suc (Suc (Suc (Suc 0)))) v"
    using like_claims_sources(3) [OF u(2)] by auto
  let ?w = "\<lparr>wk_memo = [], wk_discovered = [lit ''c'']\<rparr>" and ?w' = "\<lparr>wk_memo = [], wk_discovered = [lit ''d'', lit ''c'']\<rparr>"
  have "walk_sources nobody (lit ''t'') (lit ''p'') 255 [lit ''d'', lit ''c''] (lit ''c'') ?w' v = (Inr (False, ?w'), v)"
    by (rule visited_again) simp_all
  then have "walk_sources nobody (lit ''t'') (lit ''p'') MAX_WALK [lit ''c''] (lit ''d'') ?w u = (Inr (False, remember (lit ''d'') False ?w'), v)"
    using claim_asks_its_sources [OF like_claims_found(4) [OF u(2)] _ _ v(1), of ?w "[lit ''c'']" MAX_WALK]
    by (simp add: bnd_def ret_def plain_node_def List.insert_def del: walk_sources.simps)
  then have "walk_sources nobody (lit ''t'') (lit ''p'') (Suc MAX_WALK) [] (lit ''c'') \<lparr>wk_memo = [], wk_discovered = []\<rparr> claims
      = (Inr (False, remember (lit ''c'') False (remember (lit ''d'') False ?w')), v)"
    using claim_asks_its_sources [OF like_claims_found(3) [OF here] _ _ u(1), of "\<lparr>wk_memo = [], wk_discovered = []\<rparr>" "[]" "Suc MAX_WALK"]
    by (simp add: bnd_def ret_def plain_node_def List.insert_def del: walk_sources.simps)
  then have p: "has_real_provenance open_memory nobody (lit ''p'') (lit ''c'') claims = (Inr False, v)"
    using open_memory_node [OF like_claims_found(3) [OF here]]
    by (simp add: has_real_provenance_def bnd_def ret_def del: walk_sources.simps)
  have past: "clock_past sample_now claims"
    using stuck_wall by (simp add: clock_past_def sane_clock_def sample_now_def stuck_clock_def)
  show ?thesis
    using provenance_misses_nothing [OF p past like_claims_rows(6) [OF here]] p by simp
qed

subsection \<open>Quarantine\<close>

text \<open>A quarantined claim that says \<open>s\<close>.\<close>

definition poison_data :: pydict where
  "poison_data = [(pkey ''statement'', pkey ''s'')]"

abbreviation poison :: node where
  "poison \<equiv> \<lparr>nd_row = plain_node 1 ''q'' ''claim'' ''quarantined'' poison_data, nd_scope = PNone, nd_data = PDict poison_data\<rparr>"

definition poisoned :: memory_st where
  "poisoned = (empty_app stuck_clock)\<lparr>nodes := [plain_node 1 ''q'' ''claim'' ''quarantined'' poison_data], node_rows := 1\<rparr>"

lemma poison_document: "node_dict (plain_node 1 ''q'' ''claim'' ''quarantined'' poison_data) = Inr poison"
proof -
  obtain t where t: "canonical_json (PDict poison_data) = Inr t"
    by (simp add: canonical_json_def sort_members_def lit_Cons poison_data_def jcs_string_def non_ijson_def)
  have "strict_json_text t = Inr (jnorm (PDict poison_data))"
    by (rule strict_json_canonical [OF t]) (simp_all add: poison_data_def)
  then show ?thesis
    using t by (simp add: node_dict_def plain_node_def decode_optional_def poison_data_def sort_members_def)
qed

lemma poisoned_node: "current_node (lit ''q'') poisoned = Some (plain_node 1 ''q'' ''claim'' ''quarantined'' poison_data)"
  by (simp add: current_node_def poisoned_def)

definition told :: pydict where
  "told = [(pkey ''claims'', PList [pkey ''s'', pkey ''x'']), (pkey ''omissions'', PList [])]"

theorem nothing_quarantined_leaves_witness:
  "\<exists>p t v. strip_quarantined (lit ''p'') told None False [] poisoned = (Inr p, t) \<and> (pkey ''claims'', v) \<in> set p
     \<and> lit ''x'' \<in> set (strings v) \<and> \<not> leaks poison (lit ''x'') \<and> leaks poison (lit ''s'')"
proof -
  have k: "lit ''statement'' \<notin> set BOOKKEEPING_KEYS" "pkey ''claims'' \<noteq> pkey ''omissions''" "lit ''s'' \<noteq> lit ''x''" "lit ''x'' \<noteq> lit ''q''"
    "lit ''s'' \<noteq> lit ''q''" "PUBLIC_IDENTIFIER (lit ''q'')"
    by code_simp+
  have solid: "solid_text (pkey ''s'')" by (simp add: blank_def strip_def lit_Cons py_space_def)
  have f: "node_fields poison = poison_data" by (simp add: node_fields_def)
  have texts: "payload_texts poison_data = [lit ''s'']"
    using k solid by (simp add: payload_texts_def poison_data_def del: solid_text.simps)
  have node: "nodes poisoned = [plain_node 1 ''q'' ''claim'' ''quarantined'' poison_data]" by (simp add: poisoned_def)
  have cur: "current (PStr (lit ''p'')) PNone PNone PNone PNone poisoned = (Inr [poison], poisoned)"
    by (simp add: current_def bnd_lift bnd_rd bnd_chk status_filter_def validate_optional_datetime_def optional_identifier_def
        check_entity_type_def current_rows_def matches_def node lift_run poison_document del: One_nat_def)
  have got: "get_node (lit ''q'') None None (Some (lit ''p'')) None poisoned = (Inr poison, poisoned)"
    using poisoned_node by (simp add: get_node_def run_simps bnd_lift poison_document del: One_nat_def)
  have ids: "held_ids [poison] = [lit ''q'']" by (simp add: held_ids_def)
  have scr: "scrub_packet [lit ''q''] [lit ''s''] told = Inr (1, [(pkey ''claims'', PList [pkey ''x'']), (pkey ''omissions'', PList [])])"
    using k by (simp add: told_def scrub_packet_def text_matches_def substring_patterns_def MIN_SUBSTRING_PATTERN_def)
  have col: "collisions_of [lit ''q''] [] [lit ''s''] [poison] = []" by (simp add: collisions_of_def)
  have run: "\<exists>ms. strip_quarantined (lit ''p'') told None False [] poisoned = (Inr [(pkey ''claims'', PList [pkey ''x'']), (pkey ''omissions'', ms)], poisoned)"
    using k by (simp add: strip_quarantined_def bnd_def cur got ids f texts scr col ret_def lift_run disclose_def dget_def Let_def del: One_nat_def)
  have held: "is_held (lit ''p'') None poisoned poison"
    by (simp add: is_held_def poisoned_node poison_document matches_def del: One_nat_def)
  obtain ms where o: "strip_quarantined (lit ''p'') told None False [] poisoned = (Inr [(pkey ''claims'', PList [pkey ''x'']), (pkey ''omissions'', ms)], poisoned)"
    using run by blast
  have "\<not> leaks poison (lit ''x'')"
    by (rule nothing_quarantined_leaves [OF o held _ k(2)]) auto
  moreover have "leaks poison (lit ''s'')" by (simp add: leaks_def f texts del: One_nat_def)
  ultimately show ?thesis using o by fastforce
qed

subsection \<open>Tiers\<close>

theorem tier_operations_update_the_map_witness:
  "\<exists>t. promote open_memory nobody (lit ''p'') (lit ''a'') (pkey ''L1'') (lit ''kim'') None claims = (Inr (), t)
     \<and> tier_map t = [(lit ''p'', lit ''a'') \<mapsto> lit ''L1'']"
proof -
  have lits: "in_vocabulary (pkey ''L1'') TIERS" "lit ''L1'' \<noteq> lit ''L0''" "lit ''L1'' \<noteq> lit ''L3''" "short (lit ''kim'')"
    "short (lit ''memory.promote'')" "short (lit ''a'')" "short (lit ''L1: '')" "lit ''supported'' \<noteq> lit ''quarantined''"
    "lit ''memory.'' @ lit ''promote'' = lit ''memory.promote''"
    "lit ''L1'' @ lit '': '' = lit ''L1: ''"
    by code_simp+
  have ok: "tiers_ok claims" "audit_ok claims"
    by (simp_all add: claims_def empty_app_def tiers_ok_def audit_ok_def)
  have tick: "ticking 0 (enter claims)" using like_claims_self by (simp add: like_claims_def)
  obtain n u where u: "utcnow (enter claims) = (Inr n, u)" "ticking (Suc 0) u" "tables u = tables (enter claims)"
    using ticking_utcnow [OF tick] by auto
  obtain r where r: "add_assignment (lit ''p'') (lit ''a'') (lit ''L1'') (lit ''promote'') (lit ''kim'') None n u = (Inr (), assigned r u)"
    by (auto simp: add_assignment_def wr_def assigned_def)
  have "ticking (Suc 0) (assigned r u)" "audit_ok (assigned r u)"
    using u ok(2) tables_store [OF u(3)] by (simp_all add: ticking_def assigned_def audit_ok_def enter_def)
  from audit_short [OF this(1) _ this(2) lits(4,5,6) disjI2 [OF lits(7)]] obtain v where v: "audit (PStr (lit ''kim'')) (PStr (lit ''memory.promote'')) (PStr (lit ''a'')) PNone PNone PNone (PStr (lit ''L1: '')) (assigned r u) = (Inr (), v)"
    by auto
  have rec: "record_tier (lit ''p'') (lit ''a'') (lit ''L1'') (lit ''promote'') (lit ''kim'') None claims = (Inr (), leave claims v)"
    unfolding record_tier_def transaction_eq_Inr
    by (intro exI [of _ v]) (use v in \<open>simp add: bnd_def u(1) r lits\<close>)
  have p: "promote open_memory nobody (lit ''p'') (lit ''a'') (pkey ''L1'') (lit ''kim'') None claims = (Inr (), leave claims v)"
    using open_memory_node [OF like_claims_found(1) [OF like_claims_self]] lits rec
    by (simp add: promote_def check_tier_def require_def lift_run bnd_def quarantined_def chk_def rd_def ret_def)
  have "tier_map claims = Map.empty" by (simp add: tier_map_def)
  then show ?thesis
    using p tier_operations_update_the_map [OF ok(1), of open_memory nobody "lit ''p''" "lit ''a''" "pkey ''L1''" "lit ''kim''" None "leave claims v"]
    by simp
qed

subsection \<open>Retention\<close>

definition old_event :: event_row where
  "old_event = \<lparr>e_id = lit ''evt'', e_tenant_id = lit ''t'', e_project_id = lit ''p'', e_source_type = lit ''user'', e_source_id = None,
     e_idempotency_key = lit ''k'', e_observed_at = sample_now, e_recorded_at = sample_now, e_valid_from = None, e_valid_to = None,
     e_actor_type = None, e_actor_id = None, e_authority = lit ''system_inferred'', e_sensitivity = lit ''internal'',
     e_capture_mode = lit ''live'', e_payload_digest = [], e_stored_payload_digest = None, e_payload = Some (lit ''{}''),
     e_schema_version = lit ''1'', e_seq = 1, e_prev_hash = None, e_entry_hash = None\<rparr>"

definition remembering :: memory_st where
  "remembering = (empty_app stuck_clock)\<lparr>last_utcnow := Some (wall stuck_clock 0), events := [old_event], event_seq := 1\<rparr>"

theorem retention_removes_what_is_due_witness:
  "\<exists>t. sweep_retention open_memory (PInt 0) (PStr sample_now) (pkey ''kim'') remembering = (Inr 1, t)
     \<and> events t = [old_event\<lparr>e_payload := None\<rparr>]"
proof -
  let ?s = "strftime (wall stuck_clock 0)"
  obtain i where i: "parse_ts sample_now = Inr i" "sample_now \<noteq> []"
  proof -
    note parts = strftime_parts [OF stuck_wall] and iso = fromisoformat_parts [OF stuck_wall(1)]
    have l: "last ?s = 90" "?s \<noteq> []" unfolding parts by simp_all
    have "\<not> isl (parse_ts ?s)" using l iso unfolding parts by (simp add: parse_ts_def butlast_append)
    then show thesis using l that by (cases "parse_ts ?s") (simp_all add: sample_now_def)
  qed
  have clock: "given_now (PStr sample_now) remembering = (Inr i, remembering)"
    using i by (simp add: given_now_def bnd_chk bnd_lift bnd_def ret_def chk_def lift_run rcatch_def)
  have due: "due i 0 old_event = Inr True" using i by (simp add: due_def old_event_def)
  have lits: "short (lit ''kim'')" "short (lit ''retention.sweep'')" "short (lit ''cleared '' @ decimal 1 @ lit '' raw payloads > '' @ str_of_int 0 @ lit ''d'')"
    by code_simp+
  have who: "validate_human_text 256 (pkey ''kim'') = Inr (lit ''kim'')" "solid_text (pkey ''kim'')"
    using lits(1) unfolding validate_human_text_iff
    by (auto simp: short_def list_all_iff non_ijson_def unsafe_char_def UNSAFE_HUMAN_CONTROLS_def blank_def strip_def lit_Cons py_space_def)
  let ?e = "enter remembering" and ?w = "(enter remembering)\<lparr>events := [old_event\<lparr>e_payload := None\<rparr>]\<rparr>"
  have rows: "swept_rows open_memory ?e = [old_event]"
    by (simp add: swept_rows_def enter_def remembering_def old_event_def matches_def)
  have "events ?e = [old_event]" by (simp add: enter_def remembering_def)
  moreover have "lit ''payload'' \<notin> set EVENT_IMMUTABLE" by code_simp
  ultimately have "run_statement (UpdateEvents [lit ''payload''] (\<lambda>x. e_id x = e_id old_event) (\<lambda>x. x\<lparr>e_payload := None\<rparr>)) ?e = (Inr (), ?w)"
    by (simp add: run_statement_def run_simps set_only_payload Let_def cong: if_cong)
  then have clear: "clear_payloads i 0 [old_event] 0 ?e = (Inr 1, ?w)"
    using due by (simp add: lift_run bnd_def ret_def)
  have tick: "ticking 0 ?w" by (simp add: ticking_def remembering_def stamp_def empty_app_def enter_def)
  obtain n u where u: "utcnow ?w = (Inr n, u)" "\<forall>c \<in> set n. \<not> non_ijson c" using ticking_utcnow [OF tick] by auto
  have log: "validate_log_text False 1024 (pkey ''kim'') = Inr (Some (lit ''kim''))"
    "validate_log_text False 256 (pkey ''retention.sweep'') = Inr (Some (lit ''retention.sweep''))"
    "validate_log_text True m PNone = Inr None" for m
    using short_log_text [OF lits(1), of 1024 False] short_log_text [OF lits(2), of 256 False] by simp_all
  let ?d = "lit ''cleared '' @ decimal 1 @ lit '' raw payloads > '' @ str_of_int 0 @ lit ''d''"
  have d: "validate_log_text True 262144 (if PStr ?d = PStr [] then PNone else PStr ?d) = Inr (Some ?d)"
    using short_log_text [OF lits(3), of 262144 True] by (simp add: lit_Cons)
  have "audit_ok ?w" by (simp add: audit_ok_def remembering_def empty_app_def enter_def)
  from audit_total [OF this u log(1) log(2) log(3) log(3) log(3) log(3) d]
  obtain v where v: "audit (pkey ''kim'') (pkey ''retention.sweep'') PNone PNone PNone PNone (PStr ?d) ?w = (Inr (), v)" by blast
  have body: "bnd (rd (swept_rows open_memory)) (\<lambda>rows. bnd (clear_payloads i 0 rows 0) (\<lambda>deleted.
       bnd (if deleted = 0 then ret () else audit (pkey ''kim'') (pkey ''retention.sweep'') PNone PNone PNone PNone
              (PStr (lit ''cleared '' @ decimal deleted @ lit '' raw payloads > '' @ str_of_int 0 @ lit ''d''))) (\<lambda>_.
       ret deleted))) ?e = (Inr 1, v)"
    using v unfolding bnd_rd rows bnd_run_Inr [where m = "clear_payloads i 0 [old_event] 0", OF clear] by (simp add: bnd_def ret_def)
  have run: "sweep_retention open_memory (PInt 0) (PStr sample_now) (pkey ''kim'') remembering = (Inr 1, leave remembering v)"
    using clock who body
    by (simp add: sweep_retention_def require_def bnd_lift bnd_chk bnd_def [of "given_now _"] transaction_eq_Inr)
  have ok: "keys_ok remembering" by (simp add: keys_ok_def remembering_def)
  have "is_due open_memory i 0 old_event" using due by (simp add: is_due_def due_iff [symmetric]) (simp add: old_event_def matches_def)
  then have "events (leave remembering v) = [old_event\<lparr>e_payload := None\<rparr>]"
    using retention_removes_what_is_due [OF run ok] clock by (auto simp: remembering_def swept_def)
  then show ?thesis using run by blast
qed

end
