(* ===== verification/Github_Props.thy ===== *)
theory Github_Props
  imports Github
begin

section \<open>github.py: what a webhook can and cannot do\<close>

subsection \<open>The shape covers the handlers\<close>

text \<open>A helper of the shape raises one error; what it accepts, the handlers can read.\<close>

definition only_payload_errors :: "exn + 'a \<Rightarrow> bool" where
  "only_payload_errors r \<longleftrightarrow> (case r of Inr _ \<Rightarrow> True | Inl e \<Rightarrow> e = WebhookPayloadError)"

lemma only_simps [simp]: "only_payload_errors (Inr x)" "only_payload_errors (Inl WebhookPayloadError)"
  by (simp_all add: only_payload_errors_def)

lemma only_guard [simp]: "only_payload_errors (guard c WebhookPayloadError)"
  by (simp add: guard_def)

lemma only_rbind: "only_payload_errors r \<Longrightarrow> (\<And>x. r = Inr x \<Longrightarrow> only_payload_errors (f x)) \<Longrightarrow> only_payload_errors (rbind r f)"
  by (cases r) (simp_all add: only_payload_errors_def)

lemma only_checks: "(\<And>c. c \<in> set cs \<Longrightarrow> only_payload_errors c) \<Longrightarrow> only_payload_errors (checks cs)"
  by (induction cs) (auto intro: only_rbind)

lemma only_rmap: "(\<And>x. x \<in> set xs \<Longrightarrow> only_payload_errors (f x)) \<Longrightarrow> only_payload_errors (rmap f xs)"
  by (induction xs) (auto intro!: only_rbind)

lemma only_helpers:
  "only_payload_errors (gh_object d k r)" "only_payload_errors (gh_objects d k r)" "only_payload_errors (gh_text d k r)"
  "only_payload_errors (gh_positive d k)" "only_payload_errors (gh_boolean d k)" "only_payload_errors (gh_timestamp d k r)"
  "only_payload_errors (gh_texts d ks r)"
  by (auto simp: gh_object_def gh_objects_def gh_text_def gh_positive_def gh_boolean_def gh_timestamp_def gh_texts_def Let_def
      require_def intro!: only_rmap only_checks split: pyval.split)

lemmas only_intros = only_rbind only_checks only_helpers only_guard only_simps

lemma validate_payload_shape_errors: "only_payload_errors (validate_payload_shape name p)"
proof -
  have "only_payload_errors (shape_common name p)"
    unfolding shape_common_def Let_def by (auto intro!: only_intros)
  moreover have "only_payload_errors (shape_push p)" unfolding shape_push_def by (auto intro!: only_intros)
  moreover have "only_payload_errors (shape_pull_request p)" unfolding shape_pull_request_def by (auto intro!: only_intros)
  moreover have "only_payload_errors (shape_pull_request_review p)" unfolding shape_pull_request_review_def by (auto intro!: only_intros)
  moreover have "only_payload_errors (shape_issues p)" unfolding shape_issues_def by (auto intro!: only_intros)
  moreover have "only_payload_errors (shape_issue_comment p)" unfolding shape_issue_comment_def by (auto intro!: only_intros)
  moreover have "only_payload_errors (shape_check name p)" unfolding shape_check_def Let_def by (auto intro!: only_intros)
  moreover have "only_payload_errors (shape_workflow_run p)" unfolding shape_workflow_run_def by (auto intro!: only_intros)
  moreover have "only_payload_errors (shape_installation_repositories p)"
    unfolding shape_installation_repositories_def by (auto intro!: only_intros)
  moreover have "only_payload_errors (shape_repository p)" unfolding shape_repository_def by (auto intro!: only_intros)
  moreover have "only_payload_errors (shape_release p)" unfolding shape_release_def by (auto intro!: only_intros)
  ultimately show ?thesis unfolding validate_payload_shape_def by (auto intro!: only_rbind)
qed

text \<open>What the shape accepted reads back.\<close>

lemma gh_object_read: "gh_object d k r = Inr e \<Longrightarrow> raw_object (gh_get d k) = Inr e"
  by (auto simp: gh_object_def raw_object_def gh_get_def require_def split: pyval.splits if_splits)

lemma rmap_dicts: "rmap (\<lambda>v. case v of PDict e \<Rightarrow> Inr e | _ \<Rightarrow> Inl x) vs = Inr es \<Longrightarrow> vs = map PDict es"
  by (induction vs arbitrary: es) (auto split: pyval.splits)

lemma rmap_PDict: "rmap (\<lambda>x. case x of PDict d \<Rightarrow> f d | _ \<Rightarrow> Inl e) (map PDict es) = rmap f es"
  by (induction es) simp_all

lemma rmap_id: "rmap Inr es = Inr es"
  by (induction es) simp_all

lemma gh_objects_read:
  assumes "gh_objects d k r = Inr es"
  shows "raw_objects (gh_get d k) = Inr es" "r \<Longrightarrow> dget d (lit k) = Some (PList (map PDict es))"
proof -
  consider "dget_none d (lit k) = PNone" "\<not> r" "es = []" | "dget_none d (lit k) = PList (map PDict es)"
    using assms by (auto simp: gh_objects_def require_def dest!: rmap_dicts split: pyval.splits if_splits)
  then show "raw_objects (gh_get d k) = Inr es" "r \<Longrightarrow> dget d (lit k) = Some (PList (map PDict es))"
    by (cases; auto simp: raw_objects_def gh_get_def rmap_PDict dget_none_def rmap_id split: option.splits)+
qed

lemma checks_Inr: "checks cs = Inr () \<longleftrightarrow> (\<forall>c \<in> set cs. c = Inr ())"
  by (induction cs) (auto simp: rbind_eq_Inr)

lemma gh_text_str:
  assumes "gh_text d k True = Inr ()"
  obtains s where "dget d (lit k) = Some (PStr s)" "s \<noteq> []"
  using assms that by (cases "dget_none d (lit k)") (auto simp: gh_text_def guard_def Let_def dget_none_def split: if_splits option.splits)

lemma gh_positive_int:
  assumes "gh_positive d k = Inr ()"
  obtains n where "dget d (lit k) = Some (PInt n)"
  using assms that by (auto simp: gh_positive_def guard_def dget_none_def split: if_splits option.splits pyval.splits)

lemmas shape_reads = rbind_eq_Inr checks_Inr Let_def guard_def

text \<open>Each handler succeeds on what its branch of the shape accepts.\<close>

lemma comment_body: "gh_text d k True = Inr () \<Longrightarrow> \<exists>t. t \<noteq> [] \<and> py_or (gh_get d k) (PStr []) = PStr t"
  by (auto simp: py_or_def gh_get_def dget_none_def elim!: gh_text_str)

lemma handlers_total:
  "shape_push p = Inr () \<Longrightarrow> \<exists>v. handle_push p b = Inr v"
  "shape_pull_request p = Inr () \<Longrightarrow> \<exists>v. handle_pull_request p b = Inr v"
  "shape_pull_request_review p = Inr () \<Longrightarrow> \<exists>v. handle_pull_request_review p b = Inr v"
  "shape_issues p = Inr () \<Longrightarrow> \<exists>v. handle_issues p b = Inr v"
  "shape_issue_comment p = Inr () \<Longrightarrow> \<exists>v. handle_issue_comment p b = Inr v"
  "shape_workflow_run p = Inr () \<Longrightarrow> gh_object p ''sender'' False = Inr w \<Longrightarrow> \<exists>v. handle_workflow_run p b = Inr v"
  "shape_repository p = Inr () \<Longrightarrow> \<exists>v. handle_repository p b = Inr v"
  "shape_release p = Inr () \<Longrightarrow> \<exists>v. handle_release p b = Inr v"
proof -
  show "shape_issue_comment p = Inr () \<Longrightarrow> \<exists>v. handle_issue_comment p b = Inr v"
    by (force simp: shape_issue_comment_def handle_issue_comment_def shape_reads dest!: gh_object_read comment_body)
qed (force simp: shape_push_def handle_push_def shape_pull_request_def handle_pull_request_def shape_pull_request_review_def
      handle_pull_request_review_def shape_issues_def handle_issues_def
      shape_workflow_run_def handle_workflow_run_def shape_repository_def handle_repository_def shape_release_def handle_release_def
      shape_reads dest!: gh_object_read gh_objects_read(1))+

lemma check_total:
  "shape_check (lit ''check_run'') p = Inr () \<Longrightarrow> gh_object p ''sender'' False = Inr w \<Longrightarrow> \<exists>v. handle_check_run p b = Inr v"
  "shape_check (lit ''check_suite'') p = Inr () \<Longrightarrow> gh_object p ''sender'' False = Inr w \<Longrightarrow> \<exists>v. handle_check_suite p b = Inr v"
proof -
  have n: "lit ''check_suite'' \<noteq> lit ''check_run''" by simp
  show "shape_check (lit ''check_run'') p = Inr () \<Longrightarrow> gh_object p ''sender'' False = Inr w \<Longrightarrow> \<exists>v. handle_check_run p b = Inr v"
    "shape_check (lit ''check_suite'') p = Inr () \<Longrightarrow> gh_object p ''sender'' False = Inr w \<Longrightarrow> \<exists>v. handle_check_suite p b = Inr v"
    using n by (force simp: shape_check_def handle_check_run_def handle_check_suite_def shape_reads dest!: gh_object_read)+
qed

lemma ids_of_dicts:
  assumes "\<And>r. r \<in> set rs \<Longrightarrow> gh_positive r ''id'' = Inr ()"
  shows "\<exists>is. ids_of (PList (map PDict rs)) = Inr is"
proof -
  have "\<exists>is. rmap (\<lambda>d. must_have d ''id'') rs = Inr is"
    using assms by (induction rs) (force simp: must_have_def elim!: gh_positive_int)+
  then show ?thesis by (simp add: ids_of_def rmap_PDict)
qed

lemma installation_total:
  assumes "gh_object p ''installation'' True = Inr i" "gh_positive i ''id'' = Inr ()"
  shows "\<exists>v. handle_installation p b = Inr v"
    and "shape_installation_repositories p = Inr () \<Longrightarrow> gh_text p ''action'' True = Inr () \<Longrightarrow>
      \<exists>v. handle_installation_repositories p b = Inr v"
proof -
  show "\<exists>v. handle_installation p b = Inr v"
    using gh_object_read [OF assms(1)] by (simp add: handle_installation_def)
  assume sh: "shape_installation_repositories p = Inr ()" and act: "gh_text p ''action'' True = Inr ()"
  obtain added removed where r: "gh_objects p ''repositories_added'' True = Inr added" "gh_objects p ''repositories_removed'' True = Inr removed"
    and pos: "\<forall>r \<in> set added \<union> set removed. gh_positive r ''id'' = Inr ()"
    using sh by (auto simp: shape_installation_repositories_def shape_reads ball_Un)
  obtain ra where ra: "ids_of (PList (map PDict added)) = Inr ra" using ids_of_dicts [of added] pos by auto
  obtain rr where rr: "ids_of (PList (map PDict removed)) = Inr rr" using ids_of_dicts [of removed] pos by auto
  have "dget p (lit ''installation'') = Some (PDict i)"
    using assms(1) by (auto simp: gh_object_def dget_none_def require_def split: option.splits pyval.splits if_splits)
  then show "\<exists>v. handle_installation_repositories p b = Inr v"
    using ra rr gh_objects_read(2) [OF r(1)] gh_objects_read(2) [OF r(2)] assms(2) act
    by (auto simp: handle_installation_repositories_def must_have_def elim!: gh_positive_int gh_text_str)
qed

lemma common_parts:
  assumes "shape_common name p = Inr ()"
  shows "\<exists>b. base_envelope name d p = Inr b" "\<exists>w. gh_object p ''sender'' False = Inr w"
    "name \<noteq> lit ''push'' \<Longrightarrow> gh_text p ''action'' True = Inr ()"
    "name \<in> {lit ''installation'', lit ''installation_repositories''} \<Longrightarrow>
       \<exists>i. gh_object p ''installation'' True = Inr i \<and> gh_positive i ''id'' = Inr ()"
proof -
  have "(\<exists>n. \<exists>repo. gh_object p ''repository'' n = Inr repo) \<and> (\<exists>n. \<exists>i. gh_object p ''installation'' n = Inr i)"
    using assms by (auto simp: shape_common_def Let_def)
  then show "\<exists>b. base_envelope name d p = Inr b"
    by (force simp: base_envelope_def dest!: gh_object_read)
  show "\<exists>w. gh_object p ''sender'' False = Inr w" using assms by (auto simp: shape_common_def Let_def)
  show "name \<noteq> lit ''push'' \<Longrightarrow> gh_text p ''action'' True = Inr ()" using assms by (simp add: shape_common_def Let_def)
  show "name \<in> {lit ''installation'', lit ''installation_repositories''} \<Longrightarrow>
       \<exists>i. gh_object p ''installation'' True = Inr i \<and> gh_positive i ''id'' = Inr ()"
    using assms by (auto simp: shape_common_def Let_def)
qed

lemma handled:
  assumes "name \<in> set SUBSCRIBED_EVENTS" "validate_payload_shape name p = Inr ()"
  shows "\<exists>v. (case map_of HANDLERS name of None \<Rightarrow> handle_default | Some h \<Rightarrow> h) p b = Inr v"
proof -
  have c: "shape_common name p = Inr ()" using assms(2) by (auto simp: validate_payload_shape_def)
  obtain w where w: "gh_object p ''sender'' False = Inr w" using common_parts(2) [OF c] by blast
  note act = common_parts(3) [OF c] and inst = common_parts(4) [OF c]
  show ?thesis
    using assms handlers_total [of p] check_total [OF _ w] handlers_total(6) [OF _ w] installation_total act inst
    by (auto simp: SUBSCRIBED_EVENTS_def HANDLERS_def validate_payload_shape_def)
qed

text \<open>C12: A webhook is refused or normalised, never crashed on: whatever event name, delivery
  identifier and payload arrive, \<open>normalize\<close> gives an envelope or raises one of the errors it
  declares, because the shape check covers everything the handlers read.\<close>

theorem webhooks_are_refused_not_crashed_on:
  "case normalize event delivery payload of
     Inr env \<Rightarrow> True
   | Inl e \<Rightarrow> e \<in> {WebhookError, WebhookPayloadError, ValueError}"
proof (cases "in_vocabulary event SUBSCRIBED_EVENTS")
  case known: True
  then obtain name where name: "event = PStr name" "name \<in> set SUBSCRIBED_EVENTS"
    by (cases event) (auto simp: in_vocabulary_def)
  show ?thesis
  proof (cases "validate_public_identifier delivery")
    case (Inl e)
    then have "e = ValueError" by (cases delivery) (auto simp: validate_public_identifier.simps split: if_splits)
    then show ?thesis using Inl known by (simp add: normalize_def)
  next
    case (Inr d)
    show ?thesis
    proof (cases payload)
      case (PDict p)
      show ?thesis
      proof (cases "validate_payload_shape name p")
        case refused: (Inl e)
        then have "e = WebhookPayloadError"
          using validate_payload_shape_errors [of name p] by (simp add: only_payload_errors_def)
        then show ?thesis using refused PDict Inr known name by (simp add: normalize_def)
      next
        case ok: (Inr u)
        then have c: "shape_common name p = Inr ()" by (auto simp: validate_payload_shape_def)
        obtain b where b: "base_envelope name d p = Inr b" using common_parts(1) [OF c] by blast
        obtain v where "(case map_of HANDLERS name of None \<Rightarrow> handle_default | Some h \<Rightarrow> h) p b = Inr v"
          using handled [OF name(2)] ok by auto
        then show ?thesis using ok b PDict Inr known name by (simp add: normalize_def)
      qed
    qed (use Inr known in \<open>simp_all add: normalize_def\<close>)
  qed
qed (simp add: normalize_def)

subsection \<open>Text of a webhook\<close>

text \<open>The object of the payload whose author wrote the text of an event: the comment, not the issue
  it is on, and the review, not the pull request. Nothing else of a payload is text of its author.\<close>

definition text_object :: "pstr \<Rightarrow> string option" where
  "text_object event =
     (if event = lit ''pull_request'' then Some ''pull_request''
      else if event = lit ''pull_request_review'' then Some ''review''
      else if event = lit ''issues'' then Some ''issue''
      else if event = lit ''issue_comment'' then Some ''comment'' else None)"

definition trusted_author :: "pydict \<Rightarrow> bool" where
  "trusted_author d \<longleftrightarrow> (\<exists>a. gh_get d ''author_association'' = PStr a \<and> a \<in> set TRUSTED_ASSOCIATIONS)"

text \<open>A block of an event: text of its object with the authority of its author, or untrusted.\<close>

definition attributed :: "pstr \<Rightarrow> pydict \<Rightarrow> block \<Rightarrow> bool" where
  "attributed event p b = (case text_object event of
     None \<Rightarrow> bk_authority b = lit ''untrusted_content''
   | Some k \<Rightarrow> \<exists>d. raw_object (gh_get p k) = Inr d \<and> bk_text b \<in> {gh_get d ''title'', gh_get d ''body''}
       \<and> bk_authority b = (if trusted_author d then lit ''human_intent'' else lit ''untrusted_content''))"

lemma text_authority_author:
  "text_authority (gh_get d ''author_association'') = (if trusted_author d then lit ''human_intent'' else lit ''untrusted_content'')"
  by (cases "gh_get d ''author_association''") (auto simp: text_authority_def in_vocabulary_def trusted_author_def)

lemma field_blocks_text:
  "b \<in> set (field_blocks d ks a f) \<Longrightarrow> bk_authority b = a \<and> (\<exists>k \<in> set ks. bk_text b = gh_get d k)"
  by (force simp: field_blocks_def List.map_filter_def gh_get_def dget_none_def split: option.splits)

lemma push_attributed: "handle_push p e = Inr v \<Longrightarrow> b \<in> set (en_blocks v) \<Longrightarrow> attributed (lit ''push'') p b"
  by (auto simp: handle_push_def attributed_def text_object_def)

lemma release_attributed:
  "handle_release p e = Inr v \<Longrightarrow> en_blocks e = [] \<Longrightarrow> b \<in> set (en_blocks v) \<Longrightarrow> attributed (lit ''release'') p b"
  by (auto simp: handle_release_def attributed_def text_object_def split: if_splits)

lemma attributedI:
  assumes "text_object event = Some k" "raw_object (gh_get p k) = Inr d" "bk_text b \<in> {gh_get d ''title'', gh_get d ''body''}"
    and "bk_authority b = text_authority (gh_get d ''author_association'')"
  shows "attributed event p b"
  using assms unfolding attributed_def text_authority_author by auto

lemma field_blocks_attributed:
  assumes "text_object event = Some k" "set ks \<subseteq> {''title'', ''body''}"
    and "\<exists>d f. raw_object (gh_get p k) = Inr d \<and> b \<in> set (field_blocks d ks (text_authority (gh_get d ''author_association'')) f)"
  shows "attributed event p b"
proof -
  obtain d f where d: "raw_object (gh_get p k) = Inr d" "b \<in> set (field_blocks d ks (text_authority (gh_get d ''author_association'')) f)"
    using assms(3) by blast
  show ?thesis by (rule attributedI [OF assms(1) d(1)]) (use field_blocks_text [OF d(2)] assms(2) in auto)
qed

lemma pull_request_attributed:
  "handle_pull_request p e = Inr v \<Longrightarrow> b \<in> set (en_blocks v) \<Longrightarrow> attributed (lit ''pull_request'') p b"
  by (rule field_blocks_attributed [where k = "''pull_request''" and ks = "[''title'', ''body'']"])
    (auto simp: handle_pull_request_def Let_def text_object_def)

lemma review_attributed:
  "handle_pull_request_review p e = Inr v \<Longrightarrow> b \<in> set (en_blocks v) \<Longrightarrow> attributed (lit ''pull_request_review'') p b"
  by (rule field_blocks_attributed [where k = "''review''" and ks = "[''body'']"])
    (auto simp: handle_pull_request_review_def Let_def text_object_def)

lemma issues_attributed: "handle_issues p e = Inr v \<Longrightarrow> b \<in> set (en_blocks v) \<Longrightarrow> attributed (lit ''issues'') p b"
  by (rule field_blocks_attributed [where k = "''issue''" and ks = "[''title'', ''body'']"])
    (auto simp: handle_issues_def Let_def text_object_def)

lemma comment_attributed:
  assumes "handle_issue_comment p e = Inr v" "b \<in> set (en_blocks v)"
  shows "attributed (lit ''issue_comment'') p b"
proof -
  obtain d where d: "raw_object (gh_get p ''comment'') = Inr d"
    using assms(1) by (cases "raw_object (gh_get p ''comment'')") (simp_all add: handle_issue_comment_def)
  obtain i where i: "raw_object (gh_get p ''issue'') = Inr i"
    using assms(1) d by (cases "raw_object (gh_get p ''issue'')") (simp_all add: handle_issue_comment_def)
  obtain t where t: "py_or (gh_get d ''body'') (PStr []) = PStr t"
    using assms(1) d i by (cases "py_or (gh_get d ''body'') (PStr [])") (simp_all add: handle_issue_comment_def)
  have "t \<noteq> []" and b: "bk_text b = PStr t" "bk_authority b = text_authority (gh_get d ''author_association'')"
    using assms d i t by (auto simp: handle_issue_comment_def Let_def split: if_splits)
  then have "gh_get d ''body'' = PStr t" using t by (auto simp: py_or_def split: if_splits)
  then show ?thesis using b d by (intro attributedI [of _ "''comment''" p d]) (simp_all add: text_object_def)
qed

lemma handlers_attributed:
  assumes "(k, h) \<in> set HANDLERS" "h p e = Inr v" "en_blocks e = []" "b \<in> set (en_blocks v)"
  shows "attributed k p b"
proof -
  have none: "en_blocks v = en_blocks e"
    if "h \<in> {handle_check_run, handle_check_suite, handle_workflow_run, handle_installation,
      handle_installation_repositories, handle_repository}"
    using that assms(2) by (auto simp: handle_check_run_def handle_check_suite_def handle_workflow_run_def handle_installation_def
      handle_installation_repositories_def handle_repository_def)
  have "h \<in> {handle_check_run, handle_check_suite, handle_workflow_run, handle_installation, handle_installation_repositories,
      handle_repository} \<or> (k, h) \<in> {(lit ''push'', handle_push), (lit ''pull_request'', handle_pull_request),
      (lit ''pull_request_review'', handle_pull_request_review), (lit ''issues'', handle_issues),
      (lit ''issue_comment'', handle_issue_comment), (lit ''release'', handle_release)}"
    using assms(1) unfolding HANDLERS_def set_simps by blast
  then show ?thesis
  proof
    assume "(k, h) \<in> {(lit ''push'', handle_push), (lit ''pull_request'', handle_pull_request),
      (lit ''pull_request_review'', handle_pull_request_review), (lit ''issues'', handle_issues),
      (lit ''issue_comment'', handle_issue_comment), (lit ''release'', handle_release)}"
    then show ?thesis
      using push_attributed pull_request_attributed review_attributed issues_attributed comment_attributed release_attributed assms(2-4)
      unfolding insert_iff empty_iff prod.inject by (elim disjE conjE FalseE) simp_all
  qed (use none assms(3,4) in simp)
qed

lemma normalizeE:
  assumes "normalize event delivery payload = Inr env"
  obtains name d p b h where "event = PStr name" "delivery = PStr d" "payload = PDict p" "PUBLIC_IDENTIFIER d"
    "validate_payload_shape name p = Inr ()" "base_envelope name d p = Inr b" "(name, h) \<in> set HANDLERS" "h p b = Inr env"
proof -
  obtain name where name: "event = PStr name" "name \<in> set SUBSCRIBED_EVENTS"
    using assms by (cases event) (auto simp: normalize_def in_vocabulary_def require_def split: if_splits)
  then obtain h where h: "map_of HANDLERS name = Some h"
    by (auto simp: SUBSCRIBED_EVENTS_def HANDLERS_def)
  obtain p where p: "payload = PDict p"
    using assms by (cases payload) (auto simp: normalize_def require_def split: if_splits)
  obtain d b where "validate_public_identifier delivery = Inr d"
    "validate_payload_shape name p = Inr ()" "base_envelope name d p = Inr b" "h p b = Inr env"
    using assms name h p by (auto simp: normalize_def Let_def require_def split: if_splits)
  then show thesis using that name h p by (auto simp: validate_public_identifier_iff dest: map_of_SomeD)
qed

text \<open>C11: Text from a webhook is never policy, and counts as intent only from the repository's own
  people: every block of text of an envelope is text of the pull request, review, issue or
  comment the event is about, and it is human intent exactly when GitHub calls the author of that
  very object an owner, member or collaborator, and untrusted content otherwise; blocks of any
  other event, such as commit messages and release notes, are always untrusted content.\<close>

theorem webhook_text_is_at_most_intent:
  assumes "normalize (PStr event) delivery (PDict p) = Inr env" and "b \<in> set (en_blocks env)"
  shows "case text_object event of
      None \<Rightarrow> bk_authority b = lit ''untrusted_content''
    | Some k \<Rightarrow> \<exists>d. raw_object (gh_get p k) = Inr d \<and> bk_text b \<in> {gh_get d ''title'', gh_get d ''body''}
        \<and> bk_authority b = (if trusted_author d then lit ''human_intent'' else lit ''untrusted_content'')"
proof -
  obtain d e h where n: "base_envelope event d p = Inr e" "(event, h) \<in> set HANDLERS" "h p e = Inr env"
    using assms(1) by (auto elim: normalizeE)
  have "en_blocks e = []" using n(1) by (auto simp: base_envelope_def)
  from handlers_attributed [OF n(2,3) this assms(2)] show ?thesis unfolding attributed_def .
qed

text \<open>The identity of an envelope is the event's name and the delivery.\<close>

lemma handlers_identity:
  assumes "(k, h) \<in> set HANDLERS" "h p e = Inr v"
  shows "en_source_type v = en_source_type e \<and> en_key v = en_key e"
proof -
  have 1: "handle_push p e = Inr v \<Longrightarrow> ?thesis" "handle_pull_request p e = Inr v \<Longrightarrow> ?thesis"
    "handle_pull_request_review p e = Inr v \<Longrightarrow> ?thesis" "handle_issues p e = Inr v \<Longrightarrow> ?thesis"
    by (auto simp: handle_push_def handle_pull_request_def handle_pull_request_review_def handle_issues_def Let_def)
  have 2: "handle_issue_comment p e = Inr v \<Longrightarrow> ?thesis" "handle_check_run p e = Inr v \<Longrightarrow> ?thesis"
    "handle_check_suite p e = Inr v \<Longrightarrow> ?thesis" "handle_workflow_run p e = Inr v \<Longrightarrow> ?thesis"
    by (auto simp: handle_issue_comment_def handle_check_run_def handle_check_suite_def handle_workflow_run_def Let_def)
  have 3: "handle_installation p e = Inr v \<Longrightarrow> ?thesis" "handle_installation_repositories p e = Inr v \<Longrightarrow> ?thesis"
    "handle_repository p e = Inr v \<Longrightarrow> ?thesis" "handle_release p e = Inr v \<Longrightarrow> ?thesis"
    by (auto simp: handle_installation_def handle_installation_repositories_def handle_repository_def handle_release_def Let_def)
  have "h \<in> {handle_push, handle_pull_request, handle_pull_request_review, handle_issues, handle_issue_comment, handle_check_run,
      handle_check_suite, handle_workflow_run, handle_installation, handle_installation_repositories, handle_repository, handle_release}"
    using assms(1) by (simp add: HANDLERS_def) blast
  then show ?thesis using assms(2) 1 2 3 by (elim insertE emptyE) simp_all
qed

lemma normalize_identity:
  assumes "normalize (PStr name) (PStr d) payload = Inr env"
  shows "en_source_type env = lit ''github:'' @ name" "en_key env = lit ''github:'' @ d" "PUBLIC_IDENTIFIER d" "\<exists>p. payload = PDict p"
  using assms handlers_identity by (auto simp: base_envelope_def elim!: normalizeE)+

end
