(* ===== verification/Authority_Props.thy ===== *)
theory Authority_Props
  imports Authority Quarantine_Props Tiers Github_Props
begin

section \<open>engine.py: what authority rests on\<close>

text \<open>
  The reads change nothing, and what they derive is characterised by the decisions in the log:
  \<open>decisions\<close> lists those about one confirmation, \<open>amends\<close> says how each of them has to bind the
  state the ones before it left.
\<close>

subsection \<open>The decisions about a confirmation\<close>

definition about :: "authority_engine \<Rightarrow> pstr \<Rightarrow> pstr \<Rightarrow> 'z graph_st_scheme \<Rightarrow> pstr \<Rightarrow> (event_row \<times> pydict) option" where
  "about ae project cid s e = (case fst (get_event e (Some (ae_tenant ae)) (Some project) s) of
     Inl x \<Rightarrow> None
   | Inr ev \<Rightarrow> (case authority_payload ev of
       Inl x \<Rightarrow> None | Inr q \<Rightarrow> if confirmation_id (fst ev) q = Inr cid then Some (fst ev, q) else None))"

definition decisions :: "authority_engine \<Rightarrow> pstr \<Rightarrow> pstr \<Rightarrow> int \<Rightarrow> 'z graph_st_scheme \<Rightarrow> (event_row \<times> pydict) list" where
  "decisions ae project cid since s = List.map_filter (about ae project cid s) (decision_events ae project since s)"

fun amends :: "confirmed \<Rightarrow> (event_row \<times> pydict) list \<Rightarrow> confirmed \<Rightarrow> bool" where
  "amends c [] c' \<longleftrightarrow> c' = c"
| "amends c ((e, q) # ds) c' \<longleftrightarrow> req q ''operation'' \<noteq> lit ''confirm'' \<and> binds_confirmation c q = Inr True
     \<and> (\<exists>c1. amend c e q = Inr c1 \<and> amends c1 ds c')"

lemma aboutD:
  assumes "about ae project cid s e = Some (r, q)"
  obtains v where "fst (get_event e (Some (ae_tenant ae)) (Some project) s) = Inr (r, v)" "authority_payload (r, v) = Inr q"
    "confirmation_id r q = Inr cid"
proof (cases "fst (get_event e (Some (ae_tenant ae)) (Some project) s)")
  case (Inr ev)
  then show thesis using assms that [of "snd ev"]
    by (cases ev; cases "authority_payload ev") (auto simp: about_def split: if_splits)
qed (use assms in \<open>simp add: about_def\<close>)

lemma decide_one_run:
  fixes s :: "'z graph_st_scheme"
  assumes "get_event e (Some (ae_tenant ae)) (Some project) s = (Inr ev, s)" "decide_one ae project cid st ev s = (Inr st', t)"
  shows "t = s \<and> (case about ae project cid s e of
      None \<Rightarrow> st' = st
    | Some (e', q) \<Rightarrow> (if req q ''operation'' = lit ''confirm''
        then st = None \<and> st' = Some (confirmation_of cid e' q)
          \<and> (\<exists>n src. proposal_origin ae project (req q ''proposal_id'') s = (Inr (n, src), s) \<and> binds_proposal n q = Inr True)
        else (\<exists>c c'. st = Some c \<and> binds_confirmation c q = Inr True \<and> amend c e' q = Inr c' \<and> st' = Some c')))"
proof -
  have t: "t = s" by (rule same_run [OF keeps_decide_one_same assms(2)])
  obtain q where q: "authority_payload ev = Inr q" using assms(2) by (auto simp: decide_one_def bnd_lift_Inr)
  obtain i where i: "confirmation_id (fst ev) q = Inr i" using assms(2) q by (auto simp: decide_one_def bnd_lift_Inr)
  have ab: "about ae project cid s e = (if i = cid then Some (fst ev, q) else None)"
    using assms(1) q i by (simp add: about_def)
  have run: "(if i \<noteq> cid then ret st
     else if req q ''operation'' = lit ''confirm'' then
       bnd (chk (st = None) ValueError) (\<lambda>_.
       bnd (proposal_origin ae project (req q ''proposal_id'')) (\<lambda>(n, _).
       bnd (lift (binds_proposal n q)) (\<lambda>ok.
       bnd (chk ok ValueError) (\<lambda>_.
       ret (Some (confirmation_of cid (fst ev) q))))))
     else case st of
       None \<Rightarrow> fail ValueError
     | Some c \<Rightarrow>
         bnd (lift (binds_confirmation c q)) (\<lambda>ok.
         bnd (chk ok ValueError) (\<lambda>_.
         bnd (lift (amend c (fst ev) q)) (\<lambda>c'. ret (Some c'))))) s = (Inr st', t)"
    using assms(2) q i by (simp add: decide_one_def bnd_lift)
  show ?thesis
  proof (cases "i = cid")
    case False
    then show ?thesis using run t ab by (simp add: ret_def)
  next
    case same: True
    show ?thesis
    proof (cases "req q ''operation'' = lit ''confirm''")
      case True
      then have "st = None" and r: "bnd (proposal_origin ae project (req q ''proposal_id'')) (\<lambda>(n, _).
       bnd (lift (binds_proposal n q)) (\<lambda>ok. bnd (chk ok ValueError) (\<lambda>_. ret (Some (confirmation_of cid (fst ev) q))))) s = (Inr st', t)"
        using run same by (auto simp: bnd_chk split: if_splits)
      then obtain n src u where o: "proposal_origin ae project (req q ''proposal_id'') s = (Inr (n, src), u)"
        and r2: "bnd (lift (binds_proposal n q)) (\<lambda>ok. bnd (chk ok ValueError) (\<lambda>_. ret (Some (confirmation_of cid (fst ev) q)))) u = (Inr st', t)"
        by (auto simp: bnd_eq_Inr [of "proposal_origin _ _ _"])
      have "u = s" by (rule same_run [OF keeps_proposal_origin_same o])
      then show ?thesis using o r2 t ab same True \<open>st = None\<close>
        by (auto simp: bnd_lift_Inr bnd_chk ret_def split: if_splits)
    next
      case False
      then show ?thesis using run same t ab
        by (auto simp: fail_def bnd_lift_Inr bnd_chk ret_def split: option.splits if_splits)
    qed
  qed
qed

lemma decide_all_amends:
  fixes s :: "'z graph_st_scheme"
  assumes "decide_all ae project cid (Some c) es s = (Inr st, t)"
  shows "\<exists>c'. st = Some c' \<and> amends c (List.map_filter (about ae project cid s) es) c'"
  using assms
proof (induction es arbitrary: c)
  case (Cons e es)
  obtain ev u where ev: "get_event e (Some (ae_tenant ae)) (Some project) s = (Inr ev, u)"
    and r: "bnd (decide_one ae project cid (Some c) ev) (\<lambda>st'. decide_all ae project cid st' es) u = (Inr st, t)"
    using Cons.prems by (auto simp: bnd_eq_Inr [of "get_event _ _ _"])
  have u: "u = s" by (rule same_run [OF keeps_get_event_same ev])
  obtain st' v where d: "decide_one ae project cid (Some c) ev s = (Inr st', v)" and r2: "decide_all ae project cid st' es v = (Inr st, t)"
    using r u by (auto simp: bnd_eq_Inr [of "decide_one _ _ _ _ _"])
  note one = decide_one_run [OF ev [unfolded u] d]
  show ?case
  proof (cases "about ae project cid s e")
    case None
    then show ?thesis using one Cons.IH [of c] r2 by (simp add: List.map_filter_simps)
  next
    case (Some p)
    then obtain e' q where p: "p = (e', q)" "about ae project cid s e = Some (e', q)" by (cases p) auto
    then obtain c' where c': "req q ''operation'' \<noteq> lit ''confirm''" "binds_confirmation c q = Inr True" "amend c e' q = Inr c'" "st' = Some c'"
      using one by (auto split: if_splits)
    show ?thesis using Cons.IH [of c'] r2 one c' p by (auto simp: List.map_filter_simps)
  qed
qed (simp add: ret_def)

lemma decide_all_run:
  fixes s :: "'z graph_st_scheme"
  assumes "decide_all ae project cid None es s = (Inr (Some c), t)"
  shows "\<exists>e q rest n src. List.map_filter (about ae project cid s) es = (e, q) # rest \<and> req q ''operation'' = lit ''confirm''
    \<and> proposal_origin ae project (req q ''proposal_id'') s = (Inr (n, src), s) \<and> binds_proposal n q = Inr True
    \<and> amends (confirmation_of cid e q) rest c"
  using assms
proof (induction es)
  case (Cons e es)
  obtain ev u where ev: "get_event e (Some (ae_tenant ae)) (Some project) s = (Inr ev, u)"
    and r: "bnd (decide_one ae project cid None ev) (\<lambda>st'. decide_all ae project cid st' es) u = (Inr (Some c), t)"
    using Cons.prems by (auto simp: bnd_eq_Inr [of "get_event _ _ _"])
  have u: "u = s" by (rule same_run [OF keeps_get_event_same ev])
  obtain st' v where d: "decide_one ae project cid None ev s = (Inr st', v)" and r2: "decide_all ae project cid st' es v = (Inr (Some c), t)"
    using r u by (auto simp: bnd_eq_Inr [of "decide_one _ _ _ _ _"])
  note one = decide_one_run [OF ev [unfolded u] d]
  show ?case
  proof (cases "about ae project cid s e")
    case None
    then show ?thesis using one Cons.IH r2 by (simp add: List.map_filter_simps)
  next
    case (Some p)
    then obtain e' q where p: "about ae project cid s e = Some (e', q)" by (cases p) auto
    then have st': "st' = Some (confirmation_of cid e' q)" "req q ''operation'' = lit ''confirm''" "v = s"
      "\<exists>n src. proposal_origin ae project (req q ''proposal_id'') s = (Inr (n, src), s) \<and> binds_proposal n q = Inr True"
      using one by (auto split: if_splits)
    then show ?thesis using decide_all_amends [of ae project cid "confirmation_of cid e' q" es s "Some c" t] r2 p
      by (auto simp: List.map_filter_simps)
  qed
qed (simp add: ret_def)

lemma amend_run:
  assumes "amend c e q = Inr c1"
  shows "cf_version c1 = cf_version c + 1" "cf_revoked c1 \<longleftrightarrow> cf_revoked c \<or> req q ''operation'' = lit ''revoke''"
    "cf_id c1 = cf_id c" "cf_statement c1 = cf_statement c" "cf_kind c1 = cf_kind c" "cf_proposal c1 = cf_proposal c"
    "cf_event c1 = cf_event c"
    "cf_scope c1 = (if req q ''operation'' = lit ''revoke'' then cf_scope c else dget_none q (lit ''authority_scope''))"
  using assms by (auto simp: amend_def member_def dget_none_def split: option.splits, auto simp: amend_def Let_def rbind_Inr split: if_splits)

text \<open>What stays, what counts and what ends a confirmation.\<close>

lemma amends_run:
  assumes "amends c ds c'"
  shows "cf_version c' = cf_version c + int (length ds)"
    and "cf_revoked c' \<longleftrightarrow> cf_revoked c \<or> (\<exists>(e, q) \<in> set ds. req q ''operation'' = lit ''revoke'')"
    and "cf_id c' = cf_id c" "cf_statement c' = cf_statement c" "cf_kind c' = cf_kind c" "cf_proposal c' = cf_proposal c"
    "cf_event c' = cf_event c"
    and "\<forall>(e, q) \<in> set ds. req q ''operation'' \<noteq> lit ''confirm''"
    and "\<forall>(e, q) \<in> set (butlast ds). req q ''operation'' \<noteq> lit ''revoke''"
    and "cf_scope c' = foldl (\<lambda>sc (e, q). if req q ''operation'' = lit ''revoke'' then sc else dget_none q (lit ''authority_scope'')) (cf_scope c) ds"
proof -
  have "cf_version c' = cf_version c + int (length ds)
    \<and> (cf_revoked c' \<longleftrightarrow> cf_revoked c \<or> (\<exists>(e, q) \<in> set ds. req q ''operation'' = lit ''revoke''))
    \<and> cf_id c' = cf_id c \<and> cf_statement c' = cf_statement c \<and> cf_kind c' = cf_kind c \<and> cf_proposal c' = cf_proposal c
    \<and> cf_event c' = cf_event c \<and> (\<forall>(e, q) \<in> set ds. req q ''operation'' \<noteq> lit ''confirm'')
    \<and> (\<forall>(e, q) \<in> set (butlast ds). req q ''operation'' \<noteq> lit ''revoke'') \<and> (ds = [] \<or> (\<not> cf_revoked c))
    \<and> cf_scope c' = foldl (\<lambda>sc (e, q). if req q ''operation'' = lit ''revoke'' then sc else dget_none q (lit ''authority_scope'')) (cf_scope c) ds"
    using assms
  proof (induction ds arbitrary: c)
    case (Cons d ds)
    obtain e q where d: "d = (e, q)" by (cases d)
    obtain c1 where c1: "req q ''operation'' \<noteq> lit ''confirm''" "binds_confirmation c q = Inr True" "amend c e q = Inr c1" "amends c1 ds c'"
      using Cons.prems by (auto simp: d)
    have "\<not> cf_revoked c" using c1(2) by (auto simp: binds_confirmation_def)
    then show ?case using Cons.IH [OF c1(4)] amend_run [OF c1(3)] c1(1) by (auto simp: d)
  qed simp
  then show "cf_version c' = cf_version c + int (length ds)"
    and "cf_revoked c' \<longleftrightarrow> cf_revoked c \<or> (\<exists>(e, q) \<in> set ds. req q ''operation'' = lit ''revoke'')"
    and "cf_id c' = cf_id c" "cf_statement c' = cf_statement c" "cf_kind c' = cf_kind c" "cf_proposal c' = cf_proposal c"
    "cf_event c' = cf_event c"
    and "\<forall>(e, q) \<in> set ds. req q ''operation'' \<noteq> lit ''confirm''"
    and "\<forall>(e, q) \<in> set (butlast ds). req q ''operation'' \<noteq> lit ''revoke''"
    and "cf_scope c' = foldl (\<lambda>sc (e, q). if req q ''operation'' = lit ''revoke'' then sc else dget_none q (lit ''authority_scope'')) (cf_scope c) ds"
    by blast+
qed

lemma authority_state_run:
  fixes s :: "'z graph_st_scheme"
  assumes "authority_state ae project cid s = (Inr c, t)"
  obtains first q0 e q rest n src where
    "about ae project cid s (e_id first) = Some (first, q0)" "req q0 ''operation'' = lit ''confirm''"
    "decisions ae project cid (e_seq first) s = (e, q) # rest" "req q ''operation'' = lit ''confirm''"
    "proposal_origin ae project (req q ''proposal_id'') s = (Inr (n, src), s)" "binds_proposal n q = Inr True"
    "amends (confirmation_of cid e q) rest c"
proof -
  obtain hs u where hs: "history_of cid (Some (ae_tenant ae)) (Some project) s = (Inr hs, u)"
    and r: "(case find (\<lambda>n. n_extractor (nd_row n) = Some AUTHORITY_EXTRACTOR) hs of
       None \<Rightarrow> fail ValueError
     | Some origin \<Rightarrow>
         bnd (case n_event_id (nd_row origin) of
                None \<Rightarrow> fail KeyError
              | Some e \<Rightarrow> get_event e (Some (ae_tenant ae)) (Some project)) (\<lambda>first.
         bnd (lift (authority_payload first)) (\<lambda>q.
         bnd (chk (req q ''operation'' = lit ''confirm'') ValueError) (\<lambda>_.
         bnd (lift (confirmation_id (fst first) q)) (\<lambda>i.
         bnd (chk (i = cid) ValueError) (\<lambda>_.
         bnd (rd (decision_events ae project (e_seq (fst first)))) (\<lambda>es.
         bnd (decide_all ae project cid None es) (\<lambda>st.
         case st of None \<Rightarrow> fail ValueError | Some c \<Rightarrow> ret c)))))))) u = (Inr c, t)"
    using assms unfolding authority_state_def bnd_eq_Inr [of "history_of _ _ _"] by blast
  have u: "u = s" by (rule same_run [OF keeps_history_same hs])
  obtain eid ev v where ev: "get_event eid (Some (ae_tenant ae)) (Some project) s = (Inr ev, v)"
    and r2: "bnd (lift (authority_payload ev)) (\<lambda>q.
         bnd (chk (req q ''operation'' = lit ''confirm'') ValueError) (\<lambda>_.
         bnd (lift (confirmation_id (fst ev) q)) (\<lambda>i.
         bnd (chk (i = cid) ValueError) (\<lambda>_.
         bnd (rd (decision_events ae project (e_seq (fst ev)))) (\<lambda>es.
         bnd (decide_all ae project cid None es) (\<lambda>st.
         case st of None \<Rightarrow> fail ValueError | Some c \<Rightarrow> ret c)))))) v = (Inr c, t)"
    using r u by (auto simp: bnd_eq_Inr [of "case _ of None \<Rightarrow> _ | Some e \<Rightarrow> _ e"] fail_def bnd_def split: option.splits prod.splits sum.splits)
  have v: "v = s" by (rule same_run [OF keeps_get_event_same ev])
  obtain q0 i where q0: "authority_payload ev = Inr q0" "req q0 ''operation'' = lit ''confirm''" "confirmation_id (fst ev) q0 = Inr cid"
    and r3: "bnd (decide_all ae project cid None (decision_events ae project (e_seq (fst ev)) s)) (\<lambda>st.
         case st of None \<Rightarrow> fail ValueError | Some c \<Rightarrow> ret c) s = (Inr c, t)"
    using r2 unfolding v by (auto simp: bnd_lift_Inr bnd_chk bnd_rd split: if_splits)
  obtain st w where st: "decide_all ae project cid None (decision_events ae project (e_seq (fst ev)) s) s = (Inr st, w)"
    and "(case st of None \<Rightarrow> fail ValueError | Some c \<Rightarrow> ret c) w = (Inr c, t)"
    using r3 by (auto simp: bnd_eq_Inr [of "decide_all _ _ _ _ _"])
  then have st: "decide_all ae project cid None (decision_events ae project (e_seq (fst ev)) s) s = (Inr (Some c), w)"
    by (auto simp: fail_def ret_def split: option.splits)
  have "e_id (fst ev) = eid" using ev by (auto simp: get_event_def run_simps event_dict_def rbind_def find_Some_iff split: option.splits if_splits sum.splits)
  then have "about ae project cid s (e_id (fst ev)) = Some (fst ev, q0)" using ev q0 by (simp add: about_def)
  then show thesis using that q0(2) decide_all_run [OF st] unfolding decisions_def by blast
qed

subsection \<open>Proposals\<close>

text \<open>The text is what the extractor finds, unsuspected, in a block of an event whose payload is
  still there.\<close>

definition retained :: "authority_engine \<Rightarrow> pstr \<Rightarrow> 'z store_st_scheme \<Rightarrow> pstr \<Rightarrow> pyval \<Rightarrow> pyval \<Rightarrow> bool" where
  "retained ae project s eid kind txt \<longleftrightarrow> (\<exists>ev bs b items i.
     get_event eid (Some (ae_tenant ae)) (Some project) s = (Inr ev, s) \<and> snd ev \<noteq> PNone
     \<and> scan_blocks ae ev = Inr bs \<and> b \<in> set bs \<and> tb_items b = Inr items \<and> \<not> list_ex it_suspected items
     \<and> i \<in> set items \<and> it_kind i = kind \<and> PStr (it_statement i) = txt)"

lemma witnessed_run:
  assumes "witnessed desc criticality bs = Inr ()"
  shows "\<exists>b items i. b \<in> set bs \<and> tb_items b = Inr items \<and> \<not> list_ex it_suspected items
     \<and> i \<in> set items \<and> it_kind i = dget_none desc (lit ''proposed_kind'') \<and> PStr (it_statement i) = dget_none desc (lit ''text'')
     \<and> Some (it_criticality i) = criticality"
  using assms
proof (induction bs)
  case (Cons b bs)
  show ?case
  proof (cases "tb_ref b \<noteq> dget_none desc (lit ''source_ref'')")
    case True
    then show ?thesis using Cons by auto
  next
    case False
    then obtain items where items: "tb_items b = Inr items" "\<not> list_ex it_suspected items"
      and r: "(case matching_items desc items of [] \<Rightarrow> witnessed desc criticality bs
        | i # _ \<Rightarrow> require (criticality = Some (it_criticality i)) ValueError (Inr ())) = Inr ()"
      using Cons.prems by (auto simp: rbind_Inr split: if_splits)
    show ?thesis
    proof (cases "matching_items desc items")
      case Nil
      then show ?thesis using r Cons.IH by auto
    next
      case (Cons i others)
      then have "i \<in> set (matching_items desc items)" by simp
      then show ?thesis using r Cons items by (auto simp: matching_items_def require_def split: if_splits)
    qed
  qed
qed simp

lemma proposal_origin_run:
  fixes s :: "'z graph_st_scheme"
  assumes "proposal_origin ae project pid s = (Inr (n, ev), t)"
  shows "t = s" "\<exists>hs. history_of pid (Some (ae_tenant ae)) (Some project) s = (Inr (n # hs), s)"
    "n_entity_type (nd_row n) = lit ''claim''" "n_extractor (nd_row n) = Some (lit ''cce-deterministic'')"
    "n_event_id (nd_row n) = Some (e_id (fst ev))"
    "retained ae project s (e_id (fst ev)) (dget_none (descriptor_of n) (lit ''proposed_kind'')) (dget_none (descriptor_of n) (lit ''text''))"
proof -
  show t: "t = s" by (rule same_run [OF keeps_proposal_origin_same assms])
  obtain hs u where hs: "history_of pid (Some (ae_tenant ae)) (Some project) s = (Inr hs, u)"
    and r: "(case hs of
       [] \<Rightarrow> fail ValueError
     | n # _ \<Rightarrow>
         let desc = descriptor_of n in
         bnd (chk (n_entity_type (nd_row n) = lit ''claim'' \<and> is_dict (field_of n ''proposal'')
           \<and> dget_none desc (lit ''schema_version'') = PStr PROPOSAL_SCHEMA
           \<and> n_extractor (nd_row n) = Some (lit ''cce-deterministic'')) ValueError) (\<lambda>_.
         bnd (catch (case dget_none desc (lit ''source_event_id'') of
                PStr e \<Rightarrow> get_event e (Some (ae_tenant ae)) (Some project) | _ \<Rightarrow> fail KeyError)
              (\<lambda>x. x = KeyError) (\<lambda>_. fail ValueError)) (\<lambda>ev.
         let expected = proposal_descriptor (fst ev) (dget_none desc (lit ''source_ref''))
               (dget_none desc (lit ''proposed_kind'')) (dget_none desc (lit ''text'')) in
         bnd (chk (py_same (PDict desc) expected) ValueError) (\<lambda>_.
         bnd (lift (digest_obj expected)) (\<lambda>d.
         bnd (chk (pid = lit ''clm_'' @ take 24 (drop 7 d) \<and> n_event_id (nd_row n) = Some (e_id (fst ev))
           \<and> snd ev \<noteq> PNone) ValueError) (\<lambda>_.
         bnd (lift (rbind (scan_blocks ae ev) (witnessed desc (n_criticality (nd_row n))))) (\<lambda>_.
         ret (n, ev)))))))) u = (Inr (n, ev), t)"
    using assms unfolding proposal_origin_def bnd_eq_Inr [of "history_of _ _ _"] by blast
  have u: "u = s" by (rule same_run [OF keeps_history_same hs])
  obtain n' hs' where h: "hs = n' # hs'" using r by (cases hs) (auto simp: fail_def)
  note r = r [unfolded u h list.case Let_def]
  have c: "n_entity_type (nd_row n') = lit ''claim''" "n_extractor (nd_row n') = Some (lit ''cce-deterministic'')"
    using r by (auto simp: bnd_chk split: if_splits)
  obtain ev' v where ev: "catch (case dget_none (descriptor_of n') (lit ''source_event_id'') of
                PStr e \<Rightarrow> get_event e (Some (ae_tenant ae)) (Some project) | _ \<Rightarrow> fail KeyError)
              (\<lambda>x. x = KeyError) (\<lambda>_. fail ValueError) s = (Inr ev', v)"
    and r2: "bnd (chk (py_same (PDict (descriptor_of n')) (proposal_descriptor (fst ev') (dget_none (descriptor_of n') (lit ''source_ref''))
               (dget_none (descriptor_of n') (lit ''proposed_kind'')) (dget_none (descriptor_of n') (lit ''text'')))) ValueError) (\<lambda>_.
         bnd (lift (digest_obj (proposal_descriptor (fst ev') (dget_none (descriptor_of n') (lit ''source_ref''))
               (dget_none (descriptor_of n') (lit ''proposed_kind'')) (dget_none (descriptor_of n') (lit ''text''))))) (\<lambda>d.
         bnd (chk (pid = lit ''clm_'' @ take 24 (drop 7 d) \<and> n_event_id (nd_row n') = Some (e_id (fst ev'))
           \<and> snd ev' \<noteq> PNone) ValueError) (\<lambda>_.
         bnd (lift (rbind (scan_blocks ae ev') (witnessed (descriptor_of n') (n_criticality (nd_row n'))))) (\<lambda>_.
         ret (n', ev'))))) v = (Inr (n, ev), t)"
    using r c by (auto simp: bnd_chk bnd_eq_Inr [of "catch _ _ _"] split: if_splits)
  obtain e where e: "get_event e (Some (ae_tenant ae)) (Some project) s = (Inr ev', v)"
    using ev by (auto simp: catch_def fail_def split: pyval.splits prod.splits sum.splits if_splits)
  have v: "v = s" by (rule same_run [OF keeps_get_event_same e])
  have eid: "e_id (fst ev') = e" using e by (auto simp: get_event_def run_simps event_dict_def rbind_def find_Some_iff split: option.splits if_splits sum.splits)
  obtain bs where fin: "n = n'" "ev = ev'" "n_event_id (nd_row n') = Some (e_id (fst ev'))" "snd ev' \<noteq> PNone"
    "scan_blocks ae ev' = Inr bs" "witnessed (descriptor_of n') (n_criticality (nd_row n')) bs = Inr ()"
    using r2 by (auto simp: bnd_chk bnd_lift_Inr rbind_Inr ret_def split: if_splits)
  show "\<exists>hs. history_of pid (Some (ae_tenant ae)) (Some project) s = (Inr (n # hs), s)" using hs u h fin(1) by blast
  show "n_entity_type (nd_row n) = lit ''claim''" "n_extractor (nd_row n) = Some (lit ''cce-deterministic'')"
    "n_event_id (nd_row n) = Some (e_id (fst ev))" using c fin by simp_all
  show "retained ae project s (e_id (fst ev)) (dget_none (descriptor_of n) (lit ''proposed_kind'')) (dget_none (descriptor_of n) (lit ''text''))"
    using witnessed_run [OF fin(6)] fin(4,5) e v eid unfolding fin(1,2) retained_def by blast
qed

subsection \<open>Authority is earned\<close>

text \<open>The decisions in the log that put a node in force: the first confirms a statement that a
  retained source still bears out, in the words and the kind of the node, and no later one about
  it revokes.\<close>

definition in_force :: "authority_engine \<Rightarrow> pstr \<Rightarrow> 'z graph_st_scheme \<Rightarrow> pstr \<Rightarrow> pstr \<Rightarrow> pyval \<Rightarrow> bool" where
  "in_force ae project s cid kind txt \<longleftrightarrow> (\<exists>first q0 e q rest orig source.
     about ae project cid s (e_id first) = Some (first, q0) \<and> req q0 ''operation'' = lit ''confirm''
     \<and> decisions ae project cid (e_seq first) s = (e, q) # rest \<and> req q ''operation'' = lit ''confirm''
     \<and> (\<forall>(e', q') \<in> set rest. req q' ''operation'' \<notin> {lit ''confirm'', lit ''revoke''})
     \<and> req q ''proposed_kind'' = kind \<and> PStr (req q ''text'') = txt
     \<and> proposal_origin ae project (req q ''proposal_id'') s = (Inr (orig, source), s)
     \<and> binds_proposal orig q = Inr True
     \<and> retained ae project s (e_id (fst source)) (PStr kind) txt)"

lemma py_same_text: "py_same v (PStr t) \<Longrightarrow> v = PStr t"
  by (auto simp: py_same.simps py_eq_def split: pyval.splits)

lemma text_ofD: "text_of v = t \<Longrightarrow> t \<noteq> [] \<Longrightarrow> v = PStr t"
  by (cases v) auto

lemma dget_set: "dget (dset d k v) j = (if k = PStr j then Some v else dget d j)"
  by (simp add: dget_def map_of_dset)

lemma dget_none_dset: "dget_none (dset d k v) j = (if k = PStr j then v else dget_none d j)"
  by (simp add: dget_none_def dget_set)

lemma dget_none_default: "lit k \<noteq> j \<Longrightarrow> dget_none (with_default d k v) j = dget_none d j"
  by (simp add: with_default_def dget_none_dset)

lemma request_lits [simp]:
  "lit ''confirm'' \<noteq> []" "lit ''note'' \<noteq> lit ''operation''" "lit ''note'' \<noteq> lit ''text''" "lit ''note'' \<noteq> lit ''proposed_kind''"
  "lit ''authority_scope'' \<noteq> lit ''operation''" "lit ''authority_scope'' \<noteq> lit ''text''" "lit ''authority_scope'' \<noteq> lit ''proposed_kind''"
  "lit ''note'' \<noteq> lit ''authority_scope''"
  by code_simp+

lemma request_body_run:
  assumes "request_body supplied r = Inr q"
  obtains required optional binding r2 where "request_fields (dget_none r (lit ''operation'')) = Inr (required, optional, binding)"
    "if binding = ''proposal'' then confirm_fields (with_default r ''note'' PNone) = Inr r2 else r2 = with_default r ''note'' PNone"
    "q = r2 \<or> (\<exists>sc. q = dset r2 (pkey ''authority_scope'') sc)"
proof -
  obtain required optional binding where f: "request_fields (dget_none r (lit ''operation'')) = Inr (required, optional, binding)"
    using assms by (auto simp: request_body_def rbind_Inr)
  obtain r2 where r2: "(if binding = ''proposal'' then confirm_fields (with_default r ''note'' PNone) else Inr (with_default r ''note'' PNone)) = Inr r2"
    and q: "(case dget r2 (lit ''authority_scope'') of None \<Rightarrow> Inr r2 | Some scope \<Rightarrow> rbind (request_scope scope) (\<lambda>sc. Inr (dset r2 (pkey ''authority_scope'') sc))) = Inr q"
    using assms f by (auto simp: request_body_def rbind_Inr Let_def require_def split: if_splits)
  show thesis
    by (rule that [OF f, of r2]) (use r2 q in \<open>auto simp: rbind_Inr split: option.splits if_splits\<close>)
qed

lemma request_texts:
  assumes "authority_request v = Inr q" "req q ''operation'' = lit ''confirm''"
  shows "dget_none q (lit ''text'') = PStr (req q ''text'')" "dget_none q (lit ''proposed_kind'') = PStr (req q ''proposed_kind'')"
proof -
  obtain supplied where v: "v = PDict supplied" using assms(1) by (cases v) (auto simp: authority_request_def)
  obtain w where "(case w of PDict r \<Rightarrow> request_body supplied r | _ \<Rightarrow> Inl ValueError) = Inr q"
    using assms(1) unfolding authority_request_def v pyval.case rbind_Inr by blast
  then obtain r where body: "request_body supplied r = Inr q" by (cases w) auto
  obtain required optional binding r2 where f: "request_fields (dget_none r (lit ''operation'')) = Inr (required, optional, binding)"
    and r2: "if binding = ''proposal'' then confirm_fields (with_default r ''note'' PNone) = Inr r2 else r2 = with_default r ''note'' PNone"
    and q: "q = r2 \<or> (\<exists>sc. q = dset r2 (pkey ''authority_scope'') sc)"
    by (rule request_body_run [OF body])
  have eq: "dget_none q k = dget_none r2 k" if "k \<noteq> lit ''authority_scope''" for k using q that by (auto simp: dget_none_dset)
  have c: "r2 = with_default (with_default r ''note'' PNone) ''authority_scope'' GLOBAL" if "binding = ''proposal''"
    using r2 that by (auto simp: confirm_fields_def require_def rbind_Inr split: if_splits)
  have op: "dget_none r2 (lit ''operation'') = dget_none r (lit ''operation'')"
    using r2 c by (cases "binding = ''proposal''") (simp_all add: dget_none_default)
  have "dget_none r (lit ''operation'') = pkey ''confirm''"
    using assms(2) eq [of "lit ''operation''"] op by (auto simp: req_def intro: text_ofD)
  then have b: "binding = ''proposal''" using f by (simp add: request_fields_def Let_def)
  let ?r1 = "with_default r ''note'' PNone"
  have v: "in_vocabulary (dget_none ?r1 (lit ''proposed_kind'')) AUTHORITY_KINDS" "\<exists>t. validate_human_text 4096 (dget_none ?r1 (lit ''text'')) = Inr t"
    using r2 b by (auto simp: confirm_fields_def require_def rbind_Inr split: if_splits)
  have "is_str (dget_none r2 (lit ''text''))" "is_str (dget_none r2 (lit ''proposed_kind''))"
    using v unfolding c [OF b]
    by (auto simp: dget_none_default validate_human_text_iff, cases "dget_none r (lit ''proposed_kind'')") (auto simp: in_vocabulary_def)
  then show "dget_none q (lit ''text'') = PStr (req q ''text'')" "dget_none q (lit ''proposed_kind'') = PStr (req q ''proposed_kind'')"
    using eq by (auto simp: req_def elim: is_strE)
qed

lemma earned:
  fixes s :: "'z graph_st_scheme"
  assumes "may_mandate ae n s"
    and "h \<in> set (nodes s)" "n_id h = n_id (nd_row n)" "n_tenant_id h = ae_tenant ae" "n_project_id h = n_project_id (nd_row n)"
      "n_extractor h \<notin> {None, Some []}"
  shows "in_force ae (n_project_id (nd_row n)) s (n_id (nd_row n)) (n_entity_type (nd_row n)) (field_of n ''statement'')"
proof -
  let ?p = "n_project_id (nd_row n)" and ?id = "n_id (nd_row n)"
  have run: "fst (authority_is_current ae n s) = Inr True" using assms(1) by (simp add: may_mandate_def)
  obtain t where run: "authority_is_current ae n s = (Inr True, t)" using run by (cases "authority_is_current ae n s") auto
  have "\<not> quarantined n" using run by (auto simp: authority_is_current_def ret_def)
  then obtain hs u where hs: "history_of ?id (Some (ae_tenant ae)) (Some ?p) s = (Inr hs, u)"
    and r: "(if list_all (\<lambda>h. n_extractor (nd_row h) \<in> {None, Some []}) hs then ret True
        else bnd (or_invalid (authority_state ae ?p ?id)) (\<lambda>st. case st of None \<Rightarrow> ret False | Some c \<Rightarrow> matches_state ae n c)) u = (Inr True, t)"
    using run by (auto simp: authority_is_current_def bnd_eq_Inr [of "history_of _ _ _"])
  have u: "u = s" by (rule same_run [OF keeps_history_same hs])
  obtain h' where h': "h' \<in> set hs" "node_dict h = Inr h'"
    using hs assms(2-5) by (auto simp: history_of_def run_simps dest!: rmap_image [of node_dict _ hs h])
  then have "h \<in> nd_row ` set hs" by (force simp: node_dict_def rbind_Inr)
  then have "\<not> list_all (\<lambda>h. n_extractor (nd_row h) \<in> {None, Some []}) hs" using assms(6) by (auto simp: list_all_iff)
  then obtain st v where st: "or_invalid (authority_state ae ?p ?id) s = (Inr st, v)"
    and r2: "(case st of None \<Rightarrow> ret False | Some c \<Rightarrow> matches_state ae n c) v = (Inr True, t)"
    using r u by (auto simp: bnd_eq_Inr [of "or_invalid _"])
  have v: "v = s" by (rule same_run [OF keeps_or_invalid_same [OF keeps_authority_state_same] st])
  obtain c where c: "st = Some c" and m: "matches_state ae n c s = (Inr True, t)"
    using r2 v by (cases st) (auto simp: ret_def)
  obtain w where c_run: "authority_state ae ?p ?id s = (Inr c, w)"
    using st c by (auto simp: or_invalid_def catch_def bnd_def ret_def split: prod.splits sum.splits if_splits)
  obtain first q0 e q rest orig source where f: "about ae ?p ?id s (e_id first) = Some (first, q0)" "req q0 ''operation'' = lit ''confirm''"
    and ds: "decisions ae ?p ?id (e_seq first) s = (e, q) # rest" "req q ''operation'' = lit ''confirm''"
    and o: "proposal_origin ae ?p (req q ''proposal_id'') s = (Inr (orig, source), s)" "binds_proposal orig q = Inr True"
    and am: "amends (confirmation_of ?id e q) rest c"
    by (rule authority_state_run [OF c_run])
  obtain found x where found: "or_invalid (proposal_origin ae ?p (cf_proposal c)) s = (Inr found, x)"
    and r3: "(case found of None \<Rightarrow> ret False
     | Some (orig, ev) \<Rightarrow>
         if cf_revoked c then ret False
         else bnd (proposal_supported ae orig (fst ev)) (\<lambda>supported.
           ret (supported \<and> n_entity_type (nd_row n) = cf_kind c
             \<and> n_criticality (nd_row n) = n_criticality (nd_row orig)
             \<and> list_all (\<lambda>(k, v). py_same (dget_none (node_fields n) (text_of k)) v) (state_dict c)
             \<and> py_same (nd_scope n) (cf_scope c)))) x = (Inr True, t)"
    using m by (auto simp: matches_state_def bnd_eq_Inr [of "or_invalid _"])
  have live: "\<not> cf_revoked c" and kind: "n_entity_type (nd_row n) = cf_kind c"
    and fields: "list_all (\<lambda>(k, v). py_same (dget_none (node_fields n) (text_of k)) v) (state_dict c)"
    using r3 by (auto simp: ret_def bnd_eq_Inr split: option.splits if_splits)
  have words: "field_of n ''statement'' = PStr (req q ''text'')"
    using fields amends_run(4) [OF am] by (simp add: state_dict_def confirmation_of_def field_of_def py_same_text)
  have k: "n_entity_type (nd_row n) = req q ''proposed_kind''" using kind amends_run(5) [OF am] by (simp add: confirmation_of_def)
  have "\<exists>eid. about ae ?p ?id s eid = Some (e, q)"
    using ds(1) by (force simp: decisions_def List.map_filter_def filter_eq_Cons_iff map_eq_Cons_conv)
  then obtain payload where "authority_payload (e, payload) = Inr q" by (auto elim: aboutD)
  then obtain v where "authority_request v = Inr q" by (auto simp: authority_payload_def Let_def require_def rbind_Inr split: pyval.splits if_splits)
  note qt = request_texts [OF this ds(2)]
  have "retained ae ?p s (e_id (fst source)) (PStr (req q ''proposed_kind'')) (PStr (req q ''text''))"
    using proposal_origin_run(6) [OF o(1)] o(2) qt by (auto simp: binds_proposal_def rbind_Inr)
  moreover have "\<forall>(e', q') \<in> set rest. req q' ''operation'' \<notin> {lit ''confirm'', lit ''revoke''}"
    using amends_run(2,8) [OF am] live by (auto simp: confirmation_of_def)
  ultimately show ?thesis unfolding in_force_def words k using f ds o by blast
qed

text \<open>C5: Prose cannot mandate. A node that was ever extracted from text counts as authority only while
  the log puts it in force: a processed owner-local decision confirms, by version and digest, a
  statement that the extractor still finds unsuspected in an event that is still there, with the
  node's own words and kind, and no later decision about it revokes it.\<close>

theorem authority_is_earned:
  fixes s :: "'z graph_st_scheme"
  assumes "may_mandate ae n s"
    and "h \<in> set (nodes s)" "n_id h = n_id (nd_row n)" "n_tenant_id h = ae_tenant ae" "n_project_id h = n_project_id (nd_row n)"
      "n_extractor h \<notin> {None, Some []}"
  shows "in_force ae (n_project_id (nd_row n)) s (n_id (nd_row n)) (n_entity_type (nd_row n)) (field_of n ''statement'')"
  by (rule earned [OF assms])

text \<open>C6: What is in force is the history of its decisions: one confirmation first, then amendments of
  which only the last may revoke; the version counts them, the words and the kind are those of
  the confirmation, the scope is that of the last decision that gives one, and the record is
  revoked exactly when there is a revocation.\<close>

theorem authority_state_is_its_history:
  fixes s :: "'z graph_st_scheme"
  assumes "authority_state ae project cid s = (Inr c, t)"
  shows "\<exists>first q0 e q rest. about ae project cid s (e_id first) = Some (first, q0) \<and> req q0 ''operation'' = lit ''confirm''
     \<and> decisions ae project cid (e_seq first) s = (e, q) # rest \<and> cf_id c = cid \<and> req q ''operation'' = lit ''confirm'' \<and> cf_statement c = req q ''text'' \<and> cf_kind c = req q ''proposed_kind''
     \<and> cf_event c = e_id e \<and> cf_version c = int (length ((e, q) # rest))
     \<and> (\<forall>(e', q') \<in> set rest. req q' ''operation'' \<noteq> lit ''confirm'')
     \<and> (\<forall>(e', q') \<in> set (butlast rest). req q' ''operation'' \<noteq> lit ''revoke'')
     \<and> (cf_revoked c \<longleftrightarrow> (\<exists>(e', q') \<in> set rest. req q' ''operation'' = lit ''revoke''))
     \<and> cf_scope c = foldl (\<lambda>sc (e', q'). if req q' ''operation'' = lit ''revoke'' then sc else dget_none q' (lit ''authority_scope''))
         (dget_none q (lit ''authority_scope'')) rest"
proof -
  obtain first q0 e q rest n src where f: "about ae project cid s (e_id first) = Some (first, q0)" "req q0 ''operation'' = lit ''confirm''"
    and ds: "decisions ae project cid (e_seq first) s = (e, q) # rest" "req q ''operation'' = lit ''confirm''"
    and "proposal_origin ae project (req q ''proposal_id'') s = (Inr (n, src), s)" "binds_proposal n q = Inr True"
    and am: "amends (confirmation_of cid e q) rest c"
    by (rule authority_state_run [OF assms])
  show ?thesis using f ds amends_run [OF am]
    by (intro exI [of _ first] exI [of _ q0] exI [of _ e] exI [of _ q] exI [of _ rest]) (simp add: confirmation_of_def)
qed

text \<open>C7: Pinned control state is authorised: every node that \<open>tier_members\<close> lists in L0, the tier
  that is always shown as binding, is in force by the log at that moment if it was ever
  extracted from text.\<close>

theorem pinned_state_is_authorised:
  fixes s :: "'z memory_st_scheme"
  assumes "tier_members mm (may_mandate ae) p (lit ''L0'') tenant s = (Inr ns, t)" "tiers_ok s" "effective_tenant mm tenant = Inr ten"
    and "i \<in> set ns" "h \<in> set (nodes s)" "n_id h = i" "n_tenant_id h = ae_tenant ae" "n_project_id h = p"
      "n_extractor h \<notin> {None, Some []}"
  shows "\<exists>n. current_node i s = Some (nd_row n) \<and> in_force ae p s i (n_entity_type (nd_row n)) (field_of n ''statement'')"
proof -
  obtain n where n: "current_node i s = Some (nd_row n)" "n_project_id (nd_row n) = p" "l0_is_binding (may_mandate ae) n s"
    using tier_members_are_exact [OF assms(1-3), of i] assms(4) by auto
  have "n_id (nd_row n) = i" using n(1) by (auto simp: current_node_def find_Some_iff)
  moreover have "may_mandate ae n s" using n(3) by (simp add: l0_is_binding_def split: if_splits)
  ultimately show ?thesis using earned [of ae n s h] n(1,2) assms(5-9) by auto
qed

subsection \<open>Replay\<close>

lemma split_github: "split_key (lit ''github:'' @ d) = Some (lit ''github'', d)"
  by (simp add: split_key_def lit_Cons)

text \<open>A stored webhook replays to the envelope it was ingested with: the event row keeps the name
  and the delivery in its source type and its key, and building the envelope again from them and
  the payload gives the same flags and the same blocks of text.\<close>

theorem webhooks_replay:
  assumes "normalize (PStr name) (PStr delivery) payload = Inr env"
    and "e_source_type e = en_source_type env" and "e_idempotency_key e = en_key env"
  shows "re_envelope (e, payload) = Inr env"
proof -
  note i = normalize_identity [OF assms(1)]
  obtain p where p: "payload = PDict p" using i(4) by blast
  have "py_or payload (PDict []) = payload" by (simp add: p py_or_def)
  moreover have "take 7 (e_source_type e) = lit ''github:''" "drop 7 (e_source_type e) = name"
    by (simp_all add: assms(2) i(1) lit_Cons)
  ultimately show ?thesis
    using assms i(2,3) by (simp add: re_envelope_def Let_def webhook_envelope_def split_github require_def)
qed

end
