(* ===== verification/Authority_Samples.thy ===== *)
theory Authority_Samples
  imports Authority_Props App_Samples Proof_Samples Core_Jcs_Stable
begin

section \<open>A confirmed requirement\<close>

text \<open>
  A chat message says that the logs are to be kept, the extractor proposes that as a requirement,
  and the owner confirms it: two events, the proposal, the node the decision makes, and its place
  in the tier that binds.
\<close>

subsection \<open>Documents\<close>

definition seal :: "pyval \<Rightarrow> pstr" where
  "seal v = (case digest_obj v of Inr d \<Rightarrow> d | Inl _ \<Rightarrow> [])"

definition canon :: "pyval \<Rightarrow> pstr" where
  "canon v = (case canonical_json v of Inr t \<Rightarrow> t | Inl _ \<Rightarrow> [])"

definition text_seal :: "pstr \<Rightarrow> pstr" where
  "text_seal t = (case sha256_hex t of Inr d \<Rightarrow> d | Inl _ \<Rightarrow> [])"

lemma sealed: "plain v \<Longrightarrow> digest_obj v = Inr (seal v) \<and> DIGEST_RE (seal v)"
  using digest_plain [of v] by (auto simp: seal_def)

lemma sealed_printable: "plain v \<Longrightarrow> printable (seal v)" "plain v \<Longrightarrow> printable (take n (drop m (seal v)))"
  using digest_printable [OF conjunct2 [OF sealed]]
  by (auto simp: printable_def list_all_iff dest!: in_set_takeD in_set_dropD)

lemma canon_text:
  assumes "plain v"
  shows "canonical_json v = Inr (canon v)" "sha256_hex (canon v) = Inr (text_seal (canon v))"
proof -
  obtain s where s: "render_jcs v = Inr s" "\<forall>c \<in> set s. c < 128" using render_plain [OF assms] by blast
  show c: "canonical_json v = Inr (canon v)" using s by (simp add: canon_def canonical_json_def)
  then have "canon v = s" using s by (simp add: canonical_json_def)
  then show "sha256_hex (canon v) = Inr (text_seal (canon v))"
    using utf8_of_ascii [OF s(2)] by (simp add: text_seal_def sha256_hex_def)
qed

lemma canon_reads:
  assumes "plain v" "wf_json v" "jnorm v = v"
  shows "strict_json_text (canon v) = Inr v" "canon v \<noteq> []"
proof -
  show r: "strict_json_text (canon v) = Inr v"
    using strict_json_canonical [OF canon_text(1) [OF assms(1)] assms(2) small_plain [OF assms(1)]] assms(3) by simp
  have "render_jcs v = Inr (canon v)" using canon_text(1) [OF assms(1)] by (simp add: canonical_json_def)
  then have "value_head (canon v)" using assms(2) by (rule render_head)
  then show "canon v \<noteq> []" by (auto simp: value_head_def)
qed

lemma py_same_dict: "py_same (PDict d) (PDict e) \<longleftrightarrow> length d = length e
    \<and> list_all (\<lambda>(k, x). case map_of e k of None \<Rightarrow> False | Some y \<Rightarrow> py_same x y) d"
  by (simp add: py_same.simps [of "PDict d"])

lemma py_same_plain: "plain v \<Longrightarrow> wf_json v \<Longrightarrow> py_same v v"
proof (induction v rule: plain.induct)
  case (6 d)
  then have "py_same x x" if "(k, x) \<in> set d" for k x using that by (fastforce simp: list_all_iff)
  then show ?case using 6(3) by (auto simp: py_same_dict list_all_iff)
qed (auto simp: py_same.simps [of "PNone"] py_same.simps [of "PBool _"] py_same.simps [of "PStr _"] py_same.simps [of "PInt _"]
    py_same.simps [of "PList _"] py_eq_def list_all_iff set_zip)

lemma seal_identifier:
  assumes "plain v" "c \<noteq> []" "\<forall>x \<in> set c. is_alpha x \<or> x = 95" "hd c \<noteq> 95" "length c \<le> 4"
  shows "PUBLIC_IDENTIFIER (c @ take 24 (drop 7 (seal v)))"
proof -
  have "list_all is_hex (drop 7 (seal v))" using sealed [OF assms(1)] by (simp add: DIGEST_RE_def)
  then have h: "list_all is_hex (take 24 (drop 7 (seal v)))" by (auto simp: list_all_iff dest: in_set_takeD)
  have "unreserved x" if "is_hex x \<or> is_alpha x \<or> x = 95" for x
    using that by (auto simp: unreserved_def is_hex_def is_alpha_def is_digit_def)
  then have u: "\<forall>x \<in> set (take 24 (drop 7 (seal v))) \<union> set c. unreserved x" using h assms(3) by (auto simp: list_all_iff)
  show ?thesis
  proof (cases c)
    case (Cons a b)
    then show ?thesis using u assms by (auto simp: PUBLIC_IDENTIFIER_def PUBLIC_IDENTIFIER_MAX_LENGTH_def list_all_iff)
  qed (use assms in simp)
qed

subsection \<open>The source and the proposal\<close>

definition message :: pyval where
  "message = PDict [(pkey ''decision'', pkey ''We keep the logs'')]"

definition an_event :: "string \<Rightarrow> int \<Rightarrow> pyval \<Rightarrow> event_row" where
  "an_event i k doc = \<lparr>e_id = lit i, e_tenant_id = lit ''t'', e_project_id = lit ''p'', e_source_type = lit ''human_decision'',
     e_source_id = Some (lit ''chat''), e_idempotency_key = lit i, e_observed_at = lit ''2026-01-01T00:00:00.000000Z'',
     e_recorded_at = lit ''2026-01-01T00:00:00.000000Z'', e_valid_from = None, e_valid_to = None, e_actor_type = None,
     e_actor_id = None, e_authority = lit ''user_instruction'', e_sensitivity = lit ''internal'', e_capture_mode = lit ''live'',
     e_payload_digest = [], e_stored_payload_digest = Some (text_seal (canon doc)), e_payload = Some (canon doc),
     e_schema_version = lit ''1'', e_seq = k, e_prev_hash = None, e_entry_hash = None\<rparr>"

definition source_row :: event_row where
  "source_row = an_event ''evt_s'' 1 message"

definition descriptor :: pydict where
  "descriptor =
     [(pkey ''project_id'', pkey ''p''), (pkey ''proposed_kind'', pkey ''requirement''), (pkey ''schema_version'', PStr PROPOSAL_SCHEMA),
      (pkey ''source_event_id'', pkey ''evt_s''), (pkey ''source_id'', pkey ''chat''), (pkey ''source_ref'', pkey ''decision:evt_s''),
      (pkey ''source_type'', pkey ''human_decision''), (pkey ''tenant_id'', pkey ''t''), (pkey ''text'', pkey ''Keep the logs'')]"

abbreviation expected :: pyval where
  "expected \<equiv> proposal_descriptor source_row (pkey ''decision:evt_s'') (pkey ''requirement'') (pkey ''Keep the logs'')"

definition pid :: pstr where
  "pid = lit ''clm_'' @ take 24 (drop 7 (seal expected))"

definition proposal_data :: pyval where
  "proposal_data = PDict [(pkey ''proposal'', PDict descriptor)]"

definition extracted :: "pstr \<Rightarrow> string \<Rightarrow> string \<Rightarrow> pstr \<Rightarrow> pstr option \<Rightarrow> pyval \<Rightarrow> nat \<Rightarrow> node_row" where
  "extracted i kind e x sc doc k = \<lparr>n_row_id = k, n_id = i, n_version = 1, n_entity_type = lit kind,
     n_tenant_id = lit ''t'', n_project_id = lit ''p'', n_status = Some (lit ''open''), n_criticality = Some (lit ''medium''), n_authority = None,
     n_confidence = None, n_scope = sc, n_data = canon doc, n_valid_from = None, n_valid_to = None,
     n_tx_from = strftime new_year, n_tx_to = None, n_event_id = Some (lit e), n_extractor = Some x,
     n_extractor_version = None\<rparr>"

definition claim_row :: node_row where
  "claim_row = extracted pid ''claim'' ''evt_s'' (lit ''cce-deterministic'') None proposal_data 1"

abbreviation claim_node :: node where
  "claim_node \<equiv> \<lparr>nd_row = claim_row, nd_scope = PNone, nd_data = proposal_data\<rparr>"

lemma settled_lits [simp]: "sort_members [] = []"
  by (simp add: sort_members_def)

lemma source_docs:
  "plain message" "wf_json message" "jnorm message = message"
  "plain proposal_data" "wf_json proposal_data" "jnorm proposal_data = proposal_data" "plain (PDict descriptor)" "plain expected"
  by (simp_all add: message_def proposal_data_def descriptor_def proposal_descriptor_def source_row_def an_event_def PROPOSAL_SCHEMA_def
      printable_def list_all_iff lit_Cons sort_members_def utf16_sort_key_def utf16_units_def)

lemma expected_same: "py_same (PDict descriptor) expected"
  by (simp add: descriptor_def proposal_descriptor_def source_row_def an_event_def py_same_dict py_same.simps [of "PStr _"] py_eq_def)

subsection \<open>The decision\<close>

definition request :: pydict where
  "request =
     [(pkey ''authority_scope'', GLOBAL), (pkey ''expected_proposal_digest'', PStr (seal (PDict descriptor))),
      (pkey ''expected_proposal_version'', PInt 1), (pkey ''note'', PNone), (pkey ''operation'', pkey ''confirm''),
      (pkey ''project_id'', pkey ''p''), (pkey ''proposal_id'', PStr pid), (pkey ''proposed_kind'', pkey ''requirement''),
      (pkey ''request_id'', pkey ''r1''), (pkey ''tenant_id'', pkey ''t''), (pkey ''text'', pkey ''Keep the logs'')]"

definition decision_doc :: pydict where
  "decision_doc =
     [(pkey ''authorization_basis'', pkey ''local_store_capability''), (pkey ''operator_label'', pkey ''owner-local''),
      (pkey ''request'', PDict request), (pkey ''request_digest'', PStr (seal (PDict request))),
      (pkey ''schema_version'', PStr AUTHORITY_SCHEMA)]"

definition decision_row :: event_row where
  "decision_row = (an_event ''evt_d'' 2 (PDict decision_doc))\<lparr>e_source_type := lit ''human_decision'', e_source_id := Some AUTHORITY_SOURCE,
     e_idempotency_key := AUTHORITY_SOURCE @ lit '':'' @ lit ''r1'', e_actor_type := Some (lit ''service''),
     e_actor_id := Some (lit ''owner-local''), e_authority := lit ''human_decision''\<rparr>"

lemma pid_printable: "printable pid"
  using sealed_printable(2) [OF source_docs(8)] by (simp add: pid_def printable_def lit_Cons)

lemma pid_identifier: "PUBLIC_IDENTIFIER pid"
  unfolding pid_def by (rule seal_identifier [OF source_docs(8)]) (simp_all add: lit_Cons is_alpha_def)

lemma request_docs: "plain (PDict request)" "wf_json (PDict request)" "jnorm (PDict request) = PDict request"
  using pid_printable sealed_printable(1) [OF source_docs(7)]
  by (simp_all add: request_def GLOBAL_def printable_def list_all_iff lit_Cons sort_members_def utf16_sort_key_def utf16_units_def one_plain(2)
      del: jnorm.simps(1))

lemma decision_docs: "plain (PDict decision_doc)" "wf_json (PDict decision_doc)" "jnorm (PDict decision_doc) = PDict decision_doc"
proof -
  show "plain (PDict decision_doc)"
    using request_docs(1) sealed_printable(1) [OF request_docs(1)]
    by (simp add: decision_doc_def AUTHORITY_SCHEMA_def printable_def lit_Cons)
  show "wf_json (PDict decision_doc)" using request_docs(2) by (simp add: decision_doc_def)
  show "jnorm (PDict decision_doc) = PDict decision_doc"
    using request_docs(3) by (simp add: decision_doc_def lit_Cons sort_members_def utf16_sort_key_def utf16_units_def)
qed

lemma digest_length: "plain v \<Longrightarrow> digest_text (PStr (seal v))"
  using sealed [of v] by (simp add: digest_text_def)

lemma request_get:
  "dget_none request (lit ''operation'') = pkey ''confirm''" "dget_none request (lit ''request_id'') = pkey ''r1''"
  "dget_none request (lit ''tenant_id'') = pkey ''t''" "dget_none request (lit ''project_id'') = pkey ''p''"
  "dget_none request (lit ''proposal_id'') = PStr pid" "dget_none request (lit ''expected_proposal_version'') = PInt 1"
  "dget_none request (lit ''expected_proposal_digest'') = PStr (seal (PDict descriptor))"
  "dget_none request (lit ''note'') = PNone" "dget_none request (lit ''proposed_kind'') = pkey ''requirement''"
  "dget_none request (lit ''text'') = pkey ''Keep the logs''" "dget_none request (lit ''authority_scope'') = GLOBAL"
  "dget request (lit ''note'') = Some PNone" "dget request (lit ''authority_scope'') = Some GLOBAL"
  by (simp_all add: request_def dget_none_def dget_def)

lemma request_req:
  "req request ''operation'' = lit ''confirm''" "req request ''request_id'' = lit ''r1''" "req request ''tenant_id'' = lit ''t''"
  "req request ''project_id'' = lit ''p''" "req request ''proposal_id'' = pid" "req request ''proposed_kind'' = lit ''requirement''"
  "req request ''text'' = lit ''Keep the logs''"
  by (simp_all add: req_def request_get)

lemma request_ok: "authority_request (PDict request) = Inr request"
proof -
  have canonical: "rbind (canonical_json (PDict request)) strict_json_text = Inr (PDict request)"
    using canon_text(1) [OF request_docs(1)] canon_reads(1) [OF request_docs] by simp
  have fields: "request_fields (pkey ''confirm'') = Inr ([''operation'', ''request_id'', ''tenant_id'', ''project_id'',
      ''proposal_id'', ''expected_proposal_version'', ''expected_proposal_digest'', ''proposed_kind'', ''text''],
      [''note'', ''authority_scope''], ''proposal'')"
    by (simp add: request_fields_def)
  have keys: "map fst request = map pkey [''authority_scope'', ''expected_proposal_digest'', ''expected_proposal_version'', ''note'',
      ''operation'', ''project_id'', ''proposal_id'', ''proposed_kind'', ''request_id'', ''tenant_id'', ''text'']"
    by (simp add: request_def)
  have names: "PUBLIC_IDENTIFIER (lit ''r1'')" "PUBLIC_IDENTIFIER (lit ''t'')" "PUBLIC_IDENTIFIER (lit ''p'')"
    by code_simp+
  have words: "validate_human_text 4096 (pkey ''Keep the logs'') = Inr (lit ''Keep the logs'')" "\<not> blank (lit ''Keep the logs'')"
    unfolding validate_human_text_iff
    by (auto simp: non_ijson_def unsafe_char_def UNSAFE_HUMAN_CONTROLS_def blank_def strip_def lit_Cons py_space_def)
  have kind: "in_vocabulary (pkey ''requirement'') AUTHORITY_KINDS" by code_simp
  have defaults: "with_default request ''note'' PNone = request" "with_default request ''authority_scope'' GLOBAL = request"
    by (simp_all add: with_default_def request_get)
  have scoped: "request_scope GLOBAL = Inr GLOBAL" "dset request (pkey ''authority_scope'') GLOBAL = request"
    using py_same_plain [of GLOBAL] by (simp add: request_scope_def GLOBAL_def printable_def lit_Cons) (simp add: request_def)
  have "confirm_fields request = Inr request"
    using words kind by (simp add: confirm_fields_def request_get defaults require_def)
  then have "request_body request request = Inr request"
    using pid_identifier digest_length [OF source_docs(7)] names
    by (simp add: request_body_def request_get fields keys defaults scoped require_def)
  then show ?thesis using canonical by (simp add: authority_request_def del: jnorm.simps rbind_eq_Inr)
qed

lemma decision_payload: "authority_payload (decision_row, PDict decision_doc) = Inr request"
proof -
  have get: "dget_none decision_doc (lit ''schema_version'') = PStr AUTHORITY_SCHEMA"
    "dget_none decision_doc (lit ''request'') = PDict request"
    "dget_none decision_doc (lit ''request_digest'') = PStr (seal (PDict request))"
    "dget_none decision_doc (lit ''authorization_basis'') = pkey ''local_store_capability''"
    "dget_none decision_doc (lit ''operator_label'') = pkey ''owner-local''"
    by (simp_all add: decision_doc_def dget_none_def dget_def)
  have "has_keys decision_doc [''schema_version'', ''request'', ''request_digest'', ''authorization_basis'', ''operator_label'']"
    by (auto simp: has_keys_def decision_doc_def)
  then show ?thesis
    using get request_ok py_same_plain [OF request_docs(1,2)] sealed [OF request_docs(1)]
    by (simp add: authority_payload_def Let_def require_def request_req decision_row_def an_event_def)
qed

definition cid :: pstr where
  "cid = lit ''req_'' @ take 24 (drop 7 (seal (PList [PStr AUTHORITY_SCHEMA, pkey ''t'', pkey ''p'', pkey ''evt_d''])))"

lemma decision_id: "confirmation_id decision_row request = Inr cid"
proof -
  have "plain (PList [PStr AUTHORITY_SCHEMA, pkey ''t'', pkey ''p'', pkey ''evt_d''])"
    by (simp add: AUTHORITY_SCHEMA_def printable_def lit_Cons)
  moreover have "lit ''confirm'' \<notin> set INVALIDATION_OPERATIONS" by code_simp
  moreover have "map_of KIND_PREFIX (lit ''requirement'') = Some (lit ''req'')" by (simp add: KIND_PREFIX_def)
  ultimately show ?thesis
    by (simp add: confirmation_id_def request_req cid_def sealed decision_row_def an_event_def lit_Cons)
qed

subsection \<open>The state\<close>

abbreviation decided :: confirmed where
  "decided \<equiv> confirmation_of cid decision_row request"

definition held_data :: pyval where
  "held_data = PDict
     [(pkey ''authority_scope'', GLOBAL), (pkey ''authority_version'', PInt 1), (pkey ''confirmation_event_id'', pkey ''evt_d''),
      (pkey ''confirmation_id'', PStr cid), (pkey ''decided_at'', pkey ''2026-01-01T00:00:00.000000Z''),
      (pkey ''decision_event_id'', pkey ''evt_d''), (pkey ''proposal_id'', PStr pid), (pkey ''proposed_kind'', pkey ''requirement''),
      (pkey ''revoked'', PBool False), (pkey ''statement'', pkey ''Keep the logs'')]"

definition held_row :: node_row where
  "held_row = extracted cid ''requirement'' ''evt_d'' AUTHORITY_EXTRACTOR (Some (canon GLOBAL)) held_data 2"

abbreviation held_node :: node where
  "held_node \<equiv> \<lparr>nd_row = held_row, nd_scope = GLOBAL, nd_data = held_data\<rparr>"

definition authorised :: memory_st where
  "authorised = (empty_app stuck_clock)\<lparr>nodes := [claim_row, held_row], node_rows := 2, events := [source_row, decision_row],
     event_seq := 2,
     processed_events := [\<lparr>p_event_id = lit ''evt_d'', p_processor_version = PROCESSOR_VERSION,
       p_processed_at = lit ''2026-01-01T00:00:00.000000Z'', p_status = lit ''ok'', p_error = None\<rparr>],
     assignments := [\<lparr>as_seq = 1, as_project_id = lit ''p'', as_node_id = cid, as_tier = lit ''L0'', as_op = lit ''promote'',
       as_actor = lit ''kim'', as_reason = None, as_at = lit ''2026-01-01T00:00:00.000000Z''\<rparr>],
     assignment_seq := 1\<rparr>"

text \<open>An extractor that finds the statement in every text.\<close>

definition sample_item :: item where
  "sample_item = \<lparr>it_suspected = False, it_statement = lit ''Keep the logs'', it_span = lit ''keep the logs'',
     it_confidence = PFloat (Fin 1), it_criticality = lit ''medium'', it_meta = [(pkey ''proposed_kind'', pkey ''requirement'')]\<rparr>"

definition sample_ae :: authority_engine where
  "sample_ae = \<lparr>ae_tenant = lit ''t'', ae_extract = (\<lambda>_ _. Inr [sample_item])\<rparr>"

lemma cid_printable: "printable cid"
proof -
  have "plain (PList [PStr AUTHORITY_SCHEMA, pkey ''t'', pkey ''p'', pkey ''evt_d''])"
    by (simp add: AUTHORITY_SCHEMA_def printable_def lit_Cons)
  from sealed_printable(2) [OF this] show ?thesis by (simp add: cid_def printable_def lit_Cons)
qed

lemma ids_differ [simp]: "cid \<noteq> pid" "pid \<noteq> cid" "cid \<noteq> []" "pid \<noteq> []"
  by (simp_all add: cid_def pid_def lit_Cons)

lemma held_docs:
  "plain held_data" "wf_json held_data" "jnorm held_data = held_data" "plain GLOBAL" "wf_json GLOBAL" "jnorm GLOBAL = GLOBAL"
  using pid_printable cid_printable
  by (simp_all add: held_data_def GLOBAL_def printable_def list_all_iff lit_Cons sort_members_def utf16_sort_key_def utf16_units_def one_plain(2)
      del: jnorm.simps(1))

lemma rows_read:
  "node_dict claim_row = Inr claim_node" "node_dict held_row = Inr held_node"
  "event_dict source_row = Inr (source_row, message)" "event_dict decision_row = Inr (decision_row, PDict decision_doc)"
  using canon_reads [OF source_docs(1-3)] canon_reads [OF source_docs(4-6)] canon_reads [OF held_docs(1-3)] canon_reads [OF held_docs(4-6)]
    canon_reads [OF decision_docs] canon_text(2) [OF source_docs(1)] canon_text(2) [OF decision_docs(1)]
  by (simp_all add: node_dict_def claim_row_def held_row_def extracted_def decode_optional_def event_dict_def source_row_def
      decision_row_def an_event_def del: jnorm.simps)

lemma authorised_simps [simp]:
  "nodes authorised = [claim_row, held_row]" "events authorised = [source_row, decision_row]"
  by (simp_all add: authorised_def)

lemma row_simps [simp]:
  "n_id claim_row = pid" "n_id held_row = cid" "n_tenant_id claim_row = lit ''t''" "n_tenant_id held_row = lit ''t''"
  "n_project_id claim_row = lit ''p''" "n_project_id held_row = lit ''p''" "n_entity_type claim_row = lit ''claim''"
  "n_entity_type held_row = lit ''requirement''" "n_extractor claim_row = Some (lit ''cce-deterministic'')"
  "n_extractor held_row = Some AUTHORITY_EXTRACTOR" "n_event_id claim_row = Some (lit ''evt_s'')" "n_event_id held_row = Some (lit ''evt_d'')"
  "n_version claim_row = 1" "n_version held_row = 1" "n_tx_to claim_row = None" "n_tx_to held_row = None"
  "n_status claim_row = Some (lit ''open'')" "n_status held_row = Some (lit ''open'')" "n_criticality claim_row = Some (lit ''medium'')" "n_criticality held_row = Some (lit ''medium'')"
  by (simp_all add: claim_row_def held_row_def extracted_def)

lemma event_simps [simp]:
  "e_id source_row = lit ''evt_s''" "e_id decision_row = lit ''evt_d''" "e_tenant_id source_row = lit ''t''" "e_tenant_id decision_row = lit ''t''"
  "e_project_id source_row = lit ''p''" "e_project_id decision_row = lit ''p''" "e_seq source_row = 1" "e_seq decision_row = 2"
  "e_source_type source_row = lit ''human_decision''" "e_source_type decision_row = lit ''human_decision''"
  "e_source_id source_row = Some (lit ''chat'')" "e_source_id decision_row = Some AUTHORITY_SOURCE"
  by (simp_all add: source_row_def decision_row_def an_event_def)

lemma sample_found:
  "get_event (lit ''evt_s'') (Some (lit ''t'')) (Some (lit ''p'')) authorised = (Inr (source_row, message), authorised)"
  "get_event (lit ''evt_d'') (Some (lit ''t'')) (Some (lit ''p'')) authorised = (Inr (decision_row, PDict decision_doc), authorised)"
  "history_of pid (Some (lit ''t'')) (Some (lit ''p'')) authorised = (Inr [claim_node], authorised)"
  "history_of cid (Some (lit ''t'')) (Some (lit ''p'')) authorised = (Inr [held_node], authorised)"
  by (simp_all add: get_event_def history_of_def run_simps rows_read)

subsection \<open>What the engine derives\<close>

lemma descriptor_get:
  "descriptor_of claim_node = descriptor" "field_of claim_node ''proposal'' = PDict descriptor"
  "dget_none descriptor (lit ''schema_version'') = PStr PROPOSAL_SCHEMA" "dget_none descriptor (lit ''source_event_id'') = pkey ''evt_s''"
  "dget_none descriptor (lit ''source_ref'') = pkey ''decision:evt_s''" "dget_none descriptor (lit ''proposed_kind'') = pkey ''requirement''"
  "dget_none descriptor (lit ''text'') = pkey ''Keep the logs''"
  by (simp_all add: descriptor_of_def field_of_def node_fields_def proposal_data_def descriptor_def dget_none_def)

lemma sample_origin: "proposal_origin sample_ae (lit ''p'') pid authorised = (Inr (claim_node, source_row, message), authorised)"
proof -
  have m: "message \<noteq> PNone" by (simp add: message_def)
  have names: "\<not> names_authority source_row [(pkey ''decision'', pkey ''We keep the logs'')]" "take 7 (lit ''human_decision'') \<noteq> lit ''github:''"
    by (simp_all add: names_authority_def AUTHORITY_SOURCE_def gh_get_def dget_none_def lit_Cons)
  have ae: "ae_tenant sample_ae = lit ''t''" by (simp add: sample_ae_def)
  have found: "catch (case pkey ''evt_s'' of PStr e \<Rightarrow> get_event e (Some (lit ''t'')) (Some (lit ''p'')) | _ \<Rightarrow> fail KeyError)
      (\<lambda>x. x = KeyError) (\<lambda>_. fail ValueError) authorised = (Inr (source_row, message), authorised)"
    by (simp add: catch_def sample_found)
  have blocks: "scan_blocks sample_ae (source_row, message)
      = Inr [\<lparr>tb_ref = pkey ''decision:evt_s'', tb_authority = lit ''human_decision'', tb_items = Inr [sample_item]\<rparr>]"
    using names by (simp add: scan_blocks_def re_envelope_def Let_def py_or_def message_def plain_envelope_def scan_block_def sample_ae_def
        lit_append [symmetric] del: rbind_eq_Inr)
  have scan: "rbind (scan_blocks sample_ae (source_row, message)) (witnessed descriptor (Some (lit ''medium''))) = Inr ()"
    by (simp add: blocks sample_item_def descriptor_def matching_items_def require_def dget_none_def del: rbind_eq_Inr)
  have run: "bnd (history_of pid (Some (lit ''t'')) (Some (lit ''p''))) f authorised = f [claim_node] authorised"
    "bnd (catch (case pkey ''evt_s'' of PStr e \<Rightarrow> get_event e (Some (lit ''t'')) (Some (lit ''p'')) | _ \<Rightarrow> fail KeyError)
      (\<lambda>x. x = KeyError) (\<lambda>_. fail ValueError)) g authorised = g (source_row, message) authorised" for f g
    by (simp_all add: bnd_def sample_found found [unfolded pyval.case])
  show ?thesis
    unfolding proposal_origin_def ae run list.case Let_def descriptor_get
    using m sealed [OF source_docs(8)] expected_same scan
    by (simp add: bnd_chk run [unfolded pyval.case] bnd_lift pid_def [symmetric] ret_def descriptor_get del: rbind_eq_Inr)
qed

lemma sample_supported: "proposal_supported sample_ae claim_node source_row authorised = (Inr True, authorised)"
proof -
  have "\<not> truthy (field_of claim_node ''source_withdrawn'')"
    by (simp add: field_of_def node_fields_def proposal_data_def dget_none_def)
  then show ?thesis by (simp add: proposal_supported_def sample_ae_def bnd_def sample_found ret_def)
qed

lemma sample_decisions: "decision_events sample_ae (lit ''p'') 2 authorised = [lit ''evt_d'']"
proof -
  have "events_by_seq authorised = [source_row, decision_row]" by (simp add: events_by_seq_def)
  then show ?thesis by (simp add: decision_events_def sample_ae_def) (simp add: authorised_def)
qed

lemma sample_state: "authority_state sample_ae (lit ''p'') cid authorised = (Inr decided, authorised)"
proof -
  have b: "binds_proposal claim_node request = Inr True"
    using sealed [OF source_docs(7)] by (simp add: binds_proposal_def descriptor_get request_get)
  have t: "ae_tenant sample_ae = lit ''t''" by (simp add: sample_ae_def)
  have one: "decide_one sample_ae (lit ''p'') cid None (decision_row, PDict decision_doc) authorised = (Inr (Some decided), authorised)"
    using b decision_id
    by (simp add: decide_one_def bnd_lift decision_payload request_req bnd_chk bnd_def [of "proposal_origin _ _ _"] sample_origin ret_def)
  have all: "decide_all sample_ae (lit ''p'') cid None [lit ''evt_d''] authorised = (Inr (Some decided), authorised)"
    by (simp add: bnd_def t sample_found one ret_def)
  show ?thesis
    using decision_id
    by (simp add: authority_state_def t bnd_def [of "history_of _ _ _"] bnd_def [of "get_event _ _ _"] sample_found bnd_lift decision_payload
        request_req bnd_chk bnd_rd sample_decisions bnd_def [of "decide_all _ _ _ _ _"] all ret_def del: decide_all.simps)
qed

lemma sample_matches: "matches_state sample_ae held_node decided authorised = (Inr True, authorised)"
proof -
  have o: "or_invalid (proposal_origin sample_ae (lit ''p'') pid) authorised = (Inr (Some (claim_node, source_row, message)), authorised)"
    by (simp add: or_invalid_def catch_def bnd_def sample_origin ret_def)
  have get: "dget_none (node_fields held_node) (lit ''confirmation_id'') = PStr cid" "dget_none (node_fields held_node) (lit ''proposal_id'') = PStr pid"
    "dget_none (node_fields held_node) (lit ''statement'') = pkey ''Keep the logs''" "dget_none (node_fields held_node) (lit ''proposed_kind'') = pkey ''requirement''"
    "dget_none (node_fields held_node) (lit ''authority_scope'') = GLOBAL" "dget_none (node_fields held_node) (lit ''confirmation_event_id'') = pkey ''evt_d''"
    "dget_none (node_fields held_node) (lit ''authority_version'') = PInt 1" "dget_none (node_fields held_node) (lit ''revoked'') = PBool False"
    "dget_none (node_fields held_node) (lit ''decision_event_id'') = pkey ''evt_d''" "dget_none (node_fields held_node) (lit ''decided_at'') = pkey ''2026-01-01T00:00:00.000000Z''"
    by (simp_all add: node_fields_def held_data_def dget_none_def dget_def)
  have st: "state_dict decided = [(pkey ''confirmation_id'', PStr cid), (pkey ''proposal_id'', PStr pid),
      (pkey ''statement'', pkey ''Keep the logs''), (pkey ''proposed_kind'', pkey ''requirement''),
      (pkey ''authority_scope'', GLOBAL), (pkey ''confirmation_event_id'', pkey ''evt_d''),
      (pkey ''authority_version'', PInt 1), (pkey ''revoked'', PBool False),
      (pkey ''decision_event_id'', pkey ''evt_d''), (pkey ''decided_at'', pkey ''2026-01-01T00:00:00.000000Z'')]"
    by (simp add: state_dict_def confirmation_of_def request_req request_get) (simp add: decision_row_def an_event_def)
  have "plain (PStr cid)" "plain (PStr pid)" using cid_printable pid_printable by simp_all
  then have "py_same (PStr cid) (PStr cid)" "py_same (PStr pid) (PStr pid)" by (simp_all add: py_same_plain)
  moreover have "py_same (pkey ''Keep the logs'') (pkey ''Keep the logs'')" "py_same (pkey ''requirement'') (pkey ''requirement'')"
    "py_same (pkey ''evt_d'') (pkey ''evt_d'')" "py_same (PInt 1) (PInt 1)" "py_same (PBool False) (PBool False)"
    "py_same (pkey ''2026-01-01T00:00:00.000000Z'') (pkey ''2026-01-01T00:00:00.000000Z'')"
    by (simp_all add: py_same_plain printable_def lit_Cons)
  ultimately have f: "list_all (\<lambda>(k, v). py_same (dget_none (node_fields held_node) (text_of k)) v) (state_dict decided)"
    using py_same_plain [OF held_docs(4,5)] by (simp add: st get)
  have d: "cf_proposal decided = pid" "cf_kind decided = lit ''requirement''" "cf_scope decided = GLOBAL" "\<not> cf_revoked decided"
    by (simp_all add: confirmation_of_def request_req request_get)
  show ?thesis
    using f py_same_plain [OF held_docs(4,5)]
    by (simp add: d matches_state_def bnd_def [of "or_invalid _"] o bnd_def [of "proposal_supported _ _ _"]
        sample_supported ret_def)
qed

lemma sample_current: "authority_is_current sample_ae held_node authorised = (Inr True, authorised)"
proof -
  have st: "or_invalid (authority_state sample_ae (lit ''p'') cid) authorised = (Inr (Some decided), authorised)"
    by (simp add: or_invalid_def catch_def bnd_def sample_state ret_def)
  have "AUTHORITY_EXTRACTOR \<noteq> []" by (simp add: AUTHORITY_EXTRACTOR_def)
  then show ?thesis
    by (simp add: authority_is_current_def quarantined_def bnd_def sample_ae_def [THEN arg_cong, of ae_tenant] sample_found st sample_matches)
qed

lemma sample_may: "may_mandate sample_ae held_node authorised"
  by (simp add: may_mandate_def sample_current)

lemma sample_tiers: "tier_members open_memory (may_mandate sample_ae) (lit ''p'') (lit ''L0'') (Some (lit ''t'')) authorised = (Inr [cid], authorised)"
proof -
  have held: "held_tiers (lit ''p'') authorised = [(cid, Some (lit ''L0''))]"
    by (simp add: held_tiers_def authorised_def tier_held_def)
  have got: "get_node cid None (Some (lit ''t'')) (Some (lit ''p'')) None authorised = (Inr held_node, authorised)"
    by (simp add: get_node_def run_simps current_node_def rows_read)
  have "l0_is_binding (may_mandate sample_ae) held_node authorised"
    using sample_may by (simp add: l0_is_binding_def UNSETTLED_STATUSES_def)
  then have "admitted (may_mandate sample_ae) (Some (lit ''t'')) (lit ''p'') (lit ''L0'') cid authorised = (Inr True, authorised)"
    by (simp add: admitted_def catch_def bnd_def got rd_def ret_def quarantined_def)
  then show ?thesis
    by (simp add: tier_members_def effective_tenant_def memory_project_def require_def lift_run bnd_def ret_def rd_def held)
qed

subsection \<open>The properties of authority\<close>

theorem authority_is_earned_witness:
  "may_mandate sample_ae held_node authorised
     \<and> in_force sample_ae (lit ''p'') authorised cid (lit ''requirement'') (pkey ''Keep the logs'')"
proof -
  have "field_of held_node ''statement'' = pkey ''Keep the logs''"
    by (simp add: field_of_def node_fields_def held_data_def dget_none_def)
  moreover have "AUTHORITY_EXTRACTOR \<noteq> []" "ae_tenant sample_ae = lit ''t''" by (simp_all add: AUTHORITY_EXTRACTOR_def sample_ae_def)
  ultimately show ?thesis
    using authority_is_earned [OF sample_may, of held_row] sample_may by simp
qed

theorem authority_state_is_its_history_witness:
  "\<exists>c t. authority_state sample_ae (lit ''p'') cid authorised = (Inr c, t) \<and> cf_version c = 1 \<and> \<not> cf_revoked c
     \<and> (\<exists>since e q. decisions sample_ae (lit ''p'') cid since authorised = [(e, q)] \<and> req q ''operation'' = lit ''confirm''
          \<and> cf_statement c = req q ''text'')"
proof -
  obtain since e q rest where h: "decisions sample_ae (lit ''p'') cid since authorised = (e, q) # rest"
    "req q ''operation'' = lit ''confirm''" "cf_statement decided = req q ''text''" "cf_version decided = int (length ((e, q) # rest))"
    using authority_state_is_its_history [OF sample_state] by blast
  have v: "cf_version decided = 1" "\<not> cf_revoked decided" by (simp_all add: confirmation_of_def)
  then have "rest = []" using h(4) by simp
  then show ?thesis using h(1-3) v sample_state by blast
qed

theorem pinned_state_is_authorised_witness:
  "tier_members open_memory (may_mandate sample_ae) (lit ''p'') (lit ''L0'') (Some (lit ''t'')) authorised = (Inr [cid], authorised)
     \<and> (\<exists>n. current_node cid authorised = Some (nd_row n)
          \<and> in_force sample_ae (lit ''p'') authorised cid (n_entity_type (nd_row n)) (field_of n ''statement''))"
proof -
  have "tiers_ok authorised" "AUTHORITY_EXTRACTOR \<noteq> []" "ae_tenant sample_ae = lit ''t''"
    by (simp_all add: tiers_ok_def authorised_def TIERS_def AUTHORITY_EXTRACTOR_def sample_ae_def)
  then show ?thesis
    using pinned_state_is_authorised [OF sample_tiers, of "Some (lit ''t'')" cid held_row] sample_tiers
    by (simp add: effective_tenant_def require_def)
qed

end
