(* ===== verification/Github_Samples.thy ===== *)
theory Github_Samples
  imports Authority_Props
begin

section \<open>A webhook\<close>

text \<open>The owner of a repository opens an issue.\<close>

definition opened :: pydict where
  "opened =
     [(pkey ''action'', pkey ''opened''), (pkey ''repository'', PDict [(pkey ''id'', PInt 1), (pkey ''full_name'', pkey ''o/r'')]),
      (pkey ''issue'', PDict [(pkey ''number'', PInt 7), (pkey ''title'', pkey ''Keep the logs''), (pkey ''state'', pkey ''open''),
         (pkey ''created_at'', PStr sample_now), (pkey ''author_association'', pkey ''OWNER'')])]"

definition issue_block :: block where
  "issue_block = \<lparr>bk_text = pkey ''Keep the logs'', bk_authority = lit ''human_intent'', bk_ref = lit ''issue:'' @ str_of_int 7 @ lit '':'' @ lit ''title''\<rparr>"

lemma opened_normalizes: "\<exists>env. normalize (pkey ''issues'') (pkey ''d1'') (PDict opened) = Inr env \<and> en_blocks env = [issue_block]"
proof -
  note at = sample_now_facts(1)
  have del: "PUBLIC_IDENTIFIER (lit ''d1'')" by code_simp
  have known: "in_vocabulary (pkey ''issues'') SUBSCRIBED_EVENTS" by (simp add: in_vocabulary_def SUBSCRIBED_EVENTS_def)
  have owner: "text_authority (pkey ''OWNER'') = lit ''human_intent''"
    by (simp add: text_authority_def in_vocabulary_def TRUSTED_ASSOCIATIONS_def)
  let ?repo = "[(pkey ''id'', PInt 1), (pkey ''full_name'', pkey ''o/r'')]"
  let ?issue = "[(pkey ''number'', PInt 7), (pkey ''title'', pkey ''Keep the logs''), (pkey ''state'', pkey ''open''),
         (pkey ''created_at'', PStr sample_now), (pkey ''author_association'', pkey ''OWNER'')]"
  note reads = opened_def dget_none_def dget_def require_def guard_def Let_def
  have common: "shape_common (lit ''issues'') opened = Inr ()"
    by (simp add: shape_common_def gh_text_def gh_object_def gh_positive_def gh_texts_def reads del: rbind_eq_Inr)
  have shape: "shape_issues opened = Inr ()"
    using at by (simp add: shape_issues_def gh_text_def gh_object_def gh_objects_def gh_positive_def gh_texts_def gh_timestamp_def reads
        del: is_rfc3339_datetime.simps rbind_eq_Inr)
  obtain b where b: "base_envelope (lit ''issues'') (lit ''d1'') opened = Inr b"
    by (simp add: base_envelope_def raw_object_def gh_get_def reads del: rbind_eq_Inr)
  have "\<exists>env. handle_issues opened b = Inr env \<and> en_blocks env = [issue_block]"
    using owner by (simp add: handle_issues_def raw_object_def raw_objects_def gh_get_def reads field_blocks_def
        List.map_filter_simps issue_block_def del: rbind_eq_Inr)
  then show ?thesis
    using common shape b del known by (simp add: normalize_def validate_payload_shape_def HANDLERS_def require_def)
qed

theorem webhook_text_is_at_most_intent_witness:
  "\<exists>env d. normalize (pkey ''issues'') (pkey ''d1'') (PDict opened) = Inr env \<and> issue_block \<in> set (en_blocks env)
     \<and> raw_object (gh_get opened ''issue'') = Inr d \<and> bk_text issue_block \<in> {gh_get d ''title'', gh_get d ''body''}
     \<and> trusted_author d"
proof -
  obtain env where e: "normalize (pkey ''issues'') (pkey ''d1'') (PDict opened) = Inr env" "issue_block \<in> set (en_blocks env)"
    using opened_normalizes by auto
  have "bk_authority issue_block = lit ''human_intent''" "text_object (lit ''issues'') = Some ''issue''"
    by (simp_all add: issue_block_def text_object_def)
  then show ?thesis using webhook_text_is_at_most_intent [OF e] e by (auto split: if_splits)
qed

end
