(* ===== verification/Capture_Props.thy ===== *)
theory Capture_Props
  imports Capture Core_Jcs_Read
begin

section \<open>What capture lets through\<close>







lemma list_all2_mono_mem:
  "list_all2 P xs ys \<Longrightarrow> (\<And>x y. x \<in> set xs \<Longrightarrow> P x y \<Longrightarrow> Q x y) \<Longrightarrow> list_all2 Q xs ys"
  by (induction rule: list_all2_induct) auto

subsection \<open>Captured payloads pass the check\<close>

lemma count_ok: "canonical_placeholder_count (str_of_int (int n))"
proof (cases n)
  case 0
  then show ?thesis by (simp add: canonical_placeholder_count_def str_of_int_def decimal.simps lit_Cons)
next
  case (Suc m)
  have digits: "list_all is_digit (decimal n)" by (rule digits_decimal)
  obtain c cs where c: "decimal n = c # cs" using decimal_nonempty [of n] by (cases "decimal n") auto
  have "c \<noteq> 48" using decimal_hd [of n] Suc c by simp
  then show ?thesis using digits c by (auto simp: canonical_placeholder_count_def str_of_int_def list_all_iff is_digit_def)
qed

lemma placeholder_ok: "key \<noteq> PNone \<Longrightarrow> is_metadata_placeholder key (placeholder key s)"
  by (simp add: is_metadata_placeholder_def placeholder_def Let_def count_ok)

text \<open>A JSON payload: the keys are strings.\<close>

function json_keys :: "pyval \<Rightarrow> bool" where
  "json_keys v = (case v of
     PDict d \<Rightarrow> list_all (\<lambda>(k, w). is_str k) d \<and> list_all (\<lambda>(k, w). json_keys w) d
   | PList vs \<Rightarrow> list_all json_keys vs
   | PTuple vs \<Rightarrow> list_all json_keys vs
   | _ \<Rightarrow> True)"
  by pat_completeness auto
termination
  by (relation "measure size") (auto simp: less_Suc_eq_le elim!: size_list_estimation')

declare json_keys.simps [simp del]

lemma capture_walk_valid:
  assumes "\<And>t. fst (redact_text rx (fst (redact_text rx t))) = fst (redact_text rx t)"
    and "capture_walk rx mode key inside v = Inr c" and "json_keys v" and "inside \<longrightarrow> key \<noteq> PNone"
  shows "capture_valid rx mode key inside (fst c)"
  using assms
proof (induction rx mode key inside v arbitrary: c rule: capture_walk.induct)
  case (1 rx mode key inside v)
  let ?here = "inside \<or> key \<in> set CONTENT_FIELDS"
  have some: "?here \<Longrightarrow> key \<noteq> PNone" using 1(7) by (auto simp: CONTENT_FIELDS_def)
  show ?case
  proof (cases v)
    case (PDict d)
    have str: "list_all (\<lambda>(k, w). is_str k) d" "list_all (\<lambda>(k, w). json_keys w) d"
      using 1(6) by (simp_all add: PDict json_keys.simps [of "PDict d"])
    obtain cs where cs: "rmap (\<lambda>(k, w). capture_walk rx mode k ?here w) d = Inr cs"
      and fine: "\<not> list_ex (\<lambda>(k, w). is_str k \<and> holds_secret rx (text_of k)) d"
      and c: "fst c = PDict (zip (map fst d) (map fst cs))"
      using 1(5) by (auto simp: PDict capture_walk.simps [of _ _ _ _ "PDict d"] Let_def joined_def)
    have each: "list_all2 (\<lambda>kw x. capture_walk rx mode (fst kw) ?here (snd kw) = Inr x) d cs"
      using cs by (simp add: rmap_eq_Inr split_def)
    have valid: "list_all2 (\<lambda>kw x. is_str (fst kw) \<and> capture_valid rx mode (fst kw) ?here (fst x)) d cs"
    proof (rule list_all2_all_nthI)
      show "length d = length cs" using each by (rule list_all2_lengthD)
      fix i assume i: "i < length d"
      obtain k w where kw: "d ! i = (k, w)" by fastforce
      have mem: "(k, w) \<in> set d" using i kw nth_mem by force
      have x: "capture_walk rx mode k ?here w = Inr (cs ! i)" using list_all2_nthD [OF each i] kw by simp
      have s: "is_str k" "json_keys w" using str mem by (auto simp: list_all_iff)
      then have "k \<noteq> PNone" by auto
      then have "capture_valid rx mode k ?here (fst (cs ! i))"
        using 1(3) [OF refl PDict mem refl 1(4) x s(2)] by blast
      then show "is_str (fst (d ! i)) \<and> capture_valid rx mode (fst (d ! i)) ?here (fst (cs ! i))" using s kw by simp
    qed
    have "list_all (\<lambda>(k, w). is_str k \<and> \<not> holds_secret rx (text_of k)) (zip (map fst d) (map fst cs))
        \<and> list_all (\<lambda>(k, w). capture_valid rx mode k ?here w) (zip (map fst d) (map fst cs))"
      using valid fine by (induction rule: list_all2_induct) auto
    then show ?thesis by (simp add: c capture_valid.simps [of _ _ _ _ "PDict _"] Let_def)
  next
    case (PList vs)
    obtain cs where cs: "rmap (capture_walk rx mode key ?here) vs = Inr cs" and c: "fst c = PList (map fst cs)"
      using 1(5) by (auto simp: PList capture_walk.simps [of _ _ _ _ "PList vs"] Let_def joined_def)
    have js: "list_all json_keys vs" using 1(6) by (simp add: PList json_keys.simps [of "PList vs"])
    have "list_all2 (\<lambda>w x. capture_walk rx mode key ?here w = Inr x) vs cs" using cs by (simp add: rmap_eq_Inr)
    then have "list_all2 (\<lambda>w x. capture_valid rx mode key ?here (fst x)) vs cs"
      by (rule list_all2_mono_mem) (use 1(1) [OF refl PList _ 1(4)] js some in \<open>auto simp: list_all_iff\<close>)
    then have "list_all (capture_valid rx mode key ?here) (map fst cs)" by (induction rule: list_all2_induct) auto
    then show ?thesis by (simp add: c capture_valid.simps [of _ _ _ _ "PList _"] Let_def)
  next
    case (PTuple vs)
    obtain cs where cs: "rmap (capture_walk rx mode key ?here) vs = Inr cs" and c: "fst c = PList (map fst cs)"
      using 1(5) by (auto simp: PTuple capture_walk.simps [of _ _ _ _ "PTuple vs"] Let_def joined_def)
    have js: "list_all json_keys vs" using 1(6) by (simp add: PTuple json_keys.simps [of "PTuple vs"])
    have "list_all2 (\<lambda>w x. capture_walk rx mode key ?here w = Inr x) vs cs" using cs by (simp add: rmap_eq_Inr)
    then have "list_all2 (\<lambda>w x. capture_valid rx mode key ?here (fst x)) vs cs"
      by (rule list_all2_mono_mem) (use 1(2) [OF refl PTuple _ 1(4)] js some in \<open>auto simp: list_all_iff\<close>)
    then have "list_all (capture_valid rx mode key ?here) (map fst cs)" by (induction rule: list_all2_induct) auto
    then show ?thesis by (simp add: c capture_valid.simps [of _ _ _ _ "PList _"] Let_def)
  next
    case (PStr s)
    then show ?thesis using 1(4,5) some
      by (auto simp: capture_walk.simps [of _ _ _ _ "PStr s"] capture_valid.simps [of _ _ _ _ "PStr _"] Let_def placeholder_ok split: if_splits)
  qed (use 1(5) in \<open>auto simp: capture_walk.simps capture_valid.simps Let_def\<close>)
qed

end
