(* ===== verification/Process_Props.thy ===== *)
theory Process_Props
  imports Process_Ops Audit_Props
begin

section \<open>engine.py: what ingestion and projection promise\<close>

text \<open>
  Projection follows the log and is all or nothing; a delivery that fails leaves the graph alone;
  a webhook enters only with the signature of its exact bytes and from the project's repository;
  a decision of the owner is recorded together with what it does, or not at all.
\<close>

subsection \<open>What the store's own operations leave alone\<close>

definition same_graph :: "'z graph_st_scheme \<Rightarrow> 'z graph_st_scheme \<Rightarrow> bool" where
  "same_graph s t \<longleftrightarrow> nodes t = nodes s \<and> edges t = edges s"

lemma same_graph_tables: "tables s = tables t \<Longrightarrow> same_graph s (t :: 'z graph_st_scheme)"
  by (cases s; cases t) (simp add: same_graph_def)

interpretation same_graph: tables_relation same_graph
  by unfold_locales (auto simp: same_graph_tables, auto simp: same_graph_def)

lemma same_graph_beyond: "store_st.more t = store_st.more (s :: 'z graph_st_scheme) \<Longrightarrow> same_graph s t"
  by (cases s; cases t) (simp add: same_graph_def)

interpretation same_graph: beyond_relation same_graph
  by unfold_locales (rule same_graph_beyond)






subsection \<open>Webhooks\<close>

lemma keeps_the_project_same: "keeps (=) (the_project pl p :: ('z graph_st_scheme, _) op)"
  unfolding the_project_def absent_is_def by (intro same_intros keeps_get_node_same)

lemma reject_never [simp]: "reject_webhook x d e s \<noteq> (Inr v, t)"
  by (auto simp: reject_webhook_def bnd_def fail_def split: prod.splits sum.splits)








subsection \<open>Projection follows the log\<close>

lemma projected_ok_enter [simp]: "projected_ok e (enter s) = projected_ok e s" "projected_ok e (leave s t) = projected_ok e t"
  by (simp_all add: projected_ok_def enter_def leave_def)

lemma earlier_hole_enter [simp]: "earlier_hole e (enter s) = earlier_hole e s"
  by (simp add: earlier_hole_def enter_def)

lemma events_enter [simp]: "events (enter s) = events s" "events (leave s t) = events t"
  by (simp_all add: enter_def leave_def)

lemma bnd_same_Inr: "keeps (=) m \<Longrightarrow> bnd m k s = (Inr y, t) \<longleftrightarrow> (\<exists>x. fst (m s) = Inr x \<and> k x s = (Inr y, t))"
  by (auto simp: bnd_same split: sum.split)

lemma keeps_prepare_event_same: "keeps (=) (prepare_event pl ev :: ('z graph_st_scheme, _) op)"
  unfolding prepare_event_def refuse_other_def Let_def
  by (intro same_intros keeps_the_project_same keeps_get_event_same)

lemma marker_run:
  assumes "require_persisted_marker eid (lit ''ok'') err s = (Inr (), t)"
  shows "t = s" "projected_ok eid s"
proof -
  have "map (\<lambda>p. (p_processor_version p, p_status p, p_error p)) (filter (\<lambda>p. p_event_id p = eid) (processed_events s)) = [(PROCESSOR_VERSION, lit ''ok'', err)]"
    and t: "t = s"
    using assms by (auto simp: require_persisted_marker_def bnd_rd chk_run split: if_splits)
  then obtain p where p: "filter (\<lambda>p. p_event_id p = eid) (processed_events s) = [p]"
      "p_processor_version p = PROCESSOR_VERSION" "p_status p = lit ''ok''"
    by (auto simp: map_eq_Cons_conv)
  have "p \<in> set (filter (\<lambda>p. p_event_id p = eid) (processed_events s))" by (simp add: p)
  then have "p \<in> set (processed_events s) \<and> p_event_id p = eid" by simp
  then show "projected_ok eid s" using p(2,3) by (auto simp: projected_ok_def list_ex_iff)
  show "t = s" by (rule t)
qed

lemma get_event_fst:
  "fst (get_event eid tn pr s) = Inr (r, v) \<Longrightarrow> r \<in> set (events s) \<and> e_id r = eid"
  by (auto simp: get_event_def run_simps event_dict_def rbind_def find_Some_iff split: option.splits if_splits sum.splits)

lemma refuse_other_fst: "fst (refuse_other p m s) = Inr x \<Longrightarrow> fst (m s) = Inr x"
  by (auto simp: refuse_other_def catch_def fail_def split: prod.splits sum.splits if_splits)

lemma catch_fail_fst: "fst (catch m p (\<lambda>e. fail (h e)) s) = Inr x \<Longrightarrow> fst (m s) = Inr x"
  by (auto simp: catch_def fail_def split: prod.splits sum.splits if_splits)

lemma prepare_event_run:
  assumes "prepare_event pl (e, d) s = (Inr ev, t)"
  shows "t = s" "fst ev = e" "e \<in> set (events s)"
proof -
  have k: "keeps (=) (refuse_other c (the_project pl p) :: ('z graph_st_scheme, _) op)"
    "keeps (=) (refuse_other c' (catch (get_event i a b) c'' (\<lambda>_. fail PermissionError)) :: ('z store_st_scheme, _) op)" for c p c' i a b c''
    unfolding refuse_other_def by (intro same_intros keeps_the_project_same keeps_get_event_same)+
  show "t = s" by (rule same_run [OF keeps_prepare_event_same assms])
  obtain q where "fst (get_event (e_id e) (Some (pl_tenant pl)) (Some (e_project_id e)) s) = Inr q" "e = fst q" "ev = q"
    using assms unfolding prepare_event_def Let_def
    by (auto simp: bnd_chk bnd_lift_Inr bnd_same_Inr [OF k(1)] bnd_same_Inr [OF k(2)] ret_def
        split: if_splits dest!: refuse_other_fst catch_fail_fst)
  then show "fst ev = e" "e \<in> set (events s)"
    using get_event_fst [of "e_id e" _ _ s "fst q" "snd q"] by auto
qed

text \<open>What holds whenever an operation returns.\<close>

definition ends_in :: "('s \<Rightarrow> bool) \<Rightarrow> ('s, 'a) op \<Rightarrow> bool" where
  "ends_in P m \<longleftrightarrow> (\<forall>s x t. m s = (Inr x, t) \<longrightarrow> P t)"

lemma ends_in_bnd: "(\<And>x. ends_in P (k x)) \<Longrightarrow> ends_in P (bnd m k)"
  unfolding ends_in_def bnd_eq_Inr by blast

lemma ends_in_case_prod: "(\<And>x y. ends_in P (k x y)) \<Longrightarrow> ends_in P (case z of (x, y) \<Rightarrow> k x y)"
  by (cases z) simp

lemma ends_in_marker: "ends_in (projected_ok eid) (bnd (require_persisted_marker eid (lit ''ok'') err) (\<lambda>_. ret x))"
  unfolding ends_in_def bnd_eq_Inr ret_def by (auto dest: marker_run)

lemma project_event_run:
  "ends_in (projected_ok (e_id (fst ev))) (project_event pl ev en :: ('z policy_st_scheme, _) op)"
  unfolding project_event_def Let_def by (intro ends_in_marker ends_in_bnd ends_in_case_prod)

lemma bnd_ret_Inr: "bnd m (\<lambda>_. ret x) s = (Inr y, t) \<longleftrightarrow> (\<exists>u. m s = (Inr u, t) \<and> x = y)"
  by (auto simp: bnd_eq_Inr ret_def)

lemma process_prepared_run:
  assumes "process_prepared_event pl ev s = (Inr rp, t)"
  shows "projected_ok (e_id (fst ev)) t \<and> (if projected_ok (e_id (fst ev)) s then rp = empty_report \<and> t = s else \<not> earlier_hole (fst ev) s)"
proof -
  obtain en where en: "bnd (rd (\<lambda>s. (projected_ok (e_id (fst ev)) s, earlier_hole (fst ev) s, later_marker (fst ev) s))) (\<lambda>(done, hole, later).
     if done then bnd (require_persisted_marker (e_id (fst ev)) (lit ''ok'') None) (\<lambda>_. ret empty_report)
     else bnd (chk (\<not> (hole \<or> (snd ev \<noteq> PNone \<and> later))) ProcessorProjectionCompatibilityError) (\<lambda>_.
       project_event pl ev en)) s = (Inr rp, t)"
    using assms unfolding process_prepared_event_def bnd_lift_Inr by blast
  show ?thesis
  proof (cases "projected_ok (e_id (fst ev)) s")
    case True
    then have "bnd (require_persisted_marker (e_id (fst ev)) (lit ''ok'') None) (\<lambda>_. ret empty_report) s = (Inr rp, t)"
      using en by (simp only: bnd_rd prod.case if_True)
    then have "require_persisted_marker (e_id (fst ev)) (lit ''ok'') None s = (Inr (), t)" "rp = empty_report"
      unfolding bnd_ret_Inr by simp_all
    then show ?thesis using True marker_run by (simp only: if_True simp_thms) blast
  next
    case False
    then have "bnd (chk (\<not> (earlier_hole (fst ev) s \<or> (snd ev \<noteq> PNone \<and> later_marker (fst ev) s))) ProcessorProjectionCompatibilityError) (\<lambda>_.
       project_event pl ev en) s = (Inr rp, t)"
      using en by (simp only: bnd_rd prod.case if_False)
    then have "\<not> earlier_hole (fst ev) s" "project_event pl ev en s = (Inr rp, t)"
      unfolding bnd_chk by (simp_all only: split: if_splits) auto
    then show ?thesis using False project_event_run [of ev pl en] by (simp only: ends_in_def if_False) blast
  qed
qed

text \<open>C9: Projection follows the log. Projecting an event either fails and leaves every table
  as it was, or the event handed in is a row of the log, verbatim, and it carries a success
  marker of this processor afterwards; one that had such a marker already changes nothing and
  reports nothing, and one that had not is projected only when no earlier retained event of the
  project is without a marker.\<close>

theorem projection_follows_the_log:
  "case process_event pl (e, d) s of
     (Inl x, t) \<Rightarrow> tables t = tables s
   | (Inr rp, t) \<Rightarrow> e \<in> set (events s) \<and> projected_ok (e_id e) t
       \<and> (if projected_ok (e_id e) s then rp = empty_report \<and> tables t = tables s else \<not> earlier_hole e s)"
proof -
  obtain q t where run: "process_event pl (e, d) s = (q, t)" by fastforce
  show ?thesis
  proof (cases q)
    case (Inl x)
    then show ?thesis using transaction_atomic run by (force simp: process_event_def)
  next
    case (Inr rp)
    obtain w where w: "bnd (prepare_event pl (e, d)) (process_prepared_event pl) (enter s) = (Inr rp, w)" and t: "t = leave s w"
      using run Inr by (auto simp: process_event_def transaction_eq_Inr)
    obtain ev u where p: "prepare_event pl (e, d) (enter s) = (Inr ev, u)" "process_prepared_event pl ev u = (Inr rp, w)"
      using w unfolding bnd_eq_Inr by blast
    have u: "u = enter s" and e: "fst ev = e" "e \<in> set (events s)" using prepare_event_run [OF p(1)] by simp_all
    have "projected_ok (e_id e) w \<and> (if projected_ok (e_id e) s then rp = empty_report \<and> w = enter s else \<not> earlier_hole e s)"
      using process_prepared_run [OF p(2) [unfolded u]] e(1) by (simp split: if_splits)
    then show ?thesis using run Inr e(2) by (auto simp: t)
  qed
qed

end
