(* ===== verification/Spec2Isabelle.thy ===== *)
theory Spec2Isabelle
  imports Store_Evidence Resolution Graph_Props Paths Impact Blocking Engine_Props Policy_Samples Lamport_Props Evidence_Props
    Proof_Samples App_Samples Authority_Samples Github_Samples Capture_Props Process_Props
begin

text \<open>
  A verification development of the Causal Continuity Engine, the Python package under
  \<open>src/causal_continuity_engine\<close>. Source files are named relative to that directory.

  \<^bold>\<open>The program.\<close> The engine keeps an append-only, hash-chained log of events and an audit log
  (store.py), projects them into a graph of versioned nodes and edges with two time axes (graph.py),
  and answers what a change invalidates (invalidation.py), what an agent may do (policy.py), what it
  must remember (memory.py), what it learned (learning.py), what went wrong and is to be kept out of
  every packet (partial.py, resume.py), and what it can prove (proof.py, evidence.py, lamport.py).
  Text arrives by webhook (github.py) and is recorded as proposals; a proposal becomes binding only
  by an owner-local decision in the log (engine.py). All of it writes through one SQLite connection.

  \<^bold>\<open>How code becomes definitions.\<close> An operation is a function from the state to an exception or a
  result and the next state (\<open>('s, 'a) op\<close>, theory Prelude). The state is one extensible record:
  \<open>env\<close> (clock, tokens, transaction depth), \<open>store_st\<close> (events, audit log, evidence, markers),
  \<open>graph_st\<close> (nodes, edges), \<open>policy_st\<close> (configuration, grants, downgrades) and \<open>memory_st\<close> (tier
  assignments), each the tables of one module. \<open>transaction\<close> runs a body and restores the tables
  when it raises, nested as savepoints are. Exceptions are the datatype \<open>exn\<close>; a \<open>try\<close> is \<open>catch\<close>
  with the set of exceptions it names. Python values whose type the code checks itself are \<open>pyval\<close>;
  where every caller passes a text, the argument is a text (\<open>pstr\<close>, code points).

  \<^bold>\<open>Theories and sources.\<close>

  \<^item> Prelude, PyVal, Binary64, Sha256, Glob: what the program takes from the language and its standard
    library (operations, JSON-like values, exact IEEE doubles, SHA-256, \<open>fnmatch\<close>).
  \<^item> Core_Text, Core_Time, Core_Jcs, Core_Loads, Core_Sign, Db: core.py. Core_Jcs_Number relates the
    number layout to ECMAScript's, Core_Jcs_Read reads canonical text back, Core_Jcs_Stable rereads.
  \<^item> Ontology: ontology.py.
  \<^item> Store, Store_Chain: store.py with the SQL triggers. Store_Ops and Store_Inv hold the interface
    \<open>store_relation\<close> and the invariants, Store_Tamper, Store_Props and Store_Evidence what the chains,
    deliveries, anchors and evidence promise.
  \<^item> Graph, Graph_Query: graph.py. Versions, Graph_Inv and Graph_History carry versioned tables and
    \<open>graph_relation\<close>; Graph_Props has the history properties, Reach and Impact the propagation,
    Paths the causal path.
  \<^item> Policy: policy.py. Policy_Props compares decisions with an abstract policy and follows
    downgrades and revocations; Sessions has \<open>policy_relation\<close> and the runs of a client.
  \<^item> Invalidation, Resolution: invalidation.py; Blocking has the walk of \<open>blocking_invalidations\<close>;
    Audit_Props and Engine_Props say what every session of these layers keeps.
  \<^item> Evidence: evidence.py, with Evidence_Props. Lamport: lamport.py, with Lamport_Props.
  \<^item> Proof, Proof_Envelope: proof.py, with Proof_Props, Proof_Final (any signer of the locale
    \<open>envelope_signer\<close>, interpreted for both signers of the code) and Proof_Intoto.
  \<^item> Memory, Retrieval: memory.py, with Provenance, Tiers and Retention.
  \<^item> Quarantine: the exit barrier of resume.py, with Quarantine_Props. Partial: partial.py. Learning:
    learning.py and \<open>normalize_statement\<close> of extraction.py. App: sessions of all of these.
  \<^item> Github: github.py, with Github_Props.
  \<^item> Authority: the owner-local decisions of engine.py, the envelopes it builds again from stored
    events and the check it installs in the graph, with Authority_Props.
  \<^item> Capture: the capture modes of redaction.py, with Capture_Props. Conflicts, Projection, Pushes and
    Process: ingestion and the projection of events in engine.py: what a delivery has to pass, how an
    event becomes nodes, edges, notices and a marker, contradictory statements, checks, pushes and
    recorded decisions; Process_Ops makes them operations of the locales, Process_Props has their
    properties.
  \<^item> Samples, Policy_Samples, Proof_Samples, App_Samples, Authority_Samples, Github_Samples: concrete
    states on which the properties are applied.

  \<^bold>\<open>How the proofs are organised.\<close> A property of every session rests on a locale: \<open>step_relation\<close> is a
  preorder on states, and \<open>db_relation\<close>, \<open>store_relation\<close>, \<open>graph_relation\<close>, \<open>policy_relation\<close>,
  \<open>clearing_relation\<close> and \<open>app_relation\<close> add, layer by layer, that the primitive writes of the layer
  keep it; inside each, the collection \<open>keeps_intros\<close> carries it through every operation of the code.
  An invariant is then one interpretation (\<open>kept P\<close>), a history property another (\<open>graph_history\<close>,
  \<open>past\<close>, \<open>history_kept\<close>). Searches are compared with inductive specifications: \<open>chain\<close>, \<open>impact\<close>,
  \<open>grounded\<close>. Nothing is assumed of SHA-256; where a statement needs it, it names the two byte
  strings of the documents or rows at hand that would have to collide.

  \<^bold>\<open>Bounds and termination.\<close> Loops over queues end by the measures given with them (\<open>queue_measure\<close>:
  the multiset of the depth that every queued path has left). The provenance walk has fuel 257, one more than its
  limit of 256 visited nodes, and \<open>provenance_walk_is_bounded\<close> shows the fuel is never what ends it;
  \<open>drop_words\<close> gets the length of its text and consumes a character at each step. Integers are unbounded as in Python;
  floats are exact binary64 with the rounding written out.

  \<^bold>\<open>Arguments of the model.\<close> The host clock and the random tokens (in \<open>env\<close>, any function);
  \<open>repr\<close>, \<open>str\<close>, Unicode tables and \<open>0.5 ** x\<close> of the platform; what the evidence probes observe of files
  and processes (\<open>workspace\<close>); what the extractor's regular expressions find in a text
  (\<open>ae_extract\<close>), which secrets redaction.py's find in it (\<open>redactor\<close>), and its explicit negations and the
  package names of commit subjects (\<open>pl_negations\<close>, \<open>searches\<close>); and in theories below Authority the graph's hook \<open>may_mandate\<close>, which Authority
  defines and Authority_Props composes with memory.

  \<^bold>\<open>Findings.\<close> Canonical text can be unreadable to the engine's own parser
  (\<open>canonical_text_refused\<close>); texts of timestamps are compared although spellings differ; a
  caller's \<open>now\<close> revives an expired grant; \<open>put_evidence\<close> of deleted bytes reports a digest that
  nothing is stored under; two inputs make \<open>verify_envelope\<close> raise; quarantined evidence vouches for
  claims when it is backed by an event; and the exit barrier drops nulls of lists, ignores keys and
  raises on unhashable identifiers; a report on mutations that is merely undetermined costs more than
  the docstring of \<open>grade_evidence\<close> says (\<open>grade_table\<close>); and an anchor with unexpected members of
  mixed types raises instead of being reported invalid. The manifest gives places and texts.

  \<^bold>\<open>Not modelled.\<close> Files, sockets and processes: opening, migrating and admitting databases,
  cli.py, api.py, mcp.py, verifiers.py, capsule.py, and the fingerprints of evidence.py. Regular
  expressions over prose (extraction.py) and over secrets (redaction.py). Of engine.py, the creation
  of projects, attestation, continuity receipts, obligations and replay; of resume.py, the
  composition and rendering of packets; of policy.py, the field-by-field validation of a new
  configuration. capabilities.py, the standalone verifier script, benchmarks, examples and release
  scripts are outside the program's core.
\<close>

end
